(* ===== verification/Prelude.thy ===== *)
theory Prelude
  imports Complex_Main "HOL-Library.Char_ord" "HOL-Library.List_Lexorder"
begin

text \<open>
  Shared vocabulary of the development: the Rust standard library as far as the sources
  use it.  A \<open>String\<close> is its UTF-8 byte string (type \<open>string\<close>, one \<open>char\<close> per byte), so
  \<open>len()\<close> is \<open>length\<close> and \<open>as_bytes()\<close> is the identity; \<open>Result\<close> is the sum type with the
  error on the left; \<open>f64\<close> keeps its three non-finite values apart from its rational
  ones; \<open>BTreeMap\<close> is an association list in strictly ascending key order.  The lemma
  collections \<open>rust_std\<close> (evaluation of the library functions) and \<open>validator\<close> (what an
  accepted value satisfies) carry the component proofs.
\<close>

named_theorems rust_std \<open>definitional equations of the modelled standard library\<close>
named_theorems validator \<open>what a value accepted by a validator satisfies\<close>

subsection \<open>Results\<close>

text \<open>\<open>Result<T, E>\<close>: \<open>Err\<close> is the left injection, \<open>Ok\<close> the right one.\<close>

abbreviation Err :: "'e \<Rightarrow> 'e + 'a" where
  "Err \<equiv> Inl"

abbreviation Ok :: "'a \<Rightarrow> 'e + 'a" where
  "Ok \<equiv> Inr"

text \<open>The \<open>?\<close> operator and \<open>map_err\<close>.\<close>

definition result_bind :: "'e + 'a \<Rightarrow> ('a \<Rightarrow> 'e + 'b) \<Rightarrow> 'e + 'b" where
  "result_bind r f = (case r of Inl e \<Rightarrow> Inl e | Inr a \<Rightarrow> f a)"

definition map_err :: "('e \<Rightarrow> 'f) \<Rightarrow> 'e + 'a \<Rightarrow> 'f + 'a" where
  "map_err f r = (case r of Inl e \<Rightarrow> Inl (f e) | Inr a \<Rightarrow> Inr a)"

lemma result_bind_simps [simp]:
  "result_bind (Inl e) f = Inl e"
  "result_bind (Inr a) f = f a"
  by (simp_all add: result_bind_def)

lemma map_err_simps [simp]:
  "map_err f (Inl e) = Inl (f e)"
  "map_err f (Inr a) = Inr a"
  by (simp_all add: map_err_def)

lemma result_bind_Ok_iff: "result_bind r f = Inr b \<longleftrightarrow> (\<exists>a. r = Inr a \<and> f a = Inr b)"
  by (cases r) auto

lemma map_err_Ok_iff [simp]: "map_err f r = Inr a \<longleftrightarrow> r = Inr a"
  by (cases r) auto

subsection \<open>Vectors\<close>

text \<open>\<open>iter().position(p)\<close>, and \<open>iter_mut().find(p)\<close> followed by a mutation of what it found.\<close>

fun position :: "('a \<Rightarrow> bool) \<Rightarrow> 'a list \<Rightarrow> nat option" where
  "position p [] = None"
| "position p (x # xs) = (if p x then Some 0 else map_option Suc (position p xs))"

fun update_first :: "('a \<Rightarrow> bool) \<Rightarrow> ('a \<Rightarrow> 'a) \<Rightarrow> 'a list \<Rightarrow> 'a list" where
  "update_first p f [] = []"
| "update_first p f (x # xs) = (if p x then f x # xs else x # update_first p f xs)"

definition last_opt :: "'a list \<Rightarrow> 'a option" where
  "last_opt xs = (if xs = [] then None else Some (last xs))"

lemma last_opt_simps [simp]:
  "last_opt [] = None"
  "last_opt (xs @ [x]) = Some x"
  by (simp_all add: last_opt_def)

lemma last_opt_Some_set: "last_opt xs = Some x \<Longrightarrow> x \<in> set xs"
  by (auto simp: last_opt_def split: if_splits)

lemma last_opt_None_iff [simp]: "last_opt xs = None \<longleftrightarrow> xs = []"
  by (simp add: last_opt_def)

lemma position_Some_nth: "position p xs = Some i \<Longrightarrow> i < length xs \<and> p (xs ! i)"
  by (induction xs arbitrary: i) (auto split: if_splits)

lemma position_None_iff: "position p xs = None \<longleftrightarrow> (\<forall>x \<in> set xs. \<not> p x)"
  by (induction xs) auto

lemma find_None_position: "find p xs = None \<longleftrightarrow> position p xs = None"
  by (induction xs) auto

lemma find_Some_set: "find p xs = Some x \<Longrightarrow> x \<in> set xs \<and> p x"
  by (induction xs) (auto split: if_splits)

lemma map_update_first:
  assumes "\<And>x. g (f x) = g x"
  shows "map g (update_first p f xs) = map g xs"
  using assms by (induction xs) auto

lemma length_update_first [simp]: "length (update_first p f xs) = length xs"
  by (induction xs) auto

lemma set_update_first: "set (update_first p f xs) \<subseteq> set xs \<union> f ` {x \<in> set xs. p x}"
  by (induction xs) auto

lemma list_all_update_first:
  assumes "list_all P xs" and "\<And>x. x \<in> set xs \<Longrightarrow> p x \<Longrightarrow> P x \<Longrightarrow> P (f x)"
  shows "list_all P (update_first p f xs)"
  using assms by (induction xs) auto

lemma update_first_position:
  "position p xs = Some i \<Longrightarrow> update_first p f xs = xs[i := f (xs ! i)]"
  by (induction xs arbitrary: i) (auto split: if_splits)

text \<open>The loop \<open>for x in xs { if !seen.insert(key(x)) { return Err(dup) } ... }\<close>.\<close>

fun insert_all :: "'k list \<Rightarrow> 'k list \<Rightarrow> bool" where
  "insert_all seen [] = True"
| "insert_all seen (k # ks) = (k \<notin> set seen \<and> insert_all (k # seen) ks)"

lemma insert_all_distinct:
  "insert_all seen ks \<longleftrightarrow> distinct ks \<and> set ks \<inter> set seen = {}"
  by (induction ks arbitrary: seen) auto

subsection \<open>Bytes and byte strings\<close>

definition byte :: "char \<Rightarrow> nat" where
  "byte c = of_char c"

definition is_ascii_digit :: "char \<Rightarrow> bool" where
  "is_ascii_digit c \<longleftrightarrow> 48 \<le> byte c \<and> byte c \<le> 57"

definition is_ascii_lowercase :: "char \<Rightarrow> bool" where
  "is_ascii_lowercase c \<longleftrightarrow> 97 \<le> byte c \<and> byte c \<le> 122"

definition is_ascii_uppercase :: "char \<Rightarrow> bool" where
  "is_ascii_uppercase c \<longleftrightarrow> 65 \<le> byte c \<and> byte c \<le> 90"

definition is_ascii_alphabetic :: "char \<Rightarrow> bool" where
  "is_ascii_alphabetic c \<longleftrightarrow> is_ascii_lowercase c \<or> is_ascii_uppercase c"

definition is_ascii_alphanumeric :: "char \<Rightarrow> bool" where
  "is_ascii_alphanumeric c \<longleftrightarrow> is_ascii_alphabetic c \<or> is_ascii_digit c"

definition is_ascii_hexdigit :: "char \<Rightarrow> bool" where
  "is_ascii_hexdigit c \<longleftrightarrow>
     is_ascii_digit c \<or> (97 \<le> byte c \<and> byte c \<le> 102) \<or> (65 \<le> byte c \<and> byte c \<le> 70)"

definition is_lower_hex :: "char \<Rightarrow> bool" where
  "is_lower_hex c \<longleftrightarrow> is_ascii_digit c \<or> (97 \<le> byte c \<and> byte c \<le> 102)"

lemmas ascii_defs [rust_std] =
  byte_def is_ascii_digit_def is_ascii_lowercase_def is_ascii_uppercase_def
  is_ascii_alphabetic_def is_ascii_alphanumeric_def is_ascii_hexdigit_def is_lower_hex_def

lemma is_lower_hex_hexdigit: "is_lower_hex c \<Longrightarrow> is_ascii_hexdigit c"
  by (auto simp: is_lower_hex_def is_ascii_hexdigit_def)

text \<open>\<open>str::split(c)\<close>: the pieces between the separators, never an empty list.\<close>

fun split_on :: "char \<Rightarrow> string \<Rightarrow> string list" where
  "split_on c [] = [[]]"
| "split_on c (x # xs) =
     (if x = c then [] # split_on c xs
      else (case split_on c xs of [] \<Rightarrow> [[x]] | p # ps \<Rightarrow> (x # p) # ps))"

lemma split_on_nonempty [simp]: "split_on c s \<noteq> []"
  by (induction s) (auto split: list.splits)

lemma split_on_no_sep: "c \<notin> set s \<Longrightarrow> split_on c s = [s]"
  by (induction s) auto

lemma split_on_append: "c \<notin> set s \<Longrightarrow> split_on c (s @ c # t) = s # split_on c t"
  by (induction s) auto

text \<open>
  \<open>str::trim\<close> strips characters with the Unicode property \<open>White_Space\<close>.  \<open>ws_prefix\<close> is the
  number of bytes of the white-space character a UTF-8 string starts with, 0 when it
  starts with something else; \<open>ws_suffix\<close> reads the string backwards.  A byte string of
  valid UTF-8 ends in one of these byte sequences exactly when its last character is that
  white-space character, because no encoding is a suffix of another.
\<close>

fun ws_prefix :: "nat list \<Rightarrow> nat" where
  "ws_prefix [] = 0"
| "ws_prefix (a # bs) =
     (if (9 \<le> a \<and> a \<le> 13) \<or> a = 32 then 1
      else (case bs of
        [] \<Rightarrow> 0
      | b # cs \<Rightarrow>
          if a = 0xC2 \<and> (b = 0x85 \<or> b = 0xA0) then 2
          else (case cs of
            [] \<Rightarrow> 0
          | c # _ \<Rightarrow>
              if (a = 0xE1 \<and> b = 0x9A \<and> c = 0x80)
                \<or> (a = 0xE2 \<and> b = 0x80 \<and> ((0x80 \<le> c \<and> c \<le> 0x8A) \<or> c = 0xA8 \<or> c = 0xA9 \<or> c = 0xAF))
                \<or> (a = 0xE2 \<and> b = 0x81 \<and> c = 0x9F)
                \<or> (a = 0xE3 \<and> b = 0x80 \<and> c = 0x80)
              then 3 else 0)))"

definition ws_suffix :: "string \<Rightarrow> nat" where
  "ws_suffix s =
     (let bs = map byte s; n = length s in
      if 1 \<le> n \<and> ws_prefix (drop (n - 1) bs) = 1 then 1
      else if 2 \<le> n \<and> ws_prefix (drop (n - 2) bs) = 2 then 2
      else if 3 \<le> n \<and> ws_prefix (drop (n - 3) bs) = 3 then 3
      else 0)"

function trim_start :: "string \<Rightarrow> string" where
  "trim_start s =
     (let k = ws_prefix (map byte s) in
      if k = 0 then s else trim_start (drop k s))"
  by pat_completeness auto
termination
proof (relation "measure length")
  fix s :: string and k
  assume "k = ws_prefix (map byte s)" and "k \<noteq> 0"
  then show "(drop k s, s) \<in> measure length"
    by (cases s) auto
qed simp

function trim_end :: "string \<Rightarrow> string" where
  "trim_end s =
     (let k = ws_suffix s in
      if k = 0 then s else trim_end (take (length s - k) s))"
  by pat_completeness auto
termination
proof (relation "measure length")
  fix s :: string and k
  assume "k = ws_suffix s" and "k \<noteq> 0"
  then show "(take (length s - k) s, s) \<in> measure length"
    by (auto simp: ws_suffix_def Let_def split: if_splits)
qed simp

declare trim_start.simps [simp del] trim_end.simps [simp del]

definition trim :: "string \<Rightarrow> string" where
  "trim s = trim_end (trim_start s)"

lemma length_trim_start: "length (trim_start s) \<le> length s"
proof (induction s rule: trim_start.induct)
  case (1 s)
  then show ?case
    by (subst trim_start.simps) (force simp: Let_def)
qed

lemma length_trim_end: "length (trim_end s) \<le> length s"
proof (induction s rule: trim_end.induct)
  case (1 s)
  then show ?case
    by (subst trim_end.simps) (force simp: Let_def)
qed

lemma length_trim: "length (trim s) \<le> length s"
  unfolding trim_def by (meson le_trans length_trim_end length_trim_start)

text \<open>Trimming twice is trimming once: what a validator stored is a fixed point of it.\<close>

lemma ws_prefix_take: "ws_prefix bs = 0 \<Longrightarrow> ws_prefix (take k bs) = 0"
proof (cases bs)
  case (Cons a as)
  assume zero: "ws_prefix bs = 0"
  show ?thesis
  proof (cases k)
    case (Suc m)
    with Cons zero show ?thesis
      by (cases as; cases m; cases "tl as"; cases "m - 1")
        (auto simp: take_Cons' split: if_splits list.splits)
  qed simp
qed simp

lemma ws_prefix_trim_start: "ws_prefix (map byte (trim_start s)) = 0"
proof (induction s rule: trim_start.induct)
  case (1 s)
  then show ?case
    by (cases "ws_prefix (map byte s) = 0"; subst trim_start.simps) (auto simp: Let_def)
qed

lemma ws_suffix_trim_end: "ws_suffix (trim_end s) = 0"
proof (induction s rule: trim_end.induct)
  case (1 s)
  then show ?case
    by (cases "ws_suffix s = 0"; subst trim_end.simps) (auto simp: Let_def)
qed

lemma trim_end_take: "\<exists>k. trim_end s = take k s"
proof (induction s rule: trim_end.induct)
  case (1 s)
  show ?case
  proof (cases "ws_suffix s = 0")
    case True
    then show ?thesis
      by (intro exI [of _ "length s"], subst trim_end.simps) simp
  next
    case False
    with "1.IH" obtain k where "trim_end (take (length s - ws_suffix s) s) = take k (take (length s - ws_suffix s) s)"
      by auto
    with False show ?thesis
      by (subst trim_end.simps) (auto simp: Let_def)
  qed
qed

lemma trim_start_id: "ws_prefix (map byte s) = 0 \<Longrightarrow> trim_start s = s"
  by (subst trim_start.simps) simp

lemma trim_end_id: "ws_suffix s = 0 \<Longrightarrow> trim_end s = s"
  by (subst trim_end.simps) simp

lemma trim_trim [simp]: "trim (trim s) = trim s"
proof -
  obtain k where k: "trim_end (trim_start s) = take k (trim_start s)"
    using trim_end_take by blast
  have "ws_prefix (map byte (trim s)) = 0"
    using ws_prefix_take [OF ws_prefix_trim_start [of s], of k]
    by (simp add: trim_def k take_map)
  then show ?thesis
    by (simp add: trim_start_id trim_end_id ws_suffix_trim_end trim_def)
qed

subsection \<open>Decimal text of an unsigned integer\<close>

text \<open>\<open>to_string()\<close> of an unsigned integer, and the value \<open>str::parse\<close> reads from digits.\<close>

definition digit_char :: "nat \<Rightarrow> char" where
  "digit_char d = char_of (48 + d)"

fun show_nat :: "nat \<Rightarrow> string" where
  "show_nat n = (if n < 10 then [digit_char n] else show_nat (n div 10) @ [digit_char (n mod 10)])"

declare show_nat.simps [simp del]

definition digit_value :: "char \<Rightarrow> nat" where
  "digit_value c = byte c - 48"

definition read_digits :: "string \<Rightarrow> nat" where
  "read_digits s = foldl (\<lambda>v c. v * 10 + digit_value c) 0 s"

lemma byte_digit_char: "d < 10 \<Longrightarrow> byte (digit_char d) = 48 + d"
  by (simp add: byte_def digit_char_def)

lemma is_ascii_digit_digit_char [simp]: "d < 10 \<Longrightarrow> is_ascii_digit (digit_char d)"
  by (simp add: is_ascii_digit_def byte_digit_char)

lemma digit_value_digit_char [simp]: "d < 10 \<Longrightarrow> digit_value (digit_char d) = d"
  by (simp add: digit_value_def byte_digit_char)

lemma show_nat_digits: "list_all is_ascii_digit (show_nat n)"
proof (induction n rule: show_nat.induct)
  case (1 n)
  then show ?case by (subst show_nat.simps) auto
qed

lemma show_nat_nonempty [simp]: "show_nat n \<noteq> []"
  by (subst show_nat.simps) simp

lemma read_digits_show_nat [simp]: "read_digits (show_nat n) = n"
proof (induction n rule: show_nat.induct)
  case (1 n)
  then show ?case
    by (subst show_nat.simps) (auto simp: read_digits_def)
qed

lemma show_nat_inject [simp]: "show_nat m = show_nat n \<longleftrightarrow> m = n"
  by (metis read_digits_show_nat)

subsection \<open>Floating point\<close>

text \<open>
  A 64-bit float as the sources observe it: a finite value is the rational it denotes
  (both zeros are 0), the rest are not-a-number and the infinities.
\<close>

datatype f64 = NaN | Infinity bool | Finite rat

fun f64_is_finite :: "f64 \<Rightarrow> bool" where
  "f64_is_finite (Finite _) = True"
| "f64_is_finite _ = False"

text \<open>\<open>as u64\<close> and \<open>as u32\<close> on an integral float saturate at the bounds of the target.\<close>

definition saturating_cast :: "nat \<Rightarrow> int \<Rightarrow> nat" where
  "saturating_cast w i = (if i < 0 then 0 else min (nat i) (2 ^ w - 1))"

text \<open>\<open>usize::saturating_add\<close>\<close>

definition saturating_add :: "nat \<Rightarrow> nat \<Rightarrow> nat" where
  "saturating_add a b = min (a + b) (2 ^ 64 - 1)"

end
