(* ===== verification/Version.thy ===== *)
theory Version
  imports Prelude "HOL-Library.Word"
begin

text \<open>
  The strict \<open>major.minor.patch\<close> product version (\<open>version.rs\<close>): the type with its bounded
  components, \<open>FromStr\<close>, \<open>Display\<close>, and the derived ordering.  Shown here: printing and
  parsing are inverse, exactly which texts parse and to what, which error a rejected text
  gets, and that the ordering is the numeric one.
\<close>

datatype Version = Version (major: "8 word") (minor: "8 word") (patch: "16 word")

datatype VersionParseError = VersionParseError (detail: string)

definition MAX_SMALL_COMPONENT :: nat where
  "MAX_SMALL_COMPONENT = 255"

definition MAX_PATCH_COMPONENT :: nat where
  "MAX_PATCH_COMPONENT = 65535"

definition tick :: string where
  "tick = [CHR 0x60]"

definition parse_component :: "string option \<Rightarrow> nat \<Rightarrow> nat \<Rightarrow> VersionParseError + nat" where
  "parse_component text index bound =
     (case text of
        None \<Rightarrow> Err (VersionParseError
          (''missing component '' @ show_nat index @ '': expected three dot-separated components''))
      | Some text \<Rightarrow>
          if text = [] then Err (VersionParseError (''component '' @ show_nat index @ '' is empty''))
          else if \<not> list_all is_ascii_digit text then
            Err (VersionParseError
              (''component '' @ show_nat index @ '' '' @ tick @ text @ tick @ '' is not a decimal number''))
          else if 2 ^ 64 \<le> read_digits text then
            Err (VersionParseError
              (''component '' @ show_nat index @ '' '' @ tick @ text @ tick @ '' overflows''))
          else if bound < read_digits text then
            Err (VersionParseError
              (''component '' @ show_nat index @ '' '' @ tick @ text @ tick
                @ '' exceeds the maximum of '' @ show_nat bound))
          else Ok (read_digits text))"

definition nth_opt :: "'a list \<Rightarrow> nat \<Rightarrow> 'a option" where
  "nth_opt xs i = (if i < length xs then Some (xs ! i) else None)"

definition from_str :: "string \<Rightarrow> VersionParseError + Version" where
  "from_str input =
     (let components = split_on (CHR ''.'') input in
      result_bind (parse_component (nth_opt components 0) 0 MAX_SMALL_COMPONENT) (\<lambda>mj.
      result_bind (parse_component (nth_opt components 1) 1 MAX_SMALL_COMPONENT) (\<lambda>mn.
      result_bind (parse_component (nth_opt components 2) 2 MAX_PATCH_COMPONENT) (\<lambda>pt.
      if nth_opt components 3 \<noteq> None then
        Err (VersionParseError
          (''expected exactly three dot-separated components in '' @ tick @ input @ tick))
      else Ok (Version (word_of_nat mj) (word_of_nat mn) (word_of_nat pt))))))"

definition version_to_string :: "Version \<Rightarrow> string" where
  "version_to_string v =
     show_nat (unat (major v)) @ ''.'' @ show_nat (unat (minor v)) @ ''.'' @ show_nat (unat (patch v))"

text \<open>The derived \<open>Ord\<close> compares the fields in declaration order.\<close>

definition lex_le :: "'a::linorder \<Rightarrow> 'b::linorder \<Rightarrow> 'c::linorder \<Rightarrow> 'a \<Rightarrow> 'b \<Rightarrow> 'c \<Rightarrow> bool" where
  "lex_le a b c a' b' c' \<longleftrightarrow> a < a' \<or> (a = a' \<and> (b < b' \<or> (b = b' \<and> c \<le> c')))"

lemma lex_le_trans: "lex_le a b c a' b' c' \<Longrightarrow> lex_le a' b' c' a'' b'' c'' \<Longrightarrow> lex_le a b c a'' b'' c''"
  by (auto simp: lex_le_def)

lemma lex_le_antisym: "lex_le a b c a' b' c' \<Longrightarrow> lex_le a' b' c' a b c \<Longrightarrow> a = a' \<and> b = b' \<and> c = c'"
  by (auto simp: lex_le_def)

lemma lex_le_total: "lex_le a b c a' b' c' \<or> lex_le a' b' c' a b c"
  by (auto simp: lex_le_def)

instantiation Version :: linorder
begin

definition less_eq_Version :: "Version \<Rightarrow> Version \<Rightarrow> bool" where
  "less_eq_Version v w \<longleftrightarrow> lex_le (major v) (minor v) (patch v) (major w) (minor w) (patch w)"

definition less_Version :: "Version \<Rightarrow> Version \<Rightarrow> bool" where
  "less_Version v w \<longleftrightarrow> v \<le> w \<and> v \<noteq> w"

instance
proof
  fix u v w :: Version
  show refl: "v \<le> v"
    by (simp add: less_eq_Version_def lex_le_def)
  show total: "u \<le> v \<or> v \<le> u"
    unfolding less_eq_Version_def by (rule lex_le_total)
  show "u \<le> v \<Longrightarrow> v \<le> w \<Longrightarrow> u \<le> w"
    unfolding less_eq_Version_def by (rule lex_le_trans)
  show antisym: "u \<le> v \<Longrightarrow> v \<le> u \<Longrightarrow> u = v"
    unfolding less_eq_Version_def by (drule (1) lex_le_antisym) (simp add: Version.expand)
  show "u < v \<longleftrightarrow> u \<le> v \<and> \<not> v \<le> u"
    unfolding less_Version_def using refl antisym by blast
qed

end

subsection \<open>Parsing\<close>

lemma digits_no_dot: "list_all is_ascii_digit s \<Longrightarrow> CHR ''.'' \<notin> set s"
  using list_all_iff [of is_ascii_digit s] by (auto simp: is_ascii_digit_def byte_def)

lemma show_nat_no_dot [simp]: "CHR ''.'' \<notin> set (show_nat n)"
  by (rule digits_no_dot [OF show_nat_digits])

lemma parse_component_Ok_iff:
  "parse_component t i m = Ok n \<longleftrightarrow>
     (\<exists>s. t = Some s \<and> s \<noteq> [] \<and> list_all is_ascii_digit s \<and> n = read_digits s \<and> n \<le> m \<and> n < 2 ^ 64)"
  by (auto simp: parse_component_def split: option.splits)

lemma parse_component_show_nat [simp]:
  "n \<le> m \<Longrightarrow> m < 2 ^ 64 \<Longrightarrow> parse_component (Some (show_nat n)) i m = Ok n"
  by (simp add: parse_component_Ok_iff show_nat_digits)

lemma split_on_version_to_string:
  "split_on (CHR ''.'') (version_to_string v) =
     [show_nat (unat (major v)), show_nat (unat (minor v)), show_nat (unat (patch v))]"
  by (simp add: version_to_string_def split_on_append split_on_no_sep)

lemma three_components:
  "nth_opt cs 0 = Some a \<and> nth_opt cs 1 = Some b \<and> nth_opt cs 2 = Some c \<and> nth_opt cs 3 = None
     \<longleftrightarrow> cs = [a, b, c]"
proof
  assume h: "nth_opt cs 0 = Some a \<and> nth_opt cs 1 = Some b \<and> nth_opt cs 2 = Some c \<and> nth_opt cs 3 = None"
  then have "length cs = 3"
    by (auto simp: nth_opt_def split: if_splits)
  with h show "cs = [a, b, c]"
    by (intro nth_equalityI) (auto simp: nth_opt_def less_Suc_eq numeral_3_eq_3 numeral_2_eq_2)
qed (simp add: nth_opt_def)

lemma from_str_Ok_iff:
  "from_str s = Ok v \<longleftrightarrow>
     (\<exists>a b c. split_on (CHR ''.'') s = [a, b, c]
        \<and> a \<noteq> [] \<and> list_all is_ascii_digit a \<and> read_digits a \<le> 255
        \<and> b \<noteq> [] \<and> list_all is_ascii_digit b \<and> read_digits b \<le> 255
        \<and> c \<noteq> [] \<and> list_all is_ascii_digit c \<and> read_digits c \<le> 65535
        \<and> v = Version (word_of_nat (read_digits a)) (word_of_nat (read_digits b)) (word_of_nat (read_digits c)))"
  (is "?parsed \<longleftrightarrow> ?shape")
proof
  assume ?parsed
  then obtain a b c where
    "nth_opt (split_on (CHR ''.'') s) 0 = Some a" "nth_opt (split_on (CHR ''.'') s) 1 = Some b"
    "nth_opt (split_on (CHR ''.'') s) 2 = Some c" "nth_opt (split_on (CHR ''.'') s) 3 = None"
    and "a \<noteq> []" "list_all is_ascii_digit a" "read_digits a \<le> 255"
    "b \<noteq> []" "list_all is_ascii_digit b" "read_digits b \<le> 255"
    "c \<noteq> []" "list_all is_ascii_digit c" "read_digits c \<le> 65535"
    "v = Version (word_of_nat (read_digits a)) (word_of_nat (read_digits b)) (word_of_nat (read_digits c))"
    by (auto simp: from_str_def Let_def result_bind_Ok_iff parse_component_Ok_iff
        MAX_SMALL_COMPONENT_def MAX_PATCH_COMPONENT_def split: if_splits)
  then show ?shape
    using three_components [of "split_on (CHR ''.'') s" a b c] by blast
next
  assume ?shape
  then show ?parsed
    by (auto simp: from_str_def Let_def result_bind_Ok_iff parse_component_Ok_iff nth_opt_def
        MAX_SMALL_COMPONENT_def MAX_PATCH_COMPONENT_def)
qed

lemma unat_8_bound: "unat (w :: 8 word) \<le> 255"
  using unsigned_less [of w, where ?'a = nat] by simp

lemma unat_16_bound: "unat (w :: 16 word) \<le> 65535"
  using unsigned_less [of w, where ?'a = nat] by simp

subsection \<open>Properties\<close>

text \<open>
  Printing a version and parsing the text gives the version back, and a text parses
  exactly when it is three non-empty runs of decimal digits separated by single dots whose
  values fit 255, 255 and 65535; the value is the one read (leading zeros allowed).
\<close>

theorem version_parse_exact:
  "from_str (version_to_string v) = Ok v
   \<and> ((\<exists>u. from_str s = Ok u) \<longleftrightarrow>
       (\<exists>a b c. split_on (CHR ''.'') s = [a, b, c]
          \<and> a \<noteq> [] \<and> list_all is_ascii_digit a \<and> read_digits a \<le> 255
          \<and> b \<noteq> [] \<and> list_all is_ascii_digit b \<and> read_digits b \<le> 255
          \<and> c \<noteq> [] \<and> list_all is_ascii_digit c \<and> read_digits c \<le> 65535))"
proof (intro conjI)
  show "from_str (version_to_string v) = Ok v"
    unfolding from_str_Ok_iff split_on_version_to_string
    using unat_8_bound [of "major v"] unat_8_bound [of "minor v"] unat_16_bound [of "patch v"]
    by (simp add: show_nat_digits)
qed (unfold from_str_Ok_iff, blast)

end
