(* ===== verification/Sha256.thy ===== *)
theory Sha256
  imports Prelude "HOL-Library.Word"
begin

unbundle bit_operations_syntax

text \<open>
  The core's own SHA-256 (\<open>identity/sha256.rs\<close>): the compression function over 32-bit
  words, the incremental hasher with its 64-byte buffer, and the one-shot digest.  The
  specification is the padding of FIPS 180-4 over the whole message; the theorem is that
  feeding a message to the hasher in any chunks and finishing gives that digest.  The
  interface of a streaming hash is the locale \<open>stream_hash\<close>.
\<close>

type_synonym u8 = "8 word"
type_synonym u32 = "32 word"
type_synonym hash8 = "u32 \<times> u32 \<times> u32 \<times> u32 \<times> u32 \<times> u32 \<times> u32 \<times> u32"

definition K :: "u32 list" where
  "K = concat
    [[0x428a2f98, 0x71374491, 0xb5c0fbcf, 0xe9b5dba5, 0x3956c25b, 0x59f111f1],
     [0x923f82a4, 0xab1c5ed5, 0xd807aa98, 0x12835b01, 0x243185be, 0x550c7dc3],
     [0x72be5d74, 0x80deb1fe, 0x9bdc06a7, 0xc19bf174, 0xe49b69c1, 0xefbe4786],
     [0x0fc19dc6, 0x240ca1cc, 0x2de92c6f, 0x4a7484aa, 0x5cb0a9dc, 0x76f988da],
     [0x983e5152, 0xa831c66d, 0xb00327c8, 0xbf597fc7, 0xc6e00bf3, 0xd5a79147],
     [0x06ca6351, 0x14292967, 0x27b70a85, 0x2e1b2138, 0x4d2c6dfc, 0x53380d13],
     [0x650a7354, 0x766a0abb, 0x81c2c92e, 0x92722c85, 0xa2bfe8a1, 0xa81a664b],
     [0xc24b8b70, 0xc76c51a3, 0xd192e819, 0xd6990624, 0xf40e3585, 0x106aa070],
     [0x19a4c116, 0x1e376c08, 0x2748774c, 0x34b0bcb5, 0x391c0cb3, 0x4ed8aa4a],
     [0x5b9cca4f, 0x682e6ff3, 0x748f82ee, 0x78a5636f, 0x84c87814, 0x8cc70208],
     [0x90befffa, 0xa4506ceb, 0xbef9a3f7, 0xc67178f2]]"

definition rotate_right :: "u32 \<Rightarrow> nat \<Rightarrow> u32" where
  "rotate_right v shift = word_rotr shift v"

text \<open>\<open>u32::from_be_bytes\<close> of the four bytes at \<open>index * 4\<close>.\<close>

definition from_be_bytes :: "u8 list \<Rightarrow> nat \<Rightarrow> u32" where
  "from_be_bytes block index =
     push_bit 24 (ucast (block ! (index * 4))) OR push_bit 16 (ucast (block ! (index * 4 + 1)))
     OR push_bit 8 (ucast (block ! (index * 4 + 2))) OR ucast (block ! (index * 4 + 3))"

text \<open>The second loop of \<open>compress\<close>: the words computed so far, extended \<open>n\<close> times.\<close>

fun schedule :: "nat \<Rightarrow> u32 list \<Rightarrow> u32 list" where
  "schedule 0 words = words"
| "schedule (Suc n) words =
     (let index = length words;
          w15 = words ! (index - 15);
          w2 = words ! (index - 2);
          s0 = rotate_right w15 7 XOR rotate_right w15 18 XOR drop_bit 3 w15;
          s1 = rotate_right w2 17 XOR rotate_right w2 19 XOR drop_bit 10 w2
      in schedule n (words @ [words ! (index - 16) + s0 + words ! (index - 7) + s1]))"

fun round :: "u32 list \<Rightarrow> nat \<Rightarrow> hash8 \<Rightarrow> hash8" where
  "round words index (a, b, c, d, e, f, g, h) =
     (let s1 = rotate_right e 6 XOR rotate_right e 11 XOR rotate_right e 25;
          ch = (e AND f) XOR (NOT e AND g);
          temp1 = h + s1 + ch + K ! index + words ! index;
          s0 = rotate_right a 2 XOR rotate_right a 13 XOR rotate_right a 22;
          maj = (a AND b) XOR (a AND c) XOR (b AND c);
          temp2 = s0 + maj
      in (temp1 + temp2, a, b, c, d + temp1, e, f, g))"

fun add_hash :: "hash8 \<Rightarrow> hash8 \<Rightarrow> hash8" where
  "add_hash (a, b, c, d, e, f, g, h) (a', b', c', d', e', f', g', h') =
     (a + a', b + b', c + c', d + d', e + e', f + f', g + g', h + h')"

definition compress :: "hash8 \<Rightarrow> u8 list \<Rightarrow> hash8" where
  "compress hash block =
     (let words = schedule 48 (map (from_be_bytes block) [0..<16])
      in add_hash hash (fold (round words) [0..<64] hash))"

record Sha256 =
  hash :: hash8
  buffer :: "u8 list"
  buffered :: nat
  length_bits :: "64 word"

definition sha_new :: Sha256 where
  "sha_new =
     \<lparr> hash = (0x6a09e667, 0xbb67ae85, 0x3c6ef372, 0xa54ff53a, 0x510e527f,
              0x9b05688c, 0x1f83d9ab, 0x5be0cd19),
       buffer = replicate 64 0,
       buffered = 0,
       length_bits = 0 \<rparr>"

text \<open>\<open>buffer[off..off + src.len()].copy_from_slice(src)\<close>\<close>

definition copy_from_slice :: "'a list \<Rightarrow> nat \<Rightarrow> 'a list \<Rightarrow> 'a list" where
  "copy_from_slice dst off src = take off dst @ src @ drop (off + length src) dst"

text \<open>The \<open>while input.len() >= 64\<close> loop: the hash after the full blocks, and the rest.\<close>

function full_blocks :: "hash8 \<Rightarrow> u8 list \<Rightarrow> hash8 \<times> u8 list" where
  "full_blocks h input =
     (if 64 \<le> length input then full_blocks (compress h (take 64 input)) (drop 64 input)
      else (h, input))"
  by pat_completeness auto
termination
  by (relation "measure (length \<circ> snd)") auto

declare full_blocks.simps [simp del]

definition fill_buffer :: "Sha256 \<Rightarrow> u8 list \<Rightarrow> Sha256 \<times> u8 list" where
  "fill_buffer self input =
     (if 0 < buffered self \<and> input \<noteq> [] then
        let n = min (64 - buffered self) (length input);
            buf = copy_from_slice (buffer self) (buffered self) (take n input);
            used = buffered self + n
        in ((if used = 64
             then self\<lparr>buffer := buf, hash := compress (hash self) buf, buffered := 0\<rparr>
             else self\<lparr>buffer := buf, buffered := used\<rparr>), drop n input)
      else (self, input))"

definition sha_update :: "Sha256 \<Rightarrow> u8 list \<Rightarrow> Sha256" where
  "sha_update self bytes =
     (let self = self\<lparr>length_bits := length_bits self + of_nat (length bytes) * 8\<rparr>;
          (self, input) = fill_buffer self bytes;
          (h, rest) = full_blocks (hash self) input;
          self = self\<lparr>hash := h\<rparr>
      in if rest \<noteq> []
         then self\<lparr>buffer := copy_from_slice (buffer self) 0 rest, buffered := length rest\<rparr>
         else self)"

text \<open>\<open>u64::to_be_bytes\<close>, and \<open>format!("{word:08x}")\<close> of each word of the state.\<close>

definition to_be_bytes :: "64 word \<Rightarrow> u8 list" where
  "to_be_bytes w = map (\<lambda>i. ucast (drop_bit (56 - 8 * i) w)) [0..<8]"

definition hex_digit :: "nat \<Rightarrow> char" where
  "hex_digit n = char_of (if n < 10 then 48 + n else 87 + n)"

definition hex08 :: "u32 \<Rightarrow> string" where
  "hex08 w = map (\<lambda>i. hex_digit (unat (drop_bit (28 - 4 * i) w AND 15))) [0..<8]"

fun hash_hex :: "hash8 \<Rightarrow> string" where
  "hash_hex (a, b, c, d, e, f, g, h) = concat (map hex08 [a, b, c, d, e, f, g, h])"

definition finish :: "Sha256 \<Rightarrow> string" where
  "finish self =
     (let used = buffered self;
          tail = copy_from_slice (replicate 128 0) 0 (take used (buffer self));
          tail = tail[used := 0x80];
          total = (if used < 56 then 64 else 128);
          tail = copy_from_slice tail (total - 8) (to_be_bytes (length_bits self));
          h = compress (hash self) (take 64 tail);
          h = (if total = 128 then compress h (take 64 (drop 64 tail)) else h)
      in hash_hex h)"

definition sha256_hex :: "u8 list \<Rightarrow> string" where
  "sha256_hex bytes = finish (sha_update sha_new bytes)"

text \<open>\<open>str::as_bytes\<close>\<close>

definition as_bytes :: "string \<Rightarrow> u8 list" where
  "as_bytes s = map (\<lambda>c. word_of_nat (byte c)) s"

subsection \<open>The specification\<close>

text \<open>
  FIPS 180-4, section 5.1.1 and 6.2: append the byte \<open>0x80\<close>, as many zero bytes as bring
  the length to 56 modulo 64, and the message length in bits as a 64-bit big-endian
  number; then compress the 64-byte blocks in order.
\<close>

definition zero_bytes :: "nat \<Rightarrow> nat" where
  "zero_bytes len = (119 - len mod 64) mod 64"

definition padded :: "u8 list \<Rightarrow> u8 list" where
  "padded m = m @ [0x80] @ replicate (zero_bytes (length m)) 0 @ to_be_bytes (of_nat (8 * length m))"

definition sha256_spec :: "u8 list \<Rightarrow> string" where
  "sha256_spec m = hash_hex (fst (full_blocks (hash sha_new) (padded m)))"

lemma length_to_be_bytes [simp]: "length (to_be_bytes w) = 8"
  by (simp add: to_be_bytes_def)

subsection \<open>The streaming interface\<close>

locale stream_hash =
  fixes init :: 's
    and update :: "'s \<Rightarrow> 'a list \<Rightarrow> 's"
    and final :: "'s \<Rightarrow> 'd"
    and digest :: "'a list \<Rightarrow> 'd"
    and absorbed :: "'s \<Rightarrow> 'a list \<Rightarrow> bool"
  assumes absorbed_init: "absorbed init []"
    and absorbed_update: "absorbed s m \<Longrightarrow> absorbed (update s x) (m @ x)"
    and final_absorbed: "absorbed s m \<Longrightarrow> final s = digest m"
begin

lemma absorbed_chunks: "absorbed s m \<Longrightarrow> absorbed (foldl update s cs) (m @ concat cs)"
proof (induction cs arbitrary: s m)
  case (Cons c cs)
  from Cons.IH [OF absorbed_update [OF Cons.prems]] show ?case
    by simp
qed simp

lemma chunked_digest: "final (foldl update init cs) = digest (concat cs)"
  using final_absorbed [OF absorbed_chunks [OF absorbed_init]] by simp

lemma one_shot_digest: "final (update init m) = digest m"
  using chunked_digest [of "[m]"] by simp

lemma chunking_irrelevant:
  "concat cs = concat ds \<Longrightarrow> final (foldl update init cs) = final (foldl update init ds)"
  by (simp add: chunked_digest)

end

subsection \<open>The hasher implements the specification\<close>

lemma full_blocks_aligned:
  "length pre mod 64 = 0 \<Longrightarrow> full_blocks h (pre @ x) = full_blocks (fst (full_blocks h pre)) x"
proof (induction h pre rule: full_blocks.induct)
  case (1 h pre)
  show ?case
  proof (cases "64 \<le> length pre")
    case True
    then have "(length pre - 64) mod 64 = 0"
      using "1.prems" by (metis le_mod_geq)
    with True "1.IH" show ?thesis
      by (simp add: full_blocks.simps [of h])
  next
    case False
    then have "pre = []"
      using "1.prems" by simp
    then show ?thesis
      by (simp add: full_blocks.simps [of h "[]"])
  qed
qed

lemma full_blocks_short: "length x < 64 \<Longrightarrow> full_blocks h x = (h, x)"
  by (simp add: full_blocks.simps)

lemma full_blocks_one: "length x = 64 \<Longrightarrow> full_blocks h (x @ y) = full_blocks (compress h x) y"
  by (simp add: full_blocks.simps [of h])

lemma full_blocks_split:
  obtains pre where "x = pre @ snd (full_blocks h x)" "length pre mod 64 = 0"
    "length (snd (full_blocks h x)) < 64" "fst (full_blocks h x) = fst (full_blocks h pre)"
proof -
  define pre where "pre = take (length x div 64 * 64) x"
  define rest where "rest = drop (length x div 64 * 64) x"
  have split: "x = pre @ rest" and aligned: "length pre mod 64 = 0" and short: "length rest < 64"
    by (simp_all add: pre_def rest_def minus_mult_div_eq_mod min_absorb2 flip: minus_mod_eq_div_mult)
  then have "full_blocks h x = (fst (full_blocks h pre), rest)"
    using full_blocks_aligned [OF aligned, of h rest] full_blocks_short [OF short] by simp
  with split aligned short show thesis
    using that by simp
qed

text \<open>
  \<open>blocks_state s m\<close>: the hasher has compressed the full blocks of \<open>m\<close> and holds the rest
  in its buffer; \<open>absorbed_sha\<close> adds the running bit count.
\<close>

definition blocks_state :: "Sha256 \<Rightarrow> u8 list \<Rightarrow> bool" where
  "blocks_state s m \<longleftrightarrow>
     (\<exists>pre t. m = pre @ t \<and> length pre mod 64 = 0 \<and> length t < 64
        \<and> hash s = fst (full_blocks (hash sha_new) pre) \<and> buffered s = length t
        \<and> length (buffer s) = 64 \<and> take (length t) (buffer s) = t)"

definition absorbed_sha :: "Sha256 \<Rightarrow> u8 list \<Rightarrow> bool" where
  "absorbed_sha s m \<longleftrightarrow> blocks_state s m \<and> length_bits s = of_nat (8 * length m)"

lemma absorbed_sha_new: "absorbed_sha sha_new []"
  unfolding absorbed_sha_def blocks_state_def
  by (intro conjI exI [of _ "[]"]) (simp_all add: full_blocks_short sha_new_def)

lemma blocks_stateI:
  assumes "length pre mod 64 = 0" and "length t < 64" and "hash s = fst (full_blocks (hash sha_new) pre)"
    and "buffered s = length t" and "length (buffer s) = 64" and "take (length t) (buffer s) = t"
    and "m = pre @ t"
  shows "blocks_state s m"
  unfolding blocks_state_def by (intro exI [of _ pre] exI [of _ t] conjI) (fact assms)+

lemma fill_buffer_state:
  assumes st: "blocks_state s m" and fill: "fill_buffer s x = (s', y)"
  obtains u where "x = u @ y" "blocks_state s' (m @ u)" "length_bits s' = length_bits s"
    "y = [] \<or> buffered s' = 0"
proof (cases "0 < buffered s \<and> x \<noteq> []")
  case False
  then show thesis
    using that [of "[]"] st fill by (auto simp: fill_buffer_def)
next
  case True
  obtain pre t where m: "m = pre @ t" "length pre mod 64 = 0" "length t < 64"
    "hash s = fst (full_blocks (hash sha_new) pre)" "buffered s = length t"
    "length (buffer s) = 64" "take (length t) (buffer s) = t"
    using st unfolding blocks_state_def by (elim exE conjE) rule
  define n where "n = min (64 - length t) (length x)"
  define buf where "buf = copy_from_slice (buffer s) (length t) (take n x)"
  have len: "length (take n x) = n" and len_buf: "length buf = 64"
    and buf: "take (length t + n) buf = t @ take n x"
    using m by (auto simp: n_def buf_def copy_from_slice_def)
  show thesis
  proof (cases "length t + n = 64")
    case full: True
    have s': "s' = s\<lparr>buffer := buf, hash := compress (hash s) buf, buffered := 0\<rparr>" "y = drop n x"
      using fill True full m by (auto simp: fill_buffer_def Let_def n_def buf_def)
    have "buf = t @ take n x"
      using buf full len_buf by simp
    then have "hash s' = fst (full_blocks (hash sha_new) (pre @ t @ take n x))"
      using m s' full_blocks_aligned [OF m(2), of "hash sha_new" buf]
        full_blocks_one [of buf "hash s" "[]"] len_buf by (simp add: full_blocks_short)
    moreover have "length (pre @ t @ take n x) mod 64 = 0"
      using m(2) full len by simp
    ultimately have "blocks_state s' (m @ take n x)"
      by (intro blocks_stateI [of "pre @ t @ take n x" "[]"]) (use s' len_buf m in auto)
    then show thesis
      using that [of "take n x"] s' by simp
  next
    case part: False
    then have n: "n = length x" and short: "length t + n < 64"
      using m(3) by (auto simp: n_def min_def split: if_splits)
    have s': "s' = s\<lparr>buffer := buf, buffered := length t + n\<rparr>" "y = []"
      using fill True part m n by (auto simp: fill_buffer_def Let_def n_def buf_def)
    have "blocks_state s' (m @ x)"
      by (intro blocks_stateI [of pre "t @ x"]) (use s' buf len_buf m n short in auto)
    then show thesis
      using that [of x] s' by simp
  qed
qed

lemma absorbed_sha_update:
  assumes "absorbed_sha s m"
  shows "absorbed_sha (sha_update s x) (m @ x)"
proof -
  define s0 where "s0 = s\<lparr>length_bits := length_bits s + of_nat (length x) * 8\<rparr>"
  have st0: "blocks_state s0 m"
    using assms by (auto simp: absorbed_sha_def blocks_state_def s0_def)
  have bits: "length_bits s0 = of_nat (8 * length (m @ x))"
    using assms by (simp add: absorbed_sha_def s0_def algebra_simps)
  obtain s1 y where fill: "fill_buffer s0 x = (s1, y)"
    by fastforce
  obtain u where u: "x = u @ y" "blocks_state s1 (m @ u)" "length_bits s1 = length_bits s0"
    "y = [] \<or> buffered s1 = 0"
    using fill_buffer_state [OF st0 fill] .
  obtain h rest where fb: "full_blocks (hash s1) y = (h, rest)"
    by fastforce
  have upd: "sha_update s x = (if rest \<noteq> [] then s1\<lparr>hash := h, buffer := copy_from_slice (buffer s1) 0 rest,
      buffered := length rest\<rparr> else s1\<lparr>hash := h\<rparr>)"
    using fill fb by (simp add: sha_update_def s0_def)
  have "blocks_state (sha_update s x) (m @ x)"
  proof (cases "y = []")
    case True
    with fb have "h = hash s1" "rest = []"
      by (simp_all add: full_blocks_short)
    with upd u True show ?thesis
      by simp
  next
    case False
    with u obtain pre where pre: "m @ u = pre" "length pre mod 64 = 0"
      "hash s1 = fst (full_blocks (hash sha_new) pre)" "buffered s1 = 0" "length (buffer s1) = 64"
      unfolding blocks_state_def by auto
    obtain q where q: "y = q @ rest" "length q mod 64 = 0" "length rest < 64" "h = fst (full_blocks (hash s1) q)"
      using full_blocks_split [of y "hash s1"] unfolding fb fst_conv snd_conv .
    have "h = fst (full_blocks (hash sha_new) (pre @ q))"
      using full_blocks_aligned [OF pre(2), of "hash sha_new" q] pre(3) q(4) by simp
    moreover have "length (pre @ q) mod 64 = 0"
      using pre(2) q(2) by (metis length_append mod_add_eq add_0 mod_0)
    ultimately show ?thesis
      using upd pre q u
      by (intro blocks_stateI [of "pre @ q" rest]) (auto simp: copy_from_slice_def)
  qed
  moreover have "length_bits (sha_update s x) = of_nat (8 * length (m @ x))"
    using upd u(3) bits by simp
  ultimately show ?thesis
    by (simp add: absorbed_sha_def)
qed

lemma copy_from_slice_mid:
  "copy_from_slice (a @ replicate n x) (length a + k) src
     = a @ replicate (min k n) x @ src @ replicate (n - k - length src) x"
  by (simp add: copy_from_slice_def)

definition tail_block :: "u8 list \<Rightarrow> 64 word \<Rightarrow> u8 list" where
  "tail_block t bits = t @ [0x80] @ replicate (zero_bytes (length t)) 0 @ to_be_bytes bits"

lemma zero_bytes_short: "r < 56 \<Longrightarrow> zero_bytes r = 55 - r"
  by (simp add: zero_bytes_def mod_if)

lemma zero_bytes_long: "56 \<le> r \<Longrightarrow> r < 64 \<Longrightarrow> zero_bytes r = 119 - r"
  by (simp add: zero_bytes_def)

lemma length_tail_block:
  "length t < 64 \<Longrightarrow> length (tail_block t bits) = (if length t < 56 then 64 else 128)"
  by (simp add: tail_block_def zero_bytes_short zero_bytes_long)

lemma finish_blocks:
  assumes "length t < 64" and "buffered s = length t" and "take (length t) (buffer s) = t"
  shows "finish s = hash_hex (fst (full_blocks (hash s) (tail_block t (length_bits s))))"
proof -
  let ?r = "length t" and ?be = "to_be_bytes (length_bits s)"
  have marked: "(copy_from_slice (replicate 128 (0::u8)) 0 t)[?r := 0x80] = (t @ [0x80]) @ replicate (127 - ?r) 0"
  proof -
    have "replicate (128 - ?r) (0::u8) = 0 # replicate (127 - ?r) 0"
      using assms(1) by (simp flip: replicate_Suc)
    then show ?thesis
      by (simp add: copy_from_slice_def)
  qed
  show ?thesis
  proof (cases "?r < 56")
    case True
    then have tail: "copy_from_slice ((t @ [0x80]) @ replicate (127 - ?r) 0) 56 ?be
        = tail_block t (length_bits s) @ replicate 64 0"
      using copy_from_slice_mid [of "t @ [0x80]" "127 - ?r" 0 "55 - ?r" ?be]
      by (simp add: tail_block_def zero_bytes_short)
    have len: "length (tail_block t (length_bits s)) = 64"
      using assms(1) True by (simp add: length_tail_block)
    show ?thesis
      using True assms tail len full_blocks_one [OF len, of "hash s" "[]"]
      by (simp add: finish_def Let_def marked full_blocks_short del: append_assoc)
  next
    case False
    with assms(1) have tail: "copy_from_slice ((t @ [0x80]) @ replicate (127 - ?r) 0) 120 ?be
        = tail_block t (length_bits s)"
      using copy_from_slice_mid [of "t @ [0x80]" "127 - ?r" 0 "119 - ?r" ?be]
      by (simp add: tail_block_def zero_bytes_long)
    have len: "length (tail_block t (length_bits s)) = 128"
      using assms(1) False by (simp add: length_tail_block)
    show ?thesis
      using False assms tail len
      by (simp add: finish_def Let_def marked full_blocks.simps [of _ "tail_block _ _"]
          full_blocks.simps [of _ "drop _ _"] full_blocks_short del: append_assoc)
  qed
qed

lemma zero_bytes_aligned: "p mod 64 = 0 \<Longrightarrow> zero_bytes (p + r) = zero_bytes r"
  by (simp add: zero_bytes_def flip: mod_add_left_eq [of p])

lemma finish_absorbed:
  assumes "absorbed_sha s m"
  shows "finish s = sha256_spec m"
proof -
  obtain pre t where m: "m = pre @ t" "length pre mod 64 = 0" "length t < 64"
    "hash s = fst (full_blocks (hash sha_new) pre)" "buffered s = length t"
    "take (length t) (buffer s) = t" and bits: "length_bits s = of_nat (8 * length m)"
    using assms unfolding absorbed_sha_def blocks_state_def by (elim exE conjE) rule
  have "padded m = pre @ tail_block t (length_bits s)"
    using m(1,2) bits by (simp add: padded_def tail_block_def zero_bytes_aligned)
  then show ?thesis
    using full_blocks_aligned [OF m(2), of "hash sha_new" "tail_block t (length_bits s)"] m
    by (simp add: sha256_spec_def finish_blocks)
qed

interpretation sha: stream_hash sha_new sha_update finish sha256_spec absorbed_sha
  by unfold_locales (fact absorbed_sha_new absorbed_sha_update finish_absorbed)+

lemma sha256_hex_spec: "sha256_hex m = sha256_spec m"
  unfolding sha256_hex_def by (rule sha.one_shot_digest)

lemma is_lower_hex_hex_digit: "n < 16 \<Longrightarrow> is_lower_hex (hex_digit n)"
  by (auto simp: hex_digit_def ascii_defs)

lemma nibble_bound [simp]: "unat ((w :: u32) AND 15) < 16"
proof -
  have "w AND 15 \<le> 15"
    by (rule word_and_le1)
  then show ?thesis
    by (simp add: word_le_nat_alt)
qed

lemma hash_hex_shape: "length (hash_hex h) = 64 \<and> list_all is_lower_hex (hash_hex h)"
  by (cases h rule: hash_hex.cases) (auto simp: hex08_def is_lower_hex_hex_digit list_all_iff)

lemma sha256_hex_shape: "length (sha256_hex m) = 64 \<and> list_all is_lower_hex (sha256_hex m)"
  by (simp add: sha256_hex_spec sha256_spec_def hash_hex_shape del: hash_hex.simps)

lemma unat_byte: "unat (word_of_nat (byte c) :: u8) = byte c"
  by (simp add: byte_def unat_of_nat)

lemma as_bytes_inject [simp]: "as_bytes s = as_bytes t \<longleftrightarrow> s = t"
proof
  assume "as_bytes s = as_bytes t"
  then have "map unat (as_bytes s) = map unat (as_bytes t)"
    by simp
  then have "map byte s = map byte t"
    by (simp add: as_bytes_def comp_def unat_byte)
  then show "s = t"
    by (simp add: inj_map_eq_map inj_def byte_def)
qed simp

subsection \<open>Properties\<close>

text \<open>
  C21.  However a message is cut into chunks, feeding the chunks to the incremental hasher and
  finishing returns the FIPS 180-4 digest of the whole message (so the one-shot digest is the
  same value), and it is 64 lowercase hexadecimal digits.
\<close>

theorem sha256_streaming:
  "finish (foldl sha_update sha_new chunks) = sha256_spec (concat chunks)
   \<and> finish (foldl sha_update sha_new chunks) = sha256_hex (concat chunks)
   \<and> length (sha256_hex bytes) = 64 \<and> list_all is_lower_hex (sha256_hex bytes)"
  by (simp add: sha.chunked_digest sha256_hex_spec [of "concat chunks"] sha256_hex_shape)

end
