(* ===== verification/Sha256_Vectors.thy ===== *)
theory Sha256_Vectors
  imports Sha256
begin

text \<open>
  A published test vector of FIPS 180-4, evaluated in the kernel on the model of
  \<open>identity/sha256.rs\<close>.  The theory is a leaf: nothing else waits for the evaluation.
\<close>

definition abc_block :: "u8 list" where
  "abc_block = [0x61, 0x62, 0x63, 0x80] @ replicate 59 0 @ [0x18]"

lemma compress_abc:
  "compress (hash sha_new) abc_block =
     (0xba7816bf, 0x8f01cfea, 0x414140de, 0x5dae2223, 0xb00361a3, 0x96177a9c, 0xb410ff61, 0xf20015ad)"
  by code_simp

lemma abc_hex:
  "hash_hex (0xba7816bf, 0x8f01cfea, 0x414140de, 0x5dae2223, 0xb00361a3, 0x96177a9c, 0xb410ff61, 0xf20015ad)
     = ''ba7816bf8f01cfea414140de5dae2223b00361a396177a9cb410ff61f20015ad''"
  by code_simp

text \<open>
  The digest of the three bytes \<open>abc\<close> is the one FIPS 180-4 publishes for them.
\<close>

theorem sha256_known_answer:
  "sha256_hex (as_bytes ''abc'') =
     ''ba7816bf8f01cfea414140de5dae2223b00361a396177a9cb410ff61f20015ad''"
proof -
  have block: "padded (as_bytes ''abc'') = abc_block"
    unfolding abc_block_def by code_simp
  have len: "length abc_block = 64"
    by (simp add: abc_block_def)
  show ?thesis
    unfolding sha256_hex_spec sha256_spec_def block
    using full_blocks_one [OF len, of "hash sha_new" "[]"] full_blocks_short [of "[]"]
    by (simp only: append_Nil2 list.size zero_less_numeral fst_conv compress_abc abc_hex)
qed

end
