(* ===== verification/BTree.thy ===== *)
theory BTree
  imports Prelude
begin

text \<open>
  The ordered maps and sets of the Rust standard library.  A \<open>BTreeMap<K, V>\<close> is an
  association list whose keys ascend strictly (\<open>bm_wf\<close>); its iteration order is the list
  order.  A \<open>BTreeSet<K>\<close> is the strictly ascending list of its elements.  The locale
  \<open>ordered_map\<close> states what the clients of the maps rely on; it is interpreted on the
  association lists below, and the clients (the canonical payloads, the approval ledger,
  the permission policy) use the facts \<open>bm.*\<close>.
\<close>

type_synonym ('k, 'v) btree_map = "('k \<times> 'v) list"
type_synonym 'k btree_set = "'k list"

definition bm_wf :: "('k::linorder, 'v) btree_map \<Rightarrow> bool" where
  "bm_wf m \<longleftrightarrow> sorted_wrt (<) (map fst m)"

fun bm_insert :: "'k::linorder \<Rightarrow> 'v \<Rightarrow> ('k, 'v) btree_map \<Rightarrow> ('k, 'v) btree_map" where
  "bm_insert k v [] = [(k, v)]"
| "bm_insert k v ((k', v') # m) =
     (if k < k' then (k, v) # (k', v') # m
      else if k = k' then (k, v) # m
      else (k', v') # bm_insert k v m)"

definition bm_get :: "('k::linorder, 'v) btree_map \<Rightarrow> 'k \<Rightarrow> 'v option" where
  "bm_get m k = map_of m k"

definition bm_remove :: "'k::linorder \<Rightarrow> ('k, 'v) btree_map \<Rightarrow> ('k, 'v) btree_map" where
  "bm_remove k m = filter (\<lambda>e. fst e \<noteq> k) m"

fun bm_of_list :: "('k::linorder, 'v) btree_map \<Rightarrow> ('k \<times> 'v) list \<Rightarrow> ('k, 'v) btree_map" where
  "bm_of_list m [] = m"
| "bm_of_list m ((k, v) # es) = bm_of_list (bm_insert k v m) es"

fun bs_insert :: "'k::linorder \<Rightarrow> 'k btree_set \<Rightarrow> 'k btree_set" where
  "bs_insert k [] = [k]"
| "bs_insert k (x # xs) =
     (if k < x then k # x # xs else if k = x then x # xs else x # bs_insert k xs)"

definition bs_wf :: "'k::linorder btree_set \<Rightarrow> bool" where
  "bs_wf s \<longleftrightarrow> sorted_wrt (<) s"

subsection \<open>Well-formedness and lookup\<close>

lemma keys_bm_insert: "fst ` set (bm_insert k v m) = insert k (fst ` set m)"
  by (induction k v m rule: bm_insert.induct) auto

lemma bm_wf_Nil [simp]: "bm_wf []"
  by (simp add: bm_wf_def)

lemma ball_bm_insert:
  "(\<forall>e \<in> set (bm_insert k v m). P (fst e)) \<longleftrightarrow> P k \<and> (\<forall>e \<in> set m. P (fst e))"
proof -
  have "(\<forall>e \<in> set (bm_insert k v m). P (fst e)) \<longleftrightarrow> (\<forall>x \<in> fst ` set (bm_insert k v m). P x)"
    by blast
  then show ?thesis
    unfolding keys_bm_insert by blast
qed

lemma bm_wf_insert [simp]: "bm_wf m \<Longrightarrow> bm_wf (bm_insert k v m)"
  by (induction k v m rule: bm_insert.induct)
    (auto simp: bm_wf_def ball_bm_insert intro: less_trans)

lemma bm_get_insert [simp]: "bm_get (bm_insert k v m) x = (if x = k then Some v else bm_get m x)"
  by (induction k v m rule: bm_insert.induct) (auto simp: bm_get_def)

lemma bm_get_Nil [simp]: "bm_get [] x = None"
  by (simp add: bm_get_def)

lemma bm_wf_remove [simp]: "bm_wf m \<Longrightarrow> bm_wf (bm_remove k m)"
  by (induction m) (auto simp: bm_wf_def bm_remove_def)

lemma bm_get_remove [simp]: "bm_get (bm_remove k m) x = (if x = k then None else bm_get m x)"
  by (induction m) (auto simp: bm_get_def bm_remove_def)

lemma bm_wf_of_list: "bm_wf m \<Longrightarrow> bm_wf (bm_of_list m es)"
  by (induction m es rule: bm_of_list.induct) auto

lemma bm_get_of_list: "bm_get (bm_of_list m es) k = (case map_of (rev es) k of None \<Rightarrow> bm_get m k | Some v \<Rightarrow> Some v)"
  by (induction m es rule: bm_of_list.induct) (auto simp: map_add_def split: option.splits)

lemma bm_wf_distinct: "bm_wf m \<Longrightarrow> distinct (map fst m)"
  by (simp add: bm_wf_def strict_sorted_iff)

lemma map_of_reconstruct: "distinct (map fst m) \<Longrightarrow> map (\<lambda>k. (k, the (map_of m k))) (map fst m) = m"
  by (auto intro!: map_idI)

text \<open>Two ordered maps with the same lookups are the same list: iteration order carries no
  information beyond the content.\<close>

lemma bm_wf_eqI:
  assumes "bm_wf m" and "bm_wf m'" and "bm_get m = bm_get m'"
  shows "m = m'"
proof -
  have same: "map_of m = map_of m'"
    using assms(3) by (simp add: bm_get_def fun_eq_iff)
  have "set (map fst m) = set (map fst m')"
    using same by (metis dom_map_of_conv_image_fst list.set_map)
  then have "map fst m = map fst m'"
    using assms(1,2) unfolding bm_wf_def by (metis strict_sorted_equal)
  then show ?thesis
    using map_of_reconstruct [OF bm_wf_distinct] assms(1,2) same by metis
qed

subsection \<open>The interface\<close>

locale ordered_map =
  fixes empty :: "'m"
    and get :: "'m \<Rightarrow> 'k \<Rightarrow> 'v option"
    and put :: "'k \<Rightarrow> 'v \<Rightarrow> 'm \<Rightarrow> 'm"
    and del :: "'k \<Rightarrow> 'm \<Rightarrow> 'm"
    and invar :: "'m \<Rightarrow> bool"
  assumes get_empty: "get empty = (\<lambda>_. None)"
    and get_put: "get (put k v m) = (get m)(k \<mapsto> v)"
    and get_del: "get (del k m) = (get m)(k := None)"
    and invar_empty: "invar empty"
    and invar_put: "invar m \<Longrightarrow> invar (put k v m)"
    and invar_del: "invar m \<Longrightarrow> invar (del k m)"
    and extensional: "invar m \<Longrightarrow> invar m' \<Longrightarrow> get m = get m' \<Longrightarrow> m = m'"
begin

lemma put_put_same: "invar m \<Longrightarrow> put k v (put k w m) = put k v m"
  by (rule extensional) (simp_all add: invar_put get_put)

lemma put_commute: "invar m \<Longrightarrow> k \<noteq> k' \<Longrightarrow> put k v (put k' w m) = put k' w (put k v m)"
  by (rule extensional) (auto simp: invar_put get_put fun_upd_twist)

lemma del_put_fresh: "invar m \<Longrightarrow> get m k = None \<Longrightarrow> del k (put k v m) = m"
  by (rule extensional) (auto simp: invar_put invar_del get_put get_del fun_upd_idem)

lemma del_absent: "invar m \<Longrightarrow> get m k = None \<Longrightarrow> del k m = m"
  by (rule extensional) (auto simp: invar_del get_del fun_upd_idem)

end

interpretation bm: ordered_map "[]" bm_get bm_insert bm_remove bm_wf
  by unfold_locales (auto simp: fun_eq_iff intro: bm_wf_eqI)

subsection \<open>Ordered sets\<close>

lemma set_bs_insert [simp]: "set (bs_insert k s) = insert k (set s)"
  by (induction k s rule: bs_insert.induct) auto

lemma bs_wf_insert [simp]: "bs_wf s \<Longrightarrow> bs_wf (bs_insert k s)"
  by (induction k s rule: bs_insert.induct) (auto simp: bs_wf_def)

lemma bs_wf_Nil [simp]: "bs_wf []"
  by (simp add: bs_wf_def)

lemma bs_wf_eqI: "bs_wf s \<Longrightarrow> bs_wf t \<Longrightarrow> set s = set t \<Longrightarrow> s = t"
  by (simp add: bs_wf_def strict_sorted_equal)

end
