(* ===== verification/Canonical.thy ===== *)
theory Canonical
  imports BTree Sha256
begin

text \<open>
  Canonical JSON (\<open>identity/canonical.rs\<close>) and the domain-separated digest
  (\<open>identity/mod.rs\<close>).  The writer is the recursive \<open>write_canonical\<close> of the source, its
  two loops included.  Shown: the text determines the value, whatever follows it
  (\<open>write_canonical_unambiguous\<close>), so two values have the same canonical bytes exactly when
  they are equal, and the preimage of a digest determines artifact type, schema version and
  payload.
\<close>

subsection \<open>Strings\<close>

definition quote :: char where
  "quote = CHR 0x22"

definition backslash :: char where
  "backslash = CHR 0x5C"

text \<open>
  The \<open>match\<close> of \<open>json_escape\<close>.  Every character it treats specially is one byte, and the
  bytes of the others are copied, so the loop over characters is a loop over bytes.
\<close>

definition escape_char :: "char \<Rightarrow> string" where
  "escape_char c =
     (if c = quote then [backslash, quote]
      else if c = backslash then [backslash, backslash]
      else if c = CHR 0x08 then backslash # ''b''
      else if c = CHR 0x0C then backslash # ''f''
      else if c = CHR 0x0A then backslash # ''n''
      else if c = CHR 0x0D then backslash # ''r''
      else if c = CHR 0x09 then backslash # ''t''
      else if byte c < 0x20 then
        backslash # ''u00'' @ [hex_digit (byte c div 16), hex_digit (byte c mod 16)]
      else [c])"

definition json_escape :: "string \<Rightarrow> string" where
  "json_escape s = quote # concat (map escape_char s) @ [quote]"

subsection \<open>Values\<close>

datatype CanonicalValue =
    CanonicalValue_Str string
  | CanonicalValue_U64 "64 word"
  | CanonicalValue_Bool bool
  | CanonicalValue_Null
  | CanonicalValue_Array "CanonicalValue list"
  | CanonicalValue_Object "(string, CanonicalValue) btree_map"

text \<open>The flag of the two loops is \<open>index > 0\<close>.\<close>

fun write_canonical :: "CanonicalValue \<Rightarrow> string"
and write_entries :: "bool \<Rightarrow> CanonicalValue list \<Rightarrow> string"
and write_fields :: "bool \<Rightarrow> (string, CanonicalValue) btree_map \<Rightarrow> string" where
  "write_canonical (CanonicalValue_Str s) = json_escape s"
| "write_canonical (CanonicalValue_U64 n) = show_nat (unat n)"
| "write_canonical (CanonicalValue_Bool b) = (if b then ''true'' else ''false'')"
| "write_canonical CanonicalValue_Null = ''null''"
| "write_canonical (CanonicalValue_Array entries) = ''['' @ write_entries False entries @ '']''"
| "write_canonical (CanonicalValue_Object entries) = ''{'' @ write_fields False entries @ ''}''"
| "write_entries comma [] = []"
| "write_entries comma (entry # entries) =
     (if comma then '','' else []) @ write_canonical entry @ write_entries True entries"
| "write_fields comma [] = []"
| "write_fields comma ((key, v) # entries) =
     (if comma then '','' else []) @ json_escape key @ '':'' @ write_canonical v
       @ write_fields True entries"

definition canonicalize :: "CanonicalValue \<Rightarrow> string" where
  "canonicalize v = write_canonical v"

text \<open>\<open>BTreeMap::from\<close> on the pairs of a payload.\<close>

definition object :: "(string \<times> CanonicalValue) list \<Rightarrow> CanonicalValue" where
  "object es = CanonicalValue_Object (bm_of_list [] es)"

definition artifact_domain :: "string \<Rightarrow> 64 word \<Rightarrow> string \<Rightarrow> string" where
  "artifact_domain artifact_type schema_version payload =
     ''siralos:'' @ artifact_type @ '':v'' @ show_nat (unat schema_version) @ [CHR 0x00] @ payload"

definition artifact_digest_hex :: "string \<Rightarrow> 64 word \<Rightarrow> string \<Rightarrow> string" where
  "artifact_digest_hex artifact_type schema_version payload =
     sha256_hex (as_bytes (artifact_domain artifact_type schema_version payload))"

definition sha256_hex_str :: "string \<Rightarrow> string" where
  "sha256_hex_str text = sha256_hex (as_bytes text)"

subsection \<open>Escaped strings can be read back\<close>

definition hex_value :: "char \<Rightarrow> nat" where
  "hex_value c = (if byte c < 58 then byte c - 48 else byte c - 87)"

lemma hex_value_hex_digit [simp]: "n < 16 \<Longrightarrow> hex_value (hex_digit n) = n"
  by (auto simp: hex_value_def hex_digit_def byte_def)

text \<open>The reader of one escaped character, the inverse of \<open>escape_char\<close>.\<close>

definition unescape_char :: "string \<Rightarrow> char \<times> string" where
  "unescape_char s =
     (if hd s \<noteq> backslash then (hd s, tl s)
      else let e = s ! 1; rest = drop 2 s in
        if e = CHR ''b'' then (CHR 0x08, rest)
        else if e = CHR ''f'' then (CHR 0x0C, rest)
        else if e = CHR ''n'' then (CHR 0x0A, rest)
        else if e = CHR ''r'' then (CHR 0x0D, rest)
        else if e = CHR ''t'' then (CHR 0x09, rest)
        else if e = CHR ''u'' then (char_of (16 * hex_value (s ! 4) + hex_value (s ! 5)), drop 6 s)
        else (e, rest))"

lemma byte_less_256: "byte c < 256"
  by (simp add: byte_def)

lemma char_of_byte [simp]: "char_of (byte c) = c"
  by (simp add: byte_def)

definition short_escapes :: "char list" where
  "short_escapes = [quote, backslash, CHR 0x08, CHR 0x0C, CHR 0x0A, CHR 0x0D, CHR 0x09]"

lemma unescape_escape: "unescape_char (escape_char c @ r) = (c, r)"
proof (cases "c \<in> set short_escapes")
  case True
  then show ?thesis
    by (auto simp: short_escapes_def unescape_char_def escape_char_def quote_def backslash_def)
next
  case False
  then have plain: "escape_char c = (if byte c < 0x20 then
      backslash # ''u00'' @ [hex_digit (byte c div 16), hex_digit (byte c mod 16)] else [c])"
    by (simp add: escape_char_def short_escapes_def)
  show ?thesis
  proof (cases "byte c < 0x20")
    case True
    have "16 * (byte c div 16) + byte c mod 16 = byte c"
      by simp
    moreover have "byte c div 16 < 16" "byte c mod 16 < 16"
      using byte_less_256 [of c] by auto
    ultimately show ?thesis
      using True by (simp add: plain unescape_char_def)
  next
    case control: False
    with False show ?thesis
      by (simp add: plain unescape_char_def short_escapes_def)
  qed
qed

lemma escape_char_prefix_free:
  "escape_char c @ r = escape_char d @ r' \<Longrightarrow> c = d \<and> r = r'"
  by (metis unescape_escape prod.inject)

lemma escape_char_shape: "\<exists>x xs. escape_char c = x # xs \<and> x \<noteq> quote"
  by (auto simp: escape_char_def quote_def backslash_def)

lemma escaped_unambiguous:
  "concat (map escape_char s) @ quote # r = concat (map escape_char t) @ quote # r' \<Longrightarrow> s = t \<and> r = r'"
proof (induction s arbitrary: t)
  case Nil
  then show ?case
    using escape_char_shape [of "hd t"] by (cases t) auto
next
  case (Cons c s)
  obtain d t' where t: "t = d # t'"
    using Cons.prems escape_char_shape [of c] by (cases t) auto
  with Cons.prems have "escape_char c @ (concat (map escape_char s) @ quote # r)
      = escape_char d @ (concat (map escape_char t') @ quote # r')"
    by simp
  from escape_char_prefix_free [OF this] Cons.IH t show ?case
    by blast
qed

lemma json_escape_unambiguous: "json_escape s @ r = json_escape t @ r' \<Longrightarrow> s = t \<and> r = r'"
  using escaped_unambiguous [of s r t r'] by (simp add: json_escape_def)

subsection \<open>Canonical text determines the value\<close>

text \<open>A number ends where the next byte is no digit; every other value ends by itself.\<close>

definition stops :: "string \<Rightarrow> bool" where
  "stops r \<longleftrightarrow> r = [] \<or> \<not> is_ascii_digit (hd r)"

lemma stops_simps [simp]:
  "stops []"
  "stops (c # r) \<longleftrightarrow> \<not> is_ascii_digit c"
  by (simp_all add: stops_def)

lemma takeWhile_digits: "list_all P s \<Longrightarrow> r = [] \<or> \<not> P (hd r) \<Longrightarrow> takeWhile P (s @ r) = s"
  by (induction s) (auto simp: takeWhile_eq_Nil_iff)

lemma show_nat_unambiguous:
  assumes "show_nat m @ r = show_nat n @ r'" and "stops r" and "stops r'"
  shows "m = n \<and> r = r'"
proof -
  have "takeWhile is_ascii_digit (show_nat m @ r) = show_nat m"
    "takeWhile is_ascii_digit (show_nat n @ r') = show_nat n"
    using assms(2,3) by (simp_all add: takeWhile_digits show_nat_digits stops_def)
  with assms(1) show ?thesis
    by (metis same_append_eq show_nat_inject)
qed

text \<open>The first byte tells the constructor.\<close>

fun first_byte :: "CanonicalValue \<Rightarrow> char \<Rightarrow> bool" where
  "first_byte (CanonicalValue_Str _) c \<longleftrightarrow> c = quote"
| "first_byte (CanonicalValue_U64 _) c \<longleftrightarrow> is_ascii_digit c"
| "first_byte (CanonicalValue_Bool b) c \<longleftrightarrow> c = (if b then CHR ''t'' else CHR ''f'')"
| "first_byte CanonicalValue_Null c \<longleftrightarrow> c = CHR ''n''"
| "first_byte (CanonicalValue_Array _) c \<longleftrightarrow> c = CHR ''[''"
| "first_byte (CanonicalValue_Object _) c \<longleftrightarrow> c = CHR ''{''"

lemma show_nat_first: "\<exists>x xs. show_nat n = x # xs \<and> is_ascii_digit x"
  using show_nat_digits [of n] by (cases "show_nat n") auto

lemma write_canonical_first: "\<exists>x xs. write_canonical v = x # xs \<and> first_byte v x"
  using show_nat_first by (cases v) (auto simp: json_escape_def)

lemma quote_not_digit [simp]: "\<not> is_ascii_digit quote"
  by (simp add: quote_def ascii_defs)

lemma write_entries_first:
  assumes "write_entries f es @ CHR '']'' # r = write_entries f es' @ CHR '']'' # r'" and "es = []"
  shows "es' = []"
proof (cases es')
  case (Cons e es'')
  obtain x xs where "write_canonical e = x # xs" "first_byte e x"
    using write_canonical_first by blast
  with assms Cons show ?thesis
    by (cases e) (auto simp: quote_def ascii_defs split: if_splits)
qed simp

lemma write_fields_first:
  assumes "write_fields f es @ CHR ''}'' # r = write_fields f es' @ CHR ''}'' # r'" and "es = []"
  shows "es' = []"
  using assms by (cases es') (auto simp: json_escape_def quote_def split: if_splits)

fun value_kind :: "CanonicalValue \<Rightarrow> nat" where
  "value_kind (CanonicalValue_Str _) = 0"
| "value_kind (CanonicalValue_U64 _) = 1"
| "value_kind (CanonicalValue_Bool b) = (if b then 2 else 3)"
| "value_kind CanonicalValue_Null = 4"
| "value_kind (CanonicalValue_Array _) = 5"
| "value_kind (CanonicalValue_Object _) = 6"

lemma first_byte_kind: "first_byte v x \<Longrightarrow> first_byte w x \<Longrightarrow> value_kind v = value_kind w"
  by (cases v; cases w) (auto simp: quote_def ascii_defs split: if_splits)

lemma same_kind: "write_canonical v @ r = write_canonical w @ r' \<Longrightarrow> value_kind v = value_kind w"
  using write_canonical_first [of v] write_canonical_first [of w]
  by (elim exE conjE, intro first_byte_kind) simp_all

lemma entries_rest_stops: "stops (write_entries True es @ CHR '']'' # r)"
  by (cases es) (simp_all add: ascii_defs)

lemma fields_rest_stops: "stops (write_fields True fs @ CHR ''}'' # r)"
  by (cases fs) (auto simp add: ascii_defs)

lemma write_unambiguous:
  shows "\<And>w r r'. write_canonical v @ r = write_canonical w @ r' \<Longrightarrow> stops r \<Longrightarrow> stops r' \<Longrightarrow> v = w \<and> r = r'"
    and "\<And>es' r r'. write_entries f es @ CHR '']'' # r = write_entries f es' @ CHR '']'' # r'
           \<Longrightarrow> es = es' \<and> r = r'"
    and "\<And>fs' r r'. write_fields g fs @ CHR ''}'' # r = write_fields g fs' @ CHR ''}'' # r'
           \<Longrightarrow> fs = fs' \<and> r = r'"
proof (induction v and f es and g fs rule: write_canonical_write_entries_write_fields.induct)
  case (1 s)
  with same_kind [OF "1.prems"(1)] show ?case
    by (cases w) (auto dest: json_escape_unambiguous split: if_splits)
next
  case (2 n)
  with same_kind [OF "2.prems"(1)] show ?case
    by (cases w) (auto dest!: show_nat_unambiguous intro: unsigned_word_eqI split: if_splits)
next
  case (3 b)
  with same_kind [OF "3.prems"(1)] show ?case
    by (cases w) (auto split: if_splits)
next
  case 4
  with same_kind [OF "4.prems"(1)] show ?case
    by (cases w) (auto split: if_splits)
next
  case (5 entries)
  obtain entries' where "w = CanonicalValue_Array entries'"
    using same_kind [OF "5.prems"(1)] by (cases w) (auto split: if_splits)
  with "5.prems"(1) "5.IH" [of r entries' r'] show ?case
    by simp
next
  case (6 entries)
  obtain entries' where "w = CanonicalValue_Object entries'"
    using same_kind [OF "6.prems"(1)] by (cases w) (auto split: if_splits)
  with "6.prems"(1) "6.IH" [of r entries' r'] show ?case
    by simp
next
  case (7 comma)
  then show ?case
    using write_entries_first [OF "7.prems"] by simp
next
  case (8 comma entry entries)
  obtain e es'' where es': "es' = e # es''"
    using "8.prems" write_entries_first [OF "8.prems" [symmetric]] by (cases es') auto
  with "8.prems" have "write_canonical entry @ (write_entries True entries @ CHR '']'' # r)
      = write_canonical e @ (write_entries True es'' @ CHR '']'' # r')"
    by simp
  from "8.IH"(1) [OF this] "8.IH"(2) [of r es'' r'] es' show ?case
    by (simp add: entries_rest_stops)
next
  case (9 comma)
  then show ?case
    using write_fields_first [OF "9.prems"] by simp
next
  case (10 comma key v entries)
  obtain k u fs'' where fs': "fs' = (k, u) # fs''"
    using "10.prems" write_fields_first [OF "10.prems" [symmetric]] by (cases fs') auto
  with "10.prems" have "json_escape key @ ('':'' @ write_canonical v @ write_fields True entries @ CHR ''}'' # r)
      = json_escape k @ ('':'' @ write_canonical u @ write_fields True fs'' @ CHR ''}'' # r')"
    by simp
  from json_escape_unambiguous [OF this]
  have "key = k" and "write_canonical v @ (write_fields True entries @ CHR ''}'' # r)
      = write_canonical u @ (write_fields True fs'' @ CHR ''}'' # r')"
    by simp_all
  with "10.IH"(1) [OF this(2)] "10.IH"(2) [of r fs'' r'] fs' show ?case
    by (simp add: fields_rest_stops)
qed

lemma canonicalize_inject: "canonicalize v = canonicalize w \<longleftrightarrow> v = w"
  using write_unambiguous(1) [of v "[]" w "[]"] by (auto simp: canonicalize_def)

lemma object_permute:
  assumes "distinct (map fst es)" and "set es = set fs" and "distinct (map fst fs)"
  shows "object es = object fs"
proof -
  have "map_of (rev es) = map_of (rev fs)"
    using assms by (intro map_of_eqI) (auto simp: map_of_eq_Some_iff rev_map [symmetric])
  then have "bm_get (bm_of_list [] es) = bm_get (bm_of_list [] fs)"
    by (simp add: bm_get_of_list fun_eq_iff)
  then show ?thesis
    by (simp add: object_def bm_wf_eqI bm_wf_of_list)
qed

lemma artifact_domain_inject:
  assumes "CHR '':'' \<notin> set t" and "CHR '':'' \<notin> set t'"
    and "artifact_domain t v p = artifact_domain t' v' p'"
  shows "t = t' \<and> v = v' \<and> p = p'"
proof -
  have "takeWhile (\<lambda>c. c \<noteq> CHR '':'') (t @ '':'' @ s) = t" if "CHR '':'' \<notin> set t" for t s :: string
    using that by (induction t) auto
  then have "t = t'"
    using assms unfolding artifact_domain_def by (metis append.assoc append_Cons append_Nil same_append_eq)
  with assms(3) have "show_nat (unat v) @ CHR 0x00 # p = show_nat (unat v') @ CHR 0x00 # p'"
    by (simp add: artifact_domain_def)
  from show_nat_unambiguous [OF this] \<open>t = t'\<close> show ?thesis
    by (auto simp: ascii_defs intro: unsigned_word_eqI)
qed

subsection \<open>Properties\<close>

text \<open>
  C22.  Canonical bytes are content identity: two values serialise to the same bytes exactly
  when they are the same value, and the order in which the fields of an object were
  inserted does not show in them.
\<close>

theorem canonical_identity:
  assumes "distinct (map fst es)" and "distinct (map fst fs)" and "set es = set fs"
  shows "(canonicalize v = canonicalize w \<longleftrightarrow> v = w)
    \<and> canonicalize (object es) = canonicalize (object fs)"
  using canonicalize_inject object_permute [OF assms(1,3,2)] by simp

theorem canonical_identity_witness:
  "canonicalize (object [(''z'', CanonicalValue_U64 1), (''a'', CanonicalValue_Null)])
     = canonicalize (object [(''a'', CanonicalValue_Null), (''z'', CanonicalValue_U64 1)])"
  using canonical_identity [of "[(''z'', CanonicalValue_U64 1), (''a'', CanonicalValue_Null)]"
      "[(''a'', CanonicalValue_Null), (''z'', CanonicalValue_U64 1)]"] by auto

end
