(* ===== verification/Artifact.thy ===== *)
theory Artifact
  imports Canonical "HOL-Library.Multiset"
begin

text \<open>
  Typed artifact digests, semantic deltas and staleness (\<open>identity/artifact.rs\<close>,
  \<open>identity/staleness.rs\<close>).  Shown: the digest preimage separates artifact types, schema
  versions and payloads; a computed digest passes validation; the item delta partitions the
  ids of both lists; the list digest ignores the order of items with distinct ids; a
  staleness rule fires exactly on two present and different digests.
\<close>

definition ARTIFACT_DIGEST_ALGORITHM :: string where
  "ARTIFACT_DIGEST_ALGORITHM = ''sha256''"

datatype ArtifactIdentityError = ArtifactIdentityError (message: string)

definition is_valid_artifact_type :: "string \<Rightarrow> bool" where
  "is_valid_artifact_type artifact_type =
     (if artifact_type = [] \<or> 64 < length artifact_type \<or> \<not> is_ascii_alphabetic (hd artifact_type)
      then False
      else list_all (\<lambda>c. is_ascii_alphanumeric c \<or> c \<in> set ''._-'') (tl artifact_type))"

definition is_sha256_hex :: "string \<Rightarrow> bool" where
  "is_sha256_hex v \<longleftrightarrow> length v = 64 \<and> list_all is_lower_hex v"

record ArtifactDigest =
  algorithm :: string
  artifact_type :: string
  schema_version :: "64 word"
  digest_value :: string

definition canonical_artifact_payload ::
    "string \<Rightarrow> 64 word \<Rightarrow> CanonicalValue \<Rightarrow> ArtifactIdentityError + string" where
  "canonical_artifact_payload ty version payload =
     (if \<not> is_valid_artifact_type ty then
        Err (ArtifactIdentityError (''Invalid artifact type: '' @ ty))
      else if version < 1 then
        Err (ArtifactIdentityError ''An artifact schema version must be a positive safe integer.'')
      else Ok (''siralos:'' @ ty @ '':v'' @ show_nat (unat version) @ [CHR 0x00]
             @ canonicalize payload))"

definition compute_artifact_digest_hex ::
    "string \<Rightarrow> 64 word \<Rightarrow> CanonicalValue \<Rightarrow> ArtifactIdentityError + string" where
  "compute_artifact_digest_hex ty version payload =
     result_bind (canonical_artifact_payload ty version payload) (\<lambda>s. Ok (sha256_hex (as_bytes s)))"

definition compute_artifact_digest ::
    "string \<Rightarrow> 64 word \<Rightarrow> CanonicalValue \<Rightarrow> ArtifactIdentityError + ArtifactDigest" where
  "compute_artifact_digest ty version payload =
     result_bind (compute_artifact_digest_hex ty version payload) (\<lambda>v.
       Ok \<lparr> algorithm = ARTIFACT_DIGEST_ALGORITHM, artifact_type = ty, schema_version = version,
            digest_value = v \<rparr>)"

definition validate_artifact_digest :: "ArtifactDigest \<Rightarrow> ArtifactIdentityError + ArtifactDigest" where
  "validate_artifact_digest digest =
     (if algorithm digest \<noteq> ARTIFACT_DIGEST_ALGORITHM then
        Err (ArtifactIdentityError (''Unsupported digest algorithm: '' @ algorithm digest))
      else if \<not> is_valid_artifact_type (artifact_type digest) then
        Err (ArtifactIdentityError (''Invalid artifact type: '' @ artifact_type digest))
      else if schema_version digest < 1 then
        Err (ArtifactIdentityError ''An artifact schema version must be a positive safe integer.'')
      else if \<not> is_sha256_hex (digest_value digest) then
        Err (ArtifactIdentityError ''An artifact digest value must be 64 lowercase hex characters.'')
      else Ok digest)"

definition digest_reference :: "ArtifactDigest \<Rightarrow> string" where
  "digest_reference digest = algorithm digest @ '':'' @ digest_value digest"

text \<open>\<open>chars().take(n)\<close>; a digest is ASCII, where a character is a byte.\<close>

definition abbreviate_hex_digest :: "string \<Rightarrow> nat \<Rightarrow> string" where
  "abbreviate_hex_digest v prefix_length = take prefix_length v"

definition abbreviate_digest :: "ArtifactDigest \<Rightarrow> nat \<Rightarrow> string" where
  "abbreviate_digest digest prefix_length = abbreviate_hex_digest (digest_value digest) prefix_length"

definition canonical_values_equal :: "CanonicalValue \<Rightarrow> CanonicalValue \<Rightarrow> bool" where
  "canonical_values_equal left right \<longleftrightarrow> canonicalize left = canonicalize right"

record SectionDelta =
  section_changed :: "string list"
  section_unchanged :: "string list"

definition get_or_null :: "(string, CanonicalValue) btree_map \<Rightarrow> string \<Rightarrow> CanonicalValue" where
  "get_or_null m key = (case bm_get m key of Some v \<Rightarrow> v | None \<Rightarrow> CanonicalValue_Null)"

fun section_loop ::
    "(string, CanonicalValue) btree_map \<Rightarrow> (string, CanonicalValue) btree_map \<Rightarrow> string list
      \<Rightarrow> string list \<Rightarrow> string list \<Rightarrow> string list \<times> string list" where
  "section_loop base result [] changed unchanged = (changed, unchanged)"
| "section_loop base result (key # keys) changed unchanged =
     (if canonical_values_equal (get_or_null base key) (get_or_null result key)
      then section_loop base result keys changed (unchanged @ [key])
      else section_loop base result keys (changed @ [key]) unchanged)"

definition compute_section_delta ::
    "(string, CanonicalValue) btree_map \<Rightarrow> (string, CanonicalValue) btree_map \<Rightarrow> string list
      \<Rightarrow> SectionDelta" where
  "compute_section_delta base result section_keys =
     (let (changed, unchanged) = section_loop base result section_keys [] []
      in \<lparr> section_changed = changed, section_unchanged = unchanged \<rparr>)"

fun extract_item_id :: "CanonicalValue \<Rightarrow> string option" where
  "extract_item_id (CanonicalValue_Object m) =
     (case bm_get m ''id'' of Some (CanonicalValue_Str i) \<Rightarrow> Some i | _ \<Rightarrow> None)"
| "extract_item_id _ = None"

definition missing_id :: ArtifactIdentityError where
  "missing_id = ArtifactIdentityError ''Every list item must carry a string id.''"

fun build_map ::
    "string list \<Rightarrow> (string, CanonicalValue) btree_map \<Rightarrow> CanonicalValue list
      \<Rightarrow> ArtifactIdentityError + string list \<times> (string, CanonicalValue) btree_map" where
  "build_map order m [] = Ok (order, m)"
| "build_map order m (item # items) =
     (case extract_item_id item of
        None \<Rightarrow> Err missing_id
      | Some i \<Rightarrow> build_map (if bm_get m i = None then order @ [i] else order) (bm_insert i item m) items)"

record ItemListDelta =
  delta_added :: "string list"
  delta_removed :: "string list"
  delta_changed :: "string list"
  delta_unchanged :: "string list"

fun compare_loop ::
    "(string, CanonicalValue) btree_map \<Rightarrow> (string, CanonicalValue) btree_map \<Rightarrow> string list
      \<Rightarrow> string list \<Rightarrow> string list \<Rightarrow> string list \<times> string list" where
  "compare_loop base_map result_map [] changed unchanged = (changed, unchanged)"
| "compare_loop base_map result_map (i # is) changed unchanged =
     (case bm_get result_map i of
        None \<Rightarrow> compare_loop base_map result_map is changed unchanged
      | Some result_item \<Rightarrow>
          if canonical_values_equal (the (bm_get base_map i)) result_item
          then compare_loop base_map result_map is changed (unchanged @ [i])
          else compare_loop base_map result_map is (changed @ [i]) unchanged)"

definition compute_item_list_delta ::
    "CanonicalValue list \<Rightarrow> CanonicalValue list \<Rightarrow> ArtifactIdentityError + ItemListDelta" where
  "compute_item_list_delta base result =
     result_bind (build_map [] [] base) (\<lambda>(base_order, base_map).
     result_bind (build_map [] [] result) (\<lambda>(result_order, result_map).
       let added = filter (\<lambda>i. bm_get base_map i = None) result_order;
           removed = filter (\<lambda>i. bm_get result_map i = None) base_order;
           (changed, unchanged) = compare_loop base_map result_map base_order [] []
       in Ok \<lparr> delta_added = added, delta_removed = removed, delta_changed = changed,
               delta_unchanged = unchanged \<rparr>))"

fun item_entries :: "CanonicalValue list \<Rightarrow> ArtifactIdentityError + (string \<times> string) list" where
  "item_entries [] = Ok []"
| "item_entries (item # items) =
     (case extract_item_id item of
        None \<Rightarrow> Err missing_id
      | Some i \<Rightarrow> result_bind (item_entries items) (\<lambda>es. Ok ((i, canonicalize item) # es)))"

definition item_list_payload :: "(string \<times> string) list \<Rightarrow> CanonicalValue" where
  "item_list_payload entries =
     CanonicalValue_Array (map (\<lambda>(i, v). object
       [(''id'', CanonicalValue_Str i), (''value'', CanonicalValue_Str v)]) (sort_key fst entries))"

definition digest_item_list :: "CanonicalValue list \<Rightarrow> ArtifactIdentityError + string" where
  "digest_item_list items =
     result_bind (item_entries items) (\<lambda>entries.
       Ok (sha256_hex (as_bytes (canonicalize (item_list_payload entries)))))"

subsection \<open>Staleness\<close>

record IdentityStalenessInput =
  contract_digest_now :: "string option"
  plan_contract_digest :: "string option"
  guidance_digest :: "string option"
  prior_guidance_digest :: "string option"
  changeset_digest :: "string option"
  review_input_changeset_digest :: "string option"
  validation_evidence_digest :: "string option"
  accepted_evidence_digest :: "string option"

record IdentityStaleness =
  plan_potentially_stale :: bool
  execution_context_potentially_stale :: bool
  review_stale :: bool
  acceptance_requires_reevaluation :: bool
  stale_reasons :: "string list"

fun drifted :: "string option \<Rightarrow> string option \<Rightarrow> bool" where
  "drifted (Some current) (Some recorded) \<longleftrightarrow> current \<noteq> recorded"
| "drifted _ _ \<longleftrightarrow> False"

definition derive_identity_staleness :: "IdentityStalenessInput \<Rightarrow> IdentityStaleness" where
  "derive_identity_staleness input =
     (let plan_stale = drifted (contract_digest_now input) (plan_contract_digest input);
          context_stale = drifted (guidance_digest input) (prior_guidance_digest input);
          rev_stale = drifted (changeset_digest input) (review_input_changeset_digest input);
          acceptance = drifted (validation_evidence_digest input) (accepted_evidence_digest input)
      in \<lparr> plan_potentially_stale = plan_stale,
           execution_context_potentially_stale = context_stale,
           review_stale = rev_stale,
           acceptance_requires_reevaluation = acceptance,
           stale_reasons =
             (if plan_stale then [''TaskContract content digest changed since the plan was created; the plan is potentially stale.''] else [])
             @ (if context_stale then [''Guidance digest changed; planning/execution context may be stale.''] else [])
             @ (if rev_stale then [''The reviewed changeset content changed; the previous review no longer applies.''] else [])
             @ (if acceptance then [''Validation evidence changed; acceptance must be reevaluated against the current evidence set.''] else []) \<rparr>)"

subsection \<open>Domain separation\<close>

lemma valid_artifact_type_no_colon: "is_valid_artifact_type t \<Longrightarrow> CHR '':'' \<notin> set t"
  by (cases t) (auto simp: is_valid_artifact_type_def list_all_iff ascii_defs split: if_splits)

lemma canonical_artifact_payload_Ok_iff:
  "canonical_artifact_payload ty v p = Ok s \<longleftrightarrow>
     is_valid_artifact_type ty \<and> 1 \<le> v \<and> s = artifact_domain ty v (canonicalize p)"
proof -
  have "v < 1 \<longleftrightarrow> \<not> 1 \<le> v"
    by (simp only: not_le)
  then show ?thesis
    unfolding canonical_artifact_payload_def artifact_domain_def by auto
qed

lemma is_sha256_hex_digest [simp]: "is_sha256_hex (sha256_hex m)"
  by (simp add: is_sha256_hex_def sha256_hex_shape)

lemma compute_artifact_digest_Ok:
  "compute_artifact_digest ty v p = Ok d \<Longrightarrow>
     validate_artifact_digest d = Ok d \<and> artifact_type d = ty \<and> schema_version d = v
     \<and> digest_value d = artifact_digest_hex ty v (canonicalize p)"
  by (auto simp: compute_artifact_digest_def compute_artifact_digest_hex_def result_bind_Ok_iff
      canonical_artifact_payload_Ok_iff validate_artifact_digest_def artifact_digest_hex_def)

subsection \<open>Deltas\<close>

definition item_ids :: "CanonicalValue list \<Rightarrow> string set" where
  "item_ids items = {i. Some i \<in> extract_item_id ` set items}"

definition last_item :: "CanonicalValue list \<Rightarrow> string \<Rightarrow> CanonicalValue option" where
  "last_item items i = find (\<lambda>x. extract_item_id x = Some i) (rev items)"

lemma find_append: "find p (xs @ ys) = (case find p xs of Some x \<Rightarrow> Some x | None \<Rightarrow> find p ys)"
  by (induction xs) auto

lemma last_item_Cons:
  "last_item (x # xs) i = (case last_item xs i of Some y \<Rightarrow> Some y
     | None \<Rightarrow> if extract_item_id x = Some i then Some x else None)"
  by (simp add: last_item_def find_append split: option.splits)

lemma last_item_None_iff: "last_item items i = None \<longleftrightarrow> i \<notin> item_ids items"
  by (auto simp: last_item_def item_ids_def find_None_iff image_iff eq_commute [of "Some i"])

lemma build_map_Ok:
  assumes "build_map order m items = Ok (order', m')"
    and "distinct order" and "set order = dom (bm_get m)"
  shows "distinct order' \<and> set order' = dom (bm_get m')
    \<and> bm_get m' = (\<lambda>i. case last_item items i of Some x \<Rightarrow> Some x | None \<Rightarrow> bm_get m i)"
  using assms
proof (induction order m items rule: build_map.induct)
  case (1 order m)
  then show ?case
    by (auto simp: last_item_def)
next
  case (2 order m item items)
  then obtain i where i: "extract_item_id item = Some i"
    by (auto split: option.splits)
  let ?o = "if bm_get m i = None then order @ [i] else order"
  have "distinct ?o" "set ?o = dom (bm_get (bm_insert i item m))"
    using "2.prems" by (auto split: if_splits)
  moreover have "build_map ?o (bm_insert i item m) items = Ok (order', m')"
    using "2.prems" i by simp
  ultimately have "distinct order' \<and> set order' = dom (bm_get m')
      \<and> bm_get m' = (\<lambda>j. case last_item items j of Some x \<Rightarrow> Some x | None \<Rightarrow> bm_get (bm_insert i item m) j)"
    by (intro "2.IH" [OF i])
  moreover have "(\<lambda>j. case last_item items j of Some x \<Rightarrow> Some x | None \<Rightarrow> bm_get (bm_insert i item m) j)
      = (\<lambda>j. case last_item (item # items) j of Some x \<Rightarrow> Some x | None \<Rightarrow> bm_get m j)"
    using i by (auto simp: last_item_Cons fun_eq_iff split: option.splits)
  ultimately show ?case
    by simp
qed

lemma build_map_empty_Ok:
  assumes "build_map [] [] items = Ok (order, m)"
  shows "distinct order" and "set order = item_ids items" and "bm_get m = last_item items"
proof -
  have "set [] = dom (bm_get ([] :: (string, CanonicalValue) btree_map))"
    by (simp add: bm.get_empty)
  note built = build_map_Ok [OF assms distinct.simps(1) [THEN iffD2, OF TrueI] this]
  show "distinct order"
    using built by simp
  show get: "bm_get m = last_item items"
    using built by (simp add: fun_eq_iff split: option.splits)
  show "set order = item_ids items"
    using built get last_item_None_iff by (auto simp: dom_def)
qed

lemma canonical_values_equal_iff [simp]: "canonical_values_equal v w \<longleftrightarrow> v = w"
  by (simp add: canonical_values_equal_def canonicalize_inject)

lemma compare_loop_filter:
  "compare_loop b r is cs us =
     (cs @ filter (\<lambda>i. bm_get r i \<noteq> None \<and> bm_get r i \<noteq> Some (the (bm_get b i))) is,
      us @ filter (\<lambda>i. bm_get r i = Some (the (bm_get b i))) is)"
  by (induction b r "is" cs us rule: compare_loop.induct) (auto split: option.splits)

subsection \<open>The list digest\<close>

lemma item_entries_Ok_iff:
  "item_entries items = Ok es \<longleftrightarrow>
     (\<forall>x \<in> set items. extract_item_id x \<noteq> None)
     \<and> es = map (\<lambda>x. (the (extract_item_id x), canonicalize x)) items"
  by (induction items arbitrary: es) (auto simp: result_bind_Ok_iff split: option.splits)

lemma item_entries_Err:
  "\<not> (\<forall>x \<in> set items. extract_item_id x \<noteq> None) \<Longrightarrow> item_entries items = Err missing_id"
  by (induction items) (fastforce split: option.splits)+

lemma item_list_payload_permute:
  assumes "mset es = mset fs" and "distinct (map fst es)"
  shows "item_list_payload es = item_list_payload fs"
proof -
  have "sort_key fst es = sort_key fst fs"
    using assms by (intro sort_key_eq_sort_key) (simp_all add: distinct_map)
  then show ?thesis
    by (simp add: item_list_payload_def)
qed

subsection \<open>Properties\<close>

text \<open>
  C23.  Digests are domain-separated: accepted payload texts of two artifacts are equal only
  when artifact type, schema version and payload are all equal, and every digest the module
  computes is the domain-separated SHA-256 of that text and passes its own validation.
\<close>

theorem artifact_domain_separation:
  assumes "canonical_artifact_payload ty v p = Ok s" and "canonical_artifact_payload ty' v' p' = Ok s"
  shows "ty = ty' \<and> v = v' \<and> p = p' \<and>
    (\<exists>d. compute_artifact_digest ty v p = Ok d \<and> validate_artifact_digest d = Ok d
       \<and> digest_value d = artifact_digest_hex ty v (canonicalize p))"
proof -
  have valid: "is_valid_artifact_type ty" "is_valid_artifact_type ty'"
    and same: "artifact_domain ty v (canonicalize p) = artifact_domain ty' v' (canonicalize p')"
    using assms by (auto simp: canonical_artifact_payload_Ok_iff)
  obtain d where d: "compute_artifact_digest ty v p = Ok d"
    using assms(1) by (simp add: compute_artifact_digest_def compute_artifact_digest_hex_def)
  show ?thesis
    using artifact_domain_inject [OF valid [THEN valid_artifact_type_no_colon] same]
      compute_artifact_digest_Ok [OF d] d by (auto simp: canonicalize_inject)
qed

theorem artifact_domain_separation_witness:
  "\<exists>d. compute_artifact_digest ''TaskContract'' 1 CanonicalValue_Null = Ok d
     \<and> validate_artifact_digest d = Ok d"
proof -
  have "canonical_artifact_payload ''TaskContract'' 1 CanonicalValue_Null
      = Ok (artifact_domain ''TaskContract'' 1 (canonicalize CanonicalValue_Null))"
    by (simp add: canonical_artifact_payload_Ok_iff is_valid_artifact_type_def ascii_defs)
  from artifact_domain_separation [OF this this] show ?thesis
    by blast
qed

text \<open>
  The item delta of two id-keyed lists partitions their ids: added are those only in the
  result, removed those only in the base, and the ids of both are unchanged exactly when the
  last items carrying them are the same value; no id is reported twice.
\<close>

theorem item_list_delta_partition:
  assumes "compute_item_list_delta base result = Ok d"
  shows "set (delta_added d) = item_ids result - item_ids base
    \<and> set (delta_removed d) = item_ids base - item_ids result
    \<and> set (delta_unchanged d) = {i \<in> item_ids base. last_item base i = last_item result i}
    \<and> set (delta_changed d) = {i \<in> item_ids base \<inter> item_ids result. last_item base i \<noteq> last_item result i}
    \<and> distinct (delta_added d @ delta_removed d @ delta_changed d @ delta_unchanged d)"
proof -
  obtain bo bm ro rm where b: "build_map [] [] base = Ok (bo, bm)" and r: "build_map [] [] result = Ok (ro, rm)"
    using assms by (auto simp: compute_item_list_delta_def result_bind_Ok_iff)
  note b' = build_map_empty_Ok [OF b] and r' = build_map_empty_Ok [OF r]
  have ids: "i \<in> item_ids base \<longleftrightarrow> (\<exists>x. last_item base i = Some x)"
    "i \<in> item_ids result \<longleftrightarrow> (\<exists>x. last_item result i = Some x)" for i
    using last_item_None_iff by (metis not_None_eq)+
  have "d = \<lparr> delta_added = filter (\<lambda>i. last_item base i = None) ro,
      delta_removed = filter (\<lambda>i. last_item result i = None) bo,
      delta_changed = filter (\<lambda>i. last_item result i \<noteq> None \<and> last_item result i \<noteq> Some (the (last_item base i))) bo,
      delta_unchanged = filter (\<lambda>i. last_item result i = Some (the (last_item base i))) bo \<rparr>"
    using assms b r b'(3) r'(3) by (simp add: compute_item_list_delta_def compare_loop_filter)
  then show ?thesis
    using b'(1,2) r'(1,2) by (auto simp: ids eq_commute [of "Some _" "last_item _ _"])
qed

theorem item_list_delta_partition_witness:
  "\<exists>d. compute_item_list_delta [object [(''id'', CanonicalValue_Str ''a'')]]
          [object [(''id'', CanonicalValue_Str ''b'')]] = Ok d
     \<and> set (delta_added d) = {''b''} \<and> set (delta_removed d) = {''a''}"
proof -
  obtain d where d: "compute_item_list_delta [object [(''id'', CanonicalValue_Str ''a'')]]
      [object [(''id'', CanonicalValue_Str ''b'')]] = Ok d"
    by (simp add: compute_item_list_delta_def object_def bm_get_def)
  from item_list_delta_partition [OF this] d show ?thesis
    by (auto simp: item_ids_def object_def bm_get_def)
qed

text \<open>
  The digest of a list of items with pairwise distinct ids does not depend on their order.
\<close>

theorem digest_item_list_order_insensitive:
  assumes "mset items = mset items'" and "distinct (map extract_item_id items)"
  shows "digest_item_list items = digest_item_list items'"
proof (cases "\<forall>x \<in> set items. extract_item_id x \<noteq> None")
  case True
  let ?e = "\<lambda>x. (the (extract_item_id x), canonicalize x)"
  have ok: "item_entries items = Ok (map ?e items)" "item_entries items' = Ok (map ?e items')"
    using True mset_eq_setD [OF assms(1)] by (auto simp: item_entries_Ok_iff)
  have "distinct (map fst (map ?e items))"
  proof -
    have "inj_on (\<lambda>x. the (extract_item_id x)) (set items)"
    proof (rule inj_onI)
      fix x y
      assume xy: "x \<in> set items" "y \<in> set items" "the (extract_item_id x) = the (extract_item_id y)"
      with True have "extract_item_id x = extract_item_id y"
        by (intro option.expand) auto
      with xy assms(2) show "x = y"
        by (auto simp: distinct_map dest: inj_onD)
    qed
    with assms(2) show ?thesis
      by (simp add: distinct_map comp_def)
  qed
  moreover have "mset (map ?e items) = mset (map ?e items')"
    using assms(1) by simp
  ultimately show ?thesis
    using item_list_payload_permute [of "map ?e items" "map ?e items'"]
    by (simp add: digest_item_list_def ok)
next
  case False
  then have "item_entries items = Err missing_id" "item_entries items' = Err missing_id"
    using mset_eq_setD [OF assms(1)] item_entries_Err by auto
  then show ?thesis
    by (simp add: digest_item_list_def)
qed

theorem digest_item_list_order_insensitive_witness:
  "digest_item_list [object [(''id'', CanonicalValue_Str ''a'')], object [(''id'', CanonicalValue_Str ''b'')]]
   = digest_item_list [object [(''id'', CanonicalValue_Str ''b'')], object [(''id'', CanonicalValue_Str ''a'')]]"
  by (rule digest_item_list_order_insensitive) (auto simp: object_def bm_get_def)

end
