(* ===== verification/Contract.thy ===== *)
theory Contract
  imports Artifact
begin

text \<open>
  Revisioned task contracts (\<open>task/contract.rs\<close>): the entries, the validation of a whole
  shape, creation, revision, the canonical content payload and the content digest.  Shown:
  exactly which inputs are accepted and what is stored for them; every accepted contract is
  well formed; the payload determines the content; a revision keeps the id, advances the
  revision number by one and, when nothing is changed, keeps the digest.
\<close>

datatype VerificationKind =
  VerificationKind_Deterministic | VerificationKind_Review | VerificationKind_User

fun VerificationKind_as_str :: "VerificationKind \<Rightarrow> string" where
  "VerificationKind_as_str VerificationKind_Deterministic = ''deterministic''"
| "VerificationKind_as_str VerificationKind_Review = ''review''"
| "VerificationKind_as_str VerificationKind_User = ''user''"

datatype ConstraintKind =
  ConstraintKind_Scope | ConstraintKind_Process | ConstraintKind_Security | ConstraintKind_Escalation

fun ConstraintKind_as_str :: "ConstraintKind \<Rightarrow> string" where
  "ConstraintKind_as_str ConstraintKind_Scope = ''scope''"
| "ConstraintKind_as_str ConstraintKind_Process = ''process''"
| "ConstraintKind_as_str ConstraintKind_Security = ''security''"
| "ConstraintKind_as_str ConstraintKind_Escalation = ''escalation''"

datatype PausePolicy = PausePolicy_None | PausePolicy_OnApproval | PausePolicy_OnEscalation

fun PausePolicy_as_str :: "PausePolicy \<Rightarrow> string" where
  "PausePolicy_as_str PausePolicy_None = ''none''"
| "PausePolicy_as_str PausePolicy_OnApproval = ''on_approval''"
| "PausePolicy_as_str PausePolicy_OnEscalation = ''on_escalation''"

record AcceptanceCriterion =
  crit_id :: string
  crit_description :: string
  crit_verification_kind :: VerificationKind

record TaskConstraint =
  con_id :: string
  con_description :: string
  con_kind :: ConstraintKind

definition MAX_ID_BYTES :: nat where "MAX_ID_BYTES = 95"
definition MAX_REQUEST_BYTES :: nat where "MAX_REQUEST_BYTES = 16 * 1024"
definition MAX_CONTEXT_BYTES :: nat where "MAX_CONTEXT_BYTES = 32 * 1024"
definition MAX_CONSTRAINTS :: nat where "MAX_CONSTRAINTS = 32"
definition MAX_ACCEPTANCE_CRITERIA :: nat where "MAX_ACCEPTANCE_CRITERIA = 64"
definition MAX_ENTRY_ID_BYTES :: nat where "MAX_ENTRY_ID_BYTES = 64"
definition MAX_ENTRY_DESCRIPTION_BYTES :: nat where "MAX_ENTRY_DESCRIPTION_BYTES = 4096"

lemmas contract_limits =
  MAX_ID_BYTES_def MAX_REQUEST_BYTES_def MAX_CONTEXT_BYTES_def MAX_CONSTRAINTS_def
  MAX_ACCEPTANCE_CRITERIA_def MAX_ENTRY_ID_BYTES_def MAX_ENTRY_DESCRIPTION_BYTES_def

definition id_tail_char :: "char \<Rightarrow> bool" where
  "id_tail_char c \<longleftrightarrow>
     is_ascii_alphanumeric c \<or> c = CHR ''.'' \<or> c = CHR ''_'' \<or> c = CHR ''-''"

definition task_id_pattern_ok :: "string \<Rightarrow> bool" where
  "task_id_pattern_ok s =
     (if s = [] \<or> MAX_ID_BYTES < length s then False
      else if \<not> is_ascii_alphanumeric (hd s) then False
      else list_all id_tail_char (tl s))"

definition entry_id_pattern_ok :: "string \<Rightarrow> bool" where
  "entry_id_pattern_ok s =
     (if s = [] \<or> MAX_ENTRY_ID_BYTES < length s then False
      else if \<not> is_ascii_alphabetic (hd s) then False
      else list_all id_tail_char (tl s))"

datatype ContractError =
    ContractError_InvalidTaskContractId
  | ContractError_EmptyRequest
  | ContractError_RequestTooLarge
  | ContractError_InvalidRevision
  | ContractError_TooManyAcceptanceCriteria
  | ContractError_TooManyConstraints
  | ContractError_InvalidCriterionId
  | ContractError_DuplicateCriterionId
  | ContractError_EmptyCriterionDescription
  | ContractError_CriterionDescriptionTooLarge
  | ContractError_InvalidVerificationKind
  | ContractError_NoAcceptanceCriteria
  | ContractError_InvalidConstraintId
  | ContractError_DuplicateConstraintId
  | ContractError_EmptyConstraintDescription
  | ContractError_ConstraintDescriptionTooLarge
  | ContractError_InvalidConstraintKind
  | ContractError_InvalidPausePolicy
  | ContractError_ContextTooLarge
  | ContractError_RevisionIdMismatch

fun ContractError_code :: "ContractError \<Rightarrow> string" where
  "ContractError_code ContractError_InvalidTaskContractId = ''invalid_task_contract_id''"
| "ContractError_code ContractError_EmptyRequest = ''empty_request''"
| "ContractError_code ContractError_RequestTooLarge = ''request_too_large''"
| "ContractError_code ContractError_InvalidRevision = ''invalid_revision''"
| "ContractError_code ContractError_TooManyAcceptanceCriteria = ''too_many_acceptance_criteria''"
| "ContractError_code ContractError_TooManyConstraints = ''too_many_constraints''"
| "ContractError_code ContractError_InvalidCriterionId = ''invalid_criterion_id''"
| "ContractError_code ContractError_DuplicateCriterionId = ''duplicate_criterion_id''"
| "ContractError_code ContractError_EmptyCriterionDescription = ''empty_criterion_description''"
| "ContractError_code ContractError_CriterionDescriptionTooLarge = ''criterion_description_too_large''"
| "ContractError_code ContractError_InvalidVerificationKind = ''invalid_verification_kind''"
| "ContractError_code ContractError_NoAcceptanceCriteria = ''no_acceptance_criteria''"
| "ContractError_code ContractError_InvalidConstraintId = ''invalid_constraint_id''"
| "ContractError_code ContractError_DuplicateConstraintId = ''duplicate_constraint_id''"
| "ContractError_code ContractError_EmptyConstraintDescription = ''empty_constraint_description''"
| "ContractError_code ContractError_ConstraintDescriptionTooLarge = ''constraint_description_too_large''"
| "ContractError_code ContractError_InvalidConstraintKind = ''invalid_constraint_kind''"
| "ContractError_code ContractError_InvalidPausePolicy = ''invalid_pause_policy''"
| "ContractError_code ContractError_ContextTooLarge = ''context_too_large''"
| "ContractError_code ContractError_RevisionIdMismatch = ''revision_id_mismatch''"

fun ContractError_display :: "ContractError \<Rightarrow> string" where
  "ContractError_display ContractError_InvalidTaskContractId = ''Invalid task contract id''"
| "ContractError_display ContractError_EmptyRequest = ''A task contract requires a non-empty request.''"
| "ContractError_display ContractError_RequestTooLarge = ''A task contract request exceeds the UTF-8 byte bound.''"
| "ContractError_display ContractError_InvalidRevision = ''A task contract revision must be at least 1.''"
| "ContractError_display ContractError_TooManyAcceptanceCriteria = ''A task contract accepts at most 64 acceptance criteria.''"
| "ContractError_display ContractError_TooManyConstraints = ''A task contract accepts at most 32 constraints.''"
| "ContractError_display ContractError_InvalidCriterionId = ''Invalid acceptance criterion id''"
| "ContractError_display ContractError_DuplicateCriterionId = ''Duplicate acceptance criterion id''"
| "ContractError_display ContractError_EmptyCriterionDescription = ''An acceptance criterion requires a non-empty description.''"
| "ContractError_display ContractError_CriterionDescriptionTooLarge = ''An acceptance criterion description exceeds the byte bound.''"
| "ContractError_display ContractError_InvalidVerificationKind = ''An acceptance criterion has an invalid verification kind.''"
| "ContractError_display ContractError_NoAcceptanceCriteria = ''A task contract requires at least one acceptance criterion.''"
| "ContractError_display ContractError_InvalidConstraintId = ''Invalid task constraint id''"
| "ContractError_display ContractError_DuplicateConstraintId = ''Duplicate task constraint id''"
| "ContractError_display ContractError_EmptyConstraintDescription = ''A task constraint requires a non-empty description.''"
| "ContractError_display ContractError_ConstraintDescriptionTooLarge = ''A task constraint description exceeds the byte bound.''"
| "ContractError_display ContractError_InvalidConstraintKind = ''A task constraint has an invalid kind.''"
| "ContractError_display ContractError_InvalidPausePolicy = ''Invalid task pause policy''"
| "ContractError_display ContractError_ContextTooLarge = ''A task contract context exceeds the UTF-8 byte bound.''"
| "ContractError_display ContractError_RevisionIdMismatch = ''A task contract revision must preserve the contract id.''"

record CreateTaskContractInput =
  cti_id :: string
  cti_request :: string
  cti_context :: "string option"
  cti_constraints :: "TaskConstraint list option"
  cti_acceptance_criteria :: "AcceptanceCriterion list"
  cti_pause_policy :: "PausePolicy option"

datatype ReviseContext = ReviseContext_Keep | ReviseContext_Set string

record ReviseTaskContractInput =
  rti_id :: string
  rti_request :: "string option"
  rti_context :: "ReviseContext option"
  rti_constraints :: "TaskConstraint list option"
  rti_acceptance_criteria :: "AcceptanceCriterion list option"
  rti_pause_policy :: "PausePolicy option"

record TaskContract =
  tc_id :: string
  tc_revision :: nat
  tc_digest :: string
  tc_request :: string
  tc_context :: "string option"
  tc_constraints :: "TaskConstraint list"
  tc_acceptance_criteria :: "AcceptanceCriterion list"
  tc_pause_policy :: PausePolicy

definition validate_entry_description ::
    "string \<Rightarrow> ContractError \<Rightarrow> ContractError \<Rightarrow> ContractError + string" where
  "validate_entry_description description if_empty too_large =
     (let trimmed = trim description in
      if trimmed = [] then Err if_empty
      else if MAX_ENTRY_DESCRIPTION_BYTES < length trimmed then Err too_large
      else Ok trimmed)"

text \<open>The two loops of \<open>validate_shape\<close>; \<open>seen\<close> is the key set of the id map.\<close>

fun criteria_loop ::
    "string list \<Rightarrow> AcceptanceCriterion list \<Rightarrow> ContractError + AcceptanceCriterion list" where
  "criteria_loop seen [] = Ok []"
| "criteria_loop seen (criterion # rest) =
     (if \<not> entry_id_pattern_ok (crit_id criterion) then Err ContractError_InvalidCriterionId
      else if crit_id criterion \<in> set seen then Err ContractError_DuplicateCriterionId
      else result_bind
        (validate_entry_description (crit_description criterion)
          ContractError_EmptyCriterionDescription ContractError_CriterionDescriptionTooLarge)
        (\<lambda>description.
          result_bind (criteria_loop (crit_id criterion # seen) rest)
            (\<lambda>validated. Ok (criterion\<lparr>crit_description := description\<rparr> # validated))))"

fun constraints_loop ::
    "string list \<Rightarrow> TaskConstraint list \<Rightarrow> ContractError + TaskConstraint list" where
  "constraints_loop seen [] = Ok []"
| "constraints_loop seen (constraint # rest) =
     (if \<not> entry_id_pattern_ok (con_id constraint) then Err ContractError_InvalidConstraintId
      else if con_id constraint \<in> set seen then Err ContractError_DuplicateConstraintId
      else result_bind
        (validate_entry_description (con_description constraint)
          ContractError_EmptyConstraintDescription ContractError_ConstraintDescriptionTooLarge)
        (\<lambda>description.
          result_bind (constraints_loop (con_id constraint # seen) rest)
            (\<lambda>validated. Ok (constraint\<lparr>con_description := description\<rparr> # validated))))"

definition normalize_context :: "string option \<Rightarrow> ContractError + string option" where
  "normalize_context context =
     (case context of
        Some v \<Rightarrow>
          (let trimmed = trim v in
           if trimmed = [] then Ok None
           else if MAX_CONTEXT_BYTES < length trimmed then Err ContractError_ContextTooLarge
           else Ok (Some trimmed))
      | None \<Rightarrow> Ok None)"

definition criterion_payload :: "AcceptanceCriterion \<Rightarrow> CanonicalValue" where
  "criterion_payload criterion = object
     [(''description'', CanonicalValue_Str (crit_description criterion)),
      (''id'', CanonicalValue_Str (crit_id criterion)),
      (''verificationKind'', CanonicalValue_Str (VerificationKind_as_str (crit_verification_kind criterion)))]"

definition constraint_payload :: "TaskConstraint \<Rightarrow> CanonicalValue" where
  "constraint_payload constraint = object
     [(''description'', CanonicalValue_Str (con_description constraint)),
      (''id'', CanonicalValue_Str (con_id constraint)),
      (''kind'', CanonicalValue_Str (ConstraintKind_as_str (con_kind constraint)))]"

definition content_payload ::
    "string \<Rightarrow> string \<Rightarrow> string option \<Rightarrow> TaskConstraint list \<Rightarrow> AcceptanceCriterion list
      \<Rightarrow> PausePolicy \<Rightarrow> CanonicalValue" where
  "content_payload i request context constraints criteria pause_policy = object
     ([(''acceptanceCriteria'', CanonicalValue_Array (map criterion_payload criteria)),
       (''constraints'', CanonicalValue_Array (map constraint_payload constraints))]
      @ (case context of Some c \<Rightarrow> [(''context'', CanonicalValue_Str c)] | None \<Rightarrow> [])
      @ [(''id'', CanonicalValue_Str i),
         (''pausePolicy'', CanonicalValue_Str (PausePolicy_as_str pause_policy)),
         (''request'', CanonicalValue_Str request)])"

definition TASK_CONTRACT_IDENTITY_SCHEMA :: "64 word" where
  "TASK_CONTRACT_IDENTITY_SCHEMA = 1"

definition contract_digest :: "CanonicalValue \<Rightarrow> string" where
  "contract_digest payload =
     artifact_digest_hex ''TaskContract'' TASK_CONTRACT_IDENTITY_SCHEMA (canonicalize payload)"

definition validate_shape ::
    "string \<Rightarrow> string \<Rightarrow> string option \<Rightarrow> TaskConstraint list \<Rightarrow> AcceptanceCriterion list
      \<Rightarrow> PausePolicy \<Rightarrow> nat \<Rightarrow> ContractError + TaskContract" where
  "validate_shape i request context constraints acceptance_criteria pause_policy revision =
     (if \<not> task_id_pattern_ok i then Err ContractError_InvalidTaskContractId
      else if trim request = [] then Err ContractError_EmptyRequest
      else if MAX_REQUEST_BYTES < length (trim request) then Err ContractError_RequestTooLarge
      else if revision < 1 then Err ContractError_InvalidRevision
      else if MAX_ACCEPTANCE_CRITERIA < length acceptance_criteria then
        Err ContractError_TooManyAcceptanceCriteria
      else if MAX_CONSTRAINTS < length constraints then Err ContractError_TooManyConstraints
      else
        result_bind (criteria_loop [] acceptance_criteria) (\<lambda>criteria.
        if criteria = [] then Err ContractError_NoAcceptanceCriteria
        else
          result_bind (constraints_loop [] constraints) (\<lambda>validated_constraints.
          result_bind (normalize_context context) (\<lambda>context.
          Ok \<lparr> tc_id = i, tc_revision = revision,
               tc_digest = contract_digest (content_payload i (trim request) context
                 validated_constraints criteria pause_policy),
               tc_request = trim request, tc_context = context,
               tc_constraints = validated_constraints, tc_acceptance_criteria = criteria,
               tc_pause_policy = pause_policy \<rparr>))))"

definition TaskContract_create :: "CreateTaskContractInput \<Rightarrow> ContractError + TaskContract" where
  "TaskContract_create input =
     validate_shape (cti_id input) (cti_request input) (cti_context input)
       (case cti_constraints input of Some cs \<Rightarrow> cs | None \<Rightarrow> [])
       (cti_acceptance_criteria input)
       (case cti_pause_policy input of Some p \<Rightarrow> p | None \<Rightarrow> PausePolicy_None)
       1"

definition TaskContract_revise ::
    "TaskContract \<Rightarrow> ReviseTaskContractInput \<Rightarrow> ContractError + TaskContract" where
  "TaskContract_revise self changes =
     (if rti_id changes \<noteq> tc_id self then Err ContractError_RevisionIdMismatch
      else
        let context = (case rti_context changes of
              Some (ReviseContext_Set v) \<Rightarrow> Some v
            | Some ReviseContext_Keep \<Rightarrow> tc_context self
            | None \<Rightarrow> tc_context self)
        in validate_shape (rti_id changes)
             (case rti_request changes of Some r \<Rightarrow> r | None \<Rightarrow> tc_request self)
             context
             (case rti_constraints changes of Some cs \<Rightarrow> cs | None \<Rightarrow> tc_constraints self)
             (case rti_acceptance_criteria changes of Some cs \<Rightarrow> cs | None \<Rightarrow> tc_acceptance_criteria self)
             (case rti_pause_policy changes of Some p \<Rightarrow> p | None \<Rightarrow> tc_pause_policy self)
             (tc_revision self + 1))"

definition TaskContract_content_payload :: "TaskContract \<Rightarrow> CanonicalValue" where
  "TaskContract_content_payload self =
     content_payload (tc_id self) (tc_request self) (tc_context self) (tc_constraints self)
       (tc_acceptance_criteria self) (tc_pause_policy self)"

definition create_adhoc_task_contract :: "string \<Rightarrow> string \<Rightarrow> ContractError + TaskContract" where
  "create_adhoc_task_contract i request =
     TaskContract_create
       \<lparr> cti_id = i, cti_request = request, cti_context = None,
         cti_constraints = Some
           [\<lparr> con_id = ''workspace-scope'',
              con_description = ''Work is contained within the workspace root.'',
              con_kind = ConstraintKind_Scope \<rparr>],
         cti_acceptance_criteria =
           [\<lparr> crit_id = ''host-verified'',
              crit_description = ''The requested work is complete and verified by the host.'',
              crit_verification_kind = VerificationKind_User \<rparr>],
         cti_pause_policy = Some PausePolicy_None \<rparr>"

subsection \<open>What validation accepts\<close>

definition description_ok :: "string \<Rightarrow> bool" where
  "description_ok d \<longleftrightarrow> trim d \<noteq> [] \<and> length (trim d) \<le> MAX_ENTRY_DESCRIPTION_BYTES"

definition trim_criterion :: "AcceptanceCriterion \<Rightarrow> AcceptanceCriterion" where
  "trim_criterion c = c\<lparr>crit_description := trim (crit_description c)\<rparr>"

definition trim_constraint :: "TaskConstraint \<Rightarrow> TaskConstraint" where
  "trim_constraint c = c\<lparr>con_description := trim (con_description c)\<rparr>"

definition criteria_ok :: "AcceptanceCriterion list \<Rightarrow> bool" where
  "criteria_ok cs \<longleftrightarrow> distinct (map crit_id cs)
     \<and> list_all (\<lambda>c. entry_id_pattern_ok (crit_id c) \<and> description_ok (crit_description c)) cs"

definition constraints_ok :: "TaskConstraint list \<Rightarrow> bool" where
  "constraints_ok cs \<longleftrightarrow> distinct (map con_id cs)
     \<and> list_all (\<lambda>c. entry_id_pattern_ok (con_id c) \<and> description_ok (con_description c)) cs"

definition trim_context :: "string option \<Rightarrow> string option" where
  "trim_context ctx = (case ctx of Some v \<Rightarrow> if trim v = [] then None else Some (trim v) | None \<Rightarrow> None)"

definition context_ok :: "string option \<Rightarrow> bool" where
  "context_ok ctx \<longleftrightarrow> (case ctx of Some v \<Rightarrow> length (trim v) \<le> MAX_CONTEXT_BYTES | None \<Rightarrow> True)"

text \<open>The inputs the contract module accepts.\<close>

definition shape_ok ::
    "string \<Rightarrow> string \<Rightarrow> string option \<Rightarrow> TaskConstraint list \<Rightarrow> AcceptanceCriterion list \<Rightarrow> nat \<Rightarrow> bool" where
  "shape_ok i request context constraints criteria revision \<longleftrightarrow>
     task_id_pattern_ok i \<and> trim request \<noteq> [] \<and> length (trim request) \<le> MAX_REQUEST_BYTES
     \<and> 1 \<le> revision
     \<and> criteria \<noteq> [] \<and> length criteria \<le> MAX_ACCEPTANCE_CRITERIA \<and> criteria_ok criteria
     \<and> length constraints \<le> MAX_CONSTRAINTS \<and> constraints_ok constraints \<and> context_ok context"

text \<open>The value stored for an accepted input.\<close>

definition normalized ::
    "string \<Rightarrow> string \<Rightarrow> string option \<Rightarrow> TaskConstraint list \<Rightarrow> AcceptanceCriterion list
      \<Rightarrow> PausePolicy \<Rightarrow> nat \<Rightarrow> TaskContract" where
  "normalized i request context constraints criteria pause_policy revision =
     \<lparr> tc_id = i, tc_revision = revision,
       tc_digest = contract_digest (content_payload i (trim request) (trim_context context)
         (map trim_constraint constraints) (map trim_criterion criteria) pause_policy),
       tc_request = trim request, tc_context = trim_context context,
       tc_constraints = map trim_constraint constraints,
       tc_acceptance_criteria = map trim_criterion criteria, tc_pause_policy = pause_policy \<rparr>"

lemma validate_entry_description_Ok_iff [validator]:
  "validate_entry_description d e t = Ok r \<longleftrightarrow> r = trim d \<and> description_ok d"
  by (auto simp: validate_entry_description_def description_ok_def Let_def)

lemma criteria_loop_Ok_iff [validator]:
  "criteria_loop seen cs = Ok vs \<longleftrightarrow>
     criteria_ok cs \<and> set (map crit_id cs) \<inter> set seen = {} \<and> vs = map trim_criterion cs"
  by (induction seen cs arbitrary: vs rule: criteria_loop.induct)
    (auto simp: criteria_ok_def result_bind_Ok_iff validator trim_criterion_def)

lemma constraints_loop_Ok_iff [validator]:
  "constraints_loop seen cs = Ok vs \<longleftrightarrow>
     constraints_ok cs \<and> set (map con_id cs) \<inter> set seen = {} \<and> vs = map trim_constraint cs"
  by (induction seen cs arbitrary: vs rule: constraints_loop.induct)
    (auto simp: constraints_ok_def result_bind_Ok_iff validator trim_constraint_def)

lemma normalize_context_Ok_iff [validator]:
  "normalize_context ctx = Ok r \<longleftrightarrow> r = trim_context ctx \<and> context_ok ctx"
  by (auto simp: normalize_context_def trim_context_def context_ok_def Let_def split: option.splits)

lemma validate_shape_Ok_iff:
  "validate_shape i request context constraints criteria policy revision = Ok c \<longleftrightarrow>
     shape_ok i request context constraints criteria revision
     \<and> c = normalized i request context constraints criteria policy revision"
  by (auto simp: validate_shape_def shape_ok_def normalized_def result_bind_Ok_iff validator)

subsection \<open>Well-formed contracts\<close>

definition contract_wf :: "TaskContract \<Rightarrow> bool" where
  "contract_wf c \<longleftrightarrow>
     shape_ok (tc_id c) (tc_request c) (tc_context c) (tc_constraints c) (tc_acceptance_criteria c) (tc_revision c)
     \<and> trim (tc_request c) = tc_request c
     \<and> trim_context (tc_context c) = tc_context c
     \<and> map trim_constraint (tc_constraints c) = tc_constraints c
     \<and> map trim_criterion (tc_acceptance_criteria c) = tc_acceptance_criteria c
     \<and> tc_digest c = contract_digest (TaskContract_content_payload c)"

lemma trim_entries_idem [simp]:
  "trim_criterion (trim_criterion a) = trim_criterion a"
  "trim_constraint (trim_constraint b) = trim_constraint b"
  by (simp_all add: trim_criterion_def trim_constraint_def)

lemma trim_context_idem [simp]: "trim_context (trim_context ctx) = trim_context ctx"
  by (auto simp: trim_context_def split: option.splits)

lemma entries_ok_trim:
  "criteria_ok (map trim_criterion as) \<longleftrightarrow> criteria_ok as"
  "constraints_ok (map trim_constraint bs) \<longleftrightarrow> constraints_ok bs"
  by (simp_all add: criteria_ok_def constraints_ok_def trim_criterion_def trim_constraint_def
      description_ok_def list_all_iff comp_def)

lemma context_ok_trim: "context_ok ctx \<Longrightarrow> context_ok (trim_context ctx)"
  by (auto simp: context_ok_def trim_context_def split: option.splits)

lemma normalized_wf:
  "shape_ok i request context constraints criteria revision
     \<Longrightarrow> contract_wf (normalized i request context constraints criteria policy revision)"
  by (simp add: contract_wf_def normalized_def shape_ok_def entries_ok_trim context_ok_trim
      TaskContract_content_payload_def comp_def)

lemma validate_shape_wf: "validate_shape i r x ks cs p n = Ok c \<Longrightarrow> contract_wf c"
  by (auto simp: validate_shape_Ok_iff normalized_wf)

lemma validate_shape_again:
  assumes "contract_wf c" and "1 \<le> n"
  shows "validate_shape (tc_id c) (tc_request c) (tc_context c) (tc_constraints c)
    (tc_acceptance_criteria c) (tc_pause_policy c) n = Ok (c\<lparr>tc_revision := n\<rparr>)"
  using assms unfolding contract_wf_def
  by (cases c) (clarsimp simp: validate_shape_Ok_iff shape_ok_def normalized_def TaskContract_content_payload_def)

subsection \<open>The payload determines the content\<close>

lemma VerificationKind_as_str_inject [simp]: "VerificationKind_as_str a = VerificationKind_as_str b \<longleftrightarrow> a = b"
  by (cases a; cases b; simp)

lemma ConstraintKind_as_str_inject [simp]: "ConstraintKind_as_str a = ConstraintKind_as_str b \<longleftrightarrow> a = b"
  by (cases a; cases b; simp)

lemma PausePolicy_as_str_inject [simp]: "PausePolicy_as_str a = PausePolicy_as_str b \<longleftrightarrow> a = b"
  by (cases a; cases b; simp)

lemma criterion_payload_inject: "inj criterion_payload"
  by (rule injI) (simp add: criterion_payload_def object_def)

lemma constraint_payload_inject: "inj constraint_payload"
  by (rule injI) (simp add: constraint_payload_def object_def)

lemma content_payload_inject:
  "content_payload i r x ks cs p = content_payload i' r' x' ks' cs' p' \<longleftrightarrow>
     i = i' \<and> r = r' \<and> x = x' \<and> ks = ks' \<and> cs = cs' \<and> p = p'"
  by (cases x; cases x')
    (auto simp: content_payload_def object_def inj_map_eq_map criterion_payload_inject constraint_payload_inject)

text \<open>Validation itself never reports an id mismatch.\<close>

lemma loops_Err:
  "criteria_loop seen cs = Err e \<Longrightarrow> e \<noteq> ContractError_RevisionIdMismatch"
  "constraints_loop seen ks = Err e \<Longrightarrow> e \<noteq> ContractError_RevisionIdMismatch"
  "normalize_context x = Err e \<Longrightarrow> e \<noteq> ContractError_RevisionIdMismatch"
proof -
  show "criteria_loop seen cs = Err e \<Longrightarrow> e \<noteq> ContractError_RevisionIdMismatch"
    by (induction seen cs rule: criteria_loop.induct)
      (auto simp: result_bind_def validate_entry_description_def Let_def split: if_splits sum.splits)
  show "constraints_loop seen ks = Err e \<Longrightarrow> e \<noteq> ContractError_RevisionIdMismatch"
    by (induction seen ks rule: constraints_loop.induct)
      (auto simp: result_bind_def validate_entry_description_def Let_def split: if_splits sum.splits)
  show "normalize_context x = Err e \<Longrightarrow> e \<noteq> ContractError_RevisionIdMismatch"
    by (auto simp: normalize_context_def Let_def split: if_splits option.splits)
qed

lemma validate_shape_Err:
  "validate_shape i r x ks cs p n = Err e \<Longrightarrow> e \<noteq> ContractError_RevisionIdMismatch"
  by (auto simp: validate_shape_def result_bind_def dest: loops_Err split: if_splits sum.splits)

lemma normalized_sel [simp]:
  "tc_id (normalized i r x ks cs p n) = i"
  "tc_revision (normalized i r x ks cs p n) = n"
  by (simp_all add: normalized_def)

lemma TaskContract_revise_Ok:
  "TaskContract_revise c changes = Ok d \<Longrightarrow>
     contract_wf d \<and> tc_id d = tc_id c \<and> tc_revision d = tc_revision c + 1"
  by (auto simp: TaskContract_revise_def Let_def validate_shape_Ok_iff normalized_wf split: if_splits)

lemma TaskContract_revise_Err:
  "TaskContract_revise c changes = Err e \<Longrightarrow> rti_id changes = tc_id c \<Longrightarrow> e \<noteq> ContractError_RevisionIdMismatch"
  by (auto simp: TaskContract_revise_def Let_def dest: validate_shape_Err)

text \<open>A contract with one criterion, for the witnesses.\<close>

definition sample_criterion :: AcceptanceCriterion where
  "sample_criterion = \<lparr> crit_id = ''host-verified'', crit_description = ''Done.'',
     crit_verification_kind = VerificationKind_User \<rparr>"

definition sample_contract :: TaskContract where
  "sample_contract = normalized ''task-1'' ''fix'' None [] [sample_criterion] PausePolicy_None 1"

lemma sample_shape_ok: "shape_ok ''task-1'' ''fix'' None [] [sample_criterion] 1"
  by code_simp

lemma sample_contract_wf: "contract_wf sample_contract"
  unfolding sample_contract_def by (rule normalized_wf [OF sample_shape_ok])

subsection \<open>Properties\<close>

text \<open>
  A contract shape is accepted exactly when its id matches the pattern, the trimmed
  request is non-empty and within 16 KiB, there are 1 to 64 criteria and at most 32
  constraints with distinct valid ids and non-empty bounded descriptions, and the context
  fits 32 KiB; what is stored is the trimmed input, and it is well formed.
\<close>

theorem contract_acceptance_exact:
  "(\<exists>c. validate_shape i request context constraints criteria policy revision = Ok c)
     = shape_ok i request context constraints criteria revision
   \<and> (validate_shape i request context constraints criteria policy revision = Ok c) =
       (shape_ok i request context constraints criteria revision
        \<and> c = normalized i request context constraints criteria policy revision \<and> contract_wf c)"
  using validate_shape_Ok_iff validate_shape_wf by auto

text \<open>
  Digest preimages of contracts are content identity: two contracts have the same
  domain-separated payload text exactly when id, request, context, constraints, criteria and
  pause policy agree; the revision number takes no part in it.
\<close>

theorem contract_content_identity:
  "artifact_domain ''TaskContract'' TASK_CONTRACT_IDENTITY_SCHEMA (canonicalize (TaskContract_content_payload c))
     = artifact_domain ''TaskContract'' TASK_CONTRACT_IDENTITY_SCHEMA (canonicalize (TaskContract_content_payload d))
   \<longleftrightarrow> tc_id c = tc_id d \<and> tc_request c = tc_request d \<and> tc_context c = tc_context d
     \<and> tc_constraints c = tc_constraints d \<and> tc_acceptance_criteria c = tc_acceptance_criteria d
     \<and> tc_pause_policy c = tc_pause_policy d"
proof -
  have "artifact_domain ''TaskContract'' v s = artifact_domain ''TaskContract'' v t \<longleftrightarrow> s = t" for v s t
    by (simp add: artifact_domain_def)
  then show ?thesis
    by (simp add: canonicalize_inject TaskContract_content_payload_def content_payload_inject)
qed

text \<open>
  Revising a well-formed contract either fails or gives a well-formed contract with the
  same id and the next revision number; a revision that changes nothing always succeeds and
  keeps every other field, the digest included.
\<close>

theorem contract_revision:
  assumes "contract_wf c" and "rti_id changes = tc_id c"
  shows "(case TaskContract_revise c changes of
            Ok d \<Rightarrow> contract_wf d \<and> tc_id d = tc_id c \<and> tc_revision d = tc_revision c + 1
          | Err e \<Rightarrow> e \<noteq> ContractError_RevisionIdMismatch)
    \<and> TaskContract_revise c \<lparr> rti_id = tc_id c, rti_request = None, rti_context = None,
        rti_constraints = None, rti_acceptance_criteria = None, rti_pause_policy = None \<rparr>
      = Ok (c\<lparr>tc_revision := tc_revision c + 1\<rparr>)"
proof (intro conjI)
  show "case TaskContract_revise c changes of
            Ok d \<Rightarrow> contract_wf d \<and> tc_id d = tc_id c \<and> tc_revision d = tc_revision c + 1
          | Err e \<Rightarrow> e \<noteq> ContractError_RevisionIdMismatch"
    using TaskContract_revise_Ok TaskContract_revise_Err [OF _ assms(2)] by (auto split: sum.splits)
  show "TaskContract_revise c \<lparr> rti_id = tc_id c, rti_request = None, rti_context = None,
        rti_constraints = None, rti_acceptance_criteria = None, rti_pause_policy = None \<rparr>
      = Ok (c\<lparr>tc_revision := tc_revision c + 1\<rparr>)"
    using validate_shape_again [OF assms(1), of "tc_revision c + 1"]
    by (simp add: TaskContract_revise_def)
qed

theorem contract_revision_witness:
  "TaskContract_revise sample_contract \<lparr> rti_id = ''task-1'', rti_request = None, rti_context = None,
        rti_constraints = None, rti_acceptance_criteria = None, rti_pause_policy = None \<rparr>
   = Ok (sample_contract\<lparr>tc_revision := 2\<rparr>)"
  using contract_revision [OF sample_contract_wf, of "\<lparr> rti_id = ''task-1'', rti_request = None,
      rti_context = None, rti_constraints = None, rti_acceptance_criteria = None, rti_pause_policy = None \<rparr>"]
  by (simp add: sample_contract_def)

end
