(* ===== verification/Task_Identity.thy ===== *)
theory Task_Identity
  imports Contract
begin

text \<open>
  Content identity of contracts and plans (\<open>task/identity.rs\<close>): typed digests over the
  canonical payloads, and the section deltas between two revisions.  Shown: the delta
  partitions the declared sections in order, it reports no change exactly when the two
  contents are equal, and its digests are the ones the contracts carry.
\<close>

definition TASK_PLAN_IDENTITY_SCHEMA :: "64 word" where
  "TASK_PLAN_IDENTITY_SCHEMA = 1"

definition CONTRACT_SECTION_KEYS :: "string list" where
  "CONTRACT_SECTION_KEYS =
     [''request'', ''context'', ''constraints'', ''acceptanceCriteria'', ''pausePolicy'']"

definition PLAN_SECTION_KEYS :: "string list" where
  "PLAN_SECTION_KEYS =
     [''objective'', ''scope'', ''nonGoals'', ''touchpoints'', ''constraints'', ''risks'',
      ''steps'', ''validation'', ''rollback'', ''rationale'']"

fun payload_object :: "CanonicalValue \<Rightarrow> (string, CanonicalValue) btree_map" where
  "payload_object (CanonicalValue_Object m) = m"
| "payload_object _ = []"

definition compute_contract_content_digest ::
    "CanonicalValue \<Rightarrow> ArtifactIdentityError + ArtifactDigest" where
  "compute_contract_content_digest payload =
     compute_artifact_digest ''TaskContract'' TASK_CONTRACT_IDENTITY_SCHEMA payload"

definition compute_contract_content_digest_hex ::
    "CanonicalValue \<Rightarrow> ArtifactIdentityError + string" where
  "compute_contract_content_digest_hex payload =
     result_bind (compute_contract_content_digest payload) (\<lambda>d. Ok (digest_value d))"

definition compute_task_contract_artifact_digest ::
    "TaskContract \<Rightarrow> ArtifactIdentityError + ArtifactDigest" where
  "compute_task_contract_artifact_digest contract =
     compute_artifact_digest ''TaskContract'' TASK_CONTRACT_IDENTITY_SCHEMA
       (TaskContract_content_payload contract)"

definition compute_task_contract_content_digest ::
    "TaskContract \<Rightarrow> ArtifactIdentityError + string" where
  "compute_task_contract_content_digest contract =
     result_bind (compute_task_contract_artifact_digest contract) (\<lambda>d. Ok (digest_value d))"

record TaskContractDelta =
  tcd_base_revision :: nat
  tcd_result_revision :: nat
  tcd_base_digest :: string
  tcd_result_digest :: string
  tcd_changed :: "string list"
  tcd_unchanged :: "string list"
  tcd_unchanged_content :: bool

definition compute_task_contract_delta ::
    "TaskContract \<Rightarrow> TaskContract \<Rightarrow> ArtifactIdentityError + TaskContractDelta" where
  "compute_task_contract_delta base result =
     (let delta = compute_section_delta (payload_object (TaskContract_content_payload base))
            (payload_object (TaskContract_content_payload result)) CONTRACT_SECTION_KEYS
      in result_bind (compute_task_contract_content_digest base) (\<lambda>base_digest.
         result_bind (compute_task_contract_content_digest result) (\<lambda>result_digest.
         Ok \<lparr> tcd_base_revision = tc_revision base, tcd_result_revision = tc_revision result,
              tcd_base_digest = base_digest, tcd_result_digest = result_digest,
              tcd_changed = section_changed delta, tcd_unchanged = section_unchanged delta,
              tcd_unchanged_content = (section_changed delta = []) \<rparr>)))"

definition compute_plan_content_digest ::
    "CanonicalValue \<Rightarrow> ArtifactIdentityError + ArtifactDigest" where
  "compute_plan_content_digest payload =
     compute_artifact_digest ''TaskPlan'' TASK_PLAN_IDENTITY_SCHEMA payload"

definition compute_plan_content_digest_hex :: "CanonicalValue \<Rightarrow> ArtifactIdentityError + string" where
  "compute_plan_content_digest_hex payload =
     result_bind (compute_plan_content_digest payload) (\<lambda>d. Ok (digest_value d))"

record TaskPlanSectionsDelta =
  tpd_base_digest :: string
  tpd_result_digest :: string
  tpd_changed :: "string list"
  tpd_unchanged :: "string list"
  tpd_unchanged_content :: bool

definition compute_task_plan_sections_delta ::
    "CanonicalValue \<Rightarrow> CanonicalValue \<Rightarrow> ArtifactIdentityError + TaskPlanSectionsDelta" where
  "compute_task_plan_sections_delta base_payload result_payload =
     (let delta = compute_section_delta (payload_object base_payload) (payload_object result_payload)
            PLAN_SECTION_KEYS
      in result_bind (compute_plan_content_digest_hex base_payload) (\<lambda>base_digest.
         result_bind (compute_plan_content_digest_hex result_payload) (\<lambda>result_digest.
         Ok \<lparr> tpd_base_digest = base_digest, tpd_result_digest = result_digest,
              tpd_changed = section_changed delta, tpd_unchanged = section_unchanged delta,
              tpd_unchanged_content = (section_changed delta = []) \<rparr>)))"

subsection \<open>Section deltas\<close>

lemma section_loop_filter:
  "section_loop b r keys cs us =
     (cs @ filter (\<lambda>k. get_or_null b k \<noteq> get_or_null r k) keys,
      us @ filter (\<lambda>k. get_or_null b k = get_or_null r k) keys)"
  by (induction b r keys cs us rule: section_loop.induct) auto

lemma compute_section_delta_filter:
  "compute_section_delta b r keys =
     \<lparr> section_changed = filter (\<lambda>k. get_or_null b k \<noteq> get_or_null r k) keys,
       section_unchanged = filter (\<lambda>k. get_or_null b k = get_or_null r k) keys \<rparr>"
  by (simp add: compute_section_delta_def section_loop_filter)

lemma compute_artifact_digest_fixed:
  assumes "is_valid_artifact_type ty" and "1 \<le> v"
  shows "compute_artifact_digest ty v p =
    Ok \<lparr> algorithm = ARTIFACT_DIGEST_ALGORITHM, artifact_type = ty, schema_version = v,
         digest_value = artifact_digest_hex ty v (canonicalize p) \<rparr>"
proof -
  have "canonical_artifact_payload ty v p = Ok (artifact_domain ty v (canonicalize p))"
    using assms by (simp only: canonical_artifact_payload_Ok_iff simp_thms)
  then show ?thesis
    by (simp add: compute_artifact_digest_def compute_artifact_digest_hex_def artifact_digest_hex_def)
qed

lemma contract_digest_fixed:
  "compute_artifact_digest ''TaskContract'' TASK_CONTRACT_IDENTITY_SCHEMA p =
     Ok \<lparr> algorithm = ARTIFACT_DIGEST_ALGORITHM, artifact_type = ''TaskContract'',
          schema_version = TASK_CONTRACT_IDENTITY_SCHEMA, digest_value = contract_digest p \<rparr>"
  unfolding contract_digest_def
  by (rule compute_artifact_digest_fixed)
    (simp_all add: is_valid_artifact_type_def TASK_CONTRACT_IDENTITY_SCHEMA_def ascii_defs)

lemma plan_digest_fixed:
  "compute_artifact_digest ''TaskPlan'' TASK_PLAN_IDENTITY_SCHEMA p =
     Ok \<lparr> algorithm = ARTIFACT_DIGEST_ALGORITHM, artifact_type = ''TaskPlan'',
          schema_version = TASK_PLAN_IDENTITY_SCHEMA,
          digest_value = artifact_digest_hex ''TaskPlan'' TASK_PLAN_IDENTITY_SCHEMA (canonicalize p) \<rparr>"
  by (rule compute_artifact_digest_fixed)
    (simp_all add: is_valid_artifact_type_def TASK_PLAN_IDENTITY_SCHEMA_def ascii_defs)

text \<open>Lookups in a payload built by insertion.\<close>

lemma get_or_null_object:
  "get_or_null (payload_object (object es)) k =
     (case map_of (rev es) k of Some v \<Rightarrow> v | None \<Rightarrow> CanonicalValue_Null)"
  by (simp add: get_or_null_def object_def bm_get_of_list split: option.splits)

lemma contract_sections:
  "get_or_null (payload_object (TaskContract_content_payload c)) ''request'' = CanonicalValue_Str (tc_request c)"
  "get_or_null (payload_object (TaskContract_content_payload c)) ''context'' =
     (case tc_context c of Some x \<Rightarrow> CanonicalValue_Str x | None \<Rightarrow> CanonicalValue_Null)"
  "get_or_null (payload_object (TaskContract_content_payload c)) ''constraints'' =
     CanonicalValue_Array (map constraint_payload (tc_constraints c))"
  "get_or_null (payload_object (TaskContract_content_payload c)) ''acceptanceCriteria'' =
     CanonicalValue_Array (map criterion_payload (tc_acceptance_criteria c))"
  "get_or_null (payload_object (TaskContract_content_payload c)) ''pausePolicy'' =
     CanonicalValue_Str (PausePolicy_as_str (tc_pause_policy c))"
  by (simp_all add: TaskContract_content_payload_def content_payload_def get_or_null_object split: option.splits)

lemma contract_delta_Ok:
  "compute_task_contract_delta b r =
     Ok \<lparr> tcd_base_revision = tc_revision b, tcd_result_revision = tc_revision r,
          tcd_base_digest = contract_digest (TaskContract_content_payload b),
          tcd_result_digest = contract_digest (TaskContract_content_payload r),
          tcd_changed = filter (\<lambda>k. get_or_null (payload_object (TaskContract_content_payload b)) k
              \<noteq> get_or_null (payload_object (TaskContract_content_payload r)) k) CONTRACT_SECTION_KEYS,
          tcd_unchanged = filter (\<lambda>k. get_or_null (payload_object (TaskContract_content_payload b)) k
              = get_or_null (payload_object (TaskContract_content_payload r)) k) CONTRACT_SECTION_KEYS,
          tcd_unchanged_content = (filter (\<lambda>k. get_or_null (payload_object (TaskContract_content_payload b)) k
              \<noteq> get_or_null (payload_object (TaskContract_content_payload r)) k) CONTRACT_SECTION_KEYS = []) \<rparr>"
  by (simp add: compute_task_contract_delta_def compute_task_contract_content_digest_def
      compute_task_contract_artifact_digest_def contract_digest_fixed compute_section_delta_filter)

lemma sections_equal_iff:
  "filter (\<lambda>k. get_or_null (payload_object (TaskContract_content_payload b)) k
      \<noteq> get_or_null (payload_object (TaskContract_content_payload r)) k) CONTRACT_SECTION_KEYS = []
   \<longleftrightarrow> tc_request b = tc_request r \<and> tc_context b = tc_context r \<and> tc_constraints b = tc_constraints r
      \<and> tc_acceptance_criteria b = tc_acceptance_criteria r \<and> tc_pause_policy b = tc_pause_policy r"
  by (auto simp: CONTRACT_SECTION_KEYS_def contract_sections inj_map_eq_map criterion_payload_inject
      constraint_payload_inject split: option.splits)

subsection \<open>Properties\<close>

text \<open>
  The delta of two well-formed contracts with the same id always exists; it says
  \<open>unchanged\<close> exactly when their contents have the same canonical payload, its digests are
  the ones the contracts carry, and every declared section is in exactly one of its lists.
\<close>

theorem contract_delta_exact:
  assumes "contract_wf b" and "contract_wf r" and "tc_id b = tc_id r"
  shows "\<exists>d. compute_task_contract_delta b r = Ok d
    \<and> (tcd_unchanged_content d \<longleftrightarrow> TaskContract_content_payload b = TaskContract_content_payload r)
    \<and> tcd_base_digest d = tc_digest b \<and> tcd_result_digest d = tc_digest r
    \<and> set (tcd_changed d) \<union> set (tcd_unchanged d) = set CONTRACT_SECTION_KEYS
    \<and> set (tcd_changed d) \<inter> set (tcd_unchanged d) = {}"
proof -
  have same: "TaskContract_content_payload b = TaskContract_content_payload r \<longleftrightarrow>
      tc_request b = tc_request r \<and> tc_context b = tc_context r \<and> tc_constraints b = tc_constraints r
      \<and> tc_acceptance_criteria b = tc_acceptance_criteria r \<and> tc_pause_policy b = tc_pause_policy r"
    using assms(3) by (simp add: TaskContract_content_payload_def content_payload_inject)
  have digests: "tc_digest b = contract_digest (TaskContract_content_payload b)"
    "tc_digest r = contract_digest (TaskContract_content_payload r)"
    using assms(1,2) by (simp_all add: contract_wf_def)
  show ?thesis
    unfolding contract_delta_Ok by (auto simp: sections_equal_iff same digests)
qed

theorem contract_delta_exact_witness:
  "\<exists>d. compute_task_contract_delta sample_contract (sample_contract\<lparr>tc_revision := 2\<rparr>) = Ok d
     \<and> tcd_unchanged_content d"
proof -
  have "contract_wf (sample_contract\<lparr>tc_revision := 2\<rparr>)"
    by (rule validate_shape_wf [OF validate_shape_again [OF sample_contract_wf]]) simp
  from contract_delta_exact [OF sample_contract_wf this] show ?thesis
    by (auto simp: TaskContract_content_payload_def)
qed

end
