(* ===== verification/Plan_Model.thy ===== *)
theory Plan_Model
  imports Task_Identity
begin

text \<open>
  The planning artifact (\<open>planning/model.rs\<close>): plan content, its canonical payload, the
  creation and revision of immutable plans, the digest checks and the small derived views.
  Shown: the payload determines the content, a created or revised plan always carries the
  digest of its content, and revising keeps the identity fields and advances the revision.
\<close>

datatype PlanningDepth = PlanningDepth_None | PlanningDepth_Light | PlanningDepth_Full

fun PlanningDepth_as_str :: "PlanningDepth \<Rightarrow> string" where
  "PlanningDepth_as_str PlanningDepth_None = ''none''"
| "PlanningDepth_as_str PlanningDepth_Light = ''light''"
| "PlanningDepth_as_str PlanningDepth_Full = ''full''"

datatype TouchpointConfidence = TouchpointConfidence_Verified | TouchpointConfidence_Candidate

fun TouchpointConfidence_as_str :: "TouchpointConfidence \<Rightarrow> string" where
  "TouchpointConfidence_as_str TouchpointConfidence_Verified = ''verified''"
| "TouchpointConfidence_as_str TouchpointConfidence_Candidate = ''candidate''"

datatype PlanRiskSeverity = PlanRiskSeverity_Low | PlanRiskSeverity_Medium | PlanRiskSeverity_High

fun PlanRiskSeverity_as_str :: "PlanRiskSeverity \<Rightarrow> string" where
  "PlanRiskSeverity_as_str PlanRiskSeverity_Low = ''low''"
| "PlanRiskSeverity_as_str PlanRiskSeverity_Medium = ''medium''"
| "PlanRiskSeverity_as_str PlanRiskSeverity_High = ''high''"

record PlanScope =
  in_scope :: "string list"
  out_of_scope :: "string list"

record PlanTouchpoint =
  tp_id :: string
  tp_path :: string
  tp_confidence :: TouchpointConfidence
  tp_revision :: "string option"
  tp_evidence :: "string option"
  tp_note :: "string option"

record PlanConstraint =
  pc_id :: string
  pc_description :: string

record PlanRisk =
  risk_id :: string
  risk_severity :: PlanRiskSeverity
  risk_description :: string

record PlanStep =
  ps_id :: string
  ps_title :: string
  ps_description :: "string option"
  ps_expected_touchpoints :: "string list"
  ps_verification :: "string list option"

record PlanValidationStrategy =
  pv_checks :: "string list"
  pv_requirements :: "string list option"

record PlanRollbackStrategy =
  rollback_description :: string

record TaskPlanContent =
  pl_objective :: string
  pl_scope :: PlanScope
  pl_non_goals :: "string list"
  pl_touchpoints :: "PlanTouchpoint list"
  pl_constraints :: "PlanConstraint list"
  pl_risks :: "PlanRisk list"
  pl_steps :: "PlanStep list"
  pl_validation :: PlanValidationStrategy
  pl_rollback :: "PlanRollbackStrategy option"
  pl_rationale :: "string option"

record TaskPlan =
  plan_id :: string
  plan_revision :: nat
  plan_digest :: ArtifactDigest
  plan_task_id :: string
  plan_contract_revision :: nat
  plan_contract_digest_bound :: string
  plan_depth :: PlanningDepth
  plan_content :: TaskPlanContent
  plan_created_at :: int

record PlanApproval =
  pa_plan_id :: string
  pa_plan_revision :: nat
  pa_plan_digest :: string
  pa_contract_revision :: nat
  pa_contract_digest :: string
  pa_approved_at :: int

datatype TaskPlanStateKind = TaskPlanStateKind_None | TaskPlanStateKind_Current | TaskPlanStateKind_Stale

fun TaskPlanStateKind_as_str :: "TaskPlanStateKind \<Rightarrow> string" where
  "TaskPlanStateKind_as_str TaskPlanStateKind_None = ''none''"
| "TaskPlanStateKind_as_str TaskPlanStateKind_Current = ''current''"
| "TaskPlanStateKind_as_str TaskPlanStateKind_Stale = ''stale''"

datatype TaskPlanApprovalKind =
  TaskPlanApprovalKind_None | TaskPlanApprovalKind_Approved | TaskPlanApprovalKind_Invalidated

fun TaskPlanApprovalKind_as_str :: "TaskPlanApprovalKind \<Rightarrow> string" where
  "TaskPlanApprovalKind_as_str TaskPlanApprovalKind_None = ''none''"
| "TaskPlanApprovalKind_as_str TaskPlanApprovalKind_Approved = ''approved''"
| "TaskPlanApprovalKind_as_str TaskPlanApprovalKind_Invalidated = ''invalidated''"

record TaskPlanState =
  tps_plan_id :: "string option"
  tps_plan_revision :: nat
  tps_plan_digest :: "string option"
  tps_depth :: PlanningDepth
  tps_state :: TaskPlanStateKind
  tps_approval :: TaskPlanApprovalKind
  tps_stale_reason :: "string option"

definition NO_TASK_PLAN :: TaskPlanState where
  "NO_TASK_PLAN =
     \<lparr> tps_plan_id = None, tps_plan_revision = 0, tps_plan_digest = None,
       tps_depth = PlanningDepth_None, tps_state = TaskPlanStateKind_None,
       tps_approval = TaskPlanApprovalKind_None, tps_stale_reason = None \<rparr>"

definition MAX_PLAN_REVISIONS :: nat where
  "MAX_PLAN_REVISIONS = 16"

definition strip_prefix :: "string \<Rightarrow> string \<Rightarrow> string option" where
  "strip_prefix s pre = (if take (length pre) s = pre then Some (drop (length pre) s) else None)"

definition is_valid_plan_id :: "string \<Rightarrow> bool" where
  "is_valid_plan_id i =
     (case strip_prefix i ''plan-'' of
        None \<Rightarrow> False
      | Some rest \<Rightarrow> rest \<noteq> [] \<and> length rest \<le> 95
          \<and> list_all (\<lambda>c. is_ascii_alphanumeric c \<or> c \<in> set ''._-'') rest)"

text \<open>\<open>identifier.rs\<close>: the shared rule for element ids.\<close>

definition is_element_id :: "string \<Rightarrow> bool" where
  "is_element_id i \<longleftrightarrow> i \<noteq> [] \<and> length i \<le> 64 \<and> is_ascii_alphabetic (hd i)
     \<and> list_all (\<lambda>c. is_ascii_alphanumeric c \<or> c \<in> set ''._-'') (tl i)"

definition is_valid_plan_element_id :: "string \<Rightarrow> bool" where
  "is_valid_plan_element_id i = is_element_id i"

definition is_valid_revision_handle :: "string \<Rightarrow> bool" where
  "is_valid_revision_handle v =
     (case strip_prefix v ''rev_'' of
        None \<Rightarrow> False
      | Some rest \<Rightarrow> length rest = 32 \<and> list_all is_lower_hex rest)"

record CreateTaskPlanInput =
  cpi_id :: string
  cpi_task_id :: string
  cpi_task_contract_revision :: nat
  cpi_task_contract_digest :: string
  cpi_depth :: PlanningDepth
  cpi_content :: TaskPlanContent
  cpi_created_at :: int

subsection \<open>The canonical payload\<close>

definition str_array :: "string list \<Rightarrow> CanonicalValue" where
  "str_array xs = CanonicalValue_Array (map CanonicalValue_Str xs)"

text \<open>\<open>if let Some(x) = field { entry.insert(key, ...) }\<close>\<close>

definition opt_field :: "string \<Rightarrow> ('a \<Rightarrow> CanonicalValue) \<Rightarrow> 'a option \<Rightarrow> (string \<times> CanonicalValue) list" where
  "opt_field key f x = (case x of Some v \<Rightarrow> [(key, f v)] | None \<Rightarrow> [])"

definition touchpoint_payload :: "PlanTouchpoint \<Rightarrow> CanonicalValue" where
  "touchpoint_payload t = object
     ([(''id'', CanonicalValue_Str (tp_id t)),
       (''path'', CanonicalValue_Str (tp_path t)),
       (''confidence'', CanonicalValue_Str (TouchpointConfidence_as_str (tp_confidence t)))]
      @ opt_field ''revision'' CanonicalValue_Str (tp_revision t)
      @ opt_field ''evidence'' CanonicalValue_Str (tp_evidence t)
      @ opt_field ''note'' CanonicalValue_Str (tp_note t))"

definition plan_constraint_payload :: "PlanConstraint \<Rightarrow> CanonicalValue" where
  "plan_constraint_payload c = object
     [(''id'', CanonicalValue_Str (pc_id c)), (''description'', CanonicalValue_Str (pc_description c))]"

definition risk_payload :: "PlanRisk \<Rightarrow> CanonicalValue" where
  "risk_payload r = object
     [(''id'', CanonicalValue_Str (risk_id r)),
      (''severity'', CanonicalValue_Str (PlanRiskSeverity_as_str (risk_severity r))),
      (''description'', CanonicalValue_Str (risk_description r))]"

definition plan_step_payload :: "PlanStep \<Rightarrow> CanonicalValue" where
  "plan_step_payload s = object
     ([(''id'', CanonicalValue_Str (ps_id s)), (''title'', CanonicalValue_Str (ps_title s))]
      @ opt_field ''description'' CanonicalValue_Str (ps_description s)
      @ [(''expectedTouchpoints'', str_array (ps_expected_touchpoints s))]
      @ opt_field ''verification'' str_array (ps_verification s))"

definition scope_payload :: "PlanScope \<Rightarrow> CanonicalValue" where
  "scope_payload s = object
     [(''inScope'', str_array (in_scope s)), (''outOfScope'', str_array (out_of_scope s))]"

definition validation_payload :: "PlanValidationStrategy \<Rightarrow> CanonicalValue" where
  "validation_payload v = object
     ([(''checks'', str_array (pv_checks v))] @ opt_field ''requirements'' str_array (pv_requirements v))"

definition rollback_payload :: "PlanRollbackStrategy \<Rightarrow> CanonicalValue" where
  "rollback_payload r = object [(''description'', CanonicalValue_Str (rollback_description r))]"

definition plan_content_payload :: "TaskPlanContent \<Rightarrow> CanonicalValue" where
  "plan_content_payload c = object
     ([(''objective'', CanonicalValue_Str (pl_objective c)),
       (''scope'', scope_payload (pl_scope c)),
       (''nonGoals'', str_array (pl_non_goals c)),
       (''touchpoints'', CanonicalValue_Array (map touchpoint_payload (pl_touchpoints c))),
       (''constraints'', CanonicalValue_Array (map plan_constraint_payload (pl_constraints c))),
       (''risks'', CanonicalValue_Array (map risk_payload (pl_risks c))),
       (''steps'', CanonicalValue_Array (map plan_step_payload (pl_steps c))),
       (''validation'', validation_payload (pl_validation c))]
      @ opt_field ''rollback'' rollback_payload (pl_rollback c)
      @ opt_field ''rationale'' CanonicalValue_Str (pl_rationale c))"

definition plan_content_digest :: "TaskPlanContent \<Rightarrow> string + ArtifactDigest" where
  "plan_content_digest content =
     map_err message (compute_artifact_digest ''TaskPlan'' TASK_PLAN_IDENTITY_SCHEMA
       (plan_content_payload content))"

subsection \<open>Operations\<close>

definition create_task_plan :: "CreateTaskPlanInput \<Rightarrow> string + TaskPlan" where
  "create_task_plan input =
     (if \<not> is_valid_plan_id (cpi_id input) then Err (''Invalid plan id: '' @ cpi_id input)
      else if cpi_task_contract_revision input < 1 then
        Err ''A plan requires a positive safe-integer task contract revision.''
      else if \<not> is_sha256_hex (cpi_task_contract_digest input) then
        Err ''A plan requires the exact 64-hex TaskContract content digest it binds to.''
      else if cpi_depth input = PlanningDepth_None then Err ''A plan requires depth light or full.''
      else if cpi_created_at input < 0 then
        Err ''A plan requires a non-negative safe-integer createdAt timestamp.''
      else
        result_bind (plan_content_digest (cpi_content input)) (\<lambda>digest.
        Ok \<lparr> plan_id = cpi_id input, plan_revision = 1, plan_digest = digest,
             plan_task_id = cpi_task_id input,
             plan_contract_revision = cpi_task_contract_revision input,
             plan_contract_digest_bound = cpi_task_contract_digest input,
             plan_depth = cpi_depth input, plan_content = cpi_content input,
             plan_created_at = cpi_created_at input \<rparr>))"

record ReviseTaskPlanInput =
  rpi_content :: TaskPlanContent
  rpi_task_contract_digest :: "string option"

definition revise_task_plan :: "TaskPlan \<Rightarrow> ReviseTaskPlanInput \<Rightarrow> string + TaskPlan" where
  "revise_task_plan previous changes =
     (if \<not> is_valid_plan_id (plan_id previous) then Err (''Invalid plan id: '' @ plan_id previous)
      else if plan_revision previous < 1 \<or> 2 ^ 64 - 2 \<le> plan_revision previous then
        Err ''A previous plan revision must be a positive incrementable safe integer.''
      else if plan_contract_revision previous < 1 then
        Err ''A previous plan requires a positive safe-integer task contract revision.''
      else if plan_created_at previous < 0 then
        Err ''A previous plan requires a non-negative safe-integer createdAt timestamp.''
      else if plan_depth previous \<notin> {PlanningDepth_Light, PlanningDepth_Full} then
        Err ''A previous plan requires depth light or full.''
      else
        let bound = (case rpi_task_contract_digest changes of
              Some d \<Rightarrow> d | None \<Rightarrow> plan_contract_digest_bound previous)
        in if \<not> is_sha256_hex bound then
             Err ''A plan requires the exact 64-hex TaskContract content digest it binds to.''
           else
             result_bind (plan_content_digest (rpi_content changes)) (\<lambda>digest.
             Ok \<lparr> plan_id = plan_id previous, plan_revision = plan_revision previous + 1,
                  plan_digest = digest, plan_task_id = plan_task_id previous,
                  plan_contract_revision = plan_contract_revision previous,
                  plan_contract_digest_bound = bound, plan_depth = plan_depth previous,
                  plan_content = rpi_content changes, plan_created_at = plan_created_at previous \<rparr>))"

definition compute_plan_revision_digest :: "TaskPlan \<Rightarrow> string + string" where
  "compute_plan_revision_digest plan =
     result_bind (plan_content_digest (plan_content plan)) (\<lambda>d. Ok (digest_value d))"

definition stored_plan_digest :: "TaskPlan \<Rightarrow> string + string" where
  "stored_plan_digest plan =
     result_bind (plan_content_digest (plan_content plan)) (\<lambda>d. Ok (digest_value d))"

definition summarize_plan :: "TaskPlan \<Rightarrow> string" where
  "summarize_plan plan =
     (let touchpoints = pl_touchpoints (plan_content plan);
          verified = length (filter (\<lambda>t. tp_confidence t = TouchpointConfidence_Verified) touchpoints);
          candidates = length touchpoints - verified
      in PlanningDepth_as_str (plan_depth plan) @ '' rev '' @ show_nat (plan_revision plan) @ '', ''
         @ show_nat (length (pl_steps (plan_content plan))) @ '' steps, '' @ show_nat verified
         @ '' verified / '' @ show_nat candidates @ '' candidate touchpoints'')"

definition has_meaningful_acceptance_criteria :: "TaskContract \<Rightarrow> bool" where
  "has_meaningful_acceptance_criteria contract =
     (let criteria = tc_acceptance_criteria contract in
      if length criteria < 2 then False
      else list_ex (\<lambda>c. crit_verification_kind c \<noteq> VerificationKind_User) criteria)"

subsection \<open>The payload determines the content\<close>

lemma object_lookup: "object es = object fs \<Longrightarrow> map_of (rev es) k = map_of (rev fs) k"
proof -
  assume "object es = object fs"
  then have "bm_get (bm_of_list [] es) k = bm_get (bm_of_list [] fs) k"
    by (simp add: object_def)
  then show ?thesis
    by (simp add: bm_get_of_list split: option.splits)
qed

lemma map_of_opt_field [simp]: "map_of (rev (opt_field key f x)) k = (if k = key then map_option f x else None)"
  by (simp add: opt_field_def split: option.splits)

lemma str_array_inject [simp]: "str_array xs = str_array ys \<longleftrightarrow> xs = ys"
  by (simp add: str_array_def inj_map_eq_map inj_def)

lemma map_option_inject: "inj f \<Longrightarrow> map_option f x = map_option f y \<longleftrightarrow> x = y"
  by (cases x; cases y) (auto dest: injD)

lemma inj_payloads: "inj CanonicalValue_Str" "inj str_array"
  by (auto simp: inj_def)

lemmas lookup_simps = rev_append map_add_def map_option_inject inj_payloads

lemma plan_as_str_inject [simp]: "TouchpointConfidence_as_str a = TouchpointConfidence_as_str b \<longleftrightarrow> a = b"
  by (cases a; cases b; simp)

lemma PlanRiskSeverity_as_str_inject [simp]: "PlanRiskSeverity_as_str a = PlanRiskSeverity_as_str b \<longleftrightarrow> a = b"
  by (cases a; cases b; simp)

lemma touchpoint_payload_inject: "inj touchpoint_payload"
proof (rule injI)
  fix a b
  assume eq: "touchpoint_payload a = touchpoint_payload b"
  note look = object_lookup [OF eq [unfolded touchpoint_payload_def]]
  show "a = b"
    using look [of "''id''"] look [of "''path''"] look [of "''confidence''"] look [of "''revision''"]
      look [of "''evidence''"] look [of "''note''"]
    by (simp add: lookup_simps split: option.splits)
qed

lemma plan_constraint_payload_inject: "inj plan_constraint_payload"
  by (rule injI) (simp add: plan_constraint_payload_def object_def)

lemma risk_payload_inject: "inj risk_payload"
  by (rule injI) (simp add: risk_payload_def object_def)

lemma rollback_payload_inject: "inj rollback_payload"
  by (rule injI) (simp add: rollback_payload_def object_def)

lemma scope_payload_inject: "scope_payload a = scope_payload b \<longleftrightarrow> a = b"
  by (cases a; cases b) (simp add: scope_payload_def object_def)

lemma plan_step_payload_inject: "inj plan_step_payload"
proof (rule injI)
  fix a b
  assume eq: "plan_step_payload a = plan_step_payload b"
  note look = object_lookup [OF eq [unfolded plan_step_payload_def]]
  show "a = b"
    using look [of "''id''"] look [of "''title''"] look [of "''description''"]
      look [of "''expectedTouchpoints''"] look [of "''verification''"]
    by (simp add: lookup_simps split: option.splits)
qed

lemma validation_payload_inject: "validation_payload a = validation_payload b \<longleftrightarrow> a = b"
proof
  assume eq: "validation_payload a = validation_payload b"
  note look = object_lookup [OF eq [unfolded validation_payload_def]]
  show "a = b"
    using look [of "''checks''"] look [of "''requirements''"]
    by (simp add: lookup_simps split: option.splits)
qed simp

lemmas payload_injects = touchpoint_payload_inject plan_constraint_payload_inject risk_payload_inject
  rollback_payload_inject scope_payload_inject plan_step_payload_inject validation_payload_inject

lemma plan_content_payload_inject: "plan_content_payload a = plan_content_payload b \<longleftrightarrow> a = b"
proof
  assume eq: "plan_content_payload a = plan_content_payload b"
  note look = object_lookup [OF eq [unfolded plan_content_payload_def]]
  have "pl_objective a = pl_objective b"
    using look [of "''objective''"] by (simp add: lookup_simps split: option.splits)
  moreover have "pl_scope a = pl_scope b"
    using look [of "''scope''"] by (simp add: lookup_simps payload_injects split: option.splits)
  moreover have "pl_non_goals a = pl_non_goals b"
    using look [of "''nonGoals''"] by (simp add: lookup_simps split: option.splits)
  moreover have "pl_touchpoints a = pl_touchpoints b"
    using look [of "''touchpoints''"] by (simp add: lookup_simps payload_injects inj_map_eq_map split: option.splits)
  moreover have "pl_constraints a = pl_constraints b"
    using look [of "''constraints''"] by (simp add: lookup_simps payload_injects inj_map_eq_map split: option.splits)
  moreover have "pl_risks a = pl_risks b"
    using look [of "''risks''"] by (simp add: lookup_simps payload_injects inj_map_eq_map split: option.splits)
  moreover have "pl_steps a = pl_steps b"
    using look [of "''steps''"] by (simp add: lookup_simps payload_injects inj_map_eq_map split: option.splits)
  moreover have "pl_validation a = pl_validation b"
    using look [of "''validation''"] by (simp add: lookup_simps payload_injects split: option.splits)
  moreover have "pl_rollback a = pl_rollback b"
    using look [of "''rollback''"]
    by (simp add: lookup_simps injD [OF rollback_payload_inject] split: option.splits)
  moreover have "pl_rationale a = pl_rationale b"
    using look [of "''rationale''"] by (simp add: lookup_simps split: option.splits)
  ultimately show "a = b"
    by simp
qed simp

subsection \<open>Plans carry the digest of their content\<close>

lemma plan_content_digest_Ok:
  "plan_content_digest c =
     Ok \<lparr> algorithm = ARTIFACT_DIGEST_ALGORITHM, artifact_type = ''TaskPlan'',
          schema_version = TASK_PLAN_IDENTITY_SCHEMA,
          digest_value = artifact_digest_hex ''TaskPlan'' TASK_PLAN_IDENTITY_SCHEMA
            (canonicalize (plan_content_payload c)) \<rparr>"
  by (simp add: plan_content_digest_def plan_digest_fixed)

definition plan_digest_ok :: "TaskPlan \<Rightarrow> bool" where
  "plan_digest_ok plan \<longleftrightarrow> stored_plan_digest plan = Ok (digest_value (plan_digest plan))"

lemma create_task_plan_Ok:
  "create_task_plan input = Ok plan \<Longrightarrow>
     plan_digest_ok plan \<and> plan_revision plan = 1 \<and> plan_id plan = cpi_id input
     \<and> plan_content plan = cpi_content input \<and> plan_contract_digest_bound plan = cpi_task_contract_digest input
     \<and> is_valid_plan_id (plan_id plan) \<and> plan_depth plan \<noteq> PlanningDepth_None"
  by (auto simp: create_task_plan_def plan_content_digest_Ok plan_digest_ok_def stored_plan_digest_def
      split: if_splits)

lemma revise_task_plan_Ok:
  "revise_task_plan previous changes = Ok plan \<Longrightarrow>
     plan_digest_ok plan \<and> plan_revision plan = plan_revision previous + 1
     \<and> plan_id plan = plan_id previous \<and> plan_task_id plan = plan_task_id previous
     \<and> plan_contract_revision plan = plan_contract_revision previous
     \<and> plan_content plan = rpi_content changes \<and> plan_revision plan < 2 ^ 64"
  by (auto simp: revise_task_plan_def plan_content_digest_Ok plan_digest_ok_def stored_plan_digest_def
      Let_def split: if_splits)

subsection \<open>Properties\<close>

text \<open>
  Creating a plan yields revision 1 and revising it the next revision with the same id,
  task and contract revision, below the 64-bit bound; each carries the digest of exactly its
  own content, and two plans whose payloads canonicalise to the same bytes have the same
  content.
\<close>

theorem plan_revisions_carry_their_digest:
  assumes "create_task_plan input = Ok p" and "revise_task_plan p changes = Ok q"
  shows "plan_revision p = 1 \<and> plan_revision q = 2 \<and> plan_id q = cpi_id input
    \<and> plan_task_id q = plan_task_id p \<and> plan_contract_revision q = plan_contract_revision p
    \<and> stored_plan_digest p = Ok (digest_value (plan_digest p))
    \<and> stored_plan_digest q = Ok (digest_value (plan_digest q))
    \<and> (canonicalize (plan_content_payload (plan_content p)) = canonicalize (plan_content_payload (plan_content q))
       \<longleftrightarrow> cpi_content input = rpi_content changes)"
  using create_task_plan_Ok [OF assms(1)] revise_task_plan_Ok [OF assms(2)]
  by (simp add: plan_digest_ok_def canonicalize_inject plan_content_payload_inject)

text \<open>A plan and a contract digest, for the witnesses.\<close>

definition sample_content :: TaskPlanContent where
  "sample_content =
     \<lparr> pl_objective = ''Fix'', pl_scope = \<lparr> in_scope = [''a''], out_of_scope = [] \<rparr>,
       pl_non_goals = [], pl_touchpoints = [], pl_constraints = [], pl_risks = [],
       pl_steps = [], pl_validation = \<lparr> pv_checks = [''test''], pv_requirements = None \<rparr>,
       pl_rollback = None, pl_rationale = None \<rparr>"

definition sample_plan_input :: CreateTaskPlanInput where
  "sample_plan_input =
     \<lparr> cpi_id = ''plan-1'', cpi_task_id = ''task-1'', cpi_task_contract_revision = 1,
       cpi_task_contract_digest = replicate 64 (CHR ''0''), cpi_depth = PlanningDepth_Light,
       cpi_content = sample_content, cpi_created_at = 0 \<rparr>"

theorem plan_revisions_carry_their_digest_witness:
  "\<exists>p q. create_task_plan sample_plan_input = Ok p
     \<and> revise_task_plan p \<lparr> rpi_content = sample_content, rpi_task_contract_digest = None \<rparr> = Ok q
     \<and> plan_revision q = 2"
proof -
  obtain p where p: "create_task_plan sample_plan_input = Ok p"
    by (simp add: create_task_plan_def sample_plan_input_def is_valid_plan_id_def strip_prefix_def
        is_sha256_hex_def plan_content_digest_Ok ascii_defs list_all_iff)
  obtain q where q: "revise_task_plan p \<lparr> rpi_content = sample_content, rpi_task_contract_digest = None \<rparr> = Ok q"
    using p by (auto simp: create_task_plan_def revise_task_plan_def plan_content_digest_Ok
        sample_plan_input_def split: if_splits)
  show ?thesis
    using plan_revisions_carry_their_digest [OF p q] p q by blast
qed

end
