(* ===== verification/Task_Model.thy ===== *)
theory Task_Model
  imports Plan_Model
begin

text \<open>
  The data of the task kernel (\<open>task/model.rs\<close>): phases, steps, evidence, acceptance,
  findings, progress, dispositions, the activity record and the materialised task state.
  The two tables other components branch on (terminal phases, acceptable validation) are
  characterised here, and the stable text forms are shown to tell the phases apart.
\<close>

datatype TaskPhase =
    TaskPhase_Prepared | TaskPhase_Working | TaskPhase_Validating | TaskPhase_Reviewing
  | TaskPhase_Blocked | TaskPhase_Completed | TaskPhase_Cancelled | TaskPhase_Failed

fun TaskPhase_as_str :: "TaskPhase \<Rightarrow> string" where
  "TaskPhase_as_str TaskPhase_Prepared = ''prepared''"
| "TaskPhase_as_str TaskPhase_Working = ''working''"
| "TaskPhase_as_str TaskPhase_Validating = ''validating''"
| "TaskPhase_as_str TaskPhase_Reviewing = ''reviewing''"
| "TaskPhase_as_str TaskPhase_Blocked = ''blocked''"
| "TaskPhase_as_str TaskPhase_Completed = ''completed''"
| "TaskPhase_as_str TaskPhase_Cancelled = ''cancelled''"
| "TaskPhase_as_str TaskPhase_Failed = ''failed''"

definition is_terminal_phase :: "TaskPhase \<Rightarrow> bool" where
  "is_terminal_phase phase \<longleftrightarrow>
     phase \<in> {TaskPhase_Completed, TaskPhase_Cancelled, TaskPhase_Failed}"

datatype TaskStepStatus =
    TaskStepStatus_Pending | TaskStepStatus_Active | TaskStepStatus_Completed
  | TaskStepStatus_Failed | TaskStepStatus_Blocked

fun TaskStepStatus_as_str :: "TaskStepStatus \<Rightarrow> string" where
  "TaskStepStatus_as_str TaskStepStatus_Pending = ''pending''"
| "TaskStepStatus_as_str TaskStepStatus_Active = ''active''"
| "TaskStepStatus_as_str TaskStepStatus_Completed = ''completed''"
| "TaskStepStatus_as_str TaskStepStatus_Failed = ''failed''"
| "TaskStepStatus_as_str TaskStepStatus_Blocked = ''blocked''"

datatype TaskStepKind = TaskStepKind_Research | TaskStepKind_Implementation | TaskStepKind_Review

fun TaskStepKind_as_str :: "TaskStepKind \<Rightarrow> string" where
  "TaskStepKind_as_str TaskStepKind_Research = ''research''"
| "TaskStepKind_as_str TaskStepKind_Implementation = ''implementation''"
| "TaskStepKind_as_str TaskStepKind_Review = ''review''"

datatype EvidenceKind =
    EvidenceKind_WorkspaceRead | EvidenceKind_ParserResult | EvidenceKind_ValidationResult
  | EvidenceKind_ReviewResult | EvidenceKind_UserApproval

fun EvidenceKind_as_str :: "EvidenceKind \<Rightarrow> string" where
  "EvidenceKind_as_str EvidenceKind_WorkspaceRead = ''workspace_read''"
| "EvidenceKind_as_str EvidenceKind_ParserResult = ''parser_result''"
| "EvidenceKind_as_str EvidenceKind_ValidationResult = ''validation_result''"
| "EvidenceKind_as_str EvidenceKind_ReviewResult = ''review_result''"
| "EvidenceKind_as_str EvidenceKind_UserApproval = ''user_approval''"

datatype ApprovalDecision = ApprovalDecision_Approved | ApprovalDecision_Denied

datatype EvidenceSource =
    EvidenceSource_WorkspaceRead "string list" "string option"
  | EvidenceSource_Parser "64 word" "64 word" "64 word"
  | EvidenceSource_Validation string bool "64 word"
  | EvidenceSource_Review string "64 word"
  | EvidenceSource_UserApproval string string ApprovalDecision

datatype VerificationOutcome =
  VerificationOutcome_Passed | VerificationOutcome_Failed | VerificationOutcome_Incomplete

record MilestoneEvidenceTarget =
  met_manifest_id :: string
  met_manifest_version :: "64 word"
  met_requirement_id :: string

record EvidenceVerification =
  ev_check_id :: string
  ev_criterion_id :: "string option"
  ev_milestone :: "MilestoneEvidenceTarget option"
  ev_outcome :: VerificationOutcome

record EvidenceRecord =
  er_id :: string
  er_kind :: EvidenceKind
  er_task_id :: string
  er_contract_revision :: nat
  er_contract_digest :: string
  er_source :: EvidenceSource
  er_verification :: "EvidenceVerification option"
  er_attached_at_ms :: int

record EvidenceRef =
  ref_evidence_id :: string
  ref_kind :: EvidenceKind

record TaskStepSpec =
  sp_id :: string
  sp_description :: string
  sp_kind :: TaskStepKind
  sp_accepts :: "EvidenceKind list"

record TaskStepState =
  st_id :: string
  st_description :: string
  st_kind :: TaskStepKind
  st_status :: TaskStepStatus
  st_evidence_refs :: "EvidenceRef list"
  st_failed_reason :: "string option"
  st_blocked_reason :: "string option"

datatype AcceptanceStatus =
  AcceptanceStatus_Pending | AcceptanceStatus_Satisfied | AcceptanceStatus_Failed

fun AcceptanceStatus_as_str :: "AcceptanceStatus \<Rightarrow> string" where
  "AcceptanceStatus_as_str AcceptanceStatus_Pending = ''pending''"
| "AcceptanceStatus_as_str AcceptanceStatus_Satisfied = ''satisfied''"
| "AcceptanceStatus_as_str AcceptanceStatus_Failed = ''failed''"

record AcceptanceState =
  ac_criterion_id :: string
  ac_description :: string
  ac_verification_kind :: VerificationKind
  ac_status :: AcceptanceStatus
  ac_verified_by :: "string option"
  ac_note :: "string option"

datatype FindingSeverity =
  FindingSeverity_Critical | FindingSeverity_High | FindingSeverity_Medium | FindingSeverity_Low

fun FindingSeverity_as_str :: "FindingSeverity \<Rightarrow> string" where
  "FindingSeverity_as_str FindingSeverity_Critical = ''critical''"
| "FindingSeverity_as_str FindingSeverity_High = ''high''"
| "FindingSeverity_as_str FindingSeverity_Medium = ''medium''"
| "FindingSeverity_as_str FindingSeverity_Low = ''low''"

definition is_blocking :: "FindingSeverity \<Rightarrow> bool" where
  "is_blocking s \<longleftrightarrow> s \<in> {FindingSeverity_Critical, FindingSeverity_High}"

record FindingRef =
  fr_finding_id :: string
  fr_severity :: FindingSeverity
  fr_source :: string

datatype TaskValidationStatus =
    TaskValidationStatus_NotRun | TaskValidationStatus_Clean | TaskValidationStatus_Warnings
  | TaskValidationStatus_Failed | TaskValidationStatus_Incomplete

fun TaskValidationStatus_as_str :: "TaskValidationStatus \<Rightarrow> string" where
  "TaskValidationStatus_as_str TaskValidationStatus_NotRun = ''not_run''"
| "TaskValidationStatus_as_str TaskValidationStatus_Clean = ''clean''"
| "TaskValidationStatus_as_str TaskValidationStatus_Warnings = ''warnings''"
| "TaskValidationStatus_as_str TaskValidationStatus_Failed = ''failed''"
| "TaskValidationStatus_as_str TaskValidationStatus_Incomplete = ''incomplete''"

definition is_acceptable_for_completion :: "TaskValidationStatus \<Rightarrow> bool" where
  "is_acceptable_for_completion s \<longleftrightarrow>
     s \<in> {TaskValidationStatus_Clean, TaskValidationStatus_Warnings}"

datatype TaskReviewStatus =
    TaskReviewStatus_NotRun | TaskReviewStatus_Clean | TaskReviewStatus_Findings
  | TaskReviewStatus_Incomplete

fun TaskReviewStatus_as_str :: "TaskReviewStatus \<Rightarrow> string" where
  "TaskReviewStatus_as_str TaskReviewStatus_NotRun = ''not_run''"
| "TaskReviewStatus_as_str TaskReviewStatus_Clean = ''clean''"
| "TaskReviewStatus_as_str TaskReviewStatus_Findings = ''findings''"
| "TaskReviewStatus_as_str TaskReviewStatus_Incomplete = ''incomplete''"

datatype ProgressStateValue =
  ProgressStateValue_Healthy | ProgressStateValue_Degraded | ProgressStateValue_Stalled

fun ProgressStateValue_as_str :: "ProgressStateValue \<Rightarrow> string" where
  "ProgressStateValue_as_str ProgressStateValue_Healthy = ''healthy''"
| "ProgressStateValue_as_str ProgressStateValue_Degraded = ''degraded''"
| "ProgressStateValue_as_str ProgressStateValue_Stalled = ''stalled''"

record ProgressState =
  prog_state :: ProgressStateValue
  prog_useful_observations :: nat
  prog_repeated_actions :: nat
  prog_last_progress_at_ms :: "int option"
  prog_stalled_at_ms :: "int option"

datatype WorkflowDisposition =
    WorkflowDisposition_Continue "string option"
  | WorkflowDisposition_Complete
  | WorkflowDisposition_Blocked string

fun WorkflowDisposition_type_str :: "WorkflowDisposition \<Rightarrow> string" where
  "WorkflowDisposition_type_str (WorkflowDisposition_Continue _) = ''continue''"
| "WorkflowDisposition_type_str WorkflowDisposition_Complete = ''complete''"
| "WorkflowDisposition_type_str (WorkflowDisposition_Blocked _) = ''blocked''"

datatype DispositionSource = DispositionSource_Host | DispositionSource_Model

fun DispositionSource_as_str :: "DispositionSource \<Rightarrow> string" where
  "DispositionSource_as_str DispositionSource_Host = ''host''"
| "DispositionSource_as_str DispositionSource_Model = ''model''"

text \<open>\<open>sequence\<close> is the first field of every constructor, as the accessor of the source has it.\<close>

datatype ActivityEvent =
    ActivityEvent_TaskStarted (sequence: nat) nat
  | ActivityEvent_TaskPhaseChanged (sequence: nat) TaskPhase
  | ActivityEvent_StepStarted (sequence: nat) string
  | ActivityEvent_StepCompleted (sequence: nat) string "EvidenceRef list"
  | ActivityEvent_StepFailed (sequence: nat) string string
  | ActivityEvent_EvidenceAttached (sequence: nat) string EvidenceKind
  | ActivityEvent_CriterionVerified (sequence: nat) string string
  | ActivityEvent_TaskBlocked (sequence: nat) string
  | ActivityEvent_TaskCompleted (sequence: nat)
  | ActivityEvent_TaskCancelled (sequence: nat) string
  | ActivityEvent_TaskFailed (sequence: nat) string
  | ActivityEvent_TaskContractRevised (sequence: nat) nat
  | ActivityEvent_DispositionSubmitted (sequence: nat) WorkflowDisposition DispositionSource bool "string option"
  | ActivityEvent_PlanningRouted (sequence: nat) PlanningDepth string
  | ActivityEvent_PlanCreated (sequence: nat) string nat PlanningDepth
  | ActivityEvent_PlanRejected (sequence: nat) string
  | ActivityEvent_PlanApproved (sequence: nat) string nat string
  | ActivityEvent_PlanInvalidated (sequence: nat) string nat string

fun ActivityEvent_type_str :: "ActivityEvent \<Rightarrow> string" where
  "ActivityEvent_type_str (ActivityEvent_TaskStarted _ _) = ''task_started''"
| "ActivityEvent_type_str (ActivityEvent_TaskPhaseChanged _ _) = ''task_phase_changed''"
| "ActivityEvent_type_str (ActivityEvent_StepStarted _ _) = ''step_started''"
| "ActivityEvent_type_str (ActivityEvent_StepCompleted _ _ _) = ''step_completed''"
| "ActivityEvent_type_str (ActivityEvent_StepFailed _ _ _) = ''step_failed''"
| "ActivityEvent_type_str (ActivityEvent_EvidenceAttached _ _ _) = ''evidence_attached''"
| "ActivityEvent_type_str (ActivityEvent_CriterionVerified _ _ _) = ''criterion_verified''"
| "ActivityEvent_type_str (ActivityEvent_TaskBlocked _ _) = ''task_blocked''"
| "ActivityEvent_type_str (ActivityEvent_TaskCompleted _) = ''task_completed''"
| "ActivityEvent_type_str (ActivityEvent_TaskCancelled _ _) = ''task_cancelled''"
| "ActivityEvent_type_str (ActivityEvent_TaskFailed _ _) = ''task_failed''"
| "ActivityEvent_type_str (ActivityEvent_TaskContractRevised _ _) = ''task_contract_revised''"
| "ActivityEvent_type_str (ActivityEvent_DispositionSubmitted _ _ _ _ _) = ''disposition_submitted''"
| "ActivityEvent_type_str (ActivityEvent_PlanningRouted _ _ _) = ''planning_routed''"
| "ActivityEvent_type_str (ActivityEvent_PlanCreated _ _ _ _) = ''plan_created''"
| "ActivityEvent_type_str (ActivityEvent_PlanRejected _ _) = ''plan_rejected''"
| "ActivityEvent_type_str (ActivityEvent_PlanApproved _ _ _ _) = ''plan_approved''"
| "ActivityEvent_type_str (ActivityEvent_PlanInvalidated _ _ _ _) = ''plan_invalidated''"

record TaskState =
  ts_task_id :: string
  ts_contract_revision :: nat
  ts_contract_digest :: string
  ts_phase :: TaskPhase
  ts_plan :: TaskPlanState
  ts_steps :: "TaskStepState list"
  ts_acceptance :: "AcceptanceState list"
  ts_current_findings :: "FindingRef list"
  ts_evidence :: "EvidenceRecord list"
  ts_validation_status :: TaskValidationStatus
  ts_review_status :: TaskReviewStatus
  ts_iteration :: nat
  ts_progress :: ProgressState
  ts_started_at_ms :: int
  ts_completed_at_ms :: "int option"
  ts_terminal_reason :: "string option"

definition MAX_EVIDENCE_SOURCE_BYTES :: nat where "MAX_EVIDENCE_SOURCE_BYTES = 4096"
definition MAX_TASK_EVIDENCE_RECORDS :: nat where "MAX_TASK_EVIDENCE_RECORDS = 256"
definition MAX_TASK_STEPS :: nat where "MAX_TASK_STEPS = 128"
definition MAX_TASK_FINDINGS :: nat where "MAX_TASK_FINDINGS = 128"
definition MAX_TASK_STEP_DESCRIPTION_BYTES :: nat where "MAX_TASK_STEP_DESCRIPTION_BYTES = 4096"
definition MAX_TASK_FINDING_FIELD_BYTES :: nat where "MAX_TASK_FINDING_FIELD_BYTES = 4096"
definition MAX_TASK_EVIDENCE_ID_BYTES :: nat where "MAX_TASK_EVIDENCE_ID_BYTES = 256"
definition PROGRESS_WINDOW_SIZE :: nat where "PROGRESS_WINDOW_SIZE = 8"
definition PROGRESS_DEGRADED_REPETITIONS :: nat where "PROGRESS_DEGRADED_REPETITIONS = 3"
definition PROGRESS_STALLED_REPETITIONS :: nat where "PROGRESS_STALLED_REPETITIONS = 5"

lemma is_terminal_phase_simps [simp]:
  "\<not> is_terminal_phase TaskPhase_Prepared"
  "\<not> is_terminal_phase TaskPhase_Working"
  "\<not> is_terminal_phase TaskPhase_Validating"
  "\<not> is_terminal_phase TaskPhase_Reviewing"
  "\<not> is_terminal_phase TaskPhase_Blocked"
  "is_terminal_phase TaskPhase_Completed"
  "is_terminal_phase TaskPhase_Cancelled"
  "is_terminal_phase TaskPhase_Failed"
  by (simp_all add: is_terminal_phase_def)

lemma TaskPhase_as_str_inject [simp]: "TaskPhase_as_str p = TaskPhase_as_str q \<longleftrightarrow> p = q"
  by (cases p; cases q; simp)

end
