(* ===== verification/Progress.thy ===== *)
theory Progress
  imports Task_Model
begin

text \<open>
  The progress tracker (\<open>task/progress.rs\<close>): a window of the last eight observations, from
  which the classification is recomputed at every observation.  Shown: the classification
  is exactly the documented function of the window; the window stays bounded; five
  consecutive identical observations stall the task from every state.
\<close>

record HostObservation =
  ob_action :: string
  ob_fingerprint :: string
  ob_progress :: bool

record InternalProgress =
  ip_useful_observations :: nat
  ip_repeated_actions :: nat
  ip_state :: ProgressStateValue
  ip_last_progress_at_ms :: "int option"
  ip_stalled_at_ms :: "int option"
  ip_window :: "(string \<times> bool) list"

definition create_internal_progress :: InternalProgress where
  "create_internal_progress =
     \<lparr> ip_useful_observations = 0, ip_repeated_actions = 0, ip_state = ProgressStateValue_Healthy,
       ip_last_progress_at_ms = None, ip_stalled_at_ms = None, ip_window = [] \<rparr>"

definition progress_snapshot :: "InternalProgress \<Rightarrow> ProgressState" where
  "progress_snapshot p =
     \<lparr> prog_state = ip_state p, prog_useful_observations = ip_useful_observations p,
       prog_repeated_actions = ip_repeated_actions p,
       prog_last_progress_at_ms = ip_last_progress_at_ms p,
       prog_stalled_at_ms = ip_stalled_at_ms p \<rparr>"

definition observation_key :: "HostObservation \<Rightarrow> string" where
  "observation_key ob = ob_action ob @ '':'' @ ob_fingerprint ob"

definition observe_progress ::
    "InternalProgress \<Rightarrow> HostObservation \<Rightarrow> int \<Rightarrow> InternalProgress \<times> ProgressState" where
  "observe_progress p ob now =
     (let key = observation_key ob;
          already_in_window = list_ex (\<lambda>(entry, _). entry = key) (ip_window p);
          fresh = ob_progress ob \<or> \<not> already_in_window;
          p = (if fresh then p\<lparr>ip_useful_observations := ip_useful_observations p + 1,
                               ip_last_progress_at_ms := Some now\<rparr> else p);
          w = ip_window p @ [(key, fresh)];
          w = (if PROGRESS_WINDOW_SIZE < length w then tl w else w);
          occurrences = length (filter (\<lambda>(entry, _). entry = key) w);
          useful_in_window = length (filter (\<lambda>(_, useful). useful) w);
          p = p\<lparr>ip_window := w, ip_repeated_actions := occurrences\<rparr>;
          p = (if PROGRESS_STALLED_REPETITIONS \<le> occurrences \<or> useful_in_window = 0 then
                 p\<lparr>ip_state := ProgressStateValue_Stalled,
                   ip_stalled_at_ms := (if ip_stalled_at_ms p = None then Some now else ip_stalled_at_ms p)\<rparr>
               else if PROGRESS_DEGRADED_REPETITIONS \<le> occurrences then
                 p\<lparr>ip_state := ProgressStateValue_Degraded, ip_stalled_at_ms := None\<rparr>
               else p\<lparr>ip_state := ProgressStateValue_Healthy, ip_stalled_at_ms := None\<rparr>)
      in (p, progress_snapshot p))"

subsection \<open>The window\<close>

definition progress_wf :: "InternalProgress \<Rightarrow> bool" where
  "progress_wf p \<longleftrightarrow> length (ip_window p) \<le> PROGRESS_WINDOW_SIZE
     \<and> (ip_state p = ProgressStateValue_Stalled \<longleftrightarrow> ip_stalled_at_ms p \<noteq> None)
     \<and> length (filter snd (ip_window p)) \<le> ip_useful_observations p
     \<and> ip_repeated_actions p \<le> PROGRESS_WINDOW_SIZE"

definition pushed :: "(string \<times> bool) list \<Rightarrow> string \<times> bool \<Rightarrow> (string \<times> bool) list" where
  "pushed w x = (if PROGRESS_WINDOW_SIZE < length (w @ [x]) then tl (w @ [x]) else w @ [x])"

definition classify :: "string \<Rightarrow> (string \<times> bool) list \<Rightarrow> ProgressStateValue" where
  "classify key w =
     (if 5 \<le> count_list (map fst w) key \<or> \<not> list_ex snd w then ProgressStateValue_Stalled
      else if 3 \<le> count_list (map fst w) key then ProgressStateValue_Degraded
      else ProgressStateValue_Healthy)"

definition fresh_observation :: "InternalProgress \<Rightarrow> HostObservation \<Rightarrow> bool" where
  "fresh_observation p ob \<longleftrightarrow> ob_progress ob \<or> observation_key ob \<notin> fst ` set (ip_window p)"

lemma length_filter_fst: "length (filter (\<lambda>(entry, _). entry = key) w) = count_list (map fst w) key"
  by (induction w) (auto split: prod.splits)

lemma length_filter_snd: "length (filter (\<lambda>(_, useful). useful) w) = 0 \<longleftrightarrow> \<not> list_ex snd w"
  by (induction w) (auto split: prod.splits)

lemma list_ex_fst: "list_ex (\<lambda>(entry, _). entry = key) w \<longleftrightarrow> key \<in> fst ` set w"
  by (induction w) (auto split: prod.splits)

text \<open>The state after an observation, as one record.\<close>

definition observed :: "InternalProgress \<Rightarrow> HostObservation \<Rightarrow> int \<Rightarrow> InternalProgress" where
  "observed p ob now =
     (let fresh = fresh_observation p ob; key = observation_key ob;
          w = pushed (ip_window p) (key, fresh)
      in \<lparr> ip_useful_observations = ip_useful_observations p + (if fresh then 1 else 0),
           ip_repeated_actions = count_list (map fst w) key,
           ip_state = classify key w,
           ip_last_progress_at_ms = (if fresh then Some now else ip_last_progress_at_ms p),
           ip_stalled_at_ms = (if classify key w = ProgressStateValue_Stalled
             then (if ip_stalled_at_ms p = None then Some now else ip_stalled_at_ms p) else None),
           ip_window = w \<rparr>)"

lemma observe_progress_eq: "observe_progress p ob now = (observed p ob now, progress_snapshot (observed p ob now))"
proof -
  let ?key = "observation_key ob"
  have fresh: "(ob_progress ob \<or> \<not> list_ex (\<lambda>(entry, _). entry = ?key) (ip_window p)) = fresh_observation p ob"
    by (simp add: fresh_observation_def list_ex_fst)
  define w where "w = pushed (ip_window p) (?key, fresh_observation p ob)"
  have w: "(if PROGRESS_WINDOW_SIZE < length (ip_window p @ [(?key, fresh_observation p ob)])
      then tl (ip_window p @ [(?key, fresh_observation p ob)])
      else ip_window p @ [(?key, fresh_observation p ob)]) = w"
    by (simp add: w_def pushed_def)
  have window: "ip_window (if b then p\<lparr>ip_useful_observations := n, ip_last_progress_at_ms := t\<rparr> else p) = ip_window p" for b n t
    by simp
  show ?thesis
    unfolding observe_progress_def observed_def Let_def fresh window w length_filter_fst length_filter_snd
      w_def [symmetric] classify_def PROGRESS_STALLED_REPETITIONS_def PROGRESS_DEGRADED_REPETITIONS_def
    by (cases "fresh_observation p ob"; cases "5 \<le> count_list (map fst w) ?key \<or> \<not> list_ex snd w";
        cases "3 \<le> count_list (map fst w) ?key"; cases p; simp)
qed

lemma observed_window [simp]:
  "ip_window (observed p ob now) = pushed (ip_window p) (observation_key ob, fresh_observation p ob)"
  by (simp add: observed_def Let_def)

lemma observed_state [simp]:
  "ip_state (observed p ob now) = classify (observation_key ob) (ip_window (observed p ob now))"
  by (simp add: observed_def Let_def)

lemma length_pushed: "length w \<le> PROGRESS_WINDOW_SIZE \<Longrightarrow> length (pushed w x) \<le> PROGRESS_WINDOW_SIZE"
  by (simp add: pushed_def)

lemma filter_pushed: "length (filter P (pushed w x)) \<le> length (filter P w) + (if P x then 1 else 0)"
  by (cases w) (auto simp: pushed_def)

lemma progress_wf_create: "progress_wf create_internal_progress"
  by (simp add: progress_wf_def create_internal_progress_def)

lemma progress_wf_observed:
  assumes "progress_wf p"
  shows "progress_wf (observed p ob now)"
proof -
  let ?x = "(observation_key ob, fresh_observation p ob)"
  have "count_list (map fst (pushed (ip_window p) ?x)) (observation_key ob) \<le> PROGRESS_WINDOW_SIZE"
    using count_le_length length_pushed assms unfolding progress_wf_def by (metis length_map le_trans)
  moreover have "length (filter snd (pushed (ip_window p) ?x)) \<le> ip_useful_observations (observed p ob now)"
    using filter_pushed [of snd "ip_window p" ?x] assms
    by (auto simp: progress_wf_def observed_def Let_def split: if_splits)
  ultimately show ?thesis
    using assms by (auto simp: progress_wf_def length_pushed observed_def Let_def)
qed

subsection \<open>Repetition stalls\<close>

fun observe_run :: "InternalProgress \<Rightarrow> (HostObservation \<times> int) list \<Rightarrow> InternalProgress" where
  "observe_run p [] = p"
| "observe_run p ((ob, now) # obs) = observe_run (fst (observe_progress p ob now)) obs"

lemma observe_run_append: "observe_run p (as @ bs) = observe_run (observe_run p as) bs"
  by (induction p as rule: observe_run.induct) auto

lemma progress_wf_run: "progress_wf p \<Longrightarrow> progress_wf (observe_run p obs)"
  by (induction p obs rule: observe_run.induct) (simp_all add: observe_progress_eq progress_wf_observed)

text \<open>After \<open>n\<close> observations with the same key the window ends in \<open>n\<close> entries for it.\<close>

lemma window_suffix:
  assumes "progress_wf p" and "n \<le> PROGRESS_WINDOW_SIZE" and "length obs = n"
    and "list_all (\<lambda>(ob, _). observation_key ob = key) obs"
  shows "\<exists>u. map fst (ip_window (observe_run p obs)) = u @ replicate n key"
  using assms(2-)
proof (induction n arbitrary: obs)
  case 0
  then show ?case
    by simp
next
  case (Suc n)
  then obtain obs' ob now where obs: "obs = obs' @ [(ob, now)]"
    by (metis length_Suc_conv_rev surj_pair)
  let ?q = "observe_run p obs'"
  from Suc obs have "\<exists>u. map fst (ip_window ?q) = u @ replicate n key"
    by (intro Suc.IH) auto
  then obtain u where u: "map fst (ip_window ?q) = u @ replicate n key"
    by blast
  have w: "map fst (ip_window (observe_run p obs)) = map fst (pushed (ip_window ?q) (key, fresh_observation ?q ob))"
    using Suc.prems obs by (simp add: observe_run_append observe_progress_eq)
  show ?case
  proof (cases "PROGRESS_WINDOW_SIZE < length (ip_window ?q @ [(key, fresh_observation ?q ob)])")
    case True
    have "u \<noteq> []"
      using True u Suc.prems(1) by (metis Suc_n_not_le_n append_Nil length_append_singleton length_map
          length_replicate less_Suc_eq_le order_trans)
    then have "map fst (pushed (ip_window ?q) (key, fresh_observation ?q ob)) = tl u @ replicate (Suc n) key"
      using True u by (simp add: pushed_def map_tl replicate_append_same flip: replicate_Suc)
    then show ?thesis
      using w by metis
  next
    case False
    then have "map fst (pushed (ip_window ?q) (key, fresh_observation ?q ob)) = u @ replicate (Suc n) key"
      using u by (simp add: pushed_def replicate_append_same)
    then show ?thesis
      using w by metis
  qed
qed

subsection \<open>Properties\<close>

text \<open>
  Whatever a task observed before, five consecutive observations of the same action
  with the same result leave it stalled with a stall time; and after every observation the
  state is exactly the documented function of the window of at most eight entries: stalled
  on five repetitions or no useful entry, degraded on three, healthy otherwise.
\<close>

theorem repeated_observation_stalls:
  assumes "list_all (\<lambda>(ob, _). observation_key ob = key) obs" and "length obs = 5"
  shows "(let p = observe_run (observe_run create_internal_progress earlier) obs in
      ip_state p = ProgressStateValue_Stalled \<and> ip_stalled_at_ms p \<noteq> None)
    \<and> (let p = observe_run create_internal_progress (earlier @ [(ob, now)]) in
      ip_state p = classify (observation_key ob) (ip_window p) \<and> length (ip_window p) \<le> 8)"
proof -
  let ?p = "observe_run create_internal_progress earlier"
  have wf: "progress_wf ?p" "progress_wf (observe_run ?p obs)"
    by (simp_all add: progress_wf_run progress_wf_create)
  obtain u where u: "map fst (ip_window (observe_run ?p obs)) = u @ replicate 5 key"
    using window_suffix [OF wf(1) _ assms(2,1)] by (auto simp: PROGRESS_WINDOW_SIZE_def)
  obtain ob' now' obs' where last: "obs = obs' @ [(ob', now')]"
    using assms(2) by (cases obs rule: rev_cases) auto
  have key: "observation_key ob' = key"
    using assms(1) last by simp
  have "ip_state (observe_run ?p obs) = classify key (ip_window (observe_run ?p obs))"
    unfolding last by (simp add: observe_run_append observe_progress_eq key)
  moreover have "5 \<le> count_list (map fst (ip_window (observe_run ?p obs))) key"
    unfolding u by (simp add: numeral_eq_Suc)
  ultimately have stalled: "ip_state (observe_run ?p obs) = ProgressStateValue_Stalled"
    by (simp add: classify_def)
  moreover have "ip_stalled_at_ms (observe_run ?p obs) \<noteq> None"
    using stalled wf(2) by (auto simp: progress_wf_def)
  moreover have "length (ip_window (observe_run create_internal_progress (earlier @ [(ob, now)]))) \<le> 8"
    using progress_wf_run [OF progress_wf_create, of "earlier @ [(ob, now)]"]
    by (simp add: progress_wf_def PROGRESS_WINDOW_SIZE_def)
  ultimately show ?thesis
    by (simp add: Let_def observe_run_append observe_progress_eq)
qed

theorem repeated_observation_stalls_witness:
  "ip_state (observe_run create_internal_progress
     (replicate 5 (\<lparr> ob_action = ''read'', ob_fingerprint = ''same'', ob_progress = True \<rparr>, 7)))
   = ProgressStateValue_Stalled"
  using repeated_observation_stalls [of "''read:same''"
      "replicate 5 (\<lparr> ob_action = ''read'', ob_fingerprint = ''same'', ob_progress = True \<rparr>, 7)" "[]"]
  by (simp add: observation_key_def Let_def list_all_iff)

end
