(* ===== verification/Evidence.thy ===== *)
theory Evidence
  imports Task_Model
begin

text \<open>
  Evidence and findings validation (\<open>task/evidence.rs\<close>).  Shown: exactly which payloads are
  accepted; an accepted \<open>passed\<close> verification is always backed by a source that supports
  success; the serialised source is injective; findings are accepted exactly when bounded,
  non-empty and with distinct ids, and are stored unchanged.
\<close>

fun source_supports_successful_outcome :: "EvidenceKind \<Rightarrow> EvidenceSource \<Rightarrow> bool" where
  "source_supports_successful_outcome kind (EvidenceSource_WorkspaceRead paths _) \<longleftrightarrow>
     kind = EvidenceKind_WorkspaceRead \<and> paths \<noteq> []"
| "source_supports_successful_outcome kind (EvidenceSource_Parser checked_files valid_files errors) \<longleftrightarrow>
     kind = EvidenceKind_ParserResult \<and> 0 < checked_files \<and> errors = 0 \<and> valid_files = checked_files"
| "source_supports_successful_outcome kind (EvidenceSource_Validation _ integrity unexpected_changes) \<longleftrightarrow>
     kind = EvidenceKind_ValidationResult \<and> integrity \<and> unexpected_changes = 0"
| "source_supports_successful_outcome kind (EvidenceSource_Review status blocking_findings) \<longleftrightarrow>
     kind = EvidenceKind_ReviewResult \<and> status = ''clean'' \<and> blocking_findings = 0"
| "source_supports_successful_outcome kind (EvidenceSource_UserApproval _ _ decision) \<longleftrightarrow>
     kind = EvidenceKind_UserApproval \<and> decision = ApprovalDecision_Approved"

definition binding_id_pattern_ok :: "string \<Rightarrow> bool" where
  "binding_id_pattern_ok s =
     (if s = [] \<or> 128 < length s then False
      else if \<not> is_ascii_alphabetic (hd s) then False
      else list_all id_tail_char (tl s))"

record ValidatedEvidence =
  ve_source :: EvidenceSource
  ve_verification :: "EvidenceVerification option"

datatype EvidenceError =
    EvidenceError_EmptyId
  | EvidenceError_IdTooLarge
  | EvidenceError_UnknownKind
  | EvidenceError_SourceKindMismatch
  | EvidenceError_InvalidVerification
  | EvidenceError_SourceTooLarge
  | EvidenceError_PassedOutcomeWithoutSuccessfulSource
  | EvidenceError_NonFiniteSource

fun EvidenceError_code :: "EvidenceError \<Rightarrow> string" where
  "EvidenceError_code EvidenceError_EmptyId = ''empty_evidence_id''"
| "EvidenceError_code EvidenceError_IdTooLarge = ''evidence_id_too_large''"
| "EvidenceError_code EvidenceError_UnknownKind = ''unknown_evidence_kind''"
| "EvidenceError_code EvidenceError_SourceKindMismatch = ''evidence_source_kind_mismatch''"
| "EvidenceError_code EvidenceError_InvalidVerification = ''invalid_evidence_verification''"
| "EvidenceError_code EvidenceError_SourceTooLarge = ''evidence_source_too_large''"
| "EvidenceError_code EvidenceError_PassedOutcomeWithoutSuccessfulSource =
     ''passed_verification_without_successful_source''"
| "EvidenceError_code EvidenceError_NonFiniteSource = ''non_finite_evidence_source''"

fun decision_str :: "ApprovalDecision \<Rightarrow> string" where
  "decision_str ApprovalDecision_Approved = ''approved''"
| "decision_str ApprovalDecision_Denied = ''denied''"

fun source_to_canonical :: "EvidenceSource \<Rightarrow> CanonicalValue" where
  "source_to_canonical (EvidenceSource_WorkspaceRead paths revision) = object
     ([(''type'', CanonicalValue_Str ''workspace_read''), (''paths'', str_array paths)]
      @ opt_field ''revision'' CanonicalValue_Str revision)"
| "source_to_canonical (EvidenceSource_Parser checked_files valid_files errors) = object
     [(''type'', CanonicalValue_Str ''parser''), (''checkedFiles'', CanonicalValue_U64 checked_files),
      (''validFiles'', CanonicalValue_U64 valid_files), (''errors'', CanonicalValue_U64 errors)]"
| "source_to_canonical (EvidenceSource_Validation outcome integrity unexpected_changes) = object
     [(''type'', CanonicalValue_Str ''validation''), (''outcome'', CanonicalValue_Str outcome),
      (''workspaceIntegrityVerified'', CanonicalValue_Bool integrity),
      (''unexpectedChanges'', CanonicalValue_U64 unexpected_changes)]"
| "source_to_canonical (EvidenceSource_Review status blocking_findings) = object
     [(''type'', CanonicalValue_Str ''review''), (''status'', CanonicalValue_Str status),
      (''blockingFindings'', CanonicalValue_U64 blocking_findings)]"
| "source_to_canonical (EvidenceSource_UserApproval approval_id subject_id decision) = object
     [(''type'', CanonicalValue_Str ''user_approval''), (''approvalId'', CanonicalValue_Str approval_id),
      (''subjectId'', CanonicalValue_Str subject_id), (''decision'', CanonicalValue_Str (decision_str decision))]"

definition source_canonical_bytes :: "EvidenceSource \<Rightarrow> string" where
  "source_canonical_bytes source = canonicalize (source_to_canonical source)"

fun source_kind_matches :: "EvidenceKind \<Rightarrow> EvidenceSource \<Rightarrow> bool" where
  "source_kind_matches EvidenceKind_WorkspaceRead (EvidenceSource_WorkspaceRead _ _) = True"
| "source_kind_matches EvidenceKind_ParserResult (EvidenceSource_Parser _ _ _) = True"
| "source_kind_matches EvidenceKind_ValidationResult (EvidenceSource_Validation _ _ _) = True"
| "source_kind_matches EvidenceKind_ReviewResult (EvidenceSource_Review _ _) = True"
| "source_kind_matches EvidenceKind_UserApproval (EvidenceSource_UserApproval _ _ _) = True"
| "source_kind_matches _ _ = False"

definition validate_verification :: "EvidenceVerification \<Rightarrow> EvidenceError + unit" where
  "validate_verification verification =
     (if \<not> binding_id_pattern_ok (ev_check_id verification) then Err EvidenceError_InvalidVerification
      else if (case ev_criterion_id verification of
                 Some criterion_id \<Rightarrow> \<not> binding_id_pattern_ok criterion_id | None \<Rightarrow> False)
      then Err EvidenceError_InvalidVerification
      else if ev_criterion_id verification = None then Err EvidenceError_InvalidVerification
      else Ok ())"

definition validate_evidence_payload ::
    "string \<Rightarrow> EvidenceKind \<Rightarrow> EvidenceSource \<Rightarrow> EvidenceVerification option
      \<Rightarrow> EvidenceError + ValidatedEvidence" where
  "validate_evidence_payload i kind source verification =
     (if trim i = [] then Err EvidenceError_EmptyId
      else if MAX_TASK_EVIDENCE_ID_BYTES < length i then Err EvidenceError_IdTooLarge
      else if \<not> source_kind_matches kind source then Err EvidenceError_SourceKindMismatch
      else
        result_bind (case verification of Some v \<Rightarrow> validate_verification v | None \<Rightarrow> Ok ()) (\<lambda>_.
        if MAX_EVIDENCE_SOURCE_BYTES < length (source_canonical_bytes source) then
          Err EvidenceError_SourceTooLarge
        else if (case verification of Some v \<Rightarrow> ev_outcome v = VerificationOutcome_Passed | None \<Rightarrow> False)
            \<and> \<not> source_supports_successful_outcome kind source
        then Err EvidenceError_PassedOutcomeWithoutSuccessfulSource
        else Ok \<lparr> ve_source = source, ve_verification = verification \<rparr>))"

record FindingInput =
  fi_finding_id :: string
  fi_severity :: FindingSeverity
  fi_source :: string

datatype FindingError =
    FindingError_TooMany | FindingError_EmptyField | FindingError_FieldTooLarge
  | FindingError_DuplicateId

fun FindingError_code :: "FindingError \<Rightarrow> string" where
  "FindingError_code FindingError_TooMany = ''too_many_findings''"
| "FindingError_code FindingError_EmptyField = ''empty_finding_field''"
| "FindingError_code FindingError_FieldTooLarge = ''finding_field_too_large''"
| "FindingError_code FindingError_DuplicateId = ''duplicate_finding_id''"

fun findings_loop :: "string list \<Rightarrow> FindingInput list \<Rightarrow> FindingError + FindingRef list" where
  "findings_loop ids [] = Ok []"
| "findings_loop ids (finding # rest) =
     (if trim (fi_finding_id finding) = [] \<or> trim (fi_source finding) = [] then
        Err FindingError_EmptyField
      else if MAX_TASK_FINDING_FIELD_BYTES < length (fi_finding_id finding)
          \<or> MAX_TASK_FINDING_FIELD_BYTES < length (fi_source finding)
      then Err FindingError_FieldTooLarge
      else if fi_finding_id finding \<in> set ids then Err FindingError_DuplicateId
      else result_bind (findings_loop (fi_finding_id finding # ids) rest) (\<lambda>validated.
        Ok (\<lparr> fr_finding_id = fi_finding_id finding, fr_severity = fi_severity finding,
              fr_source = fi_source finding \<rparr> # validated)))"

definition validate_findings :: "FindingInput list \<Rightarrow> FindingError + FindingRef list" where
  "validate_findings findings =
     (if MAX_TASK_FINDINGS < length findings then Err FindingError_TooMany
      else findings_loop [] findings)"

definition normalize_iteration :: "f64 option \<Rightarrow> nat" where
  "normalize_iteration iteration =
     (case iteration of
        Some (Finite r) \<Rightarrow> if 0 \<le> r then saturating_cast 64 \<lfloor>r\<rfloor> else 0
      | _ \<Rightarrow> 0)"

subsection \<open>Acceptance\<close>

definition verification_ok :: "EvidenceVerification \<Rightarrow> bool" where
  "verification_ok v \<longleftrightarrow> binding_id_pattern_ok (ev_check_id v)
     \<and> (\<exists>c. ev_criterion_id v = Some c \<and> binding_id_pattern_ok c)"

lemma validate_verification_Ok_iff [validator]: "validate_verification v = Ok u \<longleftrightarrow> verification_ok v"
  by (auto simp: validate_verification_def verification_ok_def split: option.splits)

definition evidence_ok ::
    "string \<Rightarrow> EvidenceKind \<Rightarrow> EvidenceSource \<Rightarrow> EvidenceVerification option \<Rightarrow> bool" where
  "evidence_ok i kind source verification \<longleftrightarrow>
     trim i \<noteq> [] \<and> length i \<le> MAX_TASK_EVIDENCE_ID_BYTES \<and> source_kind_matches kind source
     \<and> length (source_canonical_bytes source) \<le> MAX_EVIDENCE_SOURCE_BYTES
     \<and> (case verification of None \<Rightarrow> True | Some v \<Rightarrow> verification_ok v
          \<and> (ev_outcome v = VerificationOutcome_Passed \<longrightarrow> source_supports_successful_outcome kind source))"

lemma validate_evidence_payload_Ok_iff [validator]:
  "validate_evidence_payload i kind source verification = Ok v \<longleftrightarrow>
     evidence_ok i kind source verification \<and> v = \<lparr> ve_source = source, ve_verification = verification \<rparr>"
  by (cases verification)
    (auto simp: validate_evidence_payload_def evidence_ok_def result_bind_Ok_iff validator not_less split: if_splits)

definition finding_of :: "FindingInput \<Rightarrow> FindingRef" where
  "finding_of f = \<lparr> fr_finding_id = fi_finding_id f, fr_severity = fi_severity f, fr_source = fi_source f \<rparr>"

definition finding_ok :: "FindingInput \<Rightarrow> bool" where
  "finding_ok f \<longleftrightarrow> trim (fi_finding_id f) \<noteq> [] \<and> trim (fi_source f) \<noteq> []
     \<and> length (fi_finding_id f) \<le> MAX_TASK_FINDING_FIELD_BYTES \<and> length (fi_source f) \<le> MAX_TASK_FINDING_FIELD_BYTES"

lemma findings_loop_Ok_iff [validator]:
  "findings_loop ids fs = Ok vs \<longleftrightarrow> list_all finding_ok fs \<and> distinct (map fi_finding_id fs)
     \<and> set (map fi_finding_id fs) \<inter> set ids = {} \<and> vs = map finding_of fs"
  by (induction ids fs arbitrary: vs rule: findings_loop.induct)
    (auto simp: finding_ok_def finding_of_def result_bind_Ok_iff)

lemma validate_findings_Ok_iff [validator]:
  "validate_findings fs = Ok vs \<longleftrightarrow> length fs \<le> MAX_TASK_FINDINGS \<and> list_all finding_ok fs
     \<and> distinct (map fi_finding_id fs) \<and> vs = map finding_of fs"
  by (auto simp: validate_findings_def validator)

lemma decision_str_inject [simp]: "decision_str a = decision_str b \<longleftrightarrow> a = b"
  by (cases a; cases b; simp)

lemma source_to_canonical_inject: "source_to_canonical a = source_to_canonical b \<longleftrightarrow> a = b"
proof
  assume eq: "source_to_canonical a = source_to_canonical b"
  show "a = b"
    using eq
    by (cases a; cases b) (auto simp: object_def opt_field_def split: option.splits)
qed simp

lemma normalize_iteration_bound: "normalize_iteration x < 2 ^ 64"
  by (auto simp: normalize_iteration_def saturating_cast_def min_def split: option.splits f64.splits)

subsection \<open>Properties\<close>

text \<open>
  An evidence payload is accepted exactly when its id is non-blank and at most 256
  bytes, the source has the claimed kind and serialises to at most 4096 bytes, a verification
  binding has valid check and criterion ids, and a claimed \<open>passed\<close> outcome is supported by
  the source itself; what is accepted is stored unchanged, and different sources have
  different canonical bytes.
\<close>

theorem evidence_acceptance_exact:
  "(validate_evidence_payload i kind source verification = Ok v) =
     (evidence_ok i kind source verification \<and> v = \<lparr> ve_source = source, ve_verification = verification \<rparr>)
   \<and> (source_canonical_bytes s = source_canonical_bytes t) = (s = t)"
  by (simp add: validator source_canonical_bytes_def canonicalize_inject source_to_canonical_inject)

end
