(* ===== verification/Machine.thy ===== *)
theory Machine
  imports Prelude
begin

text \<open>
  State machines driven by a sequence of operations, the shape the task runtime, the module
  lifecycle and the approval ledger share.  \<open>run\<close> applies a sequence; the locale \<open>machine\<close>
  says that every operation keeps an invariant, \<open>absorbing_machine\<close> that a final state is
  never left again, and \<open>logged_machine\<close> that operations only ever append to a log.
\<close>

definition run :: "('o \<Rightarrow> 's \<Rightarrow> 's) \<Rightarrow> 's \<Rightarrow> 'o list \<Rightarrow> 's" where
  "run step s os = foldl (\<lambda>s x. step x s) s os"

lemma run_simps [simp]:
  "run step s [] = s"
  "run step s (x # os) = run step (step x s) os"
  by (simp_all add: run_def)

lemma run_append: "run step s (as @ bs) = run step (run step s as) bs"
  by (simp add: run_def)

inductive reachable :: "('s \<Rightarrow> bool) \<Rightarrow> ('o \<Rightarrow> 's \<Rightarrow> 's) \<Rightarrow> 's \<Rightarrow> bool"
  for init :: "'s \<Rightarrow> bool" and step :: "'o \<Rightarrow> 's \<Rightarrow> 's" where
  start: "init s \<Longrightarrow> reachable init step s"
| step: "reachable init step s \<Longrightarrow> reachable init step (step x s)"

inductive_cases reachableE: "reachable init step s"

lemma reachable_run: "reachable init step s \<Longrightarrow> reachable init step (run step s os)"
  by (induction os arbitrary: s) (auto intro: reachable.step)

lemma reachable_iff_run: "reachable init step s \<longleftrightarrow> (\<exists>s0 os. init s0 \<and> s = run step s0 os)"
proof
  show "reachable init step s \<Longrightarrow> \<exists>s0 os. init s0 \<and> s = run step s0 os"
  proof (induction rule: reachable.induct)
    case (start s)
    then show ?case
      by (metis run_simps(1))
  next
    case (step s x)
    then show ?case
      by (metis run_append run_simps)
  qed
qed (auto intro: reachable_run reachable.start)

locale machine =
  fixes init :: "'s \<Rightarrow> bool"
    and step :: "'o \<Rightarrow> 's \<Rightarrow> 's"
    and inv :: "'s \<Rightarrow> bool"
  assumes init_inv: "init s \<Longrightarrow> inv s"
    and step_inv: "inv s \<Longrightarrow> inv (step x s)"
begin

lemma run_inv: "inv s \<Longrightarrow> inv (run step s os)"
  by (induction os arbitrary: s) (simp_all add: step_inv)

lemma reachable_inv: "reachable init step s \<Longrightarrow> inv s"
  by (induction rule: reachable.induct) (simp_all add: init_inv step_inv)

end

text \<open>A final state is left unchanged by every operation.\<close>

locale absorbing_machine = machine +
  fixes final :: "'s \<Rightarrow> bool"
  assumes final_step: "final s \<Longrightarrow> step x s = s"
begin

lemma final_run: "final s \<Longrightarrow> run step s os = s"
  by (induction os) (simp_all add: final_step)

lemma final_stays: "reachable init step s \<Longrightarrow> final s \<Longrightarrow> final (run step s os)"
  by (simp add: final_run)

end

text \<open>The log of a state is only ever extended.\<close>

locale logged_machine = machine +
  fixes log :: "'s \<Rightarrow> 'e list"
  assumes log_step: "\<exists>es. log (step x s) = log s @ es"
begin

lemma log_run: "\<exists>es. log (run step s os) = log s @ es"
proof (induction os arbitrary: s)
  case (Cons x os)
  obtain es where "log (step x s) = log s @ es"
    using log_step by blast
  moreover obtain fs where "log (run step (step x s) os) = log (step x s) @ fs"
    using Cons.IH by blast
  ultimately show ?case
    by simp
qed simp

lemma log_length_mono: "length (log s) \<le> length (log (run step s os))"
  using log_run [of s os] by auto

end

end
