(* ===== verification/Task_Runtime.thy ===== *)
theory Task_Runtime
  imports Progress Evidence Machine
begin

text \<open>
  The task runtime (\<open>task/runtime.rs\<close>): task records, creation, every operation of the task
  handle, and the registry.  An operation takes the record and returns the changed record
  with its result.  Every call of the clock is an argument \<open>now\<close> of the operation that makes
  it.  \<open>set_plan\<close> takes the validator of plan candidates as an argument: what is shown of it
  holds for every validator.
\<close>

datatype OpError =
    OpError_Terminal
  | OpError_AlreadyPhase
  | OpError_InvalidTransition
  | OpError_UnknownStep
  | OpError_StepAlreadyActive
  | OpError_StepAlreadyCompleted
  | OpError_StepNotActive
  | OpError_StepRequiresEvidence
  | OpError_DuplicateEvidenceRef
  | OpError_StepRejectsEvidenceKind
  | OpError_UnknownEvidenceRef
  | OpError_EvidenceKindMismatch
  | OpError_UnknownCriterion
  | OpError_CriterionRequiresVerificationEvidence
  | OpError_UnknownEvidence
  | OpError_EvidenceNotBoundToContract
  | OpError_EvidenceNotBoundToCriterion
  | OpError_EvidenceNotSuccessful
  | OpError_EvidenceKindCannotVerifyCriterion
  | OpError_CompletionGate

fun OpError_code :: "OpError \<Rightarrow> string" where
  "OpError_code OpError_Terminal = ''terminal''"
| "OpError_code OpError_AlreadyPhase = ''already_phase''"
| "OpError_code OpError_InvalidTransition = ''invalid_transition''"
| "OpError_code OpError_UnknownStep = ''unknown_step''"
| "OpError_code OpError_StepAlreadyActive = ''step_already_active''"
| "OpError_code OpError_StepAlreadyCompleted = ''step_already_completed''"
| "OpError_code OpError_StepNotActive = ''step_not_active''"
| "OpError_code OpError_StepRequiresEvidence = ''step_requires_evidence''"
| "OpError_code OpError_DuplicateEvidenceRef = ''duplicate_evidence_ref''"
| "OpError_code OpError_StepRejectsEvidenceKind = ''step_rejects_evidence_kind''"
| "OpError_code OpError_UnknownEvidenceRef = ''unknown_evidence_ref''"
| "OpError_code OpError_EvidenceKindMismatch = ''evidence_kind_mismatch''"
| "OpError_code OpError_UnknownCriterion = ''unknown_criterion''"
| "OpError_code OpError_CriterionRequiresVerificationEvidence = ''criterion_requires_verification_evidence''"
| "OpError_code OpError_UnknownEvidence = ''unknown_evidence''"
| "OpError_code OpError_EvidenceNotBoundToContract = ''evidence_not_bound_to_contract''"
| "OpError_code OpError_EvidenceNotBoundToCriterion = ''evidence_not_bound_to_criterion''"
| "OpError_code OpError_EvidenceNotSuccessful = ''evidence_not_successful''"
| "OpError_code OpError_EvidenceKindCannotVerifyCriterion = ''evidence_kind_cannot_verify_criterion''"
| "OpError_code OpError_CompletionGate = ''completion_gate''"

datatype StepOpResult =
    StepOpResult_Ok
  | StepOpResult_Rejected OpError

datatype AttachRejection =
    AttachRejection_Terminal
  | AttachRejection_Invalid EvidenceError
  | AttachRejection_DuplicateId
  | AttachRejection_RecordLimit

fun AttachRejection_code :: "AttachRejection \<Rightarrow> string" where
  "AttachRejection_code AttachRejection_Terminal = ''terminal''"
| "AttachRejection_code (AttachRejection_Invalid error) = EvidenceError_code error"
| "AttachRejection_code AttachRejection_DuplicateId = ''duplicate_evidence_id''"
| "AttachRejection_code AttachRejection_RecordLimit = ''evidence_limit''"

datatype AttachResult =
    AttachResult_Attached
  | AttachResult_Rejected AttachRejection

datatype CriterionResult =
    CriterionResult_Verified
  | CriterionResult_Failed
  | CriterionResult_Rejected OpError

record CompletionEvaluation =
  allowed :: bool
  missing :: "string list"

datatype CompletionResult = CompletionResult_Completed | CompletionResult_Rejected "string list"

record DispositionResult =
  dr_accepted :: bool
  dr_evaluation :: "CompletionEvaluation option"
  dr_code :: "OpError option"

datatype StepSpecError =
    StepSpecError_TooManySteps
  | StepSpecError_InvalidStepId
  | StepSpecError_DuplicateStepId
  | StepSpecError_EmptyStepDescription
  | StepSpecError_StepDescriptionTooLarge
  | StepSpecError_InvalidStepKind
  | StepSpecError_EmptyStepAccepts
  | StepSpecError_InvalidStepEvidenceKind
  | StepSpecError_DuplicateStepEvidenceKind

fun StepSpecError_code :: "StepSpecError \<Rightarrow> string" where
  "StepSpecError_code StepSpecError_TooManySteps = ''too_many_steps''"
| "StepSpecError_code StepSpecError_InvalidStepId = ''invalid_step_id''"
| "StepSpecError_code StepSpecError_DuplicateStepId = ''duplicate_step_id''"
| "StepSpecError_code StepSpecError_EmptyStepDescription = ''empty_step_description''"
| "StepSpecError_code StepSpecError_StepDescriptionTooLarge = ''step_description_too_large''"
| "StepSpecError_code StepSpecError_InvalidStepKind = ''invalid_step_kind''"
| "StepSpecError_code StepSpecError_EmptyStepAccepts = ''empty_step_accepts''"
| "StepSpecError_code StepSpecError_InvalidStepEvidenceKind = ''invalid_step_evidence_kind''"
| "StepSpecError_code StepSpecError_DuplicateStepEvidenceKind = ''duplicate_step_evidence_kind''"

datatype TaskCreateError =
    TaskCreateError_DuplicateTask
  | TaskCreateError_Steps StepSpecError

fun TaskCreateError_code :: "TaskCreateError \<Rightarrow> string" where
  "TaskCreateError_code TaskCreateError_DuplicateTask = ''duplicate_task''"
| "TaskCreateError_code (TaskCreateError_Steps error) = StepSpecError_code error"

datatype ReviseError =
    ReviseError_Terminal
  | ReviseError_Contract ContractError

fun ReviseError_code :: "ReviseError \<Rightarrow> string" where
  "ReviseError_code ReviseError_Terminal = ''terminal''"
| "ReviseError_code (ReviseError_Contract error) = ContractError_code error"

record CreateTaskInput =
  ct_contract :: TaskContract
  ct_steps :: "TaskStepSpec list"
  ct_iteration :: "f64 option"

definition step_id_pattern_ok :: "string \<Rightarrow> bool" where
  "step_id_pattern_ok s =
     (if s = [] \<or> 64 < length s then False
      else if \<not> is_ascii_alphabetic (hd s) then False
      else list_all id_tail_char (tl s))"

fun step_specs_loop :: "string list \<Rightarrow> TaskStepSpec list \<Rightarrow> StepSpecError + TaskStepSpec list" where
  "step_specs_loop ids [] = Ok []"
| "step_specs_loop ids (spec # rest) =
     (if \<not> step_id_pattern_ok (sp_id spec) then Err StepSpecError_InvalidStepId
      else if sp_id spec \<in> set ids then Err StepSpecError_DuplicateStepId
      else if trim (sp_description spec) = [] then Err StepSpecError_EmptyStepDescription
      else if MAX_TASK_STEP_DESCRIPTION_BYTES < length (trim (sp_description spec)) then
        Err StepSpecError_StepDescriptionTooLarge
      else if sp_accepts spec = [] then Err StepSpecError_EmptyStepAccepts
      else if \<not> insert_all [] (sp_accepts spec) then Err StepSpecError_DuplicateStepEvidenceKind
      else result_bind (step_specs_loop (sp_id spec # ids) rest) (\<lambda>validated.
        Ok (spec\<lparr>sp_description := trim (sp_description spec)\<rparr> # validated)))"

definition prepare_step_specs :: "TaskStepSpec list \<Rightarrow> StepSpecError + TaskStepSpec list" where
  "prepare_step_specs steps =
     (if MAX_TASK_STEPS < length steps then Err StepSpecError_TooManySteps
      else step_specs_loop [] steps)"

record TaskRecord =
  tr_id :: string
  tr_specs :: "TaskStepSpec list"
  tr_contract :: TaskContract
  tr_contract_revisions :: "TaskContract list"
  tr_state :: TaskState
  tr_plans :: "TaskPlan list"
  tr_plan_approval :: "PlanApproval option"
  tr_activity :: "ActivityEvent list"
  tr_sequence :: nat
  tr_progress :: InternalProgress

definition terminal_reason :: "TaskRecord \<Rightarrow> string option" where
  "terminal_reason r =
     (if is_terminal_phase (ts_phase (tr_state r))
      then Some (''The task is terminal ('' @ TaskPhase_as_str (ts_phase (tr_state r))
             @ ''); authoritative state can no longer be changed.'')
      else None)"

fun allowed_transitions :: "TaskPhase \<Rightarrow> TaskPhase list" where
  "allowed_transitions TaskPhase_Prepared =
     [TaskPhase_Working, TaskPhase_Cancelled, TaskPhase_Failed]"
| "allowed_transitions TaskPhase_Working =
     [TaskPhase_Validating, TaskPhase_Reviewing, TaskPhase_Blocked, TaskPhase_Cancelled, TaskPhase_Failed]"
| "allowed_transitions TaskPhase_Validating =
     [TaskPhase_Working, TaskPhase_Reviewing, TaskPhase_Blocked, TaskPhase_Cancelled, TaskPhase_Failed]"
| "allowed_transitions TaskPhase_Reviewing =
     [TaskPhase_Working, TaskPhase_Validating, TaskPhase_Blocked, TaskPhase_Cancelled, TaskPhase_Failed]"
| "allowed_transitions TaskPhase_Blocked =
     [TaskPhase_Working, TaskPhase_Cancelled, TaskPhase_Failed]"
| "allowed_transitions TaskPhase_Completed = []"
| "allowed_transitions TaskPhase_Cancelled = []"
| "allowed_transitions TaskPhase_Failed = []"

text \<open>The \<open>match\<close> of \<open>append_activity\<close> that stamps the sequence into the event.\<close>

fun stamp :: "nat \<Rightarrow> ActivityEvent \<Rightarrow> ActivityEvent" where
  "stamp n (ActivityEvent_TaskStarted _ a) = ActivityEvent_TaskStarted n a"
| "stamp n (ActivityEvent_TaskPhaseChanged _ a) = ActivityEvent_TaskPhaseChanged n a"
| "stamp n (ActivityEvent_StepStarted _ a) = ActivityEvent_StepStarted n a"
| "stamp n (ActivityEvent_StepCompleted _ a b) = ActivityEvent_StepCompleted n a b"
| "stamp n (ActivityEvent_StepFailed _ a b) = ActivityEvent_StepFailed n a b"
| "stamp n (ActivityEvent_EvidenceAttached _ a b) = ActivityEvent_EvidenceAttached n a b"
| "stamp n (ActivityEvent_CriterionVerified _ a b) = ActivityEvent_CriterionVerified n a b"
| "stamp n (ActivityEvent_TaskBlocked _ a) = ActivityEvent_TaskBlocked n a"
| "stamp n (ActivityEvent_TaskCompleted _) = ActivityEvent_TaskCompleted n"
| "stamp n (ActivityEvent_TaskCancelled _ a) = ActivityEvent_TaskCancelled n a"
| "stamp n (ActivityEvent_TaskFailed _ a) = ActivityEvent_TaskFailed n a"
| "stamp n (ActivityEvent_TaskContractRevised _ a) = ActivityEvent_TaskContractRevised n a"
| "stamp n (ActivityEvent_DispositionSubmitted _ a b c d) = ActivityEvent_DispositionSubmitted n a b c d"
| "stamp n (ActivityEvent_PlanningRouted _ a b) = ActivityEvent_PlanningRouted n a b"
| "stamp n (ActivityEvent_PlanCreated _ a b c) = ActivityEvent_PlanCreated n a b c"
| "stamp n (ActivityEvent_PlanRejected _ a) = ActivityEvent_PlanRejected n a"
| "stamp n (ActivityEvent_PlanApproved _ a b c) = ActivityEvent_PlanApproved n a b c"
| "stamp n (ActivityEvent_PlanInvalidated _ a b c) = ActivityEvent_PlanInvalidated n a b c"

definition append_activity :: "ActivityEvent \<Rightarrow> TaskRecord \<Rightarrow> TaskRecord" where
  "append_activity event r =
     r\<lparr>tr_sequence := tr_sequence r + 1,
       tr_activity := tr_activity r @ [stamp (tr_sequence r + 1) event]\<rparr>"

definition observe_task :: "HostObservation \<Rightarrow> int \<Rightarrow> TaskRecord \<Rightarrow> TaskRecord" where
  "observe_task observation now r =
     r\<lparr>tr_progress := fst (observe_progress (tr_progress r) observation now)\<rparr>"

definition initial_acceptance :: "TaskContract \<Rightarrow> AcceptanceState list" where
  "initial_acceptance contract =
     map (\<lambda>criterion. \<lparr> ac_criterion_id = crit_id criterion,
            ac_description = crit_description criterion,
            ac_verification_kind = crit_verification_kind criterion,
            ac_status = AcceptanceStatus_Pending, ac_verified_by = None, ac_note = None \<rparr>)
       (tc_acceptance_criteria contract)"

definition initial_steps :: "TaskStepSpec list \<Rightarrow> TaskStepState list" where
  "initial_steps specs =
     map (\<lambda>spec. \<lparr> st_id = sp_id spec, st_description = sp_description spec,
            st_kind = sp_kind spec, st_status = TaskStepStatus_Pending, st_evidence_refs = [],
            st_failed_reason = None, st_blocked_reason = None \<rparr>) specs"

definition build_record ::
    "TaskContract \<Rightarrow> TaskStepSpec list \<Rightarrow> f64 option \<Rightarrow> int \<Rightarrow> TaskRecord" where
  "build_record contract specs iteration now =
     (let r = \<lparr> tr_id = tc_id contract, tr_specs = specs, tr_contract = contract,
            tr_contract_revisions = [contract],
            tr_state = \<lparr> ts_task_id = tc_id contract, ts_contract_revision = tc_revision contract,
              ts_contract_digest = tc_digest contract, ts_phase = TaskPhase_Prepared,
              ts_plan = NO_TASK_PLAN, ts_steps = initial_steps specs,
              ts_acceptance = initial_acceptance contract, ts_current_findings = [],
              ts_evidence = [], ts_validation_status = TaskValidationStatus_NotRun,
              ts_review_status = TaskReviewStatus_NotRun,
              ts_iteration = normalize_iteration iteration,
              ts_progress = progress_snapshot create_internal_progress,
              ts_started_at_ms = now, ts_completed_at_ms = None, ts_terminal_reason = None \<rparr>,
            tr_plans = [], tr_plan_approval = None, tr_activity = [], tr_sequence = 0,
            tr_progress = create_internal_progress \<rparr>;
          r = append_activity (ActivityEvent_TaskStarted 0 (tc_revision contract)) r
      in observe_task \<lparr> ob_action = ''task.started'', ob_fingerprint = show_nat (tc_revision contract),
           ob_progress = False \<rparr> now r)"

record TaskRuntime =
  rt_records :: "TaskRecord list"

definition create_task ::
    "CreateTaskInput \<Rightarrow> int \<Rightarrow> TaskRuntime \<Rightarrow> TaskRuntime \<times> (TaskCreateError + string)" where
  "create_task input now rt =
     (if list_ex (\<lambda>r. tr_id r = tc_id (ct_contract input)) (rt_records rt) then
        (rt, Err TaskCreateError_DuplicateTask)
      else case prepare_step_specs (ct_steps input) of
        Err e \<Rightarrow> (rt, Err (TaskCreateError_Steps e))
      | Ok specs \<Rightarrow>
          let r = build_record (ct_contract input) specs (ct_iteration input) now
          in (rt\<lparr>rt_records := rt_records rt @ [r]\<rparr>, Ok (tr_id r)))"

definition list_task_ids :: "TaskRuntime \<Rightarrow> string list" where
  "list_task_ids rt = map tr_id (rt_records rt)"

definition latest_task_id :: "TaskRuntime \<Rightarrow> string option" where
  "latest_task_id rt = map_option tr_id (last_opt (rt_records rt))"

text \<open>\<open>runtime.task(id)\<close> and one operation through the handle it returns.\<close>

definition task :: "string \<Rightarrow> TaskRuntime \<Rightarrow> TaskRecord option" where
  "task task_id rt = find (\<lambda>r. tr_id r = task_id) (rt_records rt)"

definition with_task :: "string \<Rightarrow> (TaskRecord \<Rightarrow> TaskRecord) \<Rightarrow> TaskRuntime \<Rightarrow> TaskRuntime" where
  "with_task task_id f rt =
     rt\<lparr>rt_records := update_first (\<lambda>r. tr_id r = task_id) f (rt_records rt)\<rparr>"

subsection \<open>Updates of the materialised state\<close>

definition upd_state :: "(TaskState \<Rightarrow> TaskState) \<Rightarrow> TaskRecord \<Rightarrow> TaskRecord" where
  "upd_state f r = r\<lparr>tr_state := f (tr_state r)\<rparr>"

definition upd_plan :: "(TaskPlanState \<Rightarrow> TaskPlanState) \<Rightarrow> TaskRecord \<Rightarrow> TaskRecord" where
  "upd_plan f r = upd_state (\<lambda>s. s\<lparr>ts_plan := f (ts_plan s)\<rparr>) r"

subsection \<open>Contract revision\<close>

definition invalidate_plan_for_contract_revision :: "TaskRecord \<Rightarrow> TaskRecord" where
  "invalidate_plan_for_contract_revision r =
     (case last_opt (tr_plans r) of
        None \<Rightarrow> r
      | Some current \<Rightarrow>
          let r = upd_plan (\<lambda>p. p\<lparr>tps_state := TaskPlanStateKind_Stale, tps_stale_reason :=
                Some ''The TaskContract revision advanced after this plan was created.''\<rparr>) r;
              r = (case tr_plan_approval r of
                     Some approval \<Rightarrow>
                       append_activity (ActivityEvent_PlanInvalidated 0 (pa_plan_id approval)
                         (pa_plan_revision approval)
                         ''The TaskContract revision advanced; the plan approval no longer applies.'')
                         (upd_plan (\<lambda>p. p\<lparr>tps_approval := TaskPlanApprovalKind_Invalidated\<rparr>)
                           (r\<lparr>tr_plan_approval := None\<rparr>))
                   | None \<Rightarrow> r)
          in append_activity (ActivityEvent_PlanInvalidated 0 (plan_id current) (plan_revision current)
               ''The TaskContract revision advanced; the plan is stale until revalidated or replanned.'') r)"

definition revise_contract ::
    "ReviseTaskContractInput \<Rightarrow> TaskRecord \<Rightarrow> TaskRecord \<times> (ReviseError + TaskContract)" where
  "revise_contract changes r =
     (if terminal_reason r \<noteq> None then (r, Err ReviseError_Terminal)
      else case TaskContract_revise (tr_contract r) changes of
        Err e \<Rightarrow> (r, Err (ReviseError_Contract e))
      | Ok revision \<Rightarrow>
          let r = r\<lparr>tr_contract_revisions := tr_contract_revisions r @ [revision], tr_contract := revision\<rparr>;
              r = upd_state (\<lambda>s. s\<lparr>ts_contract_revision := tc_revision revision,
                    ts_contract_digest := tc_digest revision,
                    ts_acceptance := initial_acceptance revision\<rparr>) r;
              r = invalidate_plan_for_contract_revision r;
              r = append_activity (ActivityEvent_TaskContractRevised 0 (tc_revision revision)) r
          in (r, Ok revision))"

subsection \<open>Phases and steps\<close>

definition transition_phase :: "int \<Rightarrow> TaskPhase \<Rightarrow> TaskRecord \<Rightarrow> TaskRecord \<times> StepOpResult" where
  "transition_phase now phase r =
     (if ts_phase (tr_state r) = phase then (r, StepOpResult_Rejected OpError_AlreadyPhase)
      else if phase \<notin> set (allowed_transitions (ts_phase (tr_state r))) then
        (r, StepOpResult_Rejected OpError_InvalidTransition)
      else
        let r = upd_state (\<lambda>s. s\<lparr>ts_phase := phase,
                  ts_completed_at_ms := (if is_terminal_phase phase then Some now else ts_completed_at_ms s)\<rparr>) r
        in (append_activity (ActivityEvent_TaskPhaseChanged 0 phase) r, StepOpResult_Ok))"

definition upd_step :: "string \<Rightarrow> (TaskStepState \<Rightarrow> TaskStepState) \<Rightarrow> TaskRecord \<Rightarrow> TaskRecord" where
  "upd_step step_id f r =
     upd_state (\<lambda>s. s\<lparr>ts_steps := update_first (\<lambda>st. st_id st = step_id) f (ts_steps s)\<rparr>) r"

definition begin_step :: "string \<Rightarrow> TaskRecord \<Rightarrow> TaskRecord \<times> StepOpResult" where
  "begin_step step_id r =
     (if terminal_reason r \<noteq> None then (r, StepOpResult_Rejected OpError_Terminal)
      else case find (\<lambda>st. st_id st = step_id) (ts_steps (tr_state r)) of
        None \<Rightarrow> (r, StepOpResult_Rejected OpError_UnknownStep)
      | Some st \<Rightarrow>
          if st_status st = TaskStepStatus_Active then (r, StepOpResult_Rejected OpError_StepAlreadyActive)
          else if st_status st = TaskStepStatus_Completed then
            (r, StepOpResult_Rejected OpError_StepAlreadyCompleted)
          else (append_activity (ActivityEvent_StepStarted 0 step_id)
                  (upd_step step_id (\<lambda>st. st\<lparr>st_status := TaskStepStatus_Active,
                     st_failed_reason := None, st_blocked_reason := None\<rparr>) r), StepOpResult_Ok))"

definition fail_step :: "string \<Rightarrow> string \<Rightarrow> TaskRecord \<Rightarrow> TaskRecord \<times> StepOpResult" where
  "fail_step step_id reason r =
     (if terminal_reason r \<noteq> None then (r, StepOpResult_Rejected OpError_Terminal)
      else case find (\<lambda>st. st_id st = step_id) (ts_steps (tr_state r)) of
        None \<Rightarrow> (r, StepOpResult_Rejected OpError_UnknownStep)
      | Some st \<Rightarrow>
          if st_status st = TaskStepStatus_Completed then
            (r, StepOpResult_Rejected OpError_StepAlreadyCompleted)
          else (append_activity (ActivityEvent_StepFailed 0 step_id reason)
                  (upd_step step_id (\<lambda>st. st\<lparr>st_status := TaskStepStatus_Failed,
                     st_failed_reason := Some reason\<rparr>) r), StepOpResult_Ok))"

fun check_refs ::
    "string \<Rightarrow> TaskStepSpec \<Rightarrow> EvidenceRecord list \<Rightarrow> string list \<Rightarrow> EvidenceRef list \<Rightarrow> OpError option" where
  "check_refs task_id spec evidence seen [] = None"
| "check_refs task_id spec evidence seen (reference # rest) =
     (if ref_evidence_id reference \<in> set seen then Some OpError_DuplicateEvidenceRef
      else if ref_kind reference \<notin> set (sp_accepts spec) then Some OpError_StepRejectsEvidenceKind
      else case find (\<lambda>entry. er_id entry = ref_evidence_id reference) evidence of
        None \<Rightarrow> Some OpError_UnknownEvidenceRef
      | Some entry \<Rightarrow>
          if er_task_id entry \<noteq> task_id then Some OpError_UnknownEvidenceRef
          else if er_kind entry \<noteq> ref_kind reference then Some OpError_EvidenceKindMismatch
          else check_refs task_id spec evidence (ref_evidence_id reference # seen) rest)"

definition complete_step ::
    "int \<Rightarrow> string \<Rightarrow> EvidenceRef list \<Rightarrow> TaskRecord \<Rightarrow> TaskRecord \<times> StepOpResult" where
  "complete_step now step_id refs r =
     (if terminal_reason r \<noteq> None then (r, StepOpResult_Rejected OpError_Terminal)
      else case (position (\<lambda>st. st_id st = step_id) (ts_steps (tr_state r)),
                 find (\<lambda>spec. sp_id spec = step_id) (tr_specs r)) of
        (Some step_index, Some spec) \<Rightarrow>
          if st_status (ts_steps (tr_state r) ! step_index) \<noteq> TaskStepStatus_Active then
            (r, StepOpResult_Rejected OpError_StepNotActive)
          else if refs = [] then (r, StepOpResult_Rejected OpError_StepRequiresEvidence)
          else (case check_refs (tr_id r) spec (ts_evidence (tr_state r)) [] refs of
            Some e \<Rightarrow> (r, StepOpResult_Rejected e)
          | None \<Rightarrow>
              let r = upd_state (\<lambda>s. s\<lparr>ts_steps := (ts_steps s)[step_index :=
                        (ts_steps s ! step_index)\<lparr>st_status := TaskStepStatus_Completed,
                           st_failed_reason := None, st_blocked_reason := None,
                           st_evidence_refs := refs\<rparr>]\<rparr>) r;
                  r = append_activity (ActivityEvent_StepCompleted 0 step_id refs) r
              in (observe_task \<lparr> ob_action = ''step.completed'', ob_fingerprint = step_id,
                    ob_progress = True \<rparr> now r, StepOpResult_Ok))
      | _ \<Rightarrow> (r, StepOpResult_Rejected OpError_UnknownStep))"

subsection \<open>Evidence and acceptance\<close>

definition attach_evidence ::
    "int \<Rightarrow> string \<Rightarrow> EvidenceKind \<Rightarrow> EvidenceSource \<Rightarrow> EvidenceVerification option
      \<Rightarrow> TaskRecord \<Rightarrow> TaskRecord \<times> AttachResult" where
  "attach_evidence now i kind source verification r =
     (if terminal_reason r \<noteq> None then (r, AttachResult_Rejected AttachRejection_Terminal)
      else case validate_evidence_payload i kind source verification of
        Err e \<Rightarrow> (r, AttachResult_Rejected (AttachRejection_Invalid e))
      | Ok validated \<Rightarrow>
          if list_ex (\<lambda>entry. er_id entry = i) (ts_evidence (tr_state r)) then
            (r, AttachResult_Rejected AttachRejection_DuplicateId)
          else if MAX_TASK_EVIDENCE_RECORDS \<le> length (ts_evidence (tr_state r)) then
            (r, AttachResult_Rejected AttachRejection_RecordLimit)
          else
            let entry = \<lparr> er_id = i, er_kind = kind, er_task_id = tr_id r,
                  er_contract_revision = tc_revision (tr_contract r),
                  er_contract_digest = tc_digest (tr_contract r),
                  er_source = ve_source validated, er_verification = ve_verification validated,
                  er_attached_at_ms = now \<rparr>;
                r = upd_state (\<lambda>s. s\<lparr>ts_evidence := ts_evidence s @ [entry]\<rparr>) r;
                r = append_activity (ActivityEvent_EvidenceAttached 0 i kind) r
            in (observe_task \<lparr> ob_action = ''evidence.attached'',
                  ob_fingerprint = EvidenceKind_as_str kind, ob_progress = True \<rparr> now r,
                AttachResult_Attached))"

fun kind_verifies :: "VerificationKind \<Rightarrow> EvidenceKind \<Rightarrow> bool" where
  "kind_verifies VerificationKind_User k \<longleftrightarrow> k = EvidenceKind_UserApproval"
| "kind_verifies VerificationKind_Review k \<longleftrightarrow> k = EvidenceKind_ReviewResult"
| "kind_verifies VerificationKind_Deterministic k \<longleftrightarrow>
     k \<noteq> EvidenceKind_ReviewResult \<and> k \<noteq> EvidenceKind_UserApproval"

text \<open>The checks of \<open>verify_criterion\<close> on the evidence, in order; \<open>None\<close> when all pass.\<close>

definition verification_rejection ::
    "TaskRecord \<Rightarrow> string \<Rightarrow> VerificationKind \<Rightarrow> EvidenceRecord \<Rightarrow> OpError option" where
  "verification_rejection r criterion_id vkind evidence =
     (if er_task_id evidence \<noteq> tr_id r
         \<or> er_contract_revision evidence \<noteq> tc_revision (tr_contract r)
         \<or> er_contract_digest evidence \<noteq> tc_digest (tr_contract r)
      then Some OpError_EvidenceNotBoundToContract
      else case er_verification evidence of
        None \<Rightarrow> Some OpError_EvidenceNotBoundToCriterion
      | Some verification \<Rightarrow>
          if ev_criterion_id verification \<noteq> Some criterion_id \<or> ev_check_id verification \<noteq> criterion_id
          then Some OpError_EvidenceNotBoundToCriterion
          else if ev_outcome verification \<noteq> VerificationOutcome_Passed
              \<or> \<not> source_supports_successful_outcome (er_kind evidence) (er_source evidence)
          then Some OpError_EvidenceNotSuccessful
          else if \<not> kind_verifies vkind (er_kind evidence) then Some OpError_EvidenceKindCannotVerifyCriterion
          else None)"

definition verify_criterion ::
    "int \<Rightarrow> string \<Rightarrow> string option \<Rightarrow> string option \<Rightarrow> TaskRecord \<Rightarrow> TaskRecord \<times> CriterionResult" where
  "verify_criterion now criterion_id verified_by note r =
     (if terminal_reason r \<noteq> None then (r, CriterionResult_Rejected OpError_Terminal)
      else case position (\<lambda>c. ac_criterion_id c = criterion_id) (ts_acceptance (tr_state r)) of
        None \<Rightarrow> (r, CriterionResult_Rejected OpError_UnknownCriterion)
      | Some criterion_index \<Rightarrow>
        (case verified_by of
          None \<Rightarrow> (r, CriterionResult_Rejected OpError_CriterionRequiresVerificationEvidence)
        | Some verified_by \<Rightarrow>
          (case find (\<lambda>entry. er_id entry = verified_by) (ts_evidence (tr_state r)) of
            None \<Rightarrow> (r, CriterionResult_Rejected OpError_UnknownEvidence)
          | Some evidence \<Rightarrow>
            (case verification_rejection r criterion_id
                    (ac_verification_kind (ts_acceptance (tr_state r) ! criterion_index)) evidence of
              Some e \<Rightarrow> (r, CriterionResult_Rejected e)
            | None \<Rightarrow>
                let r = upd_state (\<lambda>s. s\<lparr>ts_acceptance := (ts_acceptance s)[criterion_index :=
                          (ts_acceptance s ! criterion_index)\<lparr>ac_status := AcceptanceStatus_Satisfied,
                             ac_verified_by := Some verified_by, ac_note := note\<rparr>]\<rparr>) r;
                    r = append_activity (ActivityEvent_CriterionVerified 0 criterion_id verified_by) r
                in (observe_task \<lparr> ob_action = ''criterion.verified'', ob_fingerprint = criterion_id,
                      ob_progress = True \<rparr> now r, CriterionResult_Verified)))))"

definition mark_criterion_failed ::
    "string \<Rightarrow> string option \<Rightarrow> TaskRecord \<Rightarrow> TaskRecord \<times> CriterionResult" where
  "mark_criterion_failed criterion_id note r =
     (if terminal_reason r \<noteq> None then (r, CriterionResult_Rejected OpError_Terminal)
      else case find (\<lambda>c. ac_criterion_id c = criterion_id) (ts_acceptance (tr_state r)) of
        None \<Rightarrow> (r, CriterionResult_Rejected OpError_UnknownCriterion)
      | Some _ \<Rightarrow>
          (upd_state (\<lambda>s. s\<lparr>ts_acceptance := update_first (\<lambda>c. ac_criterion_id c = criterion_id)
             (\<lambda>c. c\<lparr>ac_status := AcceptanceStatus_Failed, ac_verified_by := None, ac_note := note\<rparr>)
             (ts_acceptance s)\<rparr>) r, CriterionResult_Failed))"

definition set_findings :: "FindingInput list \<Rightarrow> TaskRecord \<Rightarrow> TaskRecord \<times> (FindingError + unit)" where
  "set_findings findings r =
     (if terminal_reason r \<noteq> None then (r, Ok ())
      else case validate_findings findings of
        Err e \<Rightarrow> (r, Err e)
      | Ok validated \<Rightarrow> (upd_state (\<lambda>s. s\<lparr>ts_current_findings := validated\<rparr>) r, Ok ()))"

definition set_validation_status :: "TaskValidationStatus \<Rightarrow> TaskRecord \<Rightarrow> TaskRecord" where
  "set_validation_status status r =
     (if terminal_reason r = None then upd_state (\<lambda>s. s\<lparr>ts_validation_status := status\<rparr>) r else r)"

definition set_review_status :: "TaskReviewStatus \<Rightarrow> TaskRecord \<Rightarrow> TaskRecord" where
  "set_review_status status r =
     (if terminal_reason r = None then upd_state (\<lambda>s. s\<lparr>ts_review_status := status\<rparr>) r else r)"

definition set_iteration :: "nat \<Rightarrow> TaskRecord \<Rightarrow> TaskRecord" where
  "set_iteration iteration r =
     (if terminal_reason r = None then upd_state (\<lambda>s. s\<lparr>ts_iteration := iteration\<rparr>) r else r)"

subsection \<open>Completion and termination\<close>

definition evaluate_completion :: "TaskRecord \<Rightarrow> CompletionEvaluation" where
  "evaluate_completion r =
     (let s = tr_state r;
          blocking = length (filter (\<lambda>f. is_blocking (fr_severity f)) (ts_current_findings s));
          missing =
            map (\<lambda>st. ''step not completed: '' @ st_id st)
              (filter (\<lambda>st. st_status st \<noteq> TaskStepStatus_Completed) (ts_steps s))
            @ map (\<lambda>c. ''acceptance criterion not satisfied: '' @ ac_criterion_id c)
              (filter (\<lambda>c. ac_status c \<noteq> AcceptanceStatus_Satisfied) (ts_acceptance s))
            @ (if \<not> is_acceptable_for_completion (ts_validation_status s) then
                 [''validation is '' @ TaskValidationStatus_as_str (ts_validation_status s) @ '' (clean required)'']
               else [])
            @ (if ts_review_status s \<noteq> TaskReviewStatus_Clean then
                 [''review is '' @ TaskReviewStatus_as_str (ts_review_status s) @ '' (clean required)'']
               else [])
            @ (if 0 < blocking then [show_nat blocking @ '' blocking finding(s) unresolved''] else [])
      in \<lparr> allowed = (missing = []), missing = missing \<rparr>)"

definition complete_task :: "int \<Rightarrow> int \<Rightarrow> TaskRecord \<Rightarrow> TaskRecord \<times> CompletionResult" where
  "complete_task now now' r =
     (case terminal_reason r of
        Some reason \<Rightarrow> (r, CompletionResult_Rejected [reason])
      | None \<Rightarrow>
          if \<not> allowed (evaluate_completion r) then
            (r, CompletionResult_Rejected (missing (evaluate_completion r)))
          else
            let r = upd_state (\<lambda>s. s\<lparr>ts_phase := TaskPhase_Completed, ts_completed_at_ms := Some now,
                      ts_terminal_reason := None\<rparr>) r;
                r = append_activity (ActivityEvent_TaskCompleted 0) r
            in (observe_task \<lparr> ob_action = ''task.completed'', ob_fingerprint = tr_id r,
                  ob_progress = True \<rparr> now' r, CompletionResult_Completed))"

definition cancel :: "int \<Rightarrow> string \<Rightarrow> TaskRecord \<Rightarrow> TaskRecord" where
  "cancel now reason r =
     (if is_terminal_phase (ts_phase (tr_state r)) then r
      else append_activity (ActivityEvent_TaskCancelled 0 reason)
        (upd_state (\<lambda>s. s\<lparr>ts_phase := TaskPhase_Cancelled, ts_completed_at_ms := Some now,
           ts_terminal_reason := Some reason\<rparr>) r))"

definition fail :: "int \<Rightarrow> string \<Rightarrow> TaskRecord \<Rightarrow> TaskRecord" where
  "fail now reason r =
     (if is_terminal_phase (ts_phase (tr_state r)) then r
      else append_activity (ActivityEvent_TaskFailed 0 reason)
        (upd_state (\<lambda>s. s\<lparr>ts_phase := TaskPhase_Failed, ts_completed_at_ms := Some now,
           ts_terminal_reason := Some reason\<rparr>) r))"

definition mark_blocked :: "int \<Rightarrow> string \<Rightarrow> TaskRecord \<Rightarrow> TaskRecord" where
  "mark_blocked now reason r =
     (case transition_phase now TaskPhase_Blocked r of
        (r', StepOpResult_Ok) \<Rightarrow>
          append_activity (ActivityEvent_TaskBlocked 0 reason)
            (upd_state (\<lambda>s. s\<lparr>ts_terminal_reason := Some reason\<rparr>) r')
      | (r', StepOpResult_Rejected _) \<Rightarrow> r')"

definition submit_complete ::
    "int \<Rightarrow> int \<Rightarrow> DispositionSource \<Rightarrow> TaskRecord \<Rightarrow> TaskRecord \<times> DispositionResult" where
  "submit_complete now now' source r =
     (let evaluation = evaluate_completion r;
          (r', completed) = (if allowed evaluation then complete_task now now' r
                             else (r, CompletionResult_Rejected []))
      in if allowed evaluation \<and> completed = CompletionResult_Completed then
           (append_activity (ActivityEvent_DispositionSubmitted 0 WorkflowDisposition_Complete source True
              (Some ''completion gate passed'')) r',
            \<lparr> dr_accepted = True, dr_evaluation = Some evaluation, dr_code = None \<rparr>)
         else
           let reason = (case missing evaluation of m # _ \<Rightarrow> m | [] \<Rightarrow> ''completion gate not satisfied'')
           in (append_activity (ActivityEvent_DispositionSubmitted 0 WorkflowDisposition_Complete source False
                 (Some reason)) r',
               \<lparr> dr_accepted = False, dr_evaluation = Some evaluation, dr_code = Some OpError_CompletionGate \<rparr>))"

definition submit_blocked ::
    "int \<Rightarrow> string \<Rightarrow> DispositionSource \<Rightarrow> TaskRecord \<Rightarrow> TaskRecord \<times> DispositionResult" where
  "submit_blocked now reason source r =
     (case transition_phase now TaskPhase_Blocked r of
        (r', StepOpResult_Rejected e) \<Rightarrow>
          (append_activity (ActivityEvent_DispositionSubmitted 0 (WorkflowDisposition_Blocked reason) source False
             (Some (OpError_code e))) r',
           \<lparr> dr_accepted = False, dr_evaluation = None, dr_code = Some e \<rparr>)
      | (r', StepOpResult_Ok) \<Rightarrow>
          let r = upd_state (\<lambda>s. s\<lparr>ts_terminal_reason := Some reason\<rparr>) r';
              r = append_activity (ActivityEvent_TaskBlocked 0 reason) r;
              r = append_activity (ActivityEvent_DispositionSubmitted 0 (WorkflowDisposition_Blocked reason)
                    source True None) r
          in (r, \<lparr> dr_accepted = True, dr_evaluation = None, dr_code = None \<rparr>))"

definition submit_disposition ::
    "int \<Rightarrow> int \<Rightarrow> WorkflowDisposition \<Rightarrow> DispositionSource \<Rightarrow> TaskRecord \<Rightarrow> TaskRecord \<times> DispositionResult" where
  "submit_disposition now now' disposition source r =
     (if terminal_reason r \<noteq> None then
        (r, \<lparr> dr_accepted = False,
              dr_evaluation = (if disposition = WorkflowDisposition_Complete
                then Some (evaluate_completion r) else None),
              dr_code = Some OpError_Terminal \<rparr>)
      else case disposition of
        WorkflowDisposition_Complete \<Rightarrow> submit_complete now now' source r
      | WorkflowDisposition_Blocked reason \<Rightarrow> submit_blocked now reason source r
      | WorkflowDisposition_Continue next_action \<Rightarrow>
          (append_activity (ActivityEvent_DispositionSubmitted 0 (WorkflowDisposition_Continue next_action)
             source True next_action) r,
           \<lparr> dr_accepted = True, dr_evaluation = None, dr_code = None \<rparr>))"

definition observe :: "int \<Rightarrow> HostObservation \<Rightarrow> TaskRecord \<Rightarrow> TaskRecord \<times> ProgressState" where
  "observe now observation r =
     (if terminal_reason r \<noteq> None then (r, progress_snapshot (tr_progress r))
      else (observe_task observation now r, snd (observe_progress (tr_progress r) observation now)))"

subsection \<open>Planning\<close>

definition route_planning :: "PlanningDepth \<Rightarrow> string \<Rightarrow> TaskRecord \<Rightarrow> TaskRecord" where
  "route_planning depth reason r =
     (if terminal_reason r \<noteq> None then r
      else append_activity (ActivityEvent_PlanningRouted 0 depth reason)
        (upd_plan (\<lambda>p. p\<lparr>tps_depth := depth\<rparr>) r))"

definition reject_plan :: "string \<Rightarrow> TaskRecord \<Rightarrow> TaskRecord" where
  "reject_plan reason r =
     (if terminal_reason r \<noteq> None then r
      else append_activity (ActivityEvent_PlanRejected 0 reason) r)"

text \<open>\<open>join(" ")\<close>\<close>

fun join_space :: "string list \<Rightarrow> string" where
  "join_space [] = []"
| "join_space [x] = x"
| "join_space (x # y # xs) = x @ '' '' @ join_space (y # xs)"

type_synonym plan_validator = "TaskPlanContent \<Rightarrow> TaskContract \<Rightarrow> PlanningDepth \<Rightarrow> string list + TaskPlanContent"

text \<open>The checks of \<open>set_plan\<close> before the candidate is validated, and those on the sequence of revisions.\<close>

definition plan_binding_rejection :: "TaskPlan \<Rightarrow> TaskRecord \<Rightarrow> string option" where
  "plan_binding_rejection plan r =
     (case terminal_reason r of
        Some reason \<Rightarrow> Some reason
      | None \<Rightarrow>
          if plan_task_id plan \<noteq> tr_id r then
            Some (''Plan '' @ plan_id plan @ '' belongs to task '' @ plan_task_id plan @ '', not '' @ tr_id r @ ''.'')
          else if plan_contract_revision plan \<noteq> tc_revision (tr_contract r) then
            Some (''Plan '' @ plan_id plan @ '' binds to TaskContract revision ''
              @ show_nat (plan_contract_revision plan) @ '', but the current revision is ''
              @ show_nat (tc_revision (tr_contract r)) @ ''.'')
          else if \<not> is_valid_plan_id (plan_id plan) then Some (''Invalid plan id: '' @ plan_id plan)
          else if plan_revision plan < 1 then Some ''A plan revision must be a positive safe integer.''
          else if plan_created_at plan < 0 then Some ''A plan requires a valid createdAt timestamp.''
          else None)"

definition plan_sequence_rejection :: "TaskPlan \<Rightarrow> TaskRecord \<Rightarrow> string option" where
  "plan_sequence_rejection plan r =
     (case last_opt (tr_plans r) of
        None \<Rightarrow>
          if plan_revision plan \<noteq> 1 then Some ''The first plan revision must be 1.'' else None
      | Some previous \<Rightarrow>
          if plan_id previous = plan_id plan \<and> plan_revision plan \<noteq> plan_revision previous + 1 then
            Some (''Plan '' @ plan_id plan @ '' revision '' @ show_nat (plan_revision plan)
              @ '' does not follow revision '' @ show_nat (plan_revision previous)
              @ ''; plans are immutable and revisions only ever advance by one.'')
          else if plan_id previous \<noteq> plan_id plan \<and> plan_revision plan \<noteq> 1 then
            Some (''Replacement plan '' @ plan_id plan @ '' must begin at revision 1.'')
          else if plan_id previous \<noteq> plan_id plan \<and> list_ex (\<lambda>e. plan_id e = plan_id plan) (tr_plans r) then
            Some (''Plan id '' @ plan_id plan @ '' was already used by this task and cannot be restarted.'')
          else None)"

definition store_plan :: "int \<Rightarrow> TaskPlan \<Rightarrow> TaskRecord \<Rightarrow> TaskRecord" where
  "store_plan now stored r =
     (let prior_approved = (case tr_plan_approval r of
            Some a \<Rightarrow> pa_plan_id a \<noteq> plan_id stored \<or> pa_plan_revision a \<noteq> plan_revision stored
          | None \<Rightarrow> False);
          r = upd_plan (\<lambda>p. p\<lparr>tps_plan_id := Some (plan_id stored),
                tps_plan_revision := plan_revision stored,
                tps_plan_digest := Some (digest_value (plan_digest stored)),
                tps_depth := plan_depth stored, tps_state := TaskPlanStateKind_Current,
                tps_stale_reason := None\<rparr>) r;
          r = (if prior_approved then
                 append_activity (ActivityEvent_PlanInvalidated 0 (pa_plan_id (the (tr_plan_approval r)))
                   (pa_plan_revision (the (tr_plan_approval r)))
                   ''The plan identity or revision advanced; the previous approval no longer applies.'')
                   (upd_plan (\<lambda>p. p\<lparr>tps_approval := TaskPlanApprovalKind_Invalidated\<rparr>) r)
               else upd_plan (\<lambda>p. p\<lparr>tps_approval := TaskPlanApprovalKind_None\<rparr>) r);
          r = r\<lparr>tr_plan_approval := None\<rparr>;
          r = append_activity (ActivityEvent_PlanCreated 0 (plan_id stored) (plan_revision stored)
                (plan_depth stored)) r;
          r = fst (observe now \<lparr> ob_action = ''plan.created'',
                ob_fingerprint = plan_id stored @ '':'' @ show_nat (plan_revision stored),
                ob_progress = True \<rparr> r)
      in r\<lparr>tr_plans := tr_plans r @ [stored]\<rparr>)"

definition set_plan ::
    "plan_validator \<Rightarrow> int \<Rightarrow> TaskPlan \<Rightarrow> TaskRecord \<Rightarrow> TaskRecord \<times> (string + unit)" where
  "set_plan validate now plan r =
     (case plan_binding_rejection plan r of
        Some e \<Rightarrow> (r, Err e)
      | None \<Rightarrow>
        (case validate (plan_content plan) (tr_contract r) (plan_depth plan) of
          Err reasons \<Rightarrow> (r, Err (''The plan is invalid: '' @ join_space reasons))
        | Ok content \<Rightarrow>
          (case plan_sequence_rejection plan r of
            Some e \<Rightarrow> (r, Err e)
          | None \<Rightarrow>
              if MAX_PLAN_REVISIONS \<le> length (tr_plans r) then
                (r, Err (''The task already holds the maximum of '' @ show_nat MAX_PLAN_REVISIONS
                   @ '' plan revisions; replanning is not possible within this bound.''))
              else (store_plan now (plan\<lparr>plan_content := content\<rparr>) r, Ok ()))))"

definition approval_rejection :: "string \<Rightarrow> nat \<Rightarrow> TaskPlan \<Rightarrow> TaskRecord \<Rightarrow> string option" where
  "approval_rejection pid prev current r =
     (if plan_id current \<noteq> pid then
        Some (''No current plan matches '' @ pid @ ''; nothing was approved.'')
      else if plan_revision current \<noteq> prev then
        Some (''Approval binds to the exact plan revision: plan '' @ pid @ '' is revision ''
          @ show_nat (plan_revision current) @ '', not '' @ show_nat prev
          @ ''; the stale approval is refused.'')
      else if plan_contract_revision current \<noteq> tc_revision (tr_contract r) then
        Some (''Plan '' @ pid @ '' binds to TaskContract revision ''
          @ show_nat (plan_contract_revision current)
          @ '', which is no longer current; the approval is refused.'')
      else if plan_contract_digest_bound current \<noteq> tc_digest (tr_contract r) then
        Some (''Plan '' @ pid @ '' binds to a different TaskContract content digest; the approval is refused.'')
      else case stored_plan_digest current of
        Err e \<Rightarrow> Some e
      | Ok recomputed \<Rightarrow>
          if digest_value (plan_digest current) \<noteq> recomputed then
            Some (''Plan '' @ pid @ '' content does not match its own identity digest; the approval is refused.'')
          else if tps_state (ts_plan (tr_state r)) = TaskPlanStateKind_Stale then
            Some ''The current plan is stale and cannot be approved.''
          else None)"

definition approve_plan ::
    "int \<Rightarrow> string \<Rightarrow> nat \<Rightarrow> TaskRecord \<Rightarrow> TaskRecord \<times> (string + unit)" where
  "approve_plan now pid prev r =
     (case terminal_reason r of
        Some reason \<Rightarrow> (r, Err reason)
      | None \<Rightarrow>
        (case last_opt (tr_plans r) of
          None \<Rightarrow> (r, Err (''No current plan matches '' @ pid @ ''; nothing was approved.''))
        | Some current \<Rightarrow>
          (case approval_rejection pid prev current r of
            Some e \<Rightarrow> (r, Err e)
          | None \<Rightarrow>
              let r = r\<lparr>tr_plan_approval := Some \<lparr> pa_plan_id = plan_id current,
                    pa_plan_revision = plan_revision current,
                    pa_plan_digest = digest_value (plan_digest current),
                    pa_contract_revision = plan_contract_revision current,
                    pa_contract_digest = plan_contract_digest_bound current,
                    pa_approved_at = now \<rparr>\<rparr>;
                  r = upd_plan (\<lambda>p. p\<lparr>tps_approval := TaskPlanApprovalKind_Approved\<rparr>) r
              in (append_activity (ActivityEvent_PlanApproved 0 (plan_id current) (plan_revision current)
                    (digest_value (plan_digest current))) r, Ok ()))))"

definition invalidate_plan :: "string \<Rightarrow> TaskRecord \<Rightarrow> TaskRecord" where
  "invalidate_plan reason r =
     (if terminal_reason r \<noteq> None then r
      else case last_opt (tr_plans r) of
        None \<Rightarrow> r
      | Some current \<Rightarrow>
          let r = upd_plan (\<lambda>p. p\<lparr>tps_state := TaskPlanStateKind_Stale, tps_stale_reason := Some reason,
                    tps_approval := (if tr_plan_approval r \<noteq> None
                      then TaskPlanApprovalKind_Invalidated else tps_approval p)\<rparr>) r;
              r = r\<lparr>tr_plan_approval := None\<rparr>
          in append_activity (ActivityEvent_PlanInvalidated 0 (plan_id current) (plan_revision current) reason) r)"

subsection \<open>The handle as a state machine\<close>

datatype TaskOp =
    Op_revise_contract ReviseTaskContractInput
  | Op_transition_phase int TaskPhase
  | Op_begin_step string
  | Op_fail_step string string
  | Op_complete_step int string "EvidenceRef list"
  | Op_attach_evidence int string EvidenceKind EvidenceSource "EvidenceVerification option"
  | Op_verify_criterion int string "string option" "string option"
  | Op_mark_criterion_failed string "string option"
  | Op_set_findings "FindingInput list"
  | Op_set_validation_status TaskValidationStatus
  | Op_set_review_status TaskReviewStatus
  | Op_set_iteration nat
  | Op_complete_task int int
  | Op_cancel int string
  | Op_fail int string
  | Op_mark_blocked int string
  | Op_submit_disposition int int WorkflowDisposition DispositionSource
  | Op_observe int HostObservation
  | Op_route_planning PlanningDepth string
  | Op_reject_plan string
  | Op_set_plan int TaskPlan
  | Op_approve_plan int string nat
  | Op_invalidate_plan string

text \<open>The record after one operation of the handle; the result value is dropped.\<close>

fun apply_op :: "plan_validator \<Rightarrow> TaskOp \<Rightarrow> TaskRecord \<Rightarrow> TaskRecord" where
  "apply_op validate (Op_revise_contract changes) r = fst (revise_contract changes r)"
| "apply_op validate (Op_transition_phase now phase) r = fst (transition_phase now phase r)"
| "apply_op validate (Op_begin_step i) r = fst (begin_step i r)"
| "apply_op validate (Op_fail_step i reason) r = fst (fail_step i reason r)"
| "apply_op validate (Op_complete_step now i refs) r = fst (complete_step now i refs r)"
| "apply_op validate (Op_attach_evidence now i kind source v) r = fst (attach_evidence now i kind source v r)"
| "apply_op validate (Op_verify_criterion now i by_evidence note) r = fst (verify_criterion now i by_evidence note r)"
| "apply_op validate (Op_mark_criterion_failed i note) r = fst (mark_criterion_failed i note r)"
| "apply_op validate (Op_set_findings fs) r = fst (set_findings fs r)"
| "apply_op validate (Op_set_validation_status s) r = set_validation_status s r"
| "apply_op validate (Op_set_review_status s) r = set_review_status s r"
| "apply_op validate (Op_set_iteration n) r = set_iteration n r"
| "apply_op validate (Op_complete_task now now') r = fst (complete_task now now' r)"
| "apply_op validate (Op_cancel now reason) r = cancel now reason r"
| "apply_op validate (Op_fail now reason) r = fail now reason r"
| "apply_op validate (Op_mark_blocked now reason) r = mark_blocked now reason r"
| "apply_op validate (Op_submit_disposition now now' d src) r = fst (submit_disposition now now' d src r)"
| "apply_op validate (Op_observe now ob) r = fst (observe now ob r)"
| "apply_op validate (Op_route_planning d reason) r = route_planning d reason r"
| "apply_op validate (Op_reject_plan reason) r = reject_plan reason r"
| "apply_op validate (Op_set_plan now plan) r = fst (set_plan validate now plan r)"
| "apply_op validate (Op_approve_plan now i n) r = fst (approve_plan now i n r)"
| "apply_op validate (Op_invalidate_plan reason) r = invalidate_plan reason r"

definition fresh_task :: "TaskRecord \<Rightarrow> bool" where
  "fresh_task r \<longleftrightarrow> (\<exists>contract steps specs iteration now. contract_wf contract
     \<and> prepare_step_specs steps = Ok specs \<and> r = build_record contract specs iteration now)"

end
