(* ===== verification/Task_Invariants.thy ===== *)
theory Task_Invariants
  imports Task_Runtime
begin

text \<open>
  Invariants of the task runtime.  One lemma per invariant shows that every operation of the
  handle keeps it; the interpretation of the machine locales turns them into facts about
  every reachable record.
\<close>

subsection \<open>What the updates leave alone\<close>

lemma append_activity_sel [simp]:
  "tr_id (append_activity e r) = tr_id r"
  "tr_specs (append_activity e r) = tr_specs r"
  "tr_contract (append_activity e r) = tr_contract r"
  "tr_contract_revisions (append_activity e r) = tr_contract_revisions r"
  "tr_state (append_activity e r) = tr_state r"
  "tr_plans (append_activity e r) = tr_plans r"
  "tr_plan_approval (append_activity e r) = tr_plan_approval r"
  "tr_progress (append_activity e r) = tr_progress r"
  "tr_sequence (append_activity e r) = tr_sequence r + 1"
  "tr_activity (append_activity e r) = tr_activity r @ [stamp (tr_sequence r + 1) e]"
  by (simp_all add: append_activity_def)

lemma observe_task_sel [simp]:
  "tr_id (observe_task ob now r) = tr_id r"
  "tr_specs (observe_task ob now r) = tr_specs r"
  "tr_contract (observe_task ob now r) = tr_contract r"
  "tr_contract_revisions (observe_task ob now r) = tr_contract_revisions r"
  "tr_state (observe_task ob now r) = tr_state r"
  "tr_plans (observe_task ob now r) = tr_plans r"
  "tr_plan_approval (observe_task ob now r) = tr_plan_approval r"
  "tr_progress (observe_task ob now r) = observed (tr_progress r) ob now"
  "tr_sequence (observe_task ob now r) = tr_sequence r"
  "tr_activity (observe_task ob now r) = tr_activity r"
  by (simp_all add: observe_task_def observe_progress_eq)

lemma upd_state_sel [simp]:
  "tr_id (upd_state f r) = tr_id r"
  "tr_specs (upd_state f r) = tr_specs r"
  "tr_contract (upd_state f r) = tr_contract r"
  "tr_contract_revisions (upd_state f r) = tr_contract_revisions r"
  "tr_state (upd_state f r) = f (tr_state r)"
  "tr_plans (upd_state f r) = tr_plans r"
  "tr_plan_approval (upd_state f r) = tr_plan_approval r"
  "tr_progress (upd_state f r) = tr_progress r"
  "tr_sequence (upd_state f r) = tr_sequence r"
  "tr_activity (upd_state f r) = tr_activity r"
  by (simp_all add: upd_state_def)

lemma upd_plan_sel [simp]:
  "tr_id (upd_plan f r) = tr_id r"
  "tr_specs (upd_plan f r) = tr_specs r"
  "tr_contract (upd_plan f r) = tr_contract r"
  "tr_contract_revisions (upd_plan f r) = tr_contract_revisions r"
  "tr_state (upd_plan f r) = (tr_state r)\<lparr>ts_plan := f (ts_plan (tr_state r))\<rparr>"
  "tr_plans (upd_plan f r) = tr_plans r"
  "tr_plan_approval (upd_plan f r) = tr_plan_approval r"
  "tr_progress (upd_plan f r) = tr_progress r"
  "tr_sequence (upd_plan f r) = tr_sequence r"
  "tr_activity (upd_plan f r) = tr_activity r"
  by (simp_all add: upd_plan_def)

lemma sequence_stamp [simp]: "sequence (stamp n e) = n"
  by (cases e) simp_all

lemma terminal_reason_None [simp]: "terminal_reason r = None \<longleftrightarrow> \<not> is_terminal_phase (ts_phase (tr_state r))"
  by (simp add: terminal_reason_def)

lemma terminal_reason_Some [simp]:
  "terminal_reason r = Some x \<longleftrightarrow> is_terminal_phase (ts_phase (tr_state r))
     \<and> x = ''The task is terminal ('' @ TaskPhase_as_str (ts_phase (tr_state r))
           @ ''); authoritative state can no longer be changed.''"
  by (auto simp: terminal_reason_def)

lemmas op_defs =
  revise_contract_def transition_phase_def begin_step_def fail_step_def complete_step_def
  attach_evidence_def verify_criterion_def mark_criterion_failed_def set_findings_def
  set_validation_status_def set_review_status_def set_iteration_def complete_task_def
  cancel_def fail_def mark_blocked_def submit_disposition_def submit_complete_def submit_blocked_def
  observe_def route_planning_def reject_plan_def set_plan_def store_plan_def approve_plan_def
  invalidate_plan_def invalidate_plan_for_contract_revision_def upd_step_def

subsection \<open>The activity log\<close>

definition log_ok :: "TaskRecord \<Rightarrow> bool" where
  "log_ok r \<longleftrightarrow> map sequence (tr_activity r) = [1..<Suc (tr_sequence r)]"

lemma log_ok_append [simp]: "log_ok r \<Longrightarrow> log_ok (append_activity e r)"
  by (simp add: log_ok_def)

lemma log_ok_frame [simp]:
  "log_ok (observe_task ob now r) \<longleftrightarrow> log_ok r"
  "log_ok (upd_state f r) \<longleftrightarrow> log_ok r"
  "log_ok (upd_plan g r) \<longleftrightarrow> log_ok r"
  "log_ok (r\<lparr>tr_plan_approval := a\<rparr>) \<longleftrightarrow> log_ok r"
  "log_ok (r\<lparr>tr_plans := ps\<rparr>) \<longleftrightarrow> log_ok r"
  "log_ok (r\<lparr>tr_contract_revisions := cs, tr_contract := c\<rparr>) \<longleftrightarrow> log_ok r"
  by (simp_all add: log_ok_def)

lemma log_ok_apply_op: "log_ok r \<Longrightarrow> log_ok (apply_op v op r)"
  by (cases op)
    (simp_all add: op_defs Let_def split: option.splits sum.splits prod.splits StepOpResult.splits
      WorkflowDisposition.splits if_splits)

lemmas op_splits = option.split sum.split prod.split StepOpResult.split WorkflowDisposition.split if_split

lemma activity_extends: "\<exists>es. tr_activity (apply_op v op r) = tr_activity r @ es"
  by (cases op) (simp_all add: op_defs Let_def split: op_splits)

subsection \<open>Terminal records are frozen\<close>

lemma terminal_no_transition [simp]: "is_terminal_phase p \<Longrightarrow> allowed_transitions p = []"
  by (cases p) simp_all

lemma terminal_frozen: "is_terminal_phase (ts_phase (tr_state r)) \<Longrightarrow> apply_op v op r = r"
  by (cases op)
    (simp_all add: revise_contract_def transition_phase_def begin_step_def fail_step_def complete_step_def
      attach_evidence_def verify_criterion_def mark_criterion_failed_def set_findings_def
      set_validation_status_def set_review_status_def set_iteration_def complete_task_def
      cancel_def fail_def mark_blocked_def submit_disposition_def observe_def route_planning_def
      reject_plan_def set_plan_def approve_plan_def invalidate_plan_def plan_binding_rejection_def
      terminal_reason_def)

subsection \<open>The phase table\<close>

lemma allowed_terminal:
  "\<not> is_terminal_phase p \<Longrightarrow> TaskPhase_Cancelled \<in> set (allowed_transitions p)"
  "\<not> is_terminal_phase p \<Longrightarrow> TaskPhase_Failed \<in> set (allowed_transitions p)"
  by (cases p; simp)+

lemma never_allowed_completed [simp]: "TaskPhase_Completed \<notin> set (allowed_transitions p)"
  by (cases p) simp_all

definition phase_step :: "TaskRecord \<Rightarrow> TaskPhase \<Rightarrow> bool" where
  "phase_step r p \<longleftrightarrow> p = ts_phase (tr_state r) \<or> p \<in> set (allowed_transitions (ts_phase (tr_state r)))
     \<or> (p = TaskPhase_Completed \<and> \<not> is_terminal_phase (ts_phase (tr_state r)) \<and> allowed (evaluate_completion r))"

lemma phase_step_apply_op: "phase_step r (ts_phase (tr_state (apply_op v op r)))"
  by (cases op)
    (simp_all add: op_defs Let_def phase_step_def allowed_terminal split: op_splits)

subsection \<open>The completion gate\<close>

text \<open>What the gate demands of the state.\<close>

definition gate_open :: "TaskState \<Rightarrow> bool" where
  "gate_open s \<longleftrightarrow> (\<forall>st \<in> set (ts_steps s). st_status st = TaskStepStatus_Completed)
     \<and> (\<forall>c \<in> set (ts_acceptance s). ac_status c = AcceptanceStatus_Satisfied)
     \<and> is_acceptable_for_completion (ts_validation_status s)
     \<and> ts_review_status s = TaskReviewStatus_Clean
     \<and> (\<forall>f \<in> set (ts_current_findings s). \<not> is_blocking (fr_severity f))"

lemma evaluate_completion_allowed: "allowed (evaluate_completion r) \<longleftrightarrow> gate_open (tr_state r)"
  by (auto simp: evaluate_completion_def Let_def gate_open_def filter_empty_conv)

lemma evaluate_completion_missing: "missing (evaluate_completion r) = [] \<longleftrightarrow> gate_open (tr_state r)"
  using evaluate_completion_allowed [of r] by (simp add: evaluate_completion_def Let_def)

definition gate_inv :: "TaskRecord \<Rightarrow> bool" where
  "gate_inv r \<longleftrightarrow> (ts_phase (tr_state r) = TaskPhase_Completed \<longrightarrow> gate_open (tr_state r))"

lemma gate_open_frame [simp]:
  "gate_open (s\<lparr>ts_phase := p, ts_completed_at_ms := t, ts_terminal_reason := x\<rparr>) \<longleftrightarrow> gate_open s"
  "gate_open (s\<lparr>ts_phase := p, ts_completed_at_ms := t\<rparr>) \<longleftrightarrow> gate_open s"
  by (simp_all add: gate_open_def)

lemma gate_inv_apply_op:
  assumes "gate_inv r"
  shows "gate_inv (apply_op v op r)"
proof (cases "is_terminal_phase (ts_phase (tr_state r))")
  case True
  with assms show ?thesis
    by (simp add: terminal_frozen)
next
  case False
  then have "ts_phase (tr_state r) \<noteq> TaskPhase_Completed"
    by auto
  then show ?thesis
    by (cases op)
      (auto simp: op_defs Let_def gate_inv_def evaluate_completion_allowed split: op_splits)
qed

subsection \<open>Termination time and the progress copies\<close>

definition time_inv :: "TaskRecord \<Rightarrow> bool" where
  "time_inv r \<longleftrightarrow> (ts_completed_at_ms (tr_state r) \<noteq> None \<longleftrightarrow> is_terminal_phase (ts_phase (tr_state r)))"

lemma allowed_nonterminal: "p \<in> set (allowed_transitions q) \<Longrightarrow> \<not> is_terminal_phase q"
  by (cases q) simp_all

lemma time_inv_apply_op:
  assumes "time_inv r"
  shows "time_inv (apply_op v op r)"
proof (cases "is_terminal_phase (ts_phase (tr_state r))")
  case True
  with assms show ?thesis
    by (simp add: terminal_frozen)
next
  case False
  with assms have "ts_completed_at_ms (tr_state r) = None"
    by (simp add: time_inv_def)
  with False show ?thesis
    by (cases op) (auto simp: op_defs Let_def time_inv_def split: op_splits)
qed

definition progress_inv :: "TaskRecord \<Rightarrow> bool" where
  "progress_inv r \<longleftrightarrow> progress_wf (tr_progress r)
     \<and> ts_progress (tr_state r) = progress_snapshot create_internal_progress"

lemma progress_inv_apply_op: "progress_inv r \<Longrightarrow> progress_inv (apply_op v op r)"
  by (cases op) (simp_all add: op_defs Let_def progress_inv_def progress_wf_observed split: op_splits)

subsection \<open>Contract revisions and the skeleton of the state\<close>

definition contract_inv :: "TaskRecord \<Rightarrow> bool" where
  "contract_inv r \<longleftrightarrow> contract_wf (tr_contract r) \<and> tr_id r = tc_id (tr_contract r)
     \<and> ts_task_id (tr_state r) = tr_id r
     \<and> ts_contract_revision (tr_state r) = tc_revision (tr_contract r)
     \<and> ts_contract_digest (tr_state r) = tc_digest (tr_contract r)
     \<and> last_opt (tr_contract_revisions r) = Some (tr_contract r)"

lemma contract_inv_apply_op: "contract_inv r \<Longrightarrow> contract_inv (apply_op v op r)"
  by (cases op)
    (auto simp: op_defs Let_def contract_inv_def dest: TaskContract_revise_Ok split: op_splits)

text \<open>The stored revisions are consecutive.\<close>

fun consecutive :: "TaskContract list \<Rightarrow> bool" where
  "consecutive (c # d # cs) \<longleftrightarrow> tc_revision d = tc_revision c + 1 \<and> tc_id d = tc_id c \<and> consecutive (d # cs)"
| "consecutive _ \<longleftrightarrow> True"

lemma consecutive_snoc:
  "consecutive cs \<Longrightarrow> last_opt cs = Some c \<Longrightarrow> tc_revision d = tc_revision c + 1 \<Longrightarrow> tc_id d = tc_id c
     \<Longrightarrow> consecutive (cs @ [d])"
  by (induction cs rule: consecutive.induct) (auto simp: last_opt_def)

lemma consecutive_apply_op:
  "contract_inv r \<Longrightarrow> consecutive (tr_contract_revisions r)
     \<Longrightarrow> consecutive (tr_contract_revisions (apply_op v op r))"
  by (cases op)
    (auto simp: op_defs Let_def contract_inv_def dest!: TaskContract_revise_Ok
      intro: consecutive_snoc split: op_splits)

definition skeleton_inv :: "TaskRecord \<Rightarrow> bool" where
  "skeleton_inv r \<longleftrightarrow>
     map (\<lambda>a. (ac_criterion_id a, ac_description a, ac_verification_kind a)) (ts_acceptance (tr_state r))
       = map (\<lambda>c. (crit_id c, crit_description c, crit_verification_kind c)) (tc_acceptance_criteria (tr_contract r))
     \<and> map (\<lambda>st. (st_id st, st_description st, st_kind st)) (ts_steps (tr_state r))
       = map (\<lambda>sp. (sp_id sp, sp_description sp, sp_kind sp)) (tr_specs r)"

lemma initial_acceptance_skeleton:
  "map (\<lambda>a. (ac_criterion_id a, ac_description a, ac_verification_kind a)) (initial_acceptance c)
     = map (\<lambda>c. (crit_id c, crit_description c, crit_verification_kind c)) (tc_acceptance_criteria c)"
  by (simp add: initial_acceptance_def)

lemma map_list_update_same: "f y = f (xs ! i) \<Longrightarrow> map f (xs[i := y]) = map f xs"
  by (metis list_update_id map_update)

lemma skeleton_inv_apply_op: "skeleton_inv r \<Longrightarrow> skeleton_inv (apply_op v op r)"
  by (cases op)
    (simp_all add: op_defs Let_def skeleton_inv_def initial_acceptance_skeleton map_update_first
      map_list_update_same split: op_splits)

subsection \<open>Evidence\<close>

definition evidence_inv :: "TaskRecord \<Rightarrow> bool" where
  "evidence_inv r \<longleftrightarrow> length (ts_evidence (tr_state r)) \<le> MAX_TASK_EVIDENCE_RECORDS
     \<and> distinct (map er_id (ts_evidence (tr_state r)))
     \<and> list_all (\<lambda>e. er_task_id e = tr_id r
          \<and> evidence_ok (er_id e) (er_kind e) (er_source e) (er_verification e)) (ts_evidence (tr_state r))"

lemma evidence_inv_apply_op: "evidence_inv r \<Longrightarrow> evidence_inv (apply_op v op r)"
  by (cases op)
    (auto simp: op_defs Let_def evidence_inv_def validator list_ex_iff split: op_splits)

text \<open>No evidence is bound to a contract revision after the current one.\<close>

definition evidence_age_inv :: "TaskRecord \<Rightarrow> bool" where
  "evidence_age_inv r \<longleftrightarrow>
     (\<forall>e \<in> set (ts_evidence (tr_state r)). er_contract_revision e \<le> tc_revision (tr_contract r))"

lemma evidence_age_inv_apply_op: "evidence_age_inv r \<Longrightarrow> evidence_age_inv (apply_op v op r)"
  by (cases op)
    (auto simp: op_defs Let_def evidence_age_inv_def le_SucI dest!: TaskContract_revise_Ok split: op_splits)

subsection \<open>Satisfied criteria and completed steps are backed by evidence\<close>

text \<open>\<open>proves tid c i k e\<close>: evidence \<open>e\<close> shows criterion \<open>i\<close> of kind \<open>k\<close> under exactly the contract \<open>c\<close>.\<close>

definition proves :: "string \<Rightarrow> TaskContract \<Rightarrow> string \<Rightarrow> VerificationKind \<Rightarrow> EvidenceRecord \<Rightarrow> bool" where
  "proves tid c i k e \<longleftrightarrow> er_task_id e = tid \<and> er_contract_revision e = tc_revision c
     \<and> er_contract_digest e = tc_digest c
     \<and> (\<exists>v. er_verification e = Some v \<and> ev_criterion_id v = Some i \<and> ev_check_id v = i
          \<and> ev_outcome v = VerificationOutcome_Passed)
     \<and> source_supports_successful_outcome (er_kind e) (er_source e) \<and> kind_verifies k (er_kind e)"

lemma verification_rejection_None_iff:
  "verification_rejection r i k e = None \<longleftrightarrow> proves (tr_id r) (tr_contract r) i k e"
  by (auto simp: verification_rejection_def proves_def split: option.splits)

definition acceptance_backed :: "string \<Rightarrow> TaskContract \<Rightarrow> EvidenceRecord list \<Rightarrow> AcceptanceState \<Rightarrow> bool" where
  "acceptance_backed tid c es a \<longleftrightarrow> (ac_status a = AcceptanceStatus_Satisfied \<longrightarrow>
     (\<exists>e \<in> set es. ac_verified_by a = Some (er_id e) \<and> proves tid c (ac_criterion_id a) (ac_verification_kind a) e))"

definition acceptance_inv :: "TaskRecord \<Rightarrow> bool" where
  "acceptance_inv r \<longleftrightarrow>
     list_all (acceptance_backed (tr_id r) (tr_contract r) (ts_evidence (tr_state r))) (ts_acceptance (tr_state r))"

lemma list_all_list_update: "list_all P xs \<Longrightarrow> P y \<Longrightarrow> list_all P (xs[i := y])"
  by (auto simp: list_all_iff dest: set_update_subset_insert [THEN subsetD])

lemma acceptance_backed_more: "acceptance_backed t c es a \<Longrightarrow> acceptance_backed t c (es @ fs) a"
  by (auto simp: acceptance_backed_def)

lemma acceptance_backed_initial: "list_all (acceptance_backed t c' es) (initial_acceptance c)"
  by (auto simp: initial_acceptance_def acceptance_backed_def list_all_iff)

lemma verify_criterion_cases:
  obtains (rejected) x where "verify_criterion now i vb nt r = (r, CriterionResult_Rejected x)"
  | (verified) ci b e where
      "position (\<lambda>c. ac_criterion_id c = i) (ts_acceptance (tr_state r)) = Some ci" "vb = Some b"
      "find (\<lambda>entry. er_id entry = b) (ts_evidence (tr_state r)) = Some e"
      "proves (tr_id r) (tr_contract r) i (ac_verification_kind (ts_acceptance (tr_state r) ! ci)) e"
      "\<not> is_terminal_phase (ts_phase (tr_state r))"
      "verify_criterion now i vb nt r =
         (observe_task \<lparr> ob_action = ''criterion.verified'', ob_fingerprint = i, ob_progress = True \<rparr> now
           (append_activity (ActivityEvent_CriterionVerified 0 i b)
             (upd_state (\<lambda>s. s\<lparr>ts_acceptance := (ts_acceptance s)[ci :=
                (ts_acceptance s ! ci)\<lparr>ac_status := AcceptanceStatus_Satisfied,
                   ac_verified_by := Some b, ac_note := nt\<rparr>]\<rparr>) r)), CriterionResult_Verified)"
proof (cases "is_terminal_phase (ts_phase (tr_state r))")
  case True
  then show thesis
    using rejected by (simp add: verify_criterion_def)
next
  case live: False
  show thesis
  proof (cases "position (\<lambda>c. ac_criterion_id c = i) (ts_acceptance (tr_state r))")
    case None
    then show thesis
      using rejected live by (simp add: verify_criterion_def)
  next
    case ci: (Some ci)
    show thesis
    proof (cases vb)
      case None
      then show thesis
        using rejected live ci by (simp add: verify_criterion_def)
    next
      case b: (Some b)
      show thesis
      proof (cases "find (\<lambda>entry. er_id entry = b) (ts_evidence (tr_state r))")
        case None
        then show thesis
          using rejected live ci b by (simp add: verify_criterion_def)
      next
        case e: (Some e)
        show thesis
        proof (cases "verification_rejection r i (ac_verification_kind (ts_acceptance (tr_state r) ! ci)) e")
          case None
          note shown = None [unfolded verification_rejection_None_iff]
          show thesis
            by (rule verified [OF ci b e shown live]) (use None live ci b e in \<open>simp add: verify_criterion_def Let_def\<close>)
        next
          case (Some x)
          then show thesis
            using rejected live ci b e by (simp add: verify_criterion_def)
        qed
      qed
    qed
  qed
qed

lemma acceptance_inv_verify:
  assumes "acceptance_inv r"
  shows "acceptance_inv (fst (verify_criterion now i vb nt r))"
proof (cases rule: verify_criterion_cases [where now = now and i = i and vb = vb and nt = nt and r = r])
  case (rejected x)
  with assms show ?thesis
    by simp
next
  case (verified ci b e)
  let ?a = "(ts_acceptance (tr_state r) ! ci)\<lparr>ac_status := AcceptanceStatus_Satisfied,
      ac_verified_by := Some b, ac_note := nt\<rparr>"
  have "er_id e = b" "e \<in> set (ts_evidence (tr_state r))"
    using find_Some_set [OF verified(3)] by auto
  moreover have "ac_criterion_id (ts_acceptance (tr_state r) ! ci) = i"
    using position_Some_nth [OF verified(1)] by simp
  ultimately have "acceptance_backed (tr_id r) (tr_contract r) (ts_evidence (tr_state r)) ?a"
    using verified(4) by (auto simp: acceptance_backed_def)
  with assms verified(6) show ?thesis
    by (simp add: acceptance_inv_def list_all_list_update)
qed

lemma acceptance_inv_apply_op:
  assumes "acceptance_inv r"
  shows "acceptance_inv (apply_op v op r)"
proof (cases op)
  case (Op_verify_criterion now i vb nt)
  with assms show ?thesis
    by (simp add: acceptance_inv_verify)
next
  case (Op_attach_evidence now i kind source vf)
  have "list_all (acceptance_backed (tr_id r) (tr_contract r) (ts_evidence (tr_state r) @ fs))
      (ts_acceptance (tr_state r))" for fs
    using assms by (auto simp: acceptance_inv_def list_all_iff intro: acceptance_backed_more)
  with Op_attach_evidence assms show ?thesis
    by (simp add: attach_evidence_def Let_def acceptance_inv_def split: op_splits)
next
  case (Op_mark_criterion_failed i nt)
  with assms show ?thesis
    by (auto simp: mark_criterion_failed_def acceptance_inv_def acceptance_backed_def
        intro!: list_all_update_first split: op_splits)
qed (use assms in \<open>simp_all add: op_defs Let_def acceptance_inv_def acceptance_backed_initial split: op_splits\<close>)

text \<open>\<open>step_backed\<close>: a completed step holds distinct references to evidence of kinds it accepts.\<close>

definition ref_ok :: "string \<Rightarrow> TaskStepSpec \<Rightarrow> EvidenceRecord list \<Rightarrow> EvidenceRef \<Rightarrow> bool" where
  "ref_ok tid spec es x \<longleftrightarrow> ref_kind x \<in> set (sp_accepts spec)
     \<and> (\<exists>e \<in> set es. er_id e = ref_evidence_id x \<and> er_kind e = ref_kind x \<and> er_task_id e = tid)"

definition step_backed :: "string \<Rightarrow> TaskStepSpec list \<Rightarrow> EvidenceRecord list \<Rightarrow> TaskStepState \<Rightarrow> bool" where
  "step_backed tid specs es st \<longleftrightarrow> (st_status st = TaskStepStatus_Completed \<longrightarrow>
     st_evidence_refs st \<noteq> [] \<and> distinct (map ref_evidence_id (st_evidence_refs st))
     \<and> (\<exists>spec \<in> set specs. sp_id spec = st_id st \<and> list_all (ref_ok tid spec es) (st_evidence_refs st)))"

definition steps_inv :: "TaskRecord \<Rightarrow> bool" where
  "steps_inv r \<longleftrightarrow>
     list_all (step_backed (tr_id r) (tr_specs r) (ts_evidence (tr_state r))) (ts_steps (tr_state r))"

lemma check_refs_None:
  "check_refs tid spec es seen refs = None \<Longrightarrow>
     list_all (ref_ok tid spec es) refs \<and> distinct (map ref_evidence_id refs)
     \<and> ref_evidence_id ` set refs \<inter> set seen = {}"
proof (induction tid spec es seen refs rule: check_refs.induct)
  case (2 tid spec es seen x rest)
  then obtain e where e: "find (\<lambda>entry. er_id entry = ref_evidence_id x) es = Some e"
    by (auto split: if_splits option.splits)
  with 2 show ?case
    using find_Some_set [OF e] by (auto simp: ref_ok_def split: if_splits)
qed simp

lemma step_backed_more: "step_backed t specs es st \<Longrightarrow> step_backed t specs (es @ fs) st"
  unfolding step_backed_def ref_ok_def list_all_iff by fastforce

lemma complete_step_cases:
  obtains (rejected) x where "complete_step now i refs r = (r, StepOpResult_Rejected x)"
  | (completed) k spec where
      "position (\<lambda>st. st_id st = i) (ts_steps (tr_state r)) = Some k"
      "find (\<lambda>spec. sp_id spec = i) (tr_specs r) = Some spec"
      "st_status (ts_steps (tr_state r) ! k) = TaskStepStatus_Active" "refs \<noteq> []"
      "check_refs (tr_id r) spec (ts_evidence (tr_state r)) [] refs = None"
      "\<not> is_terminal_phase (ts_phase (tr_state r))"
      "complete_step now i refs r =
         (observe_task \<lparr> ob_action = ''step.completed'', ob_fingerprint = i, ob_progress = True \<rparr> now
           (append_activity (ActivityEvent_StepCompleted 0 i refs)
             (upd_state (\<lambda>s. s\<lparr>ts_steps := (ts_steps s)[k :=
                (ts_steps s ! k)\<lparr>st_status := TaskStepStatus_Completed, st_failed_reason := None,
                   st_blocked_reason := None, st_evidence_refs := refs\<rparr>]\<rparr>) r)), StepOpResult_Ok)"
proof (cases "is_terminal_phase (ts_phase (tr_state r))
    \<or> position (\<lambda>st. st_id st = i) (ts_steps (tr_state r)) = None
    \<or> find (\<lambda>spec. sp_id spec = i) (tr_specs r) = None")
  case True
  then have "\<exists>x. complete_step now i refs r = (r, StepOpResult_Rejected x)"
    by (auto simp: complete_step_def split: option.split)
  then show thesis
    using rejected by blast
next
  case False
  then obtain k spec where k: "position (\<lambda>st. st_id st = i) (ts_steps (tr_state r)) = Some k"
    and spec: "find (\<lambda>spec. sp_id spec = i) (tr_specs r) = Some spec"
    and live: "\<not> is_terminal_phase (ts_phase (tr_state r))"
    by auto
  show thesis
  proof (cases "st_status (ts_steps (tr_state r) ! k) = TaskStepStatus_Active \<and> refs \<noteq> []
      \<and> check_refs (tr_id r) spec (ts_evidence (tr_state r)) [] refs = None")
    case True
    then show thesis
      by (intro completed [OF k spec]) (use k spec live in \<open>simp_all add: complete_step_def Let_def\<close>)
  next
    case False
    then have "\<exists>x. complete_step now i refs r = (r, StepOpResult_Rejected x)"
      using k spec live by (auto simp: complete_step_def split: option.split)
    then show thesis
      using rejected by blast
  qed
qed

lemma steps_inv_complete:
  assumes "steps_inv r"
  shows "steps_inv (fst (complete_step now i refs r))"
proof (cases rule: complete_step_cases [where now = now and i = i and refs = refs and r = r])
  case (rejected x)
  with assms show ?thesis
    by simp
next
  case (completed k spec)
  let ?st = "(ts_steps (tr_state r) ! k)\<lparr>st_status := TaskStepStatus_Completed, st_failed_reason := None,
      st_blocked_reason := None, st_evidence_refs := refs\<rparr>"
  have "sp_id spec = i" "spec \<in> set (tr_specs r)"
    using find_Some_set [OF completed(2)] by auto
  moreover have "st_id (ts_steps (tr_state r) ! k) = i"
    using position_Some_nth [OF completed(1)] by simp
  ultimately have "step_backed (tr_id r) (tr_specs r) (ts_evidence (tr_state r)) ?st"
    using check_refs_None [OF completed(5)] completed(4) by (auto simp: step_backed_def)
  with assms completed(7) show ?thesis
    by (simp add: steps_inv_def list_all_list_update)
qed

lemma steps_inv_apply_op:
  assumes "steps_inv r"
  shows "steps_inv (apply_op v op r)"
proof (cases op)
  case (Op_complete_step now i refs)
  with assms show ?thesis
    by (simp add: steps_inv_complete)
next
  case (Op_attach_evidence now i kind source vf)
  have "list_all (step_backed (tr_id r) (tr_specs r) (ts_evidence (tr_state r) @ fs)) (ts_steps (tr_state r))" for fs
    using assms by (auto simp: steps_inv_def list_all_iff intro: step_backed_more)
  with Op_attach_evidence assms show ?thesis
    by (simp add: attach_evidence_def Let_def steps_inv_def split: op_splits)
next
  case (Op_begin_step i)
  with assms show ?thesis
    by (auto simp: begin_step_def upd_step_def steps_inv_def step_backed_def intro!: list_all_update_first split: op_splits)
next
  case (Op_fail_step i reason)
  with assms show ?thesis
    by (auto simp: fail_step_def upd_step_def steps_inv_def step_backed_def intro!: list_all_update_first split: op_splits)
qed (use assms in \<open>simp_all add: op_defs Let_def steps_inv_def split: op_splits\<close>)

subsection \<open>Plans and their approval\<close>

definition approval_binds :: "PlanApproval \<Rightarrow> TaskPlan \<Rightarrow> TaskContract \<Rightarrow> bool" where
  "approval_binds a p c \<longleftrightarrow> pa_plan_id a = plan_id p \<and> pa_plan_revision a = plan_revision p
     \<and> pa_plan_digest a = digest_value (plan_digest p) \<and> plan_digest_ok p
     \<and> pa_contract_revision a = tc_revision c \<and> pa_contract_digest a = tc_digest c
     \<and> plan_contract_revision p = tc_revision c \<and> plan_contract_digest_bound p = tc_digest c"

definition approval_ok ::
    "TaskPlanState \<Rightarrow> PlanApproval option \<Rightarrow> TaskPlan list \<Rightarrow> TaskContract \<Rightarrow> bool" where
  "approval_ok tp approval ps c \<longleftrightarrow>
     (tps_approval tp = TaskPlanApprovalKind_Approved \<longleftrightarrow> approval \<noteq> None)
     \<and> (case approval of None \<Rightarrow> True
        | Some a \<Rightarrow> tps_state tp = TaskPlanStateKind_Current
            \<and> (\<exists>p. last_opt ps = Some p \<and> approval_binds a p c))"

definition approval_inv :: "TaskRecord \<Rightarrow> bool" where
  "approval_inv r \<longleftrightarrow> approval_ok (ts_plan (tr_state r)) (tr_plan_approval r) (tr_plans r) (tr_contract r)"

lemma approval_ok_depth [simp]: "approval_ok (tp\<lparr>tps_depth := d\<rparr>) a ps c = approval_ok tp a ps c"
  by (cases a) (simp_all add: approval_ok_def)

lemma approval_ok_None [simp]:
  "approval_ok tp None ps c \<longleftrightarrow> tps_approval tp \<noteq> TaskPlanApprovalKind_Approved"
  by (simp add: approval_ok_def)

lemma approval_ok_no_plans: "approval_ok tp a [] c \<Longrightarrow> a = None"
  by (cases a) (auto simp: approval_ok_def)

definition plan_ref_inv :: "TaskRecord \<Rightarrow> bool" where
  "plan_ref_inv r \<longleftrightarrow> (case last_opt (tr_plans r) of
       None \<Rightarrow> tps_state (ts_plan (tr_state r)) = TaskPlanStateKind_None
     | Some p \<Rightarrow> tps_plan_id (ts_plan (tr_state r)) = Some (plan_id p)
         \<and> tps_plan_revision (ts_plan (tr_state r)) = plan_revision p
         \<and> tps_plan_digest (ts_plan (tr_state r)) = Some (digest_value (plan_digest p))
         \<and> tps_state (ts_plan (tr_state r)) \<noteq> TaskPlanStateKind_None)"

definition plans_inv :: "TaskPlan list \<Rightarrow> bool" where
  "plans_inv ps \<longleftrightarrow> length ps \<le> MAX_PLAN_REVISIONS
     \<and> distinct (map (\<lambda>p. (plan_id p, plan_revision p)) ps)
     \<and> (\<forall>q \<in> set ps. plan_id q = plan_id (last ps) \<longrightarrow> plan_revision q \<le> plan_revision (last ps))"

lemma store_plan_sel [simp]:
  "tr_plans (store_plan now p r) = tr_plans r @ [p]"
  "tr_plan_approval (store_plan now p r) = None"
  "tr_contract (store_plan now p r) = tr_contract r"
  "tps_approval (ts_plan (tr_state (store_plan now p r))) \<noteq> TaskPlanApprovalKind_Approved"
  "tps_plan_id (ts_plan (tr_state (store_plan now p r))) = Some (plan_id p)"
  "tps_plan_revision (ts_plan (tr_state (store_plan now p r))) = plan_revision p"
  "tps_plan_digest (ts_plan (tr_state (store_plan now p r))) = Some (digest_value (plan_digest p))"
  "tps_state (ts_plan (tr_state (store_plan now p r))) = TaskPlanStateKind_Current"
  by (simp_all add: store_plan_def observe_def Let_def split: option.split if_split)

lemma set_plan_cases:
  obtains (rejected) e where "set_plan v now p r = (r, Err e)"
  | (stored) content where "plan_binding_rejection p r = None" "plan_sequence_rejection p r = None"
      "length (tr_plans r) < MAX_PLAN_REVISIONS"
      "v (plan_content p) (tr_contract r) (plan_depth p) = Ok content"
      "set_plan v now p r = (store_plan now (p\<lparr>plan_content := content\<rparr>) r, Ok ())"
proof (cases "plan_binding_rejection p r = None \<and> plan_sequence_rejection p r = None
    \<and> length (tr_plans r) < MAX_PLAN_REVISIONS
    \<and> (\<exists>content. v (plan_content p) (tr_contract r) (plan_depth p) = Ok content)")
  case True
  then obtain content where "v (plan_content p) (tr_contract r) (plan_depth p) = Ok content"
    by blast
  with True show thesis
    by (intro stored [of content]) (simp_all add: set_plan_def)
next
  case False
  then have "\<exists>e. set_plan v now p r = (r, Err e)"
    by (auto simp: set_plan_def split: option.split sum.split)
  then show thesis
    using rejected by blast
qed

lemma plans_inv_store:
  assumes "plans_inv (tr_plans r)" and "plan_sequence_rejection p r = None"
    and "length (tr_plans r) < MAX_PLAN_REVISIONS"
  shows "plans_inv (tr_plans r @ [p\<lparr>plan_content := c\<rparr>])"
proof (cases "tr_plans r")
  case Nil
  then show ?thesis
    using assms(3) by (simp add: plans_inv_def)
next
  case (Cons a as)
  define q where "q = last (tr_plans r)"
  have q: "last_opt (tr_plans r) = Some q"
    using Cons by (simp add: last_opt_def q_def)
  have "(\<forall>x \<in> set (tr_plans r). plan_id x = plan_id p \<longrightarrow> plan_revision x < plan_revision p)"
  proof (cases "plan_id q = plan_id p")
    case True
    then have "plan_revision p = plan_revision q + 1"
      using assms(2) q by (auto simp: plan_sequence_rejection_def split: if_splits)
    with assms(1) True show ?thesis
      by (auto simp: plans_inv_def q_def)
  next
    case False
    then have "\<forall>x \<in> set (tr_plans r). plan_id x \<noteq> plan_id p"
      using assms(2) q by (auto simp: plan_sequence_rejection_def list_ex_iff split: if_splits)
    then show ?thesis
      by blast
  qed
  then show ?thesis
    using assms(1,3) by (fastforce simp: plans_inv_def)
qed

lemma plans_inv_apply_op:
  assumes "plans_inv (tr_plans r)"
  shows "plans_inv (tr_plans (apply_op v op r))"
proof (cases op)
  case (Op_set_plan now p)
  show ?thesis
  proof (cases rule: set_plan_cases [where v = v and now = now and p = p and r = r])
    case (rejected e)
    with Op_set_plan assms show ?thesis
      by simp
  next
    case (stored content)
    with Op_set_plan assms show ?thesis
      by (simp add: plans_inv_store)
  qed
qed (use assms in \<open>simp_all add: op_defs Let_def split: op_splits\<close>, auto)

lemma plan_ref_inv_apply_op:
  assumes "plan_ref_inv r"
  shows "plan_ref_inv (apply_op v op r)"
proof (cases op)
  case (Op_set_plan now p)
  show ?thesis
  proof (cases rule: set_plan_cases [where v = v and now = now and p = p and r = r])
    case (rejected e)
    with Op_set_plan assms show ?thesis
      by simp
  next
    case (stored content)
    with Op_set_plan show ?thesis
      by (simp add: plan_ref_inv_def)
  qed
qed (use assms in \<open>auto simp: op_defs Let_def plan_ref_inv_def split: op_splits\<close>)

lemma approval_rejection_None:
  "approval_rejection i n p r = None \<Longrightarrow> plan_id p = i \<and> plan_revision p = n
     \<and> plan_contract_revision p = tc_revision (tr_contract r)
     \<and> plan_contract_digest_bound p = tc_digest (tr_contract r) \<and> plan_digest_ok p
     \<and> tps_state (ts_plan (tr_state r)) \<noteq> TaskPlanStateKind_Stale"
  by (auto simp: approval_rejection_def plan_digest_ok_def split: if_splits sum.splits)

lemma approval_inv_apply_op:
  assumes "approval_inv r" and "plan_ref_inv r"
  shows "approval_inv (apply_op v op r)"
proof (cases op)
  case (Op_set_plan now p)
  show ?thesis
  proof (cases rule: set_plan_cases [where v = v and now = now and p = p and r = r])
    case (rejected e)
    with Op_set_plan assms show ?thesis
      by simp
  next
    case (stored content)
    with Op_set_plan show ?thesis
      by (simp add: approval_inv_def)
  qed
next
  case (Op_approve_plan now i n)
  show ?thesis
  proof (cases "\<exists>p. last_opt (tr_plans r) = Some p \<and> approval_rejection i n p r = None
      \<and> \<not> is_terminal_phase (ts_phase (tr_state r))")
    case True
    then obtain p where p: "last_opt (tr_plans r) = Some p" "approval_rejection i n p r = None"
      and live: "\<not> is_terminal_phase (ts_phase (tr_state r))"
      by blast
    have "tps_state (ts_plan (tr_state r)) = TaskPlanStateKind_Current"
      using assms(2) p approval_rejection_None [OF p(2)] unfolding plan_ref_inv_def
      by (cases "tps_state (ts_plan (tr_state r))") auto
    with Op_approve_plan p live approval_rejection_None [OF p(2)] show ?thesis
      by (simp add: approve_plan_def Let_def approval_inv_def approval_ok_def approval_binds_def terminal_reason_def)
  next
    case False
    then have "fst (approve_plan now i n r) = r"
      by (auto simp: approve_plan_def split: option.split)
    with Op_approve_plan assms(1) show ?thesis
      by simp
  qed
next
  case (Op_revise_contract changes)
  show ?thesis
  proof (cases "TaskContract_revise (tr_contract r) changes")
    case (Inl e)
    with Op_revise_contract assms(1) show ?thesis
      by (simp add: revise_contract_def)
  next
    case (Inr c)
    have "tr_plans r = [] \<Longrightarrow> tr_plan_approval r = None"
      using assms(1) approval_ok_no_plans by (auto simp: approval_inv_def)
    with Inr Op_revise_contract assms(1) show ?thesis
      by (cases "last_opt (tr_plans r)"; cases "tr_plan_approval r")
        (simp_all add: revise_contract_def invalidate_plan_for_contract_revision_def approval_inv_def Let_def)
  qed
next
  case (Op_invalidate_plan reason)
  have "tr_plans r = [] \<Longrightarrow> tr_plan_approval r = None"
    using assms(1) approval_ok_no_plans by (auto simp: approval_inv_def)
  with Op_invalidate_plan assms(1) show ?thesis
    by (cases "last_opt (tr_plans r)"; cases "tr_plan_approval r")
      (simp_all add: invalidate_plan_def approval_inv_def Let_def)
qed (use assms(1) in \<open>simp_all add: op_defs Let_def approval_inv_def split: op_splits\<close>)

subsection \<open>The runtime as a machine\<close>

definition task_inv :: "TaskRecord \<Rightarrow> bool" where
  "task_inv r \<longleftrightarrow> log_ok r \<and> gate_inv r \<and> time_inv r \<and> progress_inv r \<and> contract_inv r
     \<and> consecutive (tr_contract_revisions r) \<and> skeleton_inv r \<and> evidence_inv r \<and> acceptance_inv r
     \<and> steps_inv r \<and> plans_inv (tr_plans r) \<and> plan_ref_inv r \<and> approval_inv r \<and> evidence_age_inv r"

lemma task_inv_apply_op: "task_inv r \<Longrightarrow> task_inv (apply_op v op r)"
  unfolding task_inv_def
  by (intro conjI) (blast intro: log_ok_apply_op gate_inv_apply_op time_inv_apply_op progress_inv_apply_op
      contract_inv_apply_op consecutive_apply_op skeleton_inv_apply_op evidence_inv_apply_op
      acceptance_inv_apply_op steps_inv_apply_op plans_inv_apply_op plan_ref_inv_apply_op approval_inv_apply_op
      evidence_age_inv_apply_op)+

lemma build_record_sel [simp]:
  "tr_id (build_record c specs it now) = tc_id c"
  "tr_specs (build_record c specs it now) = specs"
  "tr_contract (build_record c specs it now) = c"
  "tr_contract_revisions (build_record c specs it now) = [c]"
  "tr_plans (build_record c specs it now) = []"
  "tr_plan_approval (build_record c specs it now) = None"
  "tr_sequence (build_record c specs it now) = 1"
  "tr_activity (build_record c specs it now) = [ActivityEvent_TaskStarted 1 (tc_revision c)]"
  "ts_phase (tr_state (build_record c specs it now)) = TaskPhase_Prepared"
  "ts_steps (tr_state (build_record c specs it now)) = initial_steps specs"
  "ts_acceptance (tr_state (build_record c specs it now)) = initial_acceptance c"
  "ts_evidence (tr_state (build_record c specs it now)) = []"
  "ts_current_findings (tr_state (build_record c specs it now)) = []"
  by (simp_all add: build_record_def Let_def)

lemma task_inv_build:
  assumes "contract_wf c"
  shows "task_inv (build_record c specs it now)"
proof -
  have "progress_inv (build_record c specs it now)" "time_inv (build_record c specs it now)"
    "contract_inv (build_record c specs it now)" "plan_ref_inv (build_record c specs it now)"
    "approval_inv (build_record c specs it now)"
    using assms
    by (simp_all add: build_record_def Let_def progress_inv_def time_inv_def contract_inv_def plan_ref_inv_def
        approval_inv_def NO_TASK_PLAN_def progress_wf_observed progress_wf_create last_opt_def)
  moreover have "log_ok (build_record c specs it now)" "gate_inv (build_record c specs it now)"
    "skeleton_inv (build_record c specs it now)" "evidence_inv (build_record c specs it now)"
    "acceptance_inv (build_record c specs it now)" "steps_inv (build_record c specs it now)"
    "evidence_age_inv (build_record c specs it now)"
    by (simp_all add: evidence_age_inv_def log_ok_def gate_inv_def skeleton_inv_def initial_acceptance_skeleton evidence_inv_def
        acceptance_inv_def acceptance_backed_initial [unfolded list_all_iff] steps_inv_def initial_steps_def step_backed_def list_all_iff)
  ultimately show ?thesis
    by (simp add: task_inv_def plans_inv_def)
qed

interpretation task_log: logged_machine fresh_task "apply_op validate" task_inv tr_activity
  for validate
  by unfold_locales (auto simp: fresh_task_def task_inv_build task_inv_apply_op activity_extends)

interpretation task_end: absorbing_machine fresh_task "apply_op validate" task_inv
    "\<lambda>r. is_terminal_phase (ts_phase (tr_state r))"
  for validate
  by unfold_locales (simp add: terminal_frozen)

abbreviation task_reachable :: "plan_validator \<Rightarrow> TaskRecord \<Rightarrow> bool" where
  "task_reachable validate \<equiv> reachable fresh_task (apply_op validate)"

end
