(* ===== verification/Task_Properties.thy ===== *)
theory Task_Properties
  imports Task_Invariants
begin

text \<open>
  What the task runtime promises, for every record reachable from a fresh task by any
  sequence of handle operations, and for the registry of tasks.
\<close>

subsection \<open>A task driven to completion\<close>

text \<open>
  The witnesses run the operations of the handle on the sample contract: approve its
  criterion, pass validation and review, complete.  The validator rejects every plan.
\<close>

definition no_plans :: plan_validator where
  "no_plans content contract depth = Err [''no plan'']"

definition sample_verification :: EvidenceVerification where
  "sample_verification = \<lparr> ev_check_id = ''host-verified'', ev_criterion_id = Some ''host-verified'',
     ev_milestone = None, ev_outcome = VerificationOutcome_Passed \<rparr>"

definition sample_source :: EvidenceSource where
  "sample_source = EvidenceSource_UserApproval ''a1'' ''task-1'' ApprovalDecision_Approved"

definition sample_task :: TaskRecord where
  "sample_task = build_record sample_contract [] None 0"

definition sample_attached :: TaskRecord where
  "sample_attached = apply_op no_plans
     (Op_attach_evidence 1 ''ev-1'' EvidenceKind_UserApproval sample_source (Some sample_verification)) sample_task"

definition sample_verified :: TaskRecord where
  "sample_verified = apply_op no_plans (Op_verify_criterion 2 ''host-verified'' (Some ''ev-1'') None) sample_attached"

definition sample_done :: TaskRecord where
  "sample_done = run (apply_op no_plans) sample_verified
     [Op_set_validation_status TaskValidationStatus_Clean, Op_set_review_status TaskReviewStatus_Clean,
      Op_complete_task 3 4]"

lemma sample_task_fresh: "fresh_task sample_task"
proof -
  have "prepare_step_specs [] = Ok []"
    by (simp add: prepare_step_specs_def)
  then show ?thesis
    unfolding fresh_task_def sample_task_def using sample_contract_wf by blast
qed

lemma sample_done_reachable: "task_reachable no_plans sample_done"
  unfolding sample_done_def sample_verified_def sample_attached_def
  by (intro reachable_run reachable.step reachable.start sample_task_fresh)

lemma sample_evidence_ok:
  "validate_evidence_payload ''ev-1'' EvidenceKind_UserApproval sample_source (Some sample_verification)
     = Ok \<lparr> ve_source = sample_source, ve_verification = Some sample_verification \<rparr>"
  by code_simp

lemma sample_acceptance:
  "initial_acceptance sample_contract = [\<lparr> ac_criterion_id = ''host-verified'', ac_description = ''Done.'',
     ac_verification_kind = VerificationKind_User, ac_status = AcceptanceStatus_Pending,
     ac_verified_by = None, ac_note = None \<rparr>]"
proof -
  have "trim ''Done.'' = ''Done.''"
    by code_simp
  then show ?thesis
    by (simp add: initial_acceptance_def sample_contract_def normalized_def sample_criterion_def trim_criterion_def)
qed

lemma sample_attached_sel:
  "ts_phase (tr_state sample_attached) = TaskPhase_Prepared"
  "ts_steps (tr_state sample_attached) = []"
  "ts_current_findings (tr_state sample_attached) = []"
  "ts_acceptance (tr_state sample_attached) = initial_acceptance sample_contract"
  "tr_id sample_attached = tc_id sample_contract"
  "tr_contract sample_attached = sample_contract"
  "ts_evidence (tr_state sample_attached) =
     [\<lparr> er_id = ''ev-1'', er_kind = EvidenceKind_UserApproval, er_task_id = tc_id sample_contract,
        er_contract_revision = tc_revision sample_contract, er_contract_digest = tc_digest sample_contract,
        er_source = sample_source, er_verification = Some sample_verification, er_attached_at_ms = 1 \<rparr>]"
  by (simp_all add: sample_attached_def sample_task_def attach_evidence_def sample_evidence_ok
      MAX_TASK_EVIDENCE_RECORDS_def Let_def initial_steps_def)

lemma sample_verified_sel:
  "ts_phase (tr_state sample_verified) = TaskPhase_Prepared"
  "ts_steps (tr_state sample_verified) = []"
  "ts_current_findings (tr_state sample_verified) = []"
  "map ac_status (ts_acceptance (tr_state sample_verified)) = [AcceptanceStatus_Satisfied]"
  by (simp_all add: sample_verified_def verify_criterion_def sample_attached_sel sample_acceptance
      verification_rejection_def sample_verification_def sample_source_def Let_def)

lemma sample_done_completed: "ts_phase (tr_state sample_done) = TaskPhase_Completed"
  using sample_verified_sel
  by (auto simp: sample_done_def set_validation_status_def set_review_status_def complete_task_def Let_def
      terminal_reason_def evaluate_completion_allowed gate_open_def is_acceptable_for_completion_def)

text \<open>The unchanged revision of the contract, and a plan taken through \<open>set_plan\<close> and \<open>approve_plan\<close>.\<close>

definition sample_changes :: ReviseTaskContractInput where
  "sample_changes = \<lparr> rti_id = ''task-1'', rti_request = None, rti_context = None, rti_constraints = None,
     rti_acceptance_criteria = None, rti_pause_policy = None \<rparr>"

definition any_plan :: plan_validator where
  "any_plan content contract depth = Ok content"

definition sample_plan :: TaskPlan where
  "sample_plan = \<lparr> plan_id = ''plan-1'', plan_revision = 1,
     plan_digest = \<lparr> algorithm = ARTIFACT_DIGEST_ALGORITHM, artifact_type = ''TaskPlan'',
       schema_version = TASK_PLAN_IDENTITY_SCHEMA,
       digest_value = artifact_digest_hex ''TaskPlan'' TASK_PLAN_IDENTITY_SCHEMA
         (canonicalize (plan_content_payload sample_content)) \<rparr>,
     plan_task_id = ''task-1'', plan_contract_revision = 1,
     plan_contract_digest_bound = tc_digest sample_contract, plan_depth = PlanningDepth_Light,
     plan_content = sample_content, plan_created_at = 0 \<rparr>"

definition sample_planned :: TaskRecord where
  "sample_planned = apply_op any_plan (Op_set_plan 1 sample_plan) sample_task"

definition sample_approved :: TaskRecord where
  "sample_approved = apply_op any_plan (Op_approve_plan 2 ''plan-1'' 1) sample_planned"

lemma sample_contract_sel [simp]:
  "tc_id sample_contract = ''task-1''" "tc_revision sample_contract = 1"
  by (simp_all add: sample_contract_def normalized_def)

lemma sample_revised:
  "\<exists>r'. revise_contract sample_changes sample_attached = (r', Ok (sample_contract\<lparr>tc_revision := 2\<rparr>))"
proof -
  have "TaskContract_revise sample_contract sample_changes = Ok (sample_contract\<lparr>tc_revision := 2\<rparr>)"
    using validate_shape_again [OF sample_contract_wf, of 2] by (simp add: TaskContract_revise_def sample_changes_def numeral_2_eq_2)
  then show ?thesis
    by (simp add: revise_contract_def sample_attached_sel Let_def)
qed

lemma sample_planned_sel:
  "tr_plans sample_planned = [sample_plan]"
  "tps_state (ts_plan (tr_state sample_planned)) = TaskPlanStateKind_Current"
  "tr_contract sample_planned = sample_contract"
  "ts_phase (tr_state sample_planned) = TaskPhase_Prepared"
proof -
  have "is_valid_plan_id ''plan-1''"
    by code_simp
  then have eq: "sample_planned = store_plan 1 sample_plan sample_task"
    by (simp add: sample_planned_def set_plan_def plan_binding_rejection_def plan_sequence_rejection_def
        sample_plan_def sample_task_def any_plan_def MAX_PLAN_REVISIONS_def terminal_reason_def last_opt_def)
  show "tr_plans sample_planned = [sample_plan]" "tr_contract sample_planned = sample_contract"
    "tps_state (ts_plan (tr_state sample_planned)) = TaskPlanStateKind_Current"
    "ts_phase (tr_state sample_planned) = TaskPhase_Prepared"
    by (simp_all add: eq sample_task_def) (simp add: store_plan_def observe_def Let_def)
qed

lemma sample_plan_digest_ok: "stored_plan_digest sample_plan = Ok (digest_value (plan_digest sample_plan))"
  by (simp add: stored_plan_digest_def sample_plan_def plan_content_digest_Ok)

lemma sample_approved_sel: "tr_plan_approval sample_approved \<noteq> None"
proof -
  have "approval_rejection ''plan-1'' 1 sample_plan sample_planned = None"
    by (simp add: approval_rejection_def sample_planned_sel sample_plan_digest_ok) (simp add: sample_plan_def)
  then show ?thesis
    by (simp add: sample_approved_def approve_plan_def sample_planned_sel terminal_reason_def last_opt_def Let_def)
qed

lemma sample_attached_reachable: "task_reachable no_plans sample_attached"
  unfolding sample_attached_def by (intro reachable.step reachable.start sample_task_fresh)

lemma sample_approved_reachable: "task_reachable any_plan sample_approved"
  unfolding sample_approved_def sample_planned_def by (intro reachable.step reachable.start sample_task_fresh)

subsection \<open>Properties\<close>

text \<open>
  C1.  A completed task passed the gate: every step is completed and holds distinct
  references to attached evidence of kinds the step accepts; every acceptance criterion is
  satisfied by attached evidence of this task bound to exactly the current contract revision
  and digest, naming the criterion, with a passed outcome its own source supports and of a
  kind that may verify it; validation is acceptable, review is clean and no finding blocks.
\<close>

theorem completion_only_through_gate:
  assumes "task_reachable validate r" and "ts_phase (tr_state r) = TaskPhase_Completed"
  shows "(\<forall>st \<in> set (ts_steps (tr_state r)). st_status st = TaskStepStatus_Completed
        \<and> st_evidence_refs st \<noteq> []
        \<and> (\<exists>spec \<in> set (tr_specs r). sp_id spec = st_id st
            \<and> (\<forall>x \<in> set (st_evidence_refs st). ref_kind x \<in> set (sp_accepts spec)
                \<and> (\<exists>e \<in> set (ts_evidence (tr_state r)). er_id e = ref_evidence_id x \<and> er_kind e = ref_kind x))))
    \<and> (\<forall>a \<in> set (ts_acceptance (tr_state r)). ac_status a = AcceptanceStatus_Satisfied
        \<and> (\<exists>e \<in> set (ts_evidence (tr_state r)). ac_verified_by a = Some (er_id e)
            \<and> proves (tr_id r) (tr_contract r) (ac_criterion_id a) (ac_verification_kind a) e))
    \<and> is_acceptable_for_completion (ts_validation_status (tr_state r))
    \<and> ts_review_status (tr_state r) = TaskReviewStatus_Clean
    \<and> (\<forall>f \<in> set (ts_current_findings (tr_state r)). \<not> is_blocking (fr_severity f))"
proof -
  have inv: "gate_inv r" "acceptance_inv r" "steps_inv r"
    using task_log.reachable_inv [OF assms(1)] by (simp_all add: task_inv_def)
  then have gate: "gate_open (tr_state r)"
    using assms(2) by (simp add: gate_inv_def)
  have steps: "step_backed (tr_id r) (tr_specs r) (ts_evidence (tr_state r)) st"
    if "st \<in> set (ts_steps (tr_state r))" for st
    using inv(3) that by (simp add: steps_inv_def list_all_iff)
  have criteria: "acceptance_backed (tr_id r) (tr_contract r) (ts_evidence (tr_state r)) a"
    if "a \<in> set (ts_acceptance (tr_state r))" for a
    using inv(2) that by (simp add: acceptance_inv_def list_all_iff)
  show ?thesis
  proof (intro conjI ballI)
    fix st
    assume st: "st \<in> set (ts_steps (tr_state r))"
    show "st_status st = TaskStepStatus_Completed"
      using gate st by (simp add: gate_open_def)
    then show "st_evidence_refs st \<noteq> []"
      "\<exists>spec \<in> set (tr_specs r). sp_id spec = st_id st
            \<and> (\<forall>x \<in> set (st_evidence_refs st). ref_kind x \<in> set (sp_accepts spec)
                \<and> (\<exists>e \<in> set (ts_evidence (tr_state r)). er_id e = ref_evidence_id x \<and> er_kind e = ref_kind x))"
      using steps [OF st] by (fastforce simp: step_backed_def ref_ok_def list_all_iff)+
  next
    fix a
    assume a: "a \<in> set (ts_acceptance (tr_state r))"
    show "ac_status a = AcceptanceStatus_Satisfied"
      using gate a by (simp add: gate_open_def)
    then show "\<exists>e \<in> set (ts_evidence (tr_state r)). ac_verified_by a = Some (er_id e)
            \<and> proves (tr_id r) (tr_contract r) (ac_criterion_id a) (ac_verification_kind a) e"
      using criteria [OF a] by (simp add: acceptance_backed_def)
  qed (use gate in \<open>simp_all add: gate_open_def\<close>)
qed

theorem completion_only_through_gate_witness:
  "\<exists>r. task_reachable no_plans r \<and> ts_phase (tr_state r) = TaskPhase_Completed
     \<and> ts_review_status (tr_state r) = TaskReviewStatus_Clean"
  using completion_only_through_gate [OF sample_done_reachable sample_done_completed]
    sample_done_reachable sample_done_completed by blast

text \<open>
  C11.  Terminal tasks are immutable: once a task is completed, cancelled or failed, no
  sequence of handle operations changes anything of its record, log and progress included.
\<close>

theorem terminal_tasks_are_frozen:
  assumes "is_terminal_phase (ts_phase (tr_state r))"
  shows "run (apply_op validate) r ops = r"
  by (rule task_end.final_run [OF assms])

theorem terminal_tasks_are_frozen_witness:
  "run (apply_op no_plans) sample_done [Op_cancel 9 ''late'', Op_begin_step ''s''] = sample_done"
  by (rule terminal_tasks_are_frozen) (simp add: sample_done_completed)

text \<open>
  Every operation moves the phase along the transition table or leaves it; the phase
  \<open>completed\<close> is entered only from a non-terminal phase with the gate open.
\<close>

theorem phase_changes_follow_table:
  "let p = ts_phase (tr_state r); q = ts_phase (tr_state (apply_op validate op r)) in
     q = p \<or> q \<in> set (allowed_transitions p)
     \<or> (q = TaskPhase_Completed \<and> \<not> is_terminal_phase p \<and> gate_open (tr_state r))"
  using phase_step_apply_op [of r validate op]
  by (simp add: phase_step_def Let_def evaluate_completion_allowed)

text \<open>
  The activity log is append-only and numbered 1, 2, 3, ... without gaps, over any
  sequence of operations.
\<close>

theorem activity_log_append_only:
  assumes "task_reachable validate r"
  shows "\<exists>es. tr_activity (run (apply_op validate) r ops) = tr_activity r @ es
    \<and> map sequence (tr_activity r @ es) = [1..<Suc (length (tr_activity r @ es))]"
proof -
  obtain es where es: "tr_activity (run (apply_op validate) r ops) = tr_activity r @ es"
    using task_log.log_run by blast
  have "log_ok (run (apply_op validate) r ops)"
    using task_log.reachable_inv [OF reachable_run [OF assms]] by (simp add: task_inv_def)
  then have "map sequence (tr_activity r @ es) = [1..<Suc (tr_sequence (run (apply_op validate) r ops))]"
    by (simp add: log_ok_def es)
  then have "map sequence (tr_activity r @ es) = [1..<Suc (length (tr_activity r @ es))]"
    by (metis diff_Suc_1 length_map length_upt)
  with es show ?thesis
    by blast
qed

theorem activity_log_append_only_witness:
  "\<exists>es. tr_activity (run (apply_op no_plans) sample_done [Op_cancel 9 ''late'']) = tr_activity sample_done @ es"
  using activity_log_append_only [OF sample_done_reachable, of "[Op_cancel 9 ''late'']"] by blast

text \<open>
  C20.  Exactly when a criterion becomes verified: the task is live, the criterion exists, and the
  named evidence is attached and proves the criterion under the current contract.  Every
  other call changes nothing.
\<close>

theorem verify_criterion_exact:
  "(snd (verify_criterion now i vb nt r) = CriterionResult_Verified \<longleftrightarrow>
      \<not> is_terminal_phase (ts_phase (tr_state r))
      \<and> (\<exists>ci b e. position (\<lambda>c. ac_criterion_id c = i) (ts_acceptance (tr_state r)) = Some ci
          \<and> vb = Some b \<and> find (\<lambda>entry. er_id entry = b) (ts_evidence (tr_state r)) = Some e
          \<and> proves (tr_id r) (tr_contract r) i (ac_verification_kind (ts_acceptance (tr_state r) ! ci)) e))
    \<and> (snd (verify_criterion now i vb nt r) = CriterionResult_Verified \<or> fst (verify_criterion now i vb nt r) = r)"
  (is "(?verified \<longleftrightarrow> ?conditions) \<and> _")
proof -
  have "?conditions \<Longrightarrow> ?verified"
    by (auto simp: verify_criterion_def Let_def verification_rejection_None_iff [symmetric])
  then show ?thesis
    by (cases rule: verify_criterion_cases [where now = now and i = i and vb = vb and nt = nt and r = r]) auto
qed

text \<open>
  C9.  Revising the contract advances the revision by one, makes every criterion pending again,
  withdraws the approval of the plan, keeps the evidence, and no evidence attached before can
  verify any criterion of the new revision.
\<close>

theorem contract_revision_withdraws_trust:
  assumes "task_reachable validate r" and "revise_contract changes r = (r', Ok c)"
  shows "tr_contract r' = c \<and> tc_revision c = tc_revision (tr_contract r) + 1
    \<and> (\<forall>a \<in> set (ts_acceptance (tr_state r')). ac_status a = AcceptanceStatus_Pending)
    \<and> tr_plan_approval r' = None \<and> tps_approval (ts_plan (tr_state r')) \<noteq> TaskPlanApprovalKind_Approved
    \<and> ts_evidence (tr_state r') = ts_evidence (tr_state r)
    \<and> (\<forall>e \<in> set (ts_evidence (tr_state r)). \<forall>now i nt.
          snd (verify_criterion now i (Some (er_id e)) nt r') \<noteq> CriterionResult_Verified)"
proof -
  have inv: "approval_inv r" "evidence_age_inv r" "evidence_inv r"
    using task_log.reachable_inv [OF assms(1)] by (simp_all add: task_inv_def)
  have c: "TaskContract_revise (tr_contract r) changes = Ok c"
    and live: "\<not> is_terminal_phase (ts_phase (tr_state r))"
    using assms(2) by (auto simp: revise_contract_def Let_def split: if_splits sum.splits)
  have r': "r' = fst (revise_contract changes r)"
    using assms(2) by simp
  have sel: "tr_contract r' = c" "ts_acceptance (tr_state r') = initial_acceptance c"
    "ts_evidence (tr_state r') = ts_evidence (tr_state r)"
    using live c by (simp_all add: r' revise_contract_def Let_def invalidate_plan_for_contract_revision_def split: op_splits)
  have none: "tr_plan_approval r' = None"
    using live c inv(1) approval_ok_no_plans [of "ts_plan (tr_state r)" "tr_plan_approval r" "tr_contract r"]
    by (cases "last_opt (tr_plans r)"; cases "tr_plan_approval r")
      (auto simp: r' revise_contract_def Let_def invalidate_plan_for_contract_revision_def approval_inv_def)
  have "approval_inv r'"
    using task_log.reachable_inv [OF reachable.step [OF assms(1), of "Op_revise_contract changes"]]
    by (simp add: r' task_inv_def)
  then have "tps_approval (ts_plan (tr_state r')) \<noteq> TaskPlanApprovalKind_Approved"
    by (simp add: approval_inv_def none)
  moreover have rev: "tc_revision c = tc_revision (tr_contract r) + 1"
    using TaskContract_revise_Ok [OF c] by simp
  moreover have "snd (verify_criterion now i (Some (er_id e)) nt r') \<noteq> CriterionResult_Verified"
    if e: "e \<in> set (ts_evidence (tr_state r))" for e now i nt
  proof (cases rule: verify_criterion_cases [where now = now and i = i and vb = "Some (er_id e)" and nt = nt and r = r'])
    case (verified ci b e')
    then have "er_contract_revision e' = tc_revision c" "e' \<in> set (ts_evidence (tr_state r))"
      using find_Some_set [OF verified(3)] sel by (auto simp: proves_def)
    with inv(2) rev show ?thesis
      by (auto simp: evidence_age_inv_def)
  qed simp
  moreover have "\<forall>a \<in> set (ts_acceptance (tr_state r')). ac_status a = AcceptanceStatus_Pending"
    by (auto simp: sel initial_acceptance_def)
  ultimately show ?thesis
    using sel none by blast
qed

theorem contract_revision_withdraws_trust_witness:
  "\<exists>r'. revise_contract sample_changes sample_attached = (r', Ok (sample_contract\<lparr>tc_revision := 2\<rparr>))
     \<and> snd (verify_criterion 5 ''host-verified'' (Some ''ev-1'') None r') \<noteq> CriterionResult_Verified"
proof -
  obtain r' where r': "revise_contract sample_changes sample_attached = (r', Ok (sample_contract\<lparr>tc_revision := 2\<rparr>))"
    using sample_revised by blast
  show ?thesis
    using contract_revision_withdraws_trust [OF sample_attached_reachable r'] r' by (auto simp: sample_attached_sel)
qed

text \<open>
  C10.  An approval always binds exactly the current plan: while a task holds one, the latest plan
  is current, its id, revision and digest are the approved ones, the digest is that of the
  stored content, and plan and approval are bound to the current contract revision and
  digest.  A task stores at most sixteen plans, no two with the same id and revision.
\<close>

theorem approval_binds_current_plan:
  assumes "task_reachable validate r"
  shows "(tr_plan_approval r = None \<or>
      (\<exists>a p. tr_plan_approval r = Some a \<and> last_opt (tr_plans r) = Some p
        \<and> tps_state (ts_plan (tr_state r)) = TaskPlanStateKind_Current
        \<and> pa_plan_id a = plan_id p \<and> pa_plan_revision a = plan_revision p
        \<and> pa_plan_digest a = digest_value (plan_digest p)
        \<and> stored_plan_digest p = Ok (digest_value (plan_digest p))
        \<and> pa_contract_revision a = tc_revision (tr_contract r) \<and> pa_contract_digest a = tc_digest (tr_contract r)
        \<and> plan_contract_revision p = tc_revision (tr_contract r)
        \<and> plan_contract_digest_bound p = tc_digest (tr_contract r)))
    \<and> length (tr_plans r) \<le> 16 \<and> distinct (map (\<lambda>p. (plan_id p, plan_revision p)) (tr_plans r))"
proof -
  have "approval_inv r" "plans_inv (tr_plans r)"
    using task_log.reachable_inv [OF assms] by (simp_all add: task_inv_def)
  then show ?thesis
    by (cases "tr_plan_approval r")
      (auto simp: approval_inv_def approval_ok_def approval_binds_def plan_digest_ok_def plans_inv_def MAX_PLAN_REVISIONS_def)
qed

theorem approval_binds_current_plan_witness:
  "\<exists>r a. task_reachable any_plan r \<and> tr_plan_approval r = Some a
     \<and> pa_contract_digest a = tc_digest (tr_contract r)"
  using approval_binds_current_plan [OF sample_approved_reachable] sample_approved_reachable sample_approved_sel
  by auto

text \<open>
  Evidence is bounded and uniquely named: a task holds at most 256 records with distinct
  ids, all its own and all accepted by the validator of evidence payloads.
\<close>

theorem evidence_bounded_and_valid:
  assumes "task_reachable validate r"
  shows "length (ts_evidence (tr_state r)) \<le> 256 \<and> distinct (map er_id (ts_evidence (tr_state r)))
    \<and> (\<forall>e \<in> set (ts_evidence (tr_state r)). er_task_id e = tr_id r
        \<and> (\<exists>v. validate_evidence_payload (er_id e) (er_kind e) (er_source e) (er_verification e) = Ok v))"
proof -
  have "evidence_inv r"
    using task_log.reachable_inv [OF assms] by (simp add: task_inv_def)
  then show ?thesis
    by (auto simp: evidence_inv_def MAX_TASK_EVIDENCE_RECORDS_def list_all_iff validator)
qed

theorem evidence_bounded_and_valid_witness:
  "length (ts_evidence (tr_state sample_attached)) \<le> 256"
  using evidence_bounded_and_valid [OF sample_attached_reachable] by blast

end
