(* ===== verification/Task_Registry.thy ===== *)
theory Task_Registry
  imports Task_Properties
begin

text \<open>
  The registry of tasks: a runtime is reached from the empty one by creating tasks and by
  operations through handles.  Every record it holds is then a reachable task, ids are
  unique, and an operation on one task leaves the others alone.  Last, what the runtime keeps
  of progress observations.
\<close>

inductive rt_reachable :: "plan_validator \<Rightarrow> TaskRuntime \<Rightarrow> bool" for validate :: plan_validator where
  empty: "rt_reachable validate \<lparr> rt_records = [] \<rparr>"
| create: "rt_reachable validate rt \<Longrightarrow> contract_wf (ct_contract input) \<Longrightarrow>
    rt_reachable validate (fst (create_task input now rt))"
| handle: "rt_reachable validate rt \<Longrightarrow> rt_reachable validate (with_task i (apply_op validate op) rt)"

inductive_cases rt_reachableE: "rt_reachable validate rt"

lemma tr_id_apply_op [simp]: "tr_id (apply_op v op r) = tr_id r"
  by (cases op) (simp_all add: op_defs Let_def split: op_splits)

lemma map_update_first_id: "(\<And>x. f (g x) = f x) \<Longrightarrow> map f (update_first P g xs) = map f xs"
  by (induction xs) auto

lemma list_task_ids_with_task [simp]: "list_task_ids (with_task i (apply_op v op) rt) = list_task_ids rt"
  by (simp add: list_task_ids_def with_task_def map_update_first_id)

lemma create_task_cases:
  obtains (rejected) e where "create_task input now rt = (rt, Err e)"
  | (created) specs where "prepare_step_specs (ct_steps input) = Ok specs"
      "tc_id (ct_contract input) \<notin> set (list_task_ids rt)"
      "create_task input now rt = (rt\<lparr>rt_records := rt_records rt
         @ [build_record (ct_contract input) specs (ct_iteration input) now]\<rparr>, Ok (tc_id (ct_contract input)))"
proof (cases "tc_id (ct_contract input) \<in> set (list_task_ids rt)")
  case True
  then show thesis
    by (intro rejected) (auto simp: create_task_def list_ex_iff list_task_ids_def)
next
  case False
  then have new: "\<not> list_ex (\<lambda>r. tr_id r = tc_id (ct_contract input)) (rt_records rt)"
    by (force simp: list_ex_iff list_task_ids_def)
  show thesis
  proof (cases "prepare_step_specs (ct_steps input)")
    case (Inl e)
    with new show thesis
      by (intro rejected [of "TaskCreateError_Steps e"]) (simp add: create_task_def)
  next
    case (Inr specs)
    show thesis
      by (rule created [OF Inr False]) (use Inr new in \<open>simp add: create_task_def Let_def\<close>)
  qed
qed

lemma rt_reachable_sound:
  assumes "rt_reachable validate rt"
  shows "distinct (list_task_ids rt) \<and> (\<forall>r \<in> set (rt_records rt). task_reachable validate r)"
  using assms
proof (induction rule: rt_reachable.induct)
  case (create rt input now)
  then show ?case
  proof (cases rule: create_task_cases [where input = input and now = now and rt = rt])
    case (created specs)
    then have "task_reachable validate (build_record (ct_contract input) specs (ct_iteration input) now)"
      using create.hyps(2) by (blast intro: reachable.start fresh_task_def [THEN iffD2])
    with created create.IH show ?thesis
      by (auto simp: list_task_ids_def)
  qed simp
next
  case (handle rt i op)
  then show ?case
    using set_update_first [of "\<lambda>r. tr_id r = i" "apply_op validate op" "rt_records rt"]
    by (auto simp: with_task_def intro: reachable.step simp del: list_task_ids_with_task)
      (metis list_task_ids_with_task with_task_def)
qed (simp add: list_task_ids_def)

lemma find_distinct: "distinct (map f xs) \<Longrightarrow> x \<in> set xs \<Longrightarrow> find (\<lambda>y. f y = f x) xs = Some x"
  by (induction xs) force+

lemma find_update_first_other:
  "(\<And>x. f (g x) = f x) \<Longrightarrow> i \<noteq> j \<Longrightarrow>
     find (\<lambda>y. f y = j) (update_first (\<lambda>y. f y = i) g xs) = find (\<lambda>y. f y = j) xs"
  by (induction xs) auto

lemma find_update_first_same:
  "(\<And>x. f (g x) = f x) \<Longrightarrow>
     find (\<lambda>y. f y = i) (update_first (\<lambda>y. f y = i) g xs) = map_option g (find (\<lambda>y. f y = i) xs)"
  by (induction xs) auto

subsection \<open>Properties\<close>

text \<open>
  The registry holds every task once: ids are unique, looking up the id of a record finds
  that record, every record is a reachable task, and creating a task whose id is taken is
  refused without a change.
\<close>

theorem registry_holds_each_task_once:
  assumes "rt_reachable validate rt"
  shows "distinct (list_task_ids rt)
    \<and> (\<forall>r \<in> set (rt_records rt). task (tr_id r) rt = Some r \<and> task_reachable validate r)
    \<and> (\<forall>input now. tc_id (ct_contract input) \<in> set (list_task_ids rt) \<longrightarrow>
         create_task input now rt = (rt, Err TaskCreateError_DuplicateTask))"
  using rt_reachable_sound [OF assms]
  by (auto simp: task_def list_task_ids_def find_distinct create_task_def list_ex_iff)

theorem registry_holds_each_task_once_witness:
  "\<exists>rt. rt_reachable no_plans rt \<and> list_task_ids rt = [''task-1''] \<and> task ''task-1'' rt = Some sample_task"
proof -
  let ?input = "\<lparr> ct_contract = sample_contract, ct_steps = [], ct_iteration = None \<rparr>"
  let ?rt = "fst (create_task ?input 0 \<lparr> rt_records = [] \<rparr>)"
  have reach: "rt_reachable no_plans ?rt"
    by (intro rt_reachable.intros) (simp add: sample_contract_wf)
  have records: "rt_records ?rt = [sample_task]"
    by (simp add: create_task_def prepare_step_specs_def sample_task_def)
  moreover have "tr_id sample_task = ''task-1''"
    by (simp add: sample_task_def)
  ultimately show ?thesis
    using registry_holds_each_task_once [OF reach] reach
    by (intro exI [of _ ?rt]) (auto simp: list_task_ids_def)
qed

text \<open>
  An operation through the handle of one task changes exactly that task's record.
\<close>

theorem handle_touches_one_task:
  assumes "i \<noteq> j"
  shows "task j (with_task i (apply_op validate op) rt) = task j rt
    \<and> task i (with_task i (apply_op validate op) rt) = map_option (apply_op validate op) (task i rt)"
  using assms by (simp add: task_def with_task_def find_update_first_other find_update_first_same)

theorem handle_touches_one_task_witness:
  "task ''b'' (with_task ''a'' (apply_op no_plans (Op_cancel 1 ''x'')) \<lparr> rt_records = [sample_task] \<rparr>)
     = task ''b'' \<lparr> rt_records = [sample_task] \<rparr>"
  using handle_touches_one_task [of "''a''" "''b''"] by simp

lemma useful_observed: "ip_useful_observations p \<le> ip_useful_observations (observed p ob now)"
  by (simp add: observed_def Let_def)

lemma useful_apply_op:
  "ip_useful_observations (tr_progress r) \<le> ip_useful_observations (tr_progress (apply_op v op r))"
  by (cases op) (simp_all add: op_defs Let_def useful_observed split: op_splits)

lemma useful_reachable: "task_reachable validate r \<Longrightarrow> 1 \<le> ip_useful_observations (tr_progress r)"
proof (induction rule: reachable.induct)
  case (start r)
  then show ?case
    by (auto simp: fresh_task_def build_record_def Let_def observed_def fresh_observation_def
        create_internal_progress_def)
next
  case (step r op)
  then show ?case
    using useful_apply_op le_trans by blast
qed

text \<open>
  The progress field of the materialised state is never refreshed: in every reachable record
  it still is the snapshot taken at creation, and it differs from the snapshot of the
  tracker, which has counted at least the start of the task.
\<close>

theorem state_progress_is_stale:
  assumes "task_reachable validate r"
  shows "ts_progress (tr_state r) = progress_snapshot create_internal_progress
    \<and> ts_progress (tr_state r) \<noteq> progress_snapshot (tr_progress r)"
proof -
  have "progress_inv r"
    using task_log.reachable_inv [OF assms] by (simp add: task_inv_def)
  moreover have "progress_snapshot create_internal_progress \<noteq> progress_snapshot (tr_progress r)"
    using useful_reachable [OF assms] by (auto simp: progress_snapshot_def create_internal_progress_def)
  ultimately show ?thesis
    by (simp add: progress_inv_def)
qed

theorem state_progress_is_stale_witness:
  "ts_progress (tr_state sample_done) \<noteq> progress_snapshot (tr_progress sample_done)"
  using state_progress_is_stale [OF sample_done_reachable] by blast

end
