(* ===== verification/Module_Package.thy ===== *)
theory Module_Package
  imports Artifact
begin

text \<open>
  Module capabilities, failures and packages (\<open>module/capability.rs\<close>, \<open>module/failure.rs\<close>,
  \<open>module/package.rs\<close>).  The string newtypes (\<open>CapabilityId\<close>, \<open>ModulePackageId\<close>,
  \<open>PackageDigest\<close>, \<open>ModuleAbi\<close>) are their strings; the \<open>parse\<close> functions are the only way to
  make one.
\<close>

type_synonym CapabilityId = string
type_synonym ModulePackageId = string
type_synonym PackageDigest = string
type_synonym ModuleAbi = string

subsection \<open>Separated identifiers\<close>

text \<open>
  The byte loop the identifier checks share: lowercase letters, digits and separators, no
  leading, trailing or doubled separator.  \<open>first\<close> is \<open>index == 0\<close>.
\<close>

fun separated_loop :: "(char \<Rightarrow> bool) \<Rightarrow> bool \<Rightarrow> bool \<Rightarrow> string \<Rightarrow> bool" where
  "separated_loop sep first previous_separator [] = (\<not> previous_separator)"
| "separated_loop sep first previous_separator (b # bs) =
     (if \<not> (is_ascii_lowercase b \<or> is_ascii_digit b \<or> sep b) \<or> (sep b \<and> (first \<or> previous_separator)) then False
      else separated_loop sep False (sep b) bs)"

definition MAX_CAPABILITIES :: nat where
  "MAX_CAPABILITIES = 32"

definition MAX_CAPABILITY_ID_BYTES :: nat where
  "MAX_CAPABILITY_ID_BYTES = 64"

definition valid_capability_id :: "string \<Rightarrow> bool" where
  "valid_capability_id s =
     (if s = [] \<or> MAX_CAPABILITY_ID_BYTES < length s then False
      else separated_loop (\<lambda>b. b = CHR ''-'') True False s)"

subsection \<open>Failures\<close>

datatype ResourceExceededKind =
    ResourceExceededKind_Fuel
  | ResourceExceededKind_Memory
  | ResourceExceededKind_InputBytes
  | ResourceExceededKind_OutputBytes
  | ResourceExceededKind_HostCalls

fun ResourceExceededKind_code :: "ResourceExceededKind \<Rightarrow> string" where
  "ResourceExceededKind_code ResourceExceededKind_Fuel = ''FUEL''"
| "ResourceExceededKind_code ResourceExceededKind_Memory = ''MEMORY''"
| "ResourceExceededKind_code ResourceExceededKind_InputBytes = ''INPUT_BYTES''"
| "ResourceExceededKind_code ResourceExceededKind_OutputBytes = ''OUTPUT_BYTES''"
| "ResourceExceededKind_code ResourceExceededKind_HostCalls = ''HOST_CALLS''"

datatype ModuleFailure =
    ModuleFailure_NotInstalled
  | ModuleFailure_Disabled
  | ModuleFailure_AlreadyInstalled
  | ModuleFailure_AlreadyEnabled
  | ModuleFailure_AlreadyDisabled
  | ModuleFailure_Active
  | ModuleFailure_NotActive
  | ModuleFailure_UnsupportedAbi string string
  | ModuleFailure_IdentityMismatch string
  | ModuleFailure_CapabilityDenied "CapabilityId list"
  | ModuleFailure_UndeclaredCapability "CapabilityId list"
  | ModuleFailure_ResourceExceeded ResourceExceededKind
  | ModuleFailure_InvalidInput string
  | ModuleFailure_InvalidOutput string
  | ModuleFailure_GuestFault string
  | ModuleFailure_Cancelled
  | ModuleFailure_StaleActivation
  | ModuleFailure_Unavailable string

fun ModuleFailure_code :: "ModuleFailure \<Rightarrow> string" where
  "ModuleFailure_code ModuleFailure_NotInstalled = ''NOT_INSTALLED''"
| "ModuleFailure_code ModuleFailure_Disabled = ''DISABLED''"
| "ModuleFailure_code ModuleFailure_AlreadyInstalled = ''ALREADY_INSTALLED''"
| "ModuleFailure_code ModuleFailure_AlreadyEnabled = ''ALREADY_ENABLED''"
| "ModuleFailure_code ModuleFailure_AlreadyDisabled = ''ALREADY_DISABLED''"
| "ModuleFailure_code ModuleFailure_Active = ''ACTIVE''"
| "ModuleFailure_code ModuleFailure_NotActive = ''NOT_ACTIVE''"
| "ModuleFailure_code (ModuleFailure_UnsupportedAbi _ _) = ''UNSUPPORTED_ABI''"
| "ModuleFailure_code (ModuleFailure_IdentityMismatch _) = ''IDENTITY_MISMATCH''"
| "ModuleFailure_code (ModuleFailure_CapabilityDenied _) = ''CAPABILITY_DENIED''"
| "ModuleFailure_code (ModuleFailure_UndeclaredCapability _) = ''UNDECLARED_CAPABILITY''"
| "ModuleFailure_code (ModuleFailure_ResourceExceeded _) = ''RESOURCE_EXCEEDED''"
| "ModuleFailure_code (ModuleFailure_InvalidInput _) = ''INVALID_INPUT''"
| "ModuleFailure_code (ModuleFailure_InvalidOutput _) = ''INVALID_OUTPUT''"
| "ModuleFailure_code (ModuleFailure_GuestFault _) = ''GUEST_FAULT''"
| "ModuleFailure_code ModuleFailure_Cancelled = ''CANCELLED''"
| "ModuleFailure_code ModuleFailure_StaleActivation = ''STALE_ACTIVATION''"
| "ModuleFailure_code (ModuleFailure_Unavailable _) = ''UNAVAILABLE''"

subsection \<open>Capability requests and grants\<close>

definition CapabilityId_parse :: "string \<Rightarrow> ModuleFailure + CapabilityId" where
  "CapabilityId_parse s =
     (if \<not> valid_capability_id s then Err (ModuleFailure_InvalidInput ''invalid capability id'') else Ok s)"

text \<open>\<open>CapabilityRequest\<close>, \<open>CapabilityGrant\<close> and \<open>HostAuthority\<close> each hold one ordered set of ids.\<close>

type_synonym CapabilityRequest = "CapabilityId btree_set"
type_synonym CapabilityGrant = "CapabilityId btree_set"
type_synonym HostAuthority = "CapabilityId btree_set"

fun capability_ids_loop :: "CapabilityId btree_set \<Rightarrow> string list \<Rightarrow> ModuleFailure + CapabilityId btree_set" where
  "capability_ids_loop ids [] = Ok ids"
| "capability_ids_loop ids (v # vs) =
     result_bind (CapabilityId_parse v) (\<lambda>i. capability_ids_loop (bs_insert i ids) vs)"

definition CapabilityRequest_parse :: "string list \<Rightarrow> ModuleFailure + CapabilityRequest" where
  "CapabilityRequest_parse values =
     (if MAX_CAPABILITIES < length values then Err (ModuleFailure_InvalidInput ''too many requested capabilities'')
      else capability_ids_loop [] values)"

definition HostAuthority_parse :: "string list \<Rightarrow> ModuleFailure + HostAuthority" where
  "HostAuthority_parse values =
     (if MAX_CAPABILITIES < length values then Err (ModuleFailure_InvalidInput ''too many authority capabilities'')
      else capability_ids_loop [] values)"

datatype GrantDecision = GrantDecision_Granted CapabilityGrant | GrantDecision_Denied "CapabilityId list"

definition decide_grant :: "CapabilityRequest \<Rightarrow> HostAuthority \<Rightarrow> GrantDecision" where
  "decide_grant request authority =
     (let missing = filter (\<lambda>i. i \<notin> set authority) request
      in if missing = [] then GrantDecision_Granted request else GrantDecision_Denied missing)"

subsection \<open>Packages\<close>

definition MAX_PACKAGE_ID_BYTES :: nat where
  "MAX_PACKAGE_ID_BYTES = 128"

definition MAX_ABI_BYTES :: nat where
  "MAX_ABI_BYTES = 128"

definition valid_separated_identifier :: "string \<Rightarrow> bool" where
  "valid_separated_identifier s =
     (if s = [] \<or> MAX_PACKAGE_ID_BYTES < length s then False
      else separated_loop (\<lambda>b. b = CHR ''.'' \<or> b = CHR ''-'') True False s)"

definition valid_digest :: "string \<Rightarrow> bool" where
  "valid_digest s \<longleftrightarrow> length s = 64 \<and> list_all (\<lambda>b. is_ascii_digit b \<or> (CHR ''a'' \<le> b \<and> b \<le> CHR ''f'')) s"

definition ModulePackageId_parse :: "string \<Rightarrow> ModuleFailure + ModulePackageId" where
  "ModulePackageId_parse s =
     (if \<not> valid_separated_identifier s then Err (ModuleFailure_InvalidInput ''invalid package id'') else Ok s)"

definition PackageDigest_parse :: "string \<Rightarrow> ModuleFailure + PackageDigest" where
  "PackageDigest_parse s =
     (if \<not> valid_digest s then Err (ModuleFailure_InvalidInput ''invalid package digest'') else Ok s)"

text \<open>\<open>str::split_once\<close> at the first occurrence.\<close>

definition split_once :: "char \<Rightarrow> string \<Rightarrow> (string \<times> string) option" where
  "split_once c s =
     (if c \<in> set s then Some (takeWhile (\<lambda>x. x \<noteq> c) s, tl (dropWhile (\<lambda>x. x \<noteq> c) s)) else None)"

definition valid_abi :: "string \<Rightarrow> bool" where
  "valid_abi s =
     (if s = [] \<or> MAX_ABI_BYTES < length s then False
      else case split_once (CHR ''@'') s of
        None \<Rightarrow> False
      | Some (name, version) \<Rightarrow>
          if CHR ''@'' \<in> set version \<or> name = [] \<or> version = [] then False
          else
            let name_ok = list_all (\<lambda>segment. valid_separated_identifier segment
                   \<and> length segment < MAX_PACKAGE_ID_BYTES) (split_on (CHR '':'') name)
                 \<and> CHR '':'' \<in> set name;
                version_ok = list_all (\<lambda>part. part \<noteq> [] \<and> list_all is_ascii_digit part)
                   (split_on (CHR ''.'') version)
                 \<and> 2 \<le> length (split_on (CHR ''.'') version) \<and> length (split_on (CHR ''.'') version) \<le> 3
            in name_ok \<and> version_ok)"

definition ModuleAbi_parse :: "string \<Rightarrow> ModuleFailure + ModuleAbi" where
  "ModuleAbi_parse s =
     (if \<not> valid_abi s then Err (ModuleFailure_InvalidInput ''invalid domain ABI'') else Ok s)"

definition is_compatible_with :: "ModuleAbi \<Rightarrow> ModuleAbi \<Rightarrow> bool" where
  "is_compatible_with a b \<longleftrightarrow> a = b"

record ModulePackage =
  mp_id :: ModulePackageId
  mp_digest :: PackageDigest
  mp_abi :: ModuleAbi
  mp_requested_capabilities :: CapabilityRequest

definition ModulePackage_parse ::
    "string \<Rightarrow> string \<Rightarrow> string \<Rightarrow> string list \<Rightarrow> ModuleFailure + ModulePackage" where
  "ModulePackage_parse i digest abi capabilities =
     result_bind (ModulePackageId_parse i) (\<lambda>i.
     result_bind (PackageDigest_parse digest) (\<lambda>digest.
     result_bind (ModuleAbi_parse abi) (\<lambda>abi.
     result_bind (CapabilityRequest_parse capabilities) (\<lambda>capabilities.
     Ok \<lparr> mp_id = i, mp_digest = digest, mp_abi = abi, mp_requested_capabilities = capabilities \<rparr>))))"

definition verify_package_digest :: "PackageDigest \<Rightarrow> PackageDigest \<Rightarrow> ModuleFailure + unit" where
  "verify_package_digest declared computed =
     (if declared = computed then Ok ()
      else Err (ModuleFailure_IdentityMismatch ''package digest does not match the accepted component bytes''))"

subsection \<open>Lemmas\<close>

text \<open>What the loop accepts, without the loop.\<close>

definition separated :: "(char \<Rightarrow> bool) \<Rightarrow> string \<Rightarrow> bool" where
  "separated sep s \<longleftrightarrow> list_all (\<lambda>b. is_ascii_lowercase b \<or> is_ascii_digit b \<or> sep b) s
     \<and> (s = [] \<or> \<not> sep (hd s) \<and> \<not> sep (last s)) \<and> successively (\<lambda>a b. \<not> (sep a \<and> sep b)) s"

lemma separated_loop_rest:
  "separated_loop sep False p s \<longleftrightarrow> list_all (\<lambda>b. is_ascii_lowercase b \<or> is_ascii_digit b \<or> sep b) s
     \<and> (if s = [] then \<not> p else \<not> (p \<and> sep (hd s)) \<and> \<not> sep (last s))
     \<and> successively (\<lambda>a b. \<not> (sep a \<and> sep b)) s"
proof (induction s arbitrary: p)
  case (Cons b bs)
  then show ?case
    by (cases bs) auto
qed simp

lemma separated_loop_iff: "separated_loop sep True False s \<longleftrightarrow> separated sep s"
proof (cases s)
  case (Cons b bs)
  have "separated_loop sep True False (b # bs) \<longleftrightarrow> \<not> sep b \<and> separated_loop sep False False (b # bs)"
    by auto
  then show ?thesis
    unfolding Cons separated_loop_rest separated_def by auto
qed (simp add: separated_def)

lemma CapabilityId_parse_Ok_iff [validator]: "CapabilityId_parse s = Ok i \<longleftrightarrow> valid_capability_id s \<and> i = s"
  by (auto simp: CapabilityId_parse_def)

lemma capability_ids_loop_Ok:
  "bs_wf ids \<Longrightarrow> capability_ids_loop ids vs = Ok out \<longleftrightarrow>
     list_all valid_capability_id vs \<and> bs_wf out \<and> set out = set ids \<union> set vs"
proof (induction ids vs arbitrary: rule: capability_ids_loop.induct)
  case (1 ids)
  then show ?case
    by (auto intro: bs_wf_eqI)
next
  case (2 ids v vs)
  then show ?case
    by (cases "valid_capability_id v") (auto simp: CapabilityId_parse_def)
qed

lemma decide_grant_eq:
  "decide_grant request authority =
     (if set request \<subseteq> set authority then GrantDecision_Granted request
      else GrantDecision_Denied (filter (\<lambda>i. i \<notin> set authority) request))"
  by (auto simp: decide_grant_def Let_def filter_empty_conv)

end
