(* ===== verification/Module_Lifecycle.thy ===== *)
theory Module_Lifecycle
  imports Module_Package Machine
begin

text \<open>
  The lifecycle of one module (\<open>module/lifecycle.rs\<close>): installation, enablement, the two-step
  activation and deactivation.  Operations take the lifecycle and return it with the result;
  \<open>prepare_activation\<close> and \<open>eligibility\<close> only read it.
\<close>

datatype LifecycleState =
    LifecycleState_Absent | LifecycleState_Installed | LifecycleState_Enabled | LifecycleState_Active

fun LifecycleState_as_str :: "LifecycleState \<Rightarrow> string" where
  "LifecycleState_as_str LifecycleState_Absent = ''absent''"
| "LifecycleState_as_str LifecycleState_Installed = ''installed''"
| "LifecycleState_as_str LifecycleState_Enabled = ''enabled''"
| "LifecycleState_as_str LifecycleState_Active = ''active''"

datatype RuntimeCheckResult =
    RuntimeCheckResult_Ready
  | RuntimeCheckResult_ResourceExceeded ResourceExceededKind
  | RuntimeCheckResult_Unavailable

definition RuntimeCheckResult_parse :: "string \<Rightarrow> ModuleFailure + RuntimeCheckResult" where
  "RuntimeCheckResult_parse s =
     (if s = ''ready'' then Ok RuntimeCheckResult_Ready
      else if s = ''resource-exceeded'' then Ok (RuntimeCheckResult_ResourceExceeded ResourceExceededKind_Fuel)
      else if s = ''unavailable'' then Ok RuntimeCheckResult_Unavailable
      else Err (ModuleFailure_InvalidInput ''invalid runtime check result''))"

record ActivationRequest =
  ar_package_id :: ModulePackageId
  ar_digest :: PackageDigest
  ar_abi :: ModuleAbi
  ar_capabilities :: CapabilityRequest

definition ActivationRequest_parse ::
    "string \<Rightarrow> string \<Rightarrow> string \<Rightarrow> string list \<Rightarrow> ModuleFailure + ActivationRequest" where
  "ActivationRequest_parse i digest abi capabilities =
     result_bind (ModulePackageId_parse i) (\<lambda>i.
     result_bind (PackageDigest_parse digest) (\<lambda>digest.
     result_bind (ModuleAbi_parse abi) (\<lambda>abi.
     result_bind (CapabilityRequest_parse capabilities) (\<lambda>capabilities.
     Ok \<lparr> ar_package_id = i, ar_digest = digest, ar_abi = abi, ar_capabilities = capabilities \<rparr>))))"

record ActivationBinding =
  ab_package_id :: ModulePackageId
  ab_digest :: PackageDigest
  ab_abi :: ModuleAbi

definition from_request :: "ActivationRequest \<Rightarrow> ActivationBinding" where
  "from_request request =
     \<lparr> ab_package_id = ar_package_id request, ab_digest = ar_digest request, ab_abi = ar_abi request \<rparr>"

definition binding_matches :: "ActivationBinding \<Rightarrow> ModulePackage \<Rightarrow> bool" where
  "binding_matches b package \<longleftrightarrow> ab_package_id b = mp_id package \<and> ab_digest b = mp_digest package
     \<and> ab_abi b = mp_abi package"

record ActiveModule =
  am_session_id :: nat
  am_binding :: ActivationBinding
  am_grant :: CapabilityGrant

record PreparedActivation =
  pr_generation :: nat
  pr_binding :: ActivationBinding
  pr_requested :: CapabilityRequest
  pr_provisional_grant :: CapabilityGrant

datatype EligibilityReason =
    EligibilityReason_NotInstalled
  | EligibilityReason_Disabled
  | EligibilityReason_IdentityMismatch
  | EligibilityReason_UnsupportedAbi
  | EligibilityReason_Active
  | EligibilityReason_CapabilityDenied
  | EligibilityReason_UndeclaredCapability
  | EligibilityReason_ResourceExceeded
  | EligibilityReason_Unavailable

fun EligibilityReason_code :: "EligibilityReason \<Rightarrow> string" where
  "EligibilityReason_code EligibilityReason_NotInstalled = ''NOT_INSTALLED''"
| "EligibilityReason_code EligibilityReason_Disabled = ''DISABLED''"
| "EligibilityReason_code EligibilityReason_IdentityMismatch = ''IDENTITY_MISMATCH''"
| "EligibilityReason_code EligibilityReason_UnsupportedAbi = ''UNSUPPORTED_ABI''"
| "EligibilityReason_code EligibilityReason_Active = ''ACTIVE''"
| "EligibilityReason_code EligibilityReason_CapabilityDenied = ''CAPABILITY_DENIED''"
| "EligibilityReason_code EligibilityReason_UndeclaredCapability = ''UNDECLARED_CAPABILITY''"
| "EligibilityReason_code EligibilityReason_ResourceExceeded = ''RESOURCE_EXCEEDED''"
| "EligibilityReason_code EligibilityReason_Unavailable = ''UNAVAILABLE''"

record Eligibility =
  el_ready :: bool
  el_reasons :: "EligibilityReason list"

definition undeclared_capabilities :: "CapabilityRequest \<Rightarrow> ModulePackage \<Rightarrow> CapabilityId list" where
  "undeclared_capabilities request package =
     filter (\<lambda>c. c \<notin> set (mp_requested_capabilities package)) request"

datatype ModuleState =
    ModuleState_Absent
  | ModuleState_Installed ModulePackage
  | ModuleState_Enabled ModulePackage
  | ModuleState_Active ModulePackage ActiveModule

record ModuleLifecycle =
  ml_state :: ModuleState
  ml_next_session :: nat
  ml_generation :: nat

definition ModuleLifecycle_new :: ModuleLifecycle where
  "ModuleLifecycle_new = \<lparr> ml_state = ModuleState_Absent, ml_next_session = 1, ml_generation = 0 \<rparr>"

definition lifecycle_state :: "ModuleLifecycle \<Rightarrow> LifecycleState" where
  "lifecycle_state l = (case ml_state l of
      ModuleState_Absent \<Rightarrow> LifecycleState_Absent
    | ModuleState_Installed _ \<Rightarrow> LifecycleState_Installed
    | ModuleState_Enabled _ \<Rightarrow> LifecycleState_Enabled
    | ModuleState_Active _ _ \<Rightarrow> LifecycleState_Active)"

definition available :: "ModuleLifecycle \<Rightarrow> bool" where
  "available l \<longleftrightarrow> ml_state l \<noteq> ModuleState_Absent"

definition module_enabled :: "ModuleLifecycle \<Rightarrow> bool" where
  "module_enabled l = (case ml_state l of
      ModuleState_Enabled _ \<Rightarrow> True | ModuleState_Active _ _ \<Rightarrow> True | _ \<Rightarrow> False)"

definition module_active :: "ModuleLifecycle \<Rightarrow> ActiveModule option" where
  "module_active l = (case ml_state l of ModuleState_Active _ active \<Rightarrow> Some active | _ \<Rightarrow> None)"

definition installed_package :: "ModuleLifecycle \<Rightarrow> ModulePackage option" where
  "installed_package l = (case ml_state l of
      ModuleState_Absent \<Rightarrow> None
    | ModuleState_Installed package \<Rightarrow> Some package
    | ModuleState_Enabled package \<Rightarrow> Some package
    | ModuleState_Active package _ \<Rightarrow> Some package)"

text \<open>A successful material transition: the new state and the next generation.\<close>

definition enter :: "ModuleState \<Rightarrow> ModuleLifecycle \<Rightarrow> ModuleLifecycle" where
  "enter s l = l\<lparr>ml_state := s, ml_generation := ml_generation l + 1\<rparr>"

definition install :: "ModulePackage \<Rightarrow> ModuleLifecycle \<Rightarrow> ModuleLifecycle \<times> (ModuleFailure + unit)" where
  "install package l =
     (case installed_package l of
        None \<Rightarrow> (enter (ModuleState_Installed package) l, Ok ())
      | Some existing \<Rightarrow>
          if existing = package then (l, Err ModuleFailure_AlreadyInstalled)
          else (l, Err (ModuleFailure_IdentityMismatch ''a different package is installed; uninstall first'')))"

definition uninstall :: "ModuleLifecycle \<Rightarrow> ModuleLifecycle \<times> (ModuleFailure + unit)" where
  "uninstall l = (case ml_state l of
      ModuleState_Absent \<Rightarrow> (l, Err ModuleFailure_NotInstalled)
    | ModuleState_Installed _ \<Rightarrow> (enter ModuleState_Absent l, Ok ())
    | ModuleState_Enabled _ \<Rightarrow> (enter ModuleState_Absent l, Ok ())
    | ModuleState_Active _ _ \<Rightarrow> (l, Err ModuleFailure_Active))"

definition enable :: "ModuleLifecycle \<Rightarrow> ModuleLifecycle \<times> (ModuleFailure + unit)" where
  "enable l = (case ml_state l of
      ModuleState_Absent \<Rightarrow> (l, Err ModuleFailure_NotInstalled)
    | ModuleState_Installed package \<Rightarrow> (enter (ModuleState_Enabled package) l, Ok ())
    | _ \<Rightarrow> (l, Err ModuleFailure_AlreadyEnabled))"

definition disable :: "ModuleLifecycle \<Rightarrow> ModuleLifecycle \<times> (ModuleFailure + unit)" where
  "disable l = (case ml_state l of
      ModuleState_Absent \<Rightarrow> (l, Err ModuleFailure_NotInstalled)
    | ModuleState_Enabled package \<Rightarrow> (enter (ModuleState_Installed package) l, Ok ())
    | ModuleState_Installed _ \<Rightarrow> (l, Err ModuleFailure_AlreadyDisabled)
    | ModuleState_Active _ _ \<Rightarrow> (l, Err ModuleFailure_Active))"

definition deactivate :: "ModuleLifecycle \<Rightarrow> ModuleLifecycle \<times> (ModuleFailure + unit)" where
  "deactivate l = (case ml_state l of
      ModuleState_Active package _ \<Rightarrow> (enter (ModuleState_Enabled package) l, Ok ())
    | _ \<Rightarrow> (l, Err ModuleFailure_NotActive))"

subsection \<open>Eligibility and activation\<close>

definition deep_reasons ::
    "ModulePackage \<Rightarrow> ActivationRequest \<Rightarrow> ModuleAbi \<Rightarrow> HostAuthority \<Rightarrow> RuntimeCheckResult \<Rightarrow> EligibilityReason list" where
  "deep_reasons package request supported_abi authority runtime =
     (if ar_package_id request \<noteq> mp_id package \<or> ar_digest request \<noteq> mp_digest package
      then [EligibilityReason_IdentityMismatch] else [])
     @ (if \<not> is_compatible_with (ar_abi request) (mp_abi package) then [EligibilityReason_IdentityMismatch] else [])
     @ (if \<not> is_compatible_with (ar_abi request) supported_abi then [EligibilityReason_UnsupportedAbi] else [])
     @ (if undeclared_capabilities (ar_capabilities request) package \<noteq> []
        then [EligibilityReason_UndeclaredCapability] else [])
     @ (case decide_grant (ar_capabilities request) authority of
          GrantDecision_Denied _ \<Rightarrow> [EligibilityReason_CapabilityDenied] | GrantDecision_Granted _ \<Rightarrow> [])
     @ (case runtime of
          RuntimeCheckResult_Ready \<Rightarrow> []
        | RuntimeCheckResult_ResourceExceeded _ \<Rightarrow> [EligibilityReason_ResourceExceeded]
        | RuntimeCheckResult_Unavailable \<Rightarrow> [EligibilityReason_Unavailable])"

definition eligibility ::
    "ActivationRequest \<Rightarrow> ModuleAbi \<Rightarrow> HostAuthority \<Rightarrow> RuntimeCheckResult \<Rightarrow> ModuleLifecycle \<Rightarrow> Eligibility" where
  "eligibility request supported_abi authority runtime l =
     (let reasons = (case ml_state l of
            ModuleState_Absent \<Rightarrow> [EligibilityReason_NotInstalled]
          | ModuleState_Installed _ \<Rightarrow> [EligibilityReason_Disabled]
          | ModuleState_Active _ _ \<Rightarrow> [EligibilityReason_Active]
          | ModuleState_Enabled package \<Rightarrow> deep_reasons package request supported_abi authority runtime)
      in \<lparr> el_ready = (reasons = []), el_reasons = reasons \<rparr>)"

text \<open>The \<open>match runtime\<close> that ends both steps of the activation.\<close>

definition runtime_gate :: "RuntimeCheckResult \<Rightarrow> ModuleFailure + unit" where
  "runtime_gate runtime = (case runtime of
      RuntimeCheckResult_Ready \<Rightarrow> Ok ()
    | RuntimeCheckResult_ResourceExceeded kind \<Rightarrow> Err (ModuleFailure_ResourceExceeded kind)
    | RuntimeCheckResult_Unavailable \<Rightarrow> Err (ModuleFailure_Unavailable ''module runtime is unavailable''))"

definition prepare_activation ::
    "ActivationRequest \<Rightarrow> ModuleAbi \<Rightarrow> HostAuthority \<Rightarrow> RuntimeCheckResult \<Rightarrow> ModuleLifecycle
      \<Rightarrow> ModuleFailure + PreparedActivation" where
  "prepare_activation request supported_abi authority runtime l =
     (case ml_state l of
        ModuleState_Absent \<Rightarrow> Err ModuleFailure_NotInstalled
      | ModuleState_Installed _ \<Rightarrow> Err ModuleFailure_Disabled
      | ModuleState_Active _ _ \<Rightarrow> Err ModuleFailure_Active
      | ModuleState_Enabled package \<Rightarrow>
          if ar_package_id request \<noteq> mp_id package then
            Err (ModuleFailure_IdentityMismatch ''requested package id does not match the installed package'')
          else if ar_digest request \<noteq> mp_digest package then
            Err (ModuleFailure_IdentityMismatch ''requested digest does not match the installed package'')
          else if \<not> is_compatible_with (ar_abi request) (mp_abi package) then
            Err (ModuleFailure_IdentityMismatch ''requested ABI does not match the installed package ABI'')
          else if \<not> is_compatible_with (ar_abi request) supported_abi then
            Err (ModuleFailure_UnsupportedAbi supported_abi (ar_abi request))
          else if undeclared_capabilities (ar_capabilities request) package \<noteq> [] then
            Err (ModuleFailure_UndeclaredCapability (undeclared_capabilities (ar_capabilities request) package))
          else (case decide_grant (ar_capabilities request) authority of
            GrantDecision_Denied missing \<Rightarrow> Err (ModuleFailure_CapabilityDenied missing)
          | GrantDecision_Granted grant \<Rightarrow>
              result_bind (runtime_gate runtime) (\<lambda>_.
              Ok \<lparr> pr_generation = ml_generation l, pr_binding = from_request request,
                   pr_requested = ar_capabilities request, pr_provisional_grant = grant \<rparr>)))"

definition commit_activation ::
    "PreparedActivation \<Rightarrow> ModuleAbi \<Rightarrow> HostAuthority \<Rightarrow> RuntimeCheckResult \<Rightarrow> ModuleLifecycle
      \<Rightarrow> ModuleLifecycle \<times> (ModuleFailure + ActiveModule)" where
  "commit_activation prepared supported_abi authority runtime l =
     (if pr_generation prepared \<noteq> ml_generation l then (l, Err ModuleFailure_StaleActivation)
      else case ml_state l of
        ModuleState_Enabled package \<Rightarrow>
          if \<not> binding_matches (pr_binding prepared) package then (l, Err ModuleFailure_StaleActivation)
          else if \<not> is_compatible_with (ab_abi (pr_binding prepared)) supported_abi then
            (l, Err (ModuleFailure_UnsupportedAbi supported_abi (ab_abi (pr_binding prepared))))
          else (case decide_grant (pr_requested prepared) authority of
            GrantDecision_Denied missing \<Rightarrow> (l, Err (ModuleFailure_CapabilityDenied missing))
          | GrantDecision_Granted grant \<Rightarrow>
             (case runtime_gate runtime of
                Err e \<Rightarrow> (l, Err e)
              | Ok _ \<Rightarrow>
                  let active = \<lparr> am_session_id = ml_next_session l, am_binding = pr_binding prepared,
                        am_grant = grant \<rparr>
                  in (enter (ModuleState_Active package active) (l\<lparr>ml_next_session := ml_next_session l + 1\<rparr>),
                      Ok active)))
      | _ \<Rightarrow> (l, Err ModuleFailure_StaleActivation))"

definition activate ::
    "ActivationRequest \<Rightarrow> ModuleAbi \<Rightarrow> HostAuthority \<Rightarrow> RuntimeCheckResult \<Rightarrow> ModuleLifecycle
      \<Rightarrow> ModuleLifecycle \<times> (ModuleFailure + ActiveModule)" where
  "activate request supported_abi authority runtime l =
     (case prepare_activation request supported_abi authority runtime l of
        Err e \<Rightarrow> (l, Err e)
      | Ok prepared \<Rightarrow> commit_activation prepared supported_abi authority runtime l)"

definition WORKSPACE_FILE_OPAQUE :: string where
  "WORKSPACE_FILE_OPAQUE = ''opaque''"

definition classify_workspace_file :: "string \<Rightarrow> string" where
  "classify_workspace_file name = WORKSPACE_FILE_OPAQUE"

record WorkspaceModuleScan =
  wms_classified :: nat
  wms_candidates :: nat
  wms_installs :: nat
  wms_enables :: nat
  wms_activations :: nat
  wms_downloads :: nat
  wms_recommendations :: nat

definition workspace_module_scan :: "string list \<Rightarrow> WorkspaceModuleScan" where
  "workspace_module_scan files =
     \<lparr> wms_classified = length files, wms_candidates = 0, wms_installs = 0, wms_enables = 0,
       wms_activations = 0, wms_downloads = 0, wms_recommendations = 0 \<rparr>"

subsection \<open>A host driving one lifecycle\<close>

text \<open>
  Prepared activations are values that may be kept and committed at any later time, more than
  once (the type is \<open>Clone\<close>).  The host keeps every one it was given and every module it
  activated.
\<close>

record ModuleHost =
  mh_lifecycle :: ModuleLifecycle
  mh_prepared :: "PreparedActivation list"
  mh_activated :: "ActiveModule list"

datatype ModuleOp =
    MOp_install ModulePackage
  | MOp_uninstall
  | MOp_enable
  | MOp_disable
  | MOp_prepare ActivationRequest ModuleAbi HostAuthority RuntimeCheckResult
  | MOp_commit nat ModuleAbi HostAuthority RuntimeCheckResult
  | MOp_activate ActivationRequest ModuleAbi HostAuthority RuntimeCheckResult
  | MOp_deactivate

definition with_activated :: "ModuleLifecycle \<times> (ModuleFailure + ActiveModule) \<Rightarrow> ModuleHost \<Rightarrow> ModuleHost" where
  "with_activated out h = (case out of
      (l, Ok active) \<Rightarrow> h\<lparr>mh_lifecycle := l, mh_activated := mh_activated h @ [active]\<rparr>
    | (l, Err _) \<Rightarrow> h\<lparr>mh_lifecycle := l\<rparr>)"

fun module_step :: "ModuleOp \<Rightarrow> ModuleHost \<Rightarrow> ModuleHost" where
  "module_step (MOp_install package) h = h\<lparr>mh_lifecycle := fst (install package (mh_lifecycle h))\<rparr>"
| "module_step MOp_uninstall h = h\<lparr>mh_lifecycle := fst (uninstall (mh_lifecycle h))\<rparr>"
| "module_step MOp_enable h = h\<lparr>mh_lifecycle := fst (enable (mh_lifecycle h))\<rparr>"
| "module_step MOp_disable h = h\<lparr>mh_lifecycle := fst (disable (mh_lifecycle h))\<rparr>"
| "module_step (MOp_prepare request abi authority runtime) h =
     (case prepare_activation request abi authority runtime (mh_lifecycle h) of
        Err _ \<Rightarrow> h
      | Ok prepared \<Rightarrow> h\<lparr>mh_prepared := mh_prepared h @ [prepared]\<rparr>)"
| "module_step (MOp_commit i abi authority runtime) h =
     (if i < length (mh_prepared h)
      then with_activated (commit_activation (mh_prepared h ! i) abi authority runtime (mh_lifecycle h)) h
      else h)"
| "module_step (MOp_activate request abi authority runtime) h =
     with_activated (activate request abi authority runtime (mh_lifecycle h)) h"
| "module_step MOp_deactivate h = h\<lparr>mh_lifecycle := fst (deactivate (mh_lifecycle h))\<rparr>"

definition fresh_host :: "ModuleHost \<Rightarrow> bool" where
  "fresh_host h \<longleftrightarrow> h = \<lparr> mh_lifecycle = ModuleLifecycle_new, mh_prepared = [], mh_activated = [] \<rparr>"

abbreviation module_reachable :: "ModuleHost \<Rightarrow> bool" where
  "module_reachable \<equiv> reachable fresh_host module_step"

end
