(* ===== verification/Module_Properties.thy ===== *)
theory Module_Properties
  imports Module_Lifecycle
begin

text \<open>
  What the lifecycle promises: an active module runs exactly the installed package with no
  capability outside its declaration, a prepared activation is fenced by the generation, the
  eligibility report agrees with the activation, and the states change along the diagram.
\<close>

subsection \<open>The two steps of an activation\<close>

lemma runtime_gate_Ok_iff [validator]: "runtime_gate rt = Ok u \<longleftrightarrow> rt = RuntimeCheckResult_Ready"
  by (cases rt) (simp_all add: runtime_gate_def)

lemma undeclared_empty_iff:
  "undeclared_capabilities caps p = [] \<longleftrightarrow> set caps \<subseteq> set (mp_requested_capabilities p)"
  by (auto simp: undeclared_capabilities_def filter_empty_conv)

text \<open>\<open>may_activate p q abi authority runtime\<close>: request \<open>q\<close> fits the package, the host and the runtime.\<close>

definition may_activate ::
    "ModulePackage \<Rightarrow> ActivationRequest \<Rightarrow> ModuleAbi \<Rightarrow> HostAuthority \<Rightarrow> RuntimeCheckResult \<Rightarrow> bool" where
  "may_activate p q abi authority runtime \<longleftrightarrow>
     binding_matches (from_request q) p \<and> ar_abi q = abi
     \<and> set (ar_capabilities q) \<subseteq> set (mp_requested_capabilities p) \<inter> set authority
     \<and> runtime = RuntimeCheckResult_Ready"

lemma prepare_activation_Ok_iff:
  "prepare_activation q abi authority runtime l = Ok t \<longleftrightarrow>
     (\<exists>p. ml_state l = ModuleState_Enabled p \<and> may_activate p q abi authority runtime)
     \<and> t = \<lparr> pr_generation = ml_generation l, pr_binding = from_request q,
             pr_requested = ar_capabilities q, pr_provisional_grant = ar_capabilities q \<rparr>"
  by (cases "ml_state l")
    (auto simp: prepare_activation_def may_activate_def binding_matches_def from_request_def is_compatible_with_def
      undeclared_empty_iff decide_grant_eq result_bind_Ok_iff validator)

lemma commit_activation_cases:
  obtains (refused) e where "commit_activation t abi authority runtime l = (l, Err e)"
  | (active) p a where "pr_generation t = ml_generation l" "ml_state l = ModuleState_Enabled p"
      "binding_matches (pr_binding t) p" "ab_abi (pr_binding t) = abi"
      "set (pr_requested t) \<subseteq> set authority" "runtime = RuntimeCheckResult_Ready"
      "a = \<lparr> am_session_id = ml_next_session l, am_binding = pr_binding t, am_grant = pr_requested t \<rparr>"
      "commit_activation t abi authority runtime l =
         (enter (ModuleState_Active p a) (l\<lparr>ml_next_session := ml_next_session l + 1\<rparr>), Ok a)"
proof (cases "\<exists>p. pr_generation t = ml_generation l \<and> ml_state l = ModuleState_Enabled p
    \<and> binding_matches (pr_binding t) p \<and> ab_abi (pr_binding t) = abi
    \<and> set (pr_requested t) \<subseteq> set authority \<and> runtime = RuntimeCheckResult_Ready")
  case True
  then obtain p where p: "pr_generation t = ml_generation l" "ml_state l = ModuleState_Enabled p"
    "binding_matches (pr_binding t) p" "ab_abi (pr_binding t) = abi"
    "set (pr_requested t) \<subseteq> set authority" "runtime = RuntimeCheckResult_Ready"
    by blast
  then show thesis
    by (intro active [OF p refl]) (simp add: commit_activation_def is_compatible_with_def runtime_gate_def
        decide_grant_eq Let_def)
next
  case False
  then have "\<exists>e. commit_activation t abi authority runtime l = (l, Err e)"
    by (cases "ml_state l"; cases runtime)
      (auto simp: commit_activation_def is_compatible_with_def runtime_gate_def decide_grant_eq)
  then show thesis
    using refused by blast
qed

lemma enter_sel [simp]:
  "ml_state (enter s l) = s" "ml_generation (enter s l) = Suc (ml_generation l)"
  "ml_next_session (enter s l) = ml_next_session l"
  by (simp_all add: enter_def)

lemma activate_eq:
  "activate q abi authority runtime l =
     (case prepare_activation q abi authority runtime l of
        Err e \<Rightarrow> (l, Err e)
      | Ok t \<Rightarrow>
          let p = the (installed_package l);
              a = \<lparr> am_session_id = ml_next_session l, am_binding = from_request q, am_grant = ar_capabilities q \<rparr>
          in (enter (ModuleState_Active p a) (l\<lparr>ml_next_session := ml_next_session l + 1\<rparr>), Ok a))"
proof (cases "prepare_activation q abi authority runtime l")
  case (Inr t)
  then obtain p where p: "ml_state l = ModuleState_Enabled p" "may_activate p q abi authority runtime"
    and t: "t = \<lparr> pr_generation = ml_generation l, pr_binding = from_request q,
             pr_requested = ar_capabilities q, pr_provisional_grant = ar_capabilities q \<rparr>"
    using prepare_activation_Ok_iff by blast
  then have "binding_matches (from_request q) p" "ab_abi (from_request q) = abi" "runtime = RuntimeCheckResult_Ready"
    "set (ar_capabilities q) \<subseteq> set authority"
    by (auto simp: may_activate_def from_request_def)
  with Inr p(1) show ?thesis
    by (simp add: activate_def t commit_activation_def is_compatible_with_def decide_grant_eq
        runtime_gate_def installed_package_def Let_def)
qed (simp add: activate_def)

subsection \<open>The invariant\<close>

definition prepared_ok :: "ModuleLifecycle \<Rightarrow> PreparedActivation \<Rightarrow> bool" where
  "prepared_ok l t \<longleftrightarrow> pr_generation t \<le> ml_generation l \<and> (pr_generation t = ml_generation l \<longrightarrow>
     (\<exists>p. ml_state l = ModuleState_Enabled p \<and> set (pr_requested t) \<subseteq> set (mp_requested_capabilities p)))"

definition active_ok :: "ModuleLifecycle \<Rightarrow> bool" where
  "active_ok l \<longleftrightarrow> (\<forall>p a. ml_state l = ModuleState_Active p a \<longrightarrow>
     binding_matches (am_binding a) p \<and> set (am_grant a) \<subseteq> set (mp_requested_capabilities p))"

definition module_inv :: "ModuleHost \<Rightarrow> bool" where
  "module_inv h \<longleftrightarrow> active_ok (mh_lifecycle h) \<and> (\<forall>t \<in> set (mh_prepared h). prepared_ok (mh_lifecycle h) t)
     \<and> map am_session_id (mh_activated h) = [1..<ml_next_session (mh_lifecycle h)]
     \<and> 1 \<le> ml_next_session (mh_lifecycle h)"

text \<open>A transition that enters another state than \<open>Active\<close> outdates every prepared activation.\<close>

lemma prepared_ok_enter: "prepared_ok l t \<Longrightarrow> prepared_ok (enter s l) t"
  by (auto simp: prepared_ok_def)

lemma prepared_ok_session [simp]: "prepared_ok (l\<lparr>ml_next_session := n\<rparr>) t = prepared_ok l t"
  by (simp add: prepared_ok_def)

lemma active_ok_enter:
  "(\<And>p a. s \<noteq> ModuleState_Active p a) \<Longrightarrow> active_ok (enter s l)"
  by (simp add: active_ok_def)

lemma module_inv_enter:
  "module_inv h \<Longrightarrow> (\<And>p a. s \<noteq> ModuleState_Active p a) \<Longrightarrow>
     module_inv (h\<lparr>mh_lifecycle := enter s (mh_lifecycle h)\<rparr>)"
  by (simp add: module_inv_def prepared_ok_enter active_ok_enter)

lemma module_inv_active:
  assumes "module_inv h" and "binding_matches (am_binding a) p"
    and "set (am_grant a) \<subseteq> set (mp_requested_capabilities p)"
    and "am_session_id a = ml_next_session (mh_lifecycle h)"
  shows "module_inv (h\<lparr>mh_lifecycle := enter (ModuleState_Active p a)
      ((mh_lifecycle h)\<lparr>ml_next_session := ml_next_session (mh_lifecycle h) + 1\<rparr>),
    mh_activated := mh_activated h @ [a]\<rparr>)"
  using assms by (simp add: module_inv_def active_ok_def prepared_ok_enter)

lemma module_inv_same: "module_inv h \<Longrightarrow> module_inv (h\<lparr>mh_lifecycle := mh_lifecycle h\<rparr>)"
  by simp

lemma module_inv_step:
  assumes "module_inv h"
  shows "module_inv (module_step x h)"
proof (cases x)
  case (MOp_prepare q abi authority runtime)
  show ?thesis
  proof (cases "prepare_activation q abi authority runtime (mh_lifecycle h)")
    case (Inr t)
    then have "prepared_ok (mh_lifecycle h) t"
      by (auto simp: prepare_activation_Ok_iff prepared_ok_def may_activate_def)
    with assms Inr MOp_prepare show ?thesis
      by (simp add: module_inv_def)
  qed (use assms MOp_prepare in simp)
next
  case (MOp_commit i abi authority runtime)
  show ?thesis
  proof (cases "i < length (mh_prepared h)")
    case True
    then have t: "prepared_ok (mh_lifecycle h) (mh_prepared h ! i)"
      using assms by (simp add: module_inv_def)
    show ?thesis
    proof (cases rule: commit_activation_cases [where t = "mh_prepared h ! i" and abi = abi
          and authority = authority and runtime = runtime and l = "mh_lifecycle h"])
      case (refused e)
      with True MOp_commit assms show ?thesis
        by (simp add: with_activated_def)
    next
      case (active p a)
      then show ?thesis
        using t MOp_commit True module_inv_active [OF assms, of a p]
        by (simp add: with_activated_def prepared_ok_def)
    qed
  qed (use assms MOp_commit in simp)
next
  case (MOp_activate q abi authority runtime)
  show ?thesis
  proof (cases "prepare_activation q abi authority runtime (mh_lifecycle h)")
    case (Inl e)
    with assms MOp_activate show ?thesis
      by (simp add: activate_eq with_activated_def)
  next
    case (Inr t)
    then obtain p where p: "ml_state (mh_lifecycle h) = ModuleState_Enabled p" "may_activate p q abi authority runtime"
      by (auto simp: prepare_activation_Ok_iff)
    then show ?thesis
      using Inr MOp_activate module_inv_active [OF assms, where p = p]
      by (simp add: activate_eq with_activated_def installed_package_def Let_def may_activate_def)
  qed
qed (use assms in \<open>auto simp: install_def uninstall_def enable_def disable_def deactivate_def
    intro!: module_inv_enter split: option.split ModuleState.split\<close>)

lemma generation_mono: "ml_generation (mh_lifecycle h) \<le> ml_generation (mh_lifecycle (module_step x h))"
proof (cases x)
  case (MOp_commit i abi authority runtime)
  then show ?thesis
    by (cases rule: commit_activation_cases [where t = "mh_prepared h ! i" and abi = abi
          and authority = authority and runtime = runtime and l = "mh_lifecycle h"])
      (simp_all add: with_activated_def)
qed (auto simp: install_def uninstall_def enable_def disable_def deactivate_def activate_eq with_activated_def Let_def
    split: option.split ModuleState.split sum.split)

lemma activated_extends: "\<exists>as. mh_activated (module_step x h) = mh_activated h @ as"
  by (cases x) (auto simp: with_activated_def split: sum.split prod.split)

interpretation module_log: logged_machine fresh_host module_step module_inv mh_activated
proof
  show "fresh_host h \<Longrightarrow> module_inv h" for h
    by (simp add: fresh_host_def module_inv_def ModuleLifecycle_new_def active_ok_def)
qed (auto simp: module_inv_step activated_extends)

lemma generation_run: "ml_generation (mh_lifecycle h) \<le> ml_generation (mh_lifecycle (run module_step h xs))"
proof (induction xs arbitrary: h)
  case (Cons x xs)
  then show ?case
    using generation_mono [of h x] le_trans by fastforce
qed simp

subsection \<open>Samples\<close>

definition sample_package :: ModulePackage where
  "sample_package = \<lparr> mp_id = ''demo'', mp_digest = replicate 64 (CHR ''a''), mp_abi = ''siralos:abi@1.0.0'',
     mp_requested_capabilities = [''read'', ''write''] \<rparr>"

definition sample_request :: ActivationRequest where
  "sample_request = \<lparr> ar_package_id = ''demo'', ar_digest = replicate 64 (CHR ''a''), ar_abi = ''siralos:abi@1.0.0'',
     ar_capabilities = [''read''] \<rparr>"

definition sample_host :: ModuleHost where
  "sample_host = run module_step
     \<lparr> mh_lifecycle = ModuleLifecycle_new, mh_prepared = [], mh_activated = [] \<rparr>
     [MOp_install sample_package, MOp_enable,
      MOp_prepare sample_request ''siralos:abi@1.0.0'' [''read''] RuntimeCheckResult_Ready,
      MOp_commit 0 ''siralos:abi@1.0.0'' [''read''] RuntimeCheckResult_Ready]"

lemma sample_host_reachable: "module_reachable sample_host"
  unfolding sample_host_def by (intro reachable_run reachable.start) (simp add: fresh_host_def)

lemma sample_host_active:
  "ml_state (mh_lifecycle sample_host) = ModuleState_Active sample_package
     \<lparr> am_session_id = 1, am_binding = from_request sample_request, am_grant = [''read''] \<rparr>"
  by code_simp

lemma sample_prepared: "length (mh_prepared sample_host) = 1"
  by code_simp

lemma sample_prepared_generation: "pr_generation (mh_prepared sample_host ! 0) < ml_generation (mh_lifecycle sample_host)"
  by code_simp

subsection \<open>Properties\<close>

text \<open>
  C17.  Whatever the host does, and whatever prepared activation it commits and when, an active
  module runs the installed package (id, digest and ABI agree) and holds no capability the
  package did not declare; session ids are handed out once each, as 1, 2, 3, ...
\<close>

theorem active_module_stays_within_declaration:
  assumes "module_reachable h"
  shows "(\<forall>p a. ml_state (mh_lifecycle h) = ModuleState_Active p a \<longrightarrow>
      ab_package_id (am_binding a) = mp_id p \<and> ab_digest (am_binding a) = mp_digest p \<and> ab_abi (am_binding a) = mp_abi p
      \<and> set (am_grant a) \<subseteq> set (mp_requested_capabilities p))
    \<and> map am_session_id (mh_activated h) = [1..<Suc (length (mh_activated h))]"
proof -
  have inv: "module_inv h"
    by (rule module_log.reachable_inv [OF assms])
  then have "map am_session_id (mh_activated h) = [1..<Suc (length (mh_activated h))]"
    unfolding module_inv_def by (metis One_nat_def length_map length_upt Suc_diff_1 less_eq_Suc_le)
  with inv show ?thesis
    by (simp add: module_inv_def active_ok_def binding_matches_def)
qed

theorem active_module_stays_within_declaration_witness:
  "\<exists>p a. ml_state (mh_lifecycle sample_host) = ModuleState_Active p a
     \<and> set (am_grant a) \<subseteq> set (mp_requested_capabilities p)"
  using active_module_stays_within_declaration [OF sample_host_reachable] sample_host_active by blast

text \<open>
  C18.  A commit succeeds exactly when the prepared activation is of the current generation, the
  module is enabled with the package it binds, the ABI is still supported, the requested
  capabilities are within the authority at commit time and the runtime is ready; the grant
  is exactly the request.  Otherwise nothing changes.
\<close>

theorem commit_uses_authority_at_commit:
  "(snd (commit_activation t abi authority runtime l) = Ok a \<longleftrightarrow>
      pr_generation t = ml_generation l
      \<and> (\<exists>p. ml_state l = ModuleState_Enabled p \<and> binding_matches (pr_binding t) p)
      \<and> ab_abi (pr_binding t) = abi \<and> set (pr_requested t) \<subseteq> set authority
      \<and> runtime = RuntimeCheckResult_Ready
      \<and> a = \<lparr> am_session_id = ml_next_session l, am_binding = pr_binding t, am_grant = pr_requested t \<rparr>)
    \<and> (fst (commit_activation t abi authority runtime l) = l
        \<or> (\<exists>p b. snd (commit_activation t abi authority runtime l) = Ok b \<and> ml_state l = ModuleState_Enabled p
            \<and> fst (commit_activation t abi authority runtime l)
              = enter (ModuleState_Active p b) (l\<lparr>ml_next_session := ml_next_session l + 1\<rparr>)))"
proof (cases rule: commit_activation_cases [where t = t and abi = abi and authority = authority
      and runtime = runtime and l = l])
  case (refused e)
  have "snd (commit_activation t abi authority runtime l) = Ok a"
    if "pr_generation t = ml_generation l" "ml_state l = ModuleState_Enabled p" "binding_matches (pr_binding t) p"
      "ab_abi (pr_binding t) = abi" "set (pr_requested t) \<subseteq> set authority" "runtime = RuntimeCheckResult_Ready"
      "a = \<lparr> am_session_id = ml_next_session l, am_binding = pr_binding t, am_grant = pr_requested t \<rparr>" for p
    using that by (simp add: commit_activation_def is_compatible_with_def runtime_gate_def decide_grant_eq Let_def)
  with refused show ?thesis
    by auto
next
  case (active p a)
  then show ?thesis
    by (auto simp: module_active_def)
qed

text \<open>
  A prepared activation is good for one episode: once the generation has advanced (in
  particular once it was committed), no later commit of it succeeds, whatever the host does
  in between.
\<close>

theorem prepared_activation_expires:
  assumes "pr_generation t < ml_generation (mh_lifecycle h)"
  shows "snd (commit_activation t abi authority runtime (mh_lifecycle (run module_step h ops)))
    = Err ModuleFailure_StaleActivation"
proof -
  have "pr_generation t < ml_generation (mh_lifecycle (run module_step h ops))"
    using assms generation_run [of h ops] by simp
  then show ?thesis
    by (simp add: commit_activation_def)
qed

theorem prepared_activation_expires_witness:
  "snd (commit_activation (mh_prepared sample_host ! 0) ''siralos:abi@1.0.0'' [''read''] RuntimeCheckResult_Ready
     (mh_lifecycle (run module_step sample_host [MOp_deactivate]))) = Err ModuleFailure_StaleActivation"
  by (rule prepared_activation_expires [OF sample_prepared_generation])

text \<open>
  The eligibility report is exact: it is ready exactly when activation succeeds, and when it
  is not, its first reason has the code of the failure activation returns.
\<close>

theorem eligibility_predicts_activation:
  "let e = eligibility q abi authority runtime l in
     case snd (activate q abi authority runtime l) of
       Ok a \<Rightarrow> el_ready e \<and> el_reasons e = []
     | Err f \<Rightarrow> \<not> el_ready e \<and> el_reasons e \<noteq> [] \<and> ModuleFailure_code f = EligibilityReason_code (hd (el_reasons e))"
  by (cases "ml_state l"; cases runtime)
    (auto simp: activate_eq prepare_activation_def eligibility_def deep_reasons_def decide_grant_eq
      runtime_gate_def Let_def)

definition lifecycle_edges :: "(LifecycleState \<times> LifecycleState) list" where
  "lifecycle_edges =
     [(LifecycleState_Absent, LifecycleState_Installed), (LifecycleState_Installed, LifecycleState_Enabled),
      (LifecycleState_Installed, LifecycleState_Absent), (LifecycleState_Enabled, LifecycleState_Absent),
      (LifecycleState_Enabled, LifecycleState_Installed), (LifecycleState_Enabled, LifecycleState_Active),
      (LifecycleState_Active, LifecycleState_Enabled)]"

text \<open>
  Every operation moves the lifecycle along the diagram (absent, installed, enabled, active)
  by one edge and counts the step, or leaves it entirely unchanged.
\<close>

theorem lifecycle_follows_diagram:
  "let l = mh_lifecycle h; l' = mh_lifecycle (module_step x h) in
     l' = l \<or> (lifecycle_state l, lifecycle_state l') \<in> set lifecycle_edges \<and> ml_generation l' = ml_generation l + 1"
proof (cases x)
  case (MOp_commit i abi authority runtime)
  then show ?thesis
    by (cases rule: commit_activation_cases [where t = "mh_prepared h ! i" and abi = abi
          and authority = authority and runtime = runtime and l = "mh_lifecycle h"])
      (simp_all add: with_activated_def lifecycle_state_def lifecycle_edges_def)
next
  case (MOp_activate q abi authority runtime)
  show ?thesis
  proof (cases "prepare_activation q abi authority runtime (mh_lifecycle h)")
    case (Inl e)
    with MOp_activate show ?thesis
      by (simp add: activate_eq with_activated_def)
  next
    case (Inr t)
    moreover obtain p where "ml_state (mh_lifecycle h) = ModuleState_Enabled p"
      using Inr by (auto simp: prepare_activation_Ok_iff)
    ultimately show ?thesis
      using MOp_activate by (simp add: activate_eq with_activated_def lifecycle_state_def lifecycle_edges_def Let_def)
  qed
qed (auto simp: install_def installed_package_def uninstall_def enable_def disable_def deactivate_def
    lifecycle_state_def lifecycle_edges_def Let_def split: option.split ModuleState.split sum.split)

end
