(* ===== verification/Conversation.thy ===== *)
theory Conversation
  imports BTree
begin

text \<open>
  JSON values as the sources inspect them, tool results and their boundary
  (\<open>provider/result.rs\<close>), and the conversation with its pairing check
  (\<open>provider/conversation.rs\<close>).  The serialiser \<open>serde_json::to_string\<close> is an argument of the
  functions that call it.
\<close>

subsection \<open>JSON values\<close>

text \<open>\<open>serde_json::Value\<close>; objects are ordered maps, numbers are integers or finite floats.\<close>

datatype json_number = PosInt nat | NegInt int | Float rat

datatype Value =
    Value_Null
  | Value_Bool bool
  | Value_Number json_number
  | Value_String string
  | Value_Array "Value list"
  | Value_Object "(string \<times> Value) list"

fun as_object :: "Value \<Rightarrow> (string, Value) btree_map option" where
  "as_object (Value_Object entries) = Some entries"
| "as_object _ = None"

type_synonym serializer = "Value \<Rightarrow> string"

subsection \<open>Tool results\<close>

datatype ToolExecutionResult =
    ToolExecutionResult_Success Value string
  | ToolExecutionResult_InvalidInput string
  | ToolExecutionResult_Denied string
  | ToolExecutionResult_Conflict string
  | ToolExecutionResult_Failed string
  | ToolExecutionResult_Cancelled string
  | ToolExecutionResult_TimedOut string
  | ToolExecutionResult_OutputLimit string
  | ToolExecutionResult_SandboxDenied string
  | ToolExecutionResult_SandboxUnavailable string
  | ToolExecutionResult_WorkspaceViolation string
  | ToolExecutionResult_Unavailable string

fun status_str :: "ToolExecutionResult \<Rightarrow> string" where
  "status_str (ToolExecutionResult_Success _ _) = ''success''"
| "status_str (ToolExecutionResult_InvalidInput _) = ''invalid_input''"
| "status_str (ToolExecutionResult_Denied _) = ''denied''"
| "status_str (ToolExecutionResult_Conflict _) = ''conflict''"
| "status_str (ToolExecutionResult_Failed _) = ''failed''"
| "status_str (ToolExecutionResult_Cancelled _) = ''cancelled''"
| "status_str (ToolExecutionResult_TimedOut _) = ''timed_out''"
| "status_str (ToolExecutionResult_OutputLimit _) = ''output_limit''"
| "status_str (ToolExecutionResult_SandboxDenied _) = ''sandbox_denied''"
| "status_str (ToolExecutionResult_SandboxUnavailable _) = ''sandbox_unavailable''"
| "status_str (ToolExecutionResult_WorkspaceViolation _) = ''workspace_violation''"
| "status_str (ToolExecutionResult_Unavailable _) = ''unavailable''"

fun result_message :: "ToolExecutionResult \<Rightarrow> string" where
  "result_message (ToolExecutionResult_Success _ _) = ''''"
| "result_message (ToolExecutionResult_InvalidInput message) = message"
| "result_message (ToolExecutionResult_Denied message) = message"
| "result_message (ToolExecutionResult_Conflict message) = message"
| "result_message (ToolExecutionResult_Failed message) = message"
| "result_message (ToolExecutionResult_Cancelled message) = message"
| "result_message (ToolExecutionResult_TimedOut message) = message"
| "result_message (ToolExecutionResult_OutputLimit message) = message"
| "result_message (ToolExecutionResult_SandboxDenied message) = message"
| "result_message (ToolExecutionResult_SandboxUnavailable message) = message"
| "result_message (ToolExecutionResult_WorkspaceViolation message) = message"
| "result_message (ToolExecutionResult_Unavailable message) = message"

definition TOOL_FAILURE_STATUSES :: "string list" where
  "TOOL_FAILURE_STATUSES =
     [''invalid_input'', ''denied'', ''conflict'', ''failed'', ''cancelled'', ''timed_out'', ''output_limit'',
      ''sandbox_denied'', ''sandbox_unavailable'', ''workspace_violation'', ''unavailable'']"

datatype DetachFailure =
    DetachFailure_NonJson
  | DetachFailure_Oversize nat
  | DetachFailure_InvalidShape
  | DetachFailure_UnknownStatus
  | DetachFailure_InvalidSuccess
  | DetachFailure_InvalidFailure

fun DetachFailure_message :: "DetachFailure \<Rightarrow> string \<Rightarrow> string" where
  "DetachFailure_message DetachFailure_NonJson actor = actor @ '' returned a non-JSON tool result.''"
| "DetachFailure_message (DetachFailure_Oversize max_bytes) actor =
     actor @ '' returned a tool result exceeding the '' @ show_nat max_bytes @ ''-byte limit.''"
| "DetachFailure_message DetachFailure_InvalidShape actor = actor @ '' returned an invalid tool-result shape.''"
| "DetachFailure_message DetachFailure_UnknownStatus actor = actor @ '' returned an unknown tool-result status.''"
| "DetachFailure_message DetachFailure_InvalidSuccess actor = actor @ '' returned an invalid success tool result.''"
| "DetachFailure_message DetachFailure_InvalidFailure actor = actor @ '' returned an invalid failure tool result.''"

text \<open>The inner \<open>match\<close> on the status of a failure.\<close>

definition failure_result :: "string \<Rightarrow> string \<Rightarrow> ToolExecutionResult option" where
  "failure_result status message =
     (if status = ''invalid_input'' then Some (ToolExecutionResult_InvalidInput message)
      else if status = ''denied'' then Some (ToolExecutionResult_Denied message)
      else if status = ''conflict'' then Some (ToolExecutionResult_Conflict message)
      else if status = ''failed'' then Some (ToolExecutionResult_Failed message)
      else if status = ''cancelled'' then Some (ToolExecutionResult_Cancelled message)
      else if status = ''timed_out'' then Some (ToolExecutionResult_TimedOut message)
      else if status = ''output_limit'' then Some (ToolExecutionResult_OutputLimit message)
      else if status = ''sandbox_denied'' then Some (ToolExecutionResult_SandboxDenied message)
      else if status = ''sandbox_unavailable'' then Some (ToolExecutionResult_SandboxUnavailable message)
      else if status = ''workspace_violation'' then Some (ToolExecutionResult_WorkspaceViolation message)
      else if status = ''unavailable'' then Some (ToolExecutionResult_Unavailable message)
      else None)"

definition detach_bounded_tool_result ::
    "serializer \<Rightarrow> Value \<Rightarrow> nat \<Rightarrow> DetachFailure + (ToolExecutionResult \<times> nat)" where
  "detach_bounded_tool_result to_json v max_bytes =
     (let byte_length = length (to_json v)
      in if max_bytes < byte_length then Err (DetachFailure_Oversize max_bytes)
         else case as_object v of
           None \<Rightarrow> Err DetachFailure_InvalidShape
         | Some record \<Rightarrow>
            (case bm_get record ''status'' of
              Some (Value_String status) \<Rightarrow>
                if status = ''success'' then
                  (case bm_get record ''output'' of
                    None \<Rightarrow> Err DetachFailure_InvalidSuccess
                  | Some out \<Rightarrow>
                    (case bm_get record ''summary'' of
                      Some (Value_String summary) \<Rightarrow> Ok (ToolExecutionResult_Success out summary, byte_length)
                    | _ \<Rightarrow> Err DetachFailure_InvalidSuccess))
                else
                  (case bm_get record ''message'' of
                    Some (Value_String message) \<Rightarrow>
                      (case failure_result status message of
                        Some result \<Rightarrow> Ok (result, byte_length)
                      | None \<Rightarrow> Err DetachFailure_UnknownStatus)
                  | _ \<Rightarrow> Err DetachFailure_InvalidFailure)
            | _ \<Rightarrow> Err DetachFailure_UnknownStatus))"

subsection \<open>Conversation items\<close>

datatype AssistantToolCallInput =
    AssistantToolCallInput_Present Value
  | AssistantToolCallInput_Omitted

fun AssistantToolCallInput_serialized_json :: "serializer \<Rightarrow> AssistantToolCallInput \<Rightarrow> string" where
  "AssistantToolCallInput_serialized_json to_json (AssistantToolCallInput_Present v) = to_json v"
| "AssistantToolCallInput_serialized_json to_json AssistantToolCallInput_Omitted = []"

datatype ConversationItem =
    UserMessage string
  | AssistantMessage string
  | AssistantToolCall string string AssistantToolCallInput
  | ToolResult string string ToolExecutionResult

datatype TranscriptFailure =
    TranscriptFailure_UnresolvedBeforeUser string string
  | TranscriptFailure_EmptyCallId
  | TranscriptFailure_DuplicateCallId string
  | TranscriptFailure_OrphanResult string
  | TranscriptFailure_UnresolvedAtEnd string string

fun TranscriptFailure_message :: "TranscriptFailure \<Rightarrow> string" where
  "TranscriptFailure_message (TranscriptFailure_UnresolvedBeforeUser call_id tool_name) =
     ''Tool call '' @ call_id @ '' ('' @ tool_name @ '') has no result before the next user message.''"
| "TranscriptFailure_message TranscriptFailure_EmptyCallId = ''A tool call has an empty call id.''"
| "TranscriptFailure_message (TranscriptFailure_DuplicateCallId call_id) =
     ''Tool call id '' @ call_id @ '' appears more than once.''"
| "TranscriptFailure_message (TranscriptFailure_OrphanResult call_id) =
     ''Tool result for '' @ call_id @ '' has no recorded call.''"
| "TranscriptFailure_message (TranscriptFailure_UnresolvedAtEnd call_id tool_name) =
     ''Tool call '' @ call_id @ '' ('' @ tool_name @ '') has no result.''"

text \<open>The loop; \<open>pending\<close> holds call id, tool name and the resolved flag.\<close>

type_synonym pending = "(string \<times> string \<times> bool) list"

definition first_unresolved :: "pending \<Rightarrow> (string \<times> string) option" where
  "first_unresolved p = map_option (\<lambda>(i, n, _). (i, n)) (find (\<lambda>(_, _, resolved). \<not> resolved) p)"

fun resolve :: "string \<Rightarrow> pending \<Rightarrow> pending option" where
  "resolve call_id [] = None"
| "resolve call_id ((i, n, resolved) # p) =
     (if i = call_id \<and> \<not> resolved then Some ((i, n, True) # p)
      else map_option (\<lambda>p. (i, n, resolved) # p) (resolve call_id p))"

fun validate_loop :: "pending \<Rightarrow> ConversationItem list \<Rightarrow> TranscriptFailure + pending" where
  "validate_loop p [] = Ok p"
| "validate_loop p (UserMessage _ # items) =
     (case first_unresolved p of
        Some (i, n) \<Rightarrow> Err (TranscriptFailure_UnresolvedBeforeUser i n)
      | None \<Rightarrow> validate_loop p items)"
| "validate_loop p (AssistantToolCall call_id tool_name _ # items) =
     (if call_id = [] then Err TranscriptFailure_EmptyCallId
      else if list_ex (\<lambda>(i, _, resolved). i = call_id \<and> \<not> resolved) p then
        Err (TranscriptFailure_DuplicateCallId call_id)
      else validate_loop (p @ [(call_id, tool_name, False)]) items)"
| "validate_loop p (ToolResult call_id _ _ # items) =
     (case resolve call_id p of
        None \<Rightarrow> Err (TranscriptFailure_OrphanResult call_id)
      | Some p \<Rightarrow> validate_loop p items)"
| "validate_loop p (AssistantMessage _ # items) = validate_loop p items"

definition validate_conversation_items :: "ConversationItem list \<Rightarrow> TranscriptFailure + unit" where
  "validate_conversation_items items =
     result_bind (validate_loop [] items) (\<lambda>p.
       case first_unresolved p of
         Some (i, n) \<Rightarrow> Err (TranscriptFailure_UnresolvedAtEnd i n)
       | None \<Rightarrow> Ok ())"

subsection \<open>The reference: an insertion-ordered map with deletion\<close>

text \<open>
  The comments of the source describe its reference as a pending map from which a call is
  deleted as soon as it is resolved.
\<close>

fun pairing :: "(string \<times> string) list \<Rightarrow> ConversationItem list \<Rightarrow> TranscriptFailure + (string \<times> string) list" where
  "pairing m [] = Ok m"
| "pairing m (UserMessage _ # items) =
     (case m of (i, n) # _ \<Rightarrow> Err (TranscriptFailure_UnresolvedBeforeUser i n) | [] \<Rightarrow> pairing m items)"
| "pairing m (AssistantToolCall i n _ # items) =
     (if i = [] then Err TranscriptFailure_EmptyCallId
      else if i \<in> fst ` set m then Err (TranscriptFailure_DuplicateCallId i)
      else pairing (m @ [(i, n)]) items)"
| "pairing m (ToolResult i _ _ # items) =
     (if i \<notin> fst ` set m then Err (TranscriptFailure_OrphanResult i)
      else pairing (filter (\<lambda>e. fst e \<noteq> i) m) items)"
| "pairing m (AssistantMessage _ # items) = pairing m items"

definition pairing_ok :: "ConversationItem list \<Rightarrow> TranscriptFailure + unit" where
  "pairing_ok items = result_bind (pairing [] items) (\<lambda>m.
     case m of (i, n) # _ \<Rightarrow> Err (TranscriptFailure_UnresolvedAtEnd i n) | [] \<Rightarrow> Ok ())"

definition unresolved :: "pending \<Rightarrow> (string \<times> string) list" where
  "unresolved p = map (\<lambda>(i, n, _). (i, n)) (filter (\<lambda>(_, _, resolved). \<not> resolved) p)"

lemma unresolved_simps [simp]:
  "unresolved [] = []"
  "unresolved ((i, n, b) # p) = (if b then unresolved p else (i, n) # unresolved p)"
  "unresolved (p @ q) = unresolved p @ unresolved q"
  by (simp_all add: unresolved_def)

lemma first_unresolved_eq: "first_unresolved p = (case unresolved p of e # _ \<Rightarrow> Some e | [] \<Rightarrow> None)"
  by (induction p) (auto simp: first_unresolved_def)

lemma list_ex_unresolved:
  "list_ex (\<lambda>(i, _, resolved). i = c \<and> \<not> resolved) p \<longleftrightarrow> c \<in> fst ` set (unresolved p)"
  by (induction p) (force split: prod.split)+

lemma resolve_None_iff: "resolve c p = None \<longleftrightarrow> c \<notin> fst ` set (unresolved p)"
  by (induction c p rule: resolve.induct) auto

lemma filter_absent: "c \<notin> fst ` set m \<Longrightarrow> filter (\<lambda>e. fst e \<noteq> c) m = m"
  by (induction m) auto

lemma resolve_Some:
  "resolve c p = Some q \<Longrightarrow> distinct (map fst (unresolved p)) \<Longrightarrow>
     unresolved q = filter (\<lambda>e. fst e \<noteq> c) (unresolved p)"
proof (induction c p arbitrary: q rule: resolve.induct)
  case (2 c i n b p)
  then show ?case
    by (auto simp: filter_absent split: if_splits)
qed simp

lemma distinct_filter_fst: "distinct (map fst m) \<Longrightarrow> distinct (map fst (filter P m))"
  by (simp add: distinct_map_filter)

lemma validate_loop_pairing:
  "distinct (map fst (unresolved p)) \<Longrightarrow>
     (case validate_loop p items of Err e \<Rightarrow> pairing (unresolved p) items = Err e
      | Ok q \<Rightarrow> pairing (unresolved p) items = Ok (unresolved q))"
proof (induction p items rule: validate_loop.induct)
  case (2 p t items)
  then show ?case
    by (cases "unresolved p") (auto simp: first_unresolved_eq split: sum.splits)
next
  case (3 p c n v items)
  show ?case
  proof (cases "c = [] \<or> c \<in> fst ` set (unresolved p)")
    case True
    then show ?thesis
      using list_ex_unresolved [of c p] by auto
  next
    case False
    then have "validate_loop p (AssistantToolCall c n v # items) = validate_loop (p @ [(c, n, False)]) items"
      "pairing (unresolved p) (AssistantToolCall c n v # items) = pairing (unresolved p @ [(c, n)]) items"
      using list_ex_unresolved [of c p] by simp_all
    with 3 False list_ex_unresolved [of c p] show ?thesis
      by (simp split: sum.splits)
  qed
next
  case (4 p c n r items)
  show ?case
  proof (cases "resolve c p")
    case None
    then show ?thesis
      using resolve_None_iff [of c p] by simp
  next
    case (Some q)
    then have "c \<in> fst ` set (unresolved p)"
      using resolve_None_iff [of c p] by auto
    with 4 Some resolve_Some [OF Some 4(2)] show ?thesis
      by (simp add: distinct_filter_fst split: sum.splits)
  qed
qed (simp_all split: sum.splits)

lemma validate_conversation_items_pairing: "validate_conversation_items items = pairing_ok items"
  using validate_loop_pairing [of "[]" items]
  by (auto simp: validate_conversation_items_def pairing_ok_def first_unresolved_eq split: sum.splits list.splits)

lemma pairing_append: "pairing m (xs @ ys) = result_bind (pairing m xs) (\<lambda>m. pairing m ys)"
  by (induction m xs rule: pairing.induct) (auto split: list.splits)

lemma pairing_ok_Ok_iff: "pairing_ok items = Ok u \<longleftrightarrow> pairing [] items = Ok []"
  by (cases "pairing [] items") (auto simp: pairing_ok_def split: list.splits)

end
