(* ===== verification/Provider_Turn.thy ===== *)
theory Provider_Turn
  imports Conversation
begin

text \<open>
  Provider events and one bounded provider turn (\<open>provider/event.rs\<close>, \<open>provider/turn.rs\<close>).  A
  provider is the pair of its \<open>open_stream\<close> and of the \<open>next\<close> of the iterator it returns, over
  any type of stream states.  Readings of the cancellation token are numbered: \<open>cancelled k\<close> is
  what the \<open>k\<close>-th reading sees.
\<close>

subsection \<open>Events\<close>

record ToolCallInput =
  tci_value :: Value
  tci_ordered_json :: "string option"

definition ToolCallInput_from_value :: "Value \<Rightarrow> ToolCallInput" where
  "ToolCallInput_from_value v = \<lparr> tci_value = v, tci_ordered_json = None \<rparr>"

text \<open>\<open>parses\<close>: whether \<open>serde_json::from_str\<close> accepts the text.\<close>

definition ToolCallInput_from_ordered_json :: "(string \<Rightarrow> bool) \<Rightarrow> Value \<Rightarrow> string \<Rightarrow> ToolCallInput" where
  "ToolCallInput_from_ordered_json parses v ordered_json =
     \<lparr> tci_value = v,
       tci_ordered_json = (if length ordered_json \<le> 1024 * 1024 \<and> parses ordered_json then Some ordered_json else None) \<rparr>"

definition ToolCallInput_serialized_json :: "serializer \<Rightarrow> ToolCallInput \<Rightarrow> string" where
  "ToolCallInput_serialized_json to_json i =
     (case tci_ordered_json i of Some json \<Rightarrow> json | None \<Rightarrow> to_json (tci_value i))"

datatype ModelEvent =
    ModelEvent_TextDelta string
  | ModelEvent_ReasoningDelta string
  | ModelEvent_ToolCall string string ToolCallInput
  | ModelEvent_Completed

record ProviderTurnLimits =
  max_assistant_text_bytes :: nat
  max_text_events :: nat
  max_tool_calls_per_turn :: nat
  max_call_id_bytes :: nat
  max_tool_name_bytes :: nat
  max_tool_argument_bytes :: nat
  max_turn_bytes :: nat

definition ProviderTurnLimits_default :: ProviderTurnLimits where
  "ProviderTurnLimits_default =
     \<lparr> max_assistant_text_bytes = 64 * 1024, max_text_events = 4096, max_tool_calls_per_turn = 32,
       max_call_id_bytes = 256, max_tool_name_bytes = 256, max_tool_argument_bytes = 128 * 1024,
       max_turn_bytes = 256 * 1024 \<rparr>"

record ToolDefinition =
  td_name :: string
  td_description :: string
  td_input_schema :: Value

record ModelRequest =
  mr_messages :: "ConversationItem list"
  mr_tools :: "ToolDefinition list"
  mr_system :: "string option"

datatype ProtocolFailure =
    ProtocolFailure_UnknownEventType
  | ProtocolFailure_MalformedEvent
  | ProtocolFailure_MalformedTextEvent
  | ProtocolFailure_MalformedToolCall
  | ProtocolFailure_InvalidToolArgumentJson

datatype LimitClass =
    LimitClass_AssistantTextBytes
  | LimitClass_TextEventCount
  | LimitClass_ToolCallCount
  | LimitClass_CallIdBytes
  | LimitClass_ToolNameBytes
  | LimitClass_ToolArgumentBytes
  | LimitClass_AggregateTurnBytes

datatype TurnFailure =
    TurnFailure_LimitExceeded LimitClass
  | TurnFailure_EventAfterCompletion
  | TurnFailure_EofWithoutCompletion
  | TurnFailure_Protocol ProtocolFailure
  | TurnFailure_ProviderFailed string
  | TurnFailure_InvalidTranscript string

fun limit_fragment :: "LimitClass \<Rightarrow> string" where
  "limit_fragment LimitClass_AssistantTextBytes = ''the assistant-text byte limit''"
| "limit_fragment LimitClass_TextEventCount = ''the text-event count''"
| "limit_fragment LimitClass_ToolCallCount = ''the tool-call count''"
| "limit_fragment LimitClass_CallIdBytes = ''the tool-call id byte limit''"
| "limit_fragment LimitClass_ToolNameBytes = ''the tool-name byte limit''"
| "limit_fragment LimitClass_ToolArgumentBytes = ''the tool-argument byte limit''"
| "limit_fragment LimitClass_AggregateTurnBytes = ''the aggregate turn byte limit''"

fun application_message :: "TurnFailure \<Rightarrow> string" where
  "application_message (TurnFailure_LimitExceeded class) =
     ''The provider exceeded '' @ limit_fragment class @ '' limit; the response was rejected.''"
| "application_message TurnFailure_EventAfterCompletion =
     ''The provider exceeded an event after completion limit; the response was rejected.''"
| "application_message TurnFailure_EofWithoutCompletion =
     ''The provider stream ended without a completion event; the response was rejected.''"
| "application_message (TurnFailure_Protocol ProtocolFailure_UnknownEventType) =
     ''The provider emitted an unknown event type; the response was rejected.''"
| "application_message (TurnFailure_Protocol ProtocolFailure_MalformedEvent) =
     ''The provider emitted a malformed event; the response was rejected.''"
| "application_message (TurnFailure_Protocol ProtocolFailure_MalformedTextEvent) =
     ''The provider emitted a text event without a string payload; the response was rejected.''"
| "application_message (TurnFailure_Protocol ProtocolFailure_MalformedToolCall) =
     ''The provider emitted a tool call with a non-string id or name; the response was rejected.''"
| "application_message (TurnFailure_Protocol ProtocolFailure_InvalidToolArgumentJson) =
     ''The provider exceeded the tool-argument JSON validity limit; the response was rejected.''"
| "application_message (TurnFailure_ProviderFailed message) = message"
| "application_message (TurnFailure_InvalidTranscript detail) =
     ''The conversation transcript is structurally invalid; the provider request was blocked: '' @ detail"

fun strict_message :: "TurnFailure \<Rightarrow> string \<Rightarrow> string" where
  "strict_message (TurnFailure_LimitExceeded LimitClass_AssistantTextBytes) actor = actor @ '' output exceeded its byte limit.''"
| "strict_message (TurnFailure_LimitExceeded LimitClass_TextEventCount) actor = actor @ '' exceeded the text-event count limit.''"
| "strict_message (TurnFailure_LimitExceeded LimitClass_ToolCallCount) actor = actor @ '' exceeded the per-turn tool-call limit.''"
| "strict_message (TurnFailure_LimitExceeded LimitClass_CallIdBytes) actor = actor @ '' exceeded the tool-call id byte limit.''"
| "strict_message (TurnFailure_LimitExceeded LimitClass_ToolNameBytes) actor = actor @ '' exceeded the tool-name byte limit.''"
| "strict_message (TurnFailure_LimitExceeded LimitClass_ToolArgumentBytes) actor = actor @ '' exceeded the tool-argument byte limit.''"
| "strict_message (TurnFailure_LimitExceeded LimitClass_AggregateTurnBytes) actor = actor @ '' exceeded the aggregate turn byte limit.''"
| "strict_message TurnFailure_EventAfterCompletion actor = actor @ '' stream emitted an event after completion.''"
| "strict_message TurnFailure_EofWithoutCompletion actor = actor @ '' stream ended without a completion event.''"
| "strict_message (TurnFailure_Protocol ProtocolFailure_UnknownEventType) actor = actor @ '' emitted an unknown event type.''"
| "strict_message (TurnFailure_Protocol ProtocolFailure_MalformedEvent) actor = actor @ '' emitted a malformed event.''"
| "strict_message (TurnFailure_Protocol ProtocolFailure_MalformedTextEvent) actor =
     actor @ '' emitted a text event without a string payload.''"
| "strict_message (TurnFailure_Protocol ProtocolFailure_MalformedToolCall) actor =
     actor @ '' emitted a tool call with a non-string id or name.''"
| "strict_message (TurnFailure_Protocol ProtocolFailure_InvalidToolArgumentJson) actor =
     actor @ '' emitted a tool argument that is not JSON-serializable.''"
| "strict_message (TurnFailure_ProviderFailed message) actor = actor @ '' provider failed: '' @ message"
| "strict_message (TurnFailure_InvalidTranscript detail) actor =
     ''The conversation transcript is structurally invalid; the provider request was blocked: '' @ detail"

datatype ProviderEvent =
    ProviderEvent_Event ModelEvent
  | ProviderEvent_Raw Value
  | ProviderEvent_Cancelled string
  | ProviderEvent_Failed string

definition validate_external_event :: "Value \<Rightarrow> ProtocolFailure + ModelEvent" where
  "validate_external_event raw =
     (case as_object raw of
        None \<Rightarrow> Err ProtocolFailure_MalformedEvent
      | Some obj \<Rightarrow>
         (case bm_get obj ''type'' of
            Some (Value_String kind) \<Rightarrow>
              if kind = ''completed'' then Ok ModelEvent_Completed
              else if kind = ''text_delta'' then
                (case bm_get obj ''text'' of
                   Some (Value_String text) \<Rightarrow> Ok (ModelEvent_TextDelta text)
                 | _ \<Rightarrow> Err ProtocolFailure_MalformedTextEvent)
              else if kind = ''reasoning_delta'' then
                (case bm_get obj ''text'' of
                   Some (Value_String text) \<Rightarrow> Ok (ModelEvent_ReasoningDelta text)
                 | _ \<Rightarrow> Err ProtocolFailure_MalformedTextEvent)
              else if kind = ''tool_call'' then
                (case bm_get obj ''callId'' of
                   Some (Value_String call_id) \<Rightarrow>
                    (case bm_get obj ''toolName'' of
                       Some (Value_String tool_name) \<Rightarrow>
                        (case bm_get obj ''input'' of
                           Some v \<Rightarrow> Ok (ModelEvent_ToolCall call_id tool_name (ToolCallInput_from_value v))
                         | None \<Rightarrow> Err ProtocolFailure_InvalidToolArgumentJson)
                     | _ \<Rightarrow> Err ProtocolFailure_MalformedToolCall)
                 | _ \<Rightarrow> Err ProtocolFailure_MalformedToolCall)
              else Err ProtocolFailure_UnknownEventType
          | _ \<Rightarrow> Err ProtocolFailure_UnknownEventType))"

subsection \<open>Accounting\<close>

datatype TurnToolCall =
    TurnToolCall_Execute string string ToolCallInput
  | TurnToolCall_Invalid string string string

datatype TurnOutcome =
    TurnOutcome_Turn string "string list" "TurnToolCall list"
  | TurnOutcome_Cancelled
  | TurnOutcome_Failed TurnFailure

record BoundedTurnState =
  bt_limits :: ProviderTurnLimits
  bt_assistant_text :: string
  bt_assistant_text_bytes :: nat
  bt_reasoning_bytes :: nat
  bt_text_events :: nat
  bt_turn_bytes :: nat
  bt_completion_seen :: bool

definition BoundedTurnState_new :: "ProviderTurnLimits \<Rightarrow> BoundedTurnState" where
  "BoundedTurnState_new limits =
     \<lparr> bt_limits = limits, bt_assistant_text = [], bt_assistant_text_bytes = 0, bt_reasoning_bytes = 0,
       bt_text_events = 0, bt_turn_bytes = 0, bt_completion_seen = False \<rparr>"

definition complete :: "BoundedTurnState \<Rightarrow> BoundedTurnState" where
  "complete s = s\<lparr>bt_completion_seen := True\<rparr>"

text \<open>The account methods return the state, changed as far as the method went, and the result.\<close>

definition push_text :: "string \<Rightarrow> BoundedTurnState \<Rightarrow> BoundedTurnState \<times> (TurnFailure + unit)" where
  "push_text text s =
     (let s = s\<lparr>bt_text_events := bt_text_events s + 1\<rparr>
      in if max_text_events (bt_limits s) < bt_text_events s then
           (s, Err (TurnFailure_LimitExceeded LimitClass_TextEventCount))
         else
           let s = s\<lparr>bt_assistant_text_bytes := bt_assistant_text_bytes s + length text\<rparr>
           in if max_assistant_text_bytes (bt_limits s) < bt_assistant_text_bytes s then
                (s, Err (TurnFailure_LimitExceeded LimitClass_AssistantTextBytes))
              else
                let s = s\<lparr>bt_turn_bytes := bt_turn_bytes s + length text\<rparr>
                in if max_turn_bytes (bt_limits s) < bt_turn_bytes s then
                     (s, Err (TurnFailure_LimitExceeded LimitClass_AggregateTurnBytes))
                   else (s\<lparr>bt_assistant_text := bt_assistant_text s @ text\<rparr>, Ok ()))"

definition push_reasoning :: "string \<Rightarrow> BoundedTurnState \<Rightarrow> BoundedTurnState \<times> (TurnFailure + unit)" where
  "push_reasoning text s =
     (let s = s\<lparr>bt_text_events := bt_text_events s + 1\<rparr>
      in if max_text_events (bt_limits s) < bt_text_events s then
           (s, Err (TurnFailure_LimitExceeded LimitClass_TextEventCount))
         else
           let s = s\<lparr>bt_reasoning_bytes := bt_reasoning_bytes s + length text\<rparr>
           in if max_assistant_text_bytes (bt_limits s) < bt_reasoning_bytes s then
                (s, Err (TurnFailure_LimitExceeded LimitClass_AssistantTextBytes))
              else
                let s = s\<lparr>bt_turn_bytes := bt_turn_bytes s + length text\<rparr>
                in if max_turn_bytes (bt_limits s) < bt_turn_bytes s then
                     (s, Err (TurnFailure_LimitExceeded LimitClass_AggregateTurnBytes))
                   else (s, Ok ()))"

definition push_tool_call ::
    "nat \<Rightarrow> nat \<Rightarrow> nat \<Rightarrow> BoundedTurnState \<Rightarrow> BoundedTurnState \<times> (TurnFailure + unit)" where
  "push_tool_call call_id_bytes tool_name_bytes argument_bytes s =
     (if max_call_id_bytes (bt_limits s) < call_id_bytes then
        (s, Err (TurnFailure_LimitExceeded LimitClass_CallIdBytes))
      else if max_tool_name_bytes (bt_limits s) < tool_name_bytes then
        (s, Err (TurnFailure_LimitExceeded LimitClass_ToolNameBytes))
      else if max_tool_argument_bytes (bt_limits s) < argument_bytes then
        (s, Err (TurnFailure_LimitExceeded LimitClass_ToolArgumentBytes))
      else
        let s = s\<lparr>bt_turn_bytes := bt_turn_bytes s + (call_id_bytes + tool_name_bytes + argument_bytes)\<rparr>
        in if max_turn_bytes (bt_limits s) < bt_turn_bytes s then
             (s, Err (TurnFailure_LimitExceeded LimitClass_AggregateTurnBytes))
           else (s, Ok ()))"

subsection \<open>The collector\<close>

record ProviderTurnCollector =
  pc_state :: BoundedTurnState
  pc_tool_calls :: "TurnToolCall list"
  pc_seen_call_ids :: "string btree_set"
  pc_invalid_call_index :: nat
  pc_text_deltas :: "string list"
  pc_reasoning_deltas :: "string list"
  pc_failure :: "TurnFailure option"
  pc_terminal :: "TurnOutcome option"

definition ProviderTurnCollector_new :: ProviderTurnCollector where
  "ProviderTurnCollector_new =
     \<lparr> pc_state = BoundedTurnState_new ProviderTurnLimits_default, pc_tool_calls = [], pc_seen_call_ids = [],
       pc_invalid_call_index = 0, pc_text_deltas = [], pc_reasoning_deltas = [], pc_failure = None,
       pc_terminal = None \<rparr>"

text \<open>What a tool call becomes once it is within the limits.\<close>

definition retain_call :: "string \<Rightarrow> string \<Rightarrow> ToolCallInput \<Rightarrow> ProviderTurnCollector \<Rightarrow> ProviderTurnCollector" where
  "retain_call call_id tool_name input c =
     (let index = pc_invalid_call_index c + 1
      in if call_id = [] \<or> tool_name = [] then
           c\<lparr>pc_invalid_call_index := index,
             pc_tool_calls := pc_tool_calls c @ [TurnToolCall_Invalid (''invalid-call-'' @ show_nat index)
               (if tool_name = [] then ''<empty>'' else tool_name)
               ''Provider emitted a tool call with an empty call id or tool name.'']\<rparr>
         else if call_id \<in> set (pc_seen_call_ids c) then
           c\<lparr>pc_invalid_call_index := index,
             pc_tool_calls := pc_tool_calls c @ [TurnToolCall_Invalid (''invalid-call-'' @ show_nat index) tool_name
               (''Duplicate tool call id: '' @ call_id @ ''.'')]\<rparr>
         else
           c\<lparr>pc_seen_call_ids := bs_insert call_id (pc_seen_call_ids c),
             pc_tool_calls := pc_tool_calls c @ [TurnToolCall_Execute call_id tool_name input]\<rparr>)"

definition apply_event ::
    "serializer \<Rightarrow> ModelEvent \<Rightarrow> ProviderTurnCollector \<Rightarrow> ProviderTurnCollector \<times> (TurnFailure + unit)" where
  "apply_event to_json event c =
     (case event of
        ModelEvent_Completed \<Rightarrow> (c\<lparr>pc_state := complete (pc_state c)\<rparr>, Ok ())
      | ModelEvent_TextDelta text \<Rightarrow>
         (case push_text text (pc_state c) of
            (s, Err e) \<Rightarrow> (c\<lparr>pc_state := s\<rparr>, Err e)
          | (s, Ok _) \<Rightarrow> (c\<lparr>pc_state := s, pc_text_deltas := pc_text_deltas c @ [text]\<rparr>, Ok ()))
      | ModelEvent_ReasoningDelta text \<Rightarrow>
         (case push_reasoning text (pc_state c) of
            (s, Err e) \<Rightarrow> (c\<lparr>pc_state := s\<rparr>, Err e)
          | (s, Ok _) \<Rightarrow> (c\<lparr>pc_state := s, pc_reasoning_deltas := pc_reasoning_deltas c @ [text]\<rparr>, Ok ()))
      | ModelEvent_ToolCall call_id tool_name input \<Rightarrow>
         (case push_tool_call (length call_id) (length tool_name)
                 (length (ToolCallInput_serialized_json to_json input)) (pc_state c) of
            (s, Err e) \<Rightarrow> (c\<lparr>pc_state := s\<rparr>, Err e)
          | (s, Ok _) \<Rightarrow>
              if max_tool_calls_per_turn (bt_limits s) \<le> length (pc_tool_calls c) then
                (c\<lparr>pc_state := s\<rparr>, Err (TurnFailure_LimitExceeded LimitClass_ToolCallCount))
              else (retain_call call_id tool_name input (c\<lparr>pc_state := s\<rparr>), Ok ())))"

datatype TurnStep = TurnStep_Continue | TurnStep_Stop | TurnStep_Terminal TurnOutcome

definition collector_apply ::
    "serializer \<Rightarrow> ModelEvent \<Rightarrow> ProviderTurnCollector \<Rightarrow> ProviderTurnCollector \<times> TurnStep" where
  "collector_apply to_json event c =
     (case apply_event to_json event c of
        (c, Err limit) \<Rightarrow> (c\<lparr>pc_failure := Some limit\<rparr>, TurnStep_Stop)
      | (c, Ok _) \<Rightarrow> (c, TurnStep_Continue))"

definition collector_push ::
    "serializer \<Rightarrow> ProviderEvent \<Rightarrow> ProviderTurnCollector \<Rightarrow> ProviderTurnCollector \<times> TurnStep" where
  "collector_push to_json event c =
     (case event of
        ProviderEvent_Cancelled _ \<Rightarrow>
          (c\<lparr>pc_terminal := Some TurnOutcome_Cancelled\<rparr>, TurnStep_Terminal TurnOutcome_Cancelled)
      | ProviderEvent_Failed message \<Rightarrow>
          let outcome = TurnOutcome_Failed (TurnFailure_ProviderFailed message)
          in (c\<lparr>pc_terminal := Some outcome\<rparr>, TurnStep_Terminal outcome)
      | ProviderEvent_Event event \<Rightarrow>
          if bt_completion_seen (pc_state c) then
            (c\<lparr>pc_failure := Some TurnFailure_EventAfterCompletion\<rparr>, TurnStep_Stop)
          else collector_apply to_json event c
      | ProviderEvent_Raw raw \<Rightarrow>
          if bt_completion_seen (pc_state c) then
            (c\<lparr>pc_failure := Some TurnFailure_EventAfterCompletion\<rparr>, TurnStep_Stop)
          else (case validate_external_event raw of
            Ok event \<Rightarrow> collector_apply to_json event c
          | Err protocol \<Rightarrow> (c\<lparr>pc_failure := Some (TurnFailure_Protocol protocol)\<rparr>, TurnStep_Stop)))"

definition collector_finish :: "ProviderTurnCollector \<Rightarrow> TurnOutcome" where
  "collector_finish c =
     (case pc_terminal c of
        Some terminal \<Rightarrow> terminal
      | None \<Rightarrow>
         (case pc_failure c of
            Some failure \<Rightarrow> TurnOutcome_Failed failure
          | None \<Rightarrow>
              if \<not> bt_completion_seen (pc_state c) then TurnOutcome_Failed TurnFailure_EofWithoutCompletion
              else TurnOutcome_Turn (bt_assistant_text (pc_state c)) (pc_text_deltas c) (pc_tool_calls c)))"

subsection \<open>Opening and collecting a turn\<close>

record 's Provider =
  open_stream :: "ModelRequest \<Rightarrow> 's"
  next_event :: "'s \<Rightarrow> (ProviderEvent \<times> 's) option"

definition open_provider_turn ::
    "'s Provider \<Rightarrow> ConversationItem list \<Rightarrow> ToolDefinition list \<Rightarrow> string option \<Rightarrow> bool
      \<Rightarrow> TurnOutcome + ('s \<times> ProviderTurnCollector)" where
  "open_provider_turn provider history tools system is_cancelled =
     (case validate_conversation_items history of
        Err failure \<Rightarrow> Err (TurnOutcome_Failed (TurnFailure_InvalidTranscript (TranscriptFailure_message failure)))
      | Ok _ \<Rightarrow>
          if is_cancelled then Err TurnOutcome_Cancelled
          else Ok (open_stream provider \<lparr> mr_messages = history, mr_tools = tools, mr_system = system \<rparr>,
                   ProviderTurnCollector_new))"

text \<open>
  What is left before the collector must stop: text events, tool calls and the completion.
  Every event that lets the turn continue uses some of it, so that the loop ends on any stream.
\<close>

definition turn_fuel :: "ProviderTurnCollector \<Rightarrow> nat" where
  "turn_fuel c = (max_text_events (bt_limits (pc_state c)) - bt_text_events (pc_state c))
     + (max_tool_calls_per_turn (bt_limits (pc_state c)) - length (pc_tool_calls c))
     + (if bt_completion_seen (pc_state c) then 0 else 1)"

lemma retain_call_sel [simp]:
  "pc_state (retain_call i n inp c) = pc_state c"
  "length (pc_tool_calls (retain_call i n inp c)) = Suc (length (pc_tool_calls c))"
  "pc_text_deltas (retain_call i n inp c) = pc_text_deltas c"
  "pc_failure (retain_call i n inp c) = pc_failure c"
  "pc_terminal (retain_call i n inp c) = pc_terminal c"
  by (simp_all add: retain_call_def Let_def)

lemma collector_apply_fuel:
  assumes "collector_apply to_json e c = (c', TurnStep_Continue)" and "\<not> bt_completion_seen (pc_state c)"
  shows "turn_fuel c' < turn_fuel c"
  using assms
  by (auto simp: collector_apply_def apply_event_def push_text_def push_reasoning_def push_tool_call_def complete_def
      turn_fuel_def Let_def split: ModelEvent.splits if_splits prod.splits sum.splits)

lemma collector_push_fuel:
  "collector_push to_json e c = (c', TurnStep_Continue) \<Longrightarrow> turn_fuel c' < turn_fuel c"
  by (auto simp: collector_push_def Let_def split: ProviderEvent.splits if_splits sum.splits
      intro: collector_apply_fuel)

function collect_loop ::
    "serializer \<Rightarrow> 's Provider \<Rightarrow> (nat \<Rightarrow> bool) \<Rightarrow> nat \<Rightarrow> 's \<Rightarrow> ProviderTurnCollector \<Rightarrow> TurnOutcome" where
  "collect_loop to_json provider cancelled k stream c =
     (if cancelled k then TurnOutcome_Cancelled
      else case next_event provider stream of
        None \<Rightarrow> if cancelled (k + 1) then TurnOutcome_Cancelled else collector_finish c
      | Some (event, stream) \<Rightarrow>
         (case collector_push to_json event c of
            (c, TurnStep_Continue) \<Rightarrow> collect_loop to_json provider cancelled (k + 1) stream c
          | (c, TurnStep_Stop) \<Rightarrow> if cancelled (k + 1) then TurnOutcome_Cancelled else collector_finish c
          | (c, TurnStep_Terminal outcome) \<Rightarrow> outcome))"
  by pat_completeness auto

termination
  by (relation "measure (\<lambda>(_, _, _, _, _, c). turn_fuel c)") (auto simp: collector_push_fuel)

declare collect_loop.simps [simp del]

definition collect_provider_turn ::
    "serializer \<Rightarrow> 's Provider \<Rightarrow> ConversationItem list \<Rightarrow> ToolDefinition list \<Rightarrow> string option
      \<Rightarrow> (nat \<Rightarrow> bool) \<Rightarrow> TurnOutcome" where
  "collect_provider_turn to_json provider history tools system cancelled =
     (case open_provider_turn provider history tools system (cancelled 0) of
        Err outcome \<Rightarrow> outcome
      | Ok (stream, collector) \<Rightarrow> collect_loop to_json provider cancelled 1 stream collector)"

end
