(* ===== verification/Tool_Round.thy ===== *)
theory Tool_Round
  imports Provider_Turn
begin

text \<open>
  One tool round (\<open>tool/round.rs\<close>), the events of the loop (\<open>tool/events.rs\<close>) and the display
  form of a call's input (\<open>tool/display_input.rs\<close>).  The executor behind the trait
  \<open>ToolCallExecutor\<close> is a function over any state; the reading of the cancellation token is an
  argument of each pull.
\<close>

subsection \<open>Display input\<close>

text \<open>\<open>str::encode_utf16\<close> on the UTF-8 bytes of a string.\<close>

fun encode_utf16 :: "nat list \<Rightarrow> nat list" where
  "encode_utf16 [] = []"
| "encode_utf16 (a # rest) =
     (if a < 0x80 then a # encode_utf16 rest
      else if a < 0xE0 then
        (case rest of b # rest \<Rightarrow> ((a - 0xC0) * 64 + (b - 0x80)) # encode_utf16 rest | [] \<Rightarrow> [])
      else if a < 0xF0 then
        (case rest of b # c # rest \<Rightarrow> ((a - 0xE0) * 4096 + (b - 0x80) * 64 + (c - 0x80)) # encode_utf16 rest | _ \<Rightarrow> [])
      else
        (case rest of
           b # c # d # rest \<Rightarrow>
             let n = (a - 0xF0) * 262144 + (b - 0x80) * 4096 + (c - 0x80) * 64 + (d - 0x80) - 0x10000
             in (0xD800 + n div 1024) # (0xDC00 + n mod 1024) # encode_utf16 rest
         | _ \<Rightarrow> []))"

definition MAX_DISPLAY_INPUT_LENGTH :: nat where
  "MAX_DISPLAY_INPUT_LENGTH = 200"

record DisplayInput =
  di_units :: "nat list"

definition DisplayInput_from_rust_str :: "string \<Rightarrow> DisplayInput" where
  "DisplayInput_from_rust_str s = \<lparr> di_units = encode_utf16 (map byte s) \<rparr>"

fun has_lone_surrogate_loop :: "nat list \<Rightarrow> bool" where
  "has_lone_surrogate_loop [] = False"
| "has_lone_surrogate_loop (u # us) =
     (if 0xD800 \<le> u \<and> u \<le> 0xDBFF then
        (case us of [] \<Rightarrow> True | v # us' \<Rightarrow> if \<not> (0xDC00 \<le> v \<and> v \<le> 0xDFFF) then True else has_lone_surrogate_loop us')
      else if 0xDC00 \<le> u \<and> u \<le> 0xDFFF then True
      else has_lone_surrogate_loop us)"

definition has_lone_surrogate :: "DisplayInput \<Rightarrow> bool" where
  "has_lone_surrogate d = has_lone_surrogate_loop (di_units d)"

fun truncate_loop :: "nat list \<Rightarrow> nat list \<Rightarrow> nat list" where
  "truncate_loop units [] = units"
| "truncate_loop units (u # us) =
     (if MAX_DISPLAY_INPUT_LENGTH \<le> length units then units @ [46, 46, 46] else truncate_loop (units @ [u]) us)"

definition truncated_utf16_units :: "string \<Rightarrow> nat list" where
  "truncated_utf16_units s = truncate_loop [] (encode_utf16 (map byte s))"

definition to_display_input :: "string \<Rightarrow> DisplayInput" where
  "to_display_input serialized_json = \<lparr> di_units = truncated_utf16_units serialized_json \<rparr>"

subsection \<open>Events\<close>

datatype ToolLoopEvent =
    ResponseStarted
  | TextDelta string
  | ProviderPending
  | ReasoningDelta string
  | ResponseCompleted
  | ResponseCancelled
  | ResponseFailed string
  | ToolStarted string string DisplayInput
  | ToolCompleted string string string
  | ToolFailed string string string
  | ToolCancelled string string
  | ContextPressure string nat int

fun event_is_terminal :: "ToolLoopEvent \<Rightarrow> bool" where
  "event_is_terminal ResponseCompleted = True"
| "event_is_terminal ResponseCancelled = True"
| "event_is_terminal (ResponseFailed _) = True"
| "event_is_terminal _ = False"

subsection \<open>The round\<close>

definition CANCELLED_BEFORE_EXECUTION_MESSAGE :: string where
  "CANCELLED_BEFORE_EXECUTION_MESSAGE = ''The tool call was cancelled before it executed.''"

record ExecutableToolCall =
  xc_call_id :: string
  xc_tool_name :: string
  xc_input :: Value
  xc_ordered_json :: "string option"

definition display_input :: "serializer \<Rightarrow> ExecutableToolCall \<Rightarrow> DisplayInput" where
  "display_input to_json call =
     to_display_input (case xc_ordered_json call of Some json \<Rightarrow> json | None \<Rightarrow> to_json (xc_input call))"

record ToolCallExecution =
  tx_events :: "ToolLoopEvent list"
  tx_result :: ToolExecutionResult

type_synonym 'e executor = "ExecutableToolCall \<Rightarrow> bool \<Rightarrow> 'e \<Rightarrow> 'e \<times> ToolCallExecution"

datatype ToolRoundKind = ToolRoundKind_Completed | ToolRoundKind_Cancelled

record ToolRoundOutcome =
  ro_kind :: ToolRoundKind
  ro_transcript :: "ConversationItem list"

datatype ToolRoundStep = ToolRoundStep_Event ToolLoopEvent | ToolRoundStep_Finished ToolRoundOutcome

record 'e ToolRoundRunner =
  rr_calls :: "TurnToolCall list"
  rr_transcript :: "ConversationItem list"
  rr_pending_events :: "ToolLoopEvent list"
  rr_finish_cancelled_after_events :: bool
  rr_finished :: bool
  rr_executor :: 'e

fun seed_item :: "TurnToolCall \<Rightarrow> ConversationItem" where
  "seed_item (TurnToolCall_Execute call_id tool_name input) =
     AssistantToolCall call_id tool_name (AssistantToolCallInput_Present (tci_value input))"
| "seed_item (TurnToolCall_Invalid call_id tool_name _) =
     AssistantToolCall call_id tool_name AssistantToolCallInput_Omitted"

definition seed_transcript :: "TurnToolCall list \<Rightarrow> ConversationItem list" where
  "seed_transcript calls = map seed_item calls"

definition runner_new :: "TurnToolCall list \<Rightarrow> 'e \<Rightarrow> 'e ToolRoundRunner" where
  "runner_new calls executor =
     \<lparr> rr_calls = calls, rr_transcript = seed_transcript calls, rr_pending_events = [],
       rr_finish_cancelled_after_events = False, rr_finished = False, rr_executor = executor \<rparr>"

fun skipped_item :: "TurnToolCall \<Rightarrow> ConversationItem" where
  "skipped_item (TurnToolCall_Execute call_id tool_name _) =
     ToolResult call_id tool_name (ToolExecutionResult_Cancelled CANCELLED_BEFORE_EXECUTION_MESSAGE)"
| "skipped_item (TurnToolCall_Invalid call_id tool_name _) =
     ToolResult call_id tool_name (ToolExecutionResult_Cancelled CANCELLED_BEFORE_EXECUTION_MESSAGE)"

definition finish_cancelled :: "'e ToolRoundRunner \<Rightarrow> 'e ToolRoundRunner \<times> ToolRoundOutcome" where
  "finish_cancelled r =
     (r\<lparr>rr_calls := [], rr_transcript := [], rr_finished := True\<rparr>,
      \<lparr> ro_kind = ToolRoundKind_Cancelled, ro_transcript = rr_transcript r @ map skipped_item (rr_calls r) \<rparr>)"

text \<open>The \<open>match call\<close> of \<open>next\<close>: the first call is taken off the queue and handled.\<close>

definition handle_call :: "'e executor \<Rightarrow> bool \<Rightarrow> TurnToolCall \<Rightarrow> 'e ToolRoundRunner \<Rightarrow> 'e ToolRoundRunner" where
  "handle_call execute_call is_cancelled call r =
     (case call of
        TurnToolCall_Invalid call_id tool_name message \<Rightarrow>
          r\<lparr>rr_pending_events := rr_pending_events r @ [ToolFailed call_id tool_name message],
            rr_transcript := rr_transcript r @ [ToolResult call_id tool_name (ToolExecutionResult_Failed message)]\<rparr>
      | TurnToolCall_Execute call_id tool_name input \<Rightarrow>
          let (e, execution) = execute_call \<lparr> xc_call_id = call_id, xc_tool_name = tool_name,
                xc_input = tci_value input, xc_ordered_json = tci_ordered_json input \<rparr> is_cancelled (rr_executor r);
              cancelled = (status_str (tx_result execution) = ''cancelled'')
          in r\<lparr>rr_executor := e, rr_pending_events := rr_pending_events r @ tx_events execution,
               rr_transcript := rr_transcript r @ [ToolResult call_id tool_name (tx_result execution)],
               rr_finish_cancelled_after_events := (if cancelled then True else rr_finish_cancelled_after_events r)\<rparr>)"

lemma handle_call_calls [simp]: "rr_calls (handle_call x b call r) = rr_calls r"
  by (simp add: handle_call_def Let_def split: TurnToolCall.split prod.split)

function runner_next :: "'e executor \<Rightarrow> bool \<Rightarrow> 'e ToolRoundRunner \<Rightarrow> 'e ToolRoundRunner \<times> ToolRoundStep option" where
  "runner_next execute_call is_cancelled r =
     (if rr_finished r then (r, None)
      else case rr_pending_events r of
        event # events \<Rightarrow> (r\<lparr>rr_pending_events := events\<rparr>, Some (ToolRoundStep_Event event))
      | [] \<Rightarrow>
          if rr_finish_cancelled_after_events r then
            (let (r, outcome) = finish_cancelled (r\<lparr>rr_finish_cancelled_after_events := False\<rparr>)
             in (r, Some (ToolRoundStep_Finished outcome)))
          else case rr_calls r of
            [] \<Rightarrow> (r\<lparr>rr_finished := True, rr_transcript := []\<rparr>,
                   Some (ToolRoundStep_Finished \<lparr> ro_kind = ToolRoundKind_Completed, ro_transcript = rr_transcript r \<rparr>))
          | call # calls \<Rightarrow>
              if is_cancelled then
                (let (r, outcome) = finish_cancelled r in (r, Some (ToolRoundStep_Finished outcome)))
              else runner_next execute_call is_cancelled
                     (handle_call execute_call is_cancelled call (r\<lparr>rr_calls := calls\<rparr>)))"
  by pat_completeness auto

termination
  by (relation "measure (\<lambda>(_, _, r). length (rr_calls r))") auto

declare runner_next.simps [simp del]

end
