(* ===== verification/Tool_Policy.thy ===== *)
theory Tool_Policy
  imports Module_Package Sha256 Canonical
begin

text \<open>
  Tool capabilities, permission rules, the round budget and the ledger of one-time approvals
  (\<open>tool/capability.rs\<close>, \<open>tool/permission.rs\<close>, \<open>tool/budget.rs\<close>, \<open>tool/approval.rs\<close>).
\<close>

subsection \<open>Capability identifiers\<close>

definition TOOL_MAX_CAPABILITY_ID_BYTES :: nat where
  "TOOL_MAX_CAPABILITY_ID_BYTES = 64"

datatype CapabilityIdError = CapabilityIdError_Empty | CapabilityIdError_TooLong | CapabilityIdError_InvalidSyntax

fun CapabilityIdError_display :: "CapabilityIdError \<Rightarrow> string" where
  "CapabilityIdError_display CapabilityIdError_Empty = ''capability id is empty''"
| "CapabilityIdError_display CapabilityIdError_TooLong = ''capability id exceeds the 64-byte bound''"
| "CapabilityIdError_display CapabilityIdError_InvalidSyntax =
     ''capability id must be lowercase ASCII letters/digits joined by '' @ [CHR 0x27] @ ''.'' @ [CHR 0x27]
       @ '', '' @ [CHR 0x27] @ ''_'' @ [CHR 0x27] @ '', or '' @ [CHR 0x27] @ ''-'' @ [CHR 0x27] @ '' separators''"

fun valid_identifier_loop :: "bool \<Rightarrow> bool \<Rightarrow> string \<Rightarrow> bool" where
  "valid_identifier_loop first previous_separator [] = (\<not> previous_separator)"
| "valid_identifier_loop first previous_separator (b # bs) =
     (let separator = (b = CHR ''.'' \<or> b = CHR ''_'' \<or> b = CHR ''-'');
          alphanumeric = (is_ascii_lowercase b \<or> is_ascii_digit b)
      in if \<not> alphanumeric \<and> \<not> separator then False
         else if separator \<and> (first \<or> previous_separator) then False
         else valid_identifier_loop False separator bs)"

definition valid_identifier :: "string \<Rightarrow> bool" where
  "valid_identifier s =
     (if s = [] \<or> TOOL_MAX_CAPABILITY_ID_BYTES < length s then False else valid_identifier_loop True False s)"

definition ToolCapabilityId_parse :: "string \<Rightarrow> CapabilityIdError + string" where
  "ToolCapabilityId_parse s =
     (if s = [] then Err CapabilityIdError_Empty
      else if TOOL_MAX_CAPABILITY_ID_BYTES < length s then Err CapabilityIdError_TooLong
      else if \<not> valid_identifier s then Err CapabilityIdError_InvalidSyntax
      else Ok s)"

subsection \<open>Permission policy\<close>

datatype PermissionRule = PermissionRule_Allow | PermissionRule_Ask | PermissionRule_Deny

fun PermissionRule_as_str :: "PermissionRule \<Rightarrow> string" where
  "PermissionRule_as_str PermissionRule_Allow = ''allow''"
| "PermissionRule_as_str PermissionRule_Ask = ''ask''"
| "PermissionRule_as_str PermissionRule_Deny = ''deny''"

definition PermissionRule_parse :: "string \<Rightarrow> PermissionRule option" where
  "PermissionRule_parse s =
     (if s = ''allow'' then Some PermissionRule_Allow
      else if s = ''ask'' then Some PermissionRule_Ask
      else if s = ''deny'' then Some PermissionRule_Deny
      else None)"

record PolicyRule =
  por_capability :: string
  por_rule :: PermissionRule

type_synonym PermissionPolicy = "(string, PermissionRule) btree_map"

fun from_rules_loop :: "PermissionPolicy \<Rightarrow> PolicyRule list \<Rightarrow> PermissionPolicy" where
  "from_rules_loop table [] = table"
| "from_rules_loop table (r # rs) = from_rules_loop (bm_insert (por_capability r) (por_rule r) table) rs"

definition from_rules :: "PolicyRule list \<Rightarrow> PermissionPolicy" where
  "from_rules rules = from_rules_loop [] rules"

definition policy_rule :: "PermissionPolicy \<Rightarrow> string \<Rightarrow> PermissionRule option" where
  "policy_rule policy capability = bm_get policy capability"

datatype PermissionDecision =
    PermissionDecision_Allow
  | PermissionDecision_Ask string
  | PermissionDecision_Deny string

fun PermissionDecision_decision :: "PermissionDecision \<Rightarrow> string" where
  "PermissionDecision_decision PermissionDecision_Allow = ''allow''"
| "PermissionDecision_decision (PermissionDecision_Ask _) = ''ask''"
| "PermissionDecision_decision (PermissionDecision_Deny _) = ''deny''"

fun PermissionDecision_reason :: "PermissionDecision \<Rightarrow> string" where
  "PermissionDecision_reason PermissionDecision_Allow = ''''"
| "PermissionDecision_reason (PermissionDecision_Ask reason) = reason"
| "PermissionDecision_reason (PermissionDecision_Deny reason) = reason"

definition evaluate_permission :: "string \<Rightarrow> PermissionPolicy \<Rightarrow> PermissionDecision" where
  "evaluate_permission capability policy =
     (case policy_rule policy capability of
        None \<Rightarrow> PermissionDecision_Deny
          (''No permission rule is defined for '' @ capability @ ''; failing closed.'')
      | Some PermissionRule_Deny \<Rightarrow> PermissionDecision_Deny (''Policy denies '' @ capability @ ''.'')
      | Some PermissionRule_Ask \<Rightarrow> PermissionDecision_Ask (''Policy requires approval for '' @ capability @ ''.'')
      | Some PermissionRule_Allow \<Rightarrow> PermissionDecision_Allow)"

subsection \<open>Round budget\<close>

definition DEFAULT_MAX_TOOL_ROUNDS :: nat where
  "DEFAULT_MAX_TOOL_ROUNDS = 8"

definition MAX_TOOL_ROUNDS :: nat where
  "MAX_TOOL_ROUNDS = 32"

definition RoundBudget_normalize :: "f64 option \<Rightarrow> nat" where
  "RoundBudget_normalize value =
     (case value of
        None \<Rightarrow> DEFAULT_MAX_TOOL_ROUNDS
      | Some v \<Rightarrow>
         (case v of
            Finite q \<Rightarrow>
              let floored = \<lfloor>q\<rfloor>
              in if floored < 0 then 0
                 else if int MAX_TOOL_ROUNDS < floored then MAX_TOOL_ROUNDS
                 else saturating_cast 32 floored
          | _ \<Rightarrow> DEFAULT_MAX_TOOL_ROUNDS))"

definition cap_message :: "nat \<Rightarrow> string" where
  "cap_message budget =
     ''Siralos reached the maximum of '' @ show_nat budget
       @ '' tool rounds; the requested tool round was not executed.''"

subsection \<open>One-time approvals\<close>

datatype ApprovalError = ApprovalError_EmptyTool | ApprovalError_InvalidDigest

fun ApprovalError_message :: "ApprovalError \<Rightarrow> string" where
  "ApprovalError_message ApprovalError_EmptyTool = ''approval tool name is empty''"
| "ApprovalError_message ApprovalError_InvalidDigest =
     ''approval digest is not a 64-character hexadecimal SHA-256''"

definition ActionDigest_parse :: "string \<Rightarrow> ApprovalError + string" where
  "ActionDigest_parse s =
     (if length s \<noteq> 64 \<or> \<not> list_all is_ascii_hexdigit s then Err ApprovalError_InvalidDigest else Ok s)"

record ActionApproval =
  aa_tool_name :: string
  aa_action_digest :: string
  aa_task_revision :: "nat option"

definition ActionApproval_new :: "string \<Rightarrow> string \<Rightarrow> nat option \<Rightarrow> ApprovalError + ActionApproval" where
  "ActionApproval_new tool_name digest task_revision =
     (if tool_name = [] then Err ApprovalError_EmptyTool
      else Ok \<lparr> aa_tool_name = tool_name, aa_action_digest = digest, aa_task_revision = task_revision \<rparr>)"

text \<open>The text an approval binds, and its digest.\<close>

definition action_preimage :: "string \<Rightarrow> string \<Rightarrow> nat option \<Rightarrow> string" where
  "action_preimage tool_name canonical_input task_revision =
     tool_name @ [CHR 0x0A] @ (case task_revision of Some n \<Rightarrow> show_nat n | None \<Rightarrow> ''none'')
       @ [CHR 0x0A] @ canonical_input"

definition action_digest :: "string \<Rightarrow> string \<Rightarrow> nat option \<Rightarrow> string" where
  "action_digest tool_name canonical_input task_revision =
     sha256_hex_str (action_preimage tool_name canonical_input task_revision)"

record ActionApprovals =
  approvals :: "(string, ActionApproval) btree_map"

definition ActionApprovals_new :: ActionApprovals where
  "ActionApprovals_new = \<lparr> approvals = [] \<rparr>"

definition approve :: "ActionApproval \<Rightarrow> ActionApprovals \<Rightarrow> ActionApprovals" where
  "approve approval l = l\<lparr>approvals := bm_insert (aa_action_digest approval) approval (approvals l)\<rparr>"

definition take_approval ::
    "string \<Rightarrow> string \<Rightarrow> nat option \<Rightarrow> ActionApprovals \<Rightarrow> ActionApprovals \<times> ActionApproval option" where
  "take_approval tool_name digest task_revision l =
     (case bm_get (approvals l) digest of
        None \<Rightarrow> (l, None)
      | Some approval \<Rightarrow>
          if aa_tool_name approval \<noteq> tool_name \<or> aa_task_revision approval \<noteq> task_revision then (l, None)
          else (l\<lparr>approvals := bm_remove digest (approvals l)\<rparr>, bm_get (approvals l) digest))"

definition approvals_len :: "ActionApprovals \<Rightarrow> nat" where
  "approvals_len l = length (approvals l)"

definition approvals_is_empty :: "ActionApprovals \<Rightarrow> bool" where
  "approvals_is_empty l \<longleftrightarrow> approvals l = []"

record ApprovalPreview =
  ap_title :: string
  ap_lines :: "string list"

definition MAX_APPROVAL_PREVIEW_LINES :: nat where
  "MAX_APPROVAL_PREVIEW_LINES = 24"

definition MAX_APPROVAL_PREVIEW_LINE_CHARS :: nat where
  "MAX_APPROVAL_PREVIEW_LINE_CHARS = 160"

record ApprovalRequest =
  rq_tool_name :: string
  rq_task_revision :: "nat option"
  rq_preview :: ApprovalPreview

datatype ApprovalVerdict = ApprovalVerdict_Approve | ApprovalVerdict_Deny

end
