(* ===== verification/Tool_Ledger.thy ===== *)
theory Tool_Ledger
  imports Tool_Policy
begin

text \<open>
  What the policy and the approval ledger promise.  The locale \<open>one_time_ledger\<close> states the
  contract the executor relies on: an approval is consumed by the call it authorises, and
  consuming one touches no other.  It is interpreted on the ledger of \<open>tool/approval.rs\<close>.
\<close>

subsection \<open>The contract\<close>

datatype ('a, 'k) ledger_op = Put 'a | Take 'k

text \<open>Run a sequence of operations; the second component lists the keys whose \<open>Take\<close> was granted.\<close>

fun ledger_run ::
    "('a \<Rightarrow> 'l \<Rightarrow> 'l) \<Rightarrow> ('k \<Rightarrow> 'l \<Rightarrow> 'l \<times> 'a option) \<Rightarrow> ('a, 'k) ledger_op list \<Rightarrow> 'l \<Rightarrow> 'l \<times> 'k list" where
  "ledger_run put consume [] l = (l, [])"
| "ledger_run put consume (Put a # ops) l = ledger_run put consume ops (put a l)"
| "ledger_run put consume (Take k # ops) l =
     (let (l', r) = consume k l; (l'', granted) = ledger_run put consume ops l'
      in (l'', if r = None then granted else k # granted))"

definition recorded :: "('a \<Rightarrow> 'k) \<Rightarrow> 'k \<Rightarrow> ('a, 'k) ledger_op list \<Rightarrow> nat" where
  "recorded key k ops = length (filter (\<lambda>x. case x of Put a \<Rightarrow> key a = k | Take _ \<Rightarrow> False) ops)"

lemma recorded_simps [simp]:
  "recorded key k [] = 0"
  "recorded key k (Put a # ops) = (if key a = k then Suc (recorded key k ops) else recorded key k ops)"
  "recorded key k (Take k' # ops) = recorded key k ops"
  by (simp_all add: recorded_def)

text \<open>
  The specification: what a ledger grants for a key after a history of operations, latest first.
  The latest approval for the key counts, unless the key was taken since, or another approval
  for the same slot replaced it.
\<close>

fun granted_for :: "('a \<Rightarrow> 'k) \<Rightarrow> ('k \<Rightarrow> 's) \<Rightarrow> ('a, 'k) ledger_op list \<Rightarrow> 'k \<Rightarrow> 'a option" where
  "granted_for key slot [] k = None"
| "granted_for key slot (Put a # history) k =
     (if key a = k then Some a
      else if slot (key a) = slot k then None
      else granted_for key slot history k)"
| "granted_for key slot (Take k' # history) k = (if k' = k then None else granted_for key slot history k)"

text \<open>The keys a sequence of operations is granted by the specification, after a history.\<close>

fun granted_keys ::
    "('a \<Rightarrow> 'k) \<Rightarrow> ('k \<Rightarrow> 's) \<Rightarrow> ('a, 'k) ledger_op list \<Rightarrow> ('a, 'k) ledger_op list \<Rightarrow> 'k list" where
  "granted_keys key slot history [] = []"
| "granted_keys key slot history (Put a # ops) = granted_keys key slot (Put a # history) ops"
| "granted_keys key slot history (Take k # ops) =
     (if granted_for key slot history k = None then [] else [k]) @ granted_keys key slot (Take k # history) ops"

lemma granted_le_recorded:
  "count_list (granted_keys key slot history ops) k \<le> recorded key k ops + (if granted_for key slot history k = None then 0 else 1)"
proof (induction ops arbitrary: history)
  case (Cons x ops)
  show ?case
  proof (cases x)
    case (Put a)
    then show ?thesis
      using Cons [of "Put a # history"] by (auto split: if_splits)
  next
    case (Take k')
    then show ?thesis
      using Cons [of "Take k' # history"] by (auto split: if_splits)
  qed
qed simp

locale one_time_ledger =
  fixes put :: "'a \<Rightarrow> 'l \<Rightarrow> 'l"
    and consume :: "'k \<Rightarrow> 'l \<Rightarrow> 'l \<times> 'a option"
    and key :: "'a \<Rightarrow> 'k"
    and slot :: "'k \<Rightarrow> 's"
    and view :: "'l \<Rightarrow> 'k \<Rightarrow> 'a option"
  assumes take_result: "snd (consume k l) = view l k"
    and view_take: "view (fst (consume k l)) = (view l)(k := None)"
    and view_put: "view (put a l) (key a) = Some a"
    and view_put_other: "k \<noteq> key a \<Longrightarrow> view (put a l) k = (if slot (key a) = slot k then None else view l k)"
begin

lemma view_run:
  "view l = granted_for key slot history \<Longrightarrow>
     view (fst (ledger_run put consume ops l)) = granted_for key slot (rev ops @ history)
     \<and> snd (ledger_run put consume ops l) = granted_keys key slot history ops"
proof (induction ops arbitrary: l history)
  case (Cons x ops)
  show ?case
  proof (cases x)
    case (Put a)
    have "view (put a l) = granted_for key slot (Put a # history)"
      using view_put [of a l] view_put_other [of _ a l] Cons.prems by (auto simp: fun_eq_iff)
    with Put Cons.IH [of "put a l" "Put a # history"] show ?thesis
      by simp
  next
    case (Take k)
    obtain l' r where t: "consume k l = (l', r)"
      by fastforce
    then have r: "r = granted_for key slot history k" and "view l' = granted_for key slot (Take k # history)"
      using take_result [of k l] view_take [of k l] Cons.prems by (auto simp: fun_eq_iff)
    with Take t Cons.IH [of l' "Take k # history"] show ?thesis
      by (auto simp: case_prod_beta Let_def)
  qed
qed simp

lemma put_then_take: "snd (consume (key a) (put a l)) = Some a \<and> view (fst (consume (key a) (put a l))) (key a) = None"
  by (simp add: take_result view_take view_put)

end

subsection \<open>The ledger satisfies it\<close>

type_synonym action_key = "string \<times> string \<times> nat option"

fun take_key :: "action_key \<Rightarrow> ActionApprovals \<Rightarrow> ActionApprovals \<times> ActionApproval option" where
  "take_key (tool, digest, revision) l = take_approval tool digest revision l"

definition approval_key :: "ActionApproval \<Rightarrow> action_key" where
  "approval_key a = (aa_tool_name a, aa_action_digest a, aa_task_revision a)"

fun ledger_view :: "ActionApprovals \<Rightarrow> action_key \<Rightarrow> ActionApproval option" where
  "ledger_view l (tool, digest, revision) =
     (case bm_get (approvals l) digest of
        Some a \<Rightarrow> if aa_tool_name a = tool \<and> aa_task_revision a = revision then Some a else None
      | None \<Rightarrow> None)"

text \<open>The ledger holds one approval per digest.\<close>

abbreviation digest_slot :: "action_key \<Rightarrow> string" where
  "digest_slot k \<equiv> fst (snd k)"

interpretation ledger: one_time_ledger approve take_key approval_key digest_slot ledger_view
proof
  show "snd (take_key k l) = ledger_view l k" for k l
    by (cases k) (auto simp: take_approval_def split: option.splits)
  show "ledger_view (fst (take_key k l)) = (ledger_view l)(k := None)" for k l
    by (cases k) (auto simp: fun_eq_iff take_approval_def split: option.splits if_splits)
  show "ledger_view (approve a l) (approval_key a) = Some a" for a l
    by (simp add: approve_def approval_key_def)
  show "k \<noteq> approval_key a \<Longrightarrow> ledger_view (approve a l) k
      = (if digest_slot (approval_key a) = digest_slot k then None else ledger_view l k)" for k a l
    by (cases k) (auto simp: approve_def approval_key_def split: option.splits)
qed

lemma action_digest_parses: "ActionDigest_parse (action_digest t i r) = Ok (action_digest t i r)"
  using sha256_hex_shape [of "as_bytes (action_preimage t i r)"]
  by (auto simp: ActionDigest_parse_def action_digest_def sha256_hex_str_def list_all_iff is_lower_hex_hexdigit)

lemma valid_identifier_loop_eq:
  "valid_identifier_loop first prev s
     = separated_loop (\<lambda>b. b = CHR ''.'' \<or> b = CHR ''_'' \<or> b = CHR ''-'') first prev s"
proof (induction s arbitrary: first prev)
  case (Cons b bs)
  show ?case
    unfolding valid_identifier_loop.simps separated_loop.simps Let_def Cons
    by (simp only: if_bool_eq_conj de_Morgan_disj de_Morgan_conj not_not) argo
qed simp

lemma from_rules_loop_get:
  "bm_get (from_rules_loop table rs) c =
     (case find (\<lambda>r. por_capability r = c) (rev rs) of Some r \<Rightarrow> Some (por_rule r) | None \<Rightarrow> bm_get table c)"
  by (induction table rs rule: from_rules_loop.induct) (auto simp: find_append split: option.splits)

subsection \<open>Properties\<close>

text \<open>
  The policy fails closed: a capability is permitted exactly when the last rule for it says
  allow, asked exactly when it says ask, and denied in every other case, in particular when
  no rule mentions it.
\<close>

theorem policy_fails_closed:
  "let last_rule = map_option por_rule (find (\<lambda>r. por_capability r = c) (rev rules));
       d = PermissionDecision_decision (evaluate_permission c (from_rules rules))
   in (d = ''allow'' \<longleftrightarrow> last_rule = Some PermissionRule_Allow)
      \<and> (d = ''ask'' \<longleftrightarrow> last_rule = Some PermissionRule_Ask)
      \<and> (d = ''deny'' \<longleftrightarrow> last_rule = None \<or> last_rule = Some PermissionRule_Deny)"
  by (auto simp: evaluate_permission_def policy_rule_def from_rules_def from_rules_loop_get Let_def
      split: option.split PermissionRule.split)

text \<open>
  C19.  The ledger refines a one-time ledger over histories: from an empty ledger and after any
  operations, an attempt is granted exactly when an approval for its tool, digest and revision
  was recorded, has not been consumed since by an attempt for just that key, and has not been
  replaced by an approval for the same digest, and it is granted that very approval; the granted
  attempts of a run are those of the specification, and no key is granted more often than
  approvals were recorded for it.  An attempt that does not match consumes nothing.
\<close>

theorem approvals_authorise_once:
  "snd (take_key k (fst (ledger_run approve take_key ops ActionApprovals_new)))
      = granted_for approval_key digest_slot (rev ops) k
   \<and> snd (ledger_run approve take_key ops ActionApprovals_new) = granted_keys approval_key digest_slot [] ops
   \<and> count_list (snd (ledger_run approve take_key ops ActionApprovals_new)) k \<le> recorded approval_key k ops"
proof -
  have "ledger_view ActionApprovals_new = granted_for approval_key digest_slot []"
    by (auto simp: ActionApprovals_new_def fun_eq_iff)
  from ledger.view_run [OF this, of ops] ledger.take_result [of k] show ?thesis
    using granted_le_recorded [of approval_key digest_slot "[]" ops k] by simp
qed

text \<open>
  An approval binds the exact action: the digest always is a valid one, attempting the call
  it was recorded for consumes it, and for the same tool and revision the bound text is the
  same only for the same canonical input.
\<close>

theorem approval_binds_exact_action:
  "ActionDigest_parse (action_digest tool input revision) = Ok (action_digest tool input revision)
   \<and> (let a = \<lparr> aa_tool_name = tool, aa_action_digest = action_digest tool input revision,
               aa_task_revision = revision \<rparr>;
          (l', granted) = take_approval tool (action_digest tool input revision) revision (approve a l)
      in granted = Some a
         \<and> snd (take_approval tool (action_digest tool input revision) revision l') = None)
   \<and> (action_preimage tool input revision = action_preimage tool input' revision \<longleftrightarrow> input = input')"
proof -
  let ?a = "\<lparr> aa_tool_name = tool, aa_action_digest = action_digest tool input revision, aa_task_revision = revision \<rparr>"
  have "take_approval tool (action_digest tool input revision) revision l = take_key (approval_key ?a) l" for l
    by (simp add: approval_key_def)
  then show ?thesis
    using ledger.put_then_take [of ?a l] ledger.take_result [of "approval_key ?a"]
    by (simp add: action_digest_parses action_preimage_def Let_def split: prod.split del: take_key.simps ledger_view.simps)
      (metis fst_conv snd_conv)
qed

lemma clamp_rounds:
  "int (if n < 0 then 0 else if int 32 < n then 32 else saturating_cast 32 n) = min 32 (max 0 n)"
  by (auto simp: saturating_cast_def min_def max_def)

text \<open>
  The round budget is between 0 and 32 for every number a caller may pass: missing and
  non-finite numbers give 8, the rest their floor clamped to the bounds.
\<close>

theorem round_budget_bounded:
  "RoundBudget_normalize v \<le> 32
   \<and> RoundBudget_normalize None = 8 \<and> RoundBudget_normalize (Some NaN) = 8
   \<and> RoundBudget_normalize (Some (Infinity b)) = 8
   \<and> int (RoundBudget_normalize (Some (Finite q))) = min 32 (max 0 \<lfloor>q\<rfloor>)"
proof -
  have "int (RoundBudget_normalize (Some (Finite q))) = min 32 (max 0 \<lfloor>q\<rfloor>)" for q
    unfolding RoundBudget_normalize_def option.case f64.case Let_def MAX_TOOL_ROUNDS_def by (rule clamp_rounds)
  moreover from this have "RoundBudget_normalize (Some (Finite q)) \<le> 32" for q
    by (metis min.cobounded1 of_nat_le_iff of_nat_numeral)
  then have "RoundBudget_normalize v \<le> 32"
    by (auto simp: RoundBudget_normalize_def DEFAULT_MAX_TOOL_ROUNDS_def split: option.split f64.split)
  ultimately show ?thesis
    by (simp add: RoundBudget_normalize_def DEFAULT_MAX_TOOL_ROUNDS_def)
qed

text \<open>
  A tool capability id is accepted exactly when it has 1 to 64 bytes, all lowercase letters,
  digits or the separators dot, underscore and hyphen, with no leading, trailing or doubled
  separator, and an accepted id is kept as it is.
\<close>

theorem tool_capability_id_exact:
  "ToolCapabilityId_parse s = Ok i \<longleftrightarrow>
     i = s \<and> 1 \<le> length s \<and> length s \<le> 64
     \<and> list_all (\<lambda>b. is_ascii_lowercase b \<or> is_ascii_digit b \<or> b \<in> {CHR ''.'', CHR ''_'', CHR ''-''}) s
     \<and> hd s \<notin> {CHR ''.'', CHR ''_'', CHR ''-''} \<and> last s \<notin> {CHR ''.'', CHR ''_'', CHR ''-''}
     \<and> successively (\<lambda>a b. \<not> (a \<in> {CHR ''.'', CHR ''_'', CHR ''-''} \<and> b \<in> {CHR ''.'', CHR ''_'', CHR ''-''})) s"
  by (cases s)
    (auto simp: ToolCapabilityId_parse_def valid_identifier_def TOOL_MAX_CAPABILITY_ID_BYTES_def
      valid_identifier_loop_eq separated_loop_iff separated_def simp del: separated_loop.simps)

end
