(* ===== verification/Tool_Executor.thy ===== *)
theory Tool_Executor
  imports Tool_Round Tool_Ledger
begin

text \<open>
  The tool registry (\<open>tool/registry.rs\<close>) and the host executor with its authorisation gates
  (\<open>HostToolExecutor\<close> of \<open>tool/session.rs\<close>).  Tools and the approval resolver act on a world of
  any type \<open>'w\<close>: \<open>execute\<close> may change it and may panic (\<open>None\<close>), \<open>approval_preview\<close> only reads
  it, the resolver prompts through it.
\<close>

subsection \<open>Registry\<close>

record 'w Tool =
  tool_definition :: ToolDefinition
  tool_capability :: string
  requires_approval :: bool
  approval_preview :: "Value \<Rightarrow> 'w \<Rightarrow> ApprovalPreview option"
  tool_execute :: "Value \<Rightarrow> bool \<Rightarrow> 'w \<Rightarrow> 'w \<times> ToolExecutionResult option"

record RegisteredToolInfo =
  ri_definition :: ToolDefinition
  ri_capability :: string

datatype ToolRegistryError = ToolRegistryError_DuplicateName string

fun ToolRegistryError_message :: "ToolRegistryError \<Rightarrow> string" where
  "ToolRegistryError_message (ToolRegistryError_DuplicateName name) = ''Duplicate tool name: '' @ name"

record 'w ToolRegistry =
  tg_entries :: "'w Tool list"
  tg_index :: "string \<rightharpoonup> nat"

fun registry_loop ::
    "'w Tool list \<Rightarrow> (string \<rightharpoonup> nat) \<Rightarrow> 'w Tool list \<Rightarrow> ToolRegistryError + 'w ToolRegistry" where
  "registry_loop entries index [] = Ok \<lparr> tg_entries = entries, tg_index = index \<rparr>"
| "registry_loop entries index (tool # tools) =
     (let name = td_name (tool_definition tool)
      in if index name \<noteq> None then Err (ToolRegistryError_DuplicateName name)
         else registry_loop (entries @ [tool]) (index(name \<mapsto> length entries)) tools)"

definition ToolRegistry_new :: "'w Tool list \<Rightarrow> ToolRegistryError + 'w ToolRegistry" where
  "ToolRegistry_new tools = registry_loop [] Map.empty tools"

definition registry_get :: "'w ToolRegistry \<Rightarrow> string \<Rightarrow> 'w Tool option" where
  "registry_get g name =
     (case tg_index g name of
        None \<Rightarrow> None
      | Some i \<Rightarrow> if i < length (tg_entries g) then Some (tg_entries g ! i) else None)"

definition registry_definitions :: "'w ToolRegistry \<Rightarrow> RegisteredToolInfo list" where
  "registry_definitions g =
     map (\<lambda>tool. \<lparr> ri_definition = tool_definition tool, ri_capability = tool_capability tool \<rparr>) (tg_entries g)"

fun surface_loop :: "string btree_set \<Rightarrow> string list \<Rightarrow> string btree_set" where
  "surface_loop s [] = s"
| "surface_loop s (n # ns) = surface_loop (bs_insert n s) ns"

type_synonym ApprovedToolSurface = "string btree_set"

definition ApprovedToolSurface_new :: "string list \<Rightarrow> ApprovedToolSurface" where
  "ApprovedToolSurface_new names = surface_loop [] names"

subsection \<open>The host executor\<close>

record 'w HostToolExecutor =
  hx_registry :: "'w ToolRegistry"
  hx_policy :: PermissionPolicy
  hx_surface :: "ApprovedToolSurface option"
  hx_task_revision :: "nat option"
  hx_resolver :: "(ApprovalRequest \<Rightarrow> 'w \<Rightarrow> 'w \<times> ApprovalVerdict) option"

text \<open>The state the executor acts on: the shared ledger and the world.\<close>

record 'w HostState =
  hs_approvals :: ActionApprovals
  hs_world :: 'w

definition unreviewable_denial :: "string \<Rightarrow> string" where
  "unreviewable_denial capability =
     ''Capability '' @ capability @ '' requires approval, but this tool does not support a reviewable preparation protocol; the call was denied without execution.''"

definition missing_denial :: "string \<Rightarrow> string" where
  "missing_denial capability =
     ''Capability '' @ capability @ '' requires a one-time host approval for this exact action; no matching approval was recorded, so the call was denied without execution.''"

definition host_denial :: "string \<Rightarrow> string" where
  "host_denial capability =
     ''Capability '' @ capability @ '' requires a one-time host approval for this exact action; the host denied the request, so the call was denied without execution.''"

definition provider_tool_definitions :: "'w HostToolExecutor \<Rightarrow> ToolDefinition list" where
  "provider_tool_definitions x =
     map ri_definition
       (filter (\<lambda>info. case evaluate_permission (ri_capability info) (hx_policy x) of
            PermissionDecision_Deny _ \<Rightarrow> False | _ \<Rightarrow> True)
          (registry_definitions (hx_registry x)))"

definition approval_gate ::
    "serializer \<Rightarrow> 'w HostToolExecutor \<Rightarrow> 'w Tool \<Rightarrow> string \<Rightarrow> ExecutableToolCall \<Rightarrow> 'w HostState
      \<Rightarrow> 'w HostState \<times> string option" where
  "approval_gate to_json x tool capability call h =
     (let digest = action_digest (xc_tool_name call) (to_json (xc_input call)) (hx_task_revision x);
          (ledger, taken) = take_approval (xc_tool_name call) digest (hx_task_revision x) (hs_approvals h);
          h = h\<lparr>hs_approvals := ledger\<rparr>
      in if taken \<noteq> None then (h, None)
         else case approval_preview tool (xc_input call) (hs_world h) of
           None \<Rightarrow> (h, Some (unreviewable_denial capability))
         | Some preview \<Rightarrow>
            (case hx_resolver x of
              None \<Rightarrow> (h, Some (missing_denial capability))
            | Some resolver \<Rightarrow>
                let (w, verdict) = resolver \<lparr> rq_tool_name = xc_tool_name call, rq_task_revision = hx_task_revision x,
                      rq_preview = preview \<rparr> (hs_world h);
                    h = h\<lparr>hs_world := w\<rparr>
                in (case verdict of
                     ApprovalVerdict_Deny \<Rightarrow> (h, Some (host_denial capability))
                   | ApprovalVerdict_Approve \<Rightarrow>
                      (case ActionApproval_new (xc_tool_name call) digest (hx_task_revision x) of
                         Err _ \<Rightarrow> (h, Some (unreviewable_denial capability))
                       | Ok approval \<Rightarrow>
                           let (ledger, taken) = take_approval (xc_tool_name call) digest (hx_task_revision x)
                                 (approve approval (hs_approvals h))
                           in (h\<lparr>hs_approvals := ledger\<rparr>,
                               if taken = None then Some (missing_denial capability) else None)))))"

definition execute_guarded :: "'w Tool \<Rightarrow> Value \<Rightarrow> bool \<Rightarrow> 'w \<Rightarrow> 'w \<times> ToolExecutionResult" where
  "execute_guarded tool input is_cancelled w =
     (case tool_execute tool input is_cancelled w of
        (w, Some result) \<Rightarrow> (w, result)
      | (w, None) \<Rightarrow> (w, ToolExecutionResult_Failed ''The provider failed with an unknown error.''))"

definition failure_event :: "string \<Rightarrow> string \<Rightarrow> string \<Rightarrow> ToolLoopEvent" where
  "failure_event call_id tool_name msg = ToolFailed call_id tool_name msg"

fun outcome_event :: "string \<Rightarrow> string \<Rightarrow> ToolExecutionResult \<Rightarrow> ToolLoopEvent" where
  "outcome_event call_id tool_name (ToolExecutionResult_Success _ summary) = ToolCompleted call_id tool_name summary"
| "outcome_event call_id tool_name (ToolExecutionResult_Cancelled _) = ToolCancelled call_id tool_name"
| "outcome_event call_id tool_name other = ToolFailed call_id tool_name (result_message other)"

text \<open>A call stopped by a gate: the failure event and the result.\<close>

definition stopped ::
    "ToolLoopEvent \<Rightarrow> ExecutableToolCall \<Rightarrow> (string \<Rightarrow> ToolExecutionResult) \<Rightarrow> string \<Rightarrow> ToolCallExecution" where
  "stopped started call mk msg =
     \<lparr> tx_events = [started, failure_event (xc_call_id call) (xc_tool_name call) msg], tx_result = mk msg \<rparr>"

text \<open>The gates of \<open>execute_call\<close> after the lookup: \<open>None\<close> lets the tool run.\<close>

definition call_gates ::
    "serializer \<Rightarrow> 'w HostToolExecutor \<Rightarrow> 'w Tool \<Rightarrow> ExecutableToolCall \<Rightarrow> 'w HostState \<Rightarrow> 'w HostState \<times> string option" where
  "call_gates to_json x tool call h =
     (if (case hx_surface x of Some surface \<Rightarrow> xc_tool_name call \<notin> set surface | None \<Rightarrow> False) then
        (h, Some (''Tool '' @ xc_tool_name call
           @ '' is not in the projected tool schema for this session and was denied before execution.''))
      else case evaluate_permission (tool_capability tool) (hx_policy x) of
        PermissionDecision_Deny reason \<Rightarrow>
          (h, Some (''Capability '' @ tool_capability tool @ '' is denied by policy: '' @ reason))
      | PermissionDecision_Ask _ \<Rightarrow>
          if requires_approval tool then approval_gate to_json x tool (tool_capability tool) call h
          else (h, Some (unreviewable_denial (tool_capability tool)))
      | PermissionDecision_Allow \<Rightarrow>
          if requires_approval tool then approval_gate to_json x tool (tool_capability tool) call h
          else (h, None))"

definition execute_call :: "serializer \<Rightarrow> 'w HostToolExecutor \<Rightarrow> ('w HostState) executor" where
  "execute_call to_json x call is_cancelled h =
     (let started = ToolStarted (xc_call_id call) (xc_tool_name call) (display_input to_json call)
      in case registry_get (hx_registry x) (xc_tool_name call) of
           None \<Rightarrow> (h, stopped started call ToolExecutionResult_Failed (''Unknown tool: '' @ xc_tool_name call @ ''.''))
         | Some tool \<Rightarrow>
            (case call_gates to_json x tool call h of
               (h, Some msg) \<Rightarrow> (h, stopped started call ToolExecutionResult_Denied msg)
             | (h, None) \<Rightarrow>
                 let (w, result) = execute_guarded tool (xc_input call) is_cancelled (hs_world h)
                 in (h\<lparr>hs_world := w\<rparr>,
                     \<lparr> tx_events = [started, outcome_event (xc_call_id call) (xc_tool_name call) result],
                       tx_result = result \<rparr>)))"

end
