(* ===== verification/Tool_Safety.thy ===== *)
theory Tool_Safety
  imports Tool_Executor
begin

text \<open>
  What the executor promises (a tool runs exactly when every gate lets it, and every call
  reports exactly one outcome) and what a round promises (every retained call is paired with
  exactly one result, in order, and the round always ends).
\<close>

subsection \<open>Registry\<close>

abbreviation tool_name :: "'w Tool \<Rightarrow> string" where
  "tool_name tool \<equiv> td_name (tool_definition tool)"

lemma position_snoc:
  "position p (xs @ [x]) = (case position p xs of Some i \<Rightarrow> Some i | None \<Rightarrow> if p x then Some (length xs) else None)"
  by (induction xs) (auto split: option.splits)

lemma position_find: "find p xs = map_option (\<lambda>i. xs ! i) (position p xs)"
  by (induction xs) (auto simp: option.map_comp o_def)

definition indexes :: "(string \<rightharpoonup> nat) \<Rightarrow> 'w Tool list \<Rightarrow> bool" where
  "indexes index entries \<longleftrightarrow> (\<forall>n. index n = position (\<lambda>t. tool_name t = n) entries)"

lemma indexes_None_iff:
  "indexes index entries \<Longrightarrow> index n = None \<longleftrightarrow> n \<notin> set (map tool_name entries)"
  by (auto simp: indexes_def position_None_iff)

lemma indexes_snoc:
  assumes "indexes index entries" and "index (tool_name tool) = None"
  shows "indexes (index(tool_name tool \<mapsto> length entries)) (entries @ [tool])"
proof -
  have "position (\<lambda>t. tool_name t = tool_name tool) entries = None"
    using assms by (simp add: indexes_def)
  with assms(1) show ?thesis
    by (auto simp: indexes_def position_snoc split: option.split)
qed

lemma registry_loop_Ok:
  "\<lbrakk>registry_loop entries index tools = Ok g; indexes index entries; distinct (map tool_name entries)\<rbrakk> \<Longrightarrow>
     tg_entries g = entries @ tools \<and> distinct (map tool_name (entries @ tools)) \<and> indexes (tg_index g) (tg_entries g)"
proof (induction tools arbitrary: entries index)
  case (Cons tool tools)
  then have new: "index (tool_name tool) = None"
    and rest: "registry_loop (entries @ [tool]) (index(tool_name tool \<mapsto> length entries)) tools = Ok g"
    by (auto simp: Let_def split: if_splits)
  have "distinct (map tool_name (entries @ [tool]))"
    using Cons.prems(3) new indexes_None_iff [OF Cons.prems(2)] by simp
  from Cons.IH [OF rest indexes_snoc [OF Cons.prems(2) new] this] show ?case
    by auto
qed auto

lemma registry_loop_Err:
  "registry_loop entries index tools = Err e \<Longrightarrow> indexes index entries \<Longrightarrow> \<not> distinct (map tool_name (entries @ tools))"
proof (induction tools arbitrary: entries index)
  case (Cons tool tools)
  show ?case
  proof (cases "index (tool_name tool) = None")
    case True
    with Cons.prems(1) have "registry_loop (entries @ [tool]) (index(tool_name tool \<mapsto> length entries)) tools = Err e"
      by (simp add: Let_def)
    from Cons.IH [OF this indexes_snoc [OF Cons.prems(2) True]] show ?thesis
      by simp
  next
    case False
    then show ?thesis
      using indexes_None_iff [OF Cons.prems(2), of "tool_name tool"] by auto
  qed
qed simp

lemma ToolRegistry_new_Ok:
  assumes "ToolRegistry_new tools = Ok g"
  shows "tg_entries g = tools" "distinct (map tool_name tools)"
    "registry_get g n = find (\<lambda>t. tool_name t = n) tools"
proof -
  have g: "tg_entries g = tools" "distinct (map tool_name tools)" "indexes (tg_index g) tools"
    using registry_loop_Ok [of "[]" Map.empty tools g] assms by (auto simp: ToolRegistry_new_def indexes_def)
  then show "tg_entries g = tools" "distinct (map tool_name tools)"
    by simp_all
  show "registry_get g n = find (\<lambda>t. tool_name t = n) tools"
    using g position_Some_nth [of "\<lambda>t. tool_name t = n" tools]
    by (auto simp: registry_get_def position_find indexes_def split: option.split)
qed

subsection \<open>The gates\<close>

text \<open>
  \<open>granted\<close>: an approval for the exact action is recorded, or the action can be previewed and
  the host approves it when asked.  \<open>authorised\<close>: every gate lets the tool run.
\<close>

definition call_digest :: "serializer \<Rightarrow> 'w HostToolExecutor \<Rightarrow> ExecutableToolCall \<Rightarrow> string" where
  "call_digest to_json x call = action_digest (xc_tool_name call) (to_json (xc_input call)) (hx_task_revision x)"

definition call_key :: "serializer \<Rightarrow> 'w HostToolExecutor \<Rightarrow> ExecutableToolCall \<Rightarrow> action_key" where
  "call_key to_json x call = (xc_tool_name call, call_digest to_json x call, hx_task_revision x)"

definition approval_request :: "'w HostToolExecutor \<Rightarrow> ExecutableToolCall \<Rightarrow> ApprovalPreview \<Rightarrow> ApprovalRequest" where
  "approval_request x call preview =
     \<lparr> rq_tool_name = xc_tool_name call, rq_task_revision = hx_task_revision x, rq_preview = preview \<rparr>"

definition host_approves :: "'w HostToolExecutor \<Rightarrow> 'w Tool \<Rightarrow> ExecutableToolCall \<Rightarrow> 'w \<Rightarrow> bool" where
  "host_approves x tool call w \<longleftrightarrow> (\<exists>preview resolver. approval_preview tool (xc_input call) w = Some preview
     \<and> hx_resolver x = Some resolver
     \<and> snd (resolver (approval_request x call preview) w) = ApprovalVerdict_Approve)"

definition granted :: "serializer \<Rightarrow> 'w HostToolExecutor \<Rightarrow> 'w Tool \<Rightarrow> ExecutableToolCall \<Rightarrow> 'w HostState \<Rightarrow> bool" where
  "granted to_json x tool call h \<longleftrightarrow> ledger_view (hs_approvals h) (call_key to_json x call) \<noteq> None
     \<or> (xc_tool_name call \<noteq> [] \<and> host_approves x tool call (hs_world h))"

definition authorised :: "serializer \<Rightarrow> 'w HostToolExecutor \<Rightarrow> 'w Tool \<Rightarrow> ExecutableToolCall \<Rightarrow> 'w HostState \<Rightarrow> bool" where
  "authorised to_json x tool call h \<longleftrightarrow>
     (case hx_surface x of None \<Rightarrow> True | Some surface \<Rightarrow> xc_tool_name call \<in> set surface)
     \<and> (case policy_rule (hx_policy x) (tool_capability tool) of
          Some PermissionRule_Allow \<Rightarrow> (requires_approval tool \<longrightarrow> granted to_json x tool call h)
        | Some PermissionRule_Ask \<Rightarrow> requires_approval tool \<and> granted to_json x tool call h
        | _ \<Rightarrow> False)"

lemma take_approval_view:
  "take_approval t d r l = (l', a) \<Longrightarrow> a = ledger_view l (t, d, r) \<and> ledger_view l' = (ledger_view l)((t, d, r) := None)"
  using ledger.take_result [of "(t, d, r)" l] ledger.view_take [of "(t, d, r)" l] by simp

lemma approve_then_take:
  assumes "ActionApproval_new t d r = Ok a"
  shows "\<exists>l'. take_approval t d r (approve a l) = (l', Some a) \<and> ledger_view l' (t, d, r) = None"
proof -
  have "approval_key a = (t, d, r)"
    using assms by (auto simp: ActionApproval_new_def approval_key_def split: if_splits)
  then show ?thesis
    using ledger.put_then_take [of a l] by (cases "take_approval t d r (approve a l)") (auto simp del: ledger_view.simps)
qed

text \<open>The three ways through the approval gate.\<close>

lemma approval_gate_cases:
  obtains (recorded) l' where "ledger_view (hs_approvals h) (call_key to_json x call) \<noteq> None"
      "ledger_view l' = (ledger_view (hs_approvals h))(call_key to_json x call := None)"
      "approval_gate to_json x tool cap call h = (h\<lparr>hs_approvals := l'\<rparr>, None)"
  | (asked) l' w where "ledger_view (hs_approvals h) (call_key to_json x call) = None"
      "xc_tool_name call \<noteq> []" "host_approves x tool call (hs_world h)"
      "ledger_view l' (call_key to_json x call) = None"
      "approval_gate to_json x tool cap call h = (h\<lparr>hs_approvals := l', hs_world := w\<rparr>, None)"
  | (denied) w msg where "ledger_view (hs_approvals h) (call_key to_json x call) = None"
      "\<not> (xc_tool_name call \<noteq> [] \<and> host_approves x tool call (hs_world h))"
      "approval_gate to_json x tool cap call h = (h\<lparr>hs_world := w\<rparr>, Some msg)"
proof -
  obtain l1 taken where t: "take_approval (xc_tool_name call) (call_digest to_json x call) (hx_task_revision x)
      (hs_approvals h) = (l1, taken)"
    by fastforce
  note view = take_approval_view [OF t, folded call_key_def]
  show thesis
  proof (cases taken)
    case (Some a)
    then show thesis
      by (intro recorded [of l1]) (use t view in \<open>simp_all add: approval_gate_def call_digest_def Let_def\<close>)
  next
    case None
    then have absent: "ledger_view (hs_approvals h) (call_key to_json x call) = None"
      using view by simp
    have l1: "l1 = hs_approvals h"
      using t None by (auto simp: take_approval_def split: option.splits if_splits)
    show thesis
    proof (cases "\<exists>preview resolver. approval_preview tool (xc_input call) (hs_world h) = Some preview \<and> hx_resolver x = Some resolver")
      case False
      then have "\<exists>msg. approval_gate to_json x tool cap call h = (h, Some msg)"
        using t None l1 by (auto simp: approval_gate_def call_digest_def Let_def split: option.splits)
      then obtain msg where "approval_gate to_json x tool cap call h = (h, Some msg)"
        by blast
      moreover have "\<not> host_approves x tool call (hs_world h)"
        using False by (auto simp: host_approves_def)
      ultimately show thesis
        by (intro denied [OF absent, of "hs_world h" msg]) simp_all
    next
      case True
      then obtain preview resolver where pr: "approval_preview tool (xc_input call) (hs_world h) = Some preview"
        "hx_resolver x = Some resolver"
        by blast
      obtain w v where v: "resolver (approval_request x call preview) (hs_world h) = (w, v)"
        by fastforce
      then have approves: "host_approves x tool call (hs_world h) \<longleftrightarrow> v = ApprovalVerdict_Approve"
        using pr by (simp add: host_approves_def)
      show thesis
      proof (cases "v = ApprovalVerdict_Approve \<and> xc_tool_name call \<noteq> []")
        case True
        then obtain a where a: "ActionApproval_new (xc_tool_name call) (call_digest to_json x call) (hx_task_revision x) = Ok a"
          by (simp add: ActionApproval_new_def)
        obtain l' where l': "take_approval (xc_tool_name call) (call_digest to_json x call) (hx_task_revision x)
            (approve a (hs_approvals h)) = (l', Some a)" "ledger_view l' (call_key to_json x call) = None"
          using approve_then_take [OF a, of "hs_approvals h"] by (auto simp: call_key_def)
        show thesis
          by (rule asked [OF absent _ _ l'(2), of w])
            (use True approves t None l1 pr v a l' in
              \<open>simp_all add: approval_gate_def call_digest_def approval_request_def Let_def\<close>)
      next
        case False
        have "\<exists>msg. approval_gate to_json x tool cap call h = (h\<lparr>hs_world := w\<rparr>, Some msg)"
        proof (cases v)
          case ApprovalVerdict_Deny
          with t None l1 pr v show ?thesis
            by (simp add: approval_gate_def call_digest_def approval_request_def Let_def)
        next
          case ApprovalVerdict_Approve
          with False have "xc_tool_name call = []"
            by simp
          with ApprovalVerdict_Approve t None l1 pr v show ?thesis
            by (simp add: approval_gate_def call_digest_def approval_request_def ActionApproval_new_def Let_def)
        qed
        then obtain msg where msg: "approval_gate to_json x tool cap call h = (h\<lparr>hs_world := w\<rparr>, Some msg)"
          by blast
        show thesis
          by (rule denied [OF absent _ msg]) (use False approves in blast)
      qed
    qed
  qed
qed

lemma call_gates_None_iff: "snd (call_gates to_json x tool call h) = None \<longleftrightarrow> authorised to_json x tool call h"
proof -
  have gate: "snd (approval_gate to_json x tool c call h) = None \<longleftrightarrow> granted to_json x tool call h" for c
    by (cases rule: approval_gate_cases [where h = h and to_json = to_json and x = x and call = call
          and tool = tool and cap = c]) (auto simp: granted_def)
  show ?thesis
    by (auto simp: call_gates_def authorised_def evaluate_permission_def gate
        split: option.split PermissionRule.split)
qed

text \<open>What a gate may change: the world only through the resolver, the ledger only by consuming.\<close>

lemma call_gates_ledger:
  assumes "call_gates to_json x tool call h = (h', None)" and "requires_approval tool"
  shows "ledger_view (hs_approvals h') (call_key to_json x call) = None"
proof -
  have "\<exists>c. approval_gate to_json x tool c call h = (h', None)"
    using assms by (auto simp: call_gates_def split: option.splits if_splits PermissionDecision.splits)
  then obtain c where "approval_gate to_json x tool c call h = (h', None)"
    by blast
  then show ?thesis
    by (cases rule: approval_gate_cases [where h = h and to_json = to_json and x = x and call = call
          and tool = tool and cap = c]) auto
qed

lemma call_gates_no_approval:
  "\<not> requires_approval tool \<Longrightarrow> fst (call_gates to_json x tool call h) = h"
  by (auto simp: call_gates_def split: option.split PermissionDecision.split)

subsection \<open>The round\<close>

fun call_id_name :: "TurnToolCall \<Rightarrow> string \<times> string" where
  "call_id_name (TurnToolCall_Execute i n _) = (i, n)"
| "call_id_name (TurnToolCall_Invalid i n _) = (i, n)"

fun paired_with :: "(string \<times> string) list \<Rightarrow> ConversationItem list \<Rightarrow> bool" where
  "paired_with [] [] = True"
| "paired_with ((i, n) # cs) (ToolResult i' n' _ # items) = (i = i' \<and> n = n' \<and> paired_with cs items)"
| "paired_with _ _ = False"

lemma paired_with_append: "paired_with as xs \<Longrightarrow> paired_with bs ys \<Longrightarrow> paired_with (as @ bs) (xs @ ys)"
  by (induction as xs rule: paired_with.induct) auto

lemma paired_skipped: "paired_with (map call_id_name calls) (map skipped_item calls)"
proof (induction calls)
  case (Cons c cs)
  then show ?case
    by (cases c) simp_all
qed simp

text \<open>The transcript of an unfinished runner: every call seeded, the handled ones paired.\<close>

definition round_inv :: "TurnToolCall list \<Rightarrow> 'e ToolRoundRunner \<Rightarrow> bool" where
  "round_inv calls r \<longleftrightarrow> rr_finished r \<or> (\<exists>handled results. calls = handled @ rr_calls r
     \<and> rr_transcript r = seed_transcript calls @ results \<and> paired_with (map call_id_name handled) results)"

definition outcome_paired :: "TurnToolCall list \<Rightarrow> ToolRoundOutcome \<Rightarrow> bool" where
  "outcome_paired calls out \<longleftrightarrow>
     (\<exists>results. ro_transcript out = seed_transcript calls @ results \<and> paired_with (map call_id_name calls) results)"

lemma round_inv_new: "round_inv calls (runner_new calls e)"
  by (auto simp: round_inv_def runner_new_def)

lemma handle_call_transcript:
  "\<exists>res. rr_transcript (handle_call x b c r) = rr_transcript r @ [res] \<and> paired_with [call_id_name c] [res]"
  by (cases c) (auto simp: handle_call_def Let_def split: prod.split)

lemma round_inv_handle:
  assumes "round_inv calls r" and "\<not> rr_finished r" and "rr_calls r = c # cs"
  shows "round_inv calls (handle_call x b c (r\<lparr>rr_calls := cs\<rparr>))"
proof -
  obtain handled results where h: "calls = handled @ c # cs"
    "rr_transcript r = seed_transcript calls @ results" "paired_with (map call_id_name handled) results"
    using assms by (auto simp: round_inv_def)
  obtain res where res: "rr_transcript (handle_call x b c (r\<lparr>rr_calls := cs\<rparr>)) = rr_transcript r @ [res]"
    "paired_with [call_id_name c] [res]"
    using handle_call_transcript [of x b c "r\<lparr>rr_calls := cs\<rparr>"] by auto
  have "paired_with (map call_id_name (handled @ [c])) (results @ [res])"
    using paired_with_append [OF h(3) res(2)] by simp
  then show ?thesis
    using h(1,2) res(1) by (auto simp: round_inv_def intro!: exI [of _ "handled @ [c]"])
qed

lemma finish_cancelled_paired:
  assumes "round_inv calls r" and "\<not> rr_finished r"
  shows "outcome_paired calls (snd (finish_cancelled r))"
proof -
  obtain handled results where h: "calls = handled @ rr_calls r"
    "rr_transcript r = seed_transcript calls @ results" "paired_with (map call_id_name handled) results"
    using assms by (auto simp: round_inv_def)
  then show ?thesis
    using paired_with_append [OF h(3) paired_skipped [of "rr_calls r"]]
    by (auto simp: outcome_paired_def finish_cancelled_def)
qed

lemma handle_call_finished [simp]: "rr_finished (handle_call x b c r) = rr_finished r"
  by (simp add: handle_call_def Let_def split: TurnToolCall.split prod.split)

lemma finish_cancelled_sel [simp]:
  "rr_finished (fst (finish_cancelled r))" "rr_calls (fst (finish_cancelled r)) = []"
  "ro_kind (snd (finish_cancelled r)) = ToolRoundKind_Cancelled"
  by (simp_all add: finish_cancelled_def)

lemma runner_next_paired:
  assumes "round_inv calls r" and "runner_next x b r = (r', s)"
  shows "round_inv calls r'
    \<and> (case s of Some (ToolRoundStep_Finished out) \<Rightarrow> rr_finished r' \<and> outcome_paired calls out | _ \<Rightarrow> True)"
  using assms
proof (induction x b r rule: runner_next.induct)
  case (1 x b r)
  show ?case
  proof (cases "rr_finished r")
    case True
    with 1 show ?thesis
      by (subst (asm) runner_next.simps) (auto simp: round_inv_def)
  next
    case live: False
    show ?thesis
    proof (cases "rr_pending_events r")
      case (Cons e es)
      with live 1 show ?thesis
        by (subst (asm) runner_next.simps) (auto simp: round_inv_def)
    next
      case no_events: Nil
      consider (cancel) "rr_finish_cancelled_after_events r \<or> (b \<and> rr_calls r \<noteq> [])"
        | (empty) "\<not> rr_finish_cancelled_after_events r" "rr_calls r = []"
        | (call) c cs where "\<not> rr_finish_cancelled_after_events r" "rr_calls r = c # cs" "\<not> b"
        by (cases "rr_calls r") auto
      then show ?thesis
      proof cases
        case cancel
        define q where "q = r\<lparr>rr_finish_cancelled_after_events := False\<rparr>"
        have "round_inv calls q" "\<not> rr_finished q"
          using 1(2) live by (simp_all add: q_def round_inv_def)
        note paired = finish_cancelled_paired [OF this] finish_cancelled_paired [OF 1(2) live]
        have "(r', s) = (fst (finish_cancelled q), Some (ToolRoundStep_Finished (snd (finish_cancelled q))))
            \<or> (r', s) = (fst (finish_cancelled r), Some (ToolRoundStep_Finished (snd (finish_cancelled r))))"
          using 1(3) live no_events cancel
          by (subst (asm) runner_next.simps) (auto simp: q_def split: list.splits if_splits prod.splits)
        then show ?thesis
          using paired by (auto simp: round_inv_def)
      next
        case empty
        with 1 live no_events show ?thesis
          by (subst (asm) runner_next.simps) (auto simp: round_inv_def outcome_paired_def)
      next
        case call
        have "runner_next x b (handle_call x b c (r\<lparr>rr_calls := cs\<rparr>)) = (r', s)"
          using 1(3) live no_events call by (subst (asm) runner_next.simps) simp
        with 1(1) [OF live no_events call(1,2,3) round_inv_handle [OF 1(2) live call(2)]] show ?thesis
          by simp
      qed
    qed
  qed
qed

text \<open>A host that pulls until the round is finished; \<open>cancels k\<close> is its token at the \<open>k\<close>-th pull.\<close>

lemma runner_next_event_decreases:
  assumes "runner_next x b r = (r', Some (ToolRoundStep_Event e))"
  shows "length (rr_calls r') < length (rr_calls r)
    \<or> rr_calls r' = rr_calls r \<and> length (rr_pending_events r') < length (rr_pending_events r)"
  using assms
proof (induction x b r rule: runner_next.induct)
  case (1 x b r)
  have live: "\<not> rr_finished r"
    using 1(2) by (subst (asm) runner_next.simps) (auto split: if_splits)
  show ?case
  proof (cases "rr_pending_events r")
    case (Cons e es)
    with live 1(2) show ?thesis
      by (subst (asm) runner_next.simps) auto
  next
    case Nil
    then have "\<not> rr_finish_cancelled_after_events r"
      using live 1(2) by (subst (asm) runner_next.simps) (auto split: if_splits prod.splits)
    moreover obtain c cs where cs: "rr_calls r = c # cs" "\<not> b"
      using live 1(2) Nil calculation
      by (subst (asm) runner_next.simps) (auto split: if_splits prod.splits list.splits)
    ultimately have "runner_next x b (handle_call x b c (r\<lparr>rr_calls := cs\<rparr>)) = (r', Some (ToolRoundStep_Event e))"
      using live 1(2) Nil by (subst (asm) runner_next.simps) simp
    with 1(1) [OF live Nil \<open>\<not> rr_finish_cancelled_after_events r\<close> cs] show ?thesis
      by (auto simp: cs)
  qed
qed

function drive ::
    "'e executor \<Rightarrow> (nat \<Rightarrow> bool) \<Rightarrow> nat \<Rightarrow> 'e ToolRoundRunner
      \<Rightarrow> ToolLoopEvent list \<times> ToolRoundOutcome option \<times> 'e ToolRoundRunner" where
  "drive x cancels k r =
     (case runner_next x (cancels k) r of
        (r, None) \<Rightarrow> ([], None, r)
      | (r, Some (ToolRoundStep_Finished out)) \<Rightarrow> ([], Some out, r)
      | (r, Some (ToolRoundStep_Event e)) \<Rightarrow>
          (let (events, out, r) = drive x cancels (k + 1) r in (e # events, out, r)))"
  by pat_completeness auto

termination
  by (relation "inv_image (less_than <*lex*> less_than)
    (\<lambda>(_, _, _, r). (length (rr_calls r), length (rr_pending_events r)))")
    (auto dest!: sym [of "(_, _)"] runner_next_event_decreases)

declare drive.simps [simp del]

lemma drive_paired:
  assumes "round_inv calls r" and "\<not> rr_finished r"
  shows "\<exists>out. fst (snd (drive x cancels k r)) = Some out \<and> outcome_paired calls out"
  using assms
proof (induction x cancels k r rule: drive.induct)
  case (1 x cancels k r)
  obtain r' s where s: "runner_next x (cancels k) r = (r', s)"
    by fastforce
  note kept = runner_next_paired [OF 1(2) s]
  show ?case
  proof (cases s)
    case None
    then have False
      using s 1(3)
    proof (induction x "cancels k" r rule: runner_next.induct)
      case (1 x r)
      show ?case
        using 1(2-4) 1(1)
        by (subst (asm) runner_next.simps) (auto split: list.splits if_splits prod.splits)
    qed
    then show ?thesis ..
  next
    case (Some step)
    show ?thesis
    proof (cases step)
      case (ToolRoundStep_Event e)
      have "\<not> rr_finished r'"
        using s Some ToolRoundStep_Event
      proof (induction x "cancels k" r rule: runner_next.induct)
        case (1 x r)
        show ?case
          using 1(2-4) 1(1)
          by (subst (asm) runner_next.simps) (auto split: list.splits if_splits prod.splits)
      qed
      then have "\<exists>out. fst (snd (drive x cancels (k + 1) r')) = Some out \<and> outcome_paired calls out"
        using 1(1) [OF s [symmetric] Some ToolRoundStep_Event] kept by blast
      then show ?thesis
        using s Some ToolRoundStep_Event
        by (cases "drive x cancels (Suc k) r'") (subst drive.simps, simp)
    next
      case (ToolRoundStep_Finished out)
      with s Some kept show ?thesis
        by (subst drive.simps) simp
    qed
  qed
qed

lemma outcome_event_shape:
  "outcome_event i n res \<in> {ToolCompleted i n s | s. True} \<union> {ToolFailed i n m | m. True} \<union> {ToolCancelled i n}"
  by (cases res) auto

text \<open>The seeded calls followed by their results pass the pairing check.\<close>

lemma pairing_seeds:
  "distinct (map fst m @ map (fst \<circ> call_id_name) calls) \<Longrightarrow> list_all (\<lambda>c. fst (call_id_name c) \<noteq> []) calls \<Longrightarrow>
     pairing m (seed_transcript calls) = Ok (m @ map call_id_name calls)"
proof (induction calls arbitrary: m)
  case (Cons c cs)
  obtain i n inp where c: "seed_item c = AssistantToolCall i n inp" "call_id_name c = (i, n)"
    by (cases c) auto
  with Cons.prems have "i \<noteq> []" "i \<notin> fst ` set m"
    by auto
  moreover have "pairing (m @ [(i, n)]) (seed_transcript cs) = Ok ((m @ [(i, n)]) @ map call_id_name cs)"
    using Cons.prems c by (intro Cons.IH) auto
  ultimately show ?case
    using c by (simp add: seed_transcript_def)
qed (simp add: seed_transcript_def)

lemma pairing_results:
  "paired_with ps results \<Longrightarrow> distinct (map fst ps) \<Longrightarrow> pairing ps results = Ok []"
proof (induction ps results rule: paired_with.induct)
  case (2 i n cs i' n' r items)
  then have "filter (\<lambda>e. fst e \<noteq> i) cs = cs"
    by (intro filter_absent) auto
  with 2 show ?case
    by simp
qed simp_all

lemma pairing_round:
  assumes "outcome_paired calls out" and "distinct (map (fst \<circ> call_id_name) calls)"
    and "list_all (\<lambda>c. fst (call_id_name c) \<noteq> []) calls"
  shows "pairing [] (ro_transcript out) = Ok []"
proof -
  obtain results where r: "ro_transcript out = seed_transcript calls @ results" "paired_with (map call_id_name calls) results"
    using assms(1) by (auto simp: outcome_paired_def)
  have "pairing [] (seed_transcript calls) = Ok (map call_id_name calls)"
    using pairing_seeds [of "[]" calls] assms by simp
  with r pairing_results [OF r(2)] assms(2) show ?thesis
    by (simp add: pairing_append)
qed

subsection \<open>Properties\<close>

text \<open>
  C2.  A tool runs exactly when every gate lets it: it is on the approved surface, the policy
  allows its capability (or asks, for a tool that supports review), and where the tool needs
  approval the exact action was approved on record or by the host when asked.  Otherwise the
  call is denied, no tool runs, and the world changes only through the resolver's prompt.
\<close>

theorem tool_runs_only_when_authorised:
  assumes "registry_get (hx_registry x) (xc_tool_name call) = Some tool"
  shows "if authorised to_json x tool call h
    then (let (g, _) = call_gates to_json x tool call h; (w, res) = execute_guarded tool (xc_input call) b (hs_world g)
          in fst (execute_call to_json x call b h) = g\<lparr>hs_world := w\<rparr>
             \<and> tx_result (snd (execute_call to_json x call b h)) = res
             \<and> (requires_approval tool \<longrightarrow> ledger_view (hs_approvals g) (call_key to_json x call) = None))
    else (\<exists>msg. tx_result (snd (execute_call to_json x call b h)) = ToolExecutionResult_Denied msg)
         \<and> fst (execute_call to_json x call b h) = fst (call_gates to_json x tool call h)"
proof (cases "snd (call_gates to_json x tool call h)")
  case None
  then obtain g where g: "call_gates to_json x tool call h = (g, None)"
    by (metis prod.collapse)
  have "requires_approval tool \<Longrightarrow> ledger_view (hs_approvals g) (call_key to_json x call) = None"
    using call_gates_ledger [OF g] by blast
  moreover have "authorised to_json x tool call h"
    using None by (simp add: call_gates_None_iff)
  ultimately show ?thesis
    using assms g by (simp add: execute_call_def Let_def split: prod.split)
next
  case (Some msg)
  then obtain g where g: "call_gates to_json x tool call h = (g, Some msg)"
    by (metis prod.collapse)
  have "\<not> authorised to_json x tool call h"
    using Some by (simp add: call_gates_None_iff [symmetric])
  then show ?thesis
    using assms g by (simp add: execute_call_def stopped_def Let_def)
qed

theorem tool_runs_only_when_authorised_witness:
  "let tool = \<lparr> tool_definition = \<lparr> td_name = ''read'', td_description = '''', td_input_schema = Value_Null \<rparr>,
         tool_capability = ''workspace.read'', requires_approval = False,
         approval_preview = \<lambda>_ _. None,
         tool_execute = \<lambda>_ _ w. (w + 1, Some (ToolExecutionResult_Success Value_Null ''done'')) \<rparr>;
       x = \<lparr> hx_registry = \<lparr> tg_entries = [tool], tg_index = [''read'' \<mapsto> 0] \<rparr>,
         hx_policy = from_rules [\<lparr> por_capability = ''workspace.read'', por_rule = PermissionRule_Allow \<rparr>],
         hx_surface = Some [''read''], hx_task_revision = None, hx_resolver = None \<rparr>;
       call = \<lparr> xc_call_id = ''c1'', xc_tool_name = ''read'', xc_input = Value_Null, xc_ordered_json = None \<rparr>;
       h = \<lparr> hs_approvals = ActionApprovals_new, hs_world = 0 :: nat \<rparr>
   in tx_result (snd (execute_call (\<lambda>_. ''null'') x call False h)) = ToolExecutionResult_Success Value_Null ''done''
      \<and> hs_world (fst (execute_call (\<lambda>_. ''null'') x call False h)) = 1"
proof -
  define tool where "tool = \<lparr> tool_definition = \<lparr> td_name = ''read'', td_description = '''', td_input_schema = Value_Null \<rparr>,
         tool_capability = ''workspace.read'', requires_approval = False,
         approval_preview = \<lambda>_ _. None,
         tool_execute = \<lambda>_ _ w :: nat. (w + 1, Some (ToolExecutionResult_Success Value_Null ''done'')) \<rparr>"
  define x where "x = \<lparr> hx_registry = \<lparr> tg_entries = [tool], tg_index = [''read'' \<mapsto> 0] \<rparr>,
         hx_policy = from_rules [\<lparr> por_capability = ''workspace.read'', por_rule = PermissionRule_Allow \<rparr>],
         hx_surface = Some [''read''], hx_task_revision = None, hx_resolver = None \<rparr>"
  define call where
    "call = \<lparr> xc_call_id = ''c1'', xc_tool_name = ''read'', xc_input = Value_Null, xc_ordered_json = None \<rparr>"
  define h where "h = \<lparr> hs_approvals = ActionApprovals_new, hs_world = 0 :: nat \<rparr>"
  have found: "registry_get (hx_registry x) (xc_tool_name call) = Some tool"
    by (simp add: x_def call_def registry_get_def)
  have rule: "evaluate_permission (tool_capability tool) (hx_policy x) = PermissionDecision_Allow"
    by (simp add: x_def tool_def evaluate_permission_def policy_rule_def from_rules_def bm_get_def)
  have g: "call_gates (\<lambda>_. ''null'') x tool call h = (h, None)"
    using rule by (simp add: call_gates_def x_def call_def tool_def)
  then have "authorised (\<lambda>_. ''null'') x tool call h"
    by (simp add: call_gates_None_iff [symmetric])
  with tool_runs_only_when_authorised [OF found, of "\<lambda>_. ''null''" h False] g
  have "tx_result (snd (execute_call (\<lambda>_. ''null'') x call False h)) = ToolExecutionResult_Success Value_Null ''done''
      \<and> hs_world (fst (execute_call (\<lambda>_. ''null'') x call False h)) = 1"
    by (simp add: execute_guarded_def tool_def h_def)
  then show ?thesis
    unfolding Let_def tool_def x_def call_def h_def by simp
qed

text \<open>
  Every call reports its start and exactly one outcome, under its own id and name, whatever
  the gates and the tool do (a panicking tool included).
\<close>

theorem call_reports_start_and_one_outcome:
  "\<exists>d e. tx_events (snd (execute_call to_json x call b h)) = [ToolStarted (xc_call_id call) (xc_tool_name call) d, e]
     \<and> e \<in> {ToolCompleted (xc_call_id call) (xc_tool_name call) s | s. True}
          \<union> {ToolFailed (xc_call_id call) (xc_tool_name call) m | m. True}
          \<union> {ToolCancelled (xc_call_id call) (xc_tool_name call)}"
  using outcome_event_shape
  by (auto simp: execute_call_def stopped_def failure_event_def Let_def split: option.split prod.split)

text \<open>
  C24.  A round always ends, under any executor and any sequence of cancellations, and its
  transcript is every retained call in order followed by exactly one result for each, in the
  same order and with the same ids and names.
\<close>

theorem round_pairs_every_call:
  "\<exists>out results. fst (snd (drive execute cancels k (runner_new calls e))) = Some out
     \<and> ro_transcript out = seed_transcript calls @ results \<and> paired_with (map call_id_name calls) results"
  using drive_paired [OF round_inv_new, of calls e execute cancels k]
  by (auto simp: runner_new_def outcome_paired_def)

text \<open>
  A round keeps the conversation valid: when the history passes the pairing check and the
  retained calls have distinct non-empty ids, the history extended by the transcript of the
  round passes it too.
\<close>

theorem round_keeps_conversation_valid:
  assumes "validate_conversation_items history = Ok u"
    and "distinct (map (fst \<circ> call_id_name) calls)" and "list_all (\<lambda>c. fst (call_id_name c) \<noteq> []) calls"
    and "fst (snd (drive execute cancels k (runner_new calls e))) = Some out"
  shows "validate_conversation_items (history @ ro_transcript out) = Ok ()"
proof -
  have "outcome_paired calls out"
    using drive_paired [OF round_inv_new, of calls e execute cancels k] assms(4) by (simp add: runner_new_def)
  from pairing_round [OF this assms(2,3)] show ?thesis
    using assms(1) by (simp add: validate_conversation_items_pairing pairing_ok_Ok_iff pairing_append)
qed

theorem round_keeps_conversation_valid_witness:
  "\<exists>out :: ToolRoundOutcome. validate_conversation_items ([UserMessage ''hi''] @ ro_transcript out) = Ok () \<and> length (ro_transcript out) = 2"
proof -
  let ?calls = "[TurnToolCall_Invalid ''c1'' ''read'' ''bad'']"
  let ?x = "\<lambda>call b e. (e, \<lparr> tx_events = [], tx_result = ToolExecutionResult_Failed ''no'' \<rparr>)"
  obtain out where out: "fst (snd (drive ?x (\<lambda>_. False) 0 (runner_new ?calls ()))) = Some out" "outcome_paired ?calls out"
    using drive_paired [OF round_inv_new, of ?calls "()" ?x "\<lambda>_. False" 0] by (auto simp: runner_new_def)
  have "length (ro_transcript out) = 2"
  proof -
    obtain results where "ro_transcript out = seed_transcript ?calls @ results" "paired_with [(''c1'', ''read'')] results"
      using out(2) by (auto simp: outcome_paired_def)
    then show ?thesis
      by (cases "([(''c1'', ''read'')], results)" rule: paired_with.cases; cases results)
        (auto simp: seed_transcript_def elim: paired_with.elims)
  qed
  moreover have "validate_conversation_items [UserMessage ''hi''] = Ok ()"
    by (simp add: validate_conversation_items_def first_unresolved_def)
  then have "validate_conversation_items ([UserMessage ''hi''] @ ro_transcript out) = Ok ()"
    by (rule round_keeps_conversation_valid [OF _ _ _ out(1)]) simp_all
  ultimately show ?thesis
    by (intro exI [of _ out] conjI)
qed

end
