(* ===== verification/Context_Budget.thy ===== *)
theory Context_Budget
  imports Conversation Machine
begin

text \<open>
  The budget side of the projection: capacity, token estimates, pressure, the disposable
  cache and the reduction of a conversation (\<open>projection/capacity.rs\<close>, \<open>estimator.rs\<close>,
  \<open>pressure.rs\<close>, \<open>cache.rs\<close>, \<open>trim.rs\<close>).  Byte and token counts are sums over texts in
  memory and are natural numbers here; ratios are exact rationals.
\<close>

subsection \<open>Capacity\<close>

record ContextCapacity =
  advertised_maximum :: "nat option"
  verified_maximum :: "nat option"
  working_maximum :: int
  max_output_tokens :: "nat option"

definition DEFAULT_WORKING_MAXIMUM :: int where
  "DEFAULT_WORKING_MAXIMUM = 32768"

definition DEFAULT_MAX_OUTPUT_TOKENS :: nat where
  "DEFAULT_MAX_OUTPUT_TOKENS = 4096"

definition ContextCapacity_default :: ContextCapacity where
  "ContextCapacity_default =
     \<lparr> advertised_maximum = None, verified_maximum = None, working_maximum = DEFAULT_WORKING_MAXIMUM,
       max_output_tokens = Some DEFAULT_MAX_OUTPUT_TOKENS \<rparr>"

definition with_working_maximum :: "int \<Rightarrow> ContextCapacity" where
  "with_working_maximum m = ContextCapacity_default\<lparr>working_maximum := m\<rparr>"

subsection \<open>Estimates\<close>

definition div_ceil :: "nat \<Rightarrow> nat \<Rightarrow> nat" where
  "div_ceil a b = (a + b - 1) div b"

definition estimate_tokens :: "string \<Rightarrow> nat" where
  "estimate_tokens t = (if t = [] then 0 else div_ceil (length t) 4)"

definition estimate_json_tokens :: "serializer \<Rightarrow> Value \<Rightarrow> nat" where
  "estimate_json_tokens to_json value = estimate_tokens (to_json value)"

record TokenEstimate =
  te_tokens :: nat
  te_bytes :: nat

definition item_bytes :: "serializer \<Rightarrow> ConversationItem \<Rightarrow> nat" where
  "item_bytes to_json item =
     (case item of
        UserMessage content \<Rightarrow> length content
      | AssistantMessage content \<Rightarrow> length content
      | AssistantToolCall call_id tool_name input \<Rightarrow>
          length call_id + length tool_name
            + (case input of
                 AssistantToolCallInput_Present value \<Rightarrow> length (to_json value)
               | AssistantToolCallInput_Omitted \<Rightarrow> 0)
      | ToolResult call_id tool_name result \<Rightarrow>
          length call_id + length tool_name
            + (case result of ToolExecutionResult_Success _ summary \<Rightarrow> length summary | other \<Rightarrow> length (result_message other)))"

definition estimate_conversation_item_tokens :: "serializer \<Rightarrow> ConversationItem \<Rightarrow> TokenEstimate" where
  "estimate_conversation_item_tokens to_json item =
     (let bytes = item_bytes to_json item
      in \<lparr> te_tokens = (if bytes = 0 then 0 else div_ceil bytes 4), te_bytes = bytes \<rparr>)"

definition item_tokens :: "serializer \<Rightarrow> ConversationItem \<Rightarrow> nat" where
  "item_tokens to_json item = te_tokens (estimate_conversation_item_tokens to_json item)"

definition estimate_conversation_tokens :: "serializer \<Rightarrow> ConversationItem list \<Rightarrow> nat" where
  "estimate_conversation_tokens to_json items = sum_list (map (item_tokens to_json) items)"

subsection \<open>Pressure\<close>

datatype PressureState = PressureState_Normal | PressureState_Warn | PressureState_Auto | PressureState_Hard

fun PressureState_as_str :: "PressureState \<Rightarrow> string" where
  "PressureState_as_str PressureState_Normal = ''normal''"
| "PressureState_as_str PressureState_Warn = ''warn''"
| "PressureState_as_str PressureState_Auto = ''auto''"
| "PressureState_as_str PressureState_Hard = ''hard''"

record PressureLimits =
  warn_ratio :: rat
  auto_ratio :: rat
  hard_ratio :: rat

definition PressureLimits_default :: PressureLimits where
  "PressureLimits_default = \<lparr> warn_ratio = 70 / 100, auto_ratio = 85 / 100, hard_ratio = 1 \<rparr>"

record ContextPressure =
  cp_state :: PressureState
  cp_estimated_tokens :: nat
  cp_working_maximum :: int
  cp_ratio :: rat

definition f64_round :: "rat \<Rightarrow> int" where
  "f64_round q = (if 0 \<le> q then \<lfloor>q + 1 / 2\<rfloor> else \<lceil>q - 1 / 2\<rceil>)"

definition ge_ratio :: "nat \<Rightarrow> int \<Rightarrow> rat \<Rightarrow> bool" where
  "ge_ratio estimated working ratio =
     (let scaled = f64_round (ratio * 100)
      in if scaled = 70 \<or> scaled = 85 \<or> scaled = 100 then working * scaled \<le> int estimated * 100
         else of_int working * ratio \<le> of_nat estimated)"

definition classify_pressure :: "nat \<Rightarrow> int \<Rightarrow> PressureLimits \<Rightarrow> ContextPressure" where
  "classify_pressure estimated working limits =
     (if working \<le> 0 then
        \<lparr> cp_state = PressureState_Hard, cp_estimated_tokens = estimated, cp_working_maximum = working, cp_ratio = 1 \<rparr>
      else
        \<lparr> cp_state =
            (if ge_ratio estimated working (hard_ratio limits) then PressureState_Hard
             else if ge_ratio estimated working (auto_ratio limits) then PressureState_Auto
             else if ge_ratio estimated working (warn_ratio limits) then PressureState_Warn
             else PressureState_Normal),
          cp_estimated_tokens = estimated, cp_working_maximum = working,
          cp_ratio = of_nat estimated / of_int working \<rparr>)"

subsection \<open>The disposable cache\<close>

text \<open>The hash map is only looked up by key, so it is kept as a finite map.\<close>

definition HIGH_WATERMARK :: nat where
  "HIGH_WATERMARK = 64"

definition LOW_WATERMARK :: nat where
  "LOW_WATERMARK = 32"

record 'v WatermarkCache =
  wc_high :: nat
  wc_low :: nat
  wc_order :: "string list"
  wc_map :: "(string, 'v) btree_map"

text \<open>\<open>None\<close> is the failed assertion.\<close>

definition with_watermarks :: "nat \<Rightarrow> nat \<Rightarrow> 'v WatermarkCache option" where
  "with_watermarks high low =
     (if 1 \<le> high \<and> low < high then Some \<lparr> wc_high = high, wc_low = low, wc_order = [], wc_map = [] \<rparr> else None)"

definition WatermarkCache_new :: "'v WatermarkCache" where
  "WatermarkCache_new = the (with_watermarks HIGH_WATERMARK LOW_WATERMARK)"

definition cache_len :: "'v WatermarkCache \<Rightarrow> nat" where
  "cache_len c = length (wc_map c)"

definition cache_get :: "'v WatermarkCache \<Rightarrow> string \<Rightarrow> 'v option" where
  "cache_get c key = bm_get (wc_map c) key"

fun evict :: "nat \<Rightarrow> 'v WatermarkCache \<Rightarrow> 'v WatermarkCache" where
  "evict 0 c = c"
| "evict (Suc n) c =
     evict n (case wc_order c of
        [] \<Rightarrow> c
      | oldest # order \<Rightarrow> c\<lparr>wc_order := order, wc_map := bm_remove oldest (wc_map c)\<rparr>)"

definition cache_insert :: "string \<Rightarrow> 'v \<Rightarrow> 'v WatermarkCache \<Rightarrow> 'v WatermarkCache" where
  "cache_insert key v c =
     (let is_new = (bm_get (wc_map c) key = None);
          c = c\<lparr>wc_map := bm_insert key v (wc_map c)\<rparr>;
          c = (if is_new then c\<lparr>wc_order := wc_order c @ [key]\<rparr> else c)
      in if wc_high c < length (wc_map c) then evict (length (wc_map c) - wc_low c) c else c)"

definition cache_clear :: "'v WatermarkCache \<Rightarrow> 'v WatermarkCache" where
  "cache_clear c = c\<lparr>wc_map := [], wc_order := []\<rparr>"

record 'v RevisionBoundCache =
  rb_inner :: "'v WatermarkCache"
  rb_bound_revision :: "nat option"

definition RevisionBoundCache_new :: "'v RevisionBoundCache" where
  "RevisionBoundCache_new = \<lparr> rb_inner = WatermarkCache_new, rb_bound_revision = None \<rparr>"

definition bound_get :: "'v RevisionBoundCache \<Rightarrow> string \<Rightarrow> 'v option" where
  "bound_get c key = cache_get (rb_inner c) key"

definition bound_len :: "'v RevisionBoundCache \<Rightarrow> nat" where
  "bound_len c = cache_len (rb_inner c)"

definition ensure_revision :: "nat option \<Rightarrow> 'v RevisionBoundCache \<Rightarrow> 'v RevisionBoundCache" where
  "ensure_revision revision c =
     (if revision \<noteq> rb_bound_revision c then
        c\<lparr>rb_inner := cache_clear (rb_inner c), rb_bound_revision := revision\<rparr>
      else c)"

definition bound_insert :: "nat option \<Rightarrow> string \<Rightarrow> 'v \<Rightarrow> 'v RevisionBoundCache \<Rightarrow> 'v RevisionBoundCache" where
  "bound_insert revision key v c =
     (let c = (if revision \<noteq> rb_bound_revision c then
                 c\<lparr>rb_inner := cache_clear (rb_inner c), rb_bound_revision := revision\<rparr>
               else c)
      in c\<lparr>rb_inner := cache_insert key v (rb_inner c)\<rparr>)"

definition bound_clear :: "'v RevisionBoundCache \<Rightarrow> 'v RevisionBoundCache" where
  "bound_clear c = c\<lparr>rb_inner := cache_clear (rb_inner c)\<rparr>"

subsection \<open>Reduction\<close>

record TrimResult =
  tr_items :: "ConversationItem list"
  tr_estimated_tokens :: nat
  tr_dropped_items :: nat

text \<open>The scan; \<open>held\<close> maps the ids of calls whose result has not come yet to the calls.\<close>

fun trim_loop ::
    "serializer \<Rightarrow> nat \<Rightarrow> ConversationItem list \<Rightarrow> (string, ConversationItem) btree_map \<Rightarrow> nat
      \<Rightarrow> ConversationItem list \<Rightarrow> ConversationItem list \<times> nat" where
  "trim_loop to_json max_tokens kept held tokens [] = (kept, tokens)"
| "trim_loop to_json max_tokens kept held tokens (AssistantToolCall call_id n v # items) =
     trim_loop to_json max_tokens kept (bm_insert call_id (AssistantToolCall call_id n v) held) tokens items"
| "trim_loop to_json max_tokens kept held tokens (ToolResult call_id n res # items) =
     (case bm_get held call_id of
        Some call \<Rightarrow>
          let pair_tokens = item_tokens to_json call + item_tokens to_json (ToolResult call_id n res);
              held = bm_remove call_id held
          in if tokens + pair_tokens \<le> max_tokens then
               trim_loop to_json max_tokens (kept @ [call, ToolResult call_id n res]) held (tokens + pair_tokens) items
             else trim_loop to_json max_tokens kept held tokens items
      | None \<Rightarrow>
          trim_loop to_json max_tokens (kept @ [ToolResult call_id n res]) held
            (tokens + item_tokens to_json (ToolResult call_id n res)) items)"
| "trim_loop to_json max_tokens kept held tokens (UserMessage t # items) =
     trim_loop to_json max_tokens (kept @ [UserMessage t]) held (tokens + item_tokens to_json (UserMessage t)) items"
| "trim_loop to_json max_tokens kept held tokens (AssistantMessage t # items) =
     (if tokens + item_tokens to_json (AssistantMessage t) \<le> max_tokens then
        trim_loop to_json max_tokens (kept @ [AssistantMessage t]) held
          (tokens + item_tokens to_json (AssistantMessage t)) items
      else trim_loop to_json max_tokens kept held tokens items)"

definition trim_conversation_preserving_pairs ::
    "serializer \<Rightarrow> ConversationItem list \<Rightarrow> nat \<Rightarrow> TrimResult" where
  "trim_conversation_preserving_pairs to_json items max_tokens =
     (let original_tokens = estimate_conversation_tokens to_json items;
          untouched = \<lparr> tr_items = items, tr_estimated_tokens = original_tokens, tr_dropped_items = 0 \<rparr>
      in if original_tokens \<le> max_tokens then untouched
         else case validate_conversation_items items of
           Err _ \<Rightarrow> untouched
         | Ok _ \<Rightarrow>
             let (kept, tokens) = trim_loop to_json max_tokens [] [] 0 items
             in \<lparr> tr_items = kept, tr_estimated_tokens = tokens, tr_dropped_items = length items - length kept \<rparr>)"

subsection \<open>The cache keeps its invariant\<close>

definition cache_wf :: "'v WatermarkCache \<Rightarrow> bool" where
  "cache_wf c \<longleftrightarrow> bm_wf (wc_map c) \<and> distinct (wc_order c) \<and> fst ` set (wc_map c) = set (wc_order c)
     \<and> length (wc_order c) \<le> wc_high c \<and> wc_high c = HIGH_WATERMARK \<and> wc_low c = LOW_WATERMARK"

lemma bm_get_None_iff: "bm_get m k = None \<longleftrightarrow> k \<notin> fst ` set m"
  by (simp add: bm_get_def map_of_eq_None_iff)

lemma keys_bm_remove: "fst ` set (bm_remove k m) = fst ` set m - {k}"
  by (auto simp: bm_remove_def)

lemma length_eq_order:
  "bm_wf m \<Longrightarrow> distinct order \<Longrightarrow> fst ` set m = set order \<Longrightarrow> length m = length order"
  by (metis bm_wf_distinct distinct_card image_set length_map)

text \<open>Eviction drops the oldest keys and leaves the others as they are.\<close>

lemma evict_effect:
  "bm_wf (wc_map c) \<Longrightarrow> distinct (wc_order c) \<Longrightarrow> fst ` set (wc_map c) = set (wc_order c) \<Longrightarrow>
     wc_order (evict n c) = drop n (wc_order c) \<and> bm_wf (wc_map (evict n c))
     \<and> fst ` set (wc_map (evict n c)) = set (drop n (wc_order c))
     \<and> (\<forall>k. bm_get (wc_map (evict n c)) k = (if k \<in> set (drop n (wc_order c)) then bm_get (wc_map c) k else None))
     \<and> wc_high (evict n c) = wc_high c \<and> wc_low (evict n c) = wc_low c"
proof (induction n arbitrary: c)
  case 0
  then show ?case
    using bm_get_None_iff [of "wc_map c"] by auto
next
  case (Suc n)
  show ?case
  proof (cases "wc_order c")
    case Nil
    with Suc.prems have "wc_map c = []"
      by simp
    with Nil Suc show ?thesis
      by simp
  next
    case (Cons oldest order)
    define d where "d = c\<lparr>wc_order := order, wc_map := bm_remove oldest (wc_map c)\<rparr>"
    have "bm_wf (wc_map d)" "distinct (wc_order d)" "fst ` set (wc_map d) = set (wc_order d)"
      using Suc.prems Cons by (auto simp: d_def keys_bm_remove)
    note IH = Suc.IH [OF this]
    have "k \<in> set (drop n order) \<Longrightarrow> bm_get (wc_map d) k = bm_get (wc_map c) k" for k
      using Suc.prems(2) Cons in_set_dropD [of k n order] by (auto simp: d_def)
    moreover have "evict (Suc n) c = evict n d" "wc_order d = order" "wc_high d = wc_high c" "wc_low d = wc_low c"
      by (simp_all add: Cons d_def)
    ultimately show ?thesis
      using IH by (simp add: Cons)
  qed
qed

lemma cache_insert_effect:
  fixes key :: string and c :: "'v WatermarkCache" and v :: 'v
  assumes "cache_wf c"
  defines "order \<equiv> (if key \<in> set (wc_order c) then wc_order c else wc_order c @ [key])"
  shows "wc_order (cache_insert key v c) = (if HIGH_WATERMARK < length order then drop (length order - LOW_WATERMARK) order else order)"
    and "cache_wf (cache_insert key v c)"
    and "cache_get (cache_insert key v c) k
      = (if k = key then Some v else if k \<in> set (wc_order (cache_insert key v c)) then cache_get c k else None)"
proof -
  define d where "d = c\<lparr>wc_map := bm_insert key v (wc_map c), wc_order := order\<rparr>"
  have wf: "bm_wf (wc_map d)" "distinct (wc_order d)" "fst ` set (wc_map d) = set (wc_order d)"
    using assms by (auto simp: d_def cache_wf_def keys_bm_insert)
  have ins: "cache_insert key v c = (if wc_high d < length (wc_map d) then evict (length (wc_map d) - wc_low d) d else d)"
    using assms(1) by (auto simp: cache_insert_def d_def order_def Let_def cache_wf_def bm_get_None_iff)
  have len: "length (wc_map d) = length order"
    using length_eq_order [OF wf] by (simp add: d_def)
  have marks: "wc_high d = HIGH_WATERMARK" "wc_low d = LOW_WATERMARK" "wc_order d = order"
    using assms(1) by (simp_all add: d_def cache_wf_def)
  note evicted = evict_effect [OF wf, of "length order - LOW_WATERMARK", unfolded marks]
  show ord: "wc_order (cache_insert key v c)
      = (if HIGH_WATERMARK < length order then drop (length order - LOW_WATERMARK) order else order)"
    using evicted by (simp add: ins len marks)
  show "cache_wf (cache_insert key v c)"
    using wf evicted by (auto simp: cache_wf_def ins len marks HIGH_WATERMARK_def LOW_WATERMARK_def)
  have "key \<in> set (drop (length order - LOW_WATERMARK) order)" if "HIGH_WATERMARK < length order"
  proof -
    have "order = wc_order c @ [key]"
      using that assms by (auto simp: cache_wf_def order_def split: if_splits)
    then show ?thesis
      by (simp add: LOW_WATERMARK_def)
  qed
  moreover have "bm_get (wc_map d) k = (if k = key then Some v else bm_get (wc_map c) k)"
    by (simp add: d_def)
  moreover have "k \<notin> set order \<Longrightarrow> bm_get (wc_map c) k = None"
    using assms(1) bm_get_None_iff [of "wc_map c"] by (auto simp: order_def cache_wf_def split: if_splits)
  ultimately show "cache_get (cache_insert key v c) k
      = (if k = key then Some v else if k \<in> set (wc_order (cache_insert key v c)) then cache_get c k else None)"
    using evicted unfolding ord by (auto simp: cache_get_def ins len marks)
qed

datatype 'v cache_op = Cache_Insert string 'v | Cache_Clear

fun cache_step :: "'v cache_op \<Rightarrow> 'v WatermarkCache \<Rightarrow> 'v WatermarkCache" where
  "cache_step (Cache_Insert key v) c = cache_insert key v c"
| "cache_step Cache_Clear c = cache_clear c"

interpretation cache: machine "\<lambda>c. c = WatermarkCache_new" cache_step cache_wf
proof
  show "cache_wf (cache_step x s)" if "cache_wf s" for s :: "'a WatermarkCache" and x
  proof (cases x)
    case (Cache_Insert key v)
    then show ?thesis
      using cache_insert_effect(2) [OF that] by simp
  next
    case Cache_Clear
    then show ?thesis
      using that by (simp add: cache_clear_def cache_wf_def)
  qed
qed (simp add: WatermarkCache_new_def with_watermarks_def cache_wf_def HIGH_WATERMARK_def LOW_WATERMARK_def)

subsection \<open>Reduction keeps the pairing\<close>

fun is_user_item :: "ConversationItem \<Rightarrow> bool" where
  "is_user_item (UserMessage _) = True"
| "is_user_item _ = False"

definition held_ok :: "(string, ConversationItem) btree_map \<Rightarrow> string set \<Rightarrow> bool" where
  "held_ok held ids \<longleftrightarrow> (\<forall>i. bm_get held i = None \<longleftrightarrow> i \<notin> ids)
     \<and> (\<forall>i call. bm_get held i = Some call \<longrightarrow> i \<noteq> [] \<and> (\<exists>n v. call = AssistantToolCall i n v))"

lemma held_ok_insert:
  "held_ok held (fst ` set m) \<Longrightarrow> i \<noteq> [] \<Longrightarrow> held_ok (bm_insert i (AssistantToolCall i n v) held) (fst ` set (m @ [(i, n)]))"
proof -
  have "held_ok held ids \<Longrightarrow> i \<noteq> [] \<Longrightarrow> held_ok (bm_insert i (AssistantToolCall i n v) held) (insert i ids)" for ids
    by (auto simp: held_ok_def)
  then show "held_ok held (fst ` set m) \<Longrightarrow> i \<noteq> [] \<Longrightarrow> ?thesis"
    by simp
qed

lemma held_ok_remove: "held_ok held (fst ` set m) \<Longrightarrow> held_ok (bm_remove i held) (fst ` set (filter (\<lambda>e. fst e \<noteq> i) m))"
proof -
  have "held_ok held ids \<Longrightarrow> held_ok (bm_remove i held) (ids - {i})" for ids
    by (auto simp: held_ok_def)
  moreover have "fst ` set (filter (\<lambda>e. fst e \<noteq> i) m) = fst ` set m - {i}"
    by auto
  ultimately show "held_ok held (fst ` set m) \<Longrightarrow> ?thesis"
    by simp
qed

lemma held_ok_get:
  "held_ok held ids \<Longrightarrow> i \<in> ids \<Longrightarrow> \<exists>n v. bm_get held i = Some (AssistantToolCall i n v) \<and> i \<noteq> []"
  unfolding held_ok_def by (metis option.exhaust)

lemma pairing_UserE: "pairing m (UserMessage t # items) = Ok [] \<Longrightarrow> m = [] \<and> pairing [] items = Ok []"
  by (cases m) auto

lemma pairing_CallE:
  "pairing m (AssistantToolCall i n v # items) = Ok [] \<Longrightarrow> i \<noteq> [] \<and> pairing (m @ [(i, n)]) items = Ok []"
  by (simp split: if_splits)

lemma pairing_ResultE:
  "pairing m (ToolResult i n r # items) = Ok [] \<Longrightarrow>
     i \<in> fst ` set m \<and> pairing (filter (\<lambda>e. fst e \<noteq> i) m) items = Ok []"
  by (simp split: if_splits)

lemmas pairing_elims = pairing_UserE pairing_CallE pairing_ResultE

declare pairing.simps [simp del]

lemma pairing_single: "pairing [] [UserMessage t] = Ok []" "pairing [] [AssistantMessage t] = Ok []"
  "i \<noteq> [] \<Longrightarrow> pairing [] [AssistantToolCall i n v, ToolResult i n' r] = Ok []"
  by (simp_all add: pairing.simps)

lemma pairing_kept: "pairing [] kept = Ok [] \<Longrightarrow> pairing [] (kept @ xs) = pairing [] xs"
  by (simp add: pairing_append)

lemma trim_loop_pairing:
  "pairing m items = Ok [] \<Longrightarrow> held_ok held (fst ` set m) \<Longrightarrow> pairing [] kept = Ok [] \<Longrightarrow>
     pairing [] (fst (trim_loop to_json max_tokens kept held tokens items)) = Ok []"
proof (induction to_json max_tokens kept held tokens items arbitrary: m rule: trim_loop.induct)
  case (2 to_json max_tokens kept held tokens i n v items)
  have "i \<noteq> []" "pairing (m @ [(i, n)]) items = Ok []"
    using pairing_CallE [OF 2(2)] by simp_all
  from 2(1) [OF this(2) held_ok_insert [OF 2(3) this(1)] 2(4)] show ?case
    by simp
next
  case (3 to_json max_tokens kept held tokens i n res items)
  note rest = pairing_ResultE [OF 3(4)]
  obtain n' v where get: "bm_get held i = Some (AssistantToolCall i n' v)" "i \<noteq> []"
    using held_ok_get [OF 3(5)] rest by blast
  have "pairing [] (kept @ [AssistantToolCall i n' v, ToolResult i n res]) = Ok []"
    using 3(6) get by (simp add: pairing_kept pairing_single)
  with 3(2,3) [OF get(1) refl refl, of "filter (\<lambda>e. fst e \<noteq> i) m"] rest held_ok_remove [OF 3(5)] 3(6) show ?case
    by (simp add: get Let_def)
next
  case (4 to_json max_tokens kept held tokens t items)
  note rest = pairing_UserE [OF 4(2)]
  show ?case
    using 4(1) [of m] 4(3,4) rest by (simp add: pairing_kept pairing_single)
next
  case (5 to_json max_tokens kept held tokens t items)
  have "pairing m items = Ok []"
    using 5(3) by (simp add: pairing.simps)
  with 5 show ?case
    by (simp add: pairing_kept pairing_single)
qed (simp add: pairing.simps)

lemma trim_loop_users:
  "list_all (\<lambda>(i, x). \<not> is_user_item x) held \<Longrightarrow>
     filter is_user_item (fst (trim_loop to_json max_tokens kept held tokens items))
       = filter is_user_item kept @ filter is_user_item items"
proof (induction to_json max_tokens kept held tokens items rule: trim_loop.induct)
  case (2 to_json max_tokens kept held tokens i n v items)
  have "list_all (\<lambda>(i, x). \<not> is_user_item x) (bm_insert i (AssistantToolCall i n v) held)"
    using 2(2) by (induction i "AssistantToolCall i n v" held rule: bm_insert.induct) auto
  with 2 show ?case
    by simp
next
  case (3 to_json max_tokens kept held tokens i n res items)
  have "list_all (\<lambda>(i, x). \<not> is_user_item x) (bm_remove i held)"
    using 3(4) by (auto simp: bm_remove_def list_all_iff)
  moreover have "bm_get held i = Some call \<Longrightarrow> \<not> is_user_item call" for call
    using 3(4) by (auto simp: bm_get_def list_all_iff dest: map_of_SomeD)
  ultimately show ?case
    using 3 by (auto simp: Let_def split: option.split)
qed auto

lemma trim_loop_tokens:
  "tokens = estimate_conversation_tokens to_json kept \<Longrightarrow>
     snd (trim_loop to_json max_tokens kept held tokens items)
       = estimate_conversation_tokens to_json (fst (trim_loop to_json max_tokens kept held tokens items))"
  by (induction to_json max_tokens kept held tokens items rule: trim_loop.induct)
    (auto simp: Let_def estimate_conversation_tokens_def split: option.split)

lemma trim_loop_budget:
  "pairing m items = Ok [] \<Longrightarrow> held_ok held (fst ` set m) \<Longrightarrow> tokens \<le> max_tokens + u \<Longrightarrow>
     snd (trim_loop to_json max_tokens kept held tokens items)
       \<le> max_tokens + u + estimate_conversation_tokens to_json (filter is_user_item items)"
proof (induction to_json max_tokens kept held tokens items arbitrary: m u rule: trim_loop.induct)
  case (2 to_json max_tokens kept held tokens i n v items)
  have "i \<noteq> []" "pairing (m @ [(i, n)]) items = Ok []"
    using pairing_CallE [OF 2(2)] by simp_all
  from 2(1) [OF this(2) held_ok_insert [OF 2(3) this(1)] 2(4)] show ?case
    by simp
next
  case (3 to_json max_tokens kept held tokens i n res items)
  note rest = pairing_ResultE [OF 3(4)]
  obtain n' v where get: "bm_get held i = Some (AssistantToolCall i n' v)" "i \<noteq> []"
    using held_ok_get [OF 3(5)] rest by blast
  with 3(2,3) [OF get(1) refl refl, of "filter (\<lambda>e. fst e \<noteq> i) m" u] rest held_ok_remove [OF 3(5)] 3(6) show ?case
    by (simp add: Let_def)
next
  case (4 to_json max_tokens kept held tokens t items)
  note rest = pairing_UserE [OF 4(2)]
  have "tokens + item_tokens to_json (UserMessage t) \<le> max_tokens + (u + item_tokens to_json (UserMessage t))"
    using 4(4) by simp
  from 4(1) [OF _ 4(3) this] rest show ?case
    by (simp add: estimate_conversation_tokens_def add.assoc)
next
  case (5 to_json max_tokens kept held tokens t items)
  have "pairing m items = Ok []"
    using 5(3) by (simp add: pairing.simps)
  with 5 show ?case
    by simp
qed (simp add: estimate_conversation_tokens_def)

lemma pressure_state_default:
  "cp_state (classify_pressure n w PressureLimits_default) =
     (if w \<le> 0 \<or> w \<le> int n then PressureState_Hard
      else if 85 * w \<le> 100 * int n then PressureState_Auto
      else if 70 * w \<le> 100 * int n then PressureState_Warn
      else PressureState_Normal)"
proof -
  have "f64_round (70 / 100 * 100) = 70" "f64_round (85 / 100 * 100) = 85" "f64_round (1 * 100) = 100"
    by (simp_all add: f64_round_def floor_unique)
  then show ?thesis
    by (simp add: classify_pressure_def PressureLimits_default_def ge_ratio_def Let_def mult.commute)
qed

subsection \<open>Properties\<close>

text \<open>
  Reducing a valid conversation keeps it valid and keeps every user message in order; the
  reported estimate is the estimate of what is kept, and it exceeds the budget by at most the
  user messages, which are never dropped.
\<close>

theorem reduction_preserves_conversation:
  assumes "validate_conversation_items items = Ok u"
  shows "let r = trim_conversation_preserving_pairs to_json items max_tokens
    in validate_conversation_items (tr_items r) = Ok ()
       \<and> filter is_user_item (tr_items r) = filter is_user_item items
       \<and> tr_estimated_tokens r = estimate_conversation_tokens to_json (tr_items r)
       \<and> tr_estimated_tokens r \<le> max_tokens + estimate_conversation_tokens to_json (filter is_user_item items)"
proof -
  have valid: "pairing [] items = Ok []"
    using assms by (simp add: validate_conversation_items_pairing pairing_ok_Ok_iff)
  have "held_ok [] (fst ` set [])"
    by (simp add: held_ok_def)
  note loop = trim_loop_pairing [OF valid this, of "[]" to_json max_tokens 0]
    trim_loop_users [of "[]" to_json max_tokens "[]" 0 items]
    trim_loop_tokens [of 0 to_json "[]" max_tokens "[]" items]
    trim_loop_budget [OF valid this, of 0 max_tokens 0 to_json "[]"]
  define r where "r = trim_conversation_preserving_pairs to_json items max_tokens"
  have "validate_conversation_items (tr_items r) = Ok ()"
    using assms loop(1) pairing.simps(1) [of "[]"]
    by (auto simp: r_def trim_conversation_preserving_pairs_def Let_def case_prod_beta pairing_ok_Ok_iff
        validate_conversation_items_pairing [of "fst _"])
  moreover have "filter is_user_item (tr_items r) = filter is_user_item items"
    using assms loop(2) by (simp add: r_def trim_conversation_preserving_pairs_def Let_def case_prod_beta)
  moreover have "tr_estimated_tokens r = estimate_conversation_tokens to_json (tr_items r)"
    using assms loop(3)
    by (simp add: r_def trim_conversation_preserving_pairs_def Let_def case_prod_beta estimate_conversation_tokens_def)
  moreover have "tr_estimated_tokens r \<le> max_tokens + estimate_conversation_tokens to_json (filter is_user_item items)"
    using assms loop(4) by (simp add: r_def trim_conversation_preserving_pairs_def Let_def case_prod_beta)
  ultimately show ?thesis
    by (simp add: r_def Let_def)
qed

theorem reduction_preserves_conversation_witness:
  "let items = [UserMessage ''hello'', AssistantToolCall ''c1'' ''read'' AssistantToolCallInput_Omitted,
         ToolResult ''c1'' ''read'' (ToolExecutionResult_Failed ''a long enough failure message'')]
   in validate_conversation_items (tr_items (trim_conversation_preserving_pairs (\<lambda>_. ''null'') items 4)) = Ok ()
      \<and> tr_items (trim_conversation_preserving_pairs (\<lambda>_. ''null'') items 4) = [UserMessage ''hello'']"
proof -
  define items where "items = [UserMessage ''hello'', AssistantToolCall ''c1'' ''read'' AssistantToolCallInput_Omitted,
         ToolResult ''c1'' ''read'' (ToolExecutionResult_Failed ''a long enough failure message'')]"
  have "validate_conversation_items items = Ok ()"
    by (simp add: items_def validate_conversation_items_pairing pairing_ok_def pairing.simps)
  note kept = reduction_preserves_conversation [OF this, of "\<lambda>_. ''null''" 4]
  have "tr_items (trim_conversation_preserving_pairs (\<lambda>_. ''null'') items 4) = [UserMessage ''hello'']"
    using \<open>validate_conversation_items items = Ok ()\<close>
    by (simp add: trim_conversation_preserving_pairs_def items_def estimate_conversation_tokens_def item_tokens_def
        estimate_conversation_item_tokens_def item_bytes_def div_ceil_def bm_get_def Let_def)
  with kept show ?thesis
    by (simp add: items_def Let_def)
qed

text \<open>
  The evidence cache is a bounded first-in first-out store: under any sequence of
  insertions and clears it holds at most 64 views; an inserted view can be read back at once;
  an insertion keeps the order of the keys and, when it would exceed 64, drops all but the
  newest 32; every view that is not dropped keeps its value.
\<close>

theorem evidence_cache_bounded_fifo:
  assumes "reachable (\<lambda>c. c = WatermarkCache_new) cache_step c"
  shows "cache_len c \<le> 64
    \<and> wc_order (cache_insert key v c) =
        (let order = (if key \<in> set (wc_order c) then wc_order c else wc_order c @ [key])
         in if 64 < length order then drop (length order - 32) order else order)
    \<and> cache_get (cache_insert key v c) k =
        (if k = key then Some v else if k \<in> set (wc_order (cache_insert key v c)) then cache_get c k else None)"
proof -
  have wf: "cache_wf c"
    using assms by (rule cache.reachable_inv)
  then have "cache_len c \<le> 64"
    using length_eq_order [of "wc_map c" "wc_order c"] by (simp add: cache_wf_def cache_len_def HIGH_WATERMARK_def)
  then show ?thesis
    using cache_insert_effect(1,3) [OF wf, of key v]
    by (auto simp: Let_def HIGH_WATERMARK_def LOW_WATERMARK_def simp del: length_append)
qed

theorem evidence_cache_bounded_fifo_witness:
  "cache_get (cache_insert ''b'' 2 (cache_insert ''a'' (1::nat) WatermarkCache_new)) ''a'' = Some 1"
proof -
  have r: "reachable (\<lambda>c. c = WatermarkCache_new) cache_step (cache_insert ''a'' (1::nat) WatermarkCache_new)"
    using reachable.step [OF reachable.start, of "\<lambda>c. c = WatermarkCache_new" WatermarkCache_new cache_step
        "Cache_Insert ''a'' (1::nat)"] by simp
  have o1: "wc_order (cache_insert ''a'' (1::nat) WatermarkCache_new) = [''a'']"
    by (simp add: cache_insert_def WatermarkCache_new_def with_watermarks_def HIGH_WATERMARK_def LOW_WATERMARK_def)
  have g1: "cache_get (cache_insert ''a'' (1::nat) WatermarkCache_new) ''a'' = Some 1"
    by (simp add: cache_insert_def cache_get_def bm_get_def WatermarkCache_new_def with_watermarks_def
        HIGH_WATERMARK_def LOW_WATERMARK_def)
  from evidence_cache_bounded_fifo [OF r, of "''b''" 2 "''a''"] o1 g1 show ?thesis
    by simp
qed

text \<open>
  Pressure is classified by exact thresholds, inclusive from below: with the default
  limits and a positive working maximum, hard from 100 percent, auto from 85, warn from 70;
  a working maximum of zero or less is always hard.
\<close>

theorem pressure_thresholds_exact:
  "cp_state (classify_pressure n w PressureLimits_default) =
     (if w \<le> 0 \<or> w \<le> int n then PressureState_Hard
      else if 85 * w \<le> 100 * int n then PressureState_Auto
      else if 70 * w \<le> 100 * int n then PressureState_Warn
      else PressureState_Normal)"
  by (rule pressure_state_default)

end
