(* ===== verification/Scalars.thy ===== *)
theory Scalars
  imports Prelude
begin

text \<open>
  Text operations of the standard library on UTF-8 byte strings that the projection uses:
  \<open>str::chars\<close> as the list of the byte groups of the scalars, \<open>str::contains\<close>,
  \<open>str::replace\<close>, \<open>[T]::join\<close>, and the binary search for the largest index that fits, which
  the source writes out twice.
\<close>

subsection \<open>Scalars\<close>

definition utf8_width :: "char \<Rightarrow> nat" where
  "utf8_width c = (if byte c < 0x80 then 1 else if byte c < 0xE0 then 2 else if byte c < 0xF0 then 3 else 4)"

lemma utf8_width_pos [simp]: "0 < utf8_width c"
  by (simp add: utf8_width_def)

function scalars :: "string \<Rightarrow> string list" where
  "scalars [] = []"
| "scalars (c # cs) = take (utf8_width c) (c # cs) # scalars (drop (utf8_width c) (c # cs))"
  by pat_completeness auto

termination
  by (relation "measure length") (auto simp: utf8_width_def)

declare scalars.simps(2) [simp del]

lemma concat_scalars [simp]: "concat (scalars s) = s"
  by (induction s rule: scalars.induct) (simp_all add: scalars.simps(2))

lemma scalars_nonempty: "list_all (\<lambda>x. x \<noteq> []) (scalars s)"
proof (induction s rule: scalars.induct)
  case (2 c cs)
  have "take (utf8_width c) (c # cs) \<noteq> []"
    using utf8_width_pos [of c] by (metis list.distinct(1) nat_less_le take_eq_Nil)
  with 2 show ?case
    by (simp only: scalars.simps list.pred_inject simp_thms)
qed simp

lemma scalars_eq_Nil_iff [simp]: "scalars s = [] \<longleftrightarrow> s = []"
  by (cases s) (simp_all add: scalars.simps(2))

lemma length_scalars: "length (scalars s) \<le> length s"
  by (induction s rule: scalars.induct) (auto simp: scalars.simps(2) utf8_width_def)

subsection \<open>Joining and splitting\<close>

fun join :: "string \<Rightarrow> string list \<Rightarrow> string" where
  "join sep [] = []"
| "join sep [x] = x"
| "join sep (x # y # xs) = x @ sep @ join sep (y # xs)"

lemma join_Cons: "join sep (x # xs) = (if xs = [] then x else x @ sep @ join sep xs)"
  by (cases xs) simp_all

lemma join_split_on [simp]: "join [c] (split_on c s) = s"
proof (induction s)
  case (Cons x xs)
  then show ?case
    by (cases "split_on c xs") (auto simp: join_Cons)
qed simp

lemma split_on_pieces: "p \<in> set (split_on c s) \<Longrightarrow> c \<notin> set p"
  by (induction s arbitrary: p) (fastforce split: list.splits if_splits)+

lemma split_on_join: "ps \<noteq> [] \<Longrightarrow> list_all (\<lambda>p. c \<notin> set p) ps \<Longrightarrow> split_on c (join [c] ps) = ps"
proof (induction ps)
  case (Cons p ps)
  then show ?case
    by (cases ps) (auto simp: split_on_append split_on_no_sep)
qed simp

lemma set_join: "set (join sep xs) \<subseteq> set sep \<union> (\<Union>x \<in> set xs. set x)"
  by (induction sep xs rule: join.induct) auto

lemma set_split_on: "p \<in> set (split_on c s) \<Longrightarrow> set p \<subseteq> set s"
  by (induction s arbitrary: p) (fastforce split: list.splits if_splits)+

lemma filter_join: "filter (\<lambda>x. x \<noteq> c) (join [c] ps) = concat (map (filter (\<lambda>x. x \<noteq> c)) ps)"
  by (induction "[c]" ps rule: join.induct) auto

subsection \<open>Searching and replacing\<close>

fun prefix_of :: "'a list \<Rightarrow> 'a list \<Rightarrow> bool" where
  "prefix_of [] s = True"
| "prefix_of (p # ps) [] = False"
| "prefix_of (p # ps) (c # cs) \<longleftrightarrow> p = c \<and> prefix_of ps cs"

fun contains :: "'a list \<Rightarrow> 'a list \<Rightarrow> bool" where
  "contains p [] \<longleftrightarrow> p = []"
| "contains p (c # cs) \<longleftrightarrow> prefix_of p (c # cs) \<or> contains p cs"

lemma prefix_of_iff: "prefix_of p s \<longleftrightarrow> (\<exists>t. s = p @ t)"
  by (induction p s rule: prefix_of.induct) auto

lemma contains_iff: "contains p s \<longleftrightarrow> (\<exists>u v. s = u @ p @ v)"
proof (induction s)
  case (Cons c cs)
  have "(\<exists>u v. c # cs = u @ p @ v) \<longleftrightarrow> (\<exists>v. c # cs = p @ v) \<or> (\<exists>u v. cs = u @ p @ v)"
    by (metis (no_types, opaque_lifting) append_Cons append_Nil neq_Nil_conv list.inject)
  with Cons show ?case
    by (simp add: prefix_of_iff)
qed auto

text \<open>
  \<open>str::replace\<close>: occurrences from the left, not overlapping.  The source calls it with
  non-empty patterns only.
\<close>

function replace_all :: "string \<Rightarrow> string \<Rightarrow> string \<Rightarrow> string" where
  "replace_all p r [] = []"
| "replace_all p r (c # cs) =
     (if p \<noteq> [] \<and> prefix_of p (c # cs) then r @ replace_all p r (drop (length p) (c # cs))
      else c # replace_all p r cs)"
  by pat_completeness auto

termination
  by (relation "measure (\<lambda>(_, _, s). length s)") (auto simp: Suc_le_eq)

declare replace_all.simps(2) [simp del]

lemma contains_append_sep: "c \<notin> set p \<Longrightarrow> p \<noteq> [] \<Longrightarrow> contains p (s @ c # t) \<longleftrightarrow> contains p s \<or> contains p t"
proof
  assume c: "c \<notin> set p" and p: "p \<noteq> []" and "contains p (s @ c # t)"
  then obtain u v where eq: "s @ c # t = u @ p @ v"
    by (auto simp: contains_iff)
  then consider w where "s = u @ w" "w @ c # t = p @ v" | w where "u = s @ w" "c # t = w @ p @ v"
    by (auto simp: append_eq_append_conv2)
  then show "contains p s \<or> contains p t"
  proof cases
    case 1
    then consider x where "w = p @ x" | x where "p = w @ x" "c # t = x @ v"
      by (auto simp: append_eq_append_conv2)
    then show ?thesis
    proof cases
      case 1
      with \<open>s = u @ w\<close> show ?thesis
        by (auto simp: contains_iff)
    next
      case 2
      with c have "x = []"
        by (cases x) auto
      with 2 \<open>s = u @ w\<close> show ?thesis
        by (auto simp: contains_iff intro: exI [of _ u] exI [of _ "[]"])
    qed
  next
    case 2
    with c p have "w \<noteq> []"
      by (cases p) auto
    with 2 show ?thesis
      by (cases w) (auto simp: contains_iff)
  qed
next
  assume "contains p s \<or> contains p t"
  then show "contains p (s @ c # t)"
    unfolding contains_iff by (metis append_Cons append_assoc)
qed

subsection \<open>The largest index that fits\<close>

function search_fit :: "(nat \<Rightarrow> bool) \<Rightarrow> nat \<Rightarrow> nat \<Rightarrow> nat" where
  "search_fit fits low high =
     (if low < high then
        let mid = (low + high + 1) div 2
        in if fits mid then search_fit fits mid high else search_fit fits low (mid - 1)
      else low)"
  by pat_completeness auto

termination
  by (relation "measure (\<lambda>(_, low, high). high - low)") auto

declare search_fit.simps [simp del]

lemma search_fit_step:
  "low < high \<Longrightarrow> search_fit fits low high =
     (if fits ((low + high + 1) div 2) then search_fit fits ((low + high + 1) div 2) high
      else search_fit fits low ((low + high + 1) div 2 - 1))"
  by (subst search_fit.simps) (simp add: Let_def)

lemma search_fit_stop: "\<not> low < high \<Longrightarrow> search_fit fits low high = low"
  by (subst search_fit.simps) simp

text \<open>The induction both cases of the search need.\<close>

lemma search_fit_cases:
  assumes "\<And>low high. \<not> low < high \<Longrightarrow> P low high low"
    and "\<And>low high mid r. low < high \<Longrightarrow> low < mid \<Longrightarrow> mid \<le> high \<Longrightarrow> fits mid \<Longrightarrow> P mid high r \<Longrightarrow> P low high r"
    and "\<And>low high mid r. low < high \<Longrightarrow> low < mid \<Longrightarrow> mid \<le> high \<Longrightarrow> \<not> fits mid \<Longrightarrow> P low (mid - 1) r \<Longrightarrow> P low high r"
  shows "P low high (search_fit fits low high)"
proof (induction "high - low" arbitrary: low high rule: less_induct)
  case less
  define mid where "mid = (low + high + 1) div 2"
  show ?case
  proof (cases "low < high")
    case True
    then have mid: "low < mid" "mid \<le> high"
      by (auto simp: mid_def)
    show ?thesis
    proof (cases "fits mid")
      case fits: True
      have "P mid high (search_fit fits mid high)"
        using mid by (intro less) simp
      then show ?thesis
        using assms(2) [OF True mid fits] search_fit_step [OF True, folded mid_def, of fits] fits by simp
    next
      case misses: False
      have "P low (mid - 1) (search_fit fits low (mid - 1))"
        using mid by (intro less) simp
      then show ?thesis
        using assms(3) [OF True mid misses] search_fit_step [OF True, folded mid_def, of fits] misses by simp
    qed
  next
    case False
    then show ?thesis
      by (simp add: search_fit_stop assms(1))
  qed
qed

lemma search_fit_bounds: "low \<le> high \<Longrightarrow> low \<le> search_fit fits low high \<and> search_fit fits low high \<le> high"
proof -
  have "low \<le> high \<longrightarrow> low \<le> search_fit fits low high \<and> search_fit fits low high \<le> high"
  proof (rule search_fit_cases [of "\<lambda>low high r. low \<le> high \<longrightarrow> low \<le> r \<and> r \<le> high"])
    fix low high mid r :: nat
    assume "low < mid" "mid \<le> high" and "low \<le> mid - 1 \<longrightarrow> low \<le> r \<and> r \<le> mid - 1"
    then show "low \<le> high \<longrightarrow> low \<le> r \<and> r \<le> high"
      by linarith
  qed auto
  then show "low \<le> high \<Longrightarrow> ?thesis"
    by blast
qed

lemma search_fit_fits: "search_fit fits low high = low \<or> fits (search_fit fits low high)"
  by (rule search_fit_cases [of "\<lambda>low high r. r = low \<or> fits r"]) auto

text \<open>For a downward closed predicate the result is the largest index that fits.\<close>

lemma search_fit_largest:
  assumes down: "\<And>i j. i \<le> j \<Longrightarrow> fits j \<Longrightarrow> fits i"
  shows "search_fit fits low high < j \<Longrightarrow> j \<le> high \<Longrightarrow> \<not> fits j"
proof -
  have "\<forall>j. search_fit fits low high < j \<longrightarrow> j \<le> high \<longrightarrow> \<not> fits j"
  proof (rule search_fit_cases [of "\<lambda>low high r. \<forall>j. r < j \<longrightarrow> j \<le> high \<longrightarrow> \<not> fits j"])
    fix low high mid r
    assume "\<not> fits mid" and IH: "\<forall>j. r < j \<longrightarrow> j \<le> mid - 1 \<longrightarrow> \<not> fits j"
    show "\<forall>j. r < j \<longrightarrow> j \<le> high \<longrightarrow> \<not> fits j"
    proof (intro allI impI)
      fix j
      assume "r < j" "j \<le> high"
      then show "\<not> fits j"
        using IH \<open>\<not> fits mid\<close> down [of mid j] by (cases "mid \<le> j") auto
    qed
  qed auto
  then show "search_fit fits low high < j \<Longrightarrow> j \<le> high \<Longrightarrow> \<not> fits j"
    by blast
qed

end
