(* ===== verification/Evidence_View.thy ===== *)
theory Evidence_View
  imports Scalars Tool_Round
begin

text \<open>
  The model view of a tool result (\<open>projection/evidence.rs\<close>): control sequences are stripped,
  secrets redacted, repeated lines collapsed, lines bounded and the text truncated.  Shown:
  the view never holds a control byte, redaction removes every ASCII secret, lines are
  bounded without losing text, and the view is within its byte budget.
\<close>

definition DEFAULT_MAX_TOTAL_BYTES :: nat where
  "DEFAULT_MAX_TOTAL_BYTES = 32 * 1024"

definition DEFAULT_MAX_LINE_BYTES :: nat where
  "DEFAULT_MAX_LINE_BYTES = 1024"

definition LF :: char where
  "LF = CHR 0x0A"

definition TRUNCATION_MARKER :: string where
  "TRUNCATION_MARKER = [LF, CHR 0xE2, CHR 0x80, CHR 0xA6] @ '' [truncated]''"

definition full_block :: string where
  "full_block = [CHR 0xE2, CHR 0x96, CHR 0x88]"

definition REDACTED_PLACEHOLDER :: string where
  "REDACTED_PLACEHOLDER = full_block @ full_block @ full_block @ ''[REDACTED]'' @ full_block @ full_block @ full_block"

record ModelEvidenceView =
  ev_evidence_id :: "string option"
  ev_revision :: "string option"
  ev_text :: string
  ev_truncated :: bool
  ev_shown_bytes :: nat
  ev_original_bytes :: nat
  ev_transformations :: "string list"

record EvidenceProjectorOptions =
  eo_secrets :: "string list"
  eo_max_total_bytes :: nat
  eo_max_line_bytes :: nat

definition EvidenceProjectorOptions_default :: EvidenceProjectorOptions where
  "EvidenceProjectorOptions_default =
     \<lparr> eo_secrets = [], eo_max_total_bytes = DEFAULT_MAX_TOTAL_BYTES, eo_max_line_bytes = DEFAULT_MAX_LINE_BYTES \<rparr>"

subsection \<open>Security transforms\<close>

text \<open>
  The loop over characters of \<open>strip_ansi_and_control\<close> is a loop over bytes: escape,
  bracket and controls are single bytes, and the bytes of every other character are copied.
  \<open>is_ansi_escape_at\<close> looks at what follows its byte index.
\<close>

definition is_final_byte :: "char \<Rightarrow> bool" where
  "is_final_byte c \<longleftrightarrow> 0x40 \<le> byte c \<and> byte c \<le> 0x7E"

definition is_control :: "nat \<Rightarrow> bool" where
  "is_control code \<longleftrightarrow> code \<le> 0x08 \<or> code = 0x0B \<or> code = 0x0C \<or> 0x0E \<le> code \<and> code \<le> 0x1F \<or> code = 0x7F"

fun ansi_scan :: "string \<Rightarrow> bool" where
  "ansi_scan [] = False"
| "ansi_scan (c # cs) =
     (if is_final_byte c then True else if byte c < 0x20 \<or> byte c = 0x7F then False else ansi_scan cs)"

fun is_ansi_escape_at :: "string \<Rightarrow> bool" where
  "is_ansi_escape_at (a # b # rest) \<longleftrightarrow> byte a = 0x1B \<and> byte b = 0x5B \<and> ansi_scan rest"
| "is_ansi_escape_at _ \<longleftrightarrow> False"

fun skip_ansi :: "string \<Rightarrow> string" where
  "skip_ansi [] = []"
| "skip_ansi (c # cs) = (if is_final_byte c then cs else if byte c < 0x20 \<or> byte c = 0x7F then cs else skip_ansi cs)"

lemma length_skip_ansi: "length (skip_ansi s) \<le> length s"
  by (induction s) (simp_all add: le_SucI)

function strip_ansi_and_control :: "string \<Rightarrow> string" where
  "strip_ansi_and_control [] = []"
| "strip_ansi_and_control (c # cs) =
     (if is_ansi_escape_at (c # cs) then strip_ansi_and_control (skip_ansi (drop 2 (c # cs)))
      else if is_control (byte c) then strip_ansi_and_control cs
      else c # strip_ansi_and_control cs)"
  by pat_completeness auto

termination
proof (relation "measure length")
  fix c cs
  show "(skip_ansi (drop 2 (c # cs)), c # cs) \<in> measure length"
    using length_skip_ansi [of "drop 2 (c # cs)"] by simp
qed auto

declare strip_ansi_and_control.simps(2) [simp del]

fun redact_secrets :: "string \<Rightarrow> string list \<Rightarrow> string" where
  "redact_secrets out [] = out"
| "redact_secrets out (secret # secrets) =
     (if secret = [] then redact_secrets out secrets
      else redact_secrets (replace_all secret REDACTED_PLACEHOLDER out) secrets)"

subsection \<open>Repeated lines\<close>

function collapse_loop :: "string list \<Rightarrow> string list" where
  "collapse_loop [] = []"
| "collapse_loop (line # rest) =
     (let run = 1 + length (takeWhile (\<lambda>l. l = line) rest)
      in (if 3 \<le> run then [line @ '' '' @ [CHR 0xC3, CHR 0x97] @ show_nat run] else take run (line # rest))
         @ collapse_loop (drop run (line # rest)))"
  by pat_completeness auto

termination
  by (relation "measure length") auto

definition collapse_repeated_lines :: "string \<Rightarrow> string" where
  "collapse_repeated_lines text = join [LF] (collapse_loop (split_on LF text))"

subsection \<open>Bounded lines and truncation\<close>

fun boundaries_from :: "nat \<Rightarrow> string list \<Rightarrow> nat list" where
  "boundaries_from offset [] = [offset]"
| "boundaries_from offset (ch # chs) = offset # boundaries_from (offset + length ch) chs"

definition scalar_boundaries :: "string \<Rightarrow> nat list" where
  "scalar_boundaries text = boundaries_from 0 (scalars text)"

text \<open>The length of the piece the loop cuts off next.\<close>

definition piece_end :: "nat \<Rightarrow> string \<Rightarrow> nat" where
  "piece_end max_line_bytes remaining =
     (let boundaries = scalar_boundaries remaining
      in if max_line_bytes < boundaries ! 1 then boundaries ! 1
         else boundaries ! search_fit (\<lambda>mid. boundaries ! mid \<le> max_line_bytes) 1 (length boundaries - 1))"

lemma length_boundaries_from [simp]: "length (boundaries_from k chs) = Suc (length chs)"
  by (induction chs arbitrary: k) auto

lemma boundaries_from_nth: "i \<le> length chs \<Longrightarrow> boundaries_from k chs ! i = k + length (concat (take i chs))"
  by (induction chs arbitrary: k i) (auto simp: nth_Cons split: nat.split)

lemma scalar_boundaries_nth: "i \<le> length (scalars s) \<Longrightarrow> scalar_boundaries s ! i = length (concat (take i (scalars s)))"
  by (simp add: scalar_boundaries_def boundaries_from_nth)

lemma length_scalar_boundaries [simp]: "length (scalar_boundaries s) = Suc (length (scalars s))"
  by (simp add: scalar_boundaries_def)

lemma boundary_take: "i \<le> length (scalars s) \<Longrightarrow> take (scalar_boundaries s ! i) s = concat (take i (scalars s))"
proof -
  have "s = concat (take i (scalars s)) @ concat (drop i (scalars s))"
    by (metis append_take_drop_id concat_append concat_scalars)
  moreover assume "i \<le> length (scalars s)"
  ultimately show ?thesis
    by (metis append_eq_conv_conj scalar_boundaries_nth)
qed

lemma boundary_mono:
  assumes "i \<le> j" and "j \<le> length (scalars s)"
  shows "scalar_boundaries s ! i \<le> scalar_boundaries s ! j"
proof -
  have "take j (scalars s) = take i (scalars s) @ take (j - i) (drop i (scalars s))"
    using assms(1) by (metis le_add_diff_inverse take_add)
  then show ?thesis
    using assms by (simp add: scalar_boundaries_nth)
qed

lemma boundary_pos: "s \<noteq> [] \<Longrightarrow> 1 \<le> i \<Longrightarrow> i \<le> length (scalars s) \<Longrightarrow> 0 < scalar_boundaries s ! i"
proof -
  assume s: "s \<noteq> []" and i: "1 \<le> i" "i \<le> length (scalars s)"
  then obtain x xs where xs: "scalars s = x # xs"
    by (metis neq_Nil_conv scalars_eq_Nil_iff)
  then have "x \<noteq> []"
    using scalars_nonempty [of s] by simp
  then have "0 < scalar_boundaries s ! 1"
    using xs by (simp add: scalar_boundaries_nth)
  then show ?thesis
    using boundary_mono [OF i] by linarith
qed

text \<open>The index whose boundary the piece ends at.\<close>

definition piece_index :: "nat \<Rightarrow> string \<Rightarrow> nat" where
  "piece_index max_line_bytes remaining =
     (let boundaries = scalar_boundaries remaining
      in if max_line_bytes < boundaries ! 1 then 1
         else search_fit (\<lambda>mid. boundaries ! mid \<le> max_line_bytes) 1 (length boundaries - 1))"

lemma piece_end_index: "piece_end m s = scalar_boundaries s ! piece_index m s"
  by (simp add: piece_end_def piece_index_def Let_def)

lemma piece_index_range: "s \<noteq> [] \<Longrightarrow> 1 \<le> piece_index m s \<and> piece_index m s \<le> length (scalars s)"
proof -
  assume "s \<noteq> []"
  then have "1 \<le> length (scalars s)"
    by (cases "scalars s") simp_all
  then show ?thesis
    using search_fit_bounds [of 1 "length (scalars s)"] by (simp add: piece_index_def Let_def)
qed

lemma piece_end_pos: "s \<noteq> [] \<Longrightarrow> 0 < piece_end m s"
  using piece_index_range [of s m] boundary_pos [of s "piece_index m s"] by (simp add: piece_end_index)

function bound_loop :: "nat \<Rightarrow> string \<Rightarrow> string list" where
  "bound_loop max_line_bytes remaining =
     (if max_line_bytes < length remaining \<and> \<not> length (scalar_boundaries remaining) \<le> 1 then
        let end' = piece_end max_line_bytes remaining
        in take end' remaining # bound_loop max_line_bytes (drop end' remaining)
      else if remaining \<noteq> [] then [remaining] else [])"
  by pat_completeness auto

termination
  by (relation "measure (\<lambda>(_, s). length s)") (auto intro!: diff_less piece_end_pos)

declare bound_loop.simps [simp del]

definition bound_line_length :: "string \<Rightarrow> nat \<Rightarrow> string" where
  "bound_line_length text max_line_bytes =
     join [LF] (concat (map
       (\<lambda>line. if length line \<le> max_line_bytes then [line] else bound_loop max_line_bytes line)
       (split_on LF text)))"

definition truncate_text :: "string \<Rightarrow> nat \<Rightarrow> string \<times> bool" where
  "truncate_text text max_bytes =
     (if length text \<le> max_bytes then (text, False)
      else
        let boundaries = scalar_boundaries text;
            low = search_fit (\<lambda>mid. boundaries ! mid + length TRUNCATION_MARKER \<le> max_bytes) 0 (length boundaries - 1);
            truncated = take (boundaries ! low) text @ TRUNCATION_MARKER
        in if max_bytes < length truncated \<and> max_bytes < length TRUNCATION_MARKER then (TRUNCATION_MARKER, True)
           else (truncated, True))"

subsection \<open>The view\<close>

text \<open>Steps one and two of \<open>project_for_model\<close>, with the labels they record.\<close>

definition secure_text :: "string \<Rightarrow> EvidenceProjectorOptions \<Rightarrow> string \<times> string list" where
  "secure_text raw_text options =
     (let stripped = strip_ansi_and_control raw_text;
          (text, transformations) = (if stripped \<noteq> raw_text then (stripped, [''strip-ansi-control'']) else (raw_text, []))
      in if list_ex (\<lambda>s. s \<noteq> [] \<and> contains s text) (eo_secrets options) then
           (redact_secrets text (eo_secrets options), transformations @ [''redact-secrets''])
         else (text, transformations))"

definition project_for_model ::
    "string option \<Rightarrow> string option \<Rightarrow> string \<Rightarrow> EvidenceProjectorOptions \<Rightarrow> ModelEvidenceView" where
  "project_for_model evidence_id revision raw_text options =
     (let original_bytes = length raw_text;
          (pre_reduction, transformations) = secure_text raw_text options;
          collapsed = collapse_repeated_lines pre_reduction;
          collapse_applied = (collapsed \<noteq> pre_reduction
            \<and> length (encode_utf16 (map byte collapsed)) \<le> length (encode_utf16 (map byte pre_reduction)));
          (text, transformations) =
            (if collapse_applied then (collapsed, transformations @ [''collapse-repeated-lines''])
             else (pre_reduction, transformations));
          bounded = bound_line_length text (eo_max_line_bytes options);
          (text, transformations) =
            (if bounded \<noteq> text then (bounded, transformations @ [''bound-lines'']) else (text, transformations));
          (text, transformations) =
            (if collapse_applied \<and> original_bytes < length text then
               let text = bound_line_length pre_reduction (eo_max_line_bytes options);
                   kept = filter (\<lambda>t. t \<noteq> ''collapse-repeated-lines'' \<and> t \<noteq> ''bound-lines'') transformations
               in (text, if text \<noteq> pre_reduction then kept @ [''bound-lines''] else kept)
             else (text, transformations));
          (truncated_text, did_truncate) = truncate_text text (eo_max_total_bytes options);
          (text, transformations) =
            (if did_truncate then (truncated_text, transformations @ [''truncate'']) else (text, transformations))
      in \<lparr> ev_evidence_id = evidence_id, ev_revision = revision, ev_text = text, ev_truncated = did_truncate,
           ev_shown_bytes = length text, ev_original_bytes = original_bytes,
           ev_transformations = transformations \<rparr>)"

subsection \<open>No control bytes\<close>

definition plain :: "string \<Rightarrow> bool" where
  "plain = list_all (\<lambda>c. \<not> is_control (byte c))"

lemma plain_simps [simp]:
  "plain []"
  "plain (c # s) \<longleftrightarrow> \<not> is_control (byte c) \<and> plain s"
  "plain (s @ t) \<longleftrightarrow> plain s \<and> plain t"
  by (simp_all add: plain_def)

lemma plain_subset: "plain s \<Longrightarrow> set t \<subseteq> set s \<Longrightarrow> plain t"
  by (auto simp: plain_def list_all_iff)

lemma plain_ascii: "plain (show_nat n)" "plain TRUNCATION_MARKER" "plain REDACTED_PLACEHOLDER" "plain [LF]"
proof -
  have "c \<in> set (show_nat n) \<Longrightarrow> \<not> is_control (byte c)" for c
    using show_nat_digits [of n] by (auto simp: list_all_iff is_ascii_digit_def is_control_def)
  then show "plain (show_nat n)"
    by (simp add: plain_def list_all_iff)
qed (simp_all add: TRUNCATION_MARKER_def REDACTED_PLACEHOLDER_def full_block_def LF_def is_control_def byte_def)

lemma plain_LF [simp]: "\<not> is_control (byte LF)"
  using plain_ascii(4) by simp

lemma plain_strip [simp]: "plain (strip_ansi_and_control s)"
  by (induction s rule: strip_ansi_and_control.induct) (simp_all add: strip_ansi_and_control.simps(2))

lemma plain_replace_all: "plain s \<Longrightarrow> plain r \<Longrightarrow> plain (replace_all p r s)"
proof (induction p r s rule: replace_all.induct)
  case (2 p r c cs)
  have "plain (drop (length p) (c # cs))"
    using 2(3) by (rule plain_subset) (rule set_drop_subset)
  with 2 show ?case
    by (simp add: replace_all.simps(2))
qed simp

lemma plain_redact: "plain s \<Longrightarrow> plain (redact_secrets s secrets)"
  by (induction s secrets rule: redact_secrets.induct) (simp_all add: plain_replace_all plain_ascii)

lemma plain_join: "list_all plain ps \<Longrightarrow> plain sep \<Longrightarrow> plain (join sep ps)"
  by (induction sep ps rule: join.induct) simp_all

lemma plain_split: "plain s \<Longrightarrow> list_all plain (split_on c s)"
  unfolding list_all_iff using plain_subset set_split_on by blast

lemma plain_collapse_loop: "list_all plain ls \<Longrightarrow> list_all plain (collapse_loop ls)"
proof (induction ls rule: collapse_loop.induct)
  case (2 line rest)
  define run where "run = 1 + length (takeWhile (\<lambda>l. l = line) rest)"
  have "list_all plain (drop run (line # rest))" "list_all plain (take run (line # rest))"
    using 2(2) set_drop_subset [of run "line # rest"] set_take_subset [of run "line # rest"]
    by (auto simp: list_all_iff)
  moreover have "plain (line @ '' '' @ [CHR 0xC3, CHR 0x97] @ show_nat run)"
    using 2(2) by (simp add: plain_ascii is_control_def byte_def)
  ultimately show ?case
    using 2(1) [OF run_def] by (simp add: Let_def run_def [symmetric] del: One_nat_def)
qed simp

lemma plain_bound_loop: "plain s \<Longrightarrow> list_all plain (bound_loop m s)"
proof (induction m s rule: bound_loop.induct)
  case (1 m s)
  have "plain (take k s)" "plain (drop k s)" for k
    using plain_subset [OF 1(2)] set_take_subset set_drop_subset by metis+
  with 1 show ?case
    by (subst bound_loop.simps) (simp add: Let_def)
qed

lemma plain_bound: "plain s \<Longrightarrow> plain (bound_line_length s m)"
proof -
  assume "plain s"
  then have "list_all plain (concat (map (\<lambda>line. if length line \<le> m then [line] else bound_loop m line) (split_on LF s)))"
    using plain_split [of s LF] plain_bound_loop by (auto simp: list_all_iff)
  then show ?thesis
    unfolding bound_line_length_def by (rule plain_join) (rule plain_ascii)
qed

lemma plain_truncate: "plain s \<Longrightarrow> plain (fst (truncate_text s m))"
proof -
  assume "plain s"
  then have "plain (take k s)" for k
    by (rule plain_subset) (rule set_take_subset)
  with \<open>plain s\<close> show ?thesis
    by (simp add: truncate_text_def Let_def plain_ascii)
qed

lemma plain_secure: "plain (fst (secure_text raw options))"
proof -
  have "plain (if strip_ansi_and_control raw \<noteq> raw then strip_ansi_and_control raw else raw)"
    by (metis plain_strip)
  then show ?thesis
    by (auto simp: secure_text_def Let_def plain_redact split: if_splits)
qed

lemma plain_collapse: "plain s \<Longrightarrow> plain (collapse_repeated_lines s)"
  unfolding collapse_repeated_lines_def
  by (intro plain_join plain_collapse_loop plain_split) (simp_all add: plain_ascii)

subsection \<open>Bounds\<close>

text \<open>A line is bounded, or it is a single scalar that cannot be cut.\<close>

definition line_ok :: "nat \<Rightarrow> string \<Rightarrow> bool" where
  "line_ok m line \<longleftrightarrow> length line \<le> m \<or> length (scalars line) = 1"

lemma line_ok_short: "length line \<le> m \<Longrightarrow> line_ok m line"
  by (simp add: line_ok_def)

lemma scalars_first:
  assumes "scalars s = x # xs"
  shows "scalars x = [x]" and "x \<noteq> []"
proof -
  obtain c cs where s: "s = c # cs"
    using assms by (cases s) auto
  have x: "x = take (utf8_width c) (c # cs)"
    using assms unfolding s by (simp only: scalars.simps list.inject)
  then obtain n where n: "utf8_width c = Suc n" "x = c # take n cs"
    using utf8_width_pos [of c] by (cases "utf8_width c") simp_all
  then show "x \<noteq> []" "scalars x = [x]"
    by (simp_all add: scalars.simps(2))
qed

lemma piece_ok:
  assumes "s \<noteq> []"
  shows "line_ok m (take (piece_end m s) s)"
proof (cases "m < scalar_boundaries s ! 1")
  case True
  obtain x xs where xs: "scalars s = x # xs"
    using assms by (metis neq_Nil_conv scalars_eq_Nil_iff)
  then have "take (piece_end m s) s = x"
    using True boundary_take [of 1 s] by (simp add: piece_end_index piece_index_def Let_def)
  then show ?thesis
    using scalars_first [OF xs] by (simp add: line_ok_def)
next
  case False
  then have "piece_end m s \<le> m"
    using search_fit_fits [of "\<lambda>mid. scalar_boundaries s ! mid \<le> m" 1 "length (scalars s)"]
    by (auto simp: piece_end_def Let_def)
  then show ?thesis
    by (simp add: line_ok_def min.coboundedI2)
qed

lemma bound_loop_ok: "list_all (line_ok m) (bound_loop m s)"
proof (induction m s rule: bound_loop.induct)
  case (1 m s)
  show ?case
    using 1 piece_ok [of s m] by (subst bound_loop.simps) (auto simp: Let_def line_ok_short)
qed

lemma concat_bound_loop: "concat (bound_loop m s) = s"
proof (induction m s rule: bound_loop.induct)
  case (1 m s)
  then show ?case
    by (subst bound_loop.simps) (auto simp: Let_def)
qed

definition line_pieces :: "nat \<Rightarrow> string \<Rightarrow> string list" where
  "line_pieces m line = (if length line \<le> m then [line] else bound_loop m line)"

lemma line_pieces_ok: "list_all (line_ok m) (line_pieces m line)" "concat (line_pieces m line) = line"
  "line_pieces m line \<noteq> []"
proof -
  show "concat (line_pieces m line) = line"
    by (simp add: line_pieces_def concat_bound_loop)
  then show "line_pieces m line \<noteq> []"
    by (auto simp: line_pieces_def)
qed (simp add: line_pieces_def bound_loop_ok line_ok_def)

lemma line_pieces_no_LF: "LF \<notin> set line \<Longrightarrow> list_all (\<lambda>p. LF \<notin> set p) (line_pieces m line)"
  using line_pieces_ok(2) [of m line] set_concat [of "line_pieces m line"] by (auto simp: list_all_iff)

lemma split_bound_line_length:
  "split_on LF (bound_line_length text m) = concat (map (line_pieces m) (split_on LF text))"
proof -
  have "list_all (\<lambda>p. LF \<notin> set p) (concat (map (line_pieces m) (split_on LF text)))"
    using line_pieces_no_LF [of _ m] split_on_pieces [of _ LF] by (force simp: list_all_iff)
  moreover have "concat (map (line_pieces m) (split_on LF text)) \<noteq> []"
    using line_pieces_ok(3) by (cases "split_on LF text") (use split_on_nonempty in auto)
  ultimately show ?thesis
    unfolding bound_line_length_def line_pieces_def [symmetric] by (intro split_on_join)
qed

lemma bound_line_length_text: "filter (\<lambda>c. c \<noteq> LF) (bound_line_length text m) = filter (\<lambda>c. c \<noteq> LF) text"
proof -
  have "concat (map (filter P) (line_pieces m line)) = filter P line" for P line
    by (metis filter_concat line_pieces_ok(2))
  then have "concat (map (filter P) (concat (map (line_pieces m) ls))) = concat (map (filter P) ls)" for P ls
    by (induction ls) simp_all
  then show ?thesis
    using filter_join [of LF "split_on LF text"]
    by (simp add: bound_line_length_def line_pieces_def [symmetric] filter_join)
qed

lemma truncate_text_bound:
  "length (fst (truncate_text text m)) \<le> m \<or> fst (truncate_text text m) = TRUNCATION_MARKER \<and> m < length TRUNCATION_MARKER"
proof (cases "length text \<le> m")
  case False
  define low where
    "low = search_fit (\<lambda>mid. scalar_boundaries text ! mid + length TRUNCATION_MARKER \<le> m) 0 (length (scalars text))"
  have "low \<le> length (scalars text)"
    using search_fit_bounds [of 0 "length (scalars text)"] by (simp add: low_def)
  then have "length (take (scalar_boundaries text ! low) text) \<le> scalar_boundaries text ! low"
    by simp
  moreover have "low = 0 \<or> scalar_boundaries text ! low + length TRUNCATION_MARKER \<le> m"
    using search_fit_fits [of _ 0 "length (scalars text)"] by (simp add: low_def)
  moreover have "scalar_boundaries text ! 0 = 0"
    by (simp add: scalar_boundaries_nth)
  ultimately show ?thesis
    using False by (auto simp: truncate_text_def low_def [symmetric] Let_def simp del: length_take)
qed (simp add: truncate_text_def)

lemma truncate_text_unchanged: "\<not> snd (truncate_text text m) \<Longrightarrow> fst (truncate_text text m) = text"
  by (simp add: truncate_text_def Let_def split: if_splits)

text \<open>The view is the truncation of bounded lines of the secured text, collapsed or not.\<close>

lemma project_for_model_text:
  "\<exists>t \<in> {fst (secure_text raw options), collapse_repeated_lines (fst (secure_text raw options))}.
     ev_text (project_for_model i r raw options)
       = fst (truncate_text (bound_line_length t (eo_max_line_bytes options)) (eo_max_total_bytes options))
     \<and> ev_truncated (project_for_model i r raw options)
       = snd (truncate_text (bound_line_length t (eo_max_line_bytes options)) (eo_max_total_bytes options))"
proof -
  obtain pre tr where sec: "secure_text raw options = (pre, tr)"
    by fastforce
  define applied where "applied \<longleftrightarrow> collapse_repeated_lines pre \<noteq> pre
    \<and> length (encode_utf16 (map byte (collapse_repeated_lines pre))) \<le> length (encode_utf16 (map byte pre))"
  define t where "t = (if applied \<and> \<not> length raw < length (bound_line_length (collapse_repeated_lines pre) (eo_max_line_bytes options))
    then collapse_repeated_lines pre else pre)"
  have "ev_text (project_for_model i r raw options)
       = fst (truncate_text (bound_line_length t (eo_max_line_bytes options)) (eo_max_total_bytes options))
     \<and> ev_truncated (project_for_model i r raw options)
       = snd (truncate_text (bound_line_length t (eo_max_line_bytes options)) (eo_max_total_bytes options))"
    unfolding project_for_model_def sec Let_def prod.case applied_def [symmetric] t_def
    by (cases applied; simp add: case_prod_beta truncate_text_unchanged)
  then show ?thesis
    unfolding sec fst_conv by (intro bexI [of _ t]) (simp_all add: t_def)
qed

subsection \<open>Redaction\<close>

lemma contains_mono: "contains p u \<Longrightarrow> contains p (u @ v)" "contains p v \<Longrightarrow> contains p (u @ v)"
  unfolding contains_iff by (metis append.assoc)+

lemma contains_skip: "c \<notin> set p \<Longrightarrow> p \<noteq> [] \<Longrightarrow> contains p (c # t) \<longleftrightarrow> contains p t"
  by (cases p) auto

text \<open>Replacement works on the leftmost occurrence first.\<close>

lemma replace_all_absent: "\<not> contains p s \<Longrightarrow> replace_all p r s = s"
  by (induction p r s rule: replace_all.induct) (auto simp: replace_all.simps(2))

lemma replace_all_leftmost:
  "contains p s \<Longrightarrow> p \<noteq> [] \<Longrightarrow>
     \<exists>u v. s = u @ p @ v \<and> \<not> contains p u \<and> replace_all p r s = u @ r @ replace_all p r v"
proof (induction s)
  case (Cons c cs)
  show ?case
  proof (cases "prefix_of p (c # cs)")
    case True
    then obtain v where v: "c # cs = p @ v"
      by (auto simp: prefix_of_iff)
    have "drop (length p) (c # cs) = v"
      using v by simp
    with True Cons.prems have "replace_all p r (c # cs) = [] @ r @ replace_all p r v"
      by (simp only: replace_all.simps append_Nil if_True simp_thms)
    with v Cons.prems show ?thesis
      by (intro exI [of _ "[]"] exI [of _ v]) simp
  next
    case False
    with Cons obtain u v where uv: "cs = u @ p @ v" "\<not> contains p u" "replace_all p r cs = u @ r @ replace_all p r v"
      by auto
    have "\<not> prefix_of p (c # u)"
      using False unfolding uv(1) prefix_of_iff by (metis append_Cons append_assoc)
    with uv False show ?thesis
      by (intro exI [of _ "c # u"] exI [of _ v]) (simp add: replace_all.simps(2))
  qed
qed simp

text \<open>ASCII secrets that the placeholder itself does not spell out.\<close>

definition redactable :: "string \<Rightarrow> bool" where
  "redactable secret \<longleftrightarrow> secret \<noteq> [] \<and> list_all (\<lambda>c. byte c < 0x80) secret \<and> \<not> contains secret ''[REDACTED]''"

lemma redactable_nonempty: "redactable p \<Longrightarrow> p \<noteq> []"
  by (simp add: redactable_def)

lemma contains_placeholder:
  assumes "redactable p"
  shows "contains p (u @ REDACTED_PLACEHOLDER @ v) \<longleftrightarrow> contains p u \<or> contains p v"
proof -
  define inner where "inner = ''[REDACTED]''"
  have p: "p \<noteq> []" "\<not> contains p inner"
    using assms by (auto simp: redactable_def inner_def)
  have "byte (CHR 0xE2) \<ge> 0x80" "byte (CHR 0x96) \<ge> 0x80" "byte (CHR 0x88) \<ge> 0x80"
    by (simp_all add: byte_def)
  then have sep: "CHR 0xE2 \<notin> set p" "CHR 0x96 \<notin> set p" "CHR 0x88 \<notin> set p"
    using assms by (auto simp: redactable_def list_all_iff)
  show ?thesis
    unfolding REDACTED_PLACEHOLDER_def full_block_def inner_def [symmetric] append_Cons append_Nil append_assoc
    by (simp add: contains_append_sep contains_skip sep p del: contains.simps(2))
qed

lemma replace_all_removes: "redactable p \<Longrightarrow> \<not> contains p (replace_all p REDACTED_PLACEHOLDER s)"
proof (induction s rule: length_induct)
  case (1 s)
  show ?case
  proof (cases "contains p s")
    case True
    obtain u v where "s = u @ p @ v" "\<not> contains p u"
      "replace_all p REDACTED_PLACEHOLDER s = u @ REDACTED_PLACEHOLDER @ replace_all p REDACTED_PLACEHOLDER v"
      using replace_all_leftmost [OF True redactable_nonempty [OF 1(2)]] by blast
    moreover have "length v < length s"
      using calculation(1) redactable_nonempty [OF 1(2)] by simp
    ultimately show ?thesis
      using 1 contains_placeholder [OF 1(2)] by auto
  qed (simp add: replace_all_absent)
qed

lemma replace_all_keeps_absent:
  "redactable p \<Longrightarrow> q \<noteq> [] \<Longrightarrow> \<not> contains p s \<Longrightarrow> \<not> contains p (replace_all q REDACTED_PLACEHOLDER s)"
proof (induction s rule: length_induct)
  case (1 s)
  show ?case
  proof (cases "contains q s")
    case True
    obtain u v where s: "s = u @ q @ v"
      "replace_all q REDACTED_PLACEHOLDER s = u @ REDACTED_PLACEHOLDER @ replace_all q REDACTED_PLACEHOLDER v"
      using replace_all_leftmost [OF True 1(3)] by blast
    have "\<not> contains p u" "\<not> contains p v"
      using 1(4) s(1) contains_mono by metis+
    moreover have "length v < length s"
      using s(1) 1(3) by simp
    ultimately show ?thesis
      using 1 contains_placeholder [OF 1(2)] s(2) by auto
  qed (use 1 in \<open>simp add: replace_all_absent\<close>)
qed

lemma redact_keeps_absent: "redactable p \<Longrightarrow> \<not> contains p s \<Longrightarrow> \<not> contains p (redact_secrets s secrets)"
  by (induction s secrets rule: redact_secrets.induct) (simp_all add: replace_all_keeps_absent)

lemma redact_removes: "redactable p \<Longrightarrow> p \<in> set secrets \<Longrightarrow> \<not> contains p (redact_secrets s secrets)"
proof (induction s secrets rule: redact_secrets.induct)
  case (2 out secret secrets)
  then show ?case
    by (cases "secret = p") (auto simp: redactable_def redact_keeps_absent replace_all_removes)
qed simp

subsection \<open>Properties\<close>

text \<open>
  What a model sees of a tool result is safe and bounded: the view holds no control byte
  (escape sequences included), it is within its byte budget or is the bare truncation marker
  when the budget is smaller than the marker, and its recorded size is its size.
\<close>

theorem evidence_view_safe_and_bounded:
  "plain (ev_text (project_for_model i r raw options))
   \<and> (length (ev_text (project_for_model i r raw options)) \<le> eo_max_total_bytes options
      \<or> ev_text (project_for_model i r raw options) = TRUNCATION_MARKER
        \<and> eo_max_total_bytes options < length TRUNCATION_MARKER)
   \<and> ev_shown_bytes (project_for_model i r raw options) = length (ev_text (project_for_model i r raw options))"
proof -
  obtain t where t: "t \<in> {fst (secure_text raw options), collapse_repeated_lines (fst (secure_text raw options))}"
    "ev_text (project_for_model i r raw options)
       = fst (truncate_text (bound_line_length t (eo_max_line_bytes options)) (eo_max_total_bytes options))"
    using project_for_model_text by blast
  then have "plain t"
    using plain_secure plain_collapse by auto
  then have "plain (ev_text (project_for_model i r raw options))"
    unfolding t(2) by (intro plain_truncate plain_bound)
  moreover have "ev_shown_bytes (project_for_model i r raw options) = length (ev_text (project_for_model i r raw options))"
    by (simp add: project_for_model_def Let_def case_prod_beta)
  ultimately show ?thesis
    using truncate_text_bound by (simp add: t(2))
qed

text \<open>
  C16.  Redaction removes every configured ASCII secret that the placeholder does not itself
  spell out, whatever the other secrets are and in whatever order they are replaced.
\<close>

theorem redaction_removes_secrets:
  assumes "secret \<in> set (eo_secrets options)" and "redactable secret"
  shows "\<not> contains secret (fst (secure_text raw options))"
proof -
  have "\<not> contains secret t" if "\<not> list_ex (\<lambda>s. s \<noteq> [] \<and> contains s t) (eo_secrets options)" for t
    using that assms by (auto simp: list_ex_iff redactable_def)
  then show ?thesis
    using assms redact_removes by (auto simp: secure_text_def Let_def case_prod_beta)
qed

theorem redaction_removes_secrets_witness:
  "let options = \<lparr> eo_secrets = [''hunter2'', ''token''], eo_max_total_bytes = 100, eo_max_line_bytes = 80 \<rparr>
   in contains ''hunter2'' ''password hunter2!'' \<and> \<not> contains ''hunter2'' (fst (secure_text ''password hunter2!'' options))"
proof -
  have "redactable ''hunter2''"
    by (simp add: redactable_def byte_def)
  then have "\<not> contains ''hunter2'' (fst (secure_text ''password hunter2!''
    \<lparr> eo_secrets = [''hunter2'', ''token''], eo_max_total_bytes = 100, eo_max_line_bytes = 80 \<rparr>))"
    by (intro redaction_removes_secrets) simp_all
  then show ?thesis
    by (simp add: Let_def)
qed

text \<open>
  Bounding lines loses no text and leaves no long line: the bytes other than line feeds
  are unchanged, and every line is within the bound or is a single scalar that is longer than
  it.
\<close>

theorem bounded_lines_keep_text:
  "list_all (line_ok m) (split_on LF (bound_line_length raw m))
   \<and> filter (\<lambda>c. c \<noteq> LF) (bound_line_length raw m) = filter (\<lambda>c. c \<noteq> LF) raw"
  using line_pieces_ok(1) bound_line_length_text
  by (auto simp: split_bound_line_length list_all_iff)

end
