(* ===== verification/Projection.thy ===== *)
theory Projection
  imports Context_Budget Evidence_View Tool_Executor "HOL-Library.Product_Lexorder"
begin

text \<open>
  The projection of a conversation into a provider request (\<open>projection/segments.rs\<close>,
  \<open>projection/visibility.rs\<close>, \<open>projection/mod.rs\<close>, \<open>js_string.rs\<close>).
\<close>

subsection \<open>Segments\<close>

datatype Stability = Stability_Stable | Stability_Contextual | Stability_Volatile

fun Stability_rank :: "Stability \<Rightarrow> nat" where
  "Stability_rank Stability_Stable = 0"
| "Stability_rank Stability_Contextual = 1"
| "Stability_rank Stability_Volatile = 2"

fun Stability_as_str :: "Stability \<Rightarrow> string" where
  "Stability_as_str Stability_Stable = ''stable''"
| "Stability_as_str Stability_Contextual = ''contextual''"
| "Stability_as_str Stability_Volatile = ''volatile''"

definition Stability_parse :: "string \<Rightarrow> Stability option" where
  "Stability_parse s =
     (if s = ''stable'' then Some Stability_Stable
      else if s = ''contextual'' then Some Stability_Contextual
      else if s = ''volatile'' then Some Stability_Volatile
      else None)"

record SegmentInput =
  si_id :: string
  si_stability :: Stability
  si_title :: string
  si_content :: string

record ContextSegment =
  cs_id :: string
  cs_stability :: Stability
  cs_title :: string
  cs_content :: string
  cs_bytes :: nat
  cs_estimated_tokens :: nat

record ContextProjection =
  stable_segments :: "ContextSegment list"
  contextual_segments :: "ContextSegment list"
  volatile_segments :: "ContextSegment list"
  stable_fingerprint :: string
  stable_bytes :: nat
  stable_prefix_bytes :: nat
  total_bytes :: nat
  context_estimated_tokens :: nat

definition serialize_segment :: "ContextSegment \<Rightarrow> string" where
  "serialize_segment s = ''['' @ cs_title s @ '']'' @ [LF] @ cs_content s"

definition serialize_segments :: "ContextSegment list \<Rightarrow> string" where
  "serialize_segments segments = join [LF, LF] (map serialize_segment segments)"

definition build_segment :: "SegmentInput \<Rightarrow> ContextSegment" where
  "build_segment i =
     \<lparr> cs_id = si_id i, cs_stability = si_stability i, cs_title = si_title i, cs_content = si_content i,
       cs_bytes = length (si_content i), cs_estimated_tokens = estimate_tokens (si_content i) \<rparr>"

text \<open>
  \<open>js_string::cmp\<close> compares the UTF-16 code units lexicographically; the stable \<open>sort_by\<close> on
  rank and id is the stable \<open>sort_key\<close> on the pair of both.
\<close>

definition js_units :: "string \<Rightarrow> nat list" where
  "js_units s = encode_utf16 (map byte s)"

definition segment_key :: "SegmentInput \<Rightarrow> nat \<times> nat list" where
  "segment_key i = (Stability_rank (si_stability i), js_units (si_id i))"

definition segment_value :: "ContextSegment \<Rightarrow> CanonicalValue" where
  "segment_value seg = CanonicalValue_Object
     (bm_insert ''title'' (CanonicalValue_Str (cs_title seg))
       (bm_insert ''id'' (CanonicalValue_Str (cs_id seg))
         (bm_insert ''content'' (CanonicalValue_Str (cs_content seg)) [])))"

definition of_stability :: "Stability \<Rightarrow> ContextSegment list \<Rightarrow> ContextSegment list" where
  "of_stability c segments = filter (\<lambda>s. cs_stability s = c) segments"

definition project_segments :: "SegmentInput list \<Rightarrow> ContextProjection" where
  "project_segments inputs =
     (let built = map build_segment (sort_key segment_key inputs);
          stable = of_stability Stability_Stable built;
          contextual = of_stability Stability_Contextual built
      in \<lparr> stable_segments = stable, contextual_segments = contextual,
           volatile_segments = of_stability Stability_Volatile built,
           stable_fingerprint = sha256_hex_str (canonicalize (CanonicalValue_Array (map segment_value stable))),
           stable_bytes = length (serialize_segments stable),
           stable_prefix_bytes = length (serialize_segments (stable @ contextual)),
           total_bytes = sum_list (map cs_bytes built),
           context_estimated_tokens = sum_list (map cs_estimated_tokens built) \<rparr>)"

definition serialize_prefix :: "ContextProjection \<Rightarrow> string" where
  "serialize_prefix p = serialize_segments (stable_segments p @ contextual_segments p)"

subsection \<open>Tool visibility\<close>

datatype Visibility = Visibility_Available | Visibility_Gated | Visibility_Hidden

fun Visibility_as_str :: "Visibility \<Rightarrow> string" where
  "Visibility_as_str Visibility_Available = ''available''"
| "Visibility_as_str Visibility_Gated = ''gated''"
| "Visibility_as_str Visibility_Hidden = ''hidden''"

record ProjectedTool =
  pt_name :: string
  pt_visibility :: Visibility
  pt_description :: string
  pt_input_schema :: Value

record ToolCounts =
  tc_available :: nat
  tc_gated :: nat
  tc_hidden :: nat

record ToolProjection =
  tp_fingerprint :: string
  tp_tools :: "ProjectedTool list"
  tp_counts :: ToolCounts
  tp_request_tools :: "ToolDefinition list"
  tp_approved_names :: "string list"

datatype ProjectionMode =
    ProjectionMode_Generic
  | ProjectionMode_Development
  | ProjectionMode_Review
  | ProjectionMode_Inspection
  | ProjectionMode_Planning

fun ProjectionMode_as_str :: "ProjectionMode \<Rightarrow> string" where
  "ProjectionMode_as_str ProjectionMode_Generic = ''generic''"
| "ProjectionMode_as_str ProjectionMode_Development = ''development''"
| "ProjectionMode_as_str ProjectionMode_Review = ''review''"
| "ProjectionMode_as_str ProjectionMode_Inspection = ''inspection''"
| "ProjectionMode_as_str ProjectionMode_Planning = ''planning''"

definition ProjectionMode_parse :: "string \<Rightarrow> ProjectionMode option" where
  "ProjectionMode_parse s =
     (if s = ''generic'' then Some ProjectionMode_Generic
      else if s = ''development'' then Some ProjectionMode_Development
      else if s = ''review'' then Some ProjectionMode_Review
      else if s = ''inspection'' then Some ProjectionMode_Inspection
      else if s = ''planning'' then Some ProjectionMode_Planning
      else None)"

fun requires_tool_calling :: "ProjectionMode \<Rightarrow> bool" where
  "requires_tool_calling ProjectionMode_Generic = False"
| "requires_tool_calling _ = True"

definition permission_visibility :: "string \<Rightarrow> PermissionPolicy \<Rightarrow> Visibility" where
  "permission_visibility capability policy =
     (case evaluate_permission capability policy of
        PermissionDecision_Allow \<Rightarrow> Visibility_Available
      | PermissionDecision_Ask _ \<Rightarrow> Visibility_Gated
      | PermissionDecision_Deny _ \<Rightarrow> Visibility_Hidden)"

definition show_int :: "int \<Rightarrow> string" where
  "show_int i = (if i < 0 then ''-'' @ show_nat (nat (- i)) else show_nat (nat i))"

text \<open>The text of a number is what the serializer writes for it.\<close>

fun value_to_canonical :: "serializer \<Rightarrow> Value \<Rightarrow> CanonicalValue" where
  "value_to_canonical to_json Value_Null = CanonicalValue_Null"
| "value_to_canonical to_json (Value_Bool b) = CanonicalValue_Bool b"
| "value_to_canonical to_json (Value_Number n) =
     (case n of
        PosInt u \<Rightarrow> CanonicalValue_U64 (of_nat u)
      | NegInt i \<Rightarrow> CanonicalValue_Str (show_int i)
      | Float q \<Rightarrow> CanonicalValue_Str (to_json (Value_Number n)))"
| "value_to_canonical to_json (Value_String s) = CanonicalValue_Str s"
| "value_to_canonical to_json (Value_Array vs) = CanonicalValue_Array (map (value_to_canonical to_json) vs)"
| "value_to_canonical to_json (Value_Object entries) =
     CanonicalValue_Object (bm_of_list [] (map (\<lambda>(k, v). (k, value_to_canonical to_json v)) entries))"

definition tool_value :: "serializer \<Rightarrow> ProjectedTool \<Rightarrow> CanonicalValue" where
  "tool_value to_json t = CanonicalValue_Object
     (bm_insert ''name'' (CanonicalValue_Str (pt_name t))
       (bm_insert ''inputSchema'' (value_to_canonical to_json (pt_input_schema t))
         (bm_insert ''description'' (CanonicalValue_Str (pt_description t)) [])))"

definition project_tool :: "PermissionPolicy \<Rightarrow> string list option \<Rightarrow> RegisteredToolInfo \<Rightarrow> ProjectedTool" where
  "project_tool policy allowed_names info =
     \<lparr> pt_name = td_name (ri_definition info),
       pt_visibility =
         (case allowed_names of
            Some names \<Rightarrow>
              if \<not> list_ex (\<lambda>n. n = td_name (ri_definition info)) names then Visibility_Hidden
              else permission_visibility (ri_capability info) policy
          | None \<Rightarrow> permission_visibility (ri_capability info) policy),
       pt_description = td_description (ri_definition info),
       pt_input_schema = td_input_schema (ri_definition info) \<rparr>"

definition project_tools ::
    "serializer \<Rightarrow> RegisteredToolInfo list \<Rightarrow> PermissionPolicy \<Rightarrow> string list option \<Rightarrow> ToolProjection" where
  "project_tools to_json registered_tools policy allowed_names =
     (let projected = map (project_tool policy allowed_names) registered_tools;
          visible = filter (\<lambda>t. pt_visibility t \<noteq> Visibility_Hidden) projected
      in \<lparr> tp_fingerprint =
             (if visible = [] then sha256_hex_str ''[]''
              else sha256_hex_str (canonicalize (CanonicalValue_Array (map (tool_value to_json) visible)))),
           tp_tools = projected,
           tp_counts =
             \<lparr> tc_available = length (filter (\<lambda>t. pt_visibility t = Visibility_Available) projected),
               tc_gated = length (filter (\<lambda>t. pt_visibility t = Visibility_Gated) projected),
               tc_hidden = length (filter (\<lambda>t. pt_visibility t = Visibility_Hidden) projected) \<rparr>,
           tp_request_tools =
             map (\<lambda>t. \<lparr> td_name = pt_name t, td_description = pt_description t, td_input_schema = pt_input_schema t \<rparr>) visible,
           tp_approved_names = sort (map pt_name visible) \<rparr>)"

subsection \<open>The request\<close>

datatype BlockedReason = BlockedReason_Hard string | BlockedReason_Unsupported string

fun BlockedReason_kind :: "BlockedReason \<Rightarrow> string" where
  "BlockedReason_kind (BlockedReason_Hard _) = ''hard''"
| "BlockedReason_kind (BlockedReason_Unsupported _) = ''unsupported''"

fun BlockedReason_message :: "BlockedReason \<Rightarrow> string" where
  "BlockedReason_message (BlockedReason_Hard m) = m"
| "BlockedReason_message (BlockedReason_Unsupported m) = m"

record ProjectedRequest =
  pr_mode :: ProjectionMode
  pr_messages :: "ConversationItem list"
  pr_tools :: "ToolDefinition list"
  pr_system :: "string option"
  pr_pressure :: ContextPressure
  pr_tool_projection :: ToolProjection
  pr_context_projection :: ContextProjection
  pr_estimated_tokens :: nat
  pr_blocked :: "BlockedReason option"

record LastProjection =
  lp_request :: ProjectedRequest
  lp_evidence_cache_size :: nat
  lp_reduced :: bool
  lp_dropped_items :: nat

record ProjectionInput =
  pi_mode :: ProjectionMode
  pi_messages :: "ConversationItem list"
  pi_registered_tools :: "RegisteredToolInfo list"
  pi_provider_tool_calling :: bool
  pi_capacity :: ContextCapacity
  pi_pressure_limits :: PressureLimits
  pi_segments :: "SegmentInput list"
  pi_evidence_options :: EvidenceProjectorOptions
  pi_allowed_tool_names :: "string list option"
  pi_policy :: PermissionPolicy
  pi_task_revision :: "nat option"

type_synonym evidence_cache = "ModelEvidenceView RevisionBoundCache"

record ProjectionService =
  ps_cache :: evidence_cache
  ps_last_projection :: "LastProjection option"

definition ProjectionService_new :: ProjectionService where
  "ProjectionService_new = \<lparr> ps_cache = RevisionBoundCache_new, ps_last_projection = None \<rparr>"

definition empty_tool_projection :: ToolProjection where
  "empty_tool_projection =
     \<lparr> tp_fingerprint = ''unsupported'', tp_tools = [], tp_counts = \<lparr> tc_available = 0, tc_gated = 0, tc_hidden = 0 \<rparr>,
       tp_request_tools = [], tp_approved_names = [] \<rparr>"

fun with_message :: "ToolExecutionResult \<Rightarrow> string \<Rightarrow> ToolExecutionResult" where
  "with_message (ToolExecutionResult_Success v s) m = ToolExecutionResult_Success v s"
| "with_message (ToolExecutionResult_InvalidInput _) m = ToolExecutionResult_InvalidInput m"
| "with_message (ToolExecutionResult_Denied _) m = ToolExecutionResult_Denied m"
| "with_message (ToolExecutionResult_Conflict _) m = ToolExecutionResult_Conflict m"
| "with_message (ToolExecutionResult_Failed _) m = ToolExecutionResult_Failed m"
| "with_message (ToolExecutionResult_Cancelled _) m = ToolExecutionResult_Cancelled m"
| "with_message (ToolExecutionResult_TimedOut _) m = ToolExecutionResult_TimedOut m"
| "with_message (ToolExecutionResult_OutputLimit _) m = ToolExecutionResult_OutputLimit m"
| "with_message (ToolExecutionResult_SandboxDenied _) m = ToolExecutionResult_SandboxDenied m"
| "with_message (ToolExecutionResult_SandboxUnavailable _) m = ToolExecutionResult_SandboxUnavailable m"
| "with_message (ToolExecutionResult_WorkspaceViolation _) m = ToolExecutionResult_WorkspaceViolation m"
| "with_message (ToolExecutionResult_Unavailable _) m = ToolExecutionResult_Unavailable m"

definition evidence_key :: "serializer \<Rightarrow> string \<Rightarrow> Value \<Rightarrow> string \<Rightarrow> string" where
  "evidence_key to_json tool_name out summary =
     tool_name @ '':'' @ sha256_hex_str (to_json out @ '':'' @ summary)"

definition project_tool_result ::
    "serializer \<Rightarrow> nat option \<Rightarrow> string \<Rightarrow> ToolExecutionResult \<Rightarrow> EvidenceProjectorOptions \<Rightarrow> evidence_cache
      \<Rightarrow> evidence_cache \<times> ToolExecutionResult" where
  "project_tool_result to_json revision tool_name result options cache =
     (case result of
        ToolExecutionResult_Success out summary \<Rightarrow>
          let key = evidence_key to_json tool_name out summary
          in (case bound_get cache key of
                Some cached \<Rightarrow> (cache, ToolExecutionResult_Success out (ev_text cached))
              | None \<Rightarrow>
                  let view = project_for_model None None summary options
                  in (bound_insert revision key view cache, ToolExecutionResult_Success out (ev_text view)))
      | other \<Rightarrow> (cache, with_message other (ev_text (project_for_model None None (result_message other) options))))"

fun project_messages ::
    "serializer \<Rightarrow> nat option \<Rightarrow> EvidenceProjectorOptions \<Rightarrow> evidence_cache \<Rightarrow> ConversationItem list
      \<Rightarrow> evidence_cache \<times> ConversationItem list" where
  "project_messages to_json revision options cache [] = (cache, [])"
| "project_messages to_json revision options cache (ToolResult call_id tool_name result # items) =
     (let (cache, projected) = project_tool_result to_json revision tool_name result options cache;
          (cache, rest) = project_messages to_json revision options cache items
      in (cache, ToolResult call_id tool_name projected # rest))"
| "project_messages to_json revision options cache (other # items) =
     (let (cache, rest) = project_messages to_json revision options cache items
      in (cache, other # rest))"

definition tool_tokens :: "serializer \<Rightarrow> ToolDefinition list \<Rightarrow> nat" where
  "tool_tokens to_json tools =
     sum_list (map (\<lambda>def. estimate_tokens (td_name def) + estimate_tokens (td_description def)
       + estimate_tokens (to_json (td_input_schema def))) tools)"

definition unsupported_reason :: string where
  "unsupported_reason = ''The selected provider route does not support tool calling, which this task requires; the session cannot proceed with hidden or missing tools.''"

definition hard_reason :: "nat \<Rightarrow> int \<Rightarrow> bool \<Rightarrow> string" where
  "hard_reason estimated working reduced =
     ''Projected context is '' @ show_nat estimated @ '' tokens against a working maximum of '' @ show_int working
       @ ''; the provider call was blocked.'' @ (if reduced then '' (reduction was already applied)'' else [])"

text \<open>The reduction step: messages, pressure, whether reduced, and the number of dropped items.\<close>

definition reduce_messages ::
    "serializer \<Rightarrow> ProjectionInput \<Rightarrow> nat \<Rightarrow> nat \<Rightarrow> ConversationItem list \<times> ContextPressure \<times> bool \<times> nat" where
  "reduce_messages to_json input system tools =
     (let original = system + tools + estimate_conversation_tokens to_json (pi_messages input);
          working = working_maximum (pi_capacity input);
          pressure = classify_pressure original working (pi_pressure_limits input)
      in if cp_state pressure = PressureState_Auto \<or> cp_state pressure = PressureState_Hard then
           let message_budget = nat (max (working - int system - int tools) 0);
               trimmed = trim_conversation_preserving_pairs to_json (pi_messages input) message_budget
           in if 0 < tr_dropped_items trimmed then
                (tr_items trimmed,
                 classify_pressure (system + tools + tr_estimated_tokens trimmed) working (pi_pressure_limits input),
                 True, tr_dropped_items trimmed)
              else (pi_messages input, pressure, False, 0)
         else (pi_messages input, pressure, False, 0))"

definition project :: "serializer \<Rightarrow> ProjectionInput \<Rightarrow> ProjectionService \<Rightarrow> ProjectionService \<times> ProjectedRequest" where
  "project to_json input service =
     (let cache = ensure_revision (pi_task_revision input) (ps_cache service);
          context = project_segments (pi_segments input);
          system_text = serialize_prefix context;
          system_tokens = estimate_tokens system_text
      in if \<not> pi_provider_tool_calling input \<and> requires_tool_calling (pi_mode input) then
           let projected =
             \<lparr> pr_mode = pi_mode input, pr_messages = pi_messages input, pr_tools = [], pr_system = Some system_text,
               pr_pressure = classify_pressure 0 (working_maximum (pi_capacity input)) (pi_pressure_limits input),
               pr_tool_projection = empty_tool_projection, pr_context_projection = context,
               pr_estimated_tokens = 0, pr_blocked = Some (BlockedReason_Unsupported unsupported_reason) \<rparr>
           in (\<lparr> ps_cache = cache,
                 ps_last_projection = Some \<lparr> lp_request = projected, lp_evidence_cache_size = bound_len cache,
                   lp_reduced = False, lp_dropped_items = 0 \<rparr> \<rparr>, projected)
         else
           let tools = project_tools to_json (pi_registered_tools input) (pi_policy input) (pi_allowed_tool_names input);
               (messages, pressure, reduced, dropped) =
                 reduce_messages to_json input system_tokens (tool_tokens to_json (tp_request_tools tools));
               (cache, projected_messages) =
                 project_messages to_json (pi_task_revision input) (pi_evidence_options input) cache messages;
               estimated = cp_estimated_tokens pressure;
               projected =
                 \<lparr> pr_mode = pi_mode input, pr_messages = projected_messages, pr_tools = tp_request_tools tools,
                   pr_system = Some system_text, pr_pressure = pressure, pr_tool_projection = tools,
                   pr_context_projection = context, pr_estimated_tokens = estimated,
                   pr_blocked =
                     (if cp_state pressure = PressureState_Hard then
                        Some (BlockedReason_Hard (hard_reason estimated (working_maximum (pi_capacity input)) reduced))
                      else None) \<rparr>
           in (\<lparr> ps_cache = cache,
                 ps_last_projection = Some \<lparr> lp_request = projected, lp_evidence_cache_size = bound_len cache,
                   lp_reduced = reduced, lp_dropped_items = dropped \<rparr> \<rparr>, projected))"

definition project_request :: "serializer \<Rightarrow> ProjectionInput \<Rightarrow> ProjectedRequest" where
  "project_request to_json input = snd (project to_json input ProjectionService_new)"

text \<open>
  The second entry point, on a borrowed cache and with its own policy and options.  The source
  repeats the reduction and the loop over the messages there word for word; they are shared
  here.
\<close>

definition project_with_policy ::
    "serializer \<Rightarrow> evidence_cache \<Rightarrow> ProjectionInput \<Rightarrow> PermissionPolicy \<Rightarrow> EvidenceProjectorOptions
      \<Rightarrow> evidence_cache \<times> ProjectedRequest" where
  "project_with_policy to_json cache input policy evidence_options =
     (let cache = ensure_revision (pi_task_revision input) cache;
          context = project_segments (pi_segments input);
          system_text = serialize_prefix context;
          system_tokens = estimate_tokens system_text
      in if \<not> pi_provider_tool_calling input \<and> requires_tool_calling (pi_mode input) then
           (cache,
            \<lparr> pr_mode = pi_mode input, pr_messages = pi_messages input, pr_tools = [], pr_system = Some system_text,
              pr_pressure = classify_pressure 0 (working_maximum (pi_capacity input)) (pi_pressure_limits input),
              pr_tool_projection = empty_tool_projection, pr_context_projection = context,
              pr_estimated_tokens = 0, pr_blocked = Some (BlockedReason_Unsupported unsupported_reason) \<rparr>)
         else
           let tools = project_tools to_json (pi_registered_tools input) policy (pi_allowed_tool_names input);
               (messages, pressure, reduced, _) =
                 reduce_messages to_json input system_tokens (tool_tokens to_json (tp_request_tools tools));
               (cache, projected_messages) =
                 project_messages to_json (pi_task_revision input) evidence_options cache messages;
               estimated = cp_estimated_tokens pressure
           in (cache,
               \<lparr> pr_mode = pi_mode input, pr_messages = projected_messages, pr_tools = tp_request_tools tools,
                 pr_system = Some system_text, pr_pressure = pressure, pr_tool_projection = tools,
                 pr_context_projection = context, pr_estimated_tokens = estimated,
                 pr_blocked =
                   (if cp_state pressure = PressureState_Hard then
                      Some (BlockedReason_Hard (hard_reason estimated (working_maximum (pi_capacity input)) reduced))
                    else None) \<rparr>))"

end
