(* ===== verification/Projection_Properties.thy ===== *)
theory Projection_Properties
  imports Projection
begin

text \<open>
  What the projection promises: the request stays a valid conversation, the provider sees
  exactly the tools the executor will accept, tool results reach the provider without control
  bytes, a request that is not blocked fits the working maximum, and the two entry points
  agree.
\<close>

subsection \<open>Messages\<close>

lemma estimated_classify: "cp_estimated_tokens (classify_pressure n w l) = n"
  by (simp add: classify_pressure_def)

lemma pairing_project_messages:
  "pairing m (snd (project_messages to_json revision options cache items)) = pairing m items"
proof (induction items arbitrary: cache m)
  case (Cons x xs)
  then show ?case
    by (cases x) (simp_all add: pairing.simps case_prod_beta Let_def split: list.split)
qed simp

lemma reduce_messages_valid:
  assumes "validate_conversation_items (pi_messages input) = Ok u"
  shows "validate_conversation_items (fst (reduce_messages to_json input s t)) = Ok ()"
  using assms reduction_preserves_conversation [OF assms, of to_json]
  by (simp add: reduce_messages_def Let_def)

lemma reduce_messages_users:
  assumes "validate_conversation_items (pi_messages input) = Ok u"
  shows "filter is_user_item (fst (reduce_messages to_json input s t)) = filter is_user_item (pi_messages input)"
  using reduction_preserves_conversation [OF assms, of to_json]
  by (simp add: reduce_messages_def Let_def)

lemma users_project_messages:
  "filter is_user_item (snd (project_messages to_json revision options cache items)) = filter is_user_item items"
proof (induction items arbitrary: cache)
  case (Cons x xs)
  then show ?case
    by (cases x) (simp_all add: case_prod_beta Let_def)
qed simp

lemma validate_cong: "(\<And>m. pairing m xs = pairing m ys) \<Longrightarrow> validate_conversation_items xs = validate_conversation_items ys"
  by (simp add: validate_conversation_items_pairing pairing_ok_def)

text \<open>The messages of a request, through the branches of \<open>project\<close>.\<close>

definition unsupported :: "ProjectionInput \<Rightarrow> bool" where
  "unsupported input \<longleftrightarrow> \<not> pi_provider_tool_calling input \<and> requires_tool_calling (pi_mode input)"

definition context_tokens :: "serializer \<Rightarrow> ProjectionInput \<Rightarrow> nat \<times> nat" where
  "context_tokens to_json input =
     (estimate_tokens (serialize_prefix (project_segments (pi_segments input))),
      tool_tokens to_json (tp_request_tools
        (project_tools to_json (pi_registered_tools input) (pi_policy input) (pi_allowed_tool_names input))))"

abbreviation reduced_messages where
  "reduced_messages to_json input \<equiv>
     reduce_messages to_json input (fst (context_tokens to_json input)) (snd (context_tokens to_json input))"

lemma project_supported:
  assumes "\<not> unsupported input"
  shows "pr_messages (snd (project to_json input service)) =
      snd (project_messages to_json (pi_task_revision input) (pi_evidence_options input)
        (ensure_revision (pi_task_revision input) (ps_cache service)) (fst (reduced_messages to_json input)))"
    and "ps_cache (fst (project to_json input service)) =
      fst (project_messages to_json (pi_task_revision input) (pi_evidence_options input)
        (ensure_revision (pi_task_revision input) (ps_cache service)) (fst (reduced_messages to_json input)))"
    and "pr_pressure (snd (project to_json input service)) = fst (snd (reduced_messages to_json input))"
    and "pr_estimated_tokens (snd (project to_json input service))
      = cp_estimated_tokens (fst (snd (reduced_messages to_json input)))"
    and "pr_tool_projection (snd (project to_json input service)) =
      project_tools to_json (pi_registered_tools input) (pi_policy input) (pi_allowed_tool_names input)"
    and "pr_tools (snd (project to_json input service)) =
      tp_request_tools (project_tools to_json (pi_registered_tools input) (pi_policy input) (pi_allowed_tool_names input))"
    and "(pr_blocked (snd (project to_json input service)) = None)
      = (cp_state (fst (snd (reduced_messages to_json input))) \<noteq> PressureState_Hard)"
  using assms
  by (simp_all add: project_def unsupported_def context_tokens_def Let_def case_prod_beta del: de_Morgan_conj)

lemma project_unsupported:
  assumes "unsupported input"
  shows "pr_messages (snd (project to_json input service)) = pi_messages input"
    and "ps_cache (fst (project to_json input service)) = ensure_revision (pi_task_revision input) (ps_cache service)"
    and "pr_tool_projection (snd (project to_json input service)) = empty_tool_projection"
    and "pr_tools (snd (project to_json input service)) = []"
    and "pr_blocked (snd (project to_json input service)) \<noteq> None"
  using assms by (simp_all add: project_def unsupported_def Let_def)

subsection \<open>The cache holds plain views\<close>

definition plain_cache :: "evidence_cache \<Rightarrow> bool" where
  "plain_cache cache \<longleftrightarrow> cache_wf (rb_inner cache) \<and> (\<forall>k v. bound_get cache k = Some v \<longrightarrow> plain (ev_text v))"

lemma plain_cachedD: "plain_cache c \<Longrightarrow> bound_get c k = Some v \<Longrightarrow> plain (ev_text v)"
  by (simp add: plain_cache_def)

lemma plain_view: "plain (ev_text (project_for_model i r raw options))"
proof -
  obtain t where t: "t \<in> {fst (secure_text raw options), collapse_repeated_lines (fst (secure_text raw options))}"
    "ev_text (project_for_model i r raw options)
       = fst (truncate_text (bound_line_length t (eo_max_line_bytes options)) (eo_max_total_bytes options))"
    using project_for_model_text by blast
  then have "plain t"
    using plain_secure plain_collapse by auto
  then show ?thesis
    unfolding t(2) by (intro plain_truncate plain_bound)
qed

lemma cache_wf_clear: "cache_wf c \<Longrightarrow> cache_wf (cache_clear c)"
  by (simp add: cache_clear_def cache_wf_def)

lemma cache_get_clear [simp]: "cache_get (cache_clear c) k = None"
  by (simp add: cache_clear_def cache_get_def)

lemma plain_cache_ensure: "plain_cache c \<Longrightarrow> plain_cache (ensure_revision r c)"
  by (auto simp: plain_cache_def ensure_revision_def bound_get_def cache_wf_clear)

lemma plain_cache_insert:
  assumes "plain_cache c" and "plain (ev_text v)"
  shows "plain_cache (bound_insert r key v c)"
proof -
  define d where "d = ensure_revision r c"
  have d: "plain_cache d"
    using assms(1) by (simp add: d_def plain_cache_ensure)
  then have wf: "cache_wf (rb_inner d)"
    by (simp add: plain_cache_def)
  have "bound_insert r key v c = d\<lparr>rb_inner := cache_insert key v (rb_inner d)\<rparr>"
    by (simp add: d_def bound_insert_def ensure_revision_def Let_def)
  then show ?thesis
    using d assms(2) cache_insert_effect(2,3) [OF wf, of key v]
    by (auto simp: plain_cache_def bound_get_def split: if_splits)
qed

fun evidence_text :: "ConversationItem \<Rightarrow> string" where
  "evidence_text (ToolResult _ _ (ToolExecutionResult_Success _ summary)) = summary"
| "evidence_text (ToolResult _ _ result) = result_message result"
| "evidence_text _ = []"

lemma evidence_text_with_message:
  "status_str r \<noteq> ''success'' \<Longrightarrow> evidence_text (ToolResult i n (with_message r m)) = m"
  by (cases r) simp_all

lemma project_tool_result_plain:
  assumes "plain_cache cache"
  shows "plain_cache (fst (project_tool_result to_json revision n r options cache))
    \<and> plain (evidence_text (ToolResult i n (snd (project_tool_result to_json revision n r options cache))))"
proof (cases "\<exists>out summary. r = ToolExecutionResult_Success out summary")
  case True
  then obtain out summary where r: "r = ToolExecutionResult_Success out summary"
    by blast
  show ?thesis
    using assms plain_view plain_cache_insert [OF assms plain_view] plain_cachedD [OF assms]
    by (auto simp: r project_tool_result_def Let_def split: option.split)
next
  case False
  then have "project_tool_result to_json revision n r options cache
      = (cache, with_message r (ev_text (project_for_model None None (result_message r) options)))"
    "status_str r \<noteq> ''success''"
    by (cases r; simp add: project_tool_result_def)+
  then show ?thesis
    using assms plain_view by (simp add: evidence_text_with_message)
qed

lemma project_messages_plain:
  "plain_cache cache \<Longrightarrow>
     plain_cache (fst (project_messages to_json revision options cache items))
     \<and> list_all (\<lambda>item. plain (evidence_text item)) (snd (project_messages to_json revision options cache items))"
proof (induction items arbitrary: cache)
  case (Cons x xs)
  show ?case
  proof (cases x)
    case (ToolResult i n r)
    then show ?thesis
      using Cons.IH project_tool_result_plain [OF Cons.prems, of to_json revision n r options i]
      by (simp add: case_prod_beta Let_def)
  qed (use Cons in \<open>simp_all add: case_prod_beta Let_def\<close>)
qed simp

definition service_step :: "serializer \<times> ProjectionInput \<Rightarrow> ProjectionService \<Rightarrow> ProjectionService" where
  "service_step op service = fst (project (fst op) (snd op) service)"

interpretation service: machine "\<lambda>s. s = ProjectionService_new" service_step "\<lambda>s. plain_cache (ps_cache s)"
proof
  show "plain_cache (ps_cache s)" if "s = ProjectionService_new" for s
    using that cache.init_inv [OF refl]
    by (simp add: ProjectionService_new_def RevisionBoundCache_new_def plain_cache_def bound_get_def cache_get_def
        WatermarkCache_new_def with_watermarks_def HIGH_WATERMARK_def LOW_WATERMARK_def)
  show "plain_cache (ps_cache (service_step op s))" if "plain_cache (ps_cache s)" for s op
    using that project_messages_plain plain_cache_ensure
    by (cases "unsupported (snd op)") (simp_all add: service_step_def project_supported(2) project_unsupported(2))
qed

subsection \<open>Tools\<close>

lemma project_tool_sel [simp]:
  "pt_name (project_tool policy names info) = td_name (ri_definition info)"
  "pt_description (project_tool policy names info) = td_description (ri_definition info)"
  "pt_input_schema (project_tool policy names info) = td_input_schema (ri_definition info)"
  by (simp_all add: project_tool_def)

lemma project_tool_visible:
  "pt_visibility (project_tool policy names info) \<noteq> Visibility_Hidden \<longleftrightarrow>
     (case names of None \<Rightarrow> True | Some ns \<Rightarrow> td_name (ri_definition info) \<in> set ns)
     \<and> policy_rule policy (ri_capability info) \<in> {Some PermissionRule_Allow, Some PermissionRule_Ask}"
  by (auto simp: project_tool_def permission_visibility_def evaluate_permission_def list_ex_iff
      split: option.split PermissionRule.split)

lemma request_tools_eq:
  "tp_request_tools (project_tools to_json infos policy names) =
     map ri_definition (filter (\<lambda>info. pt_visibility (project_tool policy names info) \<noteq> Visibility_Hidden) infos)"
  by (induction infos) (simp_all add: project_tools_def Let_def)

lemma approved_names_eq:
  "tp_approved_names (project_tools to_json infos policy names) =
     sort (map td_name (tp_request_tools (project_tools to_json infos policy names)))"
  by (simp add: project_tools_def Let_def comp_def)

lemma set_surface_loop: "set (surface_loop s ns) = set s \<union> set ns"
  by (induction ns arbitrary: s) auto

lemma set_ApprovedToolSurface_new: "set (ApprovedToolSurface_new ns) = set ns"
  by (simp add: ApprovedToolSurface_new_def set_surface_loop)

lemma registry_get_in_definitions:
  assumes "ToolRegistry_new tools = Ok g" and "registry_get g name = Some tool"
  shows "\<lparr> ri_definition = tool_definition tool, ri_capability = tool_capability tool \<rparr> \<in> set (registry_definitions g)"
  using assms(2) by (auto simp: registry_get_def registry_definitions_def split: option.splits if_splits)

subsection \<open>Properties\<close>

text \<open>
  C25.  Projecting a valid conversation gives a valid conversation with the same user messages,
  whatever was dropped to fit the budget and whatever the evidence cache holds.
\<close>

theorem projection_keeps_conversation_valid:
  assumes "validate_conversation_items (pi_messages input) = Ok u"
  shows "validate_conversation_items (pr_messages (snd (project to_json input service))) = Ok ()
    \<and> filter is_user_item (pr_messages (snd (project to_json input service))) = filter is_user_item (pi_messages input)"
proof (cases "unsupported input")
  case True
  then show ?thesis
    using assms by (simp add: project_unsupported(1))
next
  case False
  note messages = project_supported(1) [OF False, of to_json service]
  show ?thesis
    unfolding messages
    using reduce_messages_valid [OF assms, of to_json] reduce_messages_users [OF assms, of to_json]
      validate_cong [OF pairing_project_messages] users_project_messages
    by simp
qed

theorem projection_keeps_conversation_valid_witness:
  "let input = \<lparr> pi_mode = ProjectionMode_Generic, pi_messages = [UserMessage ''hi''], pi_registered_tools = [],
         pi_provider_tool_calling = True, pi_capacity = ContextCapacity_default,
         pi_pressure_limits = PressureLimits_default, pi_segments = [],
         pi_evidence_options = EvidenceProjectorOptions_default, pi_allowed_tool_names = None, pi_policy = [],
         pi_task_revision = None \<rparr>
   in validate_conversation_items (pr_messages (snd (project (\<lambda>_. ''null'') input ProjectionService_new))) = Ok ()
      \<and> filter is_user_item (pr_messages (snd (project (\<lambda>_. ''null'') input ProjectionService_new))) = [UserMessage ''hi'']"
proof -
  define input where "input = \<lparr> pi_mode = ProjectionMode_Generic, pi_messages = [UserMessage ''hi''], pi_registered_tools = [],
         pi_provider_tool_calling = True, pi_capacity = ContextCapacity_default,
         pi_pressure_limits = PressureLimits_default, pi_segments = [],
         pi_evidence_options = EvidenceProjectorOptions_default, pi_allowed_tool_names = None, pi_policy = [],
         pi_task_revision = None \<rparr>"
  have "validate_conversation_items (pi_messages input) = Ok ()"
    by (simp add: input_def validate_conversation_items_def first_unresolved_def)
  from projection_keeps_conversation_valid [OF this, of "\<lambda>_. ''null''" ProjectionService_new] show ?thesis
    by (simp add: input_def Let_def)
qed

text \<open>
  C12.  What the provider sees and what the executor accepts are the same tools: the approved
  surface of a request holds exactly the names of the definitions sent with it; these are the
  registered tools that the allow-list names and whose capability the policy allows or asks
  for, in registry order; and a call the executor runs under this surface and this policy
  names a tool of the request.
\<close>

theorem surface_equals_request_schema:
  assumes "p = project_tools to_json infos policy names"
  shows "set (ApprovedToolSurface_new (tp_approved_names p)) = td_name ` set (tp_request_tools p)
    \<and> tp_request_tools p = map ri_definition (filter (\<lambda>info.
        (case names of None \<Rightarrow> True | Some ns \<Rightarrow> td_name (ri_definition info) \<in> set ns)
        \<and> policy_rule policy (ri_capability info) \<in> {Some PermissionRule_Allow, Some PermissionRule_Ask}) infos)
    \<and> (snd (call_gates to_json x tool call h) = None \<longrightarrow> hx_surface x = Some (ApprovedToolSurface_new (tp_approved_names p))
        \<longrightarrow> xc_tool_name call \<in> td_name ` set (tp_request_tools p))"
proof -
  have names: "set (ApprovedToolSurface_new (tp_approved_names p)) = td_name ` set (tp_request_tools p)"
    by (simp add: assms set_ApprovedToolSurface_new approved_names_eq)
  have "snd (call_gates to_json x tool call h) = None \<Longrightarrow> hx_surface x = Some s \<Longrightarrow> xc_tool_name call \<in> set s" for s
    by (simp add: call_gates_def split: if_splits)
  then have "snd (call_gates to_json x tool call h) = None \<longrightarrow> hx_surface x = Some (ApprovedToolSurface_new (tp_approved_names p))
      \<longrightarrow> xc_tool_name call \<in> td_name ` set (tp_request_tools p)"
    unfolding names [symmetric] by blast
  then show ?thesis
    using names by (intro conjI) (simp_all only: assms request_tools_eq project_tool_visible)
qed

theorem surface_equals_request_schema_witness:
  "let info = \<lparr> ri_definition = \<lparr> td_name = ''read'', td_description = [], td_input_schema = Value_Null \<rparr>,
         ri_capability = ''workspace.read'' \<rparr>;
       hidden = \<lparr> ri_definition = \<lparr> td_name = ''write'', td_description = [], td_input_schema = Value_Null \<rparr>,
         ri_capability = ''workspace.write'' \<rparr>;
       p = project_tools (\<lambda>_. ''null'') [info, hidden]
         (from_rules [\<lparr> por_capability = ''workspace.read'', por_rule = PermissionRule_Ask \<rparr>]) None
   in set (ApprovedToolSurface_new (tp_approved_names p)) = {''read''}"
proof -
  define info where "info = \<lparr> ri_definition = \<lparr> td_name = ''read'', td_description = [], td_input_schema = Value_Null \<rparr>,
         ri_capability = ''workspace.read'' \<rparr>"
  define hidden where "hidden = \<lparr> ri_definition = \<lparr> td_name = ''write'', td_description = [], td_input_schema = Value_Null \<rparr>,
         ri_capability = ''workspace.write'' \<rparr>"
  define p where "p = project_tools (\<lambda>_. ''null'') [info, hidden]
         (from_rules [\<lparr> por_capability = ''workspace.read'', por_rule = PermissionRule_Ask \<rparr>]) None"
  have "set (ApprovedToolSurface_new (tp_approved_names p)) = td_name ` set (tp_request_tools p)"
    "tp_request_tools p = map ri_definition (filter (\<lambda>info. policy_rule
        (from_rules [\<lparr> por_capability = ''workspace.read'', por_rule = PermissionRule_Ask \<rparr>]) (ri_capability info)
        \<in> {Some PermissionRule_Allow, Some PermissionRule_Ask}) [info, hidden])"
    using surface_equals_request_schema [OF p_def, THEN conjunct1]
      surface_equals_request_schema [OF p_def, THEN conjunct2, THEN conjunct1]
    by (simp_all only: option.case simp_thms)
  then have "set (ApprovedToolSurface_new (tp_approved_names p)) = {''read''}"
    by (simp add: info_def hidden_def policy_rule_def from_rules_def bm_get_def)
  then show ?thesis
    unfolding p_def info_def hidden_def Let_def .
qed

text \<open>
  C15.  The evidence text of tool results reaches the provider without control bytes: in every
  request that is not blocked, from a service in any state it can be in, the summary of every
  successful result and the message of every other one hold no control byte but tab, line feed
  and carriage return, cached or not.  The JSON output of a successful result is not part of it:
  projection passes it on as it is.
\<close>

theorem provider_sees_plain_results:
  assumes "reachable (\<lambda>s. s = ProjectionService_new) service_step service"
    and "pr_blocked (snd (project to_json input service)) = None"
  shows "list_all (\<lambda>item. plain (evidence_text item)) (pr_messages (snd (project to_json input service)))"
proof -
  have "\<not> unsupported input"
    using assms(2) project_unsupported(5) by blast
  then show ?thesis
    using project_messages_plain plain_cache_ensure [OF service.reachable_inv [OF assms(1)]]
    by (simp add: project_supported(1))
qed

theorem provider_sees_plain_results_witness:
  "let input = \<lparr> pi_mode = ProjectionMode_Generic,
         pi_messages = [AssistantToolCall ''c'' ''t'' AssistantToolCallInput_Omitted,
           ToolResult ''c'' ''t'' (ToolExecutionResult_Failed [CHR 0x1B, CHR 0x5B, CHR 0x6D, CHR 0x78])],
         pi_registered_tools = [],
         pi_provider_tool_calling = True, pi_capacity = ContextCapacity_default,
         pi_pressure_limits = PressureLimits_default, pi_segments = [],
         pi_evidence_options = EvidenceProjectorOptions_default, pi_allowed_tool_names = None, pi_policy = [],
         pi_task_revision = None \<rparr>
   in list_all (\<lambda>item. plain (evidence_text item))
        (pr_messages (snd (project (\<lambda>_. ''null'') input ProjectionService_new)))"
proof -
  define input where "input = \<lparr> pi_mode = ProjectionMode_Generic,
         pi_messages = [AssistantToolCall ''c'' ''t'' AssistantToolCallInput_Omitted,
           ToolResult ''c'' ''t'' (ToolExecutionResult_Failed [CHR 0x1B, CHR 0x5B, CHR 0x6D, CHR 0x78])],
         pi_registered_tools = [],
         pi_provider_tool_calling = True, pi_capacity = ContextCapacity_default,
         pi_pressure_limits = PressureLimits_default, pi_segments = [],
         pi_evidence_options = EvidenceProjectorOptions_default, pi_allowed_tool_names = None, pi_policy = [],
         pi_task_revision = None \<rparr>"
  have "\<not> unsupported input"
    by (simp add: input_def unsupported_def)
  from project_supported(7) [OF this, of "\<lambda>_. ''null''" ProjectionService_new]
  have "pr_blocked (snd (project (\<lambda>_. ''null'') input ProjectionService_new)) = None"
    by (simp add: reduce_messages_def context_tokens_def input_def project_tools_def tool_tokens_def project_segments_def
        serialize_prefix_def serialize_segments_def of_stability_def estimate_tokens_def
        estimate_conversation_tokens_def item_tokens_def estimate_conversation_item_tokens_def item_bytes_def div_ceil_def
        pressure_state_default ContextCapacity_default_def DEFAULT_WORKING_MAXIMUM_def Let_def)
  from provider_sees_plain_results [OF reachable.start [of "\<lambda>s. s = ProjectionService_new", OF refl] this] show ?thesis
    by (simp add: input_def Let_def)
qed

text \<open>
  C26.  A request is blocked exactly when the provider cannot serve the mode or the pressure is
  hard; with the default limits, a request that is not blocked is estimated below the working
  maximum.
\<close>

theorem unblocked_request_fits:
  "(pr_blocked (snd (project to_json input service)) = None) =
     (\<not> (\<not> pi_provider_tool_calling input \<and> requires_tool_calling (pi_mode input))
      \<and> cp_state (pr_pressure (snd (project to_json input service))) \<noteq> PressureState_Hard)
   \<and> (pi_pressure_limits input = PressureLimits_default \<longrightarrow> pr_blocked (snd (project to_json input service)) = None
      \<longrightarrow> int (pr_estimated_tokens (snd (project to_json input service))) < working_maximum (pi_capacity input))"
proof (cases "unsupported input")
  case True
  then show ?thesis
    using project_unsupported(5) [OF True, of to_json service] by (auto simp: unsupported_def)
next
  case False
  have fits: "cp_state (classify_pressure n w PressureLimits_default) \<noteq> PressureState_Hard \<Longrightarrow>
      int (cp_estimated_tokens (classify_pressure n w PressureLimits_default)) < w" for n w
    unfolding pressure_state_default by (auto simp: estimated_classify split: if_splits)
  have "\<exists>n. fst (snd (reduced_messages to_json input))
      = classify_pressure n (working_maximum (pi_capacity input)) (pi_pressure_limits input)"
    by (simp add: reduce_messages_def Let_def) blast
  then show ?thesis
    using False fits project_supported(3,4,7) [OF False, of to_json service]
    by (auto simp: unsupported_def)
qed

theorem unblocked_request_fits_witness:
  "let input = \<lparr> pi_mode = ProjectionMode_Review, pi_messages = [UserMessage ''hi''], pi_registered_tools = [],
         pi_provider_tool_calling = False, pi_capacity = ContextCapacity_default,
         pi_pressure_limits = PressureLimits_default, pi_segments = [],
         pi_evidence_options = EvidenceProjectorOptions_default, pi_allowed_tool_names = None, pi_policy = [],
         pi_task_revision = None \<rparr>
   in pr_blocked (snd (project (\<lambda>_. ''null'') input ProjectionService_new)) \<noteq> None"
proof -
  define input where "input = \<lparr> pi_mode = ProjectionMode_Review, pi_messages = [UserMessage ''hi''], pi_registered_tools = [],
         pi_provider_tool_calling = False, pi_capacity = ContextCapacity_default,
         pi_pressure_limits = PressureLimits_default, pi_segments = [],
         pi_evidence_options = EvidenceProjectorOptions_default, pi_allowed_tool_names = None, pi_policy = [],
         pi_task_revision = None \<rparr>"
  from unblocked_request_fits [of "\<lambda>_. ''null''" input ProjectionService_new] show ?thesis
    by (simp add: input_def Let_def)
qed

text \<open>
  The two entry points of the projection agree: on the same cache, input, policy and
  evidence options, \<open>project_with_policy\<close> gives the request and the cache that the service
  gives.
\<close>

theorem project_with_policy_agrees:
  "project_with_policy to_json (ps_cache service) input (pi_policy input) (pi_evidence_options input) =
     (ps_cache (fst (project to_json input service)), snd (project to_json input service))"
  by (simp add: project_with_policy_def project_def Let_def case_prod_beta)

end
