(* ===== verification/Tool_Session.thy ===== *)
theory Tool_Session
  imports Projection_Properties Tool_Safety
begin

text \<open>
  The application tool loop (\<open>tool/session.rs\<close>): the response machine, pulled one event at a
  time, and the application that owns the history.  The approval ledger, which the source
  shares through a reference-counted cell, and the world the tools act on are one host state
  threaded through the machine; a runner works on the current one at each pull.  The token is
  a cell that only \<open>cancel\<close> between pulls sets, so it is constant during a pull.
\<close>

subsection \<open>Limits and the history\<close>

definition MAX_PROMPT_BYTES :: nat where
  "MAX_PROMPT_BYTES = 64 * 1024"

definition MAX_HISTORY_ITEMS :: nat where
  "MAX_HISTORY_ITEMS = 256"

definition MAX_HISTORY_BYTES :: nat where
  "MAX_HISTORY_BYTES = 1024 * 1024"

datatype PromptStartError = PromptStartError_AlreadyResponding | PromptStartError_TooLong

fun PromptStartError_message :: "PromptStartError \<Rightarrow> string" where
  "PromptStartError_message PromptStartError_AlreadyResponding = ''Siralos is already responding to a prompt.''"
| "PromptStartError_message PromptStartError_TooLong = ''Prompt exceeds the Host conversation budget.''"

definition history_item_bytes :: "serializer \<Rightarrow> ConversationItem \<Rightarrow> nat" where
  "history_item_bytes to_json item =
     (case item of
        UserMessage content \<Rightarrow> length content + 32
      | AssistantMessage content \<Rightarrow> length content + 32
      | AssistantToolCall call_id name input \<Rightarrow>
          length call_id + length name + length (AssistantToolCallInput_serialized_json to_json input) + 48
      | ToolResult call_id name result \<Rightarrow>
          length call_id + length name
            + (case result of
                 ToolExecutionResult_Success out summary \<Rightarrow> saturating_add (length (to_json out)) (length summary)
               | other \<Rightarrow> length (result_message other))
            + 48)"

definition history_bytes :: "serializer \<Rightarrow> ConversationItem list \<Rightarrow> nat" where
  "history_bytes to_json history = foldl (\<lambda>total item. saturating_add total (history_item_bytes to_json item)) 0 history"

function prune_history :: "serializer \<Rightarrow> ConversationItem list \<Rightarrow> ConversationItem list" where
  "prune_history to_json history =
     (if MAX_HISTORY_ITEMS < length history \<or> MAX_HISTORY_BYTES < history_bytes to_json history then
        (case position is_user_item (drop 1 history) of
           None \<Rightarrow> []
         | Some next_user \<Rightarrow> prune_history to_json (drop (next_user + 1) history))
      else history)"
  by pat_completeness auto

termination
proof (relation "measure (\<lambda>(_, h). length h)")
  fix to_json :: serializer and history :: "ConversationItem list" and n
  assume "position is_user_item (drop 1 history) = Some n"
  then have "n < length (drop 1 history)"
    by (auto dest: position_Some_nth)
  then show "((to_json, drop (n + 1) history), to_json, history) \<in> measure (\<lambda>(_, h). length h)"
    by simp
qed simp

declare prune_history.simps [simp del]

subsection \<open>The response machine\<close>

record CollectedTurn =
  ct_assistant_text :: string
  ct_text_deltas :: "string list"
  ct_tool_calls :: "TurnToolCall list"

datatype ProviderRequest = ProviderRequest_Raw | ProviderRequest_Projected ProjectedRequest

datatype ('s, 'w) Phase =
    Phase_Start
  | Phase_CollectTurn
  | Phase_InvokeProvider ProviderRequest bool
  | Phase_EmitText CollectedTurn
  | Phase_StreamTurn 's ProviderTurnCollector
  | Phase_RunningRound "('w HostState) ToolRoundRunner" string
  | Phase_Terminal ToolLoopEvent
  | Phase_Done

record ('s, 'w) ResponseMachine =
  rm_provider :: "'s Provider"
  rm_host :: "'w HostToolExecutor"
  rm_cancelled :: bool
  rm_max_tool_rounds :: nat
  rm_history :: "ConversationItem list"
  rm_attempted_tool_rounds :: nat
  rm_completed_tool_rounds :: nat
  rm_provider_turns :: nat
  rm_progress_ticks :: bool
  rm_phase :: "('s, 'w) Phase"

definition ResponseMachine_new :: "'s Provider \<Rightarrow> 'w HostToolExecutor \<Rightarrow> nat \<Rightarrow> ('s, 'w) ResponseMachine" where
  "ResponseMachine_new provider host max_tool_rounds =
     \<lparr> rm_provider = provider, rm_host = host, rm_cancelled = False, rm_max_tool_rounds = max_tool_rounds,
       rm_history = [], rm_attempted_tool_rounds = 0, rm_completed_tool_rounds = 0, rm_provider_turns = 0,
       rm_progress_ticks = False, rm_phase = Phase_Start \<rparr>"

definition machine_cancel :: "('s, 'w) ResponseMachine \<Rightarrow> ('s, 'w) ResponseMachine" where
  "machine_cancel m = m\<lparr>rm_cancelled := True\<rparr>"

record ApplicationProjectionConfig =
  ac_mode :: "ProjectionMode option"
  ac_provider_tool_calling :: "bool option"
  ac_capacity :: "ContextCapacity option"
  ac_segments :: "SegmentInput list"
  ac_evidence_options :: "EvidenceProjectorOptions option"
  ac_allowed_tool_names :: "string list option"
  ac_task_revision :: "nat option"

definition unwrap_or :: "'a option \<Rightarrow> 'a \<Rightarrow> 'a" where
  "unwrap_or x d = (case x of Some v \<Rightarrow> v | None \<Rightarrow> d)"

definition projection_input :: "ApplicationProjectionConfig \<Rightarrow> ('s, 'w) ResponseMachine \<Rightarrow> ProjectionInput" where
  "projection_input config m =
     \<lparr> pi_mode = unwrap_or (ac_mode config) ProjectionMode_Generic, pi_messages = rm_history m,
       pi_registered_tools = registry_definitions (hx_registry (rm_host m)),
       pi_provider_tool_calling = unwrap_or (ac_provider_tool_calling config) True,
       pi_capacity = unwrap_or (ac_capacity config) ContextCapacity_default,
       pi_pressure_limits = PressureLimits_default, pi_segments = ac_segments config,
       pi_evidence_options = unwrap_or (ac_evidence_options config) EvidenceProjectorOptions_default,
       pi_allowed_tool_names = ac_allowed_tool_names config, pi_policy = hx_policy (rm_host m),
       pi_task_revision = ac_task_revision config \<rparr>"

definition project_current_provider_turn ::
    "serializer \<Rightarrow> ApplicationProjectionConfig \<Rightarrow> ProjectionService \<Rightarrow> ('s, 'w) ResponseMachine
      \<Rightarrow> ProjectionService \<times> ('s, 'w) ResponseMachine \<times> ProjectedRequest" where
  "project_current_provider_turn to_json config service m =
     (let (service, projected) = project to_json (projection_input config m) service
      in (service,
          m\<lparr>rm_host := (rm_host m)\<lparr>hx_surface :=
             Some (ApprovedToolSurface_new (tp_approved_names (pr_tool_projection projected)))\<rparr>\<rparr>,
          projected))"

fun without_text_deltas :: "TurnOutcome \<Rightarrow> TurnOutcome" where
  "without_text_deltas (TurnOutcome_Turn assistant_text _ tool_calls) = TurnOutcome_Turn assistant_text [] tool_calls"
| "without_text_deltas other = other"

definition handle_collected_turn ::
    "'w HostState \<Rightarrow> CollectedTurn \<Rightarrow> ('s, 'w) ResponseMachine \<Rightarrow> ('s, 'w) ResponseMachine" where
  "handle_collected_turn h turn m =
     (if ct_tool_calls turn = [] then
        (if ct_assistant_text turn \<noteq> [] then m\<lparr>rm_history := rm_history m @ [AssistantMessage (ct_assistant_text turn)]\<rparr>
         else m)\<lparr>rm_phase := Phase_Terminal ResponseCompleted\<rparr>
      else if rm_max_tool_rounds m \<le> rm_attempted_tool_rounds m then
        m\<lparr>rm_phase := Phase_Terminal (ResponseFailed (cap_message (rm_max_tool_rounds m)))\<rparr>
      else
        m\<lparr>rm_attempted_tool_rounds := rm_attempted_tool_rounds m + 1,
          rm_phase := Phase_RunningRound (runner_new (ct_tool_calls turn) h) (ct_assistant_text turn)\<rparr>)"

definition handle_provider_outcome ::
    "'w HostState \<Rightarrow> TurnOutcome \<Rightarrow> ('s, 'w) ResponseMachine \<Rightarrow> ('s, 'w) ResponseMachine" where
  "handle_provider_outcome h outcome m =
     (case outcome of
        TurnOutcome_Cancelled \<Rightarrow> m\<lparr>rm_phase := Phase_Terminal ResponseCancelled\<rparr>
      | TurnOutcome_Failed failure \<Rightarrow> m\<lparr>rm_phase := Phase_Terminal (ResponseFailed (application_message failure))\<rparr>
      | TurnOutcome_Turn assistant_text text_deltas tool_calls \<Rightarrow>
          let turn = \<lparr> ct_assistant_text = assistant_text, ct_text_deltas = text_deltas, ct_tool_calls = tool_calls \<rparr>
          in if text_deltas = [] then handle_collected_turn h turn m else m\<lparr>rm_phase := Phase_EmitText turn\<rparr>)"

definition finish_round ::
    "string \<Rightarrow> ToolRoundOutcome \<Rightarrow> ('s, 'w) ResponseMachine \<Rightarrow> ('s, 'w) ResponseMachine" where
  "finish_round assistant_text outcome m =
     (case ro_kind outcome of
        ToolRoundKind_Completed \<Rightarrow>
          m\<lparr>rm_completed_tool_rounds := rm_completed_tool_rounds m + 1,
            rm_history := rm_history m @ (if assistant_text \<noteq> [] then [AssistantMessage assistant_text] else [])
              @ ro_transcript outcome,
            rm_phase := Phase_CollectTurn\<rparr>
      | ToolRoundKind_Cancelled \<Rightarrow>
          m\<lparr>rm_history := rm_history m @ ro_transcript outcome, rm_phase := Phase_Terminal ResponseCancelled\<rparr>)"

text \<open>What a pull works on: the machine, the projection service of the application and the host.\<close>

record ('s, 'w) Pull =
  pl_machine :: "('s, 'w) ResponseMachine"
  pl_service :: "ProjectionService option"
  pl_host :: "'w HostState"

text \<open>One turn of the loop: \<open>Step_Continue\<close> goes round, \<open>Step_Panic\<close> is the \<open>unreachable!\<close>.\<close>

datatype MachineStep = Step_Continue | Step_Return "ToolLoopEvent option" | Step_Panic

definition set_phase :: "('s, 'w) Phase \<Rightarrow> ('s, 'w) Pull \<Rightarrow> ('s, 'w) Pull" where
  "set_phase ph p = p\<lparr>pl_machine := (pl_machine p)\<lparr>rm_phase := ph\<rparr>\<rparr>"

definition step_collect ::
    "serializer \<Rightarrow> ApplicationProjectionConfig \<Rightarrow> ('s, 'w) Pull \<Rightarrow> ('s, 'w) Pull \<times> MachineStep" where
  "step_collect to_json config p =
     (let m = pl_machine p
      in if rm_cancelled m then (set_phase (Phase_Terminal ResponseCancelled) p, Step_Continue)
         else case pl_service p of
           Some service \<Rightarrow>
             let (service, m, request) = project_current_provider_turn to_json config service m
             in (p\<lparr>pl_service := Some service,
                   pl_machine := m\<lparr>rm_phase := Phase_InvokeProvider (ProviderRequest_Projected request)
                     (cp_state (pr_pressure request) \<noteq> PressureState_Normal)\<rparr>\<rparr>, Step_Continue)
         | None \<Rightarrow> (set_phase (Phase_InvokeProvider ProviderRequest_Raw False) p, Step_Continue))"

definition pressure_event :: "ProjectedRequest \<Rightarrow> ToolLoopEvent" where
  "pressure_event request =
     ContextPressure (PressureState_as_str (cp_state (pr_pressure request))) (cp_estimated_tokens (pr_pressure request))
       (cp_working_maximum (pr_pressure request))"

definition open_turn ::
    "ProviderRequest \<Rightarrow> ('s, 'w) ResponseMachine \<Rightarrow> TurnOutcome + ('s \<times> ProviderTurnCollector)" where
  "open_turn request m =
     (case request of
        ProviderRequest_Raw \<Rightarrow>
          open_provider_turn (rm_provider m) (rm_history m) (provider_tool_definitions (rm_host m)) None (rm_cancelled m)
      | ProviderRequest_Projected projected \<Rightarrow>
          open_provider_turn (rm_provider m) (pr_messages projected) (pr_tools projected) (pr_system projected)
            (rm_cancelled m))"

definition step_invoke :: "ProviderRequest \<Rightarrow> bool \<Rightarrow> ('s, 'w) Pull \<Rightarrow> ('s, 'w) Pull \<times> MachineStep" where
  "step_invoke request pressure_pending p =
     (let m = pl_machine p
      in if rm_cancelled m then (set_phase (Phase_Terminal ResponseCancelled) p, Step_Continue)
         else if pressure_pending then
           (case request of
              ProviderRequest_Projected r \<Rightarrow>
                (set_phase (Phase_InvokeProvider request False) p, Step_Return (Some (pressure_event r)))
            | ProviderRequest_Raw \<Rightarrow> (p, Step_Panic))
         else case (case request of ProviderRequest_Projected r \<Rightarrow> pr_blocked r | ProviderRequest_Raw \<Rightarrow> None) of
           Some blocked \<Rightarrow> (set_phase (Phase_Terminal (ResponseFailed (BlockedReason_message blocked))) p, Step_Continue)
         | None \<Rightarrow>
             let m = m\<lparr>rm_provider_turns := rm_provider_turns m + 1\<rparr>
             in (case open_turn request m of
                   Ok (stream, collector) \<Rightarrow>
                     (p\<lparr>pl_machine := m\<lparr>rm_phase := Phase_StreamTurn stream collector\<rparr>\<rparr>,
                      if rm_progress_ticks m then Step_Return (Some ProviderPending) else Step_Continue)
                 | Err outcome \<Rightarrow>
                     let m = handle_provider_outcome (pl_host p) outcome m
                     in (p\<lparr>pl_machine := m\<rparr>,
                         if rm_progress_ticks m \<and> (case rm_phase m of Phase_StreamTurn _ _ \<Rightarrow> True | _ \<Rightarrow> False)
                         then Step_Return (Some ProviderPending) else Step_Continue)))"

definition delta_at :: "'a list \<Rightarrow> nat \<Rightarrow> 'a option" where
  "delta_at xs i = (if i < length xs then Some (xs ! i) else None)"

definition step_stream ::
    "serializer \<Rightarrow> 's \<Rightarrow> ProviderTurnCollector \<Rightarrow> ('s, 'w) Pull \<Rightarrow> ('s, 'w) Pull \<times> MachineStep" where
  "step_stream to_json stream collector p =
     (let m = pl_machine p
      in if rm_cancelled m then (set_phase (Phase_Terminal ResponseCancelled) p, Step_Continue)
         else case next_event (rm_provider m) stream of
           None \<Rightarrow>
             (p\<lparr>pl_machine := handle_provider_outcome (pl_host p) (without_text_deltas (collector_finish collector)) m\<rparr>,
              Step_Continue)
         | Some (event, stream) \<Rightarrow>
             let (collector', step) = collector_push to_json event collector;
                 live_text = delta_at (pc_text_deltas collector') (length (pc_text_deltas collector));
                 live_reasoning = delta_at (pc_reasoning_deltas collector') (length (pc_reasoning_deltas collector))
             in (case step of
                   TurnStep_Terminal outcome \<Rightarrow>
                     (p\<lparr>pl_machine := handle_provider_outcome (pl_host p) outcome m\<rparr>, Step_Continue)
                 | TurnStep_Stop \<Rightarrow>
                     (p\<lparr>pl_machine := handle_provider_outcome (pl_host p) (without_text_deltas (collector_finish collector')) m\<rparr>,
                      Step_Continue)
                 | TurnStep_Continue \<Rightarrow>
                     (set_phase (Phase_StreamTurn stream collector') p,
                      case live_text of
                        Some t \<Rightarrow> Step_Return (Some (TextDelta t))
                      | None \<Rightarrow>
                         (case live_reasoning of
                            Some t \<Rightarrow> Step_Return (Some (ReasoningDelta t))
                          | None \<Rightarrow> Step_Continue))))"

definition step_emit :: "CollectedTurn \<Rightarrow> ('s, 'w) Pull \<Rightarrow> ('s, 'w) Pull \<times> MachineStep" where
  "step_emit turn p =
     (case ct_text_deltas turn of
        t # deltas \<Rightarrow> (set_phase (Phase_EmitText (turn\<lparr>ct_text_deltas := deltas\<rparr>)) p, Step_Return (Some (TextDelta t)))
      | [] \<Rightarrow> (p\<lparr>pl_machine := handle_collected_turn (pl_host p) turn (pl_machine p)\<rparr>, Step_Continue))"

definition step_round ::
    "serializer \<Rightarrow> ('w HostState) ToolRoundRunner \<Rightarrow> string \<Rightarrow> ('s, 'w) Pull \<Rightarrow> ('s, 'w) Pull \<times> MachineStep" where
  "step_round to_json runner assistant_text p =
     (let m = pl_machine p;
          (runner, step) = runner_next (execute_call to_json (rm_host m)) (rm_cancelled m) (runner\<lparr>rr_executor := pl_host p\<rparr>);
          p = p\<lparr>pl_host := rr_executor runner\<rparr>
      in case step of
           Some (ToolRoundStep_Event event) \<Rightarrow>
             (set_phase (Phase_RunningRound runner assistant_text) p, Step_Return (Some event))
         | Some (ToolRoundStep_Finished outcome) \<Rightarrow> (p\<lparr>pl_machine := finish_round assistant_text outcome m\<rparr>, Step_Continue)
         | None \<Rightarrow> (set_phase Phase_Done p, Step_Continue))"

definition machine_step ::
    "serializer \<Rightarrow> ApplicationProjectionConfig \<Rightarrow> ('s, 'w) Pull \<Rightarrow> ('s, 'w) Pull \<times> MachineStep" where
  "machine_step to_json config p =
     (case rm_phase (pl_machine p) of
        Phase_Start \<Rightarrow> (set_phase Phase_CollectTurn p, Step_Return (Some ResponseStarted))
      | Phase_CollectTurn \<Rightarrow> step_collect to_json config p
      | Phase_InvokeProvider request pressure_pending \<Rightarrow> step_invoke request pressure_pending p
      | Phase_StreamTurn stream collector \<Rightarrow> step_stream to_json stream collector p
      | Phase_EmitText turn \<Rightarrow> step_emit turn p
      | Phase_RunningRound runner assistant_text \<Rightarrow> step_round to_json runner assistant_text p
      | Phase_Terminal event \<Rightarrow> (set_phase Phase_Done p, Step_Return (Some event))
      | Phase_Done \<Rightarrow> (p, Step_Return None))"

subsection \<open>The loop of a pull ends\<close>

text \<open>
  Every turn of the loop lowers the rounds left, the rank of the phase or the work left in the
  phase, in this order of importance.  This bounds a single pull and the whole response.
\<close>

fun phase_rank :: "('s, 'w) Phase \<Rightarrow> nat" where
  "phase_rank Phase_Start = 8"
| "phase_rank (Phase_RunningRound _ _) = 7"
| "phase_rank Phase_CollectTurn = 6"
| "phase_rank (Phase_InvokeProvider _ _) = 5"
| "phase_rank (Phase_StreamTurn _ _) = 4"
| "phase_rank (Phase_EmitText _) = 3"
| "phase_rank (Phase_Terminal _) = 2"
| "phase_rank Phase_Done = 1"

fun phase_work :: "('s, 'w) Phase \<Rightarrow> nat \<times> nat" where
  "phase_work (Phase_RunningRound r _) = (length (rr_calls r), length (rr_pending_events r))"
| "phase_work (Phase_InvokeProvider _ pending) = (if pending then 1 else 0, 0)"
| "phase_work (Phase_StreamTurn _ c) = (turn_fuel c, 0)"
| "phase_work (Phase_EmitText t) = (length (ct_text_deltas t), 0)"
| "phase_work _ = (0, 0)"

definition machine_measure :: "('s, 'w) ResponseMachine \<Rightarrow> nat \<times> nat \<times> nat \<times> nat" where
  "machine_measure m = (rm_max_tool_rounds m - rm_attempted_tool_rounds m, phase_rank (rm_phase m), phase_work (rm_phase m))"

definition machine_less :: "(('s, 'w) ResponseMachine \<times> ('s, 'w) ResponseMachine) set" where
  "machine_less = inv_image (less_than <*lex*> less_than <*lex*> less_than <*lex*> less_than) machine_measure"

lemma wf_machine_less: "wf machine_less"
  by (simp add: machine_less_def wf_lex_prod)

lemma machine_less_iff:
  "(m', m) \<in> machine_less \<longleftrightarrow>
     rm_max_tool_rounds m' - rm_attempted_tool_rounds m' < rm_max_tool_rounds m - rm_attempted_tool_rounds m
     \<or> rm_max_tool_rounds m' - rm_attempted_tool_rounds m' = rm_max_tool_rounds m - rm_attempted_tool_rounds m
       \<and> (phase_rank (rm_phase m') < phase_rank (rm_phase m)
          \<or> phase_rank (rm_phase m') = phase_rank (rm_phase m)
            \<and> (phase_work (rm_phase m'), phase_work (rm_phase m)) \<in> less_than <*lex*> less_than)"
  by (auto simp: machine_less_def machine_measure_def)

lemma handle_collected_turn_less:
  "3 \<le> phase_rank (rm_phase m) \<Longrightarrow> (handle_collected_turn h turn m, m) \<in> machine_less"
  by (auto simp: handle_collected_turn_def machine_less_iff)

lemma handle_provider_outcome_less:
  "4 \<le> phase_rank (rm_phase m) \<Longrightarrow> (handle_provider_outcome h outcome m, m) \<in> machine_less"
  by (auto simp: handle_provider_outcome_def Let_def handle_collected_turn_less split: TurnOutcome.split)
    (auto simp: machine_less_iff)

lemma machine_less_turns: "(m', m\<lparr>rm_provider_turns := n\<rparr>) \<in> machine_less \<longleftrightarrow> (m', m) \<in> machine_less"
  by (simp add: machine_less_iff)

lemma set_phase_machine [simp]: "pl_machine (set_phase ph p) = (pl_machine p)\<lparr>rm_phase := ph\<rparr>"
  by (simp add: set_phase_def)

lemma machine_step_decreases:
  assumes "rm_phase (pl_machine p) \<noteq> Phase_Done" and "snd (machine_step to_json config p) \<noteq> Step_Panic"
  shows "(pl_machine (fst (machine_step to_json config p)), pl_machine p) \<in> machine_less"
proof (cases "rm_phase (pl_machine p)")
  case Phase_CollectTurn
  then show ?thesis
    by (auto simp: machine_step_def step_collect_def project_current_provider_turn_def machine_less_iff Let_def
        split: option.split prod.split)
next
  case (Phase_InvokeProvider request pending)
  have "(handle_provider_outcome h outcome ((pl_machine p)\<lparr>rm_provider_turns := n\<rparr>), pl_machine p) \<in> machine_less" for h outcome n
    using handle_provider_outcome_less [of "(pl_machine p)\<lparr>rm_provider_turns := n\<rparr>" h outcome]
    by (simp add: Phase_InvokeProvider machine_less_turns)
  then show ?thesis
    using assms Phase_InvokeProvider
    by (auto simp: machine_step_def step_invoke_def Let_def split: ProviderRequest.splits option.splits sum.splits prod.splits)
      (auto simp: machine_less_iff)
next
  case (Phase_StreamTurn stream c)
  have less: "(handle_provider_outcome h outcome (pl_machine p), pl_machine p) \<in> machine_less" for h outcome
    by (rule handle_provider_outcome_less) (simp add: Phase_StreamTurn)
  have cont: "((pl_machine p)\<lparr>rm_phase := Phase_StreamTurn s c'\<rparr>, pl_machine p) \<in> machine_less"
    if "collector_push to_json e c = (c', TurnStep_Continue)" for e s c'
    using collector_push_fuel [OF that] by (simp add: machine_less_iff Phase_StreamTurn)
  have stop: "((pl_machine p)\<lparr>rm_phase := Phase_Terminal e\<rparr>, pl_machine p) \<in> machine_less" for e
    by (simp add: machine_less_iff Phase_StreamTurn)
  show ?thesis
    by (simp add: machine_step_def step_stream_def Phase_StreamTurn Let_def less cont stop
        split: option.split prod.split TurnStep.split)
next
  case (Phase_EmitText turn)
  show ?thesis
  proof (cases "ct_text_deltas turn")
    case Nil
    then show ?thesis
      using handle_collected_turn_less [of "pl_machine p"] Phase_EmitText by (simp add: machine_step_def step_emit_def)
  next
    case (Cons t ts)
    then show ?thesis
      using Phase_EmitText by (simp add: machine_step_def step_emit_def machine_less_iff)
  qed
next
  case (Phase_RunningRound runner t)
  obtain r s where pulled: "runner_next (execute_call to_json (rm_host (pl_machine p))) (rm_cancelled (pl_machine p))
      (runner\<lparr>rr_executor := pl_host p\<rparr>) = (r, s)"
    by fastforce
  show ?thesis
    using pulled runner_next_event_decreases [of _ _ "runner\<lparr>rr_executor := pl_host p\<rparr>" r]
    by (auto simp: machine_step_def step_round_def Phase_RunningRound Let_def finish_round_def machine_less_iff
        split: option.split ToolRoundStep.split ToolRoundKind.split)
qed (use assms in \<open>simp_all add: machine_step_def machine_less_iff\<close>)

datatype PollResult = Polled "ToolLoopEvent option" | Panicked

function next_pull ::
    "serializer \<Rightarrow> ApplicationProjectionConfig \<Rightarrow> ('s, 'w) Pull \<Rightarrow> ('s, 'w) Pull \<times> PollResult" where
  "next_pull to_json config p =
     (case machine_step to_json config p of
        (p', Step_Continue) \<Rightarrow> next_pull to_json config p'
      | (p', Step_Return event) \<Rightarrow> (p', Polled event)
      | (p', Step_Panic) \<Rightarrow> (p', Panicked))"
  by pat_completeness auto

termination
proof (relation "inv_image machine_less (\<lambda>(_, _, p). pl_machine p)")
  show "wf (inv_image machine_less (\<lambda>(_, _, p). pl_machine p))"
    by (simp add: wf_machine_less)
next
  fix to_json config and p p' :: "('s, 'w) Pull" and step
  assume eq: "(p', step) = machine_step to_json config p" "step = Step_Continue"
  then have "rm_phase (pl_machine p) \<noteq> Phase_Done"
    by (auto simp: machine_step_def)
  with machine_step_decreases [of p to_json config] eq
  show "((to_json, config, p'), to_json, config, p) \<in> inv_image machine_less (\<lambda>(_, _, p). pl_machine p)"
    by (metis MachineStep.distinct(3) case_prod_conv fst_conv in_inv_image snd_conv)
qed

declare next_pull.simps [simp del]

subsection \<open>The application\<close>

datatype ('s, 'w) AppState = AppState_Idle | AppState_Responding "('s, 'w) ResponseMachine"

record ('s, 'w) SiralosApplication =
  sa_provider :: "'s Provider"
  sa_registry :: "'w ToolRegistry"
  sa_policy :: PermissionPolicy
  sa_surface :: "ApprovedToolSurface option"
  sa_max_tool_rounds :: nat
  sa_history :: "ConversationItem list"
  sa_completed_tool_rounds :: nat
  sa_provider_turn_count :: nat
  sa_state :: "('s, 'w) AppState"
  sa_projection_service :: "ProjectionService option"
  sa_projection_config :: ApplicationProjectionConfig
  sa_progress_ticks :: bool
  sa_host_state :: "'w HostState"
  sa_approval_resolver :: "(ApprovalRequest \<Rightarrow> 'w \<Rightarrow> 'w \<times> ApprovalVerdict) option"

definition ApplicationProjectionConfig_default :: ApplicationProjectionConfig where
  "ApplicationProjectionConfig_default =
     \<lparr> ac_mode = None, ac_provider_tool_calling = None, ac_capacity = None, ac_segments = [],
       ac_evidence_options = None, ac_allowed_tool_names = None, ac_task_revision = None \<rparr>"

definition SiralosApplication_new ::
    "'s Provider \<Rightarrow> 'w ToolRegistry \<Rightarrow> PermissionPolicy \<Rightarrow> ApprovedToolSurface option \<Rightarrow> f64 option \<Rightarrow> 'w
      \<Rightarrow> ('s, 'w) SiralosApplication" where
  "SiralosApplication_new provider registry policy surface max_tool_rounds world =
     \<lparr> sa_provider = provider, sa_registry = registry, sa_policy = policy, sa_surface = surface,
       sa_max_tool_rounds = RoundBudget_normalize max_tool_rounds, sa_history = [], sa_completed_tool_rounds = 0,
       sa_provider_turn_count = 0, sa_state = AppState_Idle, sa_projection_service = None,
       sa_projection_config = ApplicationProjectionConfig_default, sa_progress_ticks = False,
       sa_host_state = \<lparr> hs_approvals = ActionApprovals_new, hs_world = world \<rparr>, sa_approval_resolver = None \<rparr>"

fun is_responding :: "('s, 'w) SiralosApplication \<Rightarrow> bool" where
  "is_responding a = (case sa_state a of AppState_Responding _ \<Rightarrow> True | AppState_Idle \<Rightarrow> False)"

definition with_action_approvals :: "ActionApprovals \<Rightarrow> ('s, 'w) SiralosApplication \<Rightarrow> ('s, 'w) SiralosApplication" where
  "with_action_approvals l a = a\<lparr>sa_host_state := (sa_host_state a)\<lparr>hs_approvals := l\<rparr>\<rparr>"

definition set_approval_resolver ::
    "(ApprovalRequest \<Rightarrow> 'w \<Rightarrow> 'w \<times> ApprovalVerdict) \<Rightarrow> ('s, 'w) SiralosApplication
      \<Rightarrow> ('s, 'w) SiralosApplication \<times> (PromptStartError + unit)" where
  "set_approval_resolver resolver a =
     (if is_responding a then (a, Err PromptStartError_AlreadyResponding)
      else (a\<lparr>sa_approval_resolver := Some resolver\<rparr>, Ok ()))"

definition with_projection ::
    "ProjectionService \<Rightarrow> ApplicationProjectionConfig \<Rightarrow> ('s, 'w) SiralosApplication \<Rightarrow> ('s, 'w) SiralosApplication" where
  "with_projection service config a = a\<lparr>sa_projection_service := Some service, sa_projection_config := config\<rparr>"

definition set_projection ::
    "ProjectionService \<Rightarrow> ApplicationProjectionConfig \<Rightarrow> ('s, 'w) SiralosApplication
      \<Rightarrow> ('s, 'w) SiralosApplication \<times> (PromptStartError + unit)" where
  "set_projection service config a =
     (if is_responding a then (a, Err PromptStartError_AlreadyResponding)
      else (a\<lparr>sa_projection_service := Some service, sa_projection_config := config\<rparr>, Ok ()))"

definition send_prompt ::
    "serializer \<Rightarrow> string \<Rightarrow> ('s, 'w) SiralosApplication \<Rightarrow> ('s, 'w) SiralosApplication \<times> (PromptStartError + unit)" where
  "send_prompt to_json prompt a =
     (if is_responding a then (a, Err PromptStartError_AlreadyResponding)
      else if MAX_PROMPT_BYTES < length prompt then (a, Err PromptStartError_TooLong)
      else
        let history = prune_history to_json (sa_history a);
            prompt_item = UserMessage prompt;
            prompt_bytes = history_item_bytes to_json prompt_item
        in if MAX_HISTORY_ITEMS < saturating_add (length history) 1
              \<or> MAX_HISTORY_BYTES < saturating_add (history_bytes to_json history) prompt_bytes then
             (a, Err PromptStartError_TooLong)
           else
             let host = \<lparr> hx_registry = sa_registry a, hx_policy = sa_policy a,
                   hx_surface = (if sa_projection_service a \<noteq> None then None else sa_surface a),
                   hx_task_revision = ac_task_revision (sa_projection_config a),
                   hx_resolver = sa_approval_resolver a \<rparr>;
                 machine = (ResponseMachine_new (sa_provider a) host (sa_max_tool_rounds a))
                   \<lparr>rm_history := history @ [prompt_item], rm_progress_ticks := sa_progress_ticks a\<rparr>
             in (a\<lparr>sa_state := AppState_Responding machine\<rparr>, Ok ()))"

definition restore_machine :: "serializer \<Rightarrow> ('s, 'w) SiralosApplication \<Rightarrow> ('s, 'w) SiralosApplication" where
  "restore_machine to_json a =
     (case sa_state a of
        AppState_Responding m \<Rightarrow>
          a\<lparr>sa_state := AppState_Idle, sa_history := prune_history to_json (rm_history m),
            sa_completed_tool_rounds := rm_completed_tool_rounds m, sa_provider_turn_count := rm_provider_turns m\<rparr>
      | AppState_Idle \<Rightarrow> a)"

definition poll_event ::
    "serializer \<Rightarrow> ('s, 'w) SiralosApplication \<Rightarrow> ('s, 'w) SiralosApplication \<times> PollResult" where
  "poll_event to_json a =
     (case sa_state a of
        AppState_Idle \<Rightarrow> (a, Polled None)
      | AppState_Responding m \<Rightarrow>
          let (p, result) = next_pull to_json (sa_projection_config a)
                \<lparr> pl_machine = m, pl_service = sa_projection_service a, pl_host = sa_host_state a \<rparr>;
              a = a\<lparr>sa_state := AppState_Responding (pl_machine p), sa_projection_service := pl_service p,
                    sa_host_state := pl_host p\<rparr>
          in (if result = Polled None then restore_machine to_json a else a, result))"

definition cancel_response :: "('s, 'w) SiralosApplication \<Rightarrow> ('s, 'w) SiralosApplication" where
  "cancel_response a =
     (case sa_state a of
        AppState_Responding m \<Rightarrow> a\<lparr>sa_state := AppState_Responding (machine_cancel m)\<rparr>
      | AppState_Idle \<Rightarrow> a)"

definition enable_provider_progress_ticks :: "('s, 'w) SiralosApplication \<Rightarrow> ('s, 'w) SiralosApplication" where
  "enable_provider_progress_ticks a =
     (let a = a\<lparr>sa_progress_ticks := True\<rparr>
      in case sa_state a of
           AppState_Responding m \<Rightarrow> a\<lparr>sa_state := AppState_Responding (m\<lparr>rm_progress_ticks := True\<rparr>)\<rparr>
         | AppState_Idle \<Rightarrow> a)"

definition app_history :: "('s, 'w) SiralosApplication \<Rightarrow> ConversationItem list" where
  "app_history a = (case sa_state a of AppState_Idle \<Rightarrow> sa_history a | AppState_Responding m \<Rightarrow> rm_history m)"

definition app_completed_tool_rounds :: "('s, 'w) SiralosApplication \<Rightarrow> nat" where
  "app_completed_tool_rounds a =
     (case sa_state a of AppState_Idle \<Rightarrow> sa_completed_tool_rounds a | AppState_Responding m \<Rightarrow> rm_completed_tool_rounds m)"

definition app_provider_turn_count :: "('s, 'w) SiralosApplication \<Rightarrow> nat" where
  "app_provider_turn_count a =
     (case sa_state a of AppState_Idle \<Rightarrow> sa_provider_turn_count a | AppState_Responding m \<Rightarrow> rm_provider_turns m)"

end
