(* ===== verification/Session_Properties.thy ===== *)
theory Session_Properties
  imports Tool_Session
begin

text \<open>
  What the tool loop guarantees: every response ends with exactly one terminal event and
  returns the application to idle within its round budget; the history stays a valid
  conversation; pruning keeps it bounded.
\<close>

subsection \<open>Rounds emit no terminal event\<close>

definition quiet :: "ToolLoopEvent list \<Rightarrow> bool" where
  "quiet = list_all (\<lambda>e. \<not> event_is_terminal e)"

lemma quiet_simps [simp]:
  "quiet []" "quiet (e # es) \<longleftrightarrow> \<not> event_is_terminal e \<and> quiet es" "quiet (es @ fs) \<longleftrightarrow> quiet es \<and> quiet fs"
  by (simp_all add: quiet_def)

lemma quiet_execute_call: "quiet (tx_events (snd (execute_call to_json x call b h)))"
proof -
  have "\<not> event_is_terminal (outcome_event i n r)" for i n r
    by (cases r) simp_all
  then show ?thesis
    by (auto simp: execute_call_def stopped_def failure_event_def Let_def split: option.split prod.split)
qed

lemma quiet_handle_call:
  "(\<And>call b h. quiet (tx_events (snd (x call b h)))) \<Longrightarrow> quiet (rr_pending_events r) \<Longrightarrow>
     quiet (rr_pending_events (handle_call x b call r))"
  by (auto simp: handle_call_def Let_def split: TurnToolCall.split prod.split) (metis snd_conv)

lemma session_handle_call_finished [simp]: "rr_finished (handle_call x b call r) = rr_finished r"
  by (simp add: handle_call_def Let_def split: TurnToolCall.split prod.split)

lemma runner_next_quiet:
  assumes "\<And>call b h. quiet (tx_events (snd (x call b h)))" and "\<not> rr_finished r" and "quiet (rr_pending_events r)"
  shows "case runner_next x b r of
      (r', Some (ToolRoundStep_Event e)) \<Rightarrow> \<not> event_is_terminal e \<and> \<not> rr_finished r' \<and> quiet (rr_pending_events r')
    | (r', Some (ToolRoundStep_Finished out)) \<Rightarrow> True
    | (r', None) \<Rightarrow> False"
  using assms
proof (induction x b r rule: runner_next.induct)
  case (1 x b r)
  show ?case
  proof (cases "rr_pending_events r")
    case (Cons e es)
    with 1(3,4) show ?thesis
      by (subst runner_next.simps) simp
  next
    case Nil
    show ?thesis
    proof (cases "rr_finish_cancelled_after_events r \<or> rr_calls r = [] \<or> b")
      case True
      with Nil 1(3) show ?thesis
        by (subst runner_next.simps) (auto split: prod.split list.split)
    next
      case False
      then obtain c cs where cs: "rr_calls r = c # cs"
        by (cases "rr_calls r") auto
      with False Nil 1(3) have "runner_next x b r = runner_next x b (handle_call x b c (r\<lparr>rr_calls := cs\<rparr>))"
        by (subst runner_next.simps) simp
      moreover have "quiet (rr_pending_events (handle_call x b c (r\<lparr>rr_calls := cs\<rparr>)))"
        using quiet_handle_call [OF 1(2), of "r\<lparr>rr_calls := cs\<rparr>"] 1(4) by simp
      ultimately show ?thesis
        using 1(1) [OF 1(3) Nil _ cs _ 1(2)] False 1(3) by simp
    qed
  qed
qed

subsection \<open>The machine keeps its counters\<close>

definition machine_inv :: "('s, 'w) ResponseMachine \<Rightarrow> bool" where
  "machine_inv m \<longleftrightarrow> rm_attempted_tool_rounds m \<le> rm_max_tool_rounds m
     \<and> rm_completed_tool_rounds m \<le> rm_attempted_tool_rounds m
     \<and> (case rm_phase m of
          Phase_Start \<Rightarrow> rm_provider_turns m \<le> rm_attempted_tool_rounds m
        | Phase_CollectTurn \<Rightarrow> rm_provider_turns m \<le> rm_attempted_tool_rounds m
        | Phase_InvokeProvider request pending \<Rightarrow>
            rm_provider_turns m \<le> rm_attempted_tool_rounds m \<and> (pending \<longrightarrow> request \<noteq> ProviderRequest_Raw)
        | Phase_RunningRound r _ \<Rightarrow>
            rm_provider_turns m \<le> rm_attempted_tool_rounds m \<and> rm_completed_tool_rounds m < rm_attempted_tool_rounds m
            \<and> \<not> rr_finished r \<and> quiet (rr_pending_events r)
        | Phase_Terminal e \<Rightarrow> rm_provider_turns m \<le> rm_attempted_tool_rounds m + 1 \<and> event_is_terminal e
        | _ \<Rightarrow> rm_provider_turns m \<le> rm_attempted_tool_rounds m + 1)"

definition step_ok :: "('s, 'w) Pull \<times> MachineStep \<Rightarrow> bool" where
  "step_ok r \<longleftrightarrow> machine_inv (pl_machine (fst r))
     \<and> (case snd r of
          Step_Continue \<Rightarrow> rm_phase (pl_machine (fst r)) \<noteq> Phase_Done
        | Step_Return (Some e) \<Rightarrow> event_is_terminal e \<longleftrightarrow> rm_phase (pl_machine (fst r)) = Phase_Done
        | _ \<Rightarrow> False)"

lemma handle_collected_turn_inv:
  assumes "rm_attempted_tool_rounds m \<le> rm_max_tool_rounds m" and "rm_completed_tool_rounds m \<le> rm_attempted_tool_rounds m"
    and "rm_provider_turns m \<le> rm_attempted_tool_rounds m + 1"
  shows "machine_inv (handle_collected_turn h turn m) \<and> rm_phase (handle_collected_turn h turn m) \<noteq> Phase_Done"
  using assms by (auto simp: handle_collected_turn_def machine_inv_def runner_new_def)

lemma handle_provider_outcome_inv:
  assumes "rm_attempted_tool_rounds m \<le> rm_max_tool_rounds m" and "rm_completed_tool_rounds m \<le> rm_attempted_tool_rounds m"
    and "rm_provider_turns m \<le> rm_attempted_tool_rounds m + 1"
  shows "machine_inv (handle_provider_outcome h outcome m) \<and> rm_phase (handle_provider_outcome h outcome m) \<noteq> Phase_Done"
  using handle_collected_turn_inv [OF assms] assms
  by (auto simp: handle_provider_outcome_def Let_def split: TurnOutcome.split) (auto simp: machine_inv_def)

lemma handle_provider_outcome_no_stream:
  "\<forall>s c. rm_phase (handle_provider_outcome h outcome m) \<noteq> Phase_StreamTurn s c"
  by (simp add: handle_provider_outcome_def handle_collected_turn_def Let_def split: TurnOutcome.split)

lemma machine_step_ok:
  assumes "machine_inv (pl_machine p)" and "rm_phase (pl_machine p) \<noteq> Phase_Done"
  shows "step_ok (machine_step to_json config p)"
proof (cases "rm_phase (pl_machine p)")
  case Phase_CollectTurn
  then show ?thesis
    using assms by (auto simp: machine_step_def step_collect_def project_current_provider_turn_def machine_inv_def
        step_ok_def Let_def split: option.split prod.split)
next
  case (Phase_InvokeProvider request pending)
  define m where "m = (pl_machine p)\<lparr>rm_provider_turns := rm_provider_turns (pl_machine p) + 1\<rparr>"
  have bounds: "rm_attempted_tool_rounds m \<le> rm_max_tool_rounds m" "rm_completed_tool_rounds m \<le> rm_attempted_tool_rounds m"
    "rm_provider_turns m \<le> rm_attempted_tool_rounds m + 1" "pending \<Longrightarrow> request \<noteq> ProviderRequest_Raw"
    using assms Phase_InvokeProvider by (auto simp: machine_inv_def m_def)
  show ?thesis
  proof (cases "rm_cancelled (pl_machine p) \<or> pending
      \<or> (case request of ProviderRequest_Projected r \<Rightarrow> pr_blocked r | ProviderRequest_Raw \<Rightarrow> None) \<noteq> None")
    case True
    then show ?thesis
      using assms Phase_InvokeProvider bounds(4)
      by (auto simp: machine_step_def step_invoke_def machine_inv_def step_ok_def pressure_event_def Let_def
          split: ProviderRequest.splits)
  next
    case False
    then have "machine_step to_json config p =
        (case open_turn request m of
           Ok (stream, collector) \<Rightarrow>
             (p\<lparr>pl_machine := m\<lparr>rm_phase := Phase_StreamTurn stream collector\<rparr>\<rparr>,
              if rm_progress_ticks m then Step_Return (Some ProviderPending) else Step_Continue)
         | Err outcome \<Rightarrow> (p\<lparr>pl_machine := handle_provider_outcome (pl_host p) outcome m\<rparr>, Step_Continue))"
      using Phase_InvokeProvider handle_provider_outcome_no_stream [of "pl_host p" _ m]
      by (auto simp: machine_step_def step_invoke_def m_def Let_def split: sum.split prod.split Phase.split)
    moreover have "machine_inv (m\<lparr>rm_phase := Phase_StreamTurn s c\<rparr>)" for s c
      using bounds(1-3) by (simp add: machine_inv_def)
    ultimately show ?thesis
      using handle_provider_outcome_inv [OF bounds(1-3)] by (simp add: step_ok_def split: sum.split prod.split)
  qed
next
  case (Phase_StreamTurn stream c)
  then have bounds: "rm_attempted_tool_rounds (pl_machine p) \<le> rm_max_tool_rounds (pl_machine p)"
    "rm_completed_tool_rounds (pl_machine p) \<le> rm_attempted_tool_rounds (pl_machine p)"
    "rm_provider_turns (pl_machine p) \<le> rm_attempted_tool_rounds (pl_machine p) + 1"
    using assms by (auto simp: machine_inv_def)
  have stay: "machine_inv ((pl_machine p)\<lparr>rm_phase := Phase_StreamTurn s c'\<rparr>)" for s c'
    using bounds by (simp add: machine_inv_def)
  have stop: "machine_inv ((pl_machine p)\<lparr>rm_phase := Phase_Terminal ResponseCancelled\<rparr>)"
    using bounds by (simp add: machine_inv_def)
  show ?thesis
    by (simp add: machine_step_def step_stream_def Phase_StreamTurn Let_def step_ok_def stay stop
        handle_provider_outcome_inv [OF bounds] split: option.split prod.split TurnStep.split)
next
  case (Phase_EmitText turn)
  then have bounds: "rm_attempted_tool_rounds (pl_machine p) \<le> rm_max_tool_rounds (pl_machine p)"
    "rm_completed_tool_rounds (pl_machine p) \<le> rm_attempted_tool_rounds (pl_machine p)"
    "rm_provider_turns (pl_machine p) \<le> rm_attempted_tool_rounds (pl_machine p) + 1"
    using assms by (auto simp: machine_inv_def)
  then have "machine_inv ((pl_machine p)\<lparr>rm_phase := Phase_EmitText t\<rparr>)" for t
    by (simp add: machine_inv_def)
  then show ?thesis
    by (simp add: machine_step_def step_emit_def Phase_EmitText step_ok_def handle_collected_turn_inv [OF bounds]
        split: list.split)
next
  case (Phase_RunningRound runner t)
  define r where "r = runner\<lparr>rr_executor := pl_host p\<rparr>"
  have "\<not> rr_finished r" "quiet (rr_pending_events r)"
    using assms Phase_RunningRound by (simp_all add: machine_inv_def r_def)
  note quiet = runner_next_quiet [of "execute_call to_json (rm_host (pl_machine p))", OF quiet_execute_call this,
      of "rm_cancelled (pl_machine p)"]
  obtain r' s where pulled: "runner_next (execute_call to_json (rm_host (pl_machine p))) (rm_cancelled (pl_machine p)) r = (r', s)"
    by fastforce
  show ?thesis
    using quiet assms Phase_RunningRound
    by (auto simp: machine_step_def step_round_def r_def [symmetric] pulled step_ok_def machine_inv_def finish_round_def Let_def
        split: option.splits ToolRoundStep.splits ToolRoundKind.splits)
qed (use assms in \<open>auto simp: machine_step_def step_ok_def machine_inv_def\<close>)

lemma next_pull_event:
  "machine_inv (pl_machine p) \<Longrightarrow> rm_phase (pl_machine p) \<noteq> Phase_Done \<Longrightarrow>
     \<exists>p' e. next_pull to_json config p = (p', Polled (Some e)) \<and> machine_inv (pl_machine p')
       \<and> (event_is_terminal e \<longleftrightarrow> rm_phase (pl_machine p') = Phase_Done)"
proof (induction to_json config p rule: next_pull.induct)
  case (1 to_json config p)
  obtain p' s where step: "machine_step to_json config p = (p', s)"
    by fastforce
  note ok = machine_step_ok [OF 1(2,3), of to_json config, unfolded step step_ok_def fst_conv snd_conv]
  show ?case
  proof (cases s)
    case Step_Continue
    with 1(1) [OF step [symmetric]] ok step show ?thesis
      by (subst next_pull.simps) auto
  next
    case (Step_Return e)
    with ok step show ?thesis
      by (subst next_pull.simps) (auto split: option.splits)
  next
    case Step_Panic
    with ok show ?thesis
      by simp
  qed
qed

lemma next_pull_Done: "rm_phase (pl_machine p) = Phase_Done \<Longrightarrow> next_pull to_json config p = (p, Polled None)"
  by (subst next_pull.simps) (simp add: machine_step_def)

lemma trans_machine_less: "trans machine_less"
  unfolding machine_less_def by (intro trans_inv_image trans_lex_prod trans_less_than)

lemma next_pull_less:
  "next_pull to_json config p = (p', Polled (Some e)) \<Longrightarrow> (pl_machine p', pl_machine p) \<in> machine_less"
proof (induction to_json config p rule: next_pull.induct)
  case (1 to_json config p)
  obtain q s where step: "machine_step to_json config p = (q, s)"
    by fastforce
  have "rm_phase (pl_machine p) \<noteq> Phase_Done"
    using 1(2) next_pull_Done by fastforce
  moreover have "s \<noteq> Step_Panic"
    using 1(2) step by (subst (asm) next_pull.simps) auto
  ultimately have less: "(pl_machine q, pl_machine p) \<in> machine_less"
    using machine_step_decreases [of p to_json config] step by simp
  show ?case
  proof (cases s)
    case Step_Continue
    with 1(1) [OF step [symmetric]] 1(2) step have "(pl_machine p', pl_machine q) \<in> machine_less"
      by (subst (asm) (2) next_pull.simps) auto
    with less show ?thesis
      using trans_machine_less by (meson transD)
  next
    case (Step_Return e')
    with 1(2) step less show ?thesis
      by (subst (asm) next_pull.simps) auto
  qed (use \<open>s \<noteq> Step_Panic\<close> in simp)
qed

subsection \<open>A whole response\<close>

text \<open>
  A host that pulls until there is no event left, and may cancel before any pull:
  \<open>cancels k\<close> says whether it does before the \<open>k\<close>-th.
\<close>

lemma poll_event_eq:
  assumes "sa_state a = AppState_Responding m"
    and "next_pull to_json (sa_projection_config a)
      \<lparr> pl_machine = m, pl_service = sa_projection_service a, pl_host = sa_host_state a \<rparr> = (p, result)"
  shows "poll_event to_json a =
    (let b = a\<lparr>sa_state := AppState_Responding (pl_machine p), sa_projection_service := pl_service p,
                sa_host_state := pl_host p\<rparr>
     in (if result = Polled None then restore_machine to_json b else b, result))"
  using assms by (simp add: poll_event_def Let_def)

definition app_measure :: "('s, 'w) SiralosApplication \<Rightarrow> ('s, 'w) ResponseMachine" where
  "app_measure a = (case sa_state a of AppState_Responding m \<Rightarrow> m | AppState_Idle \<Rightarrow> undefined)"

lemma cancel_response_state:
  "sa_state (cancel_response a) = (case sa_state a of AppState_Responding m \<Rightarrow> AppState_Responding (machine_cancel m) | s \<Rightarrow> s)"
  by (simp add: cancel_response_def split: AppState.split)

lemma machine_less_cancel: "(m', machine_cancel m) \<in> machine_less \<longleftrightarrow> (m', m) \<in> machine_less"
  by (simp add: machine_less_iff machine_cancel_def)

lemma poll_event_less:
  assumes "poll_event to_json (if c then cancel_response a else a) = (a', Polled (Some e))"
  shows "(app_measure a', app_measure a) \<in> machine_less"
proof -
  define b where "b = (if c then cancel_response a else a)"
  have poll: "poll_event to_json b = (a', Polled (Some e))"
    using assms by (simp add: b_def)
  then obtain m where m: "sa_state b = AppState_Responding m"
    by (cases "sa_state b") (auto simp: poll_event_def)
  obtain p result where pull: "next_pull to_json (sa_projection_config b)
      \<lparr> pl_machine = m, pl_service = sa_projection_service b, pl_host = sa_host_state b \<rparr> = (p, result)"
    by fastforce
  from poll_event_eq [OF m pull] poll have "result = Polled (Some e)" "sa_state a' = AppState_Responding (pl_machine p)"
    by (auto simp: Let_def split: if_splits)
  then have "(app_measure a', m) \<in> machine_less"
    using next_pull_less pull by (fastforce simp: app_measure_def)
  moreover have "m = app_measure a \<or> m = machine_cancel (app_measure a)"
    using m by (auto simp: b_def app_measure_def cancel_response_state split: if_splits AppState.splits)
  ultimately show ?thesis
    using machine_less_cancel by blast
qed

function respond ::
    "serializer \<Rightarrow> (nat \<Rightarrow> bool) \<Rightarrow> nat \<Rightarrow> ('s, 'w) SiralosApplication
      \<Rightarrow> ToolLoopEvent list \<times> ('s, 'w) SiralosApplication" where
  "respond to_json cancels k a =
     (case poll_event to_json (if cancels k then cancel_response a else a) of
        (a', Polled (Some e)) \<Rightarrow> (let (es, b) = respond to_json cancels (k + 1) a' in (e # es, b))
      | (a', _) \<Rightarrow> ([], a'))"
  by pat_completeness auto

termination
proof (relation "inv_image machine_less (\<lambda>(_, _, _, a). app_measure a)")
  show "wf (inv_image machine_less (\<lambda>(_, _, _, a). app_measure a))"
    by (simp add: wf_machine_less)
qed (auto dest!: sym [of "(_, _)"] poll_event_less)

declare respond.simps [simp del]

lemma respond_event:
  "poll_event to_json (if cancels k then cancel_response a else a) = (a', Polled (Some e)) \<Longrightarrow>
     respond to_json cancels k a = (e # fst (respond to_json cancels (k + 1) a'), snd (respond to_json cancels (k + 1) a'))"
  by (subst respond.simps) (simp add: case_prod_beta)

lemma respond_end:
  "poll_event to_json (if cancels k then cancel_response a else a) = (a', Polled None) \<Longrightarrow>
     respond to_json cancels k a = ([], a')"
  by (subst respond.simps) simp

lemma machine_inv_cancel: "machine_inv m \<Longrightarrow> machine_inv (machine_cancel m)"
  by (simp add: machine_inv_def machine_cancel_def split: Phase.split_asm Phase.split)

lemma maybe_cancel:
  assumes "sa_state a = AppState_Responding m"
  shows "\<exists>m'. sa_state (if c then cancel_response a else a) = AppState_Responding m'
    \<and> (m' = m \<or> m' = machine_cancel m)"
  using assms by (simp add: cancel_response_state)

lemma handle_provider_outcome_max: "rm_max_tool_rounds (handle_provider_outcome h outcome m) = rm_max_tool_rounds m"
  by (simp add: handle_provider_outcome_def handle_collected_turn_def Let_def split: TurnOutcome.split)

lemma machine_step_max:
  "rm_max_tool_rounds (pl_machine (fst (machine_step to_json config p))) = rm_max_tool_rounds (pl_machine p)"
  by (simp add: machine_step_def step_collect_def step_invoke_def step_stream_def step_emit_def step_round_def
      project_current_provider_turn_def handle_provider_outcome_max handle_collected_turn_def finish_round_def Let_def
      split: Phase.split option.split prod.split sum.split ProviderRequest.split TurnStep.split list.split
        ToolRoundStep.split ToolRoundKind.split)

lemma next_pull_max:
  "rm_max_tool_rounds (pl_machine (fst (next_pull to_json config p))) = rm_max_tool_rounds (pl_machine p)"
proof (induction to_json config p rule: next_pull.induct)
  case (1 to_json config p)
  then show ?case
    using machine_step_max [of to_json config p]
    by (subst next_pull.simps) (auto split: prod.split MachineStep.split)
qed

text \<open>One pull of a response that is not done, and the last one.\<close>

lemma poll_event_live:
  assumes "sa_state a = AppState_Responding m" and "machine_inv m" and "rm_phase m \<noteq> Phase_Done"
  shows "\<exists>a' m' e. poll_event to_json (if c then cancel_response a else a) = (a', Polled (Some e))
    \<and> sa_state a' = AppState_Responding m' \<and> machine_inv m' \<and> (event_is_terminal e \<longleftrightarrow> rm_phase m' = Phase_Done)
    \<and> (rm_phase m = Phase_Start \<longrightarrow> e = ResponseStarted) \<and> rm_max_tool_rounds m' = rm_max_tool_rounds m"
proof -
  define b where "b = (if c then cancel_response a else a)"
  obtain n where n: "sa_state b = AppState_Responding n" "n = m \<or> n = machine_cancel m"
    using maybe_cancel [OF assms(1), of c] by (auto simp: b_def)
  define p where "p = \<lparr> pl_machine = n, pl_service = sa_projection_service b, pl_host = sa_host_state b \<rparr>"
  have inv: "machine_inv (pl_machine p)" "rm_phase (pl_machine p) \<noteq> Phase_Done"
    "rm_phase n = rm_phase m" "rm_max_tool_rounds n = rm_max_tool_rounds m"
    using assms n(2) machine_inv_cancel by (auto simp: p_def machine_cancel_def)
  obtain p' e where pull: "next_pull to_json (sa_projection_config b) p = (p', Polled (Some e))"
    "machine_inv (pl_machine p')" "event_is_terminal e \<longleftrightarrow> rm_phase (pl_machine p') = Phase_Done"
    using next_pull_event [OF inv(1,2)] by blast
  have "rm_phase m = Phase_Start \<Longrightarrow> e = ResponseStarted"
    using pull(1) inv(3) by (subst (asm) next_pull.simps) (simp add: machine_step_def p_def)
  moreover have "rm_max_tool_rounds (pl_machine p') = rm_max_tool_rounds m"
    using next_pull_max [of to_json "sa_projection_config b" p] pull(1) inv(4) by (simp add: p_def)
  moreover have "\<exists>a'. poll_event to_json b = (a', Polled (Some e)) \<and> sa_state a' = AppState_Responding (pl_machine p')"
    using poll_event_eq [OF n(1) pull(1) [unfolded p_def]] by (simp add: Let_def)
  ultimately show ?thesis
    using pull(2,3) by (auto simp: b_def [symmetric])
qed

lemma poll_event_last:
  assumes "sa_state a = AppState_Responding m" and "rm_phase m = Phase_Done"
  shows "\<exists>a'. poll_event to_json (if c then cancel_response a else a) = (a', Polled None)
    \<and> sa_state a' = AppState_Idle \<and> sa_history a' = prune_history to_json (rm_history m)
    \<and> sa_completed_tool_rounds a' = rm_completed_tool_rounds m \<and> sa_provider_turn_count a' = rm_provider_turns m"
proof -
  define b where "b = (if c then cancel_response a else a)"
  obtain n where n: "sa_state b = AppState_Responding n" "n = m \<or> n = machine_cancel m"
    using maybe_cancel [OF assms(1), of c] by (auto simp: b_def)
  have same: "rm_phase n = Phase_Done" "rm_history n = rm_history m" "rm_completed_tool_rounds n = rm_completed_tool_rounds m"
    "rm_provider_turns n = rm_provider_turns m"
    using assms(2) n(2) by (auto simp: machine_cancel_def)
  have pull: "next_pull to_json (sa_projection_config b)
      \<lparr> pl_machine = n, pl_service = sa_projection_service b, pl_host = sa_host_state b \<rparr>
      = (\<lparr> pl_machine = n, pl_service = sa_projection_service b, pl_host = sa_host_state b \<rparr>, Polled None)"
    by (rule next_pull_Done) (simp add: same)
  show ?thesis
    using poll_event_eq [OF n(1) pull] same by (simp add: b_def [symmetric] restore_machine_def Let_def)
qed

lemma respond_trace:
  "sa_state a = AppState_Responding m \<Longrightarrow> machine_inv m \<Longrightarrow> rm_phase m \<noteq> Phase_Done \<Longrightarrow>
     \<exists>es t b. respond to_json cancels k a = (es @ [t], b) \<and> quiet es \<and> event_is_terminal t \<and> sa_state b = AppState_Idle
       \<and> sa_completed_tool_rounds b \<le> rm_max_tool_rounds m \<and> sa_provider_turn_count b \<le> rm_max_tool_rounds m + 1
       \<and> (rm_phase m = Phase_Start \<longrightarrow> (\<exists>fs. es = ResponseStarted # fs))"
proof (induction to_json cancels k a arbitrary: m rule: respond.induct)
  case (1 to_json cancels k a)
  obtain a' m' e where poll: "poll_event to_json (if cancels k then cancel_response a else a) = (a', Polled (Some e))"
    and live: "sa_state a' = AppState_Responding m'" "machine_inv m'" "event_is_terminal e \<longleftrightarrow> rm_phase m' = Phase_Done"
      "rm_phase m = Phase_Start \<longrightarrow> e = ResponseStarted" "rm_max_tool_rounds m' = rm_max_tool_rounds m"
    using poll_event_live [OF 1(2-4), of to_json "cancels k"] by blast
  note unfold = respond_event [of to_json cancels k a, OF poll]
  show ?case
  proof (cases "rm_phase m' = Phase_Done")
    case True
    then have "rm_phase m \<noteq> Phase_Start" "event_is_terminal e"
      using live(3,4) by auto
    moreover obtain b where b: "poll_event to_json (if cancels (k + 1) then cancel_response a' else a') = (b, Polled None)"
      "sa_state b = AppState_Idle" "sa_completed_tool_rounds b = rm_completed_tool_rounds m'"
      "sa_provider_turn_count b = rm_provider_turns m'"
      using poll_event_last [OF live(1) True, of to_json "cancels (k + 1)"] by blast
    moreover have "respond to_json cancels k a = ([] @ [e], b)"
      using unfold respond_end [of to_json cancels "k + 1" a', OF b(1)] by simp
    ultimately show ?thesis
      using live(2,5) True by (intro exI [of _ "[]"] exI [of _ e] exI [of _ b]) (auto simp: machine_inv_def)
  next
    case False
    obtain es t b where IH: "respond to_json cancels (k + 1) a' = (es @ [t], b)" "quiet es" "event_is_terminal t"
      "sa_state b = AppState_Idle" "sa_completed_tool_rounds b \<le> rm_max_tool_rounds m"
      "sa_provider_turn_count b \<le> rm_max_tool_rounds m + 1"
      using 1(1) [OF poll [symmetric] refl refl live(1,2) False] live(5) by auto
    then have "respond to_json cancels k a = ((e # es) @ [t], b)"
      using unfold by simp
    then show ?thesis
      using IH live(3,4) False by (intro exI [of _ "e # es"] exI [of _ t] exI [of _ b]) simp
  qed
qed

lemma send_prompt_Ok:
  assumes "send_prompt to_json prompt a = (b, Ok u)"
  shows "\<exists>m. sa_state b = AppState_Responding m \<and> machine_inv m \<and> rm_phase m = Phase_Start
    \<and> rm_max_tool_rounds m = sa_max_tool_rounds a \<and> rm_provider m = sa_provider a
    \<and> rm_history m = prune_history to_json (sa_history a) @ [UserMessage prompt] \<and> \<not> is_responding a"
  using assms
  by (auto simp: send_prompt_def Let_def ResponseMachine_new_def machine_inv_def split: if_splits AppState.splits)

subsection \<open>Pruning\<close>

lemma prune_history_suffix:
  "\<exists>k. prune_history to_json h = drop k h \<and> (k = 0 \<or> k \<ge> length h \<or> is_user_item (h ! k))"
proof (induction to_json h rule: prune_history.induct)
  case (1 to_json h)
  show ?case
  proof (cases "(MAX_HISTORY_ITEMS < length h \<or> MAX_HISTORY_BYTES < history_bytes to_json h)
      \<and> position is_user_item (drop 1 h) \<noteq> None")
    case True
    then obtain n where n: "position is_user_item (drop 1 h) = Some n"
      by auto
    then have user: "n < length (drop 1 h)" "is_user_item (h ! (n + 1))"
      by (auto dest!: position_Some_nth)
    obtain k where k: "prune_history to_json (drop (n + 1) h) = drop k (drop (n + 1) h)"
      "k = 0 \<or> k \<ge> length (drop (n + 1) h) \<or> is_user_item (drop (n + 1) h ! k)"
      using 1 True n by blast
    have "prune_history to_json h = drop (k + (n + 1)) h"
      using True n k(1) by (subst prune_history.simps) simp
    moreover have "k + (n + 1) \<ge> length h \<or> is_user_item (h ! (k + (n + 1)))"
      using k(2) user by (cases "k + (n + 1) < length h") (auto simp: add.commute)
    ultimately show ?thesis
      by blast
  next
    case False
    then have "prune_history to_json h = drop 0 h \<or> prune_history to_json h = drop (length h) h"
      by (subst (1 2) prune_history.simps) (auto split: option.split)
    then show ?thesis
      by (metis order_refl)
  qed
qed

lemma prune_history_bounds:
  "length (prune_history to_json h) \<le> MAX_HISTORY_ITEMS \<and> history_bytes to_json (prune_history to_json h) \<le> MAX_HISTORY_BYTES"
proof (induction to_json h rule: prune_history.induct)
  case (1 to_json h)
  then show ?case
    by (subst (1 2) prune_history.simps) (auto simp: history_bytes_def split: option.split)
qed

lemma prune_history_id:
  "length h \<le> MAX_HISTORY_ITEMS \<Longrightarrow> history_bytes to_json h \<le> MAX_HISTORY_BYTES \<Longrightarrow> prune_history to_json h = h"
  by (subst prune_history.simps) simp

lemma pairing_from_user:
  assumes "pairing [] h = Ok []" and "k < length h" and "is_user_item (h ! k)"
  shows "pairing [] (drop k h) = Ok []"
proof -
  obtain t where t: "drop k h = UserMessage t # drop (Suc k) h"
    using assms(2,3) by (cases "h ! k") (simp_all add: Cons_nth_drop_Suc [symmetric])
  have "result_bind (pairing [] (take k h)) (\<lambda>m. pairing m (drop k h)) = Ok []"
    using assms(1) pairing_append [of "[]" "take k h" "drop k h"] by simp
  then obtain m where "pairing [] (take k h) = Ok m" "pairing m (drop k h) = Ok []"
    by (auto simp: result_bind_Ok_iff)
  then show ?thesis
    using pairing_UserE [of m t "drop (Suc k) h"] t by simp
qed

lemma prune_history_valid: "pairing [] h = Ok [] \<Longrightarrow> pairing [] (prune_history to_json h) = Ok []"
proof -
  assume h: "pairing [] h = Ok []"
  obtain k where "prune_history to_json h = drop k h" "k = 0 \<or> k \<ge> length h \<or> is_user_item (h ! k)"
    using prune_history_suffix by blast
  then show ?thesis
    using h pairing_from_user [OF h, of k] by (cases "k < length h") (auto simp: pairing.simps)
qed

subsection \<open>The history stays a conversation\<close>

text \<open>Ids the collector makes up for calls it rejects.\<close>

definition synthetic :: "string \<Rightarrow> bool" where
  "synthetic i \<longleftrightarrow> (\<exists>j. i = ''invalid-call-'' @ show_nat j)"

definition ids_ok :: "TurnToolCall list \<Rightarrow> bool" where
  "ids_ok calls \<longleftrightarrow> distinct (map (fst \<circ> call_id_name) calls) \<and> list_all (\<lambda>c. fst (call_id_name c) \<noteq> []) calls"

fun call_ok :: "string set \<Rightarrow> nat \<Rightarrow> TurnToolCall \<Rightarrow> bool" where
  "call_ok seen n (TurnToolCall_Execute i _ _) \<longleftrightarrow> i \<in> seen \<and> i \<noteq> [] \<and> \<not> synthetic i"
| "call_ok seen n (TurnToolCall_Invalid i _ _) \<longleftrightarrow> (\<exists>j \<le> n. i = ''invalid-call-'' @ show_nat j)"

definition collector_ok :: "ProviderTurnCollector \<Rightarrow> bool" where
  "collector_ok c \<longleftrightarrow> distinct (map (fst \<circ> call_id_name) (pc_tool_calls c))
     \<and> list_all (call_ok (set (pc_seen_call_ids c)) (pc_invalid_call_index c)) (pc_tool_calls c)
     \<and> (case pc_terminal c of Some (TurnOutcome_Turn _ _ _) \<Rightarrow> False | _ \<Rightarrow> True)"

lemma call_ok_id: "call_ok seen n c \<Longrightarrow> fst (call_id_name c) \<noteq> []"
  by (cases c) auto

lemma collector_ok_ids: "collector_ok c \<Longrightarrow> ids_ok (pc_tool_calls c)"
  using call_ok_id by (auto simp: collector_ok_def ids_ok_def list_all_iff)

lemma call_ok_mono: "call_ok seen n c \<Longrightarrow> seen \<subseteq> seen' \<Longrightarrow> n \<le> n' \<Longrightarrow> call_ok seen' n' c"
  by (cases c) (auto intro: le_trans)

lemma call_ok_fresh_invalid: "call_ok seen n c \<Longrightarrow> fst (call_id_name c) \<noteq> ''invalid-call-'' @ show_nat (Suc n)"
  by (cases c) (auto simp: synthetic_def)

lemma call_ok_fresh_execute: "call_ok seen n c \<Longrightarrow> i \<notin> seen \<Longrightarrow> \<not> synthetic i \<Longrightarrow> fst (call_id_name c) \<noteq> i"
  by (cases c) (auto simp: synthetic_def)

lemma collector_ok_snoc:
  assumes "collector_ok c" and "pc_tool_calls d = pc_tool_calls c @ [x]"
    and "set (pc_seen_call_ids c) \<subseteq> set (pc_seen_call_ids d)" and "pc_invalid_call_index c \<le> pc_invalid_call_index d"
    and "call_ok (set (pc_seen_call_ids d)) (pc_invalid_call_index d) x" and "pc_terminal d = pc_terminal c"
    and "list_all (\<lambda>y. fst (call_id_name y) \<noteq> fst (call_id_name x)) (pc_tool_calls c)"
  shows "collector_ok d"
proof -
  have "list_all (call_ok (set (pc_seen_call_ids d)) (pc_invalid_call_index d)) (pc_tool_calls c)"
    using assms(1) call_ok_mono [OF _ assms(3,4)] by (simp add: collector_ok_def list_all_iff)
  moreover have "fst (call_id_name x) \<notin> (fst \<circ> call_id_name) ` set (pc_tool_calls c)"
    using assms(7) by (auto simp: list_all_iff)
  ultimately show ?thesis
    using assms(1,2,5,6) by (simp add: collector_ok_def)
qed

lemma retain_call_ok:
  assumes "collector_ok c" and "\<not> synthetic i"
  shows "collector_ok (retain_call i n inp c)"
proof -
  have calls: "list_all (call_ok (set (pc_seen_call_ids c)) (pc_invalid_call_index c)) (pc_tool_calls c)"
    using assms(1) by (simp add: collector_ok_def)
  have invalid: "list_all (\<lambda>y. fst (call_id_name y) \<noteq> ''invalid-call-'' @ show_nat (Suc (pc_invalid_call_index c))) (pc_tool_calls c)"
    using calls call_ok_fresh_invalid unfolding list_all_iff by blast
  show ?thesis
  proof (cases "i = [] \<or> n = [] \<or> i \<in> set (pc_seen_call_ids c)")
    case True
    then obtain n' msg where "pc_tool_calls (retain_call i n inp c) = pc_tool_calls c
        @ [TurnToolCall_Invalid (''invalid-call-'' @ show_nat (Suc (pc_invalid_call_index c))) n' msg]"
      "pc_seen_call_ids (retain_call i n inp c) = pc_seen_call_ids c"
      "pc_invalid_call_index (retain_call i n inp c) = Suc (pc_invalid_call_index c)"
      by (cases "i = [] \<or> n = []") (simp_all add: retain_call_def Let_def)
    then show ?thesis
      by (intro collector_ok_snoc [OF assms(1)]) (use invalid in auto)
  next
    case False
    then have "list_all (\<lambda>y. fst (call_id_name y) \<noteq> i) (pc_tool_calls c)"
      using calls call_ok_fresh_execute assms(2) unfolding list_all_iff by blast
    with False assms(2) show ?thesis
      by (intro collector_ok_snoc [OF assms(1), of _ "TurnToolCall_Execute i n inp"]) (auto simp: retain_call_def Let_def)
  qed
qed

fun event_named :: "ModelEvent \<Rightarrow> bool" where
  "event_named (ModelEvent_ToolCall i _ _) \<longleftrightarrow> \<not> synthetic i"
| "event_named _ \<longleftrightarrow> True"

definition provider_event_named :: "ProviderEvent \<Rightarrow> bool" where
  "provider_event_named e =
     (case e of
        ProviderEvent_Event m \<Rightarrow> event_named m
      | ProviderEvent_Raw v \<Rightarrow> (case validate_external_event v of Ok m \<Rightarrow> event_named m | Err _ \<Rightarrow> True)
      | _ \<Rightarrow> True)"

text \<open>A provider that never uses one of these ids itself.\<close>

definition well_named :: "'s Provider \<Rightarrow> bool" where
  "well_named provider \<longleftrightarrow> (\<forall>s e s'. next_event provider s = Some (e, s') \<longrightarrow> provider_event_named e)"

lemma collector_ok_state: "collector_ok (c\<lparr>pc_state := s\<rparr>) = collector_ok c"
  "collector_ok (c\<lparr>pc_text_deltas := d\<rparr>) = collector_ok c" "collector_ok (c\<lparr>pc_reasoning_deltas := d\<rparr>) = collector_ok c"
  "collector_ok (c\<lparr>pc_failure := f\<rparr>) = collector_ok c"
  "collector_ok (c\<lparr>pc_terminal := Some TurnOutcome_Cancelled\<rparr>) = collector_ok (c\<lparr>pc_terminal := None\<rparr>)"
  "collector_ok (c\<lparr>pc_terminal := Some (TurnOutcome_Failed x)\<rparr>) = collector_ok (c\<lparr>pc_terminal := None\<rparr>)"
  "collector_ok c \<Longrightarrow> collector_ok (c\<lparr>pc_terminal := None\<rparr>)"
  by (simp_all add: collector_ok_def)

lemma apply_event_ok:
  "collector_ok c \<Longrightarrow> event_named e \<Longrightarrow> collector_ok (fst (apply_event to_json e c))"
  by (cases e) (auto simp: apply_event_def collector_ok_state retain_call_ok split: prod.split sum.split)

lemma collector_apply_ok:
  "collector_ok c \<Longrightarrow> event_named e \<Longrightarrow> collector_ok (fst (collector_apply to_json e c))"
  using apply_event_ok [of c e to_json]
  by (auto simp: collector_apply_def collector_ok_state split: prod.split sum.split)

lemma collector_push_ok:
  "collector_ok c \<Longrightarrow> provider_event_named e \<Longrightarrow> collector_ok (fst (collector_push to_json e c))"
  by (cases e) (auto simp: collector_push_def provider_event_named_def collector_ok_state collector_apply_ok Let_def
      split: sum.splits)

lemma collector_apply_step: "snd (collector_apply to_json e c) \<noteq> TurnStep_Terminal out"
  by (simp add: collector_apply_def split: prod.split sum.split)

lemma collector_push_terminal:
  "collector_push to_json e c = (c', TurnStep_Terminal out) \<Longrightarrow>
     out = TurnOutcome_Cancelled \<or> (\<exists>f. out = TurnOutcome_Failed f)"
  using collector_apply_step [of to_json _ c out]
  by (auto simp: collector_push_def Let_def split: ProviderEvent.splits if_splits sum.splits) (metis snd_conv)+

fun outcome_ids_ok :: "TurnOutcome \<Rightarrow> bool" where
  "outcome_ids_ok (TurnOutcome_Turn _ _ calls) = ids_ok calls"
| "outcome_ids_ok _ = True"

lemma collector_finish_ok: "collector_ok c \<Longrightarrow> outcome_ids_ok (without_text_deltas (collector_finish c))"
  using collector_ok_ids [of c]
  by (auto simp: collector_finish_def collector_ok_def split: option.splits TurnOutcome.splits)

lemma collector_ok_new: "collector_ok ProviderTurnCollector_new"
  by (simp add: collector_ok_def ProviderTurnCollector_new_def)

definition talk_inv :: "('s, 'w) ResponseMachine \<Rightarrow> bool" where
  "talk_inv m \<longleftrightarrow> well_named (rm_provider m) \<and> pairing [] (rm_history m) = Ok []
     \<and> (case rm_phase m of
          Phase_StreamTurn _ c \<Rightarrow> collector_ok c
        | Phase_EmitText t \<Rightarrow> ids_ok (ct_tool_calls t)
        | Phase_RunningRound r _ \<Rightarrow> \<exists>calls. round_inv calls r \<and> ids_ok calls
        | _ \<Rightarrow> True)"

lemma round_inv_executor [simp]: "round_inv calls (r\<lparr>rr_executor := e\<rparr>) = round_inv calls r"
  by (simp add: round_inv_def)

lemma pairing_message: "pairing [] h = Ok [] \<Longrightarrow> pairing [] (h @ [AssistantMessage t]) = Ok []"
  by (simp add: pairing_kept pairing_single)

lemma handle_collected_turn_talk:
  "well_named (rm_provider m) \<Longrightarrow> pairing [] (rm_history m) = Ok [] \<Longrightarrow> ids_ok (ct_tool_calls t) \<Longrightarrow>
     talk_inv (handle_collected_turn h t m)"
  by (auto simp: handle_collected_turn_def talk_inv_def pairing_message intro: round_inv_new)

lemma handle_provider_outcome_talk:
  "well_named (rm_provider m) \<Longrightarrow> pairing [] (rm_history m) = Ok [] \<Longrightarrow> outcome_ids_ok out \<Longrightarrow>
     talk_inv (handle_provider_outcome h out m)"
  by (cases out) (auto simp: handle_provider_outcome_def Let_def handle_collected_turn_talk, auto simp: talk_inv_def)

lemma finish_round_talk:
  assumes "well_named (rm_provider m)" and "pairing [] (rm_history m) = Ok []"
    and "outcome_paired calls out" and "ids_ok calls"
  shows "talk_inv (finish_round t out m)"
proof -
  have "pairing [] (ro_transcript out) = Ok []"
    using assms(3,4) pairing_round by (auto simp: ids_ok_def)
  then show ?thesis
    using assms(1,2)
    by (simp add: finish_round_def talk_inv_def pairing_append pairing_single split: ToolRoundKind.split)
qed

lemma open_turn_outcome:
  "open_turn request m = Err out \<Longrightarrow> outcome_ids_ok out"
  "open_turn request m = Ok (s, c) \<Longrightarrow> c = ProviderTurnCollector_new"
  by (auto simp: open_turn_def open_provider_turn_def split: ProviderRequest.splits sum.splits if_splits)

lemma talk_inv_terminal: "well_named (rm_provider m) \<Longrightarrow> pairing [] (rm_history m) = Ok [] \<Longrightarrow>
    talk_inv (m\<lparr>rm_phase := Phase_Terminal e\<rparr>)"
  by (simp add: talk_inv_def)

lemma machine_step_talk:
  assumes "talk_inv (pl_machine p)"
  shows "talk_inv (pl_machine (fst (machine_step to_json config p)))"
proof -
  define m where "m = pl_machine p"
  have base: "well_named (rm_provider m)" "pairing [] (rm_history m) = Ok []"
    using assms by (simp_all add: talk_inv_def m_def)
  show ?thesis
  proof (cases "rm_phase m")
    case Phase_CollectTurn
    then show ?thesis
      using base by (auto simp: machine_step_def step_collect_def project_current_provider_turn_def talk_inv_def
          m_def [symmetric] Let_def split: option.split prod.split)
  next
    case (Phase_InvokeProvider request pending)
    define n where "n = m\<lparr>rm_provider_turns := Suc (rm_provider_turns m)\<rparr>"
    have n: "talk_inv (handle_provider_outcome h out n)" if "open_turn q n = Err out" for q h out
      using open_turn_outcome(1) [OF that] base by (intro handle_provider_outcome_talk) (simp_all add: n_def)
    have s: "talk_inv (n\<lparr>rm_phase := Phase_StreamTurn s c\<rparr>)" if "open_turn q n = Ok (s, c)" for q s c
      using open_turn_outcome(2) [OF that] base collector_ok_new by (simp add: talk_inv_def n_def)
    have r: "talk_inv (m\<lparr>rm_phase := Phase_InvokeProvider q b\<rparr>)" for q b
      using base by (simp add: talk_inv_def)
    show ?thesis
      using Phase_InvokeProvider assms
      by (simp add: machine_step_def step_invoke_def m_def [symmetric] n_def [symmetric] Let_def n s r
          talk_inv_terminal [OF base] split: option.split sum.split prod.split ProviderRequest.split)
  next
    case (Phase_StreamTurn stream c)
    then have c: "collector_ok c"
      using assms by (simp add: talk_inv_def m_def)
    have push: "collector_ok c'" if "next_event (rm_provider m) stream = Some (e, s')"
      "collector_push to_json e c = (c', st)" for e s' c' st
      using collector_push_ok [OF c, of e to_json] base(1) that by (auto simp: well_named_def)
    have fin: "talk_inv (handle_provider_outcome h (without_text_deltas (collector_finish c')) m)" if "collector_ok c'" for h c'
      using collector_finish_ok [OF that] base by (intro handle_provider_outcome_talk)
    have ended: "talk_inv (handle_provider_outcome h out m)" if "collector_push to_json e c = (c', TurnStep_Terminal out)" for h out e c'
      using collector_push_terminal [OF that] base by (intro handle_provider_outcome_talk) auto
    have stay: "talk_inv (m\<lparr>rm_phase := Phase_StreamTurn s c'\<rparr>)" if "collector_ok c'" for s c'
      using base that by (simp add: talk_inv_def)
    show ?thesis
      using Phase_StreamTurn
      by (auto simp: machine_step_def step_stream_def m_def [symmetric] Let_def fin [OF c] ended
          talk_inv_terminal [OF base] split: option.split prod.split TurnStep.split intro: fin stay push)
  next
    case (Phase_EmitText t)
    then have t: "ids_ok (ct_tool_calls t)"
      using assms by (simp add: talk_inv_def m_def)
    then have "talk_inv (m\<lparr>rm_phase := Phase_EmitText (t\<lparr>ct_text_deltas := d\<rparr>)\<rparr>)" for d
      using base by (simp add: talk_inv_def)
    then show ?thesis
      using Phase_EmitText handle_collected_turn_talk [OF base t]
      by (simp add: machine_step_def step_emit_def m_def [symmetric] split: list.split)
  next
    case (Phase_RunningRound runner t)
    then obtain calls where calls: "round_inv calls runner" "ids_ok calls"
      using assms by (auto simp: talk_inv_def m_def)
    obtain r s where pulled: "runner_next (execute_call to_json (rm_host m)) (rm_cancelled m) (runner\<lparr>rr_executor := pl_host p\<rparr>) = (r, s)"
      by fastforce
    note kept = runner_next_paired [OF _ pulled, of calls, simplified, OF calls(1)]
    have "talk_inv (m\<lparr>rm_phase := Phase_RunningRound r t\<rparr>)" "talk_inv (m\<lparr>rm_phase := Phase_Done\<rparr>)"
      using base kept calls by (auto simp: talk_inv_def)
    then show ?thesis
      using Phase_RunningRound kept finish_round_talk [OF base _ calls(2)]
      by (simp add: machine_step_def step_round_def m_def [symmetric] pulled Let_def
          split: option.splits ToolRoundStep.splits)
  qed (use assms base in \<open>simp_all add: machine_step_def m_def [symmetric] talk_inv_def\<close>)
qed

lemma next_pull_talk: "talk_inv (pl_machine p) \<Longrightarrow> talk_inv (pl_machine (fst (next_pull to_json config p)))"
proof (induction to_json config p rule: next_pull.induct)
  case (1 to_json config p)
  then show ?case
    using machine_step_talk [OF 1(2), of to_json config]
    by (subst next_pull.simps) (auto split: prod.split MachineStep.split)
qed

definition app_talk :: "('s, 'w) SiralosApplication \<Rightarrow> bool" where
  "app_talk a \<longleftrightarrow>
     (case sa_state a of AppState_Idle \<Rightarrow> pairing [] (sa_history a) = Ok [] | AppState_Responding m \<Rightarrow> talk_inv m)"

lemma app_talk_cancel: "app_talk a \<Longrightarrow> app_talk (if c then cancel_response a else a)"
  by (auto simp: app_talk_def cancel_response_def machine_cancel_def talk_inv_def split: AppState.splits Phase.splits)

lemma poll_event_talk:
  assumes "app_talk a"
  shows "app_talk (fst (poll_event to_json a))"
proof (cases "sa_state a")
  case (AppState_Responding m)
  obtain p r where pull: "next_pull to_json (sa_projection_config a)
      \<lparr> pl_machine = m, pl_service = sa_projection_service a, pl_host = sa_host_state a \<rparr> = (p, r)"
    by fastforce
  have "talk_inv (pl_machine p)"
    using next_pull_talk [of "\<lparr> pl_machine = m, pl_service = sa_projection_service a, pl_host = sa_host_state a \<rparr>"
        to_json "sa_projection_config a"] assms pull AppState_Responding by (simp add: app_talk_def)
  moreover have "pairing [] (rm_history (pl_machine p)) = Ok []"
    using calculation by (simp add: talk_inv_def)
  ultimately show ?thesis
    using poll_event_eq [OF AppState_Responding pull]
    by (auto simp: app_talk_def restore_machine_def prune_history_valid Let_def)
qed (use assms in \<open>simp add: poll_event_def\<close>)

lemma respond_talk: "app_talk a \<Longrightarrow> app_talk (snd (respond to_json cancels k a))"
proof (induction to_json cancels k a rule: respond.induct)
  case (1 to_json cancels k a)
  obtain a' r where poll: "poll_event to_json (if cancels k then cancel_response a else a) = (a', r)"
    by fastforce
  have "app_talk a'"
    using poll_event_talk [OF app_talk_cancel [OF 1(2), of "cancels k"], of to_json] poll by simp
  then show ?case
    using 1(1) [OF poll [symmetric]] poll
    by (subst respond.simps) (auto split: prod.split PollResult.split option.split)
qed

subsection \<open>A canned provider\<close>

text \<open>A provider that answers every request with the same text, for the concrete instances.\<close>

definition canned :: "nat Provider" where
  "canned =
     \<lparr> open_stream = \<lambda>_. 0,
       next_event = \<lambda>s. if s = 0 then Some (ProviderEvent_Event (ModelEvent_TextDelta ''ok''), 1)
         else if s = 1 then Some (ProviderEvent_Event ModelEvent_Completed, 2) else None \<rparr>"

definition canned_app :: "(nat, unit) SiralosApplication" where
  "canned_app = SiralosApplication_new canned \<lparr> tg_entries = [], tg_index = Map.empty \<rparr> [] None None ()"

lemma canned_app_sel [simp]:
  "sa_history canned_app = []" "sa_provider canned_app = canned" "sa_max_tool_rounds canned_app = 8"
  by (simp_all add: canned_app_def SiralosApplication_new_def RoundBudget_normalize_def DEFAULT_MAX_TOOL_ROUNDS_def)

lemma well_named_canned: "well_named canned"
  by (simp add: well_named_def canned_def provider_event_named_def)

lemma send_prompt_canned: "\<exists>b. send_prompt (\<lambda>_. ''null'') ''hi'' canned_app = (b, Ok ())"
proof -
  have "prune_history (\<lambda>_. ''null'') [] = []"
    by (rule prune_history_id) (simp_all add: history_bytes_def)
  then show ?thesis
    by (simp add: send_prompt_def MAX_PROMPT_BYTES_def history_bytes_def history_item_bytes_def saturating_add_def
        MAX_HISTORY_ITEMS_def MAX_HISTORY_BYTES_def Let_def canned_app_def SiralosApplication_new_def)
qed

subsection \<open>Properties\<close>

text \<open>
  C3.  Every accepted prompt is answered: whatever the provider streams, whatever the tools do
  and whenever the host cancels, pulling ends; the events start with the start of the
  response, end with exactly one terminal event and hold no other one; the application is
  idle again, ran at most the budgeted number of rounds and asked the provider at most once
  more.
\<close>

theorem response_ends_once:
  assumes "send_prompt to_json prompt a = (b, Ok u)"
  shows "\<exists>es t c. respond to_json cancels k b = (ResponseStarted # es @ [t], c)
    \<and> list_all (\<lambda>e. \<not> event_is_terminal e) es \<and> event_is_terminal t \<and> \<not> is_responding c
    \<and> app_completed_tool_rounds c \<le> sa_max_tool_rounds a
    \<and> app_provider_turn_count c \<le> sa_max_tool_rounds a + 1"
proof -
  obtain m where m: "sa_state b = AppState_Responding m" "machine_inv m" "rm_phase m = Phase_Start"
    "rm_max_tool_rounds m = sa_max_tool_rounds a"
    using send_prompt_Ok [OF assms] by blast
  then have "rm_phase m \<noteq> Phase_Done"
    by simp
  from respond_trace [OF m(1,2) this, of to_json cancels k] m(3,4)
  obtain fs t c where "respond to_json cancels k b = ((ResponseStarted # fs) @ [t], c)" "quiet (ResponseStarted # fs)"
    "event_is_terminal t" "sa_state c = AppState_Idle" "sa_completed_tool_rounds c \<le> sa_max_tool_rounds a"
    "sa_provider_turn_count c \<le> sa_max_tool_rounds a + 1"
    by auto
  then show ?thesis
    by (intro exI [of _ fs] exI [of _ t] exI [of _ c])
      (simp add: quiet_def app_completed_tool_rounds_def app_provider_turn_count_def)
qed

theorem response_ends_once_witness:
  "\<exists>b es t c. send_prompt (\<lambda>_. ''null'') ''hi'' canned_app = (b, Ok ())
     \<and> respond (\<lambda>_. ''null'') (\<lambda>k. k = 3) 0 b = (ResponseStarted # es @ [t], c) \<and> event_is_terminal t
     \<and> app_provider_turn_count c \<le> 9"
proof -
  obtain b where b: "send_prompt (\<lambda>_. ''null'') ''hi'' canned_app = (b, Ok ())"
    using send_prompt_canned by blast
  from response_ends_once [OF b, of "\<lambda>k. k = 3" 0] b show ?thesis
    by auto
qed

text \<open>
  C4.  The history of a session stays a valid conversation: from an idle application with a
  valid history, after an accepted prompt and its whole response the history is valid again,
  pruning included, provided that the provider does not itself use the ids the collector
  makes up for rejected calls.
\<close>

theorem session_history_stays_valid:
  assumes "validate_conversation_items (sa_history a) = Ok v" and "well_named (sa_provider a)"
    and "send_prompt to_json prompt a = (b, Ok u)"
  shows "validate_conversation_items (app_history (snd (respond to_json cancels k b))) = Ok ()
    \<and> \<not> is_responding (snd (respond to_json cancels k b))"
proof -
  have "pairing [] (sa_history a) = Ok []"
    using assms(1) by (simp add: validate_conversation_items_pairing pairing_ok_Ok_iff)
  then have "pairing [] (prune_history to_json (sa_history a) @ [UserMessage prompt]) = Ok []"
    by (simp add: prune_history_valid pairing_kept pairing_single)
  moreover obtain m where m: "sa_state b = AppState_Responding m" "machine_inv m" "rm_phase m = Phase_Start"
    "rm_provider m = sa_provider a" "rm_history m = prune_history to_json (sa_history a) @ [UserMessage prompt]"
    using send_prompt_Ok [OF assms(3)] by blast
  ultimately have "app_talk b"
    using assms(2) by (simp add: app_talk_def talk_inv_def)
  then have talk: "app_talk (snd (respond to_json cancels k b))"
    by (rule respond_talk)
  have "sa_state (snd (respond to_json cancels k b)) = AppState_Idle"
    using respond_trace [OF m(1,2), of to_json cancels k] m(3) by auto
  with talk show ?thesis
    by (simp add: app_talk_def app_history_def validate_conversation_items_pairing pairing_ok_Ok_iff)
qed

theorem session_history_stays_valid_witness:
  "\<exists>b. send_prompt (\<lambda>_. ''null'') ''hi'' canned_app = (b, Ok ())
     \<and> validate_conversation_items (app_history (snd (respond (\<lambda>_. ''null'') (\<lambda>_. False) 0 b))) = Ok ()"
proof -
  obtain b where b: "send_prompt (\<lambda>_. ''null'') ''hi'' canned_app = (b, Ok ())"
    using send_prompt_canned by blast
  have "validate_conversation_items (sa_history canned_app) = Ok ()"
    by (simp add: validate_conversation_items_def first_unresolved_def)
  from session_history_stays_valid [OF this _ b, of "\<lambda>_. False" 0] b well_named_canned show ?thesis
    by auto
qed

text \<open>
  Pruning ends and keeps the history within both budgets: the result has at most 256
  items and one MiB, it is a suffix of the history that is everything, nothing, or starts at a
  user message, and a history within the budgets is left alone.
\<close>

theorem history_pruning_exact:
  "length (prune_history to_json h) \<le> 256 \<and> history_bytes to_json (prune_history to_json h) \<le> 1024 * 1024
   \<and> (\<exists>n. prune_history to_json h = drop n h \<and> (n = 0 \<or> length h \<le> n \<or> is_user_item (h ! n)))
   \<and> (prune_history to_json h = h) = (length h \<le> 256 \<and> history_bytes to_json h \<le> 1024 * 1024)"
proof -
  note bounds = prune_history_bounds [of to_json h, unfolded MAX_HISTORY_ITEMS_def MAX_HISTORY_BYTES_def]
  have "(prune_history to_json h = h) = (length h \<le> 256 \<and> history_bytes to_json h \<le> 1024 * 1024)"
    using bounds prune_history_id [of h to_json, unfolded MAX_HISTORY_ITEMS_def MAX_HISTORY_BYTES_def] by metis
  with bounds prune_history_suffix [of to_json h] show ?thesis
    by blast
qed

lemma saturating_add_le: "saturating_add a b \<le> a + b"
  by (simp add: saturating_add_def)

lemma history_bytes_le: "history_bytes to_json h \<le> sum_list (map (history_item_bytes to_json) h)"
proof -
  have "foldl (\<lambda>t i. saturating_add t (f i)) s h \<le> s + sum_list (map f h)" for f s
  proof (induction h arbitrary: s)
    case (Cons x xs)
    have "saturating_add s (f x) + sum_list (map f xs) \<le> s + f x + sum_list (map f xs)"
      using saturating_add_le by simp
    then show ?case
      using Cons [of "saturating_add s (f x)"] by simp
  qed simp
  then show ?thesis
    by (metis add_0 history_bytes_def)
qed

text \<open>
  C31.  An idle application whose history holds exactly the permitted 256 items refuses every
  prompt and stays as it is: the budget check counts the prompt, but pruning starts only above
  256 items, so nothing ever makes room.
\<close>

theorem full_history_refuses_every_prompt:
  assumes "\<not> is_responding a" and "length (sa_history a) = 256" and "history_bytes to_json (sa_history a) \<le> 1024 * 1024"
  shows "send_prompt to_json prompt a = (a, Err PromptStartError_TooLong)"
proof -
  have "prune_history to_json (sa_history a) = sa_history a"
    using assms by (intro prune_history_id) (simp_all add: MAX_HISTORY_ITEMS_def MAX_HISTORY_BYTES_def)
  then show ?thesis
    using assms by (simp add: send_prompt_def saturating_add_def MAX_HISTORY_ITEMS_def Let_def del: is_responding.simps)
qed

theorem full_history_refuses_every_prompt_witness:
  "let a = canned_app\<lparr>sa_history := concat (replicate 128 [UserMessage ''q'', AssistantMessage ''a''])\<rparr>
   in send_prompt (\<lambda>_. ''null'') ''hello'' a = (a, Err PromptStartError_TooLong)"
proof -
  define a where "a = canned_app\<lparr>sa_history := concat (replicate 128 [UserMessage ''q'', AssistantMessage ''a''])\<rparr>"
  have sum: "sum_list (map f (concat (replicate n [x, y]))) = n * (f x + f y)" for f :: "ConversationItem \<Rightarrow> nat" and n x y
    by (induction n) simp_all
  have "history_bytes (\<lambda>_. ''null'') (sa_history a) \<le> 128 * (33 + 33)"
    using history_bytes_le [of "\<lambda>_. ''null''" "sa_history a"]
    by (simp add: a_def sum history_item_bytes_def)
  moreover have "length (sa_history a) = 256"
    by (simp add: a_def length_concat sum_list_replicate)
  moreover have "\<not> is_responding a"
    by (simp add: a_def canned_app_def SiralosApplication_new_def)
  ultimately have "send_prompt (\<lambda>_. ''null'') ''hello'' a = (a, Err PromptStartError_TooLong)"
    by (intro full_history_refuses_every_prompt) simp_all
  then show ?thesis
    by (simp add: a_def Let_def)
qed

text \<open>
  The id made up for a rejected call can collide with an id of the provider: when the
  provider uses the id \<open>invalid-call-1\<close> and then sends a call with an empty id, both calls
  are retained under that id, and no transcript of the round passes the pairing check.
\<close>

theorem synthetic_id_collision:
  "let c = fst (collector_push (\<lambda>_. ''null'') (ProviderEvent_Event (ModelEvent_ToolCall ''invalid-call-1'' ''read''
         (ToolCallInput_from_value Value_Null))) ProviderTurnCollector_new);
       calls = pc_tool_calls (fst (collector_push (\<lambda>_. ''null'') (ProviderEvent_Event (ModelEvent_ToolCall [] ''read''
         (ToolCallInput_from_value Value_Null))) c))
   in map (fst \<circ> call_id_name) calls = [''invalid-call-1'', ''invalid-call-1'']
      \<and> validate_conversation_items (seed_transcript calls @ results) = Err (TranscriptFailure_DuplicateCallId ''invalid-call-1'')"
proof -
  have "show_nat (Suc 0) = ''1''"
    by code_simp
  then show ?thesis
    by (simp add: collector_push_def collector_apply_def apply_event_def push_tool_call_def ProviderTurnCollector_new_def
      BoundedTurnState_new_def ProviderTurnLimits_default_def ToolCallInput_serialized_json_def ToolCallInput_from_value_def
      retain_call_def seed_transcript_def validate_conversation_items_pairing pairing_ok_def pairing.simps Let_def)
qed

end
