(* ===== verification/Provider_Properties.thy ===== *)
theory Provider_Properties
  imports Provider_Turn Machine
begin

text \<open>
  Bounds of a collected turn, whatever the provider streams.
\<close>

definition bounded_turn :: "ProviderTurnCollector \<Rightarrow> bool" where
  "bounded_turn c \<longleftrightarrow> bt_limits (pc_state c) = ProviderTurnLimits_default
     \<and> bt_assistant_text (pc_state c) = concat (pc_text_deltas c)
     \<and> length (bt_assistant_text (pc_state c)) \<le> bt_assistant_text_bytes (pc_state c)
     \<and> length (bt_assistant_text (pc_state c)) \<le> 64 * 1024
     \<and> length (pc_text_deltas c) \<le> bt_text_events (pc_state c) \<and> length (pc_text_deltas c) \<le> 4096
     \<and> length (pc_tool_calls c) \<le> 32
     \<and> (case pc_terminal c of Some (TurnOutcome_Turn _ _ _) \<Rightarrow> False | _ \<Rightarrow> True)"

lemma apply_event_bounded: "bounded_turn c \<Longrightarrow> bounded_turn (fst (apply_event to_json e c))"
proof (cases e)
  case (ModelEvent_TextDelta t)
  then show "bounded_turn c \<Longrightarrow> ?thesis"
    by (auto simp: apply_event_def push_text_def bounded_turn_def ProviderTurnLimits_default_def Let_def)
next
  case (ModelEvent_ReasoningDelta t)
  then show "bounded_turn c \<Longrightarrow> ?thesis"
    by (auto simp: apply_event_def push_reasoning_def bounded_turn_def Let_def)
next
  case (ModelEvent_ToolCall i n inp)
  then show "bounded_turn c \<Longrightarrow> ?thesis"
    by (auto simp: apply_event_def push_tool_call_def bounded_turn_def ProviderTurnLimits_default_def Let_def)
next
  case ModelEvent_Completed
  then show "bounded_turn c \<Longrightarrow> ?thesis"
    by (auto simp: apply_event_def complete_def bounded_turn_def)
qed

lemma bounded_turn_outcome [simp]:
  "bounded_turn (c\<lparr>pc_failure := f\<rparr>) = bounded_turn c"
  "bounded_turn c \<Longrightarrow> bounded_turn (c\<lparr>pc_terminal := Some TurnOutcome_Cancelled\<rparr>)"
  "bounded_turn c \<Longrightarrow> bounded_turn (c\<lparr>pc_terminal := Some (TurnOutcome_Failed x)\<rparr>)"
  by (auto simp: bounded_turn_def)

lemma collector_apply_bounded: "bounded_turn c \<Longrightarrow> bounded_turn (fst (collector_apply to_json e c))"
  using apply_event_bounded [of c to_json e] by (auto simp: collector_apply_def split: prod.split sum.split)

definition collector_step :: "serializer \<times> ProviderEvent \<Rightarrow> ProviderTurnCollector \<Rightarrow> ProviderTurnCollector" where
  "collector_step op c = fst (collector_push (fst op) (snd op) c)"

interpretation collector: machine "\<lambda>c. c = ProviderTurnCollector_new" collector_step bounded_turn
proof
  show "bounded_turn (collector_step x s)" if "bounded_turn s" for s x
    using that collector_apply_bounded
    by (auto simp: collector_step_def collector_push_def Let_def split: ProviderEvent.split sum.split)
qed (simp add: bounded_turn_def ProviderTurnCollector_new_def BoundedTurnState_new_def)

lemma collector_push_terminal_outcome:
  assumes "collector_push to_json e c = (c', TurnStep_Terminal out)"
  shows "\<exists>f. out \<in> {TurnOutcome_Cancelled, TurnOutcome_Failed f}"
proof -
  have "snd (collector_apply to_json x c) \<noteq> TurnStep_Terminal out" for x
    by (simp add: collector_apply_def split: prod.split sum.split)
  then show ?thesis
    using assms by (auto simp: collector_push_def Let_def split: ProviderEvent.splits if_splits sum.splits) (metis snd_conv)+
qed

fun outcome_bounded :: "TurnOutcome \<Rightarrow> bool" where
  "outcome_bounded (TurnOutcome_Turn assistant_text deltas calls) \<longleftrightarrow>
     assistant_text = concat deltas \<and> length assistant_text \<le> 64 * 1024 \<and> length deltas \<le> 4096 \<and> length calls \<le> 32"
| "outcome_bounded _ \<longleftrightarrow> True"

lemma collector_finish_bounded: "bounded_turn c \<Longrightarrow> outcome_bounded (collector_finish c)"
  by (auto simp: collector_finish_def bounded_turn_def split: option.splits TurnOutcome.splits)

lemma collect_loop_bounded:
  "bounded_turn c \<Longrightarrow> outcome_bounded (collect_loop to_json provider cancelled k stream c)"
proof (induction to_json provider cancelled k stream c rule: collect_loop.induct)
  case (1 to_json provider cancelled k stream c)
  show ?case
  proof (cases "next_event provider stream")
    case None
    then show ?thesis
      using collector_finish_bounded [OF 1(2)] by (subst collect_loop.simps) simp
  next
    case (Some es)
    obtain e s where es: "es = (e, s)"
      by fastforce
    obtain c' st where push: "collector_push to_json e c = (c', st)"
      by fastforce
    have c': "bounded_turn c'"
      using collector.step_inv [OF 1(2), of "(to_json, e)"] push by (simp add: collector_step_def)
    show ?thesis
    proof (cases st)
      case TurnStep_Continue
      show ?thesis
      proof (cases "cancelled k")
        case False
        with 1(1) [OF False Some es [symmetric] push [symmetric] TurnStep_Continue c'] show ?thesis
          using Some es push TurnStep_Continue by (subst collect_loop.simps) simp
      qed (subst collect_loop.simps, simp)
    next
      case TurnStep_Stop
      then show ?thesis
        using Some es push collector_finish_bounded [OF c'] by (subst collect_loop.simps) simp
    next
      case (TurnStep_Terminal out)
      then have "outcome_bounded out"
        using collector_push_terminal_outcome push by fastforce
      then show ?thesis
        using Some es push TurnStep_Terminal by (subst collect_loop.simps) simp
    qed
  qed
qed

text \<open>A provider is heard for a bounded number of events.\<close>

fun heard :: "serializer \<Rightarrow> ProviderEvent list \<Rightarrow> ProviderTurnCollector \<Rightarrow> bool" where
  "heard to_json [] c = True"
| "heard to_json (e # es) c =
     (case collector_push to_json e c of (c', TurnStep_Continue) \<Rightarrow> heard to_json es c' | _ \<Rightarrow> False)"

lemma heard_fuel: "heard to_json es c \<Longrightarrow> length es \<le> turn_fuel c"
proof (induction to_json es c rule: heard.induct)
  case (2 to_json e es c)
  then obtain c' where "collector_push to_json e c = (c', TurnStep_Continue)" "heard to_json es c'"
    by (auto split: prod.splits TurnStep.splits)
  with 2(1) collector_push_fuel [OF this(1)] show ?case
    by (fastforce intro: order.strict_trans1)
qed simp

subsection \<open>Properties\<close>

text \<open>
  A collected turn is within its limits whatever the provider streams: its text is the
  concatenation of its deltas and at most 64 KiB, it has at most 4096 deltas and 32 tool
  calls; and a collector accepts at most 4129 events before it stops, so that collecting ends
  on every stream.
\<close>

theorem collected_turn_within_limits:
  "outcome_bounded (collect_provider_turn to_json provider history tools system cancelled)
   \<and> (heard to_json es ProviderTurnCollector_new \<longrightarrow> length es \<le> 4129)"
proof -
  have "outcome_bounded (collect_provider_turn to_json provider history tools system cancelled)"
    using collect_loop_bounded [OF collector.init_inv [OF refl]]
    by (auto simp: collect_provider_turn_def open_provider_turn_def split: sum.split)
  moreover have "turn_fuel ProviderTurnCollector_new = 4129"
    by (simp add: turn_fuel_def ProviderTurnCollector_new_def BoundedTurnState_new_def ProviderTurnLimits_default_def)
  ultimately show ?thesis
    using heard_fuel by metis
qed

theorem collected_turn_within_limits_witness:
  "heard (\<lambda>_. ''null'') [ProviderEvent_Event (ModelEvent_TextDelta ''hi''), ProviderEvent_Event ModelEvent_Completed]
     ProviderTurnCollector_new
   \<and> length [ProviderEvent_Event (ModelEvent_TextDelta ''hi''), ProviderEvent_Event ModelEvent_Completed] \<le> 4129"
proof -
  have h: "heard (\<lambda>_. ''null'') [ProviderEvent_Event (ModelEvent_TextDelta ''hi''), ProviderEvent_Event ModelEvent_Completed]
     ProviderTurnCollector_new"
    by (simp add: collector_push_def collector_apply_def apply_event_def push_text_def complete_def
        ProviderTurnCollector_new_def BoundedTurnState_new_def ProviderTurnLimits_default_def Let_def)
  with collected_turn_within_limits show ?thesis
    by blast
qed

text \<open>
  The pairing check of the source, which keeps resolved calls and skips them, decides
  exactly like its reference, an insertion-ordered map from which a call is deleted when it is
  resolved, with the same first failure.
\<close>

theorem pairing_check_equals_reference: "validate_conversation_items items = pairing_ok items"
  by (rule validate_conversation_items_pairing)

end
