(* ===== verification/Plan_Patterns.thy ===== *)
theory Plan_Patterns
  imports Plan_Model Scalars
begin

text \<open>
  The text matchers of the plan validator and of the planning policy
  (\<open>planning/validation.rs\<close>, \<open>planning/policy.rs\<close>): secret-shaped content, policy-shaped
  claims, references to protected configuration and to scenes.  A byte index of the source is
  a natural number, a slice \<open>bytes[i..]\<close> is \<open>drop i bytes\<close>.  \<open>str::to_lowercase\<close> maps by the
  Unicode tables of the standard library and is an argument.  Shown: each matcher finds only
  what the pattern in its comment describes, and which of them find all of it.
\<close>

subsection \<open>Bytes and words\<close>

definition ascii_lower :: "char \<Rightarrow> char" where
  "ascii_lower c = (if is_ascii_uppercase c then char_of (byte c + 32) else c)"

definition to_ascii_lowercase :: "string \<Rightarrow> string" where
  "to_ascii_lowercase s = map ascii_lower s"

definition is_ascii_whitespace :: "char \<Rightarrow> bool" where
  "is_ascii_whitespace c \<longleftrightarrow> byte c \<in> {9, 10, 12, 13, 32}"

definition is_word_byte :: "char \<Rightarrow> bool" where
  "is_word_byte c \<longleftrightarrow> is_ascii_alphanumeric c \<or> c = CHR ''_''"

definition boundary_before :: "string \<Rightarrow> nat \<Rightarrow> bool" where
  "boundary_before bytes start \<longleftrightarrow> start = 0 \<or> \<not> is_word_byte (bytes ! (start - 1))"

definition boundary_after :: "string \<Rightarrow> nat \<Rightarrow> bool" where
  "boundary_after bytes end' \<longleftrightarrow> end' = length bytes \<or> \<not> is_word_byte (bytes ! end')"

text \<open>The loop \<open>while i < bytes.len() && p(bytes[i]) { i += 1 }\<close>.\<close>

definition skip_while :: "(char \<Rightarrow> bool) \<Rightarrow> string \<Rightarrow> nat \<Rightarrow> nat" where
  "skip_while p bytes i = i + length (takeWhile p (drop i bytes))"

definition run_length :: "(char \<Rightarrow> bool) \<Rightarrow> string \<Rightarrow> nat \<Rightarrow> nat" where
  "run_length p bytes i = length (takeWhile p (drop i bytes))"

subsection \<open>Secret-shaped content\<close>

definition SECRET_WORDS :: "string list" where
  "SECRET_WORDS = [''api_key'', ''api-key'', ''apikey'', ''secret'', ''password'', ''passwd'', ''token'',
     ''bearer'', ''credential'', ''access-key'', ''private_key'', ''private-key'', ''privatekey'',
     ''access_key'', ''accesskey'']"

definition secret_value_byte :: "char \<Rightarrow> bool" where
  "secret_value_byte c \<longleftrightarrow> is_ascii_alphanumeric c \<or> c \<in> set ''_-./+''"

text \<open>The body of the loop over the words at one start; a short value ends the search at this start.\<close>

fun secret_word_at :: "string \<Rightarrow> nat \<Rightarrow> string list \<Rightarrow> bool" where
  "secret_word_at bytes start [] = False"
| "secret_word_at bytes start (word # words) =
     (if \<not> prefix_of word (drop start bytes) then secret_word_at bytes start words
      else if \<not> boundary_after bytes (start + length word) then secret_word_at bytes start words
      else if \<not> boundary_before bytes start then secret_word_at bytes start words
      else
        let sep = skip_while is_ascii_whitespace bytes (start + length word) in
        if length bytes \<le> sep \<or> bytes ! sep \<notin> set '':='' then secret_word_at bytes start words
        else 8 \<le> run_length secret_value_byte bytes (skip_while is_ascii_whitespace bytes (sep + 1)))"

definition secret_assignment_pattern :: "string \<Rightarrow> bool" where
  "secret_assignment_pattern text' =
     (let bytes = to_ascii_lowercase text'
      in list_ex (\<lambda>start. secret_word_at bytes start SECRET_WORDS) [0 ..< length bytes])"

definition SECRET_PREFIXES :: "string list" where
  "SECRET_PREFIXES = [''sk'', ''pk'', ''ghp'', ''gho'', ''ghu'']"

fun secret_prefix_at :: "string \<Rightarrow> string \<Rightarrow> nat \<Rightarrow> string list \<Rightarrow> bool" where
  "secret_prefix_at lower original start [] = False"
| "secret_prefix_at lower original start (p # ps) =
     (if \<not> prefix_of p (drop start lower) then secret_prefix_at lower original start ps
      else if \<not> boundary_before lower start then secret_prefix_at lower original start ps
      else
        let n = run_length is_ascii_alphanumeric original (start + length p) in
        if n < 16 then secret_prefix_at lower original start ps
        else boundary_after original (start + length p + n))"

definition aws_key_at :: "string \<Rightarrow> nat \<Rightarrow> bool" where
  "aws_key_at original start \<longleftrightarrow>
     prefix_of ''AKIA'' (drop start original) \<and> boundary_before original start
     \<and> (let n = run_length (\<lambda>c. is_ascii_digit c \<or> is_ascii_uppercase c) original (start + 4)
        in 16 \<le> n \<and> boundary_after original (start + 4 + n))"

definition secret_key_prefix_pattern :: "string \<Rightarrow> bool" where
  "secret_key_prefix_pattern text' =
     (let lower = to_ascii_lowercase text' in
      list_ex (\<lambda>start. secret_prefix_at lower text' start SECRET_PREFIXES) [0 ..< length lower]
      \<or> list_ex (aws_key_at text') [0 ..< length text'])"

definition reject_secret_content :: "string \<Rightarrow> string option" where
  "reject_secret_content text' =
     (if secret_assignment_pattern text' \<or> secret_key_prefix_pattern text'
      then Some ''The plan contains secret-shaped content and was rejected.'' else None)"

subsection \<open>Policy-shaped claims\<close>

definition find_subslice :: "string \<Rightarrow> nat \<Rightarrow> string \<Rightarrow> nat option" where
  "find_subslice haystack from needle =
     (if needle = [] \<or> length haystack < from + length needle then None
      else find (\<lambda>p. take (length needle) (drop p haystack) = needle)
             [from ..< length haystack - length needle + 1])"

definition gap_end :: "string \<Rightarrow> nat \<Rightarrow> nat \<Rightarrow> char \<Rightarrow> nat" where
  "gap_end bytes from most excluded = from + length (takeWhile (\<lambda>c. c \<noteq> excluded) (take most (drop from bytes)))"

text \<open>Where a word occurs, and the first occurrence from a position.\<close>

definition occurs :: "string \<Rightarrow> string \<Rightarrow> nat \<Rightarrow> bool" where
  "occurs needle h p \<longleftrightarrow> needle \<noteq> [] \<and> take (length needle) (drop p h) = needle"

lemma occurs_length: "occurs n h p \<Longrightarrow> p + length n \<le> length h"
proof -
  assume "occurs n h p"
  then have "n \<noteq> []" and "length (take (length n) (drop p h)) = length n"
    by (simp_all add: occurs_def)
  then show ?thesis
    by (cases "p \<le> length h") auto
qed

lemma find_upt_Some:
  "find P [a ..< b] = Some p \<longleftrightarrow> a \<le> p \<and> p < b \<and> P p \<and> (\<forall>q. a \<le> q \<and> q < p \<longrightarrow> \<not> P q)"
proof (induction "b - a" arbitrary: a)
  case (Suc n)
  then have upt: "[a ..< b] = a # [Suc a ..< b]" and IH: "find P [Suc a ..< b] = Some p \<longleftrightarrow>
      Suc a \<le> p \<and> p < b \<and> P p \<and> (\<forall>q. Suc a \<le> q \<and> q < p \<longrightarrow> \<not> P q)"
    by (auto simp: upt_conv_Cons)
  show ?case
  proof (cases "P a")
    case True
    with Suc.hyps(2) show ?thesis
      unfolding upt by (auto simp: not_less [symmetric] dest: le_neq_implies_less)
  next
    case False
    then have below: "(\<forall>q. a \<le> q \<and> q < p \<longrightarrow> \<not> P q) \<longleftrightarrow> (\<forall>q. Suc a \<le> q \<and> q < p \<longrightarrow> \<not> P q)"
      by (metis Suc_leD Suc_leI le_neq_implies_less)
    from False have "find P [a ..< b] = Some p \<longleftrightarrow> find P [Suc a ..< b] = Some p"
      unfolding upt by simp
    with IH below False show ?thesis
      by (metis Suc_leD Suc_leI le_neq_implies_less)
  qed
qed auto

lemma find_subslice_occurs:
  "find_subslice h from n =
     (if n = [] \<or> length h < from + length n then None
      else find (occurs n h) [from ..< length h - length n + 1])"
  by (auto simp: find_subslice_def occurs_def intro!: arg_cong [of _ _ "\<lambda>P. find P _"])

lemma find_subslice_Some:
  "find_subslice h from n = Some p \<longleftrightarrow> from \<le> p \<and> occurs n h p \<and> (\<forall>q. from \<le> q \<and> q < p \<longrightarrow> \<not> occurs n h q)"
proof (cases "n = [] \<or> length h < from + length n")
  case True
  then show ?thesis
    using occurs_length [of n h p] by (auto simp: find_subslice_def occurs_def)
next
  case False
  then show ?thesis
    using occurs_length [of n h p] unfolding find_subslice_occurs by (simp only: if_False find_upt_Some) auto
qed

lemma find_subslice_None: "find_subslice h from n = None \<longleftrightarrow> (\<forall>p. from \<le> p \<longrightarrow> \<not> occurs n h p)"
proof -
  have "find_subslice h from n = None" if "\<forall>p. from \<le> p \<longrightarrow> \<not> occurs n h p"
    using that by (metis find_subslice_Some not_None_eq)
  moreover have "\<not> occurs n h p" if "find_subslice h from n = None" and "from \<le> p" for p
    using that occurs_length [of n h p]
    by (auto simp: find_subslice_def find_None_iff occurs_def split: if_splits)
  ultimately show ?thesis
    by blast
qed

lemma find_subslice_less: "find_subslice h from n = Some p \<Longrightarrow> from \<le> p \<and> p < length h"
proof -
  assume "find_subslice h from n = Some p"
  then have "from \<le> p" and o: "occurs n h p"
    by (auto simp: find_subslice_Some)
  from occurs_length [OF o] o have "p < length h"
    by (cases n) (auto simp: occurs_def)
  with \<open>from \<le> p\<close> show ?thesis ..
qed

text \<open>
  The loops over the occurrences of a word: \<open>scan\<close> tries every occurrence from a position,
  \<open>scan_within\<close> gives up at the first one beyond a limit.
\<close>

function scan :: "string \<Rightarrow> string \<Rightarrow> (nat \<Rightarrow> bool) \<Rightarrow> nat \<Rightarrow> bool" where
  "scan bytes needle hit from =
     (case find_subslice bytes from needle of
        None \<Rightarrow> False
      | Some p \<Rightarrow> hit p \<or> scan bytes needle hit (p + 1))"
  by pat_completeness auto
termination
  by (relation "measure (\<lambda>(bytes, _, _, from). Suc (length bytes) - from)") (auto dest!: find_subslice_less)

function scan_within :: "string \<Rightarrow> string \<Rightarrow> nat \<Rightarrow> (nat \<Rightarrow> bool) \<Rightarrow> nat \<Rightarrow> bool" where
  "scan_within bytes needle limit hit from =
     (case find_subslice bytes from needle of
        None \<Rightarrow> False
      | Some p \<Rightarrow> if limit < p then False else hit p \<or> scan_within bytes needle limit hit (p + 1))"
  by pat_completeness auto
termination
  by (relation "measure (\<lambda>(bytes, _, _, _, from). Suc (length bytes) - from)") (auto dest!: find_subslice_less)

declare scan.simps [simp del] scan_within.simps [simp del]

definition CLAIM_ONE_VERBS :: "string list" where
  "CLAIM_ONE_VERBS = [''enable'', ''allow'', ''grant'', ''permit'', ''approve'']"

definition CLAIM_ONE_NOUNS :: "string list" where
  "CLAIM_ONE_NOUNS = [''network'', ''internet'', ''shell'', ''write'', ''execution'', ''commands'', ''command'',
     ''sandbox'', ''approval'', ''mutation'']"

definition is_space :: "char \<Rightarrow> bool" where
  "is_space c \<longleftrightarrow> c = CHR '' ''"

definition noun_starts_noun_match :: "string \<Rightarrow> nat \<Rightarrow> string list \<Rightarrow> bool" where
  "noun_starts_noun_match bytes cursor nouns =
     (if length bytes < cursor \<or> (cursor < length bytes \<and> \<not> boundary_before bytes cursor) then False
      else list_ex (\<lambda>noun. prefix_of noun (drop cursor bytes) \<and> boundary_after bytes (cursor + length noun)) nouns)"

definition claim_one_qualified :: "string \<Rightarrow> nat \<Rightarrow> nat \<Rightarrow> string \<Rightarrow> bool" where
  "claim_one_qualified bytes limit cursor word \<longleftrightarrow>
     prefix_of word (drop cursor bytes) \<and> boundary_before bytes cursor
     \<and> \<not> limit < cursor + length word
     \<and> noun_starts_noun_match bytes (skip_while is_space bytes (cursor + length word)) CLAIM_ONE_NOUNS"

definition claim_one_at :: "string \<Rightarrow> nat \<Rightarrow> nat \<Rightarrow> bool" where
  "claim_one_at bytes limit cursor \<longleftrightarrow>
     claim_one_qualified bytes limit cursor ''unrestricted''
     \<or> claim_one_qualified bytes limit cursor ''full''
     \<or> noun_starts_noun_match bytes cursor CLAIM_ONE_NOUNS"

definition policy_claim_one :: "string \<Rightarrow> bool" where
  "policy_claim_one bytes =
     list_ex (\<lambda>verb. scan bytes verb (\<lambda>verb_start.
         let verb_end = verb_start + length verb in
         boundary_before bytes verb_start \<and> boundary_after bytes verb_end
         \<and> list_ex (claim_one_at bytes (gap_end bytes verb_end 60 (CHR ''.'')))
             [verb_end ..< gap_end bytes verb_end 60 (CHR ''.'') + 1]) 0) CLAIM_ONE_VERBS"

definition CLAIM_TWO_LEADS :: "string list" where
  "CLAIM_TWO_LEADS = [''disable'', ''bypass'', ''turn off'', ''turn down'', ''ignore'', ''override'']"

definition CLAIM_TWO_TARGETS :: "string list" where
  "CLAIM_TWO_TARGETS = [''sandbox'', ''approval'', ''checkpoint'', ''security'', ''policy'', ''restriction'',
     ''limit'', ''permission'']"

text \<open>The inner loops of the second and third pattern: a whole word that starts within the gap.\<close>

definition target_in_gap :: "string \<Rightarrow> nat \<Rightarrow> nat \<Rightarrow> string list \<Rightarrow> bool" where
  "target_in_gap bytes limit from targets =
     list_ex (\<lambda>target. scan_within bytes target limit
         (\<lambda>p. boundary_before bytes p \<and> boundary_after bytes (p + length target)) from) targets"

definition policy_claim_two :: "string \<Rightarrow> bool" where
  "policy_claim_two bytes =
     list_ex (\<lambda>lead. scan bytes lead (\<lambda>start.
         let lead_end = start + length lead in
         boundary_before bytes start \<and> boundary_after bytes lead_end
         \<and> target_in_gap bytes (gap_end bytes lead_end 60 (CHR ''.'')) lead_end CLAIM_TWO_TARGETS) 0)
       CLAIM_TWO_LEADS"

definition CLAIM_THREE_KINDS :: "string list" where
  "CLAIM_THREE_KINDS = [''approval'', ''permission'', ''checkpoint'', ''review'', ''sandbox'']"

definition CLAIM_THREE_TAILS :: "string list" where
  "CLAIM_THREE_TAILS = [''needed'', ''required'', ''necessary'']"

definition policy_claim_three :: "string \<Rightarrow> bool" where
  "policy_claim_three bytes =
     list_ex (\<lambda>kind. let pattern = ''no '' @ kind in scan bytes pattern (\<lambda>start.
         let end' = start + length pattern in
         boundary_before bytes start \<and> boundary_after bytes end'
         \<and> target_in_gap bytes (gap_end bytes end' 40 (CHR ''.'')) end' CLAIM_THREE_TAILS) 0)
       CLAIM_THREE_KINDS"

definition CLAIM_FOUR_SUBJECTS :: "string list" where
  "CLAIM_FOUR_SUBJECTS = [''commands'', ''command'', ''scripts'', ''script'', ''shell'', ''execution'',
     ''mutations'', ''mutation'', ''writes'', ''write'', ''edits'', ''edit'']"

definition CLAIM_FOUR_OBJECTS :: "string list" where
  "CLAIM_FOUR_OBJECTS = [''approval'', ''permission'', ''checkpoint'', ''review'']"

text \<open>
  The loop over the occurrences of one connector: whether an object follows one of them, and
  whether any of them is a whole word.
\<close>

function connector_scan :: "string \<Rightarrow> string \<Rightarrow> nat \<Rightarrow> nat \<Rightarrow> bool \<Rightarrow> bool \<times> bool" where
  "connector_scan bytes connector limit cursor found =
     (case find_subslice bytes cursor connector of
        None \<Rightarrow> (False, found)
      | Some p \<Rightarrow>
          if limit < p then (False, found)
          else
            let connector_end = p + length connector in
            if boundary_before bytes p \<and> boundary_after bytes connector_end then
              let word_start = skip_while is_space bytes connector_end in
              if word_start \<noteq> connector_end
                 \<and> list_ex (\<lambda>object. prefix_of object (drop word_start bytes)
                      \<and> boundary_after bytes (word_start + length object)) CLAIM_FOUR_OBJECTS
              then (True, True)
              else connector_scan bytes connector limit (p + 1) True
            else connector_scan bytes connector limit (p + 1) found)"
  by pat_completeness auto
termination
  by (relation "measure (\<lambda>(bytes, _, _, cursor, _). Suc (length bytes) - cursor)") (auto dest!: find_subslice_less)

declare connector_scan.simps [simp del]

text \<open>A connector that was found as a word ends the loop over the connectors.\<close>

fun connectors_loop :: "string \<Rightarrow> nat \<Rightarrow> nat \<Rightarrow> string list \<Rightarrow> bool" where
  "connectors_loop bytes limit from [] = False"
| "connectors_loop bytes limit from (connector # connectors) =
     (case connector_scan bytes connector limit from False of
        (True, _) \<Rightarrow> True
      | (False, found) \<Rightarrow> if found then False else connectors_loop bytes limit from connectors)"

definition policy_claim_four :: "string \<Rightarrow> bool" where
  "policy_claim_four bytes =
     list_ex (\<lambda>subject. scan bytes subject (\<lambda>start.
         let subject_end = start + length subject in
         boundary_before bytes start \<and> boundary_after bytes subject_end
         \<and> connectors_loop bytes (gap_end bytes subject_end 40 (CHR ''.'')) subject_end [''without'', ''no'']) 0)
       CLAIM_FOUR_SUBJECTS"

definition CLAIM_FIVE_NOUNS :: "string list" where
  "CLAIM_FIVE_NOUNS = [''network'', ''shell'', ''write'', ''access'']"

definition policy_claim_five :: "string \<Rightarrow> bool" where
  "policy_claim_five bytes =
     list_ex (\<lambda>qualifier. scan_within bytes qualifier (gap_end bytes 0 40 (CHR ''.'')) (\<lambda>p.
         let qualifier_end = p + length qualifier;
             noun_start = skip_while is_space bytes qualifier_end
         in boundary_before bytes p \<and> boundary_after bytes qualifier_end
            \<and> qualifier_end < noun_start
            \<and> list_ex (\<lambda>noun. prefix_of noun (drop noun_start bytes)
                 \<and> boundary_after bytes (noun_start + length noun)) CLAIM_FIVE_NOUNS) 0)
       [''unrestricted'', ''full'']"

definition POLICY_CLAIM_MESSAGE :: string where
  "POLICY_CLAIM_MESSAGE = ''The plan contains a policy-shaped capability claim; plans are descriptive and can never grant or disable capability, sandbox, approval, or execution policy.''"

text \<open>\<open>str::split_whitespace\<close>: the maximal runs of characters that are not white space.\<close>

function whitespace_pieces :: "string \<Rightarrow> string \<Rightarrow> string list" where
  "whitespace_pieces piece [] = (if piece = [] then [] else [piece])"
| "whitespace_pieces piece (c # cs) =
     (let k = ws_prefix (map byte (c # cs)) in
      if k = 0 then whitespace_pieces (piece @ [c]) cs
      else (if piece = [] then [] else [piece]) @ whitespace_pieces [] (drop k (c # cs)))"
  by pat_completeness auto
termination
  by (relation "measure (\<lambda>(_, s). length s)") auto

definition split_whitespace :: "string \<Rightarrow> string list" where
  "split_whitespace s = whitespace_pieces [] s"

definition reject_plan_policy_claims :: "(string \<Rightarrow> string) \<Rightarrow> string \<Rightarrow> string option" where
  "reject_plan_policy_claims to_lowercase text' =
     (let bytes = join '' '' (split_whitespace (to_lowercase text'))
      in if policy_claim_one bytes \<or> policy_claim_two bytes \<or> policy_claim_three bytes
            \<or> policy_claim_four bytes \<or> policy_claim_five bytes
         then Some POLICY_CLAIM_MESSAGE else None)"

subsection \<open>References to protected configuration and to scenes\<close>

definition for_each_occurrence :: "string \<Rightarrow> string \<Rightarrow> (nat \<Rightarrow> nat \<Rightarrow> bool) \<Rightarrow> bool" where
  "for_each_occurrence haystack needle on_match =
     (if needle = [] \<or> length haystack < length needle then False
      else list_ex (\<lambda>start. take (length needle) (drop start haystack) = needle
             \<and> on_match start (start + length needle)) [0 ..< length haystack - length needle + 1])"

definition byte_is_space_or_quote_or_slash :: "char \<Rightarrow> bool" where
  "byte_is_space_or_quote_or_slash c \<longleftrightarrow> c = CHR ''/'' \<or> c = CHR 0x22 \<or> is_ascii_whitespace c"

definition boundary_whitespace_quote_slash_end :: "string \<Rightarrow> nat \<Rightarrow> bool" where
  "boundary_whitespace_quote_slash_end bytes end' \<longleftrightarrow>
     length bytes \<le> end' \<or> byte_is_space_or_quote_or_slash (bytes ! end')"

definition forward_slashes :: "string \<Rightarrow> string" where
  "forward_slashes s = map (\<lambda>c. if c = CHR 0x5C then CHR ''/'' else c) s"

definition contains_protected_config_reference :: "string \<Rightarrow> bool" where
  "contains_protected_config_reference text' =
     (let bytes = to_ascii_lowercase (forward_slashes text') in
      if for_each_occurrence bytes ''agents.md'' (\<lambda>start end'.
           (start = 0 \<or> byte_is_space_or_quote_or_slash (bytes ! (start - 1)))
           \<and> boundary_whitespace_quote_slash_end bytes end') then True
      else if for_each_occurrence bytes ''.siralos'' (\<lambda>_ end'. boundary_whitespace_quote_slash_end bytes end') then True
      else contains ''behavioural config'' bytes \<or> contains ''behavioral config'' bytes)"

definition SCENE_NOUNS :: "string list" where
  "SCENE_NOUNS = [''file'', ''tree'', ''inherits'', ''inherit'', ''instance'', ''instanced'', ''signal'', ''connection'']"

definition ends_with_s :: "string \<Rightarrow> bool" where
  "ends_with_s word \<longleftrightarrow> last_opt word = Some (CHR ''s'')"

definition scene_noun_at :: "string \<Rightarrow> nat \<Rightarrow> string \<Rightarrow> bool" where
  "scene_noun_at bytes cursor noun \<longleftrightarrow>
     prefix_of noun (drop cursor bytes)
     \<and> (let noun_end = cursor + length noun;
             final_end = (if noun_end < length bytes \<and> bytes ! noun_end = CHR ''s'' \<and> \<not> ends_with_s noun
                          then noun_end + 1 else noun_end)
         in boundary_after bytes final_end)"

text \<open>A lead word, white space, and what has to follow at the end of the white space.\<close>

definition lead_then :: "string \<Rightarrow> string \<Rightarrow> (nat \<Rightarrow> bool) \<Rightarrow> bool" where
  "lead_then bytes lead follows =
     for_each_occurrence bytes lead (\<lambda>start end'.
       boundary_before bytes start
       \<and> (let cursor = skip_while is_ascii_whitespace bytes end' in cursor \<noteq> end' \<and> follows cursor))"

definition contains_godot_scene_or_resource_reference :: "string \<Rightarrow> bool" where
  "contains_godot_scene_or_resource_reference text' =
     (let bytes = to_ascii_lowercase (forward_slashes text') in
      if for_each_occurrence bytes ''.tscn'' (\<lambda>_ end'. boundary_after bytes end')
         \<or> for_each_occurrence bytes ''.tres'' (\<lambda>_ end'. boundary_after bytes end') then True
      else if list_ex (\<lambda>lead. lead_then bytes lead (\<lambda>cursor. list_ex (scene_noun_at bytes cursor) SCENE_NOUNS))
             [''scene'', ''resource''] then True
      else list_ex (\<lambda>lead. lead_then bytes lead (\<lambda>cursor. prefix_of ''scene'' (drop cursor bytes)
                \<and> boundary_after bytes (cursor + length ''scene''))) [''inherited'', ''instanced''])"

subsection \<open>Paths and evidence references\<close>

definition MAX_PATH_BYTES :: nat where "MAX_PATH_BYTES = 1024"

definition is_safe_plan_path :: "string \<Rightarrow> bool \<Rightarrow> bool" where
  "is_safe_plan_path path allow_glob =
     (if path = [] \<or> MAX_PATH_BYTES < length path then False
      else if CHR 0x00 \<in> set path \<or> CHR 0x5C \<in> set path \<or> hd path = CHR ''/'' then False
      else if is_ascii_alphabetic (hd path) \<and> 1 < length path \<and> path ! 1 = CHR '':'' then False
      else if prefix_of ''@reference/'' path \<or> prefix_of ''@research/'' path then False
      else if list_ex (\<lambda>segment. segment = ''..'' \<or> segment = ''.'' \<or> segment = []) (split_on (CHR ''/'') path) then False
      else if \<not> allow_glob \<and> (CHR ''*'' \<in> set path \<or> CHR ''?'' \<in> set path) then False
      else if allow_glob \<and>
         (let without_star = filter (\<lambda>c. c \<noteq> CHR ''*'') (replace_all ''**'' [] path)
          in CHR ''*'' \<in> set without_star \<or> CHR ''?'' \<in> set without_star) then False
      else True)"

definition EVIDENCE_KINDS :: "string list" where
  "EVIDENCE_KINDS = [''read'', ''api'', ''reference'', ''research'', ''knowledge'', ''instruction'', ''scene'', ''resource'']"

definition is_evidence_reference :: "string \<Rightarrow> bool" where
  "is_evidence_reference v =
     (case position (\<lambda>c. c = CHR '':'') v of
        None \<Rightarrow> False
      | Some separator \<Rightarrow>
          if separator = 0 then False
          else let kind = take separator v; ref = drop (separator + 1) v in
            kind \<in> set EVIDENCE_KINDS \<and> ref \<noteq> [] \<and> length ref \<le> 256 \<and> CHR 0x00 \<notin> set ref)"

subsection \<open>What the loops find\<close>

lemma occurrences_from:
  assumes "find_subslice bytes from needle = Some p"
  shows "(\<exists>q\<ge>from. occurs needle bytes q \<and> Q q) \<longleftrightarrow> Q p \<or> (\<exists>q\<ge>p + 1. occurs needle bytes q \<and> Q q)"
proof -
  from assms have first: "from \<le> p" "occurs needle bytes p" "\<And>q. from \<le> q \<Longrightarrow> q < p \<Longrightarrow> \<not> occurs needle bytes q"
    by (auto simp: find_subslice_Some)
  then have "q = p \<or> p + 1 \<le> q" if "from \<le> q" "occurs needle bytes q" for q
    using that by (metis Suc_eq_plus1 Suc_leI linorder_neqE_nat)
  with first show ?thesis
    by (metis add_leD1 le_trans)
qed

lemma scan_iff: "scan bytes needle hit start \<longleftrightarrow> (\<exists>p\<ge>start. occurs needle bytes p \<and> hit p)"
proof (induction bytes needle hit start rule: scan.induct)
  case (1 bytes needle hit start)
  show ?case
  proof (cases "find_subslice bytes start needle")
    case None
    then have "\<not> occurs needle bytes p" if "start \<le> p" for p
      using that by (simp add: find_subslice_None)
    with None show ?thesis
      by (subst scan.simps) auto
  next
    case (Some p)
    with "1.IH" occurrences_from [OF Some, where Q = hit] show ?thesis
      by (subst scan.simps) simp
  qed
qed

lemma scan_within_iff:
  "scan_within bytes needle limit hit start \<longleftrightarrow> (\<exists>p\<ge>start. occurs needle bytes p \<and> p \<le> limit \<and> hit p)"
proof (induction bytes needle limit hit start rule: scan_within.induct)
  case (1 bytes needle limit hit start)
  show ?case
  proof (cases "find_subslice bytes start needle")
    case None
    then have "\<not> occurs needle bytes p" if "start \<le> p" for p
      using that by (simp add: find_subslice_None)
    with None show ?thesis
      by (subst scan_within.simps) auto
  next
    case (Some p)
    show ?thesis
    proof (cases "limit < p")
      case True
      then have "\<not> (\<exists>q\<ge>p + 1. occurs needle bytes q \<and> q \<le> limit \<and> hit q)"
        by auto
      with Some True occurrences_from [OF Some, where Q = "\<lambda>q. q \<le> limit \<and> hit q"] show ?thesis
        by (subst scan_within.simps) simp
    next
      case False
      with Some "1.IH" occurrences_from [OF Some, where Q = "\<lambda>q. q \<le> limit \<and> hit q"] show ?thesis
        by (subst scan_within.simps) simp
    qed
  qed
qed

subsection \<open>The documented patterns\<close>

text \<open>
  The regular expressions of the comments over the normalised bytes: \<open>word_at\<close> is
  \<open>\b(word)\b\<close>, \<open>gap\<close> the group \<open>[^.]{0,n}\<close>, \<open>spaces\<close> the group \<open>\s+\<close>.
\<close>

definition word_at :: "string \<Rightarrow> nat \<Rightarrow> string \<Rightarrow> bool" where
  "word_at bytes p w \<longleftrightarrow> occurs w bytes p \<and> boundary_before bytes p \<and> boundary_after bytes (p + length w)"

definition gap :: "string \<Rightarrow> nat \<Rightarrow> nat \<Rightarrow> nat \<Rightarrow> bool" where
  "gap bytes a n b \<longleftrightarrow> a \<le> b \<and> b \<le> a + n \<and> b \<le> length bytes \<and> CHR ''.'' \<notin> set (take (b - a) (drop a bytes))"

definition all_between :: "(char \<Rightarrow> bool) \<Rightarrow> string \<Rightarrow> nat \<Rightarrow> nat \<Rightarrow> bool" where
  "all_between P bytes a b \<longleftrightarrow> a \<le> b \<and> b \<le> length bytes \<and> (\<forall>i. a \<le> i \<and> i < b \<longrightarrow> P (bytes ! i))"

definition claim_in_gap :: "string \<Rightarrow> string list \<Rightarrow> nat \<Rightarrow> (nat \<Rightarrow> bool) \<Rightarrow> bool" where
  "claim_in_gap bytes leads n follows \<longleftrightarrow>
     (\<exists>lead \<in> set leads. \<exists>p q. word_at bytes p lead \<and> gap bytes (p + length lead) n q \<and> follows q)"

definition spaces_then :: "string \<Rightarrow> nat \<Rightarrow> string list \<Rightarrow> bool" where
  "spaces_then bytes a nouns \<longleftrightarrow>
     (\<exists>noun \<in> set nouns. \<exists>b>a. all_between is_space bytes a b \<and> occurs noun bytes b \<and> boundary_after bytes (b + length noun))"

definition claim_two_pattern :: "string \<Rightarrow> bool" where
  "claim_two_pattern bytes \<longleftrightarrow> claim_in_gap bytes CLAIM_TWO_LEADS 60 (\<lambda>q. \<exists>w \<in> set CLAIM_TWO_TARGETS. word_at bytes q w)"

definition claim_three_pattern :: "string \<Rightarrow> bool" where
  "claim_three_pattern bytes \<longleftrightarrow>
     claim_in_gap bytes (map (\<lambda>k. ''no '' @ k) CLAIM_THREE_KINDS) 40 (\<lambda>q. \<exists>w \<in> set CLAIM_THREE_TAILS. word_at bytes q w)"

definition claim_four_pattern :: "string \<Rightarrow> bool" where
  "claim_four_pattern bytes \<longleftrightarrow> claim_in_gap bytes CLAIM_FOUR_SUBJECTS 40
     (\<lambda>q. \<exists>w \<in> {''without'', ''no''}. word_at bytes q w \<and> spaces_then bytes (q + length w) CLAIM_FOUR_OBJECTS)"

definition claim_five_pattern :: "string \<Rightarrow> bool" where
  "claim_five_pattern bytes \<longleftrightarrow> (\<exists>w \<in> {''unrestricted'', ''full''}. \<exists>q. gap bytes 0 40 q
     \<and> word_at bytes q w \<and> spaces_then bytes (q + length w) CLAIM_FIVE_NOUNS)"

subsection \<open>The matchers against their patterns\<close>

lemma takeWhile_take_le:
  "b \<le> length (takeWhile P (take n xs)) \<longleftrightarrow> b \<le> n \<and> b \<le> length xs \<and> (\<forall>x \<in> set (take b xs). P x)"
proof (induction xs arbitrary: b n)
  case (Cons x xs)
  then show ?case
    by (cases b; cases n) auto
qed auto

lemma gap_iff:
  assumes "a \<le> length bytes" and "a \<le> b"
  shows "b \<le> gap_end bytes a n (CHR ''.'') \<longleftrightarrow> gap bytes a n b"
proof -
  have "b \<le> gap_end bytes a n (CHR ''.'') \<longleftrightarrow>
      b - a \<le> length (takeWhile (\<lambda>c. c \<noteq> CHR ''.'') (take n (drop a bytes)))"
    using assms(2) by (simp only: gap_end_def le_diff_conv2) linarith
  also have "\<dots> \<longleftrightarrow> b - a \<le> n \<and> b - a \<le> length (drop a bytes)
      \<and> (\<forall>x \<in> set (take (b - a) (drop a bytes)). x \<noteq> CHR ''.'')"
    by (rule takeWhile_take_le)
  also have "\<dots> \<longleftrightarrow> gap bytes a n b"
    unfolding gap_def using assms by (simp only: length_drop) (metis diff_le_mono le_diff_conv2 le_diff_iff add.commute le_diff_conv)
  finally show ?thesis .
qed

lemma prefix_of_occurs: "w \<noteq> [] \<Longrightarrow> prefix_of w (drop p bytes) \<longleftrightarrow> occurs w bytes p"
proof -
  assume "w \<noteq> []"
  then have "occurs w bytes p \<longleftrightarrow> take (length w) (drop p bytes) = w"
    by (simp add: occurs_def)
  also have "\<dots> \<longleftrightarrow> (\<exists>t. drop p bytes = w @ t)"
    by (metis append_eq_conv_conj append_take_drop_id)
  finally show ?thesis
    by (simp add: prefix_of_iff)
qed

lemma takeWhile_stops:
  assumes "n \<le> length xs" and "\<forall>i<n. P (xs ! i)" and "n = length xs \<or> \<not> P (xs ! n)"
  shows "length (takeWhile P xs) = n"
  using assms
proof (induction xs arbitrary: n)
  case (Cons x xs)
  show ?case
  proof (cases n)
    case 0
    with Cons.prems(3) show ?thesis
      by simp
  next
    case (Suc m)
    have "P x"
      using Cons.prems(2) Suc by (metis nth_Cons_0 zero_less_Suc)
    moreover have "length (takeWhile P xs) = m"
    proof (rule Cons.IH)
      show "\<forall>i<m. P (xs ! i)"
        using Cons.prems(2) Suc by (metis Suc_less_eq nth_Cons_Suc)
    qed (use Cons.prems Suc in simp_all)
    ultimately show ?thesis
      using Suc by simp
  qed
qed simp

lemma skip_while_iff:
  assumes "a \<le> length bytes"
  shows "skip_while P bytes a = b \<longleftrightarrow> all_between P bytes a b \<and> (b = length bytes \<or> \<not> P (bytes ! b))"
proof
  assume b: "skip_while P bytes a = b"
  let ?n = "length (takeWhile P (drop a bytes))"
  have n: "b = a + ?n" "?n \<le> length (drop a bytes)"
    using b length_takeWhile_le [of P "drop a bytes"] by (auto simp: skip_while_def)
  have "P (bytes ! i)" if "a \<le> i" "i < b" for i
  proof -
    have "takeWhile P (drop a bytes) ! (i - a) = bytes ! i"
      using that n assms by (subst takeWhile_nth) auto
    moreover have "takeWhile P (drop a bytes) ! (i - a) \<in> set (takeWhile P (drop a bytes))"
      using that n by (intro nth_mem) auto
    ultimately show ?thesis
      by (metis set_takeWhileD)
  qed
  moreover have "\<not> P (bytes ! b)" if "b \<noteq> length bytes"
    using that n assms nth_length_takeWhile [of P "drop a bytes"] by auto
  ultimately show "all_between P bytes a b \<and> (b = length bytes \<or> \<not> P (bytes ! b))"
    using n assms by (auto simp: all_between_def)
next
  assume r: "all_between P bytes a b \<and> (b = length bytes \<or> \<not> P (bytes ! b))"
  then have "length (takeWhile P (drop a bytes)) = b - a"
    by (intro takeWhile_stops) (auto simp: all_between_def)
  with r show "skip_while P bytes a = b"
    by (auto simp: skip_while_def all_between_def)
qed

lemma target_in_gap_iff:
  assumes "a \<le> length bytes"
  shows "target_in_gap bytes (gap_end bytes a n (CHR ''.'')) a targets \<longleftrightarrow>
    (\<exists>q. gap bytes a n q \<and> (\<exists>w \<in> set targets. word_at bytes q w))"
  using gap_iff [OF assms, of _ n]
  by (auto simp: target_in_gap_def list_ex_iff scan_within_iff word_at_def) (auto simp: gap_def)

lemma word_at_length: "word_at bytes p w \<Longrightarrow> p + length w \<le> length bytes"
  by (simp add: word_at_def occurs_length)

lemma scan_word_iff:
  "scan bytes w (\<lambda>p. boundary_before bytes p \<and> boundary_after bytes (p + length w) \<and> follows p) 0
     \<longleftrightarrow> (\<exists>p. word_at bytes p w \<and> follows p)"
  by (auto simp: scan_iff word_at_def)

lemma scan_claim_in_gap:
  assumes "\<And>p w. w \<in> set leads \<Longrightarrow> word_at bytes p w \<Longrightarrow> hit (p + length w) \<longleftrightarrow> (\<exists>q. gap bytes (p + length w) n q \<and> follows q)"
  shows "list_ex (\<lambda>w. scan bytes w (\<lambda>p. boundary_before bytes p \<and> boundary_after bytes (p + length w)
      \<and> hit (p + length w)) 0) leads \<longleftrightarrow> claim_in_gap bytes leads n follows"
  using assms by (auto simp: scan_word_iff list_ex_iff claim_in_gap_def) blast+

lemma policy_claim_two_exact: "policy_claim_two bytes \<longleftrightarrow> claim_two_pattern bytes"
  unfolding policy_claim_two_def claim_two_pattern_def Let_def
  by (rule scan_claim_in_gap) (simp add: target_in_gap_iff word_at_length)

lemma list_ex_map: "list_ex P (map f xs) \<longleftrightarrow> list_ex (\<lambda>x. P (f x)) xs"
  by (induction xs) auto

lemma policy_claim_three_exact: "policy_claim_three bytes \<longleftrightarrow> claim_three_pattern bytes"
proof -
  have "policy_claim_three bytes \<longleftrightarrow> list_ex (\<lambda>w. scan bytes w (\<lambda>p. boundary_before bytes p
      \<and> boundary_after bytes (p + length w)
      \<and> target_in_gap bytes (gap_end bytes (p + length w) 40 (CHR ''.'')) (p + length w) CLAIM_THREE_TAILS) 0)
      (map (\<lambda>k. ''no '' @ k) CLAIM_THREE_KINDS)"
    unfolding policy_claim_three_def Let_def list_ex_map ..
  then show ?thesis
    unfolding claim_three_pattern_def
    by (simp only:) (rule scan_claim_in_gap, simp add: target_in_gap_iff word_at_length)
qed

text \<open>Spaces are skipped up to the word, because no object begins with a space.\<close>

lemma occurs_nth: "occurs w bytes p \<Longrightarrow> bytes ! p = hd w \<and> p < length bytes"
proof -
  assume w: "occurs w bytes p"
  then have less: "p < length bytes"
    using occurs_length [OF w] by (cases w) (auto simp: occurs_def)
  have "hd (take (length w) (drop p bytes)) = hd w" and "w \<noteq> []"
    using w by (simp_all add: occurs_def)
  with less have "bytes ! p = hd w"
    by (simp add: hd_drop_conv_nth)
  with less show ?thesis
    by simp
qed

lemma skip_spaces_to:
  assumes "a \<le> length bytes" and "\<And>w. w \<in> set nouns \<Longrightarrow> w \<noteq> [] \<and> \<not> is_space (hd w)"
  shows "a < skip_while is_space bytes a \<and> list_ex (\<lambda>noun. prefix_of noun (drop (skip_while is_space bytes a) bytes)
      \<and> boundary_after bytes (skip_while is_space bytes a + length noun)) nouns \<longleftrightarrow> spaces_then bytes a nouns"
proof
  let ?b = "skip_while is_space bytes a"
  assume l: "a < ?b \<and> list_ex (\<lambda>noun. prefix_of noun (drop ?b bytes) \<and> boundary_after bytes (?b + length noun)) nouns"
  then obtain noun where noun: "noun \<in> set nouns" "prefix_of noun (drop ?b bytes)" "boundary_after bytes (?b + length noun)"
    by (auto simp: list_ex_iff)
  moreover have "all_between is_space bytes a ?b"
    using skip_while_iff [OF assms(1), of is_space ?b] by simp
  ultimately show "spaces_then bytes a nouns"
    using l assms(2) [OF noun(1)] by (auto simp: spaces_then_def prefix_of_occurs)
next
  assume "spaces_then bytes a nouns"
  then obtain noun b where noun: "noun \<in> set nouns" "a < b" "all_between is_space bytes a b"
      "occurs noun bytes b" "boundary_after bytes (b + length noun)"
    by (auto simp: spaces_then_def)
  then have "skip_while is_space bytes a = b"
    using skip_while_iff [OF assms(1), of is_space b] occurs_nth [OF noun(4)] assms(2) by auto
  with noun assms(2) show "a < skip_while is_space bytes a \<and> list_ex (\<lambda>noun. prefix_of noun (drop (skip_while is_space bytes a) bytes)
      \<and> boundary_after bytes (skip_while is_space bytes a + length noun)) nouns"
    by (auto simp: list_ex_iff prefix_of_occurs)
qed

lemma claim_five_nouns: "w \<in> set CLAIM_FIVE_NOUNS \<Longrightarrow> w \<noteq> [] \<and> \<not> is_space (hd w)"
  by (auto simp: CLAIM_FIVE_NOUNS_def is_space_def)

lemma claim_four_objects: "w \<in> set CLAIM_FOUR_OBJECTS \<Longrightarrow> w \<noteq> [] \<and> \<not> is_space (hd w)"
  by (auto simp: CLAIM_FOUR_OBJECTS_def is_space_def)

lemma policy_claim_five_exact: "policy_claim_five bytes \<longleftrightarrow> claim_five_pattern bytes"
proof -
  have "scan_within bytes w (gap_end bytes 0 40 (CHR ''.'')) (\<lambda>p.
         let e = p + length w; noun_start = skip_while is_space bytes e
         in boundary_before bytes p \<and> boundary_after bytes e \<and> e < noun_start
            \<and> list_ex (\<lambda>noun. prefix_of noun (drop noun_start bytes)
                 \<and> boundary_after bytes (noun_start + length noun)) CLAIM_FIVE_NOUNS) 0
      \<longleftrightarrow> (\<exists>q. gap bytes 0 40 q \<and> word_at bytes q w \<and> spaces_then bytes (q + length w) CLAIM_FIVE_NOUNS)" for w
    using gap_iff [of 0 bytes _ 40] skip_spaces_to [OF occurs_length, of w bytes _ CLAIM_FIVE_NOUNS] claim_five_nouns
    unfolding scan_within_iff word_at_def Let_def by simp blast
  then show ?thesis
    unfolding policy_claim_five_def claim_five_pattern_def by simp
qed

lemma connector_scan_sound:
  "fst (connector_scan bytes connector limit start found) \<Longrightarrow>
     \<exists>q\<ge>start. q \<le> limit \<and> word_at bytes q connector \<and> spaces_then bytes (q + length connector) CLAIM_FOUR_OBJECTS"
proof (induction bytes connector limit start found rule: connector_scan.induct)
  case (1 bytes connector limit start found)
  from "1.prems" obtain p where p: "find_subslice bytes start connector = Some p" "\<not> limit < p"
    by (subst (asm) connector_scan.simps) (auto split: option.splits if_splits)
  then have start: "start \<le> p" "occurs connector bytes p"
    by (auto simp: find_subslice_Some)
  let ?e = "p + length connector"
  let ?word = "boundary_before bytes p \<and> boundary_after bytes ?e"
  let ?hit = "skip_while is_space bytes ?e \<noteq> ?e \<and> list_ex (\<lambda>object. prefix_of object (drop (skip_while is_space bytes ?e) bytes)
      \<and> boundary_after bytes (skip_while is_space bytes ?e + length object)) CLAIM_FOUR_OBJECTS"
  show ?case
  proof (cases "?word \<and> ?hit")
    case True
    moreover have "?e < skip_while is_space bytes ?e"
      using True by (auto simp: skip_while_def)
    ultimately have "spaces_then bytes ?e CLAIM_FOUR_OBJECTS"
      using skip_spaces_to [OF occurs_length [OF start(2)] claim_four_objects] by blast
    with True start p show ?thesis
      by (auto simp: word_at_def)
  next
    case False
    have "connector_scan bytes connector limit start found =
        (if ?word then if ?hit then (True, True) else connector_scan bytes connector limit (p + 1) True
         else connector_scan bytes connector limit (p + 1) found)"
      using p by (subst connector_scan.simps) (simp add: Let_def)
    with "1.prems" False have
        "if ?word then fst (connector_scan bytes connector limit (p + 1) True)
         else fst (connector_scan bytes connector limit (p + 1) found)"
      by (auto split: if_splits)
    with "1.IH" [OF p] False have "\<exists>q\<ge>p + 1. q \<le> limit \<and> word_at bytes q connector
        \<and> spaces_then bytes (q + length connector) CLAIM_FOUR_OBJECTS"
      by (simp add: Let_def split: if_splits)
    with start show ?thesis
      by (meson add_leD1 le_trans)
  qed
qed

lemma connectors_loop_sound:
  "connectors_loop bytes limit start connectors \<Longrightarrow> \<exists>w \<in> set connectors. \<exists>q\<ge>start. q \<le> limit \<and> word_at bytes q w
     \<and> spaces_then bytes (q + length w) CLAIM_FOUR_OBJECTS"
proof (induction connectors)
  case (Cons w ws)
  show ?case
  proof (cases "fst (connector_scan bytes w limit start False)")
    case True
    then show ?thesis
      by (auto dest: connector_scan_sound)
  next
    case False
    with Cons show ?thesis
      by (auto split: prod.splits bool.splits if_splits)
  qed
qed simp

lemma claim_in_gapI:
  assumes "list_ex (\<lambda>w. scan bytes w (\<lambda>p. boundary_before bytes p \<and> boundary_after bytes (p + length w)
      \<and> hit (p + length w)) 0) leads"
    and "\<And>a. a \<le> length bytes \<Longrightarrow> hit a \<Longrightarrow> \<exists>q. gap bytes a n q \<and> follows q"
  shows "claim_in_gap bytes leads n follows"
  using assms word_at_length by (fastforce simp: scan_word_iff list_ex_iff claim_in_gap_def)

lemma policy_claim_four_sound: "policy_claim_four bytes \<Longrightarrow> claim_four_pattern bytes"
  unfolding policy_claim_four_def claim_four_pattern_def Let_def
proof (erule claim_in_gapI)
  fix a
  assume "a \<le> length bytes"
    and "connectors_loop bytes (gap_end bytes a 40 (CHR ''.'')) a [''without'', ''no'']"
  then show "\<exists>q. gap bytes a 40 q \<and> (\<exists>w\<in>{''without'', ''no''}. word_at bytes q w
      \<and> spaces_then bytes (q + length w) CLAIM_FOUR_OBJECTS)"
    using gap_iff [of a bytes _ 40] by (fastforce dest!: connectors_loop_sound)
qed

text \<open>
  The first pattern: \<open>\b(unrestricted|full)?\s*(noun)\b\<close> after the gap, where \<open>regex_boundary\<close>
  is \<open>\b\<close>.
\<close>

definition regex_boundary :: "string \<Rightarrow> nat \<Rightarrow> bool" where
  "regex_boundary bytes q \<longleftrightarrow>
     (0 < q \<and> is_word_byte (bytes ! (q - 1))) \<noteq> (q < length bytes \<and> is_word_byte (bytes ! q))"

definition claim_one_pattern :: "string \<Rightarrow> bool" where
  "claim_one_pattern bytes \<longleftrightarrow> claim_in_gap bytes CLAIM_ONE_VERBS 60 (\<lambda>q. regex_boundary bytes q
     \<and> (\<exists>a. (a = q \<or> (\<exists>w \<in> {''unrestricted'', ''full''}. occurs w bytes q \<and> a = q + length w))
        \<and> (\<exists>noun \<in> set CLAIM_ONE_NOUNS. \<exists>r. all_between is_space bytes a r \<and> occurs noun bytes r
             \<and> boundary_after bytes (r + length noun))))"

lemma claim_one_nouns: "w \<in> set CLAIM_ONE_NOUNS \<Longrightarrow> w \<noteq> [] \<and> is_word_byte (hd w)"
  by (auto simp: CLAIM_ONE_NOUNS_def is_word_byte_def rust_std)

lemma noun_match_sound:
  assumes "noun_starts_noun_match bytes r CLAIM_ONE_NOUNS"
  shows "\<exists>noun \<in> set CLAIM_ONE_NOUNS. occurs noun bytes r \<and> boundary_before bytes r
    \<and> boundary_after bytes (r + length noun)"
proof -
  from assms obtain noun where noun: "noun \<in> set CLAIM_ONE_NOUNS" "prefix_of noun (drop r bytes)"
      "boundary_after bytes (r + length noun)" "r < length bytes \<longrightarrow> boundary_before bytes r"
    by (auto simp: noun_starts_noun_match_def list_ex_iff split: if_splits)
  then have "occurs noun bytes r"
    using claim_one_nouns prefix_of_occurs by blast
  with noun occurs_nth [OF this] show ?thesis
    by blast
qed

lemma boundary_at_word: "occurs w bytes q \<Longrightarrow> is_word_byte (hd w) \<Longrightarrow> boundary_before bytes q \<Longrightarrow> regex_boundary bytes q"
  using occurs_nth [of w bytes q] by (auto simp: regex_boundary_def boundary_before_def)

lemma policy_claim_one_sound: "policy_claim_one bytes \<Longrightarrow> claim_one_pattern bytes"
  unfolding policy_claim_one_def claim_one_pattern_def Let_def
proof (erule claim_in_gapI)
  fix a
  assume a: "a \<le> length bytes" and "list_ex (claim_one_at bytes (gap_end bytes a 60 (CHR ''.'')))
      [a ..< gap_end bytes a 60 (CHR ''.'') + 1]"
  then obtain q where q: "a \<le> q" "q \<le> gap_end bytes a 60 (CHR ''.'')"
      and at: "claim_one_at bytes (gap_end bytes a 60 (CHR ''.'')) q"
    by (auto simp: list_ex_iff)
  then have gap: "gap bytes a 60 q"
    using gap_iff [OF a, of q 60] by simp
  let ?noun = "\<lambda>r noun. occurs noun bytes r \<and> boundary_after bytes (r + length noun)"
  let ?follows = "\<lambda>q. regex_boundary bytes q
     \<and> (\<exists>a. (a = q \<or> (\<exists>w \<in> {''unrestricted'', ''full''}. occurs w bytes q \<and> a = q + length w))
        \<and> (\<exists>noun \<in> set CLAIM_ONE_NOUNS. \<exists>r. all_between is_space bytes a r \<and> ?noun r noun))"
  consider "noun_starts_noun_match bytes q CLAIM_ONE_NOUNS"
    | w where "w \<in> {''unrestricted'', ''full''}" "claim_one_qualified bytes (gap_end bytes a 60 (CHR ''.'')) q w"
    using at by (auto simp: claim_one_at_def)
  then have "?follows q"
  proof cases
    case 1
    then obtain noun where noun: "noun \<in> set CLAIM_ONE_NOUNS" "?noun q noun" "boundary_before bytes q"
      using noun_match_sound by blast
    then have "regex_boundary bytes q"
      using boundary_at_word claim_one_nouns by blast
    moreover have "all_between is_space bytes q q"
      using occurs_nth [of noun bytes q] noun by (auto simp: all_between_def)
    ultimately show ?thesis
      using noun by blast
  next
    case 2
    then have w: "occurs w bytes q" "boundary_before bytes q" "is_word_byte (hd w)"
      by (auto simp: claim_one_qualified_def prefix_of_occurs is_word_byte_def rust_std)
    let ?r = "skip_while is_space bytes (q + length w)"
    obtain noun where "noun \<in> set CLAIM_ONE_NOUNS" "?noun ?r noun"
      using 2 noun_match_sound by (auto simp: claim_one_qualified_def)
    moreover have "all_between is_space bytes (q + length w) ?r"
      using skip_while_iff [OF occurs_length [OF w(1)], of is_space ?r] by simp
    ultimately show ?thesis
      using w boundary_at_word 2(1) by blast
  qed
  with gap show "\<exists>q. gap bytes a 60 q \<and> ?follows q"
    by blast
qed

subsection \<open>Secrets\<close>

definition secret_assignment_regex :: "string \<Rightarrow> bool" where
  "secret_assignment_regex bytes \<longleftrightarrow> (\<exists>w \<in> set SECRET_WORDS. \<exists>p a c. word_at bytes p w
     \<and> all_between is_ascii_whitespace bytes (p + length w) a \<and> a < length bytes \<and> bytes ! a \<in> set '':=''
     \<and> all_between is_ascii_whitespace bytes (a + 1) c \<and> all_between secret_value_byte bytes c (c + 8))"

definition key_regex :: "(char \<Rightarrow> bool) \<Rightarrow> string list \<Rightarrow> string \<Rightarrow> string \<Rightarrow> bool" where
  "key_regex P prefixes lower original \<longleftrightarrow> (\<exists>w \<in> set prefixes. \<exists>p n. occurs w lower p \<and> boundary_before lower p
     \<and> 16 \<le> n \<and> all_between P original (p + length w) (p + length w + n)
     \<and> boundary_after original (p + length w + n))"

lemma run_length_skip: "skip_while P bytes a = a + run_length P bytes a"
  by (simp add: skip_while_def run_length_def)

lemma run_length_ge:
  assumes "a \<le> length bytes"
  shows "n \<le> run_length P bytes a \<longleftrightarrow> all_between P bytes a (a + n)"
proof -
  have r: "all_between P bytes a (a + run_length P bytes a)"
      "a + run_length P bytes a = length bytes \<or> \<not> P (bytes ! (a + run_length P bytes a))"
    using skip_while_iff [OF assms, of P "a + run_length P bytes a"] by (simp_all add: run_length_skip)
  show ?thesis
  proof
    assume "n \<le> run_length P bytes a"
    with r(1) show "all_between P bytes a (a + n)"
      by (auto simp: all_between_def)
  next
    assume n: "all_between P bytes a (a + n)"
    show "n \<le> run_length P bytes a"
    proof (rule ccontr)
      assume "\<not> n \<le> run_length P bytes a"
      with n r(2) show False
        by (auto simp: all_between_def)
    qed
  qed
qed

text \<open>At most one of the words of a list in which no word begins another starts at a position.\<close>

definition prefix_free :: "string list \<Rightarrow> bool" where
  "prefix_free ws \<longleftrightarrow> [] \<notin> set ws \<and> sorted_wrt (\<lambda>v w. \<not> prefix_of v w \<and> \<not> prefix_of w v) ws"

lemma prefix_free_secret: "prefix_free SECRET_WORDS" "prefix_free SECRET_PREFIXES"
  by (simp_all add: prefix_free_def SECRET_WORDS_def SECRET_PREFIXES_def)

lemma occurs_both: "occurs v bytes p \<Longrightarrow> occurs w bytes p \<Longrightarrow> prefix_of v w \<or> prefix_of w v"
proof -
  assume "occurs v bytes p" and "occurs w bytes p"
  then have "take (length v) (drop p bytes) = v" and "take (length w) (drop p bytes) = w"
    by (simp_all add: occurs_def)
  then have "take (length v) w = v \<or> take (length w) v = w"
    by (metis linorder_le_cases min.absorb1 take_take)
  then show ?thesis
    unfolding prefix_of_iff by (metis append_take_drop_id)
qed

definition secret_value_follows :: "string \<Rightarrow> nat \<Rightarrow> bool" where
  "secret_value_follows bytes e \<longleftrightarrow>
     (let sep = skip_while is_ascii_whitespace bytes e
      in sep < length bytes \<and> bytes ! sep \<in> set '':=''
         \<and> 8 \<le> run_length secret_value_byte bytes (skip_while is_ascii_whitespace bytes (sep + 1)))"

lemma secret_word_at_iff:
  assumes "prefix_free ws"
  shows "secret_word_at bytes p ws \<longleftrightarrow> (\<exists>w \<in> set ws. word_at bytes p w \<and> secret_value_follows bytes (p + length w))"
  using assms
proof (induction ws)
  case (Cons w ws)
  then have IH: "secret_word_at bytes p ws \<longleftrightarrow> (\<exists>w \<in> set ws. word_at bytes p w \<and> secret_value_follows bytes (p + length w))"
      and "w \<noteq> []" and others: "\<And>v. v \<in> set ws \<Longrightarrow> word_at bytes p w \<Longrightarrow> \<not> word_at bytes p v"
    using occurs_both [of w bytes p] by (auto simp: prefix_free_def word_at_def)
  then have w: "word_at bytes p w \<longleftrightarrow> prefix_of w (drop p bytes) \<and> boundary_before bytes p \<and> boundary_after bytes (p + length w)"
    by (simp add: word_at_def prefix_of_occurs)
  show ?case
  proof (cases "word_at bytes p w")
    case True
    with others have "\<not> secret_word_at bytes p ws"
      unfolding IH by blast
    with True w others show ?thesis
      by (auto simp: secret_value_follows_def Let_def)
  next
    case False
    with w have "secret_word_at bytes p (w # ws) = secret_word_at bytes p ws"
      by auto
    with False IH show ?thesis
      by simp
  qed
qed simp

lemma secret_prefix_at_iff:
  assumes "prefix_free ws" and "length lower = length original"
  shows "secret_prefix_at lower original p ws \<longleftrightarrow> (\<exists>w \<in> set ws. occurs w lower p \<and> boundary_before lower p
     \<and> (let n = run_length is_ascii_alphanumeric original (p + length w)
        in 16 \<le> n \<and> boundary_after original (p + length w + n)))"
  using assms
proof (induction ws)
  case (Cons w ws)
  let ?hit = "\<lambda>w. boundary_before lower p \<and> (let n = run_length is_ascii_alphanumeric original (p + length w)
        in 16 \<le> n \<and> boundary_after original (p + length w + n))"
  from Cons have IH: "secret_prefix_at lower original p ws \<longleftrightarrow> (\<exists>w \<in> set ws. occurs w lower p \<and> ?hit w)"
      and "w \<noteq> []" and others: "\<And>v. v \<in> set ws \<Longrightarrow> occurs w lower p \<Longrightarrow> \<not> occurs v lower p"
    using occurs_both [of w lower p] by (auto simp: prefix_free_def)
  show ?case
  proof (cases "occurs w lower p")
    case True
    with others have "\<not> secret_prefix_at lower original p ws"
      unfolding IH by blast
    with True others \<open>w \<noteq> []\<close> show ?thesis
      by (auto simp: Let_def prefix_of_occurs)
  next
    case False
    with IH \<open>w \<noteq> []\<close> show ?thesis
      by (simp add: prefix_of_occurs)
  qed
qed simp

lemma secret_value_follows_iff:
  assumes "e \<le> length bytes"
  shows "secret_value_follows bytes e \<longleftrightarrow> (\<exists>a c. all_between is_ascii_whitespace bytes e a \<and> a < length bytes
     \<and> bytes ! a \<in> set '':='' \<and> all_between is_ascii_whitespace bytes (a + 1) c \<and> all_between secret_value_byte bytes c (c + 8))"
proof
  let ?sep = "skip_while is_ascii_whitespace bytes e"
  let ?c = "skip_while is_ascii_whitespace bytes (?sep + 1)"
  assume "secret_value_follows bytes e"
  then have s: "?sep < length bytes" "bytes ! ?sep \<in> set '':=''" "8 \<le> run_length secret_value_byte bytes ?c"
    by (simp_all add: secret_value_follows_def Let_def)
  have "all_between is_ascii_whitespace bytes e ?sep" and c: "all_between is_ascii_whitespace bytes (?sep + 1) ?c"
    using skip_while_iff [OF assms, of is_ascii_whitespace ?sep]
      skip_while_iff [of "?sep + 1" bytes is_ascii_whitespace ?c] s(1) by simp_all
  moreover have "all_between secret_value_byte bytes ?c (?c + 8)"
    using s(3) run_length_ge [of ?c bytes 8] c by (simp add: all_between_def)
  ultimately show "\<exists>a c. all_between is_ascii_whitespace bytes e a \<and> a < length bytes
     \<and> bytes ! a \<in> set '':='' \<and> all_between is_ascii_whitespace bytes (a + 1) c \<and> all_between secret_value_byte bytes c (c + 8)"
    using s by blast
next
  assume "\<exists>a c. all_between is_ascii_whitespace bytes e a \<and> a < length bytes
     \<and> bytes ! a \<in> set '':='' \<and> all_between is_ascii_whitespace bytes (a + 1) c \<and> all_between secret_value_byte bytes c (c + 8)"
  then obtain a c where r: "all_between is_ascii_whitespace bytes e a" "a < length bytes" "bytes ! a \<in> set '':=''"
      "all_between is_ascii_whitespace bytes (a + 1) c" "all_between secret_value_byte bytes c (c + 8)"
    by blast
  have "\<not> is_ascii_whitespace (bytes ! a)"
    using r(3) by (auto simp: is_ascii_whitespace_def byte_def)
  then have a: "skip_while is_ascii_whitespace bytes e = a"
    using skip_while_iff [OF assms] r(1) by blast
  have "secret_value_byte (bytes ! c)"
    using r(5) by (auto simp: all_between_def)
  then have "\<not> is_ascii_whitespace (bytes ! c)"
    by (auto simp: secret_value_byte_def is_ascii_whitespace_def rust_std)
  then have "skip_while is_ascii_whitespace bytes (a + 1) = c"
    using skip_while_iff [of "a + 1" bytes is_ascii_whitespace c] r by simp
  moreover have "8 \<le> run_length secret_value_byte bytes c"
    using r(5) run_length_ge [of c bytes 8] by (simp add: all_between_def)
  ultimately show "secret_value_follows bytes e"
    using a r by (simp add: secret_value_follows_def Let_def)
qed

lemma secret_assignment_exact: "secret_assignment_pattern text' \<longleftrightarrow> secret_assignment_regex (to_ascii_lowercase text')"
proof -
  let ?b = "to_ascii_lowercase text'"
  have "secret_assignment_pattern text' \<longleftrightarrow>
      (\<exists>p<length ?b. \<exists>w \<in> set SECRET_WORDS. word_at ?b p w \<and> secret_value_follows ?b (p + length w))"
    by (auto simp: secret_assignment_pattern_def Let_def list_ex_iff secret_word_at_iff prefix_free_secret)
  also have "\<dots> \<longleftrightarrow> (\<exists>w \<in> set SECRET_WORDS. \<exists>p. word_at ?b p w \<and> secret_value_follows ?b (p + length w))"
    using occurs_nth unfolding word_at_def by blast
  also have "\<dots> \<longleftrightarrow> secret_assignment_regex ?b"
    unfolding secret_assignment_regex_def using secret_value_follows_iff [OF word_at_length, of ?b] by blast
  finally show ?thesis .
qed

lemma key_run_iff:
  assumes "a \<le> length original"
    and "\<And>c. P c \<Longrightarrow> is_word_byte c"
  shows "(let n = run_length P original a in 16 \<le> n \<and> boundary_after original (a + n)) \<longleftrightarrow>
     (\<exists>n\<ge>16. all_between P original a (a + n) \<and> boundary_after original (a + n))"
proof
  assume "let n = run_length P original a in 16 \<le> n \<and> boundary_after original (a + n)"
  then show "\<exists>n\<ge>16. all_between P original a (a + n) \<and> boundary_after original (a + n)"
    using run_length_ge [OF assms(1), of _ P] by (auto simp: Let_def)
next
  assume "\<exists>n\<ge>16. all_between P original a (a + n) \<and> boundary_after original (a + n)"
  then obtain n where n: "16 \<le> n" "all_between P original a (a + n)" "boundary_after original (a + n)"
    by blast
  then have "skip_while P original a = a + n"
    using skip_while_iff [OF assms(1), of P "a + n"] assms(2) by (auto simp: boundary_after_def)
  then have "run_length P original a = n"
    by (simp add: run_length_skip)
  with n show "let n = run_length P original a in 16 \<le> n \<and> boundary_after original (a + n)"
    by simp
qed

lemma key_regex_iff:
  assumes "length lower = length original" and "\<And>c. P c \<Longrightarrow> is_word_byte c"
  shows "(\<exists>p<length lower. \<exists>w \<in> set ws. occurs w lower p \<and> boundary_before lower p
      \<and> (let n = run_length P original (p + length w) in 16 \<le> n \<and> boundary_after original (p + length w + n)))
    \<longleftrightarrow> key_regex P ws lower original"
proof -
  have "(let n = run_length P original (p + length w) in 16 \<le> n \<and> boundary_after original (p + length w + n)) \<longleftrightarrow>
      (\<exists>n\<ge>16. all_between P original (p + length w) (p + length w + n) \<and> boundary_after original (p + length w + n))"
    if "occurs w lower p" for w p
    using occurs_length [OF that] assms by (intro key_run_iff) auto
  then show ?thesis
    unfolding key_regex_def using occurs_nth by blast
qed

lemma length_to_ascii_lowercase [simp]: "length (to_ascii_lowercase s) = length s"
  by (simp add: to_ascii_lowercase_def)

lemma secret_key_exact:
  "secret_key_prefix_pattern text' \<longleftrightarrow> key_regex is_ascii_alphanumeric SECRET_PREFIXES (to_ascii_lowercase text') text'
     \<or> key_regex (\<lambda>c. is_ascii_digit c \<or> is_ascii_uppercase c) [''AKIA''] text' text'"
proof -
  have "list_ex (\<lambda>start. secret_prefix_at (to_ascii_lowercase text') text' start SECRET_PREFIXES) [0 ..< length text']
      \<longleftrightarrow> key_regex is_ascii_alphanumeric SECRET_PREFIXES (to_ascii_lowercase text') text'"
    by (subst key_regex_iff [symmetric])
      (auto simp: list_ex_iff secret_prefix_at_iff prefix_free_secret is_word_byte_def)
  moreover have "list_ex (aws_key_at text') [0 ..< length text']
      \<longleftrightarrow> key_regex (\<lambda>c. is_ascii_digit c \<or> is_ascii_uppercase c) [''AKIA''] text' text'"
    by (subst key_regex_iff [symmetric])
      (auto simp: list_ex_iff aws_key_at_def prefix_of_occurs is_word_byte_def is_ascii_alphanumeric_def
        is_ascii_alphabetic_def numeral_eq_Suc)
  ultimately show ?thesis
    by (simp add: secret_key_prefix_pattern_def Let_def)
qed

text \<open>
  The matchers find what their patterns describe: secret-shaped content is refused exactly
  when one of the three secret patterns occurs; the second, third and fifth claim matcher agree
  with their pattern on every text, and the first and fourth never fire without it.
\<close>

theorem plan_matchers_against_patterns:
  "(reject_secret_content text' \<noteq> None \<longleftrightarrow>
      secret_assignment_regex (to_ascii_lowercase text')
      \<or> key_regex is_ascii_alphanumeric SECRET_PREFIXES (to_ascii_lowercase text') text'
      \<or> key_regex (\<lambda>c. is_ascii_digit c \<or> is_ascii_uppercase c) [''AKIA''] text' text')
   \<and> policy_claim_two bytes = claim_two_pattern bytes
   \<and> policy_claim_three bytes = claim_three_pattern bytes
   \<and> policy_claim_five bytes = claim_five_pattern bytes
   \<and> {b. policy_claim_one b} \<subseteq> Collect claim_one_pattern
   \<and> {b. policy_claim_four b} \<subseteq> Collect claim_four_pattern"
  using policy_claim_one_sound policy_claim_four_sound
  by (auto simp: reject_secret_content_def secret_assignment_exact secret_key_exact policy_claim_two_exact
      policy_claim_three_exact policy_claim_five_exact)

text \<open>
  The first and the fourth claim matcher miss texts of their pattern: after the word
  \<open>without\<close> the fourth does not look for \<open>no\<close> any more, and the first wants a word boundary
  between the qualifier and the noun.
\<close>

theorem plan_matchers_miss:
  "claim_four_pattern ''commands without delay and no approval'' \<and> \<not> policy_claim_four ''commands without delay and no approval''
   \<and> claim_one_pattern ''enable fullnetwork'' \<and> \<not> policy_claim_one ''enable fullnetwork''"
proof (intro conjI)
  let ?t = "''commands without delay and no approval''"
  have "29 \<le> length ?t \<and> skip_while is_space ?t 29 = 30"
    by code_simp
  then have "all_between is_space ?t 29 30"
    using skip_while_iff [of 29 ?t is_space 30] by blast
  moreover have "occurs ''approval'' ?t 30 \<and> boundary_after ?t (30 + length ''approval'')"
    by code_simp
  ultimately have "spaces_then ?t (27 + length ''no'') CLAIM_FOUR_OBJECTS"
    unfolding spaces_then_def by (intro bexI [of _ "''approval''"] exI [of _ 30]) (simp_all add: CLAIM_FOUR_OBJECTS_def)
  moreover have "word_at ?t 0 ''commands'' \<and> gap ?t (0 + length ''commands'') 40 27 \<and> word_at ?t 27 ''no''"
    by code_simp
  moreover have "''commands'' \<in> set CLAIM_FOUR_SUBJECTS"
    by (simp add: CLAIM_FOUR_SUBJECTS_def)
  ultimately show "claim_four_pattern ?t"
    unfolding claim_four_pattern_def claim_in_gap_def by blast
next
  let ?t = "''enable fullnetwork''"
  have "11 \<le> length ?t \<and> skip_while is_space ?t 11 = 11"
    by code_simp
  then have "all_between is_space ?t 11 11"
    using skip_while_iff [of 11 ?t is_space 11] by blast
  moreover have "word_at ?t 0 ''enable'' \<and> gap ?t (0 + length ''enable'') 60 7 \<and> regex_boundary ?t 7
      \<and> occurs ''full'' ?t 7 \<and> 11 = 7 + length ''full'' \<and> occurs ''network'' ?t 11 \<and> boundary_after ?t (11 + length ''network'')"
    by code_simp
  moreover have "''enable'' \<in> set CLAIM_ONE_VERBS" and "''network'' \<in> set CLAIM_ONE_NOUNS"
    by (simp_all add: CLAIM_ONE_VERBS_def CLAIM_ONE_NOUNS_def)
  ultimately show "claim_one_pattern ?t"
    unfolding claim_one_pattern_def claim_in_gap_def by blast
next
  show "\<not> policy_claim_one ''enable fullnetwork''"
    by code_simp
  show "\<not> policy_claim_four ''commands without delay and no approval''"
    by code_simp
qed

end
