(* ===== verification/Json_Canonical.thy ===== *)
theory Json_Canonical
  imports Conversation Canonical
begin

text \<open>
  Canonical JSON of untyped values (\<open>canonical_json_value\<close> of \<open>identity/canonical.rs\<close>).  The
  shortest decimal digits of a double, \<open>format!("{:e}")\<close>, are an argument: for a number other
  than zero the sign, the digits of the mantissa and the exponent.
\<close>

type_synonym scientific = "json_number \<Rightarrow> (bool \<times> string \<times> int) option"

fun trim_zeros :: "string \<Rightarrow> string" where
  "trim_zeros s = (if s \<noteq> [] \<and> last s = CHR ''0'' then trim_zeros (butlast s) else s)"

declare trim_zeros.simps [simp del]

definition zeros :: "int \<Rightarrow> string" where
  "zeros n = replicate (nat n) (CHR ''0'')"

text \<open>The three ranges of \<open>Number::toString\<close>; \<open>point\<close> is the position of the decimal point.\<close>

definition js_digits :: "string \<Rightarrow> int \<Rightarrow> string" where
  "js_digits digits point =
     (let count = int (length digits) in
      if count \<le> point \<and> point \<le> 21 then digits @ zeros (point - count)
      else if 0 < point \<and> point \<le> 21 then take (nat point) digits @ ''.'' @ drop (nat point) digits
      else if - 6 < point \<and> point \<le> 0 then ''0.'' @ zeros (- point) @ digits
      else
        take 1 digits @ (if 1 < count then ''.'' @ drop 1 digits else [])
        @ ''e'' @ (if 0 \<le> point - 1 then ''+'' else ''-'') @ show_nat (nat \<bar>point - 1\<bar>))"

definition js_number_to_string :: "scientific \<Rightarrow> json_number \<Rightarrow> string" where
  "js_number_to_string sci n =
     (case sci n of
        None \<Rightarrow> ''0''
      | Some (negative, mantissa, exponent) \<Rightarrow>
          let digits = trim_zeros (filter (\<lambda>c. c \<noteq> CHR ''.'') mantissa);
              digits = (if digits = [] then ''0'' else digits);
              out = js_digits digits (exponent + 1)
          in if negative then ''-'' @ out else out)"

fun comma_join :: "string list \<Rightarrow> string" where
  "comma_join [] = []"
| "comma_join [x] = x"
| "comma_join (x # y # xs) = x @ '','' @ comma_join (y # xs)"

fun canonical_json_value :: "scientific \<Rightarrow> Value \<Rightarrow> string" where
  "canonical_json_value sci Value_Null = ''null''"
| "canonical_json_value sci (Value_Bool b) = (if b then ''true'' else ''false'')"
| "canonical_json_value sci (Value_Number n) = js_number_to_string sci n"
| "canonical_json_value sci (Value_String s) = json_escape s"
| "canonical_json_value sci (Value_Array items) =
     ''['' @ comma_join (map (canonical_json_value sci) items) @ '']''"
| "canonical_json_value sci (Value_Object entries) =
     ''{'' @ comma_join (map (\<lambda>(k, t). json_escape k @ '':'' @ t)
        (sort_key fst (map (\<lambda>(k, v). (k, canonical_json_value sci v)) entries))) @ ''}''"

text \<open>The \<open>json!\<close> macro on an object, and a vector of strings as a value.\<close>

definition json_object :: "(string \<times> Value) list \<Rightarrow> Value" where
  "json_object entries = Value_Object (bm_of_list [] entries)"

definition json_strings :: "string list \<Rightarrow> Value" where
  "json_strings ss = Value_Array (map Value_String ss)"

end
