(* ===== verification/Plan_Validation.thy ===== *)
theory Plan_Validation
  imports Plan_Patterns Json_Canonical
begin

text \<open>
  The validator of untrusted plan candidates (\<open>planning/validation.rs\<close>) and the JSON view of a
  stored plan that is validated again (\<open>content_candidate_value\<close> of \<open>planning/model.rs\<close>).  Each
  section of the candidate is a function that returns the reasons it pushed and what it
  built; \<open>validate_plan_candidate\<close> runs them in the order of the source.  The arguments are
  \<open>to_lowercase\<close> (Unicode tables), the number formatting \<open>sci\<close>, and for
  \<open>extract_plan_candidate_json\<close> the JSON parser.
\<close>

subsection \<open>Limits\<close>

definition MAX_STEPS :: nat where "MAX_STEPS = 12"
definition MAX_STEPS_LIGHT :: nat where "MAX_STEPS_LIGHT = 6"
definition MAX_TOUCHPOINTS :: nat where "MAX_TOUCHPOINTS = 24"
definition MAX_PLAN_CONSTRAINTS :: nat where "MAX_PLAN_CONSTRAINTS = 12"
definition MAX_RISKS :: nat where "MAX_RISKS = 12"
definition MAX_NON_GOALS :: nat where "MAX_NON_GOALS = 16"
definition MAX_SCOPE_ENTRIES :: nat where "MAX_SCOPE_ENTRIES = 16"
definition MAX_VALIDATION_CHECKS :: nat where "MAX_VALIDATION_CHECKS = 12"
definition MAX_VALIDATION_REQUIREMENTS :: nat where "MAX_VALIDATION_REQUIREMENTS = 8"
definition MAX_EXPECTED_TOUCHPOINTS_PER_STEP :: nat where "MAX_EXPECTED_TOUCHPOINTS_PER_STEP = 12"
definition MAX_VERIFICATION_REFS_PER_STEP :: nat where "MAX_VERIFICATION_REFS_PER_STEP = 12"
definition MAX_PLAN_CONTENT_BYTES :: nat where "MAX_PLAN_CONTENT_BYTES = 32 * 1024"
definition MAX_OBJECTIVE_BYTES :: nat where "MAX_OBJECTIVE_BYTES = 2048"
definition MAX_STATEMENT_BYTES :: nat where "MAX_STATEMENT_BYTES = 512"
definition MAX_STEP_TITLE_BYTES :: nat where "MAX_STEP_TITLE_BYTES = 256"
definition MAX_STEP_DESCRIPTION_BYTES :: nat where "MAX_STEP_DESCRIPTION_BYTES = 1024"
definition MAX_ROLLBACK_BYTES :: nat where "MAX_ROLLBACK_BYTES = 1024"
definition MAX_RATIONALE_BYTES :: nat where "MAX_RATIONALE_BYTES = 1024"
definition MAX_REVISION_BYTES :: nat where "MAX_REVISION_BYTES = 128"
definition MAX_NOTE_BYTES :: nat where "MAX_NOTE_BYTES = 512"

subsection \<open>Reading JSON values\<close>

type_synonym json_object = "(string, Value) btree_map"

fun value_str :: "Value \<Rightarrow> string option" where
  "value_str (Value_String s) = Some s"
| "value_str _ = None"

fun value_array :: "Value \<Rightarrow> Value list option" where
  "value_array (Value_Array vs) = Some vs"
| "value_array _ = None"

definition opt_str :: "Value option \<Rightarrow> string option" where
  "opt_str v = Option.bind v value_str"

definition opt_array :: "Value option \<Rightarrow> Value list option" where
  "opt_array v = Option.bind v value_array"

definition str_or_empty :: "Value option \<Rightarrow> string" where
  "str_or_empty v = (case opt_str v of Some s \<Rightarrow> s | None \<Rightarrow> [])"

definition is_plain_object :: "Value option \<Rightarrow> bool" where
  "is_plain_object v \<longleftrightarrow> Option.bind v as_object \<noteq> None"

definition non_empty_string :: "Value option \<Rightarrow> bool" where
  "non_empty_string v \<longleftrightarrow> (case opt_str v of Some s \<Rightarrow> trim s \<noteq> [] | None \<Rightarrow> False)"

definition is_string :: "Value \<Rightarrow> bool" where
  "is_string v \<longleftrightarrow> value_str v \<noteq> None"

definition is_string_array :: "Value option \<Rightarrow> bool" where
  "is_string_array v \<longleftrightarrow> (case opt_array v of Some vs \<Rightarrow> list_all is_string vs | None \<Rightarrow> False)"

definition longer_than :: "Value option \<Rightarrow> nat \<Rightarrow> bool" where
  "longer_than v n \<longleftrightarrow> (case opt_array v of Some vs \<Rightarrow> n < length vs | None \<Rightarrow> False)"

definition entries_or_empty :: "Value option \<Rightarrow> Value list" where
  "entries_or_empty v = (case opt_array v of Some vs \<Rightarrow> vs | None \<Rightarrow> [])"

definition string_list :: "Value option \<Rightarrow> string list" where
  "string_list v = List.map_filter value_str (entries_or_empty v)"

definition bounded :: "string \<Rightarrow> nat \<Rightarrow> bool" where
  "bounded s n \<longleftrightarrow> length s \<le> n"

definition any_unbounded :: "Value option \<Rightarrow> nat \<Rightarrow> bool" where
  "any_unbounded v n \<longleftrightarrow> list_ex (\<lambda>e. \<not> bounded (str_or_empty (Some e)) n) (entries_or_empty v)"

text \<open>An optional text: absent, refused with a reason, or kept.\<close>

definition optional_text :: "Value option \<Rightarrow> (string \<Rightarrow> bool) \<Rightarrow> string \<Rightarrow> string list \<times> string option" where
  "optional_text v ok reason =
     (case v of
        None \<Rightarrow> ([], None)
      | Some _ \<Rightarrow> if \<not> non_empty_string v \<or> \<not> ok (str_or_empty v) then ([reason], None) else ([], opt_str v))"

text \<open>
  The loops over id-keyed entries: the objects and their ids are checked alike, then the
  body sees the entry and its id.  The last component is the vector of ids seen so far.
\<close>

fun entries_loop ::
    "string \<Rightarrow> (json_object \<Rightarrow> string \<Rightarrow> string list \<times> 'a option) \<Rightarrow> Value list \<Rightarrow> string list
      \<Rightarrow> string list \<times> 'a list \<times> string list" where
  "entries_loop kind body [] ids = ([], [], ids)"
| "entries_loop kind body (entry # entries) ids =
     (let (reasons, built, ids) =
        (case as_object entry of
          None \<Rightarrow> ([''Each '' @ kind @ '' must be an object.''], None, ids)
        | Some obj \<Rightarrow>
            let id_value = bm_get obj ''id'' in
            if \<not> non_empty_string id_value \<or> \<not> is_valid_plan_element_id (str_or_empty id_value) then
              ([''Each '' @ kind @ '' requires a valid id.''], None, ids)
            else
              let id_text = str_or_empty id_value in
              if id_text \<in> set ids then ([''Duplicate '' @ kind @ '' id: '' @ id_text], None, ids)
              else (let (reasons, built) = body obj id_text in (reasons, built, ids @ [id_text])));
          (reasons', rest, ids) = entries_loop kind body entries ids
      in (reasons @ reasons', (case built of Some x \<Rightarrow> [x] | None \<Rightarrow> []) @ rest, ids))"

subsection \<open>The sections of a candidate\<close>

definition depth_reasons :: "json_object \<Rightarrow> PlanningDepth \<Rightarrow> string list" where
  "depth_reasons obj depth =
     (case opt_str (bm_get obj ''depth'') of
        Some declared \<Rightarrow>
          if declared \<noteq> PlanningDepth_as_str depth then
            [''The plan depth '' @ json_escape declared @ '' does not match the host-routed depth ''
              @ PlanningDepth_as_str depth @ ''.'']
          else []
      | None \<Rightarrow> [])"

definition opt_list :: "'a option \<Rightarrow> 'a list" where
  "opt_list x = (case x of Some y \<Rightarrow> [y] | None \<Rightarrow> [])"

definition objective_section :: "(string \<Rightarrow> string) \<Rightarrow> json_object \<Rightarrow> string list \<times> string option" where
  "objective_section to_lowercase obj =
     (let v = bm_get obj ''objective'' in
      if \<not> non_empty_string v then ([''A plan requires a non-empty objective.''], None)
      else
        let text' = str_or_empty v in
        if \<not> bounded text' MAX_OBJECTIVE_BYTES then
          ([''The objective exceeds the '' @ show_nat MAX_OBJECTIVE_BYTES @ ''-byte bound.''], None)
        else (opt_list (reject_plan_policy_claims to_lowercase text') @ opt_list (reject_secret_content text'),
              Some text'))"

definition scope_direction :: "Value option \<Rightarrow> string \<Rightarrow> string list" where
  "scope_direction v name =
     (if \<not> is_string_array v \<or> longer_than v MAX_SCOPE_ENTRIES then
        [''A plan requires an '' @ name @ '' string array within bounds.'']
      else if any_unbounded v MAX_STATEMENT_BYTES then [''A scope entry exceeds the statement byte bound.'']
      else [])"

definition scope_section :: "json_object \<Rightarrow> PlanningDepth \<Rightarrow> string list \<times> PlanScope option" where
  "scope_section obj depth =
     (let scope_raw = bm_get obj ''scope'' in
      if scope_raw = None \<and> depth = PlanningDepth_Light then ([], None)
      else case Option.bind scope_raw as_object of
        None \<Rightarrow> ([''A plan requires a scope object.''], None)
      | Some scope_object \<Rightarrow>
          let inside = bm_get scope_object ''inScope''; outside = bm_get scope_object ''outOfScope''
          in (scope_direction inside ''inScope'' @ scope_direction outside ''outOfScope'',
              Some \<lparr> in_scope = string_list inside, out_of_scope = string_list outside \<rparr>))"

definition non_goals_section :: "json_object \<Rightarrow> PlanningDepth \<Rightarrow> string list \<times> string list" where
  "non_goals_section obj depth =
     (let v = bm_get obj ''nonGoals'' in
      if v = None \<and> depth = PlanningDepth_Light then ([], [])
      else if \<not> is_string_array v \<or> longer_than v MAX_NON_GOALS then
        ([''nonGoals must be a bounded string array.''], [])
      else if any_unbounded v MAX_STATEMENT_BYTES then ([''A non-goal exceeds the statement byte bound.''], [])
      else ([], string_list v))"

fun confidence_kind :: "string option \<Rightarrow> TouchpointConfidence option" where
  "confidence_kind None = None"
| "confidence_kind (Some s) =
     (if s = ''verified'' then Some TouchpointConfidence_Verified
      else if s = ''candidate'' then Some TouchpointConfidence_Candidate else None)"

definition revision_field :: "TouchpointConfidence \<Rightarrow> Value option \<Rightarrow> string \<Rightarrow> string list \<times> string option" where
  "revision_field confidence v i =
     (case confidence of
        TouchpointConfidence_Verified \<Rightarrow>
          if \<not> non_empty_string v \<or> \<not> is_valid_revision_handle (str_or_empty v) then
            ([''Verified touchpoint '' @ i
               @ '' requires the exact inspected workspace revision handle (rev_ + 32 hex).''], None)
          else if \<not> bounded (str_or_empty v) MAX_REVISION_BYTES then
            ([''Touchpoint '' @ i @ '' revision exceeds the byte bound.''], None)
          else ([], Some (str_or_empty v))
      | TouchpointConfidence_Candidate \<Rightarrow>
          optional_text v (\<lambda>_. True) (''Touchpoint '' @ i @ '' revision must be a string when present.''))"

definition path_reasons :: "string \<Rightarrow> TouchpointConfidence \<Rightarrow> string \<Rightarrow> string list" where
  "path_reasons path confidence i =
     (if \<not> is_safe_plan_path path (confidence = TouchpointConfidence_Candidate) then
        [''Touchpoint '' @ i @ '' path '' @ json_escape path @ '' is not a safe workspace-relative path.'']
      else [])"

definition touchpoint_body :: "json_object \<Rightarrow> string \<Rightarrow> string list \<times> PlanTouchpoint option" where
  "touchpoint_body touchpoint i =
     (let path = bm_get touchpoint ''path'' in
      if \<not> non_empty_string path \<or> \<not> bounded (str_or_empty path) MAX_PATH_BYTES then
        ([''Touchpoint '' @ i @ '' requires a bounded path.''], None)
      else case confidence_kind (opt_str (bm_get touchpoint ''confidence'')) of
        None \<Rightarrow> ([''Touchpoint '' @ i @ '' requires confidence verified or candidate.''], None)
      | Some confidence \<Rightarrow>
          let (revision_reasons, revision) = revision_field confidence (bm_get touchpoint ''revision'') i;
              (evidence_reasons, evidence) = optional_text (bm_get touchpoint ''evidence'') is_evidence_reference
                (''Touchpoint '' @ i @ '' evidence must be a bounded kind:ref reference (read|api|reference|research|knowledge|instruction).'');
              (note_reasons, note) = optional_text (bm_get touchpoint ''note'') (\<lambda>s. bounded s MAX_NOTE_BYTES)
                (''Touchpoint '' @ i @ '' note exceeds the byte bound.'')
          in (path_reasons (str_or_empty path) confidence i @ revision_reasons @ evidence_reasons @ note_reasons,
              Some \<lparr> tp_id = i, tp_path = str_or_empty path, tp_confidence = confidence, tp_revision = revision,
                tp_evidence = evidence, tp_note = note \<rparr>))"

definition touchpoints_section ::
    "json_object \<Rightarrow> string list \<times> PlanTouchpoint list \<times> string list" where
  "touchpoints_section obj =
     (case opt_array (bm_get obj ''touchpoints'') of
        None \<Rightarrow> ([''touchpoints must be a bounded array.''], [], [])
      | Some entries \<Rightarrow>
          if MAX_TOUCHPOINTS < length entries then ([''touchpoints must be a bounded array.''], [], [])
          else entries_loop ''touchpoint'' touchpoint_body entries [])"

text \<open>The optional arrays \<open>constraints\<close> and \<open>risks\<close> share their outer checks.\<close>

definition optional_entries ::
    "json_object \<Rightarrow> string \<Rightarrow> nat \<Rightarrow> string \<Rightarrow> (json_object \<Rightarrow> string \<Rightarrow> string list \<times> 'a option)
      \<Rightarrow> string list \<times> 'a list" where
  "optional_entries obj key most kind body =
     (case bm_get obj key of
        None \<Rightarrow> ([], [])
      | Some v \<Rightarrow>
         (case value_array v of
            None \<Rightarrow> ([key @ '' must be a bounded array.''], [])
          | Some entries \<Rightarrow>
              if most < length entries then ([key @ '' must be a bounded array.''], [])
              else (let (reasons, built, _) = entries_loop kind body entries [] in (reasons, built))))"

definition constraint_body ::
    "(string \<Rightarrow> string) \<Rightarrow> json_object \<Rightarrow> string \<Rightarrow> string list \<times> PlanConstraint option" where
  "constraint_body to_lowercase constraint i =
     (let v = bm_get constraint ''description'' in
      if \<not> non_empty_string v \<or> \<not> bounded (str_or_empty v) MAX_STATEMENT_BYTES then
        ([''Constraint '' @ i @ '' requires a bounded description.''], None)
      else case reject_plan_policy_claims to_lowercase (str_or_empty v) of
        Some claim \<Rightarrow> ([claim], None)
      | None \<Rightarrow> ([], Some \<lparr> pc_id = i, pc_description = str_or_empty v \<rparr>))"

definition constraints_section ::
    "(string \<Rightarrow> string) \<Rightarrow> json_object \<Rightarrow> string list \<times> PlanConstraint list" where
  "constraints_section to_lowercase obj =
     optional_entries obj ''constraints'' MAX_PLAN_CONSTRAINTS ''constraint'' (constraint_body to_lowercase)"

fun severity_kind :: "string option \<Rightarrow> PlanRiskSeverity option" where
  "severity_kind None = None"
| "severity_kind (Some s) =
     (if s = ''low'' then Some PlanRiskSeverity_Low
      else if s = ''medium'' then Some PlanRiskSeverity_Medium
      else if s = ''high'' then Some PlanRiskSeverity_High else None)"

definition risk_body :: "json_object \<Rightarrow> string \<Rightarrow> string list \<times> PlanRisk option" where
  "risk_body risk i =
     (let (severity_reasons, severity) =
        (case severity_kind (opt_str (bm_get risk ''severity'')) of
           Some s \<Rightarrow> ([], s)
         | None \<Rightarrow> ([''Risk '' @ i @ '' requires severity low, medium, or high.''], PlanRiskSeverity_Low));
          v = bm_get risk ''description''
      in if \<not> non_empty_string v \<or> \<not> bounded (str_or_empty v) MAX_STATEMENT_BYTES then
           (severity_reasons @ [''Risk '' @ i @ '' requires a bounded description.''], None)
         else (severity_reasons,
               Some \<lparr> risk_id = i, risk_severity = severity, risk_description = str_or_empty v \<rparr>))"

definition risks_section :: "json_object \<Rightarrow> string list \<times> PlanRisk list" where
  "risks_section obj = optional_entries obj ''risks'' MAX_RISKS ''risk'' risk_body"

text \<open>A bounded array of ids; \<open>unknown\<close> gives the reason for an id that is not known.\<close>

definition reference_array ::
    "Value option \<Rightarrow> nat \<Rightarrow> string \<Rightarrow> (string \<Rightarrow> bool) \<Rightarrow> (string \<Rightarrow> string) \<Rightarrow> string list \<times> string list option" where
  "reference_array v most malformed known unknown =
     (case opt_array v of
        None \<Rightarrow> ([malformed], None)
      | Some entries \<Rightarrow>
          if most < length entries \<or> list_ex (\<lambda>e. \<not> is_string e) entries then ([malformed], None)
          else (let refs = List.map_filter value_str entries
                in (map unknown (filter (\<lambda>r. \<not> known r) refs), Some refs)))"

definition title_field :: "(string \<Rightarrow> string) \<Rightarrow> Value option \<Rightarrow> string \<Rightarrow> string list \<times> string option" where
  "title_field to_lowercase v i =
     (if \<not> non_empty_string v \<or> \<not> bounded (str_or_empty v) MAX_STEP_TITLE_BYTES then
        ([''Step '' @ i @ '' requires a bounded title.''], None)
      else case reject_plan_policy_claims to_lowercase (str_or_empty v) of
        Some claim \<Rightarrow> ([claim], None)
      | None \<Rightarrow> ([], Some (str_or_empty v)))"

definition expected_field :: "string list \<Rightarrow> Value option \<Rightarrow> string \<Rightarrow> string list \<times> string list option" where
  "expected_field touchpoint_ids v i =
     reference_array v MAX_EXPECTED_TOUCHPOINTS_PER_STEP
       (''Step '' @ i @ '' expectedTouchpoints must be a bounded id array.'')
       (\<lambda>r. r \<in> set touchpoint_ids)
       (\<lambda>r. ''Step '' @ i @ '' references unknown touchpoint '' @ json_escape r @ ''.'')"

definition verification_field :: "TaskContract \<Rightarrow> Value option \<Rightarrow> string \<Rightarrow> string list \<times> string list option" where
  "verification_field contract v i =
     (if v = None then ([], None)
      else reference_array v MAX_VERIFICATION_REFS_PER_STEP
        (''Step '' @ i @ '' verification must be a bounded criterion-id array.'')
        (\<lambda>r. r \<in> crit_id ` set (tc_acceptance_criteria contract))
        (\<lambda>r. ''Step '' @ i @ '' references unknown acceptance criterion '' @ json_escape r @ ''.''))"

definition step_body ::
    "(string \<Rightarrow> string) \<Rightarrow> TaskContract \<Rightarrow> string list \<Rightarrow> json_object \<Rightarrow> string \<Rightarrow> string list \<times> PlanStep option" where
  "step_body to_lowercase contract touchpoint_ids step i =
     (let (title_reasons, title) = title_field to_lowercase (bm_get step ''title'') i;
          (description_reasons, description) =
            optional_text (bm_get step ''description'') (\<lambda>s. bounded s MAX_STEP_DESCRIPTION_BYTES)
              (''Step '' @ i @ '' description exceeds the byte bound.'');
          (expected_reasons, expected) = expected_field touchpoint_ids (bm_get step ''expectedTouchpoints'') i;
          (verification_reasons, verification) = verification_field contract (bm_get step ''verification'') i
      in (title_reasons @ description_reasons @ expected_reasons @ verification_reasons,
          map_option (\<lambda>t. \<lparr> ps_id = i, ps_title = t, ps_description = description,
              ps_expected_touchpoints = (case expected of Some refs \<Rightarrow> refs | None \<Rightarrow> []),
              ps_verification = verification \<rparr>) title))"

definition max_steps :: "PlanningDepth \<Rightarrow> nat" where
  "max_steps depth = (if depth = PlanningDepth_Light then MAX_STEPS_LIGHT else MAX_STEPS)"

definition steps_section ::
    "(string \<Rightarrow> string) \<Rightarrow> TaskContract \<Rightarrow> PlanningDepth \<Rightarrow> string list \<Rightarrow> json_object
      \<Rightarrow> string list \<times> PlanStep list" where
  "steps_section to_lowercase contract depth touchpoint_ids obj =
     (let malformed = [''steps must be a non-empty bounded array (at most '' @ show_nat (max_steps depth)
            @ '' for '' @ PlanningDepth_as_str depth @ '' plans).'']
      in case opt_array (bm_get obj ''steps'') of
        None \<Rightarrow> (malformed, [])
      | Some entries \<Rightarrow>
          if entries = [] \<or> max_steps depth < length entries then (malformed, [])
          else (let (reasons, built, _) = entries_loop ''step'' (step_body to_lowercase contract touchpoint_ids) entries []
                in (reasons, built)))"

definition checks_reasons :: "Value option \<Rightarrow> string list" where
  "checks_reasons checks =
     (if \<not> is_string_array checks \<or> entries_or_empty checks = [] \<or> longer_than checks MAX_VALIDATION_CHECKS then
        [''validation.checks must be a non-empty bounded string array.'']
      else if any_unbounded checks MAX_STATEMENT_BYTES then [''A validation check exceeds the statement byte bound.'']
      else [])"

text \<open>The loop over the requirements stops at the first one that is too long.\<close>

fun requirements_loop :: "(string \<Rightarrow> string) \<Rightarrow> string list \<Rightarrow> string list \<times> bool" where
  "requirements_loop to_lowercase [] = ([], False)"
| "requirements_loop to_lowercase (r # rs) =
     (if \<not> bounded r MAX_STATEMENT_BYTES then ([''A validation requirement exceeds the statement byte bound.''], True)
      else (let (reasons, oversized) = requirements_loop to_lowercase rs
            in (opt_list (reject_plan_policy_claims to_lowercase r) @ reasons, oversized)))"

definition requirements_field :: "(string \<Rightarrow> string) \<Rightarrow> Value option \<Rightarrow> string list \<times> string list option" where
  "requirements_field to_lowercase v =
     (if v = None then ([], None)
      else if \<not> is_string_array v \<or> longer_than v MAX_VALIDATION_REQUIREMENTS then
        ([''validation.requirements must be a bounded string array.''], None)
      else (let (reasons, oversized) = requirements_loop to_lowercase (string_list v)
            in (reasons, if oversized then None else Some (string_list v))))"

definition validation_section ::
    "(string \<Rightarrow> string) \<Rightarrow> json_object \<Rightarrow> string list \<times> PlanValidationStrategy option" where
  "validation_section to_lowercase obj =
     (case Option.bind (bm_get obj ''validation'') as_object of
        None \<Rightarrow> ([''A plan requires a validation object.''], None)
      | Some validation_object \<Rightarrow>
          let checks = bm_get validation_object ''checks'';
              (reasons, requirements) = requirements_field to_lowercase (bm_get validation_object ''requirements'')
          in (checks_reasons checks @ reasons, Some \<lparr> pv_checks = string_list checks, pv_requirements = requirements \<rparr>))"

definition rollback_section :: "json_object \<Rightarrow> string list \<times> PlanRollbackStrategy option" where
  "rollback_section obj =
     (case bm_get obj ''rollback'' of
        None \<Rightarrow> ([], None)
      | Some v \<Rightarrow>
         (case as_object v of
            None \<Rightarrow> ([''rollback requires an object.''], None)
          | Some rollback \<Rightarrow>
              let description = bm_get rollback ''description'' in
              if \<not> non_empty_string description \<or> \<not> bounded (str_or_empty description) MAX_ROLLBACK_BYTES then
                ([''rollback requires a bounded description.''], None)
              else ([], Some \<lparr> rollback_description = str_or_empty description \<rparr>)))"

definition rationale_section :: "json_object \<Rightarrow> string list \<times> string option" where
  "rationale_section obj =
     optional_text (bm_get obj ''rationale'') (\<lambda>s. bounded s MAX_RATIONALE_BYTES)
       ''rationale must be a bounded string.''"

definition AGGREGATE_KEYS :: "string list" where
  "AGGREGATE_KEYS = [''objective'', ''scope'', ''nonGoals'', ''touchpoints'', ''constraints'', ''risks'', ''steps'',
     ''validation'', ''rollback'', ''rationale'']"

definition aggregate_candidate_bytes :: "scientific \<Rightarrow> json_object \<Rightarrow> nat" where
  "aggregate_candidate_bytes sci obj =
     length (canonical_json_value sci (Value_Object (bm_of_list []
       (map (\<lambda>key. (key, case bm_get obj key of Some v \<Rightarrow> v | None \<Rightarrow> Value_Null)) AGGREGATE_KEYS))))"

definition validate_plan_candidate ::
    "scientific \<Rightarrow> (string \<Rightarrow> string) \<Rightarrow> Value \<Rightarrow> TaskContract \<Rightarrow> PlanningDepth \<Rightarrow> string list + TaskPlanContent" where
  "validate_plan_candidate sci to_lowercase raw contract depth =
     (case as_object raw of
        None \<Rightarrow> Err [''The plan candidate must be a JSON object.'']
      | Some obj \<Rightarrow>
          if depth = PlanningDepth_None then Err [''A plan cannot be created at depth none.'']
          else
            let (objective_reasons, objective) = objective_section to_lowercase obj;
                (scope_reasons, scope) = scope_section obj depth;
                (non_goals_reasons, non_goals) = non_goals_section obj depth;
                (touchpoints_reasons, touchpoints, touchpoint_ids) = touchpoints_section obj;
                (constraints_reasons, constraints) = constraints_section to_lowercase obj;
                (risks_reasons, risks) = risks_section obj;
                (steps_reasons, steps) = steps_section to_lowercase contract depth touchpoint_ids obj;
                (validation_reasons, validation) = validation_section to_lowercase obj;
                (rollback_reasons, rollback) = rollback_section obj;
                (rationale_reasons, rationale) = rationale_section obj;
                reasons = depth_reasons obj depth @ objective_reasons @ scope_reasons @ non_goals_reasons
                  @ touchpoints_reasons @ constraints_reasons @ risks_reasons @ steps_reasons @ validation_reasons
                  @ rollback_reasons @ rationale_reasons;
                reasons =
                  (if reasons = [] \<and> MAX_PLAN_CONTENT_BYTES < aggregate_candidate_bytes sci obj then
                     [''The plan exceeds the '' @ show_nat MAX_PLAN_CONTENT_BYTES @ ''-byte content bound.'']
                   else reasons)
            in if reasons \<noteq> [] then Err (take 8 reasons)
               else case objective of
                 None \<Rightarrow> Err [''A plan requires a non-empty objective.'']
               | Some objective \<Rightarrow>
                  (case scope of
                     None \<Rightarrow> Err [''A plan requires a scope object.'']
                   | Some scope \<Rightarrow>
                      (case validation of
                         None \<Rightarrow> Err [''A plan requires a validation object.'']
                       | Some validation \<Rightarrow>
                           Ok \<lparr> pl_objective = objective, pl_scope = scope, pl_non_goals = non_goals,
                             pl_touchpoints = touchpoints, pl_constraints = constraints, pl_risks = risks,
                             pl_steps = steps, pl_validation = validation, pl_rollback = rollback,
                             pl_rationale = rationale \<rparr>)))"

text \<open>\<open>trim_start_matches("json")\<close> removes every leading occurrence.\<close>

function trim_start_matches :: "string \<Rightarrow> string \<Rightarrow> string" where
  "trim_start_matches p s =
     (if p \<noteq> [] \<and> prefix_of p s then trim_start_matches p (drop (length p) s) else s)"
  by pat_completeness auto
termination
  by (relation "measure (\<lambda>(p, s). length s)") (auto simp: prefix_of_iff)

definition strip_suffix :: "string \<Rightarrow> string \<Rightarrow> string option" where
  "strip_suffix s suf =
     (if length suf \<le> length s \<and> drop (length s - length suf) s = suf then Some (take (length s - length suf) s) else None)"

definition FENCE :: string where
  "FENCE = [CHR 0x60, CHR 0x60, CHR 0x60]"

definition extract_plan_candidate_json :: "(string \<Rightarrow> Value option) \<Rightarrow> string \<Rightarrow> Value option" where
  "extract_plan_candidate_json from_str text' =
     (let trimmed = trim text';
          fenced = map_option (\<lambda>inner. trim_end (trim_start (trim_start_matches ''json'' (trim inner))))
            (Option.bind (strip_prefix trimmed FENCE) (\<lambda>rest. strip_suffix rest FENCE));
          candidate = (case fenced of Some inner \<Rightarrow> inner | None \<Rightarrow> trimmed)
      in case from_str candidate of
           Some parsed \<Rightarrow> if is_plain_object (Some parsed) then Some parsed else None
         | None \<Rightarrow> None)"

subsection \<open>The JSON view of plan content\<close>

definition when_some :: "string \<Rightarrow> ('a \<Rightarrow> Value) \<Rightarrow> 'a option \<Rightarrow> (string \<times> Value) list" where
  "when_some key f x = (case x of Some y \<Rightarrow> [(key, f y)] | None \<Rightarrow> [])"

definition touchpoint_value :: "PlanTouchpoint \<Rightarrow> Value" where
  "touchpoint_value t = json_object
     ([(''id'', Value_String (tp_id t)), (''path'', Value_String (tp_path t)),
       (''confidence'', Value_String (TouchpointConfidence_as_str (tp_confidence t)))]
      @ when_some ''revision'' Value_String (tp_revision t)
      @ when_some ''evidence'' Value_String (tp_evidence t)
      @ when_some ''note'' Value_String (tp_note t))"

definition constraint_value :: "PlanConstraint \<Rightarrow> Value" where
  "constraint_value c = json_object [(''id'', Value_String (pc_id c)), (''description'', Value_String (pc_description c))]"

definition risk_value :: "PlanRisk \<Rightarrow> Value" where
  "risk_value r = json_object [(''id'', Value_String (risk_id r)),
     (''severity'', Value_String (PlanRiskSeverity_as_str (risk_severity r))),
     (''description'', Value_String (risk_description r))]"

definition step_value :: "PlanStep \<Rightarrow> Value" where
  "step_value s = json_object
     ([(''id'', Value_String (ps_id s)), (''title'', Value_String (ps_title s))]
      @ when_some ''description'' Value_String (ps_description s)
      @ [(''expectedTouchpoints'', json_strings (ps_expected_touchpoints s))]
      @ when_some ''verification'' json_strings (ps_verification s))"

definition content_candidate_value :: "TaskPlanContent \<Rightarrow> Value" where
  "content_candidate_value c = json_object
     ([(''objective'', Value_String (pl_objective c)),
       (''scope'', json_object [(''inScope'', json_strings (in_scope (pl_scope c))),
          (''outOfScope'', json_strings (out_of_scope (pl_scope c)))]),
       (''nonGoals'', json_strings (pl_non_goals c)),
       (''touchpoints'', Value_Array (map touchpoint_value (pl_touchpoints c))),
       (''constraints'', Value_Array (map constraint_value (pl_constraints c))),
       (''risks'', Value_Array (map risk_value (pl_risks c))),
       (''steps'', Value_Array (map step_value (pl_steps c))),
       (''validation'', json_object ([(''checks'', json_strings (pv_checks (pl_validation c)))]
          @ when_some ''requirements'' json_strings (pv_requirements (pl_validation c))))]
      @ when_some ''rollback'' (\<lambda>r. json_object [(''description'', Value_String (rollback_description r))]) (pl_rollback c)
      @ when_some ''rationale'' Value_String (pl_rationale c))"

text \<open>The validator that \<open>set_plan\<close> runs on a stored plan.\<close>

definition host_validator ::
    "scientific \<Rightarrow> (string \<Rightarrow> string) \<Rightarrow> TaskPlanContent \<Rightarrow> TaskContract \<Rightarrow> PlanningDepth \<Rightarrow> string list + TaskPlanContent" where
  "host_validator sci to_lowercase content contract depth =
     validate_plan_candidate sci to_lowercase (content_candidate_value content) contract depth"

end
