(* ===== verification/Plan_Acceptance.thy ===== *)
theory Plan_Acceptance
  imports Plan_Validation
begin

text \<open>
  What the validator of plan candidates accepts.  \<open>content_ok\<close> is the well-formedness of plan
  content under a contract and a depth; accepted content is well formed, and the JSON view
  of stored content is accepted exactly when the content is well formed and within the byte
  bound, and then gives the content back.  The locale \<open>entry_reader\<close> states what the loops over
  entries rely on; it is interpreted for touchpoints, constraints, risks and steps.
\<close>

subsection \<open>Lookup in the views\<close>

lemma json_object_get: "bm_get (bm_of_list [] es) k = map_of (rev es) k"
  by (simp add: bm_get_of_list split: option.splits)

lemma as_object_json_object [simp]: "as_object (json_object es) = Some (bm_of_list [] es)"
  by (simp add: json_object_def)

lemma map_of_when_some [simp]:
  "map_of (when_some key f x) k = (if k = key then map_option f x else None)"
  "rev (when_some key f x) = when_some key f x"
  by (simp_all add: when_some_def split: option.splits)

lemma opt_str_simps [simp]:
  "opt_str None = None" "opt_str (Some (Value_String s)) = Some s"
  "opt_str (map_option Value_String x) = x"
  by (cases x; simp add: opt_str_def)+

lemma str_or_empty_simps [simp]: "str_or_empty (Some (Value_String s)) = s"
  by (simp add: str_or_empty_def)

lemma non_empty_string_simps [simp]:
  "non_empty_string (Some (Value_String s)) \<longleftrightarrow> trim s \<noteq> []" "\<not> non_empty_string None"
  by (simp_all add: non_empty_string_def)

lemma opt_array_simps [simp]:
  "opt_array (Some (Value_Array vs)) = Some vs" "opt_array (Some (json_strings ss)) = Some (map Value_String ss)"
  "opt_array None = None"
  by (simp_all add: opt_array_def json_strings_def)

lemma value_array_json_strings [simp]: "value_array (json_strings ss) = Some (map Value_String ss)"
  by (simp add: json_strings_def)

lemma map_string_inj [simp]: "map Value_String ss = map Value_String ts \<longleftrightarrow> ss = ts"
  by (rule inj_map_eq_map) (simp add: inj_def)

lemma map_filter_strings [simp]: "List.map_filter value_str (map Value_String ss) = ss"
  by (induction ss) (simp_all add: List.map_filter_def)

lemma json_strings_array [simp]:
  "is_string_array (Some (json_strings ss))" "longer_than (Some (json_strings ss)) n \<longleftrightarrow> n < length ss"
  "string_list (Some (json_strings ss)) = ss" "entries_or_empty (Some (json_strings ss)) = map Value_String ss"
  "any_unbounded (Some (json_strings ss)) n \<longleftrightarrow> \<not> list_all (\<lambda>s. length s \<le> n) ss"
  by (auto simp: is_string_array_def longer_than_def string_list_def entries_or_empty_def any_unbounded_def
      is_string_def bounded_def list_all_iff list_ex_iff)

subsection \<open>What an array of texts satisfies\<close>

lemma string_array_texts:
  "is_string_array v \<Longrightarrow> \<exists>ss. opt_array v = Some (map Value_String ss)"
proof -
  assume "is_string_array v"
  then obtain vs where vs: "opt_array v = Some vs" "list_all is_string vs"
    by (auto simp: is_string_array_def split: option.splits)
  have "\<exists>ss. vs = map Value_String ss"
    using vs(2)
  proof (induction vs)
    case (Cons v vs)
    then obtain ss s where "vs = map Value_String ss" "v = Value_String s"
      by (cases v) (auto simp: is_string_def)
    then have "v # vs = map Value_String (s # ss)"
      by simp
    then show ?case
      by (rule exI)
  qed simp
  with vs show ?thesis
    by blast
qed

lemma string_array_facts:
  assumes "opt_array v = Some (map Value_String ss)"
  shows "string_list v = ss" "longer_than v n \<longleftrightarrow> n < length ss" "entries_or_empty v = map Value_String ss"
    "any_unbounded v n \<longleftrightarrow> \<not> list_all (\<lambda>s. length s \<le> n) ss"
  using assms by (auto simp: longer_than_def string_list_def entries_or_empty_def any_unbounded_def
      bounded_def list_all_iff list_ex_iff)

lemma non_empty_string_text: "non_empty_string v \<longleftrightarrow> (\<exists>s. v = Some (Value_String s) \<and> trim s \<noteq> [])"
proof (cases v)
  case (Some x)
  then show ?thesis
    by (cases x) (auto simp: non_empty_string_def opt_str_def)
qed simp

lemma optional_text_accepts:
  "optional_text v ok reason = ([], x) \<longleftrightarrow> (v = None \<and> x = None) \<or> (\<exists>s. v = Some (Value_String s) \<and> x = Some s \<and> trim s \<noteq> [] \<and> ok s)"
  by (cases v) (auto simp: optional_text_def non_empty_string_text split: if_splits)

fun opt_all :: "('a \<Rightarrow> bool) \<Rightarrow> 'a option \<Rightarrow> bool" where
  "opt_all P None = True"
| "opt_all P (Some x) = P x"

lemma optional_text_view:
  "optional_text (map_option Value_String x) ok reason = ([], y) \<longleftrightarrow> y = x \<and> opt_all (\<lambda>s. trim s \<noteq> [] \<and> ok s) x"
  by (cases x) (auto simp: optional_text_accepts)

subsection \<open>Loops over entries\<close>

definition id_ok :: "string \<Rightarrow> bool" where
  "id_ok i \<longleftrightarrow> trim i \<noteq> [] \<and> is_valid_plan_element_id i"

text \<open>
  A reader of entries: \<open>body\<close> builds an entry with the given key that is \<open>ok\<close> or gives a
  reason, and reads back what \<open>view\<close> writes.
\<close>

locale entry_reader =
  fixes body :: "json_object \<Rightarrow> string \<Rightarrow> string list \<times> 'a option"
    and key :: "'a \<Rightarrow> string"
    and ok :: "'a \<Rightarrow> bool"
    and fields :: "'a \<Rightarrow> json_object"
  assumes accepts: "body obj i = ([], built) \<Longrightarrow> \<exists>x. built = Some x \<and> key x = i \<and> ok x"
    and key_field: "bm_get (fields x) ''id'' = Some (Value_String (key x))"
    and reads_back: "body (fields x) (key x) = ([], built) \<longleftrightarrow> built = Some x \<and> ok x"
begin

lemma entries_accepted:
  "entries_loop kind body entries ids = ([], xs, ids') \<Longrightarrow> distinct ids \<Longrightarrow>
     length xs = length entries \<and> ids' = ids @ map key xs \<and> distinct ids' \<and> list_all (\<lambda>x. id_ok (key x) \<and> ok x) xs"
proof (induction entries arbitrary: ids xs)
  case (Cons entry entries)
  obtain rest where rest: "entries_loop kind body entries (ids @ [str_or_empty (bm_get (the (as_object entry)) ''id'')]) = ([], rest, ids')"
      and head: "\<exists>x. xs = x # rest \<and> key x = str_or_empty (bm_get (the (as_object entry)) ''id'') \<and> ok x"
      and id: "id_ok (str_or_empty (bm_get (the (as_object entry)) ''id''))"
      "str_or_empty (bm_get (the (as_object entry)) ''id'') \<notin> set ids"
    using Cons.prems(1)
    by (auto simp: Let_def id_ok_def non_empty_string_text split: option.splits if_splits prod.splits dest: accepts)
  from Cons.IH [OF rest] Cons.prems(2) id head show ?case
    by (auto simp: disjoint_iff) (metis image_eqI)
qed simp

lemma entries_read_back:
  "entries_loop kind body (map (\<lambda>x. Value_Object (fields x)) xs) ids = ([], ys, ids') \<longleftrightarrow>
     ys = xs \<and> ids' = ids @ map key xs \<and> distinct (map key xs) \<and> set (map key xs) \<inter> set ids = {}
     \<and> list_all (\<lambda>x. id_ok (key x) \<and> ok x) xs"
proof (induction xs arbitrary: ids ys)
  case (Cons x xs)
  show ?case
  proof (cases "id_ok (key x) \<and> key x \<notin> set ids \<and> body (fields x) (key x) = ([], Some x)")
    case True
    then have "entries_loop kind body (map (\<lambda>x. Value_Object (fields x)) (x # xs)) ids = ([], ys, ids') \<longleftrightarrow>
        (\<exists>zs. ys = x # zs \<and> entries_loop kind body (map (\<lambda>x. Value_Object (fields x)) xs) (ids @ [key x]) = ([], zs, ids'))"
      by (auto simp: Let_def id_ok_def key_field split: prod.splits)
    with True Cons show ?thesis
      using reads_back [of x "Some x"] by auto
  next
    case False
    have "fst (entries_loop kind body (map (\<lambda>x. Value_Object (fields x)) (x # xs)) ids) \<noteq> []"
    proof (cases "id_ok (key x) \<and> key x \<notin> set ids")
      case True
      with False reads_back have "fst (body (fields x) (key x)) \<noteq> []"
        by (metis prod.collapse)
      with True show ?thesis
        by (auto simp: Let_def id_ok_def key_field split: prod.splits)
    next
      case False
      then show ?thesis
        by (auto simp: Let_def id_ok_def key_field split: prod.splits)
    qed
    with False reads_back [of x "Some x"] show ?thesis
      by auto
  qed
qed auto

lemma entries_view:
  "(\<exists>ids'. entries_loop kind body (map (\<lambda>x. Value_Object (fields x)) xs) [] = ([], ys, ids')) \<longleftrightarrow>
     ys = xs \<and> distinct (map key xs) \<and> list_all (\<lambda>x. id_ok (key x) \<and> ok x) xs"
  unfolding entries_read_back by simp

end

lemma drop_ids: "(case l of (reasons, built, _) \<Rightarrow> (reasons, built)) = ([], ys) \<longleftrightarrow> (\<exists>ids. l = ([], ys, ids))"
  by (cases l) auto

subsection \<open>Well-formed entries\<close>

definition clean :: "(string \<Rightarrow> string) \<Rightarrow> string \<Rightarrow> bool" where
  "clean to_lowercase s \<longleftrightarrow> reject_plan_policy_claims to_lowercase s = None"

definition text_ok :: "nat \<Rightarrow> string \<Rightarrow> bool" where
  "text_ok n s \<longleftrightarrow> trim s \<noteq> [] \<and> length s \<le> n"

definition statements_ok :: "nat \<Rightarrow> string list \<Rightarrow> bool" where
  "statements_ok most ss \<longleftrightarrow> length ss \<le> most \<and> list_all (\<lambda>s. length s \<le> MAX_STATEMENT_BYTES) ss"

definition touchpoint_ok :: "PlanTouchpoint \<Rightarrow> bool" where
  "touchpoint_ok t \<longleftrightarrow> text_ok MAX_PATH_BYTES (tp_path t)
     \<and> is_safe_plan_path (tp_path t) (tp_confidence t = TouchpointConfidence_Candidate)
     \<and> (case tp_confidence t of
          TouchpointConfidence_Verified \<Rightarrow> (case tp_revision t of None \<Rightarrow> False
            | Some r \<Rightarrow> text_ok MAX_REVISION_BYTES r \<and> is_valid_revision_handle r)
        | TouchpointConfidence_Candidate \<Rightarrow> opt_all (\<lambda>s. trim s \<noteq> []) (tp_revision t))
     \<and> opt_all (\<lambda>s. trim s \<noteq> [] \<and> is_evidence_reference s) (tp_evidence t)
     \<and> opt_all (text_ok MAX_NOTE_BYTES) (tp_note t)"

definition plan_constraint_ok :: "(string \<Rightarrow> string) \<Rightarrow> PlanConstraint \<Rightarrow> bool" where
  "plan_constraint_ok to_lowercase c \<longleftrightarrow>
     text_ok MAX_STATEMENT_BYTES (pc_description c) \<and> clean to_lowercase (pc_description c)"

definition risk_ok :: "PlanRisk \<Rightarrow> bool" where
  "risk_ok r \<longleftrightarrow> text_ok MAX_STATEMENT_BYTES (risk_description r)"

definition plan_step_ok :: "(string \<Rightarrow> string) \<Rightarrow> TaskContract \<Rightarrow> string list \<Rightarrow> PlanStep \<Rightarrow> bool" where
  "plan_step_ok to_lowercase contract touchpoint_ids s \<longleftrightarrow>
     text_ok MAX_STEP_TITLE_BYTES (ps_title s) \<and> clean to_lowercase (ps_title s)
     \<and> opt_all (text_ok MAX_STEP_DESCRIPTION_BYTES) (ps_description s)
     \<and> length (ps_expected_touchpoints s) \<le> MAX_EXPECTED_TOUCHPOINTS_PER_STEP
     \<and> set (ps_expected_touchpoints s) \<subseteq> set touchpoint_ids
     \<and> opt_all (\<lambda>refs. length refs \<le> MAX_VERIFICATION_REFS_PER_STEP
          \<and> set refs \<subseteq> crit_id ` set (tc_acceptance_criteria contract)) (ps_verification s)"

lemma reference_array_accepts:
  "reference_array v most malformed known unknown = ([], x) \<longleftrightarrow>
     (\<exists>refs. opt_array v = Some (map Value_String refs) \<and> x = Some refs \<and> length refs \<le> most \<and> list_all known refs)"
proof
  assume "reference_array v most malformed known unknown = ([], x)"
  then obtain vs where vs: "opt_array v = Some vs" "list_all is_string vs" "length vs \<le> most"
      "x = Some (List.map_filter value_str vs)" "list_all known (List.map_filter value_str vs)"
    by (auto simp: reference_array_def Let_def list_all_iff list_ex_iff filter_empty_conv split: option.splits if_splits)
  then obtain refs where "opt_array v = Some (map Value_String refs)"
    using string_array_texts [of v] by (auto simp: is_string_array_def)
  with vs show "\<exists>refs. opt_array v = Some (map Value_String refs) \<and> x = Some refs \<and> length refs \<le> most \<and> list_all known refs"
    by auto
qed (auto simp: reference_array_def Let_def is_string_def list_ex_iff list_all_iff filter_empty_conv)

definition touchpoint_fields :: "PlanTouchpoint \<Rightarrow> json_object" where
  "touchpoint_fields t = the (as_object (touchpoint_value t))"

definition constraint_fields :: "PlanConstraint \<Rightarrow> json_object" where
  "constraint_fields c = the (as_object (constraint_value c))"

definition risk_fields :: "PlanRisk \<Rightarrow> json_object" where
  "risk_fields r = the (as_object (risk_value r))"

definition step_fields :: "PlanStep \<Rightarrow> json_object" where
  "step_fields s = the (as_object (step_value s))"

lemma value_fields:
  "touchpoint_value t = Value_Object (touchpoint_fields t)"
  "constraint_value c = Value_Object (constraint_fields c)"
  "risk_value r = Value_Object (risk_fields r)"
  "step_value s = Value_Object (step_fields s)"
  by (simp_all add: touchpoint_fields_def touchpoint_value_def constraint_fields_def constraint_value_def
      risk_fields_def risk_value_def step_fields_def step_value_def json_object_def)

lemma value_functions:
  "touchpoint_value = (\<lambda>t. Value_Object (touchpoint_fields t))"
  "constraint_value = (\<lambda>c. Value_Object (constraint_fields c))"
  "risk_value = (\<lambda>r. Value_Object (risk_fields r))"
  "step_value = (\<lambda>s. Value_Object (step_fields s))"
  by (simp_all add: fun_eq_iff value_fields)

lemma touchpoint_lookup [simp]:
  "bm_get (touchpoint_fields t) ''id'' = Some (Value_String (tp_id t))"
  "bm_get (touchpoint_fields t) ''path'' = Some (Value_String (tp_path t))"
  "bm_get (touchpoint_fields t) ''confidence'' = Some (Value_String (TouchpointConfidence_as_str (tp_confidence t)))"
  "bm_get (touchpoint_fields t) ''revision'' = map_option Value_String (tp_revision t)"
  "bm_get (touchpoint_fields t) ''evidence'' = map_option Value_String (tp_evidence t)"
  "bm_get (touchpoint_fields t) ''note'' = map_option Value_String (tp_note t)"
  by (simp_all add: touchpoint_fields_def touchpoint_value_def json_object_get map_add_def del: bm_of_list.simps split: option.splits)

lemma constraint_lookup [simp]:
  "bm_get (constraint_fields c) ''id'' = Some (Value_String (pc_id c))"
  "bm_get (constraint_fields c) ''description'' = Some (Value_String (pc_description c))"
  by (simp_all add: constraint_fields_def constraint_value_def bm_get_def)

lemma risk_lookup [simp]:
  "bm_get (risk_fields r) ''id'' = Some (Value_String (risk_id r))"
  "bm_get (risk_fields r) ''severity'' = Some (Value_String (PlanRiskSeverity_as_str (risk_severity r)))"
  "bm_get (risk_fields r) ''description'' = Some (Value_String (risk_description r))"
  by (simp_all add: risk_fields_def risk_value_def bm_get_def)

lemma step_lookup [simp]:
  "bm_get (step_fields s) ''id'' = Some (Value_String (ps_id s))"
  "bm_get (step_fields s) ''title'' = Some (Value_String (ps_title s))"
  "bm_get (step_fields s) ''description'' = map_option Value_String (ps_description s)"
  "bm_get (step_fields s) ''expectedTouchpoints'' = Some (json_strings (ps_expected_touchpoints s))"
  "bm_get (step_fields s) ''verification'' = map_option json_strings (ps_verification s)"
  by (simp_all add: step_fields_def step_value_def json_object_get map_add_def del: bm_of_list.simps split: option.splits)

lemma confidence_kind_as_str [simp]: "confidence_kind (Some (TouchpointConfidence_as_str c)) = Some c"
  by (cases c) simp_all

lemma severity_kind_as_str [simp]: "severity_kind (Some (PlanRiskSeverity_as_str s)) = Some s"
  by (cases s) simp_all

declare severity_kind.simps [simp del] confidence_kind.simps [simp del]

subsection \<open>The readers\<close>

lemma revision_field_accepts:
  "revision_field confidence v i = ([], x) \<longleftrightarrow>
     (case confidence of
        TouchpointConfidence_Verified \<Rightarrow> \<exists>s. v = Some (Value_String s) \<and> x = Some s \<and> text_ok MAX_REVISION_BYTES s
          \<and> is_valid_revision_handle s
      | TouchpointConfidence_Candidate \<Rightarrow> optional_text v (\<lambda>_. True)
          (''Touchpoint '' @ i @ '' revision must be a string when present.'') = ([], x))"
  by (cases confidence) (auto simp: revision_field_def non_empty_string_text text_ok_def bounded_def)

lemma touchpoint_body_accepts:
  "touchpoint_body obj i = ([], built) \<longleftrightarrow>
     (\<exists>p confidence revision evidence note.
        bm_get obj ''path'' = Some (Value_String p) \<and> text_ok MAX_PATH_BYTES p
        \<and> confidence_kind (opt_str (bm_get obj ''confidence'')) = Some confidence
        \<and> is_safe_plan_path p (confidence = TouchpointConfidence_Candidate)
        \<and> revision_field confidence (bm_get obj ''revision'') i = ([], revision)
        \<and> optional_text (bm_get obj ''evidence'') is_evidence_reference (''Touchpoint '' @ i @ '' evidence must be a bounded kind:ref reference (read|api|reference|research|knowledge|instruction).'') = ([], evidence)
        \<and> optional_text (bm_get obj ''note'') (\<lambda>s. bounded s MAX_NOTE_BYTES) (''Touchpoint '' @ i @ '' note exceeds the byte bound.'') = ([], note)
        \<and> built = Some \<lparr> tp_id = i, tp_path = p, tp_confidence = confidence, tp_revision = revision,
             tp_evidence = evidence, tp_note = note \<rparr>)"
  by (auto simp: touchpoint_body_def Let_def path_reasons_def non_empty_string_text text_ok_def bounded_def
      split: prod.splits option.splits)

lemma touchpoint_reader: "entry_reader touchpoint_body tp_id touchpoint_ok touchpoint_fields"
proof
  show "\<exists>x. built = Some x \<and> tp_id x = i \<and> touchpoint_ok x" if read: "touchpoint_body obj i = ([], built)" for obj i built
  proof -
    obtain p c revision evidence nt where "text_ok MAX_PATH_BYTES p" "is_safe_plan_path p (c = TouchpointConfidence_Candidate)"
        and fields: "revision_field c (bm_get obj ''revision'') i = ([], revision)"
        "optional_text (bm_get obj ''evidence'') is_evidence_reference (''Touchpoint '' @ i @ '' evidence must be a bounded kind:ref reference (read|api|reference|research|knowledge|instruction).'') = ([], evidence)"
        "optional_text (bm_get obj ''note'') (\<lambda>s. bounded s MAX_NOTE_BYTES) (''Touchpoint '' @ i @ '' note exceeds the byte bound.'') = ([], nt)"
        and built: "built = Some \<lparr> tp_id = i, tp_path = p, tp_confidence = c, tp_revision = revision,
             tp_evidence = evidence, tp_note = nt \<rparr>"
      using read unfolding touchpoint_body_accepts by blast
    moreover have "opt_all (\<lambda>s. trim s \<noteq> [] \<and> is_evidence_reference s) evidence" and "opt_all (text_ok MAX_NOTE_BYTES) nt"
      using fields by (auto simp: optional_text_accepts text_ok_def bounded_def)
    ultimately show ?thesis
      by (cases c) (auto simp: touchpoint_ok_def revision_field_accepts optional_text_accepts)
  qed
  show "touchpoint_body (touchpoint_fields x) (tp_id x) = ([], built) \<longleftrightarrow> built = Some x \<and> touchpoint_ok x" for x built
    unfolding touchpoint_body_accepts revision_field_accepts
    by (cases x; cases "tp_confidence x")
      (auto simp: touchpoint_ok_def optional_text_view text_ok_def [abs_def] bounded_def confidence_kind.simps split: option.splits)
qed simp

lemma constraint_reader: "entry_reader (constraint_body to_lowercase) pc_id (plan_constraint_ok to_lowercase) constraint_fields"
proof
  show "\<exists>x. built = Some x \<and> pc_id x = i \<and> plan_constraint_ok to_lowercase x"
    if "constraint_body to_lowercase obj i = ([], built)" for obj i built
    using that by (auto simp: constraint_body_def Let_def plan_constraint_ok_def non_empty_string_text text_ok_def
        bounded_def clean_def split: if_splits option.splits)
  show "constraint_body to_lowercase (constraint_fields x) (pc_id x) = ([], built) \<longleftrightarrow>
      built = Some x \<and> plan_constraint_ok to_lowercase x" for x built
    by (auto simp: constraint_body_def Let_def plan_constraint_ok_def text_ok_def bounded_def clean_def
        split: if_splits option.splits)
qed simp

lemma risk_reader: "entry_reader risk_body risk_id risk_ok risk_fields"
proof
  show "\<exists>x. built = Some x \<and> risk_id x = i \<and> risk_ok x" if "risk_body obj i = ([], built)" for obj i built
    using that by (auto simp: risk_body_def Let_def risk_ok_def non_empty_string_text text_ok_def
        bounded_def split: if_splits option.splits prod.splits)
  show "risk_body (risk_fields x) (risk_id x) = ([], built) \<longleftrightarrow> built = Some x \<and> risk_ok x" for x built
    by (auto simp: risk_body_def Let_def risk_ok_def text_ok_def bounded_def split: if_splits option.splits)
qed simp

lemma title_field_accepts:
  "title_field to_lowercase v i = ([], x) \<longleftrightarrow>
     (\<exists>t. v = Some (Value_String t) \<and> x = Some t \<and> text_ok MAX_STEP_TITLE_BYTES t \<and> clean to_lowercase t)"
  by (auto simp: title_field_def non_empty_string_text text_ok_def bounded_def clean_def split: if_splits option.splits)

lemma step_body_accepts:
  "step_body to_lowercase contract ids obj i = ([], built) \<longleftrightarrow>
     (\<exists>t description expected verification.
        title_field to_lowercase (bm_get obj ''title'') i = ([], Some t)
        \<and> optional_text (bm_get obj ''description'') (\<lambda>s. bounded s MAX_STEP_DESCRIPTION_BYTES)
             (''Step '' @ i @ '' description exceeds the byte bound.'') = ([], description)
        \<and> expected_field ids (bm_get obj ''expectedTouchpoints'') i = ([], Some expected)
        \<and> verification_field contract (bm_get obj ''verification'') i = ([], verification)
        \<and> built = Some \<lparr> ps_id = i, ps_title = t, ps_description = description,
             ps_expected_touchpoints = expected, ps_verification = verification \<rparr>)"
proof -
  have "x \<noteq> None" if "title_field to_lowercase v i = ([], x)" for v x
    using that by (auto simp: title_field_accepts)
  moreover have "x \<noteq> None" if "expected_field ids v i = ([], x)" for v x
    using that by (auto simp: expected_field_def reference_array_accepts)
  ultimately show ?thesis
    by (fastforce simp: step_body_def Let_def split: prod.splits)
qed

lemma step_reader:
  "entry_reader (step_body to_lowercase contract ids) ps_id (plan_step_ok to_lowercase contract ids) step_fields"
proof
  show "\<exists>x. built = Some x \<and> ps_id x = i \<and> plan_step_ok to_lowercase contract ids x"
    if "step_body to_lowercase contract ids obj i = ([], built)" for obj i built
    using that unfolding step_body_accepts
    by (auto simp: plan_step_ok_def optional_text_accepts title_field_accepts expected_field_def verification_field_def
        reference_array_accepts list_all_iff subset_iff text_ok_def bounded_def split: if_splits)
  show "step_body to_lowercase contract ids (step_fields x) (ps_id x) = ([], built) \<longleftrightarrow>
      built = Some x \<and> plan_step_ok to_lowercase contract ids x" for x built
    unfolding step_body_accepts
    by (cases x; cases "ps_verification x")
      (auto simp: plan_step_ok_def optional_text_view title_field_accepts expected_field_def verification_field_def
        reference_array_accepts list_all_iff subset_iff text_ok_def [abs_def] bounded_def)
qed simp

interpretation touchpoints: entry_reader touchpoint_body tp_id touchpoint_ok touchpoint_fields
  by (rule touchpoint_reader)

interpretation plan_constraints: entry_reader "constraint_body to_lowercase" pc_id "plan_constraint_ok to_lowercase"
    constraint_fields for to_lowercase
  by (rule constraint_reader)

interpretation risks: entry_reader risk_body risk_id risk_ok risk_fields
  by (rule risk_reader)

interpretation plan_steps: entry_reader "step_body to_lowercase contract ids" ps_id
    "plan_step_ok to_lowercase contract ids" step_fields for to_lowercase contract ids
  by (rule step_reader)

subsection \<open>Sections\<close>

lemma opt_list_Nil [simp]: "opt_list x = [] \<longleftrightarrow> x = None"
  by (simp add: opt_list_def split: option.splits)

lemma objective_section_accepts:
  "objective_section to_lowercase obj = ([], x) \<longleftrightarrow>
     (\<exists>t. bm_get obj ''objective'' = Some (Value_String t) \<and> x = Some t \<and> text_ok MAX_OBJECTIVE_BYTES t
        \<and> clean to_lowercase t \<and> reject_secret_content t = None)"
  by (auto simp: objective_section_def Let_def non_empty_string_text text_ok_def bounded_def clean_def)

lemma scope_direction_accepts:
  "scope_direction v name = [] \<longleftrightarrow> (\<exists>ss. opt_array v = Some (map Value_String ss) \<and> statements_ok MAX_SCOPE_ENTRIES ss)"
proof (cases "is_string_array v")
  case True
  then obtain ss where "opt_array v = Some (map Value_String ss)"
    using string_array_texts by blast
  with True show ?thesis
    by (auto simp: scope_direction_def statements_ok_def string_array_facts)
next
  case False
  then show ?thesis
    by (auto simp: scope_direction_def is_string_array_def is_string_def list_all_iff)
qed

lemma scope_section_accepts:
  "scope_section obj depth = ([], Some scope) \<longleftrightarrow>
     (\<exists>inner. Option.bind (bm_get obj ''scope'') as_object = Some inner
        \<and> opt_array (bm_get inner ''inScope'') = Some (map Value_String (in_scope scope))
        \<and> opt_array (bm_get inner ''outOfScope'') = Some (map Value_String (out_of_scope scope))
        \<and> statements_ok MAX_SCOPE_ENTRIES (in_scope scope) \<and> statements_ok MAX_SCOPE_ENTRIES (out_of_scope scope))"
proof (cases "Option.bind (bm_get obj ''scope'') as_object")
  case None
  then show ?thesis
    by (simp add: scope_section_def Let_def)
next
  case (Some inner)
  then have "bm_get obj ''scope'' \<noteq> None"
    by (metis Option.bind_lzero option.distinct(1))
  with Some show ?thesis
    by (cases scope) (auto simp: scope_section_def Let_def scope_direction_accepts string_array_facts)
qed

lemma non_goals_section_accepts:
  "non_goals_section obj depth = ([], xs) \<longleftrightarrow>
     (bm_get obj ''nonGoals'' = None \<and> depth = PlanningDepth_Light \<and> xs = [])
     \<or> (opt_array (bm_get obj ''nonGoals'') = Some (map Value_String xs) \<and> statements_ok MAX_NON_GOALS xs)"
proof (cases "is_string_array (bm_get obj ''nonGoals'')")
  case True
  then obtain ss where "opt_array (bm_get obj ''nonGoals'') = Some (map Value_String ss)"
    using string_array_texts by blast
  with True show ?thesis
    by (auto simp: non_goals_section_def Let_def statements_ok_def string_array_facts)
next
  case False
  then show ?thesis
    by (auto simp: non_goals_section_def Let_def is_string_array_def is_string_def list_all_iff)
qed

definition entries_ok :: "nat \<Rightarrow> ('a \<Rightarrow> string) \<Rightarrow> ('a \<Rightarrow> bool) \<Rightarrow> 'a list \<Rightarrow> bool" where
  "entries_ok most key ok xs \<longleftrightarrow> length xs \<le> most \<and> distinct (map key xs) \<and> list_all (\<lambda>x. id_ok (key x) \<and> ok x) xs"

lemma touchpoints_section_accepts:
  "touchpoints_section obj = ([], xs, ids) \<Longrightarrow> entries_ok MAX_TOUCHPOINTS tp_id touchpoint_ok xs \<and> ids = map tp_id xs"
  by (auto simp: touchpoints_section_def entries_ok_def split: option.splits if_splits
      dest: touchpoints.entries_accepted)

lemma touchpoints_section_view:
  "opt_array (bm_get obj ''touchpoints'') = Some (map touchpoint_value xs) \<Longrightarrow>
     touchpoints_section obj = ([], ys, ids) \<longleftrightarrow> ys = xs \<and> ids = map tp_id xs \<and> entries_ok MAX_TOUCHPOINTS tp_id touchpoint_ok xs"
  by (auto simp: touchpoints_section_def entries_ok_def value_functions touchpoints.entries_read_back split: if_splits)

lemma optional_entries_accepts:
  assumes "optional_entries obj name most kind body = ([], xs)"
    and "\<And>entries ids'. entries_loop kind body entries [] = ([], xs, ids') \<Longrightarrow>
       length xs = length entries \<and> distinct (map key xs) \<and> list_all (\<lambda>x. id_ok (key x) \<and> ok x) xs"
  shows "entries_ok most key ok xs"
  using assms by (auto simp: optional_entries_def entries_ok_def drop_ids split: option.splits if_splits)

lemma constraints_section_accepts:
  "constraints_section to_lowercase obj = ([], xs) \<Longrightarrow>
     entries_ok MAX_PLAN_CONSTRAINTS pc_id (plan_constraint_ok to_lowercase) xs"
  unfolding constraints_section_def
  by (erule optional_entries_accepts) (auto dest!: plan_constraints.entries_accepted)

lemma risks_section_accepts: "risks_section obj = ([], xs) \<Longrightarrow> entries_ok MAX_RISKS risk_id risk_ok xs"
  unfolding risks_section_def by (erule optional_entries_accepts) (auto dest!: risks.entries_accepted)

lemma constraints_section_view:
  "bm_get obj ''constraints'' = Some (Value_Array (map constraint_value xs)) \<Longrightarrow>
     constraints_section to_lowercase obj = ([], ys) \<longleftrightarrow>
       ys = xs \<and> entries_ok MAX_PLAN_CONSTRAINTS pc_id (plan_constraint_ok to_lowercase) xs"
  by (auto simp: constraints_section_def optional_entries_def entries_ok_def value_functions
      plan_constraints.entries_view drop_ids split: if_splits)

lemma risks_section_view:
  "bm_get obj ''risks'' = Some (Value_Array (map risk_value xs)) \<Longrightarrow>
     risks_section obj = ([], ys) \<longleftrightarrow> ys = xs \<and> entries_ok MAX_RISKS risk_id risk_ok xs"
  by (auto simp: risks_section_def optional_entries_def entries_ok_def value_functions
      risks.entries_view drop_ids split: if_splits)

lemma steps_section_accepts:
  "steps_section to_lowercase contract depth ids obj = ([], xs) \<Longrightarrow>
     xs \<noteq> [] \<and> entries_ok (max_steps depth) ps_id (plan_step_ok to_lowercase contract ids) xs"
  by (auto simp: steps_section_def Let_def entries_ok_def drop_ids split: option.splits if_splits
      dest!: plan_steps.entries_accepted)

lemma steps_section_view:
  "opt_array (bm_get obj ''steps'') = Some (map step_value xs) \<Longrightarrow>
     steps_section to_lowercase contract depth ids obj = ([], ys) \<longleftrightarrow>
       ys = xs \<and> xs \<noteq> [] \<and> entries_ok (max_steps depth) ps_id (plan_step_ok to_lowercase contract ids) xs"
  by (auto simp: steps_section_def Let_def entries_ok_def value_functions
      plan_steps.entries_view drop_ids split: if_splits)

lemma requirements_loop_accepts:
  "requirements_loop to_lowercase rs = ([], oversized) \<longleftrightarrow>
     \<not> oversized \<and> list_all (\<lambda>r. length r \<le> MAX_STATEMENT_BYTES \<and> clean to_lowercase r) rs"
proof (induction rs)
  case (Cons r rs)
  obtain reasons o' where "requirements_loop to_lowercase rs = (reasons, o')"
    by fastforce
  with Cons show ?case
    by (cases oversized; cases o') (auto simp: bounded_def clean_def)
qed simp

definition requirements_ok :: "(string \<Rightarrow> string) \<Rightarrow> string list \<Rightarrow> bool" where
  "requirements_ok to_lowercase rs \<longleftrightarrow>
     statements_ok MAX_VALIDATION_REQUIREMENTS rs \<and> list_all (clean to_lowercase) rs"

lemma requirements_field_accepts:
  "requirements_field to_lowercase v = ([], x) \<longleftrightarrow> (v = None \<and> x = None)
     \<or> (\<exists>rs. opt_array v = Some (map Value_String rs) \<and> x = Some rs \<and> requirements_ok to_lowercase rs)"
proof (cases "is_string_array v")
  case True
  then obtain rs where rs: "opt_array v = Some (map Value_String rs)"
    using string_array_texts by blast
  then have "v \<noteq> None"
    by (metis opt_array_simps(3) option.distinct(1))
  obtain reasons o' where l: "requirements_loop to_lowercase rs = (reasons, o')"
    by fastforce
  then have "reasons = [] \<longleftrightarrow> list_all (\<lambda>r. length r \<le> MAX_STATEMENT_BYTES \<and> clean to_lowercase r) rs"
      and "reasons = [] \<Longrightarrow> \<not> o'"
    using requirements_loop_accepts [of to_lowercase rs False] requirements_loop_accepts [of to_lowercase rs True]
    by (cases o'; simp)+
  with l True rs \<open>v \<noteq> None\<close> show ?thesis
    by (auto simp: requirements_field_def string_array_facts requirements_ok_def statements_ok_def list_all_iff)
next
  case False
  then show ?thesis
    by (auto simp: requirements_field_def is_string_array_def is_string_def list_all_iff)
qed

lemma checks_reasons_accepts:
  "checks_reasons v = [] \<longleftrightarrow>
     (\<exists>ss. opt_array v = Some (map Value_String ss) \<and> ss \<noteq> [] \<and> statements_ok MAX_VALIDATION_CHECKS ss)"
proof (cases "is_string_array v")
  case True
  then obtain ss where "opt_array v = Some (map Value_String ss)"
    using string_array_texts by blast
  with True show ?thesis
    by (auto simp: checks_reasons_def statements_ok_def string_array_facts)
next
  case False
  then show ?thesis
    by (auto simp: checks_reasons_def is_string_array_def is_string_def list_all_iff)
qed

lemma validation_section_accepts:
  "validation_section to_lowercase obj = ([], Some s) \<longleftrightarrow>
     (\<exists>inner. Option.bind (bm_get obj ''validation'') as_object = Some inner
        \<and> opt_array (bm_get inner ''checks'') = Some (map Value_String (pv_checks s)) \<and> pv_checks s \<noteq> []
        \<and> statements_ok MAX_VALIDATION_CHECKS (pv_checks s)
        \<and> requirements_field to_lowercase (bm_get inner ''requirements'') = ([], pv_requirements s))"
proof (cases "Option.bind (bm_get obj ''validation'') as_object")
  case (Some inner)
  then show ?thesis
    by (cases s) (auto simp: validation_section_def Let_def checks_reasons_accepts string_array_facts split: prod.splits)
qed (simp add: validation_section_def)

lemma rollback_section_accepts:
  "rollback_section obj = ([], x) \<longleftrightarrow> (bm_get obj ''rollback'' = None \<and> x = None)
     \<or> (\<exists>inner r. bm_get obj ''rollback'' = Some (Value_Object inner) \<and> x = Some r
          \<and> bm_get inner ''description'' = Some (Value_String (rollback_description r))
          \<and> text_ok MAX_ROLLBACK_BYTES (rollback_description r))"
proof (cases "bm_get obj ''rollback''")
  case (Some v)
  then show ?thesis
    by (cases v; cases x)
      (auto simp: rollback_section_def Let_def non_empty_string_text text_ok_def bounded_def split: if_splits)
qed (auto simp: rollback_section_def)

subsection \<open>Well-formed plan content\<close>

definition content_ok :: "(string \<Rightarrow> string) \<Rightarrow> TaskContract \<Rightarrow> PlanningDepth \<Rightarrow> TaskPlanContent \<Rightarrow> bool" where
  "content_ok to_lowercase contract depth c \<longleftrightarrow>
     depth \<noteq> PlanningDepth_None
     \<and> text_ok MAX_OBJECTIVE_BYTES (pl_objective c) \<and> clean to_lowercase (pl_objective c)
     \<and> reject_secret_content (pl_objective c) = None
     \<and> statements_ok MAX_SCOPE_ENTRIES (in_scope (pl_scope c))
     \<and> statements_ok MAX_SCOPE_ENTRIES (out_of_scope (pl_scope c))
     \<and> statements_ok MAX_NON_GOALS (pl_non_goals c)
     \<and> entries_ok MAX_TOUCHPOINTS tp_id touchpoint_ok (pl_touchpoints c)
     \<and> entries_ok MAX_PLAN_CONSTRAINTS pc_id (plan_constraint_ok to_lowercase) (pl_constraints c)
     \<and> entries_ok MAX_RISKS risk_id risk_ok (pl_risks c)
     \<and> pl_steps c \<noteq> []
     \<and> entries_ok (max_steps depth) ps_id
          (plan_step_ok to_lowercase contract (map tp_id (pl_touchpoints c))) (pl_steps c)
     \<and> pv_checks (pl_validation c) \<noteq> [] \<and> statements_ok MAX_VALIDATION_CHECKS (pv_checks (pl_validation c))
     \<and> opt_all (requirements_ok to_lowercase) (pv_requirements (pl_validation c))
     \<and> opt_all (\<lambda>r. text_ok MAX_ROLLBACK_BYTES (rollback_description r)) (pl_rollback c)
     \<and> opt_all (text_ok MAX_RATIONALE_BYTES) (pl_rationale c)"

text \<open>Acceptance is acceptance of every section and of the size.\<close>

definition sections_accept ::
    "(string \<Rightarrow> string) \<Rightarrow> json_object \<Rightarrow> TaskContract \<Rightarrow> PlanningDepth \<Rightarrow> TaskPlanContent \<Rightarrow> bool" where
  "sections_accept to_lowercase obj contract depth c \<longleftrightarrow>
     depth \<noteq> PlanningDepth_None \<and> depth_reasons obj depth = []
     \<and> objective_section to_lowercase obj = ([], Some (pl_objective c))
     \<and> scope_section obj depth = ([], Some (pl_scope c))
     \<and> non_goals_section obj depth = ([], pl_non_goals c)
     \<and> (\<exists>ids. touchpoints_section obj = ([], pl_touchpoints c, ids)
          \<and> steps_section to_lowercase contract depth ids obj = ([], pl_steps c))
     \<and> constraints_section to_lowercase obj = ([], pl_constraints c)
     \<and> risks_section obj = ([], pl_risks c)
     \<and> validation_section to_lowercase obj = ([], Some (pl_validation c))
     \<and> rollback_section obj = ([], pl_rollback c)
     \<and> rationale_section obj = ([], pl_rationale c)"

lemma validate_accepts:
  "validate_plan_candidate sci to_lowercase raw contract depth = Ok c \<longleftrightarrow>
     (\<exists>obj. as_object raw = Some obj \<and> sections_accept to_lowercase obj contract depth c
        \<and> aggregate_candidate_bytes sci obj \<le> MAX_PLAN_CONTENT_BYTES)"
proof (cases "as_object raw")
  case (Some obj)
  show ?thesis
    unfolding validate_plan_candidate_def sections_accept_def Some
    by (cases c) (auto simp: Let_def case_prod_beta prod_eq_iff split: option.splits if_splits)
qed (simp add: validate_plan_candidate_def)

lemma sections_content_ok: "sections_accept to_lowercase obj contract depth c \<Longrightarrow> content_ok to_lowercase contract depth c"
  by (auto simp: sections_accept_def content_ok_def objective_section_accepts scope_section_accepts
      non_goals_section_accepts validation_section_accepts requirements_field_accepts rollback_section_accepts
      rationale_section_def optional_text_accepts text_ok_def bounded_def statements_ok_def
      dest!: touchpoints_section_accepts constraints_section_accepts risks_section_accepts steps_section_accepts)

definition content_fields :: "TaskPlanContent \<Rightarrow> json_object" where
  "content_fields c = the (as_object (content_candidate_value c))"

lemma content_view: "content_candidate_value c = Value_Object (content_fields c)"
  by (simp add: content_fields_def content_candidate_value_def json_object_def)

lemma content_lookup [simp]:
  "bm_get (content_fields c) ''depth'' = None"
  "bm_get (content_fields c) ''objective'' = Some (Value_String (pl_objective c))"
  "bm_get (content_fields c) ''nonGoals'' = Some (json_strings (pl_non_goals c))"
  "bm_get (content_fields c) ''touchpoints'' = Some (Value_Array (map touchpoint_value (pl_touchpoints c)))"
  "bm_get (content_fields c) ''constraints'' = Some (Value_Array (map constraint_value (pl_constraints c)))"
  "bm_get (content_fields c) ''risks'' = Some (Value_Array (map risk_value (pl_risks c)))"
  "bm_get (content_fields c) ''steps'' = Some (Value_Array (map step_value (pl_steps c)))"
  "bm_get (content_fields c) ''rollback'' = map_option (\<lambda>r. json_object [(''description'', Value_String (rollback_description r))]) (pl_rollback c)"
  "bm_get (content_fields c) ''rationale'' = map_option Value_String (pl_rationale c)"
  "bm_get (content_fields c) ''scope'' = Some (json_object [(''inScope'', json_strings (in_scope (pl_scope c))),
     (''outOfScope'', json_strings (out_of_scope (pl_scope c)))])"
  "bm_get (content_fields c) ''validation'' = Some (json_object ([(''checks'', json_strings (pv_checks (pl_validation c)))]
     @ when_some ''requirements'' json_strings (pv_requirements (pl_validation c))))"
  by (simp_all add: content_fields_def content_candidate_value_def json_object_get map_add_def
      del: bm_of_list.simps split: option.splits)

lemma opt_array_json_strings_option [simp]:
  "opt_array (map_option json_strings x) = map_option (map Value_String) x"
  by (cases x) simp_all

lemma checks_lookup:
  "bm_get (bm_of_list [] ((''checks'', v) # when_some ''requirements'' f x)) ''checks'' = Some v"
  "bm_get (bm_of_list [] ((''checks'', v) # when_some ''requirements'' f x)) ''requirements'' = map_option f x"
  by (simp_all add: json_object_get map_add_def del: bm_of_list.simps split: option.splits)

lemma sections_accept_view:
  "sections_accept to_lowercase (content_fields c) contract depth c' \<longleftrightarrow> c' = c \<and> content_ok to_lowercase contract depth c"
proof
  assume s: "sections_accept to_lowercase (content_fields c) contract depth c'"
  have "pl_objective c' = pl_objective c" "pl_scope c' = pl_scope c" "pl_non_goals c' = pl_non_goals c"
      "pl_touchpoints c' = pl_touchpoints c" "pl_constraints c' = pl_constraints c" "pl_risks c' = pl_risks c"
      "pl_steps c' = pl_steps c" "pl_rationale c' = pl_rationale c"
    using s by (auto simp: sections_accept_def objective_section_accepts scope_section_accepts non_goals_section_accepts
        json_object_get touchpoints_section_view constraints_section_view risks_section_view steps_section_view
        rationale_section_def optional_text_view PlanScope.equality simp del: bm_of_list.simps)
  moreover have "pl_validation c' = pl_validation c"
    using s by (cases "pv_requirements (pl_validation c)") (auto simp: sections_accept_def validation_section_accepts requirements_field_accepts
        checks_lookup PlanValidationStrategy.equality simp del: bm_of_list.simps)
  moreover have "pl_rollback c' = pl_rollback c"
    using s by (cases "pl_rollback c") (auto simp: sections_accept_def rollback_section_accepts json_object_def
        json_object_get PlanRollbackStrategy.equality simp del: bm_of_list.simps)
  ultimately have "c' = c"
    by (simp add: TaskPlanContent.equality)
  with sections_content_ok [OF s] show "c' = c \<and> content_ok to_lowercase contract depth c"
    by simp
next
  assume "c' = c \<and> content_ok to_lowercase contract depth c"
  then have c: "c' = c" "content_ok to_lowercase contract depth c"
    by auto
  have "validation_section to_lowercase (content_fields c) = ([], Some (pl_validation c))"
    using c(2) by (cases "pv_requirements (pl_validation c)") (auto simp: content_ok_def validation_section_accepts requirements_field_accepts
        checks_lookup simp del: bm_of_list.simps)
  moreover have "rollback_section (content_fields c) = ([], pl_rollback c)"
    using c(2) by (cases "pl_rollback c") (auto simp: content_ok_def rollback_section_accepts json_object_def
        json_object_get simp del: bm_of_list.simps)
  ultimately show "sections_accept to_lowercase (content_fields c) contract depth c'"
    using c by (auto simp: sections_accept_def content_ok_def depth_reasons_def objective_section_accepts scope_section_accepts
        non_goals_section_accepts json_object_get touchpoints_section_view constraints_section_view risks_section_view
        steps_section_view rationale_section_def optional_text_view text_ok_def [abs_def] bounded_def simp del: bm_of_list.simps)
qed

subsection \<open>What is accepted\<close>

definition content_bytes :: "scientific \<Rightarrow> TaskPlanContent \<Rightarrow> nat" where
  "content_bytes sci c = aggregate_candidate_bytes sci (content_fields c)"


lemma host_validator_accepts:
  "host_validator sci to_lowercase c contract depth = Ok c' \<longleftrightarrow>
     c' = c \<and> content_ok to_lowercase contract depth c \<and> content_bytes sci c \<le> MAX_PLAN_CONTENT_BYTES"
  by (auto simp: host_validator_def validate_accepts content_view sections_accept_view content_bytes_def)

text \<open>
  C40.  Validating stored content again is exact: the JSON view of content is accepted exactly when
  the content is well formed for the contract and the depth and its view is within the byte
  bound, and the validator then gives back the very content.
\<close>

theorem revalidation_exact:
  "host_validator sci to_lowercase c contract depth = Ok c' \<longleftrightarrow>
     c' = c \<and> content_ok to_lowercase contract depth c \<and> content_bytes sci c \<le> MAX_PLAN_CONTENT_BYTES"
  by (rule host_validator_accepts)

lemma light_plan_needs_scope:
  assumes "bm_get obj ''scope'' = None"
  shows "scope_section obj PlanningDepth_Light = ([], None)"
    and "validate_plan_candidate sci to_lowercase (Value_Object obj) contract PlanningDepth_Light \<noteq> Ok c"
  using assms by (auto simp: scope_section_def validate_accepts sections_accept_def)

subsection \<open>Safe paths\<close>

text \<open>
  Where a relative path leads: the names below the root, \<open>None\<close> when it leaves the root.
\<close>

fun resolve :: "string list \<Rightarrow> string list \<Rightarrow> string list option" where
  "resolve here [] = Some here"
| "resolve here (s # ss) =
     (if s = ''..'' then (if here = [] then None else resolve (butlast here) ss)
      else if s = ''.'' \<or> s = [] then resolve here ss
      else resolve (here @ [s]) ss)"

lemma length_resolve: "resolve here ss = Some r \<Longrightarrow> length r \<le> length here + length ss"
  by (induction here ss rule: resolve.induct) (auto split: if_splits)

lemma resolve_self:
  "resolve here ss = Some (here @ ss) \<longleftrightarrow> list_all (\<lambda>s. s \<noteq> ''..'' \<and> s \<noteq> ''.'' \<and> s \<noteq> []) ss"
proof (induction ss arbitrary: here)
  case (Cons s ss)
  show ?case
  proof (cases "s = ''..'' \<or> s = ''.'' \<or> s = []")
    case True
    then have "resolve here (s # ss) \<noteq> Some (here @ s # ss)"
      using length_resolve [of "butlast here" ss "here @ s # ss"] length_resolve [of here ss "here @ s # ss"] by auto
    with True show ?thesis
      by auto
  next
    case False
    with Cons [of "here @ [s]"] show ?thesis
      by simp
  qed
qed simp

lemma question_mark_replace_all: "CHR ''?'' \<in> set (replace_all ''**'' [] s) \<longleftrightarrow> CHR ''?'' \<in> set s"
proof (induction "''**''" "[] :: string" s rule: replace_all.induct)
  case (2 c cs)
  show ?case
  proof (cases "prefix_of ''**'' (c # cs)")
    case True
    then obtain t where "c # cs = CHR ''*'' # CHR ''*'' # t"
      by (auto simp: prefix_of_iff)
    with 2 True show ?thesis
      by (simp add: replace_all.simps(2))
  next
    case False
    then have "replace_all ''**'' [] (c # cs) = c # replace_all ''**'' [] cs"
      by (simp only: replace_all.simps(2) simp_thms if_False)
    with 2(2) False show ?thesis
      by (simp only: list.set insert_iff) blast
  qed
qed simp

lemma hd_split_on_slash: "p \<noteq> [] \<Longrightarrow> hd p = c \<Longrightarrow> [] \<in> set (split_on c p)"
  by (cases p) auto

text \<open>
  Exactly which plan paths are safe: 1 to 1024 bytes, no null byte, no backslash, no drive
  letter, not in the reference or research namespace, no question mark, a star only where
  wildcards are allowed, and the path resolves to itself below the workspace root.
\<close>

theorem safe_plan_path_exact:
  "is_safe_plan_path p allow_glob \<longleftrightarrow>
     1 \<le> length p \<and> length p \<le> 1024 \<and> CHR 0x00 \<notin> set p \<and> CHR 0x5C \<notin> set p
     \<and> \<not> (is_ascii_alphabetic (hd p) \<and> 1 < length p \<and> p ! 1 = CHR '':'')
     \<and> \<not> prefix_of ''@reference/'' p \<and> \<not> prefix_of ''@research/'' p
     \<and> CHR ''?'' \<notin> set p \<and> CHR ''*'' \<notin> (if allow_glob then {} else set p)
     \<and> resolve [] (split_on (CHR ''/'') p) = Some (split_on (CHR ''/'') p)"
  using resolve_self [of "[]" "split_on (CHR ''/'') p"] hd_split_on_slash [of p "CHR ''/''"]
  by (cases "p = []") (auto simp: is_safe_plan_path_def MAX_PATH_BYTES_def list_all_iff list_ex_iff Let_def
      question_mark_replace_all Suc_le_eq)

definition valid_content :: TaskPlanContent where
  "valid_content =
     \<lparr> pl_objective = ''Fix it'', pl_scope = \<lparr> in_scope = [''a''], out_of_scope = [] \<rparr>,
       pl_non_goals = [],
       pl_touchpoints = [\<lparr> tp_id = ''t1'', tp_path = ''src/a.rs'', tp_confidence = TouchpointConfidence_Candidate,
         tp_revision = None, tp_evidence = Some ''read:a'', tp_note = None \<rparr>],
       pl_constraints = [], pl_risks = [],
       pl_steps = [\<lparr> ps_id = ''s1'', ps_title = ''Edit'', ps_description = None, ps_expected_touchpoints = [''t1''],
         ps_verification = Some [''host-verified''] \<rparr>],
       pl_validation = \<lparr> pv_checks = [''test''], pv_requirements = None \<rparr>,
       pl_rollback = None, pl_rationale = None \<rparr>"

lemma valid_content_accepted:
  "validate_plan_candidate (\<lambda>_. None) to_ascii_lowercase (content_candidate_value valid_content) sample_contract
     PlanningDepth_Light = Ok valid_content"
proof -
  have texts: "trim ''Fix it'' \<noteq> []" "trim ''Edit'' \<noteq> []" "id_ok ''t1''" "id_ok ''s1''"
      "clean to_ascii_lowercase ''Fix it''" "clean to_ascii_lowercase ''Edit''" "reject_secret_content ''Fix it'' = None"
      "list_all touchpoint_ok (pl_touchpoints valid_content)"
      "content_bytes (\<lambda>_. None) valid_content \<le> MAX_PLAN_CONTENT_BYTES"
    by code_simp+
  have "crit_id ` set (tc_acceptance_criteria sample_contract) = {''host-verified''}"
    by (simp add: sample_contract_def normalized_def sample_criterion_def trim_criterion_def)
  with texts have "content_ok to_ascii_lowercase sample_contract PlanningDepth_Light valid_content"
    by (simp add: content_ok_def valid_content_def text_ok_def statements_ok_def entries_ok_def plan_step_ok_def
        max_steps_def MAX_OBJECTIVE_BYTES_def MAX_SCOPE_ENTRIES_def MAX_STATEMENT_BYTES_def MAX_NON_GOALS_def
        MAX_TOUCHPOINTS_def MAX_STEPS_LIGHT_def MAX_STEP_TITLE_BYTES_def MAX_EXPECTED_TOUCHPOINTS_PER_STEP_def
        MAX_VERIFICATION_REFS_PER_STEP_def MAX_VALIDATION_CHECKS_def)
  with texts show ?thesis
    by (simp add: host_validator_accepts host_validator_def [symmetric])
qed


text \<open>
  Secrets are looked for in the objective only: the same text that is refused there is accepted
  as the rationale of the plan.
\<close>

definition leaky_content :: TaskPlanContent where
  "leaky_content = valid_content\<lparr>pl_rationale := Some ''token: abcdefgh''\<rparr>"

lemma secret_outside_objective_accepted:
  "reject_secret_content ''token: abcdefgh'' \<noteq> None"
  "host_validator (\<lambda>_. None) to_ascii_lowercase leaky_content sample_contract PlanningDepth_Light = Ok leaky_content"
proof -
  show "reject_secret_content ''token: abcdefgh'' \<noteq> None"
    by code_simp
  have "content_ok to_ascii_lowercase sample_contract PlanningDepth_Light valid_content"
    using valid_content_accepted by (simp add: host_validator_accepts flip: host_validator_def)
  moreover have "trim ''token: abcdefgh'' \<noteq> []" "content_bytes (\<lambda>_. None) leaky_content \<le> MAX_PLAN_CONTENT_BYTES"
    by code_simp+
  ultimately show "host_validator (\<lambda>_. None) to_ascii_lowercase leaky_content sample_contract PlanningDepth_Light = Ok leaky_content"
    by (auto simp: host_validator_accepts content_ok_def leaky_content_def text_ok_def MAX_RATIONALE_BYTES_def)
qed

end
