(* ===== verification/Plan_Flow.thy ===== *)
theory Plan_Flow
  imports Plan_Acceptance Task_Properties
begin

text \<open>
  The planning-depth policy (\<open>planning/policy.rs\<close>) and the planning flow (\<open>planning/flow.rs\<close>)
  over the task handle.  The planner is any function of a state of its own; the clock readings
  of \<open>set_plan\<close> and \<open>approve_plan\<close> are arguments, and the validator of both the flow and the
  handle is \<open>validate_plan_candidate\<close>.
\<close>

subsection \<open>Depth policy\<close>

datatype PlanningDecisionReason =
    PlanningDecisionReason_ExplicitPlanRequest
  | PlanningDecisionReason_InspectionOrNoMutation
  | PlanningDecisionReason_ProtectedConfig
  | PlanningDecisionReason_MultiSubsystem
  | PlanningDecisionReason_ResearchRequired
  | PlanningDecisionReason_CapabilityUncertainty
  | PlanningDecisionReason_SceneResourceRelationships
  | PlanningDecisionReason_MixedSurfaceRelationships
  | PlanningDecisionReason_NarrowRepairKnownSurface
  | PlanningDecisionReason_UnknownSurfaceBounded
  | PlanningDecisionReason_BroadSurfaceOrManyCriteria
  | PlanningDecisionReason_BoundedNonTrivial

fun PlanningDecisionReason_as_str :: "PlanningDecisionReason \<Rightarrow> string" where
  "PlanningDecisionReason_as_str PlanningDecisionReason_ExplicitPlanRequest = ''explicit-plan-request''"
| "PlanningDecisionReason_as_str PlanningDecisionReason_InspectionOrNoMutation = ''inspection-or-no-mutation''"
| "PlanningDecisionReason_as_str PlanningDecisionReason_ProtectedConfig = ''protected-config''"
| "PlanningDecisionReason_as_str PlanningDecisionReason_MultiSubsystem = ''multi-subsystem''"
| "PlanningDecisionReason_as_str PlanningDecisionReason_ResearchRequired = ''research-required''"
| "PlanningDecisionReason_as_str PlanningDecisionReason_CapabilityUncertainty = ''capability-uncertainty''"
| "PlanningDecisionReason_as_str PlanningDecisionReason_SceneResourceRelationships = ''scene-resource-relationships''"
| "PlanningDecisionReason_as_str PlanningDecisionReason_MixedSurfaceRelationships = ''mixed-surface-relationships''"
| "PlanningDecisionReason_as_str PlanningDecisionReason_NarrowRepairKnownSurface = ''narrow-repair-known-surface''"
| "PlanningDecisionReason_as_str PlanningDecisionReason_UnknownSurfaceBounded = ''unknown-surface-bounded''"
| "PlanningDecisionReason_as_str PlanningDecisionReason_BroadSurfaceOrManyCriteria = ''broad-surface-or-many-criteria''"
| "PlanningDecisionReason_as_str PlanningDecisionReason_BoundedNonTrivial = ''bounded-non-trivial''"

record PlanningDecision =
  pd_depth :: PlanningDepth
  pd_reason :: PlanningDecisionReason

datatype SurfaceKind = SurfaceKind_ScriptOnly | SurfaceKind_NativeOnly | SurfaceKind_Mixed | SurfaceKind_None

fun SurfaceKind_as_str :: "SurfaceKind \<Rightarrow> string" where
  "SurfaceKind_as_str SurfaceKind_ScriptOnly = ''script_only''"
| "SurfaceKind_as_str SurfaceKind_NativeOnly = ''native_only''"
| "SurfaceKind_as_str SurfaceKind_Mixed = ''mixed''"
| "SurfaceKind_as_str SurfaceKind_None = ''none''"

datatype RequestedDepth = RequestedDepth_Light | RequestedDepth_Full

record PlanningDecisionInput =
  di_request :: string
  di_explicit_plan_request :: bool
  di_requested_depth :: "RequestedDepth option"
  di_inspection_only :: bool
  di_expected_mutation :: bool
  di_acceptance_criterion_count :: nat
  di_protected_config_involved :: bool
  di_spans_multiple_subsystems :: bool
  di_research_required :: bool
  di_capability_uncertainty :: bool
  di_narrow_repair :: bool
  di_known_touchpoints :: nat
  di_involves_godot_scene_or_resource :: "bool option"
  di_surface :: "SurfaceKind option"

definition decision :: "PlanningDepth \<Rightarrow> PlanningDecisionReason \<Rightarrow> PlanningDecision" where
  "decision depth reason = \<lparr> pd_depth = depth, pd_reason = reason \<rparr>"

definition decide :: "PlanningDecisionInput \<Rightarrow> PlanningDecision" where
  "decide i =
     (if di_explicit_plan_request i then
        decision (case di_requested_depth i of
            Some RequestedDepth_Light \<Rightarrow> PlanningDepth_Light
          | Some RequestedDepth_Full \<Rightarrow> PlanningDepth_Full
          | None \<Rightarrow> PlanningDepth_Full) PlanningDecisionReason_ExplicitPlanRequest
      else if di_inspection_only i \<or> \<not> di_expected_mutation i then
        decision PlanningDepth_None PlanningDecisionReason_InspectionOrNoMutation
      else if di_protected_config_involved i then decision PlanningDepth_Full PlanningDecisionReason_ProtectedConfig
      else if di_spans_multiple_subsystems i then decision PlanningDepth_Full PlanningDecisionReason_MultiSubsystem
      else if di_research_required i then decision PlanningDepth_Full PlanningDecisionReason_ResearchRequired
      else if di_capability_uncertainty i then
        decision PlanningDepth_Full PlanningDecisionReason_CapabilityUncertainty
      else if di_involves_godot_scene_or_resource i = Some True
          \<and> (2 < di_known_touchpoints i \<or> 3 \<le> di_acceptance_criterion_count i) then
        decision PlanningDepth_Full PlanningDecisionReason_SceneResourceRelationships
      else if di_surface i = Some SurfaceKind_Mixed then
        decision PlanningDepth_Full PlanningDecisionReason_MixedSurfaceRelationships
      else if di_narrow_repair i \<and> 0 < di_known_touchpoints i \<and> di_known_touchpoints i \<le> 2 then
        decision PlanningDepth_None PlanningDecisionReason_NarrowRepairKnownSurface
      else if di_known_touchpoints i = 0 then
        decision PlanningDepth_Light PlanningDecisionReason_UnknownSurfaceBounded
      else if 4 \<le> di_acceptance_criterion_count i \<or> 4 < di_known_touchpoints i then
        decision PlanningDepth_Full PlanningDecisionReason_BroadSurfaceOrManyCriteria
      else decision PlanningDepth_Light PlanningDecisionReason_BoundedNonTrivial)"

subsection \<open>The flow\<close>

record PlannerRequest =
  plr_request :: string
  plr_contract :: TaskContract
  plr_depth :: PlanningDepth

datatype PlannerOutcome =
    PlannerOutcome_Ready Value
  | PlannerOutcome_Failed string
  | PlannerOutcome_Cancelled
  | PlannerOutcome_TimedOut string

type_synonym 'p PlannerPort = "PlannerRequest \<Rightarrow> 'p \<Rightarrow> 'p \<times> PlannerOutcome"

datatype PlanFlowResult =
    PlanFlowResult_Routed PlanningDecision
  | PlanFlowResult_Planned PlanningDecision TaskPlan
  | PlanFlowResult_Failed "PlanningDecision option" string
  | PlanFlowResult_Cancelled "PlanningDecision option"
  | PlanFlowResult_TimedOut "PlanningDecision option" string

fun PlanFlowResult_status :: "PlanFlowResult \<Rightarrow> string" where
  "PlanFlowResult_status (PlanFlowResult_Routed _) = ''routed''"
| "PlanFlowResult_status (PlanFlowResult_Planned _ _) = ''planned''"
| "PlanFlowResult_status (PlanFlowResult_Failed _ _) = ''failed''"
| "PlanFlowResult_status (PlanFlowResult_Cancelled _) = ''cancelled''"
| "PlanFlowResult_status (PlanFlowResult_TimedOut _ _) = ''timed_out''"

record PlanningFlowState =
  fs_routed :: "PlanningDecision option"

definition PlanningFlowState_new :: PlanningFlowState where
  "PlanningFlowState_new = \<lparr> fs_routed = None \<rparr>"

definition route :: "PlanningDecisionInput \<Rightarrow> PlanningFlowState \<Rightarrow> TaskRecord
    \<Rightarrow> PlanningFlowState \<times> TaskRecord \<times> PlanningDecision" where
  "route input fs r =
     (let d = decide input
      in (fs\<lparr>fs_routed := Some d\<rparr>, route_planning (pd_depth d) (PlanningDecisionReason_as_str (pd_reason d)) r, d))"

definition flow_decision :: "PlanningFlowState \<Rightarrow> PlanningDecision option" where
  "flow_decision fs = fs_routed fs"

definition flow_fail :: "PlanningFlowState \<Rightarrow> string \<Rightarrow> TaskRecord \<Rightarrow> TaskRecord \<times> PlanFlowResult" where
  "flow_fail fs msg r = (reject_plan msg r, PlanFlowResult_Failed (fs_routed fs) msg)"

text \<open>The next plan of the task: a revision of the current plan when it has the id of the flow.\<close>

definition next_plan :: "PlanningDecision \<Rightarrow> TaskPlanContent \<Rightarrow> int \<Rightarrow> TaskRecord \<Rightarrow> string + TaskPlan" where
  "next_plan routed content now r =
     (let i = ''plan-'' @ tr_id r;
          contract = tr_contract r;
          create = create_task_plan \<lparr> cpi_id = i, cpi_task_id = tr_id r,
            cpi_task_contract_revision = tc_revision contract,
            cpi_task_contract_digest = tc_digest contract,
            cpi_depth = pd_depth routed, cpi_content = content, cpi_created_at = now \<rparr>
      in case last_opt (tr_plans r) of
           Some previous \<Rightarrow>
             if plan_id previous = i then
               revise_task_plan previous \<lparr> rpi_content = content, rpi_task_contract_digest = Some (tc_digest contract) \<rparr>
             else create
         | None \<Rightarrow> create)"

definition store_candidate ::
    "scientific \<Rightarrow> (string \<Rightarrow> string) \<Rightarrow> PlanningFlowState \<Rightarrow> PlanningDecision \<Rightarrow> int \<Rightarrow> int \<Rightarrow> Value \<Rightarrow> TaskRecord
      \<Rightarrow> TaskRecord \<times> PlanFlowResult" where
  "store_candidate sci to_lowercase fs routed now clock candidate r =
     (case validate_plan_candidate sci to_lowercase candidate (tr_contract r) (pd_depth routed) of
        Err reasons \<Rightarrow> flow_fail fs (''The planner returned an invalid plan: '' @ join_space reasons) r
      | Ok content \<Rightarrow>
         (case next_plan routed content now r of
            Err msg \<Rightarrow> flow_fail fs msg r
          | Ok plan \<Rightarrow>
             (case set_plan (host_validator sci to_lowercase) clock plan r of
                (r', Err reason) \<Rightarrow> flow_fail fs reason r'
              | (r', Ok _) \<Rightarrow> (r', PlanFlowResult_Planned routed plan))))"

definition flow_run ::
    "scientific \<Rightarrow> (string \<Rightarrow> string) \<Rightarrow> 'p PlannerPort \<Rightarrow> PlanningFlowState \<Rightarrow> int \<Rightarrow> int \<Rightarrow> 'p \<times> TaskRecord
      \<Rightarrow> ('p \<times> TaskRecord) \<times> PlanFlowResult" where
  "flow_run sci to_lowercase planner fs now clock = (\<lambda>(p, r).
     case fs_routed fs of
       None \<Rightarrow> ((p, r), PlanFlowResult_Failed
           (Some (decision PlanningDepth_None PlanningDecisionReason_InspectionOrNoMutation))
           ''Planning was not routed before run; the host must route planning first.'')
     | Some routed \<Rightarrow>
         if pd_depth routed = PlanningDepth_None then ((p, r), PlanFlowResult_Routed routed)
         else if is_terminal_phase (ts_phase (tr_state r)) then
           ((p, r), PlanFlowResult_Failed (Some routed)
             (''Planning cannot run for a terminal task ('' @ TaskPhase_as_str (ts_phase (tr_state r)) @ '').''))
         else
           let (p, outcome) = planner \<lparr> plr_request = tc_request (tr_contract r), plr_contract = tr_contract r,
                 plr_depth = pd_depth routed \<rparr> p
           in case outcome of
                PlannerOutcome_Cancelled \<Rightarrow> ((p, r), PlanFlowResult_Cancelled (fs_routed fs))
              | PlannerOutcome_TimedOut msg \<Rightarrow> ((p, r), PlanFlowResult_TimedOut (fs_routed fs) msg)
              | PlannerOutcome_Failed msg \<Rightarrow> (let (r, result) = flow_fail fs msg r in ((p, r), result))
              | PlannerOutcome_Ready candidate \<Rightarrow>
                  (let (r, result) = store_candidate sci to_lowercase fs routed now clock candidate r
                   in ((p, r), result)))"

definition flow_approve :: "int \<Rightarrow> TaskRecord \<Rightarrow> TaskRecord \<times> (string + unit)" where
  "flow_approve now r =
     (case last_opt (tr_plans r) of
        None \<Rightarrow> (r, Err ''No current plan exists to approve.'')
      | Some current \<Rightarrow> approve_plan now (plan_id current) (plan_revision current) r)"

definition mutation_execution_blocked :: "PlanningFlowState \<Rightarrow> TaskRecord \<Rightarrow> bool \<Rightarrow> string option" where
  "mutation_execution_blocked fs r meaningful =
     (let state = ts_plan (tr_state r);
          full = (case fs_routed fs of Some d \<Rightarrow> pd_depth d = PlanningDepth_Full | None \<Rightarrow> False)
      in if tps_state state = TaskPlanStateKind_Stale then
           Some (''The current plan is stale (''
             @ (case tps_stale_reason state of Some reason \<Rightarrow> reason | None \<Rightarrow> ''plan invalidated'')
             @ ''); revalidate or replan before mutation.'')
         else if full \<and> \<not> meaningful then
           Some ''Full-plan execution requires explicit acceptance criteria in the TaskContract (at least two criteria, one host-verifiable); the contract does not meet that bar, so mutation execution is blocked.''
         else if full \<and> (tps_state state \<noteq> TaskPlanStateKind_Current \<or> tps_plan_id state = None
             \<or> tps_depth state \<noteq> PlanningDepth_Full) then
           Some ''Full-plan execution requires a current full plan; no matching current plan exists, so mutation execution is blocked.''
         else if full \<and> tps_approval state \<noteq> TaskPlanApprovalKind_Approved then
           Some ''Full-plan execution requires approval of the exact current plan revision; approval is absent or invalidated, so mutation execution is blocked.''
         else None)"

end
