(* ===== verification/Plan_Flow_Properties.thy ===== *)
theory Plan_Flow_Properties
  imports Plan_Flow
begin

text \<open>
  Properties of the planning flow over the task runtime: the flow drives the task through its
  handle only, every stored plan is well-formed content for the contract revision it is bound
  to, and an open gate for full plans means an approved plan of that kind.  Two theorems
  record defects of the flow.
\<close>

subsection \<open>What a run of the flow does\<close>

text \<open>The planner is asked only for a task that is live and routed to some planning.\<close>

definition planner_asked :: "PlanningFlowState \<Rightarrow> TaskRecord \<Rightarrow> bool" where
  "planner_asked fs r \<longleftrightarrow> (\<exists>d. fs_routed fs = Some d \<and> pd_depth d \<noteq> PlanningDepth_None)
     \<and> \<not> is_terminal_phase (ts_phase (tr_state r))"

definition planner_request :: "PlanningDecision \<Rightarrow> TaskRecord \<Rightarrow> PlannerRequest" where
  "planner_request d r = \<lparr> plr_request = tc_request (tr_contract r), plr_contract = tr_contract r, plr_depth = pd_depth d \<rparr>"

text \<open>The abstract effect of a run on the task, read off its result.\<close>

definition flow_effect :: "bool \<Rightarrow> int \<Rightarrow> PlanFlowResult \<Rightarrow> TaskRecord \<Rightarrow> TaskRecord" where
  "flow_effect asked clock result r =
     (case result of
        PlanFlowResult_Planned d plan \<Rightarrow> store_plan clock plan r
      | PlanFlowResult_Failed d msg \<Rightarrow> if asked then reject_plan msg r else r
      | _ \<Rightarrow> r)"

text \<open>What a stored plan is: validated content for the routed depth, bound to the task and its contract.\<close>

definition plan_for ::
    "(string \<Rightarrow> string) \<Rightarrow> PlanningDecision \<Rightarrow> TaskRecord \<Rightarrow> TaskPlanContent \<Rightarrow> TaskPlan \<Rightarrow> bool" where
  "plan_for to_lowercase d r content plan \<longleftrightarrow>
     plan_content plan = content \<and> content_ok to_lowercase (tr_contract r) (plan_depth plan) content
     \<and> plan_id plan = ''plan-'' @ tr_id r \<and> plan_task_id plan = tr_id r
     \<and> plan_contract_revision plan = tc_revision (tr_contract r)
     \<and> plan_contract_digest_bound plan = tc_digest (tr_contract r)
     \<and> (case last_opt (tr_plans r) of
          Some previous \<Rightarrow> if plan_id previous = plan_id plan
            then plan_revision plan = plan_revision previous + 1 \<and> plan_depth plan = plan_depth previous
            else plan_revision plan = 1 \<and> plan_depth plan = pd_depth d
        | None \<Rightarrow> plan_revision plan = 1 \<and> plan_depth plan = pd_depth d)"

lemma next_plan_Ok:
  assumes "next_plan d content now r = Ok plan"
  shows "plan_content plan = content" "plan_id plan = ''plan-'' @ tr_id r"
    "plan_contract_digest_bound plan = tc_digest (tr_contract r)"
    "case last_opt (tr_plans r) of
          Some previous \<Rightarrow> if plan_id previous = plan_id plan
            then plan_revision plan = plan_revision previous + 1 \<and> plan_depth plan = plan_depth previous
            else plan_revision plan = 1 \<and> plan_depth plan = pd_depth d
        | None \<Rightarrow> plan_revision plan = 1 \<and> plan_depth plan = pd_depth d"
  using assms
  by (auto simp: next_plan_def Let_def create_task_plan_def revise_task_plan_def result_bind_Ok_iff
      split: option.splits if_splits)

lemma plan_binding_None:
  "plan_binding_rejection p r = None \<Longrightarrow>
     plan_contract_revision p = tc_revision (tr_contract r) \<and> plan_task_id p = tr_id r"
  by (auto simp: plan_binding_rejection_def split: option.splits if_splits)

lemma store_candidate_cases:
  obtains (failed) msg where "store_candidate sci to_lowercase fs d now clock candidate r = (reject_plan msg r, PlanFlowResult_Failed (fs_routed fs) msg)"
  | (stored) content plan where
      "validate_plan_candidate sci to_lowercase candidate (tr_contract r) (pd_depth d) = Ok content"
      "plan_for to_lowercase d r content plan"
      "set_plan (host_validator sci to_lowercase) clock plan r = (store_plan clock plan r, Ok ())"
      "store_candidate sci to_lowercase fs d now clock candidate r = (store_plan clock plan r, PlanFlowResult_Planned d plan)"
proof -
  let ?v = "host_validator sci to_lowercase"
  show thesis
  proof (cases "validate_plan_candidate sci to_lowercase candidate (tr_contract r) (pd_depth d)")
    case (Inl reasons)
    then show thesis
      by (intro failed) (simp add: store_candidate_def flow_fail_def)
  next
    case content: (Inr content)
    show thesis
    proof (cases "next_plan d content now r")
      case (Inl msg)
      with content show thesis
        by (intro failed) (simp add: store_candidate_def flow_fail_def)
    next
      case plan: (Inr plan)
      show thesis
      proof (cases rule: set_plan_cases [where v = ?v and now = clock and p = plan and r = r])
        case (rejected e)
        with content plan show thesis
          by (intro failed) (simp add: store_candidate_def flow_fail_def)
      next
        case (stored again)
        then have "again = content" and ok: "content_ok to_lowercase (tr_contract r) (plan_depth plan) content"
          using next_plan_Ok(1) [OF plan] by (simp_all add: host_validator_accepts)
        moreover have "plan\<lparr>plan_content := content\<rparr> = plan"
          using next_plan_Ok(1) [OF plan] by (cases plan) simp
        ultimately have set_p: "set_plan ?v clock plan r = (store_plan clock plan r, Ok ())"
          using stored(5) by simp
        have "plan_task_id plan = tr_id r \<and> plan_contract_revision plan = tc_revision (tr_contract r)"
          using plan_binding_None [OF stored(1)] by simp
        with next_plan_Ok [OF plan] ok have "plan_for to_lowercase d r content plan"
          by (simp add: plan_for_def)
        from that(2) [OF content this set_p] content plan set_p show thesis
          by (simp add: store_candidate_def)
      qed
    qed
  qed
qed

text \<open>
  C7.  A run of the flow stores a plan exactly when it says so: when the result is a plan, the task
  was live and routed, the planner proposed a candidate that the validator accepts at the routed
  depth as the content of the plan, the plan is bound to the task and its current contract
  and continues the plan of the flow or starts at revision 1, and the task is the old one with
  this plan stored; a failure after the planner was asked only logs the rejection, and a
  cancelled, timed out or merely routed run, and one that never asked the planner, leave the
  task as it was.
\<close>

theorem flow_run_stores_validated_plans_only:
  assumes "flow_run sci to_lowercase planner fs now clock (p, r) = ((p', r'), result)"
  shows "r' = flow_effect (planner_asked fs r) clock result r
    \<and> (if planner_asked fs r then \<exists>d. fs_routed fs = Some d \<and> p' = fst (planner (planner_request d r) p) else p' = p)
    \<and> (\<forall>d plan. result = PlanFlowResult_Planned d plan \<longrightarrow>
         planner_asked fs r \<and> fs_routed fs = Some d
         \<and> (\<exists>candidate content. snd (planner (planner_request d r) p) = PlannerOutcome_Ready candidate
              \<and> validate_plan_candidate sci to_lowercase candidate (tr_contract r) (pd_depth d) = Ok content
              \<and> plan_for to_lowercase d r content plan))"
proof (cases "planner_asked fs r")
  case False
  then show ?thesis
    using assms by (auto simp: planner_asked_def flow_run_def flow_effect_def split: option.splits if_splits)
next
  case True
  then obtain d where d: "fs_routed fs = Some d" "pd_depth d \<noteq> PlanningDepth_None"
      "\<not> is_terminal_phase (ts_phase (tr_state r))"
    by (auto simp: planner_asked_def)
  obtain q outcome where o: "planner (planner_request d r) p = (q, outcome)"
    by fastforce
  have run: "flow_run sci to_lowercase planner fs now clock (p, r) =
      (case outcome of
         PlannerOutcome_Cancelled \<Rightarrow> ((q, r), PlanFlowResult_Cancelled (Some d))
       | PlannerOutcome_TimedOut msg \<Rightarrow> ((q, r), PlanFlowResult_TimedOut (Some d) msg)
       | PlannerOutcome_Failed msg \<Rightarrow> ((q, reject_plan msg r), PlanFlowResult_Failed (Some d) msg)
       | PlannerOutcome_Ready candidate \<Rightarrow>
           (let (r, result) = store_candidate sci to_lowercase fs d now clock candidate r in ((q, r), result)))"
    using d o by (simp add: flow_run_def flow_fail_def planner_request_def split: PlannerOutcome.split)
  show ?thesis
  proof (cases outcome)
    case (PlannerOutcome_Ready candidate)
    then show ?thesis
      using assms True d o unfolding run
      by (cases rule: store_candidate_cases [where sci = sci and to_lowercase = to_lowercase and fs = fs and d = d
            and now = now and clock = clock and candidate = candidate and r = r])
        (auto simp: flow_effect_def)
  qed (use assms True d o in \<open>auto simp: run flow_effect_def\<close>)
qed

text \<open>Routing, running and approving keep a task reachable, so every invariant of tasks holds along the flow.\<close>

lemma flow_keeps_task_reachable:
  assumes "task_reachable (host_validator sci to_lowercase) r"
  shows "task_reachable (host_validator sci to_lowercase) (snd (fst (flow_run sci to_lowercase planner fs now clock (p, r))))"
    and "task_reachable (host_validator sci to_lowercase) (fst (snd (route input fs r)))"
    and "task_reachable (host_validator sci to_lowercase) (fst (flow_approve now r))"
proof -
  let ?v = "host_validator sci to_lowercase"
  have step: "task_reachable ?v (apply_op ?v x r)" for x
    by (rule reachable.step [OF assms])
  have stored: "task_reachable ?v (fst (store_candidate sci to_lowercase fs d now clock candidate r))" for d candidate
  proof (cases rule: store_candidate_cases [where sci = sci and to_lowercase = to_lowercase and fs = fs and d = d
            and now = now and clock = clock and candidate = candidate and r = r])
    case (failed msg)
    then show ?thesis
      using step [of "Op_reject_plan msg"] by simp
  next
    case (stored content plan)
    then show ?thesis
      using step [of "Op_set_plan clock plan"] by simp
  qed
  show "task_reachable ?v (snd (fst (flow_run sci to_lowercase planner fs now clock (p, r))))"
    using assms stored step [of "Op_reject_plan _"]
    by (simp add: flow_run_def flow_fail_def case_prod_beta split: option.split PlannerOutcome.split)
  show "task_reachable ?v (fst (snd (route input fs r)))"
    using step [of "Op_route_planning _ _"] by (simp add: route_def Let_def)
  show "task_reachable ?v (fst (flow_approve now r))"
    using assms step [of "Op_approve_plan _ _ _"] by (simp add: flow_approve_def split: option.split)
qed

subsection \<open>Stored plans\<close>

definition plans_valid :: "(string \<Rightarrow> string) \<Rightarrow> TaskRecord \<Rightarrow> bool" where
  "plans_valid to_lowercase r \<longleftrightarrow> (\<forall>p \<in> set (tr_plans r). \<exists>k \<in> set (tr_contract_revisions r).
     tc_revision k = plan_contract_revision p \<and> content_ok to_lowercase k (plan_depth p) (plan_content p))"

lemma tr_plans_frame: "(\<And>now p. op \<noteq> Op_set_plan now p) \<Longrightarrow> tr_plans (apply_op v op r) = tr_plans r"
  by (cases op) (auto simp: op_defs Let_def split: op_splits)

lemma contract_revisions_grow: "set (tr_contract_revisions r) \<subseteq> set (tr_contract_revisions (apply_op v op r))"
  by (cases op) (auto simp: op_defs Let_def split: op_splits)

lemma reachable_plans_valid:
  assumes "task_reachable (host_validator sci to_lowercase) r"
  shows "plans_valid to_lowercase r"
  using assms
proof (induction rule: reachable.induct)
  case (start r)
  then show ?case
    by (auto simp: fresh_task_def plans_valid_def)
next
  case (step r op)
  let ?v = "host_validator sci to_lowercase"
  have "tr_contract r \<in> set (tr_contract_revisions r)"
    using task_log.reachable_inv [OF step.hyps] by (auto simp: task_inv_def contract_inv_def dest: last_opt_Some_set)
  show ?case
  proof (cases "\<exists>now p. op = Op_set_plan now p")
    case False
    then have "tr_plans (apply_op ?v op r) = tr_plans r"
      by (intro tr_plans_frame) blast
    with step.IH contract_revisions_grow [of r ?v op] show ?thesis
      by (force simp: plans_valid_def)
  next
    case True
    then obtain now p where op: "op = Op_set_plan now p"
      by blast
    show ?thesis
    proof (cases rule: set_plan_cases [where v = ?v and now = now and p = p and r = r])
      case (rejected e)
      with op step.IH show ?thesis
        by simp
    next
      case (stored content)
      then have "content_ok to_lowercase (tr_contract r) (plan_depth p) content"
        by (simp add: host_validator_accepts)
      with stored plan_binding_None [OF stored(1)] \<open>tr_contract r \<in> _\<close>
      have "\<exists>k \<in> set (tr_contract_revisions r). tc_revision k = plan_contract_revision p
          \<and> content_ok to_lowercase k (plan_depth p) content"
        by auto
      moreover have "tr_contract_revisions (apply_op ?v op r) = tr_contract_revisions r"
        by (simp add: op stored store_plan_def observe_def Let_def)
      ultimately show ?thesis
        using step.IH stored by (auto simp: op plans_valid_def)
    qed
  qed
qed

lemma consecutive_last:
  "consecutive cs \<Longrightarrow> last_opt cs = Some c \<Longrightarrow> k \<in> set cs \<Longrightarrow> k = c \<or> tc_revision k < tc_revision c"
proof (induction cs arbitrary: k rule: consecutive.induct)
  case (1 a b cs)
  then have tail: "last_opt (b # cs) = Some c" "consecutive (b # cs)" and "tc_revision b = tc_revision a + 1"
      and "k = a \<or> k \<in> set (b # cs)"
    by (auto simp: last_opt_def)
  moreover have "b = c \<or> tc_revision b < tc_revision c"
    using "1.IH" [of b] tail by simp
  ultimately show ?case
    using "1.IH" [of k] by auto
qed (auto simp: last_opt_def)

lemma tr_plans_reject: "tr_plans (reject_plan msg r) = tr_plans r"
  by (simp add: reject_plan_def)

lemma reachable_facts:
  assumes "task_reachable v r"
  shows "approval_inv r" "contract_inv r" "consecutive (tr_contract_revisions r)"
  using task_log.reachable_inv [OF assms] by (simp_all add: task_inv_def)

text \<open>
  C8.  Every plan a task stores is well formed: at any time of a task whose plans went through
  the validator, each stored plan has well-formed content for its depth and for the contract
  revision it is bound to, which the task still holds.
\<close>

theorem stored_plans_are_well_formed:
  assumes "task_reachable (host_validator sci to_lowercase) r" and "p \<in> set (tr_plans r)"
  shows "\<exists>k \<in> set (tr_contract_revisions r). tc_revision k = plan_contract_revision p
    \<and> content_ok to_lowercase k (plan_depth p) (plan_content p)"
  using reachable_plans_valid [OF assms(1)] assms(2) by (auto simp: plans_valid_def)

text \<open>
  C6.  The mutation gate of a full plan: when the host routed a full plan and the gate does not
  block, the contract has meaningful acceptance criteria, the task holds an approval of
  exactly its current plan for exactly the current contract, and the content of that plan is
  well formed for that contract.
\<close>

theorem full_gate_needs_approved_plan:
  assumes "task_reachable (host_validator sci to_lowercase) r"
    and "fs_routed fs = Some d" and "pd_depth d = PlanningDepth_Full"
    and "mutation_execution_blocked fs r (has_meaningful_acceptance_criteria (tr_contract r)) = None"
  shows "has_meaningful_acceptance_criteria (tr_contract r)
    \<and> (\<exists>a p. tr_plan_approval r = Some a \<and> last_opt (tr_plans r) = Some p
        \<and> pa_plan_id a = plan_id p \<and> pa_plan_revision a = plan_revision p
        \<and> pa_plan_digest a = digest_value (plan_digest p) \<and> pa_contract_digest a = tc_digest (tr_contract r)
        \<and> content_ok to_lowercase (tr_contract r) (plan_depth p) (plan_content p))"
proof -
  have gate: "has_meaningful_acceptance_criteria (tr_contract r)"
      "tps_approval (ts_plan (tr_state r)) = TaskPlanApprovalKind_Approved"
    using assms(2-4) by (auto simp: mutation_execution_blocked_def Let_def split: if_splits)
  note facts = reachable_facts [OF assms(1)]
  from gate(2) facts(1) obtain a p where p: "tr_plan_approval r = Some a" "last_opt (tr_plans r) = Some p"
      "approval_binds a p (tr_contract r)"
    by (auto simp: approval_inv_def approval_ok_def split: option.splits)
  then obtain k where k: "k \<in> set (tr_contract_revisions r)" "tc_revision k = plan_contract_revision p"
      "content_ok to_lowercase k (plan_depth p) (plan_content p)"
    using reachable_plans_valid [OF assms(1)] last_opt_Some_set [OF p(2)] by (auto simp: plans_valid_def)
  have "k = tr_contract r"
    using consecutive_last [OF facts(3) _ k(1)] facts(2) k(2) p(3) by (auto simp: contract_inv_def approval_binds_def)
  with gate(1) p k(3) show ?thesis
    by (auto simp: approval_binds_def)
qed

text \<open>
  A light plan can open the gate of full plans: when a task holds an approved light plan
  and the host routes a full plan, routing overwrites the recorded depth, so the gate no longer
  blocks although the approved plan is the light one.
\<close>

theorem rerouting_opens_full_gate:
  assumes "task_reachable validate r" and "tr_plan_approval r \<noteq> None"
    and "last_opt (tr_plans r) = Some p" and "plan_depth p = PlanningDepth_Light"
    and "\<not> is_terminal_phase (ts_phase (tr_state r))" and "pd_depth (decide input) = PlanningDepth_Full"
  shows "mutation_execution_blocked (fst (route input fs r)) (fst (snd (route input fs r))) True = None
    \<and> last_opt (tr_plans (fst (snd (route input fs r)))) = Some p"
proof -
  have "approval_inv r" "plan_ref_inv r"
    using task_log.reachable_inv [OF assms(1)] by (simp_all add: task_inv_def)
  then have "tps_state (ts_plan (tr_state r)) = TaskPlanStateKind_Current"
      "tps_approval (ts_plan (tr_state r)) = TaskPlanApprovalKind_Approved"
      "tps_plan_id (ts_plan (tr_state r)) = Some (plan_id p)"
    using assms(2,3) by (auto simp: approval_inv_def approval_ok_def plan_ref_inv_def split: option.splits)
  with assms(3,5,6) show ?thesis
    by (simp add: route_def route_planning_def Let_def mutation_execution_blocked_def terminal_reason_def)
qed

lemma revised_task:
  assumes "revise_contract changes r = (r', Ok k)" and "last_opt (tr_plans r) = Some p"
  shows "tr_plans r' = tr_plans r \<and> tr_id r' = tr_id r \<and> tc_revision (tr_contract r') = tc_revision (tr_contract r) + 1
    \<and> tps_state (ts_plan (tr_state r')) = TaskPlanStateKind_Stale"
proof -
  from assms(1) obtain "terminal_reason r = None" and k: "TaskContract_revise (tr_contract r) changes = Ok k"
    by (auto simp: revise_contract_def Let_def split: if_splits sum.splits)
  with assms TaskContract_revise_Ok [OF k] show ?thesis
    by (cases "tr_plan_approval r")
      (auto simp: revise_contract_def invalidate_plan_for_contract_revision_def invalidate_plan_def Let_def)
qed

lemma next_plan_keeps_binding:
  assumes "next_plan routed content now r = Ok plan" and "last_opt (tr_plans r) = Some p" and "plan_id p = ''plan-'' @ tr_id r"
  shows "plan_contract_revision plan = plan_contract_revision p"
  using assms by (auto simp: next_plan_def Let_def revise_task_plan_def result_bind_Ok_iff split: if_splits)

lemma unbound_plan_fails:
  assumes "\<And>content plan. next_plan routed content now r = Ok plan \<Longrightarrow> plan_contract_revision plan \<noteq> tc_revision (tr_contract r)"
  shows "\<exists>msg. store_candidate sci to_lowercase fs routed now clock candidate r = flow_fail fs msg r"
proof -
  have "\<exists>e. set_plan (host_validator sci to_lowercase) clock plan r = (r, Err e)"
      if "next_plan routed content now r = Ok plan" for content plan
    by (cases rule: set_plan_cases [where v = "host_validator sci to_lowercase" and now = clock and p = plan and r = r])
      (use assms [OF that] plan_binding_None [of plan r] in auto)
  then show ?thesis
    unfolding store_candidate_def by (auto split: sum.split) fastforce
qed

text \<open>
  After a contract revision the flow cannot plan again: the plan id of the flow never
  changes, so the next plan is a revision of the old one and keeps its binding to the old
  contract revision, which the task refuses; the gate stays blocked by the stale plan.
\<close>

theorem flow_cannot_replan_after_revision:
  assumes "last_opt (tr_plans r) = Some p" and "plan_id p = ''plan-'' @ tr_id r"
    and "plan_contract_revision p = tc_revision (tr_contract r)"
    and "revise_contract changes r = (r', Ok k)"
  shows "snd (flow_run sci to_lowercase planner fs now clock (s, r')) \<noteq> PlanFlowResult_Planned d q
    \<and> tr_plans (snd (fst (flow_run sci to_lowercase planner fs now clock (s, r')))) = tr_plans r
    \<and> mutation_execution_blocked fs r' meaningful \<noteq> None"
proof -
  have r': "tr_plans r' = tr_plans r" "tr_id r' = tr_id r" "tc_revision (tr_contract r') = tc_revision (tr_contract r) + 1"
      "tps_state (ts_plan (tr_state r')) = TaskPlanStateKind_Stale"
    using revised_task [OF assms(4,1)] by simp_all
  have stale: "plan_contract_revision plan \<noteq> tc_revision (tr_contract r')" if "next_plan routed content now r' = Ok plan" for routed content plan
    using next_plan_keeps_binding [OF that, of p] assms(1-3) r' by simp
  have fails: "\<exists>msg. store_candidate sci to_lowercase fs routed now clock candidate r' = flow_fail fs msg r'" for routed candidate
    by (rule unbound_plan_fails) (rule stale)
  have "snd (store_candidate sci to_lowercase fs routed now clock candidate r') \<noteq> PlanFlowResult_Planned d q
      \<and> tr_plans (fst (store_candidate sci to_lowercase fs routed now clock candidate r')) = tr_plans r'" for routed candidate
    using fails [of routed candidate] by (auto simp: flow_fail_def tr_plans_reject)
  then show ?thesis
    using r' by (simp add: flow_run_def flow_fail_def tr_plans_reject mutation_execution_blocked_def Let_def case_prod_beta
        split: option.split PlannerOutcome.split)
qed


subsection \<open>A task with an approved full plan\<close>

definition full_contract :: TaskContract where
  "full_contract = normalized ''task-1'' ''fix'' None []
     [sample_criterion, \<lparr> crit_id = ''host-tests'', crit_description = ''Tests pass.'',
        crit_verification_kind = VerificationKind_Deterministic \<rparr>] PausePolicy_None 1"

definition full_task :: TaskRecord where
  "full_task = build_record full_contract [] None 0"

definition full_plan :: TaskPlan where
  "full_plan = sample_plan\<lparr>plan_digest := (plan_digest sample_plan)\<lparr>digest_value :=
       artifact_digest_hex ''TaskPlan'' TASK_PLAN_IDENTITY_SCHEMA (canonicalize (plan_content_payload valid_content))\<rparr>,
     plan_contract_digest_bound := tc_digest full_contract, plan_depth := PlanningDepth_Full,
     plan_content := valid_content\<rparr>"

abbreviation sample_validator :: plan_validator where
  "sample_validator \<equiv> host_validator (\<lambda>_. None) to_ascii_lowercase"

definition full_planned :: TaskRecord where
  "full_planned = apply_op sample_validator (Op_set_plan 1 full_plan) full_task"

definition full_approved :: TaskRecord where
  "full_approved = apply_op sample_validator (Op_approve_plan 2 ''plan-1'' 1) full_planned"

lemma full_contract_sel [simp]:
  "tc_id full_contract = ''task-1''" "tc_revision full_contract = 1"
  by (simp_all add: full_contract_def normalized_def)

lemma full_task_fresh: "fresh_task full_task"
proof -
  have "shape_ok ''task-1'' ''fix'' None []
      [sample_criterion, \<lparr> crit_id = ''host-tests'', crit_description = ''Tests pass.'',
        crit_verification_kind = VerificationKind_Deterministic \<rparr>] 1"
    by code_simp
  then have "contract_wf full_contract"
    unfolding full_contract_def by (rule normalized_wf)
  moreover have "prepare_step_specs [] = Ok []"
    by (simp add: prepare_step_specs_def)
  ultimately show ?thesis
    unfolding fresh_task_def full_task_def by blast
qed

lemma full_approved_reachable: "task_reachable sample_validator full_approved"
  unfolding full_approved_def full_planned_def by (intro reachable.step reachable.start full_task_fresh)

lemma valid_content_full: "sample_validator valid_content full_contract PlanningDepth_Full = Ok valid_content"
proof -
  have light: "content_ok to_ascii_lowercase sample_contract PlanningDepth_Light valid_content"
      "content_bytes (\<lambda>_. None) valid_content \<le> MAX_PLAN_CONTENT_BYTES"
    using valid_content_accepted by (simp_all add: host_validator_accepts host_validator_def [symmetric])
  have "crit_id ` set (tc_acceptance_criteria sample_contract) \<subseteq> crit_id ` set (tc_acceptance_criteria full_contract)"
    by (simp add: sample_contract_def full_contract_def normalized_def)
  with light show ?thesis
    by (auto simp: host_validator_accepts content_ok_def entries_ok_def plan_step_ok_def max_steps_def
        MAX_STEPS_LIGHT_def MAX_STEPS_def valid_content_def)
qed

lemma full_planned_eq: "full_planned = store_plan 1 full_plan full_task"
proof -
  have "is_valid_plan_id ''plan-1''"
    by code_simp
  then show ?thesis
    by (simp add: full_planned_def set_plan_def plan_binding_rejection_def plan_sequence_rejection_def
        full_plan_def sample_plan_def full_task_def valid_content_full MAX_PLAN_REVISIONS_def terminal_reason_def last_opt_def)
qed

lemma full_planned_sel:
  "tr_plans full_planned = [full_plan]" "tr_contract full_planned = full_contract"
  "tps_state (ts_plan (tr_state full_planned)) = TaskPlanStateKind_Current"
  "tps_plan_id (ts_plan (tr_state full_planned)) = Some ''plan-1''"
  "tps_depth (ts_plan (tr_state full_planned)) = PlanningDepth_Full"
  "ts_phase (tr_state full_planned) = TaskPhase_Prepared"
  by (simp_all add: full_planned_eq full_task_def store_plan_def observe_def Let_def full_plan_def sample_plan_def)

lemma full_approved_sel:
  "tr_plans full_approved = [full_plan]" "tr_contract full_approved = full_contract"
  "tps_state (ts_plan (tr_state full_approved)) = TaskPlanStateKind_Current"
  "tps_plan_id (ts_plan (tr_state full_approved)) = Some ''plan-1''"
  "tps_depth (ts_plan (tr_state full_approved)) = PlanningDepth_Full"
  "tps_approval (ts_plan (tr_state full_approved)) = TaskPlanApprovalKind_Approved"
proof -
  have "approval_rejection ''plan-1'' 1 full_plan full_planned = None"
    by (simp add: approval_rejection_def full_planned_sel stored_plan_digest_def)
      (simp add: full_plan_def sample_plan_def plan_content_digest_Ok)
  then show "tr_plans full_approved = [full_plan]" "tr_contract full_approved = full_contract"
    "tps_state (ts_plan (tr_state full_approved)) = TaskPlanStateKind_Current"
    "tps_plan_id (ts_plan (tr_state full_approved)) = Some ''plan-1''"
    "tps_depth (ts_plan (tr_state full_approved)) = PlanningDepth_Full"
    "tps_approval (ts_plan (tr_state full_approved)) = TaskPlanApprovalKind_Approved"
    by (simp_all add: full_approved_def approve_plan_def full_planned_sel terminal_reason_def last_opt_def Let_def)
qed

theorem stored_plans_are_well_formed_witness:
  "\<exists>k \<in> set (tr_contract_revisions full_approved). tc_revision k = plan_contract_revision full_plan
    \<and> content_ok to_ascii_lowercase k (plan_depth full_plan) (plan_content full_plan)"
  by (rule stored_plans_are_well_formed [OF full_approved_reachable]) (simp add: full_approved_sel)

theorem full_gate_needs_approved_plan_witness:
  "mutation_execution_blocked \<lparr> fs_routed = Some (decision PlanningDepth_Full PlanningDecisionReason_ProtectedConfig) \<rparr>
     full_approved (has_meaningful_acceptance_criteria (tr_contract full_approved)) = None
   \<and> (\<exists>a. tr_plan_approval full_approved = Some a \<and> pa_plan_id a = ''plan-1'')"
proof -
  have meaningful: "has_meaningful_acceptance_criteria full_contract"
    by (simp add: has_meaningful_acceptance_criteria_def full_contract_def normalized_def Let_def
        sample_criterion_def trim_criterion_def)
  then have gate: "mutation_execution_blocked \<lparr> fs_routed = Some (decision PlanningDepth_Full PlanningDecisionReason_ProtectedConfig) \<rparr>
     full_approved (has_meaningful_acceptance_criteria (tr_contract full_approved)) = None"
    by (simp add: mutation_execution_blocked_def full_approved_sel decision_def Let_def)
  show ?thesis
    using full_gate_needs_approved_plan [OF full_approved_reachable _ _ gate] gate
    by (simp add: decision_def full_approved_sel last_opt_def) (auto simp: full_plan_def sample_plan_def)
qed

definition full_request :: PlanningDecisionInput where
  "full_request = \<lparr> di_request = ''fix'', di_explicit_plan_request = True, di_requested_depth = Some RequestedDepth_Full,
     di_inspection_only = False, di_expected_mutation = True, di_acceptance_criterion_count = 1,
     di_protected_config_involved = False, di_spans_multiple_subsystems = False, di_research_required = False,
     di_capability_uncertainty = False, di_narrow_repair = False, di_known_touchpoints = 1,
     di_involves_godot_scene_or_resource = None, di_surface = None \<rparr>"

theorem rerouting_opens_full_gate_witness:
  "mutation_execution_blocked (fst (route full_request PlanningFlowState_new sample_approved))
     (fst (snd (route full_request PlanningFlowState_new sample_approved))) True = None"
proof -
  have "approval_rejection ''plan-1'' 1 sample_plan sample_planned = None"
    by (simp add: approval_rejection_def sample_planned_sel sample_plan_digest_ok) (simp add: sample_plan_def)
  then have "last_opt (tr_plans sample_approved) = Some sample_plan" "ts_phase (tr_state sample_approved) = TaskPhase_Prepared"
    by (simp_all add: sample_approved_def approve_plan_def sample_planned_sel terminal_reason_def last_opt_def Let_def)
  then show ?thesis
    using rerouting_opens_full_gate [OF sample_approved_reachable sample_approved_sel, of sample_plan full_request PlanningFlowState_new]
    by (simp add: sample_plan_def full_request_def decide_def decision_def)
qed

definition replan_task :: TaskRecord where
  "replan_task = store_plan 1 (sample_plan\<lparr>plan_id := ''plan-task-1''\<rparr>) sample_task"

lemma replan_task_sel:
  "last_opt (tr_plans replan_task) = Some (sample_plan\<lparr>plan_id := ''plan-task-1''\<rparr>)" "tr_id replan_task = ''task-1''"
  "tr_contract replan_task = sample_contract" "ts_phase (tr_state replan_task) = TaskPhase_Prepared"
  by (simp_all add: replan_task_def store_plan_def observe_def sample_task_def last_opt_def Let_def)

lemma replan_task_revised: "\<exists>r'. revise_contract sample_changes replan_task = (r', Ok (sample_contract\<lparr>tc_revision := 2\<rparr>))"
proof -
  have "TaskContract_revise sample_contract sample_changes = Ok (sample_contract\<lparr>tc_revision := 2\<rparr>)"
    using validate_shape_again [OF sample_contract_wf, of 2] by (simp add: TaskContract_revise_def sample_changes_def numeral_2_eq_2)
  then show ?thesis
    by (simp add: revise_contract_def replan_task_sel terminal_reason_def Let_def)
qed

theorem flow_cannot_replan_after_revision_witness:
  "\<exists>r'. revise_contract sample_changes replan_task = (r', Ok (sample_contract\<lparr>tc_revision := 2\<rparr>))
     \<and> mutation_execution_blocked PlanningFlowState_new r' True \<noteq> None"
proof -
  obtain r' where r': "revise_contract sample_changes replan_task = (r', Ok (sample_contract\<lparr>tc_revision := 2\<rparr>))"
    using replan_task_revised by blast
  have "mutation_execution_blocked PlanningFlowState_new r' True \<noteq> None"
    by (rule conjunct2 [OF conjunct2 [OF flow_cannot_replan_after_revision [OF replan_task_sel(1) _ _ r']]])
      (simp_all add: replan_task_sel sample_plan_def)
  with r' show ?thesis
    by blast
qed

definition ready_planner :: "unit PlannerPort" where
  "ready_planner req p = (p, PlannerOutcome_Ready (content_candidate_value valid_content))"

definition flow_plan :: TaskPlan where
  "flow_plan = full_plan\<lparr>plan_id := ''plan-task-1''\<rparr>"

lemma ready_flow_plans:
  "flow_run (\<lambda>_. None) to_ascii_lowercase ready_planner
     \<lparr> fs_routed = Some (decision PlanningDepth_Full PlanningDecisionReason_ProtectedConfig) \<rparr> 0 1 ((), full_task)
   = (((), store_plan 1 flow_plan full_task),
      PlanFlowResult_Planned (decision PlanningDepth_Full PlanningDecisionReason_ProtectedConfig) flow_plan)"
proof -
  let ?d = "decision PlanningDepth_Full PlanningDecisionReason_ProtectedConfig"
  have ids: "is_valid_plan_id ''plan-task-1''"
    by code_simp
  have task: "tr_id full_task = ''task-1''" "tr_contract full_task = full_contract" "tr_plans full_task = []"
      "ts_phase (tr_state full_task) = TaskPhase_Prepared"
    by (simp_all add: full_task_def)
  have digest: "is_sha256_hex (tc_digest full_contract)"
    by (simp add: full_contract_def normalized_def contract_digest_def artifact_digest_hex_def)
  have content: "validate_plan_candidate (\<lambda>_. None) to_ascii_lowercase (content_candidate_value valid_content) full_contract PlanningDepth_Full
      = Ok valid_content"
    using valid_content_full by (simp add: host_validator_def)
  have plan: "next_plan ?d valid_content 0 full_task = Ok flow_plan"
    using ids digest by (simp add: next_plan_def create_task_plan_def task decision_def plan_content_digest_Ok flow_plan_def
        full_plan_def sample_plan_def last_opt_def Let_def)
  have "set_plan sample_validator 1 flow_plan full_task = (store_plan 1 flow_plan full_task, Ok ())"
    using ids by (simp add: set_plan_def plan_binding_rejection_def plan_sequence_rejection_def flow_plan_def
        full_plan_def sample_plan_def task valid_content_full MAX_PLAN_REVISIONS_def terminal_reason_def last_opt_def)
  then have "store_candidate (\<lambda>_. None) to_ascii_lowercase \<lparr> fs_routed = Some ?d \<rparr> ?d 0 1 (content_candidate_value valid_content) full_task
      = (store_plan 1 flow_plan full_task, PlanFlowResult_Planned ?d flow_plan)"
    using content plan by (simp add: store_candidate_def task decision_def)
  then show ?thesis
    by (simp add: flow_run_def ready_planner_def task) (simp add: decision_def)
qed

theorem flow_run_stores_validated_plans_only_witness:
  "planner_asked \<lparr> fs_routed = Some (decision PlanningDepth_Full PlanningDecisionReason_ProtectedConfig) \<rparr> full_task
   \<and> plan_for to_ascii_lowercase (decision PlanningDepth_Full PlanningDecisionReason_ProtectedConfig) full_task
       valid_content flow_plan"
proof -
  obtain content where c: "planner_asked \<lparr> fs_routed = Some (decision PlanningDepth_Full PlanningDecisionReason_ProtectedConfig) \<rparr> full_task"
      "plan_for to_ascii_lowercase (decision PlanningDepth_Full PlanningDecisionReason_ProtectedConfig) full_task content flow_plan"
    using flow_run_stores_validated_plans_only [OF ready_flow_plans, THEN conjunct2, THEN conjunct2] by blast
  then have "content = plan_content flow_plan"
    by (simp add: plan_for_def)
  also have "\<dots> = valid_content"
    by (simp add: flow_plan_def full_plan_def)
  finally show ?thesis
    using c by blast
qed

end
