(* ===== verification/Workspace_Model.thy ===== *)
theory Workspace_Model
  imports Plan_Acceptance
begin

text \<open>
  The workspace vocabulary of \<open>workspace/*.rs\<close> except the revision registry: limits, validated
  relative paths and the protection classifiers, prepared mutations, Git dispositions, and
  checkpoints with undo planning and reconciliation.  Case fold_case beyond ASCII
  (\<open>to_lowercase\<close>) is an argument.
\<close>

subsection \<open>Limits (bounds.rs)\<close>

record WorkspaceLimits =
  max_directory_entries :: nat
  max_read_file_size_bytes :: nat
  max_read_content_chars :: nat
  max_search_file_size_bytes :: nat
  max_search_files :: nat
  max_search_matches :: nat
  max_search_line_length_chars :: nat
  max_text_file_size_bytes :: nat
  max_created_content_bytes :: nat
  max_replacements :: nat
  max_replacement_text_bytes :: nat
  max_complete_diff_bytes :: nat
  max_diff_lines :: nat
  max_search_directories :: nat
  max_search_entries :: nat
  max_search_files_considered :: nat
  max_search_input_bytes :: nat
  max_search_output_bytes :: nat
  max_search_duration_ms :: nat
  max_search_depth :: nat

definition WORKSPACE_LIMITS :: WorkspaceLimits where
  "WORKSPACE_LIMITS = \<lparr> max_directory_entries = 200, max_read_file_size_bytes = 512 * 1024,
     max_read_content_chars = 64000, max_search_file_size_bytes = 512 * 1024, max_search_files = 500,
     max_search_matches = 100, max_search_line_length_chars = 400, max_text_file_size_bytes = 1024 * 1024,
     max_created_content_bytes = 512 * 1024, max_replacements = 32, max_replacement_text_bytes = 64 * 1024,
     max_complete_diff_bytes = 256 * 1024, max_diff_lines = 10000, max_search_directories = 2000,
     max_search_entries = 25000, max_search_files_considered = 2000,
     max_search_input_bytes = 64 * 1024 * 1024, max_search_output_bytes = 200000,
     max_search_duration_ms = 10000, max_search_depth = 64 \<rparr>"

subsection \<open>Relative paths (path.rs)\<close>

datatype PathValidationError =
    PathValidationError_NullByte
  | PathValidationError_Empty
  | PathValidationError_Absolute
  | PathValidationError_ParentTraversal

fun PathValidationError_message :: "PathValidationError \<Rightarrow> string" where
  "PathValidationError_message PathValidationError_NullByte = ''Path contains a null byte.''"
| "PathValidationError_message PathValidationError_Empty = ''Path is empty.''"
| "PathValidationError_message PathValidationError_Absolute = ''Path must be relative to the workspace.''"
| "PathValidationError_message PathValidationError_ParentTraversal = ''Path must remain inside the workspace.''"

datatype WorkspaceRelativePath = WorkspaceRelativePath string

fun path_as_str :: "WorkspaceRelativePath \<Rightarrow> string" where
  "path_as_str (WorkspaceRelativePath v) = v"

definition is_absolute_pattern :: "string \<Rightarrow> bool" where
  "is_absolute_pattern v =
     (if 2 \<le> length v \<and> is_ascii_alphabetic (v ! 0) \<and> v ! 1 = CHR '':'' then True
      else v \<noteq> [] \<and> (hd v = CHR ''/'' \<or> hd v = CHR 0x5C))"

text \<open>Splitting on both separators.\<close>

definition split_separators :: "string \<Rightarrow> string list" where
  "split_separators v = split_on (CHR ''/'') (forward_slashes v)"

definition validate_relative_path :: "string \<Rightarrow> PathValidationError + unit" where
  "validate_relative_path v =
     (if CHR 0x00 \<in> set v then Err PathValidationError_NullByte
      else if v = [] then Err PathValidationError_Empty
      else if is_absolute_pattern v then Err PathValidationError_Absolute
      else if list_ex (\<lambda>c. c = ''..'') (split_separators v) then Err PathValidationError_ParentTraversal
      else Ok ())"

definition parse_path :: "string \<Rightarrow> PathValidationError + WorkspaceRelativePath" where
  "parse_path v = result_bind (validate_relative_path v) (\<lambda>_. Ok (WorkspaceRelativePath v))"

definition path_components :: "WorkspaceRelativePath \<Rightarrow> string list" where
  "path_components p = filter (\<lambda>c. c \<noteq> [] \<and> c \<noteq> ''.'') (split_separators (path_as_str p))"

definition path_basename :: "WorkspaceRelativePath \<Rightarrow> string option" where
  "path_basename p = last_opt (path_components p)"

definition fold_component :: "(string \<Rightarrow> string) \<Rightarrow> bool \<Rightarrow> string \<Rightarrow> string" where
  "fold_component to_lowercase fold_case c = (if fold_case then to_lowercase c else c)"

definition is_in_excluded_directory ::
    "(string \<Rightarrow> string) \<Rightarrow> WorkspaceRelativePath \<Rightarrow> string list \<Rightarrow> bool \<Rightarrow> string option" where
  "is_in_excluded_directory to_lowercase p excluded fold_case =
     (let folded = map (fold_component to_lowercase fold_case) excluded
      in find (\<lambda>c. fold_component to_lowercase fold_case c \<in> set folded) (path_components p))"

definition eq_ignore_ascii_case :: "string \<Rightarrow> string \<Rightarrow> bool" where
  "eq_ignore_ascii_case a b \<longleftrightarrow> to_ascii_lowercase a = to_ascii_lowercase b"

text \<open>\<open>replacen(needle, "", 1)\<close>: the first occurrence, wherever it is.\<close>

fun remove_first :: "string \<Rightarrow> string \<Rightarrow> string" where
  "remove_first needle [] = []"
| "remove_first needle (c # cs) =
     (if prefix_of needle (c # cs) then drop (length needle) (c # cs) else c # remove_first needle cs)"

definition is_protected_behavioral_config_path :: "string \<Rightarrow> bool" where
  "is_protected_behavioral_config_path relative =
     (let normalized = remove_first ''./'' (forward_slashes relative) in
      if normalized = [] \<or> normalized = ''.'' then False
      else
        let components = filter (\<lambda>c. c \<noteq> []) (split_on (CHR ''/'') normalized);
            basename = (case last_opt components of Some c \<Rightarrow> c | None \<Rightarrow> [])
        in if list_ex (\<lambda>c. eq_ignore_ascii_case c ''.siralos'') components then True
           else eq_ignore_ascii_case basename ''AGENTS.md'')"

definition is_protected_write_target :: "(string \<Rightarrow> string) \<Rightarrow> string \<Rightarrow> bool \<Rightarrow> bool" where
  "is_protected_write_target to_lowercase relative fold_case =
     (case parse_path relative of
        Err _ \<Rightarrow> False
      | Ok path \<Rightarrow>
          let components = map (fold_component to_lowercase fold_case) (path_components path);
              basename = (case last_opt components of Some c \<Rightarrow> c | None \<Rightarrow> [])
          in if list_ex (\<lambda>c. c = ''.git'' \<or> c = ''.siralos'') components then True
             else if is_protected_behavioral_config_path relative then True
             else basename = ''.env'' \<or> prefix_of ''.env.'' basename
               \<or> prefix_of (rev ''.pem'') (rev basename) \<or> prefix_of (rev ''.key'') (rev basename))"

subsection \<open>Prepared effects and Git (effect.rs, git.rs)\<close>

datatype PreparedMutationKind = PreparedMutationKind_Create | PreparedMutationKind_Edit | PreparedMutationKind_Delete

fun PreparedMutationKind_as_str :: "PreparedMutationKind \<Rightarrow> string" where
  "PreparedMutationKind_as_str PreparedMutationKind_Create = ''create''"
| "PreparedMutationKind_as_str PreparedMutationKind_Edit = ''edit''"
| "PreparedMutationKind_as_str PreparedMutationKind_Delete = ''delete''"

datatype MutationOperation = MutationOperation_Create | MutationOperation_Edit | MutationOperation_Delete

fun MutationOperation_as_str :: "MutationOperation \<Rightarrow> string" where
  "MutationOperation_as_str MutationOperation_Create = ''create''"
| "MutationOperation_as_str MutationOperation_Edit = ''edit''"
| "MutationOperation_as_str MutationOperation_Delete = ''delete''"

record TextReplacement =
  old_text :: string
  new_text :: string

record PreparedCreateFile =
  pcf_path :: string
  pcf_content :: string

record PreparedEditFile =
  pef_path :: string
  pef_expected_sha256 :: string
  pef_replacements :: "TextReplacement list"

record PreparedDeleteFile =
  pdf_path :: string
  pdf_expected_sha256 :: string

datatype PreparedMutationPayload =
    PreparedMutationPayload_Create PreparedCreateFile
  | PreparedMutationPayload_Edit PreparedEditFile
  | PreparedMutationPayload_Delete PreparedDeleteFile

record PreparedMutation =
  pm_kind :: PreparedMutationKind
  pm_path :: string
  pm_expected_sha256 :: "string option"
  pm_after_sha256 :: "string option"
  pm_payload :: PreparedMutationPayload

datatype PreparedMutationState = PreparedMutationState_Prepared | PreparedMutationState_Applied | PreparedMutationState_Expired

datatype GitErrorCode =
    GitErrorCode_GitUnavailable
  | GitErrorCode_GitNotRepository
  | GitErrorCode_GitRootMismatch
  | GitErrorCode_GitStatusFailed
  | GitErrorCode_GitDiffFailed
  | GitErrorCode_GitCancelled
  | GitErrorCode_GitTimeout
  | GitErrorCode_GitParseFailed

fun GitErrorCode_as_str :: "GitErrorCode \<Rightarrow> string" where
  "GitErrorCode_as_str GitErrorCode_GitUnavailable = ''git_unavailable''"
| "GitErrorCode_as_str GitErrorCode_GitNotRepository = ''git_not_repository''"
| "GitErrorCode_as_str GitErrorCode_GitRootMismatch = ''git_root_mismatch''"
| "GitErrorCode_as_str GitErrorCode_GitStatusFailed = ''git_status_failed''"
| "GitErrorCode_as_str GitErrorCode_GitDiffFailed = ''git_diff_failed''"
| "GitErrorCode_as_str GitErrorCode_GitCancelled = ''git_cancelled''"
| "GitErrorCode_as_str GitErrorCode_GitTimeout = ''git_timeout''"
| "GitErrorCode_as_str GitErrorCode_GitParseFailed = ''git_parse_failed''"

datatype GitInspectionDisposition = GitInspectionDisposition_Unavailable GitErrorCode string

fun is_unavailable :: "GitInspectionDisposition \<Rightarrow> bool" where
  "is_unavailable (GitInspectionDisposition_Unavailable code reason) = True"


subsection \<open>Checkpoints (checkpoint.rs)\<close>

datatype CheckpointState =
    CheckpointState_Prepared
  | CheckpointState_Applied
  | CheckpointState_Undone
  | CheckpointState_Abandoned
  | CheckpointState_Conflicted
  | CheckpointState_Uncertain

fun CheckpointState_as_str :: "CheckpointState \<Rightarrow> string" where
  "CheckpointState_as_str CheckpointState_Prepared = ''prepared''"
| "CheckpointState_as_str CheckpointState_Applied = ''applied''"
| "CheckpointState_as_str CheckpointState_Undone = ''undone''"
| "CheckpointState_as_str CheckpointState_Abandoned = ''abandoned''"
| "CheckpointState_as_str CheckpointState_Conflicted = ''conflicted''"
| "CheckpointState_as_str CheckpointState_Uncertain = ''uncertain''"

definition CheckpointState_parse :: "string \<Rightarrow> CheckpointState option" where
  "CheckpointState_parse v =
     (if v = ''prepared'' then Some CheckpointState_Prepared
      else if v = ''applied'' then Some CheckpointState_Applied
      else if v = ''undone'' then Some CheckpointState_Undone
      else if v = ''abandoned'' then Some CheckpointState_Abandoned
      else if v = ''conflicted'' then Some CheckpointState_Conflicted
      else if v = ''uncertain'' then Some CheckpointState_Uncertain
      else None)"

datatype CheckpointOperation = CheckpointOperation_Create | CheckpointOperation_Update | CheckpointOperation_Delete

fun CheckpointOperation_as_str :: "CheckpointOperation \<Rightarrow> string" where
  "CheckpointOperation_as_str CheckpointOperation_Create = ''create''"
| "CheckpointOperation_as_str CheckpointOperation_Update = ''update''"
| "CheckpointOperation_as_str CheckpointOperation_Delete = ''delete''"

definition CheckpointOperation_parse :: "string \<Rightarrow> CheckpointOperation option" where
  "CheckpointOperation_parse v =
     (if v = ''create'' then Some CheckpointOperation_Create
      else if v = ''update'' then Some CheckpointOperation_Update
      else if v = ''delete'' then Some CheckpointOperation_Delete
      else None)"

record OperationState =
  before_exists :: bool
  after_exists :: bool

fun for_operation :: "CheckpointOperation \<Rightarrow> OperationState" where
  "for_operation CheckpointOperation_Create = \<lparr> before_exists = False, after_exists = True \<rparr>"
| "for_operation CheckpointOperation_Update = \<lparr> before_exists = True, after_exists = True \<rparr>"
| "for_operation CheckpointOperation_Delete = \<lparr> before_exists = True, after_exists = False \<rparr>"

record CheckpointFileState =
  cfs_exists :: bool
  cfs_sha256 :: "string option"
  cfs_byte_length :: "nat option"

record CheckpointPreview =
  added_lines :: nat
  removed_lines :: nat

record FileCheckpoint =
  cp_version :: nat
  cp_id :: string
  cp_workspace_fingerprint :: string
  cp_relative_path :: string
  cp_operation :: CheckpointOperation
  cp_tool_name :: string
  cp_created_at :: string
  cp_state :: CheckpointState
  cp_before :: CheckpointFileState
  cp_after :: CheckpointFileState
  cp_preview :: CheckpointPreview

datatype CheckpointTerminalState =
    CheckpointTerminalState_Abandoned
  | CheckpointTerminalState_Conflicted
  | CheckpointTerminalState_Uncertain
  | CheckpointTerminalState_Applied

fun CheckpointTerminalState_as_str :: "CheckpointTerminalState \<Rightarrow> string" where
  "CheckpointTerminalState_as_str CheckpointTerminalState_Abandoned = ''abandoned''"
| "CheckpointTerminalState_as_str CheckpointTerminalState_Conflicted = ''conflicted''"
| "CheckpointTerminalState_as_str CheckpointTerminalState_Uncertain = ''uncertain''"
| "CheckpointTerminalState_as_str CheckpointTerminalState_Applied = ''applied''"

datatype CheckpointInvariantError =
    CheckpointInvariantError_InvalidOperation
  | CheckpointInvariantError_StateMismatch CheckpointOperation OperationState OperationState

definition validate_checkpoint_invariant ::
    "CheckpointOperation \<Rightarrow> bool \<Rightarrow> bool \<Rightarrow> CheckpointInvariantError + unit" where
  "validate_checkpoint_invariant operation before after =
     (let expected = for_operation operation;
          declared = \<lparr> before_exists = before, after_exists = after \<rparr>
      in if declared = expected then Ok ()
         else Err (CheckpointInvariantError_StateMismatch operation expected declared))"

record WorkspaceFileState =
  wfs_exists :: bool
  wfs_sha256 :: "string option"

datatype UndoPlanDecision =
    UndoPlanDecision_ReadyCreate
  | UndoPlanDecision_ReadyRestore
  | UndoPlanDecision_ReadyDelete
  | UndoPlanDecision_Conflict

definition plan_undo :: "FileCheckpoint \<Rightarrow> WorkspaceFileState \<Rightarrow> UndoPlanDecision" where
  "plan_undo checkpoint current =
     (if cfs_exists (cp_after checkpoint) then
        if wfs_exists current \<and> wfs_sha256 current = cfs_sha256 (cp_after checkpoint) then
          if cfs_exists (cp_before checkpoint) then UndoPlanDecision_ReadyRestore else UndoPlanDecision_ReadyDelete
        else UndoPlanDecision_Conflict
      else if \<not> wfs_exists current then UndoPlanDecision_ReadyCreate
      else UndoPlanDecision_Conflict)"

datatype ReconciliationClass =
    ReconciliationClass_Abandoned
  | ReconciliationClass_Applied
  | ReconciliationClass_Uncertain
  | ReconciliationClass_UndoneAfterRestore

definition states_equal :: "WorkspaceFileState \<Rightarrow> WorkspaceFileState \<Rightarrow> bool" where
  "states_equal a b =
     (if wfs_exists a \<noteq> wfs_exists b then False
      else if \<not> wfs_exists a then True
      else wfs_sha256 a \<noteq> None \<and> wfs_sha256 a = wfs_sha256 b)"

definition recorded :: "CheckpointFileState \<Rightarrow> WorkspaceFileState" where
  "recorded s = \<lparr> wfs_exists = cfs_exists s, wfs_sha256 = cfs_sha256 s \<rparr>"

definition classify_reconciliation :: "FileCheckpoint \<Rightarrow> WorkspaceFileState \<Rightarrow> ReconciliationClass option" where
  "classify_reconciliation checkpoint current =
     (let before = recorded (cp_before checkpoint); after = recorded (cp_after checkpoint) in
      case cp_state checkpoint of
        CheckpointState_Prepared \<Rightarrow>
          if states_equal current before then Some ReconciliationClass_Abandoned
          else if states_equal current after then Some ReconciliationClass_Applied
          else Some ReconciliationClass_Uncertain
      | CheckpointState_Applied \<Rightarrow>
          if states_equal current before \<and> \<not> states_equal current after then
            Some ReconciliationClass_UndoneAfterRestore
          else None
      | _ \<Rightarrow> None)"

datatype CheckpointStoreModel = CheckpointStoreModel_CreationUnavailable | CheckpointStoreModel_CreationAvailable

subsection \<open>A validated path stays below the root\<close>

text \<open>
  What a path means, independently of the code: it is read character by character, both slashes
  end a name, and every finished name is entered from the directory reached so far; \<open>None\<close> says
  that the walk left the root at some point.
\<close>

abbreviation separator :: "char \<Rightarrow> bool" where
  "separator c \<equiv> c = CHR ''/'' \<or> c = CHR 0x5C"

fun descend :: "string list \<Rightarrow> string \<Rightarrow> string list option" where
  "descend here name =
     (if name = [] \<or> name = ''.'' then Some here
      else if name = ''..'' then (if here = [] then None else Some (butlast here))
      else Some (here @ [name]))"

fun walk :: "string list \<Rightarrow> string \<Rightarrow> string \<Rightarrow> string list option" where
  "walk here name [] = descend here name"
| "walk here name (c # cs) =
     (if separator c then (case descend here name of None \<Rightarrow> None | Some here' \<Rightarrow> walk here' [] cs)
      else walk here (name @ [c]) cs)"

text \<open>A parent component: two dots between separators or the ends of the path.\<close>

definition has_parent_component :: "string \<Rightarrow> bool" where
  "has_parent_component v \<longleftrightarrow>
     (\<exists>a b. v = a @ ''..'' @ b \<and> (a = [] \<or> separator (last a)) \<and> (b = [] \<or> separator (hd b)))"

definition rooted :: "string \<Rightarrow> bool" where
  "rooted v \<longleftrightarrow> (\<exists>c cs. v = c # cs \<and> separator c)
     \<or> (\<exists>c cs. v = c # CHR '':'' # cs \<and> (c \<in> {CHR ''A''..CHR ''Z''} \<or> c \<in> {CHR ''a''..CHR ''z''}))"

lemma split_separators_Cons:
  "split_separators (c # cs) =
     (if separator c then [] # split_separators cs
      else (c # hd (split_separators cs)) # tl (split_separators cs))"
  by (cases "split_separators cs") (auto simp: split_separators_def forward_slashes_def)

lemma split_separators_Nil [simp]: "split_separators [] = [[]]"
  by (simp add: split_separators_def forward_slashes_def)

lemma split_separators_not_Nil [simp]: "split_separators v \<noteq> []"
  by (cases v) (simp_all add: split_separators_Cons)

lemma split_separators_plain: "\<not> (\<exists>c \<in> set n. separator c) \<Longrightarrow> split_separators (n @ v) = (n @ hd (split_separators v)) # tl (split_separators v)"
  by (induction n) (auto simp: split_separators_Cons)

lemma walk_components:
  "''..'' \<notin> set ((name @ hd (split_separators v)) # tl (split_separators v)) \<Longrightarrow>
     walk here name v = Some (here @ filter (\<lambda>c. c \<noteq> [] \<and> c \<noteq> ''.'') ((name @ hd (split_separators v)) # tl (split_separators v)))"
proof (induction here name v rule: walk.induct)
  case (2 here name c cs)
  show ?case
  proof (cases "separator c")
    case True
    then have split: "split_separators (c # cs) = [] # split_separators cs"
      by (simp add: split_separators_Cons)
    with "2.prems" have "name \<noteq> ''..''" "''..'' \<notin> set (split_separators cs)"
      by auto
    with True "2.IH"(1) [OF True] split show ?thesis
      by (auto simp del: descend.simps) (auto)
  next
    case False
    then have split: "split_separators (c # cs) = (c # hd (split_separators cs)) # tl (split_separators cs)"
      by (simp add: split_separators_Cons)
    with False "2.prems" "2.IH"(2) [OF False] show ?thesis
      by simp
  qed
qed auto

lemma hd_split_separators: "hd (split_separators v) = takeWhile (\<lambda>c. \<not> separator c) v"
  by (induction v) (auto simp: split_separators_Cons)

lemma split_separators_append: "separator s \<Longrightarrow> split_separators (a @ s # w) = split_separators a @ split_separators w"
  by (induction a) (auto simp: split_separators_Cons)

lemma first_component: "\<exists>b. v = hd (split_separators v) @ b \<and> (b = [] \<or> separator (hd b))"
  using hd_dropWhile [of "\<lambda>c. \<not> separator c" v]
  by (intro exI [of _ "dropWhile (\<lambda>c. \<not> separator c) v"]) (auto simp: hd_split_separators)

lemma later_component:
  "n \<in> set (tl (split_separators v)) \<Longrightarrow> \<exists>a s b. v = a @ s # n @ b \<and> separator s \<and> (b = [] \<or> separator (hd b))"
proof (induction v)
  case (Cons c cs)
  show ?case
  proof (cases "separator c \<and> n = hd (split_separators cs)")
    case True
    then show ?thesis
      using first_component [of cs] by (metis append_Nil)
  next
    case False
    with Cons.prems have "n \<in> set (tl (split_separators cs))"
      by (cases "split_separators cs") (auto simp: split_separators_Cons split: if_splits)
    from Cons.IH [OF this] show ?thesis
      by (metis append_Cons)
  qed
qed simp

lemma parent_component_split: "has_parent_component v \<longleftrightarrow> ''..'' \<in> set (split_separators v)"
proof
  have first: "hd (split_separators (''..'' @ b)) = ''..''" if "b = [] \<or> separator (hd b)" for b
    using that by (cases b) (auto simp: hd_split_separators)
  assume "has_parent_component v"
  then obtain a b where v: "v = a @ ''..'' @ b" "a = [] \<or> separator (last a)" "b = [] \<or> separator (hd b)"
    by (auto simp: has_parent_component_def)
  have "''..'' \<in> set (split_separators (''..'' @ b))"
    using first [OF v(3)] hd_in_set [OF split_separators_not_Nil] by metis
  then show "''..'' \<in> set (split_separators v)"
  proof (cases "a = []")
    case False
    then have "v = butlast a @ last a # ''..'' @ b"
      using v(1) append_butlast_last_id [of a] by (metis append.assoc append_Cons append_Nil)
    then show ?thesis
      using False v(2) \<open>''..'' \<in> set (split_separators (''..'' @ b))\<close> by (simp only: split_separators_append set_append Un_iff simp_thms)
  qed (use v(1) in simp)
next
  assume "''..'' \<in> set (split_separators v)"
  then consider "''..'' = hd (split_separators v)" | "''..'' \<in> set (tl (split_separators v))"
    by (cases "split_separators v") auto
  then show "has_parent_component v"
  proof cases
    case 1
    then show ?thesis
      using first_component [of v] unfolding has_parent_component_def by (metis append_Nil)
  next
    case 2
    then obtain a s b where "v = (a @ [s]) @ ''..'' @ b" "separator s" "b = [] \<or> separator (hd b)"
      using later_component [OF 2] by auto
    then show ?thesis
      unfolding has_parent_component_def by (metis last_snoc)
  qed
qed

text \<open>
  C32.  A path is accepted exactly when it is not empty, has no null byte, does not start with a
  slash or backslash or with a drive letter and a colon, and has no parent component between
  slashes or backslashes; an accepted path keeps its spelling, and walking it character by
  character from the workspace root never leaves the root and ends at its components.
\<close>

theorem workspace_path_stays_inside:
  "parse_path v = Ok p \<longleftrightarrow> p = WorkspaceRelativePath v \<and> v \<noteq> [] \<and> CHR 0x00 \<notin> set v
     \<and> \<not> rooted v \<and> \<not> has_parent_component v
     \<and> walk [] [] v = Some (path_components p)"
proof -
  have "is_absolute_pattern v \<longleftrightarrow> rooted v"
    by (cases v; cases "tl v") (auto simp: is_absolute_pattern_def rooted_def is_ascii_alphabetic_def ascii_defs less_eq_char_def)
  moreover have "\<not> has_parent_component v \<Longrightarrow> walk [] [] v = Some (path_components (WorkspaceRelativePath v))"
    using walk_components [of "[]" v "[]"] by (simp add: parent_component_split path_components_def)
  ultimately show ?thesis
    by (auto simp: parse_path_def validate_relative_path_def result_bind_Ok_iff list_ex_iff parent_component_split)
qed

text \<open>
  The behavioural classifier removes the first \<open>./\<close> wherever it stands, so below a directory
  whose name ends in a dot the protected file is not recognised.
\<close>

lemma protected_config_missed:
  "is_protected_behavioral_config_path ''docs/AGENTS.md''"
  "\<not> is_protected_behavioral_config_path ''docs./AGENTS.md''"
  "\<not> is_protected_write_target to_ascii_lowercase ''docs./AGENTS.md'' True"
  by code_simp+

subsection \<open>Undo and reconciliation\<close>

text \<open>A checkpoint as the host records it: the transition of its operation, and an identity exactly for existing files.\<close>

definition checkpoint_wf :: "FileCheckpoint \<Rightarrow> bool" where
  "checkpoint_wf c \<longleftrightarrow>
     validate_checkpoint_invariant (cp_operation c) (cfs_exists (cp_before c)) (cfs_exists (cp_after c)) = Ok ()
     \<and> (cfs_sha256 (cp_before c) \<noteq> None \<longleftrightarrow> cfs_exists (cp_before c))
     \<and> (cfs_sha256 (cp_after c) \<noteq> None \<longleftrightarrow> cfs_exists (cp_after c))"

fun undo_of :: "CheckpointOperation \<Rightarrow> UndoPlanDecision" where
  "undo_of CheckpointOperation_Create = UndoPlanDecision_ReadyDelete"
| "undo_of CheckpointOperation_Update = UndoPlanDecision_ReadyRestore"
| "undo_of CheckpointOperation_Delete = UndoPlanDecision_ReadyCreate"

lemma validate_checkpoint_Ok:
  "validate_checkpoint_invariant op b a = Ok () \<longleftrightarrow> for_operation op = \<lparr> before_exists = b, after_exists = a \<rparr>"
  by (auto simp: validate_checkpoint_invariant_def Let_def)

text \<open>
  C33.  Undo never overwrites newer work: for a well-formed checkpoint the plan is the inverse of
  its operation exactly when the file is in the recorded state after the operation, otherwise a
  conflict; a file in that state is never classified as abandoned unless the operation did not
  change it, and a file that is in neither recorded state is never reconciled by a guess.
\<close>

theorem undo_matches_recorded_state:
  assumes "checkpoint_wf c"
  shows "plan_undo c current =
      (if states_equal current (recorded (cp_after c)) then undo_of (cp_operation c) else UndoPlanDecision_Conflict)
    \<and> (states_equal current (recorded (cp_after c)) \<longrightarrow> classify_reconciliation c current = Some ReconciliationClass_Abandoned
        \<longrightarrow> cp_operation c = CheckpointOperation_Update \<and> cfs_sha256 (cp_before c) = cfs_sha256 (cp_after c))
    \<and> (\<not> states_equal current (recorded (cp_before c)) \<longrightarrow> \<not> states_equal current (recorded (cp_after c))
        \<longrightarrow> plan_undo c current = UndoPlanDecision_Conflict
          \<and> classify_reconciliation c current \<in> {None, Some ReconciliationClass_Uncertain})"
  using assms
  by (cases "cp_operation c"; cases "cp_state c")
    (auto simp: checkpoint_wf_def validate_checkpoint_Ok plan_undo_def states_equal_def recorded_def
      classify_reconciliation_def Let_def split: if_splits)

definition sample_checkpoint :: FileCheckpoint where
  "sample_checkpoint = \<lparr> cp_version = 1, cp_id = ''cp_1'', cp_workspace_fingerprint = ''w'', cp_relative_path = ''a.rs'',
     cp_operation = CheckpointOperation_Update, cp_tool_name = ''edit'', cp_created_at = ''t'',
     cp_state = CheckpointState_Applied, cp_before = \<lparr> cfs_exists = True, cfs_sha256 = Some ''b'', cfs_byte_length = Some 1 \<rparr>,
     cp_after = \<lparr> cfs_exists = True, cfs_sha256 = Some ''c'', cfs_byte_length = Some 1 \<rparr>,
     cp_preview = \<lparr> added_lines = 1, removed_lines = 1 \<rparr> \<rparr>"

theorem undo_matches_recorded_state_witness:
  "plan_undo sample_checkpoint \<lparr> wfs_exists = True, wfs_sha256 = Some ''c'' \<rparr> = UndoPlanDecision_ReadyRestore"
proof -
  have "checkpoint_wf sample_checkpoint"
    by (simp add: checkpoint_wf_def validate_checkpoint_Ok sample_checkpoint_def)
  from undo_matches_recorded_state [OF this, of "\<lparr> wfs_exists = True, wfs_sha256 = Some ''c'' \<rparr>"]
  show ?thesis
    by (simp add: states_equal_def recorded_def sample_checkpoint_def)
qed

end
