(* ===== verification/Workspace_Revision.thy ===== *)
theory Workspace_Revision
  imports Workspace_Model Task_Identity Machine
begin

text \<open>
  Revision handles and the session registry of \<open>workspace/revision.rs\<close>: issuing, resolving,
  invalidating, observing, clearing and the eviction of the oldest identities.
\<close>

definition WORKSPACE_REVISION_HANDLE_PREFIX :: string where "WORKSPACE_REVISION_HANDLE_PREFIX = ''rev_''"

definition DEFAULT_REVISION_REGISTRY_LIMIT :: nat where "DEFAULT_REVISION_REGISTRY_LIMIT = 1024"

datatype ObservedReadMode = ObservedReadMode_Exact | ObservedReadMode_Structural | ObservedReadMode_Summary

fun ObservedReadMode_as_str :: "ObservedReadMode \<Rightarrow> string" where
  "ObservedReadMode_as_str ObservedReadMode_Exact = ''exact''"
| "ObservedReadMode_as_str ObservedReadMode_Structural = ''structural''"
| "ObservedReadMode_as_str ObservedReadMode_Summary = ''summary''"

definition ObservedReadMode_parse :: "string \<Rightarrow> ObservedReadMode option" where
  "ObservedReadMode_parse v =
     (if v = ''exact'' then Some ObservedReadMode_Exact
      else if v = ''structural'' then Some ObservedReadMode_Structural
      else if v = ''summary'' then Some ObservedReadMode_Summary
      else None)"

record WorkspaceRevisionIdentity =
  wri_workspace_fingerprint :: string
  wri_path :: string
  wri_sha256 :: string

record ObservedWorkspaceRead =
  owr_path :: string
  owr_revision :: string
  owr_mode :: ObservedReadMode
  owr_at_ms :: nat

definition compute_workspace_revision_handle :: "string \<Rightarrow> string \<Rightarrow> string \<Rightarrow> string" where
  "compute_workspace_revision_handle workspace_fingerprint path sha256 =
     (let identity = object [(''path'', CanonicalValue_Str path), (''sha256'', CanonicalValue_Str sha256),
            (''workspace'', CanonicalValue_Str workspace_fingerprint)]
      in WORKSPACE_REVISION_HANDLE_PREFIX @ take 32 (sha256_hex_str (canonicalize identity)))"

record WorkspaceRevisionRegistryOptions =
  ro_workspace_fingerprint :: string
  ro_max_entries :: "nat option"

record WorkspaceRevisionRegistry =
  reg_workspace_fingerprint :: string
  reg_max_entries :: nat
  reg_by_path :: "(string, string) btree_map"
  reg_identities :: "(string \<times> WorkspaceRevisionIdentity) list"
  reg_order :: "string list"
  reg_observed :: "ObservedWorkspaceRead list"
  reg_clock :: nat

definition WorkspaceRevisionRegistry_new :: "WorkspaceRevisionRegistryOptions \<Rightarrow> string + WorkspaceRevisionRegistry" where
  "WorkspaceRevisionRegistry_new options =
     (let entries = (case ro_max_entries options of Some n \<Rightarrow> n | None \<Rightarrow> DEFAULT_REVISION_REGISTRY_LIMIT) in
      if entries < 1 then Err ''The revision registry requires a positive entry limit.''
      else Ok \<lparr> reg_workspace_fingerprint = ro_workspace_fingerprint options, reg_max_entries = entries,
        reg_by_path = [], reg_identities = [], reg_order = [], reg_observed = [], reg_clock = 0 \<rparr>)"

definition identity_for_handle :: "WorkspaceRevisionRegistry \<Rightarrow> string \<Rightarrow> WorkspaceRevisionIdentity option" where
  "identity_for_handle r handle = map_of (reg_identities r) handle"

text \<open>Eviction: the oldest handle of the order is dropped with its first identity.\<close>

fun remove_at :: "nat \<Rightarrow> 'a list \<Rightarrow> 'a list" where
  "remove_at n [] = []"
| "remove_at 0 (x # xs) = xs"
| "remove_at (Suc n) (x # xs) = x # remove_at n xs"

lemma length_remove_at: "n < length xs \<Longrightarrow> length (remove_at n xs) = length xs - 1"
  by (induction n xs rule: remove_at.induct) (auto split: nat.splits)

function evict_if_needed :: "WorkspaceRevisionRegistry \<Rightarrow> WorkspaceRevisionRegistry" where
  "evict_if_needed r =
     (if length (reg_identities r) \<le> reg_max_entries r then r
      else case reg_order r of
        [] \<Rightarrow> r
      | oldest # order \<Rightarrow>
          let r = r\<lparr>reg_order := order\<rparr> in
          case position (\<lambda>e. fst e = oldest) (reg_identities r) of
            None \<Rightarrow> evict_if_needed r
          | Some i \<Rightarrow>
              let identity = snd (reg_identities r ! i);
                  r = r\<lparr>reg_identities := remove_at i (reg_identities r)\<rparr>;
                  r = (if bm_get (reg_by_path r) (wri_path identity) = Some oldest
                       then r\<lparr>reg_by_path := bm_remove (wri_path identity) (reg_by_path r)\<rparr> else r)
              in evict_if_needed r)"
  by pat_completeness auto
termination
  by (relation "measure (\<lambda>r. length (reg_order r))") auto

declare evict_if_needed.simps [simp del]

definition issue :: "string \<Rightarrow> string \<Rightarrow> WorkspaceRevisionRegistry \<Rightarrow> WorkspaceRevisionRegistry \<times> string" where
  "issue path sha256 r =
     (let fresh =
        (let handle = compute_workspace_revision_handle (reg_workspace_fingerprint r) path sha256;
             identity = \<lparr> wri_workspace_fingerprint = reg_workspace_fingerprint r, wri_path = path, wri_sha256 = sha256 \<rparr>;
             r = r\<lparr>reg_identities := reg_identities r @ [(handle, identity)], reg_order := reg_order r @ [handle],
               reg_by_path := bm_insert path handle (reg_by_path r)\<rparr>
         in (evict_if_needed r, handle))
      in case bm_get (reg_by_path r) path of
           Some existing \<Rightarrow>
             (case identity_for_handle r existing of
                Some identity \<Rightarrow> if wri_sha256 identity = sha256 then (r, existing) else fresh
              | None \<Rightarrow> fresh)
         | None \<Rightarrow> fresh)"

definition resolve_handle :: "WorkspaceRevisionRegistry \<Rightarrow> string \<Rightarrow> WorkspaceRevisionIdentity option" where
  "resolve_handle r handle =
     (if \<not> prefix_of WORKSPACE_REVISION_HANDLE_PREFIX handle then None else identity_for_handle r handle)"

definition current_revision :: "WorkspaceRevisionRegistry \<Rightarrow> string \<Rightarrow> string option" where
  "current_revision r path = bm_get (reg_by_path r) path"

definition revision_for_state :: "WorkspaceRevisionRegistry \<Rightarrow> string \<Rightarrow> string \<Rightarrow> string option" where
  "revision_for_state r path sha256 =
     map_option fst (find (\<lambda>e. wri_path (snd e) = path \<and> wri_sha256 (snd e) = sha256) (reg_identities r))"

definition invalidate_path :: "string \<Rightarrow> WorkspaceRevisionRegistry \<Rightarrow> WorkspaceRevisionRegistry" where
  "invalidate_path path r = r\<lparr>reg_by_path := bm_remove path (reg_by_path r)\<rparr>"

definition observe_read :: "string \<Rightarrow> string \<Rightarrow> ObservedReadMode \<Rightarrow> WorkspaceRevisionRegistry \<Rightarrow> WorkspaceRevisionRegistry" where
  "observe_read path revision mode r =
     (let r = r\<lparr>reg_clock := reg_clock r + 1\<rparr>;
          observed = reg_observed r @ [\<lparr> owr_path = path, owr_revision = revision, owr_mode = mode, owr_at_ms = reg_clock r \<rparr>]
      in r\<lparr>reg_observed := (if 64 < length observed then tl observed else observed)\<rparr>)"

definition registry_size :: "WorkspaceRevisionRegistry \<Rightarrow> nat" where
  "registry_size r = length (reg_identities r)"

definition registry_clear :: "WorkspaceRevisionRegistry \<Rightarrow> WorkspaceRevisionRegistry" where
  "registry_clear r = r\<lparr>reg_by_path := [], reg_identities := [], reg_order := [], reg_observed := [], reg_clock := 0\<rparr>"


subsection \<open>The registry as a machine\<close>

datatype RegistryOp =
    Reg_issue string string
  | Reg_invalidate_path string
  | Reg_observe_read string string ObservedReadMode
  | Reg_clear

fun apply_registry :: "RegistryOp \<Rightarrow> WorkspaceRevisionRegistry \<Rightarrow> WorkspaceRevisionRegistry" where
  "apply_registry (Reg_issue path sha256) r = fst (issue path sha256 r)"
| "apply_registry (Reg_invalidate_path path) r = invalidate_path path r"
| "apply_registry (Reg_observe_read path revision mode) r = observe_read path revision mode r"
| "apply_registry Reg_clear r = registry_clear r"

definition fresh_registry :: "WorkspaceRevisionRegistry \<Rightarrow> bool" where
  "fresh_registry r \<longleftrightarrow> (\<exists>options. WorkspaceRevisionRegistry_new options = Ok r)"

abbreviation registry_reachable :: "WorkspaceRevisionRegistry \<Rightarrow> bool" where
  "registry_reachable \<equiv> reachable fresh_registry apply_registry"

definition handle_of :: "WorkspaceRevisionIdentity \<Rightarrow> string" where
  "handle_of i = compute_workspace_revision_handle (wri_workspace_fingerprint i) (wri_path i) (wri_sha256 i)"

definition bound :: "(string \<times> WorkspaceRevisionIdentity) list \<Rightarrow> string \<Rightarrow> string \<Rightarrow> bool" where
  "bound ids p h \<longleftrightarrow> (\<exists>i. (h, i) \<in> set ids \<and> wri_path i = p)"

lemma bound_simps [simp]:
  "\<not> bound [] p h"
  "bound (e # ids) p h \<longleftrightarrow> h = fst e \<and> p = wri_path (snd e) \<or> bound ids p h"
  "bound (ids @ ids') p h \<longleftrightarrow> bound ids p h \<or> bound ids' p h"
  by (cases e; fastforce simp: bound_def)+

definition identities_ok :: "WorkspaceRevisionRegistry \<Rightarrow> bool" where
  "identities_ok r \<longleftrightarrow> reg_order r = map fst (reg_identities r)
     \<and> (\<forall>(h, i) \<in> set (reg_identities r). h = handle_of i \<and> wri_workspace_fingerprint i = reg_workspace_fingerprint r)
     \<and> (\<forall>p h. bm_get (reg_by_path r) p = Some h \<longrightarrow> bound (reg_identities r) p h)"

definition observed_ok :: "WorkspaceRevisionRegistry \<Rightarrow> bool" where
  "observed_ok r \<longleftrightarrow> length (reg_observed r) \<le> 64 \<and> length (reg_observed r) \<le> reg_clock r
     \<and> map owr_at_ms (reg_observed r) = [reg_clock r - length (reg_observed r) + 1 ..< reg_clock r + 1]"

definition registry_inv :: "WorkspaceRevisionRegistry \<Rightarrow> bool" where
  "registry_inv r \<longleftrightarrow> 1 \<le> reg_max_entries r \<and> length (reg_identities r) \<le> reg_max_entries r
     \<and> identities_ok r \<and> observed_ok r"

text \<open>While the order lists the handles of the identities, eviction drops the head of both.\<close>

definition drop_oldest :: "WorkspaceRevisionRegistry \<Rightarrow> WorkspaceRevisionRegistry" where
  "drop_oldest r =
     (let (h, i) = hd (reg_identities r)
      in r\<lparr>reg_order := tl (reg_order r), reg_identities := tl (reg_identities r),
           reg_by_path := (if bm_get (reg_by_path r) (wri_path i) = Some h
             then bm_remove (wri_path i) (reg_by_path r) else reg_by_path r)\<rparr>)"

lemma evict_step:
  assumes "reg_order r = map fst (reg_identities r)" and "reg_max_entries r < length (reg_identities r)"
  shows "evict_if_needed r = evict_if_needed (drop_oldest r)"
proof -
  obtain h i ids where ids: "reg_identities r = (h, i) # ids"
    using assms(2) by (cases "reg_identities r") auto
  have "evict_if_needed r = evict_if_needed
      (if bm_get (reg_by_path r) (wri_path i) = Some h
       then r\<lparr>reg_order := map fst ids, reg_identities := ids, reg_by_path := bm_remove (wri_path i) (reg_by_path r)\<rparr>
       else r\<lparr>reg_order := map fst ids, reg_identities := ids\<rparr>)"
    using assms ids by (subst evict_if_needed.simps) (simp add: Let_def)
  also have "\<dots> = evict_if_needed (drop_oldest r)"
    using assms ids by (simp add: drop_oldest_def)
  finally show ?thesis .
qed

lemma evict_done: "length (reg_identities r) \<le> reg_max_entries r \<Longrightarrow> evict_if_needed r = r"
  by (subst evict_if_needed.simps) simp

lemma evict_one:
  assumes "reg_order r = map fst (reg_identities r)" and "length (reg_identities r) = Suc (reg_max_entries r)"
  shows "evict_if_needed r = drop_oldest r"
  using evict_step [OF assms(1)] assms(2) evict_done [of "drop_oldest r"]
  by (simp add: drop_oldest_def case_prod_beta)

lemma identities_ok_drop_oldest:
  assumes "identities_ok r" and "reg_identities r \<noteq> []"
  shows "identities_ok (drop_oldest r)"
proof -
  obtain h i ids where ids: "reg_identities r = (h, i) # ids"
    using assms(2) by (cases "reg_identities r") auto
  show ?thesis
    using assms(1) unfolding identities_ok_def by (auto simp: drop_oldest_def ids split: if_splits)
qed

definition with_identity :: "string \<Rightarrow> string \<Rightarrow> WorkspaceRevisionRegistry \<Rightarrow> WorkspaceRevisionRegistry" where
  "with_identity path sha256 r =
     (let i = \<lparr> wri_workspace_fingerprint = reg_workspace_fingerprint r, wri_path = path, wri_sha256 = sha256 \<rparr>
      in r\<lparr>reg_identities := reg_identities r @ [(handle_of i, i)], reg_order := reg_order r @ [handle_of i],
           reg_by_path := bm_insert path (handle_of i) (reg_by_path r)\<rparr>)"

lemma issue_cases:
  obtains (existing) h i where "bm_get (reg_by_path r) path = Some h" "identity_for_handle r h = Some i"
      "wri_sha256 i = sha256" "issue path sha256 r = (r, h)"
  | (fresh) "issue path sha256 r = (evict_if_needed (with_identity path sha256 r),
      compute_workspace_revision_handle (reg_workspace_fingerprint r) path sha256)"
proof -
  have "issue path sha256 r = (evict_if_needed (with_identity path sha256 r),
      compute_workspace_revision_handle (reg_workspace_fingerprint r) path sha256)
    \<or> (\<exists>h i. bm_get (reg_by_path r) path = Some h \<and> identity_for_handle r h = Some i
        \<and> wri_sha256 i = sha256 \<and> issue path sha256 r = (r, h))"
    by (auto simp: issue_def with_identity_def handle_of_def Let_def split: option.splits)
  with existing fresh show thesis
    by blast
qed

lemma registry_inv_with_identity:
  assumes "registry_inv r"
  shows "identities_ok (with_identity path sha256 r)"
  using assms by (auto simp: registry_inv_def identities_ok_def with_identity_def Let_def split: if_splits)

lemma with_identity_sel [simp]:
  "reg_max_entries (with_identity path sha256 r) = reg_max_entries r"
  "length (reg_identities (with_identity path sha256 r)) = Suc (length (reg_identities r))"
  by (simp_all add: with_identity_def Let_def)

lemma evict_with_identity:
  assumes "registry_inv r"
  shows "evict_if_needed (with_identity path sha256 r) =
    (if length (reg_identities r) < reg_max_entries r then with_identity path sha256 r
     else drop_oldest (with_identity path sha256 r))"
proof (cases "length (reg_identities r) < reg_max_entries r")
  case False
  then have "reg_max_entries r = length (reg_identities r)"
    using assms by (simp add: registry_inv_def)
  moreover have "reg_order (with_identity path sha256 r) = map fst (reg_identities (with_identity path sha256 r))"
    using registry_inv_with_identity [OF assms] by (simp add: identities_ok_def)
  ultimately show ?thesis
    using evict_one [of "with_identity path sha256 r"] by simp
qed (simp add: evict_done)

lemma observed_ok_cong:
  "reg_observed r' = reg_observed r \<Longrightarrow> reg_clock r' = reg_clock r \<Longrightarrow> observed_ok r' = observed_ok r"
  by (simp add: observed_ok_def)

lemma registry_inv_issue:
  assumes "registry_inv r"
  shows "registry_inv (fst (issue path sha256 r))"
proof (cases rule: issue_cases [of r path sha256])
  case existing
  then show ?thesis
    using assms by simp
next
  case fresh
  let ?w = "with_identity path sha256 r"
  have ok: "identities_ok ?w" and ne: "reg_identities ?w \<noteq> []"
    using registry_inv_with_identity [OF assms] by (auto simp: with_identity_def Let_def)
  have obs: "observed_ok ?w" "observed_ok (drop_oldest ?w)"
    using assms by (simp_all add: registry_inv_def observed_ok_def with_identity_def drop_oldest_def Let_def case_prod_beta)
  show ?thesis
    using assms ok identities_ok_drop_oldest [OF ok ne] obs
    by (auto simp: fresh evict_with_identity [OF assms] registry_inv_def drop_oldest_def case_prod_beta)
qed

lemma observed_ok_observe:
  assumes "observed_ok r"
  shows "observed_ok (observe_read path revision mode r)"
proof (cases "length (reg_observed r) < 64")
  case True
  with assms show ?thesis
    by (auto simp: observed_ok_def observe_read_def Let_def)
next
  case False
  then have len: "length (reg_observed r) = 64" "64 \<le> reg_clock r"
    using assms by (auto simp: observed_ok_def)
  then have "reg_clock r - 64 + 1 = reg_clock r - 63"
    by simp
  then have ms: "map owr_at_ms (reg_observed r) = [reg_clock r - 63 ..< reg_clock r + 1]"
    using assms unfolding observed_ok_def len by metis
  have "map owr_at_ms (tl (reg_observed r)) = tl [reg_clock r - 63 ..< reg_clock r + 1]"
    using ms by (simp add: map_tl)
  also have "\<dots> = [Suc (reg_clock r - 63) ..< reg_clock r + 1]"
    by (simp only: tl_upt)
  also have "\<dots> = [reg_clock r + 1 - 63 ..< reg_clock r + 1]"
    by (rule arg_cong [where f = "\<lambda>k. [k ..< reg_clock r + 1]"]) (use len(2) in simp)
  finally show ?thesis
    using len Suc_diff_le [of 63 "reg_clock r"]
    by (cases "reg_observed r") (auto simp: observed_ok_def observe_read_def Let_def simp del: Suc_diff_le)
qed

interpretation revisions: machine fresh_registry apply_registry registry_inv
proof
  fix r
  show "fresh_registry r \<Longrightarrow> registry_inv r"
    by (auto simp: fresh_registry_def WorkspaceRevisionRegistry_new_def registry_inv_def identities_ok_def
        observed_ok_def Let_def split: if_splits)
  fix op
  assume inv: "registry_inv r"
  show "registry_inv (apply_registry op r)"
  proof (cases op)
    case (Reg_observe_read p h m)
    have "reg_order (observe_read p h m r) = reg_order r" "reg_identities (observe_read p h m r) = reg_identities r"
        "reg_by_path (observe_read p h m r) = reg_by_path r" "reg_max_entries (observe_read p h m r) = reg_max_entries r"
        "reg_workspace_fingerprint (observe_read p h m r) = reg_workspace_fingerprint r"
      by (simp_all add: observe_read_def Let_def)
    with Reg_observe_read inv observed_ok_observe [of r p h m] show ?thesis
      by (simp add: registry_inv_def identities_ok_def)
  qed (use inv registry_inv_issue in \<open>auto simp: registry_inv_def identities_ok_def observed_ok_def
      invalidate_path_def registry_clear_def split: if_splits\<close>)
qed


subsection \<open>Properties\<close>

lemma prefix_handle_of [simp]: "prefix_of WORKSPACE_REVISION_HANDLE_PREFIX (handle_of i)"
  by (simp add: handle_of_def compute_workspace_revision_handle_def prefix_of_iff Let_def)

lemma reachable_registry_ok:
  assumes "registry_reachable r"
  shows "registry_inv r" "identities_ok r" "reg_order r = map fst (reg_identities r)"
  using revisions.reachable_inv [OF assms] by (simp_all add: registry_inv_def identities_ok_def)

lemma bound_resolves:
  assumes "identities_ok r" and "bound (reg_identities r) p h"
  shows "\<exists>i. resolve_handle r h = Some i"
proof -
  obtain i where i: "(h, i) \<in> set (reg_identities r)"
    using assms(2) by (auto simp: bound_def)
  with assms(1) have "h = handle_of i"
    by (auto simp: identities_ok_def)
  then have "prefix_of WORKSPACE_REVISION_HANDLE_PREFIX h"
    by simp
  moreover have "map_of (reg_identities r) h \<noteq> None"
    using i weak_map_of_SomeI by fastforce
  ultimately show ?thesis
    by (auto simp: resolve_handle_def identity_for_handle_def)
qed

text \<open>
  C34.  The revision registry is sound: it never holds more identities than its limit, a handle
  resolves only to an identity of this workspace whose digest is the handle, the current
  revision of a path always resolves, and the observation window holds the latest at most 64
  reads in order.
\<close>

theorem revision_registry_sound:
  assumes "registry_reachable r"
  shows "registry_size r \<le> reg_max_entries r
    \<and> (resolve_handle r h = Some i \<longrightarrow> h = handle_of i \<and> wri_workspace_fingerprint i = reg_workspace_fingerprint r)
    \<and> (current_revision r p = Some h' \<longrightarrow> (\<exists>i'. resolve_handle r h' = Some i'))
    \<and> length (reg_observed r) \<le> 64 \<and> sorted_wrt (<) (map owr_at_ms (reg_observed r))"
proof -
  note ok = reachable_registry_ok [OF assms]
  have "resolve_handle r h = Some i \<Longrightarrow> (h, i) \<in> set (reg_identities r)"
    by (auto simp: resolve_handle_def identity_for_handle_def dest: map_of_SomeD split: if_splits)
  then have "resolve_handle r h = Some i \<longrightarrow> h = handle_of i \<and> wri_workspace_fingerprint i = reg_workspace_fingerprint r"
    using ok(2) by (auto simp: identities_ok_def)
  moreover have "current_revision r p = Some h' \<longrightarrow> (\<exists>i'. resolve_handle r h' = Some i')"
    using bound_resolves [OF ok(2), of p h'] ok(2) by (auto simp: current_revision_def identities_ok_def)
  moreover have "sorted_wrt (<) (map owr_at_ms (reg_observed r))" "length (reg_observed r) \<le> 64"
    using ok(1) by (simp_all add: registry_inv_def observed_ok_def del: upt_Suc)
  ultimately show ?thesis
    using ok(1) by (simp add: registry_inv_def registry_size_def)
qed

lemma identities_with_identity:
  "reg_identities (with_identity path sha256 r) = reg_identities r
     @ [(compute_workspace_revision_handle (reg_workspace_fingerprint r) path sha256,
         \<lparr> wri_workspace_fingerprint = reg_workspace_fingerprint r, wri_path = path, wri_sha256 = sha256 \<rparr>)]"
  by (simp add: with_identity_def handle_of_def Let_def)

lemma identities_drop_oldest [simp]: "reg_identities (drop_oldest r) = tl (reg_identities r)"
  by (simp add: drop_oldest_def case_prod_beta)

lemma tl_drop_excess: "length xs = n \<Longrightarrow> tl (xs @ [x]) = drop (Suc (length xs) - n) (xs @ [x])"
  by (cases xs) auto

text \<open>
  The registry refines a bounded queue: issuing returns a handle that resolves, and either
  changes nothing, because the path is bound to that very content, or appends the new identity
  and drops just the oldest ones beyond the limit.
\<close>

theorem revision_issue_refines_queue:
  assumes "registry_reachable r" and "issue path sha256 r = (r', h)"
  shows "(\<exists>i. resolve_handle r' h = Some i)
    \<and> (r' = r \<and> current_revision r path = Some h \<and> (\<exists>i. resolve_handle r h = Some i \<and> wri_sha256 i = sha256)
       \<or> h = compute_workspace_revision_handle (reg_workspace_fingerprint r) path sha256
         \<and> (let queue = reg_identities r @ [(h, \<lparr> wri_workspace_fingerprint = reg_workspace_fingerprint r,
                wri_path = path, wri_sha256 = sha256 \<rparr>)]
            in reg_identities r' = drop (length queue - reg_max_entries r) queue))"
proof (cases rule: issue_cases [of r path sha256])
  case (existing h' i)
  then show ?thesis
    using assms(2) reachable_registry_ok(2) [OF assms(1)] bound_resolves [of r path h]
    by (auto simp: current_revision_def identities_ok_def resolve_handle_def)
next
  case fresh
  let ?w = "with_identity path sha256 r"
  note inv = reachable_registry_ok(1) [OF assms(1)]
  have h: "h = compute_workspace_revision_handle (reg_workspace_fingerprint r) path sha256" "r' = evict_if_needed ?w"
    using assms(2) fresh by simp_all
  have len: "length (reg_identities r) \<le> reg_max_entries r" "1 \<le> reg_max_entries r"
    using inv by (simp_all add: registry_inv_def)
  have queue: "reg_identities r' = drop (length (reg_identities ?w) - reg_max_entries r) (reg_identities ?w)"
    using len tl_drop_excess [of "reg_identities r" "reg_max_entries r"]
    by (auto simp: h evict_with_identity [OF inv] identities_with_identity)
  have "registry_inv r'"
    using registry_inv_issue [OF inv, of path sha256] assms(2) by simp
  moreover have "(h, \<lparr> wri_workspace_fingerprint = reg_workspace_fingerprint r, wri_path = path, wri_sha256 = sha256 \<rparr>)
      \<in> set (reg_identities r')"
    using len unfolding queue by (simp add: identities_with_identity h)
  ultimately have "\<exists>i. resolve_handle r' h = Some i"
    using bound_resolves [of r' path h] unfolding registry_inv_def bound_def
    by (metis (lifting) WorkspaceRevisionIdentity.select_convs(2))
  with queue show ?thesis
    by (simp add: identities_with_identity h Let_def)
qed

text \<open>
  The binding of a path can be lost while its revision is issued: when the registry is full,
  the path is unbound and the issued content is also its oldest identity, the eviction of that
  old identity removes the binding just made, although the handle is returned and resolves.
\<close>

theorem reissued_oldest_revision_unbound:
  assumes "registry_reachable r" and "registry_size r = reg_max_entries r" and "current_revision r path = None"
    and "hd (reg_identities r) = (handle_of i, i)" and "wri_path i = path" and "wri_sha256 i = sha256"
  shows "current_revision (fst (issue path sha256 r)) path = None"
proof -
  note inv = reachable_registry_ok [OF assms(1)]
  have fresh: "issue path sha256 r = (evict_if_needed (with_identity path sha256 r),
      compute_workspace_revision_handle (reg_workspace_fingerprint r) path sha256)"
    using assms(3) by (cases rule: issue_cases [of r path sha256]) (auto simp: current_revision_def)
  have ne: "reg_identities r \<noteq> []"
    using assms(2) inv(1) by (auto simp: registry_inv_def registry_size_def)
  then have "(handle_of i, i) \<in> set (reg_identities r)"
    using assms(4) hd_in_set by metis
  then have "i = \<lparr> wri_workspace_fingerprint = reg_workspace_fingerprint r, wri_path = path, wri_sha256 = sha256 \<rparr>"
    using inv(2) assms(5,6) by (cases i) (auto simp: identities_ok_def)
  then have "fst (issue path sha256 r) = drop_oldest (with_identity path sha256 r)"
    using assms(2) by (simp add: fresh evict_with_identity [OF inv(1)] registry_size_def)
  moreover have "hd (reg_identities (with_identity path sha256 r)) = (handle_of i, i)"
      "bm_get (reg_by_path (with_identity path sha256 r)) path = Some (handle_of i)"
    using ne assms(4) \<open>i = _\<close> by (simp_all add: with_identity_def Let_def)
  ultimately show ?thesis
    using assms(5) by (simp add: drop_oldest_def current_revision_def)
qed

definition small_registry :: WorkspaceRevisionRegistry where
  "small_registry = \<lparr> reg_workspace_fingerprint = ''w'', reg_max_entries = 1, reg_by_path = [], reg_identities = [],
     reg_order = [], reg_observed = [], reg_clock = 0 \<rparr>"

definition small_issued :: WorkspaceRevisionRegistry where
  "small_issued = invalidate_path ''a.rs'' (fst (issue ''a.rs'' ''00'' small_registry))"

lemma small_registry_reachable: "registry_reachable small_registry"
  by (rule reachable.start) (auto simp: fresh_registry_def small_registry_def WorkspaceRevisionRegistry_new_def Let_def
      intro!: exI [of _ "\<lparr> ro_workspace_fingerprint = ''w'', ro_max_entries = Some 1 \<rparr>"])

lemma small_issued_reachable: "registry_reachable small_issued"
  using reachable.step [OF reachable.step [OF small_registry_reachable, of "Reg_issue ''a.rs'' ''00''"],
      of "Reg_invalidate_path ''a.rs''"] by (simp add: small_issued_def)

lemma small_issued_sel:
  "reg_identities small_issued = [(handle_of \<lparr> wri_workspace_fingerprint = ''w'', wri_path = ''a.rs'', wri_sha256 = ''00'' \<rparr>,
     \<lparr> wri_workspace_fingerprint = ''w'', wri_path = ''a.rs'', wri_sha256 = ''00'' \<rparr>)]"
  "reg_max_entries small_issued = 1" "reg_by_path small_issued = []"
  by (simp_all add: small_issued_def small_registry_def issue_def invalidate_path_def evict_done handle_of_def
      bm_remove_def Let_def)

theorem revision_registry_sound_witness: "registry_size small_issued \<le> 1"
  using revision_registry_sound [OF small_issued_reachable] by (simp add: small_issued_sel)

theorem revision_issue_refines_queue_witness:
  "\<exists>r' h i. issue ''a.rs'' ''00'' small_registry = (r', h) \<and> resolve_handle r' h = Some i"
  using revision_issue_refines_queue [OF small_registry_reachable, of "''a.rs''" "''00''"]
  by (cases "issue ''a.rs'' ''00'' small_registry") blast

theorem reissued_oldest_revision_unbound_witness:
  "current_revision (fst (issue ''a.rs'' ''00'' small_issued)) ''a.rs'' = None"
  by (rule reissued_oldest_revision_unbound [OF small_issued_reachable])
    (auto simp: small_issued_sel registry_size_def current_revision_def)

end
