(* ===== verification/Executor_Scope.thy ===== *)
theory Executor_Scope
  imports Workspace_Model
begin

text \<open>
  Derived workspace scopes and working sets (\<open>executor/scope.rs\<close>): validation of file
  references, creation, candidates, promotion, views, working sets and the eviction of exact
  views over the source-context budget.
\<close>

subsection \<open>Data\<close>

datatype SourceFileConfidence = SourceFileConfidence_Verified | SourceFileConfidence_Candidate

fun SourceFileConfidence_as_str :: "SourceFileConfidence \<Rightarrow> string" where
  "SourceFileConfidence_as_str SourceFileConfidence_Verified = ''verified''"
| "SourceFileConfidence_as_str SourceFileConfidence_Candidate = ''candidate''"

datatype SourceView = SourceView_Exact | SourceView_Structural | SourceView_Summary | SourceView_None

fun SourceView_as_str :: "SourceView \<Rightarrow> string" where
  "SourceView_as_str SourceView_Exact = ''exact''"
| "SourceView_as_str SourceView_Structural = ''structural''"
| "SourceView_as_str SourceView_Summary = ''summary''"
| "SourceView_as_str SourceView_None = ''none''"

record SourceFileRef =
  sf_path :: string
  sf_confidence :: SourceFileConfidence
  sf_view :: SourceView
  sf_revision :: "string option"
  sf_evidence :: "string option"
  sf_reason :: "string option"

record ScopePromotionRecord =
  spr_path :: string
  spr_evidence :: string
  spr_revision :: string
  spr_reason :: string

record WorkspaceContextBudget =
  max_active_exact_files :: nat
  max_exact_bytes :: nat
  max_structural_summaries :: nat
  max_candidate_files :: nat
  max_retained_historical_views :: nat

definition DEFAULT_WORKSPACE_CONTEXT_BUDGET :: WorkspaceContextBudget where
  "DEFAULT_WORKSPACE_CONTEXT_BUDGET = \<lparr> max_active_exact_files = 4, max_exact_bytes = 32 * 1024,
     max_structural_summaries = 12, max_candidate_files = 16, max_retained_historical_views = 4 \<rparr>"

definition DEFAULT_SOURCE_EXCLUSIONS :: "string list" where
  "DEFAULT_SOURCE_EXCLUSIONS = [''node_modules/'', ''dist/'', ''build/'', ''coverage/'', ''.git/'', ''.godot/'',
     ''generated/'', ''out/'']"

definition strip_dot_slash :: "string \<Rightarrow> string" where
  "strip_dot_slash s = (case strip_prefix s ''./'' of Some rest \<Rightarrow> rest | None \<Rightarrow> s)"

definition is_excluded_source_path :: "string \<Rightarrow> string list \<Rightarrow> bool" where
  "is_excluded_source_path path exclusions =
     (let normalized = strip_dot_slash path in
      list_ex (\<lambda>exclusion.
        let prefix = strip_dot_slash exclusion;
            with_slash = (if prefix \<noteq> [] \<and> last prefix = CHR ''/'' then prefix else prefix @ ''/'')
        in normalized = prefix \<or> prefix_of with_slash normalized) exclusions)"

record WorkspaceScope =
  verified_files :: "SourceFileRef list"
  candidate_files :: "SourceFileRef list"
  allowed_create_roots :: "string list"
  excluded_paths :: "string list"
  scope_budget :: WorkspaceContextBudget
  promotions :: "ScopePromotionRecord list"

record EvictionRecord =
  evr_path :: string
  evr_dropped_view :: SourceView
  evr_retained_view :: SourceView
  evr_reason :: string

definition MAX_VERIFIED_FILES :: nat where "MAX_VERIFIED_FILES = 64"
definition MAX_CANDIDATE_FILES :: nat where "MAX_CANDIDATE_FILES = 64"
definition MAX_CREATE_ROOTS :: nat where "MAX_CREATE_ROOTS = 8"
definition MAX_EXCLUDED_PATHS :: nat where "MAX_EXCLUDED_PATHS = 32"
definition MAX_PROMOTIONS :: nat where "MAX_PROMOTIONS = 128"
definition MAX_SOURCE_PATH_BYTES :: nat where "MAX_SOURCE_PATH_BYTES = 1024"
definition MAX_SOURCE_EVIDENCE_BYTES :: nat where "MAX_SOURCE_EVIDENCE_BYTES = 256"
definition MAX_SOURCE_REASON_BYTES :: nat where "MAX_SOURCE_REASON_BYTES = 512"

datatype FileInclusionReason =
    FileInclusionReason_DirectTaskTarget
  | FileInclusionReason_Dependency
  | FileInclusionReason_TestCounterpart
  | FileInclusionReason_ArchitectureOwner
  | FileInclusionReason_ValidationTarget
  | FileInclusionReason_CandidateUnderInvestigation

fun FileInclusionReason_as_str :: "FileInclusionReason \<Rightarrow> string" where
  "FileInclusionReason_as_str FileInclusionReason_DirectTaskTarget = ''direct task target''"
| "FileInclusionReason_as_str FileInclusionReason_Dependency = ''dependency''"
| "FileInclusionReason_as_str FileInclusionReason_TestCounterpart = ''test counterpart''"
| "FileInclusionReason_as_str FileInclusionReason_ArchitectureOwner = ''architecture owner''"
| "FileInclusionReason_as_str FileInclusionReason_ValidationTarget = ''validation target''"
| "FileInclusionReason_as_str FileInclusionReason_CandidateUnderInvestigation = ''candidate under investigation''"

definition FileInclusionReason_parse :: "string \<Rightarrow> FileInclusionReason option" where
  "FileInclusionReason_parse v =
     (if v = ''direct task target'' then Some FileInclusionReason_DirectTaskTarget
      else if v = ''dependency'' then Some FileInclusionReason_Dependency
      else if v = ''test counterpart'' then Some FileInclusionReason_TestCounterpart
      else if v = ''architecture owner'' then Some FileInclusionReason_ArchitectureOwner
      else if v = ''validation target'' then Some FileInclusionReason_ValidationTarget
      else if v = ''candidate under investigation'' then Some FileInclusionReason_CandidateUnderInvestigation
      else None)"

record ActiveFileInput =
  afi_path :: string
  afi_reason :: string
  afi_view :: SourceView
  afi_revision :: "string option"

record ActiveFile =
  af_path :: string
  af_reason :: FileInclusionReason
  af_view :: SourceView
  af_revision :: "string option"

record ActiveWorkingSet =
  step_id :: string
  ws_files :: "ActiveFile list"

definition MAX_FILES :: nat where "MAX_FILES = 8"
definition MAX_STEP_ID_BYTES :: nat where "MAX_STEP_ID_BYTES = 128"

subsection \<open>Validation\<close>

definition is_revision_handle :: "string \<Rightarrow> bool" where
  "is_revision_handle v =
     (case strip_prefix v ''rev_'' of
        None \<Rightarrow> False
      | Some rest \<Rightarrow> length rest = 32 \<and> list_all is_lower_hex rest)"

definition require_bounded_text :: "string \<Rightarrow> nat \<Rightarrow> string \<Rightarrow> string + string" where
  "require_bounded_text v bytes field =
     (let t = trim v in
      if t = [] then Err (field @ '' must not be empty.'')
      else if bytes < length t then Err (field @ '' exceeds '' @ show_nat bytes @ '' UTF-8 bytes.'')
      else Ok t)"

definition validate_path :: "string \<Rightarrow> string + string" where
  "validate_path path =
     result_bind (require_bounded_text path MAX_SOURCE_PATH_BYTES ''A source path'') (\<lambda>t.
       if CHR 0x5C \<in> set t \<or> hd t = CHR ''/'' \<or> (is_ascii_alphabetic (hd t) \<and> 1 < length t \<and> t ! 1 = CHR '':'')
           \<or> CHR 0x00 \<in> set t then
         Err (''Source paths must be workspace-relative (no drive, absolute, or backslash): '' @ t)
       else if ''..'' \<in> set (split_on (CHR ''/'') t) then Err (''Source paths must not traverse parents: '' @ t)
       else Ok t)"

definition optional_field :: "string option \<Rightarrow> nat \<Rightarrow> string \<Rightarrow> string + string option" where
  "optional_field v bytes field =
     (case v of None \<Rightarrow> Ok None | Some t \<Rightarrow> result_bind (require_bounded_text t bytes field) (\<lambda>t. Ok (Some t)))"

definition needs_handle :: "string \<Rightarrow> string" where
  "needs_handle path = ''Verified file '' @ path @ '' requires an exact revision handle (rev_ + 32 hex).''"

definition validate_file_ref :: "SourceFileRef \<Rightarrow> string + SourceFileRef" where
  "validate_file_ref file =
     result_bind (validate_path (sf_path file)) (\<lambda>path.
     result_bind (optional_field (sf_revision file) 128 (''Revision for '' @ path)) (\<lambda>revision.
     result_bind (optional_field (sf_evidence file) MAX_SOURCE_EVIDENCE_BYTES (''Evidence for '' @ path)) (\<lambda>evidence.
     result_bind (optional_field (sf_reason file) MAX_SOURCE_REASON_BYTES (''Reason for '' @ path)) (\<lambda>reason.
     let ref = \<lparr> sf_path = path, sf_confidence = sf_confidence file, sf_view = sf_view file,
           sf_revision = revision, sf_evidence = evidence, sf_reason = reason \<rparr>
     in if sf_confidence file = SourceFileConfidence_Verified then
          (case revision of
             None \<Rightarrow> Err (needs_handle path)
           | Some handle \<Rightarrow>
               if \<not> is_revision_handle handle then Err (needs_handle path)
               else if evidence = None then
                 Err (''Verified file '' @ path @ '' requires evidence; a guess is never verified.'')
               else Ok ref)
        else Ok ref))))"

text \<open>The two loops over file references; \<open>seen\<close> are the paths that must not occur again.\<close>

fun file_refs_loop :: "string \<Rightarrow> string list \<Rightarrow> SourceFileRef list \<Rightarrow> string + SourceFileRef list" where
  "file_refs_loop label seen [] = Ok []"
| "file_refs_loop label seen (f # fs) =
     result_bind (validate_file_ref f) (\<lambda>ref.
       if sf_path ref \<in> set seen then Err (label @ sf_path ref)
       else result_bind (file_refs_loop label (seen @ [sf_path ref]) fs) (\<lambda>refs. Ok (ref # refs)))"

fun try_map :: "('a \<Rightarrow> 'e + 'b) \<Rightarrow> 'a list \<Rightarrow> 'e + 'b list" where
  "try_map f [] = Ok []"
| "try_map f (x # xs) = result_bind (f x) (\<lambda>y. result_bind (try_map f xs) (\<lambda>ys. Ok (y # ys)))"

definition promotion_fields :: "string \<Rightarrow> string \<Rightarrow> string \<Rightarrow> string \<Rightarrow> string + ScopePromotionRecord" where
  "promotion_fields path evidence revision reason =
     result_bind (require_bounded_text evidence MAX_SOURCE_EVIDENCE_BYTES ''Promotion evidence'') (\<lambda>evidence.
     result_bind (require_bounded_text revision 128 ''Promotion revision'') (\<lambda>revision.
     if \<not> is_revision_handle revision then
       Err (''Promotion for '' @ path @ '' requires an exact revision handle.'')
     else result_bind (require_bounded_text reason MAX_SOURCE_REASON_BYTES ''Promotion reason'') (\<lambda>reason.
       Ok \<lparr> spr_path = path, spr_evidence = evidence, spr_revision = revision, spr_reason = reason \<rparr>)))"

definition validate_promotion :: "ScopePromotionRecord \<Rightarrow> string + ScopePromotionRecord" where
  "validate_promotion p =
     result_bind (validate_path (spr_path p)) (\<lambda>path.
       promotion_fields path (spr_evidence p) (spr_revision p) (spr_reason p))"

definition budget_reason :: "string \<Rightarrow> string" where
  "budget_reason field = ''Budget '' @ field @ '' must be a positive safe integer.''"

definition validate_budget :: "WorkspaceContextBudget \<Rightarrow> string + unit" where
  "validate_budget b =
     (case find (\<lambda>(field, v). v < 1) [(''maxActiveExactFiles'', max_active_exact_files b),
        (''maxExactBytes'', max_exact_bytes b), (''maxStructuralSummaries'', max_structural_summaries b),
        (''maxCandidateFiles'', max_candidate_files b),
        (''maxRetainedHistoricalViews'', max_retained_historical_views b)] of
        Some (field, v) \<Rightarrow> Err (budget_reason field)
      | None \<Rightarrow> Ok ())"

record CreateWorkspaceScopeInput =
  csi_verified_files :: "SourceFileRef list"
  csi_candidate_files :: "SourceFileRef list"
  csi_allowed_create_roots :: "string list"
  csi_excluded_paths :: "string list"
  csi_budget :: "WorkspaceContextBudget option"
  csi_promotions :: "ScopePromotionRecord list"

definition at_most :: "nat \<Rightarrow> string \<Rightarrow> string" where
  "at_most n what = ''A workspace scope accepts at most '' @ show_nat n @ '' '' @ what @ ''.''"

definition create_workspace_scope :: "CreateWorkspaceScopeInput \<Rightarrow> string + WorkspaceScope" where
  "create_workspace_scope input =
     (if MAX_VERIFIED_FILES < length (csi_verified_files input) then Err (at_most MAX_VERIFIED_FILES ''verified files'')
      else if MAX_CANDIDATE_FILES < length (csi_candidate_files input) then
        Err (at_most MAX_CANDIDATE_FILES ''candidate files'')
      else
        result_bind (file_refs_loop ''Duplicate verified file: '' [] (csi_verified_files input)) (\<lambda>verified.
        result_bind (file_refs_loop ''Duplicate file across scope sets: '' (map sf_path verified)
            (csi_candidate_files input)) (\<lambda>candidates.
        result_bind (try_map validate_path (csi_allowed_create_roots input)) (\<lambda>roots.
        if MAX_CREATE_ROOTS < length roots then Err (at_most MAX_CREATE_ROOTS ''create roots'')
        else result_bind (try_map validate_path (csi_excluded_paths input)) (\<lambda>excluded.
        if MAX_EXCLUDED_PATHS < length excluded then Err (at_most MAX_EXCLUDED_PATHS ''excluded paths'')
        else result_bind (try_map validate_promotion (csi_promotions input)) (\<lambda>records.
        if MAX_PROMOTIONS < length records then Err (at_most MAX_PROMOTIONS ''promotion records'')
        else
          let budget = (case csi_budget input of Some b \<Rightarrow> b | None \<Rightarrow> DEFAULT_WORKSPACE_CONTEXT_BUDGET)
          in result_bind (validate_budget budget) (\<lambda>_.
            Ok \<lparr> verified_files = verified, candidate_files = candidates, allowed_create_roots = roots,
              excluded_paths = excluded, scope_budget = budget, promotions = records \<rparr>)))))))"

subsection \<open>Operations\<close>

definition add_candidate_file :: "string \<Rightarrow> string option \<Rightarrow> WorkspaceScope \<Rightarrow> string + WorkspaceScope" where
  "add_candidate_file path note_text scope =
     result_bind (validate_file_ref \<lparr> sf_path = path, sf_confidence = SourceFileConfidence_Candidate,
         sf_view = SourceView_None, sf_revision = None, sf_evidence = None, sf_reason = note_text \<rparr>) (\<lambda>ref.
       if list_ex (\<lambda>f. sf_path f = sf_path ref) (verified_files scope) then Ok scope
       else if list_ex (\<lambda>f. sf_path f = sf_path ref) (candidate_files scope) then Ok scope
       else
         let files = candidate_files scope @ [ref]
         in Ok (scope\<lparr>candidate_files :=
             (if max_candidate_files (scope_budget scope) < length files then tl files else files)\<rparr>))"

record PromotionRequest =
  prq_evidence :: string
  prq_revision :: string
  prq_reason :: string

definition promote_candidate_file ::
    "string \<Rightarrow> PromotionRequest \<Rightarrow> WorkspaceScope \<Rightarrow> string + WorkspaceScope \<times> ScopePromotionRecord" where
  "promote_candidate_file path promotion scope =
     (if \<not> list_ex (\<lambda>f. sf_path f = path) (candidate_files scope) then
        Err (''Cannot promote unknown candidate: '' @ path)
      else
        result_bind (promotion_fields path (prq_evidence promotion) (prq_revision promotion) (prq_reason promotion)) (\<lambda>rec.
        let verified = verified_files scope @ [\<lparr> sf_path = path, sf_confidence = SourceFileConfidence_Verified,
              sf_view = SourceView_Structural, sf_revision = Some (spr_revision rec),
              sf_evidence = Some (spr_evidence rec), sf_reason = Some (spr_reason rec) \<rparr>]
        in if MAX_VERIFIED_FILES < length verified then Err (at_most MAX_VERIFIED_FILES ''verified files'')
           else
             let records = promotions scope @ [rec]
             in Ok (scope\<lparr>verified_files := verified,
                  candidate_files := filter (\<lambda>f. sf_path f \<noteq> path) (candidate_files scope),
                  promotions := (if MAX_PROMOTIONS < length records
                    then drop (length records - MAX_PROMOTIONS) records else records)\<rparr>, rec)))"

definition set_view :: "string \<Rightarrow> SourceView \<Rightarrow> SourceFileRef list \<Rightarrow> SourceFileRef list" where
  "set_view path view = map (\<lambda>f. if sf_path f = path then f\<lparr>sf_view := view\<rparr> else f)"

definition set_file_view :: "string \<Rightarrow> SourceView \<Rightarrow> WorkspaceScope \<Rightarrow> string + WorkspaceScope" where
  "set_file_view path view scope =
     (let in_verified = list_ex (\<lambda>f. sf_path f = path) (verified_files scope);
          in_candidates = list_ex (\<lambda>f. sf_path f = path) (candidate_files scope)
      in if \<not> in_verified \<and> \<not> in_candidates then Err (''Cannot set view for unknown file: '' @ path)
         else Ok (scope\<lparr>
           verified_files := (if in_verified then set_view path view (verified_files scope) else verified_files scope),
           candidate_files := (if in_candidates then set_view path view (candidate_files scope) else candidate_files scope)\<rparr>))"

fun active_files_loop :: "string list \<Rightarrow> ActiveFileInput list \<Rightarrow> string + ActiveFile list" where
  "active_files_loop seen [] = Ok []"
| "active_files_loop seen (f # fs) =
     result_bind (validate_path (afi_path f)) (\<lambda>path.
       if path \<in> set seen then Err (''Duplicate active file: '' @ path)
       else case FileInclusionReason_parse (afi_reason f) of
         None \<Rightarrow> Err (''Invalid inclusion reason for '' @ path @ '': '' @ afi_reason f)
       | Some reason \<Rightarrow>
           if afi_view f = SourceView_None then
             Err (''Invalid working-set view for '' @ path @ '': '' @ SourceView_as_str (afi_view f))
           else
             result_bind (case afi_revision f of
                 None \<Rightarrow> Ok None
               | Some v \<Rightarrow> result_bind (require_bounded_text v 128 (''Revision for '' @ path)) (\<lambda>t.
                   if \<not> is_revision_handle t then Err (''Active file '' @ path @ '' has an invalid revision handle.'')
                   else Ok (Some t))) (\<lambda>revision.
             result_bind (active_files_loop (seen @ [path]) fs) (\<lambda>files.
               Ok (\<lparr> af_path = path, af_reason = reason, af_view = afi_view f, af_revision = revision \<rparr> # files))))"

definition create_active_working_set :: "string \<Rightarrow> ActiveFileInput list \<Rightarrow> string + ActiveWorkingSet" where
  "create_active_working_set step files =
     result_bind (require_bounded_text step MAX_STEP_ID_BYTES ''A step id'') (\<lambda>i.
       if MAX_FILES < length files then Err (''An active working set accepts at most '' @ show_nat MAX_FILES @ '' files.'')
       else result_bind (active_files_loop [] files) (\<lambda>active. Ok \<lparr> step_id = i, ws_files = active \<rparr>))"

subsection \<open>Eviction\<close>

definition is_exact :: "SourceFileRef \<Rightarrow> bool" where
  "is_exact f \<longleftrightarrow> sf_view f = SourceView_Exact"

definition reported_bytes :: "(string \<times> nat) list \<Rightarrow> string \<Rightarrow> nat" where
  "reported_bytes sizes path = (case map_of sizes path of Some n \<Rightarrow> n | None \<Rightarrow> 0)"

definition over_budget :: "WorkspaceContextBudget \<Rightarrow> nat \<Rightarrow> nat \<Rightarrow> bool" where
  "over_budget b n_exact bytes \<longleftrightarrow> max_active_exact_files b < n_exact \<or> max_exact_bytes b < bytes"

text \<open>
  The loop over the tiers, one after the other: it stops as soon as both budgets hold.
  \<open>working\<close> are the paths of the working set, \<open>sizes\<close> the reported byte counts.
\<close>

fun evict_loop :: "string list \<Rightarrow> (string \<times> nat) list \<Rightarrow> SourceFileRef list \<Rightarrow> nat \<Rightarrow> nat \<Rightarrow> WorkspaceScope
    \<Rightarrow> string + WorkspaceScope \<times> EvictionRecord list" where
  "evict_loop working sizes [] n_exact bytes scope = Ok (scope, [])"
| "evict_loop working sizes (f # fs) n_exact bytes scope =
     (if \<not> over_budget (scope_budget scope) n_exact bytes then Ok (scope, [])
      else
        result_bind (set_file_view (sf_path f) SourceView_Summary scope) (\<lambda>scope.
        result_bind (evict_loop working sizes fs (n_exact - 1) (bytes - reported_bytes sizes (sf_path f)) scope) (\<lambda>(scope, records).
          Ok (scope, \<lparr> evr_path = sf_path f, evr_dropped_view = SourceView_Exact, evr_retained_view = SourceView_Summary,
            evr_reason = (if sf_path f \<in> set working
              then ''over budget; exact source demoted to summary with revision/evidence retained''
              else ''over budget; low-value exact source demoted to summary with revision/evidence retained'') \<rparr> # records))))"

definition evict_low_value_context ::
    "WorkspaceScope \<Rightarrow> ActiveWorkingSet option \<Rightarrow> (string \<times> nat) list \<Rightarrow> string + WorkspaceScope \<times> EvictionRecord list" where
  "evict_low_value_context scope working_set sizes =
     (let working = (case working_set of Some ws \<Rightarrow> map af_path (ws_files ws) | None \<Rightarrow> []);
          exact = filter is_exact (verified_files scope);
          candidate_exact = filter is_exact (candidate_files scope);
          n_exact = length exact + length candidate_exact;
          bytes = sum_list (map (\<lambda>f. reported_bytes sizes (sf_path f)) (exact @ candidate_exact))
      in if \<not> over_budget (scope_budget scope) n_exact bytes then Ok (scope, [])
         else evict_loop working sizes
           (candidate_exact @ filter (\<lambda>f. sf_path f \<notin> set working) exact @ filter (\<lambda>f. sf_path f \<in> set working) exact)
           n_exact bytes scope)"

end
