(* ===== verification/Executor_Scope_Properties.thy ===== *)
theory Executor_Scope_Properties
  imports Executor_Scope Machine
begin

text \<open>
  Properties of workspace scopes: a scope stays well formed under every operation, promotion is
  the only way into the verified files of a created scope, and eviction meets the
  source-context budget in its fixed order, never touching revision or evidence.
\<close>

subsection \<open>Well-formed scopes\<close>

definition file_ok :: "SourceFileRef \<Rightarrow> bool" where
  "file_ok f \<longleftrightarrow> validate_path (sf_path f) = Ok (sf_path f)
     \<and> (sf_confidence f = SourceFileConfidence_Verified \<longrightarrow>
          (\<exists>h. sf_revision f = Some h \<and> is_revision_handle h) \<and> sf_evidence f \<noteq> None)"

abbreviation scope_files :: "WorkspaceScope \<Rightarrow> SourceFileRef list" where
  "scope_files scope \<equiv> verified_files scope @ candidate_files scope"

definition budget_ok :: "WorkspaceContextBudget \<Rightarrow> bool" where
  "budget_ok b \<longleftrightarrow> 1 \<le> max_active_exact_files b \<and> 1 \<le> max_exact_bytes b \<and> 1 \<le> max_structural_summaries b
     \<and> 1 \<le> max_candidate_files b \<and> 1 \<le> max_retained_historical_views b"

definition scope_inv :: "WorkspaceScope \<Rightarrow> bool" where
  "scope_inv scope \<longleftrightarrow> distinct (map sf_path (scope_files scope)) \<and> (\<forall>f \<in> set (scope_files scope). file_ok f)
     \<and> length (verified_files scope) \<le> MAX_VERIFIED_FILES
     \<and> length (candidate_files scope) \<le> max MAX_CANDIDATE_FILES (max_candidate_files (scope_budget scope))
     \<and> length (promotions scope) \<le> MAX_PROMOTIONS \<and> length (allowed_create_roots scope) \<le> MAX_CREATE_ROOTS
     \<and> length (excluded_paths scope) \<le> MAX_EXCLUDED_PATHS \<and> budget_ok (scope_budget scope)"

lemma validate_budget_Ok: "validate_budget b = Ok () \<longleftrightarrow> budget_ok b"
  by (auto simp: validate_budget_def budget_ok_def)

lemma require_bounded_text_Ok:
  "require_bounded_text v n field = Ok t \<longleftrightarrow> t = trim v \<and> t \<noteq> [] \<and> length t \<le> n"
  by (auto simp: require_bounded_text_def Let_def)

lemma validate_path_again: "validate_path p = Ok q \<Longrightarrow> validate_path q = Ok q"
  by (auto simp: validate_path_def result_bind_Ok_iff require_bounded_text_Ok split: if_splits)

lemma validate_file_ref_ok:
  assumes "validate_file_ref f = Ok g"
  shows "file_ok g" and "sf_confidence g = sf_confidence f" and "sf_view g = sf_view f"
  using assms validate_path_again
  by (auto simp: validate_file_ref_def result_bind_Ok_iff file_ok_def Let_def split: if_splits option.splits)

lemma file_refs_loop_ok:
  "file_refs_loop label seen fs = Ok gs \<Longrightarrow>
     distinct (map sf_path gs) \<and> set (map sf_path gs) \<inter> set seen = {} \<and> (\<forall>g \<in> set gs. file_ok g)
     \<and> length gs = length fs"
proof (induction label seen fs arbitrary: gs rule: file_refs_loop.induct)
  case (2 label seen f fs)
  then obtain ref refs where "validate_file_ref f = Ok ref" "sf_path ref \<notin> set seen" "gs = ref # refs"
      "file_refs_loop label (seen @ [sf_path ref]) fs = Ok refs"
    by (auto simp: result_bind_Ok_iff split: if_splits)
  with "2.IH" [of ref refs] validate_file_ref_ok [of f ref] show ?case
    by auto
qed simp

lemma length_try_map: "try_map f xs = Ok ys \<Longrightarrow> length ys = length xs"
  by (induction xs arbitrary: ys) (auto simp: result_bind_Ok_iff)

lemma create_workspace_scope_inv:
  assumes "create_workspace_scope input = Ok scope"
  shows "scope_inv scope"
proof -
  obtain verified candidates roots excluded records where parts:
      "length (csi_verified_files input) \<le> MAX_VERIFIED_FILES" "length (csi_candidate_files input) \<le> MAX_CANDIDATE_FILES"
      "file_refs_loop ''Duplicate verified file: '' [] (csi_verified_files input) = Ok verified"
      "file_refs_loop ''Duplicate file across scope sets: '' (map sf_path verified) (csi_candidate_files input) = Ok candidates"
      "length roots \<le> MAX_CREATE_ROOTS" "length excluded \<le> MAX_EXCLUDED_PATHS" "length records \<le> MAX_PROMOTIONS"
      "budget_ok (scope_budget scope)" "verified_files scope = verified" "candidate_files scope = candidates"
      "allowed_create_roots scope = roots" "excluded_paths scope = excluded" "promotions scope = records"
    using assms
    by (auto simp: create_workspace_scope_def result_bind_Ok_iff Let_def validate_budget_Ok not_less split: if_splits)
  with file_refs_loop_ok [OF parts(3)] file_refs_loop_ok [OF parts(4)] show ?thesis
    by (auto simp: scope_inv_def)
qed

subsection \<open>Operations keep scopes well formed\<close>

datatype ScopeOp =
    Op_add_candidate_file string "string option"
  | Op_promote_candidate_file string PromotionRequest
  | Op_set_file_view string SourceView
  | Op_evict "ActiveWorkingSet option" "(string \<times> nat) list"

fun or_keep :: "'s \<Rightarrow> 'e + 's \<Rightarrow> 's" where
  "or_keep s (Inl e) = s"
| "or_keep s (Inr s') = s'"

fun apply_scope :: "ScopeOp \<Rightarrow> WorkspaceScope \<Rightarrow> WorkspaceScope" where
  "apply_scope (Op_add_candidate_file path note_text) s = or_keep s (add_candidate_file path note_text s)"
| "apply_scope (Op_promote_candidate_file path request) s =
     or_keep s (result_bind (promote_candidate_file path request s) (\<lambda>(s', _). Ok s'))"
| "apply_scope (Op_set_file_view path view) s = or_keep s (set_file_view path view s)"
| "apply_scope (Op_evict ws sizes) s = or_keep s (result_bind (evict_low_value_context s ws sizes) (\<lambda>(s', _). Ok s'))"

definition created_scope :: "WorkspaceScope \<Rightarrow> bool" where
  "created_scope s \<longleftrightarrow> (\<exists>input. create_workspace_scope input = Ok s)"

abbreviation scope_reachable :: "WorkspaceScope \<Rightarrow> bool" where
  "scope_reachable \<equiv> reachable created_scope apply_scope"

definition push_candidate :: "SourceFileRef \<Rightarrow> WorkspaceScope \<Rightarrow> WorkspaceScope" where
  "push_candidate ref s = s\<lparr>candidate_files :=
     (if max_candidate_files (scope_budget s) < length (candidate_files s @ [ref]) then tl (candidate_files s @ [ref])
      else candidate_files s @ [ref])\<rparr>"

lemma add_candidate_cases:
  assumes "add_candidate_file path note_text s = Ok s'"
  obtains "s' = s" | (added) ref where "file_ok ref" "sf_path ref \<notin> set (map sf_path (scope_files s))" "s' = push_candidate ref s"
proof -
  from assms obtain ref where ref: "file_ok ref"
      and s': "(if list_ex (\<lambda>f. sf_path f = sf_path ref) (verified_files s) then Ok s
       else if list_ex (\<lambda>f. sf_path f = sf_path ref) (candidate_files s) then Ok s
       else Ok (push_candidate ref s)) = (Ok s' :: string + WorkspaceScope)"
    unfolding add_candidate_file_def result_bind_Ok_iff Let_def push_candidate_def using validate_file_ref_ok(1) by blast
  show thesis
  proof (cases "list_ex (\<lambda>f. sf_path f = sf_path ref) (scope_files s)")
    case True
    with s' that(1) show thesis
      by (simp split: if_splits)
  next
    case False
    with s' have "s' = push_candidate ref s"
      by (simp split: if_splits)
    moreover have "sf_path ref \<notin> set (map sf_path (scope_files s))"
      using False by (auto simp: list_ex_iff)
    ultimately show thesis
      using ref added by blast
  qed
qed

lemma push_candidate_inv:
  assumes "scope_inv s" and "file_ok ref" and "sf_path ref \<notin> set (map sf_path (scope_files s))"
  shows "scope_inv (push_candidate ref s)"
proof -
  let ?files = "candidate_files s @ [ref]"
  have all: "distinct (map sf_path (verified_files s @ ?files))" "\<forall>f \<in> set (verified_files s @ ?files). file_ok f"
    using assms by (auto simp: scope_inv_def)
  obtain x where x: "?files = x # tl ?files"
    by (cases "candidate_files s") auto
  have "distinct (map sf_path (verified_files s @ tl ?files))" "\<forall>f \<in> set (verified_files s @ tl ?files). file_ok f"
    using all by (subst (asm) (1 2) x, simp)+
  with all assms(1) show ?thesis
    unfolding scope_inv_def push_candidate_def by (simp add: not_less le_max_iff_disj)
qed

lemma add_candidate_inv:
  assumes "scope_inv s" and "add_candidate_file path note_text s = Ok s'"
  shows "scope_inv s'"
  using assms(2) by (cases rule: add_candidate_cases) (use assms(1) push_candidate_inv in auto)

lemma promotion_fields_Ok:
  "promotion_fields path e v w = Ok rec \<Longrightarrow> spr_path rec = path \<and> is_revision_handle (spr_revision rec)"
  by (auto simp: promotion_fields_def result_bind_Ok_iff split: if_splits)

definition promoted :: "ScopePromotionRecord \<Rightarrow> SourceFileRef" where
  "promoted rec = \<lparr> sf_path = spr_path rec, sf_confidence = SourceFileConfidence_Verified, sf_view = SourceView_Structural,
     sf_revision = Some (spr_revision rec), sf_evidence = Some (spr_evidence rec), sf_reason = Some (spr_reason rec) \<rparr>"

lemma promote_Ok:
  assumes "promote_candidate_file path request s = Ok (s', rec)"
  shows "path \<in> sf_path ` set (candidate_files s)" and "spr_path rec = path" and "is_revision_handle (spr_revision rec)"
    and "verified_files s' = verified_files s @ [promoted rec]" and "length (verified_files s') \<le> MAX_VERIFIED_FILES"
    and "candidate_files s' = filter (\<lambda>f. sf_path f \<noteq> path) (candidate_files s)"
    and "length (promotions s') \<le> MAX_PROMOTIONS" and "allowed_create_roots s' = allowed_create_roots s"
    and "excluded_paths s' = excluded_paths s" and "scope_budget s' = scope_budget s"
proof -
  from assms have "path \<in> sf_path ` set (candidate_files s)"
    by (auto simp: promote_candidate_file_def list_ex_iff split: if_splits)
  moreover from assms obtain rec' where rec': "promotion_fields path (prq_evidence request) (prq_revision request) (prq_reason request) = Ok rec'"
    by (auto simp: promote_candidate_file_def result_bind_Ok_iff split: if_splits)
  moreover note promotion_fields_Ok [OF rec']
  ultimately show "path \<in> sf_path ` set (candidate_files s)" "spr_path rec = path" "is_revision_handle (spr_revision rec)"
    "verified_files s' = verified_files s @ [promoted rec]" "length (verified_files s') \<le> MAX_VERIFIED_FILES"
    "candidate_files s' = filter (\<lambda>f. sf_path f \<noteq> path) (candidate_files s)"
    "length (promotions s') \<le> MAX_PROMOTIONS" "allowed_create_roots s' = allowed_create_roots s"
    "excluded_paths s' = excluded_paths s" "scope_budget s' = scope_budget s"
    using assms by (auto simp: promote_candidate_file_def Let_def promoted_def split: if_splits)
qed

lemma promote_inv:
  assumes "scope_inv s" and "promote_candidate_file path request s = Ok (s', rec)"
  shows "scope_inv s'"
proof -
  note facts = promote_Ok [OF assms(2)]
  obtain f where f: "f \<in> set (candidate_files s)" "sf_path f = path"
    using facts(1) by auto
  then have ok: "file_ok (promoted rec)"
    using assms(1) facts(2,3) by (auto simp: scope_inv_def file_ok_def promoted_def)
  have new: "path \<notin> sf_path ` set (verified_files s)" "sf_path (promoted rec) = path"
    using f assms(1) facts(2) by (auto simp: scope_inv_def promoted_def)
  have distinct: "distinct (map sf_path (verified_files s))" "distinct (map sf_path (candidate_files s))"
      "sf_path ` set (verified_files s) \<inter> sf_path ` set (candidate_files s) = {}"
    and old: "\<forall>f \<in> set (scope_files s). file_ok f"
    and len: "length (candidate_files s) \<le> max MAX_CANDIDATE_FILES (max_candidate_files (scope_budget s))"
    and rest: "length (allowed_create_roots s) \<le> MAX_CREATE_ROOTS" "length (excluded_paths s) \<le> MAX_EXCLUDED_PATHS"
      "budget_ok (scope_budget s)"
    using assms(1) by (simp_all add: scope_inv_def)
  have "distinct (map sf_path (scope_files s'))"
    using distinct new unfolding facts(4,6) by (auto simp: distinct_map_filter)
  moreover have "\<forall>f \<in> set (scope_files s'). file_ok f"
    using old ok unfolding facts(4,6) by auto
  moreover have "length (candidate_files s') \<le> max MAX_CANDIDATE_FILES (max_candidate_files (scope_budget s))"
    using len length_filter_le [of "\<lambda>f. sf_path f \<noteq> path" "candidate_files s"] unfolding facts(6) by linarith
  ultimately show ?thesis
    using facts(5,7) rest unfolding scope_inv_def facts(8-10) by blast
qed

lemma set_view_simps [simp]:
  "map sf_path (set_view path view fs) = map sf_path fs"
  "length (set_view path view fs) = length fs"
  "(\<forall>f \<in> set (set_view path view fs). file_ok f) \<longleftrightarrow> (\<forall>f \<in> set fs. file_ok f)"
proof -
  have "file_ok (if sf_path f = path then f\<lparr>sf_view := view\<rparr> else f) = file_ok f" for f
    by (simp add: file_ok_def)
  then show "(\<forall>f \<in> set (set_view path view fs). file_ok f) \<longleftrightarrow> (\<forall>f \<in> set fs. file_ok f)"
    by (simp only: set_view_def set_map ball_simps)
qed (simp_all add: set_view_def)

lemma set_view_absent: "\<not> list_ex (\<lambda>f. sf_path f = path) fs \<Longrightarrow> set_view path view fs = fs"
  by (auto simp: set_view_def list_ex_iff intro!: map_idI)

lemma set_file_view_eq:
  "set_file_view path view s =
     (if path \<in> sf_path ` set (scope_files s) then
        Ok (s\<lparr>verified_files := set_view path view (verified_files s), candidate_files := set_view path view (candidate_files s)\<rparr>)
      else Err (''Cannot set view for unknown file: '' @ path))"
  using set_view_absent [of path "verified_files s" view] set_view_absent [of path "candidate_files s" view]
  by (auto simp: set_file_view_def Let_def list_ex_iff image_iff)

lemma set_file_view_inv:
  assumes "scope_inv s" and "set_file_view path view s = Ok s'"
  shows "scope_inv s'"
proof -
  have s': "s' = s\<lparr>verified_files := set_view path view (verified_files s), candidate_files := set_view path view (candidate_files s)\<rparr>"
    using assms(2) by (simp add: set_file_view_eq split: if_splits)
  have "set (map sf_path (set_view path view fs)) = set (map sf_path fs)" for fs
    by (simp only: set_view_simps)
  then show ?thesis
    using assms(1) unfolding s' scope_inv_def by (simp add: ball_Un image_image [symmetric] distinct_map)
qed


subsection \<open>Eviction\<close>

definition exact_files :: "WorkspaceScope \<Rightarrow> SourceFileRef list" where
  "exact_files s = filter is_exact (scope_files s)"

definition exact_bytes :: "(string \<times> nat) list \<Rightarrow> WorkspaceScope \<Rightarrow> nat" where
  "exact_bytes sizes s = sum_list (map (\<lambda>f. reported_bytes sizes (sf_path f)) (exact_files s))"

text \<open>The order in which exact files are demoted: candidates, then files outside the working set, then the others.\<close>

definition working_paths :: "ActiveWorkingSet option \<Rightarrow> string list" where
  "working_paths ws = (case ws of Some ws \<Rightarrow> map af_path (ws_files ws) | None \<Rightarrow> [])"

definition eviction_order :: "ActiveWorkingSet option \<Rightarrow> WorkspaceScope \<Rightarrow> SourceFileRef list" where
  "eviction_order ws s =
     (let exact = filter is_exact (verified_files s)
      in filter is_exact (candidate_files s) @ filter (\<lambda>f. sf_path f \<notin> set (working_paths ws)) exact
         @ filter (\<lambda>f. sf_path f \<in> set (working_paths ws)) exact)"

definition path_bytes :: "(string \<times> nat) list \<Rightarrow> string list \<Rightarrow> nat" where
  "path_bytes sizes ps = sum_list (map (reported_bytes sizes) ps)"

abbreviation scope_paths :: "WorkspaceScope \<Rightarrow> string list" where
  "scope_paths s \<equiv> map sf_path (scope_files s)"

abbreviation exact_paths :: "WorkspaceScope \<Rightarrow> string set" where
  "exact_paths s \<equiv> sf_path ` set (exact_files s)"

text \<open>What views may change: everything but the view of a file is kept.\<close>

definition content_of :: "WorkspaceScope \<Rightarrow> WorkspaceScope" where
  "content_of s = s\<lparr>verified_files := map (\<lambda>f. f\<lparr>sf_view := SourceView_None\<rparr>) (verified_files s),
     candidate_files := map (\<lambda>f. f\<lparr>sf_view := SourceView_None\<rparr>) (candidate_files s)\<rparr>"

definition demote :: "string \<Rightarrow> WorkspaceScope \<Rightarrow> WorkspaceScope" where
  "demote path s = s\<lparr>verified_files := set_view path SourceView_Summary (verified_files s),
     candidate_files := set_view path SourceView_Summary (candidate_files s)\<rparr>"

lemma demote_simps [simp]:
  "scope_paths (demote path s) = scope_paths s"
  "content_of (demote path s) = content_of s"
  "scope_budget (demote path s) = scope_budget s"
  by (auto simp: demote_def content_of_def set_view_def)

lemma set_file_view_demote:
  "path \<in> set (scope_paths s) \<Longrightarrow> set_file_view path SourceView_Summary s = Ok (demote path s)"
  by (auto simp: set_file_view_eq demote_def)

lemma exact_set_view:
  "sf_path ` set (filter is_exact (set_view path SourceView_Summary fs)) = sf_path ` set (filter is_exact fs) - {path}"
  by (induction fs) (auto simp: set_view_def is_exact_def)

lemma exact_paths_demote: "exact_paths (demote path s) = exact_paths s - {path}"
proof -
  have "scope_files (demote path s) = set_view path SourceView_Summary (scope_files s)"
    by (simp add: demote_def set_view_def)
  then show ?thesis
    unfolding exact_files_def by (simp only: exact_set_view)
qed

lemma distinct_exact_paths: "distinct (scope_paths s) \<Longrightarrow> distinct (map sf_path (exact_files s))"
  unfolding exact_files_def by (rule distinct_map_filter)

lemma exact_paths_subset: "exact_paths s \<subseteq> set (scope_paths s)"
  by (auto simp: exact_files_def)

fun evicted :: "string list \<Rightarrow> SourceFileRef \<Rightarrow> EvictionRecord" where
  "evicted working f = \<lparr> evr_path = sf_path f, evr_dropped_view = SourceView_Exact, evr_retained_view = SourceView_Summary,
     evr_reason = (if sf_path f \<in> set working
       then ''over budget; exact source demoted to summary with revision/evidence retained''
       else ''over budget; low-value exact source demoted to summary with revision/evidence retained'') \<rparr>"

lemma evict_loop_works:
  assumes "distinct (scope_paths s)" and "distinct (map sf_path fs)" and "sf_path ` set fs = exact_paths s"
  shows "\<exists>s' k. evict_loop working sizes fs (length fs) (path_bytes sizes (map sf_path fs)) s
      = Ok (s', map (evicted working) (take k fs)) \<and> k \<le> length fs
    \<and> content_of s' = content_of s \<and> exact_paths s' = sf_path ` set (drop k fs)
    \<and> (k < length fs \<longrightarrow> \<not> over_budget (scope_budget s) (length (drop k fs)) (path_bytes sizes (map sf_path (drop k fs))))
    \<and> (\<forall>j < k. over_budget (scope_budget s) (length (drop j fs)) (path_bytes sizes (map sf_path (drop j fs))))"
  using assms
proof (induction fs arbitrary: s)
  case Nil
  then show ?case
    by (intro exI [of _ s] exI [of _ 0]) simp
next
  case (Cons f fs)
  let ?n = "length (f # fs)" and ?bytes = "path_bytes sizes (map sf_path (f # fs))"
  show ?case
  proof (cases "over_budget (scope_budget s) ?n ?bytes")
    case False
    with Cons.prems show ?thesis
      by (intro exI [of _ s] exI [of _ 0]) simp
  next
    case True
    have f: "sf_path f \<in> set (scope_paths s)"
      using Cons.prems(3) exact_paths_subset [of s] by auto
    have prems: "distinct (scope_paths (demote (sf_path f) s))" "distinct (map sf_path fs)"
        "sf_path ` set fs = exact_paths (demote (sf_path f) s)"
      using Cons.prems(1,2) Cons.prems(3) [symmetric] unfolding exact_paths_demote demote_simps by simp_all
    obtain s' k where IH: "evict_loop working sizes fs (length fs) (path_bytes sizes (map sf_path fs)) (demote (sf_path f) s)
          = Ok (s', map (evicted working) (take k fs))" "k \<le> length fs"
        "content_of s' = content_of (demote (sf_path f) s)" "exact_paths s' = sf_path ` set (drop k fs)"
        "k < length fs \<longrightarrow> \<not> over_budget (scope_budget s) (length (drop k fs)) (path_bytes sizes (map sf_path (drop k fs)))"
        "\<forall>j < k. over_budget (scope_budget s) (length (drop j fs)) (path_bytes sizes (map sf_path (drop j fs)))"
      using Cons.IH [OF prems] by (auto simp only: demote_simps)
    have "evict_loop working sizes (f # fs) ?n ?bytes s = Ok (s', map (evicted working) (take (Suc k) (f # fs)))"
      using True IH(1) set_file_view_demote [OF f] by (simp add: path_bytes_def)
    moreover have "\<forall>j < Suc k. over_budget (scope_budget s) (length (drop j (f # fs))) (path_bytes sizes (map sf_path (drop j (f # fs))))"
      using True IH(6) by (auto simp: less_Suc_eq_0_disj)
    ultimately show ?thesis
      using IH(2-5) by (intro exI [of _ s'] exI [of _ "Suc k"]) simp
  qed
qed

lemma eviction_order_exact:
  assumes "distinct (scope_paths s)"
  shows "sf_path ` set (eviction_order ws s) = exact_paths s" and "distinct (map sf_path (eviction_order ws s))"
    and "length (eviction_order ws s) = length (exact_files s)"
    and "path_bytes sizes (map sf_path (eviction_order ws s)) = exact_bytes sizes s"
proof -
  let ?p = "\<lambda>f. sf_path f \<in> set (working_paths ws)" and ?v = "filter is_exact (verified_files s)"
  show eq: "sf_path ` set (eviction_order ws s) = exact_paths s"
    by (auto simp: eviction_order_def exact_files_def Let_def)
  have sum: "sum_list (map g ?v) = sum_list (map g (filter (\<lambda>f. \<not> ?p f) ?v)) + sum_list (map g (filter ?p ?v))" for g :: "SourceFileRef \<Rightarrow> nat"
  proof -
    have "sum_list (map g xs) = sum_list (map g (filter (\<lambda>f. \<not> ?p f) xs)) + sum_list (map g (filter ?p xs))" for xs
      by (induction xs) simp_all
    then show ?thesis .
  qed
  show "path_bytes sizes (map sf_path (eviction_order ws s)) = exact_bytes sizes s"
    using sum [of "\<lambda>f. reported_bytes sizes (sf_path f)"]
    by (simp add: path_bytes_def exact_bytes_def exact_files_def eviction_order_def Let_def comp_def)
  show len: "length (eviction_order ws s) = length (exact_files s)"
    using sum_length_filter_compl [of ?p ?v] by (simp add: exact_files_def eviction_order_def Let_def)
  have "card (set (map sf_path (eviction_order ws s))) = length (map sf_path (eviction_order ws s))"
    using distinct_card [OF distinct_exact_paths [OF assms]] eq len by simp
  then show "distinct (map sf_path (eviction_order ws s))"
    by (rule card_distinct)
qed

lemma evict_eq:
  "evict_low_value_context s ws sizes =
     (if \<not> over_budget (scope_budget s) (length (exact_files s)) (exact_bytes sizes s) then Ok (s, [])
      else evict_loop (working_paths ws) sizes (eviction_order ws s) (length (exact_files s)) (exact_bytes sizes s) s)"
  by (simp add: evict_low_value_context_def eviction_order_def exact_files_def exact_bytes_def working_paths_def Let_def)

lemma eviction_summary:
  assumes "distinct (scope_paths s)"
  shows "\<exists>s' k. evict_low_value_context s ws sizes = Ok (s', map (evicted (working_paths ws)) (take k (eviction_order ws s)))
    \<and> k \<le> length (eviction_order ws s) \<and> content_of s' = content_of s \<and> exact_paths s' = sf_path ` set (drop k (eviction_order ws s))
    \<and> (k < length (eviction_order ws s) \<longrightarrow> \<not> over_budget (scope_budget s) (length (drop k (eviction_order ws s)))
         (path_bytes sizes (map sf_path (drop k (eviction_order ws s)))))
    \<and> (\<forall>j < k. over_budget (scope_budget s) (length (drop j (eviction_order ws s)))
         (path_bytes sizes (map sf_path (drop j (eviction_order ws s)))))"
proof (cases "over_budget (scope_budget s) (length (exact_files s)) (exact_bytes sizes s)")
  case True
  with evict_loop_works [OF assms eviction_order_exact(2) [OF assms] eviction_order_exact(1) [OF assms], of "working_paths ws" sizes]
  show ?thesis
    unfolding evict_eq eviction_order_exact(3) [OF assms] eviction_order_exact(4) [OF assms] by simp
next
  case False
  then show ?thesis
    using eviction_order_exact [OF assms]
    by (intro exI [of _ s] exI [of _ 0]) (simp add: evict_eq)
qed


subsection \<open>Properties\<close>

lemma exact_of_paths:
  assumes "distinct (scope_paths s)" and "exact_paths s = set ps" and "distinct ps"
  shows "length (exact_files s) = length ps" and "exact_bytes sizes s = path_bytes sizes ps"
proof -
  note d = distinct_exact_paths [OF assms(1)]
  show "length (exact_files s) = length ps"
    using distinct_card [OF d] distinct_card [OF assms(3)] assms(2) by simp
  have "exact_bytes sizes s = sum_list (map (reported_bytes sizes) (map sf_path (exact_files s)))"
    by (simp add: exact_bytes_def comp_def)
  also have "\<dots> = sum (reported_bytes sizes) (set ps)"
    using d assms(2) by (simp add: sum_list_distinct_conv_sum_set del: map_map)
  finally show "exact_bytes sizes s = path_bytes sizes ps"
    using assms(3) by (simp add: path_bytes_def sum_list_distinct_conv_sum_set)
qed

lemma content_of_eq:
  assumes "content_of s' = content_of s"
  shows "scope_paths s' = scope_paths s" and "map sf_revision (scope_files s') = map sf_revision (scope_files s)"
    and "map sf_evidence (scope_files s') = map sf_evidence (scope_files s)"
    and "map sf_confidence (scope_files s') = map sf_confidence (scope_files s)" and "scope_budget s' = scope_budget s"
    and "promotions s' = promotions s" and "allowed_create_roots s' = allowed_create_roots s"
    and "excluded_paths s' = excluded_paths s"
    and "length (verified_files s') = length (verified_files s)" and "length (candidate_files s') = length (candidate_files s)"
proof -
  let ?c = "map (\<lambda>f. f\<lparr>sf_view := SourceView_None\<rparr>)"
  have files: "?c (verified_files s') = ?c (verified_files s)" "?c (candidate_files s') = ?c (candidate_files s)"
    and rest: "scope_budget s' = scope_budget s" "promotions s' = promotions s"
      "allowed_create_roots s' = allowed_create_roots s" "excluded_paths s' = excluded_paths s"
    using arg_cong [OF assms, of verified_files] arg_cong [OF assms, of candidate_files]
      arg_cong [OF assms, of scope_budget] arg_cong [OF assms, of promotions]
      arg_cong [OF assms, of allowed_create_roots] arg_cong [OF assms, of excluded_paths]
    by (simp_all add: content_of_def)
  show "scope_budget s' = scope_budget s" "promotions s' = promotions s"
    "allowed_create_roots s' = allowed_create_roots s" "excluded_paths s' = excluded_paths s"
    by (fact rest)+
  have field: "map g (scope_files s') = map g (scope_files s)"
    if "\<And>f. g (f\<lparr>sf_view := SourceView_None\<rparr>) = g f" for g :: "SourceFileRef \<Rightarrow> 'x"
    using arg_cong [OF files(1), of "map g"] arg_cong [OF files(2), of "map g"] that by (simp add: comp_def)
  show "scope_paths s' = scope_paths s" "map sf_revision (scope_files s') = map sf_revision (scope_files s)"
    "map sf_evidence (scope_files s') = map sf_evidence (scope_files s)"
    "map sf_confidence (scope_files s') = map sf_confidence (scope_files s)"
    by (rule field; simp)+
  show "length (verified_files s') = length (verified_files s)" "length (candidate_files s') = length (candidate_files s)"
    using files by (auto dest: map_eq_imp_length_eq)
qed

lemma evict_inv:
  assumes "scope_inv s" and "evict_low_value_context s ws sizes = Ok (s', records)"
  shows "scope_inv s'"
proof -
  have "distinct (scope_paths s)"
    using assms(1) by (simp add: scope_inv_def)
  from eviction_summary [OF this, of ws sizes] assms(2) have "content_of s' = content_of s"
    by auto
  note same = content_of_eq [OF this]
  have ok: "(\<forall>f \<in> set (scope_files t). file_ok f) = (\<forall>f \<in> set (scope_files (content_of t)). file_ok f)" for t
    by (simp add: content_of_def file_ok_def ball_Un)
  have "\<forall>f \<in> set (scope_files s'). file_ok f"
    using assms(1) unfolding ok [of s'] \<open>content_of s' = content_of s\<close> ok [of s, symmetric] unfolding scope_inv_def by blast
  moreover have "distinct (scope_paths s')" "length (verified_files s') \<le> MAX_VERIFIED_FILES"
      "length (candidate_files s') \<le> max MAX_CANDIDATE_FILES (max_candidate_files (scope_budget s'))"
      "length (promotions s') \<le> MAX_PROMOTIONS" "length (allowed_create_roots s') \<le> MAX_CREATE_ROOTS"
      "length (excluded_paths s') \<le> MAX_EXCLUDED_PATHS" "budget_ok (scope_budget s')"
    using assms(1) unfolding same scope_inv_def by blast+
  ultimately show ?thesis
    unfolding scope_inv_def by blast
qed

interpretation scopes: machine created_scope apply_scope scope_inv
proof
  fix s
  show "created_scope s \<Longrightarrow> scope_inv s"
    using create_workspace_scope_inv by (auto simp: created_scope_def)
  fix op
  assume inv: "scope_inv s"
  show "scope_inv (apply_scope op s)"
  proof (cases op)
    case (Op_add_candidate_file path note_text)
    then show ?thesis
      using inv add_candidate_inv [OF inv] by (cases "add_candidate_file path note_text s") simp_all
  next
    case (Op_promote_candidate_file path request)
    then show ?thesis
      using inv promote_inv [OF inv] by (cases "promote_candidate_file path request s") auto
  next
    case (Op_set_file_view path view)
    then show ?thesis
      using inv set_file_view_inv [OF inv] by (cases "set_file_view path view s") simp_all
  next
    case (Op_evict ws sizes)
    then show ?thesis
      using inv evict_inv [OF inv] by (cases "evict_low_value_context s ws sizes") auto
  qed
qed

text \<open>The verified files of a scope only grow, by promotions that carry revision and evidence.\<close>

definition unviewed :: "SourceFileRef \<Rightarrow> SourceFileRef" where
  "unviewed f = f\<lparr>sf_view := SourceView_None\<rparr>"

definition evidenced :: "SourceFileRef \<Rightarrow> bool" where
  "evidenced f \<longleftrightarrow> sf_confidence f = SourceFileConfidence_Verified
     \<and> (\<exists>h. sf_revision f = Some h \<and> is_revision_handle h) \<and> sf_evidence f \<noteq> None"

definition verified_grows :: "WorkspaceScope \<Rightarrow> WorkspaceScope \<Rightarrow> bool" where
  "verified_grows s s' \<longleftrightarrow>
     (\<exists>added. map unviewed (verified_files s') = map unviewed (verified_files s) @ added \<and> list_all evidenced added)"

lemma verified_grows_refl [simp]: "verified_grows s s"
  by (simp add: verified_grows_def)

lemma verified_grows_trans: "verified_grows s t \<Longrightarrow> verified_grows t u \<Longrightarrow> verified_grows s u"
  unfolding verified_grows_def by (metis append.assoc list_all_append)

lemma verified_grows_same: "map unviewed (verified_files s') = map unviewed (verified_files s) \<Longrightarrow> verified_grows s s'"
  by (simp add: verified_grows_def)

lemma unviewed_set_view: "map unviewed (set_view path view fs) = map unviewed fs"
  by (simp add: set_view_def unviewed_def)

lemma scope_step_grows:
  assumes "scope_inv s"
  shows "verified_grows s (apply_scope op s)"
proof (cases op)
  case (Op_add_candidate_file path note_text)
  have "verified_grows s s'" if "add_candidate_file path note_text s = Ok s'" for s'
    using that by (cases rule: add_candidate_cases) (auto simp: push_candidate_def intro: verified_grows_same)
  then show ?thesis
    using Op_add_candidate_file by (cases "add_candidate_file path note_text s") simp_all
next
  case (Op_promote_candidate_file path request)
  have "verified_grows s s'" if "promote_candidate_file path request s = Ok (s', rec)" for s' rec
  proof -
    have "evidenced (unviewed (promoted rec))"
      using promote_Ok(3) [OF that] by (simp add: evidenced_def unviewed_def promoted_def)
    then show ?thesis
      using promote_Ok(4) [OF that] by (simp add: verified_grows_def)
  qed
  then show ?thesis
    using Op_promote_candidate_file by (cases "promote_candidate_file path request s") auto
next
  case (Op_set_file_view path view)
  then show ?thesis
    by (simp add: set_file_view_eq unviewed_set_view verified_grows_same)
next
  case (Op_evict ws sizes)
  have "verified_grows s s'" if "evict_low_value_context s ws sizes = Ok (s', records)" for s' records
  proof -
    have "distinct (scope_paths s)"
      using assms by (simp add: scope_inv_def)
    from eviction_summary [OF this, of ws sizes] that have "content_of s' = content_of s"
      by auto
    from arg_cong [OF this, of verified_files] show ?thesis
      by (intro verified_grows_same) (simp add: content_of_def unviewed_def [abs_def])
  qed
  then show ?thesis
    using Op_evict by (cases "evict_low_value_context s ws sizes") auto
qed

lemma scope_run_grows: "scope_inv s \<Longrightarrow> verified_grows s (run apply_scope s ops)"
proof (induction ops arbitrary: s)
  case (Cons op ops)
  then show ?case
    using verified_grows_trans [OF scope_step_grows Cons.IH] scopes.run_inv [OF Cons.prems, of "[op]"] by simp
qed simp

text \<open>
  C35.  A workspace scope stays well formed: after any operations on a created scope every path occurs
  once and is relative to the workspace without parent components, every reference that is marked
  verified carries an exact revision handle and evidence, at most 64 verified files, 128
  promotions, 8 roots and 32 exclusions are held, and at most 64 candidates or as many as the
  budget of the scope asks for; the verified files given at creation stay, and each one that is
  added later is marked verified and carries an exact revision handle and evidence.
\<close>

theorem scope_stays_well_formed:
  assumes "create_workspace_scope input = Ok s" and "s' = run apply_scope s ops"
  shows "scope_inv s'
    \<and> (\<exists>added. map unviewed (verified_files s') = map unviewed (verified_files s) @ added \<and> list_all evidenced added)"
proof -
  have "scope_inv s"
    by (rule create_workspace_scope_inv [OF assms(1)])
  then show ?thesis
    using scopes.run_inv [of s ops] scope_run_grows [of s ops] assms(2) by (simp add: verified_grows_def)
qed

text \<open>
  Eviction never fails and meets the budget: exact files are demoted in the fixed order
  (candidates, files outside the working set, working set), just as many as needed, afterwards
  the number and the reported bytes of the exact files are within the budget, and nothing but
  the views of the demoted files changes.
\<close>

theorem eviction_meets_budget:
  assumes "scope_reachable s"
  shows "\<exists>s' k. evict_low_value_context s ws sizes = Ok (s', map (evicted (working_paths ws)) (take k (eviction_order ws s)))
    \<and> content_of s' = content_of s \<and> sf_path ` set (exact_files s') = sf_path ` set (drop k (eviction_order ws s))
    \<and> length (exact_files s') \<le> max_active_exact_files (scope_budget s)
    \<and> exact_bytes sizes s' \<le> max_exact_bytes (scope_budget s)
    \<and> (\<forall>j < k. over_budget (scope_budget s) (length (drop j (eviction_order ws s)))
         (path_bytes sizes (map sf_path (drop j (eviction_order ws s)))))"
proof -
  have dist: "distinct (scope_paths s)"
    using scopes.reachable_inv [OF assms] by (simp add: scope_inv_def)
  obtain s' k where ev: "evict_low_value_context s ws sizes = Ok (s', map (evicted (working_paths ws)) (take k (eviction_order ws s)))"
      "content_of s' = content_of s" "exact_paths s' = sf_path ` set (drop k (eviction_order ws s))"
    and fits: "k < length (eviction_order ws s) \<longrightarrow> \<not> over_budget (scope_budget s) (length (drop k (eviction_order ws s)))
         (path_bytes sizes (map sf_path (drop k (eviction_order ws s))))"
    and needed: "\<forall>j < k. over_budget (scope_budget s) (length (drop j (eviction_order ws s)))
         (path_bytes sizes (map sf_path (drop j (eviction_order ws s))))"
    using eviction_summary [OF dist, of ws sizes] by blast
  let ?left = "map sf_path (drop k (eviction_order ws s))"
  have "distinct (scope_paths s')"
    unfolding content_of_eq(1) [OF ev(2)] by (rule dist)
  moreover have "distinct ?left"
    using eviction_order_exact(2) [OF dist, of ws] unfolding drop_map [symmetric] by (rule distinct_drop)
  moreover have "exact_paths s' = set ?left"
    unfolding ev(3) by (simp only: set_map)
  ultimately have "distinct (scope_paths s')" "distinct ?left" "exact_paths s' = set ?left"
    by blast+
  note left = exact_of_paths [OF this(1,3,2)]
  have "\<not> over_budget (scope_budget s) (length ?left) (path_bytes sizes ?left)"
    using fits by (cases "k < length (eviction_order ws s)") (simp_all add: over_budget_def path_bytes_def)
  then show ?thesis
    using ev needed left by (intro exI [of _ s'] exI [of _ k]) (simp add: over_budget_def not_less)
qed

text \<open>
  The verified files of a new scope need not be verified: creation checks revision and
  evidence only for references that say so, and accepts a reference marked candidate, without
  either, among the verified files.
\<close>

definition guess :: SourceFileRef where
  "guess = \<lparr> sf_path = ''src/a.rs'', sf_confidence = SourceFileConfidence_Candidate, sf_view = SourceView_Exact,
     sf_revision = None, sf_evidence = None, sf_reason = None \<rparr>"

definition guess_input :: CreateWorkspaceScopeInput where
  "guess_input = \<lparr> csi_verified_files = [guess], csi_candidate_files = [], csi_allowed_create_roots = [],
     csi_excluded_paths = [], csi_budget = None, csi_promotions = [] \<rparr>"

definition guess_scope :: WorkspaceScope where
  "guess_scope = \<lparr> verified_files = [guess], candidate_files = [], allowed_create_roots = [], excluded_paths = [],
     scope_budget = DEFAULT_WORKSPACE_CONTEXT_BUDGET, promotions = [] \<rparr>"

lemma verified_files_may_be_guesses: "create_workspace_scope guess_input = Ok guess_scope"
proof -
  have "validate_path ''src/a.rs'' = Ok ''src/a.rs''"
    by code_simp
  then have "validate_file_ref guess = Ok guess"
    by (simp add: validate_file_ref_def guess_def optional_field_def)
  then show ?thesis
    by (simp add: create_workspace_scope_def guess_input_def guess_scope_def MAX_VERIFIED_FILES_def validate_budget_def
        DEFAULT_WORKSPACE_CONTEXT_BUDGET_def)
qed

lemma guess_scope_reachable: "scope_reachable guess_scope"
  using verified_files_may_be_guesses by (intro reachable.start) (auto simp: created_scope_def)

definition promote_request :: PromotionRequest where
  "promote_request = \<lparr> prq_evidence = ''read'', prq_revision = ''rev_'' @ replicate 32 (CHR ''a''), prq_reason = ''target'' \<rparr>"

definition promotion_ops :: "ScopeOp list" where
  "promotion_ops = [Op_add_candidate_file ''src/b.rs'' None, Op_promote_candidate_file ''src/b.rs'' promote_request]"

lemma promotion_paths:
  "map sf_path (verified_files (run apply_scope guess_scope promotion_ops)) = [''src/a.rs'', ''src/b.rs'']"
proof -
  have path: "validate_path ''src/b.rs'' = Ok ''src/b.rs''"
    by code_simp
  have rec: "promotion_fields ''src/b.rs'' ''read'' (''rev_'' @ replicate 32 (CHR ''a'')) ''target''
      = Ok \<lparr> spr_path = ''src/b.rs'', spr_evidence = ''read'', spr_revision = ''rev_'' @ replicate 32 (CHR ''a''),
            spr_reason = ''target'' \<rparr>"
    by code_simp
  have "add_candidate_file ''src/b.rs'' None guess_scope = Ok (guess_scope\<lparr>candidate_files :=
      [\<lparr> sf_path = ''src/b.rs'', sf_confidence = SourceFileConfidence_Candidate, sf_view = SourceView_None,
         sf_revision = None, sf_evidence = None, sf_reason = None \<rparr>]\<rparr>)"
    by (simp add: add_candidate_file_def validate_file_ref_def path optional_field_def guess_scope_def guess_def
        DEFAULT_WORKSPACE_CONTEXT_BUDGET_def)
  then show ?thesis
    using rec by (simp add: promotion_ops_def promote_candidate_file_def promote_request_def guess_scope_def guess_def
        MAX_VERIFIED_FILES_def Let_def)
qed

theorem scope_stays_well_formed_witness:
  "scope_inv (run apply_scope guess_scope promotion_ops)
   \<and> map sf_path (verified_files (run apply_scope guess_scope promotion_ops)) = [''src/a.rs'', ''src/b.rs'']"
  using scope_stays_well_formed [OF verified_files_may_be_guesses refl, of promotion_ops] promotion_paths by blast

theorem eviction_meets_budget_witness:
  "\<exists>s' rs. evict_low_value_context guess_scope None [(''src/a.rs'', 40000)] = Ok (s', rs)
     \<and> exact_bytes [(''src/a.rs'', 40000)] s' \<le> 32768"
  using eviction_meets_budget [OF guess_scope_reachable, of None "[(''src/a.rs'', 40000)]"]
  by (auto simp: guess_scope_def DEFAULT_WORKSPACE_CONTEXT_BUDGET_def)

text \<open>The hard bound of candidate files is not enforced when a candidate is added: only the budget counts.\<close>

lemma candidates_exceed_hard_bound:
  assumes "length (candidate_files s) = MAX_CANDIDATE_FILES" and "MAX_CANDIDATE_FILES < max_candidate_files (scope_budget s)"
    and "sf_path ref \<notin> set (map sf_path (scope_files s))"
    and "validate_file_ref \<lparr> sf_path = path, sf_confidence = SourceFileConfidence_Candidate, sf_view = SourceView_None,
      sf_revision = None, sf_evidence = None, sf_reason = note_text \<rparr> = Ok ref"
  shows "\<exists>s'. add_candidate_file path note_text s = Ok s' \<and> length (candidate_files s') = MAX_CANDIDATE_FILES + 1"
proof -
  have "\<not> list_ex (\<lambda>f. sf_path f = sf_path ref) (verified_files s)" "\<not> list_ex (\<lambda>f. sf_path f = sf_path ref) (candidate_files s)"
    using assms(3) by (simp_all add: list_ex_iff image_iff) metis+
  with assms(1,2,4) show ?thesis
    by (simp add: add_candidate_file_def)
qed

end
