(* ===== verification/Executor_Contracts.thy ===== *)
theory Executor_Contracts
  imports Executor_Scope Task_Model
begin

text \<open>
  Execution contracts (\<open>executor/contracts.rs\<close>): validation of rule groups and reporting
  requirements, creation, revision, digest and reference.
\<close>

record ValidationProfileRef =
  vpr_profile_id :: string
  vpr_revision :: "64 word"

definition MAX_RULES_PER_GROUP :: nat where "MAX_RULES_PER_GROUP = 24"
definition MAX_REQUIREMENT_BYTES :: nat where "MAX_REQUIREMENT_BYTES = 512"
definition MAX_ENFORCED_BY_BYTES :: nat where "MAX_ENFORCED_BY_BYTES = 256"
definition MAX_REPORTING_REQUIREMENTS :: nat where "MAX_REPORTING_REQUIREMENTS = 12"
definition MAX_REPORTING_REQUIREMENT_BYTES :: nat where "MAX_REPORTING_REQUIREMENT_BYTES = 512"

datatype ExecutionRuleKind =
    ExecutionRuleKind_Git
  | ExecutionRuleKind_Security
  | ExecutionRuleKind_Architecture
  | ExecutionRuleKind_Test
  | ExecutionRuleKind_Process

fun ExecutionRuleKind_as_str :: "ExecutionRuleKind \<Rightarrow> string" where
  "ExecutionRuleKind_as_str ExecutionRuleKind_Git = ''git''"
| "ExecutionRuleKind_as_str ExecutionRuleKind_Security = ''security''"
| "ExecutionRuleKind_as_str ExecutionRuleKind_Architecture = ''architecture''"
| "ExecutionRuleKind_as_str ExecutionRuleKind_Test = ''test''"
| "ExecutionRuleKind_as_str ExecutionRuleKind_Process = ''process''"

record ExecutionRule =
  rule_id :: string
  rule_kind :: ExecutionRuleKind
  rule_requirement :: string
  rule_enforced_by :: string

record ReportingRequirement =
  rep_id :: string
  rep_requirement :: string

record ExecutionContract =
  xc_id :: string
  xc_revision :: "64 word"
  xc_git_rules :: "ExecutionRule list"
  xc_security_rules :: "ExecutionRule list"
  xc_architecture_rules :: "ExecutionRule list"
  xc_validation_profile :: ValidationProfileRef
  xc_test_rules :: "ExecutionRule list"
  xc_reporting_requirements :: "ReportingRequirement list"

record ExecutionContractRef =
  xcr_id :: string
  xcr_revision :: "64 word"

definition is_contract_id :: "string \<Rightarrow> bool" where
  "is_contract_id i = is_element_id i"

definition is_rule_id :: "string \<Rightarrow> bool" where
  "is_rule_id i \<longleftrightarrow> i \<noteq> [] \<and> length i \<le> 64 \<and> is_ascii_uppercase (hd i)
     \<and> list_all (\<lambda>c. is_ascii_alphanumeric c \<or> c \<in> set ''._-'') (tl i)"

definition is_reporting_id :: "string \<Rightarrow> bool" where
  "is_reporting_id i = is_element_id i"

text \<open>The loops that check every element and remember the ids already seen.\<close>

fun rules_loop :: "ExecutionRuleKind \<Rightarrow> string \<Rightarrow> string list \<Rightarrow> ExecutionRule list \<Rightarrow> string + unit" where
  "rules_loop kind label seen [] = Ok ()"
| "rules_loop kind label seen (rule # rules) =
     (let i = rule_id rule; requirement = trim (rule_requirement rule); enforced_by = trim (rule_enforced_by rule) in
      if \<not> is_rule_id i then Err (''Invalid execution rule id: '' @ i)
      else if rule_kind rule \<noteq> kind then
        Err (''Execution rule '' @ i @ '' declares kind '' @ ExecutionRuleKind_as_str (rule_kind rule)
          @ '' but belongs to the '' @ label @ '' group.'')
      else if requirement = [] then Err (''Execution rule '' @ i @ '' requires a non-empty requirement.'')
      else if MAX_REQUIREMENT_BYTES < length requirement then
        Err (''Execution rule '' @ i @ '' exceeds '' @ show_nat MAX_REQUIREMENT_BYTES @ '' UTF-8 bytes.'')
      else if enforced_by = [] then Err (''Execution rule '' @ i @ '' requires a non-empty enforcedBy reference.'')
      else if MAX_ENFORCED_BY_BYTES < length enforced_by then
        Err (''Execution rule '' @ i @ '' exceeds '' @ show_nat MAX_ENFORCED_BY_BYTES @ '' UTF-8 bytes for enforcedBy.'')
      else if i \<in> set seen then Err (''Duplicate execution rule id: '' @ i)
      else rules_loop kind label (seen @ [i]) rules)"

definition trim_rule :: "ExecutionRule \<Rightarrow> ExecutionRule" where
  "trim_rule rule = rule\<lparr>rule_requirement := trim (rule_requirement rule), rule_enforced_by := trim (rule_enforced_by rule)\<rparr>"

definition copy_rules :: "ExecutionRuleKind \<Rightarrow> string \<Rightarrow> ExecutionRule list \<Rightarrow> string + ExecutionRule list" where
  "copy_rules kind label rules =
     (if MAX_RULES_PER_GROUP < length rules then
        Err (''The '' @ label @ '' rule group accepts at most '' @ show_nat MAX_RULES_PER_GROUP @ '' rules.'')
      else result_bind (rules_loop kind label [] rules) (\<lambda>_. Ok (map trim_rule rules)))"

fun reporting_loop :: "string list \<Rightarrow> ReportingRequirement list \<Rightarrow> string + unit" where
  "reporting_loop ids [] = Ok ()"
| "reporting_loop ids (r # rs) =
     (let i = rep_id r; t = trim (rep_requirement r) in
      if \<not> is_reporting_id i then Err (''Invalid reporting requirement id: '' @ i)
      else if i \<in> set ids then Err (''Duplicate reporting requirement id: '' @ i)
      else if t = [] then Err (''Reporting requirement '' @ i @ '' requires text.'')
      else if MAX_REPORTING_REQUIREMENT_BYTES < length t then
        Err (''Reporting requirement '' @ i @ '' exceeds '' @ show_nat MAX_REPORTING_REQUIREMENT_BYTES @ '' UTF-8 bytes.'')
      else reporting_loop (ids @ [i]) rs)"

definition trim_reporting :: "ReportingRequirement \<Rightarrow> ReportingRequirement" where
  "trim_reporting r = r\<lparr>rep_requirement := trim (rep_requirement r)\<rparr>"

definition validate_reporting_requirements :: "ReportingRequirement list \<Rightarrow> string + ReportingRequirement list" where
  "validate_reporting_requirements requirements =
     (if MAX_REPORTING_REQUIREMENTS < length requirements then
        Err (''An execution contract accepts at most '' @ show_nat MAX_REPORTING_REQUIREMENTS @ '' reporting requirements.'')
      else result_bind (reporting_loop [] requirements) (\<lambda>_. Ok (map trim_reporting requirements)))"

definition validate_contract_shape :: "ExecutionContract \<Rightarrow> string + ExecutionContract" where
  "validate_contract_shape c =
     (if \<not> is_contract_id (xc_id c) then Err (''Invalid execution contract id: '' @ xc_id c)
      else if xc_revision c < 1 then Err ''An execution contract revision must be at least 1.''
      else if vpr_revision (xc_validation_profile c) < 1 then Err ''A validation profile revision must be at least 1.''
      else if trim (vpr_profile_id (xc_validation_profile c)) = [] then Err ''A validation profile requires a profile id.''
      else
        result_bind (copy_rules ExecutionRuleKind_Git ''git'' (xc_git_rules c)) (\<lambda>git.
        result_bind (copy_rules ExecutionRuleKind_Security ''security'' (xc_security_rules c)) (\<lambda>security.
        result_bind (copy_rules ExecutionRuleKind_Architecture ''architecture'' (xc_architecture_rules c)) (\<lambda>architecture.
        result_bind (copy_rules ExecutionRuleKind_Test ''test'' (xc_test_rules c)) (\<lambda>tests.
        result_bind (validate_reporting_requirements (xc_reporting_requirements c)) (\<lambda>reporting.
          Ok \<lparr> xc_id = xc_id c, xc_revision = xc_revision c, xc_git_rules = git, xc_security_rules = security,
            xc_architecture_rules = architecture,
            xc_validation_profile = \<lparr> vpr_profile_id = trim (vpr_profile_id (xc_validation_profile c)),
              vpr_revision = vpr_revision (xc_validation_profile c) \<rparr>,
            xc_test_rules = tests, xc_reporting_requirements = reporting \<rparr>))))))"

definition validate_execution_contract :: "ExecutionContract \<Rightarrow> string + ExecutionContract" where
  "validate_execution_contract c = validate_contract_shape c"

record CreateExecutionContractInput =
  cxi_id :: string
  cxi_git_rules :: "ExecutionRule list"
  cxi_security_rules :: "ExecutionRule list"
  cxi_architecture_rules :: "ExecutionRule list"
  cxi_validation_profile :: ValidationProfileRef
  cxi_test_rules :: "ExecutionRule list"
  cxi_reporting_requirements :: "ReportingRequirement list"

definition create_execution_contract :: "CreateExecutionContractInput \<Rightarrow> string + ExecutionContract" where
  "create_execution_contract i =
     validate_contract_shape \<lparr> xc_id = cxi_id i, xc_revision = 1, xc_git_rules = cxi_git_rules i,
       xc_security_rules = cxi_security_rules i, xc_architecture_rules = cxi_architecture_rules i,
       xc_validation_profile = cxi_validation_profile i, xc_test_rules = cxi_test_rules i,
       xc_reporting_requirements = cxi_reporting_requirements i \<rparr>"

record ReviseExecutionContractInput =
  rxi_git_rules :: "ExecutionRule list option"
  rxi_security_rules :: "ExecutionRule list option"
  rxi_architecture_rules :: "ExecutionRule list option"
  rxi_validation_profile :: "ValidationProfileRef option"
  rxi_test_rules :: "ExecutionRule list option"
  rxi_reporting_requirements :: "ReportingRequirement list option"

definition unwrap_or :: "'a \<Rightarrow> 'a option \<Rightarrow> 'a" where
  "unwrap_or d x = (case x of Some y \<Rightarrow> y | None \<Rightarrow> d)"

definition revise_execution_contract :: "ExecutionContract \<Rightarrow> ReviseExecutionContractInput \<Rightarrow> string + ExecutionContract" where
  "revise_execution_contract previous changes =
     (if xc_revision previous < 1 \<or> - 1 - 1 \<le> xc_revision previous then
        Err ''A previous execution contract revision must be an incrementable safe integer.''
      else validate_contract_shape \<lparr> xc_id = xc_id previous, xc_revision = xc_revision previous + 1,
        xc_git_rules = unwrap_or (xc_git_rules previous) (rxi_git_rules changes),
        xc_security_rules = unwrap_or (xc_security_rules previous) (rxi_security_rules changes),
        xc_architecture_rules = unwrap_or (xc_architecture_rules previous) (rxi_architecture_rules changes),
        xc_validation_profile = unwrap_or (xc_validation_profile previous) (rxi_validation_profile changes),
        xc_test_rules = unwrap_or (xc_test_rules previous) (rxi_test_rules changes),
        xc_reporting_requirements = unwrap_or (xc_reporting_requirements previous) (rxi_reporting_requirements changes) \<rparr>)"

definition json_u64 :: "64 word \<Rightarrow> Value" where
  "json_u64 n = Value_Number (PosInt (unat n))"

definition rule_value :: "ExecutionRule \<Rightarrow> Value" where
  "rule_value r = json_object [(''id'', Value_String (rule_id r)), (''kind'', Value_String (ExecutionRuleKind_as_str (rule_kind r))),
     (''requirement'', Value_String (rule_requirement r)), (''enforcedBy'', Value_String (rule_enforced_by r))]"

definition contract_value :: "ExecutionContract \<Rightarrow> Value" where
  "contract_value c = json_object
     [(''id'', Value_String (xc_id c)), (''revision'', json_u64 (xc_revision c)),
      (''gitRules'', Value_Array (map rule_value (xc_git_rules c))),
      (''securityRules'', Value_Array (map rule_value (xc_security_rules c))),
      (''architectureRules'', Value_Array (map rule_value (xc_architecture_rules c))),
      (''validationProfile'', json_object [(''profileId'', Value_String (vpr_profile_id (xc_validation_profile c))),
         (''revision'', json_u64 (vpr_revision (xc_validation_profile c)))]),
      (''testRules'', Value_Array (map rule_value (xc_test_rules c))),
      (''reportingRequirements'', Value_Array (map (\<lambda>r. json_object [(''id'', Value_String (rep_id r)),
         (''requirement'', Value_String (rep_requirement r))]) (xc_reporting_requirements c)))]"

definition compute_execution_contract_digest :: "scientific \<Rightarrow> ExecutionContract \<Rightarrow> string" where
  "compute_execution_contract_digest sci c = sha256_hex_str (canonical_json_value sci (contract_value c))"

definition execution_contract_ref :: "ExecutionContract \<Rightarrow> ExecutionContractRef" where
  "execution_contract_ref c = \<lparr> xcr_id = xc_id c, xcr_revision = xc_revision c \<rparr>"

subsection \<open>Validation is exact and idempotent\<close>

definition rule_ok :: "ExecutionRuleKind \<Rightarrow> ExecutionRule \<Rightarrow> bool" where
  "rule_ok kind r \<longleftrightarrow> is_rule_id (rule_id r) \<and> rule_kind r = kind
     \<and> trim (rule_requirement r) \<noteq> [] \<and> length (trim (rule_requirement r)) \<le> MAX_REQUIREMENT_BYTES
     \<and> trim (rule_enforced_by r) \<noteq> [] \<and> length (trim (rule_enforced_by r)) \<le> MAX_ENFORCED_BY_BYTES"

definition rules_ok :: "ExecutionRuleKind \<Rightarrow> ExecutionRule list \<Rightarrow> bool" where
  "rules_ok kind rules \<longleftrightarrow> length rules \<le> MAX_RULES_PER_GROUP \<and> list_all (rule_ok kind) rules \<and> distinct (map rule_id rules)"

definition reporting_ok :: "ReportingRequirement list \<Rightarrow> bool" where
  "reporting_ok rs \<longleftrightarrow> length rs \<le> MAX_REPORTING_REQUIREMENTS \<and> distinct (map rep_id rs)
     \<and> list_all (\<lambda>r. is_reporting_id (rep_id r) \<and> trim (rep_requirement r) \<noteq> []
         \<and> length (trim (rep_requirement r)) \<le> MAX_REPORTING_REQUIREMENT_BYTES) rs"

definition contract_shape_ok :: "ExecutionContract \<Rightarrow> bool" where
  "contract_shape_ok c \<longleftrightarrow> is_contract_id (xc_id c) \<and> xc_revision c \<noteq> 0 \<and> vpr_revision (xc_validation_profile c) \<noteq> 0
     \<and> trim (vpr_profile_id (xc_validation_profile c)) \<noteq> []
     \<and> rules_ok ExecutionRuleKind_Git (xc_git_rules c) \<and> rules_ok ExecutionRuleKind_Security (xc_security_rules c)
     \<and> rules_ok ExecutionRuleKind_Architecture (xc_architecture_rules c) \<and> rules_ok ExecutionRuleKind_Test (xc_test_rules c)
     \<and> reporting_ok (xc_reporting_requirements c)"

definition trim_contract :: "ExecutionContract \<Rightarrow> ExecutionContract" where
  "trim_contract c = c\<lparr>xc_git_rules := map trim_rule (xc_git_rules c), xc_security_rules := map trim_rule (xc_security_rules c),
     xc_architecture_rules := map trim_rule (xc_architecture_rules c), xc_test_rules := map trim_rule (xc_test_rules c),
     xc_validation_profile := (xc_validation_profile c)\<lparr>vpr_profile_id := trim (vpr_profile_id (xc_validation_profile c))\<rparr>,
     xc_reporting_requirements := map trim_reporting (xc_reporting_requirements c)\<rparr>"

lemma rules_loop_Ok:
  "rules_loop kind label seen rules = Ok () \<longleftrightarrow>
     list_all (rule_ok kind) rules \<and> distinct (map rule_id rules) \<and> set (map rule_id rules) \<inter> set seen = {}"
  by (induction kind label seen rules rule: rules_loop.induct) (auto simp: Let_def rule_ok_def not_less)

lemma copy_rules_Ok: "copy_rules kind label rules = Ok rules' \<longleftrightarrow> rules_ok kind rules \<and> rules' = map trim_rule rules"
  by (auto simp: copy_rules_def result_bind_Ok_iff rules_ok_def rules_loop_Ok not_less)

lemma reporting_loop_Ok:
  "reporting_loop ids rs = Ok () \<longleftrightarrow> distinct (map rep_id rs) \<and> set (map rep_id rs) \<inter> set ids = {}
     \<and> list_all (\<lambda>r. is_reporting_id (rep_id r) \<and> trim (rep_requirement r) \<noteq> []
         \<and> length (trim (rep_requirement r)) \<le> MAX_REPORTING_REQUIREMENT_BYTES) rs"
  by (induction ids rs rule: reporting_loop.induct) (auto simp: Let_def not_less)

lemma validate_reporting_Ok: "validate_reporting_requirements rs = Ok rs' \<longleftrightarrow> reporting_ok rs \<and> rs' = map trim_reporting rs"
  by (auto simp: validate_reporting_requirements_def result_bind_Ok_iff reporting_ok_def reporting_loop_Ok not_less)

lemma validate_contract_shape_Ok:
  "validate_contract_shape c = Ok c' \<longleftrightarrow> contract_shape_ok c \<and> c' = trim_contract c"
  by (cases c; cases "xc_validation_profile c")
    (auto simp: validate_contract_shape_def result_bind_Ok_iff copy_rules_Ok validate_reporting_Ok contract_shape_ok_def
      trim_contract_def not_less)

lemma rules_ok_trim [simp]: "rules_ok kind (map trim_rule rules) \<longleftrightarrow> rules_ok kind rules"
  by (simp add: rules_ok_def list_all_iff rule_ok_def trim_rule_def comp_def)

lemma reporting_ok_trim [simp]: "reporting_ok (map trim_reporting rs) \<longleftrightarrow> reporting_ok rs"
  by (simp add: reporting_ok_def list_all_iff trim_reporting_def comp_def)

lemma trim_contract_twice [simp]: "trim_contract (trim_contract c) = trim_contract c"
  by (simp add: trim_contract_def trim_rule_def trim_reporting_def comp_def)

lemma contract_shape_ok_trim [simp]: "contract_shape_ok (trim_contract c) \<longleftrightarrow> contract_shape_ok c"
  by (simp add: contract_shape_ok_def trim_contract_def)

text \<open>
  Execution contracts are validated exactly: a shape is accepted exactly when its id,
  revisions, rule groups and reporting requirements are within their patterns and bounds with
  distinct ids; what is stored is the trimmed input, and validating a stored contract again
  gives back the very contract.
\<close>

theorem execution_contract_validation_exact:
  "validate_execution_contract c = Ok c' \<longleftrightarrow>
     contract_shape_ok c \<and> c' = trim_contract c \<and> validate_execution_contract c' = Ok c'"
  by (auto simp: validate_execution_contract_def validate_contract_shape_Ok)

end
