(* ===== verification/Executor_Milestone.thy ===== *)
theory Executor_Milestone
  imports Executor_Contracts Evidence
begin

text \<open>
  Milestone manifests (\<open>executor/milestone.rs\<close>) and their evaluation against evidence the host
  attached (\<open>executor/acceptance.rs\<close>).
\<close>

subsection \<open>Standard acceptance\<close>

datatype StandardAcceptanceId =
    StandardAcceptanceId_NoWorkspaceMutation
  | StandardAcceptanceId_NoProcessExecution
  | StandardAcceptanceId_NoNetwork
  | StandardAcceptanceId_NoSecretOutput
  | StandardAcceptanceId_NoToolLeakage
  | StandardAcceptanceId_FullValidation

fun StandardAcceptanceId_as_str :: "StandardAcceptanceId \<Rightarrow> string" where
  "StandardAcceptanceId_as_str StandardAcceptanceId_NoWorkspaceMutation = ''STANDARD.NO_WORKSPACE_MUTATION''"
| "StandardAcceptanceId_as_str StandardAcceptanceId_NoProcessExecution = ''STANDARD.NO_PROCESS_EXECUTION''"
| "StandardAcceptanceId_as_str StandardAcceptanceId_NoNetwork = ''STANDARD.NO_NETWORK''"
| "StandardAcceptanceId_as_str StandardAcceptanceId_NoSecretOutput = ''STANDARD.NO_SECRET_OUTPUT''"
| "StandardAcceptanceId_as_str StandardAcceptanceId_NoToolLeakage = ''STANDARD.NO_TOOL_LEAKAGE''"
| "StandardAcceptanceId_as_str StandardAcceptanceId_FullValidation = ''STANDARD.FULL_VALIDATION''"

definition StandardAcceptanceId_parse :: "string \<Rightarrow> StandardAcceptanceId option" where
  "StandardAcceptanceId_parse v =
     (if v = ''STANDARD.NO_WORKSPACE_MUTATION'' then Some StandardAcceptanceId_NoWorkspaceMutation
      else if v = ''STANDARD.NO_PROCESS_EXECUTION'' then Some StandardAcceptanceId_NoProcessExecution
      else if v = ''STANDARD.NO_NETWORK'' then Some StandardAcceptanceId_NoNetwork
      else if v = ''STANDARD.NO_SECRET_OUTPUT'' then Some StandardAcceptanceId_NoSecretOutput
      else if v = ''STANDARD.NO_TOOL_LEAKAGE'' then Some StandardAcceptanceId_NoToolLeakage
      else if v = ''STANDARD.FULL_VALIDATION'' then Some StandardAcceptanceId_FullValidation
      else None)"

record StandardAcceptanceDefinition =
  sad_id :: StandardAcceptanceId
  sad_description :: string
  sad_evidence_kinds :: "EvidenceKind list"

definition STANDARD_ACCEPTANCE_DEFINITIONS :: "StandardAcceptanceDefinition list" where
  "STANDARD_ACCEPTANCE_DEFINITIONS =
     [\<lparr> sad_id = StandardAcceptanceId_NoWorkspaceMutation,
        sad_description = ''No workspace mutation: no create/edit/delete/undo of workspace files.'',
        sad_evidence_kinds = [EvidenceKind_ValidationResult, EvidenceKind_ReviewResult] \<rparr>,
      \<lparr> sad_id = StandardAcceptanceId_NoProcessExecution,
        sad_description = ''No process execution or engine launch for the inspected surface.'',
        sad_evidence_kinds = [EvidenceKind_ValidationResult, EvidenceKind_ReviewResult] \<rparr>,
      \<lparr> sad_id = StandardAcceptanceId_NoNetwork,
        sad_description = ''No network access during the task.'',
        sad_evidence_kinds = [EvidenceKind_ValidationResult, EvidenceKind_ReviewResult] \<rparr>,
      \<lparr> sad_id = StandardAcceptanceId_NoSecretOutput,
        sad_description = ''No secrets or absolute host paths appear in provider-visible output.'',
        sad_evidence_kinds = [EvidenceKind_ReviewResult, EvidenceKind_ValidationResult] \<rparr>,
      \<lparr> sad_id = StandardAcceptanceId_NoToolLeakage,
        sad_description = ''No native mutation tool surface leaks into provider-visible tools.'',
        sad_evidence_kinds = [EvidenceKind_ReviewResult, EvidenceKind_ValidationResult] \<rparr>,
      \<lparr> sad_id = StandardAcceptanceId_FullValidation,
        sad_description = ''The standard repository validation profile ran and passed.'',
        sad_evidence_kinds = [EvidenceKind_ValidationResult] \<rparr>]"

text \<open>\<open>expect\<close> on the lookup never fails: every id is registered (\<open>definition_of_id\<close>).\<close>

definition definition_of :: "StandardAcceptanceId \<Rightarrow> StandardAcceptanceDefinition" where
  "definition_of i = the (find (\<lambda>d. sad_id d = i) STANDARD_ACCEPTANCE_DEFINITIONS)"

lemma definition_of_id: "find (\<lambda>d. sad_id d = i) STANDARD_ACCEPTANCE_DEFINITIONS = Some (definition_of i) \<and> sad_id (definition_of i) = i"
  by (cases i) (simp_all add: definition_of_def STANDARD_ACCEPTANCE_DEFINITIONS_def)

definition push_new :: "EvidenceKind \<Rightarrow> EvidenceKind list \<Rightarrow> EvidenceKind list" where
  "push_new kind kinds = (if kind \<in> set kinds then kinds else kinds @ [kind])"

definition resolve_acceptance_evidence_kinds :: "EvidenceKind list \<Rightarrow> StandardAcceptanceId list \<Rightarrow> EvidenceKind list" where
  "resolve_acceptance_evidence_kinds kinds ids =
     fold (\<lambda>i ks. fold push_new (sad_evidence_kinds (definition_of i)) ks) ids kinds"

subsection \<open>Manifests\<close>

record MilestoneRequirement =
  mr_id :: string
  mr_description :: string

record AcceptanceRequirement =
  ar_id :: string
  ar_check_id :: string
  ar_description :: string
  ar_evidence_kinds :: "EvidenceKind list"
  ar_criterion_id :: "string option"
  ar_standard_ids :: "StandardAcceptanceId list"
  ar_optional :: bool

record MilestoneRef =
  mref_id :: string
  mref_version :: "64 word"

record MilestoneManifest =
  mm_id :: string
  mm_version :: "64 word"
  mm_title :: string
  mm_goal :: string
  mm_prerequisites :: "MilestoneRequirement list"
  mm_deliverables :: "MilestoneRequirement list"
  mm_non_goals :: "string list"
  mm_invariants :: "MilestoneRequirement list"
  mm_acceptance :: "AcceptanceRequirement list"
  mm_required_tests :: "MilestoneRequirement list"
  mm_architecture_concerns :: "string list"
  mm_validation_profile :: "ValidationProfileRef option"
  mm_next_milestone :: "MilestoneRef option"

definition MAX_TITLE_BYTES :: nat where "MAX_TITLE_BYTES = 256"
definition MAX_GOAL_BYTES :: nat where "MAX_GOAL_BYTES = 2048"
definition MAX_PREREQUISITES :: nat where "MAX_PREREQUISITES = 16"
definition MAX_DELIVERABLES :: nat where "MAX_DELIVERABLES = 16"
definition MAX_MILESTONE_NON_GOALS :: nat where "MAX_MILESTONE_NON_GOALS = 16"
definition MAX_INVARIANTS :: nat where "MAX_INVARIANTS = 16"
definition MAX_ACCEPTANCE :: nat where "MAX_ACCEPTANCE = 32"
definition MAX_REQUIRED_TESTS :: nat where "MAX_REQUIRED_TESTS = 16"
definition MAX_ENTRY_BYTES :: nat where "MAX_ENTRY_BYTES = 512"
definition MAX_CONCERNS :: nat where "MAX_CONCERNS = 12"
definition MAX_CONCERN_BYTES :: nat where "MAX_CONCERN_BYTES = 64"

definition is_milestone_id :: "string \<Rightarrow> bool" where
  "is_milestone_id i \<longleftrightarrow> i \<noteq> [] \<and> length i \<le> 8 \<and> is_ascii_uppercase (hd i)
     \<and> list_all (\<lambda>c. is_ascii_uppercase c \<or> is_ascii_digit c) (tl i)"

definition is_entry_id :: "string \<Rightarrow> bool" where
  "is_entry_id i = is_element_id i"

definition is_acceptance_id :: "string \<Rightarrow> bool" where
  "is_acceptance_id i \<longleftrightarrow> 2 \<le> length i \<and> length i \<le> 64 \<and> is_ascii_uppercase (i ! 0) \<and> is_ascii_uppercase (i ! 1)
     \<and> list_all (\<lambda>c. is_ascii_alphanumeric c \<or> c \<in> set ''._-'') (drop 2 i)"

definition validate_entry :: "string \<Rightarrow> MilestoneRequirement \<Rightarrow> string + MilestoneRequirement" where
  "validate_entry kind e =
     (let description = trim (mr_description e) in
      if \<not> is_entry_id (mr_id e) then Err (''Invalid '' @ kind @ '' id: '' @ mr_id e)
      else if description = [] then Err (kind @ '' '' @ mr_id e @ '' requires a description.'')
      else if MAX_ENTRY_BYTES < length description then
        Err (kind @ '' '' @ mr_id e @ '' exceeds '' @ show_nat MAX_ENTRY_BYTES @ '' UTF-8 bytes.'')
      else Ok \<lparr> mr_id = mr_id e, mr_description = description \<rparr>)"

text \<open>The loop \<open>if ids.contains(..) { return Err(duplicate) } ids.push(..)\<close>.\<close>

fun duplicate_in :: "string list \<Rightarrow> string list \<Rightarrow> string option" where
  "duplicate_in seen [] = None"
| "duplicate_in seen (i # ids) = (if i \<in> set seen then Some i else duplicate_in (seen @ [i]) ids)"

definition copy_entries :: "string \<Rightarrow> MilestoneRequirement list \<Rightarrow> nat \<Rightarrow> string + MilestoneRequirement list" where
  "copy_entries kind entries limit =
     (if limit < length entries then Err (kind @ '' accepts at most '' @ show_nat limit @ '' entries.'')
      else case duplicate_in [] (map mr_id entries) of
        Some i \<Rightarrow> Err (''Duplicate '' @ kind @ '' id: '' @ i)
      | None \<Rightarrow> try_map (validate_entry kind) entries)"

definition copy_statement :: "string \<Rightarrow> string \<Rightarrow> string + string" where
  "copy_statement kind s =
     (let t = trim s in
      if t = [] then Err (kind @ '' entries must be non-empty.'')
      else if MAX_ENTRY_BYTES < length t then Err (kind @ '' entry exceeds '' @ show_nat MAX_ENTRY_BYTES @ '' UTF-8 bytes.'')
      else Ok t)"

definition copy_statements :: "string \<Rightarrow> string list \<Rightarrow> nat \<Rightarrow> string + string list" where
  "copy_statements kind statements limit =
     (if limit < length statements then Err (kind @ '' accepts at most '' @ show_nat limit @ '' entries.'')
      else try_map (copy_statement kind) statements)"

record AcceptanceRequirementInput =
  ari_id :: string
  ari_check_id :: "string option"
  ari_description :: string
  ari_evidence_kinds :: "EvidenceKind list"
  ari_criterion_id :: "string option"
  ari_standard_ids :: "string list"
  ari_optional :: bool

definition parse_standard :: "string \<Rightarrow> string \<Rightarrow> string + StandardAcceptanceId" where
  "parse_standard i raw =
     (case StandardAcceptanceId_parse raw of
        Some s \<Rightarrow> Ok s
      | None \<Rightarrow> Err (''Acceptance requirement '' @ i @ '' references unknown standard acceptance '' @ raw @ ''.''))"

definition check_id_of :: "AcceptanceRequirementInput \<Rightarrow> string" where
  "check_id_of r =
     (case ari_check_id r of
        Some v \<Rightarrow> trim v
      | None \<Rightarrow> (case ari_criterion_id r of Some c \<Rightarrow> c | None \<Rightarrow> ari_id r))"

text \<open>One pass of the loop, the id checks apart.\<close>

definition validate_requirement :: "AcceptanceRequirementInput \<Rightarrow> string + AcceptanceRequirement" where
  "validate_requirement r =
     (let i = ari_id r; check_id = check_id_of r; description = trim (ari_description r) in
      if \<not> is_entry_id check_id then Err (''Invalid acceptance check id: '' @ check_id)
      else if ari_criterion_id r \<noteq> None \<and> ari_criterion_id r \<noteq> Some check_id then
        Err (''Acceptance requirement '' @ i @ '' must use its linked criterion id as checkId.'')
      else if description = [] then Err (''Acceptance requirement '' @ i @ '' requires a description.'')
      else if MAX_ENTRY_BYTES < length description then
        Err (''Acceptance requirement '' @ i @ '' exceeds '' @ show_nat MAX_ENTRY_BYTES @ '' UTF-8 bytes.'')
      else
        result_bind (try_map (parse_standard i) (ari_standard_ids r)) (\<lambda>standards.
        if ari_evidence_kinds r = [] \<and> ari_criterion_id r = None \<and> standards = [] then
          Err (''Acceptance requirement '' @ i @ '' must declare evidenceKinds, a criterionId, or standardIds.'')
        else Ok \<lparr> ar_id = i, ar_check_id = check_id, ar_description = description,
          ar_evidence_kinds = ari_evidence_kinds r, ar_criterion_id = ari_criterion_id r,
          ar_standard_ids = standards, ar_optional = ari_optional r \<rparr>))"

fun acceptance_loop :: "string list \<Rightarrow> AcceptanceRequirementInput list \<Rightarrow> string + AcceptanceRequirement list" where
  "acceptance_loop ids [] = Ok []"
| "acceptance_loop ids (r # rs) =
     (if \<not> is_acceptance_id (ari_id r) then Err (''Invalid acceptance requirement id: '' @ ari_id r)
      else if ari_id r \<in> set ids then Err (''Duplicate acceptance requirement id: '' @ ari_id r)
      else result_bind (validate_requirement r) (\<lambda>v.
        result_bind (acceptance_loop (ids @ [ari_id r]) rs) (\<lambda>vs. Ok (v # vs))))"

definition validate_acceptance :: "AcceptanceRequirementInput list \<Rightarrow> string + AcceptanceRequirement list" where
  "validate_acceptance rs =
     (if MAX_ACCEPTANCE < length rs then
        Err (''A milestone manifest accepts at most '' @ show_nat MAX_ACCEPTANCE @ '' acceptance requirements.'')
      else acceptance_loop [] rs)"

fun concerns_loop :: "string list \<Rightarrow> string list \<Rightarrow> string + unit" where
  "concerns_loop seen [] = Ok ()"
| "concerns_loop seen (c # cs) =
     (let t = trim c in
      if t = [] then Err ''Architecture concerns must be non-empty.''
      else if MAX_CONCERN_BYTES < length t then
        Err (''An architecture concern exceeds '' @ show_nat MAX_CONCERN_BYTES @ '' UTF-8 bytes.'')
      else if t \<in> set seen then Err (''Duplicate architecture concern: '' @ t)
      else concerns_loop (seen @ [t]) cs)"

definition validate_concerns :: "string list \<Rightarrow> string + string list" where
  "validate_concerns concerns =
     (if MAX_CONCERNS < length concerns then
        Err (''A milestone manifest accepts at most '' @ show_nat MAX_CONCERNS @ '' architecture concerns.'')
      else result_bind (concerns_loop [] concerns) (\<lambda>_. Ok (map trim concerns)))"

record CreateMilestoneManifestInput =
  cmi_id :: string
  cmi_version :: "64 word"
  cmi_title :: string
  cmi_goal :: string
  cmi_prerequisites :: "MilestoneRequirement list"
  cmi_deliverables :: "MilestoneRequirement list"
  cmi_non_goals :: "string list"
  cmi_invariants :: "MilestoneRequirement list"
  cmi_acceptance :: "AcceptanceRequirementInput list"
  cmi_required_tests :: "MilestoneRequirement list"
  cmi_architecture_concerns :: "string list"
  cmi_validation_profile :: "ValidationProfileRef option"
  cmi_next_milestone :: "MilestoneRef option"

definition profile_rejection :: "ValidationProfileRef option \<Rightarrow> string option" where
  "profile_rejection p =
     (case p of
        None \<Rightarrow> None
      | Some profile \<Rightarrow>
          if vpr_revision profile < 1 then Some ''A validation profile revision must be at least 1.''
          else if trim (vpr_profile_id profile) = [] then Some ''A validation profile requires a profile id.''
          else None)"

definition trim_profile :: "ValidationProfileRef \<Rightarrow> ValidationProfileRef" where
  "trim_profile p = p\<lparr>vpr_profile_id := trim (vpr_profile_id p)\<rparr>"

definition validate_manifest_shape :: "CreateMilestoneManifestInput \<Rightarrow> string + MilestoneManifest" where
  "validate_manifest_shape i =
     (let title = trim (cmi_title i); goal = trim (cmi_goal i) in
      if \<not> is_milestone_id (cmi_id i) then Err (''Invalid milestone id: '' @ cmi_id i)
      else if cmi_version i < 1 then Err ''A milestone manifest version must be at least 1.''
      else if title = [] then Err ''A milestone manifest requires a title.''
      else if MAX_TITLE_BYTES < length title then Err (''A milestone title exceeds '' @ show_nat MAX_TITLE_BYTES @ '' UTF-8 bytes.'')
      else if goal = [] then Err ''A milestone manifest requires a goal.''
      else if MAX_GOAL_BYTES < length goal then Err (''A milestone goal exceeds '' @ show_nat MAX_GOAL_BYTES @ '' UTF-8 bytes.'')
      else if cmi_acceptance i = [] then Err ''A milestone manifest requires at least one acceptance requirement.''
      else case profile_rejection (cmi_validation_profile i) of
        Some reason \<Rightarrow> Err reason
      | None \<Rightarrow>
          result_bind (copy_entries ''prerequisite'' (cmi_prerequisites i) MAX_PREREQUISITES) (\<lambda>prerequisites.
          result_bind (copy_entries ''deliverable'' (cmi_deliverables i) MAX_DELIVERABLES) (\<lambda>deliverables.
          result_bind (copy_statements ''non-goal'' (cmi_non_goals i) MAX_MILESTONE_NON_GOALS) (\<lambda>non_goals.
          result_bind (copy_entries ''invariant'' (cmi_invariants i) MAX_INVARIANTS) (\<lambda>invariants.
          result_bind (validate_acceptance (cmi_acceptance i)) (\<lambda>acceptance.
          result_bind (copy_entries ''test requirement'' (cmi_required_tests i) MAX_REQUIRED_TESTS) (\<lambda>tests.
          result_bind (validate_concerns (cmi_architecture_concerns i)) (\<lambda>concerns.
            Ok \<lparr> mm_id = cmi_id i, mm_version = cmi_version i, mm_title = title, mm_goal = goal,
              mm_prerequisites = prerequisites, mm_deliverables = deliverables, mm_non_goals = non_goals,
              mm_invariants = invariants, mm_acceptance = acceptance, mm_required_tests = tests,
              mm_architecture_concerns = concerns,
              mm_validation_profile = map_option trim_profile (cmi_validation_profile i),
              mm_next_milestone = cmi_next_milestone i \<rparr>))))))))"

definition create_milestone_manifest :: "CreateMilestoneManifestInput \<Rightarrow> string + MilestoneManifest" where
  "create_milestone_manifest i = validate_manifest_shape (i\<lparr>cmi_version := 1\<rparr>)"

definition requirement_input :: "AcceptanceRequirement \<Rightarrow> AcceptanceRequirementInput" where
  "requirement_input r = \<lparr> ari_id = ar_id r, ari_check_id = Some (ar_check_id r), ari_description = ar_description r,
     ari_evidence_kinds = ar_evidence_kinds r, ari_criterion_id = ar_criterion_id r,
     ari_standard_ids = map StandardAcceptanceId_as_str (ar_standard_ids r), ari_optional = ar_optional r \<rparr>"

definition revise_milestone_manifest ::
    "MilestoneManifest \<Rightarrow> string option \<Rightarrow> string option \<Rightarrow> AcceptanceRequirementInput list option \<Rightarrow> string + MilestoneManifest" where
  "revise_milestone_manifest previous title goal acceptance =
     (if mm_version previous < 1 \<or> - 1 - 1 \<le> mm_version previous then
        Err ''A previous manifest version must be an incrementable safe integer.''
      else validate_manifest_shape \<lparr> cmi_id = mm_id previous, cmi_version = mm_version previous + 1,
        cmi_title = unwrap_or (mm_title previous) title, cmi_goal = unwrap_or (mm_goal previous) goal,
        cmi_prerequisites = mm_prerequisites previous, cmi_deliverables = mm_deliverables previous,
        cmi_non_goals = mm_non_goals previous, cmi_invariants = mm_invariants previous,
        cmi_acceptance = unwrap_or (map requirement_input (mm_acceptance previous)) acceptance,
        cmi_required_tests = mm_required_tests previous, cmi_architecture_concerns = mm_architecture_concerns previous,
        cmi_validation_profile = mm_validation_profile previous, cmi_next_milestone = mm_next_milestone previous \<rparr>)"

subsection \<open>Digest\<close>

definition entry_value :: "MilestoneRequirement \<Rightarrow> Value" where
  "entry_value e = json_object [(''id'', Value_String (mr_id e)), (''description'', Value_String (mr_description e))]"

definition only_if :: "bool \<Rightarrow> string \<Rightarrow> Value \<Rightarrow> (string \<times> Value) list" where
  "only_if b key v = (if b then [(key, v)] else [])"

definition manifest_acceptance_value :: "MilestoneManifest \<Rightarrow> Value" where
  "manifest_acceptance_value m = Value_Array (map (\<lambda>r. json_object
     ([(''id'', Value_String (ar_id r)), (''checkId'', Value_String (ar_check_id r)),
       (''description'', Value_String (ar_description r))]
      @ only_if (ar_evidence_kinds r \<noteq> []) ''evidenceKinds'' (json_strings (map EvidenceKind_as_str (ar_evidence_kinds r)))
      @ when_some ''criterionId'' Value_String (ar_criterion_id r)
      @ only_if (ar_standard_ids r \<noteq> []) ''standardIds'' (json_strings (map StandardAcceptanceId_as_str (ar_standard_ids r)))
      @ only_if (ar_optional r) ''optional'' (Value_Bool True))) (mm_acceptance m))"

definition manifest_canonical_value :: "MilestoneManifest \<Rightarrow> Value" where
  "manifest_canonical_value m = json_object
     ([(''id'', Value_String (mm_id m)), (''version'', json_u64 (mm_version m)), (''title'', Value_String (mm_title m)),
       (''goal'', Value_String (mm_goal m)), (''prerequisites'', Value_Array (map entry_value (mm_prerequisites m))),
       (''deliverables'', Value_Array (map entry_value (mm_deliverables m))), (''nonGoals'', json_strings (mm_non_goals m)),
       (''invariants'', Value_Array (map entry_value (mm_invariants m))), (''acceptance'', manifest_acceptance_value m),
       (''requiredTests'', Value_Array (map entry_value (mm_required_tests m))),
       (''architectureConcerns'', json_strings (mm_architecture_concerns m))]
      @ when_some ''validationProfile'' (\<lambda>p. json_object [(''profileId'', Value_String (vpr_profile_id p)),
          (''revision'', json_u64 (vpr_revision p))]) (mm_validation_profile m)
      @ when_some ''nextMilestone'' (\<lambda>n. json_object [(''id'', Value_String (mref_id n)),
          (''version'', json_u64 (mref_version n))]) (mm_next_milestone m))"

definition compute_milestone_manifest_digest :: "scientific \<Rightarrow> MilestoneManifest \<Rightarrow> string" where
  "compute_milestone_manifest_digest sci m = sha256_hex_str (canonical_json_value sci (manifest_canonical_value m))"

end
