(* ===== verification/Executor_Acceptance.thy ===== *)
theory Executor_Acceptance
  imports Executor_Milestone
begin

text \<open>
  Evaluation of a milestone manifest against the evidence the host attached
  (\<open>executor/acceptance.rs\<close>), and what manifests and evaluations guarantee.
\<close>

datatype AcceptanceRequirementStatus =
    AcceptanceRequirementStatus_Pass
  | AcceptanceRequirementStatus_Fail
  | AcceptanceRequirementStatus_Incomplete
  | AcceptanceRequirementStatus_NotApplicable

fun AcceptanceRequirementStatus_as_str :: "AcceptanceRequirementStatus \<Rightarrow> string" where
  "AcceptanceRequirementStatus_as_str AcceptanceRequirementStatus_Pass = ''pass''"
| "AcceptanceRequirementStatus_as_str AcceptanceRequirementStatus_Fail = ''fail''"
| "AcceptanceRequirementStatus_as_str AcceptanceRequirementStatus_Incomplete = ''incomplete''"
| "AcceptanceRequirementStatus_as_str AcceptanceRequirementStatus_NotApplicable = ''not_applicable''"

record MilestoneRequirementResult =
  mrr_id :: string
  mrr_status :: AcceptanceRequirementStatus
  mrr_satisfied_by :: "string list"
  mrr_note :: "string option"

record MilestoneAcceptanceCounts =
  n_pass :: nat
  n_fail :: nat
  n_incomplete :: nat
  n_not_applicable :: nat
  n_total :: nat

record MilestoneAcceptanceReport =
  mar_manifest_id :: string
  mar_manifest_version :: "64 word"
  mar_requirements :: "MilestoneRequirementResult list"
  mar_counts :: MilestoneAcceptanceCounts
  mar_passed :: bool

record AcceptanceTaskIdentity =
  ati_task_id :: string
  ati_contract_revision :: nat
  ati_contract_digest :: "string option"

record AcceptanceEvaluationInput =
  aei_manifest :: MilestoneManifest
  aei_task :: AcceptanceTaskIdentity
  aei_evidence :: "EvidenceRecord list"
  aei_acceptance :: "AcceptanceState list"

definition is_current_task_evidence :: "EvidenceRecord \<Rightarrow> AcceptanceTaskIdentity \<Rightarrow> bool" where
  "is_current_task_evidence record task =
     (case ati_contract_digest task of
        Some digest \<Rightarrow> er_task_id record = ati_task_id task \<and> er_contract_revision record = ati_contract_revision task
          \<and> er_contract_digest record = digest
      | None \<Rightarrow> False)"

definition kind_can_verify_criterion :: "EvidenceKind \<Rightarrow> AcceptanceState \<Rightarrow> bool" where
  "kind_can_verify_criterion kind criterion =
     (case ac_verification_kind criterion of
        VerificationKind_User \<Rightarrow> kind = EvidenceKind_UserApproval
      | VerificationKind_Review \<Rightarrow> kind = EvidenceKind_ReviewResult
      | VerificationKind_Deterministic \<Rightarrow> \<not> (kind = EvidenceKind_ReviewResult \<or> kind = EvidenceKind_UserApproval))"

definition valid_successful_record :: "EvidenceRecord \<Rightarrow> bool" where
  "valid_successful_record record =
     (case er_verification record of
        None \<Rightarrow> False
      | Some verification \<Rightarrow> ev_outcome verification = VerificationOutcome_Passed
          \<and> source_supports_successful_outcome (er_kind record) (er_source record))"

definition req_result :: "AcceptanceRequirement \<Rightarrow> AcceptanceRequirementStatus \<Rightarrow> string list \<Rightarrow> string option
    \<Rightarrow> MilestoneRequirementResult" where
  "req_result requirement status ids reason =
     \<lparr> mrr_id = ar_id requirement, mrr_status = status, mrr_satisfied_by = ids, mrr_note = reason \<rparr>"

definition linked_record_ok ::
    "AcceptanceRequirement \<Rightarrow> string \<Rightarrow> AcceptanceState \<Rightarrow> AcceptanceTaskIdentity \<Rightarrow> EvidenceKind list \<Rightarrow> EvidenceRecord \<Rightarrow> bool" where
  "linked_record_ok requirement criterion_id criterion task kinds record \<longleftrightarrow>
     (case er_verification record of
        Some verification \<Rightarrow> ev_criterion_id verification = Some criterion_id
          \<and> ev_check_id verification = ar_check_id requirement
      | None \<Rightarrow> False)
     \<and> is_current_task_evidence record task
     \<and> kind_can_verify_criterion (er_kind record) criterion \<and> (kinds = [] \<or> er_kind record \<in> set kinds)
     \<and> valid_successful_record record"

definition evaluate_linked ::
    "AcceptanceRequirement \<Rightarrow> string \<Rightarrow> AcceptanceTaskIdentity \<Rightarrow> EvidenceKind list \<Rightarrow> EvidenceRecord list
      \<Rightarrow> AcceptanceState list \<Rightarrow> MilestoneRequirementResult" where
  "evaluate_linked requirement criterion_id task kinds evidence acceptance =
     (case find (\<lambda>a. ac_criterion_id a = criterion_id) acceptance of
        None \<Rightarrow> req_result requirement
          (if ar_optional requirement then AcceptanceRequirementStatus_NotApplicable else AcceptanceRequirementStatus_Incomplete)
          [] (Some ''No linked task criterion exists for this task.'')
      | Some criterion \<Rightarrow>
          (case (ac_status criterion, ac_verified_by criterion) of
             (AcceptanceStatus_Satisfied, Some verified_by) \<Rightarrow>
               (case filter (\<lambda>e. er_id e = verified_by) evidence of
                  [record] \<Rightarrow>
                    if linked_record_ok requirement criterion_id criterion task kinds record then
                      req_result requirement AcceptanceRequirementStatus_Pass [er_id record] None
                    else req_result requirement AcceptanceRequirementStatus_Fail []
                      (Some (''Linked criterion '' @ criterion_id @ '' has invalid or stale verification evidence.''))
                | _ \<Rightarrow> req_result requirement AcceptanceRequirementStatus_Fail []
                    (Some (''Linked criterion '' @ criterion_id @ '' has invalid or stale verification evidence.'')))
           | (AcceptanceStatus_Failed, _) \<Rightarrow>
               req_result requirement AcceptanceRequirementStatus_Fail [] (Some (''Linked criterion '' @ criterion_id @ '' failed.''))
           | _ \<Rightarrow> req_result requirement AcceptanceRequirementStatus_Incomplete []
               (Some (''Linked criterion '' @ criterion_id @ '' is not host-verified.''))))"

definition targets_requirement :: "MilestoneManifest \<Rightarrow> AcceptanceRequirement \<Rightarrow> EvidenceRecord \<Rightarrow> bool" where
  "targets_requirement manifest requirement record =
     (case er_verification record of
        None \<Rightarrow> False
      | Some verification \<Rightarrow>
          (case ev_milestone verification of
             None \<Rightarrow> False
           | Some milestone \<Rightarrow> met_manifest_id milestone = mm_id manifest \<and> met_manifest_version milestone = mm_version manifest
               \<and> met_requirement_id milestone = ar_id requirement))"

definition has_outcome :: "VerificationOutcome \<Rightarrow> EvidenceRecord \<Rightarrow> bool" where
  "has_outcome outcome record = (case er_verification record of Some v \<Rightarrow> ev_outcome v = outcome | None \<Rightarrow> False)"

definition has_check :: "string \<Rightarrow> EvidenceRecord \<Rightarrow> bool" where
  "has_check check_id record = (case er_verification record of Some v \<Rightarrow> ev_check_id v = check_id | None \<Rightarrow> False)"

definition evaluate_direct ::
    "MilestoneManifest \<Rightarrow> AcceptanceRequirement \<Rightarrow> AcceptanceTaskIdentity \<Rightarrow> EvidenceKind list \<Rightarrow> EvidenceRecord list
      \<Rightarrow> MilestoneRequirementResult" where
  "evaluate_direct manifest requirement task kinds evidence =
     (let targeted = filter (\<lambda>r. is_current_task_evidence r task \<and> targets_requirement manifest requirement r) evidence;
          passing = filter (\<lambda>r. has_check (ar_check_id requirement) r \<and> er_kind r \<in> set kinds \<and> valid_successful_record r) targeted
      in if passing \<noteq> [] then req_result requirement AcceptanceRequirementStatus_Pass (sort (map er_id passing)) None
         else if targeted \<noteq> [] then
           req_result requirement
             (if list_ex (has_outcome VerificationOutcome_Failed) targeted then AcceptanceRequirementStatus_Fail
              else AcceptanceRequirementStatus_Incomplete) []
             (Some ''Targeted host evidence did not contain a matching successful check outcome.'')
         else if ar_optional requirement then
           req_result requirement AcceptanceRequirementStatus_NotApplicable []
             (Some ''No matching host evidence; optional requirement not applicable.'')
         else req_result requirement AcceptanceRequirementStatus_Incomplete [] (Some ''No matching host-attached evidence.''))"

definition evaluate_requirement ::
    "MilestoneManifest \<Rightarrow> AcceptanceRequirement \<Rightarrow> AcceptanceTaskIdentity \<Rightarrow> EvidenceRecord list \<Rightarrow> AcceptanceState list
      \<Rightarrow> MilestoneRequirementResult" where
  "evaluate_requirement manifest requirement task evidence acceptance =
     (let kinds = resolve_acceptance_evidence_kinds (ar_evidence_kinds requirement) (ar_standard_ids requirement)
      in case ar_criterion_id requirement of
           Some criterion_id \<Rightarrow> evaluate_linked requirement criterion_id task kinds evidence acceptance
         | None \<Rightarrow> evaluate_direct manifest requirement task kinds evidence)"

definition n_status :: "AcceptanceRequirementStatus \<Rightarrow> MilestoneRequirementResult list \<Rightarrow> nat" where
  "n_status status results = length (filter (\<lambda>r. mrr_status r = status) results)"

definition evaluate_milestone :: "AcceptanceEvaluationInput \<Rightarrow> MilestoneAcceptanceReport" where
  "evaluate_milestone i =
     (let results = map (\<lambda>r. evaluate_requirement (aei_manifest i) r (aei_task i) (aei_evidence i) (aei_acceptance i))
            (mm_acceptance (aei_manifest i));
          counts = \<lparr> n_pass = n_status AcceptanceRequirementStatus_Pass results,
            n_fail = n_status AcceptanceRequirementStatus_Fail results,
            n_incomplete = n_status AcceptanceRequirementStatus_Incomplete results,
            n_not_applicable = n_status AcceptanceRequirementStatus_NotApplicable results, n_total = length results \<rparr>
      in \<lparr> mar_manifest_id = mm_id (aei_manifest i), mar_manifest_version = mm_version (aei_manifest i),
           mar_requirements = results, mar_counts = counts,
           mar_passed = (n_fail counts = 0 \<and> n_incomplete counts = 0 \<and> 0 < n_total counts) \<rparr>)"

subsection \<open>What a passed milestone needs\<close>

text \<open>
  Host evidence that meets a requirement: bound to the task and its contract, successful, of the
  right check and of an accepted kind, and recorded for the linked criterion or for this very
  requirement of the manifest.
\<close>

definition meets :: "AcceptanceEvaluationInput \<Rightarrow> AcceptanceRequirement \<Rightarrow> EvidenceRecord \<Rightarrow> bool" where
  "meets i requirement record \<longleftrightarrow> record \<in> set (aei_evidence i) \<and> is_current_task_evidence record (aei_task i)
     \<and> valid_successful_record record \<and> has_check (ar_check_id requirement) record
     \<and> (let kinds = resolve_acceptance_evidence_kinds (ar_evidence_kinds requirement) (ar_standard_ids requirement)
        in case ar_criterion_id requirement of
             Some criterion_id \<Rightarrow> (kinds = [] \<or> er_kind record \<in> set kinds)
               \<and> (\<exists>v. er_verification record = Some v \<and> ev_criterion_id v = Some criterion_id)
               \<and> (\<exists>a \<in> set (aei_acceptance i). ac_criterion_id a = criterion_id
                    \<and> ac_status a = AcceptanceStatus_Satisfied \<and> ac_verified_by a = Some (er_id record)
                    \<and> kind_can_verify_criterion (er_kind record) a)
           | None \<Rightarrow> targets_requirement (aei_manifest i) requirement record \<and> er_kind record \<in> set kinds)"

lemma req_result_simps [simp]:
  "mrr_status (req_result r s ids n) = s" "mrr_id (req_result r s ids n) = ar_id r"
  "mrr_satisfied_by (req_result r s ids n) = ids"
  by (simp_all add: req_result_def)

lemma evaluate_linked_pass:
  assumes "mrr_status (evaluate_linked requirement c task kinds evidence acceptance) = AcceptanceRequirementStatus_Pass"
  shows "\<exists>a record. find (\<lambda>a. ac_criterion_id a = c) acceptance = Some a \<and> ac_status a = AcceptanceStatus_Satisfied
    \<and> ac_verified_by a = Some (er_id record) \<and> record \<in> set evidence \<and> linked_record_ok requirement c a task kinds record"
proof -
  from assms obtain a where a: "find (\<lambda>a. ac_criterion_id a = c) acceptance = Some a"
    by (auto simp: evaluate_linked_def split: option.splits if_splits)
  with assms obtain v where v: "ac_status a = AcceptanceStatus_Satisfied" "ac_verified_by a = Some v"
    by (auto simp: evaluate_linked_def split: option.splits AcceptanceStatus.splits)
  with a assms obtain rec where r: "filter (\<lambda>e. er_id e = v) evidence = [rec]" "linked_record_ok requirement c a task kinds rec"
    by (auto simp: evaluate_linked_def split: list.splits if_splits)
  then have "rec \<in> set (filter (\<lambda>e. er_id e = v) evidence)"
    by simp
  then have "rec \<in> set evidence" "er_id rec = v"
    by (simp_all only: set_filter mem_Collect_eq)
  with a v r(2) show ?thesis
    by blast
qed

lemma evaluate_pass_meets:
  assumes "mrr_status (evaluate_requirement (aei_manifest i) requirement (aei_task i) (aei_evidence i) (aei_acceptance i))
    = AcceptanceRequirementStatus_Pass"
  shows "\<exists>record. meets i requirement record"
proof (cases "ar_criterion_id requirement")
  case None
  let ?kinds = "resolve_acceptance_evidence_kinds (ar_evidence_kinds requirement) (ar_standard_ids requirement)"
  from assms None have "filter (\<lambda>r. has_check (ar_check_id requirement) r \<and> er_kind r \<in> set ?kinds \<and> valid_successful_record r)
      (filter (\<lambda>r. is_current_task_evidence r (aei_task i) \<and> targets_requirement (aei_manifest i) requirement r) (aei_evidence i)) \<noteq> []"
    by (auto simp: evaluate_requirement_def evaluate_direct_def Let_def split: if_splits)
  with None show ?thesis
    by (auto simp: meets_def filter_empty_conv)
next
  case (Some c)
  let ?kinds = "resolve_acceptance_evidence_kinds (ar_evidence_kinds requirement) (ar_standard_ids requirement)"
  have "mrr_status (evaluate_linked requirement c (aei_task i) ?kinds (aei_evidence i) (aei_acceptance i)) = AcceptanceRequirementStatus_Pass"
    using assms Some by (simp add: evaluate_requirement_def Let_def)
  from evaluate_linked_pass [OF this] obtain a rec
    where "find (\<lambda>a. ac_criterion_id a = c) (aei_acceptance i) = Some a" "ac_status a = AcceptanceStatus_Satisfied"
      "ac_verified_by a = Some (er_id rec)" "rec \<in> set (aei_evidence i)"
      "linked_record_ok requirement c a (aei_task i) ?kinds rec"
    by blast
  with Some have "meets i requirement rec"
    unfolding meets_def Let_def linked_record_ok_def has_check_def
    by (auto dest!: find_Some_set split: option.splits)
  then show ?thesis
    by blast
qed

lemma not_applicable_optional:
  "mrr_status (evaluate_requirement m requirement task evidence acceptance) = AcceptanceRequirementStatus_NotApplicable
     \<Longrightarrow> ar_optional requirement"
  by (auto simp: evaluate_requirement_def evaluate_linked_def evaluate_direct_def Let_def
      split: option.splits if_splits list.splits AcceptanceStatus.splits)

lemma n_status_zero: "n_status s results = 0 \<longleftrightarrow> (\<forall>r \<in> set results. mrr_status r \<noteq> s)"
  by (auto simp: n_status_def filter_empty_conv)

lemma n_status_two:
  "\<forall>r \<in> set results. mrr_status r = s \<or> mrr_status r = AcceptanceRequirementStatus_NotApplicable \<Longrightarrow>
     s \<noteq> AcceptanceRequirementStatus_NotApplicable \<Longrightarrow>
     n_status s results + n_status AcceptanceRequirementStatus_NotApplicable results = length results"
  by (induction results) (auto simp: n_status_def)

text \<open>
  C39.  A milestone passes only on host evidence: when the report says passed, there is at least
  one requirement, the counts add up, and for every requirement that is not optional there is
  an attached evidence record of this very task and contract, for the check of the
  requirement, of a permitted kind, with a passed outcome its source supports.
\<close>

theorem milestone_passes_on_host_evidence:
  assumes "mar_passed (evaluate_milestone i)"
  shows "mm_acceptance (aei_manifest i) \<noteq> []
    \<and> n_pass (mar_counts (evaluate_milestone i)) + n_not_applicable (mar_counts (evaluate_milestone i))
        = length (mm_acceptance (aei_manifest i))
    \<and> (\<forall>requirement \<in> set (mm_acceptance (aei_manifest i)). \<not> ar_optional requirement
        \<longrightarrow> (\<exists>record. meets i requirement record))"
proof -
  let ?eval = "\<lambda>r. evaluate_requirement (aei_manifest i) r (aei_task i) (aei_evidence i) (aei_acceptance i)"
  let ?rs = "map ?eval (mm_acceptance (aei_manifest i))"
  have zero: "n_status AcceptanceRequirementStatus_Fail ?rs = 0" "n_status AcceptanceRequirementStatus_Incomplete ?rs = 0"
      "mm_acceptance (aei_manifest i) \<noteq> []"
    using assms by (simp_all add: evaluate_milestone_def Let_def)
  then have two: "\<forall>r \<in> set ?rs. mrr_status r = AcceptanceRequirementStatus_Pass \<or> mrr_status r = AcceptanceRequirementStatus_NotApplicable"
    unfolding n_status_zero using AcceptanceRequirementStatus.exhaust by blast
  then have "n_status AcceptanceRequirementStatus_Pass ?rs + n_status AcceptanceRequirementStatus_NotApplicable ?rs = length ?rs"
    by (rule n_status_two) simp
  moreover have "\<exists>record. meets i r record" if "r \<in> set (mm_acceptance (aei_manifest i))" "\<not> ar_optional r" for r
    using two that not_applicable_optional evaluate_pass_meets by fastforce
  ultimately show ?thesis
    using zero(3) by (simp add: evaluate_milestone_def Let_def)
qed


definition sample_requirement :: AcceptanceRequirement where
  "sample_requirement = \<lparr> ar_id = ''AC1'', ar_check_id = ''suite'', ar_description = ''Tests pass.'',
     ar_evidence_kinds = [EvidenceKind_ValidationResult], ar_criterion_id = None, ar_standard_ids = [], ar_optional = False \<rparr>"

definition sample_manifest :: MilestoneManifest where
  "sample_manifest = \<lparr> mm_id = ''M1'', mm_version = 1, mm_title = ''t'', mm_goal = ''g'', mm_prerequisites = [],
     mm_deliverables = [], mm_non_goals = [], mm_invariants = [], mm_acceptance = [sample_requirement],
     mm_required_tests = [], mm_architecture_concerns = [], mm_validation_profile = None, mm_next_milestone = None \<rparr>"

definition sample_record :: EvidenceRecord where
  "sample_record = \<lparr> er_id = ''ev-1'', er_kind = EvidenceKind_ValidationResult, er_task_id = ''task-1'',
     er_contract_revision = 1, er_contract_digest = ''d'', er_source = EvidenceSource_Validation ''checks'' True 0,
     er_verification = Some \<lparr> ev_check_id = ''suite'', ev_criterion_id = None,
       ev_milestone = Some \<lparr> met_manifest_id = ''M1'', met_manifest_version = 1, met_requirement_id = ''AC1'' \<rparr>,
       ev_outcome = VerificationOutcome_Passed \<rparr>, er_attached_at_ms = 0 \<rparr>"

definition sample_evaluation :: AcceptanceEvaluationInput where
  "sample_evaluation = \<lparr> aei_manifest = sample_manifest, aei_task = \<lparr> ati_task_id = ''task-1'', ati_contract_revision = 1,
     ati_contract_digest = Some ''d'' \<rparr>, aei_evidence = [sample_record], aei_acceptance = [] \<rparr>"

theorem milestone_passes_on_host_evidence_witness:
  "mar_passed (evaluate_milestone sample_evaluation) \<and> (\<exists>rec. meets sample_evaluation sample_requirement rec)"
proof -
  have "mar_passed (evaluate_milestone sample_evaluation)"
    by code_simp
  from this milestone_passes_on_host_evidence [OF this] show ?thesis
    by (auto simp: sample_evaluation_def sample_manifest_def sample_requirement_def)
qed


subsection \<open>Manifests are stored normalised\<close>

lemma ws_prefix_ascii: "32 < a \<Longrightarrow> a < 128 \<Longrightarrow> ws_prefix (a # bs) = 0"
  by (simp split: list.split)

lemma trim_ascii:
  assumes "list_all (\<lambda>c. 32 < byte c \<and> byte c < 128) s"
  shows "trim s = s"
proof -
  have any: "ws_prefix (drop k (map byte s)) = 0" for k
  proof (cases "k < length s")
    case True
    then have "drop k (map byte s) = byte (s ! k) # drop (Suc k) (map byte s)"
      by (simp add: Cons_nth_drop_Suc [symmetric])
    with True assms show ?thesis
      by (simp only: ws_prefix_ascii list_all_length)
  qed simp
  have "trim_start s = s"
    using any [of 0] by (simp add: trim_start_id)
  moreover have "trim_end s = s"
    by (intro trim_end_id) (simp add: ws_suffix_def any Let_def)
  ultimately show ?thesis
    by (simp add: trim_def)
qed

lemma trim_element_id:
  assumes "is_element_id i"
  shows "trim i = i"
proof (rule trim_ascii)
  have "32 < byte c \<and> byte c < 128" if "is_ascii_alphanumeric c \<or> c \<in> set ''._-''" for c
    using that by (auto simp: ascii_defs)
  then show "list_all (\<lambda>c. 32 < byte c \<and> byte c < 128) i"
    using assms by (cases i) (auto simp: is_element_id_def is_ascii_alphanumeric_def list_all_iff)
qed

lemma try_map_again:
  assumes "try_map f xs = Ok ys" and "\<And>x y. f x = Ok y \<Longrightarrow> f (h y) = Ok y"
  shows "try_map f (map h ys) = Ok ys"
  using assms by (induction xs arbitrary: ys) (auto simp: result_bind_Ok_iff)

lemma try_map_key:
  assumes "try_map f xs = Ok ys" and "\<And>x y. f x = Ok y \<Longrightarrow> g y = k x"
  shows "map g ys = map k xs"
  using assms by (induction xs arbitrary: ys) (auto simp: result_bind_Ok_iff)

lemma length_try_map_Ok: "try_map f xs = Ok ys \<Longrightarrow> length ys = length xs"
  by (induction xs arbitrary: ys) (auto simp: result_bind_Ok_iff)

lemma copy_entries_again: "copy_entries kind es n = Ok es' \<Longrightarrow> copy_entries kind es' n = Ok es'"
proof -
  assume ok: "copy_entries kind es n = Ok es'"
  then have map: "try_map (validate_entry kind) es = Ok es'" and "length es \<le> n" "duplicate_in [] (map mr_id es) = None"
    by (auto simp: copy_entries_def split: if_splits option.splits)
  moreover have "try_map (validate_entry kind) es' = Ok es'"
    using try_map_again [OF map, of "\<lambda>e. e"] by (force simp: validate_entry_def Let_def split: if_splits)
  moreover have "map mr_id es' = map mr_id es"
    by (rule try_map_key [OF map]) (auto simp: validate_entry_def Let_def split: if_splits)
  ultimately show ?thesis
    using length_try_map_Ok [OF map] by (simp add: copy_entries_def)
qed

lemma copy_statements_again: "copy_statements kind ss n = Ok ss' \<Longrightarrow> copy_statements kind ss' n = Ok ss'"
proof -
  assume ok: "copy_statements kind ss n = Ok ss'"
  then have map: "try_map (copy_statement kind) ss = Ok ss'" and "length ss \<le> n"
    by (auto simp: copy_statements_def split: if_splits)
  moreover have "try_map (copy_statement kind) ss' = Ok ss'"
    using try_map_again [OF map, of "\<lambda>s. s"] by (force simp: copy_statement_def Let_def split: if_splits)
  ultimately show ?thesis
    using length_try_map_Ok [OF map] by (simp add: copy_statements_def)
qed

lemma concerns_loop_trim: "concerns_loop seen (map trim cs) = concerns_loop seen cs"
  by (induction seen cs rule: concerns_loop.induct) (simp_all add: Let_def)

lemma validate_concerns_again: "validate_concerns cs = Ok cs' \<Longrightarrow> validate_concerns cs' = Ok cs'"
  by (auto simp: validate_concerns_def result_bind_Ok_iff concerns_loop_trim comp_def split: if_splits)

lemma parse_standard_as_str: "parse_standard i (StandardAcceptanceId_as_str s) = Ok s"
  by (cases s) (simp_all add: parse_standard_def StandardAcceptanceId_parse_def)

lemma try_map_parse_standard: "try_map (parse_standard i) (map StandardAcceptanceId_as_str ss) = Ok ss"
  by (induction ss) (simp_all add: parse_standard_as_str)

lemma validate_requirement_again:
  assumes "validate_requirement r = Ok v"
  shows "validate_requirement (requirement_input v) = Ok v" and "ari_id (requirement_input v) = ari_id r"
proof -
  have v: "is_entry_id (check_id_of r)" "ar_check_id v = check_id_of r" "ar_id v = ari_id r"
      "ar_criterion_id v = None \<or> ar_criterion_id v = Some (check_id_of r)"
      "ar_description v = trim (ari_description r)" "trim (ari_description r) \<noteq> []"
      "length (trim (ari_description r)) \<le> MAX_ENTRY_BYTES"
      "\<not> (ar_evidence_kinds v = [] \<and> ar_criterion_id v = None \<and> ar_standard_ids v = [])"
    using assms by (auto simp: validate_requirement_def Let_def result_bind_Ok_iff split: if_splits)
  have "check_id_of (requirement_input v) = trim (ar_check_id v)"
    by (simp add: check_id_of_def requirement_input_def)
  then have "check_id_of (requirement_input v) = ar_check_id v"
    using v(1,2) by (simp add: trim_element_id is_entry_id_def)
  with v show "validate_requirement (requirement_input v) = Ok v"
    by (subst validate_requirement_def) (auto simp: requirement_input_def Let_def try_map_parse_standard)
  show "ari_id (requirement_input v) = ari_id r"
    using v(3) by (simp add: requirement_input_def)
qed

lemma acceptance_loop_again:
  "acceptance_loop ids rs = Ok vs \<Longrightarrow> acceptance_loop ids (map requirement_input vs) = Ok vs \<and> length vs = length rs"
proof (induction ids rs arbitrary: vs rule: acceptance_loop.induct)
  case (2 ids r rs)
  then obtain v ws where "validate_requirement r = Ok v" "acceptance_loop (ids @ [ari_id r]) rs = Ok ws" "vs = v # ws"
      "is_acceptance_id (ari_id r)" "ari_id r \<notin> set ids"
    by (auto simp: result_bind_Ok_iff split: if_splits)
  with "2.IH" [of ws] validate_requirement_again [of r v] show ?case
    by simp
qed simp

lemma validate_acceptance_again:
  "validate_acceptance rs = Ok vs \<Longrightarrow> validate_acceptance (map requirement_input vs) = Ok vs \<and> (vs = [] \<longleftrightarrow> rs = [])"
  using acceptance_loop_again [of "[]" rs vs] by (cases rs) (auto simp: validate_acceptance_def split: if_splits)

text \<open>The input whose fields are those of a stored manifest.\<close>

definition manifest_input :: "MilestoneManifest \<Rightarrow> CreateMilestoneManifestInput" where
  "manifest_input m = \<lparr> cmi_id = mm_id m, cmi_version = mm_version m, cmi_title = mm_title m, cmi_goal = mm_goal m,
     cmi_prerequisites = mm_prerequisites m, cmi_deliverables = mm_deliverables m, cmi_non_goals = mm_non_goals m,
     cmi_invariants = mm_invariants m, cmi_acceptance = map requirement_input (mm_acceptance m),
     cmi_required_tests = mm_required_tests m, cmi_architecture_concerns = mm_architecture_concerns m,
     cmi_validation_profile = mm_validation_profile m, cmi_next_milestone = mm_next_milestone m \<rparr>"

lemma manifest_shape_again:
  assumes "validate_manifest_shape i = Ok m" and "v \<noteq> 0"
  shows "validate_manifest_shape (manifest_input (m\<lparr>mm_version := v\<rparr>)) = Ok (m\<lparr>mm_version := v\<rparr>)"
proof -
  have parts: "is_milestone_id (cmi_id i)" "trim (cmi_title i) \<noteq> []" "length (trim (cmi_title i)) \<le> MAX_TITLE_BYTES"
      "trim (cmi_goal i) \<noteq> []" "length (trim (cmi_goal i)) \<le> MAX_GOAL_BYTES" "cmi_acceptance i \<noteq> []"
      "profile_rejection (cmi_validation_profile i) = None"
      "copy_entries ''prerequisite'' (cmi_prerequisites i) MAX_PREREQUISITES = Ok (mm_prerequisites m)"
      "copy_entries ''deliverable'' (cmi_deliverables i) MAX_DELIVERABLES = Ok (mm_deliverables m)"
      "copy_statements ''non-goal'' (cmi_non_goals i) MAX_MILESTONE_NON_GOALS = Ok (mm_non_goals m)"
      "copy_entries ''invariant'' (cmi_invariants i) MAX_INVARIANTS = Ok (mm_invariants m)"
      "validate_acceptance (cmi_acceptance i) = Ok (mm_acceptance m)"
      "copy_entries ''test requirement'' (cmi_required_tests i) MAX_REQUIRED_TESTS = Ok (mm_required_tests m)"
      "validate_concerns (cmi_architecture_concerns i) = Ok (mm_architecture_concerns m)"
      "mm_id m = cmi_id i" "mm_title m = trim (cmi_title i)" "mm_goal m = trim (cmi_goal i)"
      "mm_validation_profile m = map_option trim_profile (cmi_validation_profile i)"
    using assms(1) by (auto simp: validate_manifest_shape_def Let_def result_bind_Ok_iff split: if_splits option.splits)
  have "profile_rejection (mm_validation_profile m) = None"
      "map_option trim_profile (mm_validation_profile m) = mm_validation_profile m"
    using parts(7,18) by (auto simp: profile_rejection_def trim_profile_def split: option.splits if_splits)
  moreover have "\<not> v < 1"
    using assms(2) by simp
  ultimately show ?thesis
    using parts copy_entries_again copy_statements_again validate_acceptance_again [OF parts(12)] validate_concerns_again
    by (subst validate_manifest_shape_def) (simp add: manifest_input_def not_less)
qed

text \<open>
  Revising a manifest is a round trip: a stored manifest goes through validation unchanged,
  so a revision that changes nothing differs from its predecessor in the version only, which
  grows by one while it is below the last versions of the 64-bit counter.
\<close>

theorem manifest_revision_keeps_content:
  assumes "validate_manifest_shape i = Ok m" and "mm_version m < - 2"
  shows "revise_milestone_manifest m None None None = Ok (m\<lparr>mm_version := mm_version m + 1\<rparr>)
    \<and> unat (mm_version m + 1) = unat (mm_version m) + 1"
proof -
  have "mm_version m + 1 \<noteq> 0"
  proof
    assume "mm_version m + 1 = 0"
    then have "mm_version m = - 1"
      by (simp add: add_eq_0_iff2)
    with assms(2) show False
      by simp
  qed
  moreover have "\<not> mm_version m < 1"
    using assms(1) by (auto simp: validate_manifest_shape_def Let_def result_bind_Ok_iff split: if_splits option.splits)
  ultimately show ?thesis
    using manifest_shape_again [OF assms(1), of "mm_version m + 1"] assms(2) unatSuc [of "mm_version m"]
    by (simp add: revise_milestone_manifest_def manifest_input_def unwrap_or_def not_le add.commute)
qed

lemma sample_manifest_valid: "validate_manifest_shape (manifest_input sample_manifest) = Ok sample_manifest"
  by code_simp

theorem manifest_revision_keeps_content_witness:
  "revise_milestone_manifest sample_manifest None None None = Ok (sample_manifest\<lparr>mm_version := 2\<rparr>)"
proof -
  have "mm_version sample_manifest < - 2"
    by code_simp
  from manifest_revision_keeps_content [OF sample_manifest_valid this] show ?thesis
    by (simp add: sample_manifest_def)
qed

end
