(* ===== verification/Doctor_Redaction.thy ===== *)
theory Doctor_Redaction
  imports Prelude
begin

text \<open>
  The secret redaction of \<open>doctor.rs\<close>: six ordered passes, each a leftmost search for one
  documented pattern, over the bytes of a text.  The loops keep the indices of the code; a
  failed assertion and a slice off a character boundary are the value None.
\<close>

subsection \<open>Bytes and boundaries\<close>

definition SECRET_REPLACEMENT :: string where
  "SECRET_REPLACEMENT = ''<secret>''"

definition is_word_byte :: "char \<Rightarrow> bool" where
  "is_word_byte c \<longleftrightarrow> is_ascii_alphanumeric c \<or> c = CHR ''_''"

definition boundary_at :: "string \<Rightarrow> nat \<Rightarrow> bool" where
  "boundary_at bytes index =
     (let before = 0 < index \<and> is_word_byte (bytes ! (index - 1));
          after = index < length bytes \<and> is_word_byte (bytes ! index)
      in before \<noteq> after)"

definition is_js_space :: "nat \<Rightarrow> bool" where
  "is_js_space c \<longleftrightarrow> (0x9 \<le> c \<and> c \<le> 0xd) \<or> c = 0x20 \<or> c = 0xa0 \<or> c = 0x1680 \<or> (0x2000 \<le> c \<and> c \<le> 0x200a)
     \<or> c = 0x2028 \<or> c = 0x2029 \<or> c = 0x202f \<or> c = 0x205f \<or> c = 0x3000 \<or> c = 0xfeff"

definition is_continuation :: "nat \<Rightarrow> bool" where
  "is_continuation b \<longleftrightarrow> 0x80 \<le> b \<and> b < 0xC0"

text \<open>The scalar that \<open>str::from_utf8\<close> reads from exactly these bytes, if they are one valid scalar.\<close>

fun decode_scalar :: "nat list \<Rightarrow> nat option" where
  "decode_scalar [a, b] =
     (if 0xC2 \<le> a \<and> a \<le> 0xDF \<and> is_continuation b then Some ((a - 0xC0) * 64 + (b - 0x80)) else None)"
| "decode_scalar [a, b, c] =
     (if 0xE0 \<le> a \<and> a \<le> 0xEF \<and> is_continuation b \<and> is_continuation c
      then let v = (a - 0xE0) * 4096 + (b - 0x80) * 64 + (c - 0x80)
           in if 0x800 \<le> v \<and> \<not> (0xD800 \<le> v \<and> v \<le> 0xDFFF) then Some v else None
      else None)"
| "decode_scalar [a, b, c, d] =
     (if 0xF0 \<le> a \<and> a \<le> 0xF4 \<and> is_continuation b \<and> is_continuation c \<and> is_continuation d
      then let v = (a - 0xF0) * 262144 + (b - 0x80) * 4096 + (c - 0x80) * 64 + (d - 0x80)
           in if 0x10000 \<le> v \<and> v \<le> 0x10FFFF then Some v else None
      else None)"
| "decode_scalar _ = None"

definition slice :: "'a list \<Rightarrow> nat \<Rightarrow> nat \<Rightarrow> 'a list" where
  "slice xs a b = take (b - a) (drop a xs)"

definition lead_width :: "nat \<Rightarrow> nat" where
  "lead_width first =
     (if 0xC2 \<le> first \<and> first \<le> 0xDF then 2 else if 0xE0 \<le> first \<and> first \<le> 0xEF then 3
      else if 0xF0 \<le> first \<and> first \<le> 0xF4 then 4 else 0)"

definition js_space_len :: "string \<Rightarrow> nat \<Rightarrow> nat" where
  "js_space_len bytes index =
     (let first = byte (bytes ! index) in
      if first < 0x80 then (if is_js_space first then 1 else 0)
      else
        let width = lead_width first in
        if width = 0 then 0
        else if length bytes < index + width then 0
        else case decode_scalar (map byte (slice bytes index (index + width))) of
               Some c \<Rightarrow> if is_js_space c then width else 0
             | None \<Rightarrow> 0)"

definition starts_with_at :: "string \<Rightarrow> nat \<Rightarrow> string \<Rightarrow> bool" where
  "starts_with_at bytes index literal \<longleftrightarrow>
     index + length literal \<le> length bytes \<and> slice bytes index (index + length literal) = literal"

definition byte_eq_ignore_case :: "char \<Rightarrow> char \<Rightarrow> bool" where
  "byte_eq_ignore_case a b \<longleftrightarrow> a = b
     \<or> is_ascii_uppercase a \<and> byte b = byte a + 32 \<or> is_ascii_uppercase b \<and> byte a = byte b + 32"

definition starts_with_ignore_case :: "string \<Rightarrow> nat \<Rightarrow> string \<Rightarrow> bool" where
  "starts_with_ignore_case bytes index literal \<longleftrightarrow>
     list_all (\<lambda>offset. index + offset < length bytes \<and> byte_eq_ignore_case (bytes ! (index + offset)) (literal ! offset))
       [0..<length literal]"

subsection \<open>Runs and scans\<close>

text \<open>
  The two loops all searches share: giving bytes back from the end of a run down to its minimum,
  and trying every start in turn while enough bytes are left.
\<close>

primrec back_off :: "(nat \<Rightarrow> nat option) \<Rightarrow> nat \<Rightarrow> nat \<Rightarrow> nat option" where
  "back_off f least 0 = (if least = 0 then f 0 else None)"
| "back_off f least (Suc e) =
     (if Suc e < least then None
      else case f (Suc e) of Some r \<Rightarrow> Some r | None \<Rightarrow> back_off f least e)"

function scan_starts :: "nat \<Rightarrow> nat \<Rightarrow> (nat \<Rightarrow> nat option) \<Rightarrow> nat \<Rightarrow> (nat \<times> nat) option" where
  "scan_starts n k f start =
     (if n < start + k then None
      else case f start of Some e \<Rightarrow> Some (start, e) | None \<Rightarrow> scan_starts n k f (Suc start))"
  by pat_completeness auto

termination
  by (relation "measure (\<lambda>(n, k, f, start). Suc n - start)") auto

declare scan_starts.simps [simp del]

definition run_end :: "string \<Rightarrow> nat \<Rightarrow> (char \<Rightarrow> bool) \<Rightarrow> nat" where
  "run_end bytes start accept = start + length (takeWhile accept (drop start bytes))"

definition class_run :: "string \<Rightarrow> nat \<Rightarrow> nat \<Rightarrow> (char \<Rightarrow> bool) \<Rightarrow> nat option" where
  "class_run bytes start minimum accept =
     back_off (\<lambda>e. if boundary_at bytes e then Some e else None) (start + minimum) (run_end bytes start accept)"

definition is_key_body :: "char \<Rightarrow> bool" where
  "is_key_body c \<longleftrightarrow> is_ascii_alphanumeric c \<or> c = CHR ''_'' \<or> c = CHR ''-''"

definition is_token_body :: "char \<Rightarrow> bool" where
  "is_token_body c \<longleftrightarrow> is_ascii_alphanumeric c \<or> c = CHR ''_''"

definition is_bearer_body :: "char \<Rightarrow> bool" where
  "is_bearer_body c \<longleftrightarrow> is_ascii_alphanumeric c \<or> c \<in> set ''._~+/=-''"

definition is_base64_body :: "char \<Rightarrow> bool" where
  "is_base64_body c \<longleftrightarrow> is_ascii_alphanumeric c \<or> c = CHR ''+'' \<or> c = CHR ''/''"

subsection \<open>The six searches\<close>

definition find_sk_key :: "string \<Rightarrow> nat \<Rightarrow> (nat \<times> nat) option" where
  "find_sk_key bytes = scan_starts (length bytes) 3
     (\<lambda>start. if starts_with_at bytes start ''sk-'' \<and> boundary_at bytes start
              then class_run bytes (start + 3) 8 is_key_body else None)"

definition find_aws_key :: "string \<Rightarrow> nat \<Rightarrow> (nat \<times> nat) option" where
  "find_aws_key bytes = scan_starts (length bytes) 20
     (\<lambda>start. let e = start + 20 in
        if starts_with_at bytes start ''AKIA''
           \<and> list_all (\<lambda>c. is_ascii_digit c \<or> is_ascii_uppercase c) (slice bytes (start + 4) e)
           \<and> boundary_at bytes start \<and> boundary_at bytes e
        then Some e else None)"

definition find_github_token :: "string \<Rightarrow> nat \<Rightarrow> (nat \<times> nat) option" where
  "find_github_token bytes = scan_starts (length bytes) 4
     (\<lambda>start. if starts_with_at bytes start ''gh'' \<and> bytes ! (start + 2) \<in> set ''pso''
                 \<and> bytes ! (start + 3) = CHR ''_'' \<and> boundary_at bytes start
              then class_run bytes (start + 4) 20 is_token_body else None)"

function skip_js_spaces :: "string \<Rightarrow> nat \<Rightarrow> nat" where
  "skip_js_spaces bytes cursor =
     (if length bytes \<le> cursor then cursor
      else let width = js_space_len bytes cursor in
        if width = 0 then cursor else skip_js_spaces bytes (cursor + width))"
  by pat_completeness auto

termination
  by (relation "measure (\<lambda>(bytes, cursor). length bytes - cursor)") auto

declare skip_js_spaces.simps [simp del]

definition find_bearer_token :: "string \<Rightarrow> nat \<Rightarrow> (nat \<times> nat) option" where
  "find_bearer_token bytes = scan_starts (length bytes) 6
     (\<lambda>start. if byte_eq_ignore_case (bytes ! start) (CHR ''B'') \<and> starts_with_ignore_case bytes start ''Bearer''
                 \<and> boundary_at bytes start
              then let cursor = skip_js_spaces bytes (start + 6) in
                if start + 6 < cursor then class_run bytes cursor 12 is_bearer_body else None
              else None)"

definition find_long_hex_run :: "string \<Rightarrow> nat \<Rightarrow> (nat \<times> nat) option" where
  "find_long_hex_run bytes start =
     (if length bytes < start + 32 then None
      else scan_starts (length bytes) 1
        (\<lambda>s. if boundary_at bytes s then class_run bytes s 32 is_ascii_hexdigit else None) start)"

definition padded_end :: "string \<Rightarrow> nat \<Rightarrow> nat option" where
  "padded_end bytes e =
     List.find (\<lambda>candidate. candidate \<le> length bytes \<and> list_all (\<lambda>c. c = CHR ''='') (slice bytes e candidate)
       \<and> boundary_at bytes candidate) [e + 2, e + 1, e]"

definition find_long_base64_run :: "string \<Rightarrow> nat \<Rightarrow> (nat \<times> nat) option" where
  "find_long_base64_run bytes start =
     (if length bytes < start + 40 then None
      else scan_starts (length bytes) 1
        (\<lambda>s. if boundary_at bytes s \<and> is_base64_body (bytes ! s)
             then back_off (padded_end bytes) (s + 40) (run_end bytes s is_base64_body) else None) start)"

subsection \<open>Passes\<close>

text \<open>\<open>str::is_char_boundary\<close> and the slice \<open>&text[a..b]\<close>, which panics off a boundary.\<close>

definition is_char_boundary :: "string \<Rightarrow> nat \<Rightarrow> bool" where
  "is_char_boundary t i \<longleftrightarrow> i = 0 \<or> i = length t \<or> i < length t \<and> \<not> is_continuation (byte (t ! i))"

definition str_slice :: "string \<Rightarrow> nat \<Rightarrow> nat \<Rightarrow> string option" where
  "str_slice t a b =
     (if a \<le> b \<and> b \<le> length t \<and> is_char_boundary t a \<and> is_char_boundary t b then Some (slice t a b) else None)"

function pass_from :: "(string \<Rightarrow> nat \<Rightarrow> (nat \<times> nat) option) \<Rightarrow> string \<Rightarrow> nat \<Rightarrow> string option" where
  "pass_from search text cursor =
     (case search text cursor of
        None \<Rightarrow> str_slice text cursor (length text)
      | Some (s, e) \<Rightarrow>
          if e \<le> s then None
          else case str_slice text cursor s of
                 None \<Rightarrow> None
               | Some piece \<Rightarrow>
                   case pass_from search text e of
                     None \<Rightarrow> None
                   | Some rest \<Rightarrow> Some (piece @ SECRET_REPLACEMENT @ rest))"
  by pat_completeness auto

termination
  by (relation "measure (\<lambda>(search, text, cursor). Suc (length text) - cursor)")
    (auto simp: str_slice_def split: if_splits)

declare pass_from.simps [simp del]

definition replace_pass :: "string \<Rightarrow> (string \<Rightarrow> nat \<Rightarrow> (nat \<times> nat) option) \<Rightarrow> string option" where
  "replace_pass text search = pass_from search text 0"

definition redact_secret_tokens :: "string \<Rightarrow> string option" where
  "redact_secret_tokens text =
     Option.bind (replace_pass text find_sk_key) (\<lambda>t1.
     Option.bind (replace_pass t1 find_aws_key) (\<lambda>t2.
     Option.bind (replace_pass t2 find_github_token) (\<lambda>t3.
     Option.bind (replace_pass t3 find_bearer_token) (\<lambda>t4.
     Option.bind (replace_pass t4 find_long_hex_run) (\<lambda>t5.
     replace_pass t5 find_long_base64_run)))))"

definition sanitize_secrets_only :: "string \<Rightarrow> string option" where
  "sanitize_secrets_only text = redact_secret_tokens text"

end
