(* ===== verification/Executor_New_Files.thy ===== *)
theory Executor_New_Files
  imports Executor_Scope Doctor_Redaction Scalars
begin

text \<open>
  New-file discipline (\<open>executor/new_files.rs\<close>): rationales, the path patterns, proliferation
  signals and the comparison of changed files with the planned scope.  A signal message is cut
  at a byte index; where that is inside a scalar the code panics and the model returns None.
\<close>

subsection \<open>Data and limits\<close>

record NewFileRationale =
  nfr_path :: string
  nfr_reason :: string
  nfr_existing_owners_inspected :: "string list"

record ProliferationSignal =
  psig_id :: string
  psig_message :: string

datatype ScopeDiffClassification =
    ScopeDiffClassification_Expected | ScopeDiffClassification_JustifiedExpansion
  | ScopeDiffClassification_UnexplainedExpansion

fun ScopeDiffClassification_as_str :: "ScopeDiffClassification \<Rightarrow> string" where
  "ScopeDiffClassification_as_str ScopeDiffClassification_Expected = ''expected''"
| "ScopeDiffClassification_as_str ScopeDiffClassification_JustifiedExpansion = ''justified expansion''"
| "ScopeDiffClassification_as_str ScopeDiffClassification_UnexplainedExpansion = ''unexplained expansion''"

record ScopeDiffEntry =
  sde_path :: string
  sde_classification :: ScopeDiffClassification
  sde_rationale :: "string option"

record ScopeDiffReport =
  sdr_entries :: "ScopeDiffEntry list"
  sdr_unexplained :: "string list"

definition NEW_FILE_MAX_PATH_BYTES :: nat where "NEW_FILE_MAX_PATH_BYTES = 1024"
definition NEW_FILE_MAX_REASON_BYTES :: nat where "NEW_FILE_MAX_REASON_BYTES = 1024"
definition MAX_OWNERS :: nat where "MAX_OWNERS = 8"
definition MAX_OWNER_BYTES :: nat where "MAX_OWNER_BYTES = 256"
definition MAX_SIGNALS :: nat where "MAX_SIGNALS = 32"
definition MAX_SIGNAL_MESSAGE_BYTES :: nat where "MAX_SIGNAL_MESSAGE_BYTES = 512"
definition MAX_DIFF_ENTRIES :: nat where "MAX_DIFF_ENTRIES = 256"
definition MAX_NEW_PRODUCTION_FILES :: nat where "MAX_NEW_PRODUCTION_FILES = 5"
definition MAX_TINY_HELPER_FILES :: nat where "MAX_TINY_HELPER_FILES = 2"
definition TINY_FILE_BYTES :: nat where "TINY_FILE_BYTES = 256"
definition MAX_CHANGED_OUTSIDE_SCOPE :: nat where "MAX_CHANGED_OUTSIDE_SCOPE = 3"

subsection \<open>Rationales\<close>

definition validate_new_file_path :: "string \<Rightarrow> string + string" where
  "validate_new_file_path path =
     (let t = trim path in
      if t = [] then Err ''A file path must not be empty.''
      else if NEW_FILE_MAX_PATH_BYTES < length t then
        Err (''A file path exceeds '' @ show_nat NEW_FILE_MAX_PATH_BYTES @ '' UTF-8 bytes.'')
      else Ok t)"

definition validate_reason :: "string \<Rightarrow> string + string" where
  "validate_reason reason =
     (let t = trim reason in
      if t = [] then Err ''A new-file rationale requires a reason.''
      else if NEW_FILE_MAX_REASON_BYTES < length t then
        Err (''A new-file rationale reason exceeds '' @ show_nat NEW_FILE_MAX_REASON_BYTES @ '' UTF-8 bytes.'')
      else Ok t)"

definition validate_owner :: "string \<Rightarrow> string + string" where
  "validate_owner owner_name =
     (let t = trim owner_name in
      if t = [] then Err ''An inspected-owner name must not be empty.''
      else if MAX_OWNER_BYTES < length t then
        Err (''An inspected-owner name exceeds '' @ show_nat MAX_OWNER_BYTES @ '' UTF-8 bytes.'')
      else Ok t)"

definition validate_owners :: "string list \<Rightarrow> string + string list" where
  "validate_owners owners =
     (if MAX_OWNERS < length owners then
        Err (''A new-file rationale names at most '' @ show_nat MAX_OWNERS @ '' owners.'')
      else try_map validate_owner owners)"

definition create_new_file_rationale :: "string \<Rightarrow> string \<Rightarrow> string list \<Rightarrow> string + NewFileRationale" where
  "create_new_file_rationale path reason owners =
     result_bind (validate_new_file_path path) (\<lambda>p.
     result_bind (validate_reason reason) (\<lambda>r.
     result_bind (validate_owners owners) (\<lambda>os.
       Ok \<lparr>nfr_path = p, nfr_reason = r, nfr_existing_owners_inspected = os\<rparr>)))"

subsection \<open>Path patterns\<close>

text \<open>Patterns and paths are read as lists of scalars, each the group of its UTF-8 bytes.\<close>

datatype Token = Token_Lit string | Token_StarNoSlash | Token_DoubleStar

abbreviation slash :: string where
  "slash \<equiv> ''/''"

definition segment_tokens :: "string \<Rightarrow> Token list" where
  "segment_tokens segment =
     (if segment = ''**'' then [Token_DoubleStar]
      else map (\<lambda>c. if c = ''*'' then Token_StarNoSlash else Token_Lit c) (scalars segment))"

fun join_tokens :: "Token list list \<Rightarrow> Token list" where
  "join_tokens [] = []"
| "join_tokens [ts] = ts"
| "join_tokens (ts # us # tss) = ts @ Token_Lit slash # join_tokens (us # tss)"

definition pattern_tokens :: "string \<Rightarrow> Token list" where
  "pattern_tokens pattern = join_tokens (map segment_tokens (split_on (CHR ''/'') pattern))"

definition double_star_valid :: "string list \<Rightarrow> bool" where
  "double_star_valid cs \<longleftrightarrow>
     (if cs = [] then True
      else if hd cs = slash then False
      else list_all (\<lambda>i. \<not> (cs ! i = slash \<and> cs ! Suc i = slash)) [0..<length cs - 1])"

text \<open>
  The matcher: a star tries its longest stretch first, a double star its shortest.
\<close>

fun match_from :: "Token list \<Rightarrow> string list \<Rightarrow> bool" where
  "match_from [] cs = (cs = [])"
| "match_from (Token_Lit expected # ts) cs = (case cs of [] \<Rightarrow> False | c # cs' \<Rightarrow> c = expected \<and> match_from ts cs')"
| "match_from (Token_StarNoSlash # ts) cs =
     list_ex (\<lambda>n. list_all (\<lambda>c. c \<noteq> slash) (take n cs) \<and> match_from ts (drop n cs)) (rev [0..<Suc (length cs)])"
| "match_from (Token_DoubleStar # ts) cs =
     list_ex (\<lambda>n. double_star_valid (take n cs) \<and> match_from ts (drop n cs)) [0..<Suc (length cs)]"

definition path_matches_pattern :: "string \<Rightarrow> string \<Rightarrow> bool" where
  "path_matches_pattern path pattern =
     (if CHR ''*'' \<notin> set pattern then path = pattern
      else match_from (pattern_tokens pattern) (scalars path))"

subsection \<open>Proliferation signals\<close>

definition directory_of :: "string \<Rightarrow> string" where
  "directory_of path =
     (if CHR ''/'' \<in> set path then rev (tl (dropWhile (\<lambda>c. c \<noteq> CHR ''/'') (rev path))) else ''.'')"

record NewProductionFile =
  npf_path :: string
  npf_size_bytes :: nat

record DetectProliferationSignalsInput =
  dps_new_production_files :: "NewProductionFile list"
  dps_planned_paths :: "string list"
  dps_known_directories :: "string list"

fun new_directories_loop :: "string list \<Rightarrow> string list \<Rightarrow> NewProductionFile list \<Rightarrow> string list" where
  "new_directories_loop known found [] = found"
| "new_directories_loop known found (f # fs) =
     (let directory = directory_of (npf_path f) in
      if directory \<noteq> ''.'' \<and> directory \<notin> set known \<and> directory \<notin> set found
      then new_directories_loop known (found @ [directory]) fs
      else new_directories_loop known found fs)"

definition outside_scope :: "string list \<Rightarrow> string \<Rightarrow> bool" where
  "outside_scope planned path \<longleftrightarrow> \<not> list_ex (path_matches_pattern path) planned"

definition ELLIPSIS :: string where
  "ELLIPSIS = [CHR 0xE2, CHR 0x80, CHR 0xA6]"

text \<open>The cut the executor modules share: \<open>&text[..cut.min(text.len())]\<close> and an ellipsis.\<close>

definition cut_text :: "nat \<Rightarrow> nat \<Rightarrow> string \<Rightarrow> string option" where
  "cut_text max_bytes cut_at t =
     (if max_bytes < length t then map_option (\<lambda>s. s @ ELLIPSIS) (str_slice t 0 (min cut_at (length t))) else Some t)"

definition bound_signal :: "ProliferationSignal \<Rightarrow> ProliferationSignal option" where
  "bound_signal s = map_option (\<lambda>m. s\<lparr>psig_message := m\<rparr>) (cut_text MAX_SIGNAL_MESSAGE_BYTES 240 (psig_message s))"

fun option_map :: "('a \<Rightarrow> 'b option) \<Rightarrow> 'a list \<Rightarrow> 'b list option" where
  "option_map f [] = Some []"
| "option_map f (x # xs) =
     (case f x of None \<Rightarrow> None | Some y \<Rightarrow> map_option (\<lambda>ys. y # ys) (option_map f xs))"

definition detect_proliferation_signals :: "DetectProliferationSignalsInput \<Rightarrow> ProliferationSignal list option" where
  "detect_proliferation_signals i =
     (let files = dps_new_production_files i;
          tiny_count = length (filter (\<lambda>f. npf_size_bytes f < TINY_FILE_BYTES) files);
          new_directories = new_directories_loop (dps_known_directories i) [] files;
          outside_scope_count = length (filter (\<lambda>f. outside_scope (dps_planned_paths i) (npf_path f)) files);
          signals =
            (if MAX_NEW_PRODUCTION_FILES < length files then
               [\<lparr>psig_id = ''PROLIF.MANY_NEW_FILES'', psig_message = show_nat (length files)
                   @ '' new production files in one task exceeds the '' @ show_nat MAX_NEW_PRODUCTION_FILES
                   @ ''-file review signal; confirm each has a recorded rationale.''\<rparr>] else [])
            @ (if MAX_TINY_HELPER_FILES < tiny_count then
               [\<lparr>psig_id = ''PROLIF.TINY_HELPERS'', psig_message = show_nat tiny_count @ '' tiny helper files (under ''
                   @ show_nat TINY_FILE_BYTES @ '' bytes); consider extending an existing owner.''\<rparr>] else [])
            @ (if new_directories \<noteq> [] then
               [\<lparr>psig_id = ''PROLIF.NEW_DIRECTORY'', psig_message = ''new directories created for this change: ''
                   @ join '', '' new_directories @ ''; verify a distinct responsibility boundary exists.''\<rparr>] else [])
            @ (if MAX_CHANGED_OUTSIDE_SCOPE < outside_scope_count then
               [\<lparr>psig_id = ''PROLIF.OUTSIDE_SCOPE'', psig_message = show_nat outside_scope_count
                   @ '' new files do not match any planned path; record evidence and promote through the scope before treating them as expected.''\<rparr>]
               else [])
      in option_map bound_signal (take MAX_SIGNALS signals))"

subsection \<open>Scope differences\<close>

record EvaluateScopeDiffInput =
  esd_planned_paths :: "string list"
  esd_changed_paths :: "string list"
  esd_rationales :: "NewFileRationale list"

fun scope_diff_loop :: "EvaluateScopeDiffInput \<Rightarrow> ScopeDiffReport \<Rightarrow> string list \<Rightarrow> string + ScopeDiffReport" where
  "scope_diff_loop i r [] = Ok r"
| "scope_diff_loop i r (path # paths) =
     (case validate_new_file_path path of
        Err e \<Rightarrow> Err e
      | Ok checked_path \<Rightarrow>
          scope_diff_loop i
            (if list_ex (path_matches_pattern checked_path) (esd_planned_paths i) then
               r\<lparr>sdr_entries := sdr_entries r @ [\<lparr>sde_path = checked_path,
                   sde_classification = ScopeDiffClassification_Expected, sde_rationale = None\<rparr>]\<rparr>
             else
               case map_option nfr_reason (List.find (\<lambda>x. nfr_path x = checked_path) (esd_rationales i)) of
                 Some rationale \<Rightarrow>
                   r\<lparr>sdr_entries := sdr_entries r @ [\<lparr>sde_path = checked_path,
                       sde_classification = ScopeDiffClassification_JustifiedExpansion, sde_rationale = Some rationale\<rparr>]\<rparr>
               | None \<Rightarrow>
                   r\<lparr>sdr_entries := sdr_entries r @ [\<lparr>sde_path = checked_path,
                       sde_classification = ScopeDiffClassification_UnexplainedExpansion, sde_rationale = None\<rparr>],
                     sdr_unexplained := sdr_unexplained r @ [checked_path]\<rparr>)
            paths)"

definition evaluate_scope_diff :: "EvaluateScopeDiffInput \<Rightarrow> string + ScopeDiffReport" where
  "evaluate_scope_diff i =
     (if MAX_DIFF_ENTRIES < length (esd_changed_paths i) then
        Err (''Scope evaluation accepts at most '' @ show_nat MAX_DIFF_ENTRIES @ '' changed paths.'')
      else scope_diff_loop i \<lparr>sdr_entries = [], sdr_unexplained = []\<rparr> (esd_changed_paths i))"

subsection \<open>What patterns mean\<close>

text \<open>
  A segment is matched by a segment pattern of literals and stars, without a separator in
  between; a double star matches a possibly empty sequence of non-empty directories followed by
  a possibly empty last name.
\<close>

fun segment_matches :: "Token list \<Rightarrow> string list \<Rightarrow> bool" where
  "segment_matches [] cs = (cs = [])"
| "segment_matches (Token_Lit c # ts) cs = (\<exists>cs'. cs = c # cs' \<and> segment_matches ts cs')"
| "segment_matches (t # ts) cs = (\<exists>u v. cs = u @ v \<and> segment_matches ts v)"

fun split_slash :: "string list \<Rightarrow> string list list" where
  "split_slash [] = [[]]"
| "split_slash (c # cs) = (if c = slash then [] # split_slash cs else (c # hd (split_slash cs)) # tl (split_slash cs))"

lemma split_slash_nonempty [simp]: "split_slash cs \<noteq> []"
  by (cases cs) auto

lemma split_slash_no_slash: "slash \<notin> set u \<Longrightarrow> split_slash (u @ v) = (u @ hd (split_slash v)) # tl (split_slash v)"
  by (induction u) auto

lemma split_slash_single: "slash \<notin> set u \<Longrightarrow> split_slash u = [u]"
  using split_slash_no_slash [of u "[]"] by simp

lemma hd_split_slash_no_slash: "slash \<notin> set (hd (split_slash cs))"
  by (induction cs) auto

lemma split_slash_prefix:
  "cs = u @ v \<Longrightarrow> slash \<notin> set u \<Longrightarrow> \<exists>w. hd (split_slash cs) = u @ w"
  by (simp add: split_slash_no_slash)

definition plain_tokens :: "Token list \<Rightarrow> bool" where
  "plain_tokens ts \<longleftrightarrow> Token_DoubleStar \<notin> set ts \<and> Token_Lit slash \<notin> set ts"

lemma list_all_no_slash: "list_all (\<lambda>c. c \<noteq> slash) cs \<longleftrightarrow> slash \<notin> set cs"
  by (auto simp: list_all_iff)

lemma list_ex_rev: "list_ex P (rev xs) \<longleftrightarrow> list_ex P xs"
  by (simp add: list_ex_iff)

lemma list_ex_upto: "list_ex P [0..<Suc n] \<longleftrightarrow> (\<exists>i \<le> n. P i)"
  by (auto simp: list_ex_iff less_Suc_eq_le simp del: upt_Suc)

lemma ex_take_drop: "(\<exists>n \<le> length cs. P (take n cs) (drop n cs)) \<longleftrightarrow> (\<exists>u v. cs = u @ v \<and> P u v)"
proof
  assume "\<exists>u v. cs = u @ v \<and> P u v"
  then obtain u v where "cs = u @ v" "P u v" by blast
  then show "\<exists>n \<le> length cs. P (take n cs) (drop n cs)"
    by (intro exI [of _ "length u"]) simp
qed (metis append_take_drop_id)

lemma match_from_lit: "match_from (Token_Lit c # ts) cs \<longleftrightarrow> (\<exists>cs'. cs = c # cs' \<and> match_from ts cs')"
  by (cases cs) auto

lemma match_from_star:
  "match_from (Token_StarNoSlash # ts) cs \<longleftrightarrow> (\<exists>w v. cs = w @ v \<and> slash \<notin> set w \<and> match_from ts v)"
proof -
  have "match_from (Token_StarNoSlash # ts) cs \<longleftrightarrow>
      (\<exists>n \<le> length cs. slash \<notin> set (take n cs) \<and> match_from ts (drop n cs))"
    by (simp only: match_from.simps list_ex_rev list_ex_upto list_all_no_slash)
  also have "\<dots> \<longleftrightarrow> (\<exists>w v. cs = w @ v \<and> slash \<notin> set w \<and> match_from ts v)"
    by (rule ex_take_drop)
  finally show ?thesis .
qed

lemma match_from_double_star:
  "match_from (Token_DoubleStar # ts) cs \<longleftrightarrow> (\<exists>u v. cs = u @ v \<and> double_star_valid u \<and> match_from ts v)"
proof -
  have "match_from (Token_DoubleStar # ts) cs \<longleftrightarrow>
      (\<exists>n \<le> length cs. double_star_valid (take n cs) \<and> match_from ts (drop n cs))"
    by (simp only: match_from.simps list_ex_upto)
  also have "\<dots> \<longleftrightarrow> (\<exists>u v. cs = u @ v \<and> double_star_valid u \<and> match_from ts v)"
    by (rule ex_take_drop)
  finally show ?thesis .
qed

text \<open>A run of plain tokens is matched within the first segment of the rest.\<close>

lemma match_from_segment:
  "plain_tokens ts \<Longrightarrow> match_from (ts @ rest) cs \<longleftrightarrow>
     (\<exists>u v. cs = u @ v \<and> slash \<notin> set u \<and> segment_matches ts u \<and> match_from rest v)"
proof (induction ts arbitrary: cs)
  case Nil
  then show ?case by simp
next
  case (Cons t ts)
  then have ts: "plain_tokens ts"
    by (simp add: plain_tokens_def)
  show ?case
  proof (cases t)
    case (Token_Lit c)
    then have c: "c \<noteq> slash"
      using Cons.prems by (auto simp: plain_tokens_def)
    have "match_from ((t # ts) @ rest) cs \<longleftrightarrow>
        (\<exists>u v. cs = (c # u) @ v \<and> slash \<notin> set (c # u) \<and> segment_matches ts u \<and> match_from rest v)"
      unfolding Token_Lit append.simps match_from_lit Cons.IH [OF ts] using c by auto
    also have "\<dots> \<longleftrightarrow> (\<exists>u v. cs = u @ v \<and> slash \<notin> set u \<and> segment_matches (t # ts) u \<and> match_from rest v)"
      unfolding Token_Lit segment_matches.simps by blast
    finally show ?thesis .
  next
    case Token_StarNoSlash
    have "match_from ((t # ts) @ rest) cs \<longleftrightarrow>
        (\<exists>w u v. cs = (w @ u) @ v \<and> slash \<notin> set (w @ u) \<and> segment_matches ts u \<and> match_from rest v)"
      unfolding Token_StarNoSlash append.simps match_from_star Cons.IH [OF ts] by auto
    also have "\<dots> \<longleftrightarrow> (\<exists>u v. cs = u @ v \<and> slash \<notin> set u \<and> segment_matches (t # ts) u \<and> match_from rest v)"
      unfolding Token_StarNoSlash segment_matches.simps by blast
    finally show ?thesis .
  next
    case Token_DoubleStar
    with Cons.prems show ?thesis
      by (simp add: plain_tokens_def)
  qed
qed

lemma split_slash_append: "split_slash (u @ slash # v) = split_slash u @ split_slash v"
  by (induction u) auto

lemma split_slash_two:
  "split_slash cs = us @ vs \<Longrightarrow> us \<noteq> [] \<Longrightarrow> vs \<noteq> [] \<Longrightarrow>
     \<exists>u v. cs = u @ slash # v \<and> split_slash u = us \<and> split_slash v = vs"
proof (induction cs arbitrary: us)
  case Nil
  then show ?case
    by (cases us) auto
next
  case (Cons c cs)
  show ?case
  proof (cases "c = slash")
    case True
    with Cons.prems obtain us' where us: "us = [] # us'" "split_slash cs = us' @ vs"
      by (cases us) auto
    show ?thesis
    proof (cases "us' = []")
      case True
      with us \<open>c = slash\<close> show ?thesis
        by (intro exI [of _ "[]"] exI [of _ cs]) simp
    next
      case False
      from Cons.IH [OF us(2) False Cons.prems(3)] obtain u v where
        "cs = u @ slash # v" "split_slash u = us'" "split_slash v = vs" by blast
      with us \<open>c = slash\<close> show ?thesis
        by (intro exI [of _ "c # u"] exI [of _ v]) simp
    qed
  next
    case False
    with Cons.prems obtain p us' where us: "us = (c # p) # us'" "split_slash cs = (p # us') @ vs"
      by (cases us; cases "split_slash cs") auto
    from Cons.IH [OF us(2) _ Cons.prems(3)] obtain u v where
      "cs = u @ slash # v" "split_slash u = p # us'" "split_slash v = vs" by auto
    with us False show ?thesis
      by (intro exI [of _ "c # u"] exI [of _ v]) simp
  qed
qed

definition no_double_slash :: "string list \<Rightarrow> bool" where
  "no_double_slash cs \<longleftrightarrow> (\<forall>i < length cs - 1. \<not> (cs ! i = slash \<and> cs ! Suc i = slash))"

lemma no_double_slash_Cons:
  "no_double_slash (c # cs) \<longleftrightarrow> (cs \<noteq> [] \<longrightarrow> c = slash \<longrightarrow> hd cs \<noteq> slash) \<and> no_double_slash cs"
  by (cases cs) (simp_all add: no_double_slash_def All_less_Suc2)

lemma tl_split_slash: "c \<noteq> slash \<Longrightarrow> tl (split_slash (c # cs)) = tl (split_slash cs)"
  by simp

lemma segments_valid_Cons:
  "list_all (\<lambda>p. p \<noteq> []) (butlast (split_slash cs)) \<longleftrightarrow>
     cs = [] \<or> hd cs \<noteq> slash \<and> list_all (\<lambda>p. p \<noteq> []) (butlast (tl (split_slash cs)))"
  by (cases cs) auto

lemma no_double_slash_segments: "no_double_slash cs \<longleftrightarrow> list_all (\<lambda>p. p \<noteq> []) (butlast (tl (split_slash cs)))"
proof (induction cs)
  case Nil
  then show ?case by (simp add: no_double_slash_def)
next
  case (Cons c cs)
  show ?case
    by (cases "c = slash") (auto simp: no_double_slash_Cons Cons segments_valid_Cons)
qed

lemma double_star_valid_segments: "double_star_valid cs \<longleftrightarrow> list_all (\<lambda>p. p \<noteq> []) (butlast (split_slash cs))"
proof -
  have "list_all (\<lambda>i. \<not> (cs ! i = slash \<and> cs ! Suc i = slash)) [0..<length cs - 1] \<longleftrightarrow> no_double_slash cs"
    by (auto simp: list_all_iff no_double_slash_def)
  then show ?thesis
    by (auto simp: double_star_valid_def segments_valid_Cons no_double_slash_segments)
qed

text \<open>The meaning of a whole pattern, segment by segment.\<close>

fun glob :: "string list \<Rightarrow> string list list \<Rightarrow> bool" where
  "glob [] ps = (ps = [])"
| "glob (s # ss) ps =
     (if s = ''**'' then \<exists>us vs. ps = us @ vs \<and> us \<noteq> [] \<and> list_all (\<lambda>p. p \<noteq> []) (butlast us) \<and> glob ss vs
      else \<exists>p ps'. ps = p # ps' \<and> segment_matches (segment_tokens s) p \<and> glob ss ps')"

lemma scalars_no_slash: "CHR ''/'' \<notin> set s \<Longrightarrow> slash \<notin> set (scalars s)"
  by (metis UN_I concat_scalars list.set_intros(1) set_concat)

lemma plain_segment_tokens: "CHR ''/'' \<notin> set s \<Longrightarrow> s \<noteq> ''**'' \<Longrightarrow> plain_tokens (segment_tokens s)"
  using scalars_no_slash [of s] by (auto simp: plain_tokens_def segment_tokens_def)

lemma split_slash_one: "split_slash cs = [p] \<Longrightarrow> p = cs \<and> slash \<notin> set cs"
proof (induction cs arbitrary: p)
  case (Cons c cs)
  then show ?case
    by (cases "split_slash cs") (auto split: if_splits)
qed simp

lemma glob_nonempty: "glob ss ps \<Longrightarrow> ss \<noteq> [] \<Longrightarrow> ps \<noteq> []"
  by (cases ss) (auto split: if_splits)

lemma segment_tokens_double_star: "segment_tokens ''**'' = [Token_DoubleStar]"
  by (simp add: segment_tokens_def)

lemma glob_double_star:
  assumes "ss \<noteq> []"
  shows "glob (''**'' # ss) (split_slash cs) \<longleftrightarrow>
    (\<exists>u v. cs = u @ slash # v \<and> double_star_valid u \<and> glob ss (split_slash v))"
proof
  assume "glob (''**'' # ss) (split_slash cs)"
  then obtain us vs where *: "split_slash cs = us @ vs" "us \<noteq> []" "list_all (\<lambda>p. p \<noteq> []) (butlast us)" "glob ss vs"
    by auto
  from split_slash_two [OF *(1,2) glob_nonempty [OF *(4) assms]] obtain u v where
    "cs = u @ slash # v" "split_slash u = us" "split_slash v = vs" by blast
  with * show "\<exists>u v. cs = u @ slash # v \<and> double_star_valid u \<and> glob ss (split_slash v)"
    by (intro exI [of _ u] exI [of _ v]) (simp add: double_star_valid_segments)
next
  assume "\<exists>u v. cs = u @ slash # v \<and> double_star_valid u \<and> glob ss (split_slash v)"
  then obtain u v where *: "cs = u @ slash # v" "double_star_valid u" "glob ss (split_slash v)" by blast
  show "glob (''**'' # ss) (split_slash cs)"
    unfolding *(1) split_slash_append using *(2,3)
    by (simp, intro exI [of _ "split_slash u"] exI [of _ "split_slash v"]) (simp add: double_star_valid_segments)
qed

lemma glob_segment:
  assumes "ss \<noteq> []" and "s \<noteq> ''**''"
  shows "glob (s # ss) (split_slash cs) \<longleftrightarrow>
    (\<exists>u v. cs = u @ slash # v \<and> slash \<notin> set u \<and> segment_matches (segment_tokens s) u \<and> glob ss (split_slash v))"
proof
  assume "glob (s # ss) (split_slash cs)"
  with assms(2) obtain p ps where *: "split_slash cs = [p] @ ps" "segment_matches (segment_tokens s) p" "glob ss ps"
    by auto
  from split_slash_two [OF *(1) _ glob_nonempty [OF *(3) assms(1)]] obtain u v where
    uv: "cs = u @ slash # v" "split_slash u = [p]" "split_slash v = ps" by auto
  with split_slash_one [OF uv(2)] * show
    "\<exists>u v. cs = u @ slash # v \<and> slash \<notin> set u \<and> segment_matches (segment_tokens s) u \<and> glob ss (split_slash v)"
    by (intro exI [of _ u] exI [of _ v]) simp
next
  assume "\<exists>u v. cs = u @ slash # v \<and> slash \<notin> set u \<and> segment_matches (segment_tokens s) u \<and> glob ss (split_slash v)"
  then obtain u v where *: "cs = u @ slash # v" "slash \<notin> set u" "segment_matches (segment_tokens s) u" "glob ss (split_slash v)"
    by blast
  show "glob (s # ss) (split_slash cs)"
    unfolding *(1) split_slash_append split_slash_single [OF *(2)] using *(3,4) assms(2) by simp
qed

lemma match_from_glob:
  "ss \<noteq> [] \<Longrightarrow> list_all (\<lambda>s. CHR ''/'' \<notin> set s) ss \<Longrightarrow>
     match_from (join_tokens (map segment_tokens ss)) cs \<longleftrightarrow> glob ss (split_slash cs)"
proof (induction ss arbitrary: cs)
  case Nil
  then show ?case by simp
next
  case (Cons s ss)
  show ?case
  proof (cases "ss = []")
    case True
    show ?thesis
    proof (cases "s = ''**''")
      case star: True
      have "match_from (join_tokens (map segment_tokens (s # ss))) cs \<longleftrightarrow> double_star_valid cs"
        unfolding True star by (simp add: segment_tokens_double_star match_from_double_star del: match_from.simps(4))
      then show ?thesis
        unfolding True star by (simp add: double_star_valid_segments)
    next
      case False
      then have "plain_tokens (segment_tokens s)"
        using Cons.prems(2) by (simp add: plain_segment_tokens)
      from match_from_segment [OF this, of "[]" cs] have "match_from (segment_tokens s) cs \<longleftrightarrow>
          slash \<notin> set cs \<and> segment_matches (segment_tokens s) cs"
        by simp
      then show ?thesis
        unfolding True using False split_slash_one [of cs] split_slash_single [of cs] by auto
    qed
  next
    case False
    then have tokens: "join_tokens (map segment_tokens (s # ss)) =
        segment_tokens s @ Token_Lit slash # join_tokens (map segment_tokens ss)"
      by (cases ss) auto
    have rest: "match_from (join_tokens (map segment_tokens ss)) v \<longleftrightarrow> glob ss (split_slash v)" for v
      using Cons False by simp
    show ?thesis
    proof (cases "s = ''**''")
      case True
      show ?thesis
        unfolding tokens unfolding True segment_tokens_double_star append.simps match_from_double_star match_from_lit rest
          glob_double_star [OF False] by blast
    next
      case plain: False
      then have "plain_tokens (segment_tokens s)"
        using Cons.prems(2) by (simp add: plain_segment_tokens)
      then show ?thesis
        unfolding tokens match_from_segment [OF \<open>plain_tokens (segment_tokens s)\<close>] match_from_lit rest
          glob_segment [OF False plain] by blast
    qed
  qed
qed

text \<open>
  C37.  The pattern matcher implements path patterns: without a wildcard a pattern matches itself
  only, otherwise a path matches exactly when its segments are matched in order, a star staying
  within one segment and a double star standing for one or more whole segments, all but the
  last of which are not empty.
\<close>

theorem path_patterns_exact:
  "path_matches_pattern path pattern \<longleftrightarrow>
     (if CHR ''*'' \<in> set pattern then glob (split_on (CHR ''/'') pattern) (split_slash (scalars path))
      else path = pattern)"
  by (simp add: path_matches_pattern_def pattern_tokens_def match_from_glob list_all_iff split_on_pieces)

subsection \<open>Scope differences\<close>

definition diff_entry :: "EvaluateScopeDiffInput \<Rightarrow> string \<Rightarrow> ScopeDiffEntry" where
  "diff_entry i path =
     (let p = trim path in
      if list_ex (path_matches_pattern p) (esd_planned_paths i) then
        \<lparr>sde_path = p, sde_classification = ScopeDiffClassification_Expected, sde_rationale = None\<rparr>
      else case List.find (\<lambda>x. nfr_path x = p) (esd_rationales i) of
          Some x \<Rightarrow> \<lparr>sde_path = p, sde_classification = ScopeDiffClassification_JustifiedExpansion,
                     sde_rationale = Some (nfr_reason x)\<rparr>
        | None \<Rightarrow> \<lparr>sde_path = p, sde_classification = ScopeDiffClassification_UnexplainedExpansion, sde_rationale = None\<rparr>)"

definition is_unexplained :: "ScopeDiffEntry \<Rightarrow> bool" where
  "is_unexplained e \<longleftrightarrow> sde_classification e = ScopeDiffClassification_UnexplainedExpansion"

lemma validate_new_file_path_Ok:
  "validate_new_file_path path = Ok p \<longleftrightarrow> p = trim path \<and> trim path \<noteq> [] \<and> length (trim path) \<le> NEW_FILE_MAX_PATH_BYTES"
  by (auto simp: validate_new_file_path_def Let_def)

lemma diff_entry_path [simp]: "sde_path (diff_entry i path) = trim path"
  by (simp add: diff_entry_def Let_def split: option.splits)

lemma diff_entry_unexplained:
  "is_unexplained (diff_entry i path) \<longleftrightarrow>
     \<not> list_ex (path_matches_pattern (trim path)) (esd_planned_paths i) \<and> trim path \<notin> nfr_path ` set (esd_rationales i)"
proof (cases "List.find (\<lambda>x. nfr_path x = trim path) (esd_rationales i)")
  case None
  then have "trim path \<notin> nfr_path ` set (esd_rationales i)"
    by (auto simp: find_None_iff)
  then show ?thesis
    by (auto simp: diff_entry_def Let_def is_unexplained_def None)
next
  case (Some x)
  then have "trim path \<in> nfr_path ` set (esd_rationales i)"
    using find_Some_set [OF Some] by force
  with Some show ?thesis
    by (auto simp: diff_entry_def Let_def is_unexplained_def)
qed

lemma scope_diff_step:
  "scope_diff_loop i r (path # paths) =
     (case validate_new_file_path path of
        Err e \<Rightarrow> Err e
      | Ok p \<Rightarrow> scope_diff_loop i
          (r\<lparr>sdr_entries := sdr_entries r @ [diff_entry i path],
             sdr_unexplained := sdr_unexplained r @ (if is_unexplained (diff_entry i path) then [trim path] else [])\<rparr>) paths)"
  by (auto simp: validate_new_file_path_def diff_entry_def is_unexplained_def Let_def split: option.splits)

lemma scope_diff_loop_Ok:
  "scope_diff_loop i r paths = Ok r' \<longleftrightarrow>
     list_all (\<lambda>path. trim path \<noteq> [] \<and> length (trim path) \<le> NEW_FILE_MAX_PATH_BYTES) paths
     \<and> r' = \<lparr>sdr_entries = sdr_entries r @ map (diff_entry i) paths,
            sdr_unexplained = sdr_unexplained r @ map sde_path (filter is_unexplained (map (diff_entry i) paths))\<rparr>"
proof (induction paths arbitrary: r)
  case Nil
  then show ?case
    by (cases r) auto
next
  case (Cons path paths)
  show ?case
  proof (cases "validate_new_file_path path")
    case (Inl e)
    then have "\<not> (trim path \<noteq> [] \<and> length (trim path) \<le> NEW_FILE_MAX_PATH_BYTES)"
      using validate_new_file_path_Ok [of path "trim path"] by simp
    with Inl show ?thesis by auto
  next
    case (Inr p)
    then have "trim path \<noteq> []" "length (trim path) \<le> NEW_FILE_MAX_PATH_BYTES"
      by (simp_all add: validate_new_file_path_Ok)
    then show ?thesis
      unfolding scope_diff_step Inr sum.case Cons by simp
  qed
qed

text \<open>
  The scope comparison accounts for every changed path: it succeeds exactly for at most 256
  paths that are valid, and then lists each in order with its class, a path being unexplained
  exactly when no planned pattern matches it and no rationale was recorded for it.
\<close>

theorem scope_diff_accounts_for_every_path:
  "evaluate_scope_diff i = Ok report \<longleftrightarrow>
     length (esd_changed_paths i) \<le> MAX_DIFF_ENTRIES
     \<and> list_all (\<lambda>path. trim path \<noteq> [] \<and> length (trim path) \<le> NEW_FILE_MAX_PATH_BYTES) (esd_changed_paths i)
     \<and> sdr_entries report = map (diff_entry i) (esd_changed_paths i)
     \<and> sdr_unexplained report = filter (\<lambda>p. \<not> list_ex (path_matches_pattern p) (esd_planned_paths i)
          \<and> p \<notin> nfr_path ` set (esd_rationales i)) (map trim (esd_changed_paths i))"
proof -
  have "map sde_path (filter is_unexplained (map (diff_entry i) paths)) =
      filter (\<lambda>p. \<not> list_ex (path_matches_pattern p) (esd_planned_paths i) \<and> p \<notin> nfr_path ` set (esd_rationales i))
        (map trim paths)" for paths
    by (induction paths) (simp_all add: diff_entry_unexplained)
  then show ?thesis
    by (cases report) (auto simp: evaluate_scope_diff_def scope_diff_loop_Ok not_less)
qed

subsection \<open>A message cut inside a scalar\<close>

text \<open>
  Two long names of new directories of two-byte scalars make the message longer than 512 bytes;
  byte 240 is then inside a scalar and building the message panics.
\<close>

definition long_directory :: "string" where
  "long_directory = concat (replicate 250 [CHR 0xC3, CHR 0xA9])"

lemma directory_of_join: "CHR ''/'' \<notin> set name \<Longrightarrow> directory_of (d @ CHR ''/'' # name) = d"
proof -
  assume "CHR ''/'' \<notin> set name"
  then have "dropWhile (\<lambda>c. c \<noteq> CHR ''/'') (rev name @ CHR ''/'' # rev d) = dropWhile (\<lambda>c. c \<noteq> CHR ''/'') (CHR ''/'' # rev d)"
    by (intro dropWhile_append2) auto
  then show ?thesis
    by (simp add: directory_of_def)
qed

lemma nth_concat_replicate_pair: "k < n \<Longrightarrow> concat (replicate n [a, b]) ! (2 * k + 1) = b"
proof (induction n arbitrary: k)
  case (Suc n)
  then show ?case
    by (cases k) simp_all
qed simp

lemma length_long_directory: "length long_directory = 500"
  by (simp add: long_directory_def length_concat sum_list_replicate)

lemma cut_inside_scalar:
  assumes "length before = 41"
  shows "cut_text MAX_SIGNAL_MESSAGE_BYTES 240 (before @ long_directory @ after) = None"
proof -
  have "(before @ long_directory @ after) ! 240 = long_directory ! (2 * 99 + 1)"
    using assms length_long_directory by (simp add: nth_append)
  also have "\<dots> = CHR 0xA9"
    unfolding long_directory_def by (rule nth_concat_replicate_pair) simp
  finally have "\<not> is_char_boundary (before @ long_directory @ after) 240"
    using assms length_long_directory by (simp add: is_char_boundary_def is_continuation_def byte_def)
  then show ?thesis
    using assms length_long_directory by (simp add: cut_text_def str_slice_def MAX_SIGNAL_MESSAGE_BYTES_def)
qed

lemma proliferation_message_panics:
  "detect_proliferation_signals \<lparr>dps_new_production_files = [\<lparr>npf_path = long_directory @ ''/a.rs'', npf_size_bytes = 512\<rparr>],
     dps_planned_paths = [], dps_known_directories = []\<rparr> = None"
proof -
  have directory: "directory_of (long_directory @ ''/a.rs'') = long_directory"
    using directory_of_join [of "''a.rs''" long_directory] by simp
  have "length long_directory \<noteq> length ''.''"
    using length_long_directory by simp
  then have "long_directory \<noteq> ''.''"
    by metis
  then show ?thesis
    using cut_inside_scalar [of "''new directories created for this change: ''"]
    by (simp add: detect_proliferation_signals_def Let_def directory MAX_NEW_PRODUCTION_FILES_def MAX_TINY_HELPER_FILES_def
        TINY_FILE_BYTES_def MAX_CHANGED_OUTSIDE_SCOPE_def MAX_SIGNALS_def bound_signal_def outside_scope_def)
qed

end
