(* ===== verification/Executor_Context.thy ===== *)
theory Executor_Context
  imports Executor_New_Files Executor_Milestone Plan_Model "HOL-Library.Multiset"
begin

text \<open>
  The executor context pack (\<open>executor/context.rs\<close>): deterministic selection of architecture and
  documentation entries under a budget, and the pack of references built for one task.  The
  summary of an instruction is cut at a byte index, which panics inside a scalar (None).
\<close>

subsection \<open>Architecture\<close>

record ArchitectureContextEntry =
  ace_id :: string
  ace_path :: string
  ace_concerns :: "string list"

record ArchitectureContextRef =
  acr_id :: string
  acr_path :: string

fun select_loop :: "string list \<Rightarrow> nat \<Rightarrow> ArchitectureContextRef list \<Rightarrow> ArchitectureContextEntry list \<Rightarrow>
    ArchitectureContextRef list" where
  "select_loop concerns max_entries selected [] = selected"
| "select_loop concerns max_entries selected (e # es) =
     (if max_entries \<le> length selected then selected
      else if list_ex (\<lambda>c. c \<in> set concerns) (ace_concerns e)
      then select_loop concerns max_entries (selected @ [\<lparr>acr_id = ace_id e, acr_path = ace_path e\<rparr>]) es
      else select_loop concerns max_entries selected es)"

definition select_architecture_context ::
    "string list \<Rightarrow> ArchitectureContextEntry list \<Rightarrow> nat \<Rightarrow> ArchitectureContextRef list" where
  "select_architecture_context concerns index max_entries = select_loop concerns max_entries [] index"

subsection \<open>Documentation\<close>

datatype DocumentationKind =
    DocumentationKind_RootAgents | DocumentationKind_NestedAgents | DocumentationKind_Architecture
  | DocumentationKind_Adr | DocumentationKind_Development

fun DocumentationKind_as_str :: "DocumentationKind \<Rightarrow> string" where
  "DocumentationKind_as_str DocumentationKind_RootAgents = ''root-agents''"
| "DocumentationKind_as_str DocumentationKind_NestedAgents = ''nested-agents''"
| "DocumentationKind_as_str DocumentationKind_Architecture = ''architecture''"
| "DocumentationKind_as_str DocumentationKind_Adr = ''adr''"
| "DocumentationKind_as_str DocumentationKind_Development = ''development''"

datatype DocumentationStatus = DocumentationStatus_Accepted | DocumentationStatus_Superseded | DocumentationStatus_Deprecated

fun DocumentationStatus_as_str :: "DocumentationStatus \<Rightarrow> string" where
  "DocumentationStatus_as_str DocumentationStatus_Accepted = ''accepted''"
| "DocumentationStatus_as_str DocumentationStatus_Superseded = ''superseded''"
| "DocumentationStatus_as_str DocumentationStatus_Deprecated = ''deprecated''"

record DocumentationEntry =
  de_id :: string
  de_path :: string
  de_kind :: DocumentationKind
  de_concerns :: "string list"
  de_status :: DocumentationStatus
  de_paths :: "string list"

record DocumentationSelection =
  ds_root_agents :: "string list"
  ds_nested_agents :: "string list"
  ds_architecture_docs :: "string list"
  ds_adrs :: "string list"
  ds_development_docs :: "string list"
  ds_dropped :: "string list"

definition MAX_NESTED_AGENTS :: nat where "MAX_NESTED_AGENTS = 4"
definition MAX_ARCHITECTURE_DOCS :: nat where "MAX_ARCHITECTURE_DOCS = 2"
definition MAX_ADRS :: nat where "MAX_ADRS = 4"
definition MAX_DEVELOPMENT_DOCS :: nat where "MAX_DEVELOPMENT_DOCS = 2"

definition ARCHIVE_DOCUMENTATION_PREFIX :: string where
  "ARCHIVE_DOCUMENTATION_PREFIX = ''docs/archive/''"

definition is_archived_documentation_path :: "string \<Rightarrow> bool" where
  "is_archived_documentation_path path \<longleftrightarrow>
     prefix_of ARCHIVE_DOCUMENTATION_PREFIX path \<or> prefix_of (''./'' @ ARCHIVE_DOCUMENTATION_PREFIX) path"

record SelectDocumentationContextInput =
  sdc_concerns :: "string list"
  sdc_paths :: "string list"
  sdc_index :: "DocumentationEntry list"

definition wants :: "string list \<Rightarrow> DocumentationEntry \<Rightarrow> bool" where
  "wants wanted e \<longleftrightarrow> list_ex (\<lambda>c. c \<in> set wanted) (de_concerns e)"

definition admissible :: "DocumentationEntry \<Rightarrow> bool" where
  "admissible e \<longleftrightarrow> de_status e = DocumentationStatus_Accepted \<and> \<not> is_archived_documentation_path (de_path e)"

definition collect_documentation ::
    "SelectDocumentationContextInput \<Rightarrow> DocumentationKind \<Rightarrow> bool \<Rightarrow> string list" where
  "collect_documentation i kind concern_filter =
     map de_path (filter (\<lambda>e. de_kind e = kind \<and> admissible e \<and> (concern_filter \<longrightarrow> wants (sdc_concerns i) e)) (sdc_index i))"

text \<open>The nested guidance in scope: the patterns are those of the first entry with the path.\<close>

definition nested_in_scope :: "SelectDocumentationContextInput \<Rightarrow> string \<Rightarrow> bool" where
  "nested_in_scope i path =
     (let patterns = (case List.find (\<lambda>e. de_path e = path) (sdc_index i) of Some e \<Rightarrow> de_paths e | None \<Rightarrow> [])
      in patterns = [] \<or> list_ex (\<lambda>task_path. list_ex (path_matches_pattern task_path) patterns) (sdc_paths i))"

definition overlap :: "string list \<Rightarrow> DocumentationEntry \<Rightarrow> nat" where
  "overlap wanted e = length (filter (\<lambda>c. c \<in> set wanted) (de_concerns e))"

definition ranked_adrs :: "SelectDocumentationContextInput \<Rightarrow> string list" where
  "ranked_adrs i =
     map de_path (sort_key (\<lambda>e. - int (overlap (sdc_concerns i) e))
       (filter (\<lambda>e. de_kind e = DocumentationKind_Adr \<and> admissible e \<and> wants (sdc_concerns i) e) (sdc_index i)))"

definition dropped_of :: "nat \<Rightarrow> string \<Rightarrow> string list \<Rightarrow> string list" where
  "dropped_of max_entries list_name paths = map (\<lambda>p. list_name @ '':'' @ p) (drop max_entries paths)"

definition select_documentation_context :: "SelectDocumentationContextInput \<Rightarrow> DocumentationSelection" where
  "select_documentation_context i =
     (let root_agents = collect_documentation i DocumentationKind_RootAgents False;
          nested_agents = filter (nested_in_scope i) (collect_documentation i DocumentationKind_NestedAgents False);
          architecture_docs = collect_documentation i DocumentationKind_Architecture True;
          adr_ordered = ranked_adrs i;
          development_docs = collect_documentation i DocumentationKind_Development True
      in \<lparr>ds_root_agents = root_agents,
          ds_nested_agents = take MAX_NESTED_AGENTS nested_agents,
          ds_architecture_docs = take MAX_ARCHITECTURE_DOCS architecture_docs,
          ds_adrs = take MAX_ADRS adr_ordered,
          ds_development_docs = take MAX_DEVELOPMENT_DOCS development_docs,
          ds_dropped = dropped_of MAX_NESTED_AGENTS ''nested'' nested_agents
            @ dropped_of MAX_ARCHITECTURE_DOCS ''architecture'' architecture_docs
            @ dropped_of MAX_ADRS ''adr'' adr_ordered
            @ dropped_of MAX_DEVELOPMENT_DOCS ''development'' development_docs\<rparr>)"

subsection \<open>The pack\<close>

record TaskPlanRefId =
  tpri_id :: string
  tpri_revision :: nat

record TaskPlanRef =
  tpr_id :: string
  tpr_revision :: nat
  tpr_approval :: string

record InstructionRef =
  ir_source :: string
  ir_summary :: string

record TouchpointRef =
  tr_touchpoint_id :: string
  tr_path :: string
  tr_confidence :: string

record CapabilityRef =
  cr_available :: bool
  cr_states :: "(string \<times> string) list"

record AcceptanceRequirementPackRef =
  arp_id :: string
  arp_description :: string
  arp_criterion_id :: "string option"

record WorkspaceScopeRef =
  wsr_verified_files :: "(string \<times> string option \<times> string option) list"
  wsr_candidate_files :: "string list"
  wsr_promotions :: "(string \<times> string) list"

record ActiveWorkingSetRef =
  awr_step_id :: string
  awr_files :: "(string \<times> string \<times> string) list"

record ScopeSignalRef =
  ssr_id :: string
  ssr_message :: string

record NewFileRef =
  nf_path :: string
  nf_reason :: string
  nf_existing_owners_inspected :: "string list"

record MilestoneManifestRef =
  mmr_id :: string
  mmr_version :: "64 word"

record ExecutorContextPack =
  ep_task :: TaskPlanRefId
  ep_plan :: "TaskPlanRef option"
  ep_execution_contract :: ExecutionContractRef
  ep_milestone :: "MilestoneManifestRef option"
  ep_instructions :: "InstructionRef list"
  ep_architecture :: "ArchitectureContextRef list"
  ep_verified_touchpoints :: "TouchpointRef list"
  ep_candidate_touchpoints :: "TouchpointRef list"
  ep_capabilities :: CapabilityRef
  ep_unresolved_findings :: "FindingRef list"
  ep_acceptance :: "AcceptanceRequirementPackRef list"
  ep_workspace_scope :: "WorkspaceScopeRef option"
  ep_active_working_set :: "ActiveWorkingSetRef option"
  ep_documentation :: "DocumentationSelection option"
  ep_scope_signals :: "ScopeSignalRef list option"
  ep_new_files :: "NewFileRef list option"

definition MAX_INSTRUCTIONS :: nat where "MAX_INSTRUCTIONS = 8"
definition MAX_INSTRUCTION_SUMMARY_BYTES :: nat where "MAX_INSTRUCTION_SUMMARY_BYTES = 1024"
definition MAX_ARCHITECTURE_ENTRIES :: nat where "MAX_ARCHITECTURE_ENTRIES = 4"
definition MAX_PACK_FINDINGS :: nat where "MAX_PACK_FINDINGS = 16"
definition MAX_PACK_ACCEPTANCE :: nat where "MAX_PACK_ACCEPTANCE = 32"
definition MAX_WORKSPACE_VERIFIED_FILES :: nat where "MAX_WORKSPACE_VERIFIED_FILES = 12"
definition MAX_WORKSPACE_CANDIDATE_FILES :: nat where "MAX_WORKSPACE_CANDIDATE_FILES = 12"
definition MAX_WORKING_SET_FILES :: nat where "MAX_WORKING_SET_FILES = 8"
definition MAX_SCOPE_SIGNALS :: nat where "MAX_SCOPE_SIGNALS = 8"
definition MAX_NEW_FILES :: nat where "MAX_NEW_FILES = 8"
definition MAX_DOCUMENTATION_ENTRIES :: nat where "MAX_DOCUMENTATION_ENTRIES = 12"

record InstructionLite =
  il_content :: string
  il_source_kind :: string
  il_source_path :: "string option"
  il_scope_path :: "string option"

record CapabilityAreasSnapshot =
  cas_providers :: "string list"
  cas_sandbox :: string
  cas_workspace :: string
  cas_godot :: string
  cas_references :: string
  cas_research :: string
  cas_tools :: string

record BuildExecutorContextPackInput =
  bi_contract :: TaskContract
  bi_plan :: "TaskPlan option"
  bi_execution_contract :: ExecutionContractRef
  bi_milestone :: "MilestoneManifest option"
  bi_instructions :: "InstructionLite list"
  bi_architecture_concerns :: "string list option"
  bi_architecture_index :: "ArchitectureContextEntry list"
  bi_workspace_scope :: "WorkspaceScope option"
  bi_active_working_set :: "ActiveWorkingSet option"
  bi_documentation_index :: "DocumentationEntry list"
  bi_documentation_paths :: "string list option"
  bi_scope_signals :: "ScopeSignalRef list option"
  bi_new_files :: "NewFileRef list option"
  bi_capability_areas :: "string list option"
  bi_capability_snapshot :: "CapabilityAreasSnapshot option"
  bi_findings :: "FindingRef list"
  bi_plan_approval :: "string option"

definition instruction_ref :: "InstructionLite \<Rightarrow> InstructionRef option" where
  "instruction_ref i =
     map_option (\<lambda>rendered. \<lparr>ir_source = unwrap_or (il_source_kind i) (il_source_path i) @ '':'' @ unwrap_or ''.'' (il_scope_path i),
         ir_summary = rendered\<rparr>)
       (cut_text MAX_INSTRUCTION_SUMMARY_BYTES 512 (trim (il_content i)))"

definition instruction_refs :: "InstructionLite list \<Rightarrow> InstructionRef list option" where
  "instruction_refs instructions = option_map instruction_ref (take MAX_INSTRUCTIONS instructions)"

definition touchpoint_refs :: "TaskPlan option \<Rightarrow> TouchpointConfidence \<Rightarrow> TouchpointRef list" where
  "touchpoint_refs plan confidence =
     (case plan of None \<Rightarrow> []
      | Some p \<Rightarrow> map (\<lambda>t. \<lparr>tr_touchpoint_id = tp_id t, tr_path = tp_path t,
            tr_confidence = TouchpointConfidence_as_str (tp_confidence t)\<rparr>)
          (filter (\<lambda>t. tp_confidence t = confidence) (pl_touchpoints (plan_content p))))"

definition capability_ref :: "CapabilityAreasSnapshot option \<Rightarrow> string list option \<Rightarrow> CapabilityRef" where
  "capability_ref snapshot areas =
     (case snapshot of
        None \<Rightarrow> \<lparr>cr_available = False, cr_states = []\<rparr>
      | Some s \<Rightarrow>
          let all_areas = [(''providers'', case cas_providers s of [] \<Rightarrow> ''unknown'' | p # _ \<Rightarrow> p), (''sandbox'', cas_sandbox s),
                (''workspace'', cas_workspace s), (''godot'', cas_godot s), (''references'', cas_references s),
                (''research'', cas_research s), (''tools'', cas_tools s)]
          in \<lparr>cr_available = True,
              cr_states = (case areas of Some as \<Rightarrow> filter (\<lambda>(a, _). a \<in> set as) all_areas | None \<Rightarrow> all_areas)\<rparr>)"

definition workspace_scope_ref :: "WorkspaceScope \<Rightarrow> WorkspaceScopeRef" where
  "workspace_scope_ref s = \<lparr>
     wsr_verified_files = map (\<lambda>f. (sf_path f, sf_revision f, sf_evidence f)) (take MAX_WORKSPACE_VERIFIED_FILES (verified_files s)),
     wsr_candidate_files = map sf_path (take MAX_WORKSPACE_CANDIDATE_FILES (candidate_files s)),
     wsr_promotions = map (\<lambda>r. (spr_path r, spr_evidence r)) (promotions s)\<rparr>"

definition active_working_set_ref :: "ActiveWorkingSet \<Rightarrow> ActiveWorkingSetRef" where
  "active_working_set_ref s = \<lparr>awr_step_id = step_id s,
     awr_files = map (\<lambda>f. (af_path f, FileInclusionReason_as_str (af_reason f), SourceView_as_str (af_view f)))
       (take MAX_WORKING_SET_FILES (ws_files s))\<rparr>"

definition bound_documentation :: "DocumentationSelection \<Rightarrow> DocumentationSelection" where
  "bound_documentation d = \<lparr>
     ds_root_agents = take MAX_DOCUMENTATION_ENTRIES (ds_root_agents d),
     ds_nested_agents = take MAX_DOCUMENTATION_ENTRIES (ds_nested_agents d),
     ds_architecture_docs = take MAX_DOCUMENTATION_ENTRIES (ds_architecture_docs d),
     ds_adrs = take MAX_DOCUMENTATION_ENTRIES (ds_adrs d),
     ds_development_docs = take MAX_DOCUMENTATION_ENTRIES (ds_development_docs d),
     ds_dropped = take MAX_DOCUMENTATION_ENTRIES (ds_dropped d)\<rparr>"

definition pack_concerns :: "BuildExecutorContextPackInput \<Rightarrow> string list" where
  "pack_concerns i =
     (case bi_architecture_concerns i of
        Some c \<Rightarrow> c
      | None \<Rightarrow> (case bi_milestone i of Some m \<Rightarrow> mm_architecture_concerns m | None \<Rightarrow> []))"

definition pack_documentation_paths :: "BuildExecutorContextPackInput \<Rightarrow> string list" where
  "pack_documentation_paths i =
     (case bi_documentation_paths i of
        Some ps \<Rightarrow> ps
      | None \<Rightarrow> (case bi_plan i of
          Some p \<Rightarrow> map tp_path (filter (\<lambda>t. tp_confidence t = TouchpointConfidence_Verified) (pl_touchpoints (plan_content p)))
        | None \<Rightarrow> []))"

definition build_executor_context_pack :: "BuildExecutorContextPackInput \<Rightarrow> ExecutorContextPack option" where
  "build_executor_context_pack i =
     (let concerns = pack_concerns i;
          documentation = select_documentation_context
            \<lparr>sdc_concerns = concerns, sdc_paths = pack_documentation_paths i, sdc_index = bi_documentation_index i\<rparr>
      in map_option (\<lambda>instructions. \<lparr>
        ep_task = \<lparr>tpri_id = tc_id (bi_contract i), tpri_revision = tc_revision (bi_contract i)\<rparr>,
        ep_plan = map_option (\<lambda>p. \<lparr>tpr_id = plan_id p, tpr_revision = plan_revision p,
            tpr_approval = unwrap_or ''none'' (bi_plan_approval i)\<rparr>) (bi_plan i),
        ep_execution_contract = bi_execution_contract i,
        ep_milestone = map_option (\<lambda>m. \<lparr>mmr_id = mm_id m, mmr_version = mm_version m\<rparr>) (bi_milestone i),
        ep_instructions = instructions,
        ep_architecture = select_architecture_context concerns (bi_architecture_index i) MAX_ARCHITECTURE_ENTRIES,
        ep_verified_touchpoints = touchpoint_refs (bi_plan i) TouchpointConfidence_Verified,
        ep_candidate_touchpoints = touchpoint_refs (bi_plan i) TouchpointConfidence_Candidate,
        ep_capabilities = capability_ref (bi_capability_snapshot i) (bi_capability_areas i),
        ep_unresolved_findings = take MAX_PACK_FINDINGS (bi_findings i),
        ep_acceptance = (case bi_milestone i of None \<Rightarrow> []
          | Some m \<Rightarrow> map (\<lambda>r. \<lparr>arp_id = ar_id r, arp_description = ar_description r, arp_criterion_id = ar_criterion_id r\<rparr>)
              (take MAX_PACK_ACCEPTANCE (mm_acceptance m))),
        ep_workspace_scope = map_option workspace_scope_ref (bi_workspace_scope i),
        ep_active_working_set = map_option active_working_set_ref (bi_active_working_set i),
        ep_documentation = Some (bound_documentation documentation),
        ep_scope_signals = map_option (take MAX_SCOPE_SIGNALS) (bi_scope_signals i),
        ep_new_files = map_option (take MAX_NEW_FILES) (bi_new_files i)\<rparr>) (instruction_refs (bi_instructions i)))"

subsection \<open>Selection\<close>

lemma mem_collect_documentation:
  "p \<in> set (collect_documentation i kind concern_filter) \<longleftrightarrow>
     (\<exists>e \<in> set (sdc_index i). de_path e = p \<and> de_kind e = kind \<and> admissible e \<and> (concern_filter \<longrightarrow> wants (sdc_concerns i) e))"
  by (auto simp: collect_documentation_def)

definition adr_candidates :: "SelectDocumentationContextInput \<Rightarrow> DocumentationEntry list" where
  "adr_candidates i = filter (\<lambda>e. de_kind e = DocumentationKind_Adr \<and> admissible e \<and> wants (sdc_concerns i) e) (sdc_index i)"

lemma sort_key_prefix_le:
  assumes "sort_key f xs = us @ vs" and "u \<in> set us" and "v \<in> set vs"
  shows "f u \<le> (f v :: int)"
proof -
  have "sorted (map f us @ map f vs)"
    using sorted_sort_key [of f xs] assms(1) by simp
  then show ?thesis
    using assms(2,3) by (auto simp: sorted_append)
qed

text \<open>
  Documentation is selected soundly: nested guidance, architecture and development documents
  come from accepted entries outside the archive that are in scope or wanted, at most four, two
  and two of them; the decisions are split into a selected and a dropped part, at most four are
  selected, none that is dropped overlaps the wanted concerns more than a selected one, and the
  budget drops nothing silently.
\<close>

theorem documentation_selection_sound:
  "\<exists>chosen left. ds_adrs (select_documentation_context i) = map de_path chosen
     \<and> mset (chosen @ left) = mset (adr_candidates i) \<and> length chosen = min MAX_ADRS (length (adr_candidates i))
     \<and> (\<forall>e \<in> set chosen. \<forall>e' \<in> set left. overlap (sdc_concerns i) e' \<le> overlap (sdc_concerns i) e)
     \<and> (\<forall>p. p \<in> set (ds_nested_agents (select_documentation_context i)) \<longrightarrow> nested_in_scope i p
          \<and> (\<exists>e \<in> set (sdc_index i). de_path e = p \<and> de_kind e = DocumentationKind_NestedAgents \<and> admissible e))
     \<and> (\<forall>p. p \<in> set (ds_architecture_docs (select_documentation_context i)) \<longrightarrow>
          (\<exists>e \<in> set (sdc_index i). de_path e = p \<and> de_kind e = DocumentationKind_Architecture \<and> admissible e
             \<and> wants (sdc_concerns i) e))
     \<and> length (ds_dropped (select_documentation_context i)) + length (ds_nested_agents (select_documentation_context i))
         + length (ds_architecture_docs (select_documentation_context i)) + length (ds_adrs (select_documentation_context i))
         + length (ds_development_docs (select_documentation_context i))
       = length (filter (nested_in_scope i) (collect_documentation i DocumentationKind_NestedAgents False))
         + length (collect_documentation i DocumentationKind_Architecture True) + length (adr_candidates i)
         + length (collect_documentation i DocumentationKind_Development True)"
proof -
  let ?s = "select_documentation_context i"
  let ?sorted = "sort_key (\<lambda>e. - int (overlap (sdc_concerns i) e)) (adr_candidates i)"
  have adrs: "ranked_adrs i = map de_path ?sorted"
    by (simp add: ranked_adrs_def adr_candidates_def)
  have "ds_adrs ?s = map de_path (take MAX_ADRS ?sorted)"
    by (simp add: select_documentation_context_def Let_def adrs take_map)
  moreover have "mset (take MAX_ADRS ?sorted @ drop MAX_ADRS ?sorted) = mset (adr_candidates i)"
    by (simp only: append_take_drop_id mset_sort)
  moreover have "length (take MAX_ADRS ?sorted) = min MAX_ADRS (length (adr_candidates i))"
    by simp
  moreover have "\<forall>e \<in> set (take MAX_ADRS ?sorted). \<forall>e' \<in> set (drop MAX_ADRS ?sorted).
      overlap (sdc_concerns i) e' \<le> overlap (sdc_concerns i) e"
    using sort_key_prefix_le [of "\<lambda>e. - int (overlap (sdc_concerns i) e)" "adr_candidates i" "take MAX_ADRS ?sorted"
        "drop MAX_ADRS ?sorted"] by fastforce
  moreover have "p \<in> set (ds_nested_agents ?s) \<Longrightarrow> nested_in_scope i p
      \<and> (\<exists>e \<in> set (sdc_index i). de_path e = p \<and> de_kind e = DocumentationKind_NestedAgents \<and> admissible e)" for p
    by (auto simp: select_documentation_context_def Let_def mem_collect_documentation dest!: in_set_takeD)
  moreover have "p \<in> set (ds_architecture_docs ?s) \<Longrightarrow> \<exists>e \<in> set (sdc_index i). de_path e = p
      \<and> de_kind e = DocumentationKind_Architecture \<and> admissible e \<and> wants (sdc_concerns i) e" for p
    by (auto simp: select_documentation_context_def Let_def mem_collect_documentation dest!: in_set_takeD)
  moreover have "length (ranked_adrs i) = length (adr_candidates i)"
    by (simp add: adrs)
  then have "length (ds_dropped ?s) + length (ds_nested_agents ?s) + length (ds_architecture_docs ?s) + length (ds_adrs ?s)
      + length (ds_development_docs ?s)
    = length (filter (nested_in_scope i) (collect_documentation i DocumentationKind_NestedAgents False))
      + length (collect_documentation i DocumentationKind_Architecture True) + length (adr_candidates i)
      + length (collect_documentation i DocumentationKind_Development True)"
    by (simp add: select_documentation_context_def Let_def dropped_of_def)
  ultimately show ?thesis
    by blast
qed

end
