(* ===== verification/Executor_Brief.thy ===== *)
theory Executor_Brief
  imports Executor_Context
begin

text \<open>
  The executor brief (\<open>executor/brief.rs\<close>): compilation from contract, manifest and context
  pack, the canonical value and fingerprint, and the rendering under a byte budget with secret
  redaction.  Texts are cut at byte indices, which panics inside a scalar (None).
\<close>

subsection \<open>Limits and data\<close>

definition EXECUTOR_BRIEF_SCHEMA_VERSION :: nat where "EXECUTOR_BRIEF_SCHEMA_VERSION = 2"
definition BRIEF_MAX_REQUEST_BYTES :: nat where "BRIEF_MAX_REQUEST_BYTES = 1024"
definition BRIEF_MAX_DELIVERABLES :: nat where "BRIEF_MAX_DELIVERABLES = 8"
definition BRIEF_MAX_DELIVERABLE_BYTES :: nat where "BRIEF_MAX_DELIVERABLE_BYTES = 512"
definition BRIEF_MAX_TOUCHPOINTS :: nat where "BRIEF_MAX_TOUCHPOINTS = 12"
definition BRIEF_MAX_INVARIANTS :: nat where "BRIEF_MAX_INVARIANTS = 12"
definition BRIEF_MAX_INVARIANT_BYTES :: nat where "BRIEF_MAX_INVARIANT_BYTES = 512"
definition BRIEF_MAX_NON_GOALS :: nat where "BRIEF_MAX_NON_GOALS = 12"
definition BRIEF_MAX_ACCEPTANCE_IDS :: nat where "BRIEF_MAX_ACCEPTANCE_IDS = 32"
definition BRIEF_MAX_TEST_REQUIREMENTS :: nat where "BRIEF_MAX_TEST_REQUIREMENTS = 8"
definition BRIEF_MAX_ARCHITECTURE_REFERENCES :: nat where "BRIEF_MAX_ARCHITECTURE_REFERENCES = 4"
definition BRIEF_MAX_CAPABILITY_LIMITS :: nat where "BRIEF_MAX_CAPABILITY_LIMITS = 8"
definition BRIEF_MAX_INSTRUCTION_SOURCES :: nat where "BRIEF_MAX_INSTRUCTION_SOURCES = 8"
definition BRIEF_MAX_RENDERED_BYTES :: nat where "BRIEF_MAX_RENDERED_BYTES = 8 * 1024"
definition BRIEF_MAX_DOCUMENTATION_SOURCES :: nat where "BRIEF_MAX_DOCUMENTATION_SOURCES = 12"
definition BRIEF_MAX_WORKING_SET_FILES :: nat where "BRIEF_MAX_WORKING_SET_FILES = 8"
definition BRIEF_MAX_WORKSPACE_VERIFIED_FILES :: nat where "BRIEF_MAX_WORKSPACE_VERIFIED_FILES = 12"
definition BRIEF_MAX_SCOPE_WARNINGS :: nat where "BRIEF_MAX_SCOPE_WARNINGS = 8"
definition BRIEF_MAX_NEW_FILE_RATIONALES :: nat where "BRIEF_MAX_NEW_FILE_RATIONALES = 8"

record ExecutorBrief =
  eb_format :: string
  eb_version :: nat
  eb_task_id :: string
  eb_contract_revision :: nat
  eb_request :: string
  eb_execution_contract :: "string \<times> 64 word"
  eb_milestone :: "(string \<times> 64 word) option"
  eb_deliverables :: "string list"
  eb_verified_touchpoints :: "string list"
  eb_candidate_touchpoints :: "string list"
  eb_invariants :: "string list"
  eb_non_goals :: "string list"
  eb_acceptance_ids :: "string list"
  eb_test_requirements :: "string list"
  eb_architecture_references :: "string list"
  eb_documentation_sources :: "string list"
  eb_working_set_files :: "string list"
  eb_workspace_verified_files :: "string list"
  eb_scope_warnings :: "string list"
  eb_new_file_rationales :: "string list"
  eb_capability_limits :: "string list"
  eb_plan :: "(string \<times> nat \<times> string) option"
  eb_instruction_sources :: "string list"

subsection \<open>Compilation\<close>

fun bounded_loop :: "nat \<Rightarrow> nat \<Rightarrow> string list \<Rightarrow> string list \<Rightarrow> string list option" where
  "bounded_loop max_entries max_bytes result [] = Some result"
| "bounded_loop max_entries max_bytes result (v # vs) =
     (if max_entries \<le> length result then Some result
      else let t = trim v in
        if t = [] then bounded_loop max_entries max_bytes result vs
        else case cut_text max_bytes 240 t of
               None \<Rightarrow> None
             | Some s \<Rightarrow> bounded_loop max_entries max_bytes (result @ [s]) vs)"

definition bounded_strings :: "string list \<Rightarrow> nat \<Rightarrow> nat \<Rightarrow> string list option" where
  "bounded_strings vs max_entries max_bytes = bounded_loop max_entries max_bytes [] vs"

definition capability_line :: "string \<Rightarrow> string \<Rightarrow> string" where
  "capability_line area state =
     (if state = ''blocked_by_policy'' then area @ '': denied by policy''
      else if state = ''unavailable'' \<or> state = ''unsupported'' then area @ '': unavailable''
      else if state = ''degraded'' then area @ '': degraded''
      else area @ '': '' @ state)"

fun capability_loop :: "string list \<Rightarrow> (string \<times> string) list \<Rightarrow> string list" where
  "capability_loop ls [] = ls"
| "capability_loop ls ((area, state) # rest) =
     (if BRIEF_MAX_CAPABILITY_LIMITS \<le> length ls then ls
      else if state = ''available'' then capability_loop ls rest
      else capability_loop (ls @ [capability_line area state]) rest)"

definition capability_limit_lines :: "ExecutorContextPack \<Rightarrow> string list" where
  "capability_limit_lines pack =
     (if \<not> cr_available (ep_capabilities pack) then [] else capability_loop [] (cr_states (ep_capabilities pack)))"

record CompileExecutorBriefInput =
  cbi_contract :: TaskContract
  cbi_execution_contract :: ExecutionContract
  cbi_milestone :: "MilestoneManifest option"
  cbi_pack :: ExecutorContextPack

definition EM_DASH :: string where
  "EM_DASH = [CHR 0xE2, CHR 0x80, CHR 0x94]"

definition documentation_sources_input :: "ExecutorContextPack \<Rightarrow> string list" where
  "documentation_sources_input pack =
     (case ep_documentation pack of
        None \<Rightarrow> []
      | Some d \<Rightarrow> ds_root_agents d @ ds_nested_agents d @ ds_architecture_docs d @ ds_adrs d @ ds_development_docs d)"

definition working_set_input :: "ExecutorContextPack \<Rightarrow> string list" where
  "working_set_input pack =
     (case ep_active_working_set pack of
        None \<Rightarrow> []
      | Some s \<Rightarrow> map (\<lambda>(path, reason, view). path @ '' ('' @ reason @ '')'') (awr_files s))"

definition scope_warnings_input :: "ExecutorContextPack \<Rightarrow> string list" where
  "scope_warnings_input pack =
     (case ep_scope_signals pack of None \<Rightarrow> [] | Some ss \<Rightarrow> map (\<lambda>s. ssr_id s @ '': '' @ ssr_message s) ss)"

definition new_files_input :: "ExecutorContextPack \<Rightarrow> string list" where
  "new_files_input pack =
     (case ep_new_files pack of
        None \<Rightarrow> []
      | Some fs \<Rightarrow> map (\<lambda>f. nf_path f @ '' '' @ EM_DASH @ '' '' @ nf_reason f @ '' (owners: ''
          @ (if nf_existing_owners_inspected f = [] then ''none'' else join '', '' (nf_existing_owners_inspected f)) @ '')'') fs)"

definition of_milestone :: "(MilestoneManifest \<Rightarrow> string list) \<Rightarrow> CompileExecutorBriefInput \<Rightarrow> string list" where
  "of_milestone f i = (case cbi_milestone i of None \<Rightarrow> [] | Some m \<Rightarrow> f m)"

definition compile_executor_brief :: "CompileExecutorBriefInput \<Rightarrow> ExecutorBrief option" where
  "compile_executor_brief i =
     (let pack = cbi_pack i in
      Option.bind (cut_text BRIEF_MAX_REQUEST_BYTES 480 (trim (tc_request (cbi_contract i)))) (\<lambda>request.
      Option.bind (bounded_strings (of_milestone (\<lambda>m. map mr_description (mm_deliverables m)) i)
        BRIEF_MAX_DELIVERABLES BRIEF_MAX_DELIVERABLE_BYTES) (\<lambda>deliverables.
      Option.bind (bounded_strings (map tr_path (ep_verified_touchpoints pack)) BRIEF_MAX_TOUCHPOINTS 512) (\<lambda>verified.
      Option.bind (bounded_strings (map tr_path (ep_candidate_touchpoints pack)) BRIEF_MAX_TOUCHPOINTS 512) (\<lambda>candidates.
      Option.bind (bounded_strings (of_milestone (\<lambda>m. map mr_description (mm_invariants m)) i)
        BRIEF_MAX_INVARIANTS BRIEF_MAX_INVARIANT_BYTES) (\<lambda>invariants.
      Option.bind (bounded_strings (of_milestone mm_non_goals i) BRIEF_MAX_NON_GOALS BRIEF_MAX_INVARIANT_BYTES) (\<lambda>non_goals.
      Option.bind (bounded_strings (of_milestone (\<lambda>m. map ar_id (mm_acceptance m)) i) BRIEF_MAX_ACCEPTANCE_IDS 128) (\<lambda>acceptance.
      Option.bind (bounded_strings (of_milestone (\<lambda>m. map mr_description (mm_required_tests m)) i)
        BRIEF_MAX_TEST_REQUIREMENTS BRIEF_MAX_INVARIANT_BYTES) (\<lambda>tests.
      Option.bind (bounded_strings (map acr_path (ep_architecture pack)) BRIEF_MAX_ARCHITECTURE_REFERENCES 512) (\<lambda>architecture.
      Option.bind (bounded_strings (documentation_sources_input pack) BRIEF_MAX_DOCUMENTATION_SOURCES 512) (\<lambda>documentation.
      Option.bind (bounded_strings (working_set_input pack) BRIEF_MAX_WORKING_SET_FILES 512) (\<lambda>working_set.
      Option.bind (bounded_strings (case ep_workspace_scope pack of None \<Rightarrow> [] | Some s \<Rightarrow> map fst (wsr_verified_files s))
        BRIEF_MAX_WORKSPACE_VERIFIED_FILES 512) (\<lambda>workspace_verified.
      Option.bind (bounded_strings (scope_warnings_input pack) BRIEF_MAX_SCOPE_WARNINGS 512) (\<lambda>warnings.
      Option.bind (bounded_strings (new_files_input pack) BRIEF_MAX_NEW_FILE_RATIONALES 512) (\<lambda>new_files.
      Option.bind (bounded_strings (map ir_source (ep_instructions pack)) BRIEF_MAX_INSTRUCTION_SOURCES 256) (\<lambda>sources.
      Some \<lparr>eb_format = ''siralos-executor-brief'', eb_version = EXECUTOR_BRIEF_SCHEMA_VERSION,
        eb_task_id = tc_id (cbi_contract i), eb_contract_revision = tc_revision (cbi_contract i), eb_request = request,
        eb_execution_contract = (xc_id (cbi_execution_contract i), xc_revision (cbi_execution_contract i)),
        eb_milestone = map_option (\<lambda>m. (mm_id m, mm_version m)) (cbi_milestone i),
        eb_deliverables = deliverables, eb_verified_touchpoints = verified, eb_candidate_touchpoints = candidates,
        eb_invariants = invariants, eb_non_goals = non_goals, eb_acceptance_ids = acceptance, eb_test_requirements = tests,
        eb_architecture_references = architecture, eb_documentation_sources = documentation,
        eb_working_set_files = working_set, eb_workspace_verified_files = workspace_verified,
        eb_scope_warnings = warnings, eb_new_file_rationales = new_files,
        eb_capability_limits = capability_limit_lines pack,
        eb_plan = map_option (\<lambda>p. (tpr_id p, tpr_revision p, tpr_approval p)) (ep_plan pack),
        eb_instruction_sources = sources\<rparr>))))))))))))))))"

subsection \<open>Fingerprint\<close>

definition or_null :: "('a \<Rightarrow> Value) \<Rightarrow> 'a option \<Rightarrow> Value" where
  "or_null f v = (case v of None \<Rightarrow> Value_Null | Some x \<Rightarrow> f x)"

definition brief_value :: "ExecutorBrief \<Rightarrow> Value" where
  "brief_value b = json_object
     [(''format'', Value_String (eb_format b)), (''version'', Value_Number (PosInt (eb_version b))),
      (''taskId'', Value_String (eb_task_id b)), (''contractRevision'', Value_Number (PosInt (eb_contract_revision b))),
      (''request'', Value_String (eb_request b)),
      (''executionContract'', json_object [(''id'', Value_String (fst (eb_execution_contract b))),
         (''revision'', json_u64 (snd (eb_execution_contract b)))]),
      (''milestone'', or_null (\<lambda>(i, v). json_object [(''id'', Value_String i), (''version'', json_u64 v)]) (eb_milestone b)),
      (''deliverables'', json_strings (eb_deliverables b)),
      (''verifiedTouchpoints'', json_strings (eb_verified_touchpoints b)),
      (''candidateTouchpoints'', json_strings (eb_candidate_touchpoints b)),
      (''invariants'', json_strings (eb_invariants b)), (''nonGoals'', json_strings (eb_non_goals b)),
      (''acceptanceIds'', json_strings (eb_acceptance_ids b)), (''testRequirements'', json_strings (eb_test_requirements b)),
      (''architectureReferences'', json_strings (eb_architecture_references b)),
      (''documentationSources'', json_strings (eb_documentation_sources b)),
      (''workingSetFiles'', json_strings (eb_working_set_files b)),
      (''workspaceVerifiedFiles'', json_strings (eb_workspace_verified_files b)),
      (''scopeWarnings'', json_strings (eb_scope_warnings b)), (''newFileRationales'', json_strings (eb_new_file_rationales b)),
      (''capabilityLimits'', json_strings (eb_capability_limits b)),
      (''plan'', or_null (\<lambda>(i, r, a). json_object [(''id'', Value_String i), (''revision'', Value_Number (PosInt r)),
         (''approval'', Value_String a)]) (eb_plan b)),
      (''instructionSources'', json_strings (eb_instruction_sources b))]"

definition compute_executor_brief_fingerprint :: "scientific \<Rightarrow> ExecutorBrief \<Rightarrow> string" where
  "compute_executor_brief_fingerprint sci b = sha256_hex_str (canonical_json_value sci (brief_value b))"

subsection \<open>Rendering\<close>

record RenderSection =
  rs_title :: string
  rs_content :: string
  rs_priority :: nat

abbreviation newline :: string where
  "newline \<equiv> [CHR 0x0A]"

definition bullet :: "string list \<Rightarrow> string" where
  "bullet vs = join newline (map (\<lambda>v. ''- '' @ v) vs)"

definition section_text :: "RenderSection \<Rightarrow> string" where
  "section_text s = rs_title s @ newline @ rs_content s"

definition render_sections :: "RenderSection list \<Rightarrow> string" where
  "render_sections ss = join (newline @ newline) (map section_text ss)"

definition rendered_bytes_of :: "RenderSection list \<Rightarrow> nat" where
  "rendered_bytes_of ss = length (render_sections ss)"

definition BRIEF_TRUNCATION_MARKER :: string where
  "BRIEF_TRUNCATION_MARKER = newline @ ELLIPSIS @ '' [brief truncated]''"

fun trim_loop :: "nat \<Rightarrow> string \<Rightarrow> string list \<Rightarrow> string" where
  "trim_loop max_bytes kept [] = kept"
| "trim_loop max_bytes kept (l # ls) =
     (let candidate = (if kept = [] then l else kept @ newline @ l) in
      if max_bytes < length (candidate @ BRIEF_TRUNCATION_MARKER) then kept else trim_loop max_bytes candidate ls)"

definition trim_rendered :: "string \<Rightarrow> nat \<Rightarrow> string" where
  "trim_rendered rendered max_bytes =
     (if max_bytes \<le> length BRIEF_TRUNCATION_MARKER then
        concat (take (min (max max_bytes 1) (length (scalars BRIEF_TRUNCATION_MARKER))) (scalars BRIEF_TRUNCATION_MARKER))
      else trim_loop max_bytes [] (split_on (CHR 0x0A) rendered) @ BRIEF_TRUNCATION_MARKER)"

definition list_section :: "string \<Rightarrow> nat \<Rightarrow> string list \<Rightarrow> RenderSection list" where
  "list_section title priority vs =
     (if vs = [] then [] else [\<lparr>rs_title = title, rs_content = bullet vs, rs_priority = priority\<rparr>])"

definition brief_sections :: "ExecutorBrief \<Rightarrow> RenderSection list" where
  "brief_sections b =
     [\<lparr>rs_title = ''TASK'', rs_content = eb_request b, rs_priority = 0\<rparr>,
      \<lparr>rs_title = ''EXECUTION CONTRACT'', rs_content = ''Execution Contract: '' @ fst (eb_execution_contract b) @ '' rev ''
          @ show_nat (unat (snd (eb_execution_contract b))), rs_priority = 0\<rparr>]
     @ (case eb_milestone b of None \<Rightarrow> [] | Some (i, v) \<Rightarrow> [\<lparr>rs_title = ''MILESTONE'',
          rs_content = ''Milestone Manifest: '' @ i @ '' rev '' @ show_nat (unat v), rs_priority = 0\<rparr>])
     @ (case eb_plan b of None \<Rightarrow> [] | Some (i, r, a) \<Rightarrow> [\<lparr>rs_title = ''PLAN'',
          rs_content = ''Plan: '' @ i @ '' rev '' @ show_nat r @ '' ('' @ a @ '')'', rs_priority = 0\<rparr>])
     @ list_section ''TASK-SPECIFIC INVARIANTS'' 0 (eb_invariants b)
     @ (if eb_acceptance_ids b = [] then [] else [\<lparr>rs_title = ''ACCEPTANCE'',
          rs_content = join '', '' (eb_acceptance_ids b), rs_priority = 0\<rparr>])
     @ list_section ''VERIFIED TOUCHPOINTS'' 1 (eb_verified_touchpoints b)
     @ list_section ''VERIFIED WORKSPACE FILES'' 1 (eb_workspace_verified_files b)
     @ list_section ''WORKING SET (CURRENT STEP)'' 3 (eb_working_set_files b)
     @ list_section ''DELIVERABLES'' 2 (eb_deliverables b)
     @ list_section ''CANDIDATE TOUCHPOINTS'' 3 (eb_candidate_touchpoints b)
     @ list_section ''NON-GOALS'' 4 (eb_non_goals b)
     @ list_section ''ARCHITECTURE REFERENCES'' 5 (eb_architecture_references b)
     @ list_section ''DOCUMENTATION'' 5 (eb_documentation_sources b)
     @ list_section ''NEW FILES (RATIONALE)'' 6 (eb_new_file_rationales b)
     @ list_section ''MILESTONE-SPECIFIC TESTS'' 6 (eb_test_requirements b)
     @ list_section ''CAPABILITY LIMITS'' 7 (eb_capability_limits b)
     @ list_section ''SCOPE WARNINGS'' 7 (eb_scope_warnings b)"

definition with_priority :: "nat \<Rightarrow> RenderSection list \<Rightarrow> RenderSection list" where
  "with_priority p ss = filter (\<lambda>s. rs_priority s = p) ss"

fun keep_loop :: "RenderSection list \<Rightarrow> nat \<Rightarrow> RenderSection list \<Rightarrow> nat list \<Rightarrow> RenderSection list" where
  "keep_loop sections max_bytes kept [] = kept"
| "keep_loop sections max_bytes kept (p # ps) =
     (if rendered_bytes_of kept \<le> max_bytes then kept
      else
        let extended = kept @ with_priority p sections in
        if rendered_bytes_of extended \<le> max_bytes then extended
        else keep_loop sections max_bytes (rev (dropWhile (\<lambda>s. rs_priority s = p) (rev extended))) ps)"

definition render_executor_brief_bounded :: "ExecutorBrief \<Rightarrow> nat \<Rightarrow> string option" where
  "render_executor_brief_bounded b max_bytes =
     (let sections = brief_sections b in
      Option.bind (sanitize_secrets_only (render_sections sections)) (\<lambda>sanitized.
        if length sanitized \<le> max_bytes then Some sanitized
        else
          let kept = keep_loop sections max_bytes (with_priority 0 sections) [1..<8]
          in sanitize_secrets_only (trim_rendered (render_sections kept) max_bytes)))"

definition render_executor_brief :: "ExecutorBrief \<Rightarrow> string option" where
  "render_executor_brief b = render_executor_brief_bounded b BRIEF_MAX_RENDERED_BYTES"

definition summarize_executor_brief :: "ExecutorBrief \<Rightarrow> string" where
  "summarize_executor_brief b = join '', ''
     [fst (eb_execution_contract b) @ '' rev '' @ show_nat (unat (snd (eb_execution_contract b))),
      (case eb_milestone b of None \<Rightarrow> ''no milestone'' | Some (i, v) \<Rightarrow> i @ '' rev '' @ show_nat (unat v)),
      show_nat (length (eb_verified_touchpoints b)) @ '' verified / ''
        @ show_nat (length (eb_candidate_touchpoints b)) @ '' candidate touchpoints'',
      show_nat (length (eb_acceptance_ids b)) @ '' acceptance ids'']"

end
