(* ===== verification/Redaction_Properties.thy ===== *)
theory Redaction_Properties
  imports Doctor_Redaction
begin

text \<open>
  The searches of \<open>Doctor_Redaction\<close> against the patterns they document: each finds the leftmost
  match and, at its start, the longest one; a pass replaces every match, and no replacement
  creates a match of any pattern, so that a redacted text holds no secret and is a fixed point.
\<close>

subsection \<open>Slices, scans and runs\<close>

lemma length_slice: "a \<le> b \<Longrightarrow> b \<le> length xs \<Longrightarrow> length (slice xs a b) = b - a"
  by (simp add: slice_def)

lemma slice_append:
  "s \<le> e \<Longrightarrow> e \<le> length t \<Longrightarrow>
     slice t s e = p @ b \<longleftrightarrow> s + length p \<le> e \<and> slice t s (s + length p) = p \<and> slice t (s + length p) e = b"
proof -
  assume "s \<le> e" "e \<le> length t"
  have "slice t s e = p @ b \<Longrightarrow> s + length p \<le> e"
    using \<open>s \<le> e\<close> \<open>e \<le> length t\<close> length_slice [of s e t] by simp
  moreover have "s + length p \<le> e \<Longrightarrow> slice t s e = slice t s (s + length p) @ slice t (s + length p) e"
    using take_add [of "length p" "e - (s + length p)" "drop s t"] by (simp add: slice_def add.commute)
  moreover have "s + length p \<le> e \<Longrightarrow> length (slice t s (s + length p)) = length p"
    using \<open>e \<le> length t\<close> by (simp add: length_slice)
  ultimately show ?thesis
    by (auto dest: append_eq_append_conv [THEN iffD1, rotated])
qed

lemma takeWhile_prefix_iff: "k \<le> length xs \<Longrightarrow> list_all P (take k xs) \<longleftrightarrow> k \<le> length (takeWhile P xs)"
proof (induction xs arbitrary: k)
  case (Cons x xs)
  then show ?case
    by (cases k) simp_all
qed simp

lemma list_all_slice_run:
  "s \<le> e \<Longrightarrow> e \<le> length t \<Longrightarrow> list_all P (slice t s e) \<longleftrightarrow> e \<le> run_end t s P"
  using takeWhile_prefix_iff [of "e - s" "drop s t" P] by (auto simp: slice_def run_end_def)

lemma run_end_le: "s \<le> length t \<Longrightarrow> run_end t s P \<le> length t"
  using length_takeWhile_le [of P "drop s t"] by (simp add: run_end_def)

lemma run_end_member: "s \<le> i \<Longrightarrow> i < run_end t s P \<Longrightarrow> P (t ! i)"
  using nth_mem [of "i - s" "takeWhile P (drop s t)"] takeWhile_nth [of "i - s" P "drop s t"]
    length_takeWhile_le [of P "drop s t"] set_takeWhileD [of "t ! i" P "drop s t"]
  by (simp add: run_end_def)

lemma back_off_Some:
  "back_off f least e = Some r \<Longrightarrow> \<exists>e'. least \<le> e' \<and> e' \<le> e \<and> f e' = Some r \<and> (\<forall>x. e' < x \<longrightarrow> x \<le> e \<longrightarrow> f x = None)"
proof (induction e)
  case (Suc e)
  show ?case
  proof (cases "f (Suc e)")
    case None
    with Suc obtain e' where "least \<le> e'" "e' \<le> e" "f e' = Some r" "\<forall>x. e' < x \<longrightarrow> x \<le> e \<longrightarrow> f x = None"
      by (auto split: if_splits)
    with None show ?thesis
      by (intro exI [of _ e']) (auto simp: le_Suc_eq)
  next
    case (Some x)
    with Suc(2) show ?thesis
      by (intro exI [of _ "Suc e"]) (auto split: if_splits)
  qed
qed (auto split: if_splits)

lemma back_off_None: "back_off f least e = None \<Longrightarrow> least \<le> x \<Longrightarrow> x \<le> e \<Longrightarrow> f x = None"
  by (induction e) (auto split: if_splits option.splits simp: le_Suc_eq)

text \<open>The longest end that satisfies a predicate.\<close>

definition greatest :: "(nat \<Rightarrow> bool) \<Rightarrow> nat option \<Rightarrow> bool" where
  "greatest good r \<longleftrightarrow> (case r of None \<Rightarrow> \<forall>e. \<not> good e | Some e \<Rightarrow> good e \<and> (\<forall>e'. e < e' \<longrightarrow> \<not> good e'))"

lemma greatest_cong: "(\<And>e. good e \<longleftrightarrow> good' e) \<Longrightarrow> greatest good r \<longleftrightarrow> greatest good' r"
  by (simp add: greatest_def split: option.splits)

lemma greatest_if:
  "(\<And>e. good e \<longleftrightarrow> c \<and> good' e) \<Longrightarrow> greatest good' r \<Longrightarrow> greatest good (if c then r else None)"
  by (auto simp: greatest_def split: option.splits)

lemma greatest_class_run:
  assumes "0 < minimum"
  shows "greatest (\<lambda>e. start + minimum \<le> e \<and> e \<le> length t \<and> list_all P (slice t start e) \<and> boundary_at t e)
     (class_run t start minimum P)"
proof -
  have good: "start + minimum \<le> e \<and> e \<le> length t \<and> list_all P (slice t start e) \<and> boundary_at t e
      \<longleftrightarrow> start + minimum \<le> e \<and> e \<le> run_end t start P \<and> boundary_at t e" for e
  proof (cases "start + minimum \<le> e \<and> e \<le> length t")
    case True
    then show ?thesis
      using list_all_slice_run [of start e t P] by auto
  next
    case False
    moreover have "e \<le> run_end t start P \<Longrightarrow> start + minimum \<le> e \<Longrightarrow> e \<le> length t"
      using run_end_le [of start t P] assms by (cases "start \<le> length t") (auto simp: run_end_def)
    ultimately show ?thesis
      by blast
  qed
  show ?thesis
  proof (cases "class_run t start minimum P")
    case None
    then show ?thesis
      unfolding greatest_cong [OF good] by (auto simp: greatest_def class_run_def dest: back_off_None split: if_splits)
  next
    case (Some r)
    from back_off_Some [OF this [unfolded class_run_def]] show ?thesis
      unfolding greatest_cong [OF good] Some by (auto simp: greatest_def split: if_splits)
  qed
qed

lemma scan_starts_Some:
  "scan_starts n k f start = Some (s, e) \<Longrightarrow>
     start \<le> s \<and> s + k \<le> n \<and> f s = Some e \<and> (\<forall>x. start \<le> x \<longrightarrow> x < s \<longrightarrow> f x = None)"
proof (induction n k f start rule: scan_starts.induct)
  case (1 n k f start)
  note unfolded = 1(2) [unfolded scan_starts.simps [of n k f start]]
  show ?case
  proof (cases "f start")
    case None
    with unfolded have less: "\<not> n < start + k" and rest: "scan_starts n k f (Suc start) = Some (s, e)"
      by (simp_all split: if_splits)
    have "f x = None" if "start \<le> x" "x < s" for x
      using 1(1) [OF less None rest] None that by (cases "x = start") auto
    then show ?thesis
      using 1(1) [OF less None rest] by simp
  next
    case (Some e')
    with unfolded show ?thesis
      by (auto split: if_splits)
  qed
qed

lemma scan_starts_None:
  "scan_starts n k f start = None \<Longrightarrow> start \<le> x \<Longrightarrow> x + k \<le> n \<Longrightarrow> f x = None"
proof (induction n k f start rule: scan_starts.induct)
  case (1 n k f start)
  have "f start = None" and "scan_starts n k f (Suc start) = None" and "\<not> n < start + k"
    using 1(2) [unfolded scan_starts.simps [of n k f start]] 1(3,4) by (auto split: if_splits option.splits)
  with 1(1,3,4) show ?case
    by (cases "x = start") auto
qed

subsection \<open>Patterns\<close>

text \<open>A match of a pattern: a word boundary, a text of the language, a word boundary.\<close>

definition matches_at :: "(string \<Rightarrow> bool) \<Rightarrow> string \<Rightarrow> nat \<Rightarrow> nat \<Rightarrow> bool" where
  "matches_at lang t s e \<longleftrightarrow> s \<le> e \<and> e \<le> length t \<and> lang (slice t s e) \<and> boundary_at t s \<and> boundary_at t e"

definition leftmost_longest ::
    "(string \<Rightarrow> bool) \<Rightarrow> (string \<Rightarrow> nat \<Rightarrow> (nat \<times> nat) option) \<Rightarrow> string \<Rightarrow> nat \<Rightarrow> bool" where
  "leftmost_longest lang search t start \<longleftrightarrow>
     (case search t start of
        None \<Rightarrow> \<forall>s \<ge> start. \<forall>e. \<not> matches_at lang t s e
      | Some (s, e) \<Rightarrow> start \<le> s \<and> matches_at lang t s e \<and> (\<forall>e'. e < e' \<longrightarrow> \<not> matches_at lang t s e')
          \<and> (\<forall>s'. start \<le> s' \<longrightarrow> s' < s \<longrightarrow> (\<forall>e'. \<not> matches_at lang t s' e')))"

lemma leftmost_longest_scan:
  assumes "\<And>s. s + k \<le> length t \<Longrightarrow> greatest (matches_at lang t s) (f s)"
    and "\<And>s e. matches_at lang t s e \<Longrightarrow> s + k \<le> length t"
    and "search t start = scan_starts (length t) k f start"
  shows "leftmost_longest lang search t start"
proof (cases "scan_starts (length t) k f start")
  case None
  have "\<not> matches_at lang t s e" if "start \<le> s" for s e
  proof
    assume m: "matches_at lang t s e"
    then have "f s = None"
      using scan_starts_None [OF None that] assms(2) by blast
    then show False
      using assms(1) [of s] assms(2) [OF m] m by (simp add: greatest_def)
  qed
  then show ?thesis
    using None assms(3) by (simp add: leftmost_longest_def)
next
  case (Some p)
  obtain s e where p: "p = (s, e)" by (cases p)
  note found = scan_starts_Some [OF Some [unfolded p]]
  have "\<not> matches_at lang t s' e'" if "start \<le> s'" "s' < s" for s' e'
  proof -
    have "f s' = None" "s' + k \<le> length t"
      using found that by auto
    then show ?thesis
      using assms(1) [of s'] by (simp add: greatest_def)
  qed
  then show ?thesis
    using Some p assms(3) found assms(1) [of s] by (auto simp: leftmost_longest_def greatest_def)
qed

definition sk_key :: "string \<Rightarrow> bool" where
  "sk_key m \<longleftrightarrow> (\<exists>b. m = ''sk-'' @ b \<and> 8 \<le> length b \<and> list_all is_key_body b)"

definition aws_key :: "string \<Rightarrow> bool" where
  "aws_key m \<longleftrightarrow> (\<exists>b. m = ''AKIA'' @ b \<and> length b = 16 \<and> list_all (\<lambda>c. is_ascii_digit c \<or> is_ascii_uppercase c) b)"

definition github_token :: "string \<Rightarrow> bool" where
  "github_token m \<longleftrightarrow> (\<exists>c b. c \<in> set ''pso'' \<and> m = (''gh'' @ [c, CHR ''_'']) @ b \<and> 20 \<le> length b \<and> list_all is_token_body b)"

definition JS_SPACE_BYTES :: "nat list list" where
  "JS_SPACE_BYTES = [[0x09], [0x0A], [0x0B], [0x0C], [0x0D], [0x20], [0xC2, 0xA0], [0xE1, 0x9A, 0x80],
     [0xE2, 0x80, 0x80], [0xE2, 0x80, 0x81], [0xE2, 0x80, 0x82], [0xE2, 0x80, 0x83], [0xE2, 0x80, 0x84],
     [0xE2, 0x80, 0x85], [0xE2, 0x80, 0x86], [0xE2, 0x80, 0x87], [0xE2, 0x80, 0x88], [0xE2, 0x80, 0x89],
     [0xE2, 0x80, 0x8A], [0xE2, 0x80, 0xA8], [0xE2, 0x80, 0xA9], [0xE2, 0x80, 0xAF], [0xE2, 0x81, 0x9F],
     [0xE3, 0x80, 0x80], [0xEF, 0xBB, 0xBF]]"

definition js_space :: "string \<Rightarrow> bool" where
  "js_space x \<longleftrightarrow> map byte x \<in> set JS_SPACE_BYTES"

definition bearer_token :: "string \<Rightarrow> bool" where
  "bearer_token m \<longleftrightarrow> (\<exists>w spaces b. m = w @ concat spaces @ b \<and> list_all2 byte_eq_ignore_case w ''Bearer''
     \<and> spaces \<noteq> [] \<and> list_all js_space spaces \<and> 12 \<le> length b \<and> list_all is_bearer_body b)"

definition long_hex_run :: "string \<Rightarrow> bool" where
  "long_hex_run m \<longleftrightarrow> 32 \<le> length m \<and> list_all is_ascii_hexdigit m"

definition long_base64_run :: "string \<Rightarrow> bool" where
  "long_base64_run m \<longleftrightarrow> (\<exists>b k. m = b @ replicate k (CHR ''='') \<and> k \<le> 2 \<and> 40 \<le> length b \<and> list_all is_base64_body b)"

subsection \<open>The searches find their patterns\<close>

lemma starts_with_at_slice: "s + length p \<le> length t \<Longrightarrow> starts_with_at t s p \<longleftrightarrow> slice t s (s + length p) = p"
  by (simp add: starts_with_at_def)

lemma slice_prefix_iff:
  assumes "s \<le> e" and "e \<le> length t"
  shows "(\<exists>b. slice t s e = p @ b \<and> Q b) \<longleftrightarrow> starts_with_at t s p \<and> s + length p \<le> e \<and> Q (slice t (s + length p) e)"
  unfolding slice_append [OF assms] starts_with_at_def using assms by fastforce

lemma matches_prefix_run:
  assumes "\<And>m. lang m \<longleftrightarrow> (\<exists>b. m = p @ b \<and> minimum \<le> length b \<and> list_all P b)"
  shows "matches_at lang t s e \<longleftrightarrow> (starts_with_at t s p \<and> boundary_at t s)
    \<and> (s + length p + minimum \<le> e \<and> e \<le> length t \<and> list_all P (slice t (s + length p) e) \<and> boundary_at t e)"
proof (cases "s \<le> e \<and> e \<le> length t")
  case True
  then have "matches_at lang t s e \<longleftrightarrow> starts_with_at t s p \<and> s + length p \<le> e \<and> minimum \<le> e - (s + length p)
      \<and> list_all P (slice t (s + length p) e) \<and> boundary_at t s \<and> boundary_at t e"
    unfolding matches_at_def assms using slice_prefix_iff [of s e t p "\<lambda>b. minimum \<le> length b \<and> list_all P b"]
    by (auto simp: length_slice)
  with True show ?thesis
    by auto
qed (auto simp: matches_at_def)

lemma matches_sk_key:
  "matches_at sk_key t s e \<longleftrightarrow> (starts_with_at t s ''sk-'' \<and> boundary_at t s)
     \<and> (s + 3 + 8 \<le> e \<and> e \<le> length t \<and> list_all is_key_body (slice t (s + 3) e) \<and> boundary_at t e)"
  using matches_prefix_run [OF sk_key_def, of t s e] by (simp add: numeral_3_eq_3)

lemma greatest_sk_key:
  "greatest (matches_at sk_key t s)
     (if starts_with_at t s ''sk-'' \<and> boundary_at t s then class_run t (s + 3) 8 is_key_body else None)"
  by (rule greatest_if [OF matches_sk_key greatest_class_run]) simp

lemma find_sk_key_exact: "leftmost_longest sk_key find_sk_key t start"
proof (rule leftmost_longest_scan [OF greatest_sk_key])
  show "s + 3 \<le> length t" if "matches_at sk_key t s e" for s e
    using that by (simp add: matches_sk_key)
qed (simp add: find_sk_key_def)

lemma length_4: "length [a, b, c, d] = 4"
  by simp

lemma matches_aws_key:
  "matches_at aws_key t s e \<longleftrightarrow> e = s + 20 \<and> e \<le> length t \<and> starts_with_at t s ''AKIA''
     \<and> list_all (\<lambda>c. is_ascii_digit c \<or> is_ascii_uppercase c) (slice t (s + 4) e) \<and> boundary_at t s \<and> boundary_at t e"
proof (cases "s \<le> e \<and> e \<le> length t")
  case True
  have "aws_key (slice t s e) \<longleftrightarrow> starts_with_at t s ''AKIA'' \<and> s + 4 \<le> e \<and> length (slice t (s + 4) e) = 16
      \<and> list_all (\<lambda>c. is_ascii_digit c \<or> is_ascii_uppercase c) (slice t (s + 4) e)"
    unfolding aws_key_def slice_prefix_iff [OF conjunct1 [OF True] conjunct2 [OF True]] length_4 by (rule refl)
  moreover have "s + 4 \<le> e \<Longrightarrow> length (slice t (s + 4) e) = 16 \<longleftrightarrow> e = s + 20"
    using True by (auto simp: length_slice)
  ultimately show ?thesis
    using True by (auto simp: matches_at_def)
qed (auto simp: matches_at_def)

lemma find_aws_key_exact: "leftmost_longest aws_key find_aws_key t start"
proof (rule leftmost_longest_scan [where f = "\<lambda>s. let e = s + 20 in
    if starts_with_at t s ''AKIA'' \<and> list_all (\<lambda>c. is_ascii_digit c \<or> is_ascii_uppercase c) (slice t (s + 4) e)
       \<and> boundary_at t s \<and> boundary_at t e then Some e else None" and k = 20])
  show "s + 20 \<le> length t \<Longrightarrow> greatest (matches_at aws_key t s) (let e = s + 20 in
    if starts_with_at t s ''AKIA'' \<and> list_all (\<lambda>c. is_ascii_digit c \<or> is_ascii_uppercase c) (slice t (s + 4) e)
       \<and> boundary_at t s \<and> boundary_at t e then Some e else None)" for s
    by (auto simp: greatest_def matches_aws_key Let_def)
  show "s + 20 \<le> length t" if "matches_at aws_key t s e" for s e
    using that by (simp add: matches_aws_key)
qed (simp add: find_aws_key_def)

lemma slice_nth: "a \<le> i \<Longrightarrow> i < b \<Longrightarrow> b \<le> length t \<Longrightarrow> slice t a b ! (i - a) = t ! i"
  by (simp add: slice_def)

lemma slice_4:
  "s + 4 \<le> length t \<Longrightarrow> slice t s (s + 4) = [t ! s, t ! (s + 1), t ! (s + 2), t ! (s + 3)]"
  by (rule nth_equalityI) (auto simp: slice_def less_Suc_eq numeral_eq_Suc)

lemma slice_2: "s + 2 \<le> length t \<Longrightarrow> slice t s (s + 2) = [t ! s, t ! (s + 1)]"
  by (rule nth_equalityI) (auto simp: slice_def less_Suc_eq numeral_eq_Suc)

lemma github_prefix:
  "s + 4 \<le> length t \<Longrightarrow> (\<exists>c. c \<in> set ''pso'' \<and> starts_with_at t s (''gh'' @ [c, CHR ''_'']))
     \<longleftrightarrow> starts_with_at t s ''gh'' \<and> t ! (s + 2) \<in> set ''pso'' \<and> t ! (s + 3) = CHR ''_''"
  using slice_4 [of s t] slice_2 [of s t] unfolding starts_with_at_def append.simps length_4
  by (auto simp: numeral_2_eq_2)

lemma matches_github_token:
  "matches_at github_token t s e \<longleftrightarrow> (starts_with_at t s ''gh'' \<and> t ! (s + 2) \<in> set ''pso''
       \<and> t ! (s + 3) = CHR ''_'' \<and> boundary_at t s)
     \<and> (s + 4 + 20 \<le> e \<and> e \<le> length t \<and> list_all is_token_body (slice t (s + 4) e) \<and> boundary_at t e)"
proof (cases "s + 4 + 20 \<le> e \<and> e \<le> length t")
  case True
  then have le: "s \<le> e" "e \<le> length t" by simp_all
  have body: "(\<exists>b. slice t s e = (''gh'' @ [c, CHR ''_'']) @ b \<and> 20 \<le> length b \<and> list_all is_token_body b)
      \<longleftrightarrow> starts_with_at t s (''gh'' @ [c, CHR ''_'']) \<and> list_all is_token_body (slice t (s + 4) e)" for c
    unfolding slice_prefix_iff [OF le] using True length_slice [of "s + 4" e t]
    by (simp only: append.simps length_4) auto
  have "github_token (slice t s e) \<longleftrightarrow> (\<exists>c. c \<in> set ''pso''
      \<and> (\<exists>b. slice t s e = (''gh'' @ [c, CHR ''_'']) @ b \<and> 20 \<le> length b \<and> list_all is_token_body b))"
    unfolding github_token_def by blast
  then have "github_token (slice t s e) \<longleftrightarrow> (\<exists>c. c \<in> set ''pso'' \<and> starts_with_at t s (''gh'' @ [c, CHR ''_'']))
      \<and> list_all is_token_body (slice t (s + 4) e)"
    unfolding body by blast
  moreover have "s + 4 \<le> length t"
    using True by simp
  ultimately show ?thesis
    unfolding matches_at_def using github_prefix [of s t] True le by blast
next
  case False
  have "s + 24 \<le> e" if "github_token (slice t s e)" "s \<le> e" "e \<le> length t"
    using that length_slice [of s e t] by (auto simp: github_token_def)
  with False show ?thesis
    by (auto simp: matches_at_def)
qed

lemma find_github_token_exact: "leftmost_longest github_token find_github_token t start"
proof (rule leftmost_longest_scan [where k = 4 and f = "\<lambda>s. if starts_with_at t s ''gh'' \<and> t ! (s + 2) \<in> set ''pso''
    \<and> t ! (s + 3) = CHR ''_'' \<and> boundary_at t s then class_run t (s + 4) 20 is_token_body else None"])
  show "greatest (matches_at github_token t s) (if starts_with_at t s ''gh'' \<and> t ! (s + 2) \<in> set ''pso''
    \<and> t ! (s + 3) = CHR ''_'' \<and> boundary_at t s then class_run t (s + 4) 20 is_token_body else None)"
    if "s + 4 \<le> length t" for s
    by (rule greatest_if [OF matches_github_token greatest_class_run]) simp
  show "s + 4 \<le> length t" if "matches_at github_token t s e" for s e
    using that by (simp add: matches_github_token)
qed (simp add: find_github_token_def)

lemma matches_long_hex_run:
  "matches_at long_hex_run t s e \<longleftrightarrow> boundary_at t s
     \<and> (s + 32 \<le> e \<and> e \<le> length t \<and> list_all is_ascii_hexdigit (slice t s e) \<and> boundary_at t e)"
  using length_slice [of s e t] by (auto simp: matches_at_def long_hex_run_def)

lemma find_long_hex_run_exact: "leftmost_longest long_hex_run find_long_hex_run t start"
proof (cases "length t < start + 32")
  case True
  then show ?thesis
    by (auto simp: leftmost_longest_def find_long_hex_run_def matches_long_hex_run)
next
  case False
  show ?thesis
  proof (rule leftmost_longest_scan [where k = 1 and f = "\<lambda>s. if boundary_at t s then class_run t s 32 is_ascii_hexdigit else None"])
    show "greatest (matches_at long_hex_run t s) (if boundary_at t s then class_run t s 32 is_ascii_hexdigit else None)" for s
      by (rule greatest_if [OF matches_long_hex_run greatest_class_run]) simp
    show "s + 1 \<le> length t" if "matches_at long_hex_run t s e" for s e
      using that by (simp add: matches_long_hex_run)
  qed (use False in \<open>simp add: find_long_hex_run_def\<close>)
qed

lemma matches_long_base64_run:
  "matches_at long_base64_run t s e \<longleftrightarrow> boundary_at t s \<and> boundary_at t e \<and> e \<le> length t
     \<and> (\<exists>x. s + 40 \<le> x \<and> x \<le> run_end t s is_base64_body \<and> x \<le> e \<and> e \<le> x + 2
          \<and> list_all (\<lambda>c. c = CHR ''='') (slice t x e))"
proof (cases "s \<le> e \<and> e \<le> length t")
  case True
  then have le: "s \<le> e" "e \<le> length t" by simp_all
  have "long_base64_run (slice t s e) \<longleftrightarrow>
      (\<exists>x. s + 40 \<le> x \<and> x \<le> run_end t s is_base64_body \<and> x \<le> e \<and> e \<le> x + 2 \<and> list_all (\<lambda>c. c = CHR ''='') (slice t x e))"
    (is "?l \<longleftrightarrow> ?r")
  proof
    assume ?l
    then obtain b k where b: "slice t s e = b @ replicate k (CHR ''='')" "k \<le> 2" "40 \<le> length b" "list_all is_base64_body b"
      by (auto simp: long_base64_run_def)
    then have "s + length b \<le> e" "slice t s (s + length b) = b" "slice t (s + length b) e = replicate k (CHR ''='')"
      using slice_append [OF le, of b] by auto
    moreover from this have "e \<le> s + length b + 2"
      using b(2) length_slice [of "s + length b" e t] le by simp
    moreover have "s + length b \<le> run_end t s is_base64_body"
      using list_all_slice_run [of s "s + length b" t is_base64_body] calculation(1,2) b(4) le by simp
    ultimately show ?r
      using b(3) by (intro exI [of _ "s + length b"]) (auto simp: list_all_iff)
  next
    assume ?r
    then obtain x where x: "s + 40 \<le> x" "x \<le> run_end t s is_base64_body" "x \<le> e" "e \<le> x + 2"
      "list_all (\<lambda>c. c = CHR ''='') (slice t x e)"
      by blast
    have "slice t s e = slice t s x @ slice t x e"
      using slice_append [OF le, of "slice t s x" "slice t x e"] x(1,3) le by (simp add: length_slice)
    moreover have "slice t x e = replicate (e - x) (CHR ''='')"
      using x(5) length_slice [of x e t] x(3) le by (simp add: list_all_iff replicate_eqI)
    moreover have "list_all is_base64_body (slice t s x)"
      using list_all_slice_run [of s x t is_base64_body] x le by simp
    moreover have "40 \<le> length (slice t s x)" "e - x \<le> 2"
      using x le by (simp_all add: length_slice)
    ultimately show ?l
      unfolding long_base64_run_def by (metis (no_types, lifting))
  qed
  with True show ?thesis
    by (auto simp: matches_at_def)
qed (auto simp: matches_at_def)

lemma padded_end_Some:
  "padded_end t x = Some e \<Longrightarrow> x \<le> e \<and> e \<le> x + 2 \<and> e \<le> length t \<and> list_all (\<lambda>c. c = CHR ''='') (slice t x e) \<and> boundary_at t e
     \<and> (\<forall>e'. e < e' \<longrightarrow> e' \<le> x + 2 \<longrightarrow> \<not> (e' \<le> length t \<and> list_all (\<lambda>c. c = CHR ''='') (slice t x e') \<and> boundary_at t e'))"
  by (auto simp: padded_end_def le_Suc_eq numeral_2_eq_2 split: if_splits)

lemma padded_end_None:
  "padded_end t x = None \<Longrightarrow> x \<le> e \<Longrightarrow> e \<le> x + 2 \<Longrightarrow>
     \<not> (e \<le> length t \<and> list_all (\<lambda>c. c = CHR ''='') (slice t x e) \<and> boundary_at t e)"
  by (auto simp: padded_end_def le_Suc_eq numeral_2_eq_2 split: if_splits)

lemma is_base64_body_not_pad: "is_base64_body c \<Longrightarrow> c \<noteq> CHR ''=''"
  by (auto simp: is_base64_body_def ascii_defs)

definition base64_end :: "string \<Rightarrow> nat \<Rightarrow> nat \<Rightarrow> nat \<Rightarrow> bool" where
  "base64_end t s x e \<longleftrightarrow> s + 40 \<le> x \<and> x \<le> run_end t s is_base64_body \<and> x \<le> e \<and> e \<le> x + 2
     \<and> list_all (\<lambda>c. c = CHR ''='') (slice t x e) \<and> e \<le> length t \<and> boundary_at t e"

lemma base64_end_longest:
  assumes "padded_end t x = Some e" and "s + 40 \<le> x" and "x \<le> run_end t s is_base64_body"
    and later: "\<forall>y. x < y \<longrightarrow> y \<le> run_end t s is_base64_body \<longrightarrow> padded_end t y = None"
    and other: "base64_end t s y e'"
  shows "e' \<le> e"
proof (rule ccontr)
  assume "\<not> e' \<le> e"
  have y: "s + 40 \<le> y" "y \<le> run_end t s is_base64_body" "y \<le> e'" "e' \<le> y + 2" "e' \<le> length t"
    "list_all (\<lambda>c. c = CHR ''='') (slice t y e')" "boundary_at t e'"
    using other by (simp_all add: base64_end_def)
  have "padded_end t y \<noteq> None"
    using padded_end_None [of t y e'] y by blast
  then have "y \<le> x"
    using later y(2) by (meson not_le)
  moreover have "x \<le> e"
    using padded_end_Some [OF assms(1)] by simp
  ultimately have "y \<noteq> x \<Longrightarrow> t ! y = CHR ''='' \<and> is_base64_body (t ! y)"
    using y run_end_member [of s y t is_base64_body] assms(3) \<open>\<not> e' \<le> e\<close>
      slice_nth [of y y e' t] nth_mem [of 0 "slice t y e'"] length_slice [of y e' t]
    by (auto simp: list_all_iff)
  then have "y = x"
    using is_base64_body_not_pad by blast
  then show False
    using padded_end_Some [OF assms(1)] y \<open>\<not> e' \<le> e\<close> by (metis not_le)
qed

lemma greatest_base64_end:
  "greatest (\<lambda>e. \<exists>x. base64_end t s x e) (back_off (padded_end t) (s + 40) (run_end t s is_base64_body))"
proof (cases "back_off (padded_end t) (s + 40) (run_end t s is_base64_body)")
  case None
  then show ?thesis
    using back_off_None [OF None] padded_end_None by (auto simp: greatest_def base64_end_def)
next
  case (Some e)
  from back_off_Some [OF this] obtain x where x: "s + 40 \<le> x" "x \<le> run_end t s is_base64_body" "padded_end t x = Some e"
    "\<forall>y. x < y \<longrightarrow> y \<le> run_end t s is_base64_body \<longrightarrow> padded_end t y = None"
    by blast
  have "base64_end t s x e"
    using padded_end_Some [OF x(3)] x(1,2) by (simp add: base64_end_def)
  then show ?thesis
    using base64_end_longest [OF x(3,1,2,4)] Some by (fastforce simp: greatest_def dest: leD)
qed

lemma greatest_long_base64_run:
  "greatest (matches_at long_base64_run t s) (if boundary_at t s \<and> is_base64_body (t ! s)
     then back_off (padded_end t) (s + 40) (run_end t s is_base64_body) else None)"
proof (rule greatest_if [OF _ greatest_base64_end])
  show "matches_at long_base64_run t s e \<longleftrightarrow>
      (boundary_at t s \<and> is_base64_body (t ! s)) \<and> (\<exists>x. base64_end t s x e)" for e
    using run_end_member [of s s t is_base64_body] by (auto simp: matches_long_base64_run base64_end_def)
qed

lemma find_long_base64_run_exact: "leftmost_longest long_base64_run find_long_base64_run t start"
proof (cases "length t < start + 40")
  case True
  have "\<not> matches_at long_base64_run t s e" if "start \<le> s" for s e
    using that True by (auto simp: matches_long_base64_run)
  with True show ?thesis
    by (simp add: leftmost_longest_def find_long_base64_run_def)
next
  case False
  show ?thesis
  proof (rule leftmost_longest_scan [where k = 1, OF greatest_long_base64_run])
    show "s + 1 \<le> length t" if "matches_at long_base64_run t s e" for s e
      using that by (auto simp: matches_long_base64_run)
  qed (use False in \<open>simp add: find_long_base64_run_def\<close>)
qed

subsection \<open>White space and the bearer pattern\<close>

lemma digits_64:
  assumes "b < 64" and "c < 64" and v: "v = a * 4096 + b * 64 + c"
  shows "a = v div 4096 \<and> b = v div 64 mod 64 \<and> c = v mod (64::nat)"
proof -
  have q: "v div 64 = a * 64 + b" and "v div 4096 = a"
    using assms by (auto intro!: div_nat_eqI)
  moreover have "(a * 64 + b) mod 64 = b"
    using assms(1) by simp
  moreover have "v mod 64 = v - v div 64 * 64"
    by (simp add: minus_div_mult_eq_mod)
  ultimately show ?thesis
    using v by simp
qed

definition JS_SPACES :: "nat list" where
  "JS_SPACES = [0x9, 0xa, 0xb, 0xc, 0xd, 0x20, 0xa0, 0x1680, 0x2000, 0x2001, 0x2002, 0x2003, 0x2004, 0x2005, 0x2006,
     0x2007, 0x2008, 0x2009, 0x200a, 0x2028, 0x2029, 0x202f, 0x205f, 0x3000, 0xfeff]"

lemma upt_space_ranges:
  "[9..<14] = [9, 10, 11, 12, 13]"
  "[8192..<8203] = [8192, 8193, 8194, 8195, 8196, 8197, 8198, 8199, 8200, 8201, 8202]"
  by simp_all

lemma is_js_space_member: "is_js_space c \<Longrightarrow> c \<in> set JS_SPACES"
proof -
  assume "is_js_space c"
  then have "c \<in> set [9..<14] \<or> c \<in> set [8192..<8203]
      \<or> c \<in> {0x20, 0xa0, 0x1680, 0x2028, 0x2029, 0x202f, 0x205f, 0x3000, 0xfeff}"
    unfolding is_js_space_def set_upt atLeastLessThan_iff insert_iff empty_iff by linarith
  then show ?thesis
    unfolding upt_space_ranges JS_SPACES_def by (simp only: list.set insert_iff empty_iff) blast
qed

lemma js_spaces_encoded:
  "list_all (\<lambda>v. (if v < 0x80 then [v] else if v < 0x800 then [v div 64 mod 64 + 0xC0, v mod 64 + 0x80]
     else [v div 4096 + 0xE0, v div 64 mod 64 + 0x80, v mod 64 + 0x80]) \<in> set JS_SPACE_BYTES) JS_SPACES"
  by (simp add: JS_SPACES_def JS_SPACE_BYTES_def)

lemma js_space_bytes_decoded:
  "list_all (\<lambda>bs. if hd bs < 0x80 then is_js_space (hd bs) \<and> length bs = 1
     else lead_width (hd bs) = length bs \<and> (case decode_scalar bs of Some v \<Rightarrow> is_js_space v | None \<Rightarrow> False)) JS_SPACE_BYTES"
  by (simp add: JS_SPACE_BYTES_def is_js_space_def lead_width_def is_continuation_def)

lemma js_space_encoded:
  assumes "is_js_space v"
  shows "v < 0x80 \<Longrightarrow> [v] \<in> set JS_SPACE_BYTES"
    and "\<not> v < 0x80 \<Longrightarrow> v < 0x800 \<Longrightarrow> [v div 64 mod 64 + 0xC0, v mod 64 + 0x80] \<in> set JS_SPACE_BYTES"
    and "0x800 \<le> v \<Longrightarrow> [v div 4096 + 0xE0, v div 64 mod 64 + 0x80, v mod 64 + 0x80] \<in> set JS_SPACE_BYTES"
  using js_spaces_encoded [unfolded list_all_iff, THEN bspec, OF is_js_space_member [OF assms]]
  by (simp_all split: if_splits)

lemma decode_space_3:
  assumes "decode_scalar [a, b, c] = Some v" and "is_js_space v"
  shows "[a, b, c] \<in> set JS_SPACE_BYTES"
proof -
  have v: "0xE0 \<le> a" "is_continuation b" "is_continuation c" "v = (a - 0xE0) * 4096 + (b - 0x80) * 64 + (c - 0x80)" "0x800 \<le> v"
    using assms(1) by (auto simp: Let_def split: if_splits)
  have "b - 0x80 < 64" "c - 0x80 < 64" "0x80 \<le> b" "0x80 \<le> c"
    using v(2,3) by (auto simp: is_continuation_def)
  from digits_64 [OF this(1,2) v(4)] this v(1)
  have "a = v div 4096 + 0xE0" "b = v div 64 mod 64 + 0x80" "c = v mod 64 + 0x80"
    by linarith+
  then show ?thesis
    using js_space_encoded(3) [OF assms(2) v(5)] by simp
qed

lemma decode_space_2:
  assumes "decode_scalar [a, b] = Some v" and "is_js_space v"
  shows "[a, b] \<in> set JS_SPACE_BYTES"
proof -
  have v: "0xC2 \<le> a" "a \<le> 0xDF" "is_continuation b" "v = 0 * 4096 + (a - 0xC0) * 64 + (b - 0x80)"
    using assms(1) by (auto split: if_splits)
  have "a - 0xC0 < 64" "b - 0x80 < 64" "0x80 \<le> b"
    using v(2,3) by (auto simp: is_continuation_def)
  from digits_64 [OF this(1,2) v(4)] this v(1)
  have "a = v div 64 mod 64 + 0xC0" "b = v mod 64 + 0x80"
    by linarith+
  moreover have "v < 0x800" "\<not> v < 0x80"
    using v \<open>a - 0xC0 < 64\<close> \<open>b - 0x80 < 64\<close> by linarith+
  ultimately show ?thesis
    using js_space_encoded(2) [OF assms(2)] by simp
qed

lemma decode_space_4: "decode_scalar [a, b, c, d] = Some v \<Longrightarrow> \<not> is_js_space v"
  by (auto simp: Let_def is_js_space_def split: if_splits)

lemma js_space_len_sound:
  assumes "index < length t" and "0 < js_space_len t index"
  shows "index + js_space_len t index \<le> length t \<and> js_space (slice t index (index + js_space_len t index))"
proof (cases "byte (t ! index) < 0x80")
  case True
  then have "js_space_len t index = 1" "is_js_space (byte (t ! index))"
    using assms(2) by (auto simp: js_space_len_def Let_def split: if_splits)
  moreover have "slice t index (index + 1) = [t ! index]"
    using assms(1) by (simp add: slice_def take_Suc_conv_app_nth)
  ultimately show ?thesis
    using js_space_encoded(1) True assms(1) by (simp add: js_space_def)
next
  case False
  define w where "w = js_space_len t index"
  obtain v where v: "decode_scalar (map byte (slice t index (index + w))) = Some v" "is_js_space v"
    "index + w \<le> length t" "w = 2 \<or> w = 3 \<or> w = 4"
    using assms(2) False unfolding w_def
    by (auto simp: js_space_len_def lead_width_def Let_def split: if_splits option.splits)
  have "length (slice t index (index + w)) = w"
    using v(3) by (simp add: length_slice)
  then have "(\<exists>a b. map byte (slice t index (index + w)) = [a, b])
      \<or> (\<exists>a b c. map byte (slice t index (index + w)) = [a, b, c])
      \<or> (\<exists>a b c d. map byte (slice t index (index + w)) = [a, b, c, d])"
    using v(4) by (auto simp: numeral_eq_Suc length_Suc_conv)
  then show ?thesis
    using v decode_space_2 decode_space_3 decode_space_4 unfolding w_def [symmetric] js_space_def by metis
qed

lemma js_space_len_complete:
  assumes "starts_with_at t index x" and "js_space x"
  shows "js_space_len t index = length x"
proof -
  have x: "index + length x \<le> length t" "slice t index (index + length x) = x" "map byte x \<in> set JS_SPACE_BYTES"
    using assms by (auto simp: starts_with_at_def js_space_def)
  have "x \<noteq> []"
    using x(3) by (auto simp: JS_SPACE_BYTES_def)
  then have first: "byte (t ! index) = hd (map byte x)"
    using x(1,2) slice_nth [of index index "index + length x" t] by (cases x) (auto simp: slice_def)
  have bytes: "if hd (map byte x) < 0x80 then is_js_space (hd (map byte x)) \<and> length (map byte x) = 1
     else lead_width (hd (map byte x)) = length (map byte x)
       \<and> (case decode_scalar (map byte x) of Some v \<Rightarrow> is_js_space v | None \<Rightarrow> False)"
    using js_space_bytes_decoded x(3) unfolding list_all_iff by blast
  show ?thesis
  proof (cases "hd (map byte x) < 0x80")
    case True
    with bytes first show ?thesis
      by (simp add: js_space_len_def)
  next
    case False
    with bytes obtain v where "lead_width (hd (map byte x)) = length x" "decode_scalar (map byte x) = Some v" "is_js_space v"
      by (auto split: option.splits)
    with False first x(1,2) \<open>x \<noteq> []\<close> show ?thesis
      unfolding js_space_len_def Let_def first by simp
  qed
qed

lemma bearer_body_no_space:
  "index < length t \<Longrightarrow> is_bearer_body (t ! index) \<Longrightarrow> js_space_len t index = 0"
  by (auto simp: js_space_len_def Let_def is_js_space_def is_bearer_body_def ascii_defs lead_width_def)

lemma js_space_ne: "js_space x \<Longrightarrow> x \<noteq> []"
  by (auto simp: js_space_def JS_SPACE_BYTES_def)

lemma slice_split: "a \<le> b \<Longrightarrow> b \<le> c \<Longrightarrow> c \<le> length t \<Longrightarrow> slice t a c = slice t a b @ slice t b c"
  using slice_append [of a c t "slice t a b" "slice t b c"] by (simp add: length_slice)

lemma skip_js_spaces_concat:
  "cursor \<le> length t \<Longrightarrow> cursor \<le> skip_js_spaces t cursor \<and> skip_js_spaces t cursor \<le> length t
     \<and> (\<exists>spaces. list_all js_space spaces \<and> slice t cursor (skip_js_spaces t cursor) = concat spaces)"
proof (induction t cursor rule: skip_js_spaces.induct)
  case (1 t cursor)
  define w where "w = js_space_len t cursor"
  show ?case
  proof (cases "length t \<le> cursor \<or> w = 0")
    case True
    then have "skip_js_spaces t cursor = cursor"
      by (subst skip_js_spaces.simps) (auto simp: w_def Let_def)
    with 1(2) show ?thesis
      by (auto simp: slice_def intro: exI [of _ "[]"])
  next
    case False
    then have next_cursor: "skip_js_spaces t cursor = skip_js_spaces t (cursor + w)"
      by (subst skip_js_spaces.simps) (auto simp: w_def Let_def)
    have w: "cursor + w \<le> length t" "js_space (slice t cursor (cursor + w))"
      using js_space_len_sound [of cursor t] False by (auto simp: w_def)
    with 1(1) [of w] False obtain spaces where spaces: "list_all js_space spaces"
        "slice t (cursor + w) (skip_js_spaces t (cursor + w)) = concat spaces"
        "cursor + w \<le> skip_js_spaces t (cursor + w)" "skip_js_spaces t (cursor + w) \<le> length t"
      by (auto simp: w_def)
    then have "slice t cursor (skip_js_spaces t (cursor + w)) = concat (slice t cursor (cursor + w) # spaces)"
      using slice_split [of cursor "cursor + w" "skip_js_spaces t (cursor + w)" t] by simp
    with spaces w show ?thesis
      unfolding next_cursor by (intro conjI exI [of _ "slice t cursor (cursor + w) # spaces"]) auto
  qed
qed

lemma skip_js_spaces_unique:
  assumes "list_all js_space spaces" and "starts_with_at t cursor (concat spaces @ [c])" and "is_bearer_body c"
  shows "skip_js_spaces t cursor = cursor + length (concat spaces)"
  using assms
proof (induction spaces arbitrary: cursor)
  case Nil
  then have "cursor < length t" "t ! cursor = c"
    using slice_nth [of cursor cursor "cursor + 1" t] by (auto simp: starts_with_at_def)
  then show ?case
    using bearer_body_no_space [of cursor t] Nil(3) by (subst skip_js_spaces.simps) simp
next
  case (Cons x spaces)
  let ?m = "cursor + length x"
  have range: "cursor + length (concat (x # spaces) @ [c]) \<le> length t"
    and whole: "slice t cursor (cursor + length (concat (x # spaces) @ [c])) = x @ concat spaces @ [c]"
    using Cons.prems(2) by (simp_all add: starts_with_at_def)
  then have parts: "slice t cursor ?m = x" "slice t ?m (cursor + length (concat (x # spaces) @ [c])) = concat spaces @ [c]"
    using slice_append [of cursor "cursor + length (concat (x # spaces) @ [c])" t x "concat spaces @ [c]"] by simp_all
  then have "starts_with_at t cursor x" "starts_with_at t ?m (concat spaces @ [c])"
    using range by (simp_all add: starts_with_at_def add.assoc)
  moreover have "js_space x" "list_all js_space spaces"
    using Cons.prems(1) by simp_all
  moreover have "cursor < length t"
    using range by simp
  ultimately show ?case
    using Cons.IH Cons.prems(3) js_space_len_complete js_space_ne [of x]
    by (subst skip_js_spaces.simps) (simp add: Let_def add.assoc)
qed

lemma starts_with_ignore_case_iff:
  "starts_with_ignore_case t s p \<longleftrightarrow> s + length p \<le> length t \<and> list_all2 byte_eq_ignore_case (slice t s (s + length p)) p
     \<or> p = []"
  by (cases "p = []")
    (auto simp: starts_with_ignore_case_def list_all_iff list_all2_conv_all_nth slice_def
      dest: bspec [of _ _ "length p - 1"])

lemma length_6: "length [a, b, c, d, e, f] = 6"
  by simp

lemma starts_with_bearer:
  "starts_with_ignore_case t s ''Bearer'' \<longleftrightarrow> s + 6 \<le> length t \<and> list_all2 byte_eq_ignore_case (slice t s (s + 6)) ''Bearer''"
  unfolding starts_with_ignore_case_iff length_6 by blast

lemma matches_bearer_token:
  "matches_at bearer_token t s e \<longleftrightarrow> (starts_with_ignore_case t s ''Bearer'' \<and> boundary_at t s \<and> s + 6 < skip_js_spaces t (s + 6))
     \<and> (skip_js_spaces t (s + 6) + 12 \<le> e \<and> e \<le> length t \<and> list_all is_bearer_body (slice t (skip_js_spaces t (s + 6)) e)
          \<and> boundary_at t e)"
  (is "?l \<longleftrightarrow> ?r")
proof
  assume ?l
  then have le: "s \<le> e" "e \<le> length t" and edges: "boundary_at t s" "boundary_at t e"
    by (auto simp: matches_at_def)
  from \<open>?l\<close> obtain w spaces b where m: "slice t s e = w @ concat spaces @ b" "list_all2 byte_eq_ignore_case w ''Bearer''"
    "spaces \<noteq> []" "list_all js_space spaces" "12 \<le> length b" "list_all is_bearer_body b"
    by (auto simp: matches_at_def bearer_token_def)
  have w: "length w = 6"
    using list_all2_lengthD [OF m(2)] by simp
  have 1: "s + 6 \<le> e" "slice t s (s + 6) = w" "slice t (s + 6) e = concat spaces @ b"
    using slice_append [OF le, of w] m(1) w by auto
  then have 2: "s + 6 + length (concat spaces) \<le> e" "slice t (s + 6) (s + 6 + length (concat spaces)) = concat spaces"
      "slice t (s + 6 + length (concat spaces)) e = b"
    using slice_append [of "s + 6" e t "concat spaces"] le by auto
  obtain c b' where b: "b = c # b'" "is_bearer_body c"
    using m(5,6) by (cases b) auto
  have "starts_with_at t (s + 6) (concat spaces @ [c])"
    using slice_append [of "s + 6" e t "concat spaces @ [c]" b'] 1 b le by (simp add: starts_with_at_def)
  from skip_js_spaces_unique [OF m(4) this b(2)]
  have skip: "skip_js_spaces t (s + 6) = s + 6 + length (concat spaces)" .
  have "0 < length (concat spaces)"
    using m(3,4) js_space_ne by (cases spaces) auto
  moreover have "length b = e - (s + 6 + length (concat spaces))"
    using 2 le length_slice by blast
  ultimately show ?r
    using skip 2 m(2,5,6) le edges 1 by (auto simp: starts_with_bearer)
next
  assume ?r
  then have cursor: "s + 6 \<le> length t" "list_all2 byte_eq_ignore_case (slice t s (s + 6)) ''Bearer''"
    by (auto simp: starts_with_bearer)
  obtain spaces where spaces: "list_all js_space spaces" "slice t (s + 6) (skip_js_spaces t (s + 6)) = concat spaces"
    using skip_js_spaces_concat [OF cursor(1)] by blast
  have "slice t s e = slice t s (s + 6) @ slice t (s + 6) (skip_js_spaces t (s + 6)) @ slice t (skip_js_spaces t (s + 6)) e"
    using slice_split [of s "s + 6" e t] slice_split [of "s + 6" "skip_js_spaces t (s + 6)" e t] \<open>?r\<close> by auto
  moreover have "spaces \<noteq> []"
    using spaces(2) \<open>?r\<close> skip_js_spaces_concat [OF cursor(1)] length_slice [of "s + 6" "skip_js_spaces t (s + 6)" t] by auto
  moreover have "12 \<le> length (slice t (skip_js_spaces t (s + 6)) e)"
    using \<open>?r\<close> by (auto simp: length_slice)
  ultimately have "bearer_token (slice t s e)"
    using cursor(2) spaces \<open>?r\<close> unfolding bearer_token_def by metis
  then show ?l
    using \<open>?r\<close> by (auto simp: matches_at_def)
qed

lemma bearer_first: "starts_with_ignore_case t s ''Bearer'' \<Longrightarrow> byte_eq_ignore_case (t ! s) (CHR ''B'')"
  by (simp add: starts_with_ignore_case_def)

lemma find_bearer_token_exact: "leftmost_longest bearer_token find_bearer_token t start"
proof (rule leftmost_longest_scan [where k = 6 and f = "\<lambda>s. if starts_with_ignore_case t s ''Bearer'' \<and> boundary_at t s
    \<and> s + 6 < skip_js_spaces t (s + 6) then class_run t (skip_js_spaces t (s + 6)) 12 is_bearer_body else None"])
  show "greatest (matches_at bearer_token t s) (if starts_with_ignore_case t s ''Bearer'' \<and> boundary_at t s
    \<and> s + 6 < skip_js_spaces t (s + 6) then class_run t (skip_js_spaces t (s + 6)) 12 is_bearer_body else None)" for s
    by (rule greatest_if [OF matches_bearer_token greatest_class_run]) simp
  show "s + 6 \<le> length t" if "matches_at bearer_token t s e" for s e
    using that by (auto simp: matches_bearer_token starts_with_bearer)
  show "find_bearer_token t start = scan_starts (length t) 6 (\<lambda>s. if starts_with_ignore_case t s ''Bearer''
      \<and> boundary_at t s \<and> s + 6 < skip_js_spaces t (s + 6)
      then class_run t (skip_js_spaces t (s + 6)) 12 is_bearer_body else None) start"
    unfolding find_bearer_token_def Let_def
    by (rule arg_cong [where f = "\<lambda>f. scan_starts (length t) 6 f start"]) (auto simp: fun_eq_iff dest: bearer_first)
qed

subsection \<open>Replacements create no matches\<close>

text \<open>
  A suffix of the text is seen with the class of the byte before it: \<open>word_before\<close> and
  \<open>word_after\<close> are the two sides of a boundary.
\<close>

definition word_before :: "bool \<Rightarrow> string \<Rightarrow> bool" where
  "word_before l u = (if u = [] then l else is_word_byte (last u))"

definition word_after :: "string \<Rightarrow> bool" where
  "word_after v \<longleftrightarrow> v \<noteq> [] \<and> is_word_byte (hd v)"

lemma word_before_simps [simp]:
  "word_before l [] = l"
  "word_before l (u @ [c]) = is_word_byte c"
  "v \<noteq> [] \<Longrightarrow> word_before l (u @ v) = word_before l' v"
  by (auto simp: word_before_def)

lemma word_before_append: "word_before l (u @ v) = word_before (word_before l u) v"
  by (simp add: word_before_def)

lemma word_after_simps [simp]:
  "\<not> word_after []"
  "word_after (c # v) = is_word_byte c"
  by (simp_all add: word_after_def)

lemma word_after_append: "word_after (u @ v) = (if u = [] then word_after v else word_after u)"
  by (simp add: word_after_def)

lemma boundary_at_split: "boundary_at t i \<longleftrightarrow> word_before False (take i t) \<noteq> word_after (drop i t)" if "i \<le> length t"
  using that
  by (cases i) (auto simp: boundary_at_def Let_def word_before_def word_after_def hd_drop_conv_nth hd_conv_nth last_conv_nth take_Suc_conv_app_nth)

definition occurs :: "(string \<Rightarrow> bool) \<Rightarrow> bool \<Rightarrow> string \<Rightarrow> bool" where
  "occurs lang l t \<longleftrightarrow> (\<exists>u m v. t = u @ m @ v \<and> lang m
     \<and> word_before l u \<noteq> word_after (m @ v) \<and> word_before l (u @ m) \<noteq> word_after v)"

definition secret_lang :: "(string \<Rightarrow> bool) \<Rightarrow> bool" where
  "secret_lang lang \<longleftrightarrow> (\<forall>m. lang m \<longrightarrow> 8 \<le> length m \<and> CHR ''<'' \<notin> set m \<and> CHR ''>'' \<notin> set m
     \<and> byte (hd m) < 0x80 \<and> byte (last m) < 0x80)"

lemma matches_at_occurs:
  assumes "matches_at lang t s e" and "start \<le> s"
  shows "occurs lang (word_before False (take start t)) (drop start t)"
proof -
  have le: "s \<le> e" "e \<le> length t" "lang (slice t s e)" "boundary_at t s" "boundary_at t e"
    using assms(1) by (auto simp: matches_at_def)
  have parts: "drop start t = slice t start s @ slice t s e @ drop e t"
    using slice_split [of start s "length t" t] slice_split [of s e "length t" t] le assms(2) by (simp add: slice_def)
  have "take s t = take start t @ slice t start s" "take e t = take s t @ slice t s e" "drop s t = slice t s e @ drop e t"
    using slice_split [of 0 start s t] slice_split [of 0 s e t] slice_split [of s e "length t" t] le assms(2)
    by (simp_all add: slice_def)
  with le have "word_before (word_before False (take start t)) (slice t start s) \<noteq> word_after (slice t s e @ drop e t)"
    "word_before (word_before False (take start t)) (slice t start s @ slice t s e) \<noteq> word_after (drop e t)"
    by (simp_all add: boundary_at_split word_before_append)
  with parts le(3) show ?thesis
    unfolding occurs_def by blast
qed

lemma occurs_matches_at:
  assumes "start \<le> length t" and "drop start t = u @ m @ v" and "lang m"
    and "word_before (word_before False (take start t)) u \<noteq> word_after (m @ v)"
    and "word_before (word_before False (take start t)) (u @ m) \<noteq> word_after v"
  shows "matches_at lang t (start + length u) (start + length u + length m)"
proof -
  have t: "t = take start t @ u @ m @ v"
    using assms(2) by (metis append_take_drop_id)
  have len: "start + length u + length m \<le> length t"
    using t assms(1) by (metis add.assoc le_add1 length_append length_take min_absorb2)
  have drop_u: "drop (start + length u) t = m @ v"
    using arg_cong [OF assms(2), of "drop (length u)"] by (simp add: add.commute)
  moreover have "drop (start + length u + length m) t = v"
    using arg_cong [OF drop_u, of "drop (length m)"] by (simp add: ac_simps)
  moreover have "take (start + length u) t = take start t @ u"
    using assms(2) by (simp add: take_add)
  moreover from this drop_u have "take (start + length u + length m) t = take start t @ u @ m"
    by (simp add: take_add [of "start + length u"])
  ultimately have "take (start + length u) t = take start t @ u" "drop (start + length u) t = m @ v"
    "take (start + length u + length m) t = take start t @ u @ m" "drop (start + length u + length m) t = v"
    by blast+
  then show ?thesis
    using assms(3-5) len by (simp add: matches_at_def boundary_at_split slice_def word_before_append)
qed

text \<open>
  What a pass does to a suffix: it keeps a stretch in which no match of its own pattern starts,
  replaces a stretch between two boundaries, and goes on, or keeps a rest without a match.
\<close>

inductive redacted :: "(string \<Rightarrow> bool) \<Rightarrow> bool \<Rightarrow> string \<Rightarrow> string \<Rightarrow> bool" for own where
  kept: "\<not> occurs own l t \<Longrightarrow> redacted own l t t"
| replaced: "redacted own (word_before l (a @ s)) b b' \<Longrightarrow> s \<noteq> [] \<Longrightarrow> word_before l a \<noteq> word_after (s @ b)
     \<Longrightarrow> word_before l (a @ s) \<noteq> word_after b
     \<Longrightarrow> (\<And>u m v. a @ s @ b = u @ m @ v \<Longrightarrow> own m \<Longrightarrow> word_before l u \<noteq> word_after (m @ v)
          \<Longrightarrow> word_before l (u @ m) \<noteq> word_after v \<Longrightarrow> length a \<le> length u)
     \<Longrightarrow> redacted own l (a @ s @ b) (a @ SECRET_REPLACEMENT @ b')"

lemma split_at_char:
  assumes "u @ m @ v = a @ c # w" and "c \<notin> set m" and "m \<noteq> []"
  shows "(\<exists>v'. a = u @ m @ v' \<and> v = v' @ c # w) \<or> (\<exists>u'. u = a @ c # u' \<and> w = u' @ m @ v)"
proof -
  from assms(1) consider x where "u = a @ x" "x @ m @ v = c # w" | x where "a = u @ x" "m @ v = x @ c # w"
    by (auto simp: append_eq_append_conv2)
  then show ?thesis
  proof cases
    case 1
    with assms(2,3) show ?thesis
      by (cases x; cases m) auto
  next
    case 2
    from 2(2) consider y where "m = x @ y" "y @ v = c # w" | y where "x = m @ y" "v = y @ c # w"
      by (auto simp: append_eq_append_conv2)
    then show ?thesis
    proof cases
      case (1 y)
      with 2 assms(2,3) show ?thesis
        by (cases y) auto
    next
      case (2 y)
      with \<open>a = u @ x\<close> show ?thesis
        by auto
    qed
  qed
qed

lemma split_at_replacement:
  assumes "u @ m @ v = a @ SECRET_REPLACEMENT @ b" and "secret_lang lang" and "lang m"
  shows "(\<exists>v'. a = u @ m @ v' \<and> v = v' @ SECRET_REPLACEMENT @ b)
     \<or> (\<exists>u'. u = a @ SECRET_REPLACEMENT @ u' \<and> b = u' @ m @ v)"
proof -
  have m: "8 \<le> length m" "CHR ''<'' \<notin> set m" "CHR ''>'' \<notin> set m" "m \<noteq> []"
    using assms(2,3) by (auto simp: secret_lang_def)
  have split: "a @ SECRET_REPLACEMENT @ b = a @ CHR ''<'' # (''secret'' @ CHR ''>'' # b)"
    by (simp add: SECRET_REPLACEMENT_def)
  from split_at_char [OF assms(1) [unfolded split] m(2,4)] show ?thesis
  proof
    assume "\<exists>u'. u = a @ CHR ''<'' # u' \<and> ''secret'' @ CHR ''>'' # b = u' @ m @ v"
    then obtain u' where u': "u = a @ CHR ''<'' # u'" "u' @ m @ v = ''secret'' @ CHR ''>'' # b"
      by auto
    have "\<not> (\<exists>v'. ''secret'' = u' @ m @ v')"
    proof
      assume "\<exists>v'. ''secret'' = u' @ m @ v'"
      then have "length m \<le> length ''secret''"
        by (metis length_append le_add1 le_add2 le_trans)
      with m(1) show False
        by simp
    qed
    with split_at_char [OF u'(2) m(3,4)] u'(1) show ?thesis
      by (auto simp: SECRET_REPLACEMENT_def)
  qed (auto simp: SECRET_REPLACEMENT_def)
qed

text \<open>
  A left context may become a non-word byte where it was a boundary: no further boundary
  arises.
\<close>

definition context_after :: "bool \<Rightarrow> string \<Rightarrow> bool \<Rightarrow> bool" where
  "context_after l t l' \<longleftrightarrow> l' = l \<or> \<not> l' \<and> l \<noteq> word_after t"

lemma context_after_boundary:
  assumes "context_after l (u @ m @ w) l'" and "m \<noteq> []" and "word_before l' u \<noteq> word_after (m @ v)"
  shows "word_before l u \<noteq> word_after (m @ w)"
  using assms by (cases "u = []") (auto simp: context_after_def word_before_def word_after_append)

lemma redacted_occurrence_left:
  assumes "secret_lang lang" and "lang m" and "context_after l ((u @ m @ v') @ s @ b) l'"
    and "word_before l' u \<noteq> word_after (m @ v' @ SECRET_REPLACEMENT @ b')"
    and "word_before l' (u @ m) \<noteq> word_after (v' @ SECRET_REPLACEMENT @ b')"
    and "word_before l (u @ m @ v') \<noteq> word_after (s @ b)"
  shows "word_before l u \<noteq> word_after (m @ v' @ s @ b) \<and> word_before l (u @ m) \<noteq> word_after (v' @ s @ b)"
proof -
  have m: "m \<noteq> []"
    using assms(1,2) by (auto simp: secret_lang_def)
  have "word_before l u \<noteq> word_after (m @ v' @ s @ b)"
    using context_after_boundary [of l u m "v' @ s @ b" l' "v' @ SECRET_REPLACEMENT @ b'"] assms(3,4) m by simp
  moreover have "word_before l (u @ m) \<noteq> word_after (v' @ s @ b)"
  proof (cases "v' = []")
    case True
    then show ?thesis
      using assms(6) by simp
  next
    case False
    then show ?thesis
      using assms(5) m by (simp add: word_after_append word_before_def)
  qed
  ultimately show ?thesis
    by blast
qed

lemma context_after_replacement: "l \<noteq> word_after t \<Longrightarrow> context_after l t False"
  by (simp add: context_after_def)

lemma occurs_suffix: "occurs lang (word_before l a) t \<Longrightarrow> occurs lang l (a @ t)"
  unfolding occurs_def by (metis append.assoc word_before_append)

lemma word_before_replacement: "word_before l (a @ SECRET_REPLACEMENT @ u) = word_before False u"
  by (simp add: word_before_def SECRET_REPLACEMENT_def is_word_byte_def ascii_defs)

lemma redacted_occurs:
  assumes "redacted own l t t'" and "secret_lang lang" and "context_after l t l'" and "occurs lang l' t'"
  shows "occurs lang l t"
  using assms
proof (induction arbitrary: l' rule: redacted.induct)
  case (kept l t)
  then obtain u m v where "t = u @ m @ v" "lang m" "word_before l' u \<noteq> word_after (m @ v)"
      "word_before l' (u @ m) \<noteq> word_after v"
    by (auto simp: occurs_def)
  moreover from this have "m \<noteq> []"
    using kept(2) by (auto simp: secret_lang_def)
  ultimately show ?case
    using kept(3) context_after_boundary [of l u m v l' v] unfolding occurs_def
    by (metis word_before_simps(3))
next
  case (replaced l a s b b')
  obtain u m v where o: "a @ SECRET_REPLACEMENT @ b' = u @ m @ v" "lang m" "word_before l' u \<noteq> word_after (m @ v)"
      "word_before l' (u @ m) \<noteq> word_after v"
    using replaced.prems(3) by (auto simp: occurs_def)
  from split_at_replacement [OF o(1) [symmetric] replaced.prems(1) o(2)] show ?case
  proof
    assume "\<exists>v'. a = u @ m @ v' \<and> v = v' @ SECRET_REPLACEMENT @ b'"
    then obtain v' where v': "a = u @ m @ v'" "v = v' @ SECRET_REPLACEMENT @ b'"
      by blast
    have "word_before l u \<noteq> word_after (m @ v' @ s @ b) \<and> word_before l (u @ m) \<noteq> word_after (v' @ s @ b)"
      by (rule redacted_occurrence_left [OF replaced.prems(1) o(2) replaced.prems(2) [unfolded v']
            o(3,4) [unfolded v'] replaced.hyps(3) [unfolded v']])
    then show ?thesis
      unfolding occurs_def v' using o(2) by (metis append.assoc)
  next
    assume "\<exists>u'. u = a @ SECRET_REPLACEMENT @ u' \<and> b' = u' @ m @ v"
    then obtain u' where u': "u = a @ SECRET_REPLACEMENT @ u'" "b' = u' @ m @ v"
      by blast
    then have "occurs lang False b'"
      using o(2-4) unfolding occurs_def by (metis append.assoc word_before_replacement)
    from replaced.IH [OF replaced.prems(1) context_after_replacement [OF replaced.hyps(4)] this]
    show ?thesis
      using occurs_suffix [of lang l "a @ s" b] by simp
  qed
qed

lemma redacted_clean:
  assumes "redacted own l t t'" and "secret_lang own" and "context_after l t l'"
  shows "\<not> occurs own l' t'"
  using assms
proof (induction arbitrary: l' rule: redacted.induct)
  case (kept l t)
  then show ?case
    using redacted_occurs [OF redacted.kept [OF kept(1)] kept(2,3)] by blast
next
  case (replaced l a s b b')
  show ?case
  proof
    assume "occurs own l' (a @ SECRET_REPLACEMENT @ b')"
    then obtain u m v where o: "a @ SECRET_REPLACEMENT @ b' = u @ m @ v" "own m" "word_before l' u \<noteq> word_after (m @ v)"
        "word_before l' (u @ m) \<noteq> word_after v"
      by (auto simp: occurs_def)
    from split_at_replacement [OF o(1) [symmetric] replaced.prems(1) o(2)] show False
    proof
      assume "\<exists>v'. a = u @ m @ v' \<and> v = v' @ SECRET_REPLACEMENT @ b'"
      then obtain v' where v': "a = u @ m @ v'" "v = v' @ SECRET_REPLACEMENT @ b'"
        by blast
      have edges: "word_before l u \<noteq> word_after (m @ v' @ s @ b) \<and> word_before l (u @ m) \<noteq> word_after (v' @ s @ b)"
        by (rule redacted_occurrence_left [OF replaced.prems(1) o(2) replaced.prems(2) [unfolded v']
              o(3,4) [unfolded v'] replaced.hyps(3) [unfolded v']])
      have "length a \<le> length u"
        using replaced.hyps(5) [of u m "v' @ s @ b"] edges o(2) v'(1) by simp
      then show False
        using v'(1) o(2) replaced.prems(1) by (auto simp: secret_lang_def)
    next
      assume "\<exists>u'. u = a @ SECRET_REPLACEMENT @ u' \<and> b' = u' @ m @ v"
      then obtain u' where u': "u = a @ SECRET_REPLACEMENT @ u'" "b' = u' @ m @ v"
        by blast
      then have "occurs own False b'"
        using o(2-4) unfolding occurs_def by (metis append.assoc word_before_replacement)
      with replaced.IH [OF replaced.prems(1) context_after_replacement [OF replaced.hyps(4)]] show False
        by blast
    qed
  qed
qed

subsection \<open>Passes and the whole redaction\<close>

text \<open>
  What the slices need of UTF-8: no continuation byte follows an ASCII byte or opens the text.
\<close>

primrec text_ok :: "bool \<Rightarrow> string \<Rightarrow> bool" where
  "text_ok p [] = True"
| "text_ok p (c # cs) = ((p \<longrightarrow> \<not> is_continuation (byte c)) \<and> text_ok (byte c < 0x80) cs)"

lemma text_ok_append:
  "text_ok p (u @ v) \<longleftrightarrow> text_ok p u \<and> text_ok (if u = [] then p else byte (last u) < 0x80) v"
  by (induction u arbitrary: p) auto

lemma text_ok_weaken: "text_ok True u \<Longrightarrow> text_ok p u"
  by (cases u) auto

lemma text_ok_boundary:
  "text_ok True (drop i t) \<Longrightarrow> i \<le> length t \<Longrightarrow> is_char_boundary t i"
  by (cases "i = length t") (auto simp: is_char_boundary_def Cons_nth_drop_Suc [symmetric])

lemma text_ok_replacement: "text_ok p (SECRET_REPLACEMENT @ rest) \<longleftrightarrow> text_ok True rest"
  by (simp add: SECRET_REPLACEMENT_def is_continuation_def byte_def)

locale secret_rule =
  fixes search :: "string \<Rightarrow> nat \<Rightarrow> (nat \<times> nat) option" and lang :: "string \<Rightarrow> bool"
  assumes exact: "leftmost_longest lang search t start"
    and language: "secret_lang lang"
begin

lemma search_None: "search t start = None \<Longrightarrow> start \<le> s \<Longrightarrow> \<not> matches_at lang t s e"
  using exact [of t start] by (auto simp: leftmost_longest_def)

lemma search_Some:
  assumes "search t start = Some (s, e)"
  shows "start \<le> s" and "matches_at lang t s e" and "start \<le> s' \<Longrightarrow> s' < s \<Longrightarrow> \<not> matches_at lang t s' e'"
  using exact [of t start] assms by (auto simp: leftmost_longest_def)

lemma pass_from_redacted:
  "start \<le> length t \<Longrightarrow> text_ok True (drop start t) \<Longrightarrow>
     \<exists>out. pass_from search t start = Some out \<and> text_ok True out
       \<and> redacted lang (word_before False (take start t)) (drop start t) out"
proof (induction "length t - start" arbitrary: start rule: less_induct)
  case less
  show ?case
  proof (cases "search t start")
    case None
    have "\<not> occurs lang (word_before False (take start t)) (drop start t)"
      using occurs_matches_at [OF less.prems(1)] search_None [OF None] unfolding occurs_def by (metis le_add1)
    moreover have "is_char_boundary t start" "is_char_boundary t (length t)"
      using text_ok_boundary [OF less.prems(2,1)] by (simp_all add: is_char_boundary_def)
    ultimately show ?thesis
      using None less.prems by (subst pass_from.simps) (simp add: str_slice_def slice_def redacted.kept)
  next
    case (Some p)
    then obtain s e where found: "search t start = Some (s, e)" by (cases p) auto
    note s = search_Some [OF found]
    define a m rest where parts: "a = slice t start s" "m = slice t s e" "rest = drop e t"
    have le: "s \<le> e" "e \<le> length t" "lang m" "boundary_at t s" "boundary_at t e"
      using s(2) by (auto simp: matches_at_def parts)
    have m: "m \<noteq> []" "byte (hd m) < 0x80" "byte (last m) < 0x80"
      using language le(3) by (auto simp: secret_lang_def)
    have split: "drop start t = a @ m @ rest" "drop s t = m @ rest"
      "take s t = take start t @ a" "take e t = take start t @ a @ m"
      using slice_split [of start s "length t" t] slice_split [of s e "length t" t]
        slice_split [of 0 start s t] slice_split [of 0 s e t] le s(1) by (simp_all add: slice_def parts)
    have ok: "text_ok True a" "text_ok True (drop s t)" "text_ok True (drop e t)"
      using less.prems(2) m unfolding split by (cases m; auto simp: text_ok_append parts is_continuation_def)+
    have "s < e"
      using m(1) le by (auto simp: parts slice_def)
    have "is_char_boundary t start" "is_char_boundary t s"
      using text_ok_boundary less.prems ok(2) le by simp_all
    then have piece: "str_slice t start s = Some a"
      using s(1) le by (simp add: str_slice_def parts)
    have "length t - e < length t - start"
      using \<open>s < e\<close> s(1) le by simp
    from less.hyps [OF this le(2) ok(3)] obtain out where out: "pass_from search t e = Some out" "text_ok True out"
        "redacted lang (word_before False (take e t)) rest out"
      by (auto simp: parts)
    have "pass_from search t start = Some (a @ SECRET_REPLACEMENT @ out)"
      using found piece out(1) \<open>s < e\<close> by (subst pass_from.simps) simp
    moreover have "text_ok True (a @ SECRET_REPLACEMENT @ out)"
      using ok(1) out(2) by (simp add: text_ok_append [of _ a] text_ok_replacement)
    moreover have "redacted lang (word_before False (take start t)) (a @ m @ rest) (a @ SECRET_REPLACEMENT @ out)"
    proof (rule redacted.replaced)
      show "redacted lang (word_before (word_before False (take start t)) (a @ m)) rest out"
        using out(3) split(4) by (simp add: word_before_append)
      show "word_before (word_before False (take start t)) a \<noteq> word_after (m @ rest)"
        "word_before (word_before False (take start t)) (a @ m) \<noteq> word_after rest"
        using le split parts by (simp_all add: boundary_at_split word_before_append [symmetric])
    next
      fix u x v
      assume "a @ m @ rest = u @ x @ v" "lang x"
        "word_before (word_before False (take start t)) u \<noteq> word_after (x @ v)"
        "word_before (word_before False (take start t)) (u @ x) \<noteq> word_after v"
      then have "matches_at lang t (start + length u) (start + length u + length x)"
        using occurs_matches_at [OF less.prems(1)] split(1) by metis
      then have "s \<le> start + length u"
        using s(3) [of "start + length u"] by (meson le_add1 not_le)
      then show "length a \<le> length u"
        using s(1) le by (simp add: parts length_slice)
    qed (rule m(1))
    ultimately show ?thesis
      using split(1) by auto
  qed
qed

lemma pass_cleans:
  assumes "text_ok True t"
  obtains out where "replace_pass t search = Some out" and "text_ok True out" and "\<not> occurs lang False out"
    and "\<And>other. secret_lang other \<Longrightarrow> \<not> occurs other False t \<Longrightarrow> \<not> occurs other False out"
proof -
  obtain out where out: "pass_from search t 0 = Some out" "text_ok True out" "redacted lang False t out"
    using pass_from_redacted [of 0 t] assms by auto
  have refl: "context_after False t False"
    by (simp add: context_after_def)
  show ?thesis
    using that [of out] out redacted_clean [OF out(3) language refl] redacted_occurs [OF out(3) _ refl]
    by (auto simp: replace_pass_def)
qed

lemma pass_from_length: "pass_from search t start = Some out \<Longrightarrow> start \<le> length t \<Longrightarrow> length out \<le> length t - start"
proof (induction "length t - start" arbitrary: start out rule: less_induct)
  case less
  show ?case
  proof (cases "search t start")
    case None
    then show ?thesis
      using less.prems by (subst (asm) pass_from.simps) (auto simp: str_slice_def length_slice split: if_splits)
  next
    case (Some p)
    then obtain s e where found: "search t start = Some (s, e)" by (cases p) auto
    have range: "start \<le> s" "s \<le> e" "e \<le> length t" "8 \<le> length (slice t s e)"
      using search_Some(1,2) [OF found] language by (auto simp: matches_at_def secret_lang_def)
    then have wide: "s + 8 \<le> e"
      by (simp add: length_slice)
    with less.prems(1) found obtain piece rest where parts: "str_slice t start s = Some piece" "pass_from search t e = Some rest"
        "out = piece @ SECRET_REPLACEMENT @ rest"
      by (subst (asm) pass_from.simps) (auto split: option.splits if_splits)
    have "length rest \<le> length t - e"
      using less.hyps [of e rest] parts(2) range wide by simp
    moreover have "length piece = s - start"
      using parts(1) by (auto simp: str_slice_def length_slice split: if_splits)
    ultimately show ?thesis
      using parts(3) range wide by (simp add: SECRET_REPLACEMENT_def)
  qed
qed

lemma replace_pass_length: "replace_pass t search = Some out \<Longrightarrow> length out \<le> length t"
  using pass_from_length [of t 0 out] by (simp add: replace_pass_def)

lemma pass_keeps_clean:
  assumes "\<not> occurs lang False t"
  shows "replace_pass t search = Some t"
proof -
  have "search t 0 = None"
  proof (rule ccontr)
    assume "search t 0 \<noteq> None"
    then obtain s e where "search t 0 = Some (s, e)" by auto
    from search_Some(2) [OF this] have "occurs lang False t"
      using matches_at_occurs [of lang t s e 0] by simp
    with assms show False ..
  qed
  then show ?thesis
    unfolding replace_pass_def by (subst pass_from.simps) (simp add: str_slice_def is_char_boundary_def slice_def)
qed

end

subsection \<open>The six rules\<close>

definition plain_byte :: "char \<Rightarrow> bool" where
  "plain_byte c \<longleftrightarrow> byte c < 0x80 \<and> c \<noteq> CHR ''<'' \<and> c \<noteq> CHR ''>''"

lemma plain_bytes:
  "is_key_body c \<Longrightarrow> plain_byte c" "is_token_body c \<Longrightarrow> plain_byte c" "is_bearer_body c \<Longrightarrow> plain_byte c"
  "is_base64_body c \<Longrightarrow> plain_byte c" "is_ascii_hexdigit c \<Longrightarrow> plain_byte c" "is_ascii_digit c \<Longrightarrow> plain_byte c"
  "is_ascii_uppercase c \<Longrightarrow> plain_byte c"
  by (auto simp: plain_byte_def is_key_body_def is_token_body_def is_bearer_body_def is_base64_body_def ascii_defs)

lemma plain_literal: "list_all plain_byte ''sk-AKIgh_po=''"
  by (simp add: plain_byte_def byte_def)

lemma plain_lang:
  assumes "\<And>m. lang m \<Longrightarrow> 8 \<le> length m \<and> list_all plain_byte m"
  shows "secret_lang lang"
  unfolding secret_lang_def
proof (intro allI impI)
  fix m
  assume "lang m"
  from assms [OF this] have "m \<noteq> []" "\<And>c. c \<in> set m \<Longrightarrow> plain_byte c" "8 \<le> length m"
    by (auto simp: list_all_iff)
  then show "8 \<le> length m \<and> CHR ''<'' \<notin> set m \<and> CHR ''>'' \<notin> set m \<and> byte (hd m) < 0x80 \<and> byte (last m) < 0x80"
    using hd_in_set [of m] last_in_set [of m] by (auto simp: plain_byte_def)
qed

lemma js_space_plain: "js_space x \<Longrightarrow> CHR ''<'' \<notin> set x \<and> CHR ''>'' \<notin> set x"
proof -
  assume "js_space x"
  then have "\<forall>v \<in> set (map byte x). v \<noteq> 60 \<and> v \<noteq> 62"
    by (auto simp: js_space_def JS_SPACE_BYTES_def)
  then show ?thesis
    by (auto simp: byte_def)
qed

lemma bearer_word_plain: "byte_eq_ignore_case c d \<Longrightarrow> is_ascii_alphabetic d \<Longrightarrow> plain_byte c"
  by (auto simp: byte_eq_ignore_case_def plain_byte_def ascii_defs)

lemma secret_lang_bearer: "secret_lang bearer_token"
  unfolding secret_lang_def
proof (intro allI impI)
  fix m
  assume "bearer_token m"
  then obtain w spaces b where m: "m = w @ concat spaces @ b" "list_all2 byte_eq_ignore_case w ''Bearer''"
    "list_all js_space spaces" "12 \<le> length b" "list_all is_bearer_body b"
    by (auto simp: bearer_token_def)
  have "list_all is_ascii_alphabetic ''Bearer''"
    by (simp add: ascii_defs)
  then have w: "w \<noteq> []" "\<And>c. c \<in> set w \<Longrightarrow> plain_byte c"
    using m(2) by (auto simp: list_all2_Cons2 bearer_word_plain)
  have b: "b \<noteq> []" "\<And>c. c \<in> set b \<Longrightarrow> plain_byte c"
    using m(4,5) by (auto simp: list_all_iff plain_bytes)
  show "8 \<le> length m \<and> CHR ''<'' \<notin> set m \<and> CHR ''>'' \<notin> set m \<and> byte (hd m) < 0x80 \<and> byte (last m) < 0x80"
    using m(1,3,4) w b hd_in_set [of w] last_in_set [of b] js_space_plain
    by (auto simp: plain_byte_def list_all_iff)
qed

interpretation sk: secret_rule find_sk_key sk_key
  by unfold_locales
    (rule find_sk_key_exact, rule plain_lang, use plain_literal in \<open>auto simp: sk_key_def list_all_iff intro: plain_bytes\<close>)

interpretation aws: secret_rule find_aws_key aws_key
  by unfold_locales
    (rule find_aws_key_exact, rule plain_lang, use plain_literal in \<open>auto simp: aws_key_def list_all_iff intro: plain_bytes\<close>)

interpretation github: secret_rule find_github_token github_token
  by unfold_locales
    (rule find_github_token_exact, rule plain_lang, use plain_literal in \<open>auto simp: github_token_def list_all_iff intro: plain_bytes\<close>)

interpretation bearer: secret_rule find_bearer_token bearer_token
  by unfold_locales (rule find_bearer_token_exact, rule secret_lang_bearer)

interpretation hex: secret_rule find_long_hex_run long_hex_run
  by unfold_locales
    (rule find_long_hex_run_exact, rule plain_lang, use plain_literal in \<open>auto simp: long_hex_run_def list_all_iff intro: plain_bytes\<close>)

interpretation base64: secret_rule find_long_base64_run long_base64_run
  by unfold_locales
    (rule find_long_base64_run_exact, rule plain_lang, use plain_literal in \<open>auto simp: long_base64_run_def list_all_iff intro: plain_bytes\<close>)

definition SECRET_PATTERNS :: "(string \<Rightarrow> bool) list" where
  "SECRET_PATTERNS = [sk_key, aws_key, github_token, bearer_token, long_hex_run, long_base64_run]"

text \<open>
  C14.  The six hand-written searches are the leftmost, longest search for the six documented
  patterns, with word boundaries at both ends.
\<close>

theorem secret_searches_exact:
  "leftmost_longest sk_key find_sk_key t start \<and> leftmost_longest aws_key find_aws_key t start
   \<and> leftmost_longest github_token find_github_token t start \<and> leftmost_longest bearer_token find_bearer_token t start
   \<and> leftmost_longest long_hex_run find_long_hex_run t start
   \<and> leftmost_longest long_base64_run find_long_base64_run t start"
  by (intro conjI sk.exact aws.exact github.exact bearer.exact hex.exact base64.exact)

text \<open>The replacement is shorter than every secret, so a redacted text is never longer.\<close>

lemma sanitize_length: "sanitize_secrets_only t = Some out \<Longrightarrow> length out \<le> length t"
  unfolding sanitize_secrets_only_def redact_secret_tokens_def Option.bind_eq_Some_conv
  using sk.replace_pass_length aws.replace_pass_length github.replace_pass_length bearer.replace_pass_length
    hex.replace_pass_length base64.replace_pass_length by (meson le_trans)

lemma sanitize_total:
  assumes "text_ok True t"
  obtains out where "sanitize_secrets_only t = Some out"
    and "\<And>lang s e. lang \<in> set SECRET_PATTERNS \<Longrightarrow> \<not> matches_at lang out s e" and "sanitize_secrets_only out = Some out"
proof -
  obtain t1 where t1: "replace_pass t find_sk_key = Some t1" "text_ok True t1" "\<not> occurs sk_key False t1"
    using sk.pass_cleans [OF assms] by metis
  obtain t2 where t2: "replace_pass t1 find_aws_key = Some t2" "text_ok True t2" "\<not> occurs aws_key False t2"
    "\<not> occurs sk_key False t2"
    using aws.pass_cleans [OF t1(2)] t1(3) sk.language by metis
  obtain t3 where t3: "replace_pass t2 find_github_token = Some t3" "text_ok True t3" "\<not> occurs github_token False t3"
    "\<not> occurs sk_key False t3" "\<not> occurs aws_key False t3"
    using github.pass_cleans [OF t2(2)] t2(3,4) sk.language aws.language by metis
  obtain t4 where t4: "replace_pass t3 find_bearer_token = Some t4" "text_ok True t4" "\<not> occurs bearer_token False t4"
    "\<not> occurs sk_key False t4" "\<not> occurs aws_key False t4" "\<not> occurs github_token False t4"
    using bearer.pass_cleans [OF t3(2)] t3(3-5) sk.language aws.language github.language by metis
  obtain t5 where t5: "replace_pass t4 find_long_hex_run = Some t5" "text_ok True t5" "\<not> occurs long_hex_run False t5"
    "\<not> occurs sk_key False t5" "\<not> occurs aws_key False t5" "\<not> occurs github_token False t5" "\<not> occurs bearer_token False t5"
    using hex.pass_cleans [OF t4(2)] t4(3-6) sk.language aws.language github.language bearer.language by metis
  obtain t6 where t6: "replace_pass t5 find_long_base64_run = Some t6" "\<not> occurs long_base64_run False t6"
    "\<not> occurs sk_key False t6" "\<not> occurs aws_key False t6" "\<not> occurs github_token False t6" "\<not> occurs bearer_token False t6"
    "\<not> occurs long_hex_run False t6"
    using base64.pass_cleans [OF t5(2)] t5(3-7) sk.language aws.language github.language bearer.language hex.language by metis
  have "sanitize_secrets_only t = Some t6"
    using t1(1) t2(1) t3(1) t4(1) t5(1) t6(1) by (simp add: sanitize_secrets_only_def redact_secret_tokens_def)
  moreover have "sanitize_secrets_only t6 = Some t6"
    using sk.pass_keeps_clean aws.pass_keeps_clean github.pass_keeps_clean bearer.pass_keeps_clean hex.pass_keeps_clean
      base64.pass_keeps_clean t6(2-7) by (simp add: sanitize_secrets_only_def redact_secret_tokens_def)
  moreover have "\<not> matches_at lang t6 s e" if "lang \<in> set SECRET_PATTERNS" for lang s e
  proof
    assume "matches_at lang t6 s e"
    then have "occurs lang False t6"
      using matches_at_occurs [of lang t6 s e 0] by simp
    with that t6(2-7) show False
      by (auto simp: SECRET_PATTERNS_def)
  qed
  ultimately show ?thesis
    using that by blast
qed

text \<open>
  C13.  Redaction is total and complete: on every text in UTF-8 (of which only the place of the
  continuation bytes matters) it returns without a panic, no pattern matches anywhere in the
  result, although later passes see the output of earlier ones, and redacting again changes
  nothing.
\<close>

theorem redaction_complete:
  assumes "text_ok True t"
  shows "\<exists>out. sanitize_secrets_only t = Some out \<and> (\<forall>lang \<in> set SECRET_PATTERNS. \<forall>s e. \<not> matches_at lang out s e)
     \<and> sanitize_secrets_only out = Some out"
  using sanitize_total [OF assms] by metis

theorem redaction_complete_witness:
  "\<exists>out. sanitize_secrets_only ''key sk-abcdefgh1 end'' = Some out
     \<and> (\<forall>lang \<in> set SECRET_PATTERNS. \<forall>s e. \<not> matches_at lang out s e) \<and> sanitize_secrets_only out = Some out"
  by (rule redaction_complete) (simp add: is_continuation_def byte_def)

end
