(* ===== verification/Brief_Properties.thy ===== *)
theory Brief_Properties
  imports Executor_Brief Redaction_Properties
begin

text \<open>
  Properties of the executor brief: the rendering is bounded and holds no secret, over its
  budget it keeps the required sections only, and a long request can be cut inside a scalar.
\<close>

subsection \<open>UTF-8 of rendered texts\<close>

lemma text_ok_appendI [intro]: "text_ok p u \<Longrightarrow> text_ok True v \<Longrightarrow> text_ok p (u @ v)"
  by (auto simp: text_ok_append text_ok_weaken)

lemma text_ok_join: "text_ok True sep \<Longrightarrow> list_all (text_ok True) ps \<Longrightarrow> text_ok True (join sep ps)"
  by (induction sep ps rule: join.induct) auto

lemma text_ok_split_on:
  assumes "byte c < 0x80" and "text_ok p s"
  shows "text_ok p (hd (split_on c s)) \<and> list_all (text_ok True) (tl (split_on c s))"
  using assms(2)
proof (induction s arbitrary: p)
  case (Cons x xs)
  show ?case
  proof (cases "x = c")
    case True
    then have "text_ok True (hd (split_on c xs)) \<and> list_all (text_ok True) (tl (split_on c xs))"
      using Cons.IH [of True] Cons.prems assms(1) by simp
    then have "list_all (text_ok True) (split_on c xs)"
      by (cases "split_on c xs") auto
    with True show ?thesis
      by simp
  next
    case False
    with Cons.IH [of "byte x < 0x80"] Cons.prems show ?thesis
      by (cases "split_on c xs") auto
  qed
qed simp

lemma text_ok_lines: "text_ok True s \<Longrightarrow> list_all (text_ok True) (split_on (CHR 0x0A) s)"
  using text_ok_split_on [of "CHR 0x0A" True s] by (cases "split_on (CHR 0x0A) s") (auto simp: byte_def)

lemma text_ok_marker: "text_ok True BRIEF_TRUNCATION_MARKER"
  by (simp add: BRIEF_TRUNCATION_MARKER_def ELLIPSIS_def is_continuation_def byte_def)

lemma text_ok_newline: "text_ok True newline" "text_ok True (newline @ newline)"
  by (simp_all add: is_continuation_def byte_def)

lemma text_ok_add_line: "text_ok True kept \<Longrightarrow> text_ok True l \<Longrightarrow> text_ok True (kept @ newline @ l)"
  by (intro text_ok_appendI text_ok_newline)

lemma text_ok_trim_loop: "text_ok True kept \<Longrightarrow> list_all (text_ok True) ls \<Longrightarrow> text_ok True (trim_loop n kept ls)"
  by (induction n kept ls rule: trim_loop.induct) (auto simp: Let_def text_ok_add_line simp del: append.simps)

lemma length_trim_loop:
  "length (kept @ BRIEF_TRUNCATION_MARKER) \<le> n \<Longrightarrow> length (trim_loop n kept ls @ BRIEF_TRUNCATION_MARKER) \<le> n"
  by (induction n kept ls rule: trim_loop.induct) (auto simp: Let_def)

lemma trim_rendered_bounded:
  assumes "length BRIEF_TRUNCATION_MARKER < n" and "text_ok True s"
  shows "text_ok True (trim_rendered s n) \<and> length (trim_rendered s n) \<le> n"
  using assms length_trim_loop [of "[]" n "split_on (CHR 0x0A) s"]
    text_ok_trim_loop [OF _ text_ok_lines [OF assms(2)], of "[]" n] text_ok_marker
  by (auto simp: trim_rendered_def)

text \<open>
  A budget up to the marker counts its scalars, not its bytes: the text is cut at a scalar, and
  holds two bytes more than the budget allows from two bytes on, for the ellipsis has three.
\<close>

lemma small_budgets:
  "list_all (\<lambda>n. text_ok True (trim_rendered [] n) \<and> length (trim_rendered [] n) \<le> n + 2) [0..<23]"
  "length (trim_rendered [] 22) = 22" "length BRIEF_TRUNCATION_MARKER = 22"
  by code_simp+

lemma small_budget_text: "n \<le> length BRIEF_TRUNCATION_MARKER \<Longrightarrow> trim_rendered s n = trim_rendered [] n"
  by (simp add: trim_rendered_def)

lemma small_budget_exceeded: "length (trim_rendered s 2) = 4"
proof -
  have "length (trim_rendered [] 2) = 4"
    by code_simp
  then show ?thesis
    by (simp add: small_budget_text [of 2 s] small_budgets(3))
qed

lemma trim_rendered_safe:
  assumes "text_ok True s"
  shows "text_ok True (trim_rendered s n) \<and> length (trim_rendered s n) \<le> n + 2
    \<and> (length BRIEF_TRUNCATION_MARKER \<le> n \<longrightarrow> length (trim_rendered s n) \<le> n)"
proof (cases "length BRIEF_TRUNCATION_MARKER < n")
  case True
  then show ?thesis
    using trim_rendered_bounded [OF True assms] by simp
next
  case False
  then have "n \<in> set [0..<23]"
    by (simp add: small_budgets(3))
  with False small_budget_text [of n s] small_budgets show ?thesis
    unfolding list_all_iff by (metis le_antisym not_less)
qed

subsection \<open>Sections over the budget\<close>

lemma render_sections_mono: "rendered_bytes_of ss \<le> rendered_bytes_of (ss @ us)"
proof -
  have "length (join sep xs) \<le> length (join sep (xs @ ys))" for sep xs ys
    by (induction xs) (auto simp: join_Cons)
  then show ?thesis
    by (simp add: rendered_bytes_of_def render_sections_def)
qed

lemma keep_loop_required:
  assumes "list_all (\<lambda>s. rs_priority s = 0) kept" and "0 \<notin> set ps"
  shows "keep_loop sections n kept ps = kept"
  using assms(2)
proof (induction ps)
  case (Cons p ps)
  have "rev (dropWhile (\<lambda>s. rs_priority s = p) (rev (kept @ with_priority p sections))) = kept"
  proof -
    have "dropWhile (\<lambda>s. rs_priority s = p) (rev (with_priority p sections) @ rev kept) = dropWhile (\<lambda>s. rs_priority s = p) (rev kept)"
      by (rule dropWhile_append2) (simp add: with_priority_def)
    also have "\<dots> = rev kept"
      using assms(1) Cons.prems by (cases "rev kept") (auto simp: list_all_iff dest!: arg_cong [of _ _ set])
    finally show ?thesis
      by simp
  qed
  then show ?case
    using Cons render_sections_mono [of kept "with_priority p sections"] by (auto simp: Let_def)
qed simp

text \<open>
  Over its budget a brief keeps the sections of priority 0 only: although sections of lower
  priority are meant to be dropped one level after the other, the loop never adds one.
\<close>

theorem brief_over_budget_keeps_required_only:
  "render_executor_brief_bounded b n =
     (case sanitize_secrets_only (render_sections (brief_sections b)) of
        None \<Rightarrow> None
      | Some t \<Rightarrow> if length t \<le> n then Some t
          else sanitize_secrets_only (trim_rendered (render_sections (with_priority 0 (brief_sections b))) n))"
proof -
  have "list_all (\<lambda>s. rs_priority s = 0) (with_priority 0 (brief_sections b))"
    by (simp add: with_priority_def list_all_iff)
  from keep_loop_required [OF this, of "[1..<8]"] show ?thesis
    by (simp add: render_executor_brief_bounded_def Let_def del: upt_Suc upt_rec_numeral split: option.split)
qed

subsection \<open>Safety and bound\<close>

definition BRIEF_TITLES :: "string list" where
  "BRIEF_TITLES = [''TASK'', ''EXECUTION CONTRACT'', ''MILESTONE'', ''PLAN'', ''TASK-SPECIFIC INVARIANTS'', ''ACCEPTANCE'',
     ''VERIFIED TOUCHPOINTS'', ''VERIFIED WORKSPACE FILES'', ''WORKING SET (CURRENT STEP)'', ''DELIVERABLES'',
     ''CANDIDATE TOUCHPOINTS'', ''NON-GOALS'', ''ARCHITECTURE REFERENCES'', ''DOCUMENTATION'', ''NEW FILES (RATIONALE)'',
     ''MILESTONE-SPECIFIC TESTS'', ''CAPABILITY LIMITS'', ''SCOPE WARNINGS'']"

lemma list_section_title: "s \<in> set (list_section title p vs) \<Longrightarrow> rs_title s = title"
  by (simp add: list_section_def split: if_splits)

lemma brief_section_titles: "s \<in> set (brief_sections b) \<Longrightarrow> rs_title s \<in> set BRIEF_TITLES"
  unfolding brief_sections_def set_append Un_iff BRIEF_TITLES_def
  by (elim disjE) (auto dest!: list_section_title split: option.splits prod.splits if_splits)

lemma text_ok_titles: "list_all (text_ok True) BRIEF_TITLES"
  by (simp add: BRIEF_TITLES_def is_continuation_def byte_def)

lemma brief_titles: "s \<in> set (brief_sections b) \<Longrightarrow> text_ok True (rs_title s)"
  using brief_section_titles text_ok_titles by (auto simp: list_all_iff)

lemma text_ok_render_sections:
  "set ss \<subseteq> set (brief_sections b) \<Longrightarrow> list_all (\<lambda>s. text_ok True (rs_content s)) ss \<Longrightarrow> text_ok True (render_sections ss)"
  unfolding render_sections_def
  by (rule text_ok_join) (auto simp: text_ok_newline list_all_iff section_text_def brief_titles simp del: append.simps
      intro!: text_ok_appendI text_ok_newline)

text \<open>
  C36.  A rendered brief is safe and bounded: for every brief with UTF-8 contents the rendering
  returns, stays within its byte budget when that is at least the 22 bytes of the truncation
  marker and within two bytes of it for smaller budgets, and holds no text that a secret pattern
  matches, although texts are cut between the two redactions.
\<close>

theorem brief_rendering_safe_and_bounded:
  assumes "list_all (\<lambda>s. text_ok True (rs_content s)) (brief_sections b)"
  shows "\<exists>out. render_executor_brief_bounded b n = Some out
     \<and> length out \<le> n + 2 \<and> (length BRIEF_TRUNCATION_MARKER \<le> n \<longrightarrow> length out \<le> n)
     \<and> (\<forall>lang \<in> set SECRET_PATTERNS. \<forall>s e. \<not> matches_at lang out s e)"
proof -
  have all: "text_ok True (render_sections (brief_sections b))"
    using text_ok_render_sections [of "brief_sections b" b] assms by simp
  obtain t where t: "sanitize_secrets_only (render_sections (brief_sections b)) = Some t"
    "\<And>lang s e. lang \<in> set SECRET_PATTERNS \<Longrightarrow> \<not> matches_at lang t s e"
    using sanitize_total [OF all] by metis
  let ?kept = "render_sections (with_priority 0 (brief_sections b))"
  have "text_ok True ?kept"
    using text_ok_render_sections [of "with_priority 0 (brief_sections b)" b] assms
    by (auto simp: with_priority_def list_all_iff)
  note trimmed = trim_rendered_safe [OF this, of n]
  obtain u where u: "sanitize_secrets_only (trim_rendered ?kept n) = Some u"
    "\<And>lang s e. lang \<in> set SECRET_PATTERNS \<Longrightarrow> \<not> matches_at lang u s e"
    using sanitize_total trimmed by metis
  have "render_executor_brief_bounded b n = Some (if length t \<le> n then t else u)"
    using t(1) u(1) by (simp add: keep_loop_required with_priority_def list_all_iff render_executor_brief_bounded_def Let_def
        del: upt_Suc upt_rec_numeral)
  moreover have "length u \<le> n + 2 \<and> (length BRIEF_TRUNCATION_MARKER \<le> n \<longrightarrow> length u \<le> n)"
    using trimmed sanitize_length [OF u(1)] by (meson order.trans)
  ultimately show ?thesis
    using t(2) u(2) by auto
qed

subsection \<open>A request cut inside a scalar\<close>

text \<open>
  C38.  The request is cut at byte 480 without regard to scalars: when a continuation byte stands
  there, compiling the brief of a request of more than 1024 bytes panics.
\<close>

theorem long_request_panics:
  assumes "BRIEF_MAX_REQUEST_BYTES < length (trim (tc_request (cbi_contract i)))"
    and "is_continuation (byte (trim (tc_request (cbi_contract i)) ! 480))"
  shows "compile_executor_brief i = None"
proof -
  have "cut_text BRIEF_MAX_REQUEST_BYTES 480 (trim (tc_request (cbi_contract i))) = None"
    using assms by (simp add: cut_text_def str_slice_def is_char_boundary_def BRIEF_MAX_REQUEST_BYTES_def)
  then show ?thesis
    by (simp add: compile_executor_brief_def Let_def)
qed

subsection \<open>Witnesses\<close>

definition sample_brief :: ExecutorBrief where
  "sample_brief = \<lparr>eb_format = ''siralos-executor-brief'', eb_version = 2, eb_task_id = ''t'', eb_contract_revision = 1,
     eb_request = ''Rotate sk-abcdefgh1'', eb_execution_contract = (''c'', 1), eb_milestone = None, eb_deliverables = [],
     eb_verified_touchpoints = [''src/a.rs''], eb_candidate_touchpoints = [], eb_invariants = [], eb_non_goals = [],
     eb_acceptance_ids = [], eb_test_requirements = [], eb_architecture_references = [], eb_documentation_sources = [],
     eb_working_set_files = [], eb_workspace_verified_files = [], eb_scope_warnings = [], eb_new_file_rationales = [],
     eb_capability_limits = [], eb_plan = None, eb_instruction_sources = []\<rparr>"

theorem brief_rendering_safe_and_bounded_witness:
  "\<exists>out. render_executor_brief_bounded sample_brief 40 = Some out \<and> length out \<le> 40
     \<and> (\<forall>lang \<in> set SECRET_PATTERNS. \<forall>s e. \<not> matches_at lang out s e)"
proof -
  have "list_all (\<lambda>s. text_ok True (rs_content s)) (brief_sections sample_brief)"
    by (simp add: sample_brief_def brief_sections_def list_section_def bullet_def is_continuation_def byte_def
        show_nat.simps digit_char_def)
  from brief_rendering_safe_and_bounded [OF this, of 40] show ?thesis
    by (auto simp: small_budgets(3))
qed

definition long_request :: string where
  "long_request = CHR ''x'' # concat (replicate 600 [CHR 0xC3, CHR 0xA9]) @ ''end.''"

definition sample_compile_input :: CompileExecutorBriefInput where
  "sample_compile_input = \<lparr>
     cbi_contract = \<lparr>tc_id = ''t'', tc_revision = 1, tc_digest = [], tc_request = long_request, tc_context = None,
       tc_constraints = [], tc_acceptance_criteria = [], tc_pause_policy = PausePolicy_None\<rparr>,
     cbi_execution_contract = \<lparr>xc_id = ''c'', xc_revision = 1, xc_git_rules = [], xc_security_rules = [],
       xc_architecture_rules = [], xc_validation_profile = \<lparr>vpr_profile_id = ''p'', vpr_revision = 1\<rparr>, xc_test_rules = [],
       xc_reporting_requirements = []\<rparr>,
     cbi_milestone = None,
     cbi_pack = \<lparr>ep_task = \<lparr>tpri_id = ''t'', tpri_revision = 1\<rparr>, ep_plan = None,
       ep_execution_contract = \<lparr>xcr_id = ''c'', xcr_revision = 1\<rparr>, ep_milestone = None, ep_instructions = [],
       ep_architecture = [], ep_verified_touchpoints = [], ep_candidate_touchpoints = [],
       ep_capabilities = \<lparr>cr_available = False, cr_states = []\<rparr>, ep_unresolved_findings = [], ep_acceptance = [],
       ep_workspace_scope = None, ep_active_working_set = None, ep_documentation = None, ep_scope_signals = None,
       ep_new_files = None\<rparr>\<rparr>"

lemma trim_long_request: "trim long_request = long_request"
proof -
  have "ws_prefix (120 # bs) = 0" for bs
    by (simp split: list.split)
  then have "ws_prefix (map byte long_request) = 0"
    by (simp add: long_request_def byte_def)
  moreover have "ws_suffix long_request = 0"
    by (simp add: ws_suffix_def Let_def long_request_def byte_def)
  ultimately show ?thesis
    by (simp add: trim_def trim_start_id trim_end_id)
qed

lemma long_request_byte: "long_request ! 480 = CHR 0xA9"
proof -
  have "concat (replicate 600 [CHR 0xC3, CHR 0xA9]) ! (2 * 239 + 1) = CHR 0xA9"
    by (rule nth_concat_replicate_pair) simp
  moreover have "length (concat (replicate 600 [CHR 0xC3, CHR 0xA9])) = 1200"
    by (simp add: length_concat sum_list_replicate)
  ultimately show ?thesis
    by (simp add: long_request_def nth_append nth_Cons')
qed

theorem long_request_panics_witness: "compile_executor_brief sample_compile_input = None"
proof (rule long_request_panics)
  have "length long_request = 1205"
    by (simp add: long_request_def length_concat sum_list_replicate)
  then show "BRIEF_MAX_REQUEST_BYTES < length (trim (tc_request (cbi_contract sample_compile_input)))"
    by (simp add: sample_compile_input_def trim_long_request BRIEF_MAX_REQUEST_BYTES_def)
  show "is_continuation (byte (trim (tc_request (cbi_contract sample_compile_input)) ! 480))"
    by (simp add: sample_compile_input_def trim_long_request long_request_byte is_continuation_def byte_def)
qed

end
