(* ===== verification/Context_Graph.thy ===== *)
theory Context_Graph
  imports Artifact Json_Canonical Scalars "HOL-Library.Product_Lexorder"
begin

text \<open>
  The context graph (\<open>context_graph.rs\<close>): validated nodes and edges in canonical order, the
  digest of a graph, and which nodes are stale against the digests currently observed.  The
  digest of an untyped payload is \<open>determinism/helpers.rs\<close>; a digest that the code unwraps is
  an option here, None standing for the panic.
\<close>

definition GRAPH_MAX_NODES :: nat where "GRAPH_MAX_NODES = 512"
definition MAX_EDGES :: nat where "MAX_EDGES = 4096"
definition MAX_ID_BYTES :: nat where "MAX_ID_BYTES = 256"
definition GRAPH_MAX_SUMMARY_BYTES :: nat where "GRAPH_MAX_SUMMARY_BYTES = 2048"
definition MAX_SOURCE_BINDINGS :: nat where "MAX_SOURCE_BINDINGS = 64"

datatype ContextNodeKind =
    ContextNodeKind_Source | ContextNodeKind_Decision | ContextNodeKind_Knowledge
  | ContextNodeKind_Run | ContextNodeKind_Skill | ContextNodeKind_Task

fun ContextNodeKind_as_str :: "ContextNodeKind \<Rightarrow> string" where
  "ContextNodeKind_as_str ContextNodeKind_Source = ''source''"
| "ContextNodeKind_as_str ContextNodeKind_Decision = ''decision''"
| "ContextNodeKind_as_str ContextNodeKind_Knowledge = ''knowledge''"
| "ContextNodeKind_as_str ContextNodeKind_Run = ''run''"
| "ContextNodeKind_as_str ContextNodeKind_Skill = ''skill''"
| "ContextNodeKind_as_str ContextNodeKind_Task = ''task''"

datatype ContextEdgeKind =
    ContextEdgeKind_Contains | ContextEdgeKind_DependsOn | ContextEdgeKind_References
  | ContextEdgeKind_TestedBy | ContextEdgeKind_Implements | ContextEdgeKind_RelevantTo

fun ContextEdgeKind_as_str :: "ContextEdgeKind \<Rightarrow> string" where
  "ContextEdgeKind_as_str ContextEdgeKind_Contains = ''contains''"
| "ContextEdgeKind_as_str ContextEdgeKind_DependsOn = ''depends_on''"
| "ContextEdgeKind_as_str ContextEdgeKind_References = ''references''"
| "ContextEdgeKind_as_str ContextEdgeKind_TestedBy = ''tested_by''"
| "ContextEdgeKind_as_str ContextEdgeKind_Implements = ''implements''"
| "ContextEdgeKind_as_str ContextEdgeKind_RelevantTo = ''relevant_to''"

fun edge_kind_order :: "ContextEdgeKind \<Rightarrow> nat" where
  "edge_kind_order ContextEdgeKind_Contains = 0"
| "edge_kind_order ContextEdgeKind_DependsOn = 1"
| "edge_kind_order ContextEdgeKind_References = 2"
| "edge_kind_order ContextEdgeKind_TestedBy = 3"
| "edge_kind_order ContextEdgeKind_Implements = 4"
| "edge_kind_order ContextEdgeKind_RelevantTo = 5"

record ContextNode =
  cn_id :: string
  cn_kind :: ContextNodeKind
  cn_content_digest :: string
  cn_summary :: string
  cn_source_bindings :: "(string \<times> string) list"
  cn_token_estimate :: nat

record ContextEdge =
  ce_from :: string
  ce_to :: string
  ce_kind :: ContextEdgeKind

text \<open>\<open>text.chars().count().div_ceil(4)\<close>\<close>

definition graph_estimate_tokens :: "string \<Rightarrow> nat" where
  "graph_estimate_tokens s = (length (scalars s) + 3) div 4"

datatype ContextGraphError =
    ContextGraphError_DuplicateNode string
  | ContextGraphError_DanglingEdge string string
  | ContextGraphError_MalformedDigest string
  | ContextGraphError_TooManyNodes
  | ContextGraphError_TooManyEdges
  | ContextGraphError_IdTooLong string
  | ContextGraphError_SummaryTooLarge string
  | ContextGraphError_TooManySourceBindings string

fun ContextGraphError_display :: "ContextGraphError \<Rightarrow> string" where
  "ContextGraphError_display (ContextGraphError_DuplicateNode i) = ''duplicate node: '' @ i"
| "ContextGraphError_display (ContextGraphError_DanglingEdge f t) = ''dangling edge: '' @ f @ '' -> '' @ t"
| "ContextGraphError_display (ContextGraphError_MalformedDigest i) = ''malformed digest: '' @ i"
| "ContextGraphError_display ContextGraphError_TooManyNodes = ''too many nodes''"
| "ContextGraphError_display ContextGraphError_TooManyEdges = ''too many edges''"
| "ContextGraphError_display (ContextGraphError_IdTooLong i) = ''id too long: '' @ i"
| "ContextGraphError_display (ContextGraphError_SummaryTooLarge i) = ''summary too large: '' @ i"
| "ContextGraphError_display (ContextGraphError_TooManySourceBindings i) = ''too many source bindings: '' @ i"

definition is_hex_digest :: "string \<Rightarrow> bool" where
  "is_hex_digest v \<longleftrightarrow> length v = 64 \<and> list_all is_lower_hex v"

record ContextGraph =
  cg_nodes :: "ContextNode list"
  cg_edges :: "ContextEdge list"

fun graph_node_loop :: "string list \<Rightarrow> ContextNode list \<Rightarrow> ContextGraphError option" where
  "graph_node_loop seen [] = None"
| "graph_node_loop seen (n # ns) =
     (if MAX_ID_BYTES < length (cn_id n) then Some (ContextGraphError_IdTooLong (cn_id n))
      else if GRAPH_MAX_SUMMARY_BYTES < length (cn_summary n) then Some (ContextGraphError_SummaryTooLarge (cn_id n))
      else if MAX_SOURCE_BINDINGS < length (cn_source_bindings n)
      then Some (ContextGraphError_TooManySourceBindings (cn_id n))
      else if \<not> is_hex_digest (cn_content_digest n) then Some (ContextGraphError_MalformedDigest (cn_id n))
      else if cn_id n \<in> set seen then Some (ContextGraphError_DuplicateNode (cn_id n))
      else graph_node_loop (cn_id n # seen) ns)"

fun graph_edge_loop :: "string list \<Rightarrow> ContextEdge list \<Rightarrow> ContextGraphError option" where
  "graph_edge_loop ids [] = None"
| "graph_edge_loop ids (e # es) =
     (if ce_from e \<notin> set ids \<or> ce_to e \<notin> set ids
      then Some (ContextGraphError_DanglingEdge (ce_from e) (ce_to e))
      else graph_edge_loop ids es)"

definition edge_key :: "ContextEdge \<Rightarrow> string \<times> nat \<times> string" where
  "edge_key e = (ce_from e, edge_kind_order (ce_kind e), ce_to e)"

definition graph_build :: "ContextNode list \<Rightarrow> ContextEdge list \<Rightarrow> ContextGraphError + ContextGraph" where
  "graph_build nodes edges =
     (if GRAPH_MAX_NODES < length nodes then Err ContextGraphError_TooManyNodes
      else if MAX_EDGES < length edges then Err ContextGraphError_TooManyEdges
      else case graph_node_loop [] nodes of
             Some e \<Rightarrow> Err e
           | None \<Rightarrow>
               let sorted_nodes = sort_key cn_id nodes
               in case graph_edge_loop (map cn_id sorted_nodes) edges of
                    Some e \<Rightarrow> Err e
                  | None \<Rightarrow> Ok \<lparr> cg_nodes = sorted_nodes, cg_edges = sort_key edge_key edges \<rparr>)"

definition graph_node :: "ContextGraph \<Rightarrow> string \<Rightarrow> ContextNode option" where
  "graph_node g i = find (\<lambda>n. cn_id n = i) (cg_nodes g)"

subsection \<open>The digest\<close>

definition digest_artifact_payload :: "scientific \<Rightarrow> string \<Rightarrow> 64 word \<Rightarrow> Value \<Rightarrow> string + string" where
  "digest_artifact_payload sci ty version payload =
     (if version < 1 then Err ''An artifact schema version must be a positive safe integer.''
      else Ok (sha256_hex_str (artifact_domain ty version (canonical_json_value sci payload))))"

definition graph_binding_value :: "string \<times> string \<Rightarrow> Value" where
  "graph_binding_value b = json_object [(''dependency'', Value_String (fst b)), (''digest'', Value_String (snd b))]"

definition graph_node_value :: "ContextNode \<Rightarrow> Value" where
  "graph_node_value n = json_object
     [(''id'', Value_String (cn_id n)), (''kind'', Value_String (ContextNodeKind_as_str (cn_kind n))),
      (''contentDigest'', Value_String (cn_content_digest n)), (''summary'', Value_String (cn_summary n)),
      (''sourceBindings'', Value_Array (map graph_binding_value (cn_source_bindings n))),
      (''tokenEstimate'', Value_Number (PosInt (cn_token_estimate n)))]"

definition graph_edge_value :: "ContextEdge \<Rightarrow> Value" where
  "graph_edge_value e = json_object
     [(''from'', Value_String (ce_from e)), (''kind'', Value_String (ContextEdgeKind_as_str (ce_kind e))),
      (''to'', Value_String (ce_to e))]"

definition compute_context_graph_digest :: "scientific \<Rightarrow> ContextGraph \<Rightarrow> string option" where
  "compute_context_graph_digest sci g =
     (let payload = json_object
            [(''nodes'', Value_Array (map graph_node_value (cg_nodes g))),
             (''edges'', Value_Array (map graph_edge_value (cg_edges g)))]
      in case digest_artifact_payload sci ''ContextGraph'' 1 payload of Inr d \<Rightarrow> Some d | Inl _ \<Rightarrow> None)"

subsection \<open>Staleness\<close>

record StaleContextNode =
  scn_node_id :: string
  scn_stale_bindings :: "string list"

fun stale_bindings_loop :: "(string, string) btree_map \<Rightarrow> (string \<times> string) list \<Rightarrow> string list" where
  "stale_bindings_loop current [] = []"
| "stale_bindings_loop current ((dep, bound) # bs) =
     (case bm_get current dep of
        Some cur \<Rightarrow> if cur \<noteq> bound then dep # stale_bindings_loop current bs else stale_bindings_loop current bs
      | None \<Rightarrow> stale_bindings_loop current bs)"

fun stale_nodes_loop :: "(string, string) btree_map \<Rightarrow> ContextNode list \<Rightarrow> StaleContextNode list" where
  "stale_nodes_loop current [] = []"
| "stale_nodes_loop current (n # ns) =
     (let stale = stale_bindings_loop current (cn_source_bindings n)
      in if stale = [] then stale_nodes_loop current ns
         else \<lparr> scn_node_id = cn_id n, scn_stale_bindings = sort stale \<rparr> # stale_nodes_loop current ns)"

definition stale_context_nodes :: "ContextGraph \<Rightarrow> (string \<times> string) list \<Rightarrow> StaleContextNode list" where
  "stale_context_nodes g current = sort_key scn_node_id (stale_nodes_loop (bm_of_list [] current) (cg_nodes g))"

subsection \<open>Properties\<close>

lemma is_hex_digest_sha [simp]: "is_hex_digest v \<longleftrightarrow> is_sha256_hex v"
  by (simp add: is_hex_digest_def is_sha256_hex_def)

lemma digest_artifact_payload_total:
  "digest_artifact_payload sci t 1 v =
     Inr (sha256_hex_str (artifact_domain t 1 (canonical_json_value sci v)))"
  by (simp add: digest_artifact_payload_def)

definition node_ok :: "ContextNode \<Rightarrow> bool" where
  "node_ok n \<longleftrightarrow> length (cn_id n) \<le> MAX_ID_BYTES \<and> length (cn_summary n) \<le> GRAPH_MAX_SUMMARY_BYTES
     \<and> length (cn_source_bindings n) \<le> MAX_SOURCE_BINDINGS \<and> is_sha256_hex (cn_content_digest n)"

lemma graph_node_loop_None:
  "graph_node_loop seen ns = None \<longleftrightarrow>
     (\<forall>n \<in> set ns. node_ok n) \<and> distinct (map cn_id ns) \<and> cn_id ` set ns \<inter> set seen = {}"
  by (induction ns arbitrary: seen) (auto simp: node_ok_def)

lemma graph_edge_loop_None:
  "graph_edge_loop ids es = None \<longleftrightarrow> (\<forall>e \<in> set es. ce_from e \<in> set ids \<and> ce_to e \<in> set ids)"
  by (induction es) auto

lemma graph_build_Ok:
  "graph_build nodes edges = Inr g \<longleftrightarrow>
     length nodes \<le> GRAPH_MAX_NODES \<and> length edges \<le> MAX_EDGES \<and> (\<forall>n \<in> set nodes. node_ok n)
     \<and> distinct (map cn_id nodes) \<and> (\<forall>e \<in> set edges. {ce_from e, ce_to e} \<subseteq> cn_id ` set nodes)
     \<and> g = \<lparr> cg_nodes = sort_key cn_id nodes, cg_edges = sort_key edge_key edges \<rparr>"
  using graph_node_loop_None [of "[]" nodes] graph_edge_loop_None [of "map cn_id (sort_key cn_id nodes)" edges]
  by (auto simp: graph_build_def Let_def split: option.splits)

lemma inj_edge_key: "inj edge_key"
proof (rule injI)
  fix e f
  assume same: "edge_key e = edge_key f"
  then have "ce_kind e = ce_kind f"
    by (cases "ce_kind e"; cases "ce_kind f") (simp_all add: edge_key_def)
  then show "e = f"
    using same by (simp add: edge_key_def)
qed

text \<open>
  A graph is its content: the same nodes and the same edges in any order are accepted alike and
  give the same graph, hence the same digest, which never panics.
\<close>

theorem graph_build_order_independent:
  assumes "mset nodes = mset nodes'" and "mset edges = mset edges'" and "graph_build nodes edges = Inr g"
  shows "graph_build nodes' edges' = Inr g \<and> compute_context_graph_digest sci g \<noteq> None"
proof -
  have d: "distinct (map cn_id nodes)"
    using assms(3) by (simp add: graph_build_Ok)
  have "sort_key cn_id nodes = sort_key cn_id nodes'"
    using assms(1) d by (intro sort_key_eq_sort_key) (simp_all add: distinct_map)
  moreover have "sort_key edge_key edges = sort_key edge_key edges'"
    using assms(2) inj_edge_key by (intro sort_key_eq_sort_key) (auto intro: inj_on_subset)
  moreover have "distinct (map cn_id nodes')"
    using d mset_eq_imp_distinct_iff [of "map cn_id nodes" "map cn_id nodes'"] assms(1) by simp
  ultimately show ?thesis
    using assms(3) mset_eq_length [OF assms(1)] mset_eq_length [OF assms(2)] mset_eq_setD [OF assms(1)]
      mset_eq_setD [OF assms(2)]
    by (simp add: graph_build_Ok compute_context_graph_digest_def Let_def digest_artifact_payload_total)
qed

text \<open>The binding of a node is stale when its dependency is observed now under another digest.\<close>

definition stale_dependencies :: "(string \<times> string) list \<Rightarrow> ContextNode \<Rightarrow> string list" where
  "stale_dependencies current n =
     map fst (filter (\<lambda>(dep, bound). \<exists>cur. map_of (rev current) dep = Some cur \<and> cur \<noteq> bound) (cn_source_bindings n))"

lemma stale_bindings_spec:
  "stale_bindings_loop (bm_of_list [] current) (cn_source_bindings n) = stale_dependencies current n"
proof -
  have "stale_bindings_loop (bm_of_list [] current) bs =
      map fst (filter (\<lambda>(dep, bound). \<exists>cur. map_of (rev current) dep = Some cur \<and> cur \<noteq> bound) bs)" for bs
    by (induction bs) (auto simp: bm_get_of_list split: option.splits)
  then show ?thesis by (simp add: stale_dependencies_def)
qed

lemma stale_nodes_loop_spec:
  "stale_nodes_loop (bm_of_list [] current) ns =
     map (\<lambda>n. \<lparr> scn_node_id = cn_id n, scn_stale_bindings = sort (stale_dependencies current n) \<rparr>)
       (filter (\<lambda>n. stale_dependencies current n \<noteq> []) ns)"
  by (induction ns) (simp_all add: Let_def stale_bindings_spec)

text \<open>
  Staleness is targeted: a node of a built graph is reported exactly when one of its bindings
  has a dependency that is observed now, the last observation counting, under a digest other
  than the bound one; the report is in node order and names exactly those dependencies.  What
  is not observed is never stale.
\<close>

theorem context_staleness_exact:
  assumes "graph_build nodes edges = Inr g"
  shows "stale_context_nodes g current =
     map (\<lambda>n. \<lparr> scn_node_id = cn_id n, scn_stale_bindings = sort (stale_dependencies current n) \<rparr>)
       (filter (\<lambda>n. stale_dependencies current n \<noteq> []) (cg_nodes g))"
proof -
  have "sorted (map cn_id (cg_nodes g))"
    using assms by (auto simp: graph_build_Ok)
  then have "sorted (map cn_id (filter P (cg_nodes g)))" for P
    by (rule sorted_filter)
  then show ?thesis
    by (simp add: stale_context_nodes_def stale_nodes_loop_spec sort_key_id_if_sorted comp_def)
qed

end
