(* ===== verification/Context_Representation.thy ===== *)
theory Context_Representation
  imports Context_Graph
begin

text \<open>
  Layered representations of the context nodes (\<open>context_representation.rs\<close>): validated sets of
  at most one representation per level, the store of the sets, exact lookup of a level and the
  digest of a store.
\<close>

definition STORE_MAX_NODES :: nat where "STORE_MAX_NODES = 512"
definition REPRESENTATION_MAX_ID_BYTES :: nat where "REPRESENTATION_MAX_ID_BYTES = 256"
definition MAX_CONTENT_BYTES :: nat where "MAX_CONTENT_BYTES = 8192"
definition MAX_DERIVED_FROM :: nat where "MAX_DERIVED_FROM = 64"
definition MAX_REPRESENTATIONS_PER_SET :: nat where "MAX_REPRESENTATIONS_PER_SET = 5"

datatype RepresentationLevel =
    RepresentationLevel_Identity | RepresentationLevel_Summary | RepresentationLevel_Structured
  | RepresentationLevel_Detailed | RepresentationLevel_Source

fun RepresentationLevel_as_str :: "RepresentationLevel \<Rightarrow> string" where
  "RepresentationLevel_as_str RepresentationLevel_Identity = ''identity''"
| "RepresentationLevel_as_str RepresentationLevel_Summary = ''summary''"
| "RepresentationLevel_as_str RepresentationLevel_Structured = ''structured''"
| "RepresentationLevel_as_str RepresentationLevel_Detailed = ''detailed''"
| "RepresentationLevel_as_str RepresentationLevel_Source = ''source''"

text \<open>The derived order of the levels is the order of their declaration.\<close>

fun level_index :: "RepresentationLevel \<Rightarrow> nat" where
  "level_index RepresentationLevel_Identity = 0"
| "level_index RepresentationLevel_Summary = 1"
| "level_index RepresentationLevel_Structured = 2"
| "level_index RepresentationLevel_Detailed = 3"
| "level_index RepresentationLevel_Source = 4"

lemma level_index_inject [simp]: "level_index a = level_index b \<longleftrightarrow> a = b"
  by (cases a; cases b) simp_all

instantiation RepresentationLevel :: linorder
begin

definition less_eq_RepresentationLevel :: "RepresentationLevel \<Rightarrow> RepresentationLevel \<Rightarrow> bool" where
  "less_eq_RepresentationLevel a b \<longleftrightarrow> level_index a \<le> level_index b"

definition less_RepresentationLevel :: "RepresentationLevel \<Rightarrow> RepresentationLevel \<Rightarrow> bool" where
  "less_RepresentationLevel a b \<longleftrightarrow> level_index a < level_index b"

instance
  by standard (auto simp: less_eq_RepresentationLevel_def less_RepresentationLevel_def)

end

datatype RepresentationOrigin = RepresentationOrigin_HostExtracted | RepresentationOrigin_ModelDerived

fun RepresentationOrigin_as_str :: "RepresentationOrigin \<Rightarrow> string" where
  "RepresentationOrigin_as_str RepresentationOrigin_HostExtracted = ''host_extracted''"
| "RepresentationOrigin_as_str RepresentationOrigin_ModelDerived = ''model_derived''"

record NodeRepresentation =
  nr_level :: RepresentationLevel
  nr_origin :: RepresentationOrigin
  nr_content_digest :: string
  nr_derived_from :: "(string \<times> string) list"
  nr_content :: string

record NodeRepresentationSet =
  nrs_node_id :: string
  nrs_representations :: "NodeRepresentation list"

datatype RepresentationError =
    RepresentationError_DuplicateLevel string RepresentationLevel
  | RepresentationError_ModelDerivedStructured string
  | RepresentationError_UnprovenancedDerived string RepresentationLevel
  | RepresentationError_MalformedDigest string RepresentationLevel
  | RepresentationError_DigestMismatch string RepresentationLevel
  | RepresentationError_TooManyRepresentations string
  | RepresentationError_IdTooLong string
  | RepresentationError_ContentTooLarge string RepresentationLevel
  | RepresentationError_TooManyBindings string RepresentationLevel
  | RepresentationError_DuplicateNode string
  | RepresentationError_TooManyNodes

fun RepresentationError_display :: "RepresentationError \<Rightarrow> string" where
  "RepresentationError_display (RepresentationError_DuplicateLevel i l) =
     ''duplicate level: '' @ i @ '' '' @ RepresentationLevel_as_str l"
| "RepresentationError_display (RepresentationError_ModelDerivedStructured i) = ''model-derived structured: '' @ i"
| "RepresentationError_display (RepresentationError_UnprovenancedDerived i l) =
     ''unprovenanced derived: '' @ i @ '' '' @ RepresentationLevel_as_str l"
| "RepresentationError_display (RepresentationError_MalformedDigest i l) =
     ''malformed digest: '' @ i @ '' '' @ RepresentationLevel_as_str l"
| "RepresentationError_display (RepresentationError_DigestMismatch i l) =
     ''digest mismatch: '' @ i @ '' '' @ RepresentationLevel_as_str l"
| "RepresentationError_display (RepresentationError_TooManyRepresentations i) = ''too many representations: '' @ i"
| "RepresentationError_display (RepresentationError_IdTooLong i) = ''id too long: '' @ i"
| "RepresentationError_display (RepresentationError_ContentTooLarge i l) =
     ''content too large: '' @ i @ '' '' @ RepresentationLevel_as_str l"
| "RepresentationError_display (RepresentationError_TooManyBindings i l) =
     ''too many bindings: '' @ i @ '' '' @ RepresentationLevel_as_str l"
| "RepresentationError_display (RepresentationError_DuplicateNode i) = ''duplicate node: '' @ i"
| "RepresentationError_display RepresentationError_TooManyNodes = ''too many nodes''"

definition content_digest_of :: "string \<Rightarrow> string" where
  "content_digest_of s = sha256_hex (as_bytes s)"

fun representation_loop ::
    "string \<Rightarrow> RepresentationLevel list \<Rightarrow> NodeRepresentation list \<Rightarrow> RepresentationError option" where
  "representation_loop node_id seen [] = None"
| "representation_loop node_id seen (rep # reps) =
     (if MAX_CONTENT_BYTES < length (nr_content rep)
      then Some (RepresentationError_ContentTooLarge node_id (nr_level rep))
      else if MAX_DERIVED_FROM < length (nr_derived_from rep)
      then Some (RepresentationError_TooManyBindings node_id (nr_level rep))
      else if \<not> is_hex_digest (nr_content_digest rep)
      then Some (RepresentationError_MalformedDigest node_id (nr_level rep))
      else if nr_content rep \<noteq> [] \<and> nr_content_digest rep \<noteq> content_digest_of (nr_content rep)
      then Some (RepresentationError_DigestMismatch node_id (nr_level rep))
      else if nr_level rep = RepresentationLevel_Structured \<and> nr_origin rep = RepresentationOrigin_ModelDerived
      then Some (RepresentationError_ModelDerivedStructured node_id)
      else if nr_origin rep = RepresentationOrigin_ModelDerived \<and> nr_derived_from rep = []
      then Some (RepresentationError_UnprovenancedDerived node_id (nr_level rep))
      else if nr_level rep \<in> set seen then Some (RepresentationError_DuplicateLevel node_id (nr_level rep))
      else representation_loop node_id (nr_level rep # seen) reps)"

definition representation_set_build ::
    "string \<Rightarrow> NodeRepresentation list \<Rightarrow> RepresentationError + NodeRepresentationSet" where
  "representation_set_build node_id reps =
     (if REPRESENTATION_MAX_ID_BYTES < length node_id then Err (RepresentationError_IdTooLong node_id)
      else if MAX_REPRESENTATIONS_PER_SET < length reps then Err (RepresentationError_TooManyRepresentations node_id)
      else case representation_loop node_id [] reps of
             Some e \<Rightarrow> Err e
           | None \<Rightarrow> Ok \<lparr> nrs_node_id = node_id, nrs_representations = sort_key nr_level reps \<rparr>)"

record ContextRepresentationStore =
  crs_sets :: "NodeRepresentationSet list"

fun store_loop :: "string list \<Rightarrow> NodeRepresentationSet list \<Rightarrow> RepresentationError option" where
  "store_loop seen [] = None"
| "store_loop seen (s # ss) =
     (if REPRESENTATION_MAX_ID_BYTES < length (nrs_node_id s) then Some (RepresentationError_IdTooLong (nrs_node_id s))
      else if nrs_node_id s \<in> set seen then Some (RepresentationError_DuplicateNode (nrs_node_id s))
      else store_loop (nrs_node_id s # seen) ss)"

definition representation_store_build ::
    "NodeRepresentationSet list \<Rightarrow> RepresentationError + ContextRepresentationStore" where
  "representation_store_build sets =
     (if STORE_MAX_NODES < length sets then Err RepresentationError_TooManyNodes
      else case store_loop [] sets of
             Some e \<Rightarrow> Err e
           | None \<Rightarrow> Ok \<lparr> crs_sets = sort_key nrs_node_id sets \<rparr>)"

definition store_set :: "ContextRepresentationStore \<Rightarrow> string \<Rightarrow> NodeRepresentationSet option" where
  "store_set st node_id = find (\<lambda>s. nrs_node_id s = node_id) (crs_sets st)"

definition representation_value :: "NodeRepresentation \<Rightarrow> Value" where
  "representation_value r = json_object
     [(''level'', Value_String (RepresentationLevel_as_str (nr_level r))),
      (''origin'', Value_String (RepresentationOrigin_as_str (nr_origin r))),
      (''contentDigest'', Value_String (nr_content_digest r)),
      (''derivedFrom'', Value_Array (map graph_binding_value (nr_derived_from r))),
      (''content'', Value_String (nr_content r))]"

definition representation_store_digest :: "scientific \<Rightarrow> ContextRepresentationStore \<Rightarrow> string option" where
  "representation_store_digest sci st =
     (let sets = map (\<lambda>s. json_object [(''nodeId'', Value_String (nrs_node_id s)),
            (''representations'', Value_Array (map representation_value (nrs_representations s)))]) (crs_sets st)
      in case digest_artifact_payload sci ''ContextRepresentationStore'' 1 (json_object [(''sets'', Value_Array sets)]) of
           Inr d \<Rightarrow> Some d | Inl _ \<Rightarrow> None)"

definition available_levels :: "NodeRepresentationSet \<Rightarrow> RepresentationLevel list" where
  "available_levels s = map nr_level (nrs_representations s)"

definition resolve_representation :: "NodeRepresentationSet \<Rightarrow> RepresentationLevel \<Rightarrow> NodeRepresentation option" where
  "resolve_representation s level = find (\<lambda>r. nr_level r = level) (nrs_representations s)"

subsection \<open>Properties\<close>

text \<open>What a representation of a validated set satisfies.\<close>

definition representation_ok :: "NodeRepresentation \<Rightarrow> bool" where
  "representation_ok r \<longleftrightarrow>
     length (nr_content r) \<le> MAX_CONTENT_BYTES \<and> length (nr_derived_from r) \<le> MAX_DERIVED_FROM
     \<and> is_sha256_hex (nr_content_digest r)
     \<and> (nr_content r = [] \<or> nr_content_digest r = content_digest_of (nr_content r))
     \<and> (nr_origin r = RepresentationOrigin_ModelDerived \<longrightarrow>
          nr_level r \<noteq> RepresentationLevel_Structured \<and> nr_derived_from r \<noteq> [])"

lemma representation_loop_None:
  "representation_loop i seen rs = None \<longleftrightarrow>
     (\<forall>r \<in> set rs. representation_ok r) \<and> distinct (map nr_level rs) \<and> nr_level ` set rs \<inter> set seen = {}"
  by (induction rs arbitrary: seen) (auto simp: representation_ok_def)

lemma representation_set_build_Ok:
  "representation_set_build i rs = Inr s \<longleftrightarrow>
     length i \<le> REPRESENTATION_MAX_ID_BYTES \<and> length rs \<le> MAX_REPRESENTATIONS_PER_SET
     \<and> (\<forall>r \<in> set rs. representation_ok r) \<and> distinct (map nr_level rs)
     \<and> s = \<lparr> nrs_node_id = i, nrs_representations = sort_key nr_level rs \<rparr>"
  using representation_loop_None [of i "[]" rs] by (auto simp: representation_set_build_def split: option.splits)

lemma store_loop_None:
  "store_loop seen ss = None \<longleftrightarrow>
     (\<forall>s \<in> set ss. length (nrs_node_id s) \<le> REPRESENTATION_MAX_ID_BYTES) \<and> distinct (map nrs_node_id ss)
     \<and> nrs_node_id ` set ss \<inter> set seen = {}"
  by (induction ss arbitrary: seen) auto

lemma find_unique:
  "distinct (map key xs) \<Longrightarrow> x \<in> set xs \<Longrightarrow> find (\<lambda>y. key y = key x) xs = Some x"
  by (induction xs) (auto simp: image_iff)

lemma find_absent: "find (\<lambda>y. key y = k) xs = None \<longleftrightarrow> k \<notin> key ` set xs"
  by (auto simp: find_None_iff)

text \<open>
  A validated set resolves every given level to the given representation and no other level: the
  content of what it resolves is the preimage of its digest unless it is empty, structured
  content never comes from a model, and what comes from a model names its provenance.
\<close>

theorem representation_lookup_exact:
  assumes "representation_set_build i rs = Inr s"
  shows "(resolve_representation s level = Some r \<longleftrightarrow> r \<in> set rs \<and> nr_level r = level)
    \<and> (r \<in> set rs \<longrightarrow> representation_ok r)
    \<and> sorted_wrt (<) (available_levels s)"
proof -
  have ok: "\<forall>r \<in> set rs. representation_ok r" "distinct (map nr_level rs)"
    and s: "s = \<lparr> nrs_node_id = i, nrs_representations = sort_key nr_level rs \<rparr>"
    using assms by (auto simp: representation_set_build_Ok)
  have d: "distinct (map nr_level (sort_key nr_level rs))"
    using ok(2) by (simp add: distinct_map)
  have "resolve_representation s level = Some r \<longleftrightarrow> r \<in> set rs \<and> nr_level r = level"
    using find_unique [OF d, of r] find_Some_set [of "\<lambda>r. nr_level r = level" "sort_key nr_level rs" r]
    by (auto simp: s resolve_representation_def)
  moreover have "sorted_wrt (<) (available_levels s)"
    using d by (simp add: s available_levels_def strict_sorted_iff)
  ultimately show ?thesis
    using ok(1) by blast
qed

theorem representation_lookup_exact_witness:
  "resolve_representation
     \<lparr> nrs_node_id = ''n'', nrs_representations =
       [\<lparr> nr_level = RepresentationLevel_Summary, nr_origin = RepresentationOrigin_HostExtracted,
          nr_content_digest = content_digest_of ''s'', nr_derived_from = [], nr_content = ''s'' \<rparr>] \<rparr>
     RepresentationLevel_Structured \<noteq>
   Some \<lparr> nr_level = RepresentationLevel_Summary, nr_origin = RepresentationOrigin_HostExtracted,
          nr_content_digest = content_digest_of ''s'', nr_derived_from = [], nr_content = ''s'' \<rparr>"
  using representation_lookup_exact [of "''n''" "[\<lparr> nr_level = RepresentationLevel_Summary,
      nr_origin = RepresentationOrigin_HostExtracted, nr_content_digest = content_digest_of ''s'', nr_derived_from = [],
      nr_content = ''s'' \<rparr>]" _ RepresentationLevel_Structured]
  by (simp add: representation_set_build_Ok representation_ok_def content_digest_of_def
      REPRESENTATION_MAX_ID_BYTES_def MAX_REPRESENTATIONS_PER_SET_def MAX_CONTENT_BYTES_def MAX_DERIVED_FROM_def)

text \<open>Empty content is accepted at every level, under the digest of anything.\<close>

lemma empty_content_under_any_digest:
  assumes "is_sha256_hex d"
  shows "representation_set_build ''n''
     [\<lparr> nr_level = level, nr_origin = RepresentationOrigin_HostExtracted, nr_content_digest = d,
        nr_derived_from = [], nr_content = [] \<rparr>] =
     Inr \<lparr> nrs_node_id = ''n'', nrs_representations =
       [\<lparr> nr_level = level, nr_origin = RepresentationOrigin_HostExtracted, nr_content_digest = d,
          nr_derived_from = [], nr_content = [] \<rparr>] \<rparr>"
  using assms by (simp add: representation_set_build_Ok representation_ok_def REPRESENTATION_MAX_ID_BYTES_def
      MAX_REPRESENTATIONS_PER_SET_def)

end
