(* ===== verification/Context_Scheduler.thy ===== *)
theory Context_Scheduler
  imports BTree Machine "HOL-Library.Word" "HOL-Library.Product_Lexorder"
begin

text \<open>
  The working-set scheduler (\<open>context_scheduler.rs\<close> and \<open>context_scheduler/types.rs\<close>,
  \<open>policy.rs\<close>, \<open>input.rs\<close>, \<open>state.rs\<close>).  Ticks are \<open>u64\<close> values and kept as words, the
  relevance is a \<open>u8\<close> and kept as a natural number with its saturation written out, token
  counts are \<open>usize\<close> sums that saturate.  The three loops that look for the entry to demote
  compare a score and then the node id, which is the order of pairs.
\<close>

subsection \<open>Vocabulary\<close>

datatype WorkingSetTier =
  WorkingSetTier_Hot | WorkingSetTier_Warm | WorkingSetTier_Cold | WorkingSetTier_Archive

fun WorkingSetTier_as_str :: "WorkingSetTier \<Rightarrow> string" where
  "WorkingSetTier_as_str WorkingSetTier_Hot = ''hot''"
| "WorkingSetTier_as_str WorkingSetTier_Warm = ''warm''"
| "WorkingSetTier_as_str WorkingSetTier_Cold = ''cold''"
| "WorkingSetTier_as_str WorkingSetTier_Archive = ''archive''"

fun tier_order :: "WorkingSetTier \<Rightarrow> nat" where
  "tier_order WorkingSetTier_Hot = 0"
| "tier_order WorkingSetTier_Warm = 1"
| "tier_order WorkingSetTier_Cold = 2"
| "tier_order WorkingSetTier_Archive = 3"

record SchedulerEntry =
  se_node_id :: string
  se_tier :: WorkingSetTier
  se_pinned :: bool
  se_relevance :: nat
  se_last_access_tick :: "64 word"
  se_token_estimate :: nat
  se_content_digest :: string

datatype SchedulerEvent =
    SchedulerEvent_Access string
  | SchedulerEvent_Pin string
  | SchedulerEvent_Unpin string
  | SchedulerEvent_Relevance string nat
  | SchedulerEvent_Stale string
  | SchedulerEvent_Archive string

fun event_node_id :: "SchedulerEvent \<Rightarrow> string" where
  "event_node_id (SchedulerEvent_Access i) = i"
| "event_node_id (SchedulerEvent_Pin i) = i"
| "event_node_id (SchedulerEvent_Unpin i) = i"
| "event_node_id (SchedulerEvent_Relevance i r) = i"
| "event_node_id (SchedulerEvent_Stale i) = i"
| "event_node_id (SchedulerEvent_Archive i) = i"

record SchedulerOutcome =
  so_node_id :: string
  so_tier_before :: WorkingSetTier
  so_tier_after :: WorkingSetTier

record TickReport =
  tr_tick :: "64 word"
  tr_promoted :: "string list"
  tr_demoted :: "string list"

record BudgetReport =
  br_hot_tokens_before :: nat
  br_hot_tokens_after :: nat
  br_demoted :: "string list"

datatype SchedulerError =
    SchedulerError_UnknownNode string
  | SchedulerError_DuplicateNode string
  | SchedulerError_InvalidConfig string
  | SchedulerError_RelevanceOutOfRange string nat

fun SchedulerError_display :: "SchedulerError \<Rightarrow> string" where
  "SchedulerError_display (SchedulerError_UnknownNode i) = ''unknown node: '' @ i"
| "SchedulerError_display (SchedulerError_DuplicateNode i) = ''duplicate node: '' @ i"
| "SchedulerError_display (SchedulerError_InvalidConfig r) = ''invalid config: '' @ r"
| "SchedulerError_display (SchedulerError_RelevanceOutOfRange i v) =
     ''relevance out of range: '' @ i @ '' '' @ show_nat v"

definition MAX_SCHEDULER_NODES :: nat where "MAX_SCHEDULER_NODES = 512"
definition DEFAULT_BUDGET_TOKENS :: nat where "DEFAULT_BUDGET_TOKENS = 4096"
definition PINNED_HOT_BUDGET_TOKENS :: nat where "PINNED_HOT_BUDGET_TOKENS = 1024"
definition MAX_TICK_EVENTS :: nat where "MAX_TICK_EVENTS = 64"
definition MAX_SEARCH_SCORES :: nat where "MAX_SEARCH_SCORES = 64"

subsection \<open>Canonical tick inputs\<close>

record AccessEvent =
  ae_node_id :: string

text \<open>The loop \<open>for x in xs { if seen.insert(key(x)) { v.push(x) } }\<close>.\<close>

fun first_seen :: "('a \<Rightarrow> 'k) \<Rightarrow> 'k list \<Rightarrow> 'a list \<Rightarrow> 'a list" where
  "first_seen key seen [] = []"
| "first_seen key seen (x # xs) =
     (if key x \<in> set seen then first_seen key seen xs
      else x # first_seen key (key x # seen) xs)"

definition canonicalize_events_with_dropped :: "AccessEvent list \<Rightarrow> AccessEvent list \<times> nat" where
  "canonicalize_events_with_dropped events =
     (let uniq = sort_key ae_node_id (first_seen ae_node_id [] events)
      in (take MAX_TICK_EVENTS uniq, length uniq - MAX_TICK_EVENTS))"

definition canonicalize_events :: "AccessEvent list \<Rightarrow> AccessEvent list" where
  "canonicalize_events events = fst (canonicalize_events_with_dropped events)"

record SearchScore =
  ss_node_id :: string
  ss_score :: "32 word"

text \<open>The map of the best score of every node, compared as signed numbers.\<close>

fun best_scores :: "(string, 32 word) btree_map \<Rightarrow> SearchScore list \<Rightarrow> (string, 32 word) btree_map" where
  "best_scores m [] = m"
| "best_scores m (s # ss) =
     (if ss_node_id s = [] \<or> 256 < length (ss_node_id s) then best_scores m ss
      else let entry = (case bm_get m (ss_node_id s) of None \<Rightarrow> ss_score s | Some v \<Rightarrow> v)
           in best_scores (bm_insert (ss_node_id s) (if entry <s ss_score s then ss_score s else entry) m) ss)"

definition canonicalize_search_scores_with_dropped :: "SearchScore list \<Rightarrow> SearchScore list \<times> nat" where
  "canonicalize_search_scores_with_dropped scores =
     (let uniq = sort_key ss_node_id
            (map (\<lambda>(i, v). \<lparr>ss_node_id = i, ss_score = v\<rparr>) (best_scores [] scores))
      in (take MAX_SEARCH_SCORES uniq, length uniq - MAX_SEARCH_SCORES))"

definition canonicalize_search_scores :: "SearchScore list \<Rightarrow> SearchScore list" where
  "canonicalize_search_scores scores = fst (canonicalize_search_scores_with_dropped scores)"

record TickInput =
  ti_now :: "64 word"
  ti_events :: "AccessEvent list"
  ti_events_dropped :: nat
  ti_graph_revision :: string
  ti_new_node_ids :: "string list"
  ti_stale_node_ids :: "string list"
  ti_search_scores :: "SearchScore list option"
  ti_search_scores_dropped :: nat

definition TickInput_new ::
    "64 word \<Rightarrow> AccessEvent list \<Rightarrow> string \<Rightarrow> string list \<Rightarrow> string list \<Rightarrow> TickInput" where
  "TickInput_new now events graph_revision new_node_ids stale_node_ids =
     (let (canonical_events, events_dropped) = canonicalize_events_with_dropped events
      in \<lparr> ti_now = now, ti_events = canonical_events, ti_events_dropped = events_dropped,
           ti_graph_revision = graph_revision,
           ti_new_node_ids = sort (first_seen (\<lambda>i. i) [] new_node_ids),
           ti_stale_node_ids = sort (first_seen (\<lambda>i. i) [] stale_node_ids),
           ti_search_scores = None, ti_search_scores_dropped = 0 \<rparr>)"

definition with_search_scores :: "SearchScore list \<Rightarrow> TickInput \<Rightarrow> TickInput" where
  "with_search_scores search_scores i =
     (let (canonical_scores, dropped) = canonicalize_search_scores_with_dropped search_scores
      in if canonical_scores = [] then i\<lparr>ti_search_scores := None, ti_search_scores_dropped := 0\<rparr>
         else i\<lparr>ti_search_scores := Some canonical_scores, ti_search_scores_dropped := dropped\<rparr>)"

definition new_with_search_scores ::
    "64 word \<Rightarrow> AccessEvent list \<Rightarrow> string \<Rightarrow> string list \<Rightarrow> string list \<Rightarrow> SearchScore list \<Rightarrow> TickInput" where
  "new_with_search_scores now events graph_revision new_node_ids stale_node_ids search_scores =
     (let base = TickInput_new now events graph_revision new_node_ids stale_node_ids;
          (canonical_scores, dropped) = canonicalize_search_scores_with_dropped search_scores
      in if canonical_scores = [] then base\<lparr>ti_search_scores := None, ti_search_scores_dropped := 0\<rparr>
         else base\<lparr>ti_search_scores := Some canonical_scores, ti_search_scores_dropped := dropped\<rparr>)"

definition TickInput_empty :: "64 word \<Rightarrow> string \<Rightarrow> TickInput" where
  "TickInput_empty now graph_revision = TickInput_new now [] graph_revision [] []"

subsection \<open>Scores and budgets\<close>

record SchedulerConfig =
  budget_tokens :: nat

definition SchedulerConfig_default :: SchedulerConfig where
  "SchedulerConfig_default = \<lparr>budget_tokens = DEFAULT_BUDGET_TOKENS\<rparr>"

definition SchedulerConfig_new :: "nat \<Rightarrow> SchedulerError + SchedulerConfig" where
  "SchedulerConfig_new budget =
     (if budget = 0 then Err (SchedulerError_InvalidConfig ''budget_tokens must be >= 1'')
      else Ok \<lparr>budget_tokens = budget\<rparr>)"

definition HOT_SCORE_THRESHOLD :: nat where "HOT_SCORE_THRESHOLD = 280"
definition WARM_SCORE_THRESHOLD :: nat where "WARM_SCORE_THRESHOLD = 120"

definition score :: "SchedulerEntry \<Rightarrow> 64 word \<Rightarrow> nat" where
  "score e tick =
     (let relevance_part = se_relevance e * 4;
          ticks_since = unat tick - unat (se_last_access_tick e);
          recency_points = (if ticks_since = 0 then 30 else 30 - min ticks_since 30);
          pin_bonus = (if se_pinned e then 50 else 0)
      in relevance_part + recency_points + pin_bonus)"

definition tier_for_score :: "nat \<Rightarrow> WorkingSetTier" where
  "tier_for_score s =
     (if HOT_SCORE_THRESHOLD \<le> s then WorkingSetTier_Hot
      else if WARM_SCORE_THRESHOLD \<le> s then WorkingSetTier_Warm else WorkingSetTier_Cold)"

text \<open>The loop that counts every digest once.\<close>

fun unique_total :: "string list \<Rightarrow> nat \<Rightarrow> (string \<times> nat) list \<Rightarrow> nat" where
  "unique_total seen acc [] = acc"
| "unique_total seen acc ((digest, tokens) # items) =
     (if digest \<in> set seen then unique_total seen acc items
      else unique_total (digest # seen) (saturating_add acc tokens) items)"

definition entry_digest :: "SchedulerEntry \<Rightarrow> string" where
  "entry_digest e = (if se_content_digest e = [] then se_node_id e else se_content_digest e)"

definition hot_unique_total :: "SchedulerEntry list \<Rightarrow> nat" where
  "hot_unique_total entries =
     unique_total [] 0 (map (\<lambda>e. (entry_digest e, se_token_estimate e))
       (sort_key se_node_id (filter (\<lambda>e. se_tier e = WorkingSetTier_Hot) entries)))"

definition pinned_hot_unique_total :: "SchedulerEntry list \<Rightarrow> nat" where
  "pinned_hot_unique_total entries =
     unique_total [] 0 (map (\<lambda>e. (entry_digest e, se_token_estimate e))
       (sort_key se_node_id (filter (\<lambda>e. se_tier e = WorkingSetTier_Hot \<and> se_pinned e) entries)))"

definition hot_unique_total_with_map :: "(string, nat) btree_map \<Rightarrow> SchedulerEntry list \<Rightarrow> nat" where
  "hot_unique_total_with_map external entries =
     unique_total [] 0 (map (\<lambda>e. (entry_digest e,
         case bm_get external (se_node_id e) of Some t \<Rightarrow> t | None \<Rightarrow> se_token_estimate e))
       (sort_key se_node_id (filter (\<lambda>e. se_tier e = WorkingSetTier_Hot) entries)))"

text \<open>The search for the lowest eligible entry; the key ends with the node id.\<close>

fun candidate_loop :: "'k::linorder option \<Rightarrow> ('a \<Rightarrow> bool) \<Rightarrow> ('a \<Rightarrow> 'k) \<Rightarrow> 'a list \<Rightarrow> 'k option" where
  "candidate_loop candidate eligible key [] = candidate"
| "candidate_loop candidate eligible key (e # es) =
     (if \<not> eligible e then candidate_loop candidate eligible key es
      else case candidate of
             None \<Rightarrow> candidate_loop (Some (key e)) eligible key es
           | Some best \<Rightarrow>
               if key e < best then candidate_loop (Some (key e)) eligible key es
               else candidate_loop candidate eligible key es)"

definition score_key :: "64 word \<Rightarrow> SchedulerEntry \<Rightarrow> nat \<times> string" where
  "score_key tick e = (score e tick, se_node_id e)"

definition demote :: "string \<Rightarrow> SchedulerEntry list \<Rightarrow> SchedulerEntry list" where
  "demote victim entries =
     update_first (\<lambda>e. se_node_id e = victim) (\<lambda>e. e\<lparr>se_tier := WorkingSetTier_Warm\<rparr>) entries"

lemma length_demote [simp]: "length (demote v es) = length es"
  by (simp add: demote_def)

text \<open>The loop of \<open>enforce_budget\<close> and of the last pipeline step.\<close>

function budget_loop ::
    "(SchedulerEntry list \<Rightarrow> nat) \<Rightarrow> nat \<Rightarrow> 64 word \<Rightarrow> string list \<Rightarrow> SchedulerEntry list \<Rightarrow>
     SchedulerEntry list \<times> string list" where
  "budget_loop total_of budget tick demoted entries =
     (if total_of entries \<le> budget then (entries, demoted)
      else case candidate_loop None (\<lambda>e. se_tier e = WorkingSetTier_Hot \<and> \<not> se_pinned e)
                  (score_key tick) entries of
             None \<Rightarrow> (entries, demoted)
           | Some (s, victim) \<Rightarrow>
               if length entries < length (demoted @ [victim])
               then (demote victim entries, demoted @ [victim])
               else budget_loop total_of budget tick (demoted @ [victim]) (demote victim entries))"
  by pat_completeness auto
termination
  by (relation "measure (\<lambda>(_, _, _, demoted, entries). Suc (length entries) - length demoted)") auto

declare budget_loop.simps [simp del]

subsection \<open>The working set\<close>

record WorkingSetState =
  ws_entries :: "SchedulerEntry list"
  ws_tick :: "64 word"
  ws_tick_view :: "64 word"
  ws_last_graph_revision :: "string option"
  ws_last_new_nodes :: "string list"
  ws_pipeline_runs :: nat
  ws_last_search_scores :: "SearchScore list option"

fun build_loop :: "string list \<Rightarrow> SchedulerEntry list \<Rightarrow> SchedulerError option" where
  "build_loop seen [] = None"
| "build_loop seen (e # es) =
     (if 100 < se_relevance e then Some (SchedulerError_RelevanceOutOfRange (se_node_id e) (se_relevance e))
      else if se_node_id e \<in> set seen then Some (SchedulerError_DuplicateNode (se_node_id e))
      else build_loop (se_node_id e # seen) es)"

definition working_set_build :: "SchedulerEntry list \<Rightarrow> SchedulerError + WorkingSetState" where
  "working_set_build entries =
     (if MAX_SCHEDULER_NODES < length entries then Err (SchedulerError_InvalidConfig ''too many nodes'')
      else case build_loop [] entries of
             Some e \<Rightarrow> Err e
           | None \<Rightarrow> Ok
               \<lparr> ws_entries = sort_key se_node_id entries, ws_tick = 0, ws_tick_view = 0,
                 ws_last_graph_revision = None, ws_last_new_nodes = [], ws_pipeline_runs = 0,
                 ws_last_search_scores = None \<rparr>)"

definition is_coalesced_input :: "WorkingSetState \<Rightarrow> TickInput \<Rightarrow> bool" where
  "is_coalesced_input s i \<longleftrightarrow>
     ti_events i = [] \<and> ws_last_graph_revision s = Some (ti_graph_revision i)
     \<and> ws_last_new_nodes s = ti_new_node_ids i"

definition set_search_scores :: "SearchScore list \<Rightarrow> WorkingSetState \<Rightarrow> WorkingSetState" where
  "set_search_scores scores s =
     (let (canonical, dropped) = canonicalize_search_scores_with_dropped scores
      in if canonical = [] then s\<lparr>ws_last_search_scores := None\<rparr>
         else s\<lparr>ws_last_search_scores := Some canonical\<rparr>)"

definition working_set_entry :: "SchedulerEntry list \<Rightarrow> string \<Rightarrow> SchedulerEntry option" where
  "working_set_entry entries i = find (\<lambda>e. se_node_id e = i) entries"

definition retier :: "64 word \<Rightarrow> SchedulerEntry \<Rightarrow> WorkingSetTier" where
  "retier tick e =
     (if se_tier e = WorkingSetTier_Archive then WorkingSetTier_Archive
      else if se_pinned e then WorkingSetTier_Hot
      else tier_for_score (score e tick))"

fun stale_tier :: "WorkingSetTier \<Rightarrow> WorkingSetTier" where
  "stale_tier WorkingSetTier_Hot = WorkingSetTier_Warm"
| "stale_tier WorkingSetTier_Warm = WorkingSetTier_Cold"
| "stale_tier WorkingSetTier_Cold = WorkingSetTier_Cold"
| "stale_tier WorkingSetTier_Archive = WorkingSetTier_Archive"

text \<open>What an event does to the entry it names; the only error leaves the entry as it is.\<close>

fun event_entry :: "64 word \<Rightarrow> SchedulerEvent \<Rightarrow> SchedulerEntry \<Rightarrow> SchedulerError + SchedulerEntry" where
  "event_entry tick (SchedulerEvent_Access i) e =
     (let e' = e\<lparr>se_last_access_tick := tick\<rparr> in Ok (e'\<lparr>se_tier := retier tick e'\<rparr>))"
| "event_entry tick (SchedulerEvent_Pin i) e =
     Ok (e\<lparr>se_pinned := True, se_tier := WorkingSetTier_Hot\<rparr>)"
| "event_entry tick (SchedulerEvent_Unpin i) e =
     (let e' = e\<lparr>se_pinned := False\<rparr> in Ok (e'\<lparr>se_tier := retier tick e'\<rparr>))"
| "event_entry tick (SchedulerEvent_Relevance i r) e =
     (if 100 < r then Err (SchedulerError_RelevanceOutOfRange i r)
      else let e' = e\<lparr>se_relevance := r\<rparr> in Ok (e'\<lparr>se_tier := retier tick e'\<rparr>))"
| "event_entry tick (SchedulerEvent_Stale i) e = Ok (e\<lparr>se_tier := stale_tier (se_tier e)\<rparr>)"
| "event_entry tick (SchedulerEvent_Archive i) e = Ok (e\<lparr>se_tier := WorkingSetTier_Archive\<rparr>)"

definition apply_event ::
    "SchedulerEvent \<Rightarrow> WorkingSetState \<Rightarrow> SchedulerError + (WorkingSetState \<times> SchedulerOutcome)" where
  "apply_event event s =
     (let node_id = event_node_id event
      in case position (\<lambda>e. se_node_id e = node_id) (ws_entries s) of
           None \<Rightarrow> Err (SchedulerError_UnknownNode node_id)
         | Some idx \<Rightarrow>
             let before = ws_entries s ! idx
             in case event_entry (ws_tick s) event before of
                  Inl err \<Rightarrow> Err err
                | Inr after \<Rightarrow> Ok (s\<lparr>ws_entries := (ws_entries s)[idx := after]\<rparr>,
                    \<lparr>so_node_id = node_id, so_tier_before = se_tier before, so_tier_after = se_tier after\<rparr>))"

text \<open>The ids of the entries that moved toward Hot and toward Cold, each beside its tier before.\<close>

fun moved :: "(WorkingSetTier \<times> SchedulerEntry) list \<Rightarrow> string list \<Rightarrow> string list \<Rightarrow> string list \<times> string list" where
  "moved [] promoted demoted = (promoted, demoted)"
| "moved ((before, e) # es) promoted demoted =
     (if se_tier e = before then moved es promoted demoted
      else if tier_order (se_tier e) < tier_order before
      then moved es (promoted @ [se_node_id e]) demoted
      else moved es promoted (demoted @ [se_node_id e]))"

text \<open>\<open>self.tick += 1\<close> wraps, as it does in a release build.\<close>

definition advance_tick :: "WorkingSetState \<Rightarrow> WorkingSetState \<times> TickReport" where
  "advance_tick s =
     (let tick = ws_tick s + 1;
          entries = map (\<lambda>e. e\<lparr>se_tier := retier tick e\<rparr>) (ws_entries s);
          (promoted, demoted) = moved (zip (map se_tier (ws_entries s)) entries) [] []
      in (s\<lparr>ws_tick := tick, ws_tick_view := tick, ws_entries := entries\<rparr>,
          \<lparr>tr_tick = tick, tr_promoted = sort promoted, tr_demoted = sort demoted\<rparr>))"

subsection \<open>The tick pipeline\<close>

text \<open>Step 2: every stale entry moves one tier toward Cold.\<close>

definition stale_step :: "string list \<Rightarrow> SchedulerEntry list \<Rightarrow> SchedulerEntry list" where
  "stale_step stale entries =
     map (\<lambda>e. if se_node_id e \<in> set stale then e\<lparr>se_tier := stale_tier (se_tier e)\<rparr> else e) entries"

text \<open>Step 3: \<open>relevance.saturating_add(32).min(100)\<close> and the access tick of the demanded entries.\<close>

fun demand_step :: "64 word \<Rightarrow> AccessEvent list \<Rightarrow> SchedulerEntry list \<Rightarrow> SchedulerEntry list" where
  "demand_step now [] entries = entries"
| "demand_step now (ev # evs) entries =
     demand_step now evs (update_first (\<lambda>e. se_node_id e = ae_node_id ev)
       (\<lambda>e. e\<lparr>se_last_access_tick := now, se_relevance := min (min (se_relevance e + 32) 255) 100\<rparr>) entries)"

text \<open>Steps 4 and 5: the new tier of one entry, and the gate that refuses a stale promotion.\<close>

definition promotion_gate :: "64 word \<Rightarrow> string list \<Rightarrow> SchedulerEntry \<Rightarrow> WorkingSetTier" where
  "promotion_gate tick stale e =
     (if se_tier e = WorkingSetTier_Archive then WorkingSetTier_Archive
      else let before = se_tier e;
               is_stale = (se_node_id e \<in> set stale);
               target = (if se_pinned e \<and> \<not> is_stale then WorkingSetTier_Hot
                         else tier_for_score (score e tick))
           in if is_stale then (if tier_order target < tier_order before then before else target)
              else target)"

definition recompute_step :: "64 word \<Rightarrow> string list \<Rightarrow> SchedulerEntry list \<Rightarrow> SchedulerEntry list" where
  "recompute_step tick stale entries = map (\<lambda>e. e\<lparr>se_tier := promotion_gate tick stale e\<rparr>) entries"

text \<open>Step 6: the quota of the pinned Hot entries.\<close>

lemma candidate_loop_Some:
  assumes "candidate_loop c P key xs = Some k"
  shows "c = Some k \<or> (\<exists>x \<in> set xs. P x \<and> key x = k)"
  using assms by (induction xs arbitrary: c) (force split: if_splits option.splits)+

lemma ids_demote [simp]: "map se_node_id (demote v es) = map se_node_id es"
  by (simp add: demote_def map_update_first)

function pin_quota_loop :: "64 word \<Rightarrow> string list \<Rightarrow> SchedulerEntry list \<Rightarrow> SchedulerEntry list \<times> string list" where
  "pin_quota_loop tick demoted_pin entries =
     (if pinned_hot_unique_total entries \<le> PINNED_HOT_BUDGET_TOKENS then (entries, demoted_pin)
      else case candidate_loop None
                  (\<lambda>e. (se_tier e = WorkingSetTier_Hot \<and> se_pinned e) \<and> se_node_id e \<notin> set demoted_pin)
                  (score_key tick) entries of
             None \<Rightarrow> (entries, demoted_pin)
           | Some (s, victim) \<Rightarrow> pin_quota_loop tick (demoted_pin @ [victim]) (demote victim entries))"
  by pat_completeness auto

termination
proof (relation "measure (\<lambda>(_, demoted_pin, entries). card (set (map se_node_id entries) - set demoted_pin))", goal_cases)
  case 1
  then show ?case by simp
next
  case (2 tick demoted_pin entries a s victim)
  then obtain e where "e \<in> set entries" "se_node_id e \<notin> set demoted_pin" "score_key tick e = (s, victim)"
    using candidate_loop_Some [of None _ _ entries "(s, victim)"] by fastforce
  then have v: "victim \<in> set (map se_node_id entries) - set demoted_pin"
    by (auto simp: score_key_def)
  have "set (map se_node_id entries) - set (demoted_pin @ [victim])
      \<subset> set (map se_node_id entries) - set demoted_pin"
    using v by auto
  then have "card (set (map se_node_id entries) - set (demoted_pin @ [victim]))
      < card (set (map se_node_id entries) - set demoted_pin)"
    by (intro psubset_card_mono) auto
  then show ?case
    by (simp only: in_measure case_prod_conv ids_demote)
qed

declare pin_quota_loop.simps [simp del]

definition process_tick :: "TickInput \<Rightarrow> SchedulerConfig \<Rightarrow> WorkingSetState \<Rightarrow> WorkingSetState \<times> TickReport" where
  "process_tick i config s0 =
     (let s = s0\<lparr>ws_last_search_scores := ti_search_scores i\<rparr>
      in if is_coalesced_input s i
         then (s, \<lparr>tr_tick = ws_tick s, tr_promoted = [], tr_demoted = []\<rparr>)
         else
           let before_tiers = bm_of_list [] (map (\<lambda>e. (se_node_id e, se_tier e)) (ws_entries s));
               tick = ti_now i;
               stale = stale_step (ti_stale_node_ids i) (ws_entries s);
               demanded = demand_step (ti_now i) (ti_events i) stale;
               recomputed = recompute_step tick (ti_stale_node_ids i) demanded;
               quota = fst (pin_quota_loop tick [] recomputed);
               entries = fst (budget_loop hot_unique_total (budget_tokens config) tick [] quota);
               (promoted, demoted) = moved (map (\<lambda>e. (case bm_get before_tiers (se_node_id e) of
                   Some t \<Rightarrow> t | None \<Rightarrow> se_tier e, e)) entries) [] []
           in (s\<lparr> ws_tick := tick, ws_tick_view := tick, ws_entries := entries,
                  ws_last_graph_revision := Some (ti_graph_revision i),
                  ws_last_new_nodes := ti_new_node_ids i,
                  ws_pipeline_runs := ws_pipeline_runs s + 1 \<rparr>,
               \<lparr>tr_tick = tick, tr_promoted = sort promoted, tr_demoted = sort demoted\<rparr>))"

text \<open>\<open>enforce_budget\<close>: the keys of the map are looked up in ascending order.\<close>

definition enforce_budget ::
    "SchedulerConfig \<Rightarrow> (string \<times> nat) list \<Rightarrow> WorkingSetState \<Rightarrow> SchedulerError + (WorkingSetState \<times> BudgetReport)" where
  "enforce_budget config token_estimates s =
     (let external = bm_of_list [] token_estimates
      in case find (\<lambda>k. working_set_entry (ws_entries s) k = None) (map fst external) of
           Some k \<Rightarrow> Err (SchedulerError_UnknownNode k)
         | None \<Rightarrow>
             let (entries, demoted) =
                   budget_loop (hot_unique_total_with_map external) (budget_tokens config) (ws_tick s) [] (ws_entries s)
             in Ok (s\<lparr>ws_entries := entries\<rparr>,
                 \<lparr> br_hot_tokens_before = hot_unique_total_with_map external (ws_entries s),
                   br_hot_tokens_after = hot_unique_total_with_map external entries,
                   br_demoted = sort demoted \<rparr>))"

end
