(* ===== verification/Scheduler_Properties.thy ===== *)
theory Scheduler_Properties
  imports Context_Scheduler "HOL-Library.Multiset"
begin

text \<open>
  What the scheduler guarantees.  The demotion loops of the tick pipeline, of
  \<open>enforce_budget\<close> and of the assembly all implement one relation, \<open>demotes\<close>: while the
  entries are over a limit, the least eligible entry becomes Warm.  The locale
  \<open>demotion_rule\<close> proves what such a run does once; the loops of the code are shown to be
  runs of it.
\<close>

subsection \<open>Demotion runs\<close>

inductive demotes ::
    "(SchedulerEntry \<Rightarrow> bool) \<Rightarrow> (SchedulerEntry \<Rightarrow> 'k::linorder) \<Rightarrow> (SchedulerEntry list \<Rightarrow> bool) \<Rightarrow>
     SchedulerEntry list \<Rightarrow> string list \<Rightarrow> SchedulerEntry list \<Rightarrow> bool"
  for eligible key over where
  stop: "\<not> over es \<or> (\<forall>e \<in> set es. \<not> eligible e) \<Longrightarrow> demotes eligible key over es [] es"
| step: "over es \<Longrightarrow> e \<in> set es \<Longrightarrow> eligible e \<Longrightarrow> (\<forall>f \<in> set es. eligible f \<longrightarrow> key e \<le> key f) \<Longrightarrow>
    demotes eligible key over (demote (se_node_id e) es) vs es' \<Longrightarrow>
    demotes eligible key over es (se_node_id e # vs) es'"

abbreviation warmed :: "SchedulerEntry \<Rightarrow> SchedulerEntry" where
  "warmed e \<equiv> e\<lparr>se_tier := WorkingSetTier_Warm\<rparr>"

lemma demote_map:
  "distinct (map se_node_id es) \<Longrightarrow> demote v es = map (\<lambda>e. if se_node_id e = v then warmed e else e) es"
  unfolding demote_def
proof (induction es)
  case (Cons e es)
  have "map (\<lambda>e. if se_node_id e = v then warmed e else e) es = es" if "se_node_id e = v"
    using that Cons.prems by (intro map_idI) (auto simp: image_iff)
  then show ?case
    using Cons by auto
qed simp

lemma same_id:
  "distinct (map se_node_id es) \<Longrightarrow> e \<in> set es \<Longrightarrow> f \<in> set es \<Longrightarrow> se_node_id e = se_node_id f \<Longrightarrow> e = f"
  by (auto simp: distinct_map inj_on_def)

locale demotion_rule =
  fixes eligible :: "SchedulerEntry \<Rightarrow> bool"
    and key :: "SchedulerEntry \<Rightarrow> 'k::linorder"
  assumes eligible_hot: "eligible e \<Longrightarrow> se_tier e = WorkingSetTier_Hot"
    and key_tier: "key (e\<lparr>se_tier := t\<rparr>) = key e"
begin

lemma warmed_not_eligible: "\<not> eligible (warmed e)"
  using eligible_hot [of "warmed e"] by auto

lemma run_final:
  "demotes eligible key over es vs es' \<Longrightarrow> \<not> over es' \<or> (\<forall>e \<in> set es'. \<not> eligible e)"
  by (induction rule: demotes.induct) auto

lemma run_victims:
  "demotes eligible key over es vs es' \<Longrightarrow> distinct (map se_node_id es) \<Longrightarrow>
   distinct vs \<and> set vs \<subseteq> se_node_id ` {e \<in> set es. eligible e}
   \<and> es' = map (\<lambda>e. if se_node_id e \<in> set vs then warmed e else e) es"
proof (induction rule: demotes.induct)
  case (step es e vs es')
  let ?es = "demote (se_node_id e) es"
  have m: "?es = map (\<lambda>f. if se_node_id f = se_node_id e then warmed f else f) es"
    by (rule demote_map [OF step.prems])
  have ih: "distinct vs" "set vs \<subseteq> se_node_id ` {f \<in> set ?es. eligible f}"
    "es' = map (\<lambda>f. if se_node_id f \<in> set vs then warmed f else f) ?es"
    using step.IH step.prems by auto
  have sub: "se_node_id ` {f \<in> set ?es. eligible f} \<subseteq> se_node_id ` {f \<in> set es. eligible f} - {se_node_id e}"
    unfolding m using warmed_not_eligible by auto
  then have "se_node_id e \<notin> set vs"
    using ih(2) by blast
  moreover have "es' = map (\<lambda>f. if se_node_id f \<in> set (se_node_id e # vs) then warmed f else f) es"
    unfolding ih(3) m by auto
  moreover have "set (se_node_id e # vs) \<subseteq> se_node_id ` {f \<in> set es. eligible f}"
    using order.trans [OF ih(2) sub] step.hyps(2,3) by auto
  ultimately show ?case
    using ih(1) by (metis distinct.simps(2))
qed simp

lemma run_lowest_first:
  "demotes eligible key over es vs es' \<Longrightarrow> distinct (map se_node_id es) \<Longrightarrow>
   e \<in> set es \<Longrightarrow> se_node_id e \<in> set vs \<Longrightarrow> f \<in> set es \<Longrightarrow> eligible f \<Longrightarrow> se_node_id f \<notin> set vs \<Longrightarrow>
   key e \<le> key f"
proof (induction arbitrary: e f rule: demotes.induct)
  case (step es v vs es')
  let ?es = "demote (se_node_id v) es"
  have m: "?es = map (\<lambda>f. if se_node_id f = se_node_id v then warmed f else f) es"
    by (rule demote_map [OF step.prems(1)])
  show ?case
  proof (cases "se_node_id e = se_node_id v")
    case True
    then have "e = v"
      using same_id step.prems(1,2) step.hyps(2) by blast
    then show ?thesis
      using step.hyps(4) step.prems(4,5) by auto
  next
    case False
    then have "e \<in> set ?es"
      using step.prems(2) unfolding m by force
    moreover have "f \<in> set ?es"
      using step.prems(4,6) unfolding m by force
    ultimately show ?thesis
      using step.IH [of e f] step.prems(1,3,5,6) False by auto
  qed
qed simp

end

lemma score_tier [simp]: "score (e\<lparr>se_tier := t\<rparr>) now = score e now"
  by (simp add: score_def)

lemma score_key_tier [simp]: "score_key now (e\<lparr>se_tier := t\<rparr>) = score_key now e"
  by (simp add: score_key_def)

abbreviation hot :: "SchedulerEntry \<Rightarrow> bool" where
  "hot e \<equiv> se_tier e = WorkingSetTier_Hot"

interpretation pinned_rule: demotion_rule "\<lambda>e. hot e \<and> se_pinned e" "score_key now" for now
  by unfold_locales auto

interpretation budget_rule: demotion_rule "\<lambda>e. hot e \<and> \<not> se_pinned e" "score_key now" for now
  by unfold_locales auto

subsection \<open>The loops are demotion runs\<close>

lemma candidate_loop_least:
  "candidate_loop c P key xs = r \<Longrightarrow>
   (case r of None \<Rightarrow> c = None \<and> (\<forall>x \<in> set xs. \<not> P x)
    | Some k \<Rightarrow> (c = Some k \<or> (\<exists>x \<in> set xs. P x \<and> key x = k))
        \<and> (\<forall>b. c = Some b \<longrightarrow> k \<le> b) \<and> (\<forall>x \<in> set xs. P x \<longrightarrow> k \<le> key x))"
proof (induction xs arbitrary: c)
  case Nil
  then show ?case by (cases c) auto
next
  case (Cons x xs)
  show ?case
  proof (cases "P x")
    case False
    then show ?thesis
      using Cons.IH [of c] Cons.prems by (cases r) auto
  next
    case True
    show ?thesis
    proof (cases c)
      case None
      then show ?thesis
        using Cons.IH [of "Some (key x)"] Cons.prems True by (cases r) auto
    next
      case (Some b)
      then show ?thesis
        using Cons.IH [of "Some (key x)"] Cons.IH [of c] Cons.prems True
        by (cases "key x < b"; cases r) (auto simp: not_less dest: order.trans less_imp_le)
    qed
  qed
qed

lemma candidate_None: "candidate_loop None P key xs = None \<Longrightarrow> \<forall>x \<in> set xs. \<not> P x"
  using candidate_loop_least [of None P key xs None] by simp

lemma candidate_Some:
  assumes "candidate_loop None P key xs = Some k"
  obtains x where "x \<in> set xs" "P x" "key x = k" "\<forall>y \<in> set xs. P y \<longrightarrow> key x \<le> key y"
  using candidate_loop_least [OF assms] by auto

lemma candidate_victim:
  assumes "candidate_loop None P (score_key now) xs = Some (s, v)"
  obtains x where "x \<in> set xs" "P x" "se_node_id x = v"
    "\<forall>y \<in> set xs. P y \<longrightarrow> score_key now x \<le> score_key now y"
  using candidate_Some [OF assms] by (metis score_key_def snd_conv)

lemma length_filter_map_le:
  "(\<And>x. x \<in> set xs \<Longrightarrow> P (f x) \<Longrightarrow> P x) \<Longrightarrow> length (filter P (map f xs)) \<le> length (filter P xs)"
proof (induction xs)
  case (Cons x xs)
  then have "length (filter P (map f xs)) \<le> length (filter P xs)"
    by simp
  then show ?case
    using Cons.prems [of x] by (auto simp: le_Suc_eq)
qed simp

lemma length_filter_map_less:
  assumes "\<And>x. x \<in> set xs \<Longrightarrow> P (f x) \<Longrightarrow> P x" and "x \<in> set xs" "P x" "\<not> P (f x)"
  shows "length (filter P (map f xs)) < length (filter P xs)"
  using assms
proof (induction xs)
  case (Cons y ys)
  have le: "length (filter P (map f ys)) \<le> length (filter P ys)"
    by (rule length_filter_map_le) (use Cons.prems(1) in simp)
  show ?case
  proof (cases "x \<in> set ys")
    case True
    then show ?thesis
      using Cons by auto
  next
    case False
    then show ?thesis
      using Cons.prems le by auto
  qed
qed simp

lemma filter_demote:
  assumes "distinct (map se_node_id es)" and "e \<in> set es" and "P e"
    and "\<And>x. \<not> P (warmed x)"
  shows "length (filter P (demote (se_node_id e) es)) < length (filter P es)"
  unfolding demote_map [OF assms(1)]
  by (rule length_filter_map_less [of _ _ _ e]) (use assms in \<open>auto split: if_splits\<close>)

lemma pin_quota_run:
  "distinct (map se_node_id es) \<Longrightarrow> \<forall>e \<in> set es. hot e \<longrightarrow> se_node_id e \<notin> set ds \<Longrightarrow>
   \<exists>vs es'. pin_quota_loop now ds es = (es', ds @ vs)
     \<and> demotes (\<lambda>e. hot e \<and> se_pinned e) (score_key now)
         (\<lambda>es. PINNED_HOT_BUDGET_TOKENS < pinned_hot_unique_total es) es vs es'"
proof (induction now ds es rule: pin_quota_loop.induct)
  case (1 now ds es)
  let ?P = "\<lambda>e. (hot e \<and> se_pinned e) \<and> se_node_id e \<notin> set ds"
  have P: "\<forall>e \<in> set es. ?P e \<longleftrightarrow> hot e \<and> se_pinned e"
    using 1(3) by auto
  show ?case
  proof (cases "pinned_hot_unique_total es \<le> PINNED_HOT_BUDGET_TOKENS")
    case True
    then show ?thesis
      by (intro exI [of _ "[]"] exI [of _ es]) (auto simp: pin_quota_loop.simps [of now ds es] intro: demotes.stop)
  next
    case over: False
    show ?thesis
    proof (cases "candidate_loop None ?P (score_key now) es")
      case None
      then show ?thesis
        using candidate_None [OF None] P
        by (intro exI [of _ "[]"] exI [of _ es])
          (auto simp: pin_quota_loop.simps [of now ds es] intro!: demotes.stop)
    next
      case (Some k)
      obtain s v where k: "k = (s, v)" by force
      obtain x where x: "x \<in> set es" "hot x" "se_pinned x" "se_node_id x = v"
        "\<forall>y \<in> set es. hot y \<and> se_pinned y \<longrightarrow> score_key now x \<le> score_key now y"
        using candidate_victim [of ?P now es s v] Some P unfolding k by (metis (no_types, lifting))
      have fresh: "\<forall>e \<in> set (demote v es). hot e \<longrightarrow> se_node_id e \<notin> set (ds @ [v])"
        using 1(3) unfolding demote_map [OF 1(2)] by (auto split: if_splits)
      have "distinct (map se_node_id (demote v es))"
        using 1(2) by simp
      then obtain vs es' where run: "pin_quota_loop now (ds @ [v]) (demote v es) = (es', (ds @ [v]) @ vs)"
        "demotes (\<lambda>e. hot e \<and> se_pinned e) (score_key now)
            (\<lambda>es. PINNED_HOT_BUDGET_TOKENS < pinned_hot_unique_total es) (demote v es) vs es'"
        using 1(1) [OF over Some k [symmetric] _ fresh] by blast
      have "demotes (\<lambda>e. hot e \<and> se_pinned e) (score_key now)
            (\<lambda>es. PINNED_HOT_BUDGET_TOKENS < pinned_hot_unique_total es) es (se_node_id x # vs) es'"
        by (rule demotes.step) (use over x run(2) in auto)
      moreover have "pin_quota_loop now ds es = (es', ds @ se_node_id x # vs)"
        using over Some k run(1) x(4) by (simp add: pin_quota_loop.simps [of now ds es])
      ultimately show ?thesis by blast
    qed
  qed
qed

lemma budget_run:
  "distinct (map se_node_id es) \<Longrightarrow>
   length ds + length (filter (\<lambda>e. hot e \<and> \<not> se_pinned e) es) \<le> length es \<Longrightarrow>
   \<exists>vs es'. budget_loop total_of budget now ds es = (es', ds @ vs)
     \<and> demotes (\<lambda>e. hot e \<and> \<not> se_pinned e) (score_key now) (\<lambda>es. budget < total_of es) es vs es'"
proof (induction total_of budget now ds es rule: budget_loop.induct)
  case (1 total_of budget now ds es)
  let ?P = "\<lambda>e. hot e \<and> \<not> se_pinned e"
  show ?case
  proof (cases "total_of es \<le> budget")
    case True
    then show ?thesis
      by (intro exI [of _ "[]"] exI [of _ es])
        (auto simp: budget_loop.simps [of total_of budget now ds es] intro: demotes.stop)
  next
    case over: False
    show ?thesis
    proof (cases "candidate_loop None ?P (score_key now) es")
      case None
      then show ?thesis
        using candidate_None [OF None]
        by (intro exI [of _ "[]"] exI [of _ es])
          (auto simp: budget_loop.simps [of total_of budget now ds es] intro!: demotes.stop)
    next
      case (Some k)
      obtain s v where k: "k = (s, v)" by force
      obtain x where x: "x \<in> set es" "?P x" "se_node_id x = v"
        "\<forall>y \<in> set es. ?P y \<longrightarrow> score_key now x \<le> score_key now y"
        using candidate_victim [of ?P now es s v] Some unfolding k by (metis (no_types, lifting))
      have less: "length (filter ?P (demote v es)) < length (filter ?P es)"
        using filter_demote [of es x ?P] 1(2) x by simp
      then have guard: "\<not> length es < length (ds @ [v])"
        using 1(3) by simp
      have "\<exists>vs es'. budget_loop total_of budget now (ds @ [v]) (demote v es) = (es', (ds @ [v]) @ vs)
          \<and> demotes ?P (score_key now) (\<lambda>es. budget < total_of es) (demote v es) vs es'"
        using 1(1) [OF over Some k [symmetric] guard] 1(2,3) less by simp
      then obtain vs es' where run:
        "budget_loop total_of budget now (ds @ [v]) (demote v es) = (es', (ds @ [v]) @ vs)"
        "demotes ?P (score_key now) (\<lambda>es. budget < total_of es) (demote v es) vs es'"
        by blast
      have "demotes ?P (score_key now) (\<lambda>es. budget < total_of es) es (se_node_id x # vs) es'"
        by (rule demotes.step) (use over x run(2) in auto)
      moreover have "budget_loop total_of budget now ds es = (es', ds @ se_node_id x # vs)"
        using over Some k run(1) x(3) guard by (simp add: budget_loop.simps [of total_of budget now ds es])
      ultimately show ?thesis by blast
    qed
  qed
qed

subsection \<open>What every operation keeps\<close>

text \<open>The part of an entry no operation of the scheduler writes.\<close>

definition entry_frame :: "SchedulerEntry \<Rightarrow> string \<times> string \<times> nat" where
  "entry_frame e = (se_node_id e, se_content_digest e, se_token_estimate e)"

definition entries_inv :: "SchedulerEntry list \<Rightarrow> bool" where
  "entries_inv es \<longleftrightarrow>
     length es \<le> MAX_SCHEDULER_NODES \<and> sorted_wrt (<) (map se_node_id es)
     \<and> (\<forall>e \<in> set es. se_relevance e \<le> 100)"

definition scheduler_inv :: "WorkingSetState \<Rightarrow> bool" where
  "scheduler_inv s \<longleftrightarrow> entries_inv (ws_entries s) \<and> ws_tick_view s = ws_tick s"

text \<open>One entry before and after: the frame is kept and the relevance stays in range.\<close>

definition keeps :: "SchedulerEntry list \<Rightarrow> SchedulerEntry list \<Rightarrow> bool" where
  "keeps es fs \<longleftrightarrow>
     map entry_frame fs = map entry_frame es
     \<and> ((\<forall>e \<in> set es. se_relevance e \<le> 100) \<longrightarrow> (\<forall>e \<in> set fs. se_relevance e \<le> 100))"

lemma keeps_refl [intro, simp]: "keeps es es"
  by (simp add: keeps_def)

lemma keeps_trans: "keeps es fs \<Longrightarrow> keeps fs gs \<Longrightarrow> keeps es gs"
  by (auto simp: keeps_def)

lemma keeps_map:
  assumes "\<And>e. entry_frame (f e) = entry_frame e"
    and "\<And>e. se_relevance e \<le> 100 \<Longrightarrow> se_relevance (f e) \<le> 100"
  shows "keeps es (map f es)"
  using assms by (auto simp: keeps_def)

lemma keeps_update_first:
  assumes "\<And>e. entry_frame (f e) = entry_frame e"
    and "\<And>e. se_relevance e \<le> 100 \<Longrightarrow> se_relevance (f e) \<le> 100"
  shows "keeps es (update_first p f es)"
  using assms by (induction es) (auto simp: keeps_def)

lemma keeps_demote: "keeps es (demote v es)"
  unfolding demote_def by (rule keeps_update_first) (simp_all add: entry_frame_def)

lemma keeps_pin_quota: "keeps es (fst (pin_quota_loop now ds es))"
proof (induction now ds es rule: pin_quota_loop.induct)
  case (1 now ds es)
  have "keeps es (fst (pin_quota_loop now (ds @ [v]) (demote v es)))"
    if "\<not> pinned_hot_unique_total es \<le> PINNED_HOT_BUDGET_TOKENS"
      "candidate_loop None (\<lambda>e. (hot e \<and> se_pinned e) \<and> se_node_id e \<notin> set ds) (score_key now) es = Some (k, v)"
    for k v
    by (rule keeps_trans [OF keeps_demote 1 [OF that refl]])
  then show ?case
    by (subst pin_quota_loop.simps) (simp split: option.split prod.split)
qed

lemma keeps_budget: "keeps es (fst (budget_loop total_of budget now ds es))"
proof (induction total_of budget now ds es rule: budget_loop.induct)
  case (1 total_of budget now ds es)
  have "keeps es (fst (budget_loop total_of budget now (ds @ [v]) (demote v es)))"
    if "\<not> total_of es \<le> budget"
      "candidate_loop None (\<lambda>e. hot e \<and> \<not> se_pinned e) (score_key now) es = Some (k, v)"
      "\<not> length es < length (ds @ [v])"
    for k v
    by (rule keeps_trans [OF keeps_demote 1 [OF that(1,2) refl that(3)]])
  then show ?case
    by (subst budget_loop.simps) (simp add: keeps_demote split: option.split prod.split)
qed

lemma keeps_demand: "keeps es (demand_step now evs es)"
proof (induction evs arbitrary: es)
  case (Cons ev evs)
  have "keeps es (update_first (\<lambda>e. se_node_id e = ae_node_id ev)
       (\<lambda>e. e\<lparr>se_last_access_tick := now, se_relevance := min (min (se_relevance e + 32) 255) 100\<rparr>) es)"
    by (rule keeps_update_first) (simp_all add: entry_frame_def)
  then show ?case
    using Cons.IH by (auto intro: keeps_trans)
qed simp

lemma keeps_stale: "keeps es (stale_step stale es)"
  unfolding stale_step_def by (rule keeps_map) (simp_all add: entry_frame_def)

lemma keeps_recompute: "keeps es (recompute_step now stale es)"
  unfolding recompute_step_def by (rule keeps_map) (simp_all add: entry_frame_def)

lemma keeps_ids: "keeps es fs \<Longrightarrow> map se_node_id fs = map se_node_id es"
proof -
  assume "keeps es fs"
  then have "map fst (map entry_frame fs) = map fst (map entry_frame es)"
    by (simp add: keeps_def)
  then show ?thesis
    by (simp add: entry_frame_def comp_def)
qed

lemma keeps_inv: "keeps es fs \<Longrightarrow> entries_inv es \<Longrightarrow> entries_inv fs"
  using keeps_ids [of es fs] map_eq_imp_length_eq [of se_node_id fs se_node_id es]
  by (auto simp: keeps_def entries_inv_def)

lemma entries_inv_distinct: "entries_inv es \<Longrightarrow> distinct (map se_node_id es)"
  by (simp add: entries_inv_def strict_sorted_iff)

text \<open>The entries a tick that is not coalesced ends with.\<close>

definition gated_entries :: "TickInput \<Rightarrow> SchedulerEntry list \<Rightarrow> SchedulerEntry list" where
  "gated_entries i es =
     recompute_step (ti_now i) (ti_stale_node_ids i)
       (demand_step (ti_now i) (ti_events i) (stale_step (ti_stale_node_ids i) es))"

definition quota_entries :: "TickInput \<Rightarrow> SchedulerEntry list \<Rightarrow> SchedulerEntry list" where
  "quota_entries i es = fst (pin_quota_loop (ti_now i) [] (gated_entries i es))"

definition pipeline_entries :: "TickInput \<Rightarrow> SchedulerConfig \<Rightarrow> SchedulerEntry list \<Rightarrow> SchedulerEntry list" where
  "pipeline_entries i config es =
     fst (budget_loop hot_unique_total (budget_tokens config) (ti_now i) [] (quota_entries i es))"

lemma coalesced_scores [simp]: "is_coalesced_input (s\<lparr>ws_last_search_scores := x\<rparr>) i = is_coalesced_input s i"
  by (simp add: is_coalesced_input_def)

lemma process_tick_entries:
  "ws_entries (fst (process_tick i config s)) =
     (if is_coalesced_input s i then ws_entries s else pipeline_entries i config (ws_entries s))"
  by (simp add: process_tick_def Let_def gated_entries_def quota_entries_def pipeline_entries_def split: prod.split)

lemma process_tick_clock:
  "ws_tick (fst (process_tick i config s)) = (if is_coalesced_input s i then ws_tick s else ti_now i)"
  "ws_tick_view (fst (process_tick i config s)) = (if is_coalesced_input s i then ws_tick_view s else ti_now i)"
  by (simp_all add: process_tick_def Let_def split: prod.split)

lemma keeps_gated: "keeps es (gated_entries i es)"
  unfolding gated_entries_def
  by (rule keeps_trans [OF keeps_trans [OF keeps_stale keeps_demand] keeps_recompute])

lemma keeps_quota: "keeps es (quota_entries i es)"
  unfolding quota_entries_def by (rule keeps_trans [OF keeps_gated keeps_pin_quota])

lemma keeps_pipeline: "keeps es (pipeline_entries i config es)"
  unfolding pipeline_entries_def by (rule keeps_trans [OF keeps_quota keeps_budget])

lemma event_entry_keeps:
  "event_entry now ev e = Inr e' \<Longrightarrow> entry_frame e' = entry_frame e \<and> (se_relevance e \<le> 100 \<longrightarrow> se_relevance e' \<le> 100)"
  by (cases ev) (auto simp: Let_def entry_frame_def split: if_splits)

lemma keeps_list_update:
  assumes "i < length es" "entry_frame e = entry_frame (es ! i)"
    and "se_relevance (es ! i) \<le> 100 \<longrightarrow> se_relevance e \<le> 100"
  shows "keeps es (es[i := e])"
  using assms set_update_subset_insert [of es i e]
  by (auto simp: keeps_def map_update list_update_same_conv nth_mem)

lemma apply_event_keeps: "apply_event ev s = Inr (s', r) \<Longrightarrow> keeps (ws_entries s) (ws_entries s')"
  using event_entry_keeps
  by (fastforce simp: apply_event_def Let_def split: option.splits sum.splits
      intro!: keeps_list_update dest: position_Some_nth)

lemma advance_keeps: "keeps (ws_entries s) (ws_entries (fst (advance_tick s)))"
  by (auto simp: advance_tick_def Let_def entry_frame_def split: prod.split intro!: keeps_map)

lemma process_keeps: "keeps (ws_entries s) (ws_entries (fst (process_tick i config s)))"
  by (simp add: process_tick_entries keeps_pipeline)

lemma enforce_keeps: "enforce_budget config ts s = Inr (s', r) \<Longrightarrow> keeps (ws_entries s) (ws_entries s')"
  using keeps_budget [of "ws_entries s"]
  by (auto simp: enforce_budget_def Let_def split: option.splits prod.splits) (metis fst_conv)

lemma scores_keep [simp]: "ws_entries (set_search_scores scores s) = ws_entries s"
  by (simp add: set_search_scores_def Let_def split: prod.split)

lemma build_loop_None:
  "build_loop seen es = None \<longleftrightarrow>
     (\<forall>e \<in> set es. se_relevance e \<le> 100) \<and> distinct (map se_node_id es) \<and> se_node_id ` set es \<inter> set seen = {}"
  by (induction es arbitrary: seen) auto

lemma build_Ok:
  "working_set_build es = Inr s \<longleftrightarrow>
     length es \<le> MAX_SCHEDULER_NODES \<and> (\<forall>e \<in> set es. se_relevance e \<le> 100) \<and> distinct (map se_node_id es)
     \<and> s = \<lparr> ws_entries = sort_key se_node_id es, ws_tick = 0, ws_tick_view = 0,
             ws_last_graph_revision = None, ws_last_new_nodes = [], ws_pipeline_runs = 0,
             ws_last_search_scores = None \<rparr>"
  using build_loop_None [of "[]" es] by (auto simp: working_set_build_def split: option.splits)

lemma sort_key_strict:
  "distinct (map f xs) \<Longrightarrow> sorted_wrt (<) (map f (sort_key f xs))"
  using distinct_map [of f xs] distinct_map [of f "sort_key f xs"] by (simp add: strict_sorted_iff)

lemma build_inv: "working_set_build es = Inr s \<Longrightarrow> scheduler_inv s"
  by (auto simp: build_Ok scheduler_inv_def entries_inv_def sort_key_strict)

subsection \<open>The tick pipeline\<close>

lemma quota_run:
  assumes "entries_inv es"
  obtains vs where "demotes (\<lambda>e. hot e \<and> se_pinned e) (score_key (ti_now i))
    (\<lambda>es. PINNED_HOT_BUDGET_TOKENS < pinned_hot_unique_total es) (gated_entries i es) vs (quota_entries i es)"
  using pin_quota_run [OF entries_inv_distinct [OF keeps_inv [OF keeps_gated assms]], where ds = "[]" and now = "ti_now i"]
  unfolding quota_entries_def by (metis (no_types, lifting) empty_iff fst_conv list.set(1))

lemma pipeline_run:
  assumes "entries_inv es"
  obtains vs where "demotes (\<lambda>e. hot e \<and> \<not> se_pinned e) (score_key (ti_now i))
    (\<lambda>es. budget_tokens config < hot_unique_total es) (quota_entries i es) vs (pipeline_entries i config es)"
proof -
  have "\<exists>vs es'. budget_loop hot_unique_total (budget_tokens config) (ti_now i) [] (quota_entries i es) = (es', [] @ vs)
      \<and> demotes (\<lambda>e. hot e \<and> \<not> se_pinned e) (score_key (ti_now i))
          (\<lambda>es. budget_tokens config < hot_unique_total es) (quota_entries i es) vs es'"
    by (rule budget_run [OF entries_inv_distinct [OF keeps_inv [OF keeps_quota assms]]]) simp
  then show ?thesis
    using that unfolding pipeline_entries_def by (metis (no_types, lifting) fst_conv)
qed

lemma pinned_total_frame:
  assumes "fs = map (\<lambda>e. if se_node_id e \<in> V then warmed e else e) es"
    and "V \<subseteq> se_node_id ` {e \<in> set es. hot e \<and> \<not> se_pinned e}" and "distinct (map se_node_id es)"
  shows "pinned_hot_unique_total fs = pinned_hot_unique_total es"
proof -
  have keep: "se_node_id e \<notin> V" if "e \<in> set es" "hot e" "se_pinned e" for e
    using assms(2) same_id [OF assms(3)] that by blast
  have "filter (\<lambda>e. hot e \<and> se_pinned e) fs = filter (\<lambda>e. hot e \<and> se_pinned e) es"
    unfolding assms(1) using keep by (induction es) auto
  then show ?thesis
    by (simp add: pinned_hot_unique_total_def)
qed

lemma pinned_total_zero: "\<forall>e \<in> set es. \<not> (hot e \<and> se_pinned e) \<Longrightarrow> pinned_hot_unique_total es = 0"
  by (simp add: pinned_hot_unique_total_def filter_empty_conv)

lemma pipeline_limits:
  assumes "entries_inv es"
  shows "pinned_hot_unique_total (pipeline_entries i config es) \<le> PINNED_HOT_BUDGET_TOKENS"
    and "hot_unique_total (pipeline_entries i config es) \<le> budget_tokens config
      \<or> (\<forall>e \<in> set (pipeline_entries i config es). hot e \<longrightarrow> se_pinned e)"
proof -
  obtain vs where q: "demotes (\<lambda>e. hot e \<and> se_pinned e) (score_key (ti_now i))
      (\<lambda>es. PINNED_HOT_BUDGET_TOKENS < pinned_hot_unique_total es) (gated_entries i es) vs (quota_entries i es)"
    by (rule quota_run [OF assms])
  obtain ws where b: "demotes (\<lambda>e. hot e \<and> \<not> se_pinned e) (score_key (ti_now i))
      (\<lambda>es. budget_tokens config < hot_unique_total es) (quota_entries i es) ws (pipeline_entries i config es)"
    by (rule pipeline_run [OF assms])
  have "pinned_hot_unique_total (pipeline_entries i config es) = pinned_hot_unique_total (quota_entries i es)"
    using budget_rule.run_victims [OF b] entries_inv_distinct [OF keeps_inv [OF keeps_quota assms]]
    by (intro pinned_total_frame) auto
  also have "\<dots> \<le> PINNED_HOT_BUDGET_TOKENS"
    using pinned_rule.run_final [OF q] pinned_total_zero [of "quota_entries i es"] by (auto simp: not_less)
  finally show "pinned_hot_unique_total (pipeline_entries i config es) \<le> PINNED_HOT_BUDGET_TOKENS" .
  show "hot_unique_total (pipeline_entries i config es) \<le> budget_tokens config
      \<or> (\<forall>e \<in> set (pipeline_entries i config es). hot e \<longrightarrow> se_pinned e)"
    using budget_rule.run_final [OF b] by (auto simp: not_less)
qed

lemma all_pinned_total: "\<forall>e \<in> set es. hot e \<longrightarrow> se_pinned e \<Longrightarrow> hot_unique_total es = pinned_hot_unique_total es"
  unfolding hot_unique_total_def pinned_hot_unique_total_def by (metis (mono_tags, lifting) filter_cong)

text \<open>
  C28.  A tick that is not coalesced ends within both limits: the pinned Hot entries hold at most
  1024 tokens, and the Hot entries hold at most the budget, unless the budget is below that
  quota and every Hot entry is pinned.  A budget of 1024 or more is therefore never exceeded.
\<close>

theorem tick_ends_within_budget:
  assumes "scheduler_inv s" and "\<not> is_coalesced_input s i"
  shows "let es = ws_entries (fst (process_tick i config s))
    in pinned_hot_unique_total es \<le> PINNED_HOT_BUDGET_TOKENS
       \<and> hot_unique_total es \<le> max (budget_tokens config) PINNED_HOT_BUDGET_TOKENS
       \<and> (hot_unique_total es \<le> budget_tokens config \<or> list_all (\<lambda>e. hot e \<longrightarrow> se_pinned e) es)"
proof -
  have "entries_inv (ws_entries s)"
    using assms(1) by (simp add: scheduler_inv_def)
  note l = pipeline_limits [OF this, of i config]
  show ?thesis
    using l all_pinned_total [of "pipeline_entries i config (ws_entries s)"] assms(2)
    by (auto simp: Let_def process_tick_entries list_all_iff)
qed

text \<open>Entries before and after, one by one.\<close>

definition lowered :: "SchedulerEntry \<Rightarrow> SchedulerEntry \<Rightarrow> bool" where
  "lowered e e' \<longleftrightarrow> se_node_id e' = se_node_id e \<and> (e' = e \<or> hot e \<and> e' = warmed e)"

definition gated :: "string list \<Rightarrow> SchedulerEntry \<Rightarrow> SchedulerEntry \<Rightarrow> bool" where
  "gated stale e e' \<longleftrightarrow>
     se_node_id e' = se_node_id e
     \<and> (se_tier e' = WorkingSetTier_Archive \<longleftrightarrow> se_tier e = WorkingSetTier_Archive)
     \<and> (se_node_id e \<in> set stale \<longrightarrow> tier_order (se_tier e) \<le> tier_order (se_tier e') \<and> \<not> hot e')"

lemma map_lowered:
  assumes "distinct (map se_node_id es)" and "V \<subseteq> se_node_id ` {e \<in> set es. P e}" and "\<And>e. P e \<Longrightarrow> hot e"
  shows "list_all2 lowered es (map (\<lambda>e. if se_node_id e \<in> V then warmed e else e) es)"
proof -
  have "hot e" if "e \<in> set es" "se_node_id e \<in> V" for e
    using assms that same_id [OF assms(1)] by blast
  then show ?thesis
    by (auto simp: list_all2_map2 lowered_def intro!: list.rel_refl_strong)
qed

lemma pipeline_lowered:
  assumes "entries_inv es"
  shows "list_all2 lowered (gated_entries i es) (quota_entries i es)"
    and "list_all2 lowered (quota_entries i es) (pipeline_entries i config es)"
proof -
  obtain vs where q: "demotes (\<lambda>e. hot e \<and> se_pinned e) (score_key (ti_now i))
      (\<lambda>es. PINNED_HOT_BUDGET_TOKENS < pinned_hot_unique_total es) (gated_entries i es) vs (quota_entries i es)"
    by (rule quota_run [OF assms])
  obtain ws where b: "demotes (\<lambda>e. hot e \<and> \<not> se_pinned e) (score_key (ti_now i))
      (\<lambda>es. budget_tokens config < hot_unique_total es) (quota_entries i es) ws (pipeline_entries i config es)"
    by (rule pipeline_run [OF assms])
  note dg = entries_inv_distinct [OF keeps_inv [OF keeps_gated assms, of i]]
  note dq = entries_inv_distinct [OF keeps_inv [OF keeps_quota assms, of i]]
  show "list_all2 lowered (gated_entries i es) (quota_entries i es)"
    using pinned_rule.run_victims [OF q dg] map_lowered [OF dg, of "set vs" "\<lambda>e. hot e \<and> se_pinned e"] by auto
  show "list_all2 lowered (quota_entries i es) (pipeline_entries i config es)"
    using budget_rule.run_victims [OF b dq] map_lowered [OF dq, of "set ws" "\<lambda>e. hot e \<and> \<not> se_pinned e"] by auto
qed

lemma demand_tiers:
  "list_all2 (\<lambda>e e'. se_node_id e' = se_node_id e \<and> se_tier e' = se_tier e) es (demand_step now evs es)"
proof (induction evs arbitrary: es)
  case Nil
  then show ?case by (simp add: list.rel_refl_strong)
next
  case (Cons ev evs)
  let ?R = "\<lambda>e e'. se_node_id e' = se_node_id e \<and> se_tier e' = se_tier e"
  have first: "list_all2 ?R es (update_first p f es)"
    if "\<And>e. se_node_id (f e) = se_node_id e \<and> se_tier (f e) = se_tier e" for p f
    using that by (induction es) (auto intro!: list.rel_refl_strong)
  show ?case
    unfolding demand_step.simps
    by (rule list_all2_trans [OF _ first Cons.IH]) auto
qed

lemma stale_tier_facts [simp]:
  "stale_tier t \<noteq> WorkingSetTier_Hot" "stale_tier t = WorkingSetTier_Archive \<longleftrightarrow> t = WorkingSetTier_Archive"
  "tier_order t \<le> tier_order (stale_tier t)"
  by (cases t; simp)+

lemma tier_order_facts:
  "tier_order WorkingSetTier_Hot < tier_order t \<longleftrightarrow> t \<noteq> WorkingSetTier_Hot"
  "tier_order t = tier_order u \<longleftrightarrow> t = u"
  by (cases t; cases u; simp)+

lemma tier_for_score_not_archive [simp]: "tier_for_score s \<noteq> WorkingSetTier_Archive"
  by (simp add: tier_for_score_def)

lemma gate_facts:
  "promotion_gate now stale e = WorkingSetTier_Archive \<longleftrightarrow> se_tier e = WorkingSetTier_Archive"
  "se_node_id e \<in> set stale \<Longrightarrow> tier_order (se_tier e) \<le> tier_order (promotion_gate now stale e)"
  "se_node_id e \<in> set stale \<Longrightarrow> \<not> hot e \<Longrightarrow> promotion_gate now stale e \<noteq> WorkingSetTier_Hot"
  using tier_order_facts(1) [of "se_tier e"] by (auto simp: promotion_gate_def Let_def)

lemma entries_gated: "list_all2 (gated (ti_stale_node_ids i)) es (gated_entries i es)"
proof -
  let ?st = "ti_stale_node_ids i"
  let ?A = "\<lambda>e e'. se_node_id e' = se_node_id e
      \<and> se_tier e' = (if se_node_id e \<in> set ?st then stale_tier (se_tier e) else se_tier e)"
  have 1: "list_all2 ?A es (stale_step ?st es)"
    by (auto simp: stale_step_def list_all2_map2 intro!: list.rel_refl_strong)
  have 2: "list_all2 ?A es (demand_step (ti_now i) (ti_events i) (stale_step ?st es))"
    by (rule list_all2_trans [OF _ 1 demand_tiers]) auto
  have 3: "list_all2 (\<lambda>e e'. e' = e\<lparr>se_tier := promotion_gate (ti_now i) ?st e\<rparr>) fs (recompute_step (ti_now i) ?st fs)" for fs
    by (auto simp: recompute_step_def list_all2_map2 intro!: list.rel_refl_strong)
  show ?thesis
    unfolding gated_entries_def
  proof (rule list_all2_trans [OF _ 2 3])
    fix e f g :: SchedulerEntry
    assume "?A e f" "g = f\<lparr>se_tier := promotion_gate (ti_now i) ?st f\<rparr>"
    then show "gated ?st e g"
      using gate_facts [where e = f and now = "ti_now i" and stale = ?st] stale_tier_facts(3) [of "se_tier e"]
      by (auto simp: gated_def split: if_splits intro: order.trans [OF stale_tier_facts(3)])
  qed
qed

lemma tick_gated:
  assumes "entries_inv es"
  shows "list_all2 (gated (ti_stale_node_ids i)) es (pipeline_entries i config es)"
proof (rule list_all2_trans [OF _ entries_gated])
  show "list_all2 (\<lambda>e e'. \<exists>f. lowered e f \<and> lowered f e') (gated_entries i es) (pipeline_entries i config es)"
    by (rule list_all2_trans [OF _ pipeline_lowered [OF assms]]) auto
  show "gated st e g" if "gated st e f" "\<exists>h. lowered f h \<and> lowered h g" for st e f g
    using that by (auto simp: gated_def lowered_def)
qed

lemma list_all2_same_id:
  assumes "list_all2 R es fs" and "\<And>e f. R e f \<Longrightarrow> se_node_id f = se_node_id e" and "distinct (map se_node_id es)"
    and "e \<in> set es" "f \<in> set fs" "se_node_id f = se_node_id e"
  shows "R e f"
proof -
  obtain n where n: "n < length fs" "fs ! n = f"
    using assms(5) by (auto simp: in_set_conv_nth)
  then have "R (es ! n) f" "es ! n \<in> set es"
    using assms(1) by (auto simp: list_all2_conv_all_nth)
  then show ?thesis
    using assms(2) [of "es ! n" f] same_id [OF assms(3)] assms(4,6) by metis
qed

text \<open>
  C29.  Staleness outranks everything a tick that runs does: unless the tick is coalesced, an entry
  it names as stale ends no closer to Hot than it began and never Hot, even when it is pinned or
  demanded in the same tick; a coalesced tick leaves every entry as it was, stale or not; and no
  tick moves an entry into or out of the archive.
\<close>

theorem stale_entries_never_promoted:
  assumes "scheduler_inv s"
    and "e \<in> set (ws_entries s)" and "e' \<in> set (ws_entries (fst (process_tick i config s)))"
    and "se_node_id e' = se_node_id e"
  shows "(if is_coalesced_input s i then e' = e
          else se_node_id e \<in> set (ti_stale_node_ids i) \<longrightarrow>
            tier_order (se_tier e) \<le> tier_order (se_tier e') \<and> se_tier e' \<noteq> WorkingSetTier_Hot)
    \<and> (se_tier e' = WorkingSetTier_Archive \<longleftrightarrow> se_tier e = WorkingSetTier_Archive)"
proof -
  have inv: "entries_inv (ws_entries s)"
    using assms(1) by (simp add: scheduler_inv_def)
  show ?thesis
  proof (cases "is_coalesced_input s i")
    case True
    then have "e' = e"
      using same_id [OF entries_inv_distinct [OF inv]] assms(2-4) by (simp add: process_tick_entries)
    with True show ?thesis
      by simp
  next
    case False
    have "gated (ti_stale_node_ids i) e e'"
      by (rule list_all2_same_id [OF tick_gated [OF inv] _ entries_inv_distinct [OF inv]])
        (use False assms(2-4) in \<open>auto simp: gated_def process_tick_entries\<close>)
    with False show ?thesis
      by (simp add: gated_def)
  qed
qed


definition plain_entry :: "string \<Rightarrow> WorkingSetTier \<Rightarrow> bool \<Rightarrow> nat \<Rightarrow> nat \<Rightarrow> SchedulerEntry" where
  "plain_entry i t p r tokens =
     \<lparr> se_node_id = i, se_tier = t, se_pinned = p, se_relevance = r, se_last_access_tick = 0,
       se_token_estimate = tokens, se_content_digest = [] \<rparr>"

definition sample_entries :: "SchedulerEntry list" where
  "sample_entries =
     [plain_entry ''b'' WorkingSetTier_Hot True 90 700, plain_entry ''a'' WorkingSetTier_Cold True 80 700]"

definition sample_set :: WorkingSetState where
  "sample_set = projr (working_set_build sample_entries)"

lemma sample_set_build: "working_set_build sample_entries = Inr sample_set"
  by (simp add: sample_set_def sample_entries_def working_set_build_def MAX_SCHEDULER_NODES_def plain_entry_def)

lemma sample_set_inv: "scheduler_inv sample_set"
  by (rule build_inv [OF sample_set_build])

definition sample_tick :: TickInput where
  "sample_tick = TickInput_new 3 [\<lparr>ae_node_id = ''a''\<rparr>] ''r1'' [] [''b'']"

lemma sample_tick_runs: "\<not> is_coalesced_input sample_set sample_tick"
  by (simp add: is_coalesced_input_def sample_set_def sample_entries_def working_set_build_def MAX_SCHEDULER_NODES_def
      plain_entry_def)

theorem tick_ends_within_budget_witness:
  "\<not> is_coalesced_input sample_set sample_tick
   \<and> pinned_hot_unique_total (ws_entries (fst (process_tick sample_tick SchedulerConfig_default sample_set))) \<le> 1024"
  using tick_ends_within_budget [OF sample_set_inv sample_tick_runs, of SchedulerConfig_default] sample_tick_runs
  by (simp add: Let_def PINNED_HOT_BUDGET_TOKENS_def)

lemma sample_b_in:
  "plain_entry ''b'' WorkingSetTier_Hot True 90 700 \<in> set (ws_entries sample_set)"
  by (simp add: sample_set_def sample_entries_def working_set_build_def MAX_SCHEDULER_NODES_def plain_entry_def)

theorem stale_entries_never_promoted_witness:
  "\<exists>e' \<in> set (ws_entries (fst (process_tick sample_tick SchedulerConfig_default sample_set))).
     se_node_id e' = ''b'' \<and> se_tier e' \<noteq> WorkingSetTier_Hot"
proof -
  let ?es = "ws_entries (fst (process_tick sample_tick SchedulerConfig_default sample_set))"
  have "map se_node_id ?es = map se_node_id (ws_entries sample_set)"
    using keeps_ids [OF keeps_pipeline] by (simp add: process_tick_entries)
  then have "''b'' \<in> set (map se_node_id ?es)"
    using sample_b_in by (force simp: plain_entry_def)
  then obtain e' where e': "e' \<in> set ?es" "se_node_id e' = ''b''"
    by auto
  have "se_tier e' \<noteq> WorkingSetTier_Hot"
    using stale_entries_never_promoted [OF sample_set_inv sample_b_in e'(1)] e'(2) sample_tick_runs
    by (simp add: plain_entry_def sample_tick_def TickInput_new_def split: prod.split)
  then show ?thesis
    using e' by blast
qed

subsection \<open>Order of demotion\<close>

text \<open>
  Within a tick the limits demote in score order: of two entries that are Hot after the
  promotion gate and both pinned or both not, one that a limit demotes has the lower score, or
  the same score and the smaller id, than one that stays Hot.
\<close>

theorem limits_demote_lowest_first:
  assumes "scheduler_inv s" and "\<not> is_coalesced_input s i"
    and "e \<in> set (gated_entries i (ws_entries s))" and "f \<in> set (gated_entries i (ws_entries s))"
    and "hot e" and "hot f" and "se_pinned e = se_pinned f"
    and "e' \<in> set (ws_entries (fst (process_tick i config s)))" and "se_node_id e' = se_node_id e" and "\<not> hot e'"
    and "f' \<in> set (ws_entries (fst (process_tick i config s)))" and "se_node_id f' = se_node_id f" and "hot f'"
  shows "score e (ti_now i) < score f (ti_now i)
    \<or> score e (ti_now i) = score f (ti_now i) \<and> se_node_id e < se_node_id f"
proof -
  let ?g = "gated_entries i (ws_entries s)" and ?q = "quota_entries i (ws_entries s)"
    and ?p = "pipeline_entries i config (ws_entries s)"
  have inv: "entries_inv (ws_entries s)"
    using assms(1) by (simp add: scheduler_inv_def)
  have p: "e' \<in> set ?p" "f' \<in> set ?p"
    using assms(2,8,11) by (simp_all add: process_tick_entries)
  note dg = entries_inv_distinct [OF keeps_inv [OF keeps_gated inv, of i]]
  note dq = entries_inv_distinct [OF keeps_inv [OF keeps_quota inv, of i]]
  obtain vs where q: "demotes (\<lambda>e. hot e \<and> se_pinned e) (score_key (ti_now i))
      (\<lambda>es. PINNED_HOT_BUDGET_TOKENS < pinned_hot_unique_total es) ?g vs ?q"
    by (rule quota_run [OF inv])
  obtain ws where b: "demotes (\<lambda>e. hot e \<and> \<not> se_pinned e) (score_key (ti_now i))
      (\<lambda>es. budget_tokens config < hot_unique_total es) ?q ws ?p"
    by (rule pipeline_run [OF inv])
  note qv = pinned_rule.run_victims [OF q dg] and bv = budget_rule.run_victims [OF b dq]
  have le: "score_key (ti_now i) e \<le> score_key (ti_now i) f"
  proof (cases "se_pinned e")
    case True
    have hot_q: "y \<in> set ?g" if "y \<in> set ?q" "hot y" for y
      using qv that by (auto split: if_splits)
    have ws: "se_node_id x \<notin> set ws" if x: "x \<in> set ?g" "se_pinned x" for x
    proof
      assume "se_node_id x \<in> set ws"
      then obtain y where "y \<in> set ?q" "hot y" "\<not> se_pinned y" "se_node_id y = se_node_id x"
        using bv by auto
      then show False
        using same_id [OF dg hot_q x(1)] x(2) by metis
    qed
    have at: "hot x' \<longleftrightarrow> se_node_id x \<notin> set vs"
      if "x \<in> set ?g" "hot x" "se_pinned x" "x' \<in> set ?p" "se_node_id x' = se_node_id x" for x x'
      using bv qv same_id [OF dg] ws that by (auto split: if_splits)
    show ?thesis
      by (rule pinned_rule.run_lowest_first [OF q dg]) (use at [of e e'] at [of f f'] assms p True in auto)
  next
    case False
    have vs: "se_node_id x \<notin> set vs" if x: "x \<in> set ?g" "\<not> se_pinned x" for x
    proof
      assume "se_node_id x \<in> set vs"
      then obtain y where "y \<in> set ?g" "se_pinned y" "se_node_id y = se_node_id x"
        using qv by auto
      then show False
        using same_id [OF dg _ x(1)] x(2) by metis
    qed
    then have q_in: "x \<in> set ?q" if "x \<in> set ?g" "\<not> se_pinned x" for x
      using qv that by force
    have at: "hot x' \<longleftrightarrow> se_node_id x \<notin> set ws"
      if "x \<in> set ?q" "hot x" "x' \<in> set ?p" "se_node_id x' = se_node_id x" for x x'
      using bv same_id [OF dq] that by (auto split: if_splits)
    show ?thesis
      by (rule budget_rule.run_lowest_first [OF b dq])
        (use at [of e e'] at [of f f'] q_in assms p False in auto)
  qed
  have "se_node_id e \<noteq> se_node_id f"
  proof
    assume same: "se_node_id e = se_node_id f"
    then have "e' = f'"
      using same_id [OF entries_inv_distinct [OF keeps_inv [OF keeps_pipeline inv, of i config]]] p assms(9,12) by simp
    then show False
      using assms(10,13) by simp
  qed
  then show ?thesis
    using le by (auto simp: score_key_def less_eq_prod_def le_less)
qed


definition three_hot :: WorkingSetState where
  "three_hot = projr (working_set_build
     [plain_entry ''a'' WorkingSetTier_Hot False 90 600, plain_entry ''b'' WorkingSetTier_Hot False 80 600])"

lemma three_hot_value:
  "ws_entries three_hot =
     [plain_entry ''a'' WorkingSetTier_Hot False 90 600, plain_entry ''b'' WorkingSetTier_Hot False 80 600]"
  by (simp add: three_hot_def working_set_build_def MAX_SCHEDULER_NODES_def plain_entry_def)

lemma three_hot_gated:
  "gated_entries (TickInput_new 1 [] ''r'' [] []) (ws_entries three_hot) = ws_entries three_hot"
  by (simp add: gated_entries_def three_hot_value plain_entry_def TickInput_new_def stale_step_def recompute_step_def
      promotion_gate_def tier_for_score_def score_def HOT_SCORE_THRESHOLD_def canonicalize_events_with_dropped_def)

lemma three_hot_result:
  "ws_entries (fst (process_tick (TickInput_new 1 [] ''r'' [] []) \<lparr>budget_tokens = 1000\<rparr> three_hot)) =
     [plain_entry ''a'' WorkingSetTier_Hot False 90 600, plain_entry ''b'' WorkingSetTier_Warm False 80 600]"
proof -
  have "\<not> is_coalesced_input three_hot (TickInput_new 1 [] ''r'' [] [])"
    by (simp add: is_coalesced_input_def three_hot_def working_set_build_def MAX_SCHEDULER_NODES_def plain_entry_def)
  then show ?thesis
    by (simp add: process_tick_entries pipeline_entries_def quota_entries_def three_hot_gated)
      (simp add: three_hot_value plain_entry_def pin_quota_loop.simps budget_loop.simps
        pinned_hot_unique_total_def hot_unique_total_def PINNED_HOT_BUDGET_TOKENS_def saturating_add_def entry_digest_def
        score_key_def score_def demote_def TickInput_new_def canonicalize_events_with_dropped_def)
qed

theorem limits_demote_lowest_first_witness:
  "score (plain_entry ''b'' WorkingSetTier_Hot False 80 600) 1 < score (plain_entry ''a'' WorkingSetTier_Hot False 90 600) 1
   \<or> ''b'' < ''a''"
proof -
  let ?i = "TickInput_new 1 [] ''r'' [] []"
  have inv: "scheduler_inv three_hot"
    by (simp add: scheduler_inv_def entries_inv_def three_hot_value plain_entry_def MAX_SCHEDULER_NODES_def)
      (simp add: three_hot_def working_set_build_def MAX_SCHEDULER_NODES_def plain_entry_def)
  have fresh: "\<not> is_coalesced_input three_hot ?i"
    by (simp add: is_coalesced_input_def three_hot_def working_set_build_def MAX_SCHEDULER_NODES_def plain_entry_def)
  show ?thesis
    using limits_demote_lowest_first [OF inv fresh, of "plain_entry ''b'' WorkingSetTier_Hot False 80 600"
        "plain_entry ''a'' WorkingSetTier_Hot False 90 600" "plain_entry ''b'' WorkingSetTier_Warm False 80 600"
        "\<lparr>budget_tokens = 1000\<rparr>" "plain_entry ''a'' WorkingSetTier_Hot False 90 600"]
    by (simp add: three_hot_gated three_hot_result) (simp add: three_hot_value plain_entry_def TickInput_new_def
        split: prod.splits)
qed

subsection \<open>Reports\<close>

lemma moved_spec:
  "moved ps p d =
     (p @ map (\<lambda>(t, e). se_node_id e) (filter (\<lambda>(t, e). tier_order (se_tier e) < tier_order t) ps),
      d @ map (\<lambda>(t, e). se_node_id e) (filter (\<lambda>(t, e). tier_order t < tier_order (se_tier e)) ps))"
  by (induction ps p d rule: moved.induct) (auto simp: not_less_iff_gr_or_eq tier_order_facts)

definition tier_changes ::
    "(nat \<Rightarrow> nat \<Rightarrow> bool) \<Rightarrow> SchedulerEntry list \<Rightarrow> SchedulerEntry list \<Rightarrow> string list" where
  "tier_changes rel es fs =
     map (\<lambda>(e, f). se_node_id f) (filter (\<lambda>(e, f). rel (tier_order (se_tier f)) (tier_order (se_tier e))) (zip es fs))"

lemma zip_tiers:
  "map (\<lambda>(t, e). se_node_id e) (filter (\<lambda>(t, e). rel (tier_order (se_tier e)) (tier_order t)) (zip (map se_tier es) fs))
     = tier_changes rel es fs"
  unfolding tier_changes_def
proof (induction es arbitrary: fs)
  case (Cons e es)
  then show ?case by (cases fs) auto
qed simp

lemma sorted_tier_changes:
  assumes "sorted_wrt (<) (map se_node_id fs)" and "length es = length fs"
  shows "sort (tier_changes rel es fs) = tier_changes rel es fs"
proof -
  have "tier_changes rel es fs = map se_node_id (map snd (filter (\<lambda>(e, f). rel (tier_order (se_tier f)) (tier_order (se_tier e))) (zip es fs)))"
    by (auto simp: tier_changes_def)
  moreover have "sorted (map se_node_id (map snd (filter P (zip es fs))))" for P
    using assms
  proof (induction es fs rule: list_induct2')
    case (4 e es f fs)
    then show ?case by (auto simp: less_imp_le dest: set_zip_rightD)
  qed auto
  ultimately show ?thesis
    by (simp add: sort_key_id_if_sorted)
qed

lemma before_tiers_zip:
  assumes "distinct (map se_node_id es)" and "map se_node_id fs = map se_node_id es"
  shows "map (\<lambda>e. (case bm_get (bm_of_list [] (map (\<lambda>e. (se_node_id e, se_tier e)) es)) (se_node_id e) of
             Some t \<Rightarrow> t | None \<Rightarrow> se_tier e, e)) fs = zip (map se_tier es) fs"
proof -
  have look: "bm_get (bm_of_list [] (map (\<lambda>e. (se_node_id e, se_tier e)) es)) (se_node_id e) = Some (se_tier e)"
    if "e \<in> set es" for e
  proof -
    have "distinct (map fst (rev (map (\<lambda>e. (se_node_id e, se_tier e)) es)))"
      using assms(1) by (simp add: rev_map [symmetric] comp_def)
    then have "map_of (rev (map (\<lambda>e. (se_node_id e, se_tier e)) es)) (se_node_id e) = Some (se_tier e)"
      by (rule map_of_is_SomeI) (use that in auto)
    then show ?thesis
      by (simp only: bm_get_of_list option.case)
  qed
  show ?thesis
  proof (rule nth_equalityI)
    show "length (map (\<lambda>e. (case bm_get (bm_of_list [] (map (\<lambda>e. (se_node_id e, se_tier e)) es)) (se_node_id e) of
             Some t \<Rightarrow> t | None \<Rightarrow> se_tier e, e)) fs) = length (zip (map se_tier es) fs)"
      using map_eq_imp_length_eq [OF assms(2)] by simp
  next
    fix n
    assume n: "n < length (map (\<lambda>e. (case bm_get (bm_of_list [] (map (\<lambda>e. (se_node_id e, se_tier e)) es)) (se_node_id e) of
             Some t \<Rightarrow> t | None \<Rightarrow> se_tier e, e)) fs)"
    then have "n < length es" "se_node_id (fs ! n) = se_node_id (es ! n)"
      using arg_cong [OF assms(2), of "\<lambda>xs. xs ! n"] map_eq_imp_length_eq [OF assms(2)] by simp_all
    then show "map (\<lambda>e. (case bm_get (bm_of_list [] (map (\<lambda>e. (se_node_id e, se_tier e)) es)) (se_node_id e) of
             Some t \<Rightarrow> t | None \<Rightarrow> se_tier e, e)) fs ! n = zip (map se_tier es) fs ! n"
      using n look [of "es ! n"] by simp
  qed
qed

lemma tier_changes_same [simp]: "tier_changes (<) es es = []" "tier_changes (\<lambda>a b. b < a) es es = []"
  by (auto simp: tier_changes_def filter_empty_conv in_set_zip)

text \<open>
  The report of a tick is exact: \<open>promoted\<close> lists, in ascending order, the ids of the entries
  whose tier after the tick is closer to Hot than before, \<open>demoted\<close> those that are further
  away, and the clock is the clock of the new state; a coalesced tick reports nothing.
\<close>

theorem tick_report_exact:
  assumes "scheduler_inv s"
  shows "let (s', r) = process_tick i config s
    in tr_tick r = ws_tick s'
       \<and> tr_promoted r = tier_changes (<) (ws_entries s) (ws_entries s')
       \<and> tr_demoted r = tier_changes (\<lambda>a b. b < a) (ws_entries s) (ws_entries s')"
proof (cases "is_coalesced_input s i")
  case True
  then show ?thesis
    by (simp add: process_tick_def Let_def)
next
  case False
  let ?p = "pipeline_entries i config (ws_entries s)"
  have inv: "entries_inv (ws_entries s)" "entries_inv ?p"
    using assms keeps_inv [OF keeps_pipeline] by (auto simp: scheduler_inv_def)
  have ids: "map se_node_id ?p = map se_node_id (ws_entries s)"
    by (rule keeps_ids [OF keeps_pipeline])
  note z = before_tiers_zip [OF entries_inv_distinct [OF inv(1)] ids]
  have srt: "sort (tier_changes rel (ws_entries s) ?p) = tier_changes rel (ws_entries s) ?p" for rel
    using inv(2) map_eq_imp_length_eq [OF ids] by (intro sorted_tier_changes) (simp_all add: entries_inv_def)
  have "process_tick i config s =
     (s\<lparr> ws_last_search_scores := ti_search_scores i, ws_tick := ti_now i, ws_tick_view := ti_now i, ws_entries := ?p,
         ws_last_graph_revision := Some (ti_graph_revision i), ws_last_new_nodes := ti_new_node_ids i,
         ws_pipeline_runs := ws_pipeline_runs s + 1 \<rparr>,
      \<lparr>tr_tick = ti_now i, tr_promoted = sort (tier_changes (<) (ws_entries s) ?p),
       tr_demoted = sort (tier_changes (\<lambda>a b. b < a) (ws_entries s) ?p)\<rparr>)"
    using False zip_tiers [of "(<)"] zip_tiers [of "\<lambda>a b. b < a"]
    by (simp add: process_tick_def Let_def z moved_spec
        flip: gated_entries_def quota_entries_def pipeline_entries_def)
  then show ?thesis
    by (simp add: srt)
qed

theorem tick_report_exact_witness:
  "tr_demoted (snd (process_tick (TickInput_new 1 [] ''r'' [] []) \<lparr>budget_tokens = 1000\<rparr> three_hot)) = [''b'']"
proof -
  have inv: "scheduler_inv three_hot"
    by (simp add: scheduler_inv_def entries_inv_def three_hot_value plain_entry_def MAX_SCHEDULER_NODES_def)
      (simp add: three_hot_def working_set_build_def MAX_SCHEDULER_NODES_def plain_entry_def)
  show ?thesis
    using tick_report_exact [OF inv, of "TickInput_new 1 [] ''r'' [] []" "\<lparr>budget_tokens = 1000\<rparr>"]
    by (simp add: case_prod_unfold Let_def three_hot_result)
      (simp add: three_hot_value tier_changes_def plain_entry_def)
qed


subsection \<open>Coalescing\<close>

text \<open>
  A coalesced tick keeps everything but the search scores, whatever it says about stale nodes:
  the guard looks at the events, the graph revision and the new nodes only.  Reprocessing the
  input just processed, without its events, is always coalesced.
\<close>

lemma coalesced_tick_ignores_stale_nodes:
  "is_coalesced_input s i \<Longrightarrow>
     process_tick i config s =
       (s\<lparr>ws_last_search_scores := ti_search_scores i\<rparr>,
        \<lparr>tr_tick = ws_tick s, tr_promoted = [], tr_demoted = []\<rparr>)"
  "is_coalesced_input (fst (process_tick i config s))
     (i\<lparr>ti_events := [], ti_stale_node_ids := stale, ti_now := now, ti_search_scores := scores\<rparr>)"
proof -
  show "is_coalesced_input s i \<Longrightarrow> process_tick i config s =
       (s\<lparr>ws_last_search_scores := ti_search_scores i\<rparr>,
        \<lparr>tr_tick = ws_tick s, tr_promoted = [], tr_demoted = []\<rparr>)"
    by (simp add: process_tick_def Let_def)
  show "is_coalesced_input (fst (process_tick i config s))
     (i\<lparr>ti_events := [], ti_stale_node_ids := stale, ti_now := now, ti_search_scores := scores\<rparr>)"
    by (simp add: process_tick_def Let_def is_coalesced_input_def split: prod.split)
qed

lemma stale_hot_entry_survives_coalesced_tick:
  "ws_entries (fst (process_tick (TickInput_new 2 [] ''r'' [] [''a'']) \<lparr>budget_tokens = 1000\<rparr>
     (fst (process_tick (TickInput_new 1 [] ''r'' [] []) \<lparr>budget_tokens = 1000\<rparr> three_hot)))) =
   [plain_entry ''a'' WorkingSetTier_Hot False 90 600, plain_entry ''b'' WorkingSetTier_Warm False 80 600]"
proof -
  have "is_coalesced_input (fst (process_tick (TickInput_new 1 [] ''r'' [] []) \<lparr>budget_tokens = 1000\<rparr> three_hot))
      (TickInput_new 2 [] ''r'' [] [''a''])"
    by (simp add: is_coalesced_input_def process_tick_def Let_def TickInput_new_def three_hot_def working_set_build_def
        MAX_SCHEDULER_NODES_def canonicalize_events_with_dropped_def plain_entry_def split: prod.split)
  then show ?thesis
    by (simp add: process_tick_entries [of "TickInput_new 2 [] ''r'' [] [''a'']"] three_hot_result)
qed

subsection \<open>Canonical inputs\<close>

text \<open>
  Building a working set does not depend on the order of the given entries: the same entries
  in any order are accepted alike and give the same state.
\<close>

lemma working_set_build_order_independent:
  assumes "mset es = mset fs" and "working_set_build es = Inr s"
  shows "working_set_build fs = Inr s"
proof -
  have ok: "length es \<le> MAX_SCHEDULER_NODES" "\<forall>e \<in> set es. se_relevance e \<le> 100" "distinct (map se_node_id es)"
    using assms(2) by (auto simp: build_Ok)
  have "distinct (map se_node_id fs)"
    using ok(3) mset_eq_imp_distinct_iff [of "map se_node_id es" "map se_node_id fs"] assms(1) by simp
  moreover have "sort_key se_node_id es = sort_key se_node_id fs"
    using assms(1) ok(3) by (intro sort_key_eq_sort_key) (simp_all add: distinct_map)
  ultimately show ?thesis
    using assms ok mset_eq_length [OF assms(1)] mset_eq_setD [OF assms(1)] by (simp add: build_Ok)
qed

end
