(* ===== verification/Context_Assembly.thy ===== *)
theory Context_Assembly
  imports Context_Representation Scheduler_Properties
begin

text \<open>
  The assembly of the Hot entries (\<open>context_scheduler/assembly.rs\<close>): the summary of every Hot
  node and stubs of at most eight neighbours, counted once per digest, and the two loops that
  demote entries until the assembled set is within the pinned quota and the budget.  Both
  loops are demotion runs of \<open>Scheduler_Properties\<close>; the three searches of the source for the
  entry to demote are one function over the key they compare.
\<close>

record NeighborStub =
  ns_node_id :: string
  ns_content_digest :: string

record AssembledEntry =
  as_node_id :: string
  as_content_digest :: string
  as_summary :: string
  as_token_estimate :: nat
  as_neighbor_stubs :: "NeighborStub list"

record AssembledContext =
  ac_entries :: "AssembledEntry list"
  ac_total_tokens_before :: nat
  ac_total_tokens_after :: nat
  ac_demoted :: "string list"

definition stub_token_estimate :: "NeighborStub \<Rightarrow> nat" where
  "stub_token_estimate stub = graph_estimate_tokens (ns_node_id stub @ '':'' @ ns_content_digest stub)"

text \<open>The digests an assembled entry is counted under, its own first, with their tokens.\<close>

definition assembled_items :: "AssembledEntry \<Rightarrow> (string \<times> nat) list" where
  "assembled_items e =
     (if as_content_digest e = [] then as_node_id e else as_content_digest e, as_token_estimate e)
     # map (\<lambda>stub. (if ns_content_digest stub = [] then ns_node_id stub else ns_content_digest stub,
                    stub_token_estimate stub)) (as_neighbor_stubs e)"

definition assembled_unique_total :: "AssembledEntry list \<Rightarrow> nat" where
  "assembled_unique_total entries = unique_total [] 0 (concat (map assembled_items entries))"

definition pinned_assembled_unique_total :: "AssembledEntry list \<Rightarrow> SchedulerEntry list \<Rightarrow> nat" where
  "pinned_assembled_unique_total entries state =
     (let pinned_ids = map se_node_id (filter (\<lambda>e. se_tier e = WorkingSetTier_Hot \<and> se_pinned e) state)
      in unique_total [] 0 (concat (map assembled_items (filter (\<lambda>e. as_node_id e \<in> set pinned_ids) entries))))"

fun neighbor_loop :: "string \<Rightarrow> string btree_set \<Rightarrow> ContextEdge list \<Rightarrow> string btree_set" where
  "neighbor_loop node_id neighbors [] = neighbors"
| "neighbor_loop node_id neighbors (edge # edges) =
     (if ce_from edge = node_id then neighbor_loop node_id (bs_insert (ce_to edge) neighbors) edges
      else if ce_to edge = node_id then neighbor_loop node_id (bs_insert (ce_from edge) neighbors) edges
      else neighbor_loop node_id neighbors edges)"

definition neighbor_ids :: "ContextGraph \<Rightarrow> string \<Rightarrow> string list" where
  "neighbor_ids graph node_id =
     take 8 (sort (filter (\<lambda>n. n \<noteq> node_id) (neighbor_loop node_id [] (cg_edges graph))))"

definition neighbor_stub :: "ContextGraph \<Rightarrow> string \<Rightarrow> NeighborStub" where
  "neighbor_stub graph nid =
     (case graph_node graph nid of
        Some n \<Rightarrow> \<lparr> ns_node_id = nid, ns_content_digest = cn_content_digest n \<rparr>
      | None \<Rightarrow> \<lparr> ns_node_id = nid, ns_content_digest = nid \<rparr>)"

definition graph_summary :: "ContextGraph \<Rightarrow> string \<Rightarrow> string \<times> string" where
  "graph_summary graph node_id =
     (case graph_node graph node_id of
        Some node \<Rightarrow> (cn_summary node, content_digest_of (cn_summary node))
      | None \<Rightarrow> ([], []))"

definition resolve_summary :: "ContextGraph \<Rightarrow> ContextRepresentationStore \<Rightarrow> string \<Rightarrow> string \<times> string" where
  "resolve_summary graph store node_id =
     (case store_set store node_id of
        Some s \<Rightarrow>
          (case resolve_representation s RepresentationLevel_Summary of
             Some rep \<Rightarrow> (nr_content rep, nr_content_digest rep)
           | None \<Rightarrow> graph_summary graph node_id)
      | None \<Rightarrow> graph_summary graph node_id)"

definition assemble_entry :: "ContextGraph \<Rightarrow> ContextRepresentationStore \<Rightarrow> string \<Rightarrow> AssembledEntry" where
  "assemble_entry graph store node_id =
     (let (summary, summary_digest) = resolve_summary graph store node_id
      in \<lparr> as_node_id = node_id, as_content_digest = summary_digest, as_summary = summary,
           as_token_estimate = graph_estimate_tokens summary,
           as_neighbor_stubs = map (neighbor_stub graph) (neighbor_ids graph node_id) \<rparr>)"

definition build_assembled_entries ::
    "SchedulerEntry list \<Rightarrow> ContextGraph \<Rightarrow> ContextRepresentationStore \<Rightarrow> AssembledEntry list" where
  "build_assembled_entries state graph store =
     map (assemble_entry graph store)
       (sort (map se_node_id (filter (\<lambda>e. se_tier e = WorkingSetTier_Hot) state)))"

text \<open>
  A demotion loop over the assembled entries: the state entry of an assembled entry is looked up,
  an ineligible one is passed over, and the least key is demoted and no longer assembled.
\<close>

definition assembled_eligible :: "(SchedulerEntry \<Rightarrow> bool) \<Rightarrow> SchedulerEntry list \<Rightarrow> AssembledEntry \<Rightarrow> bool" where
  "assembled_eligible eligible state e =
     (case working_set_entry state (as_node_id e) of None \<Rightarrow> False | Some se \<Rightarrow> eligible se)"

definition assembled_key ::
    "(SchedulerEntry \<Rightarrow> 'k) \<Rightarrow> SchedulerEntry list \<Rightarrow> AssembledEntry \<Rightarrow> 'k" where
  "assembled_key key state e = key (the (working_set_entry state (as_node_id e)))"

function assembly_loop ::
    "(AssembledEntry list \<Rightarrow> SchedulerEntry list \<Rightarrow> bool) \<Rightarrow> (SchedulerEntry \<Rightarrow> bool) \<Rightarrow>
     (SchedulerEntry \<Rightarrow> 'k::linorder) \<Rightarrow> ('k \<Rightarrow> string) \<Rightarrow> string list \<Rightarrow> AssembledEntry list \<Rightarrow> SchedulerEntry list \<Rightarrow>
     AssembledEntry list \<times> SchedulerEntry list \<times> string list" where
  "assembly_loop over eligible key victim_of demoted entries state =
     (if \<not> over entries state then (entries, state, demoted)
      else case candidate_loop None (assembled_eligible eligible state) (assembled_key key state) entries of
             None \<Rightarrow> (entries, state, demoted)
           | Some k \<Rightarrow>
               let victim = victim_of k;
                   state' = demote victim state;
                   demoted' = demoted @ [victim];
                   entries' = filter (\<lambda>e. as_node_id e \<noteq> victim) entries
               in if length state' < length demoted' then (entries', state', demoted')
                  else assembly_loop over eligible key victim_of demoted' entries' state')"
  by pat_completeness auto
termination
  by (relation "measure (\<lambda>(_, _, _, _, demoted, _, state). Suc (length state) - length demoted)") auto

declare assembly_loop.simps [simp del]

text \<open>The key of the loop over search scores: an \<open>i32\<close> score, absent 0, then the score, then the id.\<close>

definition search_key :: "(string, 32 word) btree_map \<Rightarrow> 64 word \<Rightarrow> SchedulerEntry \<Rightarrow> int \<times> nat \<times> string" where
  "search_key scores tick e =
     (case bm_get scores (se_node_id e) of Some v \<Rightarrow> sint v | None \<Rightarrow> 0, score e tick, se_node_id e)"

definition search_map :: "SearchScore list option \<Rightarrow> (string, 32 word) btree_map option" where
  "search_map last_search_scores =
     (case last_search_scores of
        None \<Rightarrow> None
      | Some scores \<Rightarrow> if scores = [] then None
                       else Some (bm_of_list [] (map (\<lambda>s. (ss_node_id s, ss_score s)) scores)))"

definition assemble ::
    "ContextGraph \<Rightarrow> ContextRepresentationStore \<Rightarrow> SchedulerConfig \<Rightarrow> WorkingSetState \<Rightarrow>
     WorkingSetState \<times> AssembledContext" where
  "assemble graph store config s =
     (let entries = build_assembled_entries (ws_entries s) graph store;
          total_before = assembled_unique_total entries;
          (entries1, state1, demoted1) =
            assembly_loop (\<lambda>es state. PINNED_HOT_BUDGET_TOKENS < pinned_assembled_unique_total es state)
              (\<lambda>e. se_tier e = WorkingSetTier_Hot \<and> se_pinned e) (score_key (ws_tick s)) snd [] entries (ws_entries s);
          over = (\<lambda>es state. budget_tokens config < assembled_unique_total es);
          unpinned = (\<lambda>e. se_tier e = WorkingSetTier_Hot \<and> \<not> se_pinned e);
          (entries2, state2, demoted2) =
            (case search_map (ws_last_search_scores s) of
               Some m \<Rightarrow> assembly_loop over unpinned (search_key m (ws_tick s)) (\<lambda>(_, _, i). i) demoted1 entries1 state1
             | None \<Rightarrow> assembly_loop over unpinned (score_key (ws_tick s)) snd demoted1 entries1 state1)
      in (s\<lparr>ws_entries := state2\<rparr>,
          \<lparr> ac_entries = sort_key as_node_id entries2, ac_total_tokens_before = total_before,
            ac_total_tokens_after = assembled_unique_total entries2, ac_demoted = sort demoted2 \<rparr>))"

definition assemble_with_search_scores ::
    "ContextGraph \<Rightarrow> ContextRepresentationStore \<Rightarrow> SchedulerConfig \<Rightarrow> SearchScore list option \<Rightarrow> WorkingSetState \<Rightarrow>
     WorkingSetState \<times> AssembledContext" where
  "assemble_with_search_scores graph store config search_scores s =
     (let prev = ws_last_search_scores s;
          s' = (case search_scores of
                  Some scores \<Rightarrow>
                    (let (canonical, dropped) = canonicalize_search_scores_with_dropped scores
                     in if canonical = [] then s\<lparr>ws_last_search_scores := None\<rparr>
                        else s\<lparr>ws_last_search_scores := Some canonical\<rparr>)
                | None \<Rightarrow> s\<lparr>ws_last_search_scores := None\<rparr>);
          (s'', result) = assemble graph store config s'
      in (s''\<lparr>ws_last_search_scores := prev\<rparr>, result))"

subsection \<open>The loops are demotion runs\<close>

definition hot_ids :: "SchedulerEntry list \<Rightarrow> string set" where
  "hot_ids es = se_node_id ` {e \<in> set es. hot e}"

interpretation search_rule: demotion_rule "\<lambda>e. hot e \<and> \<not> se_pinned e" "search_key m now" for m now
  by unfold_locales (auto simp: search_key_def)

lemma working_set_entry_unique:
  "distinct (map se_node_id es) \<Longrightarrow> e \<in> set es \<Longrightarrow> working_set_entry es (se_node_id e) = Some e"
  by (simp add: working_set_entry_def find_unique)

lemma working_set_entry_Some: "working_set_entry es i = Some e \<Longrightarrow> e \<in> set es \<and> se_node_id e = i"
  unfolding working_set_entry_def by (rule find_Some_set)

lemma hot_ids_demote:
  assumes "distinct (map se_node_id es)"
  shows "hot_ids (demote v es) = hot_ids es - {v}"
proof (rule set_eqI)
  fix i
  have "i \<in> hot_ids (demote v es) \<longleftrightarrow> (\<exists>e \<in> set es. se_node_id e = i \<and> hot e \<and> se_node_id e \<noteq> v)"
    unfolding hot_ids_def demote_map [OF assms] by (force split: if_splits)
  also have "\<dots> \<longleftrightarrow> i \<in> hot_ids es - {v}"
    unfolding hot_ids_def by blast
  finally show "i \<in> hot_ids (demote v es) \<longleftrightarrow> i \<in> hot_ids es - {v}" .
qed

context demotion_rule
begin

lemma assembly_run:
  assumes "\<And>e. victim_of (key e) = se_node_id e"
  shows "distinct (map se_node_id es) \<Longrightarrow> as_node_id ` set as = hot_ids es \<Longrightarrow>
   length ds + length (filter eligible es) \<le> length es \<Longrightarrow>
   \<exists>vs es'. assembly_loop over eligible key victim_of ds as es
       = (filter (\<lambda>a. as_node_id a \<in> hot_ids es') as, es', ds @ vs)
     \<and> demotes eligible key (\<lambda>x. over (filter (\<lambda>a. as_node_id a \<in> hot_ids x) as) x) es vs es'"
proof (induction "length (filter eligible es)" arbitrary: ds as es rule: less_induct)
  case less
  let ?over = "\<lambda>as x. over (filter (\<lambda>a. as_node_id a \<in> hot_ids x) as) x"
  have all: "filter (\<lambda>a. as_node_id a \<in> hot_ids es) as = as"
    using less.prems(2) by (auto simp: filter_id_conv)
  have stop: ?case if "assembly_loop over eligible key victim_of ds as es = (as, es, ds)"
    "\<not> over as es \<or> (\<forall>e \<in> set es. \<not> eligible e)"
    using that all by (intro exI [of _ "[]"] exI [of _ es]) (auto intro!: demotes.stop)
  show ?case
  proof (cases "over as es")
    case False
    then show ?thesis
      by (intro stop) (simp_all add: assembly_loop.simps [of over eligible key victim_of ds as es])
  next
    case over: True
    have elig: "assembled_eligible eligible es a \<longleftrightarrow> (\<exists>e \<in> set es. se_node_id e = as_node_id a \<and> eligible e)" for a
      using working_set_entry_unique [OF less.prems(1)] working_set_entry_Some [of es "as_node_id a"]
      by (force simp: assembled_eligible_def split: option.splits)
    have in_as: "\<exists>a \<in> set as. as_node_id a = se_node_id e" if "e \<in> set es" "eligible e" for e
      using less.prems(2) that eligible_hot by (force simp: hot_ids_def)
    show ?thesis
    proof (cases "candidate_loop None (assembled_eligible eligible es) (assembled_key key es) as")
      case None
      then have "\<forall>e \<in> set es. \<not> eligible e"
        using candidate_None [OF None] elig in_as by metis
      then show ?thesis
        using over None by (intro stop) (simp_all add: assembly_loop.simps [of over eligible key victim_of ds as es])
    next
      case (Some k)
      obtain a where a: "a \<in> set as" "assembled_eligible eligible es a" "assembled_key key es a = k"
        "\<forall>b \<in> set as. assembled_eligible eligible es b \<longrightarrow> assembled_key key es a \<le> assembled_key key es b"
        by (rule candidate_Some [OF Some])
      obtain e where e: "e \<in> set es" "se_node_id e = as_node_id a" "eligible e"
        using a(2) elig by blast
      have key_of: "assembled_key key es b = key f" if "f \<in> set es" "se_node_id f = as_node_id b" for b f
        using working_set_entry_unique [OF less.prems(1) that(1)] that(2) by (simp add: assembled_key_def)
      have k: "k = key e" "victim_of k = se_node_id e"
        using a(3) key_of [OF e(1,2)] assms [of e] by auto
      have least: "\<forall>f \<in> set es. eligible f \<longrightarrow> key e \<le> key f"
      proof (intro ballI impI)
        fix f assume f: "f \<in> set es" "eligible f"
        then obtain b where b: "b \<in> set as" "as_node_id b = se_node_id f"
          using in_as by blast
        then show "key e \<le> key f"
          using a(4) elig f k(1) a(3) key_of [OF f(1)] by (metis (no_types, lifting))
      qed
      let ?es = "demote (se_node_id e) es" and ?as = "filter (\<lambda>x. as_node_id x \<noteq> se_node_id e) as"
      have shrink: "length (filter eligible ?es) < length (filter eligible es)"
        using filter_demote [of es e eligible, OF less.prems(1) e(1,3) warmed_not_eligible] .
      have d: "distinct (map se_node_id ?es)" and h: "as_node_id ` set ?as = hot_ids ?es"
        using less.prems(1,2) by (auto simp: hot_ids_demote)
      have len: "length (ds @ [se_node_id e]) + length (filter eligible ?es) \<le> length ?es"
        using shrink less.prems(3) by simp
      obtain vs es' where run:
        "assembly_loop over eligible key victim_of (ds @ [se_node_id e]) ?as ?es
           = (filter (\<lambda>x. as_node_id x \<in> hot_ids es') ?as, es', (ds @ [se_node_id e]) @ vs)"
        "demotes eligible key (?over ?as) ?es vs es'"
        using less.hyps [OF shrink d h len] by blast
      have sub: "filter (\<lambda>x. as_node_id x \<in> H) ?as = filter (\<lambda>x. as_node_id x \<in> H) as"
        if "se_node_id e \<notin> H" for H
        using that by (auto intro: filter_cong)
      have cold: "hot_ids x \<subseteq> hot_ids es - {se_node_id e}" if "demotes eligible key P ?es ws x" for P ws x
        using run_victims [OF that d] hot_ids_demote [OF less.prems(1), of "se_node_id e"]
        by (auto simp: hot_ids_def split: if_splits)
      have same_over: "?over ?as x = ?over as x" if "hot_ids x \<subseteq> hot_ids es - {se_node_id e}" for x
      proof -
        have "se_node_id e \<notin> hot_ids x"
          using that by blast
        then show ?thesis
          by (simp only: sub not_False_eq_True)
      qed
      have transfer: "demotes eligible key (?over as) ys ws x"
        if "demotes eligible key (?over ?as) ys ws x" "distinct (map se_node_id ys)"
          "hot_ids ys \<subseteq> hot_ids es - {se_node_id e}" for ys ws x
        using that
      proof (induction rule: demotes.induct)
        case (stop ys)
        then show ?case
          using same_over by (intro demotes.stop) auto
      next
        case (step ys f ws x)
        then show ?case
          using same_over [of ys] hot_ids_demote [of ys "se_node_id f"] by (intro demotes.step) auto
      qed
      have "demotes eligible key (?over as) es (se_node_id e # vs) es'"
        by (rule demotes.step) (use over all e least transfer [OF run(2) d] hot_ids_demote [OF less.prems(1)] in auto)
      moreover have "assembly_loop over eligible key victim_of ds as es
          = (filter (\<lambda>x. as_node_id x \<in> hot_ids es') as, es', ds @ se_node_id e # vs)"
        using over Some k(2) run(1) sub [of "hot_ids es'"] cold [OF run(2)] len
        by (subst assembly_loop.simps) (auto simp: Let_def)
      ultimately show ?thesis by blast
    qed
  qed
qed

end


subsection \<open>The assembled context\<close>

lemma hot_ids_map:
  "hot_ids (map (\<lambda>e. if se_node_id e \<in> V then warmed e else e) es) = hot_ids es - V"
proof (rule set_eqI)
  fix i
  have "i \<in> hot_ids (map (\<lambda>e. if se_node_id e \<in> V then warmed e else e) es)
      \<longleftrightarrow> (\<exists>e \<in> set es. se_node_id e = i \<and> hot e \<and> se_node_id e \<notin> V)"
    unfolding hot_ids_def by (force split: if_splits)
  also have "\<dots> \<longleftrightarrow> i \<in> hot_ids es - V"
    unfolding hot_ids_def by blast
  finally show "i \<in> hot_ids (map (\<lambda>e. if se_node_id e \<in> V then warmed e else e) es) \<longleftrightarrow> i \<in> hot_ids es - V" .
qed

lemma sorted_filter_ids:
  "sorted_wrt (<) (map f xs) \<Longrightarrow> sorted_wrt (<) (map f (filter P xs))"
  by (induction xs) auto

lemma build_assembled_ids:
  assumes "entries_inv es"
  shows "map as_node_id (build_assembled_entries es g st) = map se_node_id (filter hot es)"
proof -
  have "sorted_wrt (<) (map se_node_id (filter hot es))"
    using assms by (auto simp: entries_inv_def intro: sorted_filter_ids)
  then have "sort (map se_node_id (filter hot es)) = map se_node_id (filter hot es)"
    by (simp add: sort_key_id_if_sorted strict_sorted_iff)
  then show ?thesis
    by (simp add: build_assembled_entries_def assemble_entry_def comp_def case_prod_unfold Let_def)
qed

text \<open>What the two demotion loops leave: the victims of each, and why it stopped.\<close>

lemma assemble_runs:
  assumes inv: "entries_inv (ws_entries s)" and asm: "assemble g st config s = (s', ctx)"
  obtains vs ws es1 as1 as2 where
    "distinct vs" "set vs \<subseteq> se_node_id ` {e \<in> set (ws_entries s). hot e \<and> se_pinned e}"
    "es1 = map (\<lambda>e. if se_node_id e \<in> set vs then warmed e else e) (ws_entries s)"
    "as1 = filter (\<lambda>a. as_node_id a \<in> hot_ids es1) (build_assembled_entries (ws_entries s) g st)"
    "pinned_assembled_unique_total as1 es1 \<le> PINNED_HOT_BUDGET_TOKENS \<or> (\<forall>e \<in> set es1. \<not> (hot e \<and> se_pinned e))"
    "distinct ws" "set ws \<subseteq> se_node_id ` {e \<in> set es1. hot e \<and> \<not> se_pinned e}"
    "ws_entries s' = map (\<lambda>e. if se_node_id e \<in> set ws then warmed e else e) es1"
    "as2 = filter (\<lambda>a. as_node_id a \<in> hot_ids (ws_entries s')) as1"
    "assembled_unique_total as2 \<le> budget_tokens config \<or> (\<forall>e \<in> set (ws_entries s'). \<not> (hot e \<and> \<not> se_pinned e))"
    "ac_entries ctx = sort_key as_node_id as2" "ac_total_tokens_after ctx = assembled_unique_total as2"
    "ac_demoted ctx = sort (vs @ ws)" "s' = s\<lparr>ws_entries := ws_entries s'\<rparr>"
proof -
  let ?es = "ws_entries s" and ?now = "ws_tick s"
  let ?as = "build_assembled_entries ?es g st"
  let ?U = "\<lambda>e. hot e \<and> \<not> se_pinned e"
  let ?over1 = "\<lambda>as es. PINNED_HOT_BUDGET_TOKENS < pinned_assembled_unique_total as es"
  let ?over2 = "\<lambda>as (es :: SchedulerEntry list). budget_tokens config < assembled_unique_total as"
  note ret = that and d = entries_inv_distinct [OF inv]
  have h: "as_node_id ` set ?as = hot_ids ?es"
    using arg_cong [OF build_assembled_ids [OF inv, of g st], of set] by (simp add: hot_ids_def)
  obtain vs es1 where r1:
    "assembly_loop ?over1 (\<lambda>e. hot e \<and> se_pinned e) (score_key ?now) snd [] ?as ?es
       = (filter (\<lambda>a. as_node_id a \<in> hot_ids es1) ?as, es1, vs)"
    "demotes (\<lambda>e. hot e \<and> se_pinned e) (score_key ?now)
       (\<lambda>x. ?over1 (filter (\<lambda>a. as_node_id a \<in> hot_ids x) ?as) x) ?es vs es1"
    using pinned_rule.assembly_run [where over = ?over1 and victim_of = snd and ds = "[]" and now = ?now, OF _ d h] by (force simp: score_key_def)
  define as1 where "as1 = filter (\<lambda>a. as_node_id a \<in> hot_ids es1) ?as"
  note v1 = pinned_rule.run_victims [OF r1(2) d]
  have es1: "es1 = map (\<lambda>e. if se_node_id e \<in> set vs then warmed e else e) ?es"
    using v1 by blast
  have ids1: "map se_node_id es1 = map se_node_id ?es"
    unfolding es1 by auto
  then have d1: "distinct (map se_node_id es1)"
    using d by simp
  have h1: "as_node_id ` set as1 = hot_ids es1"
    using h hot_ids_map [of "set vs" ?es] by (auto simp: as1_def es1)
  have len: "length vs + length (filter ?U es1) \<le> length es1"
  proof -
    have "set vs \<inter> se_node_id ` set (filter ?U es1) = {}"
      using v1 same_id [OF d] by (auto simp: es1 split: if_splits)
    moreover have "distinct (map se_node_id (filter ?U es1))"
      using d1 by (simp add: distinct_map inj_on_def)
    ultimately have "distinct (vs @ map se_node_id (filter ?U es1))"
      using v1 by auto
    then have "length (vs @ map se_node_id (filter ?U es1)) = card (set (vs @ map se_node_id (filter ?U es1)))"
      by (simp only: distinct_card)
    also have "\<dots> \<le> card (set (map se_node_id es1))"
    proof (rule card_mono)
      have "set vs \<subseteq> set (map se_node_id ?es)"
        using v1 by auto
      then show "set (vs @ map se_node_id (filter ?U es1)) \<subseteq> set (map se_node_id es1)"
        unfolding ids1 [symmetric] by auto
    qed simp
    also have "\<dots> = length es1"
      using distinct_card [OF d1] by simp
    finally show ?thesis by simp
  qed
  have second: thesis
    if run: "(case search_map (ws_last_search_scores s) of
        Some m \<Rightarrow> assembly_loop ?over2 ?U (search_key m ?now) (\<lambda>(_, _, i). i) vs as1 es1
      | None \<Rightarrow> assembly_loop ?over2 ?U (score_key ?now) snd vs as1 es1)
      = (filter (\<lambda>a. as_node_id a \<in> hot_ids es2) as1, es2, vs @ ws)"
      and final: "\<not> ?over2 (filter (\<lambda>a. as_node_id a \<in> hot_ids es2) as1) es2 \<or> (\<forall>e \<in> set es2. \<not> ?U e)"
      and v2: "distinct ws \<and> set ws \<subseteq> se_node_id ` {e \<in> set es1. ?U e}
         \<and> es2 = map (\<lambda>e. if se_node_id e \<in> set ws then warmed e else e) es1"
    for ws es2
  proof -
    have "s' = s\<lparr>ws_entries := es2\<rparr>"
      "ctx = \<lparr> ac_entries = sort_key as_node_id (filter (\<lambda>a. as_node_id a \<in> hot_ids es2) as1),
          ac_total_tokens_before = assembled_unique_total ?as,
          ac_total_tokens_after = assembled_unique_total (filter (\<lambda>a. as_node_id a \<in> hot_ids es2) as1),
          ac_demoted = sort (vs @ ws) \<rparr>"
      using asm run unfolding assemble_def Let_def r1(1) as1_def [symmetric] by simp_all
    then show thesis
      using ret [of vs es1 as1 ws "filter (\<lambda>a. as_node_id a \<in> hot_ids es2) as1"] v1 es1 as1_def v2 final
        pinned_rule.run_final [OF r1(2)]
      by (auto simp: not_less)
  qed
  show thesis
  proof (cases "search_map (ws_last_search_scores s)")
    case None
    obtain ws es2 where r: "assembly_loop ?over2 ?U (score_key ?now) snd vs as1 es1
        = (filter (\<lambda>a. as_node_id a \<in> hot_ids es2) as1, es2, vs @ ws)"
      "demotes ?U (score_key ?now) (\<lambda>x. ?over2 (filter (\<lambda>a. as_node_id a \<in> hot_ids x) as1) x) es1 ws es2"
      using budget_rule.assembly_run [where over = ?over2 and victim_of = snd and now = ?now, OF _ d1 h1 len] by (force simp: score_key_def)
    show thesis
      by (rule second [of es2 ws]) (use None r(1) budget_rule.run_final [OF r(2)] budget_rule.run_victims [OF r(2) d1] in auto)
  next
    case (Some m)
    obtain ws es2 where r: "assembly_loop ?over2 ?U (search_key m ?now) (\<lambda>(_, _, i). i) vs as1 es1
        = (filter (\<lambda>a. as_node_id a \<in> hot_ids es2) as1, es2, vs @ ws)"
      "demotes ?U (search_key m ?now) (\<lambda>x. ?over2 (filter (\<lambda>a. as_node_id a \<in> hot_ids x) as1) x) es1 ws es2"
      using search_rule.assembly_run [where over = ?over2 and victim_of = "\<lambda>(_, _, i). i" and m = m and now = ?now, OF _ d1 h1 len] by (force simp: search_key_def)
    show thesis
      by (rule second [of es2 ws]) (use Some r(1) search_rule.run_final [OF r(2)] search_rule.run_victims [OF r(2) d1] in auto)
  qed
qed


lemma pinned_total_cong:
  assumes "map se_node_id (filter (\<lambda>e. hot e \<and> se_pinned e) es) = map se_node_id (filter (\<lambda>e. hot e \<and> se_pinned e) fs)"
    and "hot_ids fs \<subseteq> H"
  shows "pinned_assembled_unique_total (filter (\<lambda>a. as_node_id a \<in> H) as) fs = pinned_assembled_unique_total as es"
proof -
  have "filter (\<lambda>a. as_node_id a \<in> se_node_id ` {e \<in> set fs. hot e \<and> se_pinned e}) (filter (\<lambda>a. as_node_id a \<in> H) as)
      = filter (\<lambda>a. as_node_id a \<in> se_node_id ` {e \<in> set fs. hot e \<and> se_pinned e}) as"
    using assms(2) by (auto simp: hot_ids_def intro!: filter_cong)
  moreover have "se_node_id ` {e \<in> set es. hot e \<and> se_pinned e} = se_node_id ` {e \<in> set fs. hot e \<and> se_pinned e}"
    using arg_cong [OF assms(1), of set] by simp
  ultimately show ?thesis
    by (simp add: pinned_assembled_unique_total_def)
qed

lemma pinned_assembled_none:
  "\<forall>e \<in> set es. \<not> (hot e \<and> se_pinned e) \<Longrightarrow> pinned_assembled_unique_total as es = 0"
  by (simp add: pinned_assembled_unique_total_def filter_empty_conv)

lemma tier_changes_lowered:
  assumes "\<forall>e \<in> set es. se_node_id e \<in> V \<longrightarrow> hot e"
  shows "tier_changes (\<lambda>a b. b < a) es (map (\<lambda>e. if se_node_id e \<in> V then warmed e else e) es)
    = filter (\<lambda>i. i \<in> V) (map se_node_id es)"
  using assms by (induction es) (auto simp: tier_changes_def)

text \<open>
  C30.  An assembly ends within both limits and says so: the assembled entries are exactly the entries
  Hot afterwards, in id order; the pinned ones hold at most 1024 assembled tokens; all of them
  hold at most the budget unless only pinned ones are left; the reported total is the total of
  the entries; and \<open>demoted\<close> lists exactly the entries whose tier it lowered, none being deleted.
\<close>

theorem assembly_within_budgets:
  assumes "scheduler_inv s" and "assemble g st config s = (s', ctx)"
  shows "map as_node_id (ac_entries ctx) = map se_node_id (filter hot (ws_entries s'))
    \<and> pinned_assembled_unique_total (ac_entries ctx) (ws_entries s') \<le> PINNED_HOT_BUDGET_TOKENS
    \<and> (assembled_unique_total (ac_entries ctx) \<le> budget_tokens config
       \<or> list_all (\<lambda>e. hot e \<longrightarrow> se_pinned e) (ws_entries s'))
    \<and> ac_total_tokens_after ctx = assembled_unique_total (ac_entries ctx)
    \<and> ac_demoted ctx = tier_changes (\<lambda>a b. b < a) (ws_entries s) (ws_entries s')
    \<and> list_all2 lowered (ws_entries s) (ws_entries s')"
proof -
  have inv: "entries_inv (ws_entries s)"
    using assms(1) by (simp add: scheduler_inv_def)
  note d = entries_inv_distinct [OF inv]
  obtain vs ws es1 as1 as2 where
    v: "distinct vs" "set vs \<subseteq> se_node_id ` {e \<in> set (ws_entries s). hot e \<and> se_pinned e}"
    and es1: "es1 = map (\<lambda>e. if se_node_id e \<in> set vs then warmed e else e) (ws_entries s)"
    and as1: "as1 = filter (\<lambda>a. as_node_id a \<in> hot_ids es1) (build_assembled_entries (ws_entries s) g st)"
    and stop1: "pinned_assembled_unique_total as1 es1 \<le> PINNED_HOT_BUDGET_TOKENS
      \<or> (\<forall>e \<in> set es1. \<not> (hot e \<and> se_pinned e))"
    and w: "distinct ws" "set ws \<subseteq> se_node_id ` {e \<in> set es1. hot e \<and> \<not> se_pinned e}"
    and es2: "ws_entries s' = map (\<lambda>e. if se_node_id e \<in> set ws then warmed e else e) es1"
    and as2: "as2 = filter (\<lambda>a. as_node_id a \<in> hot_ids (ws_entries s')) as1"
    and stop2: "assembled_unique_total as2 \<le> budget_tokens config
      \<or> (\<forall>e \<in> set (ws_entries s'). \<not> (hot e \<and> \<not> se_pinned e))"
    and ctx: "ac_entries ctx = sort_key as_node_id as2" "ac_total_tokens_after ctx = assembled_unique_total as2"
      "ac_demoted ctx = sort (vs @ ws)"
    by (rule assemble_runs [OF inv assms(2)])
  have d1: "distinct (map se_node_id es1)"
    using d unfolding es1 by (simp add: distinct_map inj_on_def)
  have U: "\<forall>e \<in> set (ws_entries s). se_node_id e \<in> set vs \<union> set ws \<longrightarrow> hot e"
  proof (intro ballI impI)
    fix e assume e: "e \<in> set (ws_entries s)" "se_node_id e \<in> set vs \<union> set ws"
    then show "hot e"
    proof (cases "se_node_id e \<in> set vs")
      case True
      then show ?thesis
        using v(2) same_id [OF d e(1)] by force
    next
      case False
      then obtain f where "f \<in> set es1" "hot f" "se_node_id f = se_node_id e"
        using e(2) w(2) by auto
      moreover from this have "f \<in> set (ws_entries s)"
        by (auto simp: es1 split: if_splits)
      ultimately show ?thesis
        using same_id [OF d e(1)] by metis
    qed
  qed
  have both: "ws_entries s' = map (\<lambda>e. if se_node_id e \<in> set vs \<union> set ws then warmed e else e) (ws_entries s)"
    unfolding es2 es1 by auto
  have disj: "set vs \<inter> set ws = {}"
    using v(2) w(2) same_id [OF d] by (auto simp: es1 split: if_splits)
  have sub: "set vs \<union> set ws \<subseteq> se_node_id ` set (ws_entries s)"
    using v(2) w(2) by (auto simp: es1 split: if_splits)
  have srt: "sorted_wrt (<) (map se_node_id (ws_entries s))"
    using inv by (simp add: entries_inv_def)
  have low: "list_all2 lowered (ws_entries s) (ws_entries s')"
    unfolding both using U by (auto simp: list_all2_map2 lowered_def intro!: list.rel_refl_strong)
  have hots: "hot_ids (ws_entries s') \<subseteq> hot_ids es1" "hot_ids es1 \<subseteq> hot_ids (ws_entries s)"
    unfolding es2 by (simp_all only: hot_ids_map) (auto simp: es1 hot_ids_map)
  have "map se_node_id (ws_entries s') = map se_node_id (ws_entries s)"
    unfolding both by auto
  then have srt': "sorted_wrt (<) (map se_node_id (filter hot (ws_entries s')))"
    using srt by (intro sorted_filter_ids) simp
  have ids: "map as_node_id as2 = map se_node_id (filter hot (ws_entries s'))"
  proof (rule strict_sorted_equal)
    have "as2 = filter (\<lambda>a. as_node_id a \<in> hot_ids (ws_entries s')) (build_assembled_entries (ws_entries s) g st)"
      using hots unfolding as2 as1 by (auto intro: filter_cong)
    then have m: "map as_node_id as2
        = filter (\<lambda>i. i \<in> hot_ids (ws_entries s')) (map se_node_id (filter hot (ws_entries s)))"
      by (simp flip: build_assembled_ids [OF inv, of g st] add: filter_map comp_def)
    show "sorted_wrt (<) (map as_node_id as2)"
      unfolding m using sorted_filter_ids [OF srt, of hot] by (rule sorted_wrt_filter)
    show "sorted_wrt (<) (map se_node_id (filter hot (ws_entries s')))"
      by (rule srt')
    show "set (map as_node_id as2) = set (map se_node_id (filter hot (ws_entries s')))"
      unfolding m using hots by (auto simp: hot_ids_def)
  qed
  have "sorted (map as_node_id as2)"
    using srt' by (simp add: ids strict_sorted_iff)
  then have ent: "ac_entries ctx = as2"
    by (simp add: ctx(1) sort_key_id_if_sorted)
  have pin: "pinned_assembled_unique_total as2 (ws_entries s') = pinned_assembled_unique_total as1 es1"
    unfolding as2
  proof (rule pinned_total_cong)
    show "map se_node_id (filter (\<lambda>e. hot e \<and> se_pinned e) es1)
        = map se_node_id (filter (\<lambda>e. hot e \<and> se_pinned e) (ws_entries s'))"
    proof -
      have keep: "se_node_id e \<notin> set ws" if "e \<in> set es1" "hot e" "se_pinned e" for e
        using w(2) same_id [OF d1] that by blast
      show ?thesis
        unfolding es2 using keep by (induction es1) auto
    qed
  qed simp
  have quota: "pinned_assembled_unique_total as2 (ws_entries s') \<le> PINNED_HOT_BUDGET_TOKENS"
    using stop1 pinned_assembled_none [of es1 as1] unfolding pin by auto
  have dem: "ac_demoted ctx = tier_changes (\<lambda>a b. b < a) (ws_entries s) (ws_entries s')"
  proof -
    have "sort (vs @ ws) = filter (\<lambda>i. i \<in> set vs \<union> set ws) (map se_node_id (ws_entries s))"
    proof (rule strict_sorted_equal)
      show "sorted_wrt (<) (sort (vs @ ws))"
        using v(1) w(1) disj by (simp add: strict_sorted_iff)
      show "sorted_wrt (<) (filter (\<lambda>i. i \<in> set vs \<union> set ws) (map se_node_id (ws_entries s)))"
        using srt by (rule sorted_wrt_filter)
      show "set (sort (vs @ ws)) = set (filter (\<lambda>i. i \<in> set vs \<union> set ws) (map se_node_id (ws_entries s)))"
        using sub by auto
    qed
    then show ?thesis
      unfolding both ctx(3) tier_changes_lowered [OF U] .
  qed
  show ?thesis
    using ids quota stop2 ctx(2) dem low by (auto simp: ent list_all_iff)
qed


text \<open>A graph with one edge and an empty store, and a pinned Hot entry on one of its nodes.\<close>

definition sample_graph :: ContextGraph where
  "sample_graph =
     \<lparr> cg_nodes =
         [\<lparr> cn_id = ''a'', cn_kind = ContextNodeKind_Task, cn_content_digest = sha256_hex [], cn_summary = ''text'',
            cn_source_bindings = [], cn_token_estimate = 1 \<rparr>,
          \<lparr> cn_id = ''b'', cn_kind = ContextNodeKind_Source, cn_content_digest = sha256_hex [], cn_summary = [],
            cn_source_bindings = [], cn_token_estimate = 0 \<rparr>],
       cg_edges = [\<lparr> ce_from = ''a'', ce_to = ''b'', ce_kind = ContextEdgeKind_References \<rparr>] \<rparr>"

theorem assembly_within_budgets_witness:
  "pinned_assembled_unique_total
     (ac_entries (snd (assemble sample_graph \<lparr>crs_sets = []\<rparr> SchedulerConfig_default sample_set)))
     (ws_entries (fst (assemble sample_graph \<lparr>crs_sets = []\<rparr> SchedulerConfig_default sample_set))) \<le> 1024"
  using assembly_within_budgets [OF sample_set_inv, of sample_graph "\<lparr>crs_sets = []\<rparr>" SchedulerConfig_default,
      OF prod.collapse [symmetric]]
  by (simp add: PINNED_HOT_BUDGET_TOKENS_def)

subsection \<open>What is assembled\<close>

definition adjacent :: "ContextGraph \<Rightarrow> string \<Rightarrow> string set" where
  "adjacent g i =
     {n. n \<noteq> i \<and> (\<exists>e \<in> set (cg_edges g). ce_from e = i \<and> ce_to e = n \<or> ce_to e = i \<and> ce_from e = n)}"

lemma neighbor_loop_spec:
  "bs_wf ns \<Longrightarrow> bs_wf (neighbor_loop i ns es)
     \<and> set (neighbor_loop i ns es) - {i} = (set ns \<union> {n. \<exists>e \<in> set es. ce_from e = i \<and> ce_to e = n \<or> ce_to e = i \<and> ce_from e = n}) - {i}"
proof (induction i ns es rule: neighbor_loop.induct)
  case (2 i ns e es)
  then show ?case
    by (cases "ce_from e = i"; cases "ce_to e = i") (auto simp: set_bs_insert bs_wf_insert)
qed simp

lemma neighbor_ids_spec:
  "neighbor_ids g i = take 8 (sorted_list_of_set (adjacent g i))"
proof -
  let ?ns = "filter (\<lambda>n. n \<noteq> i) (neighbor_loop i [] (cg_edges g))"
  have l: "bs_wf (neighbor_loop i [] (cg_edges g))" "set (neighbor_loop i [] (cg_edges g)) - {i} = adjacent g i"
    using neighbor_loop_spec [of "[]" i "cg_edges g"] by (auto simp: bs_wf_def adjacent_def)
  have "set ?ns = adjacent g i"
    using l(2) by auto
  moreover have "distinct ?ns"
    using l(1) by (simp add: bs_wf_def strict_sorted_iff)
  ultimately have "sort ?ns = sorted_list_of_set (adjacent g i)"
    by (metis sorted_list_of_set_sort_remdups distinct_remdups_id)
  then show ?thesis
    by (simp add: neighbor_ids_def)
qed

lemma neighbor_stub_facts [simp]:
  "ns_node_id (neighbor_stub g x) = x"
  "graph_node g x = Some n \<Longrightarrow> ns_content_digest (neighbor_stub g x) = cn_content_digest n"
  by (simp_all add: neighbor_stub_def split: option.split)

text \<open>
  What an assembled entry carries: its summary is the stored summary of the node, else the
  summary of its graph node, else empty, never a deeper level, and is counted as it is; its
  stubs are the first eight of its neighbours in the graph other than itself, in id order,
  each under the digest of its node.
\<close>

theorem assembled_entries_are_summaries:
  assumes "scheduler_inv s" and "assemble g st config s = (s', ctx)" and "a \<in> set (ac_entries ctx)"
  shows "(as_summary a, as_content_digest a) = resolve_summary g st (as_node_id a)
    \<and> as_token_estimate a = graph_estimate_tokens (as_summary a)
    \<and> map ns_node_id (as_neighbor_stubs a) = take 8 (sorted_list_of_set (adjacent g (as_node_id a)))
    \<and> list_all (\<lambda>stub. \<forall>n. graph_node g (ns_node_id stub) = Some n \<longrightarrow> ns_content_digest stub = cn_content_digest n)
        (as_neighbor_stubs a)"
proof -
  have inv: "entries_inv (ws_entries s)"
    using assms(1) by (simp add: scheduler_inv_def)
  have "a \<in> set (build_assembled_entries (ws_entries s) g st)"
    by (rule assemble_runs [OF inv assms(2)]) (use assms(3) in auto)
  then obtain i where "a = assemble_entry g st i"
    by (auto simp: build_assembled_entries_def)
  then show ?thesis
    by (auto simp: assemble_entry_def Let_def case_prod_unfold comp_def neighbor_ids_spec list_all_iff)
qed

end
