(* ===== verification/Context_Metrics.thy ===== *)
theory Context_Metrics
  imports Context_Assembly
begin

text \<open>
  The counters of the scheduler (\<open>context_metrics.rs\<close>): saturating \<open>u64\<close> totals and a ring of
  the last 64 tick records.  The collector only observes: it takes the states before and after
  a tick, the report and the assembly.
\<close>

record TierCounts =
  tc_hot :: nat
  tc_warm :: nat
  tc_cold :: nat
  tc_archive :: nat

record DemotionKindCounts =
  dk_stale :: nat
  dk_pin_quota :: nat
  dk_budget :: nat

record TickRecord =
  tk_now :: "64 word"
  tk_canonical_event_count :: nat
  tk_events_dropped :: nat
  tk_tier_counts :: TierCounts
  tk_assembled_unique_total :: nat
  tk_assembled_summary_total :: nat
  tk_stub_total :: nat
  tk_demotion_counts :: DemotionKindCounts
  tk_promotion_count :: nat

record ContextMetrics =
  cm_ticks_total :: nat
  cm_coalesced_noop_ticks_total :: nat
  cm_events_total :: nat
  cm_events_dropped_total :: nat
  cm_demand_updates_total :: nat
  cm_promotions_total :: nat
  cm_demotions_total :: nat
  cm_stale_demotions_total :: nat
  cm_pin_quota_demotions_total :: nat
  cm_budget_demotions_total :: nat
  cm_assembled_summary_tokens_total :: nat
  cm_neighbor_stub_tokens_total :: nat
  cm_ring :: "TickRecord list"

definition ContextMetrics_new :: ContextMetrics where
  "ContextMetrics_new =
     \<lparr> cm_ticks_total = 0, cm_coalesced_noop_ticks_total = 0, cm_events_total = 0, cm_events_dropped_total = 0,
       cm_demand_updates_total = 0, cm_promotions_total = 0, cm_demotions_total = 0, cm_stale_demotions_total = 0,
       cm_pin_quota_demotions_total = 0, cm_budget_demotions_total = 0, cm_assembled_summary_tokens_total = 0,
       cm_neighbor_stub_tokens_total = 0, cm_ring = [] \<rparr>"

fun tier_counts_loop :: "TierCounts \<Rightarrow> SchedulerEntry list \<Rightarrow> TierCounts" where
  "tier_counts_loop c [] = c"
| "tier_counts_loop c (e # es) =
     tier_counts_loop
       (case se_tier e of
          WorkingSetTier_Hot \<Rightarrow> c\<lparr>tc_hot := tc_hot c + 1\<rparr>
        | WorkingSetTier_Warm \<Rightarrow> c\<lparr>tc_warm := tc_warm c + 1\<rparr>
        | WorkingSetTier_Cold \<Rightarrow> c\<lparr>tc_cold := tc_cold c + 1\<rparr>
        | WorkingSetTier_Archive \<Rightarrow> c\<lparr>tc_archive := tc_archive c + 1\<rparr>) es"

definition tier_counts_of :: "WorkingSetState \<Rightarrow> TierCounts" where
  "tier_counts_of s = tier_counts_loop \<lparr>tc_hot = 0, tc_warm = 0, tc_cold = 0, tc_archive = 0\<rparr> (ws_entries s)"

text \<open>The two totals over the items of all entries, a flag telling summaries from stubs.\<close>

fun split_total :: "string list \<Rightarrow> nat \<Rightarrow> nat \<Rightarrow> (bool \<times> string \<times> nat) list \<Rightarrow> nat \<times> nat" where
  "split_total seen summary_unique stub_unique [] = (summary_unique, stub_unique)"
| "split_total seen summary_unique stub_unique ((is_stub, digest, tokens) # items) =
     (if digest \<in> set seen then split_total seen summary_unique stub_unique items
      else if is_stub then split_total (digest # seen) summary_unique (saturating_add stub_unique tokens) items
      else split_total (digest # seen) (saturating_add summary_unique tokens) stub_unique items)"

definition assembled_flags :: "AssembledEntry \<Rightarrow> (bool \<times> string \<times> nat) list" where
  "assembled_flags e =
     (False, if as_content_digest e = [] then as_node_id e else as_content_digest e, as_token_estimate e)
     # map (\<lambda>stub. (True, if ns_content_digest stub = [] then ns_node_id stub else ns_content_digest stub,
                    stub_token_estimate stub)) (as_neighbor_stubs e)"

definition assembled_totals :: "AssembledContext option \<Rightarrow> nat \<times> nat \<times> nat" where
  "assembled_totals assembled =
     (case assembled of
        None \<Rightarrow> (0, 0, 0)
      | Some ctx \<Rightarrow>
          let (summary_unique, stub_unique) = split_total [] 0 0 (concat (map assembled_flags (ac_entries ctx)))
          in (summary_unique, stub_unique, saturating_add summary_unique stub_unique))"

fun classify_demotions ::
    "string list \<Rightarrow> string list \<Rightarrow> WorkingSetState \<Rightarrow> nat \<times> nat \<times> nat" where
  "classify_demotions [] stale_ids before = (0, 0, 0)"
| "classify_demotions (i # demoted) stale_ids before =
     (let (stale_c, pin_c, budget_c) = classify_demotions demoted stale_ids before
      in if i \<in> set stale_ids then (stale_c + 1, pin_c, budget_c)
         else if (case working_set_entry (ws_entries before) i of Some e \<Rightarrow> se_pinned e | None \<Rightarrow> False)
         then (stale_c, pin_c + 1, budget_c)
         else (stale_c, pin_c, budget_c + 1))"

definition push_record :: "TickRecord \<Rightarrow> ContextMetrics \<Rightarrow> ContextMetrics" where
  "push_record rec m =
     (let ring = cm_ring m @ [rec] in m\<lparr>cm_ring := (if 64 < length ring then tl ring else ring)\<rparr>)"

definition record_tick ::
    "TickInput \<Rightarrow> WorkingSetState \<Rightarrow> WorkingSetState \<Rightarrow> TickReport \<Rightarrow> AssembledContext option \<Rightarrow>
     ContextMetrics \<Rightarrow> ContextMetrics" where
  "record_tick i before after report assembled m =
     (let is_coalesced = is_coalesced_input before i \<and> tr_promoted report = [] \<and> tr_demoted report = []
            \<and> ws_tick after = ws_tick before;
          m1 = m\<lparr>cm_ticks_total := saturating_add (cm_ticks_total m) 1\<rparr>;
          (summary_unique, stub_unique, assembled_total) = assembled_totals assembled;
          (stale_c, pin_c, budget_c) = classify_demotions (tr_demoted report) (ti_stale_node_ids i) before;
          promotion_count = length (tr_promoted report);
          demotion_count = length (tr_demoted report);
          rec = \<lparr> tk_now = ti_now i, tk_canonical_event_count = length (ti_events i),
                  tk_events_dropped = ti_events_dropped i, tk_tier_counts = tier_counts_of after,
                  tk_assembled_unique_total = assembled_total, tk_assembled_summary_total = summary_unique,
                  tk_stub_total = stub_unique,
                  tk_demotion_counts = \<lparr> dk_stale = stale_c, dk_pin_quota = pin_c, dk_budget = budget_c \<rparr>,
                  tk_promotion_count = promotion_count \<rparr>
      in if is_coalesced
         then push_record rec
           (m1\<lparr>cm_coalesced_noop_ticks_total := saturating_add (cm_coalesced_noop_ticks_total m1) 1\<rparr>)
         else push_record rec
           (m1\<lparr> cm_events_total := saturating_add (cm_events_total m1) (length (ti_events i)),
                cm_events_dropped_total := saturating_add (cm_events_dropped_total m1) (ti_events_dropped i),
                cm_demand_updates_total := saturating_add (cm_demand_updates_total m1)
                  (length (filter (\<lambda>ev. working_set_entry (ws_entries before) (ae_node_id ev) \<noteq> None) (ti_events i))),
                cm_promotions_total := saturating_add (cm_promotions_total m1) promotion_count,
                cm_demotions_total := saturating_add (cm_demotions_total m1) demotion_count,
                cm_stale_demotions_total := saturating_add (cm_stale_demotions_total m1) stale_c,
                cm_pin_quota_demotions_total := saturating_add (cm_pin_quota_demotions_total m1) pin_c,
                cm_budget_demotions_total := saturating_add (cm_budget_demotions_total m1) budget_c,
                cm_assembled_summary_tokens_total := saturating_add (cm_assembled_summary_tokens_total m1) summary_unique,
                cm_neighbor_stub_tokens_total := saturating_add (cm_neighbor_stub_tokens_total m1) stub_unique \<rparr>))"

definition hot_unique_total_for_state :: "WorkingSetState \<Rightarrow> nat" where
  "hot_unique_total_for_state s =
     unique_total [] 0 (map (\<lambda>e. (if se_content_digest e = [] then se_node_id e else se_content_digest e, se_token_estimate e))
       (sort_key se_node_id (filter (\<lambda>e. se_tier e = WorkingSetTier_Hot) (ws_entries s))))"

subsection \<open>Properties\<close>

lemma classify_total:
  "classify_demotions ds stale before = (a, b, c) \<Longrightarrow> a + b + c = length ds"
  by (induction ds arbitrary: a b c) (auto simp: Let_def split: prod.splits if_splits)

text \<open>Every number of demotions is accounted for by its three kinds, until a counter saturates.\<close>

definition metrics_inv :: "ContextMetrics \<Rightarrow> bool" where
  "metrics_inv m \<longleftrightarrow>
     length (cm_ring m) \<le> 64 \<and> cm_demotions_total m < 2 ^ 64
     \<and> cm_demotions_total m \<le> cm_stale_demotions_total m + cm_pin_quota_demotions_total m + cm_budget_demotions_total m
     \<and> (cm_demotions_total m < 2 ^ 64 - 1 \<longrightarrow>
          cm_demotions_total m = cm_stale_demotions_total m + cm_pin_quota_demotions_total m + cm_budget_demotions_total m)"

lemma saturating_sum:
  assumes "d \<le> a + b + (c :: nat)" "d < M \<longrightarrow> d = a + b + c" "d \<le> M" "d' = a' + b' + c'"
  shows "min (d + d') M \<le> min (a + a') M + min (b + b') M + min (c + c') M
    \<and> (min (d + d') M < M \<longrightarrow> min (d + d') M = min (a + a') M + min (b + b') M + min (c + c') M)"
  using assms by (auto simp: min_def)

lemma record_tick_inv:
  assumes "metrics_inv m"
  shows "metrics_inv (record_tick i before after report assembled m)"
proof -
  obtain a b c where k: "classify_demotions (tr_demoted report) (ti_stale_node_ids i) before = (a, b, c)"
    by (metis prod_cases3)
  note s = saturating_sum [of "cm_demotions_total m" "cm_stale_demotions_total m" "cm_pin_quota_demotions_total m"
      "cm_budget_demotions_total m" "2 ^ 64 - 1" "length (tr_demoted report)" a b c]
  show ?thesis
    using assms s classify_total [OF k] unfolding metrics_inv_def
    by (auto simp: record_tick_def push_record_def k Let_def saturating_add_def split: prod.split)
qed

type_synonym observation =
  "TickInput \<times> WorkingSetState \<times> WorkingSetState \<times> TickReport \<times> AssembledContext option"

definition observe :: "observation \<Rightarrow> ContextMetrics \<Rightarrow> ContextMetrics" where
  "observe = (\<lambda>(i, before, after, report, assembled). record_tick i before after report assembled)"

interpretation metrics: machine "\<lambda>m. m = ContextMetrics_new" observe metrics_inv
proof unfold_locales
  show "metrics_inv m" if "m = ContextMetrics_new" for m
    using that by (simp add: metrics_inv_def ContextMetrics_new_def)
  show "metrics_inv (observe x m)" if "metrics_inv m" for x m
    using that by (simp add: observe_def record_tick_inv split: prod.split)
qed

text \<open>
  Whatever is observed, the ring holds at most 64 records, and the demotions counted are the sum
  of the stale, the quota and the budget demotions until the counter of all demotions saturates.
\<close>

theorem metrics_account_for_demotions:
  "metrics_inv (run observe ContextMetrics_new os)"
  by (rule metrics.run_inv) (simp add: metrics_inv_def ContextMetrics_new_def)

text \<open>
  A demotion that comes from the decay of the score alone is counted as a budget demotion: the
  entry falls below the Hot threshold while the budget is far from spent.
\<close>

definition decaying :: WorkingSetState where
  "decaying = projr (working_set_build [plain_entry ''a'' WorkingSetTier_Hot False 65 10])"

definition decay_tick :: TickInput where
  "decay_tick = TickInput_new 30 [] ''r'' [] []"

lemma decay_counted_as_budget_demotion:
  "let (s', r) = process_tick decay_tick SchedulerConfig_default decaying;
       m = record_tick decay_tick decaying s' r None ContextMetrics_new
   in hot_unique_total (ws_entries decaying) = 10 \<and> tr_demoted r = [''a''] \<and> cm_budget_demotions_total m = 1"
proof -
  have b: "decaying = \<lparr> ws_entries = [plain_entry ''a'' WorkingSetTier_Hot False 65 10], ws_tick = 0, ws_tick_view = 0,
      ws_last_graph_revision = None, ws_last_new_nodes = [], ws_pipeline_runs = 0, ws_last_search_scores = None \<rparr>"
    by (simp add: decaying_def working_set_build_def MAX_SCHEDULER_NODES_def plain_entry_def)
  have i: "scheduler_inv decaying"
    by (simp add: b scheduler_inv_def entries_inv_def plain_entry_def MAX_SCHEDULER_NODES_def)
  have c: "\<not> is_coalesced_input decaying decay_tick"
    by (simp add: b is_coalesced_input_def)
  have g: "gated_entries decay_tick (ws_entries decaying) = [plain_entry ''a'' WorkingSetTier_Warm False 65 10]"
    by (simp add: b gated_entries_def decay_tick_def TickInput_new_def canonicalize_events_with_dropped_def stale_step_def
        recompute_step_def promotion_gate_def plain_entry_def tier_for_score_def score_def HOT_SCORE_THRESHOLD_def
        WARM_SCORE_THRESHOLD_def)
  have e: "ws_entries (fst (process_tick decay_tick SchedulerConfig_default decaying))
      = [plain_entry ''a'' WorkingSetTier_Warm False 65 10]"
    using c by (simp add: process_tick_entries pipeline_entries_def quota_entries_def g)
      (simp add: pin_quota_loop.simps budget_loop.simps pinned_hot_unique_total_def hot_unique_total_def plain_entry_def)
  have r: "tr_demoted (snd (process_tick decay_tick SchedulerConfig_default decaying)) = [''a'']"
    using tick_report_exact [OF i, of decay_tick SchedulerConfig_default]
    by (simp add: case_prod_unfold Let_def e) (simp add: b tier_changes_def plain_entry_def)
  have n: "cm_budget_demotions_total (record_tick decay_tick decaying s' r None ContextMetrics_new) = 1"
    if "tr_demoted r = [''a'']" for s' r
    using c that by (simp add: record_tick_def Let_def push_record_def ContextMetrics_new_def saturating_add_def
        assembled_totals_def working_set_entry_def b decay_tick_def TickInput_new_def plain_entry_def
        canonicalize_events_with_dropped_def)
  show ?thesis
    using r n [OF r] by (simp add: case_prod_unfold Let_def)
      (simp add: b hot_unique_total_def plain_entry_def entry_digest_def saturating_add_def)
qed

end
