(* ===== verification/Scheduler_Machine.thy ===== *)
theory Scheduler_Machine
  imports Context_Assembly
begin

text \<open>
  The working set as a machine over every operation that takes it mutably: events, the advancing
  tick, the tick pipeline, budget enforcement, search scores, and the two forms of assembly,
  which demote entries as well.  A refused operation leaves the state as it was.
\<close>

datatype SchedulerOp =
    Op_Event SchedulerEvent
  | Op_Advance
  | Op_Process TickInput SchedulerConfig
  | Op_Budget SchedulerConfig "(string \<times> nat) list"
  | Op_Scores "SearchScore list"
  | Op_Assemble ContextGraph ContextRepresentationStore SchedulerConfig
  | Op_Assemble_Scored ContextGraph ContextRepresentationStore SchedulerConfig "SearchScore list option"

fun scheduler_step :: "SchedulerOp \<Rightarrow> WorkingSetState \<Rightarrow> WorkingSetState" where
  "scheduler_step (Op_Event ev) s = (case apply_event ev s of Inl _ \<Rightarrow> s | Inr (s', _) \<Rightarrow> s')"
| "scheduler_step Op_Advance s = fst (advance_tick s)"
| "scheduler_step (Op_Process i config) s = fst (process_tick i config s)"
| "scheduler_step (Op_Budget config ts) s = (case enforce_budget config ts s of Inl _ \<Rightarrow> s | Inr (s', _) \<Rightarrow> s')"
| "scheduler_step (Op_Scores scores) s = set_search_scores scores s"
| "scheduler_step (Op_Assemble g st config) s = fst (assemble g st config s)"
| "scheduler_step (Op_Assemble_Scored g st config scores) s = fst (assemble_with_search_scores g st config scores s)"

subsection \<open>Assembly keeps the entries\<close>

lemma keeps_warm: "keeps es (map (\<lambda>e. if P e then warmed e else e) es)"
  by (rule keeps_map) (simp_all add: entry_frame_def)

lemma assemble_keeps:
  assumes "entries_inv (ws_entries s)" and "assemble g st config s = (s', ctx)"
  shows "keeps (ws_entries s) (ws_entries s')" and "s' = s\<lparr>ws_entries := ws_entries s'\<rparr>"
proof -
  obtain vs ws es1 where e: "es1 = map (\<lambda>e. if se_node_id e \<in> set vs then warmed e else e) (ws_entries s)"
      "ws_entries s' = map (\<lambda>e. if se_node_id e \<in> set ws then warmed e else e) es1"
      "s' = s\<lparr>ws_entries := ws_entries s'\<rparr>"
    by (rule assemble_runs [OF assms])
  show "keeps (ws_entries s) (ws_entries s')"
    unfolding e(2) unfolding e(1) by (rule keeps_trans [OF keeps_warm keeps_warm])
  show "s' = s\<lparr>ws_entries := ws_entries s'\<rparr>"
    by (rule e(3))
qed

text \<open>Assembling with explicit scores is assembling with them and putting the old ones back.\<close>

lemma scored_assembly:
  "\<exists>x. fst (assemble_with_search_scores g st config scores s)
     = fst (assemble g st config (s\<lparr>ws_last_search_scores := x\<rparr>))\<lparr>ws_last_search_scores := ws_last_search_scores s\<rparr>"
proof (cases scores)
  case None
  then show ?thesis
    by (intro exI [of _ None]) (simp add: assemble_with_search_scores_def Let_def case_prod_beta)
next
  case (Some sc)
  let ?c = "fst (canonicalize_search_scores_with_dropped sc)"
  show ?thesis
    by (intro exI [of _ "if ?c = [] then None else Some ?c"])
      (simp add: assemble_with_search_scores_def Let_def case_prod_beta Some)
qed

lemma scheduler_step_keeps:
  assumes "scheduler_inv s"
  shows "keeps (ws_entries s) (ws_entries (scheduler_step x s))"
proof -
  have inv: "entries_inv (ws_entries s)"
    using assms by (simp add: scheduler_inv_def)
  have asm: "keeps (ws_entries t) (ws_entries (fst (assemble g st config t)))" if "entries_inv (ws_entries t)" for g st config t
    using assemble_keeps(1) [OF that, of g st config] by (metis prod.collapse)
  show ?thesis
  proof (cases x)
    case (Op_Event ev)
    then show ?thesis
      by (auto split: sum.split intro: apply_event_keeps)
  next
    case (Op_Budget config ts)
    then show ?thesis
      by (auto split: sum.split intro: enforce_keeps)
  next
    case (Op_Assemble_Scored g st config scores)
    then show ?thesis
      using scored_assembly [of g st config scores s] asm [of "s\<lparr>ws_last_search_scores := y\<rparr>" g st config for y] inv by force
  qed (simp_all add: advance_keeps process_keeps asm inv)
qed

lemma scheduler_step_view:
  assumes "scheduler_inv s"
  shows "ws_tick_view (scheduler_step x s) = ws_tick (scheduler_step x s)"
proof -
  have inv: "entries_inv (ws_entries s)" "ws_tick_view s = ws_tick s"
    using assms by (simp_all add: scheduler_inv_def)
  have asm: "ws_tick_view (fst (assemble g st config t)) = ws_tick_view t \<and> ws_tick (fst (assemble g st config t)) = ws_tick t"
    if "entries_inv (ws_entries t)" for g st config t
  proof -
    have "fst (assemble g st config t) = t\<lparr>ws_entries := ws_entries (fst (assemble g st config t))\<rparr>"
      using assemble_keeps(2) [OF that, of g st config] by (metis prod.collapse)
    then show ?thesis
      by (metis WorkingSetState.ext_inject WorkingSetState.surjective WorkingSetState.update_convs(1))
  qed
  show ?thesis
  proof (cases x)
    case (Op_Assemble_Scored g st config scores)
    then show ?thesis
      using scored_assembly [of g st config scores s] asm [of "s\<lparr>ws_last_search_scores := y\<rparr>" g st config for y] inv by force
  next
    case (Op_Assemble g st config)
    then show ?thesis
      using asm inv by simp
  qed (use inv in \<open>auto simp: apply_event_def advance_tick_def process_tick_clock enforce_budget_def set_search_scores_def Let_def
      split: option.splits sum.splits prod.splits\<close>)
qed

interpretation scheduler: machine
  "\<lambda>s. \<exists>es. working_set_build es = Inr s" scheduler_step scheduler_inv
proof unfold_locales
  show "scheduler_inv s" if "\<exists>es. working_set_build es = Inr s" for s
    using that build_inv by blast
  show "scheduler_inv (scheduler_step x s)" if "scheduler_inv s" for x s
    using that keeps_inv [OF scheduler_step_keeps [OF that]] scheduler_step_view [OF that] by (auto simp: scheduler_inv_def)
qed

lemma run_keeps: "scheduler_inv s \<Longrightarrow> keeps (ws_entries s) (ws_entries (run scheduler_step s ops))"
proof (induction ops arbitrary: s)
  case (Cons x ops)
  then show ?case
    using keeps_trans [OF scheduler_step_keeps Cons.IH] scheduler.run_inv [OF Cons.prems, of "[x]"] by simp
qed simp

text \<open>
  C27.  Nothing the scheduler does deletes, adds, reorders or rewrites an entry: after any sequence
  of its operations (events, advancing and processing ticks, budget enforcement, score updates,
  assemblies with and without scores) the working set holds exactly the entries
  it was built with, under the same ids, digests and token counts, in strictly ascending id
  order, every relevance at most 100, and the clock view shows the clock.
\<close>

theorem working_set_never_loses_an_entry:
  assumes "working_set_build es = Inr s"
  shows "let s' = run scheduler_step s ops
    in map entry_frame (ws_entries s') = map entry_frame (sort_key se_node_id es)
       \<and> sorted_wrt (<) (map se_node_id (ws_entries s'))
       \<and> list_all (\<lambda>e. se_relevance e \<le> 100) (ws_entries s')
       \<and> ws_tick_view s' = ws_tick s'"
proof -
  have "scheduler_inv (run scheduler_step s ops)"
    using scheduler.run_inv [OF build_inv [OF assms]] .
  moreover have "ws_entries s = sort_key se_node_id es"
    using assms by (simp add: build_Ok)
  ultimately show ?thesis
    using run_keeps [OF build_inv [OF assms], of ops] by (simp add: Let_def scheduler_inv_def entries_inv_def keeps_def list_all_iff)
qed

text \<open>A run that assembles a graph with an edge, after an archived entry and a tick.\<close>

definition sample_ops :: "SchedulerOp list" where
  "sample_ops =
     [Op_Event (SchedulerEvent_Archive ''b''), Op_Process (TickInput_new 7 [] ''r'' [] [''a'']) SchedulerConfig_default,
      Op_Assemble_Scored sample_graph \<lparr>crs_sets = []\<rparr> SchedulerConfig_default None]"

theorem working_set_never_loses_an_entry_witness:
  "map se_node_id (ws_entries (run scheduler_step sample_set sample_ops)) = [''a'', ''b'']"
proof -
  have "map fst (map entry_frame (ws_entries (run scheduler_step sample_set sample_ops))) = [''a'', ''b'']"
    using working_set_never_loses_an_entry [OF sample_set_build, of sample_ops]
    by (simp add: Let_def entry_frame_def sample_entries_def plain_entry_def del: run_simps)
  then show ?thesis
    by (simp add: entry_frame_def comp_def del: run_simps)
qed

end
