(* ===== verification/Determinism_Decisions.thy ===== *)
theory Determinism_Decisions
  imports Artifact Tool_Round Scalars
begin

text \<open>
  Deterministic host decisions (\<open>determinism/ports.rs\<close>, \<open>decisions.rs\<close>, \<open>discovery.rs\<close>,
  \<open>ownership.rs\<close>): the comparison and the stable sort every decision is normalised with, the
  seeded generator up to its raw draws, validation plans, acceptance by evidence class, retry
  classification, leases, discovery and ownership.  The floating point outputs of the
  generator are not modelled; \<open>to_lowercase\<close> is an argument.
\<close>

subsection \<open>Ports\<close>

text \<open>The clock of the tests; the system clock is read outside the core.\<close>

record FixedClock =
  current_ms :: "64 word"

definition FixedClock_new :: "64 word \<Rightarrow> FixedClock" where
  "FixedClock_new initial_ms = \<lparr>current_ms = initial_ms\<rparr>"

definition clock_advance :: "64 word \<Rightarrow> FixedClock \<Rightarrow> FixedClock" where
  "clock_advance delta_ms c = c\<lparr>current_ms := of_nat (saturating_add (unat (current_ms c)) (unat delta_ms))\<rparr>"

definition clock_set :: "64 word \<Rightarrow> FixedClock \<Rightarrow> FixedClock" where
  "clock_set ms c = c\<lparr>current_ms := ms\<rparr>"

record SeededRandomSource =
  rng_state :: "32 word"

definition SeededRandomSource_new :: "32 word \<Rightarrow> SeededRandomSource" where
  "SeededRandomSource_new seed = \<lparr>rng_state = (if seed = 0 then 0x9e3779b9 else seed)\<rparr>"

definition draw_u32 :: "SeededRandomSource \<Rightarrow> 32 word \<times> SeededRandomSource" where
  "draw_u32 r =
     (let s = rng_state r + 0x6d2b79f5;
          t1 = (s XOR drop_bit 15 s) * (s OR 1);
          t2 = t1 XOR (t1 + (t1 XOR drop_bit 7 t1) * (t1 OR 61))
      in (t2 XOR drop_bit 14 t2, r\<lparr>rng_state := s\<rparr>))"

datatype Ordering = Less | Equal | Greater

definition compare_code_units :: "string \<Rightarrow> string \<Rightarrow> Ordering" where
  "compare_code_units l r = (if l < r then Less else if l = r then Equal else Greater)"

definition stable_sort_by_key :: "'a list \<Rightarrow> ('a \<Rightarrow> string) \<Rightarrow> 'a list" where
  "stable_sort_by_key items key = map snd (sort_key fst (map (\<lambda>x. (key x, x)) items))"

definition normalize_keyed_results :: "('a \<Rightarrow> string) \<Rightarrow> 'a list \<Rightarrow> 'a list" where
  "normalize_keyed_results id_key results = stable_sort_by_key results id_key"

definition normalize_concurrent_results :: "('a \<Rightarrow> string) \<Rightarrow> 'a list \<Rightarrow> 'a list" where
  "normalize_concurrent_results id_key results = stable_sort_by_key results id_key"

subsection \<open>Validation plans\<close>

datatype ValidationRequirementClass =
  ValidationRequirementClass_Required | ValidationRequirementClass_Recommended | ValidationRequirementClass_Unavailable

fun ValidationRequirementClass_as_str :: "ValidationRequirementClass \<Rightarrow> string" where
  "ValidationRequirementClass_as_str ValidationRequirementClass_Required = ''required''"
| "ValidationRequirementClass_as_str ValidationRequirementClass_Recommended = ''recommended''"
| "ValidationRequirementClass_as_str ValidationRequirementClass_Unavailable = ''unavailable''"

definition ValidationRequirementClass_parse :: "string \<Rightarrow> ValidationRequirementClass option" where
  "ValidationRequirementClass_parse v =
     (if v = ''required'' then Some ValidationRequirementClass_Required
      else if v = ''recommended'' then Some ValidationRequirementClass_Recommended
      else if v = ''unavailable'' then Some ValidationRequirementClass_Unavailable
      else None)"

record ValidationItem =
  vi_id :: string
  vi_class :: ValidationRequirementClass
  vi_rationale :: string

record ValidationPlan =
  vp_items :: "ValidationItem list"
  vp_digest :: string

record ValidationRegistryEntry =
  vre_id :: string
  vre_applies_to :: "string list"
  vre_base_class :: ValidationRequirementClass

record ImpactRelationship =
  imp_source :: string
  imp_target :: string

record ValidationPlanInput =
  vpi_changed_surfaces :: "string list"
  vpi_impact_relationships :: "ImpactRelationship list"
  vpi_acceptance_criteria :: "(string \<times> string) list"
  vpi_validation_registry :: "ValidationRegistryEntry list"

fun impacted_loop :: "string list \<Rightarrow> ImpactRelationship list \<Rightarrow> string list" where
  "impacted_loop impacted [] = impacted"
| "impacted_loop impacted (r # rs) =
     (let i1 = (if imp_source r \<in> set impacted then impacted else impacted @ [imp_source r]);
          i2 = (if imp_target r \<in> set i1 then i1 else i1 @ [imp_target r])
      in impacted_loop i2 rs)"

definition text_ends_with :: "string \<Rightarrow> string \<Rightarrow> bool" where
  "text_ends_with s suf \<longleftrightarrow> length suf \<le> length s \<and> drop (length s - length suf) s = suf"

definition check_applies :: "string list \<Rightarrow> string list \<Rightarrow> ValidationRegistryEntry \<Rightarrow> bool" where
  "check_applies changed_surfaces impacted check \<longleftrightarrow>
     list_ex (\<lambda>surface. surface \<in> set changed_surfaces
       \<or> list_ex (\<lambda>path. text_ends_with path surface \<or> text_ends_with surface path) impacted) (vre_applies_to check)"

fun plan_loop ::
    "string list \<Rightarrow> string list \<Rightarrow> string list \<Rightarrow> ValidationRegistryEntry list \<Rightarrow> ValidationItem list" where
  "plan_loop changed impacted seen [] = []"
| "plan_loop changed impacted seen (check # checks) =
     (if vre_id check \<in> set seen then plan_loop changed impacted seen checks
      else if \<not> check_applies changed impacted check then plan_loop changed impacted seen checks
      else \<lparr> vi_id = vre_id check, vi_class = vre_base_class check,
             vi_rationale = ''applies to changed surface(s): '' @ join '', '' (vre_applies_to check) \<rparr>
           # plan_loop changed impacted (vre_id check # seen) checks)"

definition validation_item_value :: "ValidationItem \<Rightarrow> CanonicalValue" where
  "validation_item_value i = object
     [(''id'', CanonicalValue_Str (vi_id i)), (''class'', CanonicalValue_Str (ValidationRequirementClass_as_str (vi_class i))),
      (''rationale'', CanonicalValue_Str (vi_rationale i))]"

definition derive_validation_plan :: "ValidationPlanInput \<Rightarrow> ArtifactIdentityError + ValidationPlan" where
  "derive_validation_plan i =
     (let impacted = impacted_loop (vpi_changed_surfaces i) (vpi_impact_relationships i);
          registry = sort_key vre_id (vpi_validation_registry i);
          items = plan_loop (vpi_changed_surfaces i) impacted [] registry;
          ordered = stable_sort_by_key items vi_id
      in result_bind (compute_artifact_digest ''ValidationPlan'' 1
             (object [(''items'', CanonicalValue_Array (map validation_item_value ordered))]))
           (\<lambda>d. Ok \<lparr> vp_items = ordered, vp_digest = digest_value d \<rparr>))"

subsection \<open>Acceptance by evidence class\<close>

datatype AcceptanceOutcome =
  AcceptanceOutcome_Satisfied | AcceptanceOutcome_NotSatisfied | AcceptanceOutcome_Unverifiable

fun AcceptanceOutcome_as_str :: "AcceptanceOutcome \<Rightarrow> string" where
  "AcceptanceOutcome_as_str AcceptanceOutcome_Satisfied = ''satisfied''"
| "AcceptanceOutcome_as_str AcceptanceOutcome_NotSatisfied = ''not_satisfied''"
| "AcceptanceOutcome_as_str AcceptanceOutcome_Unverifiable = ''unverifiable''"

definition AcceptanceOutcome_parse :: "string \<Rightarrow> AcceptanceOutcome option" where
  "AcceptanceOutcome_parse v =
     (if v = ''satisfied'' then Some AcceptanceOutcome_Satisfied
      else if v = ''not_satisfied'' then Some AcceptanceOutcome_NotSatisfied
      else if v = ''unverifiable'' then Some AcceptanceOutcome_Unverifiable
      else None)"

record AvailableEvidence =
  ave_id :: string
  ave_class :: string
  ave_digest :: string

record AcceptanceResult =
  ares_criterion_id :: string
  ares_outcome :: AcceptanceOutcome
  ares_evidence_identities :: "string list"
  ares_digest :: string

record AcceptanceInput =
  ain_criterion_id :: string
  ain_required_evidence_classes :: "string list"
  ain_available_evidence :: "AvailableEvidence list"

definition evaluate_acceptance :: "AcceptanceInput \<Rightarrow> ArtifactIdentityError + AcceptanceResult" where
  "evaluate_acceptance i =
     (let normal = stable_sort_by_key (ain_available_evidence i) ave_id;
          outcome = (if ain_required_evidence_classes i = [] then AcceptanceOutcome_Unverifiable
                     else if list_all (\<lambda>required. list_ex (\<lambda>e. ave_class e = required) normal)
                               (ain_required_evidence_classes i) then AcceptanceOutcome_Satisfied
                     else AcceptanceOutcome_NotSatisfied);
          identities = map ave_digest normal;
          required_sorted = sort (ain_required_evidence_classes i)
      in result_bind (compute_artifact_digest ''AcceptanceResult'' 1 (object
             [(''criterionId'', CanonicalValue_Str (ain_criterion_id i)),
              (''outcome'', CanonicalValue_Str (AcceptanceOutcome_as_str outcome)),
              (''evidenceIdentities'', CanonicalValue_Array (map CanonicalValue_Str identities)),
              (''requiredEvidenceClasses'', CanonicalValue_Array (map CanonicalValue_Str required_sorted))]))
           (\<lambda>d. Ok \<lparr> ares_criterion_id = ain_criterion_id i, ares_outcome = outcome,
                ares_evidence_identities = identities, ares_digest = digest_value d \<rparr>))"

subsection \<open>Retries\<close>

datatype RetryDecision = RetryDecision_Retry | RetryDecision_Repair | RetryDecision_NoRetry

fun RetryDecision_as_str :: "RetryDecision \<Rightarrow> string" where
  "RetryDecision_as_str RetryDecision_Retry = ''retry''"
| "RetryDecision_as_str RetryDecision_Repair = ''repair''"
| "RetryDecision_as_str RetryDecision_NoRetry = ''no_retry''"

definition RetryDecision_parse :: "string \<Rightarrow> RetryDecision option" where
  "RetryDecision_parse v =
     (if v = ''retry'' then Some RetryDecision_Retry
      else if v = ''repair'' then Some RetryDecision_Repair
      else if v = ''no_retry'' then Some RetryDecision_NoRetry
      else None)"

datatype RetryCategory =
    RetryCategory_TransientProviderTransport | RetryCategory_StaleSourceRevision
  | RetryCategory_BlockingReviewFinding | RetryCategory_MalformedToolRepresentation
  | RetryCategory_ApprovalDenied | RetryCategory_InfrastructureUnavailable
  | RetryCategory_ValidationFailed | RetryCategory_Unknown

fun RetryCategory_as_str :: "RetryCategory \<Rightarrow> string" where
  "RetryCategory_as_str RetryCategory_TransientProviderTransport = ''transient_provider_transport''"
| "RetryCategory_as_str RetryCategory_StaleSourceRevision = ''stale_source_revision''"
| "RetryCategory_as_str RetryCategory_BlockingReviewFinding = ''blocking_review_finding''"
| "RetryCategory_as_str RetryCategory_MalformedToolRepresentation = ''malformed_tool_representation''"
| "RetryCategory_as_str RetryCategory_ApprovalDenied = ''approval_denied''"
| "RetryCategory_as_str RetryCategory_InfrastructureUnavailable = ''infrastructure_unavailable''"
| "RetryCategory_as_str RetryCategory_ValidationFailed = ''validation_failed''"
| "RetryCategory_as_str RetryCategory_Unknown = ''unknown''"

definition RetryCategory_parse :: "string \<Rightarrow> RetryCategory option" where
  "RetryCategory_parse v =
     (if v = ''transient_provider_transport'' then Some RetryCategory_TransientProviderTransport
      else if v = ''stale_source_revision'' then Some RetryCategory_StaleSourceRevision
      else if v = ''blocking_review_finding'' then Some RetryCategory_BlockingReviewFinding
      else if v = ''malformed_tool_representation'' then Some RetryCategory_MalformedToolRepresentation
      else if v = ''approval_denied'' then Some RetryCategory_ApprovalDenied
      else if v = ''infrastructure_unavailable'' then Some RetryCategory_InfrastructureUnavailable
      else if v = ''validation_failed'' then Some RetryCategory_ValidationFailed
      else if v = ''unknown'' then Some RetryCategory_Unknown
      else None)"

record RetryPolicy =
  attempt_limit :: "32 word"

definition DEFAULT_RETRY_POLICY :: RetryPolicy where
  "DEFAULT_RETRY_POLICY = \<lparr>attempt_limit = 3\<rparr>"

text \<open>\<open>saturating_pow\<close> and \<open>saturating_mul\<close> on \<open>u64\<close>.\<close>

definition default_backoff_ms :: "32 word \<Rightarrow> nat" where
  "default_backoff_ms attempt_index =
     min (min (100 * min (2 ^ unat attempt_index) (2 ^ 64 - 1)) (2 ^ 64 - 1)) 2000"

record RetryClassification =
  rc_decision :: RetryDecision
  rc_reason :: string
  rc_next_backoff_ms :: "nat option"

fun classify_retry :: "RetryCategory \<Rightarrow> 32 word \<Rightarrow> RetryPolicy \<Rightarrow> RetryClassification" where
  "classify_retry RetryCategory_TransientProviderTransport attempts_used policy =
     (if attempts_used < attempt_limit policy then
        \<lparr> rc_decision = RetryDecision_Retry,
          rc_reason = ''Transient provider transport failure; bounded retry ''
            @ show_nat (unat attempts_used + 1) @ ''/'' @ show_nat (unat (attempt_limit policy)) @ ''.'',
          rc_next_backoff_ms = Some (default_backoff_ms attempts_used) \<rparr>
      else
        \<lparr> rc_decision = RetryDecision_NoRetry,
          rc_reason = ''Retry budget exhausted ('' @ show_nat (unat (attempt_limit policy)) @ ''); the operation ends failed.'',
          rc_next_backoff_ms = None \<rparr>)"
| "classify_retry RetryCategory_MalformedToolRepresentation attempts_used policy =
     \<lparr> rc_decision = RetryDecision_Repair,
       rc_reason = ''Malformed tool representation; a bounded repair attempt is the host response.'',
       rc_next_backoff_ms = None \<rparr>"
| "classify_retry RetryCategory_BlockingReviewFinding attempts_used policy =
     \<lparr> rc_decision = RetryDecision_Repair,
       rc_reason = ''Blocking review finding; the existing bounded repair loop applies.'', rc_next_backoff_ms = None \<rparr>"
| "classify_retry RetryCategory_StaleSourceRevision attempts_used policy =
     \<lparr> rc_decision = RetryDecision_NoRetry,
       rc_reason = ''Stale source revision: no automatic mutation retry under the old approval; re-prepare from the current revision.'',
       rc_next_backoff_ms = None \<rparr>"
| "classify_retry RetryCategory_ApprovalDenied attempts_used policy =
     \<lparr> rc_decision = RetryDecision_NoRetry,
       rc_reason = ''Approval denied: the operation ends without retry.'', rc_next_backoff_ms = None \<rparr>"
| "classify_retry RetryCategory_InfrastructureUnavailable attempts_used policy =
     \<lparr> rc_decision = RetryDecision_NoRetry,
       rc_reason = ''Infrastructure unavailable: fail closed, never retry into an unsafe state.'',
       rc_next_backoff_ms = None \<rparr>"
| "classify_retry RetryCategory_ValidationFailed attempts_used policy =
     \<lparr> rc_decision = RetryDecision_NoRetry,
       rc_reason = ''Validation failed: the result is reported failed; repairs require fresh preparation.'',
       rc_next_backoff_ms = None \<rparr>"
| "classify_retry RetryCategory_Unknown attempts_used policy =
     \<lparr> rc_decision = RetryDecision_NoRetry,
       rc_reason = ''Unclassified failure: no automatic retry.'', rc_next_backoff_ms = None \<rparr>"

subsection \<open>Working set and leases\<close>

record ActiveWorkingSetEntry =
  awe_path :: string
  awe_reason :: string

record WorkingSetCandidate =
  wsc_path :: string
  wsc_relevance :: string

definition derive_active_working_set :: "WorkingSetCandidate list \<Rightarrow> nat \<Rightarrow> ActiveWorkingSetEntry list" where
  "derive_active_working_set ordered_candidates max_entries =
     map (\<lambda>c. \<lparr> awe_path = wsc_path c,
                awe_reason = (if wsc_relevance c = ''verified'' then ''verified discovery candidate''
                              else ''candidate discovery candidate'') \<rparr>) (take max_entries ordered_candidates)"

record LeaseEvaluation =
  lease_valid :: bool
  lease_remaining_ms :: nat

definition evaluate_lease :: "64 word \<Rightarrow> 64 word \<Rightarrow> 64 word \<Rightarrow> LeaseEvaluation" where
  "evaluate_lease issued_at_ms ttl_ms now_ms =
     (let expiry = saturating_add (unat issued_at_ms) (unat ttl_ms)
      in if unat now_ms < expiry then \<lparr> lease_valid = True, lease_remaining_ms = expiry - unat now_ms \<rparr>
         else \<lparr> lease_valid = False, lease_remaining_ms = 0 \<rparr>)"

subsection \<open>Discovery\<close>

datatype DiscoveryRelevance = DiscoveryRelevance_Verified | DiscoveryRelevance_Candidate

fun DiscoveryRelevance_as_str :: "DiscoveryRelevance \<Rightarrow> string" where
  "DiscoveryRelevance_as_str DiscoveryRelevance_Verified = ''verified''"
| "DiscoveryRelevance_as_str DiscoveryRelevance_Candidate = ''candidate''"

definition DiscoveryRelevance_parse :: "string \<Rightarrow> DiscoveryRelevance option" where
  "DiscoveryRelevance_parse v =
     (if v = ''verified'' then Some DiscoveryRelevance_Verified
      else if v = ''candidate'' then Some DiscoveryRelevance_Candidate else None)"

record DiscoveryCandidateInput =
  dci_path :: string
  dci_relevance :: DiscoveryRelevance
  dci_evidence :: "string list"

record DiscoveryCandidate =
  dcd_path :: string
  dcd_relevance :: DiscoveryRelevance
  dcd_evidence :: "string list"
  dcd_rank :: nat

record DiscoveryResult =
  dres_candidates :: "DiscoveryCandidate list"
  dres_digest :: string

record DiscoveryInput =
  din_unordered_candidates :: "DiscoveryCandidateInput list"
  din_max_candidates :: nat
  din_task_targets :: "string list"

definition STRONG_EVIDENCE :: "string list" where
  "STRONG_EVIDENCE =
     [''exact task target'', ''direct import'', ''structural relationship'', ''explicit architecture ownership'',
      ''test mapping'']"

definition rank_candidate :: "string list \<Rightarrow> DiscoveryCandidateInput \<Rightarrow> DiscoveryCandidate" where
  "rank_candidate task_targets c =
     (let exact_target = (dci_path c \<in> set task_targets);
          strong_evidence = (dci_relevance c = DiscoveryRelevance_Verified
            \<or> list_ex (\<lambda>item. item \<in> set STRONG_EVIDENCE) (dci_evidence c));
          rank = (if exact_target then 0 else if strong_evidence then 1 else 2)
      in \<lparr> dcd_path = dci_path c, dcd_relevance = dci_relevance c, dcd_evidence = dci_evidence c, dcd_rank = rank \<rparr>)"

text \<open>The key of the sort, \<open>format!("{:04}:{}", rank, path)\<close>.\<close>

definition four_digits :: "nat \<Rightarrow> string" where
  "four_digits n = (let s = show_nat n in replicate (4 - length s) (CHR ''0'') @ s)"

definition discovery_key :: "DiscoveryCandidate \<Rightarrow> string" where
  "discovery_key c = four_digits (dcd_rank c) @ '':'' @ dcd_path c"

definition discovery_value :: "DiscoveryCandidate \<Rightarrow> CanonicalValue" where
  "discovery_value c = object
     [(''path'', CanonicalValue_Str (dcd_path c)),
      (''relevance'', CanonicalValue_Str (DiscoveryRelevance_as_str (dcd_relevance c))),
      (''rank'', CanonicalValue_U64 (of_nat (dcd_rank c))),
      (''evidence'', CanonicalValue_Array (map CanonicalValue_Str (dcd_evidence c)))]"

definition discover_repository :: "DiscoveryInput \<Rightarrow> ArtifactIdentityError + DiscoveryResult" where
  "discover_repository i =
     (let ranked = map (rank_candidate (din_task_targets i)) (din_unordered_candidates i);
          ordered = stable_sort_by_key ranked discovery_key;
          bounded = take (din_max_candidates i) ordered
      in result_bind (compute_artifact_digest ''DiscoveryResult'' 1
             (object [(''candidates'', CanonicalValue_Array (map discovery_value bounded))]))
           (\<lambda>d. Ok \<lparr> dres_candidates = bounded, dres_digest = digest_value d \<rparr>))"

subsection \<open>Properties\<close>

lemma stable_sort_is_sort_key: "stable_sort_by_key items key = sort_key key items"
proof -
  have ins: "insort_key fst (key x, x) (map (\<lambda>x. (key x, x)) ys) = map (\<lambda>x. (key x, x)) (insort_key key x ys)" for x ys
    by (induction ys) auto
  have "sort_key fst (map (\<lambda>x. (key x, x)) items) = map (\<lambda>x. (key x, x)) (sort_key key items)"
    by (induction items) (simp_all add: ins)
  then show ?thesis
    by (simp add: stable_sort_by_key_def comp_def)
qed

text \<open>
  Byte order is not code-unit order: U+FF5E sorts below U+1F600 by bytes and above it by UTF-16
  code units.
\<close>

definition fullwidth_tilde :: string where
  "fullwidth_tilde = [CHR 0xEF, CHR 0xBD, CHR 0x9E]"

definition grinning_face :: string where
  "grinning_face = [CHR 0xF0, CHR 0x9F, CHR 0x98, CHR 0x80]"

lemma byte_order_differs_from_code_units:
  "compare_code_units fullwidth_tilde grinning_face = Less
   \<and> encode_utf16 (map byte grinning_face) < encode_utf16 (map byte fullwidth_tilde)"
  by (simp add: compare_code_units_def fullwidth_tilde_def grinning_face_def byte_def less_char_def)

text \<open>Payloads of the fixed artefact types of this theory are always digested.\<close>

lemma digest_types [simp]:
  "is_valid_artifact_type ''ValidationPlan''" "is_valid_artifact_type ''AcceptanceResult''"
  "is_valid_artifact_type ''DiscoveryResult''"
  by (simp_all add: is_valid_artifact_type_def is_ascii_alphanumeric_def is_ascii_alphabetic_def ascii_defs)

lemma compute_digest_ok:
  "is_valid_artifact_type t \<Longrightarrow> compute_artifact_digest t 1 v =
     Inr \<lparr> algorithm = ARTIFACT_DIGEST_ALGORITHM, artifact_type = t, schema_version = 1,
           digest_value = sha256_hex (as_bytes (''siralos:'' @ t @ '':v'' @ show_nat (unat (1::64 word)) @ [CHR 0x00] @ canonicalize v)) \<rparr>"
  by (simp add: compute_artifact_digest_def compute_artifact_digest_hex_def canonical_artifact_payload_def)

text \<open>The surfaces a plan is derived from: the changed ones and both ends of every relationship.\<close>

lemma impacted_loop_set: "set (impacted_loop surfaces rs) = set surfaces \<union> imp_source ` set rs \<union> imp_target ` set rs"
  by (induction surfaces rs rule: impacted_loop.induct) (auto simp: Let_def)

lemma text_ends_with_iff: "text_ends_with s suf \<longleftrightarrow> (\<exists>u. s = u @ suf)"
proof
  assume "text_ends_with s suf"
  then show "\<exists>u. s = u @ suf"
    unfolding text_ends_with_def by (metis append_take_drop_id)
qed (auto simp: text_ends_with_def)

definition check_relevant :: "ValidationPlanInput \<Rightarrow> ValidationRegistryEntry \<Rightarrow> bool" where
  "check_relevant i check \<longleftrightarrow>
     (\<exists>surface \<in> set (vre_applies_to check).
        \<exists>path \<in> set (vpi_changed_surfaces i) \<union> imp_source ` set (vpi_impact_relationships i)
            \<union> imp_target ` set (vpi_impact_relationships i).
          \<exists>u. path = u @ surface \<or> surface = u @ path)"

lemma check_applies_iff:
  "check_applies (vpi_changed_surfaces i) (impacted_loop (vpi_changed_surfaces i) (vpi_impact_relationships i)) check
     \<longleftrightarrow> check_relevant i check"
  unfolding check_applies_def check_relevant_def list_ex_iff impacted_loop_set text_ends_with_iff
  by (metis (no_types, lifting) UnCI append_Nil)

lemma plan_loop_ids:
  "set (map vi_id (plan_loop changed impacted seen cs)) = vre_id ` {c \<in> set cs. check_applies changed impacted c} - set seen
   \<and> distinct (map vi_id (plan_loop changed impacted seen cs))"
  by (induction changed impacted seen cs rule: plan_loop.induct) auto

text \<open>
  The minimum validation is exact: a check is in the derived plan, once and in ascending id
  order, exactly when a registry entry of that id has a surface that equals a changed or
  impacted path, is a suffix of one or has one as a suffix.  Deriving a plan never fails.
\<close>

theorem validation_plan_exact:
  "\<exists>plan. derive_validation_plan i = Inr plan
     \<and> set (map vi_id (vp_items plan)) = vre_id ` {c \<in> set (vpi_validation_registry i). check_relevant i c}
     \<and> sorted_wrt (<) (map vi_id (vp_items plan))"
proof -
  let ?items = "plan_loop (vpi_changed_surfaces i)
    (impacted_loop (vpi_changed_surfaces i) (vpi_impact_relationships i)) [] (sort_key vre_id (vpi_validation_registry i))"
  note ids = plan_loop_ids [of "vpi_changed_surfaces i" "impacted_loop (vpi_changed_surfaces i) (vpi_impact_relationships i)"
      "[]" "sort_key vre_id (vpi_validation_registry i)"]
  have "distinct (map vi_id (sort_key vi_id ?items))"
    using ids by (simp add: distinct_map)
  then have "sorted_wrt (<) (map vi_id (sort_key vi_id ?items))"
    by (simp add: strict_sorted_iff)
  moreover have "set (map vi_id (sort_key vi_id ?items)) = vre_id ` {c \<in> set (vpi_validation_registry i). check_relevant i c}"
    using ids by (simp add: check_applies_iff)
  ultimately show ?thesis
    by (simp add: derive_validation_plan_def Let_def compute_digest_ok stable_sort_is_sort_key)
qed

text \<open>A directory surface does not select a check for a file below it: only suffixes count.\<close>

lemma directory_surface_not_matched:
  "\<not> check_relevant \<lparr> vpi_changed_surfaces = [''src/a.rs''], vpi_impact_relationships = [], vpi_acceptance_criteria = [],
       vpi_validation_registry = [] \<rparr>
     \<lparr> vre_id = ''rust'', vre_applies_to = [''src/''], vre_base_class = ValidationRequirementClass_Required \<rparr>"
  unfolding check_relevant_def by (auto simp: append_eq_Cons_conv Cons_eq_append_conv)

text \<open>
  Acceptance by class is exact: with no required class the result is unverifiable, otherwise it
  is satisfied exactly when every required class occurs among the available evidence; evidence
  of distinct ids in any order gives the same result.
\<close>

theorem class_acceptance_exact:
  "\<exists>r. evaluate_acceptance i = Inr r
     \<and> (ares_outcome r = AcceptanceOutcome_Unverifiable \<longleftrightarrow> ain_required_evidence_classes i = [])
     \<and> (ares_outcome r = AcceptanceOutcome_Satisfied \<longleftrightarrow>
          ain_required_evidence_classes i \<noteq> []
          \<and> set (ain_required_evidence_classes i) \<subseteq> ave_class ` set (ain_available_evidence i))
     \<and> (\<forall>es. mset es = mset (ain_available_evidence i) \<and> distinct (map ave_id es) \<longrightarrow>
          evaluate_acceptance (i\<lparr>ain_available_evidence := es\<rparr>) = Inr r)"
proof -
  have same: "sort_key ave_id es = sort_key ave_id (ain_available_evidence i)"
    if "mset es = mset (ain_available_evidence i)" "distinct (map ave_id es)" for es
    using that by (intro sort_key_eq_sort_key) (simp_all add: distinct_map)
  show ?thesis
    using same by (auto simp: evaluate_acceptance_def Let_def compute_digest_ok stable_sort_is_sort_key list_all_iff
        list_ex_iff image_iff)
qed

text \<open>
  Only a transient transport failure is retried, only below the limit of attempts, and after at
  most two seconds: the backoff doubles from 100 ms and saturates, for every attempt index.
\<close>

theorem retry_only_transient:
  "(rc_decision (classify_retry category used policy) = RetryDecision_Retry \<longleftrightarrow>
      category = RetryCategory_TransientProviderTransport \<and> used < attempt_limit policy)
   \<and> rc_next_backoff_ms (classify_retry category used policy) =
      (if category = RetryCategory_TransientProviderTransport \<and> used < attempt_limit policy
       then Some (min (100 * 2 ^ unat used) 2000) else None)"
proof -
  have b: "default_backoff_ms used = min (100 * 2 ^ unat used) 2000"
    unfolding default_backoff_ms_def by (auto simp: min_def)
  show ?thesis
    by (cases category) (simp_all add: b)
qed

text \<open>A lease is valid exactly before its expiry, which saturates, and never has more left than its time to live.\<close>

theorem lease_exact:
  "lease_valid (evaluate_lease issued ttl now) \<longleftrightarrow> unat now < min (unat issued + unat ttl) (2 ^ 64 - 1)"
  "unat issued \<le> unat now \<Longrightarrow> lease_remaining_ms (evaluate_lease issued ttl now) \<le> unat ttl"
  by (auto simp: evaluate_lease_def saturating_add_def Let_def)

lemma discovery_key_le:
  assumes "dcd_rank a \<le> 2" "dcd_rank b \<le> 2"
  shows "discovery_key a \<le> discovery_key b \<longleftrightarrow>
    dcd_rank a < dcd_rank b \<or> dcd_rank a = dcd_rank b \<and> dcd_path a \<le> dcd_path b"
proof -
  have ranks: "dcd_rank a = 0 \<or> dcd_rank a = 1 \<or> dcd_rank a = 2" "dcd_rank b = 0 \<or> dcd_rank b = 1 \<or> dcd_rank b = 2"
    using assms by auto
  have keys: "four_digits 0 = ''0000''" "four_digits (Suc 0) = ''0001''" "four_digits 2 = ''0002''"
    by code_simp+
  have chars: "CHR ''0'' < CHR ''1''" "CHR ''0'' < CHR ''2''" "CHR ''1'' < CHR ''2''"
    by (simp_all add: less_char_def)
  show ?thesis
    using ranks chars by (elim disjE) (simp_all add: discovery_key_def keys not_le [symmetric] less_le_not_le)
qed

lemma rank_at_most_2 [simp]: "dcd_rank (rank_candidate targets c) \<le> 2"
  by (simp add: rank_candidate_def Let_def)

definition ranked_before :: "DiscoveryCandidate \<Rightarrow> DiscoveryCandidate \<Rightarrow> bool" where
  "ranked_before a b \<longleftrightarrow> dcd_rank a < dcd_rank b \<or> dcd_rank a = dcd_rank b \<and> dcd_path a \<le> dcd_path b"

text \<open>
  Discovery ranks as documented: exact task targets first, then verified candidates and those
  with strong evidence, then the rest, each rank in path order, cut at the bound; candidates
  with distinct paths may be given in any order.
\<close>

theorem discovery_exact:
  "\<exists>r rest. discover_repository i = Inr r
     \<and> mset (dres_candidates r @ rest) = mset (map (rank_candidate (din_task_targets i)) (din_unordered_candidates i))
     \<and> sorted_wrt ranked_before (dres_candidates r @ rest)
     \<and> length (dres_candidates r) = min (din_max_candidates i) (length (din_unordered_candidates i))
     \<and> (\<forall>cs. mset cs = mset (din_unordered_candidates i) \<and> distinct (map dci_path cs) \<longrightarrow>
          discover_repository (i\<lparr>din_unordered_candidates := cs\<rparr>) = Inr r)"
proof -
  let ?rank = "rank_candidate (din_task_targets i)"
  let ?all = "sort_key discovery_key (map ?rank (din_unordered_candidates i))"
  have "sorted_wrt (\<lambda>a b. discovery_key a \<le> discovery_key b) ?all"
    using sorted_sort_key [of discovery_key] by (simp only: sorted_map)
  then have sorted: "sorted_wrt ranked_before ?all"
    by (rule sorted_wrt_mono_rel [rotated]) (auto simp: ranked_before_def discovery_key_le)
  have any: "sort_key discovery_key (map ?rank cs) = ?all"
    if "mset cs = mset (din_unordered_candidates i)" "distinct (map dci_path cs)" for cs
  proof (rule sort_key_eq_sort_key)
    show "mset (map ?rank cs) = mset (map ?rank (din_unordered_candidates i))"
      using that(1) by simp
    have "inj_on dci_path (set cs)"
      using that(2) by (simp add: distinct_map)
    then have inj: "c = d" if "c \<in> set cs" "d \<in> set cs" "dci_path c = dci_path d" for c d
      using that by (simp add: inj_on_def)
    have path: "dcd_path (?rank c) = dci_path c" for c
      by (simp add: rank_candidate_def Let_def)
    show "inj_on discovery_key (set (map ?rank cs))"
    proof (rule inj_onI)
      fix x y
      assume "x \<in> set (map ?rank cs)" "y \<in> set (map ?rank cs)" and eq: "discovery_key x = discovery_key y"
      then obtain c d where cd: "c \<in> set cs" "d \<in> set cs" "x = ?rank c" "y = ?rank d"
        by auto
      have "dcd_path x = dcd_path y"
        using discovery_key_le [of x y] discovery_key_le [of y x] eq cd(3,4) by auto
      then show "x = y"
        using inj [OF cd(1,2)] cd(3,4) path by simp
    qed
  qed
  have run: "discover_repository (i\<lparr>din_unordered_candidates := cs\<rparr>) = discover_repository i"
    if "mset cs = mset (din_unordered_candidates i)" "distinct (map dci_path cs)" for cs
    using any [OF that] by (simp add: discover_repository_def Let_def stable_sort_is_sort_key)
  obtain r where r: "discover_repository i = Inr r" "dres_candidates r = take (din_max_candidates i) ?all"
    by (simp add: discover_repository_def Let_def compute_digest_ok stable_sort_is_sort_key)
  show ?thesis
  proof (intro exI conjI)
    show "mset (dres_candidates r @ drop (din_max_candidates i) ?all) = mset (map ?rank (din_unordered_candidates i))"
      unfolding r(2) by (simp only: append_take_drop_id mset_sort)
    show "sorted_wrt ranked_before (dres_candidates r @ drop (din_max_candidates i) ?all)"
      unfolding r(2) using sorted by (simp only: append_take_drop_id)
  qed (use r run in auto)
qed

text \<open>Two candidates of one path make the result depend on the order they are given in.\<close>

lemma discovery_order_matters_for_duplicates:
  "let a = \<lparr> dci_path = ''p'', dci_relevance = DiscoveryRelevance_Candidate, dci_evidence = [] \<rparr>;
       b = \<lparr> dci_path = ''p'', dci_relevance = DiscoveryRelevance_Candidate, dci_evidence = [''x''] \<rparr>;
       run = (\<lambda>cs. discover_repository \<lparr> din_unordered_candidates = cs, din_max_candidates = 1, din_task_targets = [] \<rparr>)
   in map_sum id dres_candidates (run [a, b]) \<noteq> map_sum id dres_candidates (run [b, a])"
  by (simp add: Let_def discover_repository_def compute_digest_ok stable_sort_is_sort_key rank_candidate_def
      discovery_key_def STRONG_EVIDENCE_def)

subsection \<open>Ownership\<close>

record OwnershipEntry =
  own_responsibility :: string
  own_owner :: string
  own_path :: string
  own_overlaps_with :: "string list"

definition own :: "string \<Rightarrow> string \<Rightarrow> string \<Rightarrow> string list \<Rightarrow> OwnershipEntry" where
  "own r w p os = \<lparr> own_responsibility = r, own_owner = w, own_path = p, own_overlaps_with = os \<rparr>"

definition OWNERSHIP_INDEX :: "OwnershipEntry list" where
  "OWNERSHIP_INDEX =
     [own ''tool projection'' ''ToolProjector'' ''crates/siralos-core/src/tool/'' [''provider tool schema''],
      own ''ui projection'' ''UiComponentProjector'' ''crates/siralos-core/src/ui/'' [''panel rendering''],
      own ''context projection'' ''ContextProjector'' ''crates/siralos-core/src/projection/'' [''provider context assembly''],
      own ''planning depth'' ''PlanningPolicy'' ''crates/siralos-core/src/planning/policy.rs'' [''plan routing''],
      own ''task state'' ''TaskRuntime'' ''crates/siralos-core/src/task/runtime.rs'' [''workflow state''],
      own ''acceptance evaluation'' ''AcceptanceEvaluator'' ''crates/siralos-core/src/executor/acceptance.rs'' [''completion gate''],
      own ''evidence'' ''EvidenceStore'' ''crates/siralos-core/src/task/evidence.rs'' [''evidence records''],
      own ''approval'' ''ApprovalSystem'' ''crates/siralos-core/src/security.rs'' [''mutation authorization''],
      own ''checkpoints'' ''CheckpointStore'' ''crates/siralos-adapters/src/workspace/checkpoint.rs'' [''undo'', ''recovery''],
      own ''workspace revisions'' ''WorkspaceRevisionRegistry'' ''crates/siralos-core/src/workspace/revision.rs'' [''source identity''],
      own ''canonical digests'' ''ArtifactDigest'' ''crates/siralos-core/src/identity/artifact.rs'' [''hashing''],
      own ''documentation selection'' ''DocumentationSelection'' ''crates/siralos-core/src/executor/context.rs'' [''guidance selection''],
      own ''executor briefing'' ''ExecutorBriefCompiler'' ''crates/siralos-core/src/executor/brief.rs'' [''task briefing''],
      own ''validation plan'' ''ValidationPlan'' ''crates/siralos-core/src/determinism/decisions.rs'' [''validation selection''],
      own ''retry policy'' ''RetryPolicy'' ''crates/siralos-core/src/determinism/decisions.rs'' [''repair loop''],
      own ''impact analysis'' ''ImpactAnalyzer'' ''siralos-godot/src/godot/impact/analyzer.rs'' [''review context''],
      own ''independent review'' ''ChangeReviewer'' ''siralos-godot/src/godot/impact/'' [''quality gate''],
      own ''surface routing'' ''DevelopmentSurfaceClassifier'' ''siralos-godot/src/godot/development/surface.rs'' [''workflow routing''],
      own ''nondeterminism audit'' ''NondeterminismAudit'' ''tests/differential/run-differential.mjs'' [''architecture checks'']]"

definition resolve_owner :: "(string \<Rightarrow> string) \<Rightarrow> string \<Rightarrow> OwnershipEntry option" where
  "resolve_owner to_lowercase responsibility =
     (let normal = to_lowercase (trim responsibility)
      in case find (\<lambda>e. to_lowercase (own_responsibility e) = normal) OWNERSHIP_INDEX of
           Some e \<Rightarrow> Some e
         | None \<Rightarrow> find (\<lambda>e. list_ex (\<lambda>overlap. to_lowercase overlap = normal) (own_overlaps_with e)) OWNERSHIP_INDEX)"

definition list_ownership :: "OwnershipEntry list" where
  "list_ownership = stable_sort_by_key OWNERSHIP_INDEX own_responsibility"

text \<open>
  The index is unambiguous: every responsibility and every alias names one owner, so that with
  a lowering that keeps the index apart the first match is the only one.
\<close>

lemma ownership_unambiguous:
  "distinct (map own_responsibility OWNERSHIP_INDEX @ concat (map own_overlaps_with OWNERSHIP_INDEX))"
  by (simp add: OWNERSHIP_INDEX_def own_def)

end
