(* ===== verification/Determinism_Manifests.thy ===== *)
theory Determinism_Manifests
  imports Artifact Json_Canonical Context_Graph
begin

text \<open>
  The environment manifest (\<open>determinism/environment.rs\<close>) and the reproducibility manifest
  (\<open>determinism/reproducibility.rs\<close>): normalised inputs, digests and section deltas.  The
  first works on typed canonical values, the second on untyped JSON, where the decimal digits
  of a double are an argument.
\<close>

subsection \<open>Environment\<close>

definition env_optional_value :: "string option \<Rightarrow> CanonicalValue" where
  "env_optional_value v = (case v of Some t \<Rightarrow> CanonicalValue_Str t | None \<Rightarrow> CanonicalValue_Null)"

definition env_string_list :: "string list \<Rightarrow> CanonicalValue" where
  "env_string_list values = CanonicalValue_Array (map CanonicalValue_Str values)"

definition tool_list :: "(string \<times> string) list \<Rightarrow> CanonicalValue" where
  "tool_list tools = CanonicalValue_Array (map (\<lambda>(name, digest).
     object [(''name'', CanonicalValue_Str name), (''digest'', CanonicalValue_Str digest)]) tools)"

record EnvironmentManifestInput =
  emi_siralos_version :: "string option"
  emi_node_version :: "string option"
  emi_npm_version :: "string option"
  emi_platform :: "string option"
  emi_arch :: "string option"
  emi_os_release :: "string option"
  emi_godot_executable_fingerprint :: "string option"
  emi_sandbox_backend_id :: "string option"
  emi_sandbox_version :: "string option"
  emi_locale_policy :: "string option"
  emi_timezone_policy :: "string option"
  emi_environment_allowlist :: "string list"
  emi_tool_identities :: "(string \<times> string) list"

record EnvironmentManifest =
  em_inputs :: EnvironmentManifestInput
  em_digest :: string

definition environment_sections :: "EnvironmentManifest \<Rightarrow> (string, CanonicalValue) btree_map" where
  "environment_sections manifest =
     (let i = em_inputs manifest
      in bm_of_list []
        [(''siralosVersion'', env_optional_value (emi_siralos_version i)),
         (''nodeVersion'', env_optional_value (emi_node_version i)),
         (''npmVersion'', env_optional_value (emi_npm_version i)),
         (''platform'', env_optional_value (emi_platform i)),
         (''arch'', env_optional_value (emi_arch i)),
         (''osRelease'', env_optional_value (emi_os_release i)),
         (''godotExecutableFingerprint'', env_optional_value (emi_godot_executable_fingerprint i)),
         (''sandboxBackendId'', env_optional_value (emi_sandbox_backend_id i)),
         (''sandboxVersion'', env_optional_value (emi_sandbox_version i)),
         (''localePolicy'', env_optional_value (emi_locale_policy i)),
         (''timezonePolicy'', env_optional_value (emi_timezone_policy i)),
         (''environmentAllowlist'', env_string_list (emi_environment_allowlist i)),
         (''toolIdentities'', tool_list (emi_tool_identities i))])"

definition ENVIRONMENT_SECTIONS :: "string list" where
  "ENVIRONMENT_SECTIONS =
     [''siralosVersion'', ''nodeVersion'', ''npmVersion'', ''platform'', ''arch'', ''osRelease'',
      ''godotExecutableFingerprint'', ''sandboxBackendId'', ''sandboxVersion'', ''localePolicy'', ''timezonePolicy'',
      ''environmentAllowlist'', ''toolIdentities'']"

definition section_or_null :: "(string, CanonicalValue) btree_map \<Rightarrow> string \<Rightarrow> CanonicalValue" where
  "section_or_null sections k = (case bm_get sections k of Some v \<Rightarrow> v | None \<Rightarrow> CanonicalValue_Null)"

definition normal_environment :: "EnvironmentManifestInput \<Rightarrow> EnvironmentManifestInput" where
  "normal_environment i =
     i\<lparr> emi_environment_allowlist := sort (emi_environment_allowlist i),
        emi_tool_identities := sort_key fst (emi_tool_identities i) \<rparr>"

definition environment_payload :: "EnvironmentManifestInput \<Rightarrow> CanonicalValue" where
  "environment_payload i =
     (let sections = environment_sections \<lparr> em_inputs = i, em_digest = [] \<rparr>
      in CanonicalValue_Object (bm_of_list [] (map (\<lambda>k. (k, section_or_null sections k)) ENVIRONMENT_SECTIONS)))"

definition create_environment_manifest :: "EnvironmentManifestInput \<Rightarrow> EnvironmentManifest option" where
  "create_environment_manifest i0 =
     (let i = normal_environment i0
      in case canonical_artifact_payload ''EnvironmentManifest'' 1 (environment_payload i) of
           Inr framed \<Rightarrow> Some \<lparr> em_inputs = i, em_digest = sha256_hex (as_bytes framed) \<rparr>
         | Inl _ \<Rightarrow> None)"

record EnvironmentDelta =
  ed_base_digest :: string
  ed_result_digest :: string
  ed_changed :: "string list"
  ed_unchanged :: "string list"
  ed_unchanged_content :: bool

fun environment_delta_loop ::
    "(string, CanonicalValue) btree_map \<Rightarrow> (string, CanonicalValue) btree_map \<Rightarrow> string list \<Rightarrow>
     string list \<Rightarrow> string list \<Rightarrow> string list \<times> string list" where
  "environment_delta_loop b r [] changed unchanged = (changed, unchanged)"
| "environment_delta_loop b r (k # ks) changed unchanged =
     (if canonicalize (section_or_null b k) = canonicalize (section_or_null r k)
      then environment_delta_loop b r ks changed (unchanged @ [k])
      else environment_delta_loop b r ks (changed @ [k]) unchanged)"

definition compute_environment_delta :: "EnvironmentManifest \<Rightarrow> EnvironmentManifest \<Rightarrow> EnvironmentDelta" where
  "compute_environment_delta base result =
     (let (changed, unchanged) = environment_delta_loop (environment_sections base) (environment_sections result)
            ENVIRONMENT_SECTIONS [] []
      in \<lparr> ed_base_digest = em_digest base, ed_result_digest = em_digest result, ed_changed = changed,
           ed_unchanged = unchanged, ed_unchanged_content = (changed = []) \<rparr>)"

subsection \<open>Reproducibility\<close>

record ProviderInputIdentity =
  pii_provider_route :: "string option"
  pii_model_identity :: "string option"
  pii_reasoning_mode :: "string option"
  pii_temperature :: "f64 option"
  pii_top_p :: "f64 option"
  pii_seed :: "64 word option"
  pii_parameters :: "(string \<times> string) list"

definition optional_str :: "string option \<Rightarrow> Value" where
  "optional_str v = (case v of Some t \<Rightarrow> Value_String t | None \<Rightarrow> Value_Null)"

definition optional_u64 :: "64 word option \<Rightarrow> Value" where
  "optional_u64 v = (case v of Some n \<Rightarrow> Value_Number (PosInt (unat n)) | None \<Rightarrow> Value_Null)"

definition optional_f64 :: "f64 option \<Rightarrow> Value" where
  "optional_f64 v = (case v of Some (Finite q) \<Rightarrow> Value_Number (Float q) | _ \<Rightarrow> Value_Null)"

definition parameter_value :: "string \<times> string \<Rightarrow> Value" where
  "parameter_value p = json_object [(''name'', Value_String (fst p)), (''value'', Value_String (snd p))]"

definition compute_provider_input_identity_digest :: "scientific \<Rightarrow> ProviderInputIdentity \<Rightarrow> string + string" where
  "compute_provider_input_identity_digest sci p =
     digest_artifact_payload sci ''ProviderInputIdentity'' 1 (json_object
       [(''providerRoute'', optional_str (pii_provider_route p)), (''modelIdentity'', optional_str (pii_model_identity p)),
        (''reasoningMode'', optional_str (pii_reasoning_mode p)), (''temperature'', optional_f64 (pii_temperature p)),
        (''topP'', optional_f64 (pii_top_p p)), (''seed'', optional_u64 (pii_seed p)),
        (''parameters'', Value_Array (map parameter_value (sort_key fst (pii_parameters p))))])"

datatype ClockPolicy = ClockPolicy_System | ClockPolicy_Fixed "64 word"

fun ClockPolicy_to_json :: "ClockPolicy \<Rightarrow> Value" where
  "ClockPolicy_to_json ClockPolicy_System = json_object [(''mode'', Value_String ''system''), (''fixedMs'', Value_Null)]"
| "ClockPolicy_to_json (ClockPolicy_Fixed ms) =
     json_object [(''mode'', Value_String ''fixed''), (''fixedMs'', Value_Number (PosInt (unat ms)))]"

datatype RngPolicy = RngPolicy_None | RngPolicy_Seeded "64 word" | RngPolicy_System

fun RngPolicy_to_json :: "RngPolicy \<Rightarrow> Value" where
  "RngPolicy_to_json RngPolicy_None = json_object [(''mode'', Value_String ''none''), (''seed'', Value_Null)]"
| "RngPolicy_to_json (RngPolicy_Seeded s) =
     json_object [(''mode'', Value_String ''seeded''), (''seed'', Value_Number (PosInt (unat s)))]"
| "RngPolicy_to_json RngPolicy_System = json_object [(''mode'', Value_String ''system''), (''seed'', Value_Null)]"

record SourceRevision =
  srev_path :: string
  srev_revision :: string

record ReproducibilityManifestInput =
  rmi_task_id :: string
  rmi_execution_input_digest :: "string option"
  rmi_environment_digest :: "string option"
  rmi_task_contract_digest :: "string option"
  rmi_task_plan_digest :: "string option"
  rmi_guidance_digest :: "string option"
  rmi_tool_surface_digest :: "string option"
  rmi_capability_digest :: "string option"
  rmi_source_revision_set :: "SourceRevision list"
  rmi_validation_profile :: "string option"
  rmi_provider_input :: "ProviderInputIdentity option"
  rmi_clock_policy :: ClockPolicy
  rmi_rng_policy :: RngPolicy

record ReproducibilityManifest =
  rm_inputs :: ReproducibilityManifestInput
  rm_digest :: string

definition source_revision_value :: "SourceRevision \<Rightarrow> Value" where
  "source_revision_value r =
     json_object [(''path'', Value_String (srev_path r)), (''revision'', Value_String (srev_revision r))]"

definition create_reproducibility_manifest ::
    "scientific \<Rightarrow> ReproducibilityManifestInput \<Rightarrow> string + ReproducibilityManifest" where
  "create_reproducibility_manifest sci i0 =
     (let i = i0\<lparr>rmi_source_revision_set := sort_key srev_path (rmi_source_revision_set i0)\<rparr>
      in result_bind (case rmi_provider_input i of
             Some p \<Rightarrow> map_sum id Some (compute_provider_input_identity_digest sci p)
           | None \<Rightarrow> Ok None) (\<lambda>provider_input_digest.
         let payload = json_object
               [(''taskId'', Value_String (rmi_task_id i)),
                (''executionInputDigest'', optional_str (rmi_execution_input_digest i)),
                (''environmentDigest'', optional_str (rmi_environment_digest i)),
                (''taskContractDigest'', optional_str (rmi_task_contract_digest i)),
                (''taskPlanDigest'', optional_str (rmi_task_plan_digest i)),
                (''guidanceDigest'', optional_str (rmi_guidance_digest i)),
                (''toolSurfaceDigest'', optional_str (rmi_tool_surface_digest i)),
                (''capabilityDigest'', optional_str (rmi_capability_digest i)),
                (''sourceRevisionSet'', Value_Array (map source_revision_value (rmi_source_revision_set i))),
                (''validationProfile'', optional_str (rmi_validation_profile i)),
                (''providerInputDigest'', optional_str provider_input_digest),
                (''clockPolicy'', ClockPolicy_to_json (rmi_clock_policy i)),
                (''rngPolicy'', RngPolicy_to_json (rmi_rng_policy i))]
         in Ok \<lparr> rm_inputs = i, rm_digest = sha256_hex_str
                  (artifact_domain ''ReproducibilityManifest'' 1 (canonical_json_value sci payload)) \<rparr>))"

definition REPRODUCIBILITY_SECTIONS :: "string list" where
  "REPRODUCIBILITY_SECTIONS =
     [''executionInput'', ''environment'', ''taskContract'', ''taskPlan'', ''guidance'', ''toolSurface'', ''capability'',
      ''sourceRevisions'', ''validationProfile'', ''providerInput'', ''clockPolicy'', ''rngPolicy'']"

definition provider_to_json :: "ProviderInputIdentity option \<Rightarrow> Value" where
  "provider_to_json provider =
     (case provider of
        None \<Rightarrow> Value_Null
      | Some p \<Rightarrow> json_object
          [(''providerRoute'', optional_str (pii_provider_route p)), (''modelIdentity'', optional_str (pii_model_identity p)),
           (''reasoningMode'', optional_str (pii_reasoning_mode p)), (''temperature'', optional_f64 (pii_temperature p)),
           (''topP'', optional_f64 (pii_top_p p)), (''seed'', optional_u64 (pii_seed p)),
           (''parameters'', Value_Array (map parameter_value (pii_parameters p)))])"

definition reproducibility_sections :: "ReproducibilityManifest \<Rightarrow> (string, Value) btree_map" where
  "reproducibility_sections manifest =
     (let i = rm_inputs manifest
      in bm_of_list []
        [(''executionInput'', optional_str (rmi_execution_input_digest i)),
         (''environment'', optional_str (rmi_environment_digest i)),
         (''taskContract'', optional_str (rmi_task_contract_digest i)),
         (''taskPlan'', optional_str (rmi_task_plan_digest i)),
         (''guidance'', optional_str (rmi_guidance_digest i)),
         (''toolSurface'', optional_str (rmi_tool_surface_digest i)),
         (''capability'', optional_str (rmi_capability_digest i)),
         (''sourceRevisions'', Value_Array (map source_revision_value (rmi_source_revision_set i))),
         (''validationProfile'', optional_str (rmi_validation_profile i)),
         (''providerInput'', provider_to_json (rmi_provider_input i)),
         (''clockPolicy'', ClockPolicy_to_json (rmi_clock_policy i)),
         (''rngPolicy'', RngPolicy_to_json (rmi_rng_policy i))])"

record ReproducibilityDelta =
  rdl_base_digest :: string
  rdl_result_digest :: string
  rdl_changed :: "string list"
  rdl_unchanged :: "string list"
  rdl_unchanged_content :: bool

definition json_section :: "(string, Value) btree_map \<Rightarrow> string \<Rightarrow> Value" where
  "json_section sections k = (case bm_get sections k of Some v \<Rightarrow> v | None \<Rightarrow> Value_Null)"

fun reproducibility_delta_loop ::
    "scientific \<Rightarrow> (string, Value) btree_map \<Rightarrow> (string, Value) btree_map \<Rightarrow> string list \<Rightarrow>
     string list \<Rightarrow> string list \<Rightarrow> string list \<times> string list" where
  "reproducibility_delta_loop sci b r [] changed unchanged = (changed, unchanged)"
| "reproducibility_delta_loop sci b r (k # ks) changed unchanged =
     (if canonical_json_value sci (json_section b k) = canonical_json_value sci (json_section r k)
      then reproducibility_delta_loop sci b r ks changed (unchanged @ [k])
      else reproducibility_delta_loop sci b r ks (changed @ [k]) unchanged)"

definition compute_reproducibility_delta ::
    "scientific \<Rightarrow> ReproducibilityManifest \<Rightarrow> ReproducibilityManifest \<Rightarrow> ReproducibilityDelta" where
  "compute_reproducibility_delta sci base result =
     (let (changed, unchanged) = reproducibility_delta_loop sci (reproducibility_sections base)
            (reproducibility_sections result) REPRODUCIBILITY_SECTIONS [] []
      in \<lparr> rdl_base_digest = rm_digest base, rdl_result_digest = rm_digest result, rdl_changed = changed,
           rdl_unchanged = unchanged, rdl_unchanged_content = (changed = []) \<rparr>)"

subsection \<open>Properties\<close>

lemma environment_delta_loop_filter:
  "environment_delta_loop b r ks changed unchanged =
     (changed @ filter (\<lambda>k. section_or_null b k \<noteq> section_or_null r k) ks,
      unchanged @ filter (\<lambda>k. section_or_null b k = section_or_null r k) ks)"
  by (induction b r ks changed unchanged rule: environment_delta_loop.induct) (simp_all add: canonicalize_inject)

lemma env_value_inject [simp]:
  "env_optional_value v = env_optional_value w \<longleftrightarrow> v = w"
  "env_string_list xs = env_string_list ys \<longleftrightarrow> xs = ys"
  by (auto simp: env_optional_value_def env_string_list_def inj_map_eq_map inj_def split: option.splits)

lemma tool_list_inject [simp]: "tool_list xs = tool_list ys \<longleftrightarrow> xs = ys"
proof -
  have "inj (\<lambda>(name, digest). object [(''name'', CanonicalValue_Str name), (''digest'', CanonicalValue_Str digest)])"
    by (auto simp: inj_def object_def less_char_def)
  then show ?thesis
    by (simp add: tool_list_def inj_map_eq_map)
qed

lemma environment_section_simps:
  "section_or_null (environment_sections m) ''siralosVersion'' = env_optional_value (emi_siralos_version (em_inputs m))"
  "section_or_null (environment_sections m) ''nodeVersion'' = env_optional_value (emi_node_version (em_inputs m))"
  "section_or_null (environment_sections m) ''npmVersion'' = env_optional_value (emi_npm_version (em_inputs m))"
  "section_or_null (environment_sections m) ''platform'' = env_optional_value (emi_platform (em_inputs m))"
  "section_or_null (environment_sections m) ''arch'' = env_optional_value (emi_arch (em_inputs m))"
  "section_or_null (environment_sections m) ''osRelease'' = env_optional_value (emi_os_release (em_inputs m))"
  "section_or_null (environment_sections m) ''godotExecutableFingerprint''
     = env_optional_value (emi_godot_executable_fingerprint (em_inputs m))"
  "section_or_null (environment_sections m) ''sandboxBackendId'' = env_optional_value (emi_sandbox_backend_id (em_inputs m))"
  "section_or_null (environment_sections m) ''sandboxVersion'' = env_optional_value (emi_sandbox_version (em_inputs m))"
  "section_or_null (environment_sections m) ''localePolicy'' = env_optional_value (emi_locale_policy (em_inputs m))"
  "section_or_null (environment_sections m) ''timezonePolicy'' = env_optional_value (emi_timezone_policy (em_inputs m))"
  "section_or_null (environment_sections m) ''environmentAllowlist'' = env_string_list (emi_environment_allowlist (em_inputs m))"
  "section_or_null (environment_sections m) ''toolIdentities'' = tool_list (emi_tool_identities (em_inputs m))"
  by (simp_all add: section_or_null_def environment_sections_def Let_def bm_get_def)

text \<open>
  The environment delta is exact: the sections are split into those that differ and those that
  agree, in the declared order, and no section differs exactly when all recorded inputs agree.
\<close>

theorem environment_delta_exact:
  "let d = compute_environment_delta base result
   in ed_changed d = filter (\<lambda>k. section_or_null (environment_sections base) k \<noteq> section_or_null (environment_sections result) k)
        ENVIRONMENT_SECTIONS
      \<and> ed_unchanged d = filter (\<lambda>k. k \<notin> set (ed_changed d)) ENVIRONMENT_SECTIONS
      \<and> (ed_unchanged_content d \<longleftrightarrow> em_inputs base = em_inputs result)"
proof -
  have "(\<forall>k \<in> set ENVIRONMENT_SECTIONS. section_or_null (environment_sections base) k = section_or_null (environment_sections result) k)
      \<longleftrightarrow> em_inputs base = em_inputs result"
    by (auto simp: ENVIRONMENT_SECTIONS_def environment_section_simps)
  then show ?thesis
    by (auto simp: compute_environment_delta_def Let_def environment_delta_loop_filter filter_empty_conv intro!: filter_cong)
qed

text \<open>
  The preimage of an environment digest determines the normalised inputs, and creating a
  manifest never panics.
\<close>

lemma environment_payload_inject: "environment_payload i = environment_payload j \<longleftrightarrow> i = j"
proof
  assume same: "environment_payload i = environment_payload j"
  have get: "bm_get (bm_of_list [] (map (\<lambda>k. (k, f k)) ENVIRONMENT_SECTIONS)) k = Some (f k)"
    if "k \<in> set ENVIRONMENT_SECTIONS" for k and f :: "string \<Rightarrow> CanonicalValue"
    using that by (simp add: bm_get_of_list map_of_map_restrict [of f ENVIRONMENT_SECTIONS] rev_map map_of_map_keys
        map_of_map_restrict restrict_map_def)
  have "section_or_null (environment_sections \<lparr> em_inputs = i, em_digest = [] \<rparr>) k
      = section_or_null (environment_sections \<lparr> em_inputs = j, em_digest = [] \<rparr>) k" if "k \<in> set ENVIRONMENT_SECTIONS" for k
    using get [OF that, of "section_or_null (environment_sections \<lparr> em_inputs = i, em_digest = [] \<rparr>)"]
      get [OF that, of "section_or_null (environment_sections \<lparr> em_inputs = j, em_digest = [] \<rparr>)"] same
    by (simp add: environment_payload_def Let_def)
  then have "\<forall>k \<in> set ENVIRONMENT_SECTIONS. section_or_null (environment_sections \<lparr> em_inputs = i, em_digest = [] \<rparr>) k
      = section_or_null (environment_sections \<lparr> em_inputs = j, em_digest = [] \<rparr>) k"
    by blast
  then show "i = j"
    by (simp add: ENVIRONMENT_SECTIONS_def environment_section_simps)
qed simp

lemma environment_manifest_total:
  "\<exists>m. create_environment_manifest i = Some m \<and> em_inputs m = normal_environment i"
proof -
  have "is_valid_artifact_type ''EnvironmentManifest''"
    by (simp add: is_valid_artifact_type_def is_ascii_alphanumeric_def is_ascii_alphabetic_def ascii_defs)
  then show ?thesis
    by (simp add: create_environment_manifest_def canonical_artifact_payload_def Let_def)
qed

subsection \<open>Reproducibility\<close>

lemma reproducibility_delta_loop_filter:
  "reproducibility_delta_loop sci b r ks changed unchanged =
     (changed @ filter (\<lambda>k. canonical_json_value sci (json_section b k) \<noteq> canonical_json_value sci (json_section r k)) ks,
      unchanged @ filter (\<lambda>k. canonical_json_value sci (json_section b k) = canonical_json_value sci (json_section r k)) ks)"
  by (induction sci b r ks changed unchanged rule: reproducibility_delta_loop.induct) simp_all

lemma reproducibility_manifest_total:
  "\<exists>m. create_reproducibility_manifest sci i = Inr m
     \<and> rm_inputs m = i\<lparr>rmi_source_revision_set := sort_key srev_path (rmi_source_revision_set i)\<rparr>"
  by (auto simp: create_reproducibility_manifest_def compute_provider_input_identity_digest_def
      digest_artifact_payload_total Let_def split: option.splits)

text \<open>
  The digest of a provider identity binds its parameters in name order, the delta compares them
  as they were given: two manifests that differ only in the order of two parameters have the
  same digest, and their delta still reports a change.
\<close>

definition provider_with :: "(string \<times> string) list \<Rightarrow> ProviderInputIdentity" where
  "provider_with ps =
     \<lparr> pii_provider_route = None, pii_model_identity = None, pii_reasoning_mode = None, pii_temperature = None,
       pii_top_p = None, pii_seed = None, pii_parameters = ps \<rparr>"

definition manifest_with :: "(string \<times> string) list \<Rightarrow> ReproducibilityManifestInput" where
  "manifest_with ps =
     \<lparr> rmi_task_id = ''t'', rmi_execution_input_digest = None, rmi_environment_digest = None,
       rmi_task_contract_digest = None, rmi_task_plan_digest = None, rmi_guidance_digest = None,
       rmi_tool_surface_digest = None, rmi_capability_digest = None, rmi_source_revision_set = [],
       rmi_validation_profile = None, rmi_provider_input = Some (provider_with ps),
       rmi_clock_policy = ClockPolicy_System, rmi_rng_policy = RngPolicy_None \<rparr>"

lemma provider_text_differs:
  "canonical_json_value sci (provider_to_json (Some (provider_with [(''a'', ''1''), (''b'', ''2'')])))
   \<noteq> canonical_json_value sci (provider_to_json (Some (provider_with [(''b'', ''2''), (''a'', ''1'')])))"
  by (simp add: provider_to_json_def provider_with_def json_object_def optional_str_def optional_f64_def optional_u64_def
      parameter_value_def json_escape_def escape_char_def ascii_defs quote_def backslash_def)

lemma equal_digests_reported_changed:
  assumes "create_reproducibility_manifest sci (manifest_with [(''a'', ''1''), (''b'', ''2'')]) = Inr m"
    and "create_reproducibility_manifest sci (manifest_with [(''b'', ''2''), (''a'', ''1'')]) = Inr n"
  shows "rm_digest m = rm_digest n \<and> rdl_changed (compute_reproducibility_delta sci m n) = [''providerInput'']"
proof -
  have "rm_digest m = rm_digest n"
    using assms by (auto simp: create_reproducibility_manifest_def compute_provider_input_identity_digest_def
        digest_artifact_payload_total manifest_with_def provider_with_def Let_def)
  moreover have i: "rm_inputs m = manifest_with [(''a'', ''1''), (''b'', ''2'')]"
    "rm_inputs n = manifest_with [(''b'', ''2''), (''a'', ''1'')]"
    using assms by (auto simp: create_reproducibility_manifest_def compute_provider_input_identity_digest_def
        digest_artifact_payload_total manifest_with_def Let_def)
  moreover have "rdl_changed (compute_reproducibility_delta sci m n) = [''providerInput'']"
    using provider_text_differs [of sci]
    by (simp add: compute_reproducibility_delta_def reproducibility_delta_loop_filter reproducibility_sections_def Let_def i
        json_section_def bm_get_def REPRODUCIBILITY_SECTIONS_def) (simp add: manifest_with_def)
  ultimately show ?thesis
    by blast
qed

end
