(* ===== verification/Context_Artifacts.thy ===== *)
theory Context_Artifacts
  imports Determinism_Decisions Determinism_Manifests
begin

text \<open>
  Context artefacts (\<open>context/mod.rs\<close>, \<open>artifacts.rs\<close>, \<open>controls.rs\<close>, \<open>provenance.rs\<close>,
  \<open>staleness.rs\<close>): dependency manifests bound to digests, targeted staleness along them,
  context controls, provenance references and the rendered diagnostics.
\<close>

datatype ContextError = ContextError (context_message: string)

subsection \<open>Dependency manifests\<close>

record ArtifactDependency =
  adep_type :: string
  adep_digest :: string

record ArtifactDependencyManifest =
  adm_type :: string
  adm_id :: string
  adm_depends_on :: "ArtifactDependency list"
  adm_digest :: string

definition dependency_key :: "ArtifactDependency \<Rightarrow> string" where
  "dependency_key d = adep_type d @ '':'' @ adep_digest d"

definition dependency_value :: "ArtifactDependency \<Rightarrow> CanonicalValue" where
  "dependency_value d = object
     [(''artifactType'', CanonicalValue_Str (adep_type d)), (''digest'', CanonicalValue_Str (adep_digest d))]"

definition dependency_payload :: "string \<Rightarrow> string \<Rightarrow> ArtifactDependency list \<Rightarrow> CanonicalValue" where
  "dependency_payload ty i ordered = object
     [(''artifactType'', CanonicalValue_Str ty), (''artifactId'', CanonicalValue_Str i),
      (''dependsOn'', CanonicalValue_Array (map dependency_value ordered))]"

definition context_digest :: "string \<Rightarrow> CanonicalValue \<Rightarrow> ContextError + string" where
  "context_digest ty payload =
     (case compute_artifact_digest ty 1 payload of
        Inl e \<Rightarrow> Err (ContextError (message e)) | Inr d \<Rightarrow> Ok (digest_value d))"

definition create_artifact_dependency_manifest ::
    "string \<Rightarrow> string \<Rightarrow> ArtifactDependency list \<Rightarrow> ContextError + ArtifactDependencyManifest" where
  "create_artifact_dependency_manifest ty i depends_on =
     (if ty = [] \<or> i = [] then Err (ContextError ''A dependency manifest requires an artifact type and id.'')
      else if depends_on = [] then
        Err (ContextError (''A dependency manifest for '' @ ty @ '' requires at least one dependency.''))
      else
        let ordered = stable_sort_by_key depends_on dependency_key
        in result_bind (context_digest ''ArtifactDependencyManifest'' (dependency_payload ty i ordered)) (\<lambda>d.
             Ok \<lparr> adm_type = ty, adm_id = i, adm_depends_on = ordered, adm_digest = d \<rparr>))"

record HighValueDependency =
  hvd_type :: string
  hvd_input :: string

definition hvd :: "string \<Rightarrow> string \<Rightarrow> HighValueDependency" where
  "hvd t i = \<lparr> hvd_type = t, hvd_input = i \<rparr>"

definition high_value_dependencies :: "string \<Rightarrow> HighValueDependency list option" where
  "high_value_dependencies ty =
     (if ty = ''TaskPlan'' then Some
        [hvd ''TaskContract'' ''taskContractDigest'', hvd ''GuidanceManifest'' ''guidanceDigest'',
         hvd ''SourceRevisions'' ''verifiedSourceRevisions'']
      else if ty = ''ReviewVerdict'' then Some
        [hvd ''TaskContract'' ''taskContractDigest'', hvd ''Changeset'' ''changesetDigest'',
         hvd ''ReviewContextManifest'' ''reviewContextDigest'', hvd ''ValidationEvidence'' ''validationEvidenceDigest'']
      else if ty = ''AcceptanceResult'' then Some
        [hvd ''AcceptanceCriteria'' ''acceptanceDigest'', hvd ''ValidationEvidence'' ''validationEvidenceDigest'',
         hvd ''ReviewVerdict'' ''reviewVerdictDigest'',
         hvd ''MutationVerificationEvidence'' ''mutationVerificationDigest'']
      else if ty = ''PreparedChangeset'' then Some
        [hvd ''TaskPlan'' ''taskPlanDigest'', hvd ''SourceRevisions'' ''sourceRevisionDigests'']
      else None)"

fun observed_dependencies ::
    "(string, string option) btree_map \<Rightarrow> HighValueDependency list \<Rightarrow> ArtifactDependency list" where
  "observed_dependencies current [] = []"
| "observed_dependencies current (e # es) =
     (case bm_get current (hvd_input e) of
        Some (Some digest) \<Rightarrow> \<lparr> adep_type = hvd_type e, adep_digest = digest \<rparr> # observed_dependencies current es
      | _ \<Rightarrow> observed_dependencies current es)"

definition build_dependency_manifest ::
    "string \<Rightarrow> string \<Rightarrow> (string, string option) btree_map \<Rightarrow> ContextError + ArtifactDependencyManifest option" where
  "build_dependency_manifest ty i current =
     (case high_value_dependencies ty of
        None \<Rightarrow> Ok None
      | Some table \<Rightarrow>
          let depends_on = observed_dependencies current table
          in if depends_on = [] then Ok None
             else map_sum id Some (create_artifact_dependency_manifest ty i depends_on))"

subsection \<open>Staleness along the manifests\<close>

record ArtifactStalenessInput =
  asi_manifests :: "ArtifactDependencyManifest list"
  asi_current :: "(string, string) btree_map"

record ArtifactStalenessResult =
  asr_stale :: "(string, string) btree_map"
  asr_current :: "string list"
  asr_unrelated_changes :: "string list"

text \<open>\<open>value.chars().take(8).collect()\<close>\<close>

definition staleness_abbreviate :: "string \<Rightarrow> string" where
  "staleness_abbreviate v = concat (take 8 (scalars v))"

fun dependency_changes ::
    "(string, string) btree_map \<Rightarrow> ArtifactDependency list \<Rightarrow> string list \<times> string list" where
  "dependency_changes current [] = ([], [])"
| "dependency_changes current (d # ds) =
     (let (changed, missing) = dependency_changes current ds
      in case bm_get current (adep_type d) of
           None \<Rightarrow> (changed, (adep_type d @ ''@'' @ staleness_abbreviate (adep_digest d)) # missing)
         | Some cur \<Rightarrow>
             if cur \<noteq> adep_digest d
             then ((adep_type d @ '' '' @ staleness_abbreviate (adep_digest d) @ '' -> '' @ staleness_abbreviate cur) # changed,
                   missing)
             else (changed, missing))"

fun staleness_loop ::
    "(string, string) btree_map \<Rightarrow> ArtifactDependencyManifest list \<Rightarrow> (string, string) btree_map \<Rightarrow> string list \<Rightarrow>
     (string, string) btree_map \<times> string list" where
  "staleness_loop digests [] stale current = (stale, current)"
| "staleness_loop digests (m # ms) stale current =
     (let (changed, missing) = dependency_changes digests (adm_depends_on m)
      in if changed = [] \<and> missing = [] then staleness_loop digests ms stale (current @ [adm_id m])
         else staleness_loop digests ms
                (bm_insert (adm_id m)
                  (''stale because '' @ join ''; '' (changed @ map (\<lambda>e. e @ '' no longer observable'') missing)) stale)
                current)"

definition derive_artifact_staleness :: "ArtifactStalenessInput \<Rightarrow> ArtifactStalenessResult" where
  "derive_artifact_staleness i =
     (let consumed = concat (map (\<lambda>m. map adep_type (adm_depends_on m)) (asi_manifests i));
          unrelated = filter (\<lambda>t. t \<notin> set consumed) (map fst (asi_current i));
          (stale, current) = staleness_loop (asi_current i) (stable_sort_by_key (asi_manifests i) adm_id) [] []
      in \<lparr> asr_stale = stale, asr_current = stable_sort_by_key current (\<lambda>i. i),
           asr_unrelated_changes = stable_sort_by_key unrelated (\<lambda>k. k) \<rparr>)"

record PreparedMutationStaleness =
  pms_stale :: bool
  pms_stale_paths :: "string list"

definition is_prepared_mutation_stale ::
    "SourceRevision list \<Rightarrow> (string, string) btree_map \<Rightarrow> PreparedMutationStaleness" where
  "is_prepared_mutation_stale prepared current =
     (let stale_paths = map srev_path (filter (\<lambda>p. bm_get current (srev_path p) \<noteq> Some (srev_revision p)) prepared)
      in \<lparr> pms_stale = (stale_paths \<noteq> []), pms_stale_paths = stale_paths \<rparr>)"

definition compute_staleness_digest :: "ArtifactStalenessResult \<Rightarrow> ContextError + string" where
  "compute_staleness_digest r =
     context_digest ''ArtifactStalenessResult'' (object
       [(''stale'', CanonicalValue_Array (map (\<lambda>(i, reason).
            object [(''id'', CanonicalValue_Str i), (''reason'', CanonicalValue_Str reason)]) (asr_stale r))),
        (''current'', CanonicalValue_Array (map CanonicalValue_Str (asr_current r))),
        (''unrelatedChanges'', CanonicalValue_Array (map CanonicalValue_Str (asr_unrelated_changes r)))])"

subsection \<open>Context controls\<close>

definition control_content_digest :: "string \<Rightarrow> ContextError + unit" where
  "control_content_digest digest =
     (if length digest = 64 \<and> list_all is_lower_hex digest then Ok ()
      else Err (ContextError ''A context control digest must be 64 lowercase hex characters.''))"

definition pinned_digest :: "string \<Rightarrow> ContextError + string" where
  "pinned_digest digest = result_bind (control_content_digest digest) (\<lambda>_. Ok digest)"

datatype ContextPolicy = ContextPolicy_Live | ContextPolicy_Pinned string | ContextPolicy_Frozen string

definition ContextPolicy_new :: "string \<Rightarrow> string option \<Rightarrow> ContextError + ContextPolicy" where
  "ContextPolicy_new kind digest =
     (if kind = ''live'' then Ok ContextPolicy_Live
      else case digest of
             Some d \<Rightarrow>
               if kind = ''pinned'' then map_sum id ContextPolicy_Pinned (pinned_digest d)
               else if kind = ''frozen'' then map_sum id ContextPolicy_Frozen (pinned_digest d)
               else Err (ContextError ''Unknown context control kind.'')
           | None \<Rightarrow> Err (ContextError ''Unknown context control kind.''))"

fun ContextPolicy_kind :: "ContextPolicy \<Rightarrow> string" where
  "ContextPolicy_kind ContextPolicy_Live = ''live''"
| "ContextPolicy_kind (ContextPolicy_Pinned _) = ''pinned''"
| "ContextPolicy_kind (ContextPolicy_Frozen _) = ''frozen''"

datatype ContextControlOutcome =
    ContextControlOutcome_Fresh "string option"
  | ContextControlOutcome_Stale string string
  | ContextControlOutcome_Blocked string string

fun disposition :: "ContextControlOutcome \<Rightarrow> string" where
  "disposition (ContextControlOutcome_Fresh _) = ''fresh''"
| "disposition (ContextControlOutcome_Stale _ _) = ''stale''"
| "disposition (ContextControlOutcome_Blocked _ _) = ''blocked''"

fun usable :: "ContextControlOutcome \<Rightarrow> bool" where
  "usable (ContextControlOutcome_Blocked _ _) = False"
| "usable _ = True"

fun evaluate_context_policy :: "ContextPolicy \<Rightarrow> string \<Rightarrow> ContextControlOutcome" where
  "evaluate_context_policy ContextPolicy_Live actual = ContextControlOutcome_Fresh None"
| "evaluate_context_policy (ContextPolicy_Pinned digest) actual =
     (if digest = actual then ContextControlOutcome_Fresh (Some digest) else ContextControlOutcome_Stale digest actual)"
| "evaluate_context_policy (ContextPolicy_Frozen digest) actual =
     (if digest = actual then ContextControlOutcome_Fresh (Some digest) else ContextControlOutcome_Blocked digest actual)"

record ContextControlEvidence =
  cce_policy :: ContextPolicy
  cce_outcome :: ContextControlOutcome
  cce_control_digest :: string

definition control_payload :: "ContextPolicy \<Rightarrow> ContextControlOutcome \<Rightarrow> CanonicalValue" where
  "control_payload policy outcome =
     (let (expected, actual, bound) =
            (case outcome of
               ContextControlOutcome_Fresh b \<Rightarrow> (None, None, b)
             | ContextControlOutcome_Stale e a \<Rightarrow> (Some e, Some a, None)
             | ContextControlOutcome_Blocked e a \<Rightarrow> (Some e, Some a, None))
      in object
        [(''actualDigest'', env_optional_value actual), (''boundDigest'', env_optional_value bound),
         (''disposition'', CanonicalValue_Str (disposition outcome)), (''expectedDigest'', env_optional_value expected),
         (''policyKind'', CanonicalValue_Str (ContextPolicy_kind policy))])"

definition create_context_control_evidence ::
    "ContextPolicy \<Rightarrow> ContextControlOutcome \<Rightarrow> ContextError + ContextControlEvidence" where
  "create_context_control_evidence policy outcome =
     result_bind (context_digest ''ContextControlEvidence'' (control_payload policy outcome)) (\<lambda>d.
       Ok \<lparr> cce_policy = policy, cce_outcome = outcome, cce_control_digest = d \<rparr>)"

fun render_control :: "ContextPolicy \<Rightarrow> ContextControlOutcome \<Rightarrow> string" where
  "render_control ContextPolicy_Live (ContextControlOutcome_Fresh _) = ''live fresh (unbound)''"
| "render_control (ContextPolicy_Pinned d) (ContextControlOutcome_Fresh _) = ''pinned fresh bound='' @ staleness_abbreviate d"
| "render_control (ContextPolicy_Frozen d) (ContextControlOutcome_Fresh _) = ''frozen fresh bound='' @ staleness_abbreviate d"
| "render_control (ContextPolicy_Pinned _) (ContextControlOutcome_Stale e a) =
     ''pinned stale expected='' @ staleness_abbreviate e @ '' actual='' @ staleness_abbreviate a @ '' (usable)''"
| "render_control (ContextPolicy_Frozen _) (ContextControlOutcome_Blocked e a) =
     ''frozen stale expected='' @ staleness_abbreviate e @ '' actual='' @ staleness_abbreviate a @ '' (blocked)''"
| "render_control _ _ = ''inconsistent control outcome''"

definition render_context_control_evidence :: "ContextControlEvidence \<Rightarrow> string" where
  "render_context_control_evidence e = render_control (cce_policy e) (cce_outcome e)"

subsection \<open>Provenance and diagnostics\<close>

record ContextProvenanceRefSource =
  cps_kind :: string
  cps_id :: string
  cps_digest :: "string option"

record ContextProvenanceRef =
  cpr_item :: string
  cpr_source :: ContextProvenanceRefSource

definition create_context_provenance_ref ::
    "string \<Rightarrow> string \<Rightarrow> string \<Rightarrow> string option \<Rightarrow> ContextError + ContextProvenanceRef" where
  "create_context_provenance_ref item kind i digest =
     (if item = [] \<or> i = [] then Err (ContextError ''A provenance reference requires an item and a source id.'')
      else Ok \<lparr> cpr_item = item, cpr_source = \<lparr> cps_kind = kind, cps_id = i, cps_digest = digest \<rparr> \<rparr>)"

definition ref_value :: "ContextProvenanceRef \<Rightarrow> CanonicalValue" where
  "ref_value r = object
     [(''item'', CanonicalValue_Str (cpr_item r)),
      (''source'', object
        [(''kind'', CanonicalValue_Str (cps_kind (cpr_source r))), (''id'', CanonicalValue_Str (cps_id (cpr_source r))),
         (''digest'', env_optional_value (cps_digest (cpr_source r)))])]"

definition provenance_key :: "ContextProvenanceRef \<Rightarrow> string" where
  "provenance_key r = cpr_item r @ '':'' @ cps_kind (cpr_source r) @ '':'' @ cps_id (cpr_source r)"

definition provenance_payload :: "ContextProvenanceRef list \<Rightarrow> CanonicalValue" where
  "provenance_payload refs =
     object [(''refs'', CanonicalValue_Array (map ref_value (stable_sort_by_key refs provenance_key)))]"

definition compute_provenance_digest :: "ContextProvenanceRef list \<Rightarrow> ContextError + string" where
  "compute_provenance_digest refs = context_digest ''ContextProvenance'' (provenance_payload refs)"

record WhyValidationRequired =
  wvr_item_id :: string
  wvr_changed_surfaces :: "string list"
  wvr_impact_relations :: "ImpactRelationship list"
  wvr_acceptance_criteria :: "string list"

definition why_validation_required ::
    "string \<Rightarrow> ValidationItem list \<Rightarrow> string list \<Rightarrow> ImpactRelationship list \<Rightarrow> string list \<Rightarrow>
     WhyValidationRequired option" where
  "why_validation_required item_id plan_items changed_surfaces impact_relations acceptance_criteria =
     (if list_ex (\<lambda>i. vi_id i = item_id) plan_items
      then Some \<lparr> wvr_item_id = item_id, wvr_changed_surfaces = changed_surfaces,
                  wvr_impact_relations = impact_relations, wvr_acceptance_criteria = acceptance_criteria \<rparr>
      else None)"

definition line_feed :: string where "line_feed = [CHR 0x0A]"

definition render_why_validation_required :: "WhyValidationRequired \<Rightarrow> string" where
  "render_why_validation_required d =
     join line_feed ([''Required because (validation_plan):'']
       @ (if wvr_changed_surfaces d = [] then [] else [''- changed surface(s): '' @ join '', '' (wvr_changed_surfaces d)])
       @ (if wvr_impact_relations d = [] then []
          else [''- verified impact relation(s): ''
                @ join '', '' (map (\<lambda>r. imp_source r @ '' -> '' @ imp_target r) (wvr_impact_relations d))])
       @ (if wvr_acceptance_criteria d = [] then []
          else [''- acceptance criterion/criteria: '' @ join '', '' (wvr_acceptance_criteria d)]))"

record WhyStale =
  wst_artifact_id :: string
  wst_reason :: string

definition render_why_stale :: "WhyStale \<Rightarrow> string" where
  "render_why_stale d = ''Stale because: '' @ wst_reason d"

record WhyBlocked =
  wbl_reason :: string

definition render_why_blocked :: "WhyBlocked \<Rightarrow> string" where
  "render_why_blocked d = ''Blocked because: '' @ wbl_reason d"

record WhyAcceptanceFailed =
  waf_criterion_id :: string
  waf_missing_evidence_classes :: "string list"
  waf_evidence_identities :: "string list"

definition none_or_joined :: "string list \<Rightarrow> string" where
  "none_or_joined xs = (if xs = [] then ''none'' else join '', '' xs)"

definition render_why_acceptance_failed :: "WhyAcceptanceFailed \<Rightarrow> string" where
  "render_why_acceptance_failed d =
     join line_feed
       [''Acceptance for '' @ waf_criterion_id d @ '' not satisfied because:'',
        ''- missing evidence class(es): '' @ none_or_joined (waf_missing_evidence_classes d),
        ''- considered evidence identities: '' @ none_or_joined (waf_evidence_identities d)]"

subsection \<open>Properties\<close>

lemma context_types [simp]:
  "is_valid_artifact_type ''ArtifactDependencyManifest''" "is_valid_artifact_type ''ArtifactStalenessResult''"
  "is_valid_artifact_type ''ContextControlEvidence''" "is_valid_artifact_type ''ContextProvenance''"
  by (simp_all add: is_valid_artifact_type_def is_ascii_alphanumeric_def is_ascii_alphabetic_def ascii_defs)

definition context_preimage :: "string \<Rightarrow> CanonicalValue \<Rightarrow> string" where
  "context_preimage t v = ''siralos:'' @ t @ '':v'' @ show_nat (unat (1::64 word)) @ [CHR 0x00] @ canonicalize v"

lemma context_digest_ok:
  "is_valid_artifact_type t \<Longrightarrow> context_digest t v = Inr (sha256_hex (as_bytes (context_preimage t v)))"
  by (simp add: context_digest_def compute_digest_ok context_preimage_def)

text \<open>A dependency is stale when its type is observed under another digest or no longer observed.\<close>

definition dependency_current :: "(string, string) btree_map \<Rightarrow> ArtifactDependency \<Rightarrow> bool" where
  "dependency_current digests d \<longleftrightarrow> bm_get digests (adep_type d) = Some (adep_digest d)"

lemma dependency_changes_none:
  "dependency_changes digests ds = ([], []) \<longleftrightarrow> list_all (dependency_current digests) ds"
  by (induction ds) (auto simp: dependency_current_def Let_def split: option.splits prod.splits)

lemma staleness_loop_spec:
  "staleness_loop digests ms stale current = (stale', current') \<Longrightarrow>
     current' = current @ map adm_id (filter (\<lambda>m. list_all (dependency_current digests) (adm_depends_on m)) ms)
     \<and> fst ` set stale' = fst ` set stale
         \<union> adm_id ` {m \<in> set ms. \<not> list_all (dependency_current digests) (adm_depends_on m)}
     \<and> (bm_wf stale \<longrightarrow> bm_wf stale')"
proof (induction digests ms stale current arbitrary: stale' current' rule: staleness_loop.induct)
  case (2 digests m ms stale current)
  obtain changed missing where c: "dependency_changes digests (adm_depends_on m) = (changed, missing)"
    by force
  have iff: "(changed = [] \<and> missing = []) \<longleftrightarrow> list_all (dependency_current digests) (adm_depends_on m)"
    using dependency_changes_none [of digests "adm_depends_on m"] c by simp
  show ?case
  proof (cases "changed = [] \<and> missing = []")
    case True
    then show ?thesis
      using "2.IH"(1) [OF c [symmetric] refl True] "2.prems" iff by (auto simp: c Let_def)
  next
    case False
    then show ?thesis
      using "2.IH"(2) [OF c [symmetric] refl False] "2.prems" iff by (auto simp: c Let_def keys_bm_insert)
  qed
qed simp

text \<open>
  Staleness is targeted: an artefact is reported stale exactly when one of its manifests has a
  dependency that is not observed under the recorded digest, current exactly when one of them
  has all, and a change is unrelated exactly when no manifest depends on its type.
\<close>

theorem artifact_staleness_exact:
  "let r = derive_artifact_staleness i
   in fst ` set (asr_stale r) =
        adm_id ` {m \<in> set (asi_manifests i). \<not> list_all (dependency_current (asi_current i)) (adm_depends_on m)}
      \<and> set (asr_current r) =
        adm_id ` {m \<in> set (asi_manifests i). list_all (dependency_current (asi_current i)) (adm_depends_on m)}
      \<and> set (asr_unrelated_changes r) =
        fst ` set (asi_current i) - {adep_type d | d m. m \<in> set (asi_manifests i) \<and> d \<in> set (adm_depends_on m)}"
proof -
  obtain stale current where l:
    "staleness_loop (asi_current i) (sort_key adm_id (asi_manifests i)) [] [] = (stale, current)"
    by force
  show ?thesis
    using staleness_loop_spec [OF l]
    by (auto simp: derive_artifact_staleness_def stable_sort_is_sort_key l Let_def)
qed

text \<open>
  A control only narrows: frozen content that changed is refused, everything else is usable,
  content is called fresh and bound only when the observed digest is the bound one, and the
  payload of the evidence determines the kind of the policy and the outcome.
\<close>

theorem context_control_narrows:
  "(usable (evaluate_context_policy policy actual) \<longleftrightarrow> (\<forall>d. policy = ContextPolicy_Frozen d \<longrightarrow> d = actual))
   \<and> (evaluate_context_policy policy actual = ContextControlOutcome_Fresh (Some d) \<longleftrightarrow>
        d = actual \<and> (policy = ContextPolicy_Pinned d \<or> policy = ContextPolicy_Frozen d))
   \<and> (control_payload policy (evaluate_context_policy policy actual) = control_payload policy' (evaluate_context_policy policy' actual')
        \<longleftrightarrow> ContextPolicy_kind policy = ContextPolicy_kind policy'
            \<and> evaluate_context_policy policy actual = evaluate_context_policy policy' actual')"
  by (cases policy; cases policy')
    (auto simp: control_payload_def Let_def object_def env_optional_value_def less_char_def)

text \<open>
  The digest of a provenance set is not independent of the order of its references: two
  references of one source under different digests have the same key, and the preimages differ.
\<close>

definition ref_with :: "string \<Rightarrow> ContextProvenanceRef" where
  "ref_with d = \<lparr> cpr_item = ''item'', cpr_source = \<lparr> cps_kind = ''kind'', cps_id = ''id'', cps_digest = Some d \<rparr> \<rparr>"

lemma provenance_digest_depends_on_order:
  assumes "d \<noteq> e"
  shows "context_preimage ''ContextProvenance'' (provenance_payload [ref_with d, ref_with e])
    \<noteq> context_preimage ''ContextProvenance'' (provenance_payload [ref_with e, ref_with d])"
  using assms
  by (simp add: context_preimage_def canonicalize_inject provenance_payload_def stable_sort_is_sort_key provenance_key_def
      ref_with_def ref_value_def object_def env_optional_value_def less_char_def)

text \<open>References with distinct keys may be given in any order.\<close>

lemma provenance_digest_distinct:
  assumes "mset refs = mset refs'" and "distinct (map provenance_key refs)"
  shows "compute_provenance_digest refs = compute_provenance_digest refs'"
proof -
  have "sort_key provenance_key refs = sort_key provenance_key refs'"
    using assms by (intro sort_key_eq_sort_key) (simp_all add: distinct_map)
  then show ?thesis
    by (simp add: compute_provenance_digest_def provenance_payload_def stable_sort_is_sort_key)
qed

text \<open>A prepared mutation is stale exactly when one of its revisions is not the current one.\<close>

lemma prepared_mutation_stale_iff:
  "pms_stale (is_prepared_mutation_stale prepared current) \<longleftrightarrow>
     (\<exists>p \<in> set prepared. bm_get current (srev_path p) \<noteq> Some (srev_revision p))"
  by (auto simp: is_prepared_mutation_stale_def Let_def filter_empty_conv)

end
