(* ===== verification/Phase_Contract.thy ===== *)
theory Phase_Contract
  imports Context_Artifacts
begin

text \<open>
  Phase contracts (\<open>context/phase_contract.rs\<close>): the context classes and their artifact
  kinds, the fixed authority vocabulary, the validation of a raw declaration and the registry of
  the eleven contracts the host owns.
\<close>

subsection \<open>Context classes\<close>

datatype ContextClass =
    ContextClass_Global
  | ContextClass_Routing
  | ContextClass_PhaseContract
  | ContextClass_StableReference
  | ContextClass_Working

fun ContextClass_as_str :: "ContextClass \<Rightarrow> string" where
  "ContextClass_as_str ContextClass_Global = ''global''"
| "ContextClass_as_str ContextClass_Routing = ''routing''"
| "ContextClass_as_str ContextClass_PhaseContract = ''phase_contract''"
| "ContextClass_as_str ContextClass_StableReference = ''stable_reference''"
| "ContextClass_as_str ContextClass_Working = ''working''"

definition ContextClass_parse :: "string \<Rightarrow> ContextClass option" where
  "ContextClass_parse v =
     (if v = ''global'' then Some ContextClass_Global
      else if v = ''routing'' then Some ContextClass_Routing
      else if v = ''phase_contract'' then Some ContextClass_PhaseContract
      else if v = ''stable_reference'' then Some ContextClass_StableReference
      else if v = ''working'' then Some ContextClass_Working
      else None)"

definition CONTEXT_CLASSES :: "string list" where
  "CONTEXT_CLASSES = [''global'', ''routing'', ''phase_contract'', ''stable_reference'', ''working'']"

definition CONTEXT_CLASS_ARTIFACT_KINDS :: "string list list" where
  "CONTEXT_CLASS_ARTIFACT_KINDS =
     [[''ExecutionContract'', ''RuntimeIdentity''],
      [''PlanningPolicy'', ''WorkspaceScope'', ''ActiveWorkingSet'', ''DocumentationSelection'', ''ToolProjection''],
      [''PhaseContract''],
      [''ScopedAgents'', ''ArchitectureDocs'', ''ApplicableAdrs'', ''ProjectInstructions'', ''ProjectKnowledge'',
       ''References''],
      [''TaskPlan'', ''ActiveWorkingSetFiles'', ''CurrentSourceRevisions'', ''PreparedMutations'',
       ''ValidationEvidence'', ''ReviewFindings'']]"

fun class_artifact_kinds :: "ContextClass \<Rightarrow> string list" where
  "class_artifact_kinds ContextClass_Global = CONTEXT_CLASS_ARTIFACT_KINDS ! 0"
| "class_artifact_kinds ContextClass_Routing = CONTEXT_CLASS_ARTIFACT_KINDS ! 1"
| "class_artifact_kinds ContextClass_PhaseContract = CONTEXT_CLASS_ARTIFACT_KINDS ! 2"
| "class_artifact_kinds ContextClass_StableReference = CONTEXT_CLASS_ARTIFACT_KINDS ! 3"
| "class_artifact_kinds ContextClass_Working = CONTEXT_CLASS_ARTIFACT_KINDS ! 4"

subsection \<open>Declarations and contracts\<close>

record PhaseInputRequirement =
  pir_artifact_type :: string
  pir_optional :: bool
  pir_reason :: string

record PhaseAuthorityProfileInput =
  pai_read_only :: bool
  pai_mutation :: string
  pai_approval_grant :: bool
  pai_acceptance_authority :: bool
  pai_capability_narrowing :: "string list"

record PhaseOperation =
  pop_id :: string
  pop_description :: string

record PhaseOutputRequirement =
  por_artifact_type :: string
  por_verification_kind :: string

record PhaseVerificationRequirement =
  pvr_id :: string
  pvr_description :: string
  pvr_evidence_class :: string

record CreatePhaseContractInput =
  phi_id :: string
  phi_version :: "64 word"
  phi_phase :: string
  phi_inputs :: "PhaseInputRequirement list"
  phi_authority :: PhaseAuthorityProfileInput
  phi_process :: "PhaseOperation list"
  phi_outputs :: "PhaseOutputRequirement list"
  phi_verification :: "PhaseVerificationRequirement list"
  phi_context_classes :: "string list"

datatype PhaseMutation = PhaseMutation_None | PhaseMutation_PreparedOnly

fun PhaseMutation_as_str :: "PhaseMutation \<Rightarrow> string" where
  "PhaseMutation_as_str PhaseMutation_None = ''none''"
| "PhaseMutation_as_str PhaseMutation_PreparedOnly = ''prepared_only''"

definition PhaseMutation_parse :: "string \<Rightarrow> PhaseMutation option" where
  "PhaseMutation_parse v =
     (if v = ''none'' then Some PhaseMutation_None
      else if v = ''prepared_only'' then Some PhaseMutation_PreparedOnly
      else None)"

record PhaseAuthorityProfile =
  pap_read_only :: bool
  pap_mutation :: PhaseMutation
  pap_approval_grant :: bool
  pap_acceptance_authority :: bool
  pap_capability_narrowing :: "string list"

definition PHASE_CONTRACT_IDS :: "string list" where
  "PHASE_CONTRACT_IDS =
     [''planning'', ''inspection'', ''preparation'', ''approval'', ''mutation'', ''verification'', ''validation'',
      ''impact'', ''review'', ''repair'', ''acceptance'']"

record PhaseContract =
  pct_id :: string
  pct_version :: "64 word"
  pct_phase :: string
  pct_inputs :: "PhaseInputRequirement list"
  pct_authority :: PhaseAuthorityProfile
  pct_process :: "PhaseOperation list"
  pct_outputs :: "PhaseOutputRequirement list"
  pct_verification :: "PhaseVerificationRequirement list"
  pct_context_classes :: "ContextClass list"
  pct_digest :: ArtifactDigest

subsection \<open>Validation\<close>

definition validate_authority_profile ::
    "string \<Rightarrow> PhaseAuthorityProfileInput \<Rightarrow> ContextError + PhaseAuthorityProfile" where
  "validate_authority_profile contract_id auth =
     (case PhaseMutation_parse (pai_mutation auth) of
        None \<Rightarrow> Err (ContextError (''PhaseContract '' @ contract_id @ '': mutation must be none or prepared_only.''))
      | Some m \<Rightarrow>
          if pai_read_only auth \<and> m \<noteq> PhaseMutation_None then
            Err (ContextError (''PhaseContract '' @ contract_id
              @ '': a read-only contract cannot declare mutation authority.''))
          else
            Ok \<lparr> pap_read_only = pai_read_only auth, pap_mutation = m, pap_approval_grant = pai_approval_grant auth,
                 pap_acceptance_authority = pai_acceptance_authority auth,
                 pap_capability_narrowing = pai_capability_narrowing auth \<rparr>)"

definition phase_strings :: "string list \<Rightarrow> CanonicalValue" where
  "phase_strings xs = CanonicalValue_Array (map CanonicalValue_Str xs)"

definition phase_input_value :: "PhaseInputRequirement \<Rightarrow> CanonicalValue" where
  "phase_input_value e = object
     [(''artifactType'', CanonicalValue_Str (pir_artifact_type e)),
      (''optional'', CanonicalValue_Bool (pir_optional e)),
      (''reason'', CanonicalValue_Str (pir_reason e))]"

definition phase_authority_value :: "PhaseAuthorityProfileInput \<Rightarrow> CanonicalValue" where
  "phase_authority_value a = object
     [(''readOnly'', CanonicalValue_Bool (pai_read_only a)),
      (''mutation'', CanonicalValue_Str (pai_mutation a)),
      (''approvalGrant'', CanonicalValue_Bool (pai_approval_grant a)),
      (''acceptanceAuthority'', CanonicalValue_Bool (pai_acceptance_authority a)),
      (''capabilityNarrowing'', phase_strings (pai_capability_narrowing a))]"

definition phase_operation_value :: "PhaseOperation \<Rightarrow> CanonicalValue" where
  "phase_operation_value e = object
     [(''id'', CanonicalValue_Str (pop_id e)), (''description'', CanonicalValue_Str (pop_description e))]"

definition phase_output_value :: "PhaseOutputRequirement \<Rightarrow> CanonicalValue" where
  "phase_output_value e = object
     [(''artifactType'', CanonicalValue_Str (por_artifact_type e)),
      (''verificationKind'', CanonicalValue_Str (por_verification_kind e))]"

definition phase_verification_value :: "PhaseVerificationRequirement \<Rightarrow> CanonicalValue" where
  "phase_verification_value e = object
     [(''id'', CanonicalValue_Str (pvr_id e)),
      (''description'', CanonicalValue_Str (pvr_description e)),
      (''evidenceClass'', CanonicalValue_Str (pvr_evidence_class e))]"

definition phase_contract_payload :: "CreatePhaseContractInput \<Rightarrow> CanonicalValue" where
  "phase_contract_payload i = object
     [(''id'', CanonicalValue_Str (phi_id i)),
      (''version'', CanonicalValue_U64 (phi_version i)),
      (''phase'', CanonicalValue_Str (phi_phase i)),
      (''inputs'', CanonicalValue_Array (map phase_input_value (phi_inputs i))),
      (''authority'', phase_authority_value (phi_authority i)),
      (''process'', CanonicalValue_Array (map phase_operation_value (phi_process i))),
      (''outputs'', CanonicalValue_Array (map phase_output_value (phi_outputs i))),
      (''verification'', CanonicalValue_Array (map phase_verification_value (phi_verification i))),
      (''contextClasses'', phase_strings (phi_context_classes i))]"

fun phase_class_loop :: "string \<Rightarrow> string list \<Rightarrow> ContextError + ContextClass list" where
  "phase_class_loop i [] = Ok []"
| "phase_class_loop i (c # cs) =
     (case ContextClass_parse c of
        None \<Rightarrow> Err (ContextError (''PhaseContract '' @ i @ '' declares unknown context class '' @ c @ ''.''))
      | Some k \<Rightarrow> result_bind (phase_class_loop i cs) (\<lambda>ks. Ok (k # ks)))"

definition create_phase_contract :: "CreatePhaseContractInput \<Rightarrow> ContextError + PhaseContract" where
  "create_phase_contract i =
     (if phi_id i = [] then Err (ContextError ''A PhaseContract requires an id.'')
      else if phi_version i < 1 then
        Err (ContextError ''A PhaseContract version must be a positive safe integer.'')
      else if phi_inputs i = [] then
        Err (ContextError (''PhaseContract '' @ phi_id i @ '' requires at least one input.''))
      else if phi_outputs i = [] then
        Err (ContextError (''PhaseContract '' @ phi_id i @ '' requires at least one output.''))
      else if phi_verification i = [] then
        Err (ContextError (''PhaseContract '' @ phi_id i @ '' requires at least one verification requirement.''))
      else if phi_context_classes i = [] then
        Err (ContextError (''PhaseContract '' @ phi_id i @ '' requires at least one context class.''))
      else
        result_bind (phase_class_loop (phi_id i) (phi_context_classes i)) (\<lambda>parsed_classes.
        result_bind (validate_authority_profile (phi_id i) (phi_authority i)) (\<lambda>auth.
          case compute_artifact_digest ''PhaseContract'' 1 (phase_contract_payload i) of
            Inl e \<Rightarrow> Err (ContextError (message e))
          | Inr d \<Rightarrow>
              Ok \<lparr> pct_id = phi_id i, pct_version = phi_version i, pct_phase = phi_phase i,
                   pct_inputs = phi_inputs i, pct_authority = auth, pct_process = phi_process i,
                   pct_outputs = phi_outputs i, pct_verification = phi_verification i,
                   pct_context_classes = parsed_classes, pct_digest = d \<rparr>)))"

subsection \<open>The registry\<close>

definition read_only_authority :: PhaseAuthorityProfileInput where
  "read_only_authority =
     \<lparr> pai_read_only = True, pai_mutation = ''none'', pai_approval_grant = False,
       pai_acceptance_authority = False, pai_capability_narrowing = [] \<rparr>"

definition phase_input :: "string \<Rightarrow> bool \<Rightarrow> string \<Rightarrow> PhaseInputRequirement" where
  "phase_input t opt r = \<lparr> pir_artifact_type = t, pir_optional = opt, pir_reason = r \<rparr>"

definition phase_operation :: "string \<Rightarrow> string \<Rightarrow> PhaseOperation" where
  "phase_operation i d = \<lparr> pop_id = i, pop_description = d \<rparr>"

definition phase_output :: "string \<Rightarrow> string \<Rightarrow> PhaseOutputRequirement" where
  "phase_output t k = \<lparr> por_artifact_type = t, por_verification_kind = k \<rparr>"

definition phase_verification :: "string \<Rightarrow> string \<Rightarrow> string \<Rightarrow> PhaseVerificationRequirement" where
  "phase_verification i d e = \<lparr> pvr_id = i, pvr_description = d, pvr_evidence_class = e \<rparr>"

definition phase_classes :: "string list \<Rightarrow> string list" where
  "phase_classes values = values"

definition phase_authority :: "bool \<Rightarrow> string \<Rightarrow> bool \<Rightarrow> bool \<Rightarrow> PhaseAuthorityProfileInput" where
  "phase_authority ro m approval acceptance =
     \<lparr> pai_read_only = ro, pai_mutation = m, pai_approval_grant = approval,
       pai_acceptance_authority = acceptance, pai_capability_narrowing = [] \<rparr>"

definition phase_declaration ::
    "string \<Rightarrow> string \<Rightarrow> PhaseInputRequirement list \<Rightarrow> PhaseAuthorityProfileInput \<Rightarrow> PhaseOperation list
     \<Rightarrow> PhaseOutputRequirement list \<Rightarrow> PhaseVerificationRequirement list \<Rightarrow> string list \<Rightarrow> CreatePhaseContractInput" where
  "phase_declaration i p ins auth ops outs ver cls =
     \<lparr> phi_id = i, phi_version = 1, phi_phase = p, phi_inputs = ins, phi_authority = auth, phi_process = ops,
       phi_outputs = outs, phi_verification = ver, phi_context_classes = cls \<rparr>"

definition planning_declaration :: CreatePhaseContractInput where
  "planning_declaration = phase_declaration ''planning'' ''working''
     [phase_input ''TaskContract'' False ''the plan binds the exact contract'',
      phase_input ''WorkspaceScope'' True ''structural source evidence'',
      phase_input ''DocumentationSelection'' True ''applicable architecture/ADRs'',
      phase_input ''References'' True ''external reference material'']
     read_only_authority
     [phase_operation ''route'' ''deterministic planning-depth routing'']
     [phase_output ''TaskPlan'' ''deterministic'']
     [phase_verification ''plan-validated'' ''plan candidate validated against contract and depth'' ''plan_validation'']
     (phase_classes [''global'', ''routing'', ''stable_reference'', ''phase_contract''])"

definition inspection_declaration :: CreatePhaseContractInput where
  "inspection_declaration = phase_declaration ''inspection'' ''working''
     [phase_input ''WorkspaceScope'' False ''verified/candidate files'',
      phase_input ''CurrentSourceRevisions'' False ''exact revisions of inspected files'']
     read_only_authority
     [phase_operation ''inspect'' ''bounded structural/semantic inspection'']
     [phase_output ''InspectionEvidence'' ''host_verified'']
     [phase_verification ''evidence-attached'' ''observations attached as typed evidence'' ''workspace_read'']
     (phase_classes [''routing'', ''working''])"

definition preparation_declaration :: CreatePhaseContractInput where
  "preparation_declaration = phase_declaration ''preparation'' ''working''
     [phase_input ''TaskPlan'' False ''prepared changes follow the plan'',
      phase_input ''CurrentSourceRevisions'' False ''exact pre-state'']
     read_only_authority
     [phase_operation ''prepare'' ''read-only preparation of exact changes'']
     [phase_output ''PreparedChangeset'' ''deterministic'']
     [phase_verification ''prepared-fingerprint'' ''prepared identity digest bound'' ''change_preview'']
     (phase_classes [''working'', ''phase_contract''])"

definition approval_declaration :: CreatePhaseContractInput where
  "approval_declaration = phase_declaration ''approval'' ''working''
     [phase_input ''PreparedChangeset'' False ''exact content being approved'',
      phase_input ''TaskContract'' False ''criteria and constraints'']
     (phase_authority True ''none'' True False)
     [phase_operation ''request-approval'' ''host approval request binding exact digest'']
     [phase_output ''ApprovalRecord'' ''host_verified'']
     [phase_verification ''digest-bound'' ''approval binds the exact prepared digest'' ''change_preview'']
     (phase_classes [''phase_contract'', ''working''])"

definition mutation_declaration :: CreatePhaseContractInput where
  "mutation_declaration = phase_declaration ''mutation'' ''working''
     [phase_input ''PreparedChangeset'' False ''only prepared operations apply'',
      phase_input ''ApprovalRecord'' False ''exact approval required'']
     (phase_authority False ''prepared_only'' False False)
     [phase_operation ''checkpoint'' ''checkpoint before mutation'',
      phase_operation ''apply'' ''hash-verified exact application'']
     [phase_output ''MutationResult'' ''deterministic'']
     [phase_verification ''applied-verified'' ''per-surface verification after apply'' ''mutation_receipt'']
     (phase_classes [''working''])"

definition verification_declaration :: CreatePhaseContractInput where
  "verification_declaration = phase_declaration ''verification'' ''validating''
     [phase_input ''MutationResult'' False ''what was applied'',
      phase_input ''CurrentSourceRevisions'' False ''post-apply revisions'']
     read_only_authority
     [phase_operation ''verify'' ''per-surface verification (parser/LSP/semantic)'']
     [phase_output ''VerificationEvidence'' ''deterministic'']
     [phase_verification ''verified'' ''required verification passed'' ''parser_result'']
     (phase_classes [''working''])"

definition validation_declaration :: CreatePhaseContractInput where
  "validation_declaration = phase_declaration ''validation'' ''validating''
     [phase_input ''VerificationEvidence'' False ''changed surfaces'',
      phase_input ''ImpactRelationships'' True ''verified impact'',
      phase_input ''AcceptanceCriteria'' False ''host-required minimum'']
     read_only_authority
     [phase_operation ''derive-plan'' ''deterministic validation plan derivation'']
     [phase_output ''ValidationPlan'' ''deterministic'']
     [phase_verification ''required-completed'' ''required validation completed or honestly unavailable'' ''validation_result'']
     (phase_classes [''working'', ''phase_contract''])"

definition impact_declaration :: CreatePhaseContractInput where
  "impact_declaration = phase_declaration ''impact'' ''working''
     [phase_input ''ChangedSurfaces'' False ''what changed'',
      phase_input ''RelationshipIndex'' True ''verified relationships'']
     read_only_authority
     [phase_operation ''derive-impact'' ''bounded impact analysis'']
     [phase_output ''ReviewContextManifest'' ''host_verified'']
     [phase_verification ''impact-derived'' ''impact manifest derived from evidence'' ''validation_result'']
     (phase_classes [''working''])"

definition review_declaration :: CreatePhaseContractInput where
  "review_declaration = phase_declaration ''review'' ''reviewing''
     [phase_input ''TaskContract'' False ''criteria'',
      phase_input ''Changeset'' False ''exact change under review'',
      phase_input ''ReviewContextManifest'' True ''impact context'',
      phase_input ''ValidationEvidence'' False ''relevant evidence'',
      phase_input ''CurrentSourceRevisions'' False ''relevant source'']
     read_only_authority
     [phase_operation ''review'' ''fresh read-only review'']
     [phase_output ''ReviewVerdict'' ''review'']
     [phase_verification ''verdict-bound'' ''verdict bound to review input digest'' ''review_result'']
     (phase_classes [''working'', ''stable_reference'', ''phase_contract''])"

definition repair_declaration :: CreatePhaseContractInput where
  "repair_declaration = phase_declaration ''repair'' ''working''
     [phase_input ''ReviewFindings'' False ''blocking findings'',
      phase_input ''CurrentSourceRevisions'' False ''current revisions'',
      phase_input ''AcceptanceCriteria'' False ''affected criteria'']
     (phase_authority False ''prepared_only'' False False)
     [phase_operation ''re-prepare'' ''fresh preparation from current revisions'']
     [phase_output ''PreparedChangeset'' ''deterministic'']
     [phase_verification ''fresh-artifacts'' ''repair uses fresh revisions/approvals only'' ''change_preview'']
     (phase_classes [''working''])"

definition acceptance_declaration :: CreatePhaseContractInput where
  "acceptance_declaration = phase_declaration ''acceptance'' ''reviewing''
     [phase_input ''AcceptanceCriteria'' False ''requirements'',
      phase_input ''ValidationEvidence'' False ''current evidence identities'',
      phase_input ''ReviewVerdict'' False ''required review verdict'',
      phase_input ''MutationVerificationEvidence'' False ''mutation verification'']
     (phase_authority True ''none'' False True)
     [phase_operation ''evaluate'' ''deterministic acceptance evaluation'']
     [phase_output ''AcceptanceResult'' ''deterministic'']
     [phase_verification ''evidence-bound'' ''acceptance bound to exact evidence set'' ''validation_result'']
     (phase_classes [''working'', ''phase_contract''])"

definition phase_declarations :: "CreatePhaseContractInput list" where
  "phase_declarations =
     [planning_declaration, inspection_declaration, preparation_declaration, approval_declaration,
      mutation_declaration, verification_declaration, validation_declaration, impact_declaration,
      review_declaration, repair_declaration, acceptance_declaration]"

text \<open>The loop panics (\<open>None\<close>) on an invalid declaration and on an id out of its position.\<close>

fun registry_loop ::
    "(string, PhaseContract) btree_map \<Rightarrow> (CreatePhaseContractInput \<times> string) list
     \<Rightarrow> (string, PhaseContract) btree_map option" where
  "registry_loop registry [] = Some registry"
| "registry_loop registry ((d, i) # ds) =
     (case create_phase_contract d of
        Inl e \<Rightarrow> None
      | Inr c \<Rightarrow> if pct_id c = i then registry_loop (bm_insert i c registry) ds else None)"

definition phase_contracts :: "(string, PhaseContract) btree_map option" where
  "phase_contracts = registry_loop [] (zip phase_declarations PHASE_CONTRACT_IDS)"

definition context_classes_for_phase :: "string \<Rightarrow> ContextClass list option" where
  "context_classes_for_phase phase_id =
     map_option (\<lambda>registry. case bm_get registry phase_id of Some c \<Rightarrow> pct_context_classes c | None \<Rightarrow> [])
       phase_contracts"

subsection \<open>Properties\<close>

lemma phase_vocabularies:
  "ContextClass_parse v = Some c \<longleftrightarrow> v = ContextClass_as_str c"
  "PhaseMutation_parse v = Some m \<longleftrightarrow> v = PhaseMutation_as_str m"
  by (cases c; auto simp: ContextClass_parse_def split: if_splits)
    (cases m; auto simp: PhaseMutation_parse_def split: if_splits)

lemma class_loop_ok: "phase_class_loop i cs = Inr ks \<longleftrightarrow> cs = map ContextClass_as_str ks"
proof (induction cs arbitrary: ks)
  case (Cons c cs)
  show ?case
  proof (cases "ContextClass_parse c")
    case None
    then have "c \<noteq> ContextClass_as_str k" for k
      using phase_vocabularies(1)[of c k] by auto
    then show ?thesis
      using None by auto
  next
    case (Some k)
    then have c: "c = ContextClass_as_str k"
      by (simp add: phase_vocabularies)
    have inj: "ContextClass_as_str k = ContextClass_as_str k' \<longleftrightarrow> k = k'" for k'
      by (cases k; cases k') simp_all
    have "phase_class_loop i (c # cs) = Inr ks \<longleftrightarrow> (\<exists>zs. ks = k # zs \<and> phase_class_loop i cs = Inr zs)"
      using Some by (cases "phase_class_loop i cs") auto
    then show ?thesis
      by (auto simp: Cons.IH c inj Cons_eq_map_conv)
  qed
qed auto

text \<open>The raw declaration a contract stands for.\<close>

definition raw_authority :: "PhaseAuthorityProfile \<Rightarrow> PhaseAuthorityProfileInput" where
  "raw_authority a =
     \<lparr> pai_read_only = pap_read_only a, pai_mutation = PhaseMutation_as_str (pap_mutation a),
       pai_approval_grant = pap_approval_grant a, pai_acceptance_authority = pap_acceptance_authority a,
       pai_capability_narrowing = pap_capability_narrowing a \<rparr>"

definition raw_contract :: "PhaseContract \<Rightarrow> CreatePhaseContractInput" where
  "raw_contract c =
     \<lparr> phi_id = pct_id c, phi_version = pct_version c, phi_phase = pct_phase c, phi_inputs = pct_inputs c,
       phi_authority = raw_authority (pct_authority c), phi_process = pct_process c, phi_outputs = pct_outputs c,
       phi_verification = pct_verification c,
       phi_context_classes = map ContextClass_as_str (pct_context_classes c) \<rparr>"

definition declares_all :: "CreatePhaseContractInput \<Rightarrow> bool" where
  "declares_all i \<longleftrightarrow> phi_id i \<noteq> [] \<and> phi_version i \<noteq> 0 \<and> phi_inputs i \<noteq> [] \<and> phi_outputs i \<noteq> []
     \<and> phi_verification i \<noteq> [] \<and> phi_context_classes i \<noteq> []"

definition narrows :: "PhaseAuthorityProfile \<Rightarrow> bool" where
  "narrows a \<longleftrightarrow> \<not> (pap_read_only a \<and> pap_mutation a \<noteq> PhaseMutation_None)"

definition phase_digest :: "CreatePhaseContractInput \<Rightarrow> ArtifactDigest" where
  "phase_digest i =
     \<lparr> algorithm = ARTIFACT_DIGEST_ALGORITHM, artifact_type = ''PhaseContract'', schema_version = 1,
       digest_value = sha256_hex (as_bytes (context_preimage ''PhaseContract'' (phase_contract_payload i))) \<rparr>"

lemma validate_authority_ok:
  "validate_authority_profile i a = Inr p \<longleftrightarrow> a = raw_authority p \<and> narrows p"
proof (cases "PhaseMutation_parse (pai_mutation a)")
  case None
  then have "pai_mutation a \<noteq> PhaseMutation_as_str (pap_mutation p)"
    using phase_vocabularies(2)[of "pai_mutation a" "pap_mutation p"] by auto
  then have "a \<noteq> raw_authority p"
    by (auto simp: raw_authority_def)
  with None show ?thesis
    by (simp add: validate_authority_profile_def)
next
  case (Some m)
  then have m: "pai_mutation a = PhaseMutation_as_str m"
    by (simp add: phase_vocabularies)
  have inj: "PhaseMutation_as_str m = PhaseMutation_as_str m' \<longleftrightarrow> m = m'" for m'
    by (cases m; cases m') simp_all
  show ?thesis
    using Some m inj
    by (cases a; cases p) (auto simp: validate_authority_profile_def raw_authority_def narrows_def)
qed

lemma phase_digest_ok:
  "compute_artifact_digest ''PhaseContract'' 1 (phase_contract_payload i) = Inr (phase_digest i)"
proof -
  have "is_valid_artifact_type ''PhaseContract''"
    by (simp add: is_valid_artifact_type_def is_ascii_alphanumeric_def is_ascii_alphabetic_def ascii_defs)
  then show ?thesis
    by (simp add: compute_digest_ok phase_digest_def context_preimage_def)
qed

text \<open>
  A contract is created exactly for the declarations it prints back to: all of its parts are
  there, the class names and the mutation are words of the vocabularies, a read-only contract
  has no mutation authority, and the digest is that of the declaration.
\<close>

theorem phase_contract_roundtrip:
  "create_phase_contract i = Inr c \<longleftrightarrow>
     i = raw_contract c \<and> declares_all i \<and> narrows (pct_authority c) \<and> pct_digest c = phase_digest i"
proof (cases "declares_all i")
  case True
  then have create: "create_phase_contract i =
      result_bind (phase_class_loop (phi_id i) (phi_context_classes i)) (\<lambda>ks.
      result_bind (validate_authority_profile (phi_id i) (phi_authority i)) (\<lambda>a.
        Ok \<lparr> pct_id = phi_id i, pct_version = phi_version i, pct_phase = phi_phase i, pct_inputs = phi_inputs i,
             pct_authority = a, pct_process = phi_process i, pct_outputs = phi_outputs i,
             pct_verification = phi_verification i, pct_context_classes = ks, pct_digest = phase_digest i \<rparr>))"
    by (simp add: create_phase_contract_def declares_all_def phase_digest_ok)
  have "create_phase_contract i = Inr c \<longleftrightarrow>
      (\<exists>ks a. phase_class_loop (phi_id i) (phi_context_classes i) = Inr ks
        \<and> validate_authority_profile (phi_id i) (phi_authority i) = Inr a
        \<and> c = \<lparr> pct_id = phi_id i, pct_version = phi_version i, pct_phase = phi_phase i, pct_inputs = phi_inputs i,
             pct_authority = a, pct_process = phi_process i, pct_outputs = phi_outputs i,
             pct_verification = phi_verification i, pct_context_classes = ks, pct_digest = phase_digest i \<rparr>)"
    unfolding create
    by (cases "phase_class_loop (phi_id i) (phi_context_classes i)";
        cases "validate_authority_profile (phi_id i) (phi_authority i)") auto
  also have "\<dots> \<longleftrightarrow> i = raw_contract c \<and> narrows (pct_authority c) \<and> pct_digest c = phase_digest i"
    unfolding class_loop_ok validate_authority_ok
    by (cases i; cases c) (auto simp: raw_contract_def)
  finally show ?thesis
    using True by simp
next
  case False
  then show ?thesis
    by (auto simp: create_phase_contract_def declares_all_def)
qed


text \<open>Every declaration of the registry is valid, and its contract can be read off.\<close>

definition contract_of :: "CreatePhaseContractInput \<Rightarrow> PhaseAuthorityProfile \<Rightarrow> ContextClass list \<Rightarrow> PhaseContract" where
  "contract_of i a ks =
     \<lparr> pct_id = phi_id i, pct_version = phi_version i, pct_phase = phi_phase i, pct_inputs = phi_inputs i,
       pct_authority = a, pct_process = phi_process i, pct_outputs = phi_outputs i,
       pct_verification = phi_verification i, pct_context_classes = ks, pct_digest = phase_digest i \<rparr>"

lemma contract_created:
  assumes "declares_all i" and "phi_authority i = raw_authority a" and "narrows a"
    and "phi_context_classes i = map ContextClass_as_str ks"
  shows "create_phase_contract i = Inr (contract_of i a ks)"
  using assms by (simp add: phase_contract_roundtrip contract_of_def raw_contract_def)

definition profile :: "bool \<Rightarrow> PhaseMutation \<Rightarrow> bool \<Rightarrow> bool \<Rightarrow> PhaseAuthorityProfile" where
  "profile ro m approval acceptance =
     \<lparr> pap_read_only = ro, pap_mutation = m, pap_approval_grant = approval,
       pap_acceptance_authority = acceptance, pap_capability_narrowing = [] \<rparr>"

lemmas declaration_defs =
  phase_declaration_def phase_classes_def phase_authority_def read_only_authority_def profile_def declares_all_def
  raw_authority_def narrows_def

lemma registry_created:
  "create_phase_contract planning_declaration = Inr (contract_of planning_declaration (profile True PhaseMutation_None False False)
     [ContextClass_Global, ContextClass_Routing, ContextClass_StableReference, ContextClass_PhaseContract])"
  "create_phase_contract inspection_declaration = Inr (contract_of inspection_declaration
     (profile True PhaseMutation_None False False) [ContextClass_Routing, ContextClass_Working])"
  "create_phase_contract preparation_declaration = Inr (contract_of preparation_declaration
     (profile True PhaseMutation_None False False) [ContextClass_Working, ContextClass_PhaseContract])"
  "create_phase_contract approval_declaration = Inr (contract_of approval_declaration
     (profile True PhaseMutation_None True False) [ContextClass_PhaseContract, ContextClass_Working])"
  "create_phase_contract mutation_declaration = Inr (contract_of mutation_declaration
     (profile False PhaseMutation_PreparedOnly False False) [ContextClass_Working])"
  "create_phase_contract verification_declaration = Inr (contract_of verification_declaration
     (profile True PhaseMutation_None False False) [ContextClass_Working])"
  "create_phase_contract validation_declaration = Inr (contract_of validation_declaration
     (profile True PhaseMutation_None False False) [ContextClass_Working, ContextClass_PhaseContract])"
  "create_phase_contract impact_declaration = Inr (contract_of impact_declaration
     (profile True PhaseMutation_None False False) [ContextClass_Working])"
  "create_phase_contract review_declaration = Inr (contract_of review_declaration
     (profile True PhaseMutation_None False False) [ContextClass_Working, ContextClass_StableReference, ContextClass_PhaseContract])"
  "create_phase_contract repair_declaration = Inr (contract_of repair_declaration
     (profile False PhaseMutation_PreparedOnly False False) [ContextClass_Working])"
  "create_phase_contract acceptance_declaration = Inr (contract_of acceptance_declaration
     (profile True PhaseMutation_None False True) [ContextClass_Working, ContextClass_PhaseContract])"
  by (rule contract_created;
      simp add: declaration_defs planning_declaration_def inspection_declaration_def preparation_declaration_def
        approval_declaration_def mutation_declaration_def verification_declaration_def validation_declaration_def
        impact_declaration_def review_declaration_def repair_declaration_def acceptance_declaration_def)+

lemma declaration_ids [simp]:
  "phi_id planning_declaration = ''planning''" "phi_id inspection_declaration = ''inspection''"
  "phi_id preparation_declaration = ''preparation''" "phi_id approval_declaration = ''approval''"
  "phi_id mutation_declaration = ''mutation''" "phi_id verification_declaration = ''verification''"
  "phi_id validation_declaration = ''validation''" "phi_id impact_declaration = ''impact''"
  "phi_id review_declaration = ''review''" "phi_id repair_declaration = ''repair''"
  "phi_id acceptance_declaration = ''acceptance''"
  by (simp_all add: phase_declaration_def planning_declaration_def inspection_declaration_def preparation_declaration_def
        approval_declaration_def mutation_declaration_def verification_declaration_def validation_declaration_def
        impact_declaration_def review_declaration_def repair_declaration_def acceptance_declaration_def)

lemma contract_of_simps [simp]:
  "pct_id (contract_of i a ks) = phi_id i" "pct_authority (contract_of i a ks) = a"
  "pct_context_classes (contract_of i a ks) = ks"
  by (simp_all add: contract_of_def)

definition host_registry :: "(string, PhaseContract) btree_map" where
  "host_registry =
     [(''acceptance'', contract_of acceptance_declaration (profile True PhaseMutation_None False True)
         [ContextClass_Working, ContextClass_PhaseContract]),
      (''approval'', contract_of approval_declaration (profile True PhaseMutation_None True False)
         [ContextClass_PhaseContract, ContextClass_Working]),
      (''impact'', contract_of impact_declaration (profile True PhaseMutation_None False False) [ContextClass_Working]),
      (''inspection'', contract_of inspection_declaration (profile True PhaseMutation_None False False)
         [ContextClass_Routing, ContextClass_Working]),
      (''mutation'', contract_of mutation_declaration (profile False PhaseMutation_PreparedOnly False False)
         [ContextClass_Working]),
      (''planning'', contract_of planning_declaration (profile True PhaseMutation_None False False)
         [ContextClass_Global, ContextClass_Routing, ContextClass_StableReference, ContextClass_PhaseContract]),
      (''preparation'', contract_of preparation_declaration (profile True PhaseMutation_None False False)
         [ContextClass_Working, ContextClass_PhaseContract]),
      (''repair'', contract_of repair_declaration (profile False PhaseMutation_PreparedOnly False False)
         [ContextClass_Working]),
      (''review'', contract_of review_declaration (profile True PhaseMutation_None False False)
         [ContextClass_Working, ContextClass_StableReference, ContextClass_PhaseContract]),
      (''validation'', contract_of validation_declaration (profile True PhaseMutation_None False False)
         [ContextClass_Working, ContextClass_PhaseContract]),
      (''verification'', contract_of verification_declaration (profile True PhaseMutation_None False False)
         [ContextClass_Working])]"

lemma registry_is_host_registry: "phase_contracts = Some host_registry"
  by (simp add: phase_contracts_def phase_declarations_def PHASE_CONTRACT_IDS_def registry_created host_registry_def
      less_char_def)

text \<open>
  The registry is built without a panic; its keys are the declared ids, only the contracts of
  the mutation and repair phases may mutate, all others are read-only, one contract may ask for
  approval and one may evaluate acceptance.
\<close>

theorem registry_authority_exact:
  "\<exists>registry. phase_contracts = Some registry \<and> bm_wf registry \<and> fst ` set registry = set PHASE_CONTRACT_IDS
     \<and> {i. \<exists>c. bm_get registry i = Some c \<and> pap_mutation (pct_authority c) = PhaseMutation_PreparedOnly} = {''mutation'', ''repair''}
     \<and> {i. \<exists>c. bm_get registry i = Some c \<and> \<not> pap_read_only (pct_authority c)} = {''mutation'', ''repair''}
     \<and> {i. \<exists>c. bm_get registry i = Some c \<and> pap_approval_grant (pct_authority c)} = {''approval''}
     \<and> {i. \<exists>c. bm_get registry i = Some c \<and> pap_acceptance_authority (pct_authority c)} = {''acceptance''}"
proof -
  have wf: "bm_wf host_registry"
    by (simp add: host_registry_def bm_wf_def less_char_def)
  have get: "{i. \<exists>c. bm_get host_registry i = Some c \<and> P c} = set (map fst (filter (\<lambda>e. P (snd e)) host_registry))" for P
    using bm_wf_distinct[OF wf] by (force simp: bm_get_def)
  show ?thesis
  proof (intro exI[of _ host_registry] conjI registry_is_host_registry wf)
    show "fst ` set host_registry = set PHASE_CONTRACT_IDS"
      by (simp only: host_registry_def PHASE_CONTRACT_IDS_def list.set image_insert image_empty fst_conv insert_commute)
  qed (simp_all only: get, simp_all add: host_registry_def profile_def)
qed

end
