(* ===== verification/Spec2Isabelle.thy ===== *)
theory Spec2Isabelle
  imports Version Sha256_Vectors Task_Identity Task_Registry Module_Properties Tool_Safety
    Session_Properties Provider_Properties Plan_Flow_Properties Workspace_Revision
    Executor_Scope_Properties Executor_Acceptance Brief_Properties
    Context_Metrics Scheduler_Machine Phase_Contract
begin

text \<open>
  A verification library for the core of Siralos, \<open>src/crates/siralos-core/src\<close>.

  Siralos is a host for language-model agents.  The host owns all authority: a user prompt
  starts a response, the host projects the conversation and the tools a policy admits into a
  provider request, collects one turn from the provider, runs the tool calls of the turn one by
  one behind the permission policy and one-time approvals, and appends the transcript to the
  history.  Beside the conversation it keeps task records, whose contract, plan, evidence and
  acceptance states decide through one gate whether a task may complete, and the lifecycle of
  domain modules, which run only with the capabilities the host grants.  Every artefact is
  identified by a domain-separated digest of its canonical bytes.

  \<^bold>\<open>Theories and sources\<close>

  \<^item> \<open>Prelude\<close>, \<open>BTree\<close>, \<open>Scalars\<close>: results as sums, list and text helpers of the standard
    library, ordered maps as sorted association lists, UTF-8 texts and their searches.
    \<open>Machine\<close> holds runs, reachable states and the locales of machines that keep an invariant,
    have absorbing states or append to a log; the task runtime, the module lifecycle, the
    caches, the collector and the projection service interpret them.  Further interfaces are
    stated where they are used: ordered maps, streaming hashes, one-time ledgers, entry readers.
  \<^item> \<open>Version\<close> (\<open>version.rs\<close>), \<open>Sha256\<close> and \<open>Sha256_Vectors\<close> (\<open>identity/sha256.rs\<close>), \<open>Canonical\<close>
    and \<open>Json_Canonical\<close> (\<open>identity/canonical.rs\<close>), \<open>Artifact\<close> (\<open>identity/artifact.rs\<close>, \<open>identity/staleness.rs\<close>).
  \<^item> \<open>Contract\<close>, \<open>Task_Identity\<close>, \<open>Plan_Model\<close>, \<open>Task_Model\<close>, \<open>Evidence\<close>, \<open>Progress\<close>,
    \<open>Task_Runtime\<close> (\<open>task/*.rs\<close>, \<open>planning/model.rs\<close>): data and every operation of the task
    handle; \<open>Task_Invariants\<close>, \<open>Task_Properties\<close> and \<open>Task_Registry\<close> their properties.
  \<^item> \<open>Plan_Patterns\<close> and \<open>Plan_Validation\<close> (\<open>planning/validation.rs\<close>, the markers of
    \<open>planning/policy.rs\<close>, the JSON view of \<open>planning/model.rs\<close>) with their properties in
    \<open>Plan_Acceptance\<close>; \<open>Plan_Flow\<close> and \<open>Plan_Flow_Properties\<close> (\<open>planning/policy.rs\<close>,
    \<open>planning/flow.rs\<close>).
  \<^item> \<open>Module_Package\<close>, \<open>Module_Lifecycle\<close>, \<open>Module_Properties\<close> (\<open>module/*.rs\<close>).
  \<^item> \<open>Conversation\<close> (\<open>provider/conversation.rs\<close>, \<open>provider/result.rs\<close>), \<open>Provider_Turn\<close> and
    \<open>Provider_Properties\<close> (\<open>provider/event.rs\<close>, \<open>provider/turn.rs\<close>).
  \<^item> \<open>Tool_Policy\<close>, \<open>Tool_Ledger\<close> (\<open>tool/capability.rs\<close>, \<open>permission.rs\<close>, \<open>budget.rs\<close>,
    \<open>approval.rs\<close>), \<open>Tool_Round\<close> (\<open>tool/round.rs\<close>, \<open>events.rs\<close>, \<open>display_input.rs\<close>),
    \<open>Tool_Executor\<close> (\<open>tool/registry.rs\<close> and the host executor of \<open>tool/session.rs\<close>), \<open>Tool_Safety\<close>.
  \<^item> \<open>Evidence_View\<close> (\<open>projection/evidence.rs\<close>), \<open>Context_Budget\<close> (\<open>projection/capacity.rs\<close>,
    \<open>estimator.rs\<close>, \<open>pressure.rs\<close>, \<open>cache.rs\<close>, \<open>trim.rs\<close>), \<open>Projection\<close> and
    \<open>Projection_Properties\<close> (\<open>projection/segments.rs\<close>, \<open>visibility.rs\<close>, \<open>mod.rs\<close>, \<open>js_string.rs\<close>).
  \<^item> \<open>Tool_Session\<close> and \<open>Session_Properties\<close> (\<open>tool/session.rs\<close>): the response machine and the
    application over the projection, the provider turn, the round and the executor.
  \<^item> \<open>Workspace_Model\<close> (\<open>workspace/bounds.rs\<close>, \<open>path.rs\<close>, \<open>effect.rs\<close>, \<open>git.rs\<close>, \<open>checkpoint.rs\<close>) and
    \<open>Workspace_Revision\<close> (\<open>workspace/revision.rs\<close>).
  \<^item> \<open>Executor_Scope\<close> and \<open>Executor_Scope_Properties\<close> (\<open>executor/scope.rs\<close>), \<open>Executor_Contracts\<close>,
    \<open>Executor_Milestone\<close>, \<open>Executor_Acceptance\<close> (\<open>executor/contracts.rs\<close>, \<open>milestone.rs\<close>,
    \<open>acceptance.rs\<close>), which judge the evidence records of \<open>Task_Model\<close>.
  \<^item> \<open>Executor_New_Files\<close>, \<open>Executor_Context\<close>, \<open>Executor_Brief\<close> and \<open>Brief_Properties\<close>
    (\<open>executor/new_files.rs\<close>, \<open>context.rs\<close>, \<open>brief.rs\<close>): path patterns, the context pack and
    the brief an executor receives, rendered through the redaction.
  \<^item> \<open>Context_Graph\<close>, \<open>Context_Representation\<close> (\<open>context_graph.rs\<close>, \<open>context_representation.rs\<close>),
    \<open>Context_Scheduler\<close> and \<open>Scheduler_Properties\<close> (\<open>context_scheduler/types.rs\<close>, \<open>policy.rs\<close>,
    \<open>input.rs\<close>, \<open>state.rs\<close>), \<open>Context_Assembly\<close> (\<open>context_scheduler/assembly.rs\<close>) and
    \<open>Context_Metrics\<close> (\<open>context_metrics.rs\<close>): the working set that decides what a model is shown;
    \<open>Scheduler_Machine\<close> is the machine over all operations of the working set, assembly included.
  \<^item> \<open>Determinism_Decisions\<close> (\<open>determinism/ports.rs\<close>, \<open>decisions.rs\<close>, \<open>discovery.rs\<close>,
    \<open>ownership.rs\<close>) and \<open>Determinism_Manifests\<close> (\<open>determinism/environment.rs\<close>,
    \<open>reproducibility.rs\<close>): normalised host decisions and the manifests with their deltas.
  \<^item> \<open>Context_Artifacts\<close> (\<open>context/mod.rs\<close>, \<open>artifacts.rs\<close>, \<open>controls.rs\<close>, \<open>provenance.rs\<close>,
    \<open>staleness.rs\<close>) and \<open>Phase_Contract\<close> (\<open>context/phase_contract.rs\<close>): dependency manifests,
    targeted staleness, controls, provenance and the contracts of the phases.
  \<^item> \<open>Doctor_Redaction\<close> and \<open>Redaction_Properties\<close> (the secret passes of \<open>doctor.rs\<close>).

  A Rust struct is a record, an enum a datatype whose constructors carry the name of the enum
  as a prefix, a method a function that takes and returns the state; a \<open>Result\<close> is a sum with
  the error on the left.

  \<^bold>\<open>Modelling decisions\<close>

  \<^item> Texts are the lists of their UTF-8 bytes, as \<open>str::len\<close> and the digests see them; scalar
    boundaries are computed where the code cuts texts.
  \<^item> Words of SHA-256 are 32-bit words and its length counter a 64-bit word.  Counters that only
    count up, and sums of lengths, are natural numbers; where the code saturates or bounds a
    number the bound is written out.  The ratios of the pressure limits are rationals.  Two
    computations of the code can leave their width and are unbounded here: the products of
    \<open>ge_ratio\<close> (\<open>i64\<close> in \<open>projection/pressure.rs\<close>, exact for a working maximum below about
    9.2e16 tokens) and the byte sum of \<open>evict_low\<close> (\<open>usize\<close> in \<open>executor/scope.rs\<close>, exact while the
    sizes of the files sum to less than 2 to the 64th).
  \<^item> The clock, the cancellation flag, the JSON serializer and parser, the lowering of Unicode
    texts (\<open>to_lowercase\<close>), the shortest decimal digits of a double (\<open>scientific\<close>), planners,
    providers (a stream state with an opening and a next function), tools and the approval
    resolver (functions over an arbitrary world) are arguments of the definitions, so that the
    theorems hold for all of them.  The task runtime takes the validator of plan candidates as
    an argument; \<open>host_validator\<close> of \<open>Plan_Validation\<close> is the one of the code.
  \<^item> A hash map that is only looked up is a finite map; an ordered map keeps its order.
  \<^item> Loops are recursive functions with a proved termination, so there is no fuel in a statement.
    A response is pulled by \<open>respond\<close>, which ends on the lexicographic measure of the
    application: the budget of rounds bounds the turns, the limits of a turn its events, the
    calls of a turn the events of its round.

  \<^bold>\<open>What the lemmas show\<close>

  \<^item> Tasks: completion only through the gate, withdrawal of trust by a contract revision,
    approvals bound to the current plan and contract, frozen terminal tasks, phases along the
    table, an append-only activity log, bounded and valid evidence, a registry of unique ids.
  \<^item> Plans: what the validator accepts is well formed, validating stored content again is the
    identity, the byte walks are compared with the patterns they document, a run of the flow
    stores a plan exactly when it reports one that was proposed, validated and bound to the task,
    and the gate of full plans needs an approval of the current plan.
  \<^item> Modules: the grant of an active module stays within its declaration, commits use the
    authority of the commit and expire with the generation, the eligibility report predicts
    activation.
  \<^item> Tools and sessions: a tool runs exactly when surface, policy and approval admit it, an
    approval authorises once (the ledger grants what its history determines), rounds pair every call,
    responses end with one terminal event, histories stay valid and within their budgets.
  \<^item> Projection: the tools of a request are those the executor admits, summaries and messages of
    tool results are shown without escape sequences and configured secrets and within their budget, trimming keeps the
    conversation valid and every user message, an unblocked request fits the working maximum.
  \<^item> Identity: the streaming hash equals its specification, canonical bytes identify values,
    artefact preimages are domain separated, revisions carry their digests.

  \<^item> Workspace: accepted paths stay below the root when they are walked character by character, undo acts only on the recorded state, the
    revision registry refines a bounded queue of digests.
  \<^item> Executor: scopes stay well formed, their verified files grow only by evidenced ones and
    eviction meets the budget, contract and manifest
    validation is exact and idempotent, a milestone passes only on current host evidence,
    path patterns mean what they say segment by segment, briefs are redacted
    and within every budget that holds the truncation marker.
  \<^item> Context: the working set loses no entry, ticks and assemblies end within the quota and the
    budget and demote the lowest scores first, a tick that is not coalesced promotes no stale
    entry, reports are exact.  The four demotion loops are runs of one relation, \<open>demotes\<close>.
  \<^item> Decisions and artefacts: validation plans, acceptance by class, retries, leases and
    discovery follow their rules exactly, environment payloads identify their inputs and deltas
    name exactly the changed sections, a changed dependency makes exactly the artefacts bound
    to it stale, context controls compare exact digests, phase contracts round-trip and the
    host registry lets only the mutation and repair phases mutate.
  \<^item> Redaction: every search is the leftmost, longest search of its pattern, and a redacted text
    holds no match of any pattern.

  These theorems and lemmas record defects: \<open>state_progress_is_stale\<close>, \<open>full_history_refuses_every_prompt\<close>,
  \<open>synthetic_id_collision\<close>, \<open>plan_matchers_miss\<close>, \<open>rerouting_opens_full_gate\<close>,
  \<open>flow_cannot_replan_after_revision\<close>, \<open>reissued_oldest_revision_unbound\<close>,
  \<open>protected_config_missed\<close>, \<open>verified_files_may_be_guesses\<close>, \<open>candidates_exceed_hard_bound\<close>,
  \<open>brief_over_budget_keeps_required_only\<close>, \<open>long_request_panics\<close>, \<open>proliferation_message_panics\<close>,
  \<open>decay_counted_as_budget_demotion\<close>, \<open>empty_content_under_any_digest\<close>,
  \<open>stale_hot_entry_survives_coalesced_tick\<close>, \<open>secret_outside_objective_accepted\<close>, \<open>small_budget_exceeded\<close>,
  \<open>byte_order_differs_from_code_units\<close>, \<open>directory_surface_not_matched\<close>,
  \<open>discovery_order_matters_for_duplicates\<close>, \<open>equal_digests_reported_changed\<close>,
  \<open>provenance_digest_depends_on_order\<close>.

  \<^bold>\<open>Not modelled\<close>

  The identity manifests; the replay of providers, the system clock and the floating point
  outputs of the seeded generator; the records of supervised runs and of the language server; profiles, and the side features that
  read the core (knowledge, research, evolution, evaluation, doctor, user interface).  The adapters, the
  command line and the harness do input and output behind the arguments named above.
\<close>

end
